(* ===== verification/Prelude.thy ===== *)
theory Prelude
  imports Main "HOL-Library.Word"
begin

text \<open>
  Shared vocabulary of the development: the machine types of the C code, the relation
  \<open>bnd\<close> that ties a machine word to the natural number it holds and to an upper
  bound on it, and the rules by which the bound of a C expression is computed from the
  bounds of its operands. A function body written as a chain of \<open>let\<close>s is executed
  symbolically by \<open>let_bnd\<close>: every assignment leaves behind an equation between
  natural numbers and a bound, so that an overflow-free word computation becomes a
  system of equations over \<open>nat\<close>.
\<close>

unbundle bit_operations_syntax

type_synonym u8 = "8 word"
type_synonym u32 = "32 word"
type_synonym u64 = "64 word"
type_synonym u128 = "128 word"

named_theorems bnd_rules "rules that compute the value and the bound of a word expression"

section \<open>Words with a value and a bound\<close>

definition bnd :: "'a::len word \<Rightarrow> nat \<Rightarrow> nat \<Rightarrow> bool" where
  "bnd w x B \<longleftrightarrow> unat w = x \<and> x \<le> B"

lemma bndI: "unat w = x \<Longrightarrow> x \<le> B \<Longrightarrow> bnd w x B"
  by (simp add: bnd_def)

lemma bnd_unat: "bnd w x B \<Longrightarrow> unat w = x"
  by (simp add: bnd_def)

lemma bnd_le: "bnd w x B \<Longrightarrow> x \<le> B"
  by (simp add: bnd_def)

lemma bnd_weaken: "bnd w x A \<Longrightarrow> A \<le> B \<Longrightarrow> bnd w x B"
  by (simp add: bnd_def)

lemma bnd_self: "unat w \<le> B \<Longrightarrow> bnd w (unat w) B"
  by (simp add: bnd_def)

lemma bnd_eq: "bnd w x B \<Longrightarrow> x = y \<Longrightarrow> bnd w y B"
  by simp

lemma bnd_numeral [bnd_rules]:
  "numeral k < (2::nat) ^ LENGTH('a) \<Longrightarrow>
     bnd (numeral k :: 'a::len word) (numeral k) (numeral k)"
  by (simp add: bnd_def take_bit_nat_eq_self unat_numeral)

lemma bnd_zero [bnd_rules]: "bnd 0 0 0"
  by (simp add: bnd_def)

lemma bnd_one [bnd_rules]: "bnd 1 1 1"
  by (simp add: bnd_def)

lemma bnd_add [bnd_rules]:
  fixes a b :: "'a::len word"
  shows "bnd a x A \<Longrightarrow> bnd b y B \<Longrightarrow> A + B < 2 ^ LENGTH('a) \<Longrightarrow> bnd (a + b) (x + y) (A + B)"
  by (auto simp: bnd_def unat_word_ariths)

lemma bnd_mult [bnd_rules]:
  fixes a b :: "'a::len word"
  assumes a: "bnd a x A" and b: "bnd b y B" and lt: "A * B < 2 ^ LENGTH('a)"
  shows "bnd (a * b) (x * y) (A * B)"
proof -
  have le: "x * y \<le> A * B"
    using a b by (auto simp: bnd_def intro: mult_le_mono)
  from le lt have "x * y < 2 ^ LENGTH('a)"
    by (rule le_less_trans)
  then show ?thesis
    using a b le by (auto simp: bnd_def unat_word_ariths)
qed

lemma bnd_ucast [bnd_rules]:
  fixes a :: "'a::len word"
  shows "bnd a x A \<Longrightarrow> A < 2 ^ LENGTH('b) \<Longrightarrow> bnd (ucast a :: 'b::len word) x A"
  by (auto simp: bnd_def unsigned_ucast_eq take_bit_nat_eq_self)

lemma bnd_take_bit:
  fixes a :: "'a::len word"
  assumes a: "bnd a x A"
  shows "bnd (take_bit n a) (x mod 2 ^ n) (2 ^ n - 1)"
proof -
  have "unat (take_bit n a) = x mod 2 ^ n"
    using a by (simp add: bnd_def unsigned_take_bit_eq flip: take_bit_eq_mod)
  moreover have "x mod 2 ^ n \<le> 2 ^ n - 1"
    by (simp add: Suc_leI flip: less_Suc_eq_le)
  ultimately show ?thesis
    by (rule bndI)
qed

lemma bnd_and_mask52 [bnd_rules]:
  fixes a :: "'a::len word"
  assumes "bnd a x A"
  shows "bnd (a AND 0xFFFFFFFFFFFFF) (x mod 0x10000000000000) 0xFFFFFFFFFFFFF"
proof -
  have "(0xFFFFFFFFFFFFF :: 'a word) = mask 52"
    by (simp add: mask_eq_exp_minus_1)
  then show ?thesis
    using bnd_take_bit [OF assms, of 52] by (simp add: take_bit_eq_mask)
qed

lemma bnd_and_mask48 [bnd_rules]:
  fixes a :: "'a::len word"
  assumes "bnd a x A"
  shows "bnd (a AND 0xFFFFFFFFFFFF) (x mod 0x1000000000000) 0xFFFFFFFFFFFF"
proof -
  have "(0xFFFFFFFFFFFF :: 'a word) = mask 48"
    by (simp add: mask_eq_exp_minus_1)
  then show ?thesis
    using bnd_take_bit [OF assms, of 48] by (simp add: take_bit_eq_mask)
qed

lemma bnd_and_mask64 [bnd_rules]:
  fixes a :: "'a::len word"
  assumes "bnd a x A"
  shows "bnd (a AND 0xFFFFFFFFFFFFFFFF) (x mod 0x10000000000000000) 0xFFFFFFFFFFFFFFFF"
proof -
  have "(0xFFFFFFFFFFFFFFFF :: 'a word) = mask 64"
    by (simp add: mask_eq_exp_minus_1)
  then show ?thesis
    using bnd_take_bit [OF assms, of 64] by (simp add: take_bit_eq_mask)
qed

lemma bnd_drop_bit:
  fixes a :: "'a::len word"
  assumes a: "bnd a x A"
  shows "bnd (drop_bit n a) (x div 2 ^ n) (A div 2 ^ n)"
proof -
  have "unat (drop_bit n a) = x div 2 ^ n"
    using a by (simp add: bnd_def unat_drop_bit_eq flip: drop_bit_eq_div)
  moreover have "x div 2 ^ n \<le> A div 2 ^ n"
    using a by (simp add: bnd_def div_le_mono)
  ultimately show ?thesis
    by (rule bndI)
qed

lemma bnd_push_bit:
  fixes a :: "'a::len word"
  assumes a: "bnd a x A" and lt: "A * 2 ^ n < 2 ^ LENGTH('a)"
  shows "bnd (push_bit n a) (x * 2 ^ n) (A * 2 ^ n)"
proof -
  have le: "x * 2 ^ n \<le> A * 2 ^ n"
    using a by (simp add: bnd_def)
  have "unat (push_bit n a) = take_bit LENGTH('a) (push_bit n x)"
    using a by (simp add: bnd_def unsigned_push_bit_eq)
  also have "\<dots> = x * 2 ^ n"
    using le_less_trans [OF le lt] by (simp add: push_bit_eq_mult take_bit_nat_eq_self)
  finally show ?thesis
    using le by (rule bndI)
qed

lemma bnd_or_disjoint:
  fixes a b :: "'a::len word"
  assumes a: "bnd a x A" and b: "bnd b y B" and x: "2 ^ n dvd x" and y: "B < 2 ^ n"
  shows "bnd (a OR b) (x + y) (A + B)"
proof -
  have y': "y < 2 ^ n"
    using b y by (simp add: bnd_def)
  obtain q where q: "x = push_bit n q"
    using x by (auto simp: push_bit_eq_mult mult.commute elim: dvdE)
  have "y = take_bit n y"
    using y' by (simp add: take_bit_nat_eq_self)
  then have "x AND y = 0"
    unfolding q by (intro bit_eqI) (metis bit_0_eq bit_and_iff bit_push_bit_iff bit_take_bit_iff
        bot_apply bot_bool_def not_le)
  then have "x OR y = x + y"
    by (simp add: disjunctive_add_eq_or)
  then show ?thesis
    using a b by (auto simp: bnd_def unsigned_or_eq)
qed

lemma bnd_push_or [bnd_rules]:
  fixes a b :: "'a::len word"
  assumes a: "bnd a x A" and b: "bnd b y B"
    and lt: "A * 2 ^ n < 2 ^ LENGTH('a)" and y: "B < 2 ^ n"
  shows "bnd (push_bit n a OR b) (x * 2 ^ n + y) (A * 2 ^ n + B)"
  by (rule bnd_or_disjoint [OF bnd_push_bit [OF a lt] b _ y]) simp

lemma bnd_or_push [bnd_rules]:
  fixes a b :: "'a::len word"
  assumes a: "bnd a x A" and b: "bnd b y B" and x: "A < 2 ^ n" and lt: "B * 2 ^ n < 2 ^ LENGTH('a)"
  shows "bnd (a OR push_bit n b) (x + y * 2 ^ n) (A + B * 2 ^ n)"
  using bnd_or_disjoint [OF bnd_push_bit [OF b lt] a _ x] by (simp add: ac_simps)

text \<open>A signed integer whose sign bit is clear behaves as the unsigned one.\<close>

lemma bnd_no_sign:
  fixes a :: "'a::len word"
  assumes "bnd a x A" and "2 * A < 2 ^ LENGTH('a)"
  shows "\<not> bit a (LENGTH('a) - 1)" and "sint a = uint a"
proof -
  have len: "(2::nat) ^ LENGTH('a) = 2 * 2 ^ (LENGTH('a) - 1)"
    by (metis len_gt_0 power_eq_if not_gr_zero)
  then have x: "unat a < 2 ^ (LENGTH('a) - 1)"
    using assms by (simp add: bnd_def)
  then have "\<not> bit (unat a) (LENGTH('a) - 1)"
    by (simp add: bit_iff_odd)
  then show "\<not> bit a (LENGTH('a) - 1)"
    by (simp add: bit_unsigned_iff)
  have "uint a < 2 ^ (LENGTH('a) - 1)"
    using x by (metis of_nat_less_iff of_nat_numeral of_nat_power uint_nat)
  moreover have "- (2 ^ (LENGTH('a) - 1)) \<le> uint a"
    by (rule order_trans [of _ 0]) simp_all
  ultimately show "sint a = uint a"
    by (simp add: sint_uint signed_take_bit_int_eq_self)
qed

lemma bnd_scast [bnd_rules]:
  fixes a :: "'a::len word"
  assumes a: "bnd a x A" and A: "2 * A < 2 ^ LENGTH('a)" "A < 2 ^ LENGTH('b)"
  shows "bnd (scast a :: 'b::len word) x A"
proof -
  have "(scast a :: 'b word) = ucast a"
    by (simp only: scast_eq ucast_eq bnd_no_sign [OF a A(1)])
  then show ?thesis
    using bnd_ucast [OF a A(2)] by simp
qed

lemma bnd_signed_drop_bit [bnd_rules]:
  fixes a :: "'a::len word"
  assumes a: "bnd a x A" and A: "2 * A < 2 ^ LENGTH('a)"
  shows "bnd (signed_drop_bit n a) (x div 2 ^ n) (A div 2 ^ n)"
proof -
  have "signed_drop_bit n a = drop_bit n a"
    using bnd_no_sign(1) [OF a A]
    by (intro bit_word_eqI) (auto simp: bit_signed_drop_bit_iff bit_drop_bit_eq bit_imp_le_length
        dest: bit_imp_le_length)
  then show ?thesis
    using bnd_drop_bit [OF a] by simp
qed

lemma bnd_and_mask4 [bnd_rules]:
  fixes a :: "'a::len word"
  assumes "bnd a x A"
  shows "bnd (a AND 0xF) (x mod 0x10) 0xF"
proof -
  have "(0xF :: 'a word) = mask 4"
    by (simp add: mask_eq_exp_minus_1)
  then show ?thesis
    using bnd_take_bit [OF assms, of 4] by (simp add: take_bit_eq_mask)
qed

lemma bnd_and_mask8 [bnd_rules]:
  fixes a :: "'a::len word"
  assumes "bnd a x A"
  shows "bnd (a AND 0xFF) (x mod 0x100) 0xFF"
proof -
  have "(0xFF :: 'a word) = mask 8"
    by (simp add: mask_eq_exp_minus_1)
  then show ?thesis
    using bnd_take_bit [OF assms, of 8] by (simp add: take_bit_eq_mask)
qed

lemma bnd_nth_byte [bnd_rules]: "bnd (bs ! i :: u8) (unat (bs ! i)) 0xFF"
  using unsigned_less [of "bs ! i", where 'a = nat] by (simp add: bnd_def)

lemma bnd_byte: "bnd (b :: u8) (unat b) 0xFF"
  using unsigned_less [of b, where 'a = nat] by (simp add: bnd_def)

declare bnd_drop_bit [bnd_rules] bnd_push_bit [bnd_rules]

text \<open>
  One step of the symbolic execution of a \<open>let\<close> chain: the bound word is replaced by a
  fresh word \<open>w\<close> with a fresh value \<open>v\<close>, of which an equation and a numeral bound are kept.
\<close>

lemma let_bnd:
  assumes "bnd t x A" and "A = B"
    and P: "\<And>w v. v = x \<Longrightarrow> bnd w v B \<Longrightarrow> P (f w)"
  shows "P (Let t f)"
  using P [OF refl, of t] assms(1,2) by (simp add: Let_def)

lemma let_I: "P (f t) \<Longrightarrow> P (Let t f)"
  by simp

section \<open>Masks, digits and bits\<close>

lemma bnd_of_bool [bnd_rules]: "bnd (of_bool b) (of_bool b) 1"
  by (cases b) (simp_all add: bnd_def)

lemma unat_drop_bit_div: "unat (drop_bit n w) = unat w div 2 ^ n"
  using bnd_drop_bit [OF bnd_self [OF order_refl]] by (rule bnd_unat)

lemma take_bit_self_iff: "take_bit n w = w \<longleftrightarrow> unat w < 2 ^ n" for w :: "'a::len word"
  by (metis take_bit_nat_eq_self_iff unsigned_take_bit_eq word_unat_eq_iff)

lemma word_and_mask_eq:
  fixes a b :: "'a::len word"
  assumes "unat a < 2 ^ n" "unat b < 2 ^ n"
  shows "a AND b = mask n \<longleftrightarrow> a = mask n \<and> b = mask n"
proof
  assume "a AND b = mask n"
  then have ab: "bit a i" "bit b i" if "i < n" "i < LENGTH('a)" for i
    using that by (metis bit_and_iff bit_mask_iff bit_imp_le_length possible_bit_word)+
  have "take_bit n w = mask n" if "\<And>i. i < n \<Longrightarrow> i < LENGTH('a) \<Longrightarrow> bit w i" for w :: "'a word"
    using that by (intro bit_word_eqI) (auto simp: bit_take_bit_iff bit_mask_iff)
  then show "a = mask n \<and> b = mask n"
    using ab assms by (metis take_bit_self_iff)
qed simp

lemma word_xor_eq_iff: "a XOR c = d \<longleftrightarrow> a = d XOR (c :: 'a::len word)"
  by (metis xor.right_neutral xor.assoc xor_self_eq)

lemma word_or_eq_0_iff: "a OR b = 0 \<longleftrightarrow> a = 0 \<and> b = (0 :: 'a::len word)"
  by (metis or_eq_0_iff)

lemma mask52_u64: "(0xFFFFFFFFFFFFF :: u64) = mask 52" and mask48_u64: "(0xFFFFFFFFFFFF :: u64) = mask 48"
  by (simp_all add: mask_eq_exp_minus_1)

lemma mixed_radix:
  fixes x y :: nat
  assumes "x < M" "y < M"
  shows "x + M * q = y + M * r \<longleftrightarrow> x = y \<and> q = r"
proof
  assume e: "x + M * q = y + M * r"
  have "(x + M * q) mod M = x" "(y + M * r) mod M = y" using assms by simp_all
  then have "x = y" using e by simp
  then show "x = y \<and> q = r" using e assms by simp
qed simp

section \<open>Big-endian byte strings\<close>

primrec be_nat :: "u8 list \<Rightarrow> nat" where
  "be_nat [] = 0"
| "be_nat (b # bs) = unat b * 256 ^ length bs + be_nat bs"

lemma be_nat_append: "be_nat (xs @ ys) = be_nat xs * 256 ^ length ys + be_nat ys"
  by (induction xs) (simp_all add: power_add algebra_simps)

lemma be_nat_less: "be_nat bs < 256 ^ length bs"
proof (induction bs)
  case (Cons b bs)
  have "unat b + 1 \<le> 256"
    using unsigned_less [of b, where 'a = nat] by simp
  then have "(unat b + 1) * 256 ^ length bs \<le> 256 * 256 ^ length bs"
    by (rule mult_le_mono1)
  moreover have "be_nat (b # bs) < (unat b + 1) * 256 ^ length bs"
    using Cons by simp
  ultimately have "be_nat (b # bs) < 256 * 256 ^ length bs"
    by (rule order_less_le_trans [rotated])
  then show ?case
    by simp
qed simp

lemma be_nat_inject:
  assumes "length xs = length ys"
  shows "be_nat xs = be_nat ys \<longleftrightarrow> xs = ys"
  using assms
proof (induction xs ys rule: list_induct2)
  case (Cons x xs y ys)
  have "be_nat xs < 256 ^ length xs" "be_nat ys < 256 ^ length xs"
    using be_nat_less [of xs] be_nat_less [of ys] Cons by simp_all
  then have "be_nat (x # xs) = be_nat (y # ys) \<longleftrightarrow> be_nat xs = be_nat ys \<and> unat x = unat y"
    using mixed_radix [of "be_nat xs" "256 ^ length xs" "be_nat ys" "unat x" "unat y"] Cons
    by (simp add: algebra_simps)
  then show ?case
    using Cons by (auto simp: word_unat_eq_iff)
qed simp

lemma list_eq_map_nth: "length xs = n \<Longrightarrow> xs = map ((!) xs) [0 ..< n]"
  using map_nth [of xs] by simp

text \<open>A digit of a number and the rest above it.\<close>

lemma div_digit: "x div 2 ^ k = x div 2 ^ k mod 2 ^ j + 2 ^ j * (x div 2 ^ (k + j))" for x :: nat
  by (simp add: power_add div_mult2_eq)

section \<open>The interface of an addition chain\<close>

text \<open>
  Inversion and square roots are computed by chains of multiplications and squarings over a
  representation. \<open>out\<close> is what an operation establishes, \<open>inn\<close> what it accepts; the
  field elements use magnitude 1 and 8 for them, the scalars the same relation twice.
\<close>

locale power_chain =
  fixes out inn :: "'r::comm_ring_1 \<Rightarrow> 'a \<Rightarrow> bool"
    and mul :: "'a \<Rightarrow> 'a \<Rightarrow> 'a"
    and sqr :: "'a \<Rightarrow> 'a"
  assumes out_inn: "out x a \<Longrightarrow> inn x a"
    and mul_law: "inn x a \<Longrightarrow> inn y b \<Longrightarrow> out (x * y) (mul a b)"
    and sqr_law: "inn x a \<Longrightarrow> out (x * x) (sqr a)"
begin

lemma power_mul: "inn (x ^ e) a \<Longrightarrow> inn (x ^ k) b \<Longrightarrow> out (x ^ (e + k)) (mul a b)"
  unfolding power_add by (rule mul_law)

lemma power_sqr: "inn (x ^ e) a \<Longrightarrow> out (x ^ (2 * e)) (sqr a)"
  unfolding mult_2 power_add by (rule sqr_law)

lemma power_sqr_times: "out (x ^ e) a \<Longrightarrow> out (x ^ (2 ^ n * e)) ((sqr ^^ n) a)"
proof (induction n)
  case (Suc n)
  have "out (x ^ (2 * (2 ^ n * e))) (sqr ((sqr ^^ n) a))"
    by (rule power_sqr, rule out_inn, rule Suc.IH, rule Suc.prems)
  then show ?case by (simp add: mult.assoc)
qed simp

lemma power_one: "inn x a \<Longrightarrow> inn (x ^ 1) a"
  by simp

lemma let_power:
  assumes "out (x ^ e) t" "e = k" "\<And>w. out (x ^ k) w \<Longrightarrow> P (f w)"
  shows "P (Let t f)"
  using assms by (simp add: Let_def)

lemma power_mul_last: "inn (x ^ e) a \<Longrightarrow> inn (x ^ k) b \<Longrightarrow> e + k = n \<Longrightarrow> out (x ^ n) (mul a b)"
  using power_mul by blast

lemmas power_rules = power_mul power_sqr power_sqr_times out_inn

end

end
