(* ===== verification/Primality.thy ===== *)
theory Primality
  imports Main
begin

text \<open>
  Primality of the field characteristic of secp256k1,
  by certificates in the style of Pocklington that the simplifier evaluates. The theory is
  pure arithmetic: it models no code.
\<close>

definition is_prime :: "nat \<Rightarrow> bool" where
  "is_prime p \<longleftrightarrow> 1 < p \<and> (\<forall>m. m dvd p \<longrightarrow> m = 1 \<or> m = p)"

lemma is_prime_gt_1: "is_prime p \<Longrightarrow> 1 < p"
  by (simp add: is_prime_def)

lemma is_prime_coprime: "is_prime p \<Longrightarrow> \<not> p dvd a \<Longrightarrow> coprime p a"
  by (metis coprime_iff_gcd_eq_1 gcd_dvd1 gcd_dvd2 is_prime_def)

lemma is_prime_dvd_mult: "is_prime p \<Longrightarrow> p dvd a * b \<longleftrightarrow> p dvd a \<or> p dvd b"
  by (metis coprime_dvd_mult_right_iff dvd_mult dvd_mult2 is_prime_coprime)

lemma prime_divisor:
  assumes "1 < (n::nat)"
  shows "\<exists>q. is_prime q \<and> q dvd n \<and> (\<not> is_prime n \<longrightarrow> q * q \<le> n)"
proof -
  define q where "q = (LEAST k. 1 < k \<and> k dvd n)"
  have q: "1 < q \<and> q dvd n"
    unfolding q_def by (rule LeastI [of _ n]) (use assms in simp)
  have least: "q \<le> k" if "1 < k" "k dvd n" for k
    unfolding q_def using that by (simp add: Least_le)
  have prime: "is_prime q"
    unfolding is_prime_def
  proof (intro conjI allI impI)
    show "1 < q" using q by simp
    fix m assume m: "m dvd q"
    then have "m dvd n" "m \<le> q" "m \<noteq> 0"
      using q by (auto intro: dvd_trans dvd_imp_le gr0I)
    then show "m = 1 \<or> m = q"
      using least [of m] by linarith
  qed
  have "q * q \<le> n" if "\<not> is_prime n"
  proof -
    obtain t where t: "n = q * t"
      using q by auto
    have "t \<noteq> 0"
      using t assms by (intro notI) simp
    moreover have "t \<noteq> 1"
      using t that prime by auto
    ultimately have "q \<le> t"
      using least [of t] t by simp
    then show ?thesis
      using t by simp
  qed
  with q prime show ?thesis by blast
qed

text \<open>The order of an element bounds the modulus from below.\<close>

lemma order_bound:
  fixes a r :: nat
  assumes r: "1 < r" and d: "0 < d" "a ^ d mod r = 1"
    and least: "\<And>k. 0 < k \<Longrightarrow> a ^ k mod r = 1 \<Longrightarrow> d \<le> k"
  shows "d < r"
proof -
  have cop: "coprime a r"
  proof -
    have "coprime (a ^ d) r"
      using d(2) by (metis coprime_mod_left_iff coprime_1_left r less_one not_less_zero)
    then show ?thesis
      using d(1) by simp
  qed
  have inj: "inj_on (\<lambda>i. a ^ i mod r) {..<d}"
  proof (rule linorder_inj_onI)
    fix i j assume ij: "i < j" "i \<in> {..<d}" "j \<in> {..<d}"
    show "a ^ i mod r \<noteq> a ^ j mod r"
    proof
      assume eq: "a ^ i mod r = a ^ j mod r"
      have "a ^ j = a ^ i * a ^ (j - i)"
        using ij(1) by (simp flip: power_add)
      then have "int (a ^ i * a ^ (j - i)) mod int r = int (a ^ i) mod int r"
        using eq by (metis of_nat_mod)
      then have "int r dvd int (a ^ i) * (int (a ^ (j - i)) - 1)"
        by (simp add: mod_eq_dvd_iff algebra_simps)
      moreover have "coprime (int r) (int (a ^ i))"
        using cop by (simp add: coprime_commute)
      ultimately have "int r dvd int (a ^ (j - i)) - 1"
        by (simp add: coprime_dvd_mult_right_iff)
      then have "int (a ^ (j - i)) mod int r = 1 mod int r"
        by (simp add: mod_eq_dvd_iff)
      then have "a ^ (j - i) mod r = 1"
        using r by (metis mod_less of_nat_1 of_nat_eq_iff of_nat_mod)
      then have "d \<le> j - i"
        using ij(1) by (intro least) simp_all
      with ij show False by simp
    qed
  qed auto
  have "(\<lambda>i. a ^ i mod r) ` {..<d} \<subseteq> {1..<r}"
  proof
    fix x assume "x \<in> (\<lambda>i. a ^ i mod r) ` {..<d}"
    then obtain i where i: "x = a ^ i mod r" by auto
    have "x \<noteq> 0"
    proof
      assume "x = 0"
      then have "r dvd a ^ i" using i by auto
      moreover have "coprime (a ^ i) r" using cop by simp
      ultimately have "r dvd 1"
        using coprime_common_divisor_nat [of "a ^ i" r r] by auto
      then show False using r by simp
    qed
    then show "x \<in> {1..<r}" using i r by simp
  qed
  then have "card {..<d} \<le> card {1..<r}"
    using inj by (metis card_image card_mono finite_atLeastLessThan)
  then show ?thesis using r by simp
qed

lemma order_dvd:
  fixes a r :: nat
  assumes r: "1 < r" and d: "0 < d" "a ^ d mod r = 1"
    and least: "\<And>k. 0 < k \<Longrightarrow> a ^ k mod r = 1 \<Longrightarrow> d \<le> k"
    and k: "a ^ k mod r = 1"
  shows "d dvd k"
proof -
  have "a ^ k = (a ^ d) ^ (k div d) * a ^ (k mod d)"
    by (simp flip: power_mult power_add)
  moreover have "(a ^ d) ^ (k div d) mod r = 1"
    using d(2) r by (metis mod_less power_mod power_one)
  ultimately have "a ^ (k mod d) mod r = 1"
    using k by (metis mod_mult_left_eq mult_1)
  then have "k mod d = 0"
    using least [of "k mod d"] d(1) by (metis gr0I leD mod_less_divisor)
  then show ?thesis by auto
qed

definition pock_witness :: "nat \<Rightarrow> nat \<Rightarrow> nat \<Rightarrow> bool" where
  "pock_witness a N q \<longleftrightarrow> q dvd N - 1 \<and> coprime (a ^ ((N - 1) div q) mod N + (N - 1)) N"

theorem pocklington:
  assumes N: "1 < N" and a: "a ^ (N - 1) mod N = 1"
    and qs: "\<And>q. q \<in> set qs \<Longrightarrow> is_prime q \<and> pock_witness a N q"
    and dist: "distinct qs" and F: "N \<le> prod_list qs * prod_list qs"
  shows "is_prime N"
proof (rule ccontr)
  assume "\<not> is_prime N"
  then obtain r where r: "is_prime r" "r dvd N" "r * r \<le> N"
    using prime_divisor [OF N] by blast
  have r1: "1 < r" using r(1) by (rule is_prime_gt_1)
  have modr: "x mod r = 1" if "x mod N = 1" for x
    using that r(2) r1 by (metis mod_mod_cancel mod_less)
  define d where "d = (LEAST k. 0 < k \<and> a ^ k mod r = 1)"
  have d: "0 < d \<and> a ^ d mod r = 1"
    unfolding d_def by (rule LeastI [of _ "N - 1"]) (use N a modr in simp)
  have least: "d \<le> k" if "0 < k" "a ^ k mod r = 1" for k
    unfolding d_def using that by (simp add: Least_le)
  have "q dvd d" if q: "q \<in> set qs" for q
  proof (rule ccontr)
    assume nd: "\<not> q dvd d"
    have pq: "is_prime q" and w: "pock_witness a N q" using qs [OF q] by auto
    obtain t where t: "N - 1 = d * t"
      using order_dvd [OF r1 _ _ least modr [OF a]] d by auto
    have "q dvd t"
      using w nd pq t by (simp add: pock_witness_def is_prime_dvd_mult)
    then obtain s where s: "t = q * s" by auto
    have "(N - 1) div q = d * s"
      using t s is_prime_gt_1 [OF pq] by simp
    then have "a ^ ((N - 1) div q) mod r = 1"
      using d r1 by (metis mod_less power_mod power_mult power_one)
    then have "(a ^ ((N - 1) div q) mod N) mod r = 1"
      using r(2) by (simp add: mod_mod_cancel)
    then have "(a ^ ((N - 1) div q) mod N + (N - 1)) mod r = (1 + (N - 1)) mod r"
      by (metis mod_add_left_eq r1 mod_less)
    then have "r dvd a ^ ((N - 1) div q) mod N + (N - 1)"
      using r(2) N by auto
    then have "r dvd 1"
      using w r(2) by (metis coprime_common_divisor_nat dvd_refl pock_witness_def)
    then show False using r1 by simp
  qed
  then have "prod_list qs dvd d"
    using dist qs
  proof (induction qs)
    case Nil
    then show ?case by simp
  next
    case (Cons q qs)
    have "coprime q p" if "p \<in> set qs" for p
      using that Cons.prems by (metis distinct.simps(2) is_prime_coprime is_prime_def
          is_prime_gt_1 list.set_intros nat_neq_iff)
    then have "coprime q (prod_list qs)"
      by (induction qs) auto
    moreover have "prod_list qs dvd d" "q dvd d"
      using Cons by simp_all
    ultimately show ?case
      by (simp add: divides_mult)
  qed
  then have "prod_list qs \<le> d" using d by (simp add: dvd_imp_le)
  also have "d < r" using order_bound [OF r1 _ _ least] d by blast
  finally have "prod_list qs * prod_list qs < r * r"
    by (simp add: mult_strict_mono)
  with F r(3) show False by simp
qed


section \<open>Evaluation\<close>

text \<open>
  Powers of two modulo a large number are computed on binary numerals by rules that the
  simplifier applies one bit at a time. A reduction step \<open>fold\<close> replaces the part above
  \<open>2 ^ k\<close> by its residue; it suits the moduli \<open>2 ^ k - c\<close> and their divisors. A reduction
  step \<open>barrett\<close> subtracts an estimate of the quotient and suits any modulus. Neither has
  to produce a reduced residue, only a congruent number.
\<close>

fun drop_num :: "num \<Rightarrow> num \<Rightarrow> int" where
  "drop_num (num.Bit0 m) (num.Bit0 x) = drop_num m x"
| "drop_num (num.Bit0 m) (num.Bit1 x) = drop_num m x"
| "drop_num (num.Bit0 m) num.One = 0"
| "drop_num _ x = numeral x"

fun take_num :: "num \<Rightarrow> num \<Rightarrow> int" where
  "take_num (num.Bit0 m) (num.Bit0 x) = Num.dbl (take_num m x)"
| "take_num (num.Bit0 m) (num.Bit1 x) = Num.dbl_inc (take_num m x)"
| "take_num (num.Bit0 m) num.One = 1"
| "take_num _ x = 0"

fun is_pow2 :: "num \<Rightarrow> bool" where
  "is_pow2 num.One = True"
| "is_pow2 (num.Bit0 m) = is_pow2 m"
| "is_pow2 (num.Bit1 m) = False"

lemma numeral_double:
  "numeral (num.Bit0 x) = 2 * (numeral x :: int)" "numeral (num.Bit1 x) = 2 * (numeral x :: int) + 1"
  by (subst numeral_Bit0, rule mult_2 [symmetric])
    (subst numeral_Bit1, subst mult_2 [symmetric], rule refl)

lemma drop_take_num:
  "is_pow2 m \<Longrightarrow> numeral x = drop_num m x * numeral m + take_num m x \<and>
     0 \<le> take_num m x \<and> take_num m x < numeral m"
proof (induction m x rule: drop_num.induct)
  case (1 m x)
  define a b c :: int where "a = drop_num m x" and "b = numeral m" and "c = numeral x"
  have "c = a * b + take_num m x" "0 \<le> take_num m x" "take_num m x < b"
    using 1 by (simp_all add: a_def b_def c_def)
  then have "2 * c = a * (2 * b) + 2 * take_num m x \<and>
      0 \<le> 2 * take_num m x \<and> 2 * take_num m x < 2 * b"
    by (simp add: algebra_simps)
  moreover have "numeral (num.Bit0 m) = 2 * b" "numeral (num.Bit0 x) = 2 * c"
    unfolding b_def c_def by (rule numeral_double)+
  ultimately show ?case
    unfolding drop_num.simps take_num.simps Num.dbl_def a_def [symmetric] by (simp only: mult_2)
next
  case (2 m x)
  define a b c :: int where "a = drop_num m x" and "b = numeral m" and "c = numeral x"
  have "c = a * b + take_num m x" "0 \<le> take_num m x" "take_num m x < b"
    using 2 by (simp_all add: a_def b_def c_def)
  then have "2 * c + 1 = a * (2 * b) + (2 * take_num m x + 1) \<and>
      0 \<le> 2 * take_num m x + 1 \<and> 2 * take_num m x + 1 < 2 * b"
    by (simp add: algebra_simps)
  moreover have "numeral (num.Bit0 m) = 2 * b" "numeral (num.Bit1 x) = 2 * c + 1"
    unfolding b_def c_def by (rule numeral_double)+
  ultimately show ?case
    unfolding drop_num.simps take_num.simps Num.dbl_inc_def a_def [symmetric] by (simp only: mult_2)
qed simp_all

definition square :: "int \<Rightarrow> int" where
  "square y = y * y"

lemma square_numeral: "square (numeral y) = numeral (Num.sqr y)"
  by (simp add: square_def Num.sqr_conv_mult)

lemma square_neg_numeral: "square (- numeral y) = numeral (Num.sqr y)"
  by (simp add: square_def Num.sqr_conv_mult)

lemma square_one: "square 1 = 1"
  by (simp add: square_def)

primrec pow2 :: "(int \<Rightarrow> int) \<Rightarrow> num \<Rightarrow> int" where
  "pow2 red num.One = 2"
| "pow2 red (num.Bit0 n) = red (square (pow2 red n))"
| "pow2 red (num.Bit1 n) = red (Num.dbl (square (pow2 red n)))"

definition reduces :: "int \<Rightarrow> (int \<Rightarrow> int) \<Rightarrow> bool" where
  "reduces N red \<longleftrightarrow> (\<forall>x. red x mod N = x mod N)"

lemma pow2_mod: "reduces N red \<Longrightarrow> pow2 red n mod N = 2 ^ numeral n mod N"
proof (induction n)
  case One
  then show ?case by simp
next
  case (Bit0 n)
  define e :: int where "e = 2 ^ numeral n"
  have "2 ^ numeral (num.Bit0 n) = e * e"
    by (simp only: e_def numeral_Bit0 power_add)
  moreover have "pow2 red (num.Bit0 n) mod N = pow2 red n * pow2 red n mod N"
    using Bit0.prems by (simp add: reduces_def square_def)
  ultimately show ?case
    using Bit0.IH [OF Bit0.prems] by (metis e_def mod_mult_eq)
next
  case (Bit1 n)
  define e :: int where "e = 2 ^ numeral n"
  have "2 ^ numeral (num.Bit1 n) = 2 * (e * e)"
    by (simp only: e_def numeral_Bit1 power_add power_one_right mult.commute)
  moreover have "pow2 red (num.Bit1 n) mod N = 2 * (pow2 red n * pow2 red n) mod N"
    using Bit1.prems by (simp add: reduces_def square_def Num.dbl_def)
  ultimately show ?case
    using Bit1.IH [OF Bit1.prems] by (metis e_def mod_mult_eq mod_mult_right_eq)
qed

definition fold1 :: "int \<Rightarrow> int \<Rightarrow> int \<Rightarrow> int" where
  "fold1 m c x = (x div m) * c + x mod m"

lemma fold1_mod:
  assumes "N dvd m - c"
  shows "fold1 m c x mod N = x mod N"
proof -
  have "x = x div m * m + x mod m"
    by simp
  then have "x - fold1 m c x = (x div m) * (m - c)"
    unfolding fold1_def by (simp only: algebra_simps)
  then have "N dvd x - fold1 m c x"
    using assms by simp
  then show ?thesis
    by (metis mod_eq_dvd_iff)
qed

lemma div_mod_numeral:
  assumes "is_pow2 m"
  shows "numeral x div numeral m = drop_num m x" "numeral x mod numeral m = take_num m x"
proof -
  have t: "numeral x = drop_num m x * numeral m + take_num m x"
    "0 \<le> take_num m x" "take_num m x < numeral m"
    using drop_take_num [OF assms, of x] by auto
  show "numeral x div numeral m = drop_num m x"
    using int_div_pos_eq [OF _ t(2,3), of "numeral x" "drop_num m x"] t(1)
    by (simp only: mult.commute)
  show "numeral x mod numeral m = take_num m x"
    using int_mod_pos_eq [OF _ t(2,3), of "numeral x" "drop_num m x"] t(1)
    by (simp only: mult.commute)
qed

lemma fold1_numeral:
  "is_pow2 m \<Longrightarrow> fold1 (numeral m) c (numeral x) = drop_num m x * c + take_num m x"
  by (simp only: fold1_def div_mod_numeral)

definition fold2 :: "int \<Rightarrow> int \<Rightarrow> int \<Rightarrow> int" where
  "fold2 m c x = fold1 m c (fold1 m c x)"

definition fold3 :: "int \<Rightarrow> int \<Rightarrow> int \<Rightarrow> int" where
  "fold3 m c x = fold1 m c (fold2 m c x)"

lemma reduces_fold3: "N dvd m - c \<Longrightarrow> reduces N (fold3 m c)"
  by (simp add: reduces_def fold3_def fold2_def fold1_mod)

lemma reduces_fold2: "N dvd m - c \<Longrightarrow> reduces N (fold2 m c)"
  by (simp add: reduces_def fold2_def fold1_mod)

definition barrett :: "int \<Rightarrow> int \<Rightarrow> int \<Rightarrow> int \<Rightarrow> int" where
  "barrett m mu N x = x - (x * mu) div m * N"

lemma reduces_barrett: "reduces N (barrett m mu N)"
  unfolding reduces_def barrett_def by (metis mod_diff_right_eq mod_mult_self2_is_0 diff_zero)

definition drop_int :: "int \<Rightarrow> int \<Rightarrow> int" where
  "drop_int m x = x div m"

lemma drop_int_numeral: "is_pow2 m \<Longrightarrow> drop_int (numeral m) (numeral x) = drop_num m x"
  by (simp only: drop_int_def div_mod_numeral)

lemma barrett_numeral:
  "barrett m mu N (numeral x) = numeral x - drop_int m (numeral x * mu) * N"
  by (simp add: barrett_def drop_int_def)

lemmas num_eval = arith_simps arith_special rel_simps of_nat_numeral of_nat_1 simp_thms
  distinct.simps list.set(1,2) insert_iff empty_iff prod_list.Cons prod_list.Nil mult_1_right

lemmas pow2_eval = pow2.simps square_numeral square_neg_numeral square_one
  fold2_def fold3_def fold1_numeral barrett_numeral drop_int_numeral is_pow2.simps
  drop_num.simps take_num.simps Num.sqr.simps arith_simps

section \<open>Certificates\<close>

fun no_divisor :: "nat \<Rightarrow> nat list \<Rightarrow> bool" where
  "no_divisor n [] = True"
| "no_divisor n (k # ks) = (n mod k \<noteq> 0 \<and> no_divisor n ks)"

lemma no_divisor_iff: "no_divisor n ks \<longleftrightarrow> (\<forall>k \<in> set ks. \<not> k dvd n)"
  by (induction ks) (auto simp: dvd_eq_mod_eq_0)

lemma is_prime_trial:
  assumes n: "1 < n" and b: "n < b * b" and nd: "no_divisor n [2..<b]"
  shows "is_prime n"
proof (rule ccontr)
  assume np: "\<not> is_prime n"
  then obtain q where q: "is_prime q" "q dvd n" "q * q \<le> n"
    using prime_divisor [OF n] by blast
  have "q < b"
  proof (rule ccontr)
    assume "\<not> q < b"
    then have "b * b \<le> q * q" by (simp add: mult_le_mono)
    with b q(3) show False by simp
  qed
  then show False
    using nd q is_prime_gt_1 [OF q(1)] by (auto simp: no_divisor_iff)
qed

definition cofactor_ok :: "nat \<Rightarrow> nat \<Rightarrow> bool" where
  "cofactor_ok N q \<longleftrightarrow> is_prime q \<and> (\<exists>k u. N - 1 = q * k \<and> (2 ^ k - 1) * u mod int N = 1)"

lemma power_mod_eval:
  assumes "reduces (int N) red" and "pow2 red k = r" and "r = s + int N * t"
  shows "2 ^ numeral k mod int N = s mod int N"
  using pow2_mod [OF assms(1), of k] assms(2,3) by simp

lemma cofactor_eval:
  assumes q: "is_prime q" and k: "N = q * numeral k + 1"
    and red: "reduces (int N) red" "pow2 red k = r" and w: "r = w + 1" and u: "w * u = 1 + int N * t" and N: "1 < N"
  shows "cofactor_ok N q"
proof -
  have "(2 ^ numeral k - 1) * u mod int N = (r - 1) * u mod int N"
    using pow2_mod [OF red(1), of k] red(2) by (metis mod_diff_left_eq mod_mult_left_eq)
  also have "\<dots> = 1" using u w N by simp
  finally show ?thesis using q k unfolding cofactor_ok_def by (metis add_diff_cancel_right')
qed

lemma cofactor_witness:
  assumes N: "1 < N" and q: "cofactor_ok N q"
  shows "is_prime q \<and> pock_witness 2 N q"
proof -
  obtain k u where q: "is_prime q" and k: "N - 1 = q * k" and u: "(2 ^ k - 1) * u mod int N = 1"
    using q by (auto simp: cofactor_ok_def)
  have "(N - 1) div q = k" using k is_prime_gt_1 [OF q] by simp
  moreover have "coprime (2 ^ k mod N + (N - 1)) N"
  proof -
    have "coprime ((2 ^ k - 1) * u) (int N)"
      using u by (metis coprime_1_left coprime_mod_left_iff N less_imp_of_nat_less of_nat_0_less_iff
          of_nat_1 not_less_zero order_less_irrefl of_nat_eq_0_iff)
    then have c: "coprime (2 ^ k - 1) (int N)" by simp
    have "int (2 ^ k mod N + (N - 1)) mod int N = (2 ^ k mod int N + (int N - 1)) mod int N"
      using N by (simp add: of_nat_mod of_nat_diff add_diff_eq)
    also have "\<dots> = (2 ^ k - 1) mod int N"
      by (metis add_diff_eq mod_add_left_eq mod_add_self2 add.commute diff_add_eq)
    finally have "coprime (int (2 ^ k mod N + (N - 1))) (int N)"
      using c N by (metis coprime_mod_left_iff of_nat_eq_0_iff not_less_zero)
    then show ?thesis by (simp only: coprime_int_iff)
  qed
  ultimately show ?thesis
    using q k by (simp add: pock_witness_def)
qed

lemma pocklington2:
  assumes N: "1 < N" and k: "N = numeral k + 1" and a: "2 ^ numeral k mod int N = 1 mod int N"
    and qs: "list_all (cofactor_ok N) qs" and dist: "distinct qs"
    and F: "N \<le> prod_list qs * prod_list qs"
  shows "is_prime N"
proof (rule pocklington [OF N, of 2 qs])
  have e: "N - 1 = numeral k"
    unfolding k by (rule add_diff_cancel_right')
  have "int (2 ^ (N - 1) mod N) = 2 ^ numeral k mod int N"
    unfolding e by (simp only: of_nat_mod of_nat_power of_nat_numeral)
  also have "\<dots> = 1" using a N by simp
  finally show "2 ^ (N - 1) mod N = 1" by linarith
next
  fix q assume "q \<in> set qs"
  then show "is_prime q \<and> pock_witness 2 N q"
    using qs cofactor_witness [OF N] by (simp add: list_all_iff)
qed (use dist F in simp_all)

lemma prime_7: "is_prime 7"
  by (rule is_prime_trial [where b = 3]) (simp_all add: upt_rec_numeral)

lemma prime_29: "is_prime 29"
  by (rule is_prime_trial [where b = 6]) (simp_all add: upt_rec_numeral)

lemma prime_53: "is_prime 53"
  by (rule is_prime_trial [where b = 8]) (simp_all add: upt_rec_numeral)

lemma prime_101: "is_prime 101"
  by (rule is_prime_trial [where b = 11]) (simp_all add: upt_rec_numeral)

lemma prime_239: "is_prime 239"
  by (rule is_prime_trial [where b = 16]) (simp_all add: upt_rec_numeral)

lemma prime_20113: "is_prime 20113"
  by (rule is_prime_trial [where b = 142]) (simp_all add: upt_rec_numeral)

lemma cofactor_1206781_0: "cofactor_ok 1206781 20113"
proof (rule cofactor_eval [OF prime_20113])
  show "1206781 = 20113 * (60::nat) + 1" by (simp only: num_eval)
  show "reduces (int 1206781) (barrett 17592186044416 14577778 1206781)" by (simp add: reduces_barrett)
  show "(78448::int) = 78447 + 1" by (simp only: num_eval)
  show "78447 * 709359 = 1 + int 1206781 * 46112" by (simp only: num_eval)
qed (simp_all only: pow2_eval num_eval)

lemma prime_1206781: "is_prime 1206781"
proof (rule pocklington2 [where qs = "[20113]"])
  show "1206781 = (1206780::nat) + 1" by (simp only: num_eval)
  show "2 ^ 1206780 mod int 1206781 = 1 mod int 1206781"
  proof (rule power_mod_eval)
    show "reduces (int 1206781) (barrett 17592186044416 14577778 1206781)" by (simp add: reduces_barrett)
    show "1206782 = 1 + int 1206781 * 1" by (simp only: num_eval)
  qed (simp only: pow2_eval)
  show "list_all (cofactor_ok 1206781) [20113]"
    by (simp only: list.pred_inject simp_thms cofactor_1206781_0)
qed (simp_all only: num_eval)

lemma cofactor_7240687_0: "cofactor_ok 7240687 1206781"
proof (rule cofactor_eval [OF prime_1206781])
  show "7240687 = 1206781 * (6::nat) + 1" by (simp only: num_eval)
  show "reduces (int 7240687) (barrett 281474976710656 38874070 7240687)" by (simp add: reduces_barrett)
  show "(64::int) = 63 + 1" by (simp only: num_eval)
  show "63 * 5746577 = 1 + int 7240687 * 50" by (simp only: num_eval)
qed (simp_all only: pow2_eval num_eval)

lemma prime_7240687: "is_prime 7240687"
proof (rule pocklington2 [where qs = "[1206781]"])
  show "7240687 = (7240686::nat) + 1" by (simp only: num_eval)
  show "2 ^ 7240686 mod int 7240687 = 1 mod int 7240687"
  proof (rule power_mod_eval)
    show "reduces (int 7240687) (barrett 281474976710656 38874070 7240687)" by (simp add: reduces_barrett)
    show "7240688 = 1 + int 7240687 * 1" by (simp only: num_eval)
  qed (simp only: pow2_eval)
  show "list_all (cofactor_ok 7240687) [1206781]"
    by (simp only: list.pred_inject simp_thms cofactor_7240687_0)
qed (simp_all only: num_eval)

lemma cofactor_96557_0: "cofactor_ok 96557 239"
proof (rule cofactor_eval [OF prime_239])
  show "96557 = 239 * (404::nat) + 1" by (simp only: num_eval)
  show "reduces (int 96557) (barrett 68719476736 711698 96557)" by (simp add: reduces_barrett)
  show "(29586::int) = 29585 + 1" by (simp only: num_eval)
  show "29585 * 8329 = 1 + int 96557 * 2552" by (simp only: num_eval)
qed (simp_all only: pow2_eval num_eval)

lemma cofactor_96557_1: "cofactor_ok 96557 101"
proof (rule cofactor_eval [OF prime_101])
  show "96557 = 101 * (956::nat) + 1" by (simp only: num_eval)
  show "reduces (int 96557) (barrett 68719476736 711698 96557)" by (simp add: reduces_barrett)
  show "(63065::int) = 63064 + 1" by (simp only: num_eval)
  show "63064 * 50445 = 1 + int 96557 * 32947" by (simp only: num_eval)
qed (simp_all only: pow2_eval num_eval)

lemma prime_96557: "is_prime 96557"
proof (rule pocklington2 [where qs = "[239, 101]"])
  show "96557 = (96556::nat) + 1" by (simp only: num_eval)
  show "2 ^ 96556 mod int 96557 = 1 mod int 96557"
  proof (rule power_mod_eval)
    show "reduces (int 96557) (barrett 68719476736 711698 96557)" by (simp add: reduces_barrett)
    show "96558 = 1 + int 96557 * 1" by (simp only: num_eval)
  qed (simp only: pow2_eval)
  show "list_all (cofactor_ok 96557) [239, 101]"
    by (simp only: list.pred_inject simp_thms cofactor_96557_0 cofactor_96557_1)
qed (simp_all only: num_eval)

lemma cofactor_107590001_0: "cofactor_ok 107590001 53"
proof (rule cofactor_eval [OF prime_53])
  show "107590001 = 53 * (2030000::nat) + 1" by (simp only: num_eval)
  show "reduces (int 107590001) (barrett 72057594037927936 669742479 107590001)" by (simp add: reduces_barrett)
  show "(26896163::int) = 26896162 + 1" by (simp only: num_eval)
  show "26896162 * 75712971 = 1 + int 107590001 * 18927301" by (simp only: num_eval)
qed (simp_all only: pow2_eval num_eval)

lemma cofactor_107590001_1: "cofactor_ok 107590001 29"
proof (rule cofactor_eval [OF prime_29])
  show "107590001 = 29 * (3710000::nat) + 1" by (simp only: num_eval)
  show "reduces (int 107590001) (barrett 72057594037927936 669742479 107590001)" by (simp add: reduces_barrett)
  show "(68236646::int) = 68236645 + 1" by (simp only: num_eval)
  show "68236645 * 100085220 = 1 + int 107590001 * 63476899" by (simp only: num_eval)
qed (simp_all only: pow2_eval num_eval)

lemma cofactor_107590001_2: "cofactor_ok 107590001 7"
proof (rule cofactor_eval [OF prime_7])
  show "107590001 = 7 * (15370000::nat) + 1" by (simp only: num_eval)
  show "reduces (int 107590001) (barrett 72057594037927936 669742479 107590001)" by (simp add: reduces_barrett)
  show "(95730224::int) = 95730223 + 1" by (simp only: num_eval)
  show "95730223 * 4923006 = 1 + int 107590001 * 4380337" by (simp only: num_eval)
qed (simp_all only: pow2_eval num_eval)

lemma prime_107590001: "is_prime 107590001"
proof (rule pocklington2 [where qs = "[53, 29, 7]"])
  show "107590001 = (107590000::nat) + 1" by (simp only: num_eval)
  show "2 ^ 107590000 mod int 107590001 = 1 mod int 107590001"
  proof (rule power_mod_eval)
    show "reduces (int 107590001) (barrett 72057594037927936 669742479 107590001)" by (simp add: reduces_barrett)
    show "107590002 = 1 + int 107590001 * 1" by (simp only: num_eval)
  qed (simp only: pow2_eval)
  show "list_all (cofactor_ok 107590001) [53, 29, 7]"
    by (simp only: list.pred_inject simp_thms cofactor_107590001_0 cofactor_107590001_1 cofactor_107590001_2)
qed (simp_all only: num_eval)

lemma cofactor_255515944373312847190720520512484175977_0: "cofactor_ok 255515944373312847190720520512484175977 107590001"
proof (rule cofactor_eval [OF prime_107590001])
  show "255515944373312847190720520512484175977 = 107590001 * (2374904191824599455024826335976::nat) + 1" by (simp only: num_eval)
  show "reduces (int 255515944373312847190720520512484175977) (barrett 463168356949264781694283940034751631413079938662562256157830336031652518559744 1812678884228721423271971967514907515280 255515944373312847190720520512484175977)" by (simp add: reduces_barrett)
  show "(82381214149343919061612748413412685903::int) = 82381214149343919061612748413412685902 + 1" by (simp only: num_eval)
  show "82381214149343919061612748413412685902 * 235081362755335172132203715226758066727 = 1 + int 255515944373312847190720520512484175977 * 75792875216320803940127491159486690489" by (simp only: num_eval)
qed (simp_all only: pow2_eval num_eval)

lemma cofactor_255515944373312847190720520512484175977_1: "cofactor_ok 255515944373312847190720520512484175977 7240687"
proof (rule cofactor_eval [OF prime_7240687])
  show "255515944373312847190720520512484175977 = 7240687 * (35288908963101546467996824129048::nat) + 1" by (simp only: num_eval)
  show "reduces (int 255515944373312847190720520512484175977) (barrett 463168356949264781694283940034751631413079938662562256157830336031652518559744 1812678884228721423271971967514907515280 255515944373312847190720520512484175977)" by (simp add: reduces_barrett)
  show "(111233916942653821000329437866037388564::int) = 111233916942653821000329437866037388563 + 1" by (simp only: num_eval)
  show "111233916942653821000329437866037388563 * 175544394104025381149509263364095140941 = 1 + int 255515944373312847190720520512484175977 * 76419851612027529596436277344255632966" by (simp only: num_eval)
qed (simp_all only: pow2_eval num_eval)

lemma cofactor_255515944373312847190720520512484175977_2: "cofactor_ok 255515944373312847190720520512484175977 96557"
proof (rule cofactor_eval [OF prime_96557])
  show "255515944373312847190720520512484175977 = 96557 * (2646270538369179315748423423599368::nat) + 1" by (simp only: num_eval)
  show "reduces (int 255515944373312847190720520512484175977) (barrett 463168356949264781694283940034751631413079938662562256157830336031652518559744 1812678884228721423271971967514907515280 255515944373312847190720520512484175977)" by (simp add: reduces_barrett)
  show "(47418180093458530687350227428022525796::int) = 47418180093458530687350227428022525795 + 1" by (simp only: num_eval)
  show "47418180093458530687350227428022525795 * 52333299885033245219942804006191421971 = 1 + int 255515944373312847190720520512484175977 * 9711917762783113719871713016506270872" by (simp only: num_eval)
qed (simp_all only: pow2_eval num_eval)

lemma prime_255515944373312847190720520512484175977: "is_prime 255515944373312847190720520512484175977"
proof (rule pocklington2 [where qs = "[107590001, 7240687, 96557]"])
  show "255515944373312847190720520512484175977 = (255515944373312847190720520512484175976::nat) + 1" by (simp only: num_eval)
  show "2 ^ 255515944373312847190720520512484175976 mod int 255515944373312847190720520512484175977 = 1 mod int 255515944373312847190720520512484175977"
  proof (rule power_mod_eval)
    show "reduces (int 255515944373312847190720520512484175977) (barrett 463168356949264781694283940034751631413079938662562256157830336031652518559744 1812678884228721423271971967514907515280 255515944373312847190720520512484175977)" by (simp add: reduces_barrett)
    show "255515944373312847190720520512484175978 = 1 + int 255515944373312847190720520512484175977 * 1" by (simp only: num_eval)
  qed (simp only: pow2_eval)
  show "list_all (cofactor_ok 255515944373312847190720520512484175977) [107590001, 7240687, 96557]"
    by (simp only: list.pred_inject simp_thms cofactor_255515944373312847190720520512484175977_0 cofactor_255515944373312847190720520512484175977_1 cofactor_255515944373312847190720520512484175977_2)
qed (simp_all only: num_eval)

lemma cofactor_field_cofactor_0: "cofactor_ok 205115282021455665897114700593932402728804164701536103180137503955397371 255515944373312847190720520512484175977"
proof (rule cofactor_eval [OF prime_255515944373312847190720520512484175977])
  show "205115282021455665897114700593932402728804164701536103180137503955397371 = 255515944373312847190720520512484175977 * (802749442992798076634733441528810::nat) + 1" by (simp only: num_eval)
  show "reduces (int 205115282021455665897114700593932402728804164701536103180137503955397371) (fold2 115792089237316195423570985008687907853269984665640564039457584007913129639936 4294968274)" by (simp add: reduces_fold2)
  show "(6128487468239690641880689784747230967726432769667418121991287898962944569492::int) = 6128487468239690641880689784747230967726432769667418121991287898962944569491 + 1" by (simp only: num_eval)
  show "6128487468239690641880689784747230967726432769667418121991287898962944569491 * 81475874003799270243122483189086420723726815346591292526890606927317739 = 1 + int 205115282021455665897114700593932402728804164701536103180137503955397371 * 2434357244741662207757316289304439306447383659936261439546104359285446798288" by (simp only: num_eval)
qed (simp_all only: pow2_eval num_eval)

lemma prime_field_cofactor: "is_prime 205115282021455665897114700593932402728804164701536103180137503955397371"
proof (rule pocklington2 [where qs = "[255515944373312847190720520512484175977]"])
  show "205115282021455665897114700593932402728804164701536103180137503955397371 = (205115282021455665897114700593932402728804164701536103180137503955397370::nat) + 1" by (simp only: num_eval)
  show "2 ^ 205115282021455665897114700593932402728804164701536103180137503955397370 mod int 205115282021455665897114700593932402728804164701536103180137503955397371 = 1 mod int 205115282021455665897114700593932402728804164701536103180137503955397371"
  proof (rule power_mod_eval)
    show "reduces (int 205115282021455665897114700593932402728804164701536103180137503955397371) (fold2 115792089237316195423570985008687907853269984665640564039457584007913129639936 4294968274)" by (simp add: reduces_fold2)
    show "79260852394012919871628959718207952994867234128132282526971914415948607499192 = 1 + int 205115282021455665897114700593932402728804164701536103180137503955397371 * 386421" by (simp only: num_eval)
  qed (simp only: pow2_eval)
  show "list_all (cofactor_ok 205115282021455665897114700593932402728804164701536103180137503955397371) [255515944373312847190720520512484175977]"
    by (simp only: list.pred_inject simp_thms cofactor_field_cofactor_0)
qed (simp_all only: num_eval)

lemma cofactor_field_p_0: "cofactor_ok 115792089237316195423570985008687907853269984665640564039457584007908834671663 205115282021455665897114700593932402728804164701536103180137503955397371"
proof (rule cofactor_eval [OF prime_field_cofactor])
  show "115792089237316195423570985008687907853269984665640564039457584007908834671663 = 205115282021455665897114700593932402728804164701536103180137503955397371 * (564522::nat) + 1" by (simp only: num_eval)
  show "reduces (int 115792089237316195423570985008687907853269984665640564039457584007908834671663) (fold2 115792089237316195423570985008687907853269984665640564039457584007913129639936 4294968273)" by (simp add: reduces_fold2)
  show "(30133174243114333125352536507925183895021889065932097717961225114769139489296::int) = 30133174243114333125352536507925183895021889065932097717961225114769139489295 + 1" by (simp only: num_eval)
  show "30133174243114333125352536507925183895021889065932097717961225114769139489295 * 38738227534097492269493948901333532538630784921480042032654553727346127695815 = 1 + int 115792089237316195423570985008687907853269984665640564039457584007908834671663 * 10081049300025779439656074993348321903608605725784878135637996734732791756248" by (simp only: num_eval)
qed (simp_all only: pow2_eval num_eval)

lemma prime_field_p: "is_prime 115792089237316195423570985008687907853269984665640564039457584007908834671663"
proof (rule pocklington2 [where qs = "[205115282021455665897114700593932402728804164701536103180137503955397371]"])
  show "115792089237316195423570985008687907853269984665640564039457584007908834671663 = (115792089237316195423570985008687907853269984665640564039457584007908834671662::nat) + 1" by (simp only: num_eval)
  show "2 ^ 115792089237316195423570985008687907853269984665640564039457584007908834671662 mod int 115792089237316195423570985008687907853269984665640564039457584007908834671663 = 1 mod int 115792089237316195423570985008687907853269984665640564039457584007908834671663"
  proof (rule power_mod_eval)
    show "reduces (int 115792089237316195423570985008687907853269984665640564039457584007908834671663) (fold2 115792089237316195423570985008687907853269984665640564039457584007913129639936 4294968273)" by (simp add: reduces_fold2)
    show "115792089237316195423570985008687907853269984665640564039457584007908834671664 = 1 + int 115792089237316195423570985008687907853269984665640564039457584007908834671663 * 1" by (simp only: num_eval)
  qed (simp only: pow2_eval)
  show "list_all (cofactor_ok 115792089237316195423570985008687907853269984665640564039457584007908834671663) [205115282021455665897114700593932402728804164701536103180137503955397371]"
    by (simp only: list.pred_inject simp_thms cofactor_field_p_0)
qed (simp_all only: num_eval)

end
