(* ===== verification/Finite_Field.thy ===== *)
theory Finite_Field
  imports Main
begin

text \<open>
  Two facts about finite rings without zero divisors, shared by the coordinate field and the
  scalar field: nonzero elements are invertible, and Fermat's theorem. The theory models no code.
\<close>

text \<open>
  Multiplication by a nonzero element is injective on a finite set, so it is surjective.
\<close>

lemma finite_inverse_exists:
  fixes x :: "'a :: comm_ring_1"
  assumes fin: "finite (UNIV :: 'a set)" and nz: "\<And>y z. (y :: 'a) * z = 0 \<Longrightarrow> y = 0 \<or> z = 0" and x: "x \<noteq> 0"
  shows "\<exists>y. y * x = 1"
proof -
  have "inj (\<lambda>y. y * x)"
  proof (rule injI)
    fix y z assume "y * x = z * x"
    then have "(y - z) * x = 0" by (simp add: algebra_simps)
    then show "y = z" using x nz by fastforce
  qed
  then have "surj (\<lambda>y. y * x)"
    by (rule finite_UNIV_inj_surj [OF fin])
  then obtain y where "1 = y * x"
    by (rule surjE)
  then show ?thesis by (intro exI [of _ y]) simp
qed

lemma finite_fermat:
  fixes x :: "'a :: field"
  assumes fin: "finite (UNIV :: 'a set)" and x: "x \<noteq> 0"
  shows "x ^ (card (UNIV :: 'a set) - 1) = 1"
proof -
  define S where "S = (UNIV :: 'a set) - {0}"
  have S: "finite S" "card S = card (UNIV :: 'a set) - 1"
    using fin by (simp_all add: S_def)
  have "bij_betw (\<lambda>y. x * y) S S"
  proof (rule bij_betw_byWitness [where f' = "\<lambda>y. inverse x * y"])
    show "(\<lambda>y. x * y) ` S \<subseteq> S" "(\<lambda>y. inverse x * y) ` S \<subseteq> S"
      using x by (auto simp: S_def)
  qed (use x in \<open>auto simp: S_def simp flip: mult.assoc\<close>)
  then have "(\<Prod>y\<in>S. x * y) = (\<Prod>y\<in>S. y)"
    by (rule prod.reindex_bij_betw)
  then have "x ^ card S * (\<Prod>y\<in>S. y) = 1 * (\<Prod>y\<in>S. y)"
    by (simp add: prod.distrib)
  moreover have "(\<Prod>y\<in>S. y) \<noteq> 0"
    using S by (auto simp: S_def)
  ultimately show ?thesis
    using S by (metis mult_right_cancel)
qed

text \<open>Inversion as a power.\<close>

lemma finite_inverse_power:
  fixes x :: "'a :: field"
  assumes fin: "finite (UNIV :: 'a set)" and k: "card (UNIV :: 'a set) = k + 2" "0 < k"
  shows "x ^ k = inverse x"
proof (cases "x = 0")
  case False
  have "card (UNIV :: 'a set) - 1 = Suc k"
    using k by simp
  then have "x * x ^ k = 1"
    using finite_fermat [OF fin False] by simp
  then show ?thesis
    using False by (metis inverse_unique)
qed (use k in simp)

end
