(* ===== verification/Prime_Field.thy ===== *)
theory Prime_Field
  imports Primality Finite_Field "HOL-Library.Numeral_Type"
begin

text \<open>
  The abstract field of the curve's coordinates: the residues modulo the characteristic
  \<open>field_p\<close> of secp256k1 as a type \<open>fp\<close> with the library's \<open>field\<close> class. The limb
  representation of the code refines this type (theory \<open>Field\<close>), and the group formulas
  are polynomial identities over it (theory \<open>Group\<close>).
\<close>

definition field_p :: nat where
  "field_p = 0xFFFFFFFFFFFFFFFFFFFFFFFFFFFFFFFFFFFFFFFFFFFFFFFFFFFFFFFEFFFFFC2F"

lemma is_prime_field_p: "is_prime field_p"
  using prime_field_p by (simp add: field_p_def)

lemma field_p_gt_1: "1 < field_p"
  by (simp add: field_p_def)

section \<open>The type of residues\<close>

typedef fp = "{0 ..< int field_p}"
  by (rule exI [of _ 0]) (simp add: field_p_def)

instantiation fp :: "{zero, one, plus, minus, times, uminus}"
begin

definition "0 = Abs_fp 0"
definition "1 = Abs_fp 1"
definition "x + y = Abs_fp ((Rep_fp x + Rep_fp y) mod int field_p)"
definition "x - y = Abs_fp ((Rep_fp x - Rep_fp y) mod int field_p)"
definition "x * y = Abs_fp ((Rep_fp x * Rep_fp y) mod int field_p)"
definition "- x = Abs_fp ((- Rep_fp x) mod int field_p)"

instance ..

end

interpretation fp_mod: mod_type "int field_p" Rep_fp Abs_fp
proof (rule mod_type.intro)
  show "type_definition Rep_fp Abs_fp {0 ..< int field_p}"
    by (rule type_definition_fp)
  show "1 < int field_p"
    using field_p_gt_1 by simp
qed (simp_all add: zero_fp_def one_fp_def plus_fp_def minus_fp_def times_fp_def uminus_fp_def)

instance fp :: comm_ring_1
  by (rule fp_mod.comm_ring_1)

interpretation fp_ring: mod_ring "int field_p" Rep_fp Abs_fp ..

lemma of_int_fp_eq_iff: "(of_int a :: fp) = of_int b \<longleftrightarrow> a mod int field_p = b mod int field_p"
  by (metis fp_mod.Rep_Abs_mod fp_ring.of_int_eq)

lemma of_nat_fp_eq_iff: "(of_nat a :: fp) = of_nat b \<longleftrightarrow> a mod field_p = b mod field_p"
proof -
  have "(of_nat a :: fp) = of_nat b \<longleftrightarrow> int a mod int field_p = int b mod int field_p"
    using of_int_fp_eq_iff [of "int a" "int b"] by simp
  then show ?thesis
    by (simp flip: of_nat_mod)
qed

lemma of_nat_field_p [simp]: "(of_nat field_p :: fp) = 0"
  using of_nat_fp_eq_iff [of field_p 0] by simp

lemma fp_cases: "\<exists>n < field_p. (x :: fp) = of_nat n"
proof -
  have "x = of_int (Rep_fp x)" and r: "0 \<le> Rep_fp x" "Rep_fp x < int field_p"
    using Rep_fp [of x] by (simp_all add: fp_ring.of_int_eq Rep_fp_inverse)
  then have "x = of_nat (nat (Rep_fp x))"
    by (metis of_int_of_nat_eq int_nat_eq)
  moreover have "nat (Rep_fp x) < field_p"
    using r by linarith
  ultimately show ?thesis by blast
qed

lemma of_nat_mod_field_p [simp]: "(of_nat (a mod field_p) :: fp) = of_nat a"
  by (simp add: of_nat_fp_eq_iff)

text \<open>The canonical representative of a residue.\<close>

definition fp_nat :: "fp \<Rightarrow> nat" where
  "fp_nat x = nat (Rep_fp x)"

lemma fp_nat_lt: "fp_nat x < field_p"
  using Rep_fp [of x] by (auto simp: fp_nat_def)

lemma of_nat_fp_nat [simp]: "of_nat (fp_nat x) = x"
proof -
  have "of_int (Rep_fp x) = x"
    using Rep_fp [of x] by (simp add: fp_ring.of_int_eq Rep_fp_inverse)
  then show ?thesis
    using Rep_fp [of x] by (simp add: fp_nat_def)
qed

lemma fp_nat_of_nat: "fp_nat (of_nat a) = a mod field_p"
proof -
  have "(of_nat (fp_nat (of_nat a)) :: fp) = of_nat a" by simp
  then show ?thesis
    using fp_nat_lt [of "of_nat a"] unfolding of_nat_fp_eq_iff by simp
qed

lemma fp_nat_inject: "fp_nat x = fp_nat y \<longleftrightarrow> x = y"
  by (metis of_nat_fp_nat)

lemma fp_nat_0 [simp]: "fp_nat 0 = 0"
  using fp_nat_of_nat [of 0] by simp

lemma of_nat_fp_eq_0_iff: "(of_nat a :: fp) = 0 \<longleftrightarrow> field_p dvd a"
  using of_nat_fp_eq_iff [of a 0] by (simp add: dvd_eq_mod_eq_0)

lemma numeral_fp_eq_0_iff: "(numeral k :: fp) = 0 \<longleftrightarrow> field_p dvd numeral k"
  using of_nat_fp_eq_0_iff [of "numeral k"] by simp

section \<open>The field structure\<close>

text \<open>There are no zero divisors, because the characteristic is prime.\<close>

lemma fp_no_zero_divisors: "(x :: fp) * y = 0 \<Longrightarrow> x = 0 \<or> y = 0"
proof -
  assume "x * y = 0"
  moreover obtain a b where "x = of_nat a" "y = of_nat b"
    using fp_cases by blast
  ultimately show ?thesis
    using is_prime_dvd_mult [OF is_prime_field_p, of a b]
    by (simp add: of_nat_fp_eq_0_iff flip: of_nat_mult)
qed

lemma finite_fp: "finite (UNIV :: fp set)"
  unfolding type_definition.univ [OF type_definition_fp] by simp

lemma fp_inverse_exists: "(x :: fp) \<noteq> 0 \<Longrightarrow> \<exists>y. y * x = 1"
  by (rule finite_inverse_exists [OF finite_fp fp_no_zero_divisors])

instantiation fp :: field
begin

definition inverse_fp :: "fp \<Rightarrow> fp" where
  "inverse_fp x = (if x = 0 then 0 else (SOME y. y * x = 1))"

definition divide_fp :: "fp \<Rightarrow> fp \<Rightarrow> fp" where
  "divide_fp x y = x * inverse y"

instance
proof
  fix x y :: fp
  show "x \<noteq> 0 \<Longrightarrow> inverse x * x = 1"
    using someI_ex [OF fp_inverse_exists] by (simp add: inverse_fp_def)
  show "x div y = x * inverse y"
    by (rule divide_fp_def)
  show "inverse (0 :: fp) = 0"
    by (simp add: inverse_fp_def)
qed

end

instance fp :: finite
  by standard (rule finite_fp)

section \<open>Fermat's theorem, inverses and square roots by powers\<close>

lemma card_fp: "CARD(fp) = field_p"
  using fp_ring.CARD_eq by simp

lemma fp_fermat: "(x :: fp) \<noteq> 0 \<Longrightarrow> x ^ (field_p - 1) = 1"
  using finite_fermat [OF finite_fp] by (simp add: card_fp)

lemma fp_inverse_power: "(x :: fp) ^ (field_p - 2) = inverse x"
  by (rule finite_inverse_power [OF finite_fp]) (simp_all add: card_fp field_p_def)

definition fp_is_square :: "fp \<Rightarrow> bool" where
  "fp_is_square x \<longleftrightarrow> (\<exists>y. x = y ^ 2)"

definition fp_root :: "fp \<Rightarrow> fp" where
  "fp_root x = x ^ ((field_p + 1) div 4)"

text \<open>
  The characteristic is 3 modulo 4. The candidate root squares to \<open>x\<close> exactly when \<open>x\<close> is
  a square, and it is itself a square then, because the exponent is even.
\<close>

lemma fp_root_square_iff: "fp_root x ^ 2 = x \<longleftrightarrow> fp_is_square x"
proof
  assume "fp_root x ^ 2 = x"
  then show "fp_is_square x" by (metis fp_is_square_def)
next
  assume "fp_is_square x"
  then obtain y where y: "x = y ^ 2" by (auto simp: fp_is_square_def)
  have "2 * ((field_p + 1) div 4 * 2) = (field_p - 1) + 2"
    by (simp add: field_p_def)
  then have "fp_root x ^ 2 = y ^ ((field_p - 1) + 2)"
    unfolding fp_root_def y by (simp flip: power_mult)
  also have "\<dots> = y ^ 2"
    by (cases "y = 0") (simp_all add: power_add fp_fermat power2_eq_square del: One_nat_def)
  finally show "fp_root x ^ 2 = x" using y by simp
qed

lemma fp_root_is_square: "fp_is_square (fp_root x)"
proof -
  have "(field_p + 1) div 4 = 2 * ((field_p + 1) div 8)"
    by (simp add: field_p_def)
  then show ?thesis
    unfolding fp_root_def fp_is_square_def by (metis mult.commute power_mult)
qed

lemma fp_minus_one_not_square: "\<not> fp_is_square (- 1)"
proof
  assume "fp_is_square (- 1)"
  then have "fp_root (- 1) ^ 2 = - 1" by (simp add: fp_root_square_iff)
  moreover have "even ((field_p + 1) div 4)" by (simp add: field_p_def)
  then have "fp_root (- 1) = 1" by (simp add: fp_root_def)
  ultimately have "(1 :: fp) = - 1" by simp
  then have "(2 :: fp) = 0" by (metis add.right_inverse one_add_one)
  then show False using numeral_fp_eq_0_iff [of "num.Bit0 num.One"] by (simp add: field_p_def dvd_eq_mod_eq_0)
qed

lemma fp_square_minus:
  assumes "fp_is_square x" and "fp_is_square (- x)"
  shows "x = 0"
proof (rule ccontr)
  assume "x \<noteq> 0"
  from assms obtain y z where "x = y ^ 2" "- x = z ^ 2" by (auto simp: fp_is_square_def)
  with \<open>x \<noteq> 0\<close> have "- 1 = (z / y) ^ 2"
    by (simp add: power_divide field_simps)
  then show False using fp_minus_one_not_square fp_is_square_def by blast
qed

end
