(* ===== verification/Field.thy ===== *)
theory Field
  imports Prelude Prime_Field
begin

text \<open>
  Field elements: \<^verbatim>\<open>field_5x52.h\<close>, \<^verbatim>\<open>field_5x52_impl.h\<close> and the portable inner
  multiplication \<^verbatim>\<open>field_5x52_int128_impl.h\<close>. An element is five 64-bit limbs of weight
  \<open>2 ^ (52 * i)\<close>; a limb may exceed 52 bits, by a factor the code calls the magnitude.
  The refinement relation \<open>fe_is m x a\<close> says that the limbs of \<open>a\<close> respect magnitude \<open>m\<close>
  and represent the residue \<open>x\<close>; every operation has one rule for it, with the magnitude
  arithmetic that the comments and the \<^verbatim>\<open>VERIFY\<close> blocks of the code state. The C array
  \<^verbatim>\<open>n[5]\<close> is the five fields \<open>fe0\<close> to \<open>fe4\<close>; an output parameter is the result; a return
  code 0 or 1 is a \<open>bool\<close>.
\<close>

section \<open>Representation\<close>

record secp256k1_fe =
  fe0 :: u64
  fe1 :: u64
  fe2 :: u64
  fe3 :: u64
  fe4 :: u64

record secp256k1_fe_storage =
  fs0 :: u64
  fs1 :: u64
  fs2 :: u64
  fs3 :: u64

text \<open>Value, magnitude and the refinement relation.\<close>

definition fe_val :: "secp256k1_fe \<Rightarrow> nat" where
  "fe_val a = unat (fe0 a) + 2 ^ 52 * unat (fe1 a) + 2 ^ 104 * unat (fe2 a)
     + 2 ^ 156 * unat (fe3 a) + 2 ^ 208 * unat (fe4 a)"

definition fe_mag :: "nat \<Rightarrow> secp256k1_fe \<Rightarrow> bool" where
  "fe_mag m a \<longleftrightarrow>
     unat (fe0 a) \<le> 2 * m * 0xFFFFFFFFFFFFF \<and> unat (fe1 a) \<le> 2 * m * 0xFFFFFFFFFFFFF \<and>
     unat (fe2 a) \<le> 2 * m * 0xFFFFFFFFFFFFF \<and> unat (fe3 a) \<le> 2 * m * 0xFFFFFFFFFFFFF \<and>
     unat (fe4 a) \<le> 2 * m * 0xFFFFFFFFFFFF"

definition fe_is :: "nat \<Rightarrow> fp \<Rightarrow> secp256k1_fe \<Rightarrow> bool" where
  "fe_is m x a \<longleftrightarrow> fe_mag m a \<and> of_nat (fe_val a) = x"

text \<open>A normalized element: every limb within its 52 (the last 48) bits, value below \<open>field_p\<close>.\<close>

definition fe_normalized :: "secp256k1_fe \<Rightarrow> bool" where
  "fe_normalized a \<longleftrightarrow>
     unat (fe0 a) \<le> 0xFFFFFFFFFFFFF \<and> unat (fe1 a) \<le> 0xFFFFFFFFFFFFF \<and>
     unat (fe2 a) \<le> 0xFFFFFFFFFFFFF \<and> unat (fe3 a) \<le> 0xFFFFFFFFFFFFF \<and>
     unat (fe4 a) \<le> 0xFFFFFFFFFFFF \<and> fe_val a < field_p"

section \<open>Operations\<close>

definition secp256k1_fe_normalize :: "secp256k1_fe \<Rightarrow> secp256k1_fe" where
  "secp256k1_fe_normalize r = (
     let t0 = fe0 r; t1 = fe1 r; t2 = fe2 r; t3 = fe3 r; t4 = fe4 r;
         x = drop_bit 48 t4; t4 = t4 AND 0xFFFFFFFFFFFF;
         t0 = t0 + x * 0x1000003D1;
         t1 = t1 + drop_bit 52 t0; t0 = t0 AND 0xFFFFFFFFFFFFF;
         t2 = t2 + drop_bit 52 t1; t1 = t1 AND 0xFFFFFFFFFFFFF; m = t1;
         t3 = t3 + drop_bit 52 t2; t2 = t2 AND 0xFFFFFFFFFFFFF; m = m AND t2;
         t4 = t4 + drop_bit 52 t3; t3 = t3 AND 0xFFFFFFFFFFFFF; m = m AND t3;
         x = drop_bit 48 t4 OR of_bool (t4 = 0xFFFFFFFFFFFF \<and> m = 0xFFFFFFFFFFFFF \<and> 0xFFFFEFFFFFC2F \<le> t0);
         t0 = t0 + x * 0x1000003D1;
         t1 = t1 + drop_bit 52 t0; t0 = t0 AND 0xFFFFFFFFFFFFF;
         t2 = t2 + drop_bit 52 t1; t1 = t1 AND 0xFFFFFFFFFFFFF;
         t3 = t3 + drop_bit 52 t2; t2 = t2 AND 0xFFFFFFFFFFFFF;
         t4 = t4 + drop_bit 52 t3; t3 = t3 AND 0xFFFFFFFFFFFFF;
         t4 = t4 AND 0xFFFFFFFFFFFF
     in \<lparr>fe0 = t0, fe1 = t1, fe2 = t2, fe3 = t3, fe4 = t4\<rparr>)"

definition secp256k1_fe_normalize_weak :: "secp256k1_fe \<Rightarrow> secp256k1_fe" where
  "secp256k1_fe_normalize_weak r = (
     let t0 = fe0 r; t1 = fe1 r; t2 = fe2 r; t3 = fe3 r; t4 = fe4 r;
         x = drop_bit 48 t4; t4 = t4 AND 0xFFFFFFFFFFFF;
         t0 = t0 + x * 0x1000003D1;
         t1 = t1 + drop_bit 52 t0; t0 = t0 AND 0xFFFFFFFFFFFFF;
         t2 = t2 + drop_bit 52 t1; t1 = t1 AND 0xFFFFFFFFFFFFF;
         t3 = t3 + drop_bit 52 t2; t2 = t2 AND 0xFFFFFFFFFFFFF;
         t4 = t4 + drop_bit 52 t3; t3 = t3 AND 0xFFFFFFFFFFFFF
     in \<lparr>fe0 = t0, fe1 = t1, fe2 = t2, fe3 = t3, fe4 = t4\<rparr>)"

definition secp256k1_fe_normalize_var :: "secp256k1_fe \<Rightarrow> secp256k1_fe" where
  "secp256k1_fe_normalize_var r = (
     let t0 = fe0 r; t1 = fe1 r; t2 = fe2 r; t3 = fe3 r; t4 = fe4 r;
         x = drop_bit 48 t4; t4 = t4 AND 0xFFFFFFFFFFFF;
         t0 = t0 + x * 0x1000003D1;
         t1 = t1 + drop_bit 52 t0; t0 = t0 AND 0xFFFFFFFFFFFFF;
         t2 = t2 + drop_bit 52 t1; t1 = t1 AND 0xFFFFFFFFFFFFF; m = t1;
         t3 = t3 + drop_bit 52 t2; t2 = t2 AND 0xFFFFFFFFFFFFF; m = m AND t2;
         t4 = t4 + drop_bit 52 t3; t3 = t3 AND 0xFFFFFFFFFFFFF; m = m AND t3;
         x = drop_bit 48 t4 OR of_bool (t4 = 0xFFFFFFFFFFFF \<and> m = 0xFFFFFFFFFFFFF \<and> 0xFFFFEFFFFFC2F \<le> t0)
     in if x \<noteq> 0 then
          let t0 = t0 + 0x1000003D1;
              t1 = t1 + drop_bit 52 t0; t0 = t0 AND 0xFFFFFFFFFFFFF;
              t2 = t2 + drop_bit 52 t1; t1 = t1 AND 0xFFFFFFFFFFFFF;
              t3 = t3 + drop_bit 52 t2; t2 = t2 AND 0xFFFFFFFFFFFFF;
              t4 = t4 + drop_bit 52 t3; t3 = t3 AND 0xFFFFFFFFFFFFF;
              t4 = t4 AND 0xFFFFFFFFFFFF
          in \<lparr>fe0 = t0, fe1 = t1, fe2 = t2, fe3 = t3, fe4 = t4\<rparr>
        else \<lparr>fe0 = t0, fe1 = t1, fe2 = t2, fe3 = t3, fe4 = t4\<rparr>)"

definition secp256k1_fe_normalizes_to_zero :: "secp256k1_fe \<Rightarrow> bool" where
  "secp256k1_fe_normalizes_to_zero r = (
     let t0 = fe0 r; t1 = fe1 r; t2 = fe2 r; t3 = fe3 r; t4 = fe4 r;
         x = drop_bit 48 t4; t4 = t4 AND 0xFFFFFFFFFFFF;
         t0 = t0 + x * 0x1000003D1;
         t1 = t1 + drop_bit 52 t0; t0 = t0 AND 0xFFFFFFFFFFFFF; z0 = t0; z1 = t0 XOR 0x1000003D0;
         t2 = t2 + drop_bit 52 t1; t1 = t1 AND 0xFFFFFFFFFFFFF; z0 = z0 OR t1; z1 = z1 AND t1;
         t3 = t3 + drop_bit 52 t2; t2 = t2 AND 0xFFFFFFFFFFFFF; z0 = z0 OR t2; z1 = z1 AND t2;
         t4 = t4 + drop_bit 52 t3; t3 = t3 AND 0xFFFFFFFFFFFFF; z0 = z0 OR t3; z1 = z1 AND t3;
         z0 = z0 OR t4; z1 = z1 AND (t4 XOR 0xF000000000000)
     in z0 = 0 \<or> z1 = 0xFFFFFFFFFFFFF)"

definition secp256k1_fe_normalizes_to_zero_var :: "secp256k1_fe \<Rightarrow> bool" where
  "secp256k1_fe_normalizes_to_zero_var r = (
     let t0 = fe0 r; t4 = fe4 r;
         x = drop_bit 48 t4;
         t0 = t0 + x * 0x1000003D1;
         z0 = t0 AND 0xFFFFFFFFFFFFF; z1 = z0 XOR 0x1000003D0
     in if z0 \<noteq> 0 \<and> z1 \<noteq> 0xFFFFFFFFFFFFF then False
        else
          let t1 = fe1 r; t2 = fe2 r; t3 = fe3 r;
              t4 = t4 AND 0xFFFFFFFFFFFF;
              t1 = t1 + drop_bit 52 t0;
              t2 = t2 + drop_bit 52 t1; t1 = t1 AND 0xFFFFFFFFFFFFF; z0 = z0 OR t1; z1 = z1 AND t1;
              t3 = t3 + drop_bit 52 t2; t2 = t2 AND 0xFFFFFFFFFFFFF; z0 = z0 OR t2; z1 = z1 AND t2;
              t4 = t4 + drop_bit 52 t3; t3 = t3 AND 0xFFFFFFFFFFFFF; z0 = z0 OR t3; z1 = z1 AND t3;
              z0 = z0 OR t4; z1 = z1 AND (t4 XOR 0xF000000000000)
          in z0 = 0 \<or> z1 = 0xFFFFFFFFFFFFF)"

definition secp256k1_fe_set_int :: "int \<Rightarrow> secp256k1_fe" where
  "secp256k1_fe_set_int a = \<lparr>fe0 = of_int a, fe1 = 0, fe2 = 0, fe3 = 0, fe4 = 0\<rparr>"

definition secp256k1_fe_is_zero :: "secp256k1_fe \<Rightarrow> bool" where
  "secp256k1_fe_is_zero a \<longleftrightarrow> (fe0 a OR fe1 a OR fe2 a OR fe3 a OR fe4 a) = 0"

definition secp256k1_fe_is_odd :: "secp256k1_fe \<Rightarrow> bool" where
  "secp256k1_fe_is_odd a \<longleftrightarrow> fe0 a AND 1 \<noteq> 0"

definition secp256k1_fe_clear :: "secp256k1_fe" where
  "secp256k1_fe_clear = \<lparr>fe0 = 0, fe1 = 0, fe2 = 0, fe3 = 0, fe4 = 0\<rparr>"

text \<open>The loop runs over the limbs from the most significant one.\<close>

fun fe_cmp_limbs :: "(u64 \<times> u64) list \<Rightarrow> int" where
  "fe_cmp_limbs [] = 0"
| "fe_cmp_limbs ((x, y) # ls) = (if x > y then 1 else if x < y then - 1 else fe_cmp_limbs ls)"

definition secp256k1_fe_cmp_var :: "secp256k1_fe \<Rightarrow> secp256k1_fe \<Rightarrow> int" where
  "secp256k1_fe_cmp_var a b = fe_cmp_limbs
     [(fe4 a, fe4 b), (fe3 a, fe3 b), (fe2 a, fe2 b), (fe1 a, fe1 b), (fe0 a, fe0 b)]"

text \<open>The result carries the element that is written even when 0 is returned.\<close>

definition secp256k1_fe_set_b32 :: "u8 list \<Rightarrow> bool \<times> secp256k1_fe" where
  "secp256k1_fe_set_b32 a = (
     let r0 = ucast (a ! 31) OR push_bit 8 (ucast (a ! 30)) OR push_bit 16 (ucast (a ! 29))
            OR push_bit 24 (ucast (a ! 28)) OR push_bit 32 (ucast (a ! 27))
            OR push_bit 40 (ucast (a ! 26)) OR push_bit 48 (ucast (a ! 25 AND 0xF)) :: u64;
         r1 = ucast (drop_bit 4 (a ! 25) AND 0xF) OR push_bit 4 (ucast (a ! 24))
            OR push_bit 12 (ucast (a ! 23)) OR push_bit 20 (ucast (a ! 22))
            OR push_bit 28 (ucast (a ! 21)) OR push_bit 36 (ucast (a ! 20))
            OR push_bit 44 (ucast (a ! 19)) :: u64;
         r2 = ucast (a ! 18) OR push_bit 8 (ucast (a ! 17)) OR push_bit 16 (ucast (a ! 16))
            OR push_bit 24 (ucast (a ! 15)) OR push_bit 32 (ucast (a ! 14))
            OR push_bit 40 (ucast (a ! 13)) OR push_bit 48 (ucast (a ! 12 AND 0xF)) :: u64;
         r3 = ucast (drop_bit 4 (a ! 12) AND 0xF) OR push_bit 4 (ucast (a ! 11))
            OR push_bit 12 (ucast (a ! 10)) OR push_bit 20 (ucast (a ! 9))
            OR push_bit 28 (ucast (a ! 8)) OR push_bit 36 (ucast (a ! 7))
            OR push_bit 44 (ucast (a ! 6)) :: u64;
         r4 = ucast (a ! 5) OR push_bit 8 (ucast (a ! 4)) OR push_bit 16 (ucast (a ! 3))
            OR push_bit 24 (ucast (a ! 2)) OR push_bit 32 (ucast (a ! 1))
            OR push_bit 40 (ucast (a ! 0)) :: u64;
         r = \<lparr>fe0 = r0, fe1 = r1, fe2 = r2, fe3 = r3, fe4 = r4\<rparr>
     in if r4 = 0xFFFFFFFFFFFF \<and> (r3 AND r2 AND r1) = 0xFFFFFFFFFFFFF \<and> r0 \<ge> 0xFFFFEFFFFFC2F
        then (False, r) else (True, r))"

definition secp256k1_fe_get_b32 :: "secp256k1_fe \<Rightarrow> u8 list" where
  "secp256k1_fe_get_b32 a =
    [ucast (drop_bit 40 (fe4 a) AND 0xFF), ucast (drop_bit 32 (fe4 a) AND 0xFF),
     ucast (drop_bit 24 (fe4 a) AND 0xFF), ucast (drop_bit 16 (fe4 a) AND 0xFF),
     ucast (drop_bit 8 (fe4 a) AND 0xFF), ucast (fe4 a AND 0xFF),
     ucast (drop_bit 44 (fe3 a) AND 0xFF), ucast (drop_bit 36 (fe3 a) AND 0xFF),
     ucast (drop_bit 28 (fe3 a) AND 0xFF), ucast (drop_bit 20 (fe3 a) AND 0xFF),
     ucast (drop_bit 12 (fe3 a) AND 0xFF), ucast (drop_bit 4 (fe3 a) AND 0xFF),
     ucast ((drop_bit 48 (fe2 a) AND 0xF) OR push_bit 4 (fe3 a AND 0xF)),
     ucast (drop_bit 40 (fe2 a) AND 0xFF), ucast (drop_bit 32 (fe2 a) AND 0xFF),
     ucast (drop_bit 24 (fe2 a) AND 0xFF), ucast (drop_bit 16 (fe2 a) AND 0xFF),
     ucast (drop_bit 8 (fe2 a) AND 0xFF), ucast (fe2 a AND 0xFF),
     ucast (drop_bit 44 (fe1 a) AND 0xFF), ucast (drop_bit 36 (fe1 a) AND 0xFF),
     ucast (drop_bit 28 (fe1 a) AND 0xFF), ucast (drop_bit 20 (fe1 a) AND 0xFF),
     ucast (drop_bit 12 (fe1 a) AND 0xFF), ucast (drop_bit 4 (fe1 a) AND 0xFF),
     ucast ((drop_bit 48 (fe0 a) AND 0xF) OR push_bit 4 (fe1 a AND 0xF)),
     ucast (drop_bit 40 (fe0 a) AND 0xFF), ucast (drop_bit 32 (fe0 a) AND 0xFF),
     ucast (drop_bit 24 (fe0 a) AND 0xFF), ucast (drop_bit 16 (fe0 a) AND 0xFF),
     ucast (drop_bit 8 (fe0 a) AND 0xFF), ucast (fe0 a AND 0xFF)]"

definition secp256k1_fe_negate :: "secp256k1_fe \<Rightarrow> int \<Rightarrow> secp256k1_fe" where
  "secp256k1_fe_negate a m =
     \<lparr>fe0 = 0xFFFFEFFFFFC2F * 2 * of_int (m + 1) - fe0 a,
      fe1 = 0xFFFFFFFFFFFFF * 2 * of_int (m + 1) - fe1 a,
      fe2 = 0xFFFFFFFFFFFFF * 2 * of_int (m + 1) - fe2 a,
      fe3 = 0xFFFFFFFFFFFFF * 2 * of_int (m + 1) - fe3 a,
      fe4 = 0xFFFFFFFFFFFF * 2 * of_int (m + 1) - fe4 a\<rparr>"

definition secp256k1_fe_mul_int :: "secp256k1_fe \<Rightarrow> int \<Rightarrow> secp256k1_fe" where
  "secp256k1_fe_mul_int r a =
     \<lparr>fe0 = fe0 r * of_int a, fe1 = fe1 r * of_int a, fe2 = fe2 r * of_int a,
      fe3 = fe3 r * of_int a, fe4 = fe4 r * of_int a\<rparr>"

definition secp256k1_fe_add :: "secp256k1_fe \<Rightarrow> secp256k1_fe \<Rightarrow> secp256k1_fe" where
  "secp256k1_fe_add r a =
     \<lparr>fe0 = fe0 r + fe0 a, fe1 = fe1 r + fe1 a, fe2 = fe2 r + fe2 a,
      fe3 = fe3 r + fe3 a, fe4 = fe4 r + fe4 a\<rparr>"

definition secp256k1_fe_cmov :: "secp256k1_fe \<Rightarrow> secp256k1_fe \<Rightarrow> bool \<Rightarrow> secp256k1_fe" where
  "secp256k1_fe_cmov r a flag = (
     let mask0 = of_bool flag + NOT (0 :: u64); mask1 = NOT mask0
     in \<lparr>fe0 = (fe0 r AND mask0) OR (fe0 a AND mask1), fe1 = (fe1 r AND mask0) OR (fe1 a AND mask1),
         fe2 = (fe2 r AND mask0) OR (fe2 a AND mask1), fe3 = (fe3 r AND mask0) OR (fe3 a AND mask1),
         fe4 = (fe4 r AND mask0) OR (fe4 a AND mask1)\<rparr>)"

definition secp256k1_fe_storage_cmov ::
    "secp256k1_fe_storage \<Rightarrow> secp256k1_fe_storage \<Rightarrow> bool \<Rightarrow> secp256k1_fe_storage" where
  "secp256k1_fe_storage_cmov r a flag = (
     let mask0 = of_bool flag + NOT (0 :: u64); mask1 = NOT mask0
     in \<lparr>fs0 = (fs0 r AND mask0) OR (fs0 a AND mask1), fs1 = (fs1 r AND mask0) OR (fs1 a AND mask1),
         fs2 = (fs2 r AND mask0) OR (fs2 a AND mask1), fs3 = (fs3 r AND mask0) OR (fs3 a AND mask1)\<rparr>)"

definition secp256k1_fe_to_storage :: "secp256k1_fe \<Rightarrow> secp256k1_fe_storage" where
  "secp256k1_fe_to_storage a =
     \<lparr>fs0 = fe0 a OR push_bit 52 (fe1 a),
      fs1 = drop_bit 12 (fe1 a) OR push_bit 40 (fe2 a),
      fs2 = drop_bit 24 (fe2 a) OR push_bit 28 (fe3 a),
      fs3 = drop_bit 36 (fe3 a) OR push_bit 16 (fe4 a)\<rparr>"

definition secp256k1_fe_from_storage :: "secp256k1_fe_storage \<Rightarrow> secp256k1_fe" where
  "secp256k1_fe_from_storage a =
     \<lparr>fe0 = fs0 a AND 0xFFFFFFFFFFFFF,
      fe1 = drop_bit 52 (fs0 a) OR (push_bit 12 (fs1 a) AND 0xFFFFFFFFFFFFF),
      fe2 = drop_bit 40 (fs1 a) OR (push_bit 24 (fs2 a) AND 0xFFFFFFFFFFFFF),
      fe3 = drop_bit 28 (fs2 a) OR (push_bit 36 (fs3 a) AND 0xFFFFFFFFFFFFF),
      fe4 = drop_bit 16 (fs3 a)\<rparr>"

definition secp256k1_fe_mul_inner :: "secp256k1_fe \<Rightarrow> secp256k1_fe \<Rightarrow> secp256k1_fe" where
  "secp256k1_fe_mul_inner a b = (
     let a0 = ucast (fe0 a) :: u128; a1 = ucast (fe1 a) :: u128; a2 = ucast (fe2 a) :: u128;
         a3 = ucast (fe3 a) :: u128; a4 = ucast (fe4 a) :: u128;
         b0 = ucast (fe0 b) :: u128; b1 = ucast (fe1 b) :: u128; b2 = ucast (fe2 b) :: u128;
         b3 = ucast (fe3 b) :: u128; b4 = ucast (fe4 b) :: u128;
         d = a0 * b3 + a1 * b2 + a2 * b1 + a3 * b0;
         c = a4 * b4;
         d = d + (c AND 0xFFFFFFFFFFFFF) * 0x1000003D10;
         c = drop_bit 52 c;
         t3 = ucast (d AND 0xFFFFFFFFFFFFF) :: u64;
         d = drop_bit 52 d;
         d = d + (a0 * b4 + a1 * b3 + a2 * b2 + a3 * b1 + a4 * b0);
         d = d + c * 0x1000003D10;
         t4 = ucast (d AND 0xFFFFFFFFFFFFF) :: u64;
         d = drop_bit 52 d;
         tx = drop_bit 48 t4;
         t4 = t4 AND 0xFFFFFFFFFFFF;
         c = a0 * b0;
         d = d + (a1 * b4 + a2 * b3 + a3 * b2 + a4 * b1);
         u0 = ucast (d AND 0xFFFFFFFFFFFFF) :: u64;
         d = drop_bit 52 d;
         u0 = push_bit 4 u0 OR tx;
         c = c + ucast u0 * drop_bit 4 0x1000003D10;
         r0 = ucast (c AND 0xFFFFFFFFFFFFF) :: u64;
         c = drop_bit 52 c;
         c = c + (a0 * b1 + a1 * b0);
         d = d + (a2 * b4 + a3 * b3 + a4 * b2);
         c = c + (d AND 0xFFFFFFFFFFFFF) * 0x1000003D10;
         d = drop_bit 52 d;
         r1 = ucast (c AND 0xFFFFFFFFFFFFF) :: u64;
         c = drop_bit 52 c;
         c = c + (a0 * b2 + a1 * b1 + a2 * b0);
         d = d + (a3 * b4 + a4 * b3);
         c = c + (d AND 0xFFFFFFFFFFFFF) * 0x1000003D10;
         d = drop_bit 52 d;
         r2 = ucast (c AND 0xFFFFFFFFFFFFF) :: u64;
         c = drop_bit 52 c;
         c = c + (d * 0x1000003D10 + ucast t3);
         r3 = ucast (c AND 0xFFFFFFFFFFFFF) :: u64;
         c = drop_bit 52 c;
         c = c + ucast t4;
         r4 = ucast c :: u64
     in \<lparr>fe0 = r0, fe1 = r1, fe2 = r2, fe3 = r3, fe4 = r4\<rparr>)"

text \<open>In the squaring the temporaries \<open>t3\<close>, \<open>t4\<close>, \<open>tx\<close>, \<open>u0\<close> are signed integers.\<close>

definition secp256k1_fe_sqr_inner :: "secp256k1_fe \<Rightarrow> secp256k1_fe" where
  "secp256k1_fe_sqr_inner a = (
     let a0 = fe0 a; a1 = fe1 a; a2 = fe2 a; a3 = fe3 a; a4 = fe4 a;
         d = (ucast (a0 * 2) :: u128) * ucast a3 + (ucast (a1 * 2) :: u128) * ucast a2;
         c = (ucast a4 :: u128) * ucast a4;
         d = d + (c AND 0xFFFFFFFFFFFFF) * 0x1000003D10;
         c = drop_bit 52 c;
         t3 = ucast (d AND 0xFFFFFFFFFFFFF) :: u64;
         d = drop_bit 52 d;
         a4 = a4 * 2;
         d = d + ((ucast a0 :: u128) * ucast a4 + (ucast (a1 * 2) :: u128) * ucast a3
                  + (ucast a2 :: u128) * ucast a2);
         d = d + c * 0x1000003D10;
         t4 = ucast (d AND 0xFFFFFFFFFFFFF) :: u64;
         d = drop_bit 52 d;
         tx = signed_drop_bit 48 t4;
         t4 = t4 AND 0xFFFFFFFFFFFF;
         c = (ucast a0 :: u128) * ucast a0;
         d = d + ((ucast a1 :: u128) * ucast a4 + (ucast (a2 * 2) :: u128) * ucast a3);
         u0 = ucast (d AND 0xFFFFFFFFFFFFF) :: u64;
         d = drop_bit 52 d;
         u0 = push_bit 4 u0 OR tx;
         c = c + scast u0 * drop_bit 4 0x1000003D10;
         r0 = ucast (c AND 0xFFFFFFFFFFFFF) :: u64;
         c = drop_bit 52 c;
         a0 = a0 * 2;
         c = c + (ucast a0 :: u128) * ucast a1;
         d = d + ((ucast a2 :: u128) * ucast a4 + (ucast a3 :: u128) * ucast a3);
         c = c + (d AND 0xFFFFFFFFFFFFF) * 0x1000003D10;
         d = drop_bit 52 d;
         r1 = ucast (c AND 0xFFFFFFFFFFFFF) :: u64;
         c = drop_bit 52 c;
         c = c + ((ucast a0 :: u128) * ucast a2 + (ucast a1 :: u128) * ucast a1);
         d = d + (ucast a3 :: u128) * ucast a4;
         c = c + (d AND 0xFFFFFFFFFFFFF) * 0x1000003D10;
         d = drop_bit 52 d;
         r2 = ucast (c AND 0xFFFFFFFFFFFFF) :: u64;
         c = drop_bit 52 c;
         c = c + (d * 0x1000003D10 + scast t3);
         r3 = ucast (c AND 0xFFFFFFFFFFFFF) :: u64;
         c = drop_bit 52 c;
         c = c + scast t4;
         r4 = ucast c :: u64
     in \<lparr>fe0 = r0, fe1 = r1, fe2 = r2, fe3 = r3, fe4 = r4\<rparr>)"

definition secp256k1_fe_mul :: "secp256k1_fe \<Rightarrow> secp256k1_fe \<Rightarrow> secp256k1_fe" where
  "secp256k1_fe_mul a b = secp256k1_fe_mul_inner a b"

definition secp256k1_fe_sqr :: "secp256k1_fe \<Rightarrow> secp256k1_fe" where
  "secp256k1_fe_sqr a = secp256k1_fe_sqr_inner a"

section \<open>Multiplication\<close>

named_theorems fe_rules "what each field operation does to value and magnitude"

lemma fe_isI:
  assumes "bnd r0 v0 B0" "bnd r1 v1 B1" "bnd r2 v2 B2" "bnd r3 v3 B3" "bnd r4 v4 B4"
    and "B0 \<le> 2 * m * 0xFFFFFFFFFFFFF" "B1 \<le> 2 * m * 0xFFFFFFFFFFFFF"
      "B2 \<le> 2 * m * 0xFFFFFFFFFFFFF" "B3 \<le> 2 * m * 0xFFFFFFFFFFFFF" "B4 \<le> 2 * m * 0xFFFFFFFFFFFF"
    and "of_nat (v0 + 2 ^ 52 * v1 + 2 ^ 104 * v2 + 2 ^ 156 * v3 + 2 ^ 208 * v4) = x"
  shows "fe_is m x \<lparr>fe0 = r0, fe1 = r1, fe2 = r2, fe3 = r3, fe4 = r4\<rparr>"
proof -
  have "unat r0 = v0" "unat r1 = v1" "unat r2 = v2" "unat r3 = v3" "unat r4 = v4"
    using assms(1-5) by (simp_all add: bnd_def)
  moreover have "v0 \<le> B0" "v1 \<le> B1" "v2 \<le> B2" "v3 \<le> B3" "v4 \<le> B4"
    using assms(1-5) by (simp_all add: bnd_def)
  ultimately show ?thesis
    unfolding fe_is_def fe_mag_def fe_val_def using assms(6-) by simp
qed

lemma fe_mag_bnd:
  assumes "fe_mag m a"
  shows "bnd (fe0 a) (unat (fe0 a)) (2 * m * 0xFFFFFFFFFFFFF)"
    and "bnd (fe1 a) (unat (fe1 a)) (2 * m * 0xFFFFFFFFFFFFF)"
    and "bnd (fe2 a) (unat (fe2 a)) (2 * m * 0xFFFFFFFFFFFFF)"
    and "bnd (fe3 a) (unat (fe3 a)) (2 * m * 0xFFFFFFFFFFFFF)"
    and "bnd (fe4 a) (unat (fe4 a)) (2 * m * 0xFFFFFFFFFFFF)"
  using assms by (simp_all add: fe_mag_def bnd_def)

lemma fe_mag_mono: "fe_mag m a \<Longrightarrow> m \<le> k \<Longrightarrow> fe_mag k a"
proof -
  assume m: "fe_mag m a" and le: "m \<le> k"
  have "2 * m * B \<le> 2 * k * B" for B :: nat
    using le by simp
  then show "fe_mag k a"
    using m unfolding fe_mag_def by (meson order_trans)
qed

lemma fe_is_mono: "fe_is m x a \<Longrightarrow> m \<le> k \<Longrightarrow> fe_is k x a"
  by (auto simp: fe_is_def intro: fe_mag_mono)

text \<open>
  The carry chain of the multiplication as a system of equations: \<open>p0\<close> to \<open>p8\<close> are the
  column sums of the product, every other variable a temporary of the code.
\<close>

lemma fe_mul_columns:
  fixes p0 p1 p2 p3 p4 p5 p6 p7 p8 :: int
  assumes "p8 = 2 ^ 52 * c1 + l0"
    and "p3 + l0 * 0x1000003D10 = 2 ^ 52 * d2 + t3"
    and "d2 + p4 + c1 * 0x1000003D10 = 2 ^ 52 * d5 + 2 ^ 48 * tx + t4"
    and "d5 + p5 = 2 ^ 52 * d7 + u0"
    and "u1 = 2 ^ 4 * u0 + tx"
    and "p0 + u1 * 0x1000003D1 = 2 ^ 52 * c4 + r0"
    and "d7 + p6 = 2 ^ 52 * d9 + l8"
    and "c4 + p1 + l8 * 0x1000003D10 = 2 ^ 52 * c7 + r1"
    and "d9 + p7 = 2 ^ 52 * d11 + l10"
    and "c7 + p2 + l10 * 0x1000003D10 = 2 ^ 52 * c10 + r2"
    and "c10 + (d11 * 0x1000003D10 + t3) = 2 ^ 52 * c12 + r3"
    and "r4 = c12 + t4"
  shows "p0 + 2 ^ 52 * p1 + 2 ^ 104 * p2 + 2 ^ 156 * p3 + 2 ^ 208 * p4 + 2 ^ 260 * p5
      + 2 ^ 312 * p6 + 2 ^ 364 * p7 + 2 ^ 416 * p8 =
    r0 + 2 ^ 52 * r1 + 2 ^ 104 * r2 + 2 ^ 156 * r3 + 2 ^ 208 * r4 +
    int field_p * (2 ^ 160 * l0 + 2 ^ 212 * c1 + u1 + 2 ^ 56 * l8 + 2 ^ 108 * l10 + 2 ^ 160 * d11)"
proof -
  have e: "p3 = 2 ^ 52 * d2 + t3 - l0 * 0x1000003D10"
     "p4 = 2 ^ 52 * d5 + 2 ^ 48 * tx + t4 - d2 - c1 * 0x1000003D10"
     "p5 = 2 ^ 52 * d7 + u0 - d5" "p0 = 2 ^ 52 * c4 + r0 - u1 * 0x1000003D1"
     "p6 = 2 ^ 52 * d9 + l8 - d7" "p1 = 2 ^ 52 * c7 + r1 - c4 - l8 * 0x1000003D10"
     "p7 = 2 ^ 52 * d11 + l10 - d9" "p2 = 2 ^ 52 * c10 + r2 - c7 - l10 * 0x1000003D10"
     "r3 = c10 + (d11 * 0x1000003D10 + t3) - 2 ^ 52 * c12"
    using assms by simp_all
  show ?thesis
    unfolding e assms(1,5,12) field_p_def by (simp add: algebra_simps)
qed

lemma split52: "int x = 2 ^ 52 * int (x div 2 ^ 52) + int (x mod 0x10000000000000)"
proof -
  have "x = 2 ^ 52 * (x div 2 ^ 52) + x mod 0x10000000000000" by simp
  then have "int x = int (2 ^ 52 * (x div 2 ^ 52) + x mod 0x10000000000000)" by (rule arg_cong)
  then show ?thesis by (simp only: of_nat_add of_nat_mult of_nat_power of_nat_numeral)
qed

lemma split48: "int x = 2 ^ 48 * int (x div 2 ^ 48) + int (x mod 0x1000000000000)"
proof -
  have "x = 2 ^ 48 * (x div 2 ^ 48) + x mod 0x1000000000000" by simp
  then have "int x = int (2 ^ 48 * (x div 2 ^ 48) + x mod 0x1000000000000)" by (rule arg_cong)
  then show ?thesis by (simp only: of_nat_add of_nat_mult of_nat_power of_nat_numeral)
qed

lemma of_nat_fp_add_mult: "int X = int Y + int field_p * k \<Longrightarrow> (of_nat Y :: fp) = of_nat X"
proof -
  assume "int X = int Y + int field_p * k"
  then have "(of_int (int X) :: fp) = of_int (int Y + int field_p * k)" by simp
  then show ?thesis by simp
qed

text \<open>
  The equations the code's assignments leave, last assignment first, and the residue they
  determine; \<open>p0\<close> to \<open>p8\<close> are the column sums.
\<close>

lemma fe_mul_exec:
  fixes p0 p1 p2 p3 p4 p5 p6 p7 p8 :: nat
  assumes r4: "r4 = s4" "s4 = c12 + t4"
    and r3: "r3 = e3 mod 0x10000000000000" "c12 = e3 div 2 ^ 52" "e3 = c10 + (d11 * 0x1000003D10 + t3)"
    and r2: "r2 = e2 mod 0x10000000000000" "c10 = e2 div 2 ^ 52" "e2 = g2 + h10 mod 0x10000000000000 * 0x1000003D10"
      "g2 = c7 + p2" "d11 = h10 div 2 ^ 52" "h10 = d9 + p7"
    and r1: "r1 = e1 mod 0x10000000000000" "c7 = e1 div 2 ^ 52" "e1 = g1 + h8 mod 0x10000000000000 * 0x1000003D10"
      "g1 = c4 + p1" "d9 = h8 div 2 ^ 52" "h8 = d7 + p6"
    and r0: "r0 = e0 mod 0x10000000000000" "c4 = e0 div 2 ^ 52" "e0 = p0' + u1 * (0x1000003D10 div 2 ^ 4)"
      "u1 = u0 * 2 ^ 4 + tx" "d7 = h6 div 2 ^ 52" "u0 = h6 mod 0x10000000000000" "h6 = d5 + p5" "p0' = p0"
    and t4: "t4 = t4' mod 0x1000000000000" "tx = t4' div 2 ^ 48" "d5 = h4 div 2 ^ 52"
      "t4' = h4 mod 0x10000000000000" "h4 = g4 + c1 * 0x1000003D10" "g4 = d2 + p4"
    and t3: "d2 = h2 div 2 ^ 52" "t3 = h2 mod 0x10000000000000" "c1 = c0 div 2 ^ 52"
      "h2 = g3 + c0 mod 0x10000000000000 * 0x1000003D10" "c0 = p8" "g3 = p3"
    and x: "of_nat (p0 + 2 ^ 52 * p1 + 2 ^ 104 * p2 + 2 ^ 156 * p3 + 2 ^ 208 * p4 + 2 ^ 260 * p5
      + 2 ^ 312 * p6 + 2 ^ 364 * p7 + 2 ^ 416 * p8) = (x :: fp)"
  shows "of_nat (r0 + 2 ^ 52 * r1 + 2 ^ 104 * r2 + 2 ^ 156 * r3 + 2 ^ 208 * r4) = x"
proof -
  let ?l0 = "c0 mod 0x10000000000000" and ?l8 = "h8 mod 0x10000000000000" and ?l10 = "h10 mod 0x10000000000000"
  note int = of_nat_add of_nat_mult of_nat_numeral of_nat_power
  have "int p8 = 2 ^ 52 * int c1 + int ?l0"
    using split52 [of c0, folded t3(3)] by (simp only: t3(5))
  moreover have "int p3 + int ?l0 * 0x1000003D10 = 2 ^ 52 * int d2 + int t3"
    using split52 [of h2, folded t3(1,2)] by (simp only: t3(4,6) int)
  moreover have "int d2 + int p4 + int c1 * 0x1000003D10 = 2 ^ 52 * int d5 + 2 ^ 48 * int tx + int t4"
    using split52 [of h4, folded t4(3,4)] unfolding split48 [of t4', folded t4(1,2)]
    by (simp only: t4(5,6) int add.assoc)
  moreover have "int d5 + int p5 = 2 ^ 52 * int d7 + int u0"
    using split52 [of h6, folded r0(5,6)] by (simp only: r0(7) int)
  moreover have "int u1 = 2 ^ 4 * int u0 + int tx"
    by (simp only: r0(4) int mult.commute)
  moreover have "int p0 + int u1 * 0x1000003D1 = 2 ^ 52 * int c4 + int r0"
    using split52 [of e0, folded r0(1,2)] by (simp add: r0(3,8))
  moreover have "int d7 + int p6 = 2 ^ 52 * int d9 + int ?l8"
    using split52 [of h8, folded r1(5)] by (simp only: r1(6) int)
  moreover have "int c4 + int p1 + int ?l8 * 0x1000003D10 = 2 ^ 52 * int c7 + int r1"
    using split52 [of e1, folded r1(1,2)] by (simp only: r1(3,4) int)
  moreover have "int d9 + int p7 = 2 ^ 52 * int d11 + int ?l10"
    using split52 [of h10, folded r2(5)] by (simp only: r2(6) int)
  moreover have "int c7 + int p2 + int ?l10 * 0x1000003D10 = 2 ^ 52 * int c10 + int r2"
    using split52 [of e2, folded r2(1,2)] by (simp only: r2(3,4) int)
  moreover have "int c10 + (int d11 * 0x1000003D10 + int t3) = 2 ^ 52 * int c12 + int r3"
    using split52 [of e3, folded r3(1,2)] by (simp only: r3(3) int)
  moreover have "int r4 = int c12 + int t4"
    by (simp only: r4 int)
  ultimately have "int p0 + 2 ^ 52 * int p1 + 2 ^ 104 * int p2 + 2 ^ 156 * int p3 + 2 ^ 208 * int p4
      + 2 ^ 260 * int p5 + 2 ^ 312 * int p6 + 2 ^ 364 * int p7 + 2 ^ 416 * int p8 =
    int r0 + 2 ^ 52 * int r1 + 2 ^ 104 * int r2 + 2 ^ 156 * int r3 + 2 ^ 208 * int r4 + int field_p *
      (2 ^ 160 * int ?l0 + 2 ^ 212 * int c1 + int u1 + 2 ^ 56 * int ?l8 + 2 ^ 108 * int ?l10 + 2 ^ 160 * int d11)"
    by (rule fe_mul_columns)
  then have "int (p0 + 2 ^ 52 * p1 + 2 ^ 104 * p2 + 2 ^ 156 * p3 + 2 ^ 208 * p4
      + 2 ^ 260 * p5 + 2 ^ 312 * p6 + 2 ^ 364 * p7 + 2 ^ 416 * p8) =
    int (r0 + 2 ^ 52 * r1 + 2 ^ 104 * r2 + 2 ^ 156 * r3 + 2 ^ 208 * r4) + int field_p *
      (2 ^ 160 * int ?l0 + 2 ^ 212 * int c1 + int u1 + 2 ^ 56 * int ?l8 + 2 ^ 108 * int ?l10 + 2 ^ 160 * int d11)"
    by (simp only: of_nat_add of_nat_mult of_nat_power of_nat_numeral)
  then show ?thesis
    unfolding x [symmetric] by (rule of_nat_fp_add_mult)
qed

text \<open>The column sums of a product and of a square.\<close>

lemma fe_mul_sum:
  assumes "a0 = unat (fe0 a)" "a1 = unat (fe1 a)" "a2 = unat (fe2 a)" "a3 = unat (fe3 a)" "a4 = unat (fe4 a)"
    and "b0 = unat (fe0 b)" "b1 = unat (fe1 b)" "b2 = unat (fe2 b)" "b3 = unat (fe3 b)" "b4 = unat (fe4 b)"
  shows "of_nat (a0 * b0 + 2 ^ 52 * (a0 * b1 + a1 * b0) + 2 ^ 104 * (a0 * b2 + a1 * b1 + a2 * b0)
      + 2 ^ 156 * (a0 * b3 + a1 * b2 + a2 * b1 + a3 * b0)
      + 2 ^ 208 * (a0 * b4 + a1 * b3 + a2 * b2 + a3 * b1 + a4 * b0)
      + 2 ^ 260 * (a1 * b4 + a2 * b3 + a3 * b2 + a4 * b1) + 2 ^ 312 * (a2 * b4 + a3 * b3 + a4 * b2)
      + 2 ^ 364 * (a3 * b4 + a4 * b3) + 2 ^ 416 * (a4 * b4)) = (of_nat (fe_val a) * of_nat (fe_val b) :: fp)"
  unfolding fe_val_def assms [symmetric] of_nat_mult [symmetric]
  by (rule arg_cong [where f = of_nat]) (simp add: algebra_simps)

lemma fe_sqr_sum:
  assumes "a0' = a0 * 2" "a4' = a4 * 2"
    and "a0 = unat (fe0 a)" "a1 = unat (fe1 a)" "a2 = unat (fe2 a)" "a3 = unat (fe3 a)" "a4 = unat (fe4 a)"
  shows "of_nat (a0 * a0 + 2 ^ 52 * (a0' * a1) + 2 ^ 104 * (a0' * a2 + a1 * a1)
      + 2 ^ 156 * (a0 * 2 * a3 + a1 * 2 * a2) + 2 ^ 208 * (a0 * a4' + a1 * 2 * a3 + a2 * a2)
      + 2 ^ 260 * (a1 * a4' + a2 * 2 * a3) + 2 ^ 312 * (a2 * a4' + a3 * a3)
      + 2 ^ 364 * (a3 * a4') + 2 ^ 416 * (a4 * a4)) = (of_nat (fe_val a) * of_nat (fe_val a) :: fp)"
  unfolding fe_val_def assms(3-7) [symmetric] of_nat_mult [symmetric] assms(1,2)
  by (rule arg_cong [where f = of_nat]) (simp add: algebra_simps)

lemma fe_mag8_bnd:
  assumes "fe_mag 8 a"
  shows "bnd (fe0 a) (unat (fe0 a)) 0xFFFFFFFFFFFFF0"
    and "bnd (fe1 a) (unat (fe1 a)) 0xFFFFFFFFFFFFF0"
    and "bnd (fe2 a) (unat (fe2 a)) 0xFFFFFFFFFFFFF0"
    and "bnd (fe3 a) (unat (fe3 a)) 0xFFFFFFFFFFFFF0"
    and "bnd (fe4 a) (unat (fe4 a)) 0xFFFFFFFFFFFF0"
  using assms by (simp_all add: fe_mag_def bnd_def)

lemma fe_mul_inner_is:
  assumes a: "fe_mag 8 a" and b: "fe_mag 8 b"
  shows "fe_is 1 (of_nat (fe_val a) * of_nat (fe_val b)) (secp256k1_fe_mul_inner a b)" (is "fe_is 1 ?x _")
  unfolding secp256k1_fe_mul_inner_def
  apply ((rule let_bnd [where P="fe_is 1 ?x"],
      ((assumption | rule fe_mag8_bnd [OF a] fe_mag8_bnd [OF b] bnd_rules | simp (no_asm))+)[1], (simp (no_asm))[1])+)
  apply (rule fe_isI, assumption+)
  apply ((simp (no_asm))[1], (simp (no_asm))[1], (simp (no_asm))[1], (simp (no_asm))[1], (simp (no_asm))[1])
  apply (rule fe_mul_exec, assumption+)
  apply (rule fe_mul_sum, assumption+)
  done

lemma fe_sqr_inner_is:
  assumes a: "fe_mag 8 a"
  shows "fe_is 1 (of_nat (fe_val a) * of_nat (fe_val a)) (secp256k1_fe_sqr_inner a)" (is "fe_is 1 ?x _")
  unfolding secp256k1_fe_sqr_inner_def
  apply ((rule let_bnd [where P="fe_is 1 ?x"],
      ((assumption | rule fe_mag8_bnd [OF a] bnd_rules | simp (no_asm))+)[1], (simp (no_asm))[1])+)
  apply (rule fe_isI, assumption+)
  apply ((simp (no_asm))[1], (simp (no_asm))[1], (simp (no_asm))[1], (simp (no_asm))[1], (simp (no_asm))[1])
  apply (rule fe_mul_exec, assumption+)
  apply (rule fe_sqr_sum, assumption+)
  done

lemma secp256k1_fe_mul_is [fe_rules]:
  assumes "fe_is 8 x a" "fe_is 8 y b"
  shows "fe_is 1 (x * y) (secp256k1_fe_mul a b)"
  using fe_mul_inner_is [of a b] assms by (simp add: secp256k1_fe_mul_def fe_is_def)

lemma secp256k1_fe_sqr_is [fe_rules]:
  assumes "fe_is 8 x a"
  shows "fe_is 1 (x * x) (secp256k1_fe_sqr a)"
  using fe_sqr_inner_is [of a] assms by (simp add: secp256k1_fe_sqr_def fe_is_def)

section \<open>Linear operations\<close>

text \<open>The largest limbs of magnitude \<open>m \<le> 2048\<close> fit a 64-bit word.\<close>

lemma fe_limb_fits:
  assumes "m \<le> 2048"
  shows "2 * m * 0xFFFFFFFFFFFFF < (2::nat) ^ 64" "2 * m * 0xFFFFFFFFFFFF < (2::nat) ^ 64"
  using assms by simp_all

lemma unat_add_le:
  fixes a b :: "'a::len word"
  assumes "unat a \<le> A" "unat b \<le> B" "A + B < 2 ^ LENGTH('a)"
  shows "unat (a + b) = unat a + unat b"
  using bnd_add [OF bnd_self [OF assms(1)] bnd_self [OF assms(2)] assms(3)] by (rule bnd_unat)

lemma secp256k1_fe_add_is [fe_rules]:
  assumes r: "fe_is m x r" and a: "fe_is k y a" and le: "m + k \<le> 2048"
  shows "fe_is (m + k) (x + y) (secp256k1_fe_add r a)"
proof -
  have b: "unat (u + v) = unat u + unat v" "unat (u + v) \<le> 2 * (m + k) * B"
    if "unat u \<le> 2 * m * B" "unat v \<le> 2 * k * B" "B \<le> 0xFFFFFFFFFFFFF" for u v :: u64 and B
  proof -
    have "2 * m * B + 2 * k * B \<le> 2 * (m + k) * 0xFFFFFFFFFFFFF"
      using mult_le_mono2 [OF that(3), of "2 * (m + k)"] by (simp add: algebra_simps)
    also have "\<dots> < 2 ^ 64" by (rule fe_limb_fits [OF le])
    finally show "unat (u + v) = unat u + unat v"
      using that by (intro unat_add_le) simp_all
    then show "unat (u + v) \<le> 2 * (m + k) * B"
      using that by (simp add: algebra_simps)
  qed
  note R = r [unfolded fe_is_def fe_mag_def] and A = a [unfolded fe_is_def fe_mag_def]
  have "unat (fe0 r + fe0 a) = unat (fe0 r) + unat (fe0 a)" "unat (fe1 r + fe1 a) = unat (fe1 r) + unat (fe1 a)"
      "unat (fe2 r + fe2 a) = unat (fe2 r) + unat (fe2 a)" "unat (fe3 r + fe3 a) = unat (fe3 r) + unat (fe3 a)"
    by (rule b(1) [where B = "0xFFFFFFFFFFFFF"], use R A in blast, use R A in blast, rule order_refl)+
  moreover have "unat (fe4 r + fe4 a) = unat (fe4 r) + unat (fe4 a)"
    by (rule b(1) [where B = "0xFFFFFFFFFFFF"], use R A in blast, use R A in blast, simp)
  ultimately have "fe_val (secp256k1_fe_add r a) = fe_val r + fe_val a"
    by (simp add: fe_val_def secp256k1_fe_add_def)
  moreover have "fe_mag (m + k) (secp256k1_fe_add r a)"
    using R A by (simp only: fe_mag_def secp256k1_fe_add_def secp256k1_fe.simps) (intro conjI b(2); (use R A in blast)?; simp)
  ultimately show ?thesis
    using R A by (simp add: fe_is_def)
qed

lemma unat_of_nat64: "x < 2 ^ 64 \<Longrightarrow> unat (of_nat x :: u64) = x"
  by (simp add: unat_of_nat take_bit_nat_eq_self)

lemma secp256k1_fe_mul_int_is [fe_rules]:
  assumes r: "fe_is m x r" and le: "m * k \<le> 2048"
  shows "fe_is (m * k) (of_nat k * x) (secp256k1_fe_mul_int r (int k))"
proof -
  have b: "unat (u * of_nat k) = unat u * k" "unat (u * of_nat k) \<le> 2 * (m * k) * B"
    if "unat u \<le> 2 * m * B" "B \<le> 0xFFFFFFFFFFFFF" for u :: u64 and B
  proof -
    have "unat u * k \<le> 2 * (m * k) * B"
      using mult_le_mono1 [OF that(1), of k] by (simp add: ac_simps)
    moreover have "2 * (m * k) * B \<le> 2 * (m * k) * 0xFFFFFFFFFFFFF"
      using that(2) by simp
    moreover have "\<dots> < 2 ^ 64" by (rule fe_limb_fits [OF le])
    ultimately have "unat u * k < 2 ^ 64" "unat u * k \<le> 2 * (m * k) * B" by linarith+
    moreover have "u * of_nat k = of_nat (unat u * k)"
      by simp
    ultimately show "unat (u * of_nat k) = unat u * k" "unat (u * of_nat k) \<le> 2 * (m * k) * B"
      by (simp_all only: unat_of_nat64)
  qed
  note R = r [unfolded fe_is_def fe_mag_def]
  have "unat (fe0 r * of_nat k) = unat (fe0 r) * k" "unat (fe1 r * of_nat k) = unat (fe1 r) * k"
      "unat (fe2 r * of_nat k) = unat (fe2 r) * k" "unat (fe3 r * of_nat k) = unat (fe3 r) * k"
    by (rule b(1) [where B = "0xFFFFFFFFFFFFF"], use R in blast, rule order_refl)+
  moreover have "unat (fe4 r * of_nat k) = unat (fe4 r) * k"
    by (rule b(1) [where B = "0xFFFFFFFFFFFF"], use R in blast, simp)
  ultimately have "fe_val (secp256k1_fe_mul_int r (int k)) = fe_val r * k"
    by (simp add: fe_val_def secp256k1_fe_mul_int_def algebra_simps)
  moreover have "fe_mag (m * k) (secp256k1_fe_mul_int r (int k))"
    using R by (simp only: fe_mag_def secp256k1_fe_mul_int_def secp256k1_fe.simps of_int_of_nat_eq) (intro conjI b(2); (use R in blast)?; simp)
  ultimately show ?thesis
    using R by (simp add: fe_is_def)
qed

lemma secp256k1_fe_negate_is [fe_rules]:
  assumes a: "fe_is k x a" and k: "k \<le> m" and le: "m \<le> 2047"
  shows "fe_is (m + 1) (- x) (secp256k1_fe_negate a (int m))"
proof -
  have b: "unat (C * 2 * of_int (int m + 1) - u) = unat C * 2 * (m + 1) - unat u"
      "unat (C * 2 * of_int (int m + 1) - u) \<le> 2 * (m + 1) * B"
      "unat u \<le> unat C * 2 * (m + 1)"
    if u: "unat u \<le> 2 * k * B" and C: "unat C \<le> B" "B \<le> 0xFFFFFFFFFFFFF" "B \<le> unat C + 0x1000003D0" "2 ^ 48 - 1 \<le> B"
    for u C :: u64 and B
  proof -
    have "unat C * 2 * (m + 1) \<le> 2 * (m + 1) * 0xFFFFFFFFFFFFF"
      using C mult_le_mono1 [of "unat C" "0xFFFFFFFFFFFFF" "2 * (m + 1)"] by simp
    also have "\<dots> < 2 ^ 64"
      using le by (intro fe_limb_fits) simp
    finally have lt: "unat C * 2 * (m + 1) < 2 ^ 64" .
    have "C * 2 * of_int (int m + 1) = of_nat (unat C * 2 * (m + 1))"
      by (simp add: algebra_simps)
    then have C': "unat (C * 2 * of_int (int m + 1)) = unat C * 2 * (m + 1)"
      using lt by (simp only: unat_of_nat64)
    have "2 * k * B \<le> 2 * m * B"
      using k by simp
    moreover have "2 * m * B \<le> unat C * 2 * (m + 1)"
    proof -
      have "2 * m * B \<le> 2 * m * (unat C + 0x1000003D0)"
        using C(3) by simp
      also have "\<dots> = 2 * m * unat C + m * 0x2000007A0"
        by (simp add: algebra_simps)
      also have "m * 0x2000007A0 \<le> 2047 * 0x2000007A0"
        using le by simp
      also have "2047 * 0x2000007A0 \<le> 2 * unat C"
        using C(3,4) by simp
      finally show ?thesis by (simp add: algebra_simps)
    qed
    ultimately show le_u: "unat u \<le> unat C * 2 * (m + 1)"
      using u by linarith
    then show "unat (C * 2 * of_int (int m + 1) - u) = unat C * 2 * (m + 1) - unat u"
      using C' by (subst unat_sub) (simp_all only: word_le_nat_alt)
    then show "unat (C * 2 * of_int (int m + 1) - u) \<le> 2 * (m + 1) * B"
      using mult_le_mono1 [OF C(1), of "2 * (m + 1)"] by (simp add: ac_simps)
  qed
  note A = a [unfolded fe_is_def fe_mag_def]
  have l: "unat (0xFFFFEFFFFFC2F :: u64) = 0xFFFFEFFFFFC2F" "unat (0xFFFFFFFFFFFFF :: u64) = 0xFFFFFFFFFFFFF"
    "unat (0xFFFFFFFFFFFF :: u64) = 0xFFFFFFFFFFFF" by simp_all
  note b0 = b [of "fe0 a" "0xFFFFFFFFFFFFF" "0xFFFFEFFFFFC2F", unfolded l]
    and b1 = b [of _ "0xFFFFFFFFFFFFF" "0xFFFFFFFFFFFFF", unfolded l]
    and b4 = b [of "fe4 a" "0xFFFFFFFFFFFF" "0xFFFFFFFFFFFF", unfolded l]
  let ?r = "secp256k1_fe_negate a (int m)"
  have r0: "unat (fe0 ?r) = 0xFFFFEFFFFFC2F * 2 * (m + 1) - unat (fe0 a)"
      "unat (fe0 ?r) \<le> 2 * (m + 1) * 0xFFFFFFFFFFFFF" "unat (fe0 a) \<le> 0xFFFFEFFFFFC2F * 2 * (m + 1)"
    using b0 A by (simp_all add: secp256k1_fe_negate_def)
  have r1: "unat (fe1 ?r) = 0xFFFFFFFFFFFFF * 2 * (m + 1) - unat (fe1 a)"
      "unat (fe1 ?r) \<le> 2 * (m + 1) * 0xFFFFFFFFFFFFF" "unat (fe1 a) \<le> 0xFFFFFFFFFFFFF * 2 * (m + 1)"
    using b1 A by (simp_all add: secp256k1_fe_negate_def)
  have r2: "unat (fe2 ?r) = 0xFFFFFFFFFFFFF * 2 * (m + 1) - unat (fe2 a)"
      "unat (fe2 ?r) \<le> 2 * (m + 1) * 0xFFFFFFFFFFFFF" "unat (fe2 a) \<le> 0xFFFFFFFFFFFFF * 2 * (m + 1)"
    using b1 A by (simp_all add: secp256k1_fe_negate_def)
  have r3: "unat (fe3 ?r) = 0xFFFFFFFFFFFFF * 2 * (m + 1) - unat (fe3 a)"
      "unat (fe3 ?r) \<le> 2 * (m + 1) * 0xFFFFFFFFFFFFF" "unat (fe3 a) \<le> 0xFFFFFFFFFFFFF * 2 * (m + 1)"
    using b1 A by (simp_all add: secp256k1_fe_negate_def)
  have r4: "unat (fe4 ?r) = 0xFFFFFFFFFFFF * 2 * (m + 1) - unat (fe4 a)"
      "unat (fe4 ?r) \<le> 2 * (m + 1) * 0xFFFFFFFFFFFF" "unat (fe4 a) \<le> 0xFFFFFFFFFFFF * 2 * (m + 1)"
    using b4 A by (simp_all add: secp256k1_fe_negate_def)
  have "fe_val ?r + fe_val a = field_p * (2 * (m + 1))"
    using r0(1,3) r1(1,3) r2(1,3) r3(1,3) r4(1,3) by (simp add: fe_val_def field_p_def)
  then have "of_nat (fe_val ?r) + of_nat (fe_val a) = (0 :: fp)"
    by (metis of_nat_add of_nat_mult of_nat_field_p mult_zero_left)
  then have "of_nat (fe_val ?r) = - x"
    using A by (simp add: eq_neg_iff_add_eq_0)
  then show ?thesis
    using r0(2) r1(2) r2(2) r3(2) r4(2) by (simp only: fe_is_def fe_mag_def)
qed

end
