(* ===== verification/Field_Normal.thy ===== *)
theory Field_Normal
  imports Field
begin

text \<open>
  Normalization, comparison and the tests of \<^verbatim>\<open>field_5x52_impl.h\<close>: an element of magnitude
  at most 32 is brought to the canonical representative of its residue. The constant-time
  and the variable-time routines start with the same carry pass,
  \<open>secp256k1_fe_normalize_weak\<close>, and differ in how they subtract the modulus.
\<close>

section \<open>Masks and limbs\<close>

lemmas and_mask52_eq = word_and_mask_eq [where 'a = 64 and n = 52, folded mask52_u64]

lemma fe_val_horner:
  "fe_val a = unat (fe0 a) + 2 ^ 52 * (unat (fe1 a) + 2 ^ 52 * (unat (fe2 a)
     + 2 ^ 52 * (unat (fe3 a) + 2 ^ 52 * unat (fe4 a))))"
  by (simp add: fe_val_def)

definition fe_tight :: "secp256k1_fe \<Rightarrow> bool" where
  "fe_tight a \<longleftrightarrow> unat (fe0 a) < 2 ^ 52 \<and> unat (fe1 a) < 2 ^ 52 \<and> unat (fe2 a) < 2 ^ 52 \<and> unat (fe3 a) < 2 ^ 52"

lemma fe_tight_eq_iff:
  assumes "fe_tight a" "fe_tight b"
  shows "fe_val a = fe_val b \<longleftrightarrow> a = (b :: secp256k1_fe)"
proof -
  have "fe_val a = fe_val b \<longleftrightarrow> unat (fe0 a) = unat (fe0 b) \<and> unat (fe1 a) = unat (fe1 b) \<and>
      unat (fe2 a) = unat (fe2 b) \<and> unat (fe3 a) = unat (fe3 b) \<and> unat (fe4 a) = unat (fe4 b)"
    using assms by (simp only: fe_tight_def fe_val_horner mixed_radix)
  then show ?thesis
    by (auto simp: word_unat_eq_iff intro: secp256k1_fe.equality)
qed

section \<open>The weak pass\<close>

lemma fe_mag32_bnd:
  assumes "fe_mag 32 a"
  shows "bnd (fe0 a) (unat (fe0 a)) 0x3FFFFFFFFFFFFC0"
    and "bnd (fe1 a) (unat (fe1 a)) 0x3FFFFFFFFFFFFC0"
    and "bnd (fe2 a) (unat (fe2 a)) 0x3FFFFFFFFFFFFC0"
    and "bnd (fe3 a) (unat (fe3 a)) 0x3FFFFFFFFFFFFC0"
    and "bnd (fe4 a) (unat (fe4 a)) 0x3FFFFFFFFFFFC0"
  using assms by (simp_all add: fe_mag_def bnd_def)

lemma div_mod_52: "x = x mod 0x10000000000000 + 2 ^ 52 * (x div 2 ^ 52)" for x :: nat
  by simp

lemma div_mod_48: "x = x mod 0x1000000000000 + 2 ^ 48 * (x div 2 ^ 48)" for x :: nat
  by simp

text \<open>A carry pass over the limbs: \<open>c0\<close> to \<open>c3\<close> are the carries.\<close>

lemma fe_carry_pass:
  fixes w0 :: nat
  assumes "w0 + x = v0 + 2 ^ 52 * c0" "w1 + c0 = v1 + 2 ^ 52 * c1" "w2 + c1 = v2 + 2 ^ 52 * c2"
    "w3 + c2 = v3 + 2 ^ 52 * c3" "w4 + c3 = v4"
  shows "w0 + 2 ^ 52 * w1 + 2 ^ 104 * w2 + 2 ^ 156 * w3 + 2 ^ 208 * w4 + x =
    v0 + 2 ^ 52 * v1 + 2 ^ 104 * v2 + 2 ^ 156 * v3 + 2 ^ 208 * v4"
  using assms by simp

text \<open>What the weak pass establishes: canonical low limbs, a top limb barely above 48 bits.\<close>

definition fe_weak :: "nat \<Rightarrow> secp256k1_fe \<Rightarrow> bool" where
  "fe_weak V u \<longleftrightarrow> fe_tight u \<and> unat (fe4 u) \<le> 0x1000000000040 \<and>
     (\<exists>k. V = fe_val u + field_p * k)"

lemma fe_weakI:
  assumes "bnd r0 v0 0xFFFFFFFFFFFFF" "bnd r1 v1 0xFFFFFFFFFFFFF" "bnd r2 v2 0xFFFFFFFFFFFFF"
    "bnd r3 v3 0xFFFFFFFFFFFFF" "bnd r4 v4 0x100000000003F"
    and "v4 = w4 + u3 div 2 ^ 52" "v3 = u3 mod 0x10000000000000" "u3 = w3 + u2 div 2 ^ 52"
      "v2 = u2 mod 0x10000000000000" "u2 = w2 + u1 div 2 ^ 52"
      "v1 = u1 mod 0x10000000000000" "u1 = w1 + u0 div 2 ^ 52"
      "v0 = u0 mod 0x10000000000000" "u0 = w0 + x * 0x1000003D1"
      "w4 = t4 mod 0x1000000000000" "x = t4 div 2 ^ 48" "w0 = unat (fe0 a)"
      "w1 = unat (fe1 a)" "w2 = unat (fe2 a)" "w3 = unat (fe3 a)" "t4 = unat (fe4 a)"
  shows "fe_weak (fe_val a) \<lparr>fe0 = r0, fe1 = r1, fe2 = r2, fe3 = r3, fe4 = r4\<rparr>"
proof -
  have u: "unat r0 = v0" "unat r1 = v1" "unat r2 = v2" "unat r3 = v3" "unat r4 = v4"
    using assms(1-5) by (simp_all add: bnd_def)
  have "w0 + x * 0x1000003D1 = v0 + 2 ^ 52 * (u0 div 2 ^ 52)" "w1 + u0 div 2 ^ 52 = v1 + 2 ^ 52 * (u1 div 2 ^ 52)"
      "w2 + u1 div 2 ^ 52 = v2 + 2 ^ 52 * (u2 div 2 ^ 52)" "w3 + u2 div 2 ^ 52 = v3 + 2 ^ 52 * (u3 div 2 ^ 52)"
    unfolding assms(7,9,11,13) assms(8,10,12,14) [symmetric] by (rule div_mod_52)+
  from fe_carry_pass [OF this assms(6) [symmetric]]
  have "w0 + 2 ^ 52 * w1 + 2 ^ 104 * w2 + 2 ^ 156 * w3 + 2 ^ 208 * w4 + x * 0x1000003D1 =
    fe_val \<lparr>fe0 = r0, fe1 = r1, fe2 = r2, fe3 = r3, fe4 = r4\<rparr>"
    unfolding fe_val_def secp256k1_fe.simps u .
  moreover have "t4 = w4 + 2 ^ 48 * x"
    unfolding assms(15,16) by (rule div_mod_48)
  ultimately have "fe_val a = fe_val \<lparr>fe0 = r0, fe1 = r1, fe2 = r2, fe3 = r3, fe4 = r4\<rparr> + field_p * x"
    unfolding fe_val_def [of a] field_p_def assms(17-) [symmetric] by simp
  then show ?thesis
    using assms(1-5) by (auto simp: fe_weak_def fe_tight_def bnd_def)
qed

lemma fe_normalize_weak_pass:
  assumes a: "fe_mag 32 a"
  shows "fe_weak (fe_val a) (secp256k1_fe_normalize_weak a)" (is "?P (secp256k1_fe_normalize_weak a)")
  unfolding secp256k1_fe_normalize_weak_def
  apply ((rule let_bnd [where P="?P"], ((assumption | rule fe_mag32_bnd [OF a] bnd_rules | simp (no_asm))+)[1],
      (simp (no_asm))[1])+)
  apply (rule fe_weakI, assumption+)
  done

lemma secp256k1_fe_normalize_weak_is [fe_rules]:
  assumes "fe_is 32 x a"
  shows "fe_is 1 x (secp256k1_fe_normalize_weak a)"
proof -
  from assms have w: "fe_weak (fe_val a) (secp256k1_fe_normalize_weak a)" and x: "x = of_nat (fe_val a)"
    by (simp_all add: fe_is_def fe_normalize_weak_pass)
  show ?thesis
    using w unfolding fe_is_def fe_mag_def x by (auto simp: fe_weak_def fe_tight_def)
qed

section \<open>Subtracting the modulus\<close>

text \<open>The second half of \<open>secp256k1_fe_normalize\<close> and of \<open>secp256k1_fe_normalize_var\<close>.\<close>

definition fe_overflow :: "secp256k1_fe \<Rightarrow> u64" where
  "fe_overflow u = drop_bit 48 (fe4 u) OR of_bool (fe4 u = 0xFFFFFFFFFFFF \<and>
     ((fe1 u AND fe2 u) AND fe3 u) = 0xFFFFFFFFFFFFF \<and> 0xFFFFEFFFFFC2F \<le> fe0 u)"

definition fe_subtract :: "secp256k1_fe \<Rightarrow> u64 \<Rightarrow> secp256k1_fe" where
  "fe_subtract r c = (
     let t0 = fe0 r; t1 = fe1 r; t2 = fe2 r; t3 = fe3 r; t4 = fe4 r;
         t0 = t0 + c;
         t1 = t1 + drop_bit 52 t0; t0 = t0 AND 0xFFFFFFFFFFFFF;
         t2 = t2 + drop_bit 52 t1; t1 = t1 AND 0xFFFFFFFFFFFFF;
         t3 = t3 + drop_bit 52 t2; t2 = t2 AND 0xFFFFFFFFFFFFF;
         t4 = t4 + drop_bit 52 t3; t3 = t3 AND 0xFFFFFFFFFFFFF;
         t4 = t4 AND 0xFFFFFFFFFFFF
     in \<lparr>fe0 = t0, fe1 = t1, fe2 = t2, fe3 = t3, fe4 = t4\<rparr>)"

lemma fe_normalize_split:
  "secp256k1_fe_normalize r = (let u = secp256k1_fe_normalize_weak r in fe_subtract u (fe_overflow u * 0x1000003D1))"
  by (simp add: secp256k1_fe_normalize_def secp256k1_fe_normalize_weak_def fe_subtract_def fe_overflow_def Let_def)

lemma fe_normalize_var_split:
  "secp256k1_fe_normalize_var r = (let u = secp256k1_fe_normalize_weak r in
     if fe_overflow u \<noteq> 0 then fe_subtract u 0x1000003D1 else u)"
  by (simp add: secp256k1_fe_normalize_var_def secp256k1_fe_normalize_weak_def fe_subtract_def fe_overflow_def Let_def)

lemma fe_overflow_iff:
  assumes t: "fe_tight u" and t4: "unat (fe4 u) \<le> 0x1000000000040"
  shows "fe_overflow u = of_bool (field_p \<le> fe_val u)"
proof -
  have "unat (fe1 u AND fe2 u) < 2 ^ 52"
    by (rule le_less_trans [of _ "unat (fe1 u)"])
      (use t in \<open>simp_all add: fe_tight_def word_and_le2 flip: word_le_nat_alt\<close>)
  then have "((fe1 u AND fe2 u) AND fe3 u) = 0xFFFFFFFFFFFFF \<longleftrightarrow>
      unat (fe1 u) = 0xFFFFFFFFFFFFF \<and> unat (fe2 u) = 0xFFFFFFFFFFFFF \<and> unat (fe3 u) = 0xFFFFFFFFFFFFF"
    using t by (subst and_mask52_eq; (subst and_mask52_eq)?) (simp_all add: fe_tight_def word_unat_eq_iff)
  moreover have "fe4 u = 0xFFFFFFFFFFFF \<longleftrightarrow> unat (fe4 u) = 0xFFFFFFFFFFFF"
    by (simp add: word_unat_eq_iff)
  moreover have "0xFFFFEFFFFFC2F \<le> fe0 u \<longleftrightarrow> 0xFFFFEFFFFFC2F \<le> unat (fe0 u)"
    by (simp add: word_le_nat_alt)
  ultimately have flag: "(fe4 u = 0xFFFFFFFFFFFF \<and> ((fe1 u AND fe2 u) AND fe3 u) = 0xFFFFFFFFFFFFF \<and>
      0xFFFFEFFFFFC2F \<le> fe0 u) \<longleftrightarrow> field_p \<le> fe_val u \<and> unat (fe4 u) < 2 ^ 48"
    using t unfolding fe_tight_def fe_val_def field_p_def by auto
  show ?thesis
  proof (cases "unat (fe4 u) < 2 ^ 48")
    case True
    then have "unat (drop_bit 48 (fe4 u)) = 0"
      unfolding unat_drop_bit_div by simp
    then have "drop_bit 48 (fe4 u) = 0"
      by (simp only: unat_eq_0)
    then show ?thesis
      unfolding fe_overflow_def flag using True by simp
  next
    case False
    have "unat (drop_bit 48 (fe4 u)) = unat (fe4 u) div 2 ^ 48"
      by (rule unat_drop_bit_div)
    also have "\<dots> = 1"
      using False t4 by (auto intro: div_nat_eqI)
    finally have "drop_bit 48 (fe4 u) = 1"
      by (simp add: word_unat_eq_iff)
    moreover have "field_p \<le> fe_val u"
      using False unfolding fe_val_def field_p_def by simp
    ultimately show ?thesis
      unfolding fe_overflow_def flag using False by simp
  qed
qed

lemma fe_tight_bnd:
  assumes "fe_tight u" "unat (fe4 u) \<le> 0x1000000000040"
  shows "bnd (fe0 u) (unat (fe0 u)) 0xFFFFFFFFFFFFF"
    and "bnd (fe1 u) (unat (fe1 u)) 0xFFFFFFFFFFFFF"
    and "bnd (fe2 u) (unat (fe2 u)) 0xFFFFFFFFFFFFF"
    and "bnd (fe3 u) (unat (fe3 u)) 0xFFFFFFFFFFFFF"
    and "bnd (fe4 u) (unat (fe4 u)) 0x1000000000040"
  using assms by (simp_all add: fe_tight_def bnd_def)

definition fe_sub_post :: "nat \<Rightarrow> secp256k1_fe \<Rightarrow> bool" where
  "fe_sub_post U r \<longleftrightarrow> fe_tight r \<and> unat (fe4 r) < 2 ^ 48 \<and> (\<exists>k. U = fe_val r + 2 ^ 256 * k)"

lemma fe_sub_postI:
  assumes "bnd r0 v0 0xFFFFFFFFFFFFF" "bnd r1 v1 0xFFFFFFFFFFFFF" "bnd r2 v2 0xFFFFFFFFFFFFF"
    "bnd r3 v3 0xFFFFFFFFFFFFF" "bnd r4 v4 0xFFFFFFFFFFFF"
    and "v4 = u4 mod 0x1000000000000" "u4 = w4 + u3 div 2 ^ 52" "v3 = u3 mod 0x10000000000000" "u3 = w3 + u2 div 2 ^ 52"
      "v2 = u2 mod 0x10000000000000" "u2 = w2 + u1 div 2 ^ 52"
      "v1 = u1 mod 0x10000000000000" "u1 = w1 + u0 div 2 ^ 52"
      "v0 = u0 mod 0x10000000000000" "u0 = w0 + x" "w0 = unat (fe0 a)"
      "w1 = unat (fe1 a)" "w2 = unat (fe2 a)" "w3 = unat (fe3 a)" "w4 = unat (fe4 a)"
  shows "fe_sub_post (fe_val a + x) \<lparr>fe0 = r0, fe1 = r1, fe2 = r2, fe3 = r3, fe4 = r4\<rparr>"
proof -
  have u: "unat r0 = v0" "unat r1 = v1" "unat r2 = v2" "unat r3 = v3" "unat r4 = v4"
    using assms(1-5) by (simp_all add: bnd_def)
  have "w0 + x = v0 + 2 ^ 52 * (u0 div 2 ^ 52)" "w1 + u0 div 2 ^ 52 = v1 + 2 ^ 52 * (u1 div 2 ^ 52)"
      "w2 + u1 div 2 ^ 52 = v2 + 2 ^ 52 * (u2 div 2 ^ 52)" "w3 + u2 div 2 ^ 52 = v3 + 2 ^ 52 * (u3 div 2 ^ 52)"
    unfolding assms(8,10,12,14) assms(9,11,13,15) [symmetric] by (rule div_mod_52)+
  from fe_carry_pass [OF this assms(7) [symmetric]]
  have "w0 + 2 ^ 52 * w1 + 2 ^ 104 * w2 + 2 ^ 156 * w3 + 2 ^ 208 * w4 + x =
    v0 + 2 ^ 52 * v1 + 2 ^ 104 * v2 + 2 ^ 156 * v3 + 2 ^ 208 * u4" .
  moreover have "u4 = v4 + 2 ^ 48 * (u4 div 2 ^ 48)"
    unfolding assms(6) by (rule div_mod_48)
  ultimately have "w0 + 2 ^ 52 * w1 + 2 ^ 104 * w2 + 2 ^ 156 * w3 + 2 ^ 208 * w4 + x =
    v0 + 2 ^ 52 * v1 + 2 ^ 104 * v2 + 2 ^ 156 * v3 + 2 ^ 208 * v4 + 2 ^ 256 * (u4 div 2 ^ 48)"
    by simp
  then have "fe_val a + x = fe_val \<lparr>fe0 = r0, fe1 = r1, fe2 = r2, fe3 = r3, fe4 = r4\<rparr> + 2 ^ 256 * (u4 div 2 ^ 48)"
    unfolding fe_val_def secp256k1_fe.simps u assms(16-) [symmetric] .
  then show ?thesis
    using assms(1-5) unfolding fe_sub_post_def fe_tight_def secp256k1_fe.simps by (intro conjI exI) (simp_all add: bnd_def)
qed

lemma fe_subtract_pass:
  assumes u: "fe_tight u" "unat (fe4 u) \<le> 0x1000000000040" and c: "bnd c k 0x1000003D1"
  shows "fe_sub_post (fe_val u + k) (fe_subtract u c)" (is "?P (fe_subtract u c)")
  unfolding fe_subtract_def
  apply ((rule let_bnd [where P="?P"], ((assumption | rule fe_tight_bnd [OF u] c bnd_rules | simp (no_asm))+)[1],
      (simp (no_asm))[1])+)
  apply (rule fe_sub_postI, assumption+)
  done

lemma fe_normalized_iff:
  "fe_normalized r \<longleftrightarrow> fe_tight r \<and> unat (fe4 r) < 2 ^ 48 \<and> fe_val r < field_p"
  by (auto simp: fe_normalized_def fe_tight_def)

lemma fe_val_lt:
  assumes "fe_tight r" "unat (fe4 r) \<le> B"
  shows "fe_val r < 2 ^ 208 * (B + 1)"
  using assms unfolding fe_tight_def fe_val_def by simp

lemma fe_subtract_normal:
  assumes w: "fe_weak V u"
  shows "fe_normalized (fe_subtract u (of_bool (field_p \<le> fe_val u) * 0x1000003D1))" (is "fe_normalized ?r")
    and "fe_val (fe_subtract u (of_bool (field_p \<le> fe_val u) * 0x1000003D1)) = V mod field_p"
proof -
  from w obtain k where u: "fe_tight u" "unat (fe4 u) \<le> 0x1000000000040" and V: "V = fe_val u + field_p * k"
    by (auto simp: fe_weak_def)
  let ?c = "of_bool (field_p \<le> fe_val u) * 0x1000003D1 :: u64"
  have "bnd ?c (of_bool (field_p \<le> fe_val u) * 0x1000003D1) 0x1000003D1"
    by (simp add: bnd_def)
  from fe_subtract_pass [OF u this] obtain l where l: "fe_tight ?r" "unat (fe4 ?r) < 2 ^ 48"
    and eq: "fe_val u + of_bool (field_p \<le> fe_val u) * 0x1000003D1 = fe_val ?r + 2 ^ 256 * l"
    by (auto simp: fe_sub_post_def)
  have lt: "fe_val ?r < 2 ^ 256"
    using fe_val_lt [OF l(1), of "0xFFFFFFFFFFFF"] l(2) by simp
  have U: "fe_val u < 2 ^ 256 + 2 ^ 216"
    using fe_val_lt [OF u] by simp
  define R where "R = fe_val ?r"
  note lt = lt [folded R_def]
  have "R = fe_val u mod field_p"
  proof (cases "field_p \<le> fe_val u")
    case True
    then have e: "fe_val u + 0x1000003D1 = R + 2 ^ 256 * l" using eq by (simp add: R_def)
    have "0 < l" using e lt True unfolding field_p_def by (cases l) simp_all
    moreover have "l < 2" using e U by simp
    ultimately have "l = 1" by simp
    then have "fe_val u = R + field_p" "R < field_p"
      using e U unfolding field_p_def by simp_all
    then show ?thesis by simp
  next
    case False
    then have e: "fe_val u = R + 2 ^ 256 * l" using eq by (simp add: R_def)
    have "l = 0" using e lt False unfolding field_p_def by simp
    then show ?thesis using e False by simp
  qed
  then show "fe_normalized ?r" "fe_val ?r = V mod field_p"
    using l by (simp_all add: fe_normalized_iff V field_p_def R_def)
qed

lemma fe_weak_bounds: "fe_weak V u \<Longrightarrow> fe_tight u \<and> unat (fe4 u) \<le> 0x1000000000040"
  by (simp add: fe_weak_def)

lemma fe_normalize_value:
  assumes "fe_mag 32 a"
  shows "fe_normalized (secp256k1_fe_normalize a)"
    and "fe_val (secp256k1_fe_normalize a) = fe_val a mod field_p"
  using fe_subtract_normal [OF fe_normalize_weak_pass [OF assms]] fe_weak_bounds [OF fe_normalize_weak_pass [OF assms]]
  by (simp_all add: fe_normalize_split Let_def fe_overflow_iff)

lemma fe_normalized_unique:
  "fe_normalized a \<Longrightarrow> fe_normalized b \<Longrightarrow> fe_val a = fe_val b \<Longrightarrow> a = (b :: secp256k1_fe)"
  using fe_tight_eq_iff by (simp add: fe_normalized_iff)

lemma fe_subtract_0:
  assumes w: "fe_weak V u" and lt: "fe_val u < field_p"
  shows "fe_normalized u" "fe_val u = V mod field_p"
proof -
  have "unat (fe4 u) < 2 ^ 48"
    using lt unfolding fe_val_def field_p_def by simp
  then show "fe_normalized u" "fe_val u = V mod field_p"
    using w lt by (auto simp: fe_normalized_iff fe_weak_def)
qed

lemma fe_normalize_var_eq:
  assumes "fe_mag 32 a"
  shows "secp256k1_fe_normalize_var a = secp256k1_fe_normalize a"
proof -
  let ?u = "secp256k1_fe_normalize_weak a"
  have w: "fe_weak (fe_val a) ?u"
    by (rule fe_normalize_weak_pass [OF assms])
  note ov = fe_overflow_iff [of ?u] and wb = fe_weak_bounds [OF w]
  show ?thesis
  proof (cases "field_p \<le> fe_val ?u")
    case True
    then show ?thesis
      using ov wb by (simp add: fe_normalize_split fe_normalize_var_split Let_def)
  next
    case False
    then have "secp256k1_fe_normalize_var a = ?u"
      using ov wb by (simp add: fe_normalize_var_split Let_def)
    with False show ?thesis
      using fe_subtract_0 [OF w] fe_normalize_value [OF assms] by (auto intro: fe_normalized_unique)
  qed
qed

lemma fe_normalized_is: "fe_normalized a \<Longrightarrow> fe_is 1 (of_nat (fe_val a)) a"
  by (simp add: fe_normalized_def fe_is_def fe_mag_def)

lemma secp256k1_fe_normalize_is [fe_rules]:
  assumes "fe_is 32 x a"
  shows "fe_is 1 x (secp256k1_fe_normalize a)"
  using fe_normalized_is [OF fe_normalize_value(1)] fe_normalize_value(2) assms
  by (simp add: fe_is_def of_nat_fp_eq_iff)

lemma fe_normalize_fp_nat: "fe_is 32 x a \<Longrightarrow> fe_val (secp256k1_fe_normalize a) = fp_nat x"
  using fe_normalize_value(2) by (auto simp: fe_is_def fp_nat_of_nat)

section \<open>Tests\<close>

lemma fe_normalizes_to_zero_split:
  "secp256k1_fe_normalizes_to_zero r = (let u = secp256k1_fe_normalize_weak r in
     ((((fe0 u OR fe1 u) OR fe2 u) OR fe3 u) OR fe4 u) = 0 \<or>
     (((((fe0 u XOR 0x1000003D0) AND fe1 u) AND fe2 u) AND fe3 u) AND (fe4 u XOR 0xF000000000000)) = 0xFFFFFFFFFFFFF)"
  by (simp add: secp256k1_fe_normalizes_to_zero_def secp256k1_fe_normalize_weak_def Let_def)

lemma fe_zero_test:
  assumes w: "fe_weak V u"
  shows "(((((fe0 u OR fe1 u) OR fe2 u) OR fe3 u) OR fe4 u) = 0 \<or>
     (((((fe0 u XOR 0x1000003D0) AND fe1 u) AND fe2 u) AND fe3 u) AND (fe4 u XOR 0xF000000000000)) = 0xFFFFFFFFFFFFF)
     \<longleftrightarrow> field_p dvd V" (is "?Z \<or> ?P \<longleftrightarrow> _")
proof -
  let ?v0 = "\<lparr>fe0 = 0, fe1 = 0, fe2 = 0, fe3 = 0, fe4 = 0\<rparr>"
  let ?vp = "\<lparr>fe0 = 0xFFFFEFFFFFC2F, fe1 = 0xFFFFFFFFFFFFF, fe2 = 0xFFFFFFFFFFFFF, fe3 = 0xFFFFFFFFFFFFF, fe4 = 0xFFFFFFFFFFFF\<rparr>"
  from w have t: "fe_tight u" "unat (fe4 u) \<le> 0x1000000000040"
    by (simp_all add: fe_weak_def)
  have v: "fe_tight ?v0" "fe_tight ?vp" "fe_val ?v0 = 0" "fe_val ?vp = field_p"
    by (simp_all add: fe_tight_def fe_val_def field_p_def)
  have Z: "?Z \<longleftrightarrow> u = ?v0"
    by (auto simp: or_eq_0_iff intro: secp256k1_fe.equality)
  have m: "a AND b = 0xFFFFFFFFFFFFF \<longleftrightarrow> a = 0xFFFFFFFFFFFFF \<and> b = 0xFFFFFFFFFFFFF"
    if "take_bit 52 a = a" "take_bit 52 b = b" for a b :: u64
    using that by (simp add: and_mask52_eq take_bit_self_iff)
  have "take_bit 52 (fe0 u) = fe0 u" "take_bit 52 (fe1 u) = fe1 u" "take_bit 52 (fe2 u) = fe2 u"
      "take_bit 52 (fe3 u) = fe3 u" "take_bit 52 (fe4 u) = fe4 u"
      "take_bit 52 (0x1000003D0 :: u64) = 0x1000003D0" "take_bit 52 (0xF000000000000 :: u64) = 0xF000000000000"
    using t by (simp_all add: take_bit_self_iff fe_tight_def)
  then have "?P \<longleftrightarrow> (fe0 u XOR 0x1000003D0) = 0xFFFFFFFFFFFFF \<and> fe1 u = 0xFFFFFFFFFFFFF \<and>
      fe2 u = 0xFFFFFFFFFFFFF \<and> fe3 u = 0xFFFFFFFFFFFFF \<and> (fe4 u XOR 0xF000000000000) = 0xFFFFFFFFFFFFF"
    by (simp only: m take_bit_and take_bit_xor conj_assoc)
  then have P: "?P \<longleftrightarrow> u = ?vp"
    by (auto simp: word_xor_eq_iff intro: secp256k1_fe.equality)
  have "?Z \<or> ?P \<longleftrightarrow> fe_val u = 0 \<or> fe_val u = field_p"
    unfolding Z P using fe_tight_eq_iff [OF t(1) v(1)] fe_tight_eq_iff [OF t(1) v(2)] v(3,4) by simp
  also have "\<dots> \<longleftrightarrow> field_p dvd fe_val u"
  proof
    assume "field_p dvd fe_val u"
    then obtain k where k: "fe_val u = field_p * k" ..
    have "fe_val u < 2 * field_p"
      using fe_val_lt [OF t] by (simp add: field_p_def)
    then have "k < 2" by (simp add: k)
    then show "fe_val u = 0 \<or> fe_val u = field_p"
      by (auto simp: k less_2_cases_iff)
  qed auto
  also have "\<dots> \<longleftrightarrow> field_p dvd V"
    using w by (auto simp: fe_weak_def dvd_add_left_iff)
  finally show ?thesis .
qed

lemma secp256k1_fe_normalizes_to_zero_is [fe_rules]:
  assumes "fe_is 32 x a"
  shows "secp256k1_fe_normalizes_to_zero a \<longleftrightarrow> x = 0"
  using fe_zero_test [OF fe_normalize_weak_pass] assms
  by (auto simp: fe_normalizes_to_zero_split Let_def fe_is_def of_nat_fp_eq_0_iff)

lemma fe_normalizes_to_zero_var_eq:
  "secp256k1_fe_normalizes_to_zero_var a = secp256k1_fe_normalizes_to_zero a"
proof -
  define z where "z = (fe0 a + drop_bit 48 (fe4 a) * 0x1000003D1) AND 0xFFFFFFFFFFFFF"
  show ?thesis
  proof (cases "z \<noteq> 0 \<and> (z XOR 0x1000003D0) \<noteq> 0xFFFFFFFFFFFFF")
    case True
    have chain: "w AND M = M" if "((((w AND a1) AND a2) AND a3) AND a4) = M" for w a1 a2 a3 a4 M :: u64
      unfolding that [symmetric] by (simp flip: and.assoc)
    have "take_bit 52 z = z"
      by (simp add: z_def mask52_u64 take_bit_eq_mask and.assoc)
    moreover have "take_bit 52 (0x1000003D0 :: u64) = 0x1000003D0"
      by (simp add: take_bit_self_iff)
    ultimately have "(z XOR 0x1000003D0) AND 0xFFFFFFFFFFFFF = z XOR 0x1000003D0"
      by (simp only: mask52_u64 take_bit_xor flip: take_bit_eq_mask)
    then have "((((z XOR 0x1000003D0) AND a1) AND a2) AND a3) AND a4 \<noteq> 0xFFFFFFFFFFFFF" for a1 a2 a3 a4
      using True chain by metis
    then show ?thesis
      using True unfolding secp256k1_fe_normalizes_to_zero_def secp256k1_fe_normalizes_to_zero_var_def Let_def z_def [symmetric]
      by (simp only: or_eq_0_iff if_True simp_thms)
  next
    case False
    then show ?thesis
      unfolding secp256k1_fe_normalizes_to_zero_def secp256k1_fe_normalizes_to_zero_var_def Let_def z_def [symmetric]
      by (simp only: if_not_P [OF False] if_False)
  qed
qed

lemma secp256k1_fe_is_zero_iff: "secp256k1_fe_is_zero a \<longleftrightarrow> fe_val a = 0"
  by (auto simp: secp256k1_fe_is_zero_def fe_val_def or_eq_0_iff unat_eq_0)

lemma secp256k1_fe_is_odd_iff: "secp256k1_fe_is_odd a \<longleftrightarrow> odd (fe_val a)"
proof -
  have "secp256k1_fe_is_odd a \<longleftrightarrow> odd (fe0 a)"
    by (simp add: secp256k1_fe_is_odd_def and_one_eq odd_iff_mod_2_eq_one)
  also have "\<dots> \<longleftrightarrow> odd (unat (fe0 a))"
    using bit_unsigned_iff [where 'a = nat, of "fe0 a" 0] by (simp add: bit_0)
  finally show ?thesis
    by (simp add: fe_val_def)
qed

end
