(* ===== verification/Field_Bytes.thy ===== *)
theory Field_Bytes
  imports Field_Normal
begin

text \<open>
  Serialization, storage and selection of field elements: the big-endian byte string, the
  packed four-word storage form, the constant-time moves and the comparison.
\<close>

section \<open>Bytes\<close>

lemma byte_of_limb: "unat (ucast (drop_bit n (w :: u64) AND 0xFF) :: u8) = unat w div 2 ^ n mod 256"
  using bnd_ucast [OF bnd_and_mask8 [OF bnd_drop_bit [OF bnd_self [OF order_refl, of w]]], of n, where 'b = 8]
  by (simp add: bnd_def)

lemma byte_of_limb_0: "unat (ucast ((w :: u64) AND 0xFF) :: u8) = unat w mod 256"
  using byte_of_limb [of 0] by simp

lemma nibbles_of_limbs:
  "unat (ucast ((drop_bit 48 (v :: u64) AND 0xF) OR push_bit 4 (w AND 0xF)) :: u8)
    = unat v div 2 ^ 48 mod 16 + unat w mod 16 * 2 ^ 4"
proof -
  have "bnd (ucast ((drop_bit 48 v AND 0xF) OR push_bit 4 (w AND 0xF)) :: u8)
      (unat v div 2 ^ 48 mod 16 + unat w mod 16 * 2 ^ 4) (0xF + 0xF * 2 ^ 4)"
    by (rule bnd_ucast bnd_or_push bnd_and_mask4 bnd_drop_bit bnd_self order_refl | simp)+
  then show ?thesis by (rule bnd_unat)
qed

text \<open>A limb as its bytes, aligned to its low end, or to its bit 4.\<close>

lemma digits6:
  fixes a :: nat
  assumes "a = r0 + 256 * q1" "q1 = r1 + 256 * q2" "q2 = r2 + 256 * q3" "q3 = r3 + 256 * q4" "q4 = r4 + 256 * q5" "q5 = r5" 
  shows "a = r5 * 2 ^ 40 + r4 * 2 ^ 32 + r3 * 2 ^ 24 + r2 * 2 ^ 16 + r1 * 2 ^ 8 + r0"
  using assms by simp

lemma digits7:
  fixes a :: nat
  assumes "a = r0 + 256 * q1" "q1 = r1 + 256 * q2" "q2 = r2 + 256 * q3" "q3 = r3 + 256 * q4" "q4 = r4 + 256 * q5" "q5 = r5 + 256 * q6" "q6 = r6" 
  shows "a = r6 * 2 ^ 48 + r5 * 2 ^ 40 + r4 * 2 ^ 32 + r3 * 2 ^ 24 + r2 * 2 ^ 16 + r1 * 2 ^ 8 + r0"
  using assms by simp

lemma digits7a:
  fixes a :: nat
  assumes "a = r0 + 16 * q1" "q1 = r1 + 256 * q2" "q2 = r2 + 256 * q3" "q3 = r3 + 256 * q4" "q4 = r4 + 256 * q5" "q5 = r5 + 256 * q6" "q6 = r6" 
  shows "a = r6 * 2 ^ 44 + r5 * 2 ^ 36 + r4 * 2 ^ 28 + r3 * 2 ^ 20 + r2 * 2 ^ 12 + r1 * 2 ^ 4 + r0"
  using assms by simp

lemma limb48_bytes:
  assumes "(a::nat) < 2 ^ 48"
  shows "a = a div 2 ^ 40 mod 256 * 2 ^ 40 + a div 2 ^ 32 mod 256 * 2 ^ 32 + a div 2 ^ 24 mod 256 * 2 ^ 24
    + a div 2 ^ 16 mod 256 * 2 ^ 16 + a div 2 ^ 8 mod 256 * 2 ^ 8 + a mod 256"
proof -
  have "a = a mod 256 + 256 * (a div 2 ^ 8)"
    using div_digit [of a 0 8] by simp
  moreover have "a div 2 ^ 8 = a div 2 ^ 8 mod 256 + 256 * (a div 2 ^ 16)"
    using div_digit [of a 8 8] by simp
  moreover have "a div 2 ^ 16 = a div 2 ^ 16 mod 256 + 256 * (a div 2 ^ 24)"
    using div_digit [of a 16 8] by simp
  moreover have "a div 2 ^ 24 = a div 2 ^ 24 mod 256 + 256 * (a div 2 ^ 32)"
    using div_digit [of a 24 8] by simp
  moreover have "a div 2 ^ 32 = a div 2 ^ 32 mod 256 + 256 * (a div 2 ^ 40)"
    using div_digit [of a 32 8] by simp
  moreover have "a div 2 ^ 40 = a div 2 ^ 40 mod 256"
    using assms by (simp add: less_mult_imp_div_less)
  ultimately show ?thesis
    by (rule digits6)
qed

lemma limb52_bytes:
  assumes "(a::nat) < 2 ^ 52"
  shows "a = a div 2 ^ 48 mod 16 * 2 ^ 48 + a div 2 ^ 40 mod 256 * 2 ^ 40 + a div 2 ^ 32 mod 256 * 2 ^ 32
    + a div 2 ^ 24 mod 256 * 2 ^ 24 + a div 2 ^ 16 mod 256 * 2 ^ 16 + a div 2 ^ 8 mod 256 * 2 ^ 8 + a mod 256"
proof -
  have "a = a mod 256 + 256 * (a div 2 ^ 8)"
    using div_digit [of a 0 8] by simp
  moreover have "a div 2 ^ 8 = a div 2 ^ 8 mod 256 + 256 * (a div 2 ^ 16)"
    using div_digit [of a 8 8] by simp
  moreover have "a div 2 ^ 16 = a div 2 ^ 16 mod 256 + 256 * (a div 2 ^ 24)"
    using div_digit [of a 16 8] by simp
  moreover have "a div 2 ^ 24 = a div 2 ^ 24 mod 256 + 256 * (a div 2 ^ 32)"
    using div_digit [of a 24 8] by simp
  moreover have "a div 2 ^ 32 = a div 2 ^ 32 mod 256 + 256 * (a div 2 ^ 40)"
    using div_digit [of a 32 8] by simp
  moreover have "a div 2 ^ 40 = a div 2 ^ 40 mod 256 + 256 * (a div 2 ^ 48)"
    using div_digit [of a 40 8] by simp
  moreover have "a div 2 ^ 48 = a div 2 ^ 48 mod 16"
    using assms by (simp add: less_mult_imp_div_less)
  ultimately show ?thesis
    by (rule digits7)
qed

lemma limb52_bytes_4:
  assumes "(a::nat) < 2 ^ 52"
  shows "a = a div 2 ^ 44 mod 256 * 2 ^ 44 + a div 2 ^ 36 mod 256 * 2 ^ 36 + a div 2 ^ 28 mod 256 * 2 ^ 28
    + a div 2 ^ 20 mod 256 * 2 ^ 20 + a div 2 ^ 12 mod 256 * 2 ^ 12 + a div 2 ^ 4 mod 256 * 2 ^ 4 + a mod 16"
proof -
  have "a = a mod 16 + 16 * (a div 2 ^ 4)"
    using div_digit [of a 0 4] by simp
  moreover have "a div 2 ^ 4 = a div 2 ^ 4 mod 256 + 256 * (a div 2 ^ 12)"
    using div_digit [of a 4 8] by simp
  moreover have "a div 2 ^ 12 = a div 2 ^ 12 mod 256 + 256 * (a div 2 ^ 20)"
    using div_digit [of a 12 8] by simp
  moreover have "a div 2 ^ 20 = a div 2 ^ 20 mod 256 + 256 * (a div 2 ^ 28)"
    using div_digit [of a 20 8] by simp
  moreover have "a div 2 ^ 28 = a div 2 ^ 28 mod 256 + 256 * (a div 2 ^ 36)"
    using div_digit [of a 28 8] by simp
  moreover have "a div 2 ^ 36 = a div 2 ^ 36 mod 256 + 256 * (a div 2 ^ 44)"
    using div_digit [of a 36 8] by simp
  moreover have "a div 2 ^ 44 = a div 2 ^ 44 mod 256"
    using assms by (simp add: less_mult_imp_div_less)
  ultimately show ?thesis
    by (rule digits7a)
qed

lemma fe_get_b32_value:
  assumes "fe_tight a" "unat (fe4 a) < 2 ^ 48"
  shows "be_nat (secp256k1_fe_get_b32 a) = fe_val a"
proof -
  define a0 a1 a2 a3 a4 where "a0 = unat (fe0 a)" "a1 = unat (fe1 a)" "a2 = unat (fe2 a)"
    "a3 = unat (fe3 a)" and "a4 = unat (fe4 a)"
  note A = this
  have "a0 < 2 ^ 52" "a1 < 2 ^ 52" "a2 < 2 ^ 52" "a3 < 2 ^ 52" "a4 < 2 ^ 48"
    using assms by (simp_all add: fe_tight_def A)
  note limb52_bytes [OF this(1)] limb52_bytes_4 [OF this(2)] limb52_bytes [OF this(3)]
    limb52_bytes_4 [OF this(4)] limb48_bytes [OF this(5)]
  then show ?thesis
    unfolding secp256k1_fe_get_b32_def fe_val_def A [symmetric]
    by (simp only: byte_of_limb nibbles_of_limbs be_nat.simps list.size A [symmetric])
      (simp only: byte_of_limb_0 A [symmetric], simp)
qed

lemma fe_get_b32_length [simp]: "length (secp256k1_fe_get_b32 a) = 32"
  by (simp add: secp256k1_fe_get_b32_def)

lemma upt_32: "[0 ..< 32] = [0, 1, 2, 3, 4, 5, 6, 7, 8, 9, 10, 11, 12, 13, 14, 15, 16, 17, 18, 19, 20, 21, 22, 23,
    24, 25, 26, 27, 28, 29, 30, 31 :: nat]"
  by code_simp

lemma fe_set_b32_limbs:
  fixes a :: "u8 list"
  shows "fe_tight (snd (secp256k1_fe_set_b32 a))" "unat (fe4 (snd (secp256k1_fe_set_b32 a))) < 2 ^ 48"
    and "length a = 32 \<Longrightarrow> fe_val (snd (secp256k1_fe_set_b32 a)) = be_nat a"
proof -
  have r: "snd (secp256k1_fe_set_b32 a) = \<lparr>
      fe0 = ucast (a ! 31) OR push_bit 8 (ucast (a ! 30)) OR push_bit 16 (ucast (a ! 29))
            OR push_bit 24 (ucast (a ! 28)) OR push_bit 32 (ucast (a ! 27))
            OR push_bit 40 (ucast (a ! 26)) OR push_bit 48 (ucast (a ! 25 AND 0xF)),
      fe1 = ucast (drop_bit 4 (a ! 25) AND 0xF) OR push_bit 4 (ucast (a ! 24))
            OR push_bit 12 (ucast (a ! 23)) OR push_bit 20 (ucast (a ! 22))
            OR push_bit 28 (ucast (a ! 21)) OR push_bit 36 (ucast (a ! 20))
            OR push_bit 44 (ucast (a ! 19)),
      fe2 = ucast (a ! 18) OR push_bit 8 (ucast (a ! 17)) OR push_bit 16 (ucast (a ! 16))
            OR push_bit 24 (ucast (a ! 15)) OR push_bit 32 (ucast (a ! 14))
            OR push_bit 40 (ucast (a ! 13)) OR push_bit 48 (ucast (a ! 12 AND 0xF)),
      fe3 = ucast (drop_bit 4 (a ! 12) AND 0xF) OR push_bit 4 (ucast (a ! 11))
            OR push_bit 12 (ucast (a ! 10)) OR push_bit 20 (ucast (a ! 9))
            OR push_bit 28 (ucast (a ! 8)) OR push_bit 36 (ucast (a ! 7))
            OR push_bit 44 (ucast (a ! 6)),
      fe4 = ucast (a ! 5) OR push_bit 8 (ucast (a ! 4)) OR push_bit 16 (ucast (a ! 3))
            OR push_bit 24 (ucast (a ! 2)) OR push_bit 32 (ucast (a ! 1))
            OR push_bit 40 (ucast (a ! 0))\<rparr>"
    by (simp add: secp256k1_fe_set_b32_def Let_def)
  have l: "bnd (ucast p0 OR push_bit 8 (ucast p1) OR push_bit 16 (ucast p2) OR push_bit 24 (ucast p3)
        OR push_bit 32 (ucast p4) OR push_bit 40 (ucast p5) :: u64)
      (unat p0 + unat p1 * 2 ^ 8 + unat p2 * 2 ^ 16 + unat p3 * 2 ^ 24 + unat p4 * 2 ^ 32 + unat p5 * 2 ^ 40)
      0xFFFFFFFFFFFF"
    "bnd (ucast p0 OR push_bit 8 (ucast p1) OR push_bit 16 (ucast p2) OR push_bit 24 (ucast p3)
        OR push_bit 32 (ucast p4) OR push_bit 40 (ucast p5) OR push_bit 48 (ucast (p6 AND 0xF)) :: u64)
      (unat p0 + unat p1 * 2 ^ 8 + unat p2 * 2 ^ 16 + unat p3 * 2 ^ 24 + unat p4 * 2 ^ 32 + unat p5 * 2 ^ 40
        + unat p6 mod 16 * 2 ^ 48) 0xFFFFFFFFFFFFF"
    "bnd (ucast (drop_bit 4 p0 AND 0xF) OR push_bit 4 (ucast p1) OR push_bit 12 (ucast p2) OR push_bit 20 (ucast p3)
        OR push_bit 28 (ucast p4) OR push_bit 36 (ucast p5) OR push_bit 44 (ucast p6) :: u64)
      (unat p0 div 2 ^ 4 mod 16 + unat p1 * 2 ^ 4 + unat p2 * 2 ^ 12 + unat p3 * 2 ^ 20 + unat p4 * 2 ^ 28
        + unat p5 * 2 ^ 36 + unat p6 * 2 ^ 44) 0xFFFFFFFFFFFFF" for p0 p1 p2 p3 p4 p5 p6 :: u8
    unfolding or.assoc [symmetric]
    by (rule bnd_weaken, ((rule bnd_or_push bnd_ucast bnd_and_mask4 bnd_drop_bit bnd_byte | simp)+)[1], simp)+
  note v = l [THEN bnd_unat] and b = l [THEN bnd_le]
  have n: "unat b = unat b mod 16 + 16 * (unat b div 2 ^ 4 mod 16)" for b :: u8
    using div_digit [of "unat b" 0 4] unsigned_less [of b, where 'a = nat] by simp
  show "fe_tight (snd (secp256k1_fe_set_b32 a))" "unat (fe4 (snd (secp256k1_fe_set_b32 a))) < 2 ^ 48"
    unfolding r fe_tight_def secp256k1_fe.simps v
    by ((intro conjI)?; (rule le_less_trans, rule b, simp))+
  show "fe_val (snd (secp256k1_fe_set_b32 a)) = be_nat a" if "length a = 32"
  proof -
    have "be_nat a = be_nat (map ((!) a) [0 ..< 32])"
      using list_eq_map_nth [OF that] by simp
    also have "\<dots> = fe_val (snd (secp256k1_fe_set_b32 a))"
      unfolding r fe_val_def secp256k1_fe.simps v using n [of "a ! 12"] n [of "a ! 25"]
      by (simp add: upt_32) (use div_mult_mod_eq [of "unat (a ! 12)" 16] div_mult_mod_eq [of "unat (a ! 25)" 16] in linarith)
    finally show ?thesis ..
  qed
qed
lemma fe_tight_normalized:
  "fe_tight r \<Longrightarrow> unat (fe4 r) < 2 ^ 48 \<Longrightarrow> fe_val r < field_p \<Longrightarrow> fe_normalized r"
  by (simp add: fe_normalized_iff)

lemma drop_bit_48_eq_0: "unat w < 2 ^ 48 \<Longrightarrow> drop_bit 48 w = 0" for w :: u64
  by (simp only: unat_drop_bit_div div_less flip: unat_eq_0)

lemma fe_set_b32_flag: "fst (secp256k1_fe_set_b32 a) \<longleftrightarrow> fe_val (snd (secp256k1_fe_set_b32 a)) < field_p"
proof -
  let ?u = "snd (secp256k1_fe_set_b32 a)"
  have t: "fe_tight ?u" and t4: "unat (fe4 ?u) < 2 ^ 48"
    by (rule fe_set_b32_limbs)+
  have "fst (secp256k1_fe_set_b32 a) \<longleftrightarrow> \<not> (fe4 ?u = 0xFFFFFFFFFFFF \<and>
      ((fe1 ?u AND fe2 ?u) AND fe3 ?u) = 0xFFFFFFFFFFFFF \<and> 0xFFFFEFFFFFC2F \<le> fe0 ?u)"
    unfolding secp256k1_fe_set_b32_def Let_def by (simp add: and.assoc and.left_commute and.commute)
  also have "\<dots> \<longleftrightarrow> fe_overflow ?u = 0"
    unfolding fe_overflow_def using t4 drop_bit_48_eq_0 [of "fe4 ?u"] by simp
  also have "\<dots> \<longleftrightarrow> fe_val ?u < field_p"
    using t t4 by (simp add: fe_overflow_iff not_le)
  finally show ?thesis .
qed
text \<open>Reading 32 bytes succeeds when they encode a number below the modulus, and inverts writing.\<close>

lemma fe_set_b32_success:
  assumes "length bs = 32" "be_nat bs < field_p"
  shows "fst (secp256k1_fe_set_b32 bs)" "fe_normalized (snd (secp256k1_fe_set_b32 bs))"
    and "fe_is 1 (of_nat (be_nat bs)) (snd (secp256k1_fe_set_b32 bs))"
proof -
  note l = fe_set_b32_limbs [of bs]
  have v: "fe_val (snd (secp256k1_fe_set_b32 bs)) = be_nat bs"
    using assms by (simp add: l)
  then show "fst (secp256k1_fe_set_b32 bs)"
    using assms by (simp add: fe_set_b32_flag)
  show n: "fe_normalized (snd (secp256k1_fe_set_b32 bs))"
    using l(1,2) v assms by (intro fe_tight_normalized) simp_all
  show "fe_is 1 (of_nat (be_nat bs)) (snd (secp256k1_fe_set_b32 bs))"
    using fe_normalized_is [OF n] v by simp
qed

lemma fe_get_b32_normalized: "fe_normalized a \<Longrightarrow> be_nat (secp256k1_fe_get_b32 a) = fe_val a"
  by (simp add: fe_normalized_iff fe_get_b32_value)

lemma fe_set_get_b32:
  assumes "fe_normalized a"
  shows "secp256k1_fe_set_b32 (secp256k1_fe_get_b32 a) = (True, a)"
proof -
  have "be_nat (secp256k1_fe_get_b32 a) = fe_val a" "fe_val a < field_p"
    using assms by (simp_all add: fe_get_b32_normalized fe_normalized_def)
  then have "snd (secp256k1_fe_set_b32 (secp256k1_fe_get_b32 a)) = a"
    using fe_set_b32_limbs(3) [of "secp256k1_fe_get_b32 a"] assms
    by (intro fe_normalized_unique fe_set_b32_success(2)) simp_all
  with fe_set_b32_success(1) [of "secp256k1_fe_get_b32 a"] \<open>be_nat _ = _\<close> \<open>_ < field_p\<close> show ?thesis
    by (simp add: prod_eq_iff)
qed

lemma fe_get_set_b32:
  assumes "length bs = 32"
  shows "secp256k1_fe_get_b32 (snd (secp256k1_fe_set_b32 bs)) = bs"
  using fe_set_b32_limbs [of bs] assms
  by (intro iffD1 [OF be_nat_inject]) (simp_all add: fe_get_b32_value)

text \<open>Only the first 32 bytes are read.\<close>

lemma fe_set_b32_nth: "secp256k1_fe_set_b32 (map ((!) b) [0 ..< 32]) = secp256k1_fe_set_b32 b"
proof -
  have n: "map ((!) b) [0 ..< 32] ! k = b ! k" if "k < 32" for k using that by simp
  show ?thesis
    unfolding secp256k1_fe_set_b32_def
    by (simp only: n rel_simps zero_less_numeral one_less_numeral_iff)
qed

section \<open>Storage form\<close>

lemma bit_less: "unat w < 2 ^ n \<Longrightarrow> bit w i \<Longrightarrow> i < n" for w :: "'a::len word"
  by (metis bit_take_bit_iff take_bit_self_iff)

lemma fe_from_to_storage:
  assumes t: "fe_tight a" and t4: "unat (fe4 a) < 2 ^ 48"
  shows "secp256k1_fe_from_storage (secp256k1_fe_to_storage a) = a"
proof -
  have b: "bit (fe0 a) i \<Longrightarrow> i < 52" "bit (fe1 a) i \<Longrightarrow> i < 52" "bit (fe2 a) i \<Longrightarrow> i < 52"
      "bit (fe3 a) i \<Longrightarrow> i < 52" "bit (fe4 a) i \<Longrightarrow> i < 48" for i
    using t t4 by (auto simp: fe_tight_def intro: bit_less)
  show ?thesis
    unfolding secp256k1_fe_from_storage_def secp256k1_fe_to_storage_def secp256k1_fe_storage.simps mask52_u64
    by (intro secp256k1_fe.equality; simp; (rule bit_word_eqI)?)
      (auto simp: bit_simps dest: b)
qed

lemma fe_to_from_storage: "secp256k1_fe_to_storage (secp256k1_fe_from_storage a) = a"
  unfolding secp256k1_fe_from_storage_def secp256k1_fe_to_storage_def secp256k1_fe.simps mask52_u64
  by (intro secp256k1_fe_storage.equality; simp; (rule bit_word_eqI)?)
    (auto simp: bit_simps, (rule ccontr, simp)+)

section \<open>Selection, constants and comparison\<close>

lemma secp256k1_fe_cmov_eq [simp]: "secp256k1_fe_cmov r a flag = (if flag then a else r)"
  by (cases r; cases a) (simp add: secp256k1_fe_cmov_def Let_def flip: mask_eq_exp_minus_1)

lemma secp256k1_fe_storage_cmov_eq [simp]: "secp256k1_fe_storage_cmov r a flag = (if flag then a else r)"
  by (cases r; cases a) (simp add: secp256k1_fe_storage_cmov_def Let_def)

lemma secp256k1_fe_set_int_is [fe_rules]:
  assumes "k \<le> 0x1FFFFFFFFFFFFE"
  shows "fe_is 1 (of_nat k) (secp256k1_fe_set_int (int k))"
  using assms by (simp add: secp256k1_fe_set_int_def fe_is_def fe_mag_def fe_val_def unat_of_nat64)

lemma secp256k1_fe_clear_is [fe_rules]: "fe_is 0 0 secp256k1_fe_clear"
  by (simp add: secp256k1_fe_clear_def fe_is_def fe_mag_def fe_val_def)

lemma radix_less:
  fixes x y M :: nat
  assumes "x < M" "y < M"
  shows "x + M * q < y + M * r \<longleftrightarrow> q < r \<or> q = r \<and> x < y"
proof (cases q r rule: linorder_cases)
  case less
  then have "M * (q + 1) \<le> M * r" by (intro mult_le_mono2) simp
  then show ?thesis using assms less by simp
next
  case greater
  then have "M * (r + 1) \<le> M * q" by (intro mult_le_mono2) simp
  then show ?thesis using assms greater by simp
qed (use assms in simp)

definition three_way :: "nat \<Rightarrow> nat \<Rightarrow> int" where
  "three_way x y = (if x > y then 1 else if x < y then - 1 else 0)"

lemma fe_cmp_limbs_step:
  assumes "fe_cmp_limbs ls = three_way x y" "x < M" "y < M"
  shows "fe_cmp_limbs ((a, b) # ls) = three_way (x + M * unat a) (y + M * unat b)"
  using assms by (auto simp: three_way_def radix_less word_less_nat_alt)

lemma secp256k1_fe_cmp_var_is:
  assumes a: "fe_tight a" and b: "fe_tight b"
  shows "secp256k1_fe_cmp_var a b = three_way (fe_val a) (fe_val b)"
proof -
  define M :: nat where "M = 2 ^ 52"
  have step: "x + K * v < K * M" if "x < K" "v < M" for x v K
  proof -
    have "K * (v + 1) \<le> K * M" using that by (intro mult_le_mono2) simp
    then show ?thesis using that by simp
  qed
  have lt: "unat (fe0 u) < M \<and> unat (fe0 u) + M * unat (fe1 u) < M * M \<and>
      unat (fe0 u) + M * unat (fe1 u) + M * M * unat (fe2 u) < M * M * M \<and>
      unat (fe0 u) + M * unat (fe1 u) + M * M * unat (fe2 u) + M * M * M * unat (fe3 u) < M * M * M * M"
    if "fe_tight u" for u
    using that unfolding fe_tight_def M_def [symmetric] by (intro conjI step) simp_all
  have "fe_cmp_limbs [(fe4 a, fe4 b), (fe3 a, fe3 b), (fe2 a, fe2 b), (fe1 a, fe1 b), (fe0 a, fe0 b)] =
    three_way (unat (fe0 a) + M * unat (fe1 a) + M * M * unat (fe2 a) + M * M * M * unat (fe3 a) + M * M * M * M * unat (fe4 a))
      (unat (fe0 b) + M * unat (fe1 b) + M * M * unat (fe2 b) + M * M * M * unat (fe3 b) + M * M * M * M * unat (fe4 b))"
    using lt [OF a] lt [OF b]
    by (intro fe_cmp_limbs_step) (simp_all add: three_way_def word_less_nat_alt)
  then show ?thesis
    by (simp add: secp256k1_fe_cmp_var_def fe_val_def M_def)
qed
end
