(* ===== verification/Field_Impl.thy ===== *)
theory Field_Impl
  imports Field_Bytes
begin

text \<open>
  \<^verbatim>\<open>field_impl.h\<close>: equality, square roots, inversion (the \<^verbatim>\<open>USE_FIELD_INV_BUILTIN\<close> and
  \<^verbatim>\<open>USE_NUM_NONE\<close> branches the configuration selects) and batch inversion. A loop that squares
  \<open>n\<close> times is \<open>secp256k1_fe_sqr ^^ n\<close>; the addition chains are shown to compute the powers
  \<open>(p + 1) / 4\<close> and \<open>p - 2\<close>.
\<close>

section \<open>Operations\<close>

definition secp256k1_fe_equal :: "secp256k1_fe \<Rightarrow> secp256k1_fe \<Rightarrow> bool" where
  "secp256k1_fe_equal a b = (
     let na = secp256k1_fe_negate a 1; na = secp256k1_fe_add na b
     in secp256k1_fe_normalizes_to_zero na)"

definition secp256k1_fe_equal_var :: "secp256k1_fe \<Rightarrow> secp256k1_fe \<Rightarrow> bool" where
  "secp256k1_fe_equal_var a b = (
     let na = secp256k1_fe_negate a 1; na = secp256k1_fe_add na b
     in secp256k1_fe_normalizes_to_zero_var na)"

text \<open>The square root comes with the return code: whether the root squares to the input.\<close>

definition secp256k1_fe_sqrt :: "secp256k1_fe \<Rightarrow> bool \<times> secp256k1_fe" where
  "secp256k1_fe_sqrt a = (
     let x2 = secp256k1_fe_sqr a; x2 = secp256k1_fe_mul x2 a;
         x3 = secp256k1_fe_sqr x2; x3 = secp256k1_fe_mul x3 a;
         x6 = (secp256k1_fe_sqr ^^ 3) x3; x6 = secp256k1_fe_mul x6 x3;
         x9 = (secp256k1_fe_sqr ^^ 3) x6; x9 = secp256k1_fe_mul x9 x3;
         x11 = (secp256k1_fe_sqr ^^ 2) x9; x11 = secp256k1_fe_mul x11 x2;
         x22 = (secp256k1_fe_sqr ^^ 11) x11; x22 = secp256k1_fe_mul x22 x11;
         x44 = (secp256k1_fe_sqr ^^ 22) x22; x44 = secp256k1_fe_mul x44 x22;
         x88 = (secp256k1_fe_sqr ^^ 44) x44; x88 = secp256k1_fe_mul x88 x44;
         x176 = (secp256k1_fe_sqr ^^ 88) x88; x176 = secp256k1_fe_mul x176 x88;
         x220 = (secp256k1_fe_sqr ^^ 44) x176; x220 = secp256k1_fe_mul x220 x44;
         x223 = (secp256k1_fe_sqr ^^ 3) x220; x223 = secp256k1_fe_mul x223 x3;
         t1 = (secp256k1_fe_sqr ^^ 23) x223; t1 = secp256k1_fe_mul t1 x22;
         t1 = (secp256k1_fe_sqr ^^ 6) t1; t1 = secp256k1_fe_mul t1 x2;
         t1 = secp256k1_fe_sqr t1;
         r = secp256k1_fe_sqr t1;
         t1 = secp256k1_fe_sqr r
     in (secp256k1_fe_equal t1 a, r))"

definition secp256k1_fe_inv :: "secp256k1_fe \<Rightarrow> secp256k1_fe" where
  "secp256k1_fe_inv a = (
     let x2 = secp256k1_fe_sqr a; x2 = secp256k1_fe_mul x2 a;
         x3 = secp256k1_fe_sqr x2; x3 = secp256k1_fe_mul x3 a;
         x6 = (secp256k1_fe_sqr ^^ 3) x3; x6 = secp256k1_fe_mul x6 x3;
         x9 = (secp256k1_fe_sqr ^^ 3) x6; x9 = secp256k1_fe_mul x9 x3;
         x11 = (secp256k1_fe_sqr ^^ 2) x9; x11 = secp256k1_fe_mul x11 x2;
         x22 = (secp256k1_fe_sqr ^^ 11) x11; x22 = secp256k1_fe_mul x22 x11;
         x44 = (secp256k1_fe_sqr ^^ 22) x22; x44 = secp256k1_fe_mul x44 x22;
         x88 = (secp256k1_fe_sqr ^^ 44) x44; x88 = secp256k1_fe_mul x88 x44;
         x176 = (secp256k1_fe_sqr ^^ 88) x88; x176 = secp256k1_fe_mul x176 x88;
         x220 = (secp256k1_fe_sqr ^^ 44) x176; x220 = secp256k1_fe_mul x220 x44;
         x223 = (secp256k1_fe_sqr ^^ 3) x220; x223 = secp256k1_fe_mul x223 x3;
         t1 = (secp256k1_fe_sqr ^^ 23) x223; t1 = secp256k1_fe_mul t1 x22;
         t1 = (secp256k1_fe_sqr ^^ 5) t1; t1 = secp256k1_fe_mul t1 a;
         t1 = (secp256k1_fe_sqr ^^ 3) t1; t1 = secp256k1_fe_mul t1 x2;
         t1 = (secp256k1_fe_sqr ^^ 2) t1
     in secp256k1_fe_mul a t1)"

definition secp256k1_fe_inv_var :: "secp256k1_fe \<Rightarrow> secp256k1_fe" where
  "secp256k1_fe_inv_var a = secp256k1_fe_inv a"

text \<open>
  Batch inversion: the array \<open>r\<close> is overwritten with the prefix products of \<open>a\<close>, then from
  the back with the inverses; the arrays do not overlap (the code's \<^verbatim>\<open>VERIFY_CHECK\<close>).
\<close>

definition fe_inv_all_prefix :: "secp256k1_fe list \<Rightarrow> nat \<Rightarrow> secp256k1_fe list \<Rightarrow> secp256k1_fe list" where
  "fe_inv_all_prefix a i r = r [i := secp256k1_fe_mul (r ! (i - 1)) (a ! i)]"

definition fe_inv_all_back ::
    "secp256k1_fe list \<Rightarrow> nat \<Rightarrow> secp256k1_fe list \<times> secp256k1_fe \<Rightarrow> secp256k1_fe list \<times> secp256k1_fe" where
  "fe_inv_all_back a j = (\<lambda>(r, u). (r [j := secp256k1_fe_mul (r ! (j - 1)) u], secp256k1_fe_mul u (a ! j)))"

definition secp256k1_fe_inv_all_var :: "secp256k1_fe list \<Rightarrow> secp256k1_fe list \<Rightarrow> nat \<Rightarrow> secp256k1_fe list" where
  "secp256k1_fe_inv_all_var r a len = (
     if len < 1 then r
     else
       let r = r [0 := a ! 0];
           r = fold (fe_inv_all_prefix a) [1 ..< len] r;
           u = secp256k1_fe_inv_var (r ! (len - 1));
           (r, u) = fold (fe_inv_all_back a) (rev [1 ..< len]) (r, u)
       in r [0 := u])"

definition secp256k1_fe_is_quad_var :: "secp256k1_fe \<Rightarrow> bool" where
  "secp256k1_fe_is_quad_var a = fst (secp256k1_fe_sqrt a)"

section \<open>Equality\<close>

lemma fe_normalizes_to_zero_var_is [fe_rules]:
  "fe_is 32 x a \<Longrightarrow> secp256k1_fe_normalizes_to_zero_var a \<longleftrightarrow> x = 0"
  by (simp add: fe_normalizes_to_zero_var_eq secp256k1_fe_normalizes_to_zero_is)

lemma secp256k1_fe_equal_is [fe_rules]:
  assumes a: "fe_is 1 x a" and b: "fe_is 30 y b"
  shows "secp256k1_fe_equal a b \<longleftrightarrow> x = y" "secp256k1_fe_equal_var a b \<longleftrightarrow> x = y"
proof -
  have "fe_is 2 (- x) (secp256k1_fe_negate a 1)"
    using secp256k1_fe_negate_is [OF a, of 1] by (simp add: numeral_2_eq_2)
  from secp256k1_fe_add_is [OF this b]
  have "fe_is 32 (- x + y) (secp256k1_fe_add (secp256k1_fe_negate a 1) b)" by simp
  then show "secp256k1_fe_equal a b \<longleftrightarrow> x = y" "secp256k1_fe_equal_var a b \<longleftrightarrow> x = y"
    by (auto simp: secp256k1_fe_equal_def secp256k1_fe_equal_var_def Let_def fe_rules neg_eq_iff_add_eq_0 [symmetric])
qed

section \<open>Powers by addition chains\<close>

text \<open>
  Every intermediate result is a power of the input with magnitude 1; the interface
  \<open>power_chain\<close> computes its exponent.
\<close>

lemma fe_is_8: "fe_is 1 x a \<Longrightarrow> fe_is 8 x a"
  by (erule fe_is_mono) simp

interpretation fe_chain: power_chain "fe_is 1" "fe_is 8" secp256k1_fe_mul secp256k1_fe_sqr
  by unfold_locales (rule fe_is_8 secp256k1_fe_mul_is secp256k1_fe_sqr_is, assumption+)+

lemma secp256k1_fe_inv_is [fe_rules]:
  assumes a: "fe_is 8 x a"
  shows "fe_is 1 (inverse x) (secp256k1_fe_inv a)"
  unfolding secp256k1_fe_inv_def fp_inverse_power [symmetric]
  apply ((rule fe_chain.let_power [where P = "fe_is 1 (x ^ (field_p - 2))"],
      (assumption | rule fe_chain.power_sqr_times fe_chain.power_one [OF a] fe_chain.power_rules)+, simp (no_asm))+)
  apply (rule fe_chain.power_mul_last [OF fe_chain.power_one [OF a]], rule fe_is_8, assumption, simp add: field_p_def)
  done

lemma secp256k1_fe_inv_var_is [fe_rules]: "fe_is 8 x a \<Longrightarrow> fe_is 1 (inverse x) (secp256k1_fe_inv_var a)"
  unfolding secp256k1_fe_inv_var_def by (rule secp256k1_fe_inv_is)

lemma fe_sqrt_last:
  assumes a: "fe_is 8 x a" and t: "fe_is 1 (x ^ e) t" and r: "fe_is 1 (x ^ k) r"
    and k: "k = (field_p + 1) div 4" "e = k + k"
  shows "fe_is 1 (fp_root x) (snd (secp256k1_fe_equal t a, r)) \<and>
     (fst (secp256k1_fe_equal t a, r) \<longleftrightarrow> fp_is_square x)"
proof -
  have "fe_is 30 x a"
    using a by (rule fe_is_mono) simp
  with t have "secp256k1_fe_equal t a \<longleftrightarrow> fp_root x ^ 2 = x"
    by (simp add: secp256k1_fe_equal_is fp_root_def k power_add power2_eq_square)
  then show ?thesis
    using r fp_root_square_iff [of x] by (simp add: k fp_root_def)
qed

lemma secp256k1_fe_sqrt_is:
  assumes a: "fe_is 8 x a"
  shows "fe_is 1 (fp_root x) (snd (secp256k1_fe_sqrt a)) \<and> (fst (secp256k1_fe_sqrt a) \<longleftrightarrow> fp_is_square x)"
    (is "?Q (secp256k1_fe_sqrt a)")
  unfolding secp256k1_fe_sqrt_def
  apply ((rule fe_chain.let_power [where P = "?Q" and x = x],
      (assumption | rule fe_chain.power_sqr_times fe_chain.power_one [OF a] fe_chain.power_rules)+, simp (no_asm))+)
  apply (rule fe_sqrt_last [OF a], assumption, assumption, simp add: field_p_def, simp)
  done

lemma secp256k1_fe_is_quad_var_is [fe_rules]: "fe_is 8 x a \<Longrightarrow> secp256k1_fe_is_quad_var a \<longleftrightarrow> fp_is_square x"
  using secp256k1_fe_sqrt_is by (simp add: secp256k1_fe_is_quad_var_def)

section \<open>Batch inversion\<close>

lemma fe_inv_all_prefix_length [simp]: "length (fold (fe_inv_all_prefix a) is r) = length r"
  by (induction "is" arbitrary: r) (simp_all add: fe_inv_all_prefix_def)

lemma fe_inv_all_back_length [simp]: "length (fst (fold (fe_inv_all_back a) js (r, u))) = length r"
  by (induction js arbitrary: r u) (simp_all add: fe_inv_all_back_def)

text \<open>After the forward pass entry \<open>i\<close> is the product of the first \<open>i + 1\<close> inputs.\<close>

lemma fe_inv_all_prefix_is:
  assumes a: "\<And>i. i < n \<Longrightarrow> fe_is 8 (x i) (a ! i)" and n: "0 < n" "n \<le> length r"
  shows "i < n \<Longrightarrow> fe_is 8 (\<Prod>k\<le>i. x k) (fold (fe_inv_all_prefix a) [1 ..< n] (r [0 := a ! 0]) ! i)"
  using assms
proof (induction n arbitrary: i)
  case (Suc n)
  show ?case
  proof (cases "n = 0")
    case False
    let ?r = "fold (fe_inv_all_prefix a) [1 ..< n] (r [0 := a ! 0])"
    have IH: "fe_is 8 (\<Prod>k\<le>i. x k) (?r ! i)" if "i < n" for i
      using Suc.IH [OF that] Suc.prems False by simp
    have e: "fold (fe_inv_all_prefix a) [1 ..< Suc n] (r [0 := a ! 0]) = ?r [n := secp256k1_fe_mul (?r ! (n - 1)) (a ! n)]"
      using False by (simp add: fe_inv_all_prefix_def)
    have "fe_is 1 ((\<Prod>k\<le>n - 1. x k) * x n) (secp256k1_fe_mul (?r ! (n - 1)) (a ! n))"
      using False Suc.prems by (intro secp256k1_fe_mul_is IH) simp_all
    then have "fe_is 8 (\<Prod>k\<le>n. x k) (secp256k1_fe_mul (?r ! (n - 1)) (a ! n))"
      using False by (cases n) (simp_all add: fe_is_8)
    then show ?thesis
      unfolding e using IH Suc.prems by (cases "i = n") simp_all
  qed (use Suc.prems in \<open>cases r; simp\<close>)
qed simp

text \<open>
  The backward pass replaces the prefix products by the inverses. When one of the inputs is
  zero the product is, its inverse is computed as zero, and so is every entry.
\<close>

definition fe_inv_all_spec :: "(nat \<Rightarrow> fp) \<Rightarrow> nat \<Rightarrow> fp \<Rightarrow> fp" where
  "fe_inv_all_spec x n y = (if \<exists>k < n. x k = 0 then 0 else inverse y)"

lemma fe_inv_all_spec_step:
  assumes "Suc m < n"
  shows "(\<Prod>k\<le>m. x k) * fe_inv_all_spec x n (\<Prod>k\<le>Suc m. x k) = fe_inv_all_spec x n (x (Suc m))"
    and "fe_inv_all_spec x n (\<Prod>k\<le>Suc m. x k) * x (Suc m) = fe_inv_all_spec x n (\<Prod>k\<le>m. x k)"
  using assms by (auto simp: fe_inv_all_spec_def)

lemma fe_inv_all_back_is:
  assumes "m < n" "n \<le> length r" "\<And>i. i < n \<Longrightarrow> fe_is 8 (x i) (a ! i)"
    and "\<And>i. i \<le> m \<Longrightarrow> fe_is 8 (\<Prod>k\<le>i. x k) (r ! i)"
    and "\<And>i. m < i \<Longrightarrow> i < n \<Longrightarrow> fe_is 8 (fe_inv_all_spec x n (x i)) (r ! i)"
    and "fe_is 8 (fe_inv_all_spec x n (\<Prod>k\<le>m. x k)) u"
    and "fold (fe_inv_all_back a) (rev [1 ..< Suc m]) (r, u) = (r', u')"
  shows "(\<forall>i. 0 < i \<longrightarrow> i < n \<longrightarrow> fe_is 8 (fe_inv_all_spec x n (x i)) (r' ! i)) \<and>
    fe_is 8 (fe_inv_all_spec x n (x 0)) u'"
  using assms
proof (induction m arbitrary: r u)
  case (Suc m)
  let ?r = "r [Suc m := secp256k1_fe_mul (r ! m) u]" and ?u = "secp256k1_fe_mul u (a ! Suc m)"
  note step = fe_inv_all_spec_step [OF Suc.prems(1), of x]
  have "rev [1 ..< Suc (Suc m)] = Suc m # rev [1 ..< Suc m]"
    by simp
  moreover have "fe_inv_all_back a (Suc m) (r, u) = (?r, ?u)"
    by (simp add: fe_inv_all_back_def)
  ultimately have f: "fold (fe_inv_all_back a) (rev [1 ..< Suc m]) (?r, ?u) = (r', u')"
    using Suc.prems(7) by (simp only: fold_simps)
  show ?case
  proof (rule Suc.IH [OF _ _ _ _ _ _ f])
    show "fe_is 8 (fe_inv_all_spec x n (\<Prod>k\<le>m. x k)) ?u"
      unfolding step(2) [symmetric] by (rule fe_is_8, rule secp256k1_fe_mul_is) (use Suc.prems in simp_all)
    have "fe_is 8 (fe_inv_all_spec x n (x (Suc m))) (secp256k1_fe_mul (r ! m) u)"
      unfolding step(1) [symmetric] by (rule fe_is_8, rule secp256k1_fe_mul_is) (use Suc.prems in simp_all)
    then show "fe_is 8 (fe_inv_all_spec x n (x i)) (?r ! i)" if "m < i" "i < n" for i
      using that Suc.prems by (cases "i = Suc m") simp_all
  qed (use Suc.prems in simp_all)
qed auto

lemma secp256k1_fe_inv_all_var_is:
  assumes a: "\<And>i. i < n \<Longrightarrow> fe_is 8 (x i) (a ! i)" and n: "n \<le> length r" and i: "i < n"
  shows "fe_is 8 (fe_inv_all_spec x n (x i)) (secp256k1_fe_inv_all_var r a n ! i)"
proof -
  let ?r = "fold (fe_inv_all_prefix a) [1 ..< n] (r [0 := a ! 0])"
  let ?u = "secp256k1_fe_inv_var (?r ! (n - 1))"
  obtain r' u' where f: "fold (fe_inv_all_back a) (rev [1 ..< n]) (?r, ?u) = (r', u')"
    by (cases "fold (fe_inv_all_back a) (rev [1 ..< n]) (?r, ?u)")
  have p: "fe_is 8 (\<Prod>k\<le>i. x k) (?r ! i)" if "i < n" for i
    using that a n by (intro fe_inv_all_prefix_is) simp_all
  have "(\<Prod>k\<le>n - 1. x k) = 0 \<longleftrightarrow> (\<exists>k < n. x k = 0)"
    using i by (auto simp: less_eq_Suc_le) (metis Suc_pred diff_Suc_1 less_Suc_eq_le not_less_eq_eq zero_less_Suc less_eq_Suc_le le_less_trans not_le)
  then have "inverse (\<Prod>k\<le>n - 1. x k) = fe_inv_all_spec x n (\<Prod>k\<le>n - 1. x k)"
    by (auto simp: fe_inv_all_spec_def)
  moreover have "fe_is 8 (inverse (\<Prod>k\<le>n - 1. x k)) ?u"
    using i by (intro fe_is_8 secp256k1_fe_inv_var_is p) simp
  ultimately have u: "fe_is 8 (fe_inv_all_spec x n (\<Prod>k\<le>n - 1. x k)) ?u"
    by simp
  have e: "rev [1 ..< n] = rev [1 ..< Suc (n - 1)]"
    using i by simp
  have "(\<forall>i. 0 < i \<longrightarrow> i < n \<longrightarrow> fe_is 8 (fe_inv_all_spec x n (x i)) (r' ! i)) \<and>
      fe_is 8 (fe_inv_all_spec x n (x 0)) u'"
    by (rule fe_inv_all_back_is [where m = "n - 1" and r = ?r and u = ?u and a = a])
      (use a n i p u f e in simp_all)
  moreover have len: "length r' = length r"
    using fe_inv_all_back_length [of a "rev [1 ..< n]" ?r ?u] by (simp only: f fst_conv fe_inv_all_prefix_length length_list_update)
  moreover have "r' [0 := u'] ! 0 = u'"
    using len n i by (intro nth_list_update_eq) linarith
  ultimately show ?thesis
    using n i f by (cases "i = 0") (simp_all add: secp256k1_fe_inv_all_var_def Let_def)
qed

end
