(* ===== verification/Field_Spec.thy ===== *)
theory Field_Spec
  imports Field_Impl
begin

text \<open>
  What the field component promises, stated on limbs and natural numbers: the magnitude
  discipline, the value computed modulo \<open>field_p\<close>, the canonical form reached by
  normalisation, inversion and square roots, and the byte and storage round trips.
\<close>

section \<open>Shared facts\<close>

lemma fe_is_val: "fe_mag m a \<Longrightarrow> fe_is m (of_nat (fe_val a)) a"
  by (simp add: fe_is_def)

lemma fe_is_mod: "fe_is m (of_nat k) a \<Longrightarrow> fe_mag m a \<and> fe_val a mod field_p = k mod field_p"
  by (simp add: fe_is_def of_nat_fp_eq_iff)

text \<open>Elements used by the examples: the largest limbs of magnitude 8, and a small number.\<close>

definition fe_max8 :: secp256k1_fe where
  "fe_max8 = \<lparr>fe0 = 0xFFFFFFFFFFFFF0, fe1 = 0xFFFFFFFFFFFFF0, fe2 = 0xFFFFFFFFFFFFF0,
     fe3 = 0xFFFFFFFFFFFFF0, fe4 = 0xFFFFFFFFFFFF0\<rparr>"

definition fe_small :: "u64 \<Rightarrow> secp256k1_fe" where
  "fe_small k = \<lparr>fe0 = k, fe1 = 0, fe2 = 0, fe3 = 0, fe4 = 0\<rparr>"

lemma fe_max8_mag: "fe_mag 8 fe_max8"
  by (simp add: fe_max8_def fe_mag_def)

lemma fe_small_normalized: "unat k \<le> 0xFFFFFFFFFFFFF \<Longrightarrow> fe_normalized (fe_small k)"
  by (simp add: fe_small_def fe_normalized_def fe_val_def field_p_def)

lemma fe_small_val: "fe_val (fe_small k) = unat k"
  by (simp add: fe_small_def fe_val_def)

text \<open>An inverse in the field, read as a statement about representatives.\<close>

lemma of_nat_inverse_mod:
  assumes "(of_nat v :: fp) = (if P then 0 else inverse (of_nat a))" "a mod field_p = 0 \<Longrightarrow> P"
  shows "v * a mod field_p = (if P then 0 else 1)"
proof -
  have "(of_nat a :: fp) = 0 \<Longrightarrow> P"
    using assms(2) of_nat_fp_eq_iff [of a 0] by simp
  then have "(of_nat (v * a) :: fp) = of_nat (if P then 0 else 1)"
    using assms(1) by (cases P) (auto intro!: left_inverse)
  then have "v * a mod field_p = (if P then 0 else 1) mod field_p"
    by (simp only: of_nat_fp_eq_iff)
  then show ?thesis by (simp add: field_p_def)
qed

lemma fe_normalized_mag: "fe_normalized a \<Longrightarrow> fe_mag 1 a"
  by (simp add: fe_normalized_def fe_mag_def)

section \<open>Properties\<close>

text \<open>C21: multiplying two elements of magnitude at most 8 in the five 52-bit limbs gives an
  element of magnitude 1 whose value is the product modulo the field prime: no 64- or 128-bit
  intermediate overflows.\<close>

theorem fe_mul_correct:
  assumes "fe_mag 8 a" "fe_mag 8 b"
  shows "fe_mag 1 (secp256k1_fe_mul a b) \<and>
    fe_val (secp256k1_fe_mul a b) mod field_p = fe_val a * fe_val b mod field_p"
proof -
  have "fe_is 1 (of_nat (fe_val a * fe_val b)) (secp256k1_fe_mul a b)"
    using secp256k1_fe_mul_is [OF fe_is_val [OF assms(1)] fe_is_val [OF assms(2)]] by simp
  then show ?thesis by (rule fe_is_mod)
qed

theorem fe_mul_correct_witness:
  "fe_val (secp256k1_fe_mul fe_max8 fe_max8) mod field_p = fe_val fe_max8 * fe_val fe_max8 mod field_p"
  using fe_mul_correct [OF fe_max8_mag fe_max8_mag] by (rule conjunct2)

text \<open>The dedicated squaring routine agrees with the multiplication routine: same value
  modulo the prime and same magnitude bound.\<close>

theorem fe_sqr_equals_mul:
  assumes "fe_mag 8 a"
  shows "fe_mag 1 (secp256k1_fe_sqr a) \<and>
    secp256k1_fe_normalize (secp256k1_fe_sqr a) = secp256k1_fe_normalize (secp256k1_fe_mul a a)"
proof -
  let ?x = "of_nat (fe_val a) :: fp"
  have s: "fe_is 1 (?x * ?x) (secp256k1_fe_sqr a)" and m: "fe_is 1 (?x * ?x) (secp256k1_fe_mul a a)"
    using secp256k1_fe_sqr_is [OF fe_is_val [OF assms]] secp256k1_fe_mul_is [OF fe_is_val [OF assms] fe_is_val [OF assms]]
    by (simp_all add: power2_eq_square)
  note s32 = fe_is_mono [OF s, of 32, simplified] and m32 = fe_is_mono [OF m, of 32, simplified]
  show ?thesis
    using s fe_normalize_fp_nat [OF s32] fe_normalize_fp_nat [OF m32]
      fe_normalize_value(1) [of "secp256k1_fe_sqr a"] fe_normalize_value(1) [of "secp256k1_fe_mul a a"] s32 m32
    by (auto simp: fe_is_def intro!: fe_normalized_unique)
qed

theorem fe_sqr_equals_mul_witness:
  "secp256k1_fe_normalize (secp256k1_fe_sqr fe_max8) = secp256k1_fe_normalize (secp256k1_fe_mul fe_max8 fe_max8)"
  using fe_sqr_equals_mul [OF fe_max8_mag] by (rule conjunct2)

text \<open>C39: normalisation of an element of magnitude at most 32 is the canonical representative:
  limbs in range, value the residue below the prime; the variable-time routine returns the same
  limbs, and two elements normalise to the same limbs exactly when they are congruent.\<close>

theorem fe_normalize_canonical:
  assumes "fe_mag 32 a" "fe_mag 32 b"
  shows "fe_normalized (secp256k1_fe_normalize a) \<and> fe_val (secp256k1_fe_normalize a) = fe_val a mod field_p \<and>
    secp256k1_fe_normalize_var a = secp256k1_fe_normalize a \<and>
    (secp256k1_fe_normalize a = secp256k1_fe_normalize b \<longleftrightarrow> fe_val a mod field_p = fe_val b mod field_p)"
  using fe_normalize_value [OF assms(1)] fe_normalize_value [OF assms(2)] fe_normalize_var_eq [OF assms(1)]
  by (auto intro: fe_normalized_unique)

theorem fe_normalize_canonical_witness:
  "secp256k1_fe_normalize \<lparr>fe0 = 0xFFFFEFFFFFC34, fe1 = 0xFFFFFFFFFFFFF,
     fe2 = 0xFFFFFFFFFFFFF, fe3 = 0xFFFFFFFFFFFFF, fe4 = 0xFFFFFFFFFFFF\<rparr> = secp256k1_fe_normalize (fe_small 5)"
  (is "secp256k1_fe_normalize ?a = _")
proof -
  have "fe_mag 32 ?a" "fe_mag 32 (fe_small 5)"
    by (simp_all add: fe_small_def fe_mag_def)
  note c = fe_normalize_canonical [OF this]
  have "fe_val ?a mod field_p = fe_val (fe_small 5) mod field_p"
    by (simp add: fe_small_def fe_val_def field_p_def)
  with c show ?thesis by blast
qed

text \<open>The inversion chain (and its variable-time variant) returns an element whose product
  with the input is 1 modulo the prime, and 0 when the input is 0 modulo the prime.\<close>

theorem fe_inv_correct:
  assumes "fe_mag 8 a"
  shows "fe_val (secp256k1_fe_inv a) * fe_val a mod field_p = (if fe_val a mod field_p = 0 then 0 else 1) \<and>
    secp256k1_fe_inv_var a = secp256k1_fe_inv a"
proof -
  let ?x = "of_nat (fe_val a) :: fp"
  have "of_nat (fe_val (secp256k1_fe_inv a)) = inverse ?x"
    using secp256k1_fe_inv_is [OF fe_is_val [OF assms]] by (simp add: fe_is_def)
  moreover have "?x = 0" if "fe_val a mod field_p = 0"
    using that of_nat_fp_eq_iff [of "fe_val a" 0] by simp
  ultimately have "of_nat (fe_val (secp256k1_fe_inv a)) = (if fe_val a mod field_p = 0 then 0 else inverse ?x)"
    by simp
  then show ?thesis
    using of_nat_inverse_mod [of _ _ "fe_val a"] by (simp add: secp256k1_fe_inv_var_def)
qed

theorem fe_inv_correct_witness:
  "fe_val (secp256k1_fe_inv (fe_small 7)) * 7 mod field_p = 1"
  using fe_inv_correct [of "fe_small 7"] by (simp add: fe_small_def fe_mag_def fe_val_def field_p_def)

text \<open>The square root routine reports success exactly when the input is a quadratic
  residue; the root it then returns squares to the input and is itself a quadratic residue.\<close>

theorem fe_sqrt_correct:
  assumes "fe_mag 8 a"
  shows "case secp256k1_fe_sqrt a of (ok, r) \<Rightarrow>
    fe_mag 1 r \<and> (ok \<longleftrightarrow> (\<exists>y. y * y mod field_p = fe_val a mod field_p)) \<and>
    (ok \<longrightarrow> fe_val r * fe_val r mod field_p = fe_val a mod field_p \<and> secp256k1_fe_is_quad_var r)"
proof -
  let ?x = "of_nat (fe_val a) :: fp"
  obtain ok r where s: "secp256k1_fe_sqrt a = (ok, r)" by (cases "secp256k1_fe_sqrt a")
  with secp256k1_fe_sqrt_is [OF fe_is_val [OF assms]]
  have r: "fe_is 1 (fp_root ?x) r" and ok: "ok \<longleftrightarrow> fp_is_square ?x" by simp_all
  have "fp_is_square ?x \<longleftrightarrow> (\<exists>y. ?x = of_nat (y * y))"
    by (metis fp_is_square_def of_nat_fp_nat of_nat_mult power2_eq_square)
  also have "\<dots> \<longleftrightarrow> (\<exists>y. y * y mod field_p = fe_val a mod field_p)"
    by (simp only: of_nat_fp_eq_iff eq_commute)
  finally have "ok \<longleftrightarrow> (\<exists>y. y * y mod field_p = fe_val a mod field_p)" using ok by simp
  moreover have "fe_val r * fe_val r mod field_p = fe_val a mod field_p" if ok
  proof -
    have "of_nat (fe_val r * fe_val r) = ?x"
      using r that ok fp_root_square_iff [of ?x] by (simp add: fe_is_def power2_eq_square)
    then show ?thesis by (simp only: of_nat_fp_eq_iff)
  qed
  moreover have "secp256k1_fe_is_quad_var r"
    using secp256k1_fe_is_quad_var_is [OF fe_is_8 [OF r]] fp_root_is_square by simp
  ultimately show ?thesis using r s by (simp add: fe_is_def)
qed

theorem fe_sqrt_correct_witness: "fst (secp256k1_fe_sqrt (fe_small 4))"
proof -
  have "fe_mag 8 (fe_small 4)" by (simp add: fe_small_def fe_mag_def)
  moreover have "\<exists>y. y * y mod field_p = fe_val (fe_small 4) mod field_p"
    by (rule exI [of _ 2]) (simp add: fe_small_val)
  ultimately show ?thesis using fe_sqrt_correct [of "fe_small 4"] by (cases "secp256k1_fe_sqrt (fe_small 4)") simp
qed

text \<open>Reading 32 big-endian bytes succeeds exactly when they denote a number below the
  prime, stores that number, and writing the element back returns the same bytes; conversely a
  normalised element survives being written and read.\<close>

theorem fe_b32_roundtrip:
  assumes "length bs = 32" "fe_normalized a"
  shows "(fst (secp256k1_fe_set_b32 bs) \<longleftrightarrow> be_nat bs < field_p) \<and>
    fe_val (snd (secp256k1_fe_set_b32 bs)) = be_nat bs \<and>
    secp256k1_fe_get_b32 (snd (secp256k1_fe_set_b32 bs)) = bs \<and>
    secp256k1_fe_set_b32 (secp256k1_fe_get_b32 a) = (True, a)"
  using assms by (simp add: fe_set_b32_flag fe_set_b32_limbs fe_get_set_b32 fe_set_get_b32)

theorem fe_b32_roundtrip_witness:
  "\<not> fst (secp256k1_fe_set_b32 (replicate 32 0xFF)) \<and>
   secp256k1_fe_get_b32 (snd (secp256k1_fe_set_b32 (replicate 32 0xFF))) = replicate 32 0xFF \<and>
   secp256k1_fe_set_b32 (secp256k1_fe_get_b32 (fe_small 9)) = (True, fe_small 9)"
proof -
  have "be_nat (replicate n 0xFF) + 1 = 256 ^ n" for n
    by (induction n) simp_all
  from this [of 32] have "\<not> be_nat (replicate 32 0xFF) < field_p"
    by (simp add: field_p_def)
  then show ?thesis
    using fe_b32_roundtrip [OF length_replicate fe_small_normalized [of 9]] by simp
qed

text \<open>Packing a normalised element into four 64-bit words and unpacking it loses nothing,
  and every content of the packed form survives the opposite trip.\<close>

theorem fe_storage_roundtrip:
  assumes "fe_normalized a"
  shows "secp256k1_fe_from_storage (secp256k1_fe_to_storage a) = a \<and>
    secp256k1_fe_to_storage (secp256k1_fe_from_storage s) = s"
  using assms by (simp add: fe_normalized_iff fe_from_to_storage fe_to_from_storage)

theorem fe_storage_roundtrip_witness:
  "secp256k1_fe_from_storage (secp256k1_fe_to_storage (fe_small 11)) = fe_small 11"
  using fe_storage_roundtrip [OF fe_small_normalized [of 11]] by simp

text \<open>The batch inversion, which inverts only one product, stores at every index the
  inverse of that input, provided no input is 0 modulo the prime; a single zero input makes
  every output 0.\<close>

theorem fe_inv_all_var_correct:
  assumes a: "\<And>j. j < n \<Longrightarrow> fe_mag 8 (a ! j)" and n: "n \<le> length r" "i < n"
  shows "fe_val (secp256k1_fe_inv_all_var r a n ! i) * fe_val (a ! i) mod field_p =
    (if \<exists>j < n. fe_val (a ! j) mod field_p = 0 then 0 else 1)"
proof -
  let ?x = "\<lambda>j. of_nat (fe_val (a ! j)) :: fp"
  have z: "?x j = 0 \<longleftrightarrow> fe_val (a ! j) mod field_p = 0" for j
    using of_nat_fp_eq_iff [of "fe_val (a ! j)" 0] by simp
  have "of_nat (fe_val (secp256k1_fe_inv_all_var r a n ! i)) = fe_inv_all_spec ?x n (?x i)"
    using secp256k1_fe_inv_all_var_is [of n ?x a r i] a n by (simp add: fe_is_def)
  then show ?thesis
    unfolding fe_inv_all_spec_def z by (rule of_nat_inverse_mod) (use n(2) in auto)
qed

theorem fe_inv_all_var_correct_witness:
  "fe_val (secp256k1_fe_inv_all_var [fe_max8, fe_max8] [fe_small 3, fe_small 5] 2 ! 1) * 5 mod field_p = 1"
proof -
  have "fe_mag 8 ([fe_small 3, fe_small 5] ! j)" if "j < 2" for j
    using that by (auto simp: less_2_cases_iff fe_small_def fe_mag_def)
  moreover have nz: "fe_val ([fe_small 3, fe_small 5] ! j) mod field_p \<noteq> 0" if "j < 2" for j
  proof -
    have "fe_val (fe_small 3) mod field_p = 3" "fe_val (fe_small 5) mod field_p = 5"
      by (simp_all only: fe_small_val) (simp_all add: field_p_def)
    moreover have "j = 0 \<or> j = 1" using that by linarith
    ultimately show ?thesis by (elim disjE) simp_all
  qed
  moreover have "\<not> (\<exists>j < 2. fe_val ([fe_small 3, fe_small 5] ! j) mod field_p = 0)"
    by (rule notI, elim exE conjE) (drule nz, erule notE)
  ultimately show ?thesis
    using fe_inv_all_var_correct [of 2 "[fe_small 3, fe_small 5]" "[fe_max8, fe_max8]" 1]
    by (simp add: fe_small_val)
qed

text \<open>Negation, addition and multiplication by a small integer keep the magnitude
  bookkeeping of the callers: the result has the announced magnitude and the right value modulo
  the prime, as long as the announced magnitude is within what a limb can hold.\<close>

theorem fe_linear_ops_correct:
  assumes "fe_mag m a" "fe_mag k b" "m \<le> 2047" "m + k \<le> 2048" "m * j \<le> 2048"
  shows "fe_mag (m + k) (secp256k1_fe_add a b) \<and> fe_mag (m + 1) (secp256k1_fe_negate a (int m)) \<and>
    fe_mag (m * j) (secp256k1_fe_mul_int a (int j)) \<and>
    fe_val (secp256k1_fe_add a b) mod field_p = (fe_val a + fe_val b) mod field_p \<and>
    (fe_val (secp256k1_fe_negate a (int m)) + fe_val a) mod field_p = 0 \<and>
    fe_val (secp256k1_fe_mul_int a (int j)) mod field_p = j * fe_val a mod field_p"
proof -
  let ?x = "of_nat (fe_val a) :: fp" and ?y = "of_nat (fe_val b) :: fp"
  note a = fe_is_val [OF assms(1)]
  have "fe_is (m + k) (of_nat (fe_val a + fe_val b)) (secp256k1_fe_add a b)"
    using secp256k1_fe_add_is [OF a fe_is_val [OF assms(2)] assms(4)] by simp
  moreover have "fe_is (m * j) (of_nat (j * fe_val a)) (secp256k1_fe_mul_int a (int j))"
    using secp256k1_fe_mul_int_is [OF a assms(5)] by simp
  moreover have n: "fe_is (m + 1) (- ?x) (secp256k1_fe_negate a (int m))"
    by (rule secp256k1_fe_negate_is [OF a order_refl assms(3)])
  moreover have "(of_nat (fe_val (secp256k1_fe_negate a (int m)) + fe_val a) :: fp) = of_nat 0"
    using n by (simp add: fe_is_def)
  then have "(fe_val (secp256k1_fe_negate a (int m)) + fe_val a) mod field_p = 0"
    by (simp only: of_nat_fp_eq_iff) simp
  ultimately show ?thesis
    using fe_is_mod by (auto simp: fe_is_def)
qed

theorem fe_linear_ops_correct_witness:
  "(fe_val (secp256k1_fe_negate fe_max8 8) + fe_val fe_max8) mod field_p = 0"
  using fe_linear_ops_correct [OF fe_max8_mag fe_max8_mag, of 3] by simp

end
