(* ===== verification/Group.thy ===== *)
theory Group
  imports Field_Impl
begin

text \<open>
  Translation of \<^verbatim>\<open>group.h\<close> and \<^verbatim>\<open>group_impl.h\<close>: affine and jacobian points over the limb
  representation of the field. A routine that writes through \<^verbatim>\<open>r\<close> takes the old content of
  \<^verbatim>\<open>*r\<close> where the code leaves parts of it, and returns the new content; \<^verbatim>\<open>rzr\<close> is returned as
  an option, \<^const>\<open>None\<close> where the code does not write it.
\<close>

section \<open>Data\<close>

record secp256k1_ge =
  ge_x :: secp256k1_fe
  ge_y :: secp256k1_fe
  ge_infinity :: bool

record secp256k1_gej =
  gej_x :: secp256k1_fe
  gej_y :: secp256k1_fe
  gej_z :: secp256k1_fe
  gej_infinity :: bool

record secp256k1_ge_storage =
  ges_x :: secp256k1_fe_storage
  ges_y :: secp256k1_fe_storage

text \<open>\<^verbatim>\<open>SECP256K1_FE_CONST\<close> of eight 32-bit words, most significant first.\<close>

definition SECP256K1_FE_CONST ::
    "u64 \<Rightarrow> u64 \<Rightarrow> u64 \<Rightarrow> u64 \<Rightarrow> u64 \<Rightarrow> u64 \<Rightarrow> u64 \<Rightarrow> u64 \<Rightarrow> secp256k1_fe" where
  "SECP256K1_FE_CONST d7 d6 d5 d4 d3 d2 d1 d0 =
     \<lparr>fe0 = d0 OR (push_bit 32 (d1 AND 0xFFFFF)),
      fe1 = drop_bit 20 d1 OR (push_bit 12 d2) OR (push_bit 44 (d3 AND 0xFF)),
      fe2 = drop_bit 8 d3 OR (push_bit 24 (d4 AND 0xFFFFFFF)),
      fe3 = drop_bit 28 d4 OR (push_bit 4 d5) OR (push_bit 36 (d6 AND 0xFFFF)),
      fe4 = drop_bit 16 d6 OR (push_bit 16 d7)\<rparr>"

definition secp256k1_ge_const_g :: secp256k1_ge where
  "secp256k1_ge_const_g =
     \<lparr>ge_x = SECP256K1_FE_CONST 0x79BE667E 0xF9DCBBAC 0x55A06295 0xCE870B07
        0x029BFCDB 0x2DCE28D9 0x59F2815B 0x16F81798,
      ge_y = SECP256K1_FE_CONST 0x483ADA77 0x26A3C465 0x5DA4FBFC 0x0E1108A8
        0xFD17B448 0xA6855419 0x9C47D08F 0xFB10D4B8,
      ge_infinity = False\<rparr>"

definition CURVE_B :: int where
  "CURVE_B = 7"

section \<open>Conversions\<close>

definition secp256k1_ge_set_gej_zinv :: "secp256k1_gej \<Rightarrow> secp256k1_fe \<Rightarrow> secp256k1_ge" where
  "secp256k1_ge_set_gej_zinv a zi = (
     let zi2 = secp256k1_fe_sqr zi;
         zi3 = secp256k1_fe_mul zi2 zi;
         x = secp256k1_fe_mul (gej_x a) zi2;
         y = secp256k1_fe_mul (gej_y a) zi3
     in \<lparr>ge_x = x, ge_y = y, ge_infinity = gej_infinity a\<rparr>)"

definition secp256k1_ge_set_xy :: "secp256k1_fe \<Rightarrow> secp256k1_fe \<Rightarrow> secp256k1_ge" where
  "secp256k1_ge_set_xy x y = \<lparr>ge_x = x, ge_y = y, ge_infinity = False\<rparr>"

definition secp256k1_ge_is_infinity :: "secp256k1_ge \<Rightarrow> bool" where
  "secp256k1_ge_is_infinity a \<longleftrightarrow> ge_infinity a"

definition secp256k1_ge_neg :: "secp256k1_ge \<Rightarrow> secp256k1_ge" where
  "secp256k1_ge_neg a = (
     let r = a;
         r = r\<lparr>ge_y := secp256k1_fe_normalize_weak (ge_y r)\<rparr>
     in r\<lparr>ge_y := secp256k1_fe_negate (ge_y r) 1\<rparr>)"

text \<open>The conversion also rescales its input in place: the second component is the new \<^verbatim>\<open>*a\<close>.\<close>

definition secp256k1_ge_set_gej :: "secp256k1_gej \<Rightarrow> secp256k1_ge \<times> secp256k1_gej" where
  "secp256k1_ge_set_gej a = (
     let z = secp256k1_fe_inv (gej_z a);
         z2 = secp256k1_fe_sqr z;
         z3 = secp256k1_fe_mul z z2;
         x = secp256k1_fe_mul (gej_x a) z2;
         y = secp256k1_fe_mul (gej_y a) z3;
         z = secp256k1_fe_set_int 1
     in (\<lparr>ge_x = x, ge_y = y, ge_infinity = gej_infinity a\<rparr>,
         \<lparr>gej_x = x, gej_y = y, gej_z = z, gej_infinity = gej_infinity a\<rparr>))"

definition secp256k1_ge_set_gej_var :: "secp256k1_ge \<Rightarrow> secp256k1_gej \<Rightarrow> secp256k1_ge \<times> secp256k1_gej" where
  "secp256k1_ge_set_gej_var r a =
     (if gej_infinity a then (r\<lparr>ge_infinity := True\<rparr>, a)
      else
        let z = secp256k1_fe_inv_var (gej_z a);
            z2 = secp256k1_fe_sqr z;
            z3 = secp256k1_fe_mul z z2;
            x = secp256k1_fe_mul (gej_x a) z2;
            y = secp256k1_fe_mul (gej_y a) z3;
            z = secp256k1_fe_set_int 1
        in (\<lparr>ge_x = x, ge_y = y, ge_infinity = False\<rparr>,
            \<lparr>gej_x = x, gej_y = y, gej_z = z, gej_infinity = False\<rparr>))"

text \<open>
  The batch conversion: a forward pass of partial products of the finite points' z, kept in the
  x fields of the output; \<^const>\<open>None\<close> is \<^verbatim>\<open>last_i == SIZE_MAX\<close>. Then one inversion, a backward
  pass that turns the partial products into inverses, and a final pass.
\<close>

definition ge_set_all_prefix ::
    "secp256k1_gej list \<Rightarrow> nat \<Rightarrow> secp256k1_ge list \<times> nat option \<Rightarrow> secp256k1_ge list \<times> nat option" where
  "ge_set_all_prefix a i = (\<lambda>(r, last_i).
     if \<not> gej_infinity (a ! i) then
       (case last_i of
          None \<Rightarrow> r[i := (r ! i)\<lparr>ge_x := gej_z (a ! i)\<rparr>]
        | Some l \<Rightarrow> r[i := (r ! i)\<lparr>ge_x := secp256k1_fe_mul (ge_x (r ! l)) (gej_z (a ! i))\<rparr>], Some i)
     else (r, last_i))"

definition ge_set_all_back ::
    "secp256k1_gej list \<Rightarrow> nat \<Rightarrow> secp256k1_ge list \<times> secp256k1_fe \<times> nat \<Rightarrow> secp256k1_ge list \<times> secp256k1_fe \<times> nat" where
  "ge_set_all_back a i = (\<lambda>(r, u, last_i).
     if \<not> gej_infinity (a ! i) then
       (r[last_i := (r ! last_i)\<lparr>ge_x := secp256k1_fe_mul (ge_x (r ! i)) u\<rparr>],
        secp256k1_fe_mul u (gej_z (a ! last_i)), i)
     else (r, u, last_i))"

definition ge_set_all_final :: "secp256k1_gej list \<Rightarrow> nat \<Rightarrow> secp256k1_ge list \<Rightarrow> secp256k1_ge list" where
  "ge_set_all_final a i r = (
     let r = r[i := (r ! i)\<lparr>ge_infinity := gej_infinity (a ! i)\<rparr>]
     in if \<not> gej_infinity (a ! i) then r[i := secp256k1_ge_set_gej_zinv (a ! i) (ge_x (r ! i))] else r)"

definition secp256k1_ge_set_all_gej_var ::
    "secp256k1_ge list \<Rightarrow> secp256k1_gej list \<Rightarrow> nat \<Rightarrow> secp256k1_ge list" where
  "secp256k1_ge_set_all_gej_var r a len =
     (case fold (ge_set_all_prefix a) [0 ..< len] (r, None) of
        (r, None) \<Rightarrow> r
      | (r, Some last_i) \<Rightarrow>
          let u = secp256k1_fe_inv_var (ge_x (r ! last_i));
              (r, u, last_i) = fold (ge_set_all_back a) (rev [0 ..< last_i]) (r, u, last_i);
              r = r[last_i := (r ! last_i)\<lparr>ge_x := u\<rparr>]
          in fold (ge_set_all_final a) [0 ..< len] r)"

text \<open>
  The table conversion to a common z. Index \<open>i\<close> runs down from \<^verbatim>\<open>len - 1\<close>; the ratio of the
  last entry is \<^verbatim>\<open>zr[len - 1]\<close>, the later ones are multiplied on the way.
\<close>

fun ge_globalz_back ::
    "nat \<Rightarrow> secp256k1_gej list \<Rightarrow> secp256k1_fe list \<Rightarrow> nat \<Rightarrow> secp256k1_ge list \<Rightarrow> secp256k1_fe \<Rightarrow> secp256k1_ge list" where
  "ge_globalz_back len a zr 0 r zs = r"
| "ge_globalz_back len a zr (Suc i) r zs = (
     let zs = if Suc i \<noteq> len - 1 then secp256k1_fe_mul zs (zr ! Suc i) else zs;
         r = r[i := secp256k1_ge_set_gej_zinv (a ! i) zs]
     in ge_globalz_back len a zr i r zs)"

definition secp256k1_ge_globalz_set_table_gej ::
    "nat \<Rightarrow> secp256k1_ge list \<Rightarrow> secp256k1_fe \<Rightarrow> secp256k1_gej list \<Rightarrow> secp256k1_fe list \<Rightarrow>
     secp256k1_ge list \<times> secp256k1_fe" where
  "secp256k1_ge_globalz_set_table_gej len r globalz a zr =
     (if 0 < len then
        let i = len - 1;
            r = r[i := \<lparr>ge_x = gej_x (a ! i), ge_y = gej_y (a ! i), ge_infinity = False\<rparr>];
            globalz = gej_z (a ! i);
            zs = zr ! i
        in (ge_globalz_back len a zr i r zs, globalz)
      else (r, globalz))"

definition secp256k1_gej_set_infinity :: secp256k1_gej where
  "secp256k1_gej_set_infinity =
     \<lparr>gej_x = secp256k1_fe_clear, gej_y = secp256k1_fe_clear, gej_z = secp256k1_fe_clear, gej_infinity = True\<rparr>"

definition secp256k1_ge_set_infinity :: secp256k1_ge where
  "secp256k1_ge_set_infinity = \<lparr>ge_x = secp256k1_fe_clear, ge_y = secp256k1_fe_clear, ge_infinity = True\<rparr>"

definition secp256k1_gej_clear :: secp256k1_gej where
  "secp256k1_gej_clear =
     \<lparr>gej_x = secp256k1_fe_clear, gej_y = secp256k1_fe_clear, gej_z = secp256k1_fe_clear, gej_infinity = False\<rparr>"

definition secp256k1_ge_clear :: secp256k1_ge where
  "secp256k1_ge_clear = \<lparr>ge_x = secp256k1_fe_clear, ge_y = secp256k1_fe_clear, ge_infinity = False\<rparr>"

definition secp256k1_ge_set_xquad :: "secp256k1_fe \<Rightarrow> bool \<times> secp256k1_ge" where
  "secp256k1_ge_set_xquad x = (
     let x2 = secp256k1_fe_sqr x;
         x3 = secp256k1_fe_mul x x2;
         c = secp256k1_fe_set_int CURVE_B;
         c = secp256k1_fe_add c x3;
         (ok, y) = secp256k1_fe_sqrt c
     in (ok, \<lparr>ge_x = x, ge_y = y, ge_infinity = False\<rparr>))"

definition secp256k1_ge_set_xo_var :: "secp256k1_fe \<Rightarrow> bool \<Rightarrow> bool \<times> secp256k1_ge" where
  "secp256k1_ge_set_xo_var x odd_y =
     (case secp256k1_ge_set_xquad x of (ok, r) \<Rightarrow>
        if \<not> ok then (False, r)
        else
          let r = r\<lparr>ge_y := secp256k1_fe_normalize_var (ge_y r)\<rparr>
          in (True, if secp256k1_fe_is_odd (ge_y r) \<noteq> odd_y
                    then r\<lparr>ge_y := secp256k1_fe_negate (ge_y r) 1\<rparr> else r))"

definition secp256k1_gej_set_ge :: "secp256k1_ge \<Rightarrow> secp256k1_gej" where
  "secp256k1_gej_set_ge a =
     \<lparr>gej_x = ge_x a, gej_y = ge_y a, gej_z = secp256k1_fe_set_int 1, gej_infinity = ge_infinity a\<rparr>"

definition secp256k1_gej_eq_x_var :: "secp256k1_fe \<Rightarrow> secp256k1_gej \<Rightarrow> bool" where
  "secp256k1_gej_eq_x_var x a = (
     let r = secp256k1_fe_sqr (gej_z a);
         r = secp256k1_fe_mul r x;
         r2 = secp256k1_fe_normalize_weak (gej_x a)
     in secp256k1_fe_equal_var r r2)"

definition secp256k1_gej_neg :: "secp256k1_gej \<Rightarrow> secp256k1_gej" where
  "secp256k1_gej_neg a = (
     let r = a;
         r = r\<lparr>gej_y := secp256k1_fe_normalize_weak (gej_y r)\<rparr>
     in r\<lparr>gej_y := secp256k1_fe_negate (gej_y r) 1\<rparr>)"

definition secp256k1_gej_is_infinity :: "secp256k1_gej \<Rightarrow> bool" where
  "secp256k1_gej_is_infinity a \<longleftrightarrow> gej_infinity a"

definition secp256k1_gej_is_valid_var :: "secp256k1_gej \<Rightarrow> bool" where
  "secp256k1_gej_is_valid_var a =
     (if gej_infinity a then False
      else
        let y2 = secp256k1_fe_sqr (gej_y a);
            x3 = secp256k1_fe_sqr (gej_x a);
            x3 = secp256k1_fe_mul x3 (gej_x a);
            z2 = secp256k1_fe_sqr (gej_z a);
            z6 = secp256k1_fe_sqr z2;
            z6 = secp256k1_fe_mul z6 z2;
            z6 = secp256k1_fe_mul_int z6 CURVE_B;
            x3 = secp256k1_fe_add x3 z6;
            x3 = secp256k1_fe_normalize_weak x3
        in secp256k1_fe_equal_var y2 x3)"

definition secp256k1_ge_is_valid_var :: "secp256k1_ge \<Rightarrow> bool" where
  "secp256k1_ge_is_valid_var a =
     (if ge_infinity a then False
      else
        let y2 = secp256k1_fe_sqr (ge_y a);
            x3 = secp256k1_fe_sqr (ge_x a);
            x3 = secp256k1_fe_mul x3 (ge_x a);
            c = secp256k1_fe_set_int CURVE_B;
            x3 = secp256k1_fe_add x3 c;
            x3 = secp256k1_fe_normalize_weak x3
        in secp256k1_fe_equal_var y2 x3)"

section \<open>Doubling and addition\<close>

definition secp256k1_gej_double_var ::
    "secp256k1_gej \<Rightarrow> secp256k1_gej \<Rightarrow> secp256k1_gej \<times> secp256k1_fe" where
  "secp256k1_gej_double_var r a =
     (if gej_infinity a then (r\<lparr>gej_infinity := True\<rparr>, secp256k1_fe_set_int 1)
      else
        let rzr = gej_y a;
            rzr = secp256k1_fe_normalize_weak rzr;
            rzr = secp256k1_fe_mul_int rzr 2;
            rz = secp256k1_fe_mul (gej_z a) (gej_y a);
            rz = secp256k1_fe_mul_int rz 2;
            t1 = secp256k1_fe_sqr (gej_x a);
            t1 = secp256k1_fe_mul_int t1 3;
            t2 = secp256k1_fe_sqr t1;
            t3 = secp256k1_fe_sqr (gej_y a);
            t3 = secp256k1_fe_mul_int t3 2;
            t4 = secp256k1_fe_sqr t3;
            t4 = secp256k1_fe_mul_int t4 2;
            t3 = secp256k1_fe_mul t3 (gej_x a);
            rx = t3;
            rx = secp256k1_fe_mul_int rx 4;
            rx = secp256k1_fe_negate rx 4;
            rx = secp256k1_fe_add rx t2;
            t2 = secp256k1_fe_negate t2 1;
            t3 = secp256k1_fe_mul_int t3 6;
            t3 = secp256k1_fe_add t3 t2;
            ry = secp256k1_fe_mul t1 t3;
            t2 = secp256k1_fe_negate t4 2;
            ry = secp256k1_fe_add ry t2
        in (\<lparr>gej_x = rx, gej_y = ry, gej_z = rz, gej_infinity = False\<rparr>, rzr))"

definition secp256k1_gej_double_nonzero ::
    "secp256k1_gej \<Rightarrow> secp256k1_gej \<Rightarrow> secp256k1_gej \<times> secp256k1_fe" where
  "secp256k1_gej_double_nonzero r a = secp256k1_gej_double_var r a"

definition secp256k1_gej_add_var ::
    "secp256k1_gej \<Rightarrow> secp256k1_gej \<Rightarrow> secp256k1_gej \<Rightarrow> secp256k1_gej \<times> secp256k1_fe option" where
  "secp256k1_gej_add_var r a b =
     (if gej_infinity a then (b, None)
      else if gej_infinity b then (a, Some (secp256k1_fe_set_int 1))
      else
        let z22 = secp256k1_fe_sqr (gej_z b);
            z12 = secp256k1_fe_sqr (gej_z a);
            u1 = secp256k1_fe_mul (gej_x a) z22;
            u2 = secp256k1_fe_mul (gej_x b) z12;
            s1 = secp256k1_fe_mul (gej_y a) z22;
            s1 = secp256k1_fe_mul s1 (gej_z b);
            s2 = secp256k1_fe_mul (gej_y b) z12;
            s2 = secp256k1_fe_mul s2 (gej_z a);
            h = secp256k1_fe_negate u1 1;
            h = secp256k1_fe_add h u2;
            i = secp256k1_fe_negate s1 1;
            i = secp256k1_fe_add i s2
        in if secp256k1_fe_normalizes_to_zero_var h then
             if secp256k1_fe_normalizes_to_zero_var i then
               (case secp256k1_gej_double_var (r\<lparr>gej_infinity := False\<rparr>) a of (r, rzr) \<Rightarrow> (r, Some rzr))
             else (r\<lparr>gej_infinity := True\<rparr>, Some (secp256k1_fe_set_int 0))
           else
             let i2 = secp256k1_fe_sqr i;
                 h2 = secp256k1_fe_sqr h;
                 h3 = secp256k1_fe_mul h h2;
                 h = secp256k1_fe_mul h (gej_z b);
                 rzr = h;
                 rz = secp256k1_fe_mul (gej_z a) h;
                 t = secp256k1_fe_mul u1 h2;
                 rx = t;
                 rx = secp256k1_fe_mul_int rx 2;
                 rx = secp256k1_fe_add rx h3;
                 rx = secp256k1_fe_negate rx 3;
                 rx = secp256k1_fe_add rx i2;
                 ry = secp256k1_fe_negate rx 5;
                 ry = secp256k1_fe_add ry t;
                 ry = secp256k1_fe_mul ry i;
                 h3 = secp256k1_fe_mul h3 s1;
                 h3 = secp256k1_fe_negate h3 1;
                 ry = secp256k1_fe_add ry h3
             in (\<lparr>gej_x = rx, gej_y = ry, gej_z = rz, gej_infinity = False\<rparr>, Some rzr))"

definition secp256k1_gej_add_ge_var ::
    "secp256k1_gej \<Rightarrow> secp256k1_gej \<Rightarrow> secp256k1_ge \<Rightarrow> secp256k1_gej \<times> secp256k1_fe option" where
  "secp256k1_gej_add_ge_var r a b =
     (if gej_infinity a then (secp256k1_gej_set_ge b, None)
      else if ge_infinity b then (a, Some (secp256k1_fe_set_int 1))
      else
        let z12 = secp256k1_fe_sqr (gej_z a);
            u1 = gej_x a;
            u1 = secp256k1_fe_normalize_weak u1;
            u2 = secp256k1_fe_mul (ge_x b) z12;
            s1 = gej_y a;
            s1 = secp256k1_fe_normalize_weak s1;
            s2 = secp256k1_fe_mul (ge_y b) z12;
            s2 = secp256k1_fe_mul s2 (gej_z a);
            h = secp256k1_fe_negate u1 1;
            h = secp256k1_fe_add h u2;
            i = secp256k1_fe_negate s1 1;
            i = secp256k1_fe_add i s2
        in if secp256k1_fe_normalizes_to_zero_var h then
             if secp256k1_fe_normalizes_to_zero_var i then
               (case secp256k1_gej_double_var (r\<lparr>gej_infinity := False\<rparr>) a of (r, rzr) \<Rightarrow> (r, Some rzr))
             else (r\<lparr>gej_infinity := True\<rparr>, Some (secp256k1_fe_set_int 0))
           else
             let i2 = secp256k1_fe_sqr i;
                 h2 = secp256k1_fe_sqr h;
                 h3 = secp256k1_fe_mul h h2;
                 rzr = h;
                 rz = secp256k1_fe_mul (gej_z a) h;
                 t = secp256k1_fe_mul u1 h2;
                 rx = t;
                 rx = secp256k1_fe_mul_int rx 2;
                 rx = secp256k1_fe_add rx h3;
                 rx = secp256k1_fe_negate rx 3;
                 rx = secp256k1_fe_add rx i2;
                 ry = secp256k1_fe_negate rx 5;
                 ry = secp256k1_fe_add ry t;
                 ry = secp256k1_fe_mul ry i;
                 h3 = secp256k1_fe_mul h3 s1;
                 h3 = secp256k1_fe_negate h3 1;
                 ry = secp256k1_fe_add ry h3
             in (\<lparr>gej_x = rx, gej_y = ry, gej_z = rz, gej_infinity = False\<rparr>, Some rzr))"

definition secp256k1_gej_add_zinv_var ::
    "secp256k1_gej \<Rightarrow> secp256k1_gej \<Rightarrow> secp256k1_ge \<Rightarrow> secp256k1_fe \<Rightarrow> secp256k1_gej" where
  "secp256k1_gej_add_zinv_var r a b bzinv =
     (if ge_infinity b then a
      else if gej_infinity a then
        let bzinv2 = secp256k1_fe_sqr bzinv;
            bzinv3 = secp256k1_fe_mul bzinv2 bzinv;
            rx = secp256k1_fe_mul (ge_x b) bzinv2;
            ry = secp256k1_fe_mul (ge_y b) bzinv3;
            rz = secp256k1_fe_set_int 1
        in \<lparr>gej_x = rx, gej_y = ry, gej_z = rz, gej_infinity = ge_infinity b\<rparr>
      else
        let az = secp256k1_fe_mul (gej_z a) bzinv;
            z12 = secp256k1_fe_sqr az;
            u1 = gej_x a;
            u1 = secp256k1_fe_normalize_weak u1;
            u2 = secp256k1_fe_mul (ge_x b) z12;
            s1 = gej_y a;
            s1 = secp256k1_fe_normalize_weak s1;
            s2 = secp256k1_fe_mul (ge_y b) z12;
            s2 = secp256k1_fe_mul s2 az;
            h = secp256k1_fe_negate u1 1;
            h = secp256k1_fe_add h u2;
            i = secp256k1_fe_negate s1 1;
            i = secp256k1_fe_add i s2
        in if secp256k1_fe_normalizes_to_zero_var h then
             if secp256k1_fe_normalizes_to_zero_var i then
               fst (secp256k1_gej_double_var (r\<lparr>gej_infinity := False\<rparr>) a)
             else r\<lparr>gej_infinity := True\<rparr>
           else
             let i2 = secp256k1_fe_sqr i;
                 h2 = secp256k1_fe_sqr h;
                 h3 = secp256k1_fe_mul h h2;
                 rz = gej_z a;
                 rz = secp256k1_fe_mul rz h;
                 t = secp256k1_fe_mul u1 h2;
                 rx = t;
                 rx = secp256k1_fe_mul_int rx 2;
                 rx = secp256k1_fe_add rx h3;
                 rx = secp256k1_fe_negate rx 3;
                 rx = secp256k1_fe_add rx i2;
                 ry = secp256k1_fe_negate rx 5;
                 ry = secp256k1_fe_add ry t;
                 ry = secp256k1_fe_mul ry i;
                 h3 = secp256k1_fe_mul h3 s1;
                 h3 = secp256k1_fe_negate h3 1;
                 ry = secp256k1_fe_add ry h3
             in \<lparr>gej_x = rx, gej_y = ry, gej_z = rz, gej_infinity = False\<rparr>)"

definition secp256k1_gej_add_ge :: "secp256k1_gej \<Rightarrow> secp256k1_ge \<Rightarrow> secp256k1_gej" where
  "secp256k1_gej_add_ge a b = (
     let fe_1 = SECP256K1_FE_CONST 0 0 0 0 0 0 0 1;
         zz = secp256k1_fe_sqr (gej_z a);
         u1 = gej_x a;
         u1 = secp256k1_fe_normalize_weak u1;
         u2 = secp256k1_fe_mul (ge_x b) zz;
         s1 = gej_y a;
         s1 = secp256k1_fe_normalize_weak s1;
         s2 = secp256k1_fe_mul (ge_y b) zz;
         s2 = secp256k1_fe_mul s2 (gej_z a);
         t = u1;
         t = secp256k1_fe_add t u2;
         m = s1;
         m = secp256k1_fe_add m s2;
         rr = secp256k1_fe_sqr t;
         m_alt = secp256k1_fe_negate u2 1;
         tt = secp256k1_fe_mul u1 m_alt;
         rr = secp256k1_fe_add rr tt;
         degenerate = (secp256k1_fe_normalizes_to_zero m \<and> secp256k1_fe_normalizes_to_zero rr);
         rr_alt = s1;
         rr_alt = secp256k1_fe_mul_int rr_alt 2;
         m_alt = secp256k1_fe_add m_alt u1;
         rr_alt = secp256k1_fe_cmov rr_alt rr (\<not> degenerate);
         m_alt = secp256k1_fe_cmov m_alt m (\<not> degenerate);
         n = secp256k1_fe_sqr m_alt;
         q = secp256k1_fe_mul n t;
         n = secp256k1_fe_sqr n;
         n = secp256k1_fe_cmov n m degenerate;
         t = secp256k1_fe_sqr rr_alt;
         rz = secp256k1_fe_mul (gej_z a) m_alt;
         infinity = (secp256k1_fe_normalizes_to_zero rz \<and> \<not> gej_infinity a);
         rz = secp256k1_fe_mul_int rz 2;
         q = secp256k1_fe_negate q 1;
         t = secp256k1_fe_add t q;
         t = secp256k1_fe_normalize_weak t;
         rx = t;
         t = secp256k1_fe_mul_int t 2;
         t = secp256k1_fe_add t q;
         t = secp256k1_fe_mul t rr_alt;
         t = secp256k1_fe_add t n;
         ry = secp256k1_fe_negate t 3;
         ry = secp256k1_fe_normalize_weak ry;
         rx = secp256k1_fe_mul_int rx 4;
         ry = secp256k1_fe_mul_int ry 4;
         rx = secp256k1_fe_cmov rx (ge_x b) (gej_infinity a);
         ry = secp256k1_fe_cmov ry (ge_y b) (gej_infinity a);
         rz = secp256k1_fe_cmov rz fe_1 (gej_infinity a)
     in \<lparr>gej_x = rx, gej_y = ry, gej_z = rz, gej_infinity = infinity\<rparr>)"

definition secp256k1_gej_rescale :: "secp256k1_gej \<Rightarrow> secp256k1_fe \<Rightarrow> secp256k1_gej" where
  "secp256k1_gej_rescale r s = (
     let zz = secp256k1_fe_sqr s;
         x = secp256k1_fe_mul (gej_x r) zz;
         y = secp256k1_fe_mul (gej_y r) zz;
         y = secp256k1_fe_mul y s;
         z = secp256k1_fe_mul (gej_z r) s
     in r\<lparr>gej_x := x, gej_y := y, gej_z := z\<rparr>)"

section \<open>Storage\<close>

definition secp256k1_ge_to_storage :: "secp256k1_ge \<Rightarrow> secp256k1_ge_storage" where
  "secp256k1_ge_to_storage a = (
     let x = secp256k1_fe_normalize (ge_x a);
         y = secp256k1_fe_normalize (ge_y a)
     in \<lparr>ges_x = secp256k1_fe_to_storage x, ges_y = secp256k1_fe_to_storage y\<rparr>)"

definition secp256k1_ge_from_storage :: "secp256k1_ge_storage \<Rightarrow> secp256k1_ge" where
  "secp256k1_ge_from_storage a =
     \<lparr>ge_x = secp256k1_fe_from_storage (ges_x a), ge_y = secp256k1_fe_from_storage (ges_y a), ge_infinity = False\<rparr>"

definition secp256k1_ge_storage_cmov :: "secp256k1_ge_storage \<Rightarrow> secp256k1_ge_storage \<Rightarrow> bool \<Rightarrow> secp256k1_ge_storage" where
  "secp256k1_ge_storage_cmov r a flag =
     \<lparr>ges_x = secp256k1_fe_storage_cmov (ges_x r) (ges_x a) flag,
      ges_y = secp256k1_fe_storage_cmov (ges_y r) (ges_y a) flag\<rparr>"

text \<open>With \<^verbatim>\<open>USE_ENDOMORPHISM\<close>: the map \<open>(x, y) \<mapsto> (\<beta> x, y)\<close>.\<close>

definition secp256k1_ge_mul_lambda :: "secp256k1_ge \<Rightarrow> secp256k1_ge" where
  "secp256k1_ge_mul_lambda a =
     a\<lparr>ge_x := secp256k1_fe_mul (ge_x a)
        (SECP256K1_FE_CONST 0x7ae96a2b 0x657c0710 0x6e64479e 0xac3434e9
           0x9cf04975 0x12f58995 0xc1396c28 0x719501ee)\<rparr>"

definition secp256k1_gej_has_quad_y_var :: "secp256k1_gej \<Rightarrow> bool" where
  "secp256k1_gej_has_quad_y_var a =
     (if gej_infinity a then False
      else
        let yz = secp256k1_fe_mul (gej_y a) (gej_z a)
        in secp256k1_fe_is_quad_var yz)"

end
