(* ===== verification/Primality_Order.thy ===== *)
theory Primality_Order
  imports Primality
begin

text \<open>
  The certificate that the order of the group is prime. One prime factor of the predecessor
  above its cube root is enough, because it forces both factors of a composite number into one
  residue class. Pure arithmetic: the theory models no code.
\<close>

section \<open>One large factor\<close>

lemma prime_not_dvd_prod:
  "finite S \<Longrightarrow> is_prime r \<Longrightarrow> (\<And>i. i \<in> S \<Longrightarrow> \<not> r dvd i) \<Longrightarrow> \<not> r dvd \<Prod> S"
  by (induction S rule: finite_induct) (auto simp: is_prime_dvd_mult dest: is_prime_gt_1)

lemma fermat_nat:
  assumes r: "is_prime r" and a: "\<not> r dvd a"
  shows "a ^ (r - 1) mod r = 1"
proof -
  have r1: "1 < r" using r by (rule is_prime_gt_1)
  define S where "S = {1 ..< r}"
  let ?f = "\<lambda>i. a * i mod r"
  have nd: "\<not> r dvd i" if "i \<in> S" for i
    using that by (auto simp: S_def dest: dvd_imp_le)
  have cop: "coprime (int r) (int a)"
    using is_prime_coprime [OF r a] by simp
  have inj: "inj_on ?f S"
  proof (rule inj_onI)
    fix i j assume ij: "i \<in> S" "j \<in> S" "?f i = ?f j"
    then have "int (a * i) mod int r = int (a * j) mod int r"
      by (metis of_nat_mod)
    then have "int r dvd int a * (int i - int j)"
      by (simp add: mod_eq_dvd_iff algebra_simps)
    then have "int i mod int r = int j mod int r"
      using cop by (simp add: coprime_dvd_mult_right_iff mod_eq_dvd_iff)
    then show "i = j" using ij by (simp add: S_def)
  qed
  have "?f ` S \<subseteq> S"
  proof
    fix x assume "x \<in> ?f ` S"
    then obtain i where i: "i \<in> S" "x = a * i mod r" by blast
    have "x \<noteq> 0"
      using is_prime_dvd_mult [OF r, of a i] a nd [OF i(1)] i(2) by (simp add: mod_eq_0_iff_dvd)
    then show "x \<in> S" using i r1 by (simp add: S_def)
  qed
  then have "?f ` S = S"
    using inj by (simp add: S_def endo_inj_surj)
  then have "\<Prod> S = (\<Prod>i\<in>S. ?f i)"
    using prod.reindex [OF inj, of id] by simp
  then have "\<Prod> S mod r = (\<Prod>i\<in>S. a * i) mod r"
    by (simp add: mod_prod_eq)
  also have "(\<Prod>i\<in>S. a * i) = a ^ (r - 1) * \<Prod> S"
    by (simp add: prod.distrib S_def)
  finally have "int (\<Prod> S) mod int r = int (a ^ (r - 1) * \<Prod> S) mod int r"
    by (metis of_nat_mod)
  then have "int r dvd int (a ^ (r - 1) * \<Prod> S) - int (\<Prod> S)"
    by (metis mod_eq_dvd_iff)
  then have "int r dvd int (\<Prod> S) * (int (a ^ (r - 1)) - 1)"
    by (simp add: algebra_simps)
  moreover have "\<not> r dvd \<Prod> S"
    by (rule prime_not_dvd_prod [OF _ r nd]) (simp_all add: S_def)
  then have "coprime (int r) (int (\<Prod> S))"
    using is_prime_coprime [OF r] by (simp del: of_nat_prod)
  ultimately have "int r dvd int (a ^ (r - 1)) - 1"
    using coprime_dvd_mult_right_iff by blast
  then have "int (a ^ (r - 1)) mod int r = 1 mod int r"
    by (simp add: mod_eq_dvd_iff)
  then show ?thesis
    using r1 by (metis mod_less of_nat_1 of_nat_eq_iff of_nat_mod)
qed

text \<open>Under Pocklington's condition every prime factor is 1 modulo \<open>q\<close>.\<close>

lemma pocklington_residue:
  assumes N: "1 < N" and a: "a ^ (N - 1) mod N = 1" and q: "is_prime q" "pock_witness a N q"
    and r: "is_prime r" "r dvd N"
  shows "r mod q = 1"
proof -
  have r1: "1 < r" using r(1) by (rule is_prime_gt_1)
  have modr: "x mod r = 1" if "x mod N = 1" for x
    using that r(2) r1 by (metis mod_mod_cancel mod_less)
  define d where "d = (LEAST k. 0 < k \<and> a ^ k mod r = 1)"
  have d: "0 < d \<and> a ^ d mod r = 1"
    unfolding d_def by (rule LeastI [of _ "N - 1"]) (use N a modr in simp)
  have least: "d \<le> k" if "0 < k" "a ^ k mod r = 1" for k
    unfolding d_def using that by (simp add: Least_le)
  have "q dvd d"
  proof (rule ccontr)
    assume nd: "\<not> q dvd d"
    obtain t where t: "N - 1 = d * t"
      using order_dvd [OF r1 _ _ least modr [OF a]] d by auto
    have "q dvd t"
      using q nd t by (simp add: pock_witness_def is_prime_dvd_mult)
    then obtain s where s: "t = q * s" by auto
    have "(N - 1) div q = d * s"
      using t s is_prime_gt_1 [OF q(1)] by simp
    then have "a ^ ((N - 1) div q) mod r = 1"
      using d r1 by (metis mod_less power_mod power_mult power_one)
    then have "(a ^ ((N - 1) div q) mod N) mod r = 1"
      using r(2) by (simp add: mod_mod_cancel)
    then have "(a ^ ((N - 1) div q) mod N + (N - 1)) mod r = (1 + (N - 1)) mod r"
      by (metis mod_add_left_eq r1 mod_less)
    then have "r dvd a ^ ((N - 1) div q) mod N + (N - 1)"
      using r(2) N by auto
    then have "r dvd 1"
      using q(2) r(2) by (metis coprime_common_divisor_nat dvd_refl pock_witness_def)
    then show False using r1 by simp
  qed
  moreover have "d dvd r - 1"
  proof -
    have "a ^ (N - 1) mod r = 1" using a by (rule modr)
    then have "\<not> r dvd a"
      using N r1 by (metis dvd_power dvd_trans mod_eq_0_iff_dvd zero_less_diff zero_neq_one)
    then show ?thesis
      using order_dvd [OF r1 _ _ least fermat_nat [OF r(1)]] d by auto
  qed
  ultimately have "q dvd r - 1" by (rule dvd_trans)
  then have "(r - 1 + 1) mod q = 1"
    using is_prime_gt_1 [OF q(1)] by (auto elim!: dvdE simp: mod_Suc)
  then show ?thesis using r1 by simp
qed

lemma pocklington_single:
  assumes N: "N = q * (t * q + s) + 1" and k: "N = numeral k + 1"
    and a: "2 ^ numeral k mod int N = 1 mod int N" and q: "cofactor_ok N q"
    and st: "t + 1 < s" "s < q" "t + 1 < q"
  shows "is_prime N"
proof (rule ccontr)
  assume np: "\<not> is_prime N"
  have N1: "1 < N"
    unfolding k by (simp only: less_add_same_cancel2 zero_less_numeral)
  have e: "N - 1 = numeral k"
    unfolding k by (rule add_diff_cancel_right')
  have "int (2 ^ (N - 1) mod N) = 2 ^ numeral k mod int N"
    unfolding e by (simp only: of_nat_mod of_nat_power of_nat_numeral)
  also have "\<dots> = 1" using a N1 by simp
  finally have a': "2 ^ (N - 1) mod N = 1" by linarith
  have pq: "is_prime q" and w: "pock_witness 2 N q"
    using cofactor_witness [OF N1 q] by simp_all
  obtain r where r: "is_prime r" "r dvd N" "r * r \<le> N"
    using prime_divisor [OF N1] np by blast
  then obtain m where m: "N = r * m" by auto
  have rq: "r mod q = 1"
    by (rule pocklington_residue [OF N1 a' pq w r(1,2)])
  have "N mod q = 1"
    using N is_prime_gt_1 [OF pq] by (simp add: mod_Suc)
  then have mq: "m mod q = 1"
    using m rq is_prime_gt_1 [OF pq] by (metis mod_less mod_mult_left_eq mult_1)
  define x y where "x = r div q" and "y = m div q"
  have xy: "r = x * q + 1" "m = y * q + 1"
    using div_mult_mod_eq [of r q] div_mult_mod_eq [of m q] rq mq by (simp_all add: x_def y_def)
  have "q * (t * q + s) = q * (x * y * q + (x + y))"
    using N m xy by (simp add: algebra_simps)
  then have eq: "t * q + s = x * y * q + (x + y)"
    using is_prime_gt_1 [OF pq] by simp
  have "x \<noteq> 0"
    using xy r(1) is_prime_gt_1 [of r] by (intro notI) simp
  moreover have "y \<noteq> 0"
  proof
    assume "y = 0"
    then have "N = r" using m xy by simp
    then show False using r(1) np by simp
  qed
  ultimately have sum: "x + y \<le> x * y + 1"
    by (cases x; cases y) simp_all
  have "x * y * q \<le> t * q + s" using eq by linarith
  then have "x * y * q < (t + 1) * q" using st by simp
  then have "x * y < t + 1" by (simp only: mult_less_cancel2)
  then have "x * y \<le> t" by simp
  then have "x + y < q" using sum st by linarith
  then have "(t * q + s) mod q = x + y" using eq by simp
  then have "s = x + y" using st by simp
  then show False using sum \<open>x * y \<le> t\<close> st by linarith
qed

section \<open>Powers in stages\<close>

text \<open>The binary exponent \<open>m\<close>, less its leading one, appended to the exponent \<open>k\<close>.\<close>

fun append_bits :: "num \<Rightarrow> num \<Rightarrow> num" where
  "append_bits k num.One = k"
| "append_bits k (num.Bit0 m) = num.Bit0 (append_bits k m)"
| "append_bits k (num.Bit1 m) = num.Bit1 (append_bits k m)"

primrec pow2_from :: "(int \<Rightarrow> int) \<Rightarrow> int \<Rightarrow> num \<Rightarrow> int" where
  "pow2_from red y num.One = y"
| "pow2_from red y (num.Bit0 m) = red (square (pow2_from red y m))"
| "pow2_from red y (num.Bit1 m) = red (Num.dbl (square (pow2_from red y m)))"

lemma pow2_append_bits: "pow2 red (append_bits k m) = pow2_from red (pow2 red k) m"
  by (induction m) simp_all

lemma pow2_stage:
  assumes "pow2 red k = y" "append_bits k m = k'" "pow2_from red y m = z"
  shows "pow2 red k' = z"
  using assms pow2_append_bits by metis

lemmas stage_eval = append_bits.simps pow2_from.simps pow2_eval

section \<open>Certificates\<close>

lemma prime_1871: "is_prime 1871"
  by (rule is_prime_trial [where b = 44]) (simp_all add: upt_rec_numeral)

lemma cofactor_1627771_0: "cofactor_ok 1627771 1871"
proof (rule cofactor_eval [OF prime_1871])
  show "1627771 = 1871 * (870::nat) + 1" by (simp only: num_eval)
  show "reduces (int 1627771) (barrett 17592186044416 10807531 1627771)" by (simp add: reduces_barrett)
  show "(910796::int) = 910795 + 1" by (simp only: num_eval)
  show "910795 * 589711 = 1 + int 1627771 * 329964" by (simp only: num_eval)
qed (simp_all only: pow2_eval num_eval)

lemma prime_1627771: "is_prime 1627771"
proof (rule pocklington2 [where qs = "[1871]"])
  show "1627771 = (1627770::nat) + 1" by (simp only: num_eval)
  show "2 ^ 1627770 mod int 1627771 = 1 mod int 1627771"
  proof (rule power_mod_eval)
    show "reduces (int 1627771) (barrett 17592186044416 10807531 1627771)" by (simp add: reduces_barrett)
    show "1627772 = 1 + int 1627771 * 1" by (simp only: num_eval)
  qed (simp only: pow2_eval)
  show "list_all (cofactor_ok 1627771) [1871]"
    by (simp only: list.pred_inject simp_thms cofactor_1627771_0)
qed (simp_all only: num_eval)

lemma cofactor_297159362677_0: "cofactor_ok 297159362677 1627771"
proof (rule cofactor_eval [OF prime_1627771])
  show "297159362677 = 1627771 * (182556::nat) + 1" by (simp only: num_eval)
  show "reduces (int 297159362677) (barrett 1208925819614629174706176 4068274372120 297159362677)" by (simp add: reduces_barrett)
  show "(114170894341::int) = 114170894340 + 1" by (simp only: num_eval)
  show "114170894340 * 44169280672 = 1 + int 297159362677 * 16970174627" by (simp only: num_eval)
qed (simp_all only: pow2_eval num_eval)

lemma prime_297159362677: "is_prime 297159362677"
proof (rule pocklington2 [where qs = "[1627771]"])
  show "297159362677 = (297159362676::nat) + 1" by (simp only: num_eval)
  show "2 ^ 297159362676 mod int 297159362677 = 1 mod int 297159362677"
  proof (rule power_mod_eval)
    show "reduces (int 297159362677) (barrett 1208925819614629174706176 4068274372120 297159362677)" by (simp add: reduces_barrett)
    show "297159362678 = 1 + int 297159362677 * 1" by (simp only: num_eval)
  qed (simp only: pow2_eval)
  show "list_all (cofactor_ok 297159362677) [1627771]"
    by (simp only: list.pred_inject simp_thms cofactor_297159362677_0)
qed (simp_all only: num_eval)

lemma cofactor_29047611873442575647497758179_0: "cofactor_ok 29047611873442575647497758179 297159362677"
proof (rule cofactor_eval [OF prime_297159362677])
  show "29047611873442575647497758179 = 297159362677 * (97750956294169114::nat) + 1" by (simp only: num_eval)
  show "reduces (int 29047611873442575647497758179) (barrett 6277101735386680763835789423207666416102355444464034512896 216096998360325120241396670275 29047611873442575647497758179)" by (simp add: reduces_barrett)
  show "(16062460713643416818883781819::int) = 16062460713643416818883781818 + 1" by (simp only: num_eval)
  show "16062460713643416818883781818 * 7881196461825673388358983901 = 1 + int 29047611873442575647497758179 * 4358065960676078314225264123" by (simp only: num_eval)
qed (simp_all only: pow2_eval num_eval)

lemma prime_29047611873442575647497758179: "is_prime 29047611873442575647497758179"
proof (rule pocklington_single [OF _ _ _ cofactor_29047611873442575647497758179_0])
  show "29047611873442575647497758179 = 297159362677 * (328951 * 297159362677 + 86782207287) + (1::nat)" by (simp only: num_eval)
  show "29047611873442575647497758179 = (29047611873442575647497758178::nat) + 1" by (simp only: num_eval)
  show "2 ^ 29047611873442575647497758178 mod int 29047611873442575647497758179 = 1 mod int 29047611873442575647497758179"
  proof (rule power_mod_eval)
    show "reduces (int 29047611873442575647497758179) (barrett 6277101735386680763835789423207666416102355444464034512896 216096998360325120241396670275 29047611873442575647497758179)" by (simp add: reduces_barrett)
    show "29047611873442575647497758180 = 1 + int 29047611873442575647497758179 * 1" by (simp only: num_eval)
  qed (simp only: pow2_eval)
qed (simp_all only: num_eval)

lemma cofactor_341948486974166000522343609283189_0: "cofactor_ok 341948486974166000522343609283189 29047611873442575647497758179"
proof (rule cofactor_eval [OF prime_29047611873442575647497758179])
  show "341948486974166000522343609283189 = 29047611873442575647497758179 * (11772::nat) + 1" by (simp only: num_eval)
  show "reduces (int 341948486974166000522343609283189) (barrett 1684996666696914987166688442938726917102321526408785780068975640576 4927633052589630135937321208143628 341948486974166000522343609283189)" by (simp add: reduces_barrett)
  show "(291782875431971620014836968593543::int) = 291782875431971620014836968593542 + 1" by (simp only: num_eval)
  show "291782875431971620014836968593542 * 230912421032721991545077801069578 = 1 + int 341948486974166000522343609283189 * 197036374624976603458235156404975" by (simp only: num_eval)
qed (simp_all only: pow2_eval num_eval)

lemma prime_341948486974166000522343609283189: "is_prime 341948486974166000522343609283189"
proof (rule pocklington2 [where qs = "[29047611873442575647497758179]"])
  show "341948486974166000522343609283189 = (341948486974166000522343609283188::nat) + 1" by (simp only: num_eval)
  show "2 ^ 341948486974166000522343609283188 mod int 341948486974166000522343609283189 = 1 mod int 341948486974166000522343609283189"
  proof (rule power_mod_eval)
    show "reduces (int 341948486974166000522343609283189) (barrett 1684996666696914987166688442938726917102321526408785780068975640576 4927633052589630135937321208143628 341948486974166000522343609283189)" by (simp add: reduces_barrett)
    show "341948486974166000522343609283190 = 1 + int 341948486974166000522343609283189 * 1" by (simp only: num_eval)
  qed (simp only: pow2_eval)
  show "list_all (cofactor_ok 341948486974166000522343609283189) [29047611873442575647497758179]"
    by (simp only: list.pred_inject simp_thms cofactor_341948486974166000522343609283189_0)
qed (simp_all only: num_eval)

abbreviation fold_order_n :: "int \<Rightarrow> int" where
  "fold_order_n \<equiv> fold3 115792089237316195423570985008687907853269984665640564039457584007913129639936 432420386565659656852420866394968145599"

lemma pow_cofactor_order_n_0: "pow2 (fold_order_n) (num.Bit0 (num.Bit1 (num.Bit0 (num.Bit0 (num.Bit1 (num.Bit1 (num.Bit0 (num.Bit1 (num.Bit0 (num.Bit1 (num.Bit0 (num.Bit0 (num.Bit0 (num.Bit0 (num.Bit0 (num.Bit1 (num.Bit1 (num.Bit1 (num.Bit0 (num.Bit1 (num.Bit1 (num.Bit1 (num.Bit1 (num.Bit0 (num.Bit0 (num.Bit0 (num.Bit1 (num.Bit0 (num.Bit0 (num.Bit1 (num.Bit1 (num.Bit1 (num.Bit1 (num.Bit0 (num.Bit1 (num.Bit1 (num.Bit0 (num.Bit0 (num.Bit1 (num.Bit1 (num.Bit1 (num.Bit1 (num.Bit0 (num.Bit1 (num.Bit0 (num.Bit0 (num.Bit1 (num.Bit1 (num.Bit1 (num.One)))))))))))))))))))))))))))))))))))))))))))))))))) = 10180190307675401337785136138086227575860786069381260711750419105321377782041"
  by (simp only: pow2_eval)

lemma pow_cofactor_order_n_1: "pow2 (fold_order_n) (num.Bit1 (num.Bit0 (num.Bit1 (num.Bit0 (num.Bit0 (num.Bit0 (num.Bit1 (num.Bit1 (num.Bit0 (num.Bit0 (num.Bit0 (num.Bit1 (num.Bit0 (num.Bit0 (num.Bit0 (num.Bit0 (num.Bit0 (num.Bit0 (num.Bit1 (num.Bit0 (num.Bit1 (num.Bit0 (num.Bit0 (num.Bit1 (num.Bit0 (num.Bit1 (num.Bit1 (num.Bit1 (num.Bit0 (num.Bit1 (num.Bit1 (num.Bit0 (num.Bit0 (num.Bit0 (num.Bit0 (num.Bit0 (num.Bit1 (num.Bit1 (num.Bit1 (num.Bit0 (num.Bit0 (num.Bit1 (num.Bit1 (num.Bit1 (num.Bit0 (num.Bit1 (num.Bit1 (num.Bit1 (num.Bit1 (num.Bit1 (num.Bit0 (num.Bit1 (num.Bit0 (num.Bit0 (num.Bit1 (num.Bit1 (num.Bit0 (num.Bit1 (num.Bit0 (num.Bit1 (num.Bit0 (num.Bit0 (num.Bit0 (num.Bit0 (num.Bit0 (num.Bit1 (num.Bit1 (num.Bit1 (num.Bit0 (num.Bit1 (num.Bit1 (num.Bit1 (num.Bit1 (num.Bit0 (num.Bit0 (num.Bit0 (num.Bit1 (num.Bit0 (num.Bit0 (num.Bit1 (num.Bit1 (num.Bit1 (num.Bit1 (num.Bit0 (num.Bit1 (num.Bit1 (num.Bit0 (num.Bit0 (num.Bit1 (num.Bit1 (num.Bit1 (num.Bit1 (num.Bit0 (num.Bit1 (num.Bit0 (num.Bit0 (num.Bit1 (num.Bit1 (num.Bit1 (num.One)))))))))))))))))))))))))))))))))))))))))))))))))))))))))))))))))))))))))))))))))))))))))))))))))))) = 26960286142741249779584249102106905843403217074340969094329564890426161216364"
  by (rule pow2_stage [OF pow_cofactor_order_n_0, of "num.Bit1 (num.Bit0 (num.Bit1 (num.Bit0 (num.Bit0 (num.Bit0 (num.Bit1 (num.Bit1 (num.Bit0 (num.Bit0 (num.Bit0 (num.Bit1 (num.Bit0 (num.Bit0 (num.Bit0 (num.Bit0 (num.Bit0 (num.Bit0 (num.Bit1 (num.Bit0 (num.Bit1 (num.Bit0 (num.Bit0 (num.Bit1 (num.Bit0 (num.Bit1 (num.Bit1 (num.Bit1 (num.Bit0 (num.Bit1 (num.Bit1 (num.Bit0 (num.Bit0 (num.Bit0 (num.Bit0 (num.Bit0 (num.Bit1 (num.Bit1 (num.Bit1 (num.Bit0 (num.Bit0 (num.Bit1 (num.Bit1 (num.Bit1 (num.Bit0 (num.Bit1 (num.Bit1 (num.Bit1 (num.Bit1 (num.Bit1 (num.One))))))))))))))))))))))))))))))))))))))))))))))))))"]) (simp_all only: stage_eval)

lemma pow_cofactor_order_n_2: "pow2 (fold_order_n) (num.Bit0 (num.Bit0 (num.Bit0 (num.Bit0 (num.Bit0 (num.Bit0 (num.Bit1 (num.Bit0 (num.Bit0 (num.Bit0 (num.Bit1 (num.Bit0 (num.Bit1 (num.Bit0 (num.Bit0 (num.Bit1 (num.Bit0 (num.Bit1 (num.Bit1 (num.Bit0 (num.Bit0 (num.Bit0 (num.Bit1 (num.Bit0 (num.Bit1 (num.Bit1 (num.Bit0 (num.Bit0 (num.Bit1 (num.Bit0 (num.Bit0 (num.Bit0 (num.Bit1 (num.Bit1 (num.Bit1 (num.Bit1 (num.Bit0 (num.Bit0 (num.Bit1 (num.Bit1 (num.Bit0 (num.Bit0 (num.Bit0 (num.Bit0 (num.Bit1 (num.Bit1 (num.Bit1 (num.Bit1 (num.Bit1 (num.Bit0 (num.Bit1 (num.Bit0 (num.Bit0 (num.Bit0 (num.Bit1 (num.Bit1 (num.Bit0 (num.Bit0 (num.Bit0 (num.Bit1 (num.Bit0 (num.Bit0 (num.Bit0 (num.Bit0 (num.Bit0 (num.Bit0 (num.Bit1 (num.Bit0 (num.Bit1 (num.Bit0 (num.Bit0 (num.Bit1 (num.Bit0 (num.Bit1 (num.Bit1 (num.Bit1 (num.Bit0 (num.Bit1 (num.Bit1 (num.Bit0 (num.Bit0 (num.Bit0 (num.Bit0 (num.Bit0 (num.Bit1 (num.Bit1 (num.Bit1 (num.Bit0 (num.Bit0 (num.Bit1 (num.Bit1 (num.Bit1 (num.Bit0 (num.Bit1 (num.Bit1 (num.Bit1 (num.Bit1 (num.Bit1 (num.Bit0 (num.Bit1 (num.Bit0 (num.Bit0 (num.Bit1 (num.Bit1 (num.Bit0 (num.Bit1 (num.Bit0 (num.Bit1 (num.Bit0 (num.Bit0 (num.Bit0 (num.Bit0 (num.Bit0 (num.Bit1 (num.Bit1 (num.Bit1 (num.Bit0 (num.Bit1 (num.Bit1 (num.Bit1 (num.Bit1 (num.Bit0 (num.Bit0 (num.Bit0 (num.Bit1 (num.Bit0 (num.Bit0 (num.Bit1 (num.Bit1 (num.Bit1 (num.Bit1 (num.Bit0 (num.Bit1 (num.Bit1 (num.Bit0 (num.Bit0 (num.Bit1 (num.Bit1 (num.Bit1 (num.Bit1 (num.Bit0 (num.Bit1 (num.Bit0 (num.Bit0 (num.Bit1 (num.Bit1 (num.Bit1 (num.One)))))))))))))))))))))))))))))))))))))))))))))))))))))))))))))))))))))))))))))))))))))))))))))))))))))))))))))))))))))))))))))))))))))))))))))))))))) = 86644313145397489891193855759928671818841495415153161568930588450251036589538"
  by (rule pow2_stage [OF pow_cofactor_order_n_1, of "num.Bit0 (num.Bit0 (num.Bit0 (num.Bit0 (num.Bit0 (num.Bit0 (num.Bit1 (num.Bit0 (num.Bit0 (num.Bit0 (num.Bit1 (num.Bit0 (num.Bit1 (num.Bit0 (num.Bit0 (num.Bit1 (num.Bit0 (num.Bit1 (num.Bit1 (num.Bit0 (num.Bit0 (num.Bit0 (num.Bit1 (num.Bit0 (num.Bit1 (num.Bit1 (num.Bit0 (num.Bit0 (num.Bit1 (num.Bit0 (num.Bit0 (num.Bit0 (num.Bit1 (num.Bit1 (num.Bit1 (num.Bit1 (num.Bit0 (num.Bit0 (num.Bit1 (num.Bit1 (num.Bit0 (num.Bit0 (num.Bit0 (num.Bit0 (num.Bit1 (num.Bit1 (num.Bit1 (num.Bit1 (num.One))))))))))))))))))))))))))))))))))))))))))))))))"]) (simp_all only: stage_eval)

lemma pow_order_n_0: "pow2 (fold_order_n) (num.Bit1 (num.Bit1 (num.Bit1 (num.Bit1 (num.Bit1 (num.Bit1 (num.Bit1 (num.Bit1 (num.Bit1 (num.Bit1 (num.Bit1 (num.Bit1 (num.Bit1 (num.Bit1 (num.Bit1 (num.Bit1 (num.Bit1 (num.Bit1 (num.Bit1 (num.Bit1 (num.Bit1 (num.Bit1 (num.Bit1 (num.Bit1 (num.Bit1 (num.Bit1 (num.Bit1 (num.Bit1 (num.Bit1 (num.Bit1 (num.Bit1 (num.Bit1 (num.Bit1 (num.Bit1 (num.Bit1 (num.Bit1 (num.Bit1 (num.Bit1 (num.Bit1 (num.Bit1 (num.Bit1 (num.Bit1 (num.Bit1 (num.Bit1 (num.Bit1 (num.Bit1 (num.Bit1 (num.Bit1 (num.Bit1 (num.Bit1 (num.Bit1 (num.One)))))))))))))))))))))))))))))))))))))))))))))))))))) = 16594089666694463701499071906249191887587271657660743829297003102235957128808"
  by (simp only: pow2_eval)

lemma pow_order_n_1: "pow2 (fold_order_n) (num.Bit1 (num.Bit1 (num.Bit1 (num.Bit1 (num.Bit1 (num.Bit1 (num.Bit1 (num.Bit1 (num.Bit1 (num.Bit1 (num.Bit1 (num.Bit1 (num.Bit1 (num.Bit1 (num.Bit1 (num.Bit1 (num.Bit1 (num.Bit1 (num.Bit1 (num.Bit1 (num.Bit1 (num.Bit1 (num.Bit1 (num.Bit1 (num.Bit1 (num.Bit1 (num.Bit1 (num.Bit1 (num.Bit1 (num.Bit1 (num.Bit1 (num.Bit1 (num.Bit1 (num.Bit1 (num.Bit1 (num.Bit1 (num.Bit1 (num.Bit1 (num.Bit1 (num.Bit1 (num.Bit1 (num.Bit1 (num.Bit1 (num.Bit1 (num.Bit1 (num.Bit1 (num.Bit1 (num.Bit1 (num.Bit1 (num.Bit1 (num.Bit1 (num.Bit1 (num.Bit1 (num.Bit1 (num.Bit1 (num.Bit1 (num.Bit1 (num.Bit1 (num.Bit1 (num.Bit1 (num.Bit1 (num.Bit1 (num.Bit1 (num.Bit1 (num.Bit1 (num.Bit1 (num.Bit1 (num.Bit1 (num.Bit1 (num.Bit1 (num.Bit1 (num.Bit1 (num.Bit1 (num.Bit1 (num.Bit1 (num.Bit1 (num.Bit1 (num.Bit1 (num.Bit1 (num.Bit1 (num.Bit1 (num.Bit1 (num.Bit1 (num.Bit1 (num.Bit1 (num.Bit1 (num.Bit1 (num.Bit1 (num.Bit1 (num.Bit1 (num.Bit1 (num.Bit1 (num.Bit1 (num.Bit1 (num.Bit1 (num.Bit1 (num.Bit1 (num.Bit1 (num.Bit1 (num.Bit1 (num.Bit1 (num.Bit1 (num.Bit1 (num.One)))))))))))))))))))))))))))))))))))))))))))))))))))))))))))))))))))))))))))))))))))))))))))))))))))))))) = 9715074456092520660704261936878609193893054635884717957946659452726149869930"
  by (rule pow2_stage [OF pow_order_n_0, of "num.Bit1 (num.Bit1 (num.Bit1 (num.Bit1 (num.Bit1 (num.Bit1 (num.Bit1 (num.Bit1 (num.Bit1 (num.Bit1 (num.Bit1 (num.Bit1 (num.Bit1 (num.Bit1 (num.Bit1 (num.Bit1 (num.Bit1 (num.Bit1 (num.Bit1 (num.Bit1 (num.Bit1 (num.Bit1 (num.Bit1 (num.Bit1 (num.Bit1 (num.Bit1 (num.Bit1 (num.Bit1 (num.Bit1 (num.Bit1 (num.Bit1 (num.Bit1 (num.Bit1 (num.Bit1 (num.Bit1 (num.Bit1 (num.Bit1 (num.Bit1 (num.Bit1 (num.Bit1 (num.Bit1 (num.Bit1 (num.Bit1 (num.Bit1 (num.Bit1 (num.Bit1 (num.Bit1 (num.Bit1 (num.Bit1 (num.Bit1 (num.Bit1 (num.Bit1 (num.One))))))))))))))))))))))))))))))))))))))))))))))))))))"]) (simp_all only: stage_eval)

lemma pow_order_n_2: "pow2 (fold_order_n) (num.Bit0 (num.Bit1 (num.Bit1 (num.Bit1 (num.Bit0 (num.Bit0 (num.Bit1 (num.Bit1 (num.Bit1 (num.Bit0 (num.Bit1 (num.Bit1 (num.Bit0 (num.Bit1 (num.Bit1 (num.Bit1 (num.Bit0 (num.Bit1 (num.Bit0 (num.Bit1 (num.Bit0 (num.Bit1 (num.Bit0 (num.Bit1 (num.Bit1 (num.Bit1 (num.Bit0 (num.Bit1 (num.Bit0 (num.Bit1 (num.Bit1 (num.Bit1 (num.Bit1 (num.Bit1 (num.Bit1 (num.Bit1 (num.Bit1 (num.Bit1 (num.Bit1 (num.Bit1 (num.Bit1 (num.Bit1 (num.Bit1 (num.Bit1 (num.Bit1 (num.Bit1 (num.Bit1 (num.Bit1 (num.Bit1 (num.Bit1 (num.Bit1 (num.Bit1 (num.Bit1 (num.Bit1 (num.Bit1 (num.Bit1 (num.Bit1 (num.Bit1 (num.Bit1 (num.Bit1 (num.Bit1 (num.Bit1 (num.Bit1 (num.Bit1 (num.Bit1 (num.Bit1 (num.Bit1 (num.Bit1 (num.Bit1 (num.Bit1 (num.Bit1 (num.Bit1 (num.Bit1 (num.Bit1 (num.Bit1 (num.Bit1 (num.Bit1 (num.Bit1 (num.Bit1 (num.Bit1 (num.Bit1 (num.Bit1 (num.Bit1 (num.Bit1 (num.Bit1 (num.Bit1 (num.Bit1 (num.Bit1 (num.Bit1 (num.Bit1 (num.Bit1 (num.Bit1 (num.Bit1 (num.Bit1 (num.Bit1 (num.Bit1 (num.Bit1 (num.Bit1 (num.Bit1 (num.Bit1 (num.Bit1 (num.Bit1 (num.Bit1 (num.Bit1 (num.Bit1 (num.Bit1 (num.Bit1 (num.Bit1 (num.Bit1 (num.Bit1 (num.Bit1 (num.Bit1 (num.Bit1 (num.Bit1 (num.Bit1 (num.Bit1 (num.Bit1 (num.Bit1 (num.Bit1 (num.Bit1 (num.Bit1 (num.Bit1 (num.Bit1 (num.Bit1 (num.Bit1 (num.Bit1 (num.Bit1 (num.Bit1 (num.Bit1 (num.Bit1 (num.Bit1 (num.Bit1 (num.Bit1 (num.Bit1 (num.Bit1 (num.Bit1 (num.Bit1 (num.Bit1 (num.Bit1 (num.Bit1 (num.Bit1 (num.Bit1 (num.Bit1 (num.Bit1 (num.Bit1 (num.Bit1 (num.Bit1 (num.Bit1 (num.Bit1 (num.Bit1 (num.Bit1 (num.Bit1 (num.Bit1 (num.Bit1 (num.Bit1 (num.One)))))))))))))))))))))))))))))))))))))))))))))))))))))))))))))))))))))))))))))))))))))))))))))))))))))))))))))))))))))))))))))))))))))))))))))))))))))))))))) = 8299085281113311746780828588897335721255265009526371929819705727723431972287"
  by (rule pow2_stage [OF pow_order_n_1, of "num.Bit0 (num.Bit1 (num.Bit1 (num.Bit1 (num.Bit0 (num.Bit0 (num.Bit1 (num.Bit1 (num.Bit1 (num.Bit0 (num.Bit1 (num.Bit1 (num.Bit0 (num.Bit1 (num.Bit1 (num.Bit1 (num.Bit0 (num.Bit1 (num.Bit0 (num.Bit1 (num.Bit0 (num.Bit1 (num.Bit0 (num.Bit1 (num.Bit1 (num.Bit1 (num.Bit0 (num.Bit1 (num.Bit0 (num.Bit1 (num.Bit1 (num.Bit1 (num.Bit1 (num.Bit1 (num.Bit1 (num.Bit1 (num.Bit1 (num.Bit1 (num.Bit1 (num.Bit1 (num.Bit1 (num.Bit1 (num.Bit1 (num.Bit1 (num.Bit1 (num.Bit1 (num.Bit1 (num.Bit1 (num.Bit1 (num.Bit1 (num.Bit1 (num.Bit1 (num.One))))))))))))))))))))))))))))))))))))))))))))))))))))"]) (simp_all only: stage_eval)

lemma pow_order_n_3: "pow2 (fold_order_n) (num.Bit0 (num.Bit1 (num.Bit0 (num.Bit0 (num.Bit1 (num.Bit0 (num.Bit1 (num.Bit1 (num.Bit1 (num.Bit1 (num.Bit1 (num.Bit1 (num.Bit1 (num.Bit1 (num.Bit0 (num.Bit1 (num.Bit1 (num.Bit1 (num.Bit0 (num.Bit1 (num.Bit1 (num.Bit1 (num.Bit0 (num.Bit0 (num.Bit0 (num.Bit0 (num.Bit0 (num.Bit0 (num.Bit0 (num.Bit1 (num.Bit0 (num.Bit1 (num.Bit0 (num.Bit0 (num.Bit0 (num.Bit1 (num.Bit0 (num.Bit0 (num.Bit1 (num.Bit0 (num.Bit1 (num.Bit1 (num.Bit1 (num.Bit1 (num.Bit0 (num.Bit1 (num.Bit0 (num.Bit1 (num.Bit0 (num.Bit1 (num.Bit1 (num.Bit0 (num.Bit0 (num.Bit1 (num.Bit1 (num.Bit1 (num.Bit0 (num.Bit0 (num.Bit1 (num.Bit1 (num.Bit1 (num.Bit0 (num.Bit1 (num.Bit1 (num.Bit0 (num.Bit1 (num.Bit1 (num.Bit1 (num.Bit0 (num.Bit1 (num.Bit0 (num.Bit1 (num.Bit0 (num.Bit1 (num.Bit0 (num.Bit1 (num.Bit1 (num.Bit1 (num.Bit0 (num.Bit1 (num.Bit0 (num.Bit1 (num.Bit1 (num.Bit1 (num.Bit1 (num.Bit1 (num.Bit1 (num.Bit1 (num.Bit1 (num.Bit1 (num.Bit1 (num.Bit1 (num.Bit1 (num.Bit1 (num.Bit1 (num.Bit1 (num.Bit1 (num.Bit1 (num.Bit1 (num.Bit1 (num.Bit1 (num.Bit1 (num.Bit1 (num.Bit1 (num.Bit1 (num.Bit1 (num.Bit1 (num.Bit1 (num.Bit1 (num.Bit1 (num.Bit1 (num.Bit1 (num.Bit1 (num.Bit1 (num.Bit1 (num.Bit1 (num.Bit1 (num.Bit1 (num.Bit1 (num.Bit1 (num.Bit1 (num.Bit1 (num.Bit1 (num.Bit1 (num.Bit1 (num.Bit1 (num.Bit1 (num.Bit1 (num.Bit1 (num.Bit1 (num.Bit1 (num.Bit1 (num.Bit1 (num.Bit1 (num.Bit1 (num.Bit1 (num.Bit1 (num.Bit1 (num.Bit1 (num.Bit1 (num.Bit1 (num.Bit1 (num.Bit1 (num.Bit1 (num.Bit1 (num.Bit1 (num.Bit1 (num.Bit1 (num.Bit1 (num.Bit1 (num.Bit1 (num.Bit1 (num.Bit1 (num.Bit1 (num.Bit1 (num.Bit1 (num.Bit1 (num.Bit1 (num.Bit1 (num.Bit1 (num.Bit1 (num.Bit1 (num.Bit1 (num.Bit1 (num.Bit1 (num.Bit1 (num.Bit1 (num.Bit1 (num.Bit1 (num.Bit1 (num.Bit1 (num.Bit1 (num.Bit1 (num.Bit1 (num.Bit1 (num.Bit1 (num.Bit1 (num.Bit1 (num.Bit1 (num.Bit1 (num.Bit1 (num.Bit1 (num.Bit1 (num.Bit1 (num.Bit1 (num.Bit1 (num.Bit1 (num.Bit1 (num.Bit1 (num.Bit1 (num.Bit1 (num.Bit1 (num.Bit1 (num.Bit1 (num.Bit1 (num.Bit1 (num.Bit1 (num.Bit1 (num.Bit1 (num.Bit1 (num.Bit1 (num.Bit1 (num.Bit1 (num.Bit1 (num.Bit1 (num.Bit1 (num.Bit1 (num.One)))))))))))))))))))))))))))))))))))))))))))))))))))))))))))))))))))))))))))))))))))))))))))))))))))))))))))))))))))))))))))))))))))))))))))))))))))))))))))))))))))))))))))))))))))))))))))))))))))))))))))))))) = 90021653852953135326453560960063888748302622158575493249580639826995370211607"
  by (rule pow2_stage [OF pow_order_n_2, of "num.Bit0 (num.Bit1 (num.Bit0 (num.Bit0 (num.Bit1 (num.Bit0 (num.Bit1 (num.Bit1 (num.Bit1 (num.Bit1 (num.Bit1 (num.Bit1 (num.Bit1 (num.Bit1 (num.Bit0 (num.Bit1 (num.Bit1 (num.Bit1 (num.Bit0 (num.Bit1 (num.Bit1 (num.Bit1 (num.Bit0 (num.Bit0 (num.Bit0 (num.Bit0 (num.Bit0 (num.Bit0 (num.Bit0 (num.Bit1 (num.Bit0 (num.Bit1 (num.Bit0 (num.Bit0 (num.Bit0 (num.Bit1 (num.Bit0 (num.Bit0 (num.Bit1 (num.Bit0 (num.Bit1 (num.Bit1 (num.Bit1 (num.Bit1 (num.Bit0 (num.Bit1 (num.Bit0 (num.Bit1 (num.Bit0 (num.Bit1 (num.Bit1 (num.Bit0 (num.One))))))))))))))))))))))))))))))))))))))))))))))))))))"]) (simp_all only: stage_eval)

lemma pow_order_n_4: "pow2 (fold_order_n) (num.Bit0 (num.Bit0 (num.Bit0 (num.Bit0 (num.Bit0 (num.Bit0 (num.Bit1 (num.Bit0 (num.Bit1 (num.Bit0 (num.Bit0 (num.Bit0 (num.Bit0 (num.Bit0 (num.Bit1 (num.Bit0 (num.Bit0 (num.Bit1 (num.Bit1 (num.Bit0 (num.Bit1 (num.Bit1 (num.Bit0 (num.Bit0 (num.Bit0 (num.Bit0 (num.Bit0 (num.Bit0 (num.Bit1 (num.Bit0 (num.Bit1 (num.Bit1 (num.Bit0 (num.Bit0 (num.Bit1 (num.Bit1 (num.Bit0 (num.Bit0 (num.Bit0 (num.Bit1 (num.Bit0 (num.Bit1 (num.Bit1 (num.Bit1 (num.Bit1 (num.Bit0 (num.Bit1 (num.Bit0 (num.Bit0 (num.Bit1 (num.Bit0 (num.Bit0 (num.Bit1 (num.Bit0 (num.Bit1 (num.Bit1 (num.Bit1 (num.Bit1 (num.Bit1 (num.Bit1 (num.Bit1 (num.Bit1 (num.Bit0 (num.Bit1 (num.Bit1 (num.Bit1 (num.Bit0 (num.Bit1 (num.Bit1 (num.Bit1 (num.Bit0 (num.Bit0 (num.Bit0 (num.Bit0 (num.Bit0 (num.Bit0 (num.Bit0 (num.Bit1 (num.Bit0 (num.Bit1 (num.Bit0 (num.Bit0 (num.Bit0 (num.Bit1 (num.Bit0 (num.Bit0 (num.Bit1 (num.Bit0 (num.Bit1 (num.Bit1 (num.Bit1 (num.Bit1 (num.Bit0 (num.Bit1 (num.Bit0 (num.Bit1 (num.Bit0 (num.Bit1 (num.Bit1 (num.Bit0 (num.Bit0 (num.Bit1 (num.Bit1 (num.Bit1 (num.Bit0 (num.Bit0 (num.Bit1 (num.Bit1 (num.Bit1 (num.Bit0 (num.Bit1 (num.Bit1 (num.Bit0 (num.Bit1 (num.Bit1 (num.Bit1 (num.Bit0 (num.Bit1 (num.Bit0 (num.Bit1 (num.Bit0 (num.Bit1 (num.Bit0 (num.Bit1 (num.Bit1 (num.Bit1 (num.Bit0 (num.Bit1 (num.Bit0 (num.Bit1 (num.Bit1 (num.Bit1 (num.Bit1 (num.Bit1 (num.Bit1 (num.Bit1 (num.Bit1 (num.Bit1 (num.Bit1 (num.Bit1 (num.Bit1 (num.Bit1 (num.Bit1 (num.Bit1 (num.Bit1 (num.Bit1 (num.Bit1 (num.Bit1 (num.Bit1 (num.Bit1 (num.Bit1 (num.Bit1 (num.Bit1 (num.Bit1 (num.Bit1 (num.Bit1 (num.Bit1 (num.Bit1 (num.Bit1 (num.Bit1 (num.Bit1 (num.Bit1 (num.Bit1 (num.Bit1 (num.Bit1 (num.Bit1 (num.Bit1 (num.Bit1 (num.Bit1 (num.Bit1 (num.Bit1 (num.Bit1 (num.Bit1 (num.Bit1 (num.Bit1 (num.Bit1 (num.Bit1 (num.Bit1 (num.Bit1 (num.Bit1 (num.Bit1 (num.Bit1 (num.Bit1 (num.Bit1 (num.Bit1 (num.Bit1 (num.Bit1 (num.Bit1 (num.Bit1 (num.Bit1 (num.Bit1 (num.Bit1 (num.Bit1 (num.Bit1 (num.Bit1 (num.Bit1 (num.Bit1 (num.Bit1 (num.Bit1 (num.Bit1 (num.Bit1 (num.Bit1 (num.Bit1 (num.Bit1 (num.Bit1 (num.Bit1 (num.Bit1 (num.Bit1 (num.Bit1 (num.Bit1 (num.Bit1 (num.Bit1 (num.Bit1 (num.Bit1 (num.Bit1 (num.Bit1 (num.Bit1 (num.Bit1 (num.Bit1 (num.Bit1 (num.Bit1 (num.Bit1 (num.Bit1 (num.Bit1 (num.Bit1 (num.Bit1 (num.Bit1 (num.Bit1 (num.Bit1 (num.Bit1 (num.Bit1 (num.Bit1 (num.Bit1 (num.Bit1 (num.Bit1 (num.Bit1 (num.Bit1 (num.Bit1 (num.Bit1 (num.Bit1 (num.Bit1 (num.Bit1 (num.Bit1 (num.Bit1 (num.Bit1 (num.Bit1 (num.Bit1 (num.Bit1 (num.Bit1 (num.Bit1 (num.Bit1 (num.Bit1 (num.Bit1 (num.Bit1 (num.Bit1 (num.One)))))))))))))))))))))))))))))))))))))))))))))))))))))))))))))))))))))))))))))))))))))))))))))))))))))))))))))))))))))))))))))))))))))))))))))))))))))))))))))))))))))))))))))))))))))))))))))))))))))))))))))))))))))))))))))))))))))))))))))))))))))))))))))))) = 115792089237316195423570985008687907852837564279074904382605163141518161494338"
  by (rule pow2_stage [OF pow_order_n_3, of "num.Bit0 (num.Bit0 (num.Bit0 (num.Bit0 (num.Bit0 (num.Bit0 (num.Bit1 (num.Bit0 (num.Bit1 (num.Bit0 (num.Bit0 (num.Bit0 (num.Bit0 (num.Bit0 (num.Bit1 (num.Bit0 (num.Bit0 (num.Bit1 (num.Bit1 (num.Bit0 (num.Bit1 (num.Bit1 (num.Bit0 (num.Bit0 (num.Bit0 (num.Bit0 (num.Bit0 (num.Bit0 (num.Bit1 (num.Bit0 (num.Bit1 (num.Bit1 (num.Bit0 (num.Bit0 (num.Bit1 (num.Bit1 (num.Bit0 (num.Bit0 (num.Bit0 (num.Bit1 (num.Bit0 (num.Bit1 (num.Bit1 (num.Bit1 (num.Bit1 (num.Bit0 (num.Bit1 (num.Bit0 (num.One))))))))))))))))))))))))))))))))))))))))))))))))"]) (simp_all only: stage_eval)

lemma cofactor_order_n_0: "cofactor_ok 115792089237316195423570985008687907852837564279074904382605163141518161494337 341948486974166000522343609283189"
proof (rule cofactor_eval [OF prime_341948486974166000522343609283189])
  show "115792089237316195423570985008687907852837564279074904382605163141518161494337 = 341948486974166000522343609283189 * (338624364920977752681389262317185522840540224::nat) + 1" by (simp only: num_eval)
  show "reduces (int 115792089237316195423570985008687907852837564279074904382605163141518161494337) (fold_order_n)" by (simp add: reduces_fold3)
  show "(86644313145397489891193855759928671818841495415153161568930588450251036589538::int) = 86644313145397489891193855759928671818841495415153161568930588450251036589537 + 1" by (simp only: num_eval)
  show "86644313145397489891193855759928671818841495415153161568930588450251036589537 * 57112704531168816596589732607440886458891436705097388389849158079043094771009 = 1 + int 115792089237316195423570985008687907852837564279074904382605163141518161494337 * 42736002852813264955634017004243308499087223244295714589437664442505423119136" by (simp only: num_eval)
qed (simp_all only: pow_cofactor_order_n_2 num_eval)

lemma prime_order_n: "is_prime 115792089237316195423570985008687907852837564279074904382605163141518161494337"
proof (rule pocklington_single [OF _ _ _ cofactor_order_n_0])
  show "115792089237316195423570985008687907852837564279074904382605163141518161494337 = 341948486974166000522343609283189 * (990278880650 * 341948486974166000522343609283189 + 239540216835517601548171058147374) + (1::nat)" by (simp only: num_eval)
  show "115792089237316195423570985008687907852837564279074904382605163141518161494337 = (115792089237316195423570985008687907852837564279074904382605163141518161494336::nat) + 1" by (simp only: num_eval)
  show "2 ^ 115792089237316195423570985008687907852837564279074904382605163141518161494336 mod int 115792089237316195423570985008687907852837564279074904382605163141518161494337 = 1 mod int 115792089237316195423570985008687907852837564279074904382605163141518161494337"
  proof (rule power_mod_eval)
    show "reduces (int 115792089237316195423570985008687907852837564279074904382605163141518161494337) (fold_order_n)" by (simp add: reduces_fold3)
    show "115792089237316195423570985008687907852837564279074904382605163141518161494338 = 1 + int 115792089237316195423570985008687907852837564279074904382605163141518161494337 * 1" by (simp only: num_eval)
  qed (rule pow_order_n_4)
qed (simp_all only: num_eval)

end
