(* ===== verification/Order.thy ===== *)
theory Order
  imports Primality_Order Finite_Field "HOL-Library.Numeral_Type"
begin

text \<open>
  The abstract field of scalars: the residues modulo the prime order \<open>order_n\<close> of the secp256k1
  group, as a type \<open>fn\<close> with the library's \<open>field\<close> class. The scalars of the code
  refine it (theory \<open>Scalar\<close>); the equations of the ring proofs are equations over it.
\<close>

definition order_n :: nat where
  "order_n = 0xFFFFFFFFFFFFFFFFFFFFFFFFFFFFFFFEBAAEDCE6AF48A03BBFD25E8CD0364141"

lemma order_n_gt_1: "1 < order_n"
  by (simp add: order_n_def)

typedef fn = "{0 ..< int order_n}"
  by (rule exI [of _ 0]) (simp add: order_n_def)

instantiation fn :: "{zero, one, plus, minus, times, uminus}"
begin

definition "0 = Abs_fn 0"
definition "1 = Abs_fn 1"
definition "x + y = Abs_fn ((Rep_fn x + Rep_fn y) mod int order_n)"
definition "x - y = Abs_fn ((Rep_fn x - Rep_fn y) mod int order_n)"
definition "x * y = Abs_fn ((Rep_fn x * Rep_fn y) mod int order_n)"
definition "- x = Abs_fn ((- Rep_fn x) mod int order_n)"

instance ..

end

interpretation fn_mod: mod_type "int order_n" Rep_fn Abs_fn
proof (rule mod_type.intro)
  show "type_definition Rep_fn Abs_fn {0 ..< int order_n}"
    by (rule type_definition_fn)
  show "1 < int order_n"
    using order_n_gt_1 by simp
qed (simp_all add: zero_fn_def one_fn_def plus_fn_def minus_fn_def times_fn_def uminus_fn_def)

instance fn :: comm_ring_1
  by (rule fn_mod.comm_ring_1)

interpretation fn_ring: mod_ring "int order_n" Rep_fn Abs_fn ..

lemma of_int_fn_eq_iff: "(of_int a :: fn) = of_int b \<longleftrightarrow> a mod int order_n = b mod int order_n"
  by (metis fn_mod.Rep_Abs_mod fn_ring.of_int_eq)

lemma of_nat_fn_eq_iff: "(of_nat a :: fn) = of_nat b \<longleftrightarrow> a mod order_n = b mod order_n"
proof -
  have "(of_nat a :: fn) = of_nat b \<longleftrightarrow> int a mod int order_n = int b mod int order_n"
    using of_int_fn_eq_iff [of "int a" "int b"] by simp
  then show ?thesis
    by (simp flip: of_nat_mod)
qed

lemma of_nat_order_n [simp]: "(of_nat order_n :: fn) = 0"
  using of_nat_fn_eq_iff [of order_n 0] by simp

lemma of_nat_mod_order_n [simp]: "(of_nat (a mod order_n) :: fn) = of_nat a"
  by (simp add: of_nat_fn_eq_iff)

text \<open>The canonical representative of a residue.\<close>

definition fn_nat :: "fn \<Rightarrow> nat" where
  "fn_nat x = nat (Rep_fn x)"

lemma fn_nat_lt: "fn_nat x < order_n"
  using Rep_fn [of x] by (auto simp: fn_nat_def)

lemma of_nat_fn_nat [simp]: "of_nat (fn_nat x) = x"
proof -
  have "of_int (Rep_fn x) = x"
    using Rep_fn [of x] by (simp add: fn_ring.of_int_eq Rep_fn_inverse)
  then show ?thesis
    using Rep_fn [of x] by (simp add: fn_nat_def)
qed

lemma fn_nat_of_nat: "fn_nat (of_nat a) = a mod order_n"
proof -
  have "(of_nat (fn_nat (of_nat a)) :: fn) = of_nat a" by simp
  then show ?thesis
    using fn_nat_lt [of "of_nat a"] unfolding of_nat_fn_eq_iff by simp
qed

lemma fn_nat_inject: "fn_nat x = fn_nat y \<longleftrightarrow> x = y"
  by (metis of_nat_fn_nat)

lemma fn_nat_0 [simp]: "fn_nat 0 = 0"
  using fn_nat_of_nat [of 0] by simp

lemma fn_nat_1 [simp]: "fn_nat 1 = 1"
  using fn_nat_of_nat [of 1] by (simp add: order_n_def)

lemma fn_nat_eq_0_iff [simp]: "fn_nat x = 0 \<longleftrightarrow> x = 0"
  using fn_nat_inject [of x 0] by simp

lemma fn_nat_add: "fn_nat (x + y) = (fn_nat x + fn_nat y) mod order_n"
  using fn_nat_of_nat [of "fn_nat x + fn_nat y"] by simp

lemma fn_nat_mult: "fn_nat (x * y) = (fn_nat x * fn_nat y) mod order_n"
  using fn_nat_of_nat [of "fn_nat x * fn_nat y"] by simp

lemma fn_nat_minus: "fn_nat (- x) = (if x = 0 then 0 else order_n - fn_nat x)"
proof (cases "x = 0")
  case False
  have "of_nat (order_n - fn_nat x) = - x"
    using fn_nat_lt [of x] by (simp add: of_nat_diff)
  then have "fn_nat (- x) = (order_n - fn_nat x) mod order_n"
    by (metis fn_nat_of_nat)
  moreover have "0 < fn_nat x"
    using False by (metis fn_nat_eq_0_iff gr0I)
  ultimately show ?thesis
    using False by (simp add: order_n_gt_1 [THEN less_trans [OF zero_less_one]])
qed simp

section \<open>The field structure\<close>

lemma is_prime_order_n: "is_prime order_n"
  using prime_order_n by (simp add: order_n_def)

lemma of_nat_fn_eq_0_iff: "(of_nat a :: fn) = 0 \<longleftrightarrow> order_n dvd a"
  using of_nat_fn_eq_iff [of a 0] by (simp add: dvd_eq_mod_eq_0)

lemma fn_no_zero_divisors: "(x :: fn) * y = 0 \<Longrightarrow> x = 0 \<or> y = 0"
proof -
  assume "x * y = 0"
  then have "(of_nat (fn_nat x * fn_nat y) :: fn) = 0" by simp
  then have "order_n dvd fn_nat x \<or> order_n dvd fn_nat y"
    using is_prime_dvd_mult [OF is_prime_order_n] by (simp only: of_nat_fn_eq_0_iff)
  then show ?thesis
    by (metis of_nat_fn_eq_0_iff of_nat_fn_nat)
qed

lemma finite_fn: "finite (UNIV :: fn set)"
  unfolding type_definition.univ [OF type_definition_fn] by simp

lemma fn_inverse_exists: "(x :: fn) \<noteq> 0 \<Longrightarrow> \<exists>y. y * x = 1"
  by (rule finite_inverse_exists [OF finite_fn fn_no_zero_divisors])

instantiation fn :: field
begin

definition inverse_fn :: "fn \<Rightarrow> fn" where
  "inverse_fn x = (if x = 0 then 0 else (SOME y. y * x = 1))"

definition divide_fn :: "fn \<Rightarrow> fn \<Rightarrow> fn" where
  "divide_fn x y = x * inverse y"

instance
proof
  fix x y :: fn
  show "x \<noteq> 0 \<Longrightarrow> inverse x * x = 1"
    using someI_ex [OF fn_inverse_exists] by (simp add: inverse_fn_def)
  show "x div y = x * inverse y"
    by (rule divide_fn_def)
  show "inverse (0 :: fn) = 0"
    by (simp add: inverse_fn_def)
qed

end

instance fn :: finite
  by standard (rule finite_fn)

lemma card_fn: "CARD(fn) = order_n"
  using fn_ring.CARD_eq by simp

lemma fn_inverse_power: "(x :: fn) ^ (order_n - 2) = inverse x"
  by (rule finite_inverse_power [OF finite_fn]) (simp_all add: card_fn order_n_def)

end
