(* ===== verification/Scalar.thy ===== *)
theory Scalar
  imports Prelude Order
begin

text \<open>
  Scalars modulo the group order: \<^verbatim>\<open>scalar_4x64_impl.h\<close> (the portable branches) and
  \<^verbatim>\<open>scalar_impl.h\<close>. A scalar is four 64-bit limbs; the refinement relation \<open>sc_is x a\<close>
  says that the limbs hold the canonical representative of the residue \<open>x\<close>. The
  accumulator macros of the multiplication (\<^verbatim>\<open>muladd\<close>, \<^verbatim>\<open>sumadd\<close>, \<^verbatim>\<open>extract\<close>) are
  functions on the triple \<open>(c0, c1, c2)\<close>; \<open>acc c x B\<close> says that the triple holds \<open>x \<le> B\<close>.
  A return code 0 or 1 is a \<open>bool\<close>; an output parameter is part of the result.
\<close>

section \<open>Representation\<close>

record secp256k1_scalar =
  sc0 :: u64
  sc1 :: u64
  sc2 :: u64
  sc3 :: u64

text \<open>The limbs of the order, of \<open>2 ^ 256\<close> minus the order, and of half the order.\<close>

definition SECP256K1_N_0 :: u64 where "SECP256K1_N_0 = 0xBFD25E8CD0364141"
definition SECP256K1_N_1 :: u64 where "SECP256K1_N_1 = 0xBAAEDCE6AF48A03B"
definition SECP256K1_N_2 :: u64 where "SECP256K1_N_2 = 0xFFFFFFFFFFFFFFFE"
definition SECP256K1_N_3 :: u64 where "SECP256K1_N_3 = 0xFFFFFFFFFFFFFFFF"
definition SECP256K1_N_C_0 :: u64 where "SECP256K1_N_C_0 = NOT SECP256K1_N_0 + 1"
definition SECP256K1_N_C_1 :: u64 where "SECP256K1_N_C_1 = NOT SECP256K1_N_1"
definition SECP256K1_N_C_2 :: u64 where "SECP256K1_N_C_2 = 1"
definition SECP256K1_N_H_0 :: u64 where "SECP256K1_N_H_0 = 0xDFE92F46681B20A0"
definition SECP256K1_N_H_1 :: u64 where "SECP256K1_N_H_1 = 0x5D576E7357A4501D"
definition SECP256K1_N_H_2 :: u64 where "SECP256K1_N_H_2 = 0xFFFFFFFFFFFFFFFF"
definition SECP256K1_N_H_3 :: u64 where "SECP256K1_N_H_3 = 0x7FFFFFFFFFFFFFFF"

definition sc_val :: "secp256k1_scalar \<Rightarrow> nat" where
  "sc_val a = unat (sc0 a) + 2 ^ 64 * unat (sc1 a) + 2 ^ 128 * unat (sc2 a) + 2 ^ 192 * unat (sc3 a)"

definition sc_is :: "fn \<Rightarrow> secp256k1_scalar \<Rightarrow> bool" where
  "sc_is x a \<longleftrightarrow> sc_val a = fn_nat x"

text \<open>The limb array \<^verbatim>\<open>d[i]\<close>.\<close>

definition sc_d :: "secp256k1_scalar \<Rightarrow> nat \<Rightarrow> u64" where
  "sc_d a i = [sc0 a, sc1 a, sc2 a, sc3 a] ! i"

section \<open>Operations\<close>

definition secp256k1_scalar_clear :: secp256k1_scalar where
  "secp256k1_scalar_clear = \<lparr>sc0 = 0, sc1 = 0, sc2 = 0, sc3 = 0\<rparr>"

definition secp256k1_scalar_set_int :: "u32 \<Rightarrow> secp256k1_scalar" where
  "secp256k1_scalar_set_int v = \<lparr>sc0 = ucast v, sc1 = 0, sc2 = 0, sc3 = 0\<rparr>"

definition secp256k1_scalar_set_u64 :: "u64 \<Rightarrow> secp256k1_scalar" where
  "secp256k1_scalar_set_u64 v = \<lparr>sc0 = v, sc1 = 0, sc2 = 0, sc3 = 0\<rparr>"

definition secp256k1_scalar_get_bits :: "secp256k1_scalar \<Rightarrow> nat \<Rightarrow> nat \<Rightarrow> u32" where
  "secp256k1_scalar_get_bits a offset count =
     ucast (drop_bit (offset mod 64) (sc_d a (offset div 64)) AND (push_bit count 1 - 1))"

definition secp256k1_scalar_get_bits_var :: "secp256k1_scalar \<Rightarrow> nat \<Rightarrow> nat \<Rightarrow> u32" where
  "secp256k1_scalar_get_bits_var a offset count = (
     if (offset + count - 1) div 64 = offset div 64 then secp256k1_scalar_get_bits a offset count
     else ucast ((drop_bit (offset mod 64) (sc_d a (offset div 64))
       OR push_bit (64 - offset mod 64) (sc_d a (offset div 64 + 1))) AND (push_bit count 1 - 1)))"

definition secp256k1_scalar_check_overflow :: "secp256k1_scalar \<Rightarrow> bool" where
  "secp256k1_scalar_check_overflow a = (
     let yes = False; no = False;
         no = (no \<or> sc3 a < SECP256K1_N_3);
         no = (no \<or> sc2 a < SECP256K1_N_2);
         yes = (yes \<or> (sc2 a > SECP256K1_N_2 \<and> \<not> no));
         no = (no \<or> sc1 a < SECP256K1_N_1);
         yes = (yes \<or> (sc1 a > SECP256K1_N_1 \<and> \<not> no));
         yes = (yes \<or> (sc0 a \<ge> SECP256K1_N_0 \<and> \<not> no))
     in yes)"

definition secp256k1_scalar_reduce :: "secp256k1_scalar \<Rightarrow> u32 \<Rightarrow> secp256k1_scalar" where
  "secp256k1_scalar_reduce r overflow = (
     let t = ucast (sc0 r) + ucast (ucast overflow * SECP256K1_N_C_0) :: u128;
         d0 = ucast (t AND 0xFFFFFFFFFFFFFFFF) :: u64; t = drop_bit 64 t;
         t = t + (ucast (sc1 r) + ucast (ucast overflow * SECP256K1_N_C_1));
         d1 = ucast (t AND 0xFFFFFFFFFFFFFFFF) :: u64; t = drop_bit 64 t;
         t = t + (ucast (sc2 r) + ucast (ucast overflow * SECP256K1_N_C_2));
         d2 = ucast (t AND 0xFFFFFFFFFFFFFFFF) :: u64; t = drop_bit 64 t;
         t = t + ucast (sc3 r);
         d3 = ucast (t AND 0xFFFFFFFFFFFFFFFF) :: u64
     in \<lparr>sc0 = d0, sc1 = d1, sc2 = d2, sc3 = d3\<rparr>)"

definition secp256k1_scalar_add :: "secp256k1_scalar \<Rightarrow> secp256k1_scalar \<Rightarrow> u32 \<times> secp256k1_scalar" where
  "secp256k1_scalar_add a b = (
     let t = ucast (sc0 a) + ucast (sc0 b) :: u128;
         d0 = ucast (t AND 0xFFFFFFFFFFFFFFFF) :: u64; t = drop_bit 64 t;
         t = t + (ucast (sc1 a) + ucast (sc1 b));
         d1 = ucast (t AND 0xFFFFFFFFFFFFFFFF) :: u64; t = drop_bit 64 t;
         t = t + (ucast (sc2 a) + ucast (sc2 b));
         d2 = ucast (t AND 0xFFFFFFFFFFFFFFFF) :: u64; t = drop_bit 64 t;
         t = t + (ucast (sc3 a) + ucast (sc3 b));
         d3 = ucast (t AND 0xFFFFFFFFFFFFFFFF) :: u64; t = drop_bit 64 t;
         r = \<lparr>sc0 = d0, sc1 = d1, sc2 = d2, sc3 = d3\<rparr>;
         overflow = ucast (t + of_bool (secp256k1_scalar_check_overflow r)) :: u32
     in (overflow, secp256k1_scalar_reduce r overflow))"

definition secp256k1_scalar_cadd_bit :: "secp256k1_scalar \<Rightarrow> u32 \<Rightarrow> bool \<Rightarrow> secp256k1_scalar" where
  "secp256k1_scalar_cadd_bit r b flag = (
     let b = b + ((of_bool flag - 1) AND 0x100);
         s = unat (b AND 0x3F);
         t = ucast (sc0 r) + ucast (push_bit s (of_bool (drop_bit 6 b = 0)) :: u64) :: u128;
         d0 = ucast (t AND 0xFFFFFFFFFFFFFFFF) :: u64; t = drop_bit 64 t;
         t = t + (ucast (sc1 r) + ucast (push_bit s (of_bool (drop_bit 6 b = 1)) :: u64));
         d1 = ucast (t AND 0xFFFFFFFFFFFFFFFF) :: u64; t = drop_bit 64 t;
         t = t + (ucast (sc2 r) + ucast (push_bit s (of_bool (drop_bit 6 b = 2)) :: u64));
         d2 = ucast (t AND 0xFFFFFFFFFFFFFFFF) :: u64; t = drop_bit 64 t;
         t = t + (ucast (sc3 r) + ucast (push_bit s (of_bool (drop_bit 6 b = 3)) :: u64));
         d3 = ucast (t AND 0xFFFFFFFFFFFFFFFF) :: u64
     in \<lparr>sc0 = d0, sc1 = d1, sc2 = d2, sc3 = d3\<rparr>)"

text \<open>The second component is what \<^verbatim>\<open>*overflow\<close> receives.\<close>

definition secp256k1_scalar_set_b32 :: "u8 list \<Rightarrow> secp256k1_scalar \<times> bool" where
  "secp256k1_scalar_set_b32 b32 = (
     let r = \<lparr>
           sc0 = ucast (b32 ! 31) OR push_bit 8 (ucast (b32 ! 30)) OR push_bit 16 (ucast (b32 ! 29)) OR push_bit 24 (ucast (b32 ! 28))
             OR push_bit 32 (ucast (b32 ! 27)) OR push_bit 40 (ucast (b32 ! 26)) OR push_bit 48 (ucast (b32 ! 25)) OR push_bit 56 (ucast (b32 ! 24)),
           sc1 = ucast (b32 ! 23) OR push_bit 8 (ucast (b32 ! 22)) OR push_bit 16 (ucast (b32 ! 21)) OR push_bit 24 (ucast (b32 ! 20))
             OR push_bit 32 (ucast (b32 ! 19)) OR push_bit 40 (ucast (b32 ! 18)) OR push_bit 48 (ucast (b32 ! 17)) OR push_bit 56 (ucast (b32 ! 16)),
           sc2 = ucast (b32 ! 15) OR push_bit 8 (ucast (b32 ! 14)) OR push_bit 16 (ucast (b32 ! 13)) OR push_bit 24 (ucast (b32 ! 12))
             OR push_bit 32 (ucast (b32 ! 11)) OR push_bit 40 (ucast (b32 ! 10)) OR push_bit 48 (ucast (b32 ! 9)) OR push_bit 56 (ucast (b32 ! 8)),
           sc3 = ucast (b32 ! 7) OR push_bit 8 (ucast (b32 ! 6)) OR push_bit 16 (ucast (b32 ! 5)) OR push_bit 24 (ucast (b32 ! 4))
             OR push_bit 32 (ucast (b32 ! 3)) OR push_bit 40 (ucast (b32 ! 2)) OR push_bit 48 (ucast (b32 ! 1)) OR push_bit 56 (ucast (b32 ! 0))\<rparr>;
         over = secp256k1_scalar_check_overflow r
     in (secp256k1_scalar_reduce r (of_bool over), over))"

definition secp256k1_scalar_get_b32 :: "secp256k1_scalar \<Rightarrow> u8 list" where
  "secp256k1_scalar_get_b32 a =
    [ucast (drop_bit 56 (sc3 a)), ucast (drop_bit 48 (sc3 a)), ucast (drop_bit 40 (sc3 a)), ucast (drop_bit 32 (sc3 a)),
     ucast (drop_bit 24 (sc3 a)), ucast (drop_bit 16 (sc3 a)), ucast (drop_bit 8 (sc3 a)), ucast (sc3 a),
     ucast (drop_bit 56 (sc2 a)), ucast (drop_bit 48 (sc2 a)), ucast (drop_bit 40 (sc2 a)), ucast (drop_bit 32 (sc2 a)),
     ucast (drop_bit 24 (sc2 a)), ucast (drop_bit 16 (sc2 a)), ucast (drop_bit 8 (sc2 a)), ucast (sc2 a),
     ucast (drop_bit 56 (sc1 a)), ucast (drop_bit 48 (sc1 a)), ucast (drop_bit 40 (sc1 a)), ucast (drop_bit 32 (sc1 a)),
     ucast (drop_bit 24 (sc1 a)), ucast (drop_bit 16 (sc1 a)), ucast (drop_bit 8 (sc1 a)), ucast (sc1 a),
     ucast (drop_bit 56 (sc0 a)), ucast (drop_bit 48 (sc0 a)), ucast (drop_bit 40 (sc0 a)), ucast (drop_bit 32 (sc0 a)),
     ucast (drop_bit 24 (sc0 a)), ucast (drop_bit 16 (sc0 a)), ucast (drop_bit 8 (sc0 a)), ucast (sc0 a)]"

definition secp256k1_scalar_is_zero :: "secp256k1_scalar \<Rightarrow> bool" where
  "secp256k1_scalar_is_zero a \<longleftrightarrow> (((sc0 a OR sc1 a) OR sc2 a) OR sc3 a) = 0"

definition secp256k1_scalar_negate :: "secp256k1_scalar \<Rightarrow> secp256k1_scalar" where
  "secp256k1_scalar_negate a = (
     let nonzero = 0xFFFFFFFFFFFFFFFF * of_bool (\<not> secp256k1_scalar_is_zero a) :: u64;
         t = ucast (NOT (sc0 a)) + ucast SECP256K1_N_0 + 1 :: u128;
         d0 = ucast (t AND ucast nonzero) :: u64; t = drop_bit 64 t;
         t = t + (ucast (NOT (sc1 a)) + ucast SECP256K1_N_1);
         d1 = ucast (t AND ucast nonzero) :: u64; t = drop_bit 64 t;
         t = t + (ucast (NOT (sc2 a)) + ucast SECP256K1_N_2);
         d2 = ucast (t AND ucast nonzero) :: u64; t = drop_bit 64 t;
         t = t + (ucast (NOT (sc3 a)) + ucast SECP256K1_N_3);
         d3 = ucast (t AND ucast nonzero) :: u64
     in \<lparr>sc0 = d0, sc1 = d1, sc2 = d2, sc3 = d3\<rparr>)"

definition secp256k1_scalar_is_one :: "secp256k1_scalar \<Rightarrow> bool" where
  "secp256k1_scalar_is_one a \<longleftrightarrow> ((((sc0 a XOR 1) OR sc1 a) OR sc2 a) OR sc3 a) = 0"

definition secp256k1_scalar_is_high :: "secp256k1_scalar \<Rightarrow> bool" where
  "secp256k1_scalar_is_high a = (
     let yes = False; no = False;
         no = (no \<or> sc3 a < SECP256K1_N_H_3);
         yes = (yes \<or> (sc3 a > SECP256K1_N_H_3 \<and> \<not> no));
         no = (no \<or> (sc2 a < SECP256K1_N_H_2 \<and> \<not> yes));
         no = (no \<or> (sc1 a < SECP256K1_N_H_1 \<and> \<not> yes));
         yes = (yes \<or> (sc1 a > SECP256K1_N_H_1 \<and> \<not> no));
         yes = (yes \<or> (sc0 a > SECP256K1_N_H_0 \<and> \<not> no))
     in yes)"

definition secp256k1_scalar_cond_negate :: "secp256k1_scalar \<Rightarrow> bool \<Rightarrow> int \<times> secp256k1_scalar" where
  "secp256k1_scalar_cond_negate r flag = (
     let mask = of_bool (\<not> flag) - 1 :: u64;
         nonzero = of_bool (secp256k1_scalar_is_zero r) - 1 :: u64;
         t = ucast (sc0 r XOR mask) + ucast ((SECP256K1_N_0 + 1) AND mask) :: u128;
         d0 = ucast (t AND ucast nonzero) :: u64; t = drop_bit 64 t;
         t = t + (ucast (sc1 r XOR mask) + ucast (SECP256K1_N_1 AND mask));
         d1 = ucast (t AND ucast nonzero) :: u64; t = drop_bit 64 t;
         t = t + (ucast (sc2 r XOR mask) + ucast (SECP256K1_N_2 AND mask));
         d2 = ucast (t AND ucast nonzero) :: u64; t = drop_bit 64 t;
         t = t + (ucast (sc3 r XOR mask) + ucast (SECP256K1_N_3 AND mask));
         d3 = ucast (t AND ucast nonzero) :: u64
     in (2 * of_bool (mask = 0) - 1, \<lparr>sc0 = d0, sc1 = d1, sc2 = d2, sc3 = d3\<rparr>))"

section \<open>The accumulator macros\<close>

text \<open>
  The third word is 32 bits wide in \<^verbatim>\<open>mul_512\<close> and \<^verbatim>\<open>sqr_512\<close> and 64 in \<^verbatim>\<open>reduce_512\<close>.
\<close>

type_synonym 'c acc = "u64 \<times> u64 \<times> 'c word"

definition muladd :: "u64 \<Rightarrow> u64 \<Rightarrow> 'c::len acc \<Rightarrow> 'c acc" where
  "muladd a b = (\<lambda>(c0, c1, c2).
     let t = ucast a * ucast b :: u128;
         th = ucast (drop_bit 64 t) :: u64;
         tl = ucast t :: u64;
         c0 = c0 + tl;
         th = th + (if c0 < tl then 1 else 0);
         c1 = c1 + th;
         c2 = c2 + (if c1 < th then 1 else 0)
     in (c0, c1, c2))"

definition muladd_fast :: "u64 \<Rightarrow> u64 \<Rightarrow> 'c::len acc \<Rightarrow> 'c acc" where
  "muladd_fast a b = (\<lambda>(c0, c1, c2).
     let t = ucast a * ucast b :: u128;
         th = ucast (drop_bit 64 t) :: u64;
         tl = ucast t :: u64;
         c0 = c0 + tl;
         th = th + (if c0 < tl then 1 else 0);
         c1 = c1 + th
     in (c0, c1, c2))"

definition muladd2 :: "u64 \<Rightarrow> u64 \<Rightarrow> 'c::len acc \<Rightarrow> 'c acc" where
  "muladd2 a b = (\<lambda>(c0, c1, c2).
     let t = ucast a * ucast b :: u128;
         th = ucast (drop_bit 64 t) :: u64;
         tl = ucast t :: u64;
         th2 = th + th;
         c2 = c2 + (if th2 < th then 1 else 0);
         tl2 = tl + tl;
         th2 = th2 + (if tl2 < tl then 1 else 0);
         c0 = c0 + tl2;
         th2 = th2 + (if c0 < tl2 then 1 else 0);
         c2 = c2 + of_bool (c0 < tl2 \<and> th2 = 0);
         c1 = c1 + th2;
         c2 = c2 + (if c1 < th2 then 1 else 0)
     in (c0, c1, c2))"

definition sumadd :: "u64 \<Rightarrow> 'c::len acc \<Rightarrow> 'c acc" where
  "sumadd a = (\<lambda>(c0, c1, c2).
     let c0 = c0 + a;
         over = if c0 < a then 1 else 0;
         c1 = c1 + over;
         c2 = c2 + (if c1 < over then 1 else 0)
     in (c0, c1, c2))"

definition sumadd_fast :: "u64 \<Rightarrow> 'c::len acc \<Rightarrow> 'c acc" where
  "sumadd_fast a = (\<lambda>(c0, c1, c2).
     let c0 = c0 + a;
         c1 = c1 + (if c0 < a then 1 else 0)
     in (c0, c1, c2))"

definition extract_word :: "'c::len acc \<Rightarrow> u64 \<times> 'c acc" where
  "extract_word = (\<lambda>(c0, c1, c2). (c0, (c1, ucast c2, 0)))"

definition extract_fast :: "'c::len acc \<Rightarrow> u64 \<times> 'c acc" where
  "extract_fast = (\<lambda>(c0, c1, c2). (c0, (c1, 0, c2)))"

section \<open>Multiplication\<close>

definition secp256k1_scalar_mul_512 :: "secp256k1_scalar \<Rightarrow> secp256k1_scalar \<Rightarrow> u64 list" where
  "secp256k1_scalar_mul_512 a b = (
     let c = (0, 0, 0) :: 32 acc;
         c = muladd_fast (sc0 a) (sc0 b) c;
         (l0, c) = extract_fast c;
         c = muladd (sc0 a) (sc1 b) c;
         c = muladd (sc1 a) (sc0 b) c;
         (l1, c) = extract_word c;
         c = muladd (sc0 a) (sc2 b) c;
         c = muladd (sc1 a) (sc1 b) c;
         c = muladd (sc2 a) (sc0 b) c;
         (l2, c) = extract_word c;
         c = muladd (sc0 a) (sc3 b) c;
         c = muladd (sc1 a) (sc2 b) c;
         c = muladd (sc2 a) (sc1 b) c;
         c = muladd (sc3 a) (sc0 b) c;
         (l3, c) = extract_word c;
         c = muladd (sc1 a) (sc3 b) c;
         c = muladd (sc2 a) (sc2 b) c;
         c = muladd (sc3 a) (sc1 b) c;
         (l4, c) = extract_word c;
         c = muladd (sc2 a) (sc3 b) c;
         c = muladd (sc3 a) (sc2 b) c;
         (l5, c) = extract_word c;
         c = muladd_fast (sc3 a) (sc3 b) c;
         (l6, c) = extract_fast c;
         l7 = fst c
     in [l0, l1, l2, l3, l4, l5, l6, l7])"

definition secp256k1_scalar_sqr_512 :: "secp256k1_scalar \<Rightarrow> u64 list" where
  "secp256k1_scalar_sqr_512 a = (
     let c = (0, 0, 0) :: 32 acc;
         c = muladd_fast (sc0 a) (sc0 a) c;
         (l0, c) = extract_fast c;
         c = muladd2 (sc0 a) (sc1 a) c;
         (l1, c) = extract_word c;
         c = muladd2 (sc0 a) (sc2 a) c;
         c = muladd (sc1 a) (sc1 a) c;
         (l2, c) = extract_word c;
         c = muladd2 (sc0 a) (sc3 a) c;
         c = muladd2 (sc1 a) (sc2 a) c;
         (l3, c) = extract_word c;
         c = muladd2 (sc1 a) (sc3 a) c;
         c = muladd (sc2 a) (sc2 a) c;
         (l4, c) = extract_word c;
         c = muladd2 (sc2 a) (sc3 a) c;
         (l5, c) = extract_word c;
         c = muladd_fast (sc3 a) (sc3 a) c;
         (l6, c) = extract_fast c;
         l7 = fst c
     in [l0, l1, l2, l3, l4, l5, l6, l7])"

text \<open>
  The product is folded twice with \<open>2 ^ 256 = SECP256K1_N_C (mod n)\<close>: eight words to the seven
  words \<open>m\<close>, those to the five words \<open>p\<close>, those to four words and a carry.
\<close>

definition secp256k1_scalar_reduce_512 :: "u64 list \<Rightarrow> secp256k1_scalar" where
  "secp256k1_scalar_reduce_512 l = (
     let l0 = l ! 0; l1 = l ! 1; l2 = l ! 2; l3 = l ! 3;
         n0 = l ! 4; n1 = l ! 5; n2 = l ! 6; n3 = l ! 7;
         c = (l0, 0, 0) :: 64 acc;
         c = muladd_fast n0 SECP256K1_N_C_0 c;
         (m0, c) = extract_fast c;
         c = sumadd_fast l1 c;
         c = muladd n1 SECP256K1_N_C_0 c;
         c = muladd n0 SECP256K1_N_C_1 c;
         (m1, c) = extract_word c;
         c = sumadd l2 c;
         c = muladd n2 SECP256K1_N_C_0 c;
         c = muladd n1 SECP256K1_N_C_1 c;
         c = sumadd n0 c;
         (m2, c) = extract_word c;
         c = sumadd l3 c;
         c = muladd n3 SECP256K1_N_C_0 c;
         c = muladd n2 SECP256K1_N_C_1 c;
         c = sumadd n1 c;
         (m3, c) = extract_word c;
         c = muladd n3 SECP256K1_N_C_1 c;
         c = sumadd n2 c;
         (m4, c) = extract_word c;
         c = sumadd_fast n3 c;
         (m5, c) = extract_fast c;
         m6 = ucast (fst c) :: u32;
         c = (m0, 0, 0) :: 64 acc;
         c = muladd_fast m4 SECP256K1_N_C_0 c;
         (p0, c) = extract_fast c;
         c = sumadd_fast m1 c;
         c = muladd m5 SECP256K1_N_C_0 c;
         c = muladd m4 SECP256K1_N_C_1 c;
         (p1, c) = extract_word c;
         c = sumadd m2 c;
         c = muladd (ucast m6) SECP256K1_N_C_0 c;
         c = muladd m5 SECP256K1_N_C_1 c;
         c = sumadd m4 c;
         (p2, c) = extract_word c;
         c = sumadd_fast m3 c;
         c = muladd_fast (ucast m6) SECP256K1_N_C_1 c;
         c = sumadd_fast m5 c;
         (p3, c) = extract_fast c;
         p4 = ucast (fst c + ucast m6) :: u32;
         c = ucast p0 + ucast SECP256K1_N_C_0 * ucast p4 :: u128;
         d0 = ucast (c AND 0xFFFFFFFFFFFFFFFF) :: u64; c = drop_bit 64 c;
         c = c + (ucast p1 + ucast SECP256K1_N_C_1 * ucast p4);
         d1 = ucast (c AND 0xFFFFFFFFFFFFFFFF) :: u64; c = drop_bit 64 c;
         c = c + (ucast p2 + ucast p4);
         d2 = ucast (c AND 0xFFFFFFFFFFFFFFFF) :: u64; c = drop_bit 64 c;
         c = c + ucast p3;
         d3 = ucast (c AND 0xFFFFFFFFFFFFFFFF) :: u64; c = drop_bit 64 c;
         r = \<lparr>sc0 = d0, sc1 = d1, sc2 = d2, sc3 = d3\<rparr>
     in secp256k1_scalar_reduce r (ucast (c + of_bool (secp256k1_scalar_check_overflow r))))"

definition secp256k1_scalar_mul :: "secp256k1_scalar \<Rightarrow> secp256k1_scalar \<Rightarrow> secp256k1_scalar" where
  "secp256k1_scalar_mul a b = secp256k1_scalar_reduce_512 (secp256k1_scalar_mul_512 a b)"

definition secp256k1_scalar_sqr :: "secp256k1_scalar \<Rightarrow> secp256k1_scalar" where
  "secp256k1_scalar_sqr a = secp256k1_scalar_reduce_512 (secp256k1_scalar_sqr_512 a)"

definition secp256k1_scalar_shr_int :: "secp256k1_scalar \<Rightarrow> nat \<Rightarrow> u32 \<times> secp256k1_scalar" where
  "secp256k1_scalar_shr_int r n = (
     ucast (sc0 r AND (push_bit n 1 - 1)),
     \<lparr>sc0 = drop_bit n (sc0 r) + push_bit (64 - n) (sc1 r),
      sc1 = drop_bit n (sc1 r) + push_bit (64 - n) (sc2 r),
      sc2 = drop_bit n (sc2 r) + push_bit (64 - n) (sc3 r),
      sc3 = drop_bit n (sc3 r)\<rparr>)"

definition secp256k1_scalar_eq :: "secp256k1_scalar \<Rightarrow> secp256k1_scalar \<Rightarrow> bool" where
  "secp256k1_scalar_eq a b \<longleftrightarrow>
     ((((sc0 a XOR sc0 b) OR (sc1 a XOR sc1 b)) OR (sc2 a XOR sc2 b)) OR (sc3 a XOR sc3 b)) = 0"

definition secp256k1_scalar_mul_shift_var ::
    "secp256k1_scalar \<Rightarrow> secp256k1_scalar \<Rightarrow> nat \<Rightarrow> secp256k1_scalar" where
  "secp256k1_scalar_mul_shift_var a b shift = (
     let l = secp256k1_scalar_mul_512 a b;
         shiftlimbs = shift div 64;
         shiftlow = shift mod 64;
         shifthigh = 64 - shiftlow;
         r = \<lparr>
           sc0 = if shift < 512 then drop_bit shiftlow (l ! (0 + shiftlimbs)) OR
             (if shift < 448 \<and> shiftlow \<noteq> 0 then push_bit shifthigh (l ! (1 + shiftlimbs)) else 0) else 0,
           sc1 = if shift < 448 then drop_bit shiftlow (l ! (1 + shiftlimbs)) OR
             (if shift < 384 \<and> shiftlow \<noteq> 0 then push_bit shifthigh (l ! (2 + shiftlimbs)) else 0) else 0,
           sc2 = if shift < 384 then drop_bit shiftlow (l ! (2 + shiftlimbs)) OR
             (if shift < 320 \<and> shiftlow \<noteq> 0 then push_bit shifthigh (l ! (3 + shiftlimbs)) else 0) else 0,
           sc3 = if shift < 320 then drop_bit shiftlow (l ! (3 + shiftlimbs)) else 0\<rparr>
     in secp256k1_scalar_cadd_bit r 0 (drop_bit ((shift - 1) mod 64) (l ! ((shift - 1) div 64)) AND 1 = 1))"

text \<open>The addition chain for the exponent \<open>n - 2\<close>; \<^verbatim>\<open>t\<close> points to \<^verbatim>\<open>x126\<close>, which is not read again.\<close>

definition secp256k1_scalar_inverse :: "secp256k1_scalar \<Rightarrow> secp256k1_scalar" where
  "secp256k1_scalar_inverse x = (
     let u2 = secp256k1_scalar_sqr x;
         x2 = secp256k1_scalar_mul u2 x;
         u5 = secp256k1_scalar_mul u2 x2;
         x3 = secp256k1_scalar_mul u5 u2;
         u9 = secp256k1_scalar_mul x3 u2;
         u11 = secp256k1_scalar_mul u9 u2;
         u13 = secp256k1_scalar_mul u11 u2;
         x6 = secp256k1_scalar_sqr u13; x6 = secp256k1_scalar_sqr x6; x6 = secp256k1_scalar_mul x6 u11;
         x8 = secp256k1_scalar_sqr x6; x8 = secp256k1_scalar_sqr x8; x8 = secp256k1_scalar_mul x8 x2;
         x14 = secp256k1_scalar_sqr x8; x14 = (secp256k1_scalar_sqr ^^ 5) x14;
         x14 = secp256k1_scalar_mul x14 x6;
         x28 = secp256k1_scalar_sqr x14; x28 = (secp256k1_scalar_sqr ^^ 13) x28;
         x28 = secp256k1_scalar_mul x28 x14;
         x56 = secp256k1_scalar_sqr x28; x56 = (secp256k1_scalar_sqr ^^ 27) x56;
         x56 = secp256k1_scalar_mul x56 x28;
         x112 = secp256k1_scalar_sqr x56; x112 = (secp256k1_scalar_sqr ^^ 55) x112;
         x112 = secp256k1_scalar_mul x112 x56;
         x126 = secp256k1_scalar_sqr x112; x126 = (secp256k1_scalar_sqr ^^ 13) x126;
         x126 = secp256k1_scalar_mul x126 x14;
         t = x126; t = (secp256k1_scalar_sqr ^^ 3) t; t = secp256k1_scalar_mul t u5;
         t = (secp256k1_scalar_sqr ^^ 4) t; t = secp256k1_scalar_mul t x3; t = (secp256k1_scalar_sqr ^^ 4) t;
         t = secp256k1_scalar_mul t u5; t = (secp256k1_scalar_sqr ^^ 5) t; t = secp256k1_scalar_mul t u11;
         t = (secp256k1_scalar_sqr ^^ 4) t; t = secp256k1_scalar_mul t u11; t = (secp256k1_scalar_sqr ^^ 4) t;
         t = secp256k1_scalar_mul t x3; t = (secp256k1_scalar_sqr ^^ 5) t; t = secp256k1_scalar_mul t x3;
         t = (secp256k1_scalar_sqr ^^ 6) t; t = secp256k1_scalar_mul t u13; t = (secp256k1_scalar_sqr ^^ 4) t;
         t = secp256k1_scalar_mul t u5; t = (secp256k1_scalar_sqr ^^ 3) t; t = secp256k1_scalar_mul t x3;
         t = (secp256k1_scalar_sqr ^^ 5) t; t = secp256k1_scalar_mul t u9; t = (secp256k1_scalar_sqr ^^ 6) t;
         t = secp256k1_scalar_mul t u5; t = (secp256k1_scalar_sqr ^^ 10) t; t = secp256k1_scalar_mul t x3;
         t = (secp256k1_scalar_sqr ^^ 4) t; t = secp256k1_scalar_mul t x3; t = (secp256k1_scalar_sqr ^^ 9) t;
         t = secp256k1_scalar_mul t x8; t = (secp256k1_scalar_sqr ^^ 5) t; t = secp256k1_scalar_mul t u9;
         t = (secp256k1_scalar_sqr ^^ 6) t; t = secp256k1_scalar_mul t u11; t = (secp256k1_scalar_sqr ^^ 4) t;
         t = secp256k1_scalar_mul t u13; t = (secp256k1_scalar_sqr ^^ 5) t; t = secp256k1_scalar_mul t x2;
         t = (secp256k1_scalar_sqr ^^ 6) t; t = secp256k1_scalar_mul t u13; t = (secp256k1_scalar_sqr ^^ 10) t;
         t = secp256k1_scalar_mul t u13; t = (secp256k1_scalar_sqr ^^ 4) t; t = secp256k1_scalar_mul t u9;
         t = (secp256k1_scalar_sqr ^^ 6) t; t = secp256k1_scalar_mul t x; t = (secp256k1_scalar_sqr ^^ 8) t
     in secp256k1_scalar_mul t x6)"

definition secp256k1_scalar_is_even :: "secp256k1_scalar \<Rightarrow> bool" where
  "secp256k1_scalar_is_even a \<longleftrightarrow> \<not> (sc0 a AND 1 \<noteq> 0)"

definition secp256k1_scalar_inverse_var :: "secp256k1_scalar \<Rightarrow> secp256k1_scalar" where
  "secp256k1_scalar_inverse_var x = secp256k1_scalar_inverse x"

section \<open>The accumulator\<close>

definition acc_val :: "'c::len acc \<Rightarrow> nat" where
  "acc_val c = unat (fst c) + 2 ^ 64 * unat (fst (snd c)) + 2 ^ 128 * unat (snd (snd c))"

definition acc :: "'c::len acc \<Rightarrow> nat \<Rightarrow> nat \<Rightarrow> bool" where
  "acc c x B \<longleftrightarrow> acc_val c = x \<and> x \<le> B"

named_theorems acc_rules "what each macro adds to the accumulator"

text \<open>Addition with the carry the code recovers by a comparison.\<close>

lemma add_carry: "unat a + unat b = unat (a + b) + 2 ^ 64 * of_bool (a + b < b)" for a b :: u64
proof (cases "unat a + unat b < 2 ^ 64")
  case True
  then have "unat (a + b) = unat a + unat b"
    by (simp add: unat_word_ariths)
  then show ?thesis by (simp add: word_less_nat_alt)
next
  case False
  have "unat a < 2 ^ 64" "unat b < 2 ^ 64"
    using unsigned_less [of a, where 'a = nat] unsigned_less [of b, where 'a = nat] by simp_all
  then have "unat (a + b) = unat a + unat b - 2 ^ 64"
    using False by (simp add: unat_word_ariths mod_if)
  then show ?thesis
    using False \<open>unat a < 2 ^ 64\<close> by (simp add: word_less_nat_alt)
qed

lemma unat_u64_lt: "unat (a :: u64) < 2 ^ 64"
  using unsigned_less [of a, where 'a = nat] by simp

lemma unat_add_of_bool:
  fixes w :: "'a::len word"
  assumes "unat w + of_bool k < 2 ^ LENGTH('a)"
  shows "unat (w + of_bool k) = unat w + of_bool k"
  using assms by (cases k) (simp_all add: unat_word_ariths)

lemma acc_top:
  fixes c2 :: "'c::len word"
  assumes "c0 + 2 ^ 64 * c1 + 2 ^ 128 * (unat c2 + of_bool k) = x" "x \<le> B" "B < 2 ^ (128 + LENGTH('c))"
  shows "unat (c2 + of_bool k) = unat c2 + of_bool k"
proof -
  have "2 ^ 128 * (unat c2 + of_bool k) \<le> x"
    unfolding assms(1) [symmetric] by (rule le_add2)
  also have "x < 2 ^ 128 * 2 ^ LENGTH('c)"
    using assms(2,3) by (simp only: power_add)
  finally have "2 ^ 128 * (unat c2 + of_bool k) < 2 ^ 128 * 2 ^ LENGTH('c)" .
  then have "unat c2 + of_bool k < 2 ^ LENGTH('c)"
    by simp
  then show ?thesis
    by (cases k) (simp_all add: unat_word_ariths)
qed

lemma if_one_zero: "(if b then 1 else 0) = of_bool b"
  by simp

lemma mul_parts:
  fixes a b :: u64
  assumes "bnd a y A" "bnd b z B"
  shows "unat (ucast (ucast a * ucast b :: u128) :: u64) = y * z mod 2 ^ 64"
    "unat (ucast (drop_bit 64 (ucast a * ucast b :: u128)) :: u64) = y * z div 2 ^ 64"
    "y * z div 2 ^ 64 \<le> 2 ^ 64 - 2" "y * z \<le> A * B"
proof -
  have "y < 2 ^ 64" "z < 2 ^ 64"
    using assms unat_u64_lt by (auto simp: bnd_def)
  then have "y \<le> 2 ^ 64 - 1" "z \<le> 2 ^ 64 - 1" by simp_all
  then have le: "y * z \<le> (2 ^ 64 - 1) * (2 ^ 64 - 1)"
    by (rule mult_le_mono)
  have "bnd a y (2 ^ 64 - 1)" "bnd b z (2 ^ 64 - 1)"
    using assms \<open>y \<le> _\<close> \<open>z \<le> _\<close> by (simp_all add: bnd_def)
  then have "bnd (ucast a * ucast b :: u128) (y * z) ((2 ^ 64 - 1) * (2 ^ 64 - 1))"
    by (intro bnd_mult bnd_ucast) simp_all
  then have t: "unat (ucast a * ucast b :: u128) = y * z"
    by (rule bnd_unat)
  show "unat (ucast (ucast a * ucast b :: u128) :: u64) = y * z mod 2 ^ 64"
    by (simp only: unsigned_ucast_eq take_bit_eq_mod t) simp
  have d: "y * z div 2 ^ 64 \<le> (2 ^ 64 - 1) * (2 ^ 64 - 1) div 2 ^ 64"
    using le by (rule div_le_mono)
  then show "y * z div 2 ^ 64 \<le> 2 ^ 64 - 2" by simp
  show "unat (ucast (drop_bit 64 (ucast a * ucast b :: u128)) :: u64) = y * z div 2 ^ 64"
    unfolding unsigned_ucast_eq unat_drop_bit_div t
    using d by (intro take_bit_nat_eq_self) simp
  show "y * z \<le> A * B"
    using assms by (auto simp: bnd_def intro: mult_le_mono)
qed

lemma acc_muladd [acc_rules]:
  fixes c :: "'c::len acc"
  assumes c: "acc c x X" and a: "bnd a y A" and b: "bnd b z B" and le: "X + A * B < 2 ^ (128 + LENGTH('c))"
  shows "acc (muladd a b c) (x + y * z) (X + A * B)"
proof -
  obtain c0 c1 c2 where cc: "c = (c0, c1, c2)" by (cases c)
  define tl th where "tl = (ucast (ucast a * ucast b :: u128) :: u64)"
    and "th = (ucast (drop_bit 64 (ucast a * ucast b :: u128)) :: u64)"
  note p = mul_parts [OF a b, folded tl_def th_def]
  define k1 where "k1 = (c0 + tl < tl)"
  define th' where "th' = th + of_bool k1"
  define k2 where "k2 = (c1 + th' < th')"
  have e: "muladd a b c = (c0 + tl, c1 + th', c2 + of_bool k2)"
    by (simp add: muladd_def cc Let_def tl_def th_def th'_def k1_def k2_def)
  have th': "unat th' = unat th + of_bool k1"
    using p(2,3) by (cases k1) (simp_all add: th'_def unat_word_ariths)
  have "unat c0 + unat tl = unat (c0 + tl) + 2 ^ 64 * of_bool k1"
    "unat c1 + unat th' = unat (c1 + th') + 2 ^ 64 * of_bool k2"
    unfolding k1_def k2_def by (rule add_carry)+
  moreover have "y * z = unat tl + 2 ^ 64 * unat th"
    unfolding p by simp
  moreover have "x = unat c0 + 2 ^ 64 * unat c1 + 2 ^ 128 * unat c2"
    using c by (simp add: acc_def acc_val_def cc)
  ultimately have eq: "unat (c0 + tl) + 2 ^ 64 * unat (c1 + th') + 2 ^ 128 * (unat c2 + of_bool k2) = x + y * z"
    using th' by simp
  have le': "x + y * z \<le> X + A * B"
    using c p(4) by (simp add: acc_def)
  show ?thesis
    using acc_top [OF eq le' le] eq le' unfolding e by (simp add: acc_def acc_val_def)
qed

text \<open>In the fast variants the total stays below 128 bits, so the third word is zero.\<close>

lemma acc_fast_top: "acc c x X \<Longrightarrow> X < 2 ^ 128 \<Longrightarrow> unat (snd (snd c)) = 0"
  by (auto simp: acc_def acc_val_def)

lemma acc_muladd_fast [acc_rules]:
  fixes c :: "'c::len acc"
  assumes c: "acc c x X" and a: "bnd a y A" and b: "bnd b z B" and le: "X + A * B < 2 ^ 128"
  shows "acc (muladd_fast a b c) (x + y * z) (X + A * B)"
proof -
  obtain c0 c1 c2 where cc: "c = (c0, c1, c2)" by (cases c)
  obtain d0 d1 d2 where d: "muladd a b c = (d0, d1, d2)" by (cases "muladd a b c")
  have "X + A * B < 2 ^ (128 + LENGTH('c))"
    using le by (rule less_le_trans) (intro power_increasing, simp_all)
  from acc_muladd [OF c a b this] have m: "acc (muladd a b c) (x + y * z) (X + A * B)" .
  have "unat c2 = 0" "unat d2 = 0"
    using acc_fast_top [OF c] acc_fast_top [OF m le] le by (simp_all add: cc d [unfolded cc])
  moreover have "muladd_fast a b c = (d0, d1, c2)"
    using d by (auto simp: muladd_fast_def muladd_def cc Let_def)
  ultimately show ?thesis
    using m by (simp add: d acc_def acc_val_def)
qed

lemma acc_sumadd [acc_rules]:
  fixes c :: "'c::len acc"
  assumes c: "acc c x X" and a: "bnd a y A" and le: "X + A < 2 ^ (128 + LENGTH('c))"
  shows "acc (sumadd a c) (x + y) (X + A)"
proof -
  obtain c0 c1 c2 where cc: "c = (c0, c1, c2)" by (cases c)
  define k1 where "k1 = (c0 + a < a)"
  define k2 where "k2 = (c1 + of_bool k1 < (of_bool k1 :: u64))"
  have e: "sumadd a c = (c0 + a, c1 + of_bool k1, c2 + of_bool k2)"
    by (simp add: sumadd_def cc Let_def k1_def k2_def if_one_zero)
  have "unat c0 + unat a = unat (c0 + a) + 2 ^ 64 * of_bool k1"
    "unat c1 + unat (of_bool k1 :: u64) = unat (c1 + of_bool k1) + 2 ^ 64 * of_bool k2"
    unfolding k1_def k2_def by (rule add_carry)+
  moreover have "x = unat c0 + 2 ^ 64 * unat c1 + 2 ^ 128 * unat c2" "y = unat a"
    using c a by (simp_all add: acc_def acc_val_def cc bnd_def)
  ultimately have eq: "unat (c0 + a) + 2 ^ 64 * unat (c1 + of_bool k1) + 2 ^ 128 * (unat c2 + of_bool k2) = x + y"
    by (cases k1) simp_all
  have le': "x + y \<le> X + A"
    using c a by (simp add: acc_def bnd_def)
  show ?thesis
    using acc_top [OF eq le' le] eq le' unfolding e by (simp add: acc_def acc_val_def)
qed

lemma acc_sumadd_fast [acc_rules]:
  fixes c :: "'c::len acc"
  assumes c: "acc c x X" and a: "bnd a y A" and le: "X + A < 2 ^ 128"
  shows "acc (sumadd_fast a c) (x + y) (X + A)"
proof -
  obtain c0 c1 c2 where cc: "c = (c0, c1, c2)" by (cases c)
  obtain d0 d1 d2 where d: "sumadd a c = (d0, d1, d2)" by (cases "sumadd a c")
  have "X + A < 2 ^ (128 + LENGTH('c))"
    using le by (rule less_le_trans) (intro power_increasing, simp_all)
  from acc_sumadd [OF c a this] have m: "acc (sumadd a c) (x + y) (X + A)" .
  have "unat c2 = 0" "unat d2 = 0"
    using acc_fast_top [OF c] acc_fast_top [OF m le] le by (simp_all add: cc d [unfolded cc])
  moreover have "sumadd_fast a c = (d0, d1, c2)"
    using d by (auto simp: sumadd_fast_def sumadd_def cc Let_def)
  ultimately show ?thesis
    using m by (simp add: d acc_def acc_val_def)
qed

lemma acc_muladd2 [acc_rules]:
  fixes c :: "'c::len acc"
  assumes c: "acc c x X" and a: "bnd a y A" and b: "bnd b z B" and le: "X + 2 * (A * B) < 2 ^ (128 + LENGTH('c))"
  shows "acc (muladd2 a b c) (x + 2 * (y * z)) (X + 2 * (A * B))"
proof -
  obtain c0 c1 c2 where cc: "c = (c0, c1, c2)" by (cases c)
  define tl th where "tl = (ucast (ucast a * ucast b :: u128) :: u64)"
    and "th = (ucast (drop_bit 64 (ucast a * ucast b :: u128)) :: u64)"
  note p = mul_parts [OF a b, folded tl_def th_def]
  define k0 where "k0 = (th + th < th)"
  define j1 where "j1 = (tl + tl < tl)"
  define th2 where "th2 = th + th + of_bool j1"
  define j2 where "j2 = (c0 + (tl + tl) < tl + tl)"
  define th3 where "th3 = th2 + of_bool j2"
  define k1 where "k1 = (j2 \<and> th3 = 0)"
  define k2 where "k2 = (c1 + th3 < th3)"
  have e: "muladd2 a b c = (c0 + (tl + tl), c1 + th3, c2 + of_bool k0 + of_bool k1 + of_bool k2)"
    by (simp add: muladd2_def cc Let_def tl_def th_def th2_def th3_def k1_def k2_def j1_def j2_def k0_def if_one_zero)
  have th_le: "unat th \<le> 2 ^ 64 - 2"
    using p(2,3) by simp
  have s: "unat th + unat th = unat (th + th) + 2 ^ 64 * of_bool k0"
    "unat tl + unat tl = unat (tl + tl) + 2 ^ 64 * of_bool j1"
    "unat c0 + unat (tl + tl) = unat (c0 + (tl + tl)) + 2 ^ 64 * of_bool j2"
    "unat c1 + unat th3 = unat (c1 + th3) + 2 ^ 64 * of_bool k2"
    unfolding k0_def j1_def j2_def k2_def by (rule add_carry)+
  have "unat (th + th) \<le> 2 ^ 64 - 2"
  proof -
    have "unat (th + th) = (2 * unat th) mod 2 ^ 64"
      unfolding unat_word_ariths by (simp add: mult_2)
    moreover have "even ((2 * unat th) mod 2 ^ 64)"
      by (intro dvd_mod) simp_all
    ultimately have "even (unat (th + th))" by simp
    moreover have "unat (th + th) < 2 ^ 64" by (rule unat_u64_lt)
    ultimately show ?thesis by (auto elim!: evenE)
  qed
  then have th2: "unat th2 = unat (th + th) + of_bool j1"
    by (cases j1) (simp_all add: th2_def unat_word_ariths)
  have th3: "unat th2 + of_bool j2 = unat th3 + 2 ^ 64 * of_bool k1"
    using add_carry [of th2 "of_bool j2"] by (cases j2) (auto simp: th3_def k1_def word_less_1)
  have "y * z = unat tl + 2 ^ 64 * unat th"
    unfolding p by simp
  moreover have "x = unat c0 + 2 ^ 64 * unat c1 + 2 ^ 128 * unat c2"
    using c by (simp add: acc_def acc_val_def cc)
  ultimately have eq: "unat (c0 + (tl + tl)) + 2 ^ 64 * unat (c1 + th3)
      + 2 ^ 128 * (unat c2 + of_bool k0 + of_bool k1 + of_bool k2) = x + 2 * (y * z)"
    using s th2 th3 by simp
  have le': "x + 2 * (y * z) \<le> X + 2 * (A * B)"
    using c p(4) by (simp add: acc_def)
  have "2 ^ 128 * (unat c2 + of_bool k0 + of_bool k1 + of_bool k2) \<le> x + 2 * (y * z)"
    unfolding eq [symmetric] by (rule le_add2)
  also have "\<dots> < 2 ^ 128 * 2 ^ LENGTH('c)"
    using le' le by (simp only: power_add)
  finally have "unat c2 + of_bool k0 + of_bool k1 + of_bool k2 < 2 ^ LENGTH('c)" by simp
  then have "unat (c2 + of_bool k0 + of_bool k1 + of_bool k2) = unat c2 + of_bool k0 + of_bool k1 + of_bool k2"
    by (simp add: unat_add_of_bool)
  then show ?thesis
    using eq le' unfolding e by (simp add: acc_def acc_val_def)
qed

lemma acc_init [acc_rules]: "bnd w x X \<Longrightarrow> acc (w, 0, 0) x X"
  by (simp add: acc_def acc_val_def bnd_def)

lemma let_acc:
  assumes "acc t x A" and "A = B"
    and P: "\<And>w v. v = x \<Longrightarrow> acc w v B \<Longrightarrow> P (f w)"
  shows "P (Let t f)"
  using P [OF refl, of t] assms(1,2) by (simp add: Let_def)

lemma radix_div_mod: "p < M \<Longrightarrow> (p + M * q) mod M = p \<and> (p + M * q) div M = q" for p q M :: nat
  by simp

lemma let_extract_fast:
  assumes c: "acc c x A" and "A < 2 ^ 128" and B: "A div 2 ^ 64 = B"
    and P: "\<And>n w u v. u = x mod 2 ^ 64 \<Longrightarrow> bnd n u 0xFFFFFFFFFFFFFFFF \<Longrightarrow> v = x div 2 ^ 64 \<Longrightarrow> acc w v B \<Longrightarrow> P (f n w)"
  shows "P (let (n, w) = extract_fast c in f n w)"
proof -
  obtain c0 c1 c2 where cc: "c = (c0, c1, c2)" by (cases c)
  have "unat c2 = 0"
    using acc_fast_top [OF c assms(2)] by (simp add: cc)
  then have x: "x = unat c0 + 2 ^ 64 * unat c1" "c2 = 0"
    using c by (simp_all add: acc_def acc_val_def cc unat_eq_0)
  have "x mod 2 ^ 64 = unat c0" "x div 2 ^ 64 = unat c1"
    unfolding x using unat_u64_lt [of c0] by simp_all
  moreover have "x div 2 ^ 64 \<le> B"
    using c unfolding B [symmetric] acc_def by (intro div_le_mono) simp
  ultimately have "P (f c0 (c1, 0, 0))"
    using unat_u64_lt [of c0] by (intro P [where u = "unat c0" and v = "unat c1"]) (simp_all add: bnd_def acc_def acc_val_def)
  then show ?thesis
    by (simp add: cc extract_fast_def x)
qed

lemma let_extract:
  fixes c :: "'c::len acc"
  assumes c: "acc c x A" and len: "LENGTH('c) \<le> 64" and B: "A div 2 ^ 64 = B"
    and P: "\<And>n w u v. u = x mod 2 ^ 64 \<Longrightarrow> bnd n u 0xFFFFFFFFFFFFFFFF \<Longrightarrow> v = x div 2 ^ 64 \<Longrightarrow> acc w v B \<Longrightarrow> P (f n w)"
  shows "P (let (n, w) = extract_word c in f n w)"
proof -
  obtain c0 c1 c2 where cc: "c = (c0, c1, c2)" by (cases c)
  have u: "unat (ucast c2 :: u64) = unat c2"
  proof -
    have "unat c2 < 2 ^ LENGTH('c)" by (rule unsigned_less)
    also have "\<dots> \<le> 2 ^ 64" using len by (intro power_increasing) simp_all
    finally show ?thesis by (simp add: unsigned_ucast_eq take_bit_nat_eq_self)
  qed
  have x: "x = unat c0 + 2 ^ 64 * (unat c1 + 2 ^ 64 * unat c2)"
    using c by (simp add: acc_def acc_val_def cc)
  have "x mod 2 ^ 64 = unat c0" "x div 2 ^ 64 = unat c1 + 2 ^ 64 * unat c2"
    unfolding x using radix_div_mod [OF unat_u64_lt [of c0]] by blast+
  moreover have "x div 2 ^ 64 \<le> B"
    using c unfolding B [symmetric] acc_def by (intro div_le_mono) simp
  ultimately have "P (f c0 (c1, ucast c2, 0))"
    using unat_u64_lt [of c0] u
    by (intro P [where u = "unat c0" and v = "unat c1 + 2 ^ 64 * unat c2"]) (simp_all add: bnd_def acc_def acc_val_def)
  then show ?thesis
    by (simp add: cc extract_word_def)
qed

lemma columns8:
  fixes p0 :: nat
  assumes "p0 = r0 + 2 ^ 64 * q0" "q0 + p1 = r1 + 2 ^ 64 * q1" "q1 + p2 = r2 + 2 ^ 64 * q2" "q2 + p3 = r3 + 2 ^ 64 * q3" "q3 + p4 = r4 + 2 ^ 64 * q4" "q4 + p5 = r5 + 2 ^ 64 * q5" "q5 + p6 = r6 + 2 ^ 64 * q6"
  shows "r0 + 2 ^ 64 * r1 + 2 ^ 128 * r2 + 2 ^ 192 * r3 + 2 ^ 256 * r4 + 2 ^ 320 * r5 + 2 ^ 384 * r6 + 2 ^ 448 * q6 =
    2 ^ 0 * p0 + 2 ^ 64 * p1 + 2 ^ 128 * p2 + 2 ^ 192 * p3 + 2 ^ 256 * p4 + 2 ^ 320 * p5 + 2 ^ 384 * p6"
  using assms by simp

lemma mul512_exec:
  fixes z :: nat
  assumes "r7 = q6" "q6 = s6 div 2 ^ 64" "r6 = s6 mod 2 ^ 64" "s6 = q5 + a3 * b3" "q5 = s5 div 2 ^ 64" 
    "r5 = s5 mod 2 ^ 64" "s5 = t5_1 + a3 * b2" "t5_1 = q4 + a2 * b3" "q4 = s4 div 2 ^ 64" 
    "r4 = s4 mod 2 ^ 64" "s4 = t4_2 + a3 * b1" "t4_2 = t4_1 + a2 * b2" "t4_1 = q3 + a1 * b3" 
    "q3 = s3 div 2 ^ 64" "r3 = s3 mod 2 ^ 64" "s3 = t3_3 + a3 * b0" "t3_3 = t3_2 + a2 * b1" 
    "t3_2 = t3_1 + a1 * b2" "t3_1 = q2 + a0 * b3" "q2 = s2 div 2 ^ 64" "r2 = s2 mod 2 ^ 64" 
    "s2 = t2_2 + a2 * b0" "t2_2 = t2_1 + a1 * b1" "t2_1 = q1 + a0 * b2" "q1 = s1 div 2 ^ 64" 
    "r1 = s1 mod 2 ^ 64" "s1 = t1_1 + a1 * b0" "t1_1 = q0 + a0 * b1" "q0 = s0 div 2 ^ 64" 
    "r0 = s0 mod 2 ^ 64" "s0 = z + a0 * b0" "z = 0" 
  shows "r0 + 2 ^ 64 * r1 + 2 ^ 128 * r2 + 2 ^ 192 * r3 + 2 ^ 256 * r4 + 2 ^ 320 * r5 + 2 ^ 384 * r6 + 2 ^ 448 * r7 =
    (a0 + 2 ^ 64 * a1 + 2 ^ 128 * a2 + 2 ^ 192 * a3) * (b0 + 2 ^ 64 * b1 + 2 ^ 128 * b2 + 2 ^ 192 * b3)"
proof -
  have s: "s0 = r0 + 2 ^ 64 * q0"
    "s1 = r1 + 2 ^ 64 * q1"
    "s2 = r2 + 2 ^ 64 * q2"
    "s3 = r3 + 2 ^ 64 * q3"
    "s4 = r4 + 2 ^ 64 * q4"
    "s5 = r5 + 2 ^ 64 * q5"
    "s6 = r6 + 2 ^ 64 * q6"
    unfolding assms(2,3,5,6,9,10,14,15,20,21,25,26,29,30) by simp_all
  have "(a0 * b0) = r0 + 2 ^ 64 * q0"
    "q0 + (a0 * b1 + a1 * b0) = r1 + 2 ^ 64 * q1"
    "q1 + (a0 * b2 + a1 * b1 + a2 * b0) = r2 + 2 ^ 64 * q2"
    "q2 + (a0 * b3 + a1 * b2 + a2 * b1 + a3 * b0) = r3 + 2 ^ 64 * q3"
    "q3 + (a1 * b3 + a2 * b2 + a3 * b1) = r4 + 2 ^ 64 * q4"
    "q4 + (a2 * b3 + a3 * b2) = r5 + 2 ^ 64 * q5"
    "q5 + (a3 * b3) = r6 + 2 ^ 64 * q6"
    unfolding s [symmetric] using assms(1,4,7,8,11,12,13,16,17,18,19,22,23,24,27,28,31,32) by simp_all
  from columns8 [OF this]
  have "r0 + 2 ^ 64 * r1 + 2 ^ 128 * r2 + 2 ^ 192 * r3 + 2 ^ 256 * r4 + 2 ^ 320 * r5 + 2 ^ 384 * r6 + 2 ^ 448 * r7 =
    2 ^ 0 * (a0 * b0) + 2 ^ 64 * (a0 * b1 + a1 * b0) + 2 ^ 128 * (a0 * b2 + a1 * b1 + a2 * b0) + 2 ^ 192 * (a0 * b3 + a1 * b2 + a2 * b1 + a3 * b0) + 2 ^ 256 * (a1 * b3 + a2 * b2 + a3 * b1) + 2 ^ 320 * (a2 * b3 + a3 * b2) + 2 ^ 384 * (a3 * b3)"
    unfolding assms(1) .
  then show ?thesis
    by (simp add: algebra_simps)
qed

lemma sqr512_exec:
  fixes z :: nat
  assumes "r7 = q6" "q6 = s6 div 2 ^ 64" "r6 = s6 mod 2 ^ 64" "s6 = q5 + a3 * a3" "q5 = s5 div 2 ^ 64" 
    "r5 = s5 mod 2 ^ 64" "s5 = q4 + 2 * (a2 * a3)" "q4 = s4 div 2 ^ 64" "r4 = s4 mod 2 ^ 64" 
    "s4 = t4_1 + a2 * a2" "t4_1 = q3 + 2 * (a1 * a3)" "q3 = s3 div 2 ^ 64" "r3 = s3 mod 2 ^ 64" 
    "s3 = t3_1 + 2 * (a1 * a2)" "t3_1 = q2 + 2 * (a0 * a3)" "q2 = s2 div 2 ^ 64" "r2 = s2 mod 2 ^ 64" 
    "s2 = t2_1 + a1 * a1" "t2_1 = q1 + 2 * (a0 * a2)" "q1 = s1 div 2 ^ 64" "r1 = s1 mod 2 ^ 64" 
    "s1 = q0 + 2 * (a0 * a1)" "q0 = s0 div 2 ^ 64" "r0 = s0 mod 2 ^ 64" "s0 = z + a0 * a0" "z = 0" 
  shows "r0 + 2 ^ 64 * r1 + 2 ^ 128 * r2 + 2 ^ 192 * r3 + 2 ^ 256 * r4 + 2 ^ 320 * r5 + 2 ^ 384 * r6 + 2 ^ 448 * r7 =
    (a0 + 2 ^ 64 * a1 + 2 ^ 128 * a2 + 2 ^ 192 * a3) * (a0 + 2 ^ 64 * a1 + 2 ^ 128 * a2 + 2 ^ 192 * a3)"
proof -
  have s: "s0 = r0 + 2 ^ 64 * q0"
    "s1 = r1 + 2 ^ 64 * q1"
    "s2 = r2 + 2 ^ 64 * q2"
    "s3 = r3 + 2 ^ 64 * q3"
    "s4 = r4 + 2 ^ 64 * q4"
    "s5 = r5 + 2 ^ 64 * q5"
    "s6 = r6 + 2 ^ 64 * q6"
    unfolding assms(2,3,5,6,8,9,12,13,16,17,20,21,23,24) by simp_all
  have "(a0 * a0) = r0 + 2 ^ 64 * q0"
    "q0 + (2 * (a0 * a1)) = r1 + 2 ^ 64 * q1"
    "q1 + (2 * (a0 * a2) + a1 * a1) = r2 + 2 ^ 64 * q2"
    "q2 + (2 * (a0 * a3) + 2 * (a1 * a2)) = r3 + 2 ^ 64 * q3"
    "q3 + (2 * (a1 * a3) + a2 * a2) = r4 + 2 ^ 64 * q4"
    "q4 + (2 * (a2 * a3)) = r5 + 2 ^ 64 * q5"
    "q5 + (a3 * a3) = r6 + 2 ^ 64 * q6"
    unfolding s [symmetric] using assms(1,4,7,10,11,14,15,18,19,22,25,26) by simp_all
  from columns8 [OF this]
  have "r0 + 2 ^ 64 * r1 + 2 ^ 128 * r2 + 2 ^ 192 * r3 + 2 ^ 256 * r4 + 2 ^ 320 * r5 + 2 ^ 384 * r6 + 2 ^ 448 * r7 =
    2 ^ 0 * (a0 * a0) + 2 ^ 64 * (2 * (a0 * a1)) + 2 ^ 128 * (2 * (a0 * a2) + a1 * a1) + 2 ^ 192 * (2 * (a0 * a3) + 2 * (a1 * a2)) + 2 ^ 256 * (2 * (a1 * a3) + a2 * a2) + 2 ^ 320 * (2 * (a2 * a3)) + 2 ^ 384 * (a3 * a3)"
    unfolding assms(1) .
  then show ?thesis
    by (simp add: algebra_simps)
qed

lemma bnd_u64: "bnd (w :: u64) (unat w) 0xFFFFFFFFFFFFFFFF"
  using unat_u64_lt [of w] by (simp add: bnd_def)

lemma acc_fst [bnd_rules]: "acc c x X \<Longrightarrow> X < 2 ^ 64 \<Longrightarrow> bnd (fst c) x X"
  by (auto simp: acc_def acc_val_def bnd_def)

text \<open>The value of the eight words of a product.\<close>

definition l8_is :: "nat \<Rightarrow> u64 list \<Rightarrow> bool" where
  "l8_is x l \<longleftrightarrow> length l = 8 \<and> x = unat (l ! 0) + 2 ^ 64 * unat (l ! 1) + 2 ^ 128 * unat (l ! 2) + 2 ^ 192 * unat (l ! 3)
     + 2 ^ 256 * unat (l ! 4) + 2 ^ 320 * unat (l ! 5) + 2 ^ 384 * unat (l ! 6) + 2 ^ 448 * unat (l ! 7)"

lemma l8_isI:
  assumes "bnd l0 v0 B0" "bnd l1 v1 B1" "bnd l2 v2 B2" "bnd l3 v3 B3"
    "bnd l4 v4 B4" "bnd l5 v5 B5" "bnd l6 v6 B6" "bnd l7 v7 B7"
    and "v0 + 2 ^ 64 * v1 + 2 ^ 128 * v2 + 2 ^ 192 * v3 + 2 ^ 256 * v4 + 2 ^ 320 * v5 + 2 ^ 384 * v6 + 2 ^ 448 * v7 = x"
  shows "l8_is x [l0, l1, l2, l3, l4, l5, l6, l7]"
  using assms unfolding l8_is_def bnd_def by simp

lemma mul_512_is: "l8_is (sc_val a * sc_val b) (secp256k1_scalar_mul_512 a b)" (is "l8_is ?x _")
  unfolding secp256k1_scalar_mul_512_def
  apply ((rule let_extract_fast [where P = "l8_is ?x"] let_extract [where P = "l8_is ?x"], assumption, simp (no_asm), simp (no_asm))
     | (rule let_acc [where P = "l8_is ?x"] let_bnd [where P = "l8_is ?x"],
      ((assumption | rule acc_rules bnd_rules bnd_u64 | simp (no_asm))+)[1], (simp (no_asm))[1]))+
  apply (rule l8_isI, assumption+)
  apply (unfold sc_val_def)
  apply (rule mul512_exec, assumption+)
  done

lemma sqr_512_is: "l8_is (sc_val a * sc_val a) (secp256k1_scalar_sqr_512 a)" (is "l8_is ?x _")
  unfolding secp256k1_scalar_sqr_512_def
  apply ((rule let_extract_fast [where P = "l8_is ?x"] let_extract [where P = "l8_is ?x"], assumption, simp (no_asm), simp (no_asm))
     | (rule let_acc [where P = "l8_is ?x"] let_bnd [where P = "l8_is ?x"],
      ((assumption | rule acc_rules bnd_rules bnd_u64 | simp (no_asm))+)[1], (simp (no_asm))[1]))+
  apply (rule l8_isI, assumption+)
  apply (unfold sc_val_def)
  apply (rule sqr512_exec, assumption+)
  done


text \<open>
  The words the reduction leaves, last assignment first: the result and its carry differ from
  the input by a multiple of the order.
\<close>

lemma reduce512_exec:
  fixes l0 :: nat
  assumes "c = f3 div 2 ^ 64" "d3 = f3 mod 0x10000000000000000" "f3 = g2 + p3" "g2 = f2 div 2 ^ 64" 
    "d2 = f2 mod 0x10000000000000000" "f2 = g1 + (p2 + p4)" "g1 = f1 div 2 ^ 64" 
    "d1 = f1 mod 0x10000000000000000" "f1 = g0 + (p1 + 0x4551231950B75FC4 * p4)" "g0 = f0 div 2 ^ 64" 
    "d0 = f0 mod 0x10000000000000000" "f0 = p0 + 0x402DA1732FC9BEBF * p4" "p4 = q3 + m6" 
    "q3 = s3 div 2 ^ 64" "p3 = s3 mod 2 ^ 64" "s3 = st3_2 + m5" 
    "st3_2 = st3_1 + m6 * 0x4551231950B75FC4" "st3_1 = q2 + m3" "q2 = s2 div 2 ^ 64" 
    "p2 = s2 mod 2 ^ 64" "s2 = st2_3 + m4" "st2_3 = st2_2 + m5 * 0x4551231950B75FC4" 
    "st2_2 = st2_1 + m6 * 0x402DA1732FC9BEBF" "st2_1 = q1 + m2" "q1 = s1 div 2 ^ 64" 
    "p1 = s1 mod 2 ^ 64" "s1 = st1_2 + m4 * 0x4551231950B75FC4" 
    "st1_2 = st1_1 + m5 * 0x402DA1732FC9BEBF" "st1_1 = q0 + m1" "q0 = s0 div 2 ^ 64" 
    "p0 = s0 mod 2 ^ 64" "s0 = z + m4 * 0x402DA1732FC9BEBF" "z = m0" "m6 = w5" "w5 = v5 div 2 ^ 64" 
    "m5 = v5 mod 2 ^ 64" "v5 = w4 + n3" "w4 = v4 div 2 ^ 64" "m4 = v4 mod 2 ^ 64" "v4 = vt4_1 + n2" 
    "vt4_1 = w3 + n3 * 0x4551231950B75FC4" "w3 = v3 div 2 ^ 64" "m3 = v3 mod 2 ^ 64" 
    "v3 = vt3_3 + n1" "vt3_3 = vt3_2 + n2 * 0x4551231950B75FC4" 
    "vt3_2 = vt3_1 + n3 * 0x402DA1732FC9BEBF" "vt3_1 = w2 + l3" "w2 = v2 div 2 ^ 64" 
    "m2 = v2 mod 2 ^ 64" "v2 = vt2_3 + n0" "vt2_3 = vt2_2 + n1 * 0x4551231950B75FC4" 
    "vt2_2 = vt2_1 + n2 * 0x402DA1732FC9BEBF" "vt2_1 = w1 + l2" "w1 = v1 div 2 ^ 64" 
    "m1 = v1 mod 2 ^ 64" "v1 = vt1_2 + n0 * 0x4551231950B75FC4" 
    "vt1_2 = vt1_1 + n1 * 0x402DA1732FC9BEBF" "vt1_1 = w0 + l1" "w0 = v0 div 2 ^ 64" 
    "m0 = v0 mod 2 ^ 64" "v0 = y + n0 * 0x402DA1732FC9BEBF" "y = l0" 
    and l: "l0 = unat (l ! 0)" "l1 = unat (l ! 1)" "l2 = unat (l ! 2)" "l3 = unat (l ! 3)"
      "n0 = unat (l ! 4)" "n1 = unat (l ! 5)" "n2 = unat (l ! 6)" "n3 = unat (l ! 7)"
    and X: "l8_is X l"
    and p: "bnd x0 p0 0xFFFFFFFFFFFFFFFF" "bnd x1 p1 0xFFFFFFFFFFFFFFFF" "bnd x2 p2 0xFFFFFFFFFFFFFFFF"
      "bnd x3 p3 0xFFFFFFFFFFFFFFFF" "bnd x4 p4 3"
  shows "X mod order_n = (d0 + 2 ^ 64 * d1 + 2 ^ 128 * d2 + 2 ^ 192 * d3 + 2 ^ 256 * c) mod order_n \<and>
    d0 + 2 ^ 64 * d1 + 2 ^ 128 * d2 + 2 ^ 192 * d3 + 2 ^ 256 * c < 2 * order_n"
proof -
  have v: "v0 = m0 + 2 ^ 64 * w0"
    "v1 = m1 + 2 ^ 64 * w1"
    "v2 = m2 + 2 ^ 64 * w2"
    "v3 = m3 + 2 ^ 64 * w3"
    "v4 = m4 + 2 ^ 64 * w4"
    "v5 = m5 + 2 ^ 64 * w5"
    unfolding assms(35,36,38,39,42,43,48,49,54,55,59,60) by simp_all
  have v': "l0 + n0 * 0x402DA1732FC9BEBF = m0 + 2 ^ 64 * w0"
    "w0 + l1 + n1 * 0x402DA1732FC9BEBF + n0 * 0x4551231950B75FC4 = m1 + 2 ^ 64 * w1"
    "w1 + l2 + n2 * 0x402DA1732FC9BEBF + n1 * 0x4551231950B75FC4 + n0 = m2 + 2 ^ 64 * w2"
    "w2 + l3 + n3 * 0x402DA1732FC9BEBF + n2 * 0x4551231950B75FC4 + n1 = m3 + 2 ^ 64 * w3"
    "w3 + n3 * 0x4551231950B75FC4 + n2 = m4 + 2 ^ 64 * w4"
    "w4 + n3 = m5 + 2 ^ 64 * w5"
    unfolding v [symmetric] using assms(37,40,41,44,45,46,47,50,51,52,53,56,57,58,61,62) by simp_all
  have s: "s0 = p0 + 2 ^ 64 * q0"
    "s1 = p1 + 2 ^ 64 * q1"
    "s2 = p2 + 2 ^ 64 * q2"
    "s3 = p3 + 2 ^ 64 * q3"
    unfolding assms(14,15,19,20,25,26,30,31) by simp_all
  have s': "m0 + m4 * 0x402DA1732FC9BEBF = p0 + 2 ^ 64 * q0"
    "q0 + m1 + m5 * 0x402DA1732FC9BEBF + m4 * 0x4551231950B75FC4 = p1 + 2 ^ 64 * q1"
    "q1 + m2 + m6 * 0x402DA1732FC9BEBF + m5 * 0x4551231950B75FC4 + m4 = p2 + 2 ^ 64 * q2"
    "q2 + m3 + m6 * 0x4551231950B75FC4 + m5 = p3 + 2 ^ 64 * q3"
    unfolding s [symmetric] using assms(16,17,18,21,22,23,24,27,28,29,32,33) by simp_all
  have f: "f0 = d0 + 2 ^ 64 * g0" "f1 = d1 + 2 ^ 64 * g1" "f2 = d2 + 2 ^ 64 * g2" "f3 = d3 + 2 ^ 64 * c"
    unfolding assms(1,2,4,5,7,8,10,11) by simp_all
  have f': "p0 + 0x402DA1732FC9BEBF * p4 = d0 + 2 ^ 64 * g0" "g0 + (p1 + 0x4551231950B75FC4 * p4) = d1 + 2 ^ 64 * g1"
    "g1 + (p2 + p4) = d2 + 2 ^ 64 * g2" "g2 + p3 = d3 + 2 ^ 64 * c"
    unfolding f [symmetric] using assms(3,6,9,12) by simp_all
  have "l0 + 2 ^ 64 * l1 + 2 ^ 128 * l2 + 2 ^ 192 * l3 + 2 ^ 256 * n0 + 2 ^ 320 * n1 + 2 ^ 384 * n2 + 2 ^ 448 * n3 =
    m0 + 2 ^ 64 * m1 + 2 ^ 128 * m2 + 2 ^ 192 * m3 + 2 ^ 256 * m4 + 2 ^ 320 * m5 + 2 ^ 384 * m6 +
    order_n * (n0 + 2 ^ 64 * n1 + 2 ^ 128 * n2 + 2 ^ 192 * n3)"
    using v' assms(34) unfolding order_n_def by simp
  moreover have "m0 + 2 ^ 64 * m1 + 2 ^ 128 * m2 + 2 ^ 192 * m3 + 2 ^ 256 * m4 + 2 ^ 320 * m5 + 2 ^ 384 * m6 =
    p0 + 2 ^ 64 * p1 + 2 ^ 128 * p2 + 2 ^ 192 * p3 + 2 ^ 256 * p4 + order_n * (m4 + 2 ^ 64 * m5 + 2 ^ 128 * m6)"
    using s' assms(13) unfolding order_n_def by simp
  moreover have "p0 + 2 ^ 64 * p1 + 2 ^ 128 * p2 + 2 ^ 192 * p3 + 2 ^ 256 * p4 =
    d0 + 2 ^ 64 * d1 + 2 ^ 128 * d2 + 2 ^ 192 * d3 + 2 ^ 256 * c + order_n * p4"
    using f' unfolding order_n_def by simp
  ultimately have "X = (d0 + 2 ^ 64 * d1 + 2 ^ 128 * d2 + 2 ^ 192 * d3 + 2 ^ 256 * c) + order_n *
      ((n0 + 2 ^ 64 * n1 + 2 ^ 128 * n2 + 2 ^ 192 * n3) + (m4 + 2 ^ 64 * m5 + 2 ^ 128 * m6) + p4)"
    using X unfolding l8_is_def l [symmetric] by (simp only: distrib_left add.assoc)
  then have "X mod order_n = (d0 + 2 ^ 64 * d1 + 2 ^ 128 * d2 + 2 ^ 192 * d3 + 2 ^ 256 * c) mod order_n"
    by (simp only: mod_mult_self2)
  moreover have "d0 + 2 ^ 64 * d1 + 2 ^ 128 * d2 + 2 ^ 192 * d3 + 2 ^ 256 * c < 2 * order_n"
    using f' p [THEN bnd_le] unfolding order_n_def by simp
  ultimately show ?thesis ..
qed

section \<open>Reduction\<close>

lemma SECP256K1_N_unat:
  "unat SECP256K1_N_0 = 0xBFD25E8CD0364141" "unat SECP256K1_N_1 = 0xBAAEDCE6AF48A03B"
  "unat SECP256K1_N_2 = 0xFFFFFFFFFFFFFFFE" "unat SECP256K1_N_3 = 0xFFFFFFFFFFFFFFFF"
  by (simp_all add: SECP256K1_N_0_def SECP256K1_N_1_def SECP256K1_N_2_def SECP256K1_N_3_def)

lemma SECP256K1_N_C_num: "SECP256K1_N_C_0 = 0x402DA1732FC9BEBF" "SECP256K1_N_C_1 = 0x4551231950B75FC4" "SECP256K1_N_C_2 = 1"
  by (simp_all add: SECP256K1_N_C_0_def SECP256K1_N_C_1_def SECP256K1_N_C_2_def SECP256K1_N_0_def SECP256K1_N_1_def)

lemma bnd_N_C [bnd_rules]:
  "bnd SECP256K1_N_C_0 0x402DA1732FC9BEBF 0x402DA1732FC9BEBF"
  "bnd SECP256K1_N_C_1 0x4551231950B75FC4 0x4551231950B75FC4" "bnd SECP256K1_N_C_2 1 1"
  unfolding SECP256K1_N_C_num by (rule bnd_rules | simp)+

lemma sc_val_lt: "sc_val a < 2 ^ 256"
  using unat_u64_lt [of "sc0 a"] unat_u64_lt [of "sc1 a"] unat_u64_lt [of "sc2 a"] unat_u64_lt [of "sc3 a"]
  by (simp add: sc_val_def)

lemma secp256k1_scalar_check_overflow_iff: "secp256k1_scalar_check_overflow a \<longleftrightarrow> order_n \<le> sc_val a"
  using unat_u64_lt [of "sc0 a"] unat_u64_lt [of "sc1 a"] unat_u64_lt [of "sc2 a"] unat_u64_lt [of "sc3 a"]
  unfolding secp256k1_scalar_check_overflow_def sc_val_def order_n_def Let_def
  by (auto simp: word_less_nat_alt word_le_nat_alt SECP256K1_N_unat not_less not_le)

definition sc_red_post :: "nat \<Rightarrow> secp256k1_scalar \<Rightarrow> bool" where
  "sc_red_post V r \<longleftrightarrow> sc_val r = V mod 2 ^ 256"

lemma sc_red_postI:
  assumes "bnd r0 v0 0xFFFFFFFFFFFFFFFF" "bnd r1 v1 0xFFFFFFFFFFFFFFFF" "bnd r2 v2 0xFFFFFFFFFFFFFFFF"
    "bnd r3 v3 0xFFFFFFFFFFFFFFFF"
    and "v3 = u3 mod 0x10000000000000000" "u3 = t2 + a3"
      "t2 = u2 div 2 ^ 64" "v2 = u2 mod 0x10000000000000000" "u2 = t1 + a2"
      "t1 = u1 div 2 ^ 64" "v1 = u1 mod 0x10000000000000000" "u1 = t0 + a1"
      "t0 = u0 div 2 ^ 64" "v0 = u0 mod 0x10000000000000000" "u0 = a0"
    and V: "a0 + 2 ^ 64 * a1 + 2 ^ 128 * a2 + 2 ^ 192 * a3 = V"
  shows "sc_red_post V \<lparr>sc0 = r0, sc1 = r1, sc2 = r2, sc3 = r3\<rparr>"
proof -
  have e: "u0 = v0 + 2 ^ 64 * t0" "u1 = v1 + 2 ^ 64 * t1" "u2 = v2 + 2 ^ 64 * t2" "u3 = v3 + 2 ^ 64 * (u3 div 2 ^ 64)"
    unfolding assms(5,7,8,10,11,13,14) by simp_all
  have "a0 = v0 + 2 ^ 64 * t0" "t0 + a1 = v1 + 2 ^ 64 * t1" "t1 + a2 = v2 + 2 ^ 64 * t2"
      "t2 + a3 = v3 + 2 ^ 64 * (u3 div 2 ^ 64)"
    using e assms(6,9,12,15) by simp_all
  then have "V = v0 + 2 ^ 64 * v1 + 2 ^ 128 * v2 + 2 ^ 192 * v3 + 2 ^ 256 * (u3 div 2 ^ 64)"
    unfolding V [symmetric] by simp
  moreover have "unat r0 = v0" "unat r1 = v1" "unat r2 = v2" "unat r3 = v3"
    using assms(1-4) by (simp_all add: bnd_def)
  ultimately have "V = sc_val \<lparr>sc0 = r0, sc1 = r1, sc2 = r2, sc3 = r3\<rparr> + 2 ^ 256 * (u3 div 2 ^ 64)"
    by (simp add: sc_val_def)
  then have "V mod 2 ^ 256 = sc_val \<lparr>sc0 = r0, sc1 = r1, sc2 = r2, sc3 = r3\<rparr>"
    using radix_div_mod [OF sc_val_lt] by simp
  then show ?thesis by (simp add: sc_red_post_def)
qed

lemma secp256k1_scalar_reduce_post:
  assumes k: "bnd ov k 1"
  shows "sc_red_post (sc_val r + k * (2 ^ 256 - order_n)) (secp256k1_scalar_reduce r ov)" (is "?P (secp256k1_scalar_reduce r ov)")
  unfolding secp256k1_scalar_reduce_def
  apply ((rule let_bnd [where P = "?P"], ((assumption | rule k bnd_rules bnd_u64 | simp (no_asm))+)[1], (simp (no_asm))[1])+)
  apply (rule sc_red_postI, assumption+)
  apply (simp (no_asm) add: sc_val_def order_n_def)
  done


lemma sc_final_reduction:
  assumes V: "sc_val r + 2 ^ 256 * k < 2 * order_n" and ov: "bnd ov (k + of_bool (order_n \<le> sc_val r)) B"
  shows "sc_val (secp256k1_scalar_reduce r ov) = (sc_val r + 2 ^ 256 * k) mod order_n"
    and "unat ov = of_bool (order_n \<le> sc_val r + 2 ^ 256 * k)"
proof -
  have n: "order_n < 2 ^ 256" "2 * order_n < 2 * 2 ^ 256"
    by (simp_all add: order_n_def)
  then have "2 ^ 256 * k < 2 ^ 256 * 2"
    using V by simp
  then have k: "k = 0 \<or> k = 1" by auto
  have one: "k = 1 \<Longrightarrow> sc_val r < order_n"
    using V by (simp add: order_n_def)
  then have o: "unat ov = of_bool (order_n \<le> sc_val r + 2 ^ 256 * k)"
    using ov k n by (auto simp: bnd_def)
  then have "bnd ov (of_bool (order_n \<le> sc_val r + 2 ^ 256 * k)) 1"
    by (simp add: bnd_def)
  from secp256k1_scalar_reduce_post [OF this, of r]
  have r: "sc_val (secp256k1_scalar_reduce r ov) =
      (sc_val r + of_bool (order_n \<le> sc_val r + 2 ^ 256 * k) * (2 ^ 256 - order_n)) mod 2 ^ 256"
    by (simp add: sc_red_post_def)
  have "sc_val (secp256k1_scalar_reduce r ov) = (sc_val r + 2 ^ 256 * k) mod order_n"
  proof (cases "order_n \<le> sc_val r + 2 ^ 256 * k")
    case False
    then have "k = 0" using k n by auto
    then show ?thesis using False r sc_val_lt [of r] by simp
  next
    case True
    then obtain d where d: "sc_val r + 2 ^ 256 * k = order_n + d"
      using le_Suc_ex by blast
    have d_lt: "d < order_n" using d V by simp
    have "sc_val r + (2 ^ 256 - order_n) = d + 2 ^ 256 * (1 - k)"
      using d k n by auto
    then have "sc_val (secp256k1_scalar_reduce r ov) = d"
      using r True d_lt n by simp
    then show ?thesis using d d_lt by simp
  qed
  then show "sc_val (secp256k1_scalar_reduce r ov) = (sc_val r + 2 ^ 256 * k) mod order_n"
    "unat ov = of_bool (order_n \<le> sc_val r + 2 ^ 256 * k)"
    using o by simp_all
qed

lemma sc_reduce_512_last:
  assumes d: "bnd d0 v0 0xFFFFFFFFFFFFFFFF" "bnd d1 v1 0xFFFFFFFFFFFFFFFF" "bnd d2 v2 0xFFFFFFFFFFFFFFFF"
      "bnd d3 v3 0xFFFFFFFFFFFFFFFF" "bnd (c :: u128) k (Suc 0)"
    and R: "X mod order_n = (v0 + 2 ^ 64 * v1 + 2 ^ 128 * v2 + 2 ^ 192 * v3 + 2 ^ 256 * k) mod order_n \<and>
      v0 + 2 ^ 64 * v1 + 2 ^ 128 * v2 + 2 ^ 192 * v3 + 2 ^ 256 * k < 2 * order_n"
  shows "sc_val (secp256k1_scalar_reduce \<lparr>sc0 = d0, sc1 = d1, sc2 = d2, sc3 = d3\<rparr>
      (ucast (c + of_bool (secp256k1_scalar_check_overflow \<lparr>sc0 = d0, sc1 = d1, sc2 = d2, sc3 = d3\<rparr>)) :: u32)) = X mod order_n"
proof -
  let ?r = "\<lparr>sc0 = d0, sc1 = d1, sc2 = d2, sc3 = d3\<rparr>"
  have r: "sc_val ?r = v0 + 2 ^ 64 * v1 + 2 ^ 128 * v2 + 2 ^ 192 * v3"
    using d by (simp add: sc_val_def bnd_def)
  have "bnd (ucast (c + of_bool (secp256k1_scalar_check_overflow ?r)) :: u32)
      (k + of_bool (secp256k1_scalar_check_overflow ?r)) (Suc 0 + 1)"
    by (rule bnd_ucast, rule bnd_add, rule d(5), rule bnd_of_bool) simp_all
  then show ?thesis
    using sc_final_reduction(1) [of ?r k] R unfolding secp256k1_scalar_check_overflow_iff r by simp
qed

lemma secp256k1_scalar_reduce_512_is:
  assumes l: "l8_is X l"
  shows "sc_val (secp256k1_scalar_reduce_512 l) = X mod order_n" (is "?P (secp256k1_scalar_reduce_512 l)")
  unfolding secp256k1_scalar_reduce_512_def
  apply ((rule let_extract_fast [where P = "?P"] let_extract [where P = "?P"], assumption, simp (no_asm), simp (no_asm))
     | (rule let_acc [where P = "?P"] let_bnd [where P = "?P"],
      ((assumption | rule acc_rules bnd_rules bnd_u64 | simp (no_asm))+)[1], (simp (no_asm))[1]))+
  apply (rule let_I [where P = "?P"], rule sc_reduce_512_last, assumption+)
  apply (rule reduce512_exec, assumption+)
  apply (rule l, assumption+)
  done

section \<open>Ring operations\<close>

named_theorems sc_rules "the residue each scalar operation computes"

lemma sc_is_value: "sc_is x a \<Longrightarrow> sc_val a = fn_nat x"
  by (simp add: sc_is_def)

lemma sc_is_lt: "sc_is x a \<Longrightarrow> sc_val a < order_n"
  by (simp add: sc_is_def fn_nat_lt)

lemma sc_isI: "sc_val a = k mod order_n \<Longrightarrow> sc_is (of_nat k) a"
  by (simp add: sc_is_def fn_nat_of_nat)

lemma sc_is_inject: "sc_is x a \<Longrightarrow> sc_is y a \<Longrightarrow> x = y"
  by (simp add: sc_is_def fn_nat_inject [symmetric])

lemma sc_val_inject: "sc_val a = sc_val b \<longleftrightarrow> a = (b :: secp256k1_scalar)"
proof
  assume e: "sc_val a = sc_val b"
  have h: "sc_val c = unat (sc0 c) + 2 ^ 64 * (unat (sc1 c) + 2 ^ 64 * (unat (sc2 c) + 2 ^ 64 * unat (sc3 c)))" for c
    by (simp add: sc_val_def)
  have "unat (sc0 a) = unat (sc0 b) \<and> unat (sc1 a) = unat (sc1 b) \<and> unat (sc2 a) = unat (sc2 b) \<and> unat (sc3 a) = unat (sc3 b)"
    using e by (simp only: h mixed_radix unat_u64_lt)
  then show "a = b"
    by (intro secp256k1_scalar.equality) (simp_all add: word_unat_eq_iff)
qed simp

lemma sc_is_unique: "sc_is x a \<Longrightarrow> sc_is x b \<Longrightarrow> a = b"
  by (simp add: sc_is_def flip: sc_val_inject)

lemma secp256k1_scalar_mul_is [sc_rules]:
  assumes "sc_is x a" "sc_is y b"
  shows "sc_is (x * y) (secp256k1_scalar_mul a b)"
  using secp256k1_scalar_reduce_512_is [OF mul_512_is] assms
  by (simp add: sc_is_def secp256k1_scalar_mul_def fn_nat_mult)

lemma secp256k1_scalar_sqr_is [sc_rules]:
  assumes "sc_is x a"
  shows "sc_is (x * x) (secp256k1_scalar_sqr a)"
  using secp256k1_scalar_reduce_512_is [OF sqr_512_is] assms
  by (simp add: sc_is_def secp256k1_scalar_sqr_def fn_nat_mult)

text \<open>The four-word addition: the sum of the words and the carry, before the reduction.\<close>

definition sc_sum_post :: "nat \<Rightarrow> u32 \<times> secp256k1_scalar \<Rightarrow> bool" where
  "sc_sum_post V p \<longleftrightarrow> sc_val (snd p) = V mod order_n \<and> unat (fst p) = of_bool (order_n \<le> V)"

lemma sc_add_last:
  assumes r: "r = \<lparr>sc0 = d0, sc1 = d1, sc2 = d2, sc3 = d3\<rparr>"
    and d: "bnd d0 v0 0xFFFFFFFFFFFFFFFF" "bnd d1 v1 0xFFFFFFFFFFFFFFFF" "bnd d2 v2 0xFFFFFFFFFFFFFFFF"
      "bnd d3 v3 0xFFFFFFFFFFFFFFFF" "bnd (c :: u128) k (Suc 0)"
    and e: "k = u3 div 2 ^ 64" "v3 = u3 mod 0x10000000000000000" "u3 = t2 + a3"
      "t2 = u2 div 2 ^ 64" "v2 = u2 mod 0x10000000000000000" "u2 = t1 + a2"
      "t1 = u1 div 2 ^ 64" "v1 = u1 mod 0x10000000000000000" "u1 = t0 + a1"
      "t0 = u0 div 2 ^ 64" "v0 = u0 mod 0x10000000000000000" "u0 = a0"
    and V: "a0 + 2 ^ 64 * a1 + 2 ^ 128 * a2 + 2 ^ 192 * a3 = V" "V < 2 * order_n"
  shows "sc_sum_post V (ucast (c + of_bool (secp256k1_scalar_check_overflow r)) :: u32,
    secp256k1_scalar_reduce r (ucast (c + of_bool (secp256k1_scalar_check_overflow r))))"
proof -
  have "u0 = v0 + 2 ^ 64 * t0" "u1 = v1 + 2 ^ 64 * t1" "u2 = v2 + 2 ^ 64 * t2" "u3 = v3 + 2 ^ 64 * k"
    unfolding e(1,2,4,5,7,8,10,11) by simp_all
  then have "a0 = v0 + 2 ^ 64 * t0" "t0 + a1 = v1 + 2 ^ 64 * t1" "t1 + a2 = v2 + 2 ^ 64 * t2"
      "t2 + a3 = v3 + 2 ^ 64 * k"
    unfolding e(3,6,9,12) by simp_all
  then have eq: "V = v0 + 2 ^ 64 * v1 + 2 ^ 128 * v2 + 2 ^ 192 * v3 + 2 ^ 256 * k"
    unfolding V(1) [symmetric] by simp
  have rv: "sc_val r = v0 + 2 ^ 64 * v1 + 2 ^ 128 * v2 + 2 ^ 192 * v3"
    using d by (simp add: sc_val_def bnd_def r)
  have "bnd (ucast (c + of_bool (secp256k1_scalar_check_overflow r)) :: u32)
      (k + of_bool (secp256k1_scalar_check_overflow r)) (Suc 0 + 1)"
    by (rule bnd_ucast, rule bnd_add, rule d(5), rule bnd_of_bool) simp_all
  then have ov: "bnd (ucast (c + of_bool (secp256k1_scalar_check_overflow r)) :: u32) (k + of_bool (order_n \<le> sc_val r)) (Suc 0 + 1)"
    by (simp only: secp256k1_scalar_check_overflow_iff)
  have eq': "V = sc_val r + 2 ^ 256 * k"
    using eq rv by (simp only:)
  show ?thesis
    unfolding sc_sum_post_def fst_conv snd_conv eq'
    using sc_final_reduction [OF V(2) [unfolded eq'] ov] ..
qed

lemma sc_add_lt: "x < n \<Longrightarrow> y < n \<Longrightarrow> x + y < 2 * n" for x y n :: nat
  by simp

lemma secp256k1_scalar_add_post:
  assumes lt: "sc_val a < order_n" "sc_val b < order_n"
  shows "sc_sum_post (sc_val a + sc_val b) (secp256k1_scalar_add a b)" (is "?P (secp256k1_scalar_add a b)")
  unfolding secp256k1_scalar_add_def
  apply ((rule let_bnd [where P = "?P"], ((assumption | rule bnd_rules bnd_u64 | simp (no_asm))+)[1], (simp (no_asm))[1])+)
  apply (unfold Let_def, rule sc_add_last, rule refl, assumption+)
   apply (simp (no_asm) add: sc_val_def)
  apply (rule sc_add_lt [OF lt])
  done

lemma secp256k1_scalar_is_zero_iff: "secp256k1_scalar_is_zero a \<longleftrightarrow> sc_val a = 0"
  by (simp add: secp256k1_scalar_is_zero_def sc_val_def or_eq_0_iff unat_eq_0)

lemma word_1_unat: "w = 1 \<longleftrightarrow> unat w = 1" for w :: u64
  by (simp add: word_unat_eq_iff)

lemma secp256k1_scalar_is_one_iff: "secp256k1_scalar_is_one a \<longleftrightarrow> sc_val a = 1"
proof -
  have "secp256k1_scalar_is_one a \<longleftrightarrow> a = \<lparr>sc0 = 1, sc1 = 0, sc2 = 0, sc3 = 0\<rparr>"
    by (cases a) (auto simp: secp256k1_scalar_is_one_def or_eq_0_iff word_xor_eq_iff)
  also have "\<dots> \<longleftrightarrow> sc_val a = 1"
    by (simp add: sc_val_def flip: sc_val_inject)
  finally show ?thesis .
qed

lemma secp256k1_scalar_eq_iff: "secp256k1_scalar_eq a b \<longleftrightarrow> a = b"
  by (cases a; cases b) (auto simp: secp256k1_scalar_eq_def or_eq_0_iff word_xor_eq_iff)

lemma secp256k1_scalar_is_even_iff: "secp256k1_scalar_is_even a \<longleftrightarrow> even (sc_val a)"
proof -
  have "secp256k1_scalar_is_even a \<longleftrightarrow> even (sc0 a)"
    by (simp add: secp256k1_scalar_is_even_def and_one_eq even_iff_mod_2_eq_zero)
  also have "\<dots> \<longleftrightarrow> even (unat (sc0 a))"
    using bit_unsigned_iff [where 'a = nat, of "sc0 a" 0] by (simp add: bit_0)
  finally show ?thesis
    by (simp add: sc_val_def)
qed

lemma secp256k1_scalar_is_high_iff: "secp256k1_scalar_is_high a \<longleftrightarrow> order_n div 2 < sc_val a"
  using unat_u64_lt [of "sc0 a"] unat_u64_lt [of "sc1 a"] unat_u64_lt [of "sc2 a"] unat_u64_lt [of "sc3 a"]
  unfolding secp256k1_scalar_is_high_def sc_val_def order_n_def Let_def
    SECP256K1_N_H_0_def SECP256K1_N_H_1_def SECP256K1_N_H_2_def SECP256K1_N_H_3_def
  by (auto simp: word_less_nat_alt word_le_nat_alt not_less not_le)

end
