(* ===== verification/Scalar_Impl.thy ===== *)
theory Scalar_Impl
  imports Scalar Field_Bytes
begin

text \<open>
  The remaining scalar operations as operations on residues: addition, negation, bytes,
  bits, and the inversion chain of \<^verbatim>\<open>scalar_impl.h\<close>.
\<close>

section \<open>Addition and negation\<close>

lemma secp256k1_scalar_add_is [sc_rules]:
  assumes "sc_is x a" "sc_is y b"
  shows "sc_is (x + y) (snd (secp256k1_scalar_add a b))"
  using secp256k1_scalar_add_post [OF sc_is_lt [OF assms(1)] sc_is_lt [OF assms(2)]] assms
  by (simp add: sc_sum_post_def sc_is_def fn_nat_add)

lemma secp256k1_scalar_add_overflow:
  assumes "sc_is x a" "sc_is y b"
  shows "unat (fst (secp256k1_scalar_add a b)) = of_bool (order_n \<le> fn_nat x + fn_nat y)"
  using secp256k1_scalar_add_post [OF sc_is_lt [OF assms(1)] sc_is_lt [OF assms(2)]] assms
  by (simp add: sc_sum_post_def sc_is_def)

lemma minus_one_u64: "(- 1 :: u64) = 0xFFFFFFFFFFFFFFFF"
  by simp

lemma bnd_not64 [bnd_rules]: "bnd (NOT (w :: u64)) (0xFFFFFFFFFFFFFFFF - unat w) 0xFFFFFFFFFFFFFFFF"
proof -
  have "NOT w = - 1 - w" by (simp add: not_eq_complement)
  then have "unat (NOT w) = unat (- 1 - w)" by simp
  also have "\<dots> = unat (- 1 :: u64) - unat w" by (rule unat_sub) simp
  also have "unat (- 1 :: u64) = 0xFFFFFFFFFFFFFFFF" by (simp only: minus_one_u64) simp
  finally show ?thesis by (simp add: bnd_def)
qed

lemma bnd_N [bnd_rules]:
  "bnd SECP256K1_N_0 0xBFD25E8CD0364141 0xBFD25E8CD0364141" "bnd SECP256K1_N_1 0xBAAEDCE6AF48A03B 0xBAAEDCE6AF48A03B"
  "bnd SECP256K1_N_2 0xFFFFFFFFFFFFFFFE 0xFFFFFFFFFFFFFFFE" "bnd SECP256K1_N_3 0xFFFFFFFFFFFFFFFF 0xFFFFFFFFFFFFFFFF"
  by (simp_all add: bnd_def SECP256K1_N_unat)

lemma bnd_and_full [bnd_rules]:
  assumes "bnd (a :: u128) x A"
  shows "bnd (a AND ucast (0xFFFFFFFFFFFFFFFF :: u64)) (x mod 0x10000000000000000) 0xFFFFFFFFFFFFFFFF"
  using bnd_and_mask64 [OF assms] by simp

lemma sc_neg_sum:
  assumes "a < 2 ^ 64" "b < 2 ^ 64" "c < 2 ^ 64" "d < (2::nat) ^ 64"
  shows "(0xFFFFFFFFFFFFFFFF - a) + 0xBFD25E8CD0364141 + 1 + 2 ^ 64 * ((0xFFFFFFFFFFFFFFFF - b) + 0xBAAEDCE6AF48A03B)
    + 2 ^ 128 * ((0xFFFFFFFFFFFFFFFF - c) + 0xFFFFFFFFFFFFFFFE) + 2 ^ 192 * ((0xFFFFFFFFFFFFFFFF - d) + 0xFFFFFFFFFFFFFFFF) =
    2 ^ 256 + order_n - (a + 2 ^ 64 * b + 2 ^ 128 * c + 2 ^ 192 * d)"
proof -
  let ?m = "0xFFFFFFFFFFFFFFFF :: nat"
  obtain a' b' c' d' where "?m = a + a'" "?m = b + b'" "?m = c + c'" "?m = d + d'"
    using assms le_Suc_ex [of a ?m] le_Suc_ex [of b ?m] le_Suc_ex [of c ?m] le_Suc_ex [of d ?m] by auto
  then have s: "?m - a = a'" "?m - b = b'" "?m - c = c'" "?m - d = d'"
    and "a + 2 ^ 64 * b + 2 ^ 128 * c + 2 ^ 192 * d + (a' + 2 ^ 64 * b' + 2 ^ 128 * c' + 2 ^ 192 * d') = 2 ^ 256 - 1"
    by simp_all
  then show ?thesis
    unfolding s order_n_def by simp
qed

lemma secp256k1_scalar_negate_post:
  assumes "sc_val a \<noteq> 0"
  shows "sc_red_post (2 ^ 256 + order_n - sc_val a) (secp256k1_scalar_negate a)" (is "?P (secp256k1_scalar_negate a)")
proof -
  have nz: "0xFFFFFFFFFFFFFFFF * of_bool (\<not> secp256k1_scalar_is_zero a) = (0xFFFFFFFFFFFFFFFF :: u64)"
    using assms by (simp add: secp256k1_scalar_is_zero_iff)
  show ?thesis
    unfolding secp256k1_scalar_negate_def nz
    apply (rule let_I [where P = "?P"])
    apply ((rule let_bnd [where P = "?P"], ((assumption | rule bnd_rules bnd_u64 | simp (no_asm))+)[1], (simp (no_asm))[1])+)
    apply (rule sc_red_postI, assumption+)
    apply (unfold sc_val_def, rule sc_neg_sum; rule unat_u64_lt)
    done
qed

lemma secp256k1_scalar_negate_value:
  assumes "sc_val a < order_n"
  shows "sc_val (secp256k1_scalar_negate a) = (if sc_val a = 0 then 0 else order_n - sc_val a)"
proof (cases "sc_val a = 0")
  case True
  then have "secp256k1_scalar_is_zero a" by (simp add: secp256k1_scalar_is_zero_iff)
  then have "secp256k1_scalar_negate a = \<lparr>sc0 = 0, sc1 = 0, sc2 = 0, sc3 = 0\<rparr>"
    by (simp add: secp256k1_scalar_negate_def Let_def)
  then show ?thesis using True by (simp add: sc_val_def)
next
  case False
  have "order_n - sc_val a < 2 ^ 256" by (simp add: order_n_def)
  moreover have "2 ^ 256 + order_n - sc_val a = order_n - sc_val a + 2 ^ 256 * 1"
    using assms by simp
  ultimately have "(2 ^ 256 + order_n - sc_val a) mod 2 ^ 256 = order_n - sc_val a"
    by (simp only: mod_mult_self2 mod_less)
  then show ?thesis
    using secp256k1_scalar_negate_post [OF False] False by (simp add: sc_red_post_def)
qed

lemma secp256k1_scalar_negate_is [sc_rules]:
  assumes "sc_is x a"
  shows "sc_is (- x) (secp256k1_scalar_negate a)"
  using secp256k1_scalar_negate_value [OF sc_is_lt [OF assms]] assms
  by (simp add: sc_is_def fn_nat_minus)

lemma secp256k1_scalar_cond_negate_True: "secp256k1_scalar_cond_negate a True = (- 1, secp256k1_scalar_negate a)"
proof -
  have "ucast (- 1 :: u64) = (0xFFFFFFFFFFFFFFFF :: u128)"
    by (simp only: minus_one_u64) simp
  moreover have "ucast (SECP256K1_N_0 + 1) = (ucast SECP256K1_N_0 + 1 :: u128)"
    by (simp add: SECP256K1_N_0_def)
  ultimately show ?thesis
    by (cases "secp256k1_scalar_is_zero a")
      (simp_all add: secp256k1_scalar_cond_negate_def secp256k1_scalar_negate_def Let_def xor.commute add.assoc)
qed

lemma secp256k1_scalar_cond_negate_False: "secp256k1_scalar_cond_negate a False = (1, a)"
proof (cases "secp256k1_scalar_is_zero a")
  case True
  then have "sc_val a = sc_val \<lparr>sc0 = 0, sc1 = 0, sc2 = 0, sc3 = 0\<rparr>"
    by (simp add: secp256k1_scalar_is_zero_iff sc_val_def)
  then have "a = \<lparr>sc0 = 0, sc1 = 0, sc2 = 0, sc3 = 0\<rparr>"
    by (simp only: sc_val_inject)
  then show ?thesis using True
    by (simp add: secp256k1_scalar_cond_negate_def Let_def)
next
  case False
  have z: "drop_bit 64 (ucast w :: u128) = 0" and m: "ucast (ucast w AND (0xFFFFFFFFFFFFFFFF :: u128)) = w" for w :: u64
  proof -
    have "unat (drop_bit 64 (ucast w :: u128)) = 0"
      by (simp only: unat_drop_bit_div unsigned_ucast_eq) (simp add: take_bit_nat_eq_self unat_u64_lt [simplified] less_trans [OF unat_u64_lt])
    then show "drop_bit 64 (ucast w :: u128) = 0" by (simp only: unat_eq_0)
    have "unat (ucast (ucast w AND (0xFFFFFFFFFFFFFFFF :: u128)) :: u64) = unat w"
      by (rule bnd_unat [OF bnd_eq [OF bnd_ucast [OF bnd_and_mask64 [OF bnd_ucast [OF bnd_u64]]]]]) (simp_all add: unat_u64_lt [simplified])
    then show "ucast (ucast w AND (0xFFFFFFFFFFFFFFFF :: u128)) = w" by (simp only: word_unat_eq_iff)
  qed
  have "ucast (- 1 :: u64) = (0xFFFFFFFFFFFFFFFF :: u128)"
    by (simp only: minus_one_u64) simp
  then show ?thesis
    using False z m by (cases a) (simp add: secp256k1_scalar_cond_negate_def Let_def)
qed

section \<open>Bytes\<close>

lemma limb64_value:
  fixes p0 p1 p2 p3 p4 p5 p6 p7 :: u8
  shows "bnd (ucast p0 OR push_bit 8 (ucast p1) OR push_bit 16 (ucast p2) OR push_bit 24 (ucast p3)
        OR push_bit 32 (ucast p4) OR push_bit 40 (ucast p5) OR push_bit 48 (ucast p6) OR push_bit 56 (ucast p7) :: u64)
      (unat p0 + unat p1 * 2 ^ 8 + unat p2 * 2 ^ 16 + unat p3 * 2 ^ 24 + unat p4 * 2 ^ 32 + unat p5 * 2 ^ 40
        + unat p6 * 2 ^ 48 + unat p7 * 2 ^ 56) 0xFFFFFFFFFFFFFFFF"
  unfolding or.assoc [symmetric]
  by (rule bnd_weaken, ((rule bnd_or_push bnd_ucast bnd_and_mask4 bnd_drop_bit bnd_byte | simp)+)[1], simp)

lemma secp256k1_scalar_set_b32_value:
  assumes "length b = 32"
  shows "sc_val (fst (secp256k1_scalar_set_b32 b)) = be_nat b mod order_n"
    and "snd (secp256k1_scalar_set_b32 b) \<longleftrightarrow> order_n \<le> be_nat b"
proof -
  define r where "r = \<lparr>
    sc0 = ucast (b ! 31) OR push_bit 8 (ucast (b ! 30)) OR push_bit 16 (ucast (b ! 29)) OR push_bit 24 (ucast (b ! 28))
      OR push_bit 32 (ucast (b ! 27)) OR push_bit 40 (ucast (b ! 26)) OR push_bit 48 (ucast (b ! 25)) OR push_bit 56 (ucast (b ! 24)),
    sc1 = ucast (b ! 23) OR push_bit 8 (ucast (b ! 22)) OR push_bit 16 (ucast (b ! 21)) OR push_bit 24 (ucast (b ! 20))
      OR push_bit 32 (ucast (b ! 19)) OR push_bit 40 (ucast (b ! 18)) OR push_bit 48 (ucast (b ! 17)) OR push_bit 56 (ucast (b ! 16)),
    sc2 = ucast (b ! 15) OR push_bit 8 (ucast (b ! 14)) OR push_bit 16 (ucast (b ! 13)) OR push_bit 24 (ucast (b ! 12))
      OR push_bit 32 (ucast (b ! 11)) OR push_bit 40 (ucast (b ! 10)) OR push_bit 48 (ucast (b ! 9)) OR push_bit 56 (ucast (b ! 8)),
    sc3 = ucast (b ! 7) OR push_bit 8 (ucast (b ! 6)) OR push_bit 16 (ucast (b ! 5)) OR push_bit 24 (ucast (b ! 4))
      OR push_bit 32 (ucast (b ! 3)) OR push_bit 40 (ucast (b ! 2)) OR push_bit 48 (ucast (b ! 1)) OR push_bit 56 (ucast (b ! 0))\<rparr>"
  have "be_nat b = be_nat (map ((!) b) [0 ..< 32])"
    using list_eq_map_nth [OF assms] by simp
  also have "\<dots> = sc_val r"
    unfolding r_def sc_val_def secp256k1_scalar.simps limb64_value [THEN bnd_unat] by (simp add: upt_32)
  finally have v: "sc_val r = be_nat b" ..
  have s: "secp256k1_scalar_set_b32 b =
      (secp256k1_scalar_reduce r (of_bool (secp256k1_scalar_check_overflow r)), secp256k1_scalar_check_overflow r)"
    unfolding secp256k1_scalar_set_b32_def r_def Let_def ..
  have "sc_val r + 2 ^ 256 * 0 < 2 * order_n"
    using sc_val_lt [of r] by (simp add: order_n_def)
  moreover have "bnd (of_bool (secp256k1_scalar_check_overflow r) :: u32) (0 + of_bool (order_n \<le> sc_val r)) 1"
    by (simp add: secp256k1_scalar_check_overflow_iff bnd_def)
  ultimately show "sc_val (fst (secp256k1_scalar_set_b32 b)) = be_nat b mod order_n"
    using sc_final_reduction(1) [of r 0] by (simp add: s v)
  show "snd (secp256k1_scalar_set_b32 b) \<longleftrightarrow> order_n \<le> be_nat b"
    by (simp add: s v secp256k1_scalar_check_overflow_iff)
qed

lemma secp256k1_scalar_set_b32_is [sc_rules]:
  "length b = 32 \<Longrightarrow> sc_is (of_nat (be_nat b)) (fst (secp256k1_scalar_set_b32 b))"
  by (simp add: secp256k1_scalar_set_b32_value sc_is_def fn_nat_of_nat)

text \<open>Only the first 32 bytes are read.\<close>

lemma scalar_set_b32_nth: "secp256k1_scalar_set_b32 (map ((!) b) [0 ..< 32]) = secp256k1_scalar_set_b32 b"
proof -
  have n: "map ((!) b) [0 ..< 32] ! k = b ! k" if "k < 32" for k using that by simp
  show ?thesis
    unfolding secp256k1_scalar_set_b32_def
    by (simp only: n rel_simps zero_less_numeral one_less_numeral_iff)
qed

lemma digits8:
  fixes a :: nat
  assumes "a = r0 + 256 * q1" "q1 = r1 + 256 * q2" "q2 = r2 + 256 * q3" "q3 = r3 + 256 * q4" "q4 = r4 + 256 * q5" "q5 = r5 + 256 * q6" "q6 = r6 + 256 * q7" "q7 = r7"
  shows "a = r7 * 2 ^ 56 + r6 * 2 ^ 48 + r5 * 2 ^ 40 + r4 * 2 ^ 32 + r3 * 2 ^ 24 + r2 * 2 ^ 16 + r1 * 2 ^ 8 + r0"
  using assms by simp

lemma limb64_bytes:
  assumes "(a::nat) < 2 ^ 64"
  shows "a = a div 2 ^ 56 mod 256 * 2 ^ 56 + a div 2 ^ 48 mod 256 * 2 ^ 48 + a div 2 ^ 40 mod 256 * 2 ^ 40 + a div 2 ^ 32 mod 256 * 2 ^ 32
    + a div 2 ^ 24 mod 256 * 2 ^ 24 + a div 2 ^ 16 mod 256 * 2 ^ 16 + a div 2 ^ 8 mod 256 * 2 ^ 8 + a mod 256"
proof -
  have "a = a mod 256 + 256 * (a div 2 ^ 8)"
    using div_digit [of a 0 8] by simp
  moreover have "a div 2 ^ 8 = a div 2 ^ 8 mod 256 + 256 * (a div 2 ^ 16)"
    using div_digit [of a 8 8] by simp
  moreover have "a div 2 ^ 16 = a div 2 ^ 16 mod 256 + 256 * (a div 2 ^ 24)"
    using div_digit [of a 16 8] by simp
  moreover have "a div 2 ^ 24 = a div 2 ^ 24 mod 256 + 256 * (a div 2 ^ 32)"
    using div_digit [of a 24 8] by simp
  moreover have "a div 2 ^ 32 = a div 2 ^ 32 mod 256 + 256 * (a div 2 ^ 40)"
    using div_digit [of a 32 8] by simp
  moreover have "a div 2 ^ 40 = a div 2 ^ 40 mod 256 + 256 * (a div 2 ^ 48)"
    using div_digit [of a 40 8] by simp
  moreover have "a div 2 ^ 48 = a div 2 ^ 48 mod 256 + 256 * (a div 2 ^ 56)"
    using div_digit [of a 48 8] by simp
  moreover have "a div 2 ^ 56 = a div 2 ^ 56 mod 256"
    using assms by (simp add: less_mult_imp_div_less)
  ultimately show ?thesis
    by (rule digits8)
qed

lemma byte_of_word64: "unat (ucast (drop_bit n (w :: u64)) :: u8) = unat w div 2 ^ n mod 256"
  "unat (ucast (w :: u64) :: u8) = unat w mod 256"
  by (simp_all only: unsigned_ucast_eq unat_drop_bit_div take_bit_eq_mod) simp_all

lemma secp256k1_scalar_get_b32_value: "be_nat (secp256k1_scalar_get_b32 a) = sc_val a"
proof -
  define a0 a1 a2 a3 where "a0 = unat (sc0 a)" "a1 = unat (sc1 a)" "a2 = unat (sc2 a)" and "a3 = unat (sc3 a)"
  note A = this
  have "a0 < 2 ^ 64" "a1 < 2 ^ 64" "a2 < 2 ^ 64" "a3 < 2 ^ 64"
    unfolding A by (rule unat_u64_lt)+
  note limb64_bytes [OF this(1)] limb64_bytes [OF this(2)] limb64_bytes [OF this(3)] limb64_bytes [OF this(4)]
  then show ?thesis
    unfolding secp256k1_scalar_get_b32_def sc_val_def A [symmetric]
    by (simp only: byte_of_word64(1) be_nat.simps list.size A [symmetric])
      (simp only: byte_of_word64(2) A [symmetric], simp)
qed

lemma secp256k1_scalar_get_b32_length [simp]: "length (secp256k1_scalar_get_b32 a) = 32"
  by (simp add: secp256k1_scalar_get_b32_def)

lemma secp256k1_scalar_set_get_b32:
  assumes "sc_val a < order_n"
  shows "secp256k1_scalar_set_b32 (secp256k1_scalar_get_b32 a) = (a, False)"
  using secp256k1_scalar_set_b32_value [of "secp256k1_scalar_get_b32 a"] assms
  by (simp add: prod_eq_iff secp256k1_scalar_get_b32_value sc_val_inject)

lemma secp256k1_scalar_get_set_b32:
  assumes "length b = 32" "be_nat b < order_n"
  shows "secp256k1_scalar_get_b32 (fst (secp256k1_scalar_set_b32 b)) = b"
  using secp256k1_scalar_set_b32_value [OF assms(1)] assms
  by (intro iffD1 [OF be_nat_inject]) (simp_all add: secp256k1_scalar_get_b32_value)

section \<open>Constants and powers\<close>

lemma secp256k1_scalar_clear_is [sc_rules]: "sc_is 0 secp256k1_scalar_clear"
  by (simp add: secp256k1_scalar_clear_def sc_is_def sc_val_def)

lemma secp256k1_scalar_set_int_is [sc_rules]: "sc_is (of_nat (unat v)) (secp256k1_scalar_set_int v)"
proof -
  have "unat v < 2 ^ 32" using unsigned_less [of v, where 'a = nat] by simp
  moreover have "unat (ucast v :: u64) = unat v"
    using \<open>unat v < 2 ^ 32\<close> by (simp add: unsigned_ucast_eq take_bit_nat_eq_self)
  ultimately show ?thesis
    by (intro sc_isI) (simp add: secp256k1_scalar_set_int_def sc_val_def order_n_def)
qed

lemma secp256k1_scalar_set_u64_is [sc_rules]: "sc_is (of_nat (unat v)) (secp256k1_scalar_set_u64 v)"
  using unat_u64_lt [of v]
  by (intro sc_isI) (simp add: secp256k1_scalar_set_u64_def sc_val_def order_n_def)

interpretation sc_chain: power_chain sc_is sc_is secp256k1_scalar_mul secp256k1_scalar_sqr
  by unfold_locales (assumption | rule secp256k1_scalar_mul_is secp256k1_scalar_sqr_is)+

lemma secp256k1_scalar_inverse_is [sc_rules]:
  assumes a: "sc_is x a"
  shows "sc_is (inverse x) (secp256k1_scalar_inverse a)"
  unfolding secp256k1_scalar_inverse_def fn_inverse_power [symmetric]
  apply ((rule sc_chain.let_power [where P = "sc_is (x ^ (order_n - 2))" and x = x],
      (assumption | rule sc_chain.power_sqr_times sc_chain.power_mul sc_chain.power_sqr sc_chain.power_one [OF a])+, simp (no_asm))+)
  apply (rule sc_chain.power_mul_last, assumption, assumption, simp add: order_n_def)
  done

section \<open>Bits\<close>

lemma bit_radix:
  fixes x y :: nat
  assumes "x < 2 ^ k"
  shows "bit (x + 2 ^ k * y) i \<longleftrightarrow> (if i < k then bit x i else bit y (i - k))"
proof -
  have t: "take_bit k (x + 2 ^ k * y) = x" and d: "drop_bit k (x + 2 ^ k * y) = y"
    using radix_div_mod [OF assms, of y] by (simp_all add: take_bit_eq_mod drop_bit_eq_div)
  show ?thesis
  proof (cases "i < k")
    case True
    then have "bit (take_bit k (x + 2 ^ k * y)) i \<longleftrightarrow> bit (x + 2 ^ k * y) i"
      by (simp add: bit_take_bit_iff)
    then show ?thesis using True t by simp
  next
    case False
    then have "bit (drop_bit k (x + 2 ^ k * y)) (i - k) \<longleftrightarrow> bit (x + 2 ^ k * y) i"
      by (simp add: bit_drop_bit_eq)
    then show ?thesis using False d by simp
  qed
qed

lemma bit_unat_u64: "bit (unat (w :: u64)) i \<longleftrightarrow> bit w i"
  by (auto simp: bit_unsigned_iff)

lemma bit_sc_val: "bit (sc_val a) i \<longleftrightarrow> i < 256 \<and> bit (sc_d a (i div 64)) (i mod 64)"
proof -
  have h: "sc_val a = unat (sc0 a) + 2 ^ 64 * (unat (sc1 a) + 2 ^ 64 * (unat (sc2 a) + 2 ^ 64 * unat (sc3 a)))"
    by (simp add: sc_val_def)
  have hi: "bit (sc3 a) j \<Longrightarrow> j < 64" for j
    using bit_imp_le_length [of "sc3 a" j] by simp
  have d: "i < 64 \<Longrightarrow> i div 64 = 0 \<and> i mod 64 = i"
    "64 \<le> i \<Longrightarrow> i < 128 \<Longrightarrow> i div 64 = 1 \<and> i mod 64 = i - 64"
    "128 \<le> i \<Longrightarrow> i < 192 \<Longrightarrow> i div 64 = 2 \<and> i mod 64 = i - 128"
    "192 \<le> i \<Longrightarrow> i < 256 \<Longrightarrow> i div 64 = 3 \<and> i mod 64 = i - 192"
    by (auto simp: mod_if intro!: div_nat_eqI)
  consider "i < 64" | "64 \<le> i \<and> i < 128" | "128 \<le> i \<and> i < 192" | "192 \<le> i \<and> i < 256" | "256 \<le> i"
    by linarith
  moreover have "bit (sc_val a) i \<longleftrightarrow> (if i < 64 then bit (sc0 a) i else if i - 64 < 64 then bit (sc1 a) (i - 64)
      else if i - 64 - 64 < 64 then bit (sc2 a) (i - 64 - 64) else bit (sc3 a) (i - 64 - 64 - 64))"
    by (simp only: h bit_radix [OF unat_u64_lt] bit_unat_u64)
  ultimately show ?thesis
    by cases (auto simp: sc_d_def d dest: hi)
qed

lemma bit_mask_word: "push_bit n 1 - 1 = (mask n :: 'a::len word)"
  by (simp add: mask_eq_exp_minus_1 push_bit_eq_mult)

lemma get_bits_mask:
  "secp256k1_scalar_get_bits a offset count = ucast (drop_bit (offset mod 64) (sc_d a (offset div 64)) AND mask count)"
  by (simp only: secp256k1_scalar_get_bits_def bit_mask_word)

lemma get_bits_var_mask:
  "(offset + count - 1) div 64 \<noteq> offset div 64 \<Longrightarrow> secp256k1_scalar_get_bits_var a offset count =
    ucast ((drop_bit (offset mod 64) (sc_d a (offset div 64))
       OR push_bit (64 - offset mod 64) (sc_d a (offset div 64 + 1))) AND mask count)"
  by (simp only: secp256k1_scalar_get_bits_var_def bit_mask_word if_False)

lemma secp256k1_scalar_get_bits_value:
  assumes "count < 32" "offset + count \<le> 256" "(offset + count - 1) div 64 = offset div 64" "0 < count"
  shows "unat (secp256k1_scalar_get_bits a offset count) = sc_val a div 2 ^ offset mod 2 ^ count"
proof -
  have "bit (unat (secp256k1_scalar_get_bits a offset count)) j \<longleftrightarrow> bit (take_bit count (drop_bit offset (sc_val a))) j" for j
  proof (cases "j < count")
    case True
    have "(offset + j) div 64 = offset div 64 \<and> (offset + j) mod 64 = offset mod 64 + j"
    proof -
      have "offset div 64 \<le> (offset + j) div 64" "(offset + j) div 64 \<le> (offset + count - 1) div 64"
        using True by (intro div_le_mono; linarith)+
      then have e: "(offset + j) div 64 = offset div 64"
        using assms(3) by linarith
      have "offset = 64 * (offset div 64) + offset mod 64" "offset + j = 64 * ((offset + j) div 64) + (offset + j) mod 64"
        by simp_all
      with e show ?thesis by linarith
    qed
    with True assms show ?thesis
      by (auto simp: get_bits_mask bit_unsigned_iff bit_ucast_iff bit_and_iff bit_drop_bit_eq
          bit_mask_iff bit_take_bit_iff bit_sc_val add.commute)
  qed (auto simp: get_bits_mask bit_unsigned_iff bit_ucast_iff bit_and_iff bit_mask_iff bit_take_bit_iff)
  then have "unat (secp256k1_scalar_get_bits a offset count) = take_bit count (drop_bit offset (sc_val a))"
    by (intro bit_eqI)
  then show ?thesis by (simp add: take_bit_eq_mod drop_bit_eq_div)
qed

lemma bit_across_limbs:
  fixes x y :: u64
  assumes "0 < r" "r < 64" "j < 64"
  shows "bit (drop_bit r x OR push_bit (64 - r) y) j \<longleftrightarrow> (if r + j < 64 then bit x (r + j) else bit y (j - (64 - r)))"
proof (cases "r + j < 64")
  case True
  then show ?thesis using assms by (auto simp: bit_simps)
next
  case False
  then have "\<not> bit x (r + j)" by (auto dest: bit_imp_le_length)
  then show ?thesis using False assms by (auto simp: bit_simps)
qed

lemma secp256k1_scalar_get_bits_var_value:
  assumes "count < 32" "offset + count \<le> 256" "0 < count"
  shows "unat (secp256k1_scalar_get_bits_var a offset count) = sc_val a div 2 ^ offset mod 2 ^ count"
proof (cases "(offset + count - 1) div 64 = offset div 64")
  case True
  then show ?thesis
    using assms by (simp add: secp256k1_scalar_get_bits_var_def secp256k1_scalar_get_bits_value)
next
  case False
  define q r where "q = offset div 64" and "r = offset mod 64"
  have off: "offset = 64 * q + r" "r < 64"
    by (simp_all add: q_def r_def)
  have cross: "64 < r + count" "0 < r"
  proof -
    have "q < (offset + count - 1) div 64"
      using False assms div_le_mono [of offset "offset + count - 1" 64] unfolding q_def by linarith
    then have "(q + 1) * 64 \<le> offset + count - 1"
      by (simp add: less_eq_div_iff_mult_less_eq [symmetric] Suc_le_eq)
    then show "64 < r + count" "0 < r" using off assms by simp_all
  qed
  let ?w = "drop_bit r (sc_d a q) OR push_bit (64 - r) (sc_d a (q + 1))"
  have v: "secp256k1_scalar_get_bits_var a offset count = ucast (?w AND mask count)"
    using False by (simp only: get_bits_var_mask q_def r_def not_False_eq_True simp_thms)
  have "bit (unat (secp256k1_scalar_get_bits_var a offset count)) j \<longleftrightarrow> bit (take_bit count (drop_bit offset (sc_val a))) j" for j
  proof (cases "j < count")
    case True
    have "bit (unat (secp256k1_scalar_get_bits_var a offset count)) j \<longleftrightarrow> bit ?w j"
      using True assms unfolding v by (simp add: bit_unsigned_iff bit_ucast_iff bit_and_iff bit_mask_iff)
    also have "\<dots> \<longleftrightarrow> (if r + j < 64 then bit (sc_d a q) (r + j) else bit (sc_d a (q + 1)) (j - (64 - r)))"
      by (rule bit_across_limbs) (use True assms cross off in simp_all)
    also have "\<dots> \<longleftrightarrow> bit (sc_val a) (offset + j)"
    proof (cases "r + j < 64")
      case True
      then have "(offset + j) div 64 = q" "(offset + j) mod 64 = r + j"
        unfolding off(1) by (simp_all add: add.assoc)
      then show ?thesis using True \<open>j < count\<close> assms by (simp add: bit_sc_val)
    next
      case False
      have e: "offset + j = (r + j - 64) + 64 * (q + 1)" "r + j - 64 < 64"
        using False off \<open>j < count\<close> assms by simp_all
      have "(offset + j) div 64 = q + 1" "(offset + j) mod 64 = r + j - 64"
        unfolding e(1) using e(2) by (simp_all del: mult_Suc_right)
      moreover have "j - (64 - r) = r + j - 64" using off(2) by simp
      ultimately show ?thesis using False \<open>j < count\<close> assms by (simp add: bit_sc_val)
    qed
    finally show ?thesis
      using True by (simp add: bit_take_bit_iff bit_drop_bit_eq add.commute)
  next
    case False
    then show ?thesis
      unfolding v by (simp add: bit_unsigned_iff bit_ucast_iff bit_and_iff bit_mask_iff bit_take_bit_iff)
  qed
  then have "unat (secp256k1_scalar_get_bits_var a offset count) = take_bit count (drop_bit offset (sc_val a))"
    by (intro bit_eqI)
  then show ?thesis by (simp add: take_bit_eq_mod drop_bit_eq_div)
qed

end
