(* ===== verification/Scalar_Shift.thy ===== *)
theory Scalar_Shift
  imports Scalar_Impl
begin

text \<open>
  Scalar operations that move limbs: adding a power of two, shifting right, the rounded
  product \<^verbatim>\<open>secp256k1_scalar_mul_shift_var\<close> and, on top of it, the endomorphism split of
  \<^verbatim>\<open>scalar_impl.h\<close>.
\<close>

section \<open>Little-endian limb lists\<close>

primrec le_val :: "u64 list \<Rightarrow> nat" where
  "le_val [] = 0"
| "le_val (w # ws) = unat w + 2 ^ 64 * le_val ws"

lemma bit_le_val: "bit (le_val ws) i \<longleftrightarrow> i div 64 < length ws \<and> bit (ws ! (i div 64)) (i mod 64)"
proof (induction ws arbitrary: i)
  case (Cons w ws)
  show ?case
  proof (cases "i < 64")
    case False
    then have "i div 64 = Suc ((i - 64) div 64)" "i mod 64 = (i - 64) mod 64"
      by (simp_all add: le_div_geq le_mod_geq)
    then show ?thesis
      using False Cons.IH [of "i - 64"] by (simp only: le_val.simps bit_radix [OF unat_u64_lt]) simp
  qed (simp only: le_val.simps bit_radix [OF unat_u64_lt] bit_unat_u64, simp)
qed simp

lemma le_val_less: "le_val ws < 2 ^ (64 * length ws)"
proof (induction ws)
  case (Cons w ws)
  have "unat w + 2 ^ 64 * le_val ws < 2 ^ 64 + 2 ^ 64 * le_val ws"
    using unat_u64_lt [of w] by simp
  also have "\<dots> = 2 ^ 64 * (le_val ws + 1)" by simp
  also have "\<dots> \<le> 2 ^ 64 * 2 ^ (64 * length ws)"
    using Cons by (intro mult_le_mono) simp_all
  finally show ?case by (simp add: power_add)
qed simp

lemma sc_val_le_val: "sc_val a = le_val [sc0 a, sc1 a, sc2 a, sc3 a]"
  by (simp add: sc_val_def)

lemma l8_le_val: "l8_is x l \<Longrightarrow> length l = 8 \<and> x = le_val l"
proof -
  assume x: "l8_is x l"
  then have "l = map ((!) l) [0 ..< 8]"
    by (intro nth_equalityI) (simp_all add: l8_is_def)
  then have "l = [l ! 0, l ! 1, l ! 2, l ! 3, l ! 4, l ! 5, l ! 6, l ! 7]"
    by (simp add: upt_rec_numeral numeral_eq_Suc)
  then have "le_val l = le_val [l ! 0, l ! 1, l ! 2, l ! 3, l ! 4, l ! 5, l ! 6, l ! 7]"
    by simp
  then show ?thesis using x by (simp add: l8_is_def)
qed

text \<open>The limb of \<open>x div 2 ^ (64 q + s)\<close> is put together from two neighbouring limbs.\<close>

definition limb_at :: "u64 list \<Rightarrow> nat \<Rightarrow> u64" where
  "limb_at l k = (if k < length l then l ! k else 0)"

definition limb_join :: "u64 list \<Rightarrow> nat \<Rightarrow> nat \<Rightarrow> u64" where
  "limb_join l s k = drop_bit s (limb_at l k) OR (if s = 0 then 0 else push_bit (64 - s) (limb_at l (k + 1)))"

lemma bit_limb_at: "j < 64 \<Longrightarrow> bit (limb_at l k) j \<longleftrightarrow> bit (le_val l) (64 * k + j)"
  by (simp add: limb_at_def bit_le_val)

lemma bit_limb_join:
  assumes "s < 64" "j < 64"
  shows "bit (limb_join l s k) j \<longleftrightarrow> bit (le_val l) (64 * k + s + j)"
proof (cases "s = 0")
  case True
  then show ?thesis using assms by (simp add: limb_join_def bit_limb_at)
next
  case False
  then have "bit (limb_join l s k) j \<longleftrightarrow>
      (if s + j < 64 then bit (limb_at l k) (s + j) else bit (limb_at l (k + 1)) (j - (64 - s)))"
    using assms by (simp only: limb_join_def if_False bit_across_limbs)
  also have "\<dots> \<longleftrightarrow> bit (le_val l) (64 * k + s + j)"
  proof (cases "s + j < 64")
    case True
    then show ?thesis by (simp add: bit_limb_at add.assoc)
  next
    case False
    then have "64 * (k + 1) + (j - (64 - s)) = 64 * k + s + j" "j - (64 - s) < 64"
      using assms by simp_all
    then show ?thesis using False bit_limb_at [of "j - (64 - s)" l "k + 1"] by (simp only: if_False)
  qed
  finally show ?thesis .
qed

lemma le_val_join:
  assumes "s < 64"
  shows "le_val (map (limb_join l s) [q ..< q + n]) = le_val l div 2 ^ (64 * q + s) mod 2 ^ (64 * n)"
proof -
  have "bit (le_val (map (limb_join l s) [q ..< q + n])) i \<longleftrightarrow> bit (take_bit (64 * n) (drop_bit (64 * q + s) (le_val l))) i" for i
  proof -
    have "i div 64 < n \<longleftrightarrow> i < 64 * n"
      by (simp add: div_less_iff_less_mult mult.commute)
    moreover have "64 * (q + i div 64) + s + i mod 64 = 64 * q + s + i"
      by (simp add: algebra_simps)
    ultimately show ?thesis
      using assms bit_limb_join [of s "i mod 64" l "q + i div 64"]
      by (auto simp: bit_le_val [of "map _ _"] bit_take_bit_iff bit_drop_bit_eq add.commute)
  qed
  then have "le_val (map (limb_join l s) [q ..< q + n]) = take_bit (64 * n) (drop_bit (64 * q + s) (le_val l))"
    by (intro bit_eqI)
  then show ?thesis by (simp add: take_bit_eq_mod drop_bit_eq_div)
qed

section \<open>Adding a power of two\<close>

lemma bnd_and_mask6:
  fixes a :: "'a::len word"
  assumes "bnd a x A"
  shows "bnd (a AND 0x3F) (x mod 64) 0x3F"
proof -
  have "(0x3F :: 'a word) = mask 6"
    by (simp add: mask_eq_exp_minus_1)
  then show ?thesis
    using bnd_take_bit [OF assms, of 6] by (simp add: take_bit_eq_mask)
qed

lemma unat_single_bit: "s < 64 \<Longrightarrow> unat (push_bit s (of_bool P) :: u64) = of_bool P * 2 ^ s"
proof -
  assume s: "s < 64"
  then have "(2 :: nat) ^ s < 2 ^ 64"
    by (rule power_strict_increasing) simp
  then have "unat (2 ^ s :: u64) = 2 ^ s"
    using unat_of_nat64 [of "2 ^ s"] by simp
  then show ?thesis
    by (cases P) (simp_all add: push_bit_eq_mult)
qed

lemma secp256k1_scalar_cadd_bit_post:
  fixes b :: u32 and flag :: bool
  defines "b' \<equiv> b + ((of_bool flag - 1) AND 0x100)"
  defines "e \<equiv> \<lambda>k. of_bool (drop_bit 6 b' = k) * 2 ^ unat (b' AND 0x3F) :: nat"
  shows "sc_red_post (sc_val r + (e 0 + 2 ^ 64 * e 1 + 2 ^ 128 * e 2 + 2 ^ 192 * e 3)) (secp256k1_scalar_cadd_bit r b flag)"
    (is "?P (secp256k1_scalar_cadd_bit r b flag)")
proof -
  have "unat (b' AND 0x3F) < 64"
    using word_and_le1 [of b' "0x3F"] by (simp add: word_le_nat_alt)
  note bit = unat_single_bit [OF this]
  define w where "w = (\<lambda>k. push_bit (unat (b' AND 0x3F)) (of_bool (drop_bit 6 b' = k)) :: u64)"
  then have w: "push_bit (unat (b' AND 0x3F)) (of_bool (drop_bit 6 b' = k)) = w k" for k by simp
  have v: "unat (w k) = e k" for k
    by (simp only: w_def e_def bit)
  show ?thesis
    unfolding secp256k1_scalar_cadd_bit_def b'_def [symmetric]
    apply (rule let_I [where P = "?P"], rule let_I [where P = "?P"])
    apply (unfold w)
    apply ((rule let_bnd [where P = "?P"], ((assumption | rule bnd_rules bnd_u64 | simp (no_asm))+)[1], (simp (no_asm))[1])+)
    apply (rule sc_red_postI, assumption+)
    apply (simp only: sc_val_def v distrib_left add_ac)
    done
qed

lemma secp256k1_scalar_cadd_bit_False:
  assumes "unat b < 256"
  shows "secp256k1_scalar_cadd_bit r b False = r"
proof -
  have "(of_bool False - 1 AND 0x100 :: u32) = 0x100" by simp
  moreover have "unat (b + 0x100) = unat b + 256"
    using assms by (subst unat_add_lem [THEN iffD1]) simp_all
  then have "unat (drop_bit 6 (b + 0x100)) \<ge> 4"
    by (simp add: unat_drop_bit_div)
  then have "drop_bit 6 (b + 0x100) \<noteq> 0" "drop_bit 6 (b + 0x100) \<noteq> 1"
      "drop_bit 6 (b + 0x100) \<noteq> 2" "drop_bit 6 (b + 0x100) \<noteq> 3"
    by auto
  ultimately have "sc_val (secp256k1_scalar_cadd_bit r b False) = sc_val r mod 2 ^ 256"
    using secp256k1_scalar_cadd_bit_post [of r b False] by (simp add: sc_red_post_def)
  then show ?thesis
    using sc_val_lt [of r] by (simp add: sc_val_inject)
qed

lemma secp256k1_scalar_cadd_bit_True:
  assumes b: "unat b < 256" and lt: "sc_val r + 2 ^ unat b < 2 ^ 256"
  shows "sc_val (secp256k1_scalar_cadd_bit r b True) = sc_val r + 2 ^ unat b"
proof -
  have s: "unat (b AND 0x3F) = unat b mod 64"
    using bnd_and_mask6 [OF bnd_self [OF order_refl], of b] by (simp add: bnd_def)
  have q: "drop_bit 6 b = k \<longleftrightarrow> unat b div 64 = unat k" for k
    by (simp only: word_unat_eq_iff unat_drop_bit_div) simp
  have sum: "(of_bool (x div 64 = 0) * 2 ^ (x mod 64) + 2 ^ 64 * (of_bool (x div 64 = 1) * 2 ^ (x mod 64)) +
      2 ^ 128 * (of_bool (x div 64 = 2) * 2 ^ (x mod 64)) + 2 ^ 192 * (of_bool (x div 64 = 3) * 2 ^ (x mod 64)) :: nat) = 2 ^ x"
    if "x < 256" for x :: nat
  proof -
    have "x div 64 = 0 \<or> x div 64 = 1 \<or> x div 64 = 2 \<or> x div 64 = 3" using that by linarith
    moreover have "(2 :: nat) ^ x = 2 ^ (64 * (x div 64)) * 2 ^ (x mod 64)"
      by (simp flip: power_add)
    ultimately show ?thesis by (elim disjE) simp_all
  qed
  have "sc_val (secp256k1_scalar_cadd_bit r b True) = (sc_val r + 2 ^ unat b) mod 2 ^ 256"
    using secp256k1_scalar_cadd_bit_post [of r b True] sum [OF b] by (simp add: sc_red_post_def s q)
  then show ?thesis using lt by simp
qed

section \<open>Shifting right\<close>

lemma secp256k1_scalar_shr_int_is:
  assumes "0 < n" "n < 16"
  shows "unat (fst (secp256k1_scalar_shr_int r n)) = sc_val r mod 2 ^ n \<and>
    sc_val (snd (secp256k1_scalar_shr_int r n)) = sc_val r div 2 ^ n"
proof
  let ?l = "[sc0 r, sc1 r, sc2 r, sc3 r]"
  have add_or: "drop_bit n x + push_bit (64 - n) y = drop_bit n x OR push_bit (64 - n) y" for x y :: u64
    by (rule disjunctive_add) (use assms in \<open>auto simp: bit_simps dest: bit_imp_le_length\<close>)
  have "[0 ..< 4] = [0, 1, 2, 3 :: nat]" by (simp add: upt_rec)
  then have "le_val (map (limb_join ?l n) [0 ..< 0 + 4]) = sc_val (snd (secp256k1_scalar_shr_int r n))"
    using assms by (simp add: secp256k1_scalar_shr_int_def limb_join_def limb_at_def sc_val_def add_or)
  then show "sc_val (snd (secp256k1_scalar_shr_int r n)) = sc_val r div 2 ^ n"
  proof -
    assume e: "le_val (map (limb_join ?l n) [0 ..< 0 + 4]) = sc_val (snd (secp256k1_scalar_shr_int r n))"
    have "sc_val r div 2 ^ n < 2 ^ 256"
      by (rule order_le_less_trans [OF div_le_dividend sc_val_lt])
    then have "sc_val r div 2 ^ (64 * 0 + n) mod 2 ^ (64 * 4) = sc_val r div 2 ^ n"
      by simp
    moreover have "n < 64" using assms by simp
    ultimately show ?thesis
      using le_val_join [of n ?l 0 4] e by (simp only: sc_val_le_val [symmetric])
  qed
  have "fst (secp256k1_scalar_shr_int r n) = ucast (sc0 r AND mask n)"
    by (simp only: secp256k1_scalar_shr_int_def bit_mask_word fst_conv)
  then have "bit (unat (fst (secp256k1_scalar_shr_int r n))) i \<longleftrightarrow> bit (take_bit n (sc_val r)) i" for i
    using assms by (auto simp: bit_simps bit_sc_val sc_d_def)
  then have "unat (fst (secp256k1_scalar_shr_int r n)) = take_bit n (sc_val r)"
    by (intro bit_eqI)
  then show "unat (fst (secp256k1_scalar_shr_int r n)) = sc_val r mod 2 ^ n"
    by (simp add: take_bit_eq_mod)
qed

section \<open>The rounded product\<close>

lemma round_div_bit:
  fixes V :: nat
  assumes "0 < k"
  shows "V div 2 ^ k + of_bool (bit V (k - 1)) = (V + 2 ^ (k - 1)) div 2 ^ k"
proof -
  obtain j where k: "k = Suc j" using assms gr0_implies_Suc by blast
  define x b where "x = V div 2 ^ j" and "b = V mod 2 ^ j"
  have V: "V = 2 ^ j * x + b" "b < 2 ^ j" by (simp_all add: x_def b_def)
  have "(V + 2 ^ j) div 2 ^ k = (x + 1) div 2"
  proof -
    have "(V + 2 ^ j) div 2 ^ j = x + 1"
      by (simp add: x_def div_add_self2)
    then show ?thesis by (simp add: k div_mult2_eq mult.commute [of 2])
  qed
  moreover have "V div 2 ^ k = x div 2"
    by (simp add: k x_def div_mult2_eq mult.commute [of 2])
  moreover have "bit V j \<longleftrightarrow> odd x"
    by (simp add: bit_iff_odd x_def)
  ultimately show ?thesis
    by (cases "odd x") (simp_all add: k)
qed

lemma secp256k1_scalar_mul_shift_var_is:
  assumes shift: "256 \<le> shift" "shift < 512"
  shows "sc_val (secp256k1_scalar_mul_shift_var a b shift) =
    (sc_val a * sc_val b + 2 ^ (shift - 1)) div 2 ^ shift"
proof -
  define l where "l = secp256k1_scalar_mul_512 a b"
  define V where "V = sc_val a * sc_val b"
  define q s where "q = shift div 64" and "s = shift mod 64"
  have l: "length l = 8" "le_val l = V"
    using l8_le_val [OF mul_512_is [of a b]] by (simp_all add: l_def V_def)
  have qs: "shift = 64 * q + s" "s < 64" "4 \<le> q" "q < 8"
    using shift by (simp_all add: q_def s_def)
  have V: "V \<le> (2 ^ 256 - 1) * (2 ^ 256 - 1)"
    unfolding V_def using sc_val_lt [of a] sc_val_lt [of b] by (intro mult_le_mono) simp_all
  define r where "r = \<lparr>
      sc0 = if shift < 512 then drop_bit s (l ! (0 + q)) OR (if shift < 448 \<and> s \<noteq> 0 then push_bit (64 - s) (l ! (1 + q)) else 0) else 0,
      sc1 = if shift < 448 then drop_bit s (l ! (1 + q)) OR (if shift < 384 \<and> s \<noteq> 0 then push_bit (64 - s) (l ! (2 + q)) else 0) else 0,
      sc2 = if shift < 384 then drop_bit s (l ! (2 + q)) OR (if shift < 320 \<and> s \<noteq> 0 then push_bit (64 - s) (l ! (3 + q)) else 0) else 0,
      sc3 = if shift < 320 then drop_bit s (l ! (3 + q)) else 0\<rparr>"
  have lt: "shift < 512 \<longleftrightarrow> q < 8" "shift < 448 \<longleftrightarrow> q < 7" "shift < 384 \<longleftrightarrow> q < 6" "shift < 320 \<longleftrightarrow> q < 5"
    using qs by auto
  have "[q ..< q + 4] = [q, q + 1, q + 2, q + 3]"
    by (simp add: upt_rec)
  then have "le_val (map (limb_join l s) [q ..< q + 4]) = sc_val r"
    using qs l by (simp add: r_def lt limb_join_def limb_at_def sc_val_le_val add.commute numeral_3_eq_3)
  then have r: "sc_val r = V div 2 ^ shift mod 2 ^ 256"
    using le_val_join [OF qs(2), of l q 4] l by (simp add: qs(1))
  have "V div 2 ^ shift \<le> V div 2 ^ 256"
    using shift by (intro div_le_mono2 power_increasing) simp_all
  also have "V div 2 ^ 256 \<le> (2 ^ 256 - 1) * (2 ^ 256 - 1) div 2 ^ 256"
    using V by (rule div_le_mono)
  finally have hi: "V div 2 ^ shift + 1 < 2 ^ 256"
    by simp
  then have "V div 2 ^ shift mod 2 ^ 256 = V div 2 ^ shift" by simp
  with r have r: "sc_val r = V div 2 ^ shift" by simp
  have "(drop_bit ((shift - 1) mod 64) (l ! ((shift - 1) div 64)) AND 1 = 1) = bit V (shift - 1)"
  proof -
    have "(shift - 1) div 64 < 8" using shift by simp
    then have "bit V (shift - 1) \<longleftrightarrow> bit (l ! ((shift - 1) div 64)) ((shift - 1) mod 64)"
      using l by (simp add: bit_le_val flip: l(2))
    also have "\<dots> \<longleftrightarrow> odd (drop_bit ((shift - 1) mod 64) (l ! ((shift - 1) div 64)))"
      by (simp add: bit_iff_odd_drop_bit)
    finally show ?thesis by (simp add: and_one_eq odd_iff_mod_2_eq_one)
  qed
  then have m: "secp256k1_scalar_mul_shift_var a b shift = secp256k1_scalar_cadd_bit r 0 (bit V (shift - 1))"
    by (simp only: secp256k1_scalar_mul_shift_var_def Let_def l_def [symmetric] q_def [symmetric] s_def [symmetric] r_def)
  have "sc_val (secp256k1_scalar_mul_shift_var a b shift) = V div 2 ^ shift + of_bool (bit V (shift - 1))"
    using secp256k1_scalar_cadd_bit_True [of 0 r] secp256k1_scalar_cadd_bit_False [of 0 r] hi r
    by (cases "bit V (shift - 1)") (simp_all add: m)
  also have "\<dots> = (V + 2 ^ (shift - 1)) div 2 ^ shift"
    by (rule round_div_bit) (use shift in simp)
  finally show ?thesis by (simp add: V_def)
qed

section \<open>The endomorphism split\<close>

text \<open>\<^verbatim>\<open>SECP256K1_SCALAR_CONST\<close> of eight 32-bit words, most significant first.\<close>

definition SECP256K1_SCALAR_CONST ::
    "u64 \<Rightarrow> u64 \<Rightarrow> u64 \<Rightarrow> u64 \<Rightarrow> u64 \<Rightarrow> u64 \<Rightarrow> u64 \<Rightarrow> u64 \<Rightarrow> secp256k1_scalar" where
  "SECP256K1_SCALAR_CONST d7 d6 d5 d4 d3 d2 d1 d0 =
     \<lparr>sc0 = push_bit 32 d1 OR d0, sc1 = push_bit 32 d3 OR d2, sc2 = push_bit 32 d5 OR d4, sc3 = push_bit 32 d7 OR d6\<rparr>"

definition minus_lambda :: secp256k1_scalar where
  "minus_lambda = SECP256K1_SCALAR_CONST
     0xAC9C52B3 0x3FA3CF1F 0x5AD9E3FD 0x77ED9BA4 0xA880B9FC 0x8EC739C2 0xE0CFC810 0xB51283CF"

definition minus_b1 :: secp256k1_scalar where
  "minus_b1 = SECP256K1_SCALAR_CONST
     0x00000000 0x00000000 0x00000000 0x00000000 0xE4437ED6 0x010E8828 0x6F547FA9 0x0ABFE4C3"

definition minus_b2 :: secp256k1_scalar where
  "minus_b2 = SECP256K1_SCALAR_CONST
     0xFFFFFFFF 0xFFFFFFFF 0xFFFFFFFF 0xFFFFFFFE 0x8A280AC5 0x0774346D 0xD765CDA8 0x3DB1562C"

definition split_g1 :: secp256k1_scalar where
  "split_g1 = SECP256K1_SCALAR_CONST
     0x00000000 0x00000000 0x00000000 0x00003086 0xD221A7D4 0x6BCDE86C 0x90E49284 0xEB153DAB"

definition split_g2 :: secp256k1_scalar where
  "split_g2 = SECP256K1_SCALAR_CONST
     0x00000000 0x00000000 0x00000000 0x0000E443 0x7ED6010E 0x88286F54 0x7FA90ABF 0xE4C42212"

definition secp256k1_scalar_split_lambda :: "secp256k1_scalar \<Rightarrow> secp256k1_scalar \<times> secp256k1_scalar" where
  "secp256k1_scalar_split_lambda a = (
     let c1 = secp256k1_scalar_mul_shift_var a split_g1 272;
         c2 = secp256k1_scalar_mul_shift_var a split_g2 272;
         c1 = secp256k1_scalar_mul c1 minus_b1;
         c2 = secp256k1_scalar_mul c2 minus_b2;
         r2 = snd (secp256k1_scalar_add c1 c2);
         r1 = secp256k1_scalar_mul r2 minus_lambda;
         r1 = snd (secp256k1_scalar_add r1 a)
     in (r1, r2))"

section \<open>ChaCha20\<close>

text \<open>
  The sixteen working variables \<^verbatim>\<open>x0\<close> to \<^verbatim>\<open>x15\<close> are a list. The host is little endian, so
  \<^verbatim>\<open>LE32\<close> is the identity on the words copied from the seed and \<^verbatim>\<open>BE32\<close> reverses bytes.
\<close>

definition rotl32 :: "u32 \<Rightarrow> nat \<Rightarrow> u32" where
  "rotl32 x n = push_bit n x OR drop_bit (32 - n) x"

definition quarterround :: "nat \<Rightarrow> nat \<Rightarrow> nat \<Rightarrow> nat \<Rightarrow> u32 list \<Rightarrow> u32 list" where
  "quarterround a b c d x = (
     let x = x[a := x ! a + x ! b]; x = x[d := rotl32 (x ! d XOR x ! a) 16];
         x = x[c := x ! c + x ! d]; x = x[b := rotl32 (x ! b XOR x ! c) 12];
         x = x[a := x ! a + x ! b]; x = x[d := rotl32 (x ! d XOR x ! a) 8];
         x = x[c := x ! c + x ! d]; x = x[b := rotl32 (x ! b XOR x ! c) 7]
     in x)"

definition chacha20_doubleround :: "u32 list \<Rightarrow> u32 list" where
  "chacha20_doubleround x = (
     let x = quarterround 0 4 8 12 x; x = quarterround 1 5 9 13 x;
         x = quarterround 2 6 10 14 x; x = quarterround 3 7 11 15 x;
         x = quarterround 0 5 10 15 x; x = quarterround 1 6 11 12 x;
         x = quarterround 2 7 8 13 x; x = quarterround 3 4 9 14 x
     in x)"

definition le32_word :: "u8 list \<Rightarrow> nat \<Rightarrow> u32" where
  "le32_word bs i = ucast (bs ! (4 * i)) OR push_bit 8 (ucast (bs ! (4 * i + 1)))
     OR push_bit 16 (ucast (bs ! (4 * i + 2))) OR push_bit 24 (ucast (bs ! (4 * i + 3)))"

definition be32_swap :: "u32 \<Rightarrow> u32" where
  "be32_swap p = push_bit 24 (p AND 0xFF) OR push_bit 8 (p AND 0xFF00)
     OR drop_bit 8 (p AND 0xFF0000) OR drop_bit 24 (p AND 0xFF000000)"

definition chacha20_input :: "u8 list \<Rightarrow> u64 \<Rightarrow> nat \<Rightarrow> u32 list" where
  "chacha20_input seed idx over_count =
     [0x61707865, 0x3320646e, 0x79622d32, 0x6b206574] @ map (le32_word seed) [0 ..< 8] @
     [ucast idx, ucast (drop_bit 32 idx), 0, of_nat over_count]"

definition chacha20_pair :: "u32 list \<Rightarrow> nat \<Rightarrow> u64" where
  "chacha20_pair x i = push_bit 32 (ucast (be32_swap (x ! i))) OR ucast (be32_swap (x ! (i + 1)))"

definition chacha20_block :: "u8 list \<Rightarrow> u64 \<Rightarrow> nat \<Rightarrow> secp256k1_scalar \<times> secp256k1_scalar" where
  "chacha20_block seed idx over_count = (
     let x = (chacha20_doubleround ^^ 10) (chacha20_input seed idx over_count);
         x = map2 (+) x (chacha20_input seed idx over_count)
     in (\<lparr>sc0 = chacha20_pair x 6, sc1 = chacha20_pair x 4, sc2 = chacha20_pair x 2, sc3 = chacha20_pair x 0\<rparr>,
         \<lparr>sc0 = chacha20_pair x 14, sc1 = chacha20_pair x 12, sc2 = chacha20_pair x 10, sc3 = chacha20_pair x 8\<rparr>))"

text \<open>
  The loop repeats until neither scalar overflows. It is not known to end for every seed, so it
  runs on fuel; each turn counts \<^verbatim>\<open>over_count\<close> up by one.
\<close>

fun chacha20_loop :: "nat \<Rightarrow> u8 list \<Rightarrow> u64 \<Rightarrow> nat \<Rightarrow> (secp256k1_scalar \<times> secp256k1_scalar) option" where
  "chacha20_loop 0 seed idx over_count = None"
| "chacha20_loop (Suc fuel) seed idx over_count =
     (case chacha20_block seed idx over_count of (r1, r2) \<Rightarrow>
        if secp256k1_scalar_check_overflow r1 \<or> secp256k1_scalar_check_overflow r2
        then chacha20_loop fuel seed idx (over_count + 1) else Some (r1, r2))"

definition secp256k1_scalar_chacha20 :: "nat \<Rightarrow> u8 list \<Rightarrow> u64 \<Rightarrow> (secp256k1_scalar \<times> secp256k1_scalar) option" where
  "secp256k1_scalar_chacha20 fuel seed idx = chacha20_loop fuel seed idx 0"

text \<open>Whether a turn produces two scalars in range.\<close>

definition chacha20_good :: "u8 list \<Rightarrow> u64 \<Rightarrow> nat \<Rightarrow> bool" where
  "chacha20_good seed idx k \<longleftrightarrow>
     sc_val (fst (chacha20_block seed idx k)) < order_n \<and> sc_val (snd (chacha20_block seed idx k)) < order_n"

lemma chacha20_loop_iff:
  "chacha20_loop fuel seed idx j = Some p \<longleftrightarrow>
     (\<exists>k. j \<le> k \<and> k < j + fuel \<and> chacha20_good seed idx k \<and> (\<forall>i. j \<le> i \<longrightarrow> i < k \<longrightarrow> \<not> chacha20_good seed idx i) \<and>
        p = chacha20_block seed idx k)"
proof (induction fuel arbitrary: j)
  case (Suc fuel)
  obtain r1 r2 where b: "chacha20_block seed idx j = (r1, r2)" by fastforce
  have g: "chacha20_good seed idx j \<longleftrightarrow> \<not> (secp256k1_scalar_check_overflow r1 \<or> secp256k1_scalar_check_overflow r2)"
    by (simp add: chacha20_good_def b secp256k1_scalar_check_overflow_iff not_le)
  show ?case
  proof (cases "chacha20_good seed idx j")
    case True
    then have "chacha20_loop (Suc fuel) seed idx j = Some (r1, r2)"
      using g by (simp add: b)
    moreover have "j \<le> k \<Longrightarrow> (\<forall>i. j \<le> i \<longrightarrow> i < k \<longrightarrow> \<not> chacha20_good seed idx i) \<Longrightarrow> k = j" for k
      using True le_neq_implies_less by blast
    ultimately show ?thesis using True b by (metis Suc_le_eq add_Suc_right le_add1 le_refl less_Suc_eq_le option.inject not_le)
  next
    case False
    then have "chacha20_loop (Suc fuel) seed idx j = chacha20_loop fuel seed idx (j + 1)"
      using g by (auto simp: b)
    moreover have "(j + 1 \<le> k \<and> k < j + 1 + fuel \<and> chacha20_good seed idx k \<and> (\<forall>i. j + 1 \<le> i \<longrightarrow> i < k \<longrightarrow> \<not> chacha20_good seed idx i)) \<longleftrightarrow>
        (j \<le> k \<and> k < j + Suc fuel \<and> chacha20_good seed idx k \<and> (\<forall>i. j \<le> i \<longrightarrow> i < k \<longrightarrow> \<not> chacha20_good seed idx i))" for k
      using False by (metis Suc_eq_plus1 Suc_leD Suc_leI add_Suc add_Suc_right le_neq_implies_less)
    ultimately show ?thesis
      using Suc.IH [of "j + 1"] by (simp only: ex_simps conj_assoc [symmetric])
  qed
qed simp

end
