(* ===== verification/Hash.thy ===== *)
theory Hash
  imports Prelude
begin

text \<open>
  SHA-256, HMAC-SHA-256 and the RFC 6979 generator of \<^verbatim>\<open>hash_impl.h\<close> as the code has them: the
  64 unrolled rounds, the buffering of \<open>secp256k1_sha256_write\<close>, the padding of
  \<open>secp256k1_sha256_finalize\<close>. The buffer \<^verbatim>\<open>uint32_t buf[16]\<close> is its memory image, a list
  of 64 bytes; the rounds read it as little-endian words through \<open>BE32\<close>, as the code does
  on the configured platform. \<open>Hash_Law\<close> and \<open>Hash_Stream\<close> relate it to the standards.
\<close>

section \<open>State\<close>

record secp256k1_sha256 =
  sha_s :: "u32 list"
  sha_buf :: "u8 list"
  sha_bytes :: u64

record secp256k1_hmac_sha256 =
  hmac_inner :: secp256k1_sha256
  hmac_outer :: secp256k1_sha256

record secp256k1_rfc6979_hmac_sha256 =
  rng_v :: "u8 list"
  rng_k :: "u8 list"
  rng_retry :: bool

section \<open>The compression function\<close>

definition Ch :: "u32 \<Rightarrow> u32 \<Rightarrow> u32 \<Rightarrow> u32" where
  "Ch x y z = z XOR (x AND (y XOR z))"

definition Maj :: "u32 \<Rightarrow> u32 \<Rightarrow> u32 \<Rightarrow> u32" where
  "Maj x y z = (x AND y) OR (z AND (x OR y))"

definition Sigma0 :: "u32 \<Rightarrow> u32" where
  "Sigma0 x = ((drop_bit 2 x OR push_bit 30 x) XOR (drop_bit 13 x OR push_bit 19 x)) XOR (drop_bit 22 x OR push_bit 10 x)"

definition Sigma1 :: "u32 \<Rightarrow> u32" where
  "Sigma1 x = ((drop_bit 6 x OR push_bit 26 x) XOR (drop_bit 11 x OR push_bit 21 x)) XOR (drop_bit 25 x OR push_bit 7 x)"

definition sigma0 :: "u32 \<Rightarrow> u32" where
  "sigma0 x = ((drop_bit 7 x OR push_bit 25 x) XOR (drop_bit 18 x OR push_bit 14 x)) XOR drop_bit 3 x"

definition sigma1 :: "u32 \<Rightarrow> u32" where
  "sigma1 x = ((drop_bit 17 x OR push_bit 15 x) XOR (drop_bit 19 x OR push_bit 13 x)) XOR drop_bit 10 x"

text \<open>The two variables the macro assigns, \<^verbatim>\<open>d\<close> and \<^verbatim>\<open>h\<close>.\<close>

definition Round :: "u32 \<Rightarrow> u32 \<Rightarrow> u32 \<Rightarrow> u32 \<Rightarrow> u32 \<Rightarrow> u32 \<Rightarrow> u32 \<Rightarrow> u32 \<Rightarrow> u32 \<Rightarrow> u32 \<Rightarrow> u32 \<times> u32" where
  "Round a b c d e f g h k w = (
     let t1 = h + Sigma1 e + Ch e f g + k + w;
         t2 = Sigma0 a + Maj a b c
     in (d + t1, t1 + t2))"

definition BE32 :: "u32 \<Rightarrow> u32" where
  "BE32 p = ((push_bit 24 (p AND 0xFF) OR push_bit 8 (p AND 0xFF00)) OR drop_bit 8 (p AND 0xFF0000)) OR drop_bit 24 (p AND 0xFF000000)"

text \<open>The little-endian words of a byte buffer, and the bytes of a word in memory.\<close>

definition le_word :: "u8 list \<Rightarrow> nat \<Rightarrow> u32" where
  "le_word bs i = ucast (bs ! (4 * i)) OR push_bit 8 (ucast (bs ! (4 * i + 1)))
     OR push_bit 16 (ucast (bs ! (4 * i + 2))) OR push_bit 24 (ucast (bs ! (4 * i + 3)))"

definition le_words :: "u8 list \<Rightarrow> u32 list" where
  "le_words bs = map (le_word bs) [0 ..< 16]"

definition word_bytes :: "u32 \<Rightarrow> u8 list" where
  "word_bytes w = [ucast w, ucast (drop_bit 8 w), ucast (drop_bit 16 w), ucast (drop_bit 24 w)]"

definition secp256k1_sha256_initialize :: "secp256k1_sha256 \<Rightarrow> secp256k1_sha256" where
  "secp256k1_sha256_initialize hash = hash \<lparr>
     sha_s := [0x6a09e667, 0xbb67ae85, 0x3c6ef372, 0xa54ff53a, 0x510e527f, 0x9b05688c, 0x1f83d9ab, 0x5be0cd19],
     sha_bytes := 0\<rparr>"

definition secp256k1_sha256_transform :: "u32 list \<Rightarrow> u32 list \<Rightarrow> u32 list" where
  "secp256k1_sha256_transform s chunk = (
     let a = s ! 0; b = s ! 1; c = s ! 2; d = s ! 3; e = s ! 4; f = s ! 5; g = s ! 6; h = s ! 7;
         w0 = BE32 (chunk ! 0); (d, h) = Round a b c d e f g h 0x428a2f98 w0;
         w1 = BE32 (chunk ! 1); (c, g) = Round h a b c d e f g 0x71374491 w1;
         w2 = BE32 (chunk ! 2); (b, f) = Round g h a b c d e f 0xb5c0fbcf w2;
         w3 = BE32 (chunk ! 3); (a, e) = Round f g h a b c d e 0xe9b5dba5 w3;
         w4 = BE32 (chunk ! 4); (h, d) = Round e f g h a b c d 0x3956c25b w4;
         w5 = BE32 (chunk ! 5); (g, c) = Round d e f g h a b c 0x59f111f1 w5;
         w6 = BE32 (chunk ! 6); (f, b) = Round c d e f g h a b 0x923f82a4 w6;
         w7 = BE32 (chunk ! 7); (e, a) = Round b c d e f g h a 0xab1c5ed5 w7;
         w8 = BE32 (chunk ! 8); (d, h) = Round a b c d e f g h 0xd807aa98 w8;
         w9 = BE32 (chunk ! 9); (c, g) = Round h a b c d e f g 0x12835b01 w9;
         w10 = BE32 (chunk ! 10); (b, f) = Round g h a b c d e f 0x243185be w10;
         w11 = BE32 (chunk ! 11); (a, e) = Round f g h a b c d e 0x550c7dc3 w11;
         w12 = BE32 (chunk ! 12); (h, d) = Round e f g h a b c d 0x72be5d74 w12;
         w13 = BE32 (chunk ! 13); (g, c) = Round d e f g h a b c 0x80deb1fe w13;
         w14 = BE32 (chunk ! 14); (f, b) = Round c d e f g h a b 0x9bdc06a7 w14;
         w15 = BE32 (chunk ! 15); (e, a) = Round b c d e f g h a 0xc19bf174 w15;
         w0 = w0 + (sigma1 w14 + w9 + sigma0 w1); (d, h) = Round a b c d e f g h 0xe49b69c1 w0;
         w1 = w1 + (sigma1 w15 + w10 + sigma0 w2); (c, g) = Round h a b c d e f g 0xefbe4786 w1;
         w2 = w2 + (sigma1 w0 + w11 + sigma0 w3); (b, f) = Round g h a b c d e f 0x0fc19dc6 w2;
         w3 = w3 + (sigma1 w1 + w12 + sigma0 w4); (a, e) = Round f g h a b c d e 0x240ca1cc w3;
         w4 = w4 + (sigma1 w2 + w13 + sigma0 w5); (h, d) = Round e f g h a b c d 0x2de92c6f w4;
         w5 = w5 + (sigma1 w3 + w14 + sigma0 w6); (g, c) = Round d e f g h a b c 0x4a7484aa w5;
         w6 = w6 + (sigma1 w4 + w15 + sigma0 w7); (f, b) = Round c d e f g h a b 0x5cb0a9dc w6;
         w7 = w7 + (sigma1 w5 + w0 + sigma0 w8); (e, a) = Round b c d e f g h a 0x76f988da w7;
         w8 = w8 + (sigma1 w6 + w1 + sigma0 w9); (d, h) = Round a b c d e f g h 0x983e5152 w8;
         w9 = w9 + (sigma1 w7 + w2 + sigma0 w10); (c, g) = Round h a b c d e f g 0xa831c66d w9;
         w10 = w10 + (sigma1 w8 + w3 + sigma0 w11); (b, f) = Round g h a b c d e f 0xb00327c8 w10;
         w11 = w11 + (sigma1 w9 + w4 + sigma0 w12); (a, e) = Round f g h a b c d e 0xbf597fc7 w11;
         w12 = w12 + (sigma1 w10 + w5 + sigma0 w13); (h, d) = Round e f g h a b c d 0xc6e00bf3 w12;
         w13 = w13 + (sigma1 w11 + w6 + sigma0 w14); (g, c) = Round d e f g h a b c 0xd5a79147 w13;
         w14 = w14 + (sigma1 w12 + w7 + sigma0 w15); (f, b) = Round c d e f g h a b 0x06ca6351 w14;
         w15 = w15 + (sigma1 w13 + w8 + sigma0 w0); (e, a) = Round b c d e f g h a 0x14292967 w15;
         w0 = w0 + (sigma1 w14 + w9 + sigma0 w1); (d, h) = Round a b c d e f g h 0x27b70a85 w0;
         w1 = w1 + (sigma1 w15 + w10 + sigma0 w2); (c, g) = Round h a b c d e f g 0x2e1b2138 w1;
         w2 = w2 + (sigma1 w0 + w11 + sigma0 w3); (b, f) = Round g h a b c d e f 0x4d2c6dfc w2;
         w3 = w3 + (sigma1 w1 + w12 + sigma0 w4); (a, e) = Round f g h a b c d e 0x53380d13 w3;
         w4 = w4 + (sigma1 w2 + w13 + sigma0 w5); (h, d) = Round e f g h a b c d 0x650a7354 w4;
         w5 = w5 + (sigma1 w3 + w14 + sigma0 w6); (g, c) = Round d e f g h a b c 0x766a0abb w5;
         w6 = w6 + (sigma1 w4 + w15 + sigma0 w7); (f, b) = Round c d e f g h a b 0x81c2c92e w6;
         w7 = w7 + (sigma1 w5 + w0 + sigma0 w8); (e, a) = Round b c d e f g h a 0x92722c85 w7;
         w8 = w8 + (sigma1 w6 + w1 + sigma0 w9); (d, h) = Round a b c d e f g h 0xa2bfe8a1 w8;
         w9 = w9 + (sigma1 w7 + w2 + sigma0 w10); (c, g) = Round h a b c d e f g 0xa81a664b w9;
         w10 = w10 + (sigma1 w8 + w3 + sigma0 w11); (b, f) = Round g h a b c d e f 0xc24b8b70 w10;
         w11 = w11 + (sigma1 w9 + w4 + sigma0 w12); (a, e) = Round f g h a b c d e 0xc76c51a3 w11;
         w12 = w12 + (sigma1 w10 + w5 + sigma0 w13); (h, d) = Round e f g h a b c d 0xd192e819 w12;
         w13 = w13 + (sigma1 w11 + w6 + sigma0 w14); (g, c) = Round d e f g h a b c 0xd6990624 w13;
         w14 = w14 + (sigma1 w12 + w7 + sigma0 w15); (f, b) = Round c d e f g h a b 0xf40e3585 w14;
         w15 = w15 + (sigma1 w13 + w8 + sigma0 w0); (e, a) = Round b c d e f g h a 0x106aa070 w15;
         w0 = w0 + (sigma1 w14 + w9 + sigma0 w1); (d, h) = Round a b c d e f g h 0x19a4c116 w0;
         w1 = w1 + (sigma1 w15 + w10 + sigma0 w2); (c, g) = Round h a b c d e f g 0x1e376c08 w1;
         w2 = w2 + (sigma1 w0 + w11 + sigma0 w3); (b, f) = Round g h a b c d e f 0x2748774c w2;
         w3 = w3 + (sigma1 w1 + w12 + sigma0 w4); (a, e) = Round f g h a b c d e 0x34b0bcb5 w3;
         w4 = w4 + (sigma1 w2 + w13 + sigma0 w5); (h, d) = Round e f g h a b c d 0x391c0cb3 w4;
         w5 = w5 + (sigma1 w3 + w14 + sigma0 w6); (g, c) = Round d e f g h a b c 0x4ed8aa4a w5;
         w6 = w6 + (sigma1 w4 + w15 + sigma0 w7); (f, b) = Round c d e f g h a b 0x5b9cca4f w6;
         w7 = w7 + (sigma1 w5 + w0 + sigma0 w8); (e, a) = Round b c d e f g h a 0x682e6ff3 w7;
         w8 = w8 + (sigma1 w6 + w1 + sigma0 w9); (d, h) = Round a b c d e f g h 0x748f82ee w8;
         w9 = w9 + (sigma1 w7 + w2 + sigma0 w10); (c, g) = Round h a b c d e f g 0x78a5636f w9;
         w10 = w10 + (sigma1 w8 + w3 + sigma0 w11); (b, f) = Round g h a b c d e f 0x84c87814 w10;
         w11 = w11 + (sigma1 w9 + w4 + sigma0 w12); (a, e) = Round f g h a b c d e 0x8cc70208 w11;
         w12 = w12 + (sigma1 w10 + w5 + sigma0 w13); (h, d) = Round e f g h a b c d 0x90befffa w12;
         w13 = w13 + (sigma1 w11 + w6 + sigma0 w14); (g, c) = Round d e f g h a b c 0xa4506ceb w13;
         (f, b) = Round c d e f g h a b 0xbef9a3f7 (w14 + sigma1 w12 + w7 + sigma0 w15);
         (e, a) = Round b c d e f g h a 0xc67178f2 (w15 + sigma1 w13 + w8 + sigma0 w0)
     in [s ! 0 + a, s ! 1 + b, s ! 2 + c, s ! 3 + d, s ! 4 + e, s ! 5 + f, s ! 6 + g, s ! 7 + h])"

section \<open>Writing and finalizing\<close>

text \<open>\<^verbatim>\<open>memcpy\<close> into a buffer at an offset.\<close>

definition memcpy_at :: "'a list \<Rightarrow> nat \<Rightarrow> 'a list \<Rightarrow> 'a list" where
  "memcpy_at buf n d = take n buf @ d @ drop (n + length d) buf"

function sha256_write_loop :: "nat \<Rightarrow> u8 list \<Rightarrow> u32 list \<Rightarrow> u8 list \<Rightarrow> nat \<times> u8 list \<times> u32 list \<times> u8 list" where
  "sha256_write_loop bufsize data s buf = (
     if bufsize + length data \<ge> 64 then
       let chunk_len = 64 - bufsize;
           buf = memcpy_at buf bufsize (take chunk_len data);
           data = drop chunk_len data;
           s = secp256k1_sha256_transform s (le_words buf)
       in sha256_write_loop 0 data s buf
     else (bufsize, data, s, buf))"
  by pat_completeness auto

termination
  by (relation "measure (\<lambda>(bufsize, data, s, buf). length data + bufsize)") auto

declare sha256_write_loop.simps [simp del]

definition secp256k1_sha256_write :: "secp256k1_sha256 \<Rightarrow> u8 list \<Rightarrow> secp256k1_sha256" where
  "secp256k1_sha256_write hash data = (
     let bufsize = unat (sha_bytes hash AND 0x3F);
         bytes = sha_bytes hash + of_nat (length data);
         (bufsize, data, s, buf) = sha256_write_loop bufsize data (sha_s hash) (sha_buf hash);
         buf = (if length data \<noteq> 0 then memcpy_at buf bufsize data else buf)
     in hash \<lparr>sha_s := s, sha_buf := buf, sha_bytes := bytes\<rparr>)"

text \<open>The result: the digest and the state left behind, whose words are cleared.\<close>

definition secp256k1_sha256_finalize :: "secp256k1_sha256 \<Rightarrow> u8 list \<times> secp256k1_sha256" where
  "secp256k1_sha256_finalize hash = (
     let pad = 0x80 # replicate 63 0;
         sizedesc = [BE32 (ucast (drop_bit 29 (sha_bytes hash))), BE32 (ucast (push_bit 3 (sha_bytes hash)))];
         hash = secp256k1_sha256_write hash (take (1 + ((119 - unat (sha_bytes hash mod 64)) mod 64)) pad);
         hash = secp256k1_sha256_write hash (concat (map word_bytes sizedesc));
         out = map BE32 (sha_s hash)
     in (concat (map word_bytes out), hash \<lparr>sha_s := replicate 8 0\<rparr>))"

text \<open>
  The pattern of every client: a local context, \<^verbatim>\<open>initialize\<close>, some \<^verbatim>\<open>write\<close>s,
  \<^verbatim>\<open>finalize\<close>. What the local holds before is immaterial (proved below); it starts out zero.
\<close>

definition sha256_local :: secp256k1_sha256 where
  "sha256_local = \<lparr>sha_s = replicate 8 0, sha_buf = replicate 64 0, sha_bytes = 0\<rparr>"

definition sha256_parts :: "u8 list list \<Rightarrow> u8 list" where
  "sha256_parts parts =
     fst (secp256k1_sha256_finalize
       (fold (\<lambda>d sha. secp256k1_sha256_write sha d) parts (secp256k1_sha256_initialize sha256_local)))"

section \<open>HMAC\<close>

definition secp256k1_hmac_sha256_initialize :: "secp256k1_hmac_sha256 \<Rightarrow> secp256k1_sha256 \<Rightarrow> u8 list \<Rightarrow> secp256k1_hmac_sha256" where
  "secp256k1_hmac_sha256_initialize hash sha256 key = (
     let rkey = (if length key \<le> 64 then key @ replicate (64 - length key) 0
                 else
                   let sha256 = secp256k1_sha256_initialize sha256;
                       sha256 = secp256k1_sha256_write sha256 key
                   in fst (secp256k1_sha256_finalize sha256) @ replicate 32 0);
         outer = secp256k1_sha256_initialize (hmac_outer hash);
         rkey = map (\<lambda>b. b XOR 0x5c) rkey;
         outer = secp256k1_sha256_write outer rkey;
         inner = secp256k1_sha256_initialize (hmac_inner hash);
         rkey = map (\<lambda>b. b XOR (0x5c XOR 0x36)) rkey;
         inner = secp256k1_sha256_write inner rkey
     in \<lparr>hmac_inner = inner, hmac_outer = outer\<rparr>)"

definition secp256k1_hmac_sha256_write :: "secp256k1_hmac_sha256 \<Rightarrow> u8 list \<Rightarrow> secp256k1_hmac_sha256" where
  "secp256k1_hmac_sha256_write hash data = hash \<lparr>hmac_inner := secp256k1_sha256_write (hmac_inner hash) data\<rparr>"

definition secp256k1_hmac_sha256_finalize :: "secp256k1_hmac_sha256 \<Rightarrow> u8 list \<times> secp256k1_hmac_sha256" where
  "secp256k1_hmac_sha256_finalize hash = (
     let (temp, inner) = secp256k1_sha256_finalize (hmac_inner hash);
         outer = secp256k1_sha256_write (hmac_outer hash) temp;
         (out32, outer) = secp256k1_sha256_finalize outer
     in (out32, \<lparr>hmac_inner = inner, hmac_outer = outer\<rparr>))"

text \<open>
  The local contexts \<^verbatim>\<open>hmac\<close> and \<^verbatim>\<open>sha256\<close> of the generator are not initialized by their
  declarations; what they hold before is the argument \<open>g\<close>.
\<close>

type_synonym hmac_garbage = "secp256k1_hmac_sha256 \<times> secp256k1_sha256"

definition hmac_parts :: "hmac_garbage \<Rightarrow> u8 list \<Rightarrow> u8 list list \<Rightarrow> u8 list" where
  "hmac_parts g key parts = (
     let hmac = secp256k1_hmac_sha256_initialize (fst g) (snd g) key;
         hmac = fold (\<lambda>d h. secp256k1_hmac_sha256_write h d) parts hmac
     in fst (secp256k1_hmac_sha256_finalize hmac))"

definition secp256k1_rfc6979_hmac_sha256_initialize :: "hmac_garbage \<Rightarrow> u8 list \<Rightarrow> secp256k1_rfc6979_hmac_sha256" where
  "secp256k1_rfc6979_hmac_sha256_initialize g key = (
     let v = replicate 32 0x01;
         k = replicate 32 0x00;
         k = hmac_parts g k [v, [0x00], key];
         v = hmac_parts g k [v];
         k = hmac_parts g k [v, [0x01], key];
         v = hmac_parts g k [v]
     in \<lparr>rng_v = v, rng_k = k, rng_retry = False\<rparr>)"

text \<open>The output loop: the bytes written and the last \<^verbatim>\<open>v\<close>.\<close>

function rfc6979_generate_loop :: "hmac_garbage \<Rightarrow> u8 list \<Rightarrow> u8 list \<Rightarrow> nat \<Rightarrow> u8 list \<times> u8 list" where
  "rfc6979_generate_loop g k v outlen = (
     if outlen > 0 then
       let now = outlen;
           v = hmac_parts g k [v];
           now = (if now > 32 then 32 else now);
           (out, v') = rfc6979_generate_loop g k v (outlen - now)
       in (take now v @ out, v')
     else ([], v))"
  by pat_completeness auto

termination
  by (relation "measure (\<lambda>(g, k, v, outlen). outlen)") auto

declare rfc6979_generate_loop.simps [simp del]

definition secp256k1_rfc6979_hmac_sha256_generate ::
    "hmac_garbage \<Rightarrow> secp256k1_rfc6979_hmac_sha256 \<Rightarrow> nat \<Rightarrow> u8 list \<times> secp256k1_rfc6979_hmac_sha256" where
  "secp256k1_rfc6979_hmac_sha256_generate g rng outlen = (
     let (k, v) = (if rng_retry rng then
                     let k = hmac_parts g (rng_k rng) [rng_v rng, [0x00]];
                         v = hmac_parts g k [rng_v rng]
                     in (k, v)
                   else (rng_k rng, rng_v rng));
         (out, v) = rfc6979_generate_loop g k v outlen
     in (out, \<lparr>rng_v = v, rng_k = k, rng_retry = True\<rparr>))"

definition secp256k1_rfc6979_hmac_sha256_finalize :: "secp256k1_rfc6979_hmac_sha256 \<Rightarrow> secp256k1_rfc6979_hmac_sha256" where
  "secp256k1_rfc6979_hmac_sha256_finalize rng = \<lparr>rng_v = replicate 32 0, rng_k = replicate 32 0, rng_retry = False\<rparr>"

end
