(* ===== verification/Ecmult_Gen.thy ===== *)
theory Ecmult_Gen
  imports Group Scalar_Shift Hash
begin

text \<open>
  Translation of \<^verbatim>\<open>ecmult_gen_impl.h\<close>: multiplication of the base point with a precomputed
  table and a blinded scalar. The pointer \<^verbatim>\<open>prec\<close> is an option, the table a list of 64 rows of
  16 stored points. The table itself is the one \<^verbatim>\<open>secp256k1_ecmult_gen_context_build\<close>
  computes (and \<^verbatim>\<open>gen_context.c\<close> writes out).
\<close>

record secp256k1_ecmult_gen_context =
  gen_prec :: "secp256k1_ge_storage list list option"
  gen_blind :: secp256k1_scalar
  gen_initial :: secp256k1_gej

definition secp256k1_ecmult_gen_context_init :: "secp256k1_ecmult_gen_context \<Rightarrow> secp256k1_ecmult_gen_context" where
  "secp256k1_ecmult_gen_context_init ctx = ctx\<lparr>gen_prec := None\<rparr>"

definition secp256k1_ecmult_gen_context_is_built :: "secp256k1_ecmult_gen_context \<Rightarrow> bool" where
  "secp256k1_ecmult_gen_context_is_built ctx \<longleftrightarrow> gen_prec ctx \<noteq> None"

definition secp256k1_ecmult_gen_context_clear :: "secp256k1_ecmult_gen_context \<Rightarrow> secp256k1_ecmult_gen_context" where
  "secp256k1_ecmult_gen_context_clear ctx =
     ctx\<lparr>gen_blind := secp256k1_scalar_clear, gen_initial := secp256k1_gej_clear, gen_prec := None\<rparr>"

section \<open>Multiplication\<close>

definition ecmult_gen_lookup :: "secp256k1_ge_storage list \<Rightarrow> nat \<Rightarrow> secp256k1_ge_storage \<Rightarrow> secp256k1_ge_storage" where
  "ecmult_gen_lookup row bits adds =
     fold (\<lambda>i adds. secp256k1_ge_storage_cmov adds (row ! i) (i = bits)) [0 ..< 16] adds"

definition ecmult_gen_step ::
    "secp256k1_ge_storage list list \<Rightarrow> secp256k1_scalar \<Rightarrow> nat \<Rightarrow> secp256k1_gej \<times> secp256k1_ge_storage \<Rightarrow>
     secp256k1_gej \<times> secp256k1_ge_storage" where
  "ecmult_gen_step prec gnb j = (\<lambda>(r, adds).
     let bits = secp256k1_scalar_get_bits gnb (j * 4) 4;
         adds = ecmult_gen_lookup (prec ! j) (unat bits) adds;
         add = secp256k1_ge_from_storage adds
     in (secp256k1_gej_add_ge r add, adds))"

definition secp256k1_ecmult_gen :: "secp256k1_ecmult_gen_context \<Rightarrow> secp256k1_scalar \<Rightarrow> secp256k1_gej option" where
  "secp256k1_ecmult_gen ctx gn =
     (case gen_prec ctx of
        None \<Rightarrow> None
      | Some prec \<Rightarrow>
          let zero = \<lparr>fs0 = 0, fs1 = 0, fs2 = 0, fs3 = 0\<rparr>;
              adds = \<lparr>ges_x = zero, ges_y = zero\<rparr>;
              r = gen_initial ctx;
              gnb = snd (secp256k1_scalar_add gn (gen_blind ctx))
          in Some (fst (fold (ecmult_gen_step prec gnb) [0 ..< 64] (r, adds))))"

section \<open>Blinding\<close>

text \<open>
  The two retry loops draw from the generator until the value is in range; the fuel bounds the
  number of draws, \<^const>\<open>None\<close> stands for a loop that has not ended by then.
\<close>

fun gen_blind_draw_fe ::
    "nat \<Rightarrow> hmac_garbage \<Rightarrow> secp256k1_rfc6979_hmac_sha256 \<Rightarrow> (secp256k1_fe \<times> secp256k1_rfc6979_hmac_sha256) option" where
  "gen_blind_draw_fe 0 g rng = None"
| "gen_blind_draw_fe (Suc fuel) g rng = (
     let (nonce32, rng) = secp256k1_rfc6979_hmac_sha256_generate g rng 32;
         (ok, s) = secp256k1_fe_set_b32 nonce32;
         retry = (\<not> ok);
         retry = (retry \<or> secp256k1_fe_is_zero s)
     in if retry then gen_blind_draw_fe fuel g rng else Some (s, rng))"

fun gen_blind_draw_scalar ::
    "nat \<Rightarrow> hmac_garbage \<Rightarrow> secp256k1_rfc6979_hmac_sha256 \<Rightarrow> (secp256k1_scalar \<times> secp256k1_rfc6979_hmac_sha256) option" where
  "gen_blind_draw_scalar 0 g rng = None"
| "gen_blind_draw_scalar (Suc fuel) g rng = (
     let (nonce32, rng) = secp256k1_rfc6979_hmac_sha256_generate g rng 32;
         (b, retry) = secp256k1_scalar_set_b32 nonce32;
         retry = (retry \<or> secp256k1_scalar_is_zero b)
     in if retry then gen_blind_draw_scalar fuel g rng else Some (b, rng))"

definition secp256k1_ecmult_gen_blind ::
    "nat \<Rightarrow> hmac_garbage \<Rightarrow> secp256k1_ecmult_gen_context \<Rightarrow> u8 list option \<Rightarrow> secp256k1_ecmult_gen_context option" where
  "secp256k1_ecmult_gen_blind fuel g ctx seed32 = (
     let ctx = (case seed32 of
                  None \<Rightarrow> ctx\<lparr>gen_initial := secp256k1_gej_neg (secp256k1_gej_set_ge secp256k1_ge_const_g),
                              gen_blind := secp256k1_scalar_set_int 1\<rparr>
                | Some _ \<Rightarrow> ctx);
         nonce32 = secp256k1_scalar_get_b32 (gen_blind ctx);
         keydata = nonce32 @ (case seed32 of None \<Rightarrow> [] | Some seed \<Rightarrow> seed);
         rng = secp256k1_rfc6979_hmac_sha256_initialize g keydata
     in case gen_blind_draw_fe fuel g rng of
          None \<Rightarrow> None
        | Some (s, rng) \<Rightarrow>
            let ctx = ctx\<lparr>gen_initial := secp256k1_gej_rescale (gen_initial ctx) s\<rparr>
            in case gen_blind_draw_scalar fuel g rng of
                 None \<Rightarrow> None
               | Some (b, rng) \<Rightarrow>
                   (case secp256k1_ecmult_gen ctx b of
                      None \<Rightarrow> None
                    | Some gb \<Rightarrow> Some (ctx\<lparr>gen_blind := secp256k1_scalar_negate b, gen_initial := gb\<rparr>)))"

section \<open>The table\<close>

definition nums_b32 :: "u8 list" where
  "nums_b32 = map of_nat [0x54, 0x68, 0x65, 0x20, 0x73, 0x63, 0x61, 0x6c, 0x61, 0x72, 0x20, 0x66, 0x6f, 0x72, 0x20, 0x74,
     0x68, 0x69, 0x73, 0x20, 0x78, 0x20, 0x69, 0x73, 0x20, 0x75, 0x6e, 0x6b, 0x6e, 0x6f, 0x77, 0x6e]"

definition gen_nums :: secp256k1_gej where
  "gen_nums = (
     let nums_x = snd (secp256k1_fe_set_b32 nums_b32);
         nums_ge = snd (secp256k1_ge_set_xo_var nums_x False);
         nums_gej = secp256k1_gej_set_ge nums_ge
     in fst (secp256k1_gej_add_ge_var nums_gej nums_gej secp256k1_ge_const_g))"

text \<open>One row: \<open>numsbase + i * gbase\<close> for \<open>i\<close> from 0 to 15.\<close>

definition gen_prec_row :: "secp256k1_gej \<Rightarrow> secp256k1_gej \<Rightarrow> nat \<Rightarrow> secp256k1_gej list \<Rightarrow> secp256k1_gej list" where
  "gen_prec_row gbase numsbase j precj = (
     let precj = precj[j * 16 := numsbase]
     in fold (\<lambda>i precj. precj[j * 16 + i := fst (secp256k1_gej_add_var (precj ! (j * 16 + i)) (precj ! (j * 16 + i - 1)) gbase)])
          [1 ..< 16] precj)"

definition gen_prec_step ::
    "secp256k1_gej \<Rightarrow> nat \<Rightarrow> secp256k1_gej list \<times> secp256k1_gej \<times> secp256k1_gej \<Rightarrow>
     secp256k1_gej list \<times> secp256k1_gej \<times> secp256k1_gej" where
  "gen_prec_step nums_gej j = (\<lambda>(precj, gbase, numsbase).
     let precj = gen_prec_row gbase numsbase j precj;
         gbase = ((\<lambda>g. fst (secp256k1_gej_double_var g g)) ^^ 4) gbase;
         numsbase = fst (secp256k1_gej_double_var numsbase numsbase);
         numsbase = (if j = 62 then
                       let numsbase = secp256k1_gej_neg numsbase
                       in fst (secp256k1_gej_add_var numsbase numsbase nums_gej)
                     else numsbase)
     in (precj, gbase, numsbase))"

definition gen_prec_table :: "secp256k1_ge_storage list list" where
  "gen_prec_table = (
     let gj = secp256k1_gej_set_ge secp256k1_ge_const_g;
         nums_gej = gen_nums;
         (precj, gbase, numsbase) =
           fold (gen_prec_step nums_gej) [0 ..< 64] (replicate 1024 secp256k1_gej_clear, gj, nums_gej);
         prec = secp256k1_ge_set_all_gej_var (replicate 1024 secp256k1_ge_clear) precj 1024
     in map (\<lambda>j. map (\<lambda>i. secp256k1_ge_to_storage (prec ! (j * 16 + i))) [0 ..< 16]) [0 ..< 64])"

definition secp256k1_ecmult_gen_context_build ::
    "nat \<Rightarrow> hmac_garbage \<Rightarrow> secp256k1_ecmult_gen_context \<Rightarrow> secp256k1_ecmult_gen_context option" where
  "secp256k1_ecmult_gen_context_build fuel g ctx =
     (if gen_prec ctx \<noteq> None then Some ctx
      else secp256k1_ecmult_gen_blind fuel g (ctx\<lparr>gen_prec := Some gen_prec_table\<rparr>) None)"

end
