(* ===== verification/Generator.thy ===== *)
theory Generator
  imports Ecmult_Gen
begin

text \<open>
  Translation of \<^verbatim>\<open>modules/generator/main_impl.h\<close>: generators as 64 opaque bytes, their
  33-byte serialization, and the hash to the curve. A failing \<^verbatim>\<open>CHECK\<close> aborts the process:
  the functions that contain one return an option, \<^const>\<open>None\<close> for the abort. Null pointers are
  not modelled.
\<close>

record secp256k1_generator =
  generator_data :: "u8 list"

definition secp256k1_generator_const_g :: secp256k1_generator where
  "secp256k1_generator_const_g = \<lparr>generator_data = map of_nat [
    0x79, 0xbe, 0x66, 0x7e, 0xf9, 0xdc, 0xbb, 0xac, 0x55, 0xa0, 0x62, 0x95, 0xce, 0x87, 0x0b, 0x07,
    0x02, 0x9b, 0xfc, 0xdb, 0x2d, 0xce, 0x28, 0xd9, 0x59, 0xf2, 0x81, 0x5b, 0x16, 0xf8, 0x17, 0x98,
    0x48, 0x3a, 0xda, 0x77, 0x26, 0xa3, 0xc4, 0x65, 0x5d, 0xa4, 0xfb, 0xfc, 0x0e, 0x11, 0x08, 0xa8,
    0xfd, 0x17, 0xb4, 0x48, 0xa6, 0x85, 0x54, 0x19, 0x9c, 0x47, 0xd0, 0x8f, 0xfb, 0x10, 0xd4, 0xb8]\<rparr>"

definition secp256k1_generator_const_h :: secp256k1_generator where
  "secp256k1_generator_const_h = \<lparr>generator_data = map of_nat [
    0x50, 0x92, 0x9b, 0x74, 0xc1, 0xa0, 0x49, 0x54, 0xb7, 0x8b, 0x4b, 0x60, 0x35, 0xe9, 0x7a, 0x5e,
    0x07, 0x8a, 0x5a, 0x0f, 0x28, 0xec, 0x96, 0xd5, 0x47, 0xbf, 0xee, 0x9a, 0xce, 0x80, 0x3a, 0xc0,
    0x31, 0xd3, 0xc6, 0x86, 0x39, 0x73, 0x92, 0x6e, 0x04, 0x9e, 0x63, 0x7c, 0xb1, 0xb5, 0xf4, 0x0a,
    0x36, 0xda, 0xc2, 0x8a, 0xf1, 0x76, 0x69, 0x68, 0xc3, 0x0c, 0x23, 0x13, 0xf3, 0xa3, 0x89, 0x04]\<rparr>"

definition secp256k1_generator_load :: "secp256k1_generator \<Rightarrow> secp256k1_ge" where
  "secp256k1_generator_load gen =
     \<lparr>ge_x = snd (secp256k1_fe_set_b32 (generator_data gen)),
      ge_y = snd (secp256k1_fe_set_b32 (drop 32 (generator_data gen))),
      ge_infinity = False\<rparr>"

definition secp256k1_generator_save :: "secp256k1_ge \<Rightarrow> secp256k1_generator" where
  "secp256k1_generator_save ge = (
     let x = secp256k1_fe_normalize_var (ge_x ge);
         y = secp256k1_fe_normalize_var (ge_y ge)
     in \<lparr>generator_data = secp256k1_fe_get_b32 x @ secp256k1_fe_get_b32 y\<rparr>)"

text \<open>\<^const>\<open>None\<close> is the return value 0, with which \<^verbatim>\<open>gen\<close> is not written.\<close>

definition secp256k1_generator_parse :: "u8 list \<Rightarrow> secp256k1_generator option" where
  "secp256k1_generator_parse input =
     (if input ! 0 AND 0xFE \<noteq> 10 then None
      else case secp256k1_fe_set_b32 (drop 1 input) of (ok, x) \<Rightarrow>
        if \<not> ok then None
        else case secp256k1_ge_set_xquad x of (ok, ge) \<Rightarrow>
          if \<not> ok then None
          else
            let ge = (if input ! 0 AND 1 \<noteq> 0 then secp256k1_ge_neg ge else ge)
            in Some (secp256k1_generator_save ge))"

definition secp256k1_generator_serialize :: "secp256k1_generator \<Rightarrow> u8 list" where
  "secp256k1_generator_serialize gen = (
     let ge = secp256k1_generator_load gen;
         output0 = 11 XOR of_bool (secp256k1_fe_is_quad_var (ge_y ge));
         x = secp256k1_fe_normalize_var (ge_x ge)
     in output0 # secp256k1_fe_get_b32 x)"

section \<open>Hashing to the curve\<close>

definition svdw_c :: secp256k1_fe where
  "svdw_c = SECP256K1_FE_CONST 0x0a2d2ba9 0x3507f1df 0x233770c2 0xa797962c 0xc61f6d15 0xda14ecd4 0x7d8d27ae 0x1cd5f852"

definition svdw_d :: secp256k1_fe where
  "svdw_d = SECP256K1_FE_CONST 0x851695d4 0x9a83f8ef 0x919bb861 0x53cbcb16 0x630fb68a 0xed0a766a 0x3ec693d6 0x8e6afa40"

definition svdw_b :: secp256k1_fe where
  "svdw_b = SECP256K1_FE_CONST 0 0 0 0 0 0 0 7"

definition svdw_b_plus_one :: secp256k1_fe where
  "svdw_b_plus_one = SECP256K1_FE_CONST 0 0 0 0 0 0 0 8"

text \<open>The three candidates for x.\<close>

definition svdw_candidates :: "secp256k1_fe \<Rightarrow> secp256k1_fe \<times> secp256k1_fe \<times> secp256k1_fe" where
  "svdw_candidates t = (
     let wn = secp256k1_fe_mul svdw_c t;
         wd = secp256k1_fe_sqr t;
         wd = secp256k1_fe_add wd svdw_b_plus_one;
         tmp = secp256k1_fe_mul t wn;
         tmp = secp256k1_fe_negate tmp 1;
         x1n = secp256k1_fe_mul svdw_d wd;
         x1n = secp256k1_fe_add x1n tmp;
         x2n = x1n;
         x2n = secp256k1_fe_add x2n wd;
         x2n = secp256k1_fe_negate x2n 5;
         x3d = secp256k1_fe_mul svdw_c t;
         x3d = secp256k1_fe_sqr x3d;
         x3n = secp256k1_fe_sqr wd;
         x3n = secp256k1_fe_add x3n x3d;
         jinv = secp256k1_fe_mul x3d wd;
         jinv = secp256k1_fe_inv jinv;
         x1 = secp256k1_fe_mul x1n x3d;
         x1 = secp256k1_fe_mul x1 jinv;
         x2 = secp256k1_fe_mul x2n x3d;
         x2 = secp256k1_fe_mul x2 jinv;
         x3 = secp256k1_fe_mul x3n wd;
         x3 = secp256k1_fe_mul x3 jinv
     in (x1, x2, x3))"

text \<open>The right-hand side of the curve equation at a candidate.\<close>

definition svdw_rhs :: "secp256k1_fe \<Rightarrow> secp256k1_fe" where
  "svdw_rhs x = (
     let r = secp256k1_fe_sqr x;
         r = secp256k1_fe_mul r x
     in secp256k1_fe_add r svdw_b)"

definition shallue_van_de_woestijne :: "secp256k1_fe \<Rightarrow> secp256k1_ge" where
  "shallue_van_de_woestijne t = (
     let (x1, x2, x3) = svdw_candidates t;
         alphain = svdw_rhs x1;
         betain = svdw_rhs x2;
         gammain = svdw_rhs x3;
         (alphaquad, y1) = secp256k1_fe_sqrt alphain;
         (betaquad, y2) = secp256k1_fe_sqrt betain;
         (_, y3) = secp256k1_fe_sqrt gammain;
         x1 = secp256k1_fe_cmov x1 x2 (\<not> alphaquad \<and> betaquad);
         y1 = secp256k1_fe_cmov y1 y2 (\<not> alphaquad \<and> betaquad);
         x1 = secp256k1_fe_cmov x1 x3 (\<not> alphaquad \<and> \<not> betaquad);
         y1 = secp256k1_fe_cmov y1 y3 (\<not> alphaquad \<and> \<not> betaquad);
         ge = secp256k1_ge_set_xy x1 y1;
         tmp = secp256k1_fe_negate (ge_y ge) 1
     in ge\<lparr>ge_y := secp256k1_fe_cmov (ge_y ge) tmp (secp256k1_fe_is_odd t)\<rparr>)"

definition generation_prefix1 :: "u8 list" where
  "generation_prefix1 = map of_nat [0x31, 0x73, 0x74, 0x20, 0x67, 0x65, 0x6e, 0x65, 0x72, 0x61, 0x74, 0x69, 0x6f, 0x6e, 0x3a, 0x20]"

definition generation_prefix2 :: "u8 list" where
  "generation_prefix2 = map of_nat [0x32, 0x6e, 0x64, 0x20, 0x67, 0x65, 0x6e, 0x65, 0x72, 0x61, 0x74, 0x69, 0x6f, 0x6e, 0x3a, 0x20]"

text \<open>
  \<^const>\<open>None\<close> is the abort by \<^verbatim>\<open>CHECK\<close>; otherwise the return value and the generator. The
  argument \<open>blind32\<close> is \<^const>\<open>None\<close> for a null pointer.
\<close>

definition secp256k1_generator_generate_internal ::
    "secp256k1_ecmult_gen_context \<Rightarrow> u8 list \<Rightarrow> u8 list option \<Rightarrow> (bool \<times> secp256k1_generator) option" where
  "secp256k1_generator_generate_internal ctx key32 blind32 = (
     case (case blind32 of
             None \<Rightarrow> Some (True, secp256k1_gej_clear)
           | Some b \<Rightarrow>
               let (blind, overflow) = secp256k1_scalar_set_b32 b;
                   ret = (\<not> overflow)
               in if \<not> ret then None
                  else case secp256k1_ecmult_gen ctx blind of None \<Rightarrow> None | Some accum \<Rightarrow> Some (ret, accum)) of
       None \<Rightarrow> None
     | Some (ret, accum) \<Rightarrow>
         let b32 = sha256_parts [generation_prefix1, take 32 key32];
             (ok, t) = secp256k1_fe_set_b32 b32;
             ret = (ret \<and> ok)
         in if \<not> ret then None
            else
              let add = shallue_van_de_woestijne t;
                  accum = (case blind32 of
                             Some _ \<Rightarrow> secp256k1_gej_add_ge accum add
                           | None \<Rightarrow> secp256k1_gej_set_ge add);
                  b32 = sha256_parts [generation_prefix2, take 32 key32];
                  (ok, t) = secp256k1_fe_set_b32 b32;
                  ret = (ret \<and> ok)
              in if \<not> ret then None
                 else
                   let add = shallue_van_de_woestijne t;
                       accum = secp256k1_gej_add_ge accum add;
                       add = fst (secp256k1_ge_set_gej accum)
                   in Some (ret, secp256k1_generator_save add))"

definition secp256k1_generator_generate ::
    "secp256k1_ecmult_gen_context \<Rightarrow> u8 list \<Rightarrow> (bool \<times> secp256k1_generator) option" where
  "secp256k1_generator_generate ctx key32 = secp256k1_generator_generate_internal ctx key32 None"

text \<open>A failing argument check returns 0 and leaves the generator unwritten: \<open>Inl\<close>.\<close>

definition secp256k1_generator_generate_blinded ::
    "secp256k1_ecmult_gen_context \<Rightarrow> u8 list \<Rightarrow> u8 list \<Rightarrow> (unit + bool \<times> secp256k1_generator) option" where
  "secp256k1_generator_generate_blinded ctx key32 blind32 =
     (if \<not> secp256k1_ecmult_gen_context_is_built ctx then Some (Inl ())
      else case secp256k1_generator_generate_internal ctx key32 (Some blind32) of
             None \<Rightarrow> None
           | Some r \<Rightarrow> Some (Inr r))"

end
