(* ===== verification/Ecmult_Const.thy ===== *)
theory Ecmult_Const
  imports Group Scalar_Shift
begin

text \<open>
  Translation of \<^verbatim>\<open>ecmult_const_impl.h\<close> and of the tables of odd multiples of
  \<^verbatim>\<open>ecmult_impl.h\<close> (without \<^verbatim>\<open>USE_ENDOMORPHISM\<close>), and of the Pedersen commitments of
  \<^verbatim>\<open>commitment/pedersen_impl.h\<close>. The digits and counters are C \<^verbatim>\<open>int\<close>s; they are kept as
  integers, and \<^verbatim>\<open>wnaf\<close> is the list of the words written so far. Automatic variables the C code
  leaves uninitialised start out cleared; none of them is read before it is written.
\<close>

section \<open>Window parameters\<close>

definition WINDOW_A :: nat where
  "WINDOW_A = 5"

definition WNAF_SIZE_BITS :: "nat \<Rightarrow> nat \<Rightarrow> nat" where
  "WNAF_SIZE_BITS bits w = (bits + w - 1) div w"

definition ECMULT_TABLE_SIZE :: "nat \<Rightarrow> nat" where
  "ECMULT_TABLE_SIZE w = 2 ^ (w - 2)"

section \<open>Odd multiples\<close>

definition odd_multiples_step ::
    "secp256k1_ge \<Rightarrow> nat \<Rightarrow> secp256k1_gej list \<times> secp256k1_fe list \<Rightarrow> secp256k1_gej list \<times> secp256k1_fe list" where
  "odd_multiples_step d_ge i = (\<lambda>(prej, zr).
     case secp256k1_gej_add_ge_var (prej ! i) (prej ! (i - 1)) d_ge of
       (r, rzr) \<Rightarrow> (prej[i := r], case rzr of None \<Rightarrow> zr | Some z \<Rightarrow> zr[i := z]))"

definition secp256k1_ecmult_odd_multiples_table ::
    "nat \<Rightarrow> secp256k1_gej list \<Rightarrow> secp256k1_fe list \<Rightarrow> secp256k1_gej \<Rightarrow> secp256k1_gej list \<times> secp256k1_fe list" where
  "secp256k1_ecmult_odd_multiples_table n prej zr a = (
     let d = fst (secp256k1_gej_double_var secp256k1_gej_clear a);
         d_ge = \<lparr>ge_x = gej_x d, ge_y = gej_y d, ge_infinity = False\<rparr>;
         a_ge = secp256k1_ge_set_gej_zinv a (gej_z d);
         prej = prej[0 := \<lparr>gej_x = ge_x a_ge, gej_y = ge_y a_ge, gej_z = gej_z a, gej_infinity = False\<rparr>];
         zr = zr[0 := gej_z d];
         (prej, zr) = fold (odd_multiples_step d_ge) [1 ..< n] (prej, zr);
         prej = prej[n - 1 := (prej ! (n - 1))\<lparr>gej_z := secp256k1_fe_mul (gej_z (prej ! (n - 1))) (gej_z d)\<rparr>]
     in (prej, zr))"

definition secp256k1_ecmult_odd_multiples_table_globalz_windowa ::
    "secp256k1_gej \<Rightarrow> secp256k1_ge list \<times> secp256k1_fe" where
  "secp256k1_ecmult_odd_multiples_table_globalz_windowa a = (
     let n = ECMULT_TABLE_SIZE WINDOW_A;
         (prej, zr) = secp256k1_ecmult_odd_multiples_table n
            (replicate n secp256k1_gej_clear) (replicate n secp256k1_fe_clear) a
     in secp256k1_ge_globalz_set_table_gej n (replicate n secp256k1_ge_clear) secp256k1_fe_clear prej zr)"

section \<open>Constant-time table access\<close>

definition ECMULT_CONST_TABLE_GET_GE :: "secp256k1_ge \<Rightarrow> secp256k1_ge list \<Rightarrow> int \<Rightarrow> nat \<Rightarrow> secp256k1_ge" where
  "ECMULT_CONST_TABLE_GET_GE r pre n w = (
     let abs_n = n * (of_bool (n > 0) * 2 - 1);
         idx_n = abs_n div 2;
         r = fold (\<lambda>m r. r\<lparr>ge_x := secp256k1_fe_cmov (ge_x r) (ge_x (pre ! m)) (int m = idx_n),
                           ge_y := secp256k1_fe_cmov (ge_y r) (ge_y (pre ! m)) (int m = idx_n)\<rparr>)
               [0 ..< ECMULT_TABLE_SIZE w] r;
         r = r\<lparr>ge_infinity := False\<rparr>;
         neg_y = secp256k1_fe_negate (ge_y r) 1
     in r\<lparr>ge_y := secp256k1_fe_cmov (ge_y r) neg_y (n \<noteq> abs_n)\<rparr>)"

section \<open>The signed-digit representation\<close>

text \<open>
  One pass of the loop \<^verbatim>\<open>while (word * w < size)\<close>, with \<open>bits\<close> for \<^verbatim>\<open>size\<close>: it runs for \<^verbatim>\<open>word\<close> from 0 to
  \<open>WNAF_SIZE_BITS bits w - 1\<close>, writing one word each time. The state is the words written,
  the remaining scalar, \<^verbatim>\<open>u_last\<close> and \<^verbatim>\<open>u\<close>.
\<close>

definition wnaf_const_step ::
    "nat \<Rightarrow> int \<Rightarrow> int list \<times> secp256k1_scalar \<times> int \<times> int \<Rightarrow> int list \<times> secp256k1_scalar \<times> int \<times> int" where
  "wnaf_const_step w global_sign = (\<lambda>(wnaf, s, u_last, u).
     let (u, s) = secp256k1_scalar_shr_int s w;
         u = uint u;
         even = of_bool (u mod 2 = 0);
         sign = 2 * of_bool (u_last > 0) - 1;
         u = u + sign * even;
         u_last = u_last - sign * even * 2 ^ w
     in (wnaf @ [u_last * global_sign], s, u, u))"

definition secp256k1_wnaf_const :: "secp256k1_scalar \<Rightarrow> nat \<Rightarrow> nat \<Rightarrow> int \<times> int list" where
  "secp256k1_wnaf_const s w bits = (
     let flip = secp256k1_scalar_is_high s;
         bit = (flip \<noteq> (\<not> secp256k1_scalar_is_even s));
         neg_s = secp256k1_scalar_negate s;
         not_neg_one = (\<not> secp256k1_scalar_is_one neg_s);
         s = secp256k1_scalar_cadd_bit s (of_bool bit) not_neg_one;
         (global_sign, s) = secp256k1_scalar_cond_negate s flip;
         global_sign = global_sign * (of_bool not_neg_one * 2 - 1);
         skew = 2 ^ of_bool bit;
         (u_last, s) = secp256k1_scalar_shr_int s w;
         (wnaf, s, u_last, u) =
           (wnaf_const_step w global_sign ^^ WNAF_SIZE_BITS bits w) ([], s, uint u_last, 0)
     in (skew, wnaf @ [u * global_sign]))"

section \<open>Multiplication\<close>

definition ecmult_const_step ::
    "secp256k1_ge list \<Rightarrow> int list \<Rightarrow> nat \<Rightarrow> secp256k1_gej \<times> secp256k1_ge \<Rightarrow> secp256k1_gej \<times> secp256k1_ge" where
  "ecmult_const_step pre_a wnaf_1 i = (\<lambda>(r, tmpa).
     let r = ((\<lambda>r. fst (secp256k1_gej_double_nonzero r r)) ^^ (WINDOW_A - 1)) r;
         n = wnaf_1 ! i;
         tmpa = ECMULT_CONST_TABLE_GET_GE tmpa pre_a n WINDOW_A
     in (secp256k1_gej_add_ge r tmpa, tmpa))"

text \<open>The correction for the skew of the signed digits.\<close>

definition ecmult_const_correction :: "secp256k1_gej \<Rightarrow> secp256k1_ge \<Rightarrow> int \<Rightarrow> secp256k1_gej" where
  "ecmult_const_correction r a skew_1 = (
     let correction = a;
         tmpj = secp256k1_gej_set_ge correction;
         tmpj = fst (secp256k1_gej_double_var tmpj tmpj);
         correction = fst (secp256k1_ge_set_gej tmpj);
         correction_1_stor = secp256k1_ge_to_storage a;
         a2_stor = secp256k1_ge_to_storage correction;
         correction_1_stor = secp256k1_ge_storage_cmov correction_1_stor a2_stor (skew_1 = 2);
         correction = secp256k1_ge_from_storage correction_1_stor;
         correction = secp256k1_ge_neg correction
     in secp256k1_gej_add_ge r correction)"

definition secp256k1_ecmult_const :: "secp256k1_ge \<Rightarrow> secp256k1_scalar \<Rightarrow> nat \<Rightarrow> secp256k1_gej" where
  "secp256k1_ecmult_const a scalar bits = (
     let sc = scalar;
         rsize = bits;
         (skew_1, wnaf_1) = secp256k1_wnaf_const sc (WINDOW_A - 1) bits;
         r = secp256k1_gej_set_ge a;
         (pre_a, Z) = secp256k1_ecmult_odd_multiples_table_globalz_windowa r;
         pre_a = fold (\<lambda>i pre_a. pre_a[i := (pre_a ! i)\<lparr>ge_y := secp256k1_fe_normalize_weak (ge_y (pre_a ! i))\<rparr>])
                   [0 ..< ECMULT_TABLE_SIZE WINDOW_A] pre_a;
         i = wnaf_1 ! WNAF_SIZE_BITS rsize (WINDOW_A - 1);
         tmpa = ECMULT_CONST_TABLE_GET_GE secp256k1_ge_clear pre_a i WINDOW_A;
         r = secp256k1_gej_set_ge tmpa;
         (r, tmpa) = fold (ecmult_const_step pre_a wnaf_1) (rev [0 ..< WNAF_SIZE_BITS rsize (WINDOW_A - 1)]) (r, tmpa);
         r = r\<lparr>gej_z := secp256k1_fe_mul (gej_z r) Z\<rparr>
     in ecmult_const_correction r a skew_1)"

section \<open>Pedersen commitments\<close>

definition secp256k1_pedersen_ecmult ::
    "secp256k1_scalar \<Rightarrow> u64 \<Rightarrow> secp256k1_ge \<Rightarrow> secp256k1_ge \<Rightarrow> secp256k1_gej" where
  "secp256k1_pedersen_ecmult sec value value_gen blind_gen = (
     let vs = secp256k1_scalar_set_u64 value;
         rj = secp256k1_ecmult_const value_gen vs 64;
         bj = secp256k1_ecmult_const blind_gen sec 256
     in if \<not> secp256k1_gej_is_infinity bj then
          let bp = fst (secp256k1_ge_set_gej bj)
          in secp256k1_gej_add_ge rj bp
        else rj)"

definition secp256k1_pedersen_blind_ecmult ::
    "secp256k1_scalar \<Rightarrow> secp256k1_scalar \<Rightarrow> secp256k1_ge \<Rightarrow> secp256k1_ge \<Rightarrow> secp256k1_gej" where
  "secp256k1_pedersen_blind_ecmult sec value value_gen blind_gen = (
     let rj = secp256k1_ecmult_const value_gen value 256;
         bj = secp256k1_ecmult_const blind_gen sec 256
     in if \<not> secp256k1_gej_is_infinity bj then
          let bp = fst (secp256k1_ge_set_gej bj)
          in secp256k1_gej_add_ge rj bp
        else rj)"

end
