(* ===== verification/Ring.thy ===== *)
theory Ring
  imports Ecmult_Const Generator
begin

text \<open>
  Translation of \<^verbatim>\<open>modules/ringcip/ring_impl.h\<close>: contexts of generators, hidden values
  (\<^verbatim>\<open>cint\<close>), and the one-out-of-many proof that one commitment of a ring opens to zero, in
  its plain form and in the form with topics (DBPoE). The sizes and indices are C \<^verbatim>\<open>int\<close>s,
  here natural numbers: the products \<^verbatim>\<open>n * m\<close> and \<^verbatim>\<open>n^m\<close> are exact, as they are in C
  as long as they do not overflow. A proof is written from the start of the buffer without gaps;
  it is the list of the bytes written. A failing \<^verbatim>\<open>ARG_CHECK\<close> calls the illegal-argument
  callback and returns 0; it is told apart from a plain \<^verbatim>\<open>return 0\<close>. The random source is the
  static \<^verbatim>\<open>secp256k1_test_rng\<close> of the file, passed explicitly.
\<close>

section \<open>Data\<close>

record cint_st =
  cst_v :: u64
  cst_val :: secp256k1_scalar
  cst_key :: secp256k1_scalar

record cint_pt =
  cint_buf :: "u8 list"

record ringcip_context =
  rctx_L :: nat
  rctx_n :: nat
  rctx_m :: nat
  rctx_N :: nat
  rctx_multigen :: "secp256k1_generator list"
  rctx_geng :: secp256k1_generator
  rctx_genh :: secp256k1_generator
  rctx_genmu :: secp256k1_generator

record ringcip_DBPoE_context =
  dctx_L :: nat
  dctx_n :: nat
  dctx_m :: nat
  dctx_N :: nat
  dctx_multigen :: "secp256k1_generator list"
  dctx_geng :: "secp256k1_generator list"
  dctx_genh :: secp256k1_generator
  dctx_genmu :: secp256k1_generator
  dctx_topics :: "u8 list"
  dctx_topic_size :: nat

datatype ring_error = Illegal_argument | Failure

section \<open>Randomness\<close>

text \<open>
  The static generator is never seeded in the library: it starts as zero-initialised memory. What
  its local HMAC contexts hold before is \<open>hmac_local\<close>.
\<close>

definition hmac_local :: hmac_garbage where
  "hmac_local = (\<lparr>hmac_inner = sha256_local, hmac_outer = sha256_local\<rparr>, sha256_local)"

definition secp256k1_test_rng :: secp256k1_rfc6979_hmac_sha256 where
  "secp256k1_test_rng = \<lparr>rng_v = replicate 32 0, rng_k = replicate 32 0, rng_retry = False\<rparr>"

definition secp256k1_rand256_self :: "secp256k1_rfc6979_hmac_sha256 \<Rightarrow> u8 list \<times> secp256k1_rfc6979_hmac_sha256" where
  "secp256k1_rand256_self rng = secp256k1_rfc6979_hmac_sha256_generate hmac_local rng 32"

section \<open>Points as 33 bytes\<close>

definition secp256k1_ge_save_boquila :: "secp256k1_ge \<Rightarrow> u8 list" where
  "secp256k1_ge_save_boquila ge = (
     let x = secp256k1_fe_normalize (ge_x ge)
     in (9 XOR of_bool (secp256k1_fe_is_quad_var (ge_y ge))) # secp256k1_fe_get_b32 x)"

text \<open>Neither the range check of x nor the existence of a point is tested by the code.\<close>

definition secp256k1_ge_load_boquila :: "u8 list \<Rightarrow> secp256k1_ge" where
  "secp256k1_ge_load_boquila buf = (
     let fe = snd (secp256k1_fe_set_b32 (drop 1 buf));
         ge = snd (secp256k1_ge_set_xquad fe)
     in if buf ! 0 AND 1 \<noteq> 0 then secp256k1_ge_neg ge else ge)"

section \<open>Contexts\<close>

text \<open>
  The loop \<^verbatim>\<open>while (1)\<close> that hashes the buffer until it gives a generator, with a fuel bound;
  \<^const>\<open>None\<close> is an abort inside or a loop that has not ended.
\<close>

fun ring_next_generator ::
    "nat \<Rightarrow> secp256k1_ecmult_gen_context \<Rightarrow> u8 list \<Rightarrow> (secp256k1_generator \<times> u8 list) option" where
  "ring_next_generator 0 ctx buf = None"
| "ring_next_generator (Suc fuel) ctx buf = (
     let buf = sha256_parts [buf]
     in case secp256k1_generator_generate ctx buf of
          None \<Rightarrow> None
        | Some (ret, gen) \<Rightarrow> if ret then Some (gen, buf) else ring_next_generator fuel ctx buf)"

fun ring_next_generators ::
    "nat \<Rightarrow> secp256k1_ecmult_gen_context \<Rightarrow> nat \<Rightarrow> u8 list \<Rightarrow> (secp256k1_generator list \<times> u8 list) option" where
  "ring_next_generators fuel ctx 0 buf = Some ([], buf)"
| "ring_next_generators fuel ctx (Suc k) buf =
     (case ring_next_generator fuel ctx buf of
        None \<Rightarrow> None
      | Some (gen, buf) \<Rightarrow>
          (case ring_next_generators fuel ctx k buf of
             None \<Rightarrow> None
           | Some (gens, buf) \<Rightarrow> Some (gen # gens, buf)))"

definition ring_power :: "nat \<Rightarrow> nat \<Rightarrow> nat" where
  "ring_power n m = fold (\<lambda>j N. N * n) [0 ..< m] 1"

text \<open>
  \<^verbatim>\<open>geng0\<close> is what the uninitialised member \<^verbatim>\<open>geng\<close> holds before: it stays there when the blinding
  generator does not parse, which the code only prints.
\<close>

definition secp256k1_ringcip_context_create ::
    "secp256k1_generator \<Rightarrow> nat \<Rightarrow> secp256k1_ecmult_gen_context \<Rightarrow> nat \<Rightarrow> nat \<Rightarrow> nat \<Rightarrow> u8 list \<Rightarrow> secp256k1_generator option \<Rightarrow>
     ringcip_context option" where
  "secp256k1_ringcip_context_create geng0 fuel ctx L n m gen_seed blind_gen = (
     let N = ring_power n m;
         buf = take 32 gen_seed
     in case (case blind_gen of
                None \<Rightarrow> ring_next_generator fuel ctx buf
              | Some blind \<Rightarrow>
                  let gen_buffer = secp256k1_generator_serialize blind
                  in Some (case secp256k1_generator_parse gen_buffer of
                             None \<Rightarrow> geng0
                           | Some gen \<Rightarrow> gen, buf)) of
          None \<Rightarrow> None
        | Some (geng, buf) \<Rightarrow>
            (case ring_next_generator fuel ctx buf of
               None \<Rightarrow> None
             | Some (genh, buf) \<Rightarrow>
                 (case ring_next_generator fuel ctx buf of
                    None \<Rightarrow> None
                  | Some (genmu, buf) \<Rightarrow>
                      (case ring_next_generators fuel ctx (n * m) buf of
                         None \<Rightarrow> None
                       | Some (multigen, buf) \<Rightarrow>
                           Some \<lparr>rctx_L = L, rctx_n = n, rctx_m = m, rctx_N = N, rctx_multigen = multigen,
                                 rctx_geng = geng, rctx_genh = genh, rctx_genmu = genmu\<rparr>))))"

definition secp256k1_ringcip_DBPoE_context_create ::
    "nat \<Rightarrow> secp256k1_ecmult_gen_context \<Rightarrow> nat \<Rightarrow> nat \<Rightarrow> nat \<Rightarrow> u8 list \<Rightarrow> u8 list \<Rightarrow> nat \<Rightarrow>
     ringcip_DBPoE_context option" where
  "secp256k1_ringcip_DBPoE_context_create fuel ctx L n m gen_seed topics topic_size = (
     let N = ring_power n m;
         buf = take 32 gen_seed
     in case ring_next_generators fuel ctx (topic_size + 1) buf of
          None \<Rightarrow> None
        | Some (geng, buf) \<Rightarrow>
            (case ring_next_generator fuel ctx buf of
               None \<Rightarrow> None
             | Some (genh, buf) \<Rightarrow>
                 (case ring_next_generator fuel ctx buf of
                    None \<Rightarrow> None
                  | Some (genmu, buf) \<Rightarrow>
                      (case ring_next_generators fuel ctx (n * m) buf of
                         None \<Rightarrow> None
                       | Some (multigen, buf) \<Rightarrow>
                           Some \<lparr>dctx_L = L, dctx_n = n, dctx_m = m, dctx_N = N, dctx_multigen = multigen,
                                 dctx_geng = geng, dctx_genh = genh, dctx_genmu = genmu,
                                 dctx_topics = topics, dctx_topic_size = topic_size\<rparr>))))"

section \<open>Hidden values\<close>

definition secp256k1_create_secret_cint :: "cint_st \<Rightarrow> u64 \<Rightarrow> u8 list \<Rightarrow> bool \<times> cint_st" where
  "secp256k1_create_secret_cint csk v key = (
     let (k, overflow) = secp256k1_scalar_set_b32 key;
         csk = csk\<lparr>cst_key := k\<rparr>
     in if overflow then (False, csk) else (True, csk\<lparr>cst_v := v\<rparr>))"

definition secp256k1_create_cint :: "ringcip_context \<Rightarrow> cint_st \<Rightarrow> cint_pt" where
  "secp256k1_create_cint rctx csk = (
     let tmpG = secp256k1_generator_load (rctx_geng rctx);
         tmpMu = secp256k1_generator_load (rctx_genmu rctx);
         tmpGj = secp256k1_pedersen_ecmult (cst_key csk) (cst_v csk) tmpMu tmpG;
         tmp = fst (secp256k1_ge_set_gej tmpGj)
     in \<lparr>cint_buf = secp256k1_ge_save_boquila tmp\<rparr>)"

text \<open>The result is the pair of the two memory areas \<^verbatim>\<open>buf\<close> and \<^verbatim>\<open>c->buf\<close>.\<close>

definition secp256k1_serialize_cint :: "u8 list \<Rightarrow> cint_pt \<Rightarrow> u8 list \<times> cint_pt" where
  "secp256k1_serialize_cint buf c = (buf, c\<lparr>cint_buf := take 33 buf\<rparr>)"

definition secp256k1_parse_cint :: "cint_pt \<Rightarrow> u8 list \<Rightarrow> cint_pt \<times> u8 list" where
  "secp256k1_parse_cint c buf = (c\<lparr>cint_buf := take 33 buf\<rparr>, buf)"

section \<open>Products of powers\<close>

text \<open>
  The two statement sequences all products are made of: an affine power, and a power multiplied
  onto an affine accumulator.
\<close>

definition ring_pow :: "secp256k1_ge \<Rightarrow> secp256k1_scalar \<Rightarrow> secp256k1_ge" where
  "ring_pow g s = (
     let tmpj = secp256k1_ecmult_const g s 256
     in fst (secp256k1_ge_set_gej tmpj))"

definition ring_mul_pow :: "secp256k1_ge \<Rightarrow> secp256k1_scalar \<Rightarrow> secp256k1_ge \<Rightarrow> secp256k1_ge" where
  "ring_mul_pow g s com = (
     let tmpj = secp256k1_ecmult_const g s 256;
         tmpj = secp256k1_gej_add_ge tmpj com
     in fst (secp256k1_ge_set_gej tmpj))"

definition ring_load_multigen :: "nat \<Rightarrow> nat \<Rightarrow> secp256k1_generator list \<Rightarrow> secp256k1_ge list" where
  "ring_load_multigen n m multigen = map (\<lambda>j. secp256k1_generator_load (multigen ! j)) [0 ..< n * m]"

text \<open>The double loop over \<^verbatim>\<open>j < m\<close> and \<^verbatim>\<open>i < n\<close> with exponents \<open>e j i\<close>.\<close>

definition ring_matrix_pow ::
    "secp256k1_ge list \<Rightarrow> nat \<Rightarrow> nat \<Rightarrow> (nat \<Rightarrow> nat \<Rightarrow> secp256k1_scalar) \<Rightarrow> secp256k1_ge \<Rightarrow> secp256k1_ge" where
  "ring_matrix_pow multigen n m e com =
     fold (\<lambda>j com. fold (\<lambda>i com. ring_mul_pow (multigen ! (j * n + i)) (e j i) com) [0 ..< n] com) [0 ..< m] com"

definition secp256k1_create_multival_com ::
    "ringcip_context \<Rightarrow> secp256k1_scalar list \<Rightarrow> secp256k1_scalar \<Rightarrow> secp256k1_ge" where
  "secp256k1_create_multival_com rctx vals key = (
     let multigen = ring_load_multigen (rctx_n rctx) (rctx_m rctx) (rctx_multigen rctx);
         tmp = secp256k1_generator_load (rctx_genh rctx);
         com = ring_pow tmp key
     in fold (\<lambda>i com. ring_mul_pow (multigen ! i) (vals ! i) com) [0 ..< rctx_n rctx * rctx_m rctx] com)"

section \<open>Digits and sizes\<close>

definition get_jth :: "nat \<Rightarrow> nat \<Rightarrow> nat \<Rightarrow> nat" where
  "get_jth j n num = (
     let rem = ((\<lambda>rem. rem div n) ^^ j) num
     in rem - (rem div n) * n)"

definition secp256k1_zero_mcom_get_size :: "ringcip_context \<Rightarrow> nat \<Rightarrow> nat" where
  "secp256k1_zero_mcom_get_size rctx m = 33 * (4 + m) + 32 * (3 + (m * (rctx_n rctx - 1)))"

definition secp256k1_zero_mcom_DBPoE_get_size :: "ringcip_DBPoE_context \<Rightarrow> nat \<Rightarrow> nat" where
  "secp256k1_zero_mcom_DBPoE_get_size rctx m =
     33 * (4 + m) + 32 * (2 + dctx_topic_size rctx + (m * (dctx_n rctx - 1)))"

section \<open>The prover: random exponents\<close>

text \<open>
  One scalar from the random source: the scalar and the overflow flag.
\<close>

definition ring_draw ::
    "secp256k1_rfc6979_hmac_sha256 \<Rightarrow> secp256k1_scalar \<times> bool \<times> secp256k1_rfc6979_hmac_sha256" where
  "ring_draw rng = (
     let (buf, rng) = secp256k1_rand256_self rng;
         (s, overflow) = secp256k1_scalar_set_b32 buf
     in (s, overflow, rng))"

text \<open>
  One pass of the loop over \<^verbatim>\<open>j\<close>: \<^verbatim>\<open>rho[j]\<close>, then \<^verbatim>\<open>a[j][1..n-1]\<close> with their sum in
  \<^verbatim>\<open>tmp\<close>, then \<^verbatim>\<open>a[j][0]\<close>, the negated sum. The flag is that of the last scalar drawn.
\<close>

definition ring_draw_entry ::
    "secp256k1_scalar list \<times> secp256k1_scalar \<times> bool \<times> secp256k1_rfc6979_hmac_sha256 \<Rightarrow>
     secp256k1_scalar list \<times> secp256k1_scalar \<times> bool \<times> secp256k1_rfc6979_hmac_sha256" where
  "ring_draw_entry = (\<lambda>(row, tmp, overflow, rng).
     let (s, overflow, rng) = ring_draw rng
     in (row @ [s], snd (secp256k1_scalar_add tmp s), overflow, rng))"

definition ring_draw_row ::
    "nat \<Rightarrow> secp256k1_scalar list \<times> secp256k1_scalar list list \<times> bool \<times> secp256k1_rfc6979_hmac_sha256 \<Rightarrow>
     secp256k1_scalar list \<times> secp256k1_scalar list list \<times> bool \<times> secp256k1_rfc6979_hmac_sha256" where
  "ring_draw_row n = (\<lambda>(rho, a, overflow, rng).
     let (r, overflow, rng) = ring_draw rng;
         (row, tmp, overflow, rng) = (ring_draw_entry ^^ (n - 1)) ([], secp256k1_scalar_set_int 0, overflow, rng)
     in (rho @ [r], a @ [secp256k1_scalar_negate tmp # row], overflow, rng))"

record ring_nonces =
  nonce_rA :: secp256k1_scalar
  nonce_rB :: secp256k1_scalar
  nonce_rC :: secp256k1_scalar
  nonce_rD :: secp256k1_scalar
  nonce_rho :: "secp256k1_scalar list"
  nonce_a :: "secp256k1_scalar list list"

definition ring_draw_nonces ::
    "nat \<Rightarrow> nat \<Rightarrow> secp256k1_rfc6979_hmac_sha256 \<Rightarrow> ring_nonces \<times> bool \<times> secp256k1_rfc6979_hmac_sha256" where
  "ring_draw_nonces n m rng = (
     let (rA, overflow, rng) = ring_draw rng;
         (rB, overflow, rng) = ring_draw rng;
         (rC, overflow, rng) = ring_draw rng;
         (rD, overflow, rng) = ring_draw rng;
         (rho, a, overflow, rng) = (ring_draw_row n ^^ m) ([], [], overflow, rng)
     in (\<lparr>nonce_rA = rA, nonce_rB = rB, nonce_rC = rC, nonce_rD = rD, nonce_rho = rho, nonce_a = a\<rparr>, overflow, rng))"

section \<open>The prover: polynomials\<close>

definition ring_delta :: "nat \<Rightarrow> nat \<Rightarrow> nat \<Rightarrow> nat \<Rightarrow> bool" where
  "ring_delta n index j i \<longleftrightarrow> get_jth j n index = i"

text \<open>
  Multiplication of the coefficients \<open>p\<close> (of a polynomial of degree \<open>j\<close>) by
  \<open>tmpA + tmpD X\<close>, in place; \<^verbatim>\<open>tmpP\<close> saves the coefficient about to be overwritten.
\<close>

definition ring_poly_coeff ::
    "secp256k1_scalar \<Rightarrow> secp256k1_scalar \<Rightarrow> nat \<Rightarrow> secp256k1_scalar list \<times> secp256k1_scalar \<Rightarrow>
     secp256k1_scalar list \<times> secp256k1_scalar" where
  "ring_poly_coeff tmpA tmpD d = (\<lambda>(p, tmpP).
     let tmp = secp256k1_scalar_mul tmpP tmpD;
         tmpP = snd (secp256k1_scalar_add (secp256k1_scalar_set_int 0) (p ! d));
         p = p[d := secp256k1_scalar_mul (p ! d) tmpA];
         p = p[d := snd (secp256k1_scalar_add (p ! d) tmp)]
     in (p, tmpP))"

definition ring_poly_mul ::
    "secp256k1_scalar \<Rightarrow> secp256k1_scalar \<Rightarrow> nat \<Rightarrow> secp256k1_scalar list \<Rightarrow> secp256k1_scalar list" where
  "ring_poly_mul tmpA tmpD j p = (
     let tmpP = snd (secp256k1_scalar_add (secp256k1_scalar_set_int 0) (p ! 0));
         p = p[0 := secp256k1_scalar_mul (p ! 0) tmpA];
         (p, tmpP) = fold (ring_poly_coeff tmpA tmpD) [1 ..< j + 1] (p, tmpP)
     in p[j + 1 := secp256k1_scalar_mul tmpP tmpD])"

definition ring_poly :: "nat \<Rightarrow> nat \<Rightarrow> nat \<Rightarrow> secp256k1_scalar list list \<Rightarrow> nat \<Rightarrow> secp256k1_scalar list" where
  "ring_poly n m index a t = (
     let p = replicate (m + 1) (secp256k1_scalar_set_int 0);
         p = p[0 := snd (secp256k1_scalar_add (p ! 0) (a ! 0 ! get_jth 0 n t))];
         p = p[1 := secp256k1_scalar_set_int (of_bool (get_jth 0 n index = get_jth 0 n t))]
     in fold (\<lambda>j p.
          let tmpA = snd (secp256k1_scalar_add (secp256k1_scalar_set_int 0) (a ! j ! get_jth j n t));
              tmpD = secp256k1_scalar_set_int (of_bool (get_jth j n index = get_jth j n t))
          in ring_poly_mul tmpA tmpD j p) [1 ..< m] p)"

section \<open>The prover: commitments\<close>

definition ring_com_B :: "secp256k1_ge list \<Rightarrow> secp256k1_ge \<Rightarrow> nat \<Rightarrow> nat \<Rightarrow> nat \<Rightarrow> secp256k1_scalar \<Rightarrow> secp256k1_ge" where
  "ring_com_B multigen tmpH n m index rB =
     ring_matrix_pow multigen n m (\<lambda>j i. secp256k1_scalar_set_int (of_bool (get_jth j n index = i))) (ring_pow tmpH rB)"

definition ring_com_A :: "secp256k1_ge list \<Rightarrow> secp256k1_ge \<Rightarrow> nat \<Rightarrow> nat \<Rightarrow> secp256k1_scalar list list \<Rightarrow> secp256k1_scalar \<Rightarrow> secp256k1_ge" where
  "ring_com_A multigen tmpH n m a rA = ring_matrix_pow multigen n m (\<lambda>j i. a ! j ! i) (ring_pow tmpH rA)"

definition ring_com_C :: "secp256k1_ge list \<Rightarrow> secp256k1_ge \<Rightarrow> nat \<Rightarrow> nat \<Rightarrow> nat \<Rightarrow> secp256k1_scalar list list \<Rightarrow> secp256k1_scalar \<Rightarrow> secp256k1_ge" where
  "ring_com_C multigen tmpH n m index a rC =
     ring_matrix_pow multigen n m
       (\<lambda>j i. let tmp = secp256k1_scalar_set_int (2 * of_bool (get_jth j n index = i));
                  tmp = secp256k1_scalar_negate tmp;
                  tmp1 = secp256k1_scalar_set_int 1;
                  tmp = snd (secp256k1_scalar_add tmp tmp1)
              in secp256k1_scalar_mul tmp (a ! j ! i)) (ring_pow tmpH rC)"

definition ring_com_D :: "secp256k1_ge list \<Rightarrow> secp256k1_ge \<Rightarrow> nat \<Rightarrow> nat \<Rightarrow> secp256k1_scalar list list \<Rightarrow> secp256k1_scalar \<Rightarrow> secp256k1_ge" where
  "ring_com_D multigen tmpH n m a rD =
     ring_matrix_pow multigen n m
       (\<lambda>j i. secp256k1_scalar_negate (secp256k1_scalar_mul (a ! j ! i) (a ! j ! i))) (ring_pow tmpH rD)"

definition ring_com_Q ::
    "secp256k1_ge \<Rightarrow> secp256k1_ge list \<Rightarrow> secp256k1_scalar list list \<Rightarrow> nat \<Rightarrow> secp256k1_scalar list \<Rightarrow> nat \<Rightarrow> secp256k1_ge" where
  "ring_com_Q tmpG c_ge p ring_size rho j =
     fold (\<lambda>t. ring_mul_pow (c_ge ! t) (p ! t ! j)) [0 ..< ring_size] (ring_pow tmpG (rho ! j))"

section \<open>The prover: challenge and responses\<close>

definition ring_challenge :: "cint_pt list \<Rightarrow> nat \<Rightarrow> u8 list \<Rightarrow> u8 list \<Rightarrow> secp256k1_scalar" where
  "ring_challenge Cs ring_size chal proof = (
     let buf = sha256_parts (map (\<lambda>t. cint_buf (Cs ! t)) [0 ..< ring_size] @ [take 32 chal, proof])
     in fst (secp256k1_scalar_set_b32 buf))"

definition ring_response_f ::
    "nat \<Rightarrow> nat \<Rightarrow> nat \<Rightarrow> secp256k1_scalar list list \<Rightarrow> secp256k1_scalar \<Rightarrow> secp256k1_scalar list list" where
  "ring_response_f n m index a x =
     map (\<lambda>j. map (\<lambda>i.
       let f = secp256k1_scalar_set_int (of_bool (get_jth j n index = i));
           f = secp256k1_scalar_mul f x
       in snd (secp256k1_scalar_add f (a ! j ! i))) [0 ..< n]) [0 ..< m]"

text \<open>\<open>key * x^m - sum rho_j x^j\<close>.\<close>

definition ring_response_z ::
    "nat \<Rightarrow> secp256k1_scalar list \<Rightarrow> secp256k1_scalar \<Rightarrow> secp256k1_scalar \<Rightarrow> secp256k1_scalar" where
  "ring_response_z m rho key x = (
     let (z, tmp1) = fold (\<lambda>j (z, tmp1).
           let tmp = secp256k1_scalar_mul (rho ! j) tmp1;
               z = snd (secp256k1_scalar_add z tmp)
           in (z, secp256k1_scalar_mul tmp1 x)) [0 ..< m] (secp256k1_scalar_set_int 0, secp256k1_scalar_set_int 1);
         z = secp256k1_scalar_negate z;
         tmp = secp256k1_scalar_mul key tmp1
     in snd (secp256k1_scalar_add z tmp))"

definition ring_response_zA :: "secp256k1_scalar \<Rightarrow> secp256k1_scalar \<Rightarrow> secp256k1_scalar \<Rightarrow> secp256k1_scalar" where
  "ring_response_zA x rB rA = snd (secp256k1_scalar_add (secp256k1_scalar_mul x rB) rA)"

definition ring_serialize_f :: "nat \<Rightarrow> nat \<Rightarrow> secp256k1_scalar list list \<Rightarrow> u8 list" where
  "ring_serialize_f n m f =
     concat (map (\<lambda>j. concat (map (\<lambda>i. secp256k1_scalar_get_b32 (f ! j ! i)) [1 ..< n])) [0 ..< m])"

text \<open>
  The plain prover. \<^verbatim>\<open>zC\<close> is computed from \<^verbatim>\<open>rC\<close> and \<^verbatim>\<open>rD\<close> as \<^verbatim>\<open>zA\<close> is from \<^verbatim>\<open>rB\<close> and
  \<^verbatim>\<open>rA\<close>.
\<close>

definition secp256k1_create_zero_mcom_proof ::
    "ringcip_context \<Rightarrow> cint_pt list \<Rightarrow> nat \<Rightarrow> secp256k1_scalar \<Rightarrow> nat \<Rightarrow> nat \<Rightarrow> u8 list \<Rightarrow>
     secp256k1_rfc6979_hmac_sha256 \<Rightarrow> (ring_error + u8 list) \<times> secp256k1_rfc6979_hmac_sha256" where
  "secp256k1_create_zero_mcom_proof rctx Cs index key ring_size m chal rng = (
     let n = rctx_n rctx;
         tmpN = ring_power n m
     in if tmpN < ring_size then (Inl Failure, rng)
        else if \<not> index < ring_size then (Inl Illegal_argument, rng)
        else if \<not> m \<le> rctx_m rctx then (Inl Illegal_argument, rng)
        else
          let multigen = ring_load_multigen n (rctx_m rctx) (rctx_multigen rctx);
              c_ge = map (\<lambda>j. secp256k1_ge_load_boquila (cint_buf (Cs ! j))) [0 ..< ring_size];
              tmpG = secp256k1_generator_load (rctx_geng rctx);
              tmpH = secp256k1_generator_load (rctx_genh rctx);
              (nonces, overflow, rng) = ring_draw_nonces n m rng
          in if overflow then (Inl Failure, rng)
             else
               let a = nonce_a nonces;
                   p = map (ring_poly n m index a) [0 ..< ring_size];
                   B = ring_com_B multigen tmpH n m index (nonce_rB nonces);
                   A = ring_com_A multigen tmpH n m a (nonce_rA nonces);
                   C = ring_com_C multigen tmpH n m index a (nonce_rC nonces);
                   D = ring_com_D multigen tmpH n m a (nonce_rD nonces);
                   Q = map (ring_com_Q tmpG c_ge p ring_size (nonce_rho nonces)) [0 ..< m];
                   proof = secp256k1_ge_save_boquila A @ secp256k1_ge_save_boquila B
                     @ secp256k1_ge_save_boquila C @ secp256k1_ge_save_boquila D
                     @ concat (map secp256k1_ge_save_boquila Q);
                   x = ring_challenge Cs ring_size chal proof;
                   f = ring_response_f n m index a x;
                   zA = ring_response_zA x (nonce_rB nonces) (nonce_rA nonces);
                   zC = ring_response_zA x (nonce_rC nonces) (nonce_rD nonces);
                   z = ring_response_z m (nonce_rho nonces) key x
               in (Inr (proof @ ring_serialize_f n m f @ secp256k1_scalar_get_b32 zA
                     @ secp256k1_scalar_get_b32 zC @ secp256k1_scalar_get_b32 z), rng))"

section \<open>The verifier\<close>

text \<open>
  \<open>k\<close> consecutive scalars of the proof, with the early return when one overflows. Their sum is
  \<^verbatim>\<open>tmp\<close>.
\<close>

fun ring_parse_scalars :: "nat \<Rightarrow> u8 list \<Rightarrow> (secp256k1_scalar list \<times> u8 list) option" where
  "ring_parse_scalars 0 buf = Some ([], buf)"
| "ring_parse_scalars (Suc k) buf =
     (case secp256k1_scalar_set_b32 buf of (s, overflow) \<Rightarrow>
        if overflow then None
        else case ring_parse_scalars k (drop 32 buf) of
               None \<Rightarrow> None
             | Some (ss, buf) \<Rightarrow> Some (s # ss, buf))"

fun ring_parse_f :: "nat \<Rightarrow> secp256k1_scalar \<Rightarrow> nat \<Rightarrow> u8 list \<Rightarrow> (secp256k1_scalar list list \<times> u8 list) option" where
  "ring_parse_f n x 0 buf = Some ([], buf)"
| "ring_parse_f n x (Suc m) buf =
     (case ring_parse_scalars (n - 1) buf of
        None \<Rightarrow> None
      | Some (row, buf) \<Rightarrow>
          let tmp = fold (\<lambda>s tmp. snd (secp256k1_scalar_add tmp s)) row (secp256k1_scalar_set_int 0);
              f0 = secp256k1_scalar_negate tmp;
              f0 = snd (secp256k1_scalar_add f0 x)
          in case ring_parse_f n x m buf of
               None \<Rightarrow> None
             | Some (rows, buf) \<Rightarrow> Some ((f0 # row) # rows, buf))"

definition ring_parse_points :: "nat \<Rightarrow> u8 list \<Rightarrow> secp256k1_ge list" where
  "ring_parse_points k proof = map (\<lambda>i. secp256k1_ge_load_boquila (drop (33 * i) proof)) [0 ..< k]"

text \<open>\<open>prod Q_j^(-x^j)\<close>, then times \<open>prod_t C_t^(prod_j f_(j, t_j))\<close>.\<close>

definition ring_verify_lhs ::
    "nat \<Rightarrow> nat \<Rightarrow> secp256k1_ge list \<Rightarrow> secp256k1_ge list \<Rightarrow> secp256k1_scalar list list \<Rightarrow> secp256k1_scalar \<Rightarrow> nat \<Rightarrow>
     secp256k1_ge" where
  "ring_verify_lhs n m Q c_ge f x ring_size = (
     let (LHS, tmp1) = fold (\<lambda>j (LHS, tmp1).
           let tmp2 = secp256k1_scalar_negate tmp1;
               LHS = (if j = 0 then ring_pow (Q ! j) tmp2 else ring_mul_pow (Q ! j) tmp2 LHS)
           in (LHS, secp256k1_scalar_mul tmp1 x)) [0 ..< m] (secp256k1_ge_clear, secp256k1_scalar_set_int 1)
     in fold (\<lambda>t LHS.
          let tmp = fold (\<lambda>j tmp. secp256k1_scalar_mul tmp (f ! j ! get_jth j n t)) [0 ..< m] (secp256k1_scalar_set_int 1)
          in ring_mul_pow (c_ge ! t) tmp LHS) [0 ..< ring_size] LHS)"

text \<open>\<open>B^x A\<close> against \<open>h^zA prod h_(j,i)^f_(j,i)\<close>.\<close>

definition ring_check_AB ::
    "secp256k1_ge list \<Rightarrow> secp256k1_ge \<Rightarrow> nat \<Rightarrow> nat \<Rightarrow> secp256k1_ge \<Rightarrow> secp256k1_ge \<Rightarrow> secp256k1_scalar list list \<Rightarrow>
     secp256k1_scalar \<Rightarrow> secp256k1_scalar \<Rightarrow> bool" where
  "ring_check_AB multigen tmpH n m A B f x zA = (
     let LHS = ring_mul_pow B x A;
         RHS = ring_matrix_pow multigen n m (\<lambda>j i. f ! j ! i) (ring_pow tmpH zA)
     in secp256k1_ge_save_boquila LHS = secp256k1_ge_save_boquila RHS)"

text \<open>\<open>C^x D\<close> against \<open>h^zC prod h_(j,i)^(f_(j,i) (x - f_(j,i)))\<close>.\<close>

definition ring_check_CD ::
    "secp256k1_ge list \<Rightarrow> secp256k1_ge \<Rightarrow> nat \<Rightarrow> nat \<Rightarrow> secp256k1_ge \<Rightarrow> secp256k1_ge \<Rightarrow> secp256k1_scalar list list \<Rightarrow>
     secp256k1_scalar \<Rightarrow> secp256k1_scalar \<Rightarrow> bool" where
  "ring_check_CD multigen tmpH n m C D f x zC = (
     let LHS = ring_mul_pow C x D;
         RHS = ring_matrix_pow multigen n m
           (\<lambda>j i. let tmp = secp256k1_scalar_negate (f ! j ! i);
                      tmp = snd (secp256k1_scalar_add tmp x)
                  in secp256k1_scalar_mul tmp (f ! j ! i)) (ring_pow tmpH zC)
     in secp256k1_ge_save_boquila LHS = secp256k1_ge_save_boquila RHS)"

definition secp256k1_verify_zero_mcom_proof ::
    "ringcip_context \<Rightarrow> u8 list \<Rightarrow> cint_pt list \<Rightarrow> nat \<Rightarrow> nat \<Rightarrow> u8 list \<Rightarrow> ring_error + unit" where
  "secp256k1_verify_zero_mcom_proof rctx proof Cs ring_size m chal = (
     let n = rctx_n rctx;
         tmpN = ring_power n m
     in if tmpN < ring_size then Inl Failure
        else if \<not> m \<le> rctx_m rctx then Inl Illegal_argument
        else
          let multigen = ring_load_multigen n (rctx_m rctx) (rctx_multigen rctx);
              c_ge = map (\<lambda>j. secp256k1_ge_load_boquila (cint_buf (Cs ! j))) [0 ..< ring_size];
              tmpG = secp256k1_generator_load (rctx_geng rctx);
              tmpH = secp256k1_generator_load (rctx_genh rctx);
              points = ring_parse_points (4 + m) proof;
              A = points ! 0; B = points ! 1; C = points ! 2; D = points ! 3; Q = drop 4 points;
              pointer = 33 * (4 + m);
              x = ring_challenge Cs ring_size chal (take pointer proof)
          in case ring_parse_f n x m (drop pointer proof) of
               None \<Rightarrow> Inl Failure
             | Some (f, rest) \<Rightarrow>
                 (case ring_parse_scalars 3 rest of
                    None \<Rightarrow> Inl Failure
                  | Some (zs, rest) \<Rightarrow>
                      let zA = zs ! 0; zC = zs ! 1; z = zs ! 2;
                          LHS = ring_verify_lhs n m Q c_ge f x ring_size;
                          RHS = ring_pow tmpG z
                      in if secp256k1_ge_save_boquila LHS \<noteq> secp256k1_ge_save_boquila RHS then Inl Failure
                         else if \<not> ring_check_AB multigen tmpH n m A B f x zA then Inl Failure
                         else if \<not> ring_check_CD multigen tmpH n m C D f x zC then Inl Failure
                         else Inr ()))"

section \<open>The proof with topics\<close>

text \<open>
  One base and one blinding exponent per topic. The loop over \<^verbatim>\<open>i\<close> reads the same 32 random
  bytes for every \<^verbatim>\<open>rho[i][j]\<close>: \<open>rho ! i\<close> is the same row for every \<open>i\<close>.
\<close>

definition dbpoe_topics :: "nat \<Rightarrow> nat \<Rightarrow> nat list" where
  "dbpoe_topics topic_size topic_index = filter (\<lambda>i. i \<noteq> topic_index) [1 ..< topic_size + 1]"

definition dbpoe_com_Q ::
    "secp256k1_ge list \<Rightarrow> secp256k1_ge list \<Rightarrow> secp256k1_scalar list list \<Rightarrow> nat \<Rightarrow> nat \<Rightarrow> nat \<Rightarrow>
     secp256k1_scalar list list \<Rightarrow> nat \<Rightarrow> secp256k1_ge" where
  "dbpoe_com_Q geng c_ge p ring_size topic_size topic_index rho j = (
     let Q = ring_pow (geng ! 0) (rho ! 0 ! j);
         Q = fold (\<lambda>i. ring_mul_pow (geng ! i) (rho ! i ! j)) (dbpoe_topics topic_size topic_index) Q
     in fold (\<lambda>t. ring_mul_pow (c_ge ! t) (p ! t ! j)) [0 ..< ring_size] Q)"

text \<open>The bases and responses of the opening are those of the indices other than the topic's.\<close>

definition dbpoe_response_z ::
    "nat \<Rightarrow> nat \<Rightarrow> nat \<Rightarrow> secp256k1_scalar list list \<Rightarrow> secp256k1_scalar list \<Rightarrow> secp256k1_scalar \<Rightarrow> secp256k1_scalar list" where
  "dbpoe_response_z topic_size topic_index m rho vals x =
     map (\<lambda>i. ring_response_z m (rho ! i) (vals ! i) x) (filter (\<lambda>i. i \<noteq> topic_index) [0 ..< topic_size + 1])"

definition secp256k1_create_zero_mcom_DBPoE_proof ::
    "ringcip_DBPoE_context \<Rightarrow> cint_pt list \<Rightarrow> nat \<Rightarrow> secp256k1_scalar list \<Rightarrow> nat \<Rightarrow> nat \<Rightarrow> nat \<Rightarrow> u8 list \<Rightarrow>
     secp256k1_rfc6979_hmac_sha256 \<Rightarrow> (ring_error + u8 list) \<times> secp256k1_rfc6979_hmac_sha256" where
  "secp256k1_create_zero_mcom_DBPoE_proof rctx Cs index vals ring_size topic_index m chal rng = (
     let n = dctx_n rctx;
         tmpN = ring_power n m
     in if tmpN < ring_size then (Inl Failure, rng)
        else if \<not> index < ring_size then (Inl Illegal_argument, rng)
        else if \<not> m \<le> dctx_m rctx then (Inl Illegal_argument, rng)
        else
          let multigen = ring_load_multigen n (dctx_m rctx) (dctx_multigen rctx);
              c_ge = map (\<lambda>j. secp256k1_ge_load_boquila (cint_buf (Cs ! j))) [0 ..< ring_size];
              geng = map (\<lambda>j. secp256k1_generator_load (dctx_geng rctx ! j)) [0 ..< dctx_topic_size rctx + 1];
              tmpH = secp256k1_generator_load (dctx_genh rctx);
              (nonces, overflow, rng) = ring_draw_nonces n m rng
          in if overflow then (Inl Failure, rng)
             else
               let a = nonce_a nonces;
                   rho = replicate (dctx_topic_size rctx + 1) (nonce_rho nonces);
                   p = map (ring_poly n m index a) [0 ..< ring_size];
                   B = ring_com_B multigen tmpH n m index (nonce_rB nonces);
                   A = ring_com_A multigen tmpH n m a (nonce_rA nonces);
                   C = ring_com_C multigen tmpH n m index a (nonce_rC nonces);
                   D = ring_com_D multigen tmpH n m a (nonce_rD nonces);
                   Q = map (dbpoe_com_Q geng c_ge p ring_size (dctx_topic_size rctx) topic_index rho) [0 ..< m];
                   proof = secp256k1_ge_save_boquila A @ secp256k1_ge_save_boquila B
                     @ secp256k1_ge_save_boquila C @ secp256k1_ge_save_boquila D
                     @ concat (map secp256k1_ge_save_boquila Q);
                   x = ring_challenge Cs ring_size chal proof;
                   f = ring_response_f n m index a x;
                   zA = ring_response_zA x (nonce_rB nonces) (nonce_rA nonces);
                   zC = ring_response_zA x (nonce_rC nonces) (nonce_rD nonces);
                   z = dbpoe_response_z (dctx_topic_size rctx) topic_index m rho vals x
               in (Inr (proof @ ring_serialize_f n m f @ secp256k1_scalar_get_b32 zA
                     @ secp256k1_scalar_get_b32 zC @ concat (map secp256k1_scalar_get_b32 z)), rng))"

definition dbpoe_opening ::
    "secp256k1_ge list \<Rightarrow> nat \<Rightarrow> nat \<Rightarrow> secp256k1_scalar list \<Rightarrow> secp256k1_ge" where
  "dbpoe_opening geng topic_size topic_index z =
     fold (\<lambda>i. ring_mul_pow (geng ! i) (z ! i)) (dbpoe_topics topic_size topic_index) (ring_pow (geng ! 0) (z ! 0))"

text \<open>The array \<^verbatim>\<open>z[0..topic_size]\<close> filled from the parsed list; the topic's entry is not written.\<close>

definition dbpoe_fill_z :: "nat \<Rightarrow> nat \<Rightarrow> secp256k1_scalar list \<Rightarrow> secp256k1_scalar list" where
  "dbpoe_fill_z topic_size topic_index zs =
     fold (\<lambda>(i, s) z. z[i := s]) (zip (filter (\<lambda>i. i \<noteq> topic_index) [0 ..< topic_size + 1]) zs)
       (replicate (topic_size + 1) secp256k1_scalar_clear)"

definition secp256k1_verify_zero_mcom_DBPoE_proof ::
    "ringcip_DBPoE_context \<Rightarrow> u8 list \<Rightarrow> cint_pt list \<Rightarrow> nat \<Rightarrow> nat \<Rightarrow> nat \<Rightarrow> u8 list \<Rightarrow> ring_error + unit" where
  "secp256k1_verify_zero_mcom_DBPoE_proof rctx proof Cs ring_size topic_index m chal = (
     let n = dctx_n rctx;
         tmpN = ring_power n m
     in if tmpN < ring_size then Inl Failure
        else if \<not> m \<le> dctx_m rctx then Inl Illegal_argument
        else
          let multigen = ring_load_multigen n (dctx_m rctx) (dctx_multigen rctx);
              geng = map (\<lambda>j. secp256k1_generator_load (dctx_geng rctx ! j)) [0 ..< dctx_topic_size rctx + 1];
              c_ge = map (\<lambda>j. secp256k1_ge_load_boquila (cint_buf (Cs ! j))) [0 ..< ring_size];
              tmpH = secp256k1_generator_load (dctx_genh rctx);
              points = ring_parse_points (4 + m) proof;
              A = points ! 0; B = points ! 1; C = points ! 2; D = points ! 3; Q = drop 4 points;
              pointer = 33 * (4 + m);
              x = ring_challenge Cs ring_size chal (take pointer proof);
              indices = filter (\<lambda>i. i \<noteq> topic_index) [0 ..< dctx_topic_size rctx + 1]
          in case ring_parse_f n x m (drop pointer proof) of
               None \<Rightarrow> Inl Failure
             | Some (f, rest) \<Rightarrow>
                 (case ring_parse_scalars (2 + length indices) rest of
                    None \<Rightarrow> Inl Failure
                  | Some (zs, rest) \<Rightarrow>
                      let zA = zs ! 0; zC = zs ! 1;
                          z = dbpoe_fill_z (dctx_topic_size rctx) topic_index (drop 2 zs);
                          LHS = ring_verify_lhs n m Q c_ge f x ring_size;
                          RHS = dbpoe_opening geng (dctx_topic_size rctx) topic_index z
                      in if secp256k1_ge_save_boquila LHS \<noteq> secp256k1_ge_save_boquila RHS then Inl Failure
                         else if \<not> ring_check_AB multigen tmpH n m A B f x zA then Inl Failure
                         else if \<not> ring_check_CD multigen tmpH n m C D f x zC then Inl Failure
                         else Inr ()))"

end
