(* ===== verification/Nonresidue.thy ===== *)
theory Nonresidue
  imports Primality_Order
begin

text \<open>
  The number 7 is not a cube modulo the field characteristic: its power to a third of
  \<open>p - 1\<close>, evaluated by the simplifier, is a nontrivial cube root of unity (the constant of the
  curve's endomorphism). So no point of the curve has y = 0. The theory models no code.
\<close>

primrec pow_base :: "int \<Rightarrow> (int \<Rightarrow> int) \<Rightarrow> int \<Rightarrow> num \<Rightarrow> int" where
  "pow_base b red y num.One = y"
| "pow_base b red y (num.Bit0 m) = red (square (pow_base b red y m))"
| "pow_base b red y (num.Bit1 m) = red (b * square (pow_base b red y m))"

text \<open>Appending bits to an exponent continues the computation from where it stopped.\<close>

lemma pow_base_mod:
  assumes "reduces N red" "y mod N = b ^ numeral k mod N"
  shows "pow_base b red y m mod N = b ^ numeral (append_bits k m) mod N"
proof (induction m)
  case One
  then show ?case using assms by simp
next
  case (Bit0 m)
  let ?e = "numeral (append_bits k m) :: nat"
  have "pow_base b red y (num.Bit0 m) mod N = pow_base b red y m * pow_base b red y m mod N"
    using assms(1) by (simp add: reduces_def square_def)
  also have "\<dots> = b ^ ?e * b ^ ?e mod N"
    using Bit0 by (metis mod_mult_eq)
  also have "b ^ ?e * b ^ ?e = b ^ numeral (append_bits k (num.Bit0 m))"
    by (simp only: append_bits.simps numeral_Bit0 power_add)
  finally show ?case .
next
  case (Bit1 m)
  let ?e = "numeral (append_bits k m) :: nat"
  have "pow_base b red y (num.Bit1 m) mod N = b * (pow_base b red y m * pow_base b red y m) mod N"
    using assms(1) by (simp add: reduces_def square_def)
  also have "\<dots> = b * (b ^ ?e * b ^ ?e) mod N"
    using Bit1 by (metis mod_mult_eq mod_mult_right_eq)
  also have "b * (b ^ ?e * b ^ ?e) = b ^ numeral (append_bits k (num.Bit1 m))"
    by (simp only: append_bits.simps numeral_Bit1 power_add power_one_right mult_ac)
  finally show ?case .
qed

lemma pow_base_stage:
  assumes "z mod N = b ^ numeral k mod N" "reduces N red" "append_bits k m = k'" "pow_base b red z m = w"
  shows "w mod N = b ^ numeral k' mod N"
  using pow_base_mod [OF assms(2,1), of m] assms(3,4) by simp

abbreviation fold_field_p :: "int \<Rightarrow> int" where
  "fold_field_p \<equiv> fold2 115792089237316195423570985008687907853269984665640564039457584007913129639936 4294968273"

lemma reduces_fold_field_p: "reduces 115792089237316195423570985008687907853269984665640564039457584007908834671663 fold_field_p"
  by (rule reduces_fold2) simp

lemmas pow_base_eval = append_bits.simps pow_base.simps pow2_eval

lemma pow_seven_0: "99694589728260684704920004031300956481483404073924784426893665847624307706714 mod 115792089237316195423570985008687907853269984665640564039457584007908834671663 = 7 ^ numeral (num.Bit0 (num.Bit1 (num.Bit0 (num.Bit1 (num.Bit0 (num.Bit1 (num.Bit0 (num.Bit1 (num.Bit0 (num.Bit1 (num.Bit0 (num.Bit1 (num.Bit0 (num.Bit1 (num.Bit0 (num.Bit1 (num.Bit0 (num.Bit1 (num.Bit0 (num.Bit1 (num.Bit0 (num.Bit1 (num.Bit0 (num.Bit1 (num.Bit0 (num.Bit1 (num.Bit0 (num.Bit1 (num.Bit0 (num.Bit1 (num.Bit0 (num.Bit1 (num.Bit0 (num.Bit1 (num.Bit0 (num.Bit1 (num.Bit0 (num.Bit1 (num.Bit0 (num.Bit1 (num.Bit0 (num.Bit1 (num.Bit0 (num.Bit1 (num.Bit0 (num.Bit1 (num.Bit0 (num.Bit1 (num.Bit0 (num.Bit1 (num.Bit0 (num.Bit1 (num.Bit0 (num.Bit1 (num.Bit0 (num.Bit1 (num.Bit0 (num.Bit1 (num.Bit0 (num.Bit1 (num.Bit0 (num.Bit1 (num.Bit0 (num.One)))))))))))))))))))))))))))))))))))))))))))))))))))))))))))))))) mod (115792089237316195423570985008687907853269984665640564039457584007908834671663 :: int)"
  by (rule pow_base_stage [OF _ reduces_fold_field_p, of 7 7 num.One "num.Bit0 (num.Bit1 (num.Bit0 (num.Bit1 (num.Bit0 (num.Bit1 (num.Bit0 (num.Bit1 (num.Bit0 (num.Bit1 (num.Bit0 (num.Bit1 (num.Bit0 (num.Bit1 (num.Bit0 (num.Bit1 (num.Bit0 (num.Bit1 (num.Bit0 (num.Bit1 (num.Bit0 (num.Bit1 (num.Bit0 (num.Bit1 (num.Bit0 (num.Bit1 (num.Bit0 (num.Bit1 (num.Bit0 (num.Bit1 (num.Bit0 (num.Bit1 (num.Bit0 (num.Bit1 (num.Bit0 (num.Bit1 (num.Bit0 (num.Bit1 (num.Bit0 (num.Bit1 (num.Bit0 (num.Bit1 (num.Bit0 (num.Bit1 (num.Bit0 (num.Bit1 (num.Bit0 (num.Bit1 (num.Bit0 (num.Bit1 (num.Bit0 (num.Bit1 (num.Bit0 (num.Bit1 (num.Bit0 (num.Bit1 (num.Bit0 (num.Bit1 (num.Bit0 (num.Bit1 (num.Bit0 (num.Bit1 (num.Bit0 (num.One)))))))))))))))))))))))))))))))))))))))))))))))))))))))))))))))"])
    (simp, simp_all only: pow_base_eval)

lemma pow_seven_1: "54483357038393815160253239932889160087931558429354006815121714057513501894486 mod 115792089237316195423570985008687907853269984665640564039457584007908834671663 = 7 ^ numeral (num.Bit0 (num.Bit1 (num.Bit0 (num.Bit1 (num.Bit0 (num.Bit1 (num.Bit0 (num.Bit1 (num.Bit0 (num.Bit1 (num.Bit0 (num.Bit1 (num.Bit0 (num.Bit1 (num.Bit0 (num.Bit1 (num.Bit0 (num.Bit1 (num.Bit0 (num.Bit1 (num.Bit0 (num.Bit1 (num.Bit0 (num.Bit1 (num.Bit0 (num.Bit1 (num.Bit0 (num.Bit1 (num.Bit0 (num.Bit1 (num.Bit0 (num.Bit1 (num.Bit0 (num.Bit1 (num.Bit0 (num.Bit1 (num.Bit0 (num.Bit1 (num.Bit0 (num.Bit1 (num.Bit0 (num.Bit1 (num.Bit0 (num.Bit1 (num.Bit0 (num.Bit1 (num.Bit0 (num.Bit1 (num.Bit0 (num.Bit1 (num.Bit0 (num.Bit1 (num.Bit0 (num.Bit1 (num.Bit0 (num.Bit1 (num.Bit0 (num.Bit1 (num.Bit0 (num.Bit1 (num.Bit0 (num.Bit1 (num.Bit0 (num.Bit1 (num.Bit0 (num.Bit1 (num.Bit0 (num.Bit1 (num.Bit0 (num.Bit1 (num.Bit0 (num.Bit1 (num.Bit0 (num.Bit1 (num.Bit0 (num.Bit1 (num.Bit0 (num.Bit1 (num.Bit0 (num.Bit1 (num.Bit0 (num.Bit1 (num.Bit0 (num.Bit1 (num.Bit0 (num.Bit1 (num.Bit0 (num.Bit1 (num.Bit0 (num.Bit1 (num.Bit0 (num.Bit1 (num.Bit0 (num.Bit1 (num.Bit0 (num.Bit1 (num.Bit0 (num.Bit1 (num.Bit0 (num.Bit1 (num.Bit0 (num.Bit1 (num.Bit0 (num.Bit1 (num.Bit0 (num.Bit1 (num.Bit0 (num.Bit1 (num.Bit0 (num.Bit1 (num.Bit0 (num.Bit1 (num.Bit0 (num.Bit1 (num.Bit0 (num.Bit1 (num.Bit0 (num.Bit1 (num.Bit0 (num.Bit1 (num.Bit0 (num.Bit1 (num.Bit0 (num.Bit1 (num.Bit0 (num.Bit1 (num.Bit0 (num.One)))))))))))))))))))))))))))))))))))))))))))))))))))))))))))))))))))))))))))))))))))))))))))))))))))))))))))))))))))))))))))))))) mod (115792089237316195423570985008687907853269984665640564039457584007908834671663 :: int)"
  by (rule pow_base_stage [OF pow_seven_0 reduces_fold_field_p, of "num.Bit0 (num.Bit1 (num.Bit0 (num.Bit1 (num.Bit0 (num.Bit1 (num.Bit0 (num.Bit1 (num.Bit0 (num.Bit1 (num.Bit0 (num.Bit1 (num.Bit0 (num.Bit1 (num.Bit0 (num.Bit1 (num.Bit0 (num.Bit1 (num.Bit0 (num.Bit1 (num.Bit0 (num.Bit1 (num.Bit0 (num.Bit1 (num.Bit0 (num.Bit1 (num.Bit0 (num.Bit1 (num.Bit0 (num.Bit1 (num.Bit0 (num.Bit1 (num.Bit0 (num.Bit1 (num.Bit0 (num.Bit1 (num.Bit0 (num.Bit1 (num.Bit0 (num.Bit1 (num.Bit0 (num.Bit1 (num.Bit0 (num.Bit1 (num.Bit0 (num.Bit1 (num.Bit0 (num.Bit1 (num.Bit0 (num.Bit1 (num.Bit0 (num.Bit1 (num.Bit0 (num.Bit1 (num.Bit0 (num.Bit1 (num.Bit0 (num.Bit1 (num.Bit0 (num.Bit1 (num.Bit0 (num.Bit1 (num.Bit0 (num.Bit1 (num.One))))))))))))))))))))))))))))))))))))))))))))))))))))))))))))))))"]) (simp_all only: pow_base_eval)

lemma pow_seven_2: "81138277857917790009130749792060046992338312805118569845547311026363257725179 mod 115792089237316195423570985008687907853269984665640564039457584007908834671663 = 7 ^ numeral (num.Bit0 (num.Bit1 (num.Bit0 (num.Bit1 (num.Bit0 (num.Bit1 (num.Bit0 (num.Bit1 (num.Bit0 (num.Bit1 (num.Bit0 (num.Bit1 (num.Bit0 (num.Bit1 (num.Bit0 (num.Bit1 (num.Bit0 (num.Bit1 (num.Bit0 (num.Bit1 (num.Bit0 (num.Bit1 (num.Bit0 (num.Bit1 (num.Bit0 (num.Bit1 (num.Bit0 (num.Bit1 (num.Bit0 (num.Bit1 (num.Bit0 (num.Bit1 (num.Bit0 (num.Bit1 (num.Bit0 (num.Bit1 (num.Bit0 (num.Bit1 (num.Bit0 (num.Bit1 (num.Bit0 (num.Bit1 (num.Bit0 (num.Bit1 (num.Bit0 (num.Bit1 (num.Bit0 (num.Bit1 (num.Bit0 (num.Bit1 (num.Bit0 (num.Bit1 (num.Bit0 (num.Bit1 (num.Bit0 (num.Bit1 (num.Bit0 (num.Bit1 (num.Bit0 (num.Bit1 (num.Bit0 (num.Bit1 (num.Bit0 (num.Bit1 (num.Bit0 (num.Bit1 (num.Bit0 (num.Bit1 (num.Bit0 (num.Bit1 (num.Bit0 (num.Bit1 (num.Bit0 (num.Bit1 (num.Bit0 (num.Bit1 (num.Bit0 (num.Bit1 (num.Bit0 (num.Bit1 (num.Bit0 (num.Bit1 (num.Bit0 (num.Bit1 (num.Bit0 (num.Bit1 (num.Bit0 (num.Bit1 (num.Bit0 (num.Bit1 (num.Bit0 (num.Bit1 (num.Bit0 (num.Bit1 (num.Bit0 (num.Bit1 (num.Bit0 (num.Bit1 (num.Bit0 (num.Bit1 (num.Bit0 (num.Bit1 (num.Bit0 (num.Bit1 (num.Bit0 (num.Bit1 (num.Bit0 (num.Bit1 (num.Bit0 (num.Bit1 (num.Bit0 (num.Bit1 (num.Bit0 (num.Bit1 (num.Bit0 (num.Bit1 (num.Bit0 (num.Bit1 (num.Bit0 (num.Bit1 (num.Bit0 (num.Bit1 (num.Bit0 (num.Bit1 (num.Bit0 (num.Bit1 (num.Bit0 (num.Bit1 (num.Bit0 (num.Bit1 (num.Bit0 (num.Bit1 (num.Bit0 (num.Bit1 (num.Bit0 (num.Bit1 (num.Bit0 (num.Bit1 (num.Bit0 (num.Bit1 (num.Bit0 (num.Bit1 (num.Bit0 (num.Bit1 (num.Bit0 (num.Bit1 (num.Bit0 (num.Bit1 (num.Bit0 (num.Bit1 (num.Bit0 (num.Bit1 (num.Bit0 (num.Bit1 (num.Bit0 (num.Bit1 (num.Bit0 (num.Bit1 (num.Bit0 (num.Bit1 (num.Bit0 (num.Bit1 (num.Bit0 (num.Bit1 (num.Bit0 (num.Bit1 (num.Bit0 (num.Bit1 (num.Bit0 (num.Bit1 (num.Bit0 (num.Bit1 (num.Bit0 (num.Bit1 (num.Bit0 (num.Bit1 (num.Bit0 (num.Bit1 (num.Bit0 (num.Bit1 (num.Bit0 (num.Bit1 (num.Bit0 (num.Bit1 (num.Bit0 (num.Bit1 (num.Bit0 (num.Bit1 (num.Bit0 (num.Bit1 (num.Bit0 (num.One)))))))))))))))))))))))))))))))))))))))))))))))))))))))))))))))))))))))))))))))))))))))))))))))))))))))))))))))))))))))))))))))))))))))))))))))))))))))))))))))))))))))))))))))))))))))))))))))) mod (115792089237316195423570985008687907853269984665640564039457584007908834671663 :: int)"
  by (rule pow_base_stage [OF pow_seven_1 reduces_fold_field_p, of "num.Bit0 (num.Bit1 (num.Bit0 (num.Bit1 (num.Bit0 (num.Bit1 (num.Bit0 (num.Bit1 (num.Bit0 (num.Bit1 (num.Bit0 (num.Bit1 (num.Bit0 (num.Bit1 (num.Bit0 (num.Bit1 (num.Bit0 (num.Bit1 (num.Bit0 (num.Bit1 (num.Bit0 (num.Bit1 (num.Bit0 (num.Bit1 (num.Bit0 (num.Bit1 (num.Bit0 (num.Bit1 (num.Bit0 (num.Bit1 (num.Bit0 (num.Bit1 (num.Bit0 (num.Bit1 (num.Bit0 (num.Bit1 (num.Bit0 (num.Bit1 (num.Bit0 (num.Bit1 (num.Bit0 (num.Bit1 (num.Bit0 (num.Bit1 (num.Bit0 (num.Bit1 (num.Bit0 (num.Bit1 (num.Bit0 (num.Bit1 (num.Bit0 (num.Bit1 (num.Bit0 (num.Bit1 (num.Bit0 (num.Bit1 (num.Bit0 (num.Bit1 (num.Bit0 (num.Bit1 (num.Bit0 (num.Bit1 (num.Bit0 (num.Bit1 (num.One))))))))))))))))))))))))))))))))))))))))))))))))))))))))))))))))"]) (simp_all only: pow_base_eval)

lemma pow_seven_3: "55594575648329892869085402983802832744385952214688224221778511981742606582254 mod 115792089237316195423570985008687907853269984665640564039457584007908834671663 = 7 ^ numeral (num.Bit0 (num.Bit1 (num.Bit0 (num.Bit1 (num.Bit1 (num.Bit1 (num.Bit0 (num.Bit1 (num.Bit0 (num.Bit1 (num.Bit1 (num.Bit1 (num.Bit1 (num.Bit1 (num.Bit1 (num.Bit1 (num.Bit1 (num.Bit1 (num.Bit1 (num.Bit1 (num.Bit1 (num.Bit1 (num.Bit1 (num.Bit1 (num.Bit1 (num.Bit1 (num.Bit1 (num.Bit1 (num.Bit1 (num.Bit1 (num.Bit1 (num.Bit1 (num.Bit0 (num.Bit0 (num.Bit1 (num.Bit0 (num.Bit1 (num.Bit0 (num.Bit1 (num.Bit0 (num.Bit1 (num.Bit0 (num.Bit1 (num.Bit0 (num.Bit1 (num.Bit0 (num.Bit1 (num.Bit0 (num.Bit1 (num.Bit0 (num.Bit1 (num.Bit0 (num.Bit1 (num.Bit0 (num.Bit1 (num.Bit0 (num.Bit1 (num.Bit0 (num.Bit1 (num.Bit0 (num.Bit1 (num.Bit0 (num.Bit1 (num.Bit0 (num.Bit1 (num.Bit0 (num.Bit1 (num.Bit0 (num.Bit1 (num.Bit0 (num.Bit1 (num.Bit0 (num.Bit1 (num.Bit0 (num.Bit1 (num.Bit0 (num.Bit1 (num.Bit0 (num.Bit1 (num.Bit0 (num.Bit1 (num.Bit0 (num.Bit1 (num.Bit0 (num.Bit1 (num.Bit0 (num.Bit1 (num.Bit0 (num.Bit1 (num.Bit0 (num.Bit1 (num.Bit0 (num.Bit1 (num.Bit0 (num.Bit1 (num.Bit0 (num.Bit1 (num.Bit0 (num.Bit1 (num.Bit0 (num.Bit1 (num.Bit0 (num.Bit1 (num.Bit0 (num.Bit1 (num.Bit0 (num.Bit1 (num.Bit0 (num.Bit1 (num.Bit0 (num.Bit1 (num.Bit0 (num.Bit1 (num.Bit0 (num.Bit1 (num.Bit0 (num.Bit1 (num.Bit0 (num.Bit1 (num.Bit0 (num.Bit1 (num.Bit0 (num.Bit1 (num.Bit0 (num.Bit1 (num.Bit0 (num.Bit1 (num.Bit0 (num.Bit1 (num.Bit0 (num.Bit1 (num.Bit0 (num.Bit1 (num.Bit0 (num.Bit1 (num.Bit0 (num.Bit1 (num.Bit0 (num.Bit1 (num.Bit0 (num.Bit1 (num.Bit0 (num.Bit1 (num.Bit0 (num.Bit1 (num.Bit0 (num.Bit1 (num.Bit0 (num.Bit1 (num.Bit0 (num.Bit1 (num.Bit0 (num.Bit1 (num.Bit0 (num.Bit1 (num.Bit0 (num.Bit1 (num.Bit0 (num.Bit1 (num.Bit0 (num.Bit1 (num.Bit0 (num.Bit1 (num.Bit0 (num.Bit1 (num.Bit0 (num.Bit1 (num.Bit0 (num.Bit1 (num.Bit0 (num.Bit1 (num.Bit0 (num.Bit1 (num.Bit0 (num.Bit1 (num.Bit0 (num.Bit1 (num.Bit0 (num.Bit1 (num.Bit0 (num.Bit1 (num.Bit0 (num.Bit1 (num.Bit0 (num.Bit1 (num.Bit0 (num.Bit1 (num.Bit0 (num.Bit1 (num.Bit0 (num.Bit1 (num.Bit0 (num.Bit1 (num.Bit0 (num.Bit1 (num.Bit0 (num.Bit1 (num.Bit0 (num.Bit1 (num.Bit0 (num.Bit1 (num.Bit0 (num.Bit1 (num.Bit0 (num.Bit1 (num.Bit0 (num.Bit1 (num.Bit0 (num.Bit1 (num.Bit0 (num.Bit1 (num.Bit0 (num.Bit1 (num.Bit0 (num.Bit1 (num.Bit0 (num.Bit1 (num.Bit0 (num.Bit1 (num.Bit0 (num.Bit1 (num.Bit0 (num.Bit1 (num.Bit0 (num.Bit1 (num.Bit0 (num.Bit1 (num.Bit0 (num.Bit1 (num.Bit0 (num.Bit1 (num.Bit0 (num.Bit1 (num.Bit0 (num.Bit1 (num.Bit0 (num.Bit1 (num.Bit0 (num.Bit1 (num.Bit0 (num.Bit1 (num.Bit0 (num.Bit1 (num.Bit0 (num.Bit1 (num.Bit0 (num.Bit1 (num.Bit0 (num.Bit1 (num.Bit0 (num.Bit1 (num.Bit0 (num.Bit1 (num.Bit0 (num.One))))))))))))))))))))))))))))))))))))))))))))))))))))))))))))))))))))))))))))))))))))))))))))))))))))))))))))))))))))))))))))))))))))))))))))))))))))))))))))))))))))))))))))))))))))))))))))))))))))))))))))))))))))))))))))))))))))))))))))))))))))))))))))))) mod (115792089237316195423570985008687907853269984665640564039457584007908834671663 :: int)"
  by (rule pow_base_stage [OF pow_seven_2 reduces_fold_field_p, of "num.Bit0 (num.Bit1 (num.Bit0 (num.Bit1 (num.Bit1 (num.Bit1 (num.Bit0 (num.Bit1 (num.Bit0 (num.Bit1 (num.Bit1 (num.Bit1 (num.Bit1 (num.Bit1 (num.Bit1 (num.Bit1 (num.Bit1 (num.Bit1 (num.Bit1 (num.Bit1 (num.Bit1 (num.Bit1 (num.Bit1 (num.Bit1 (num.Bit1 (num.Bit1 (num.Bit1 (num.Bit1 (num.Bit1 (num.Bit1 (num.Bit1 (num.Bit1 (num.Bit0 (num.Bit0 (num.Bit1 (num.Bit0 (num.Bit1 (num.Bit0 (num.Bit1 (num.Bit0 (num.Bit1 (num.Bit0 (num.Bit1 (num.Bit0 (num.Bit1 (num.Bit0 (num.Bit1 (num.Bit0 (num.Bit1 (num.Bit0 (num.Bit1 (num.Bit0 (num.Bit1 (num.Bit0 (num.Bit1 (num.Bit0 (num.Bit1 (num.Bit0 (num.Bit1 (num.Bit0 (num.Bit1 (num.Bit0 (num.Bit1 (num.One)))))))))))))))))))))))))))))))))))))))))))))))))))))))))))))))"]) (simp_all only: pow_base_eval)

text \<open>The result on ordinary numerals.\<close>

lemma pow_seven: "(7 :: int) ^ 38597363079105398474523661669562635951089994888546854679819194669302944890554 mod 115792089237316195423570985008687907853269984665640564039457584007908834671663 = 55594575648329892869085402983802832744385952214688224221778511981742606582254"
proof -
  have "(55594575648329892869085402983802832744385952214688224221778511981742606582254 :: int) mod 115792089237316195423570985008687907853269984665640564039457584007908834671663 = 55594575648329892869085402983802832744385952214688224221778511981742606582254"
    by (rule mod_pos_pos_trivial) (simp_all only: num_eval)
  then show ?thesis
    using pow_seven_3 by (simp only:)
qed

end
