(* ===== verification/Curve.thy ===== *)
theory Curve
  imports Prime_Field Nonresidue
begin

text \<open>
  The curve \<open>y\<^sup>2 = x\<^sup>3 + 7\<close> in affine form with a point at infinity, its negation and its
  chord-and-tangent addition: the specification the jacobian routines of the code refine.
\<close>

datatype point = Infinity | Point fp fp

fun on_curve :: "point \<Rightarrow> bool" where
  "on_curve Infinity = True"
| "on_curve (Point x y) = (y ^ 2 = x ^ 3 + 7)"

fun point_neg :: "point \<Rightarrow> point" where
  "point_neg Infinity = Infinity"
| "point_neg (Point x y) = Point x (- y)"

text \<open>The third point of the line with slope \<open>l\<close> through \<open>(x1, y1)\<close> and a point over \<open>x2\<close>, reflected.\<close>

definition chord :: "fp \<Rightarrow> fp \<Rightarrow> fp \<Rightarrow> fp \<Rightarrow> point" where
  "chord l x1 y1 x2 = (let x3 = l ^ 2 - x1 - x2 in Point x3 (l * (x1 - x3) - y1))"

fun point_add :: "point \<Rightarrow> point \<Rightarrow> point" where
  "point_add Infinity Q = Q"
| "point_add P Infinity = P"
| "point_add (Point x1 y1) (Point x2 y2) =
     (if x1 = x2 then
        if y1 = - y2 then Infinity else chord (3 * x1 ^ 2 / (2 * y1)) x1 y1 x2
      else chord ((y2 - y1) / (x2 - x1)) x1 y1 x2)"

section \<open>No point of order two\<close>

lemma fp_two_neq_0: "(2 :: fp) \<noteq> 0"
  using numeral_fp_eq_0_iff [of "num.Bit0 num.One"] by (simp add: field_p_def dvd_eq_mod_eq_0)

lemma fp_four_eight: "(4 :: fp) \<noteq> 0" "(8 :: fp) \<noteq> 0"
proof -
  have "(4 :: fp) = 2 * 2" "(8 :: fp) = 2 * 2 * 2" by simp_all
  then show "(4 :: fp) \<noteq> 0" "(8 :: fp) \<noteq> 0"
    using fp_two_neq_0 mult_eq_0_iff by metis+
qed

lemma seven_not_cube: "(x :: fp) ^ 3 \<noteq> - 7"
proof
  define e :: nat where "e = 38597363079105398474523661669562635951089994888546854679819194669302944890554"
  assume x: "x ^ 3 = - 7"
  have "x \<noteq> 0"
  proof
    assume "x = 0"
    then have "(7 :: fp) = 0" using x by simp
    then show False
      using numeral_fp_eq_0_iff [of "num.Bit1 (num.Bit1 num.One)"] by (simp add: field_p_def dvd_eq_mod_eq_0)
  qed
  then have "x ^ (3 * e) = 1"
    using fp_fermat [of x] by (simp add: e_def field_p_def)
  then have "(- 7 :: fp) ^ e = 1"
    using x by (simp add: power_mult)
  moreover have "even e" by (simp add: e_def)
  ultimately have "(of_nat (7 ^ e) :: fp) = of_nat 1" by simp
  then have "int (7 ^ e mod field_p) = int (1 mod field_p)"
    unfolding of_nat_fp_eq_iff by simp
  then have "7 ^ e mod int field_p = 1 mod int field_p"
    by (simp only: of_nat_mod of_nat_power of_nat_numeral of_nat_1)
  moreover have "7 ^ e mod int field_p = 55594575648329892869085402983802832744385952214688224221778511981742606582254"
    unfolding e_def field_p_def of_nat_numeral by (rule pow_seven)
  moreover have "1 mod int field_p = 1" by (simp add: field_p_def)
  ultimately show False by simp
qed

lemma on_curve_y_neq_0: "on_curve (Point x y) \<Longrightarrow> y \<noteq> 0"
proof
  assume "on_curve (Point x y)" "y = 0"
  then have "x ^ 3 = - 7" by (simp add: eq_neg_iff_add_eq_0)
  then show False using seven_not_cube by blast
qed

section \<open>Laws of the addition\<close>

lemma point_neg_neg [simp]: "point_neg (point_neg P) = P"
  by (cases P) simp_all

lemma on_curve_neg [simp]: "on_curve (point_neg P) \<longleftrightarrow> on_curve P"
  by (cases P) simp_all

lemma point_add_Infinity [simp]: "point_add P Infinity = P" "point_add Infinity P = P"
  by (cases P; simp)+

lemma point_add_neg: "point_add P (point_neg P) = Infinity"
  by (cases P) simp_all

lemma same_x_cases:
  assumes "on_curve (Point x y1)" "on_curve (Point x y2)" "y1 \<noteq> - y2"
  shows "y1 = y2"
proof -
  have "(y1 - y2) * (y1 + y2) = 0"
    using assms(1,2) by (simp add: algebra_simps power2_eq_square)
  then show ?thesis
    using assms(3) by (auto simp: eq_neg_iff_add_eq_0)
qed

lemma chord_commute:
  assumes "l * (x2 - x1) = y2 - y1"
  shows "chord l x1 y1 x2 = chord l x2 y2 x1"
proof -
  have "y2 = y1 + l * (x2 - x1)" using assms by simp
  then show ?thesis
    by (simp add: chord_def Let_def algebra_simps)
qed

theorem point_add_commute:
  assumes "on_curve P" "on_curve Q"
  shows "point_add P Q = point_add Q P"
proof (cases P; cases Q)
  fix x1 y1 x2 y2
  assume PQ: "P = Point x1 y1" "Q = Point x2 y2"
  show ?thesis
  proof (cases "x1 = x2")
    case True
    then have "y1 = - y2 \<or> y1 = y2"
      using same_x_cases [of x1 y1 y2] assms PQ by auto
    then show ?thesis
      using True by (auto simp: PQ)
  next
    case False
    have "(y1 - y2) / (x1 - x2) = (y2 - y1) / (x2 - x1)"
      by (metis minus_diff_eq minus_divide_divide)
    moreover have "chord ((y2 - y1) / (x2 - x1)) x1 y1 x2 = chord ((y2 - y1) / (x2 - x1)) x2 y2 x1"
      by (rule chord_commute) (use False in simp)
    ultimately show ?thesis using False by (simp add: PQ)
  qed
qed simp_all

text \<open>The addition stays on the curve: the chord meets the curve in a third point.\<close>

lemma chord_on_curve:
  assumes P: "y1 ^ 2 = x1 ^ 3 + 7" and l: "2 * l * y1 = x1 ^ 2 + x1 * x2 + x2 ^ 2 - l ^ 2 * (x2 - x1)"
  shows "on_curve (chord l x1 y1 x2)"
proof -
  define x3 where "x3 = l ^ 2 - x1 - x2"
  have "(l * (x1 - x3) - y1) ^ 2 - (x3 ^ 3 + 7) =
      y1 ^ 2 - (x1 ^ 3 + 7) + (x3 - x1) * (2 * l * y1 - (x1 ^ 2 + x1 * x2 + x2 ^ 2 - l ^ 2 * (x2 - x1)))"
    unfolding x3_def by (simp add: algebra_simps power2_eq_square power3_eq_cube)
  then show ?thesis
    using P l by (simp add: chord_def Let_def x3_def)
qed

theorem point_add_on_curve:
  assumes "on_curve P" "on_curve Q"
  shows "on_curve (point_add P Q)"
proof (cases P; cases Q)
  fix x1 y1 x2 y2
  assume PQ: "P = Point x1 y1" "Q = Point x2 y2"
  then have P: "y1 ^ 2 = x1 ^ 3 + 7" and Q: "y2 ^ 2 = x2 ^ 3 + 7" using assms by simp_all
  consider "x1 = x2" "y1 = - y2" | "x1 = x2" "y1 \<noteq> - y2" | "x1 \<noteq> x2" by blast
  then show ?thesis
  proof cases
    case 2
    define l where "l = 3 * x1 ^ 2 / (2 * y1)"
    have "2 * l * y1 = 3 * x1 ^ 2"
      using on_curve_y_neq_0 [of x1 y1] P fp_two_neq_0 by (simp add: l_def)
    then have "on_curve (chord l x1 y1 x1)"
      by (intro chord_on_curve P) (simp add: power2_eq_square)
    then show ?thesis using 2 by (simp add: PQ l_def)
  next
    case 3
    define l where "l = (y2 - y1) / (x2 - x1)"
    have l: "l * (x2 - x1) = y2 - y1" using 3 by (simp add: l_def)
    have "(x2 - x1) * (2 * l * y1 - (x1 ^ 2 + x1 * x2 + x2 ^ 2 - l ^ 2 * (x2 - x1))) =
        2 * y1 * (l * (x2 - x1)) + (l * (x2 - x1)) ^ 2 - (x2 ^ 3 - x1 ^ 3)"
      by (simp add: algebra_simps power2_eq_square power3_eq_cube)
    also have "\<dots> = y2 ^ 2 - y1 ^ 2 - (x2 ^ 3 - x1 ^ 3)"
      unfolding l by (simp add: algebra_simps power2_eq_square)
    also have "\<dots> = 0" using P Q by simp
    finally have "on_curve (chord l x1 y1 x2)"
      using 3 by (intro chord_on_curve P) simp
    then show ?thesis using 3 by (simp add: PQ l_def)
  qed (simp add: PQ)
qed (use assms in simp_all)

section \<open>Jacobian coordinates\<close>

text \<open>Two finite points over a common denominator \<open>z\<close>: the sum in jacobian form.\<close>

lemma point_add_jacobian:
  assumes z: "z \<noteq> 0" and h: "h = u2 - u1" "h \<noteq> 0" and i: "i = s2 - s1"
    and x3: "x3 = i ^ 2 - h ^ 3 - 2 * (u1 * h ^ 2)" and y3: "y3 = (u1 * h ^ 2 - x3) * i - h ^ 3 * s1"
  shows "point_add (Point (u1 / z ^ 2) (s1 / z ^ 3)) (Point (u2 / z ^ 2) (s2 / z ^ 3)) =
    Point (x3 / (z * h) ^ 2) (y3 / (z * h) ^ 3)"
proof -
  define D where "D = z * h"
  have D: "D \<noteq> 0" "u1 / z ^ 2 = u1 * h ^ 2 / D ^ 2" "u2 / z ^ 2 = u2 * h ^ 2 / D ^ 2"
      "s1 / z ^ 3 = s1 * h ^ 3 / D ^ 3" "s2 / z ^ 3 = s2 * h ^ 3 / D ^ 3"
    using z h(2) by (simp_all add: D_def power_mult_distrib)
  have ne: "u1 * h ^ 2 / D ^ 2 \<noteq> u2 * h ^ 2 / D ^ 2" using h D(1) by auto
  have "(s2 * h ^ 3 / D ^ 3 - s1 * h ^ 3 / D ^ 3) / (u2 * h ^ 2 / D ^ 2 - u1 * h ^ 2 / D ^ 2) =
      (i * h ^ 3 / D ^ 3) / (h * h ^ 2 / D ^ 2)"
    by (simp only: i h(1) left_diff_distrib diff_divide_distrib)
  also have "\<dots> = i / D"
    using h(2) D(1) by (simp add: power3_eq_cube power2_eq_square)
  finally have l: "(s2 * h ^ 3 / D ^ 3 - s1 * h ^ 3 / D ^ 3) / (u2 * h ^ 2 / D ^ 2 - u1 * h ^ 2 / D ^ 2) = i / D" .
  have "(i / D) ^ 2 - u1 * h ^ 2 / D ^ 2 - u2 * h ^ 2 / D ^ 2 = (i ^ 2 - u1 * h ^ 2 - u2 * h ^ 2) / D ^ 2"
    by (simp add: power_divide diff_divide_distrib)
  also have "i ^ 2 - u1 * h ^ 2 - u2 * h ^ 2 = x3"
    unfolding x3 h(1) by (simp add: power2_eq_square power3_eq_cube algebra_simps)
  finally have x: "(i / D) ^ 2 - u1 * h ^ 2 / D ^ 2 - u2 * h ^ 2 / D ^ 2 = x3 / D ^ 2" .
  have "i / D * (u1 * h ^ 2 / D ^ 2 - x3 / D ^ 2) - s1 * h ^ 3 / D ^ 3 =
      (i * (u1 * h ^ 2 - x3) - s1 * h ^ 3) / D ^ 3"
    by (simp add: diff_divide_distrib right_diff_distrib power2_eq_square power3_eq_cube mult.assoc)
  also have "i * (u1 * h ^ 2 - x3) - s1 * h ^ 3 = y3"
    unfolding y3 by (simp add: algebra_simps)
  finally have "i / D * (u1 * h ^ 2 / D ^ 2 - x3 / D ^ 2) - s1 * h ^ 3 / D ^ 3 = y3 / D ^ 3" .
  then show ?thesis
    using ne by (simp only: D point_add.simps if_False l chord_def Let_def x D_def [symmetric])
qed

lemma point_double_jacobian:
  assumes z: "z \<noteq> 0" and y: "y \<noteq> 0"
    and x3: "x3 = 9 * x ^ 4 - 8 * x * y ^ 2" and y3: "y3 = 3 * x ^ 2 * (12 * x * y ^ 2 - 9 * x ^ 4) - 8 * y ^ 4"
  shows "point_add (Point (x / z ^ 2) (y / z ^ 3)) (Point (x / z ^ 2) (y / z ^ 3)) =
    Point (x3 / (2 * y * z) ^ 2) (y3 / (2 * y * z) ^ 3)"
proof -
  have y1: "y / z ^ 3 \<noteq> - (y / z ^ 3)"
  proof
    assume "y / z ^ 3 = - (y / z ^ 3)"
    then have "2 * (y / z ^ 3) = 0"
      by (simp only: eq_neg_iff_add_eq_0 mult_2)
    then show False using z y fp_two_neq_0 by simp
  qed
  define D where "D = 2 * y * z"
  have D: "D \<noteq> 0" "x / z ^ 2 = x * (4 * y ^ 2) / D ^ 2" "y / z ^ 3 = 8 * y ^ 4 / D ^ 3"
    using z y fp_two_neq_0 fp_four_eight by (simp_all add: D_def power_mult_distrib power3_eq_cube power4_eq_xxxx)
  have l: "3 * (x / z ^ 2) ^ 2 / (2 * (y / z ^ 3)) = 3 * x ^ 2 / D"
    using z y fp_two_neq_0 by (simp add: D_def power_divide power2_eq_square power3_eq_cube power4_eq_xxxx)
  have "(3 * x ^ 2 / D) ^ 2 - x * (4 * y ^ 2) / D ^ 2 - x * (4 * y ^ 2) / D ^ 2 =
      ((3 * x ^ 2) ^ 2 - x * (4 * y ^ 2) - x * (4 * y ^ 2)) / D ^ 2"
    by (simp add: power_divide diff_divide_distrib)
  also have "(3 * x ^ 2) ^ 2 - x * (4 * y ^ 2) - x * (4 * y ^ 2) = x3"
    unfolding x3 by (simp add: power2_eq_square power4_eq_xxxx)
  finally have x': "(3 * x ^ 2 / D) ^ 2 - x / z ^ 2 - x / z ^ 2 = x3 / D ^ 2"
    by (simp only: D)
  have "3 * x ^ 2 / D * (x * (4 * y ^ 2) / D ^ 2 - x3 / D ^ 2) - 8 * y ^ 4 / D ^ 3 =
      (3 * x ^ 2 * (x * (4 * y ^ 2) - x3) - 8 * y ^ 4) / D ^ 3"
    by (simp add: diff_divide_distrib right_diff_distrib power2_eq_square power3_eq_cube mult.assoc)
  also have "3 * x ^ 2 * (x * (4 * y ^ 2) - x3) - 8 * y ^ 4 = y3"
    unfolding x3 y3 by (simp add: power2_eq_square power4_eq_xxxx algebra_simps)
  finally have "3 * x ^ 2 / D * (x / z ^ 2 - x3 / D ^ 2) - y / z ^ 3 = y3 / D ^ 3"
    by (simp only: D)
  then show ?thesis
    using y1 by (simp only: point_add.simps if_True if_False refl l x' chord_def Let_def D_def [symmetric])
qed

section \<open>The unified formula\<close>

text \<open>
  The constant-time addition uses one slope for chords and tangents,
  \<open>(x1\<^sup>2 + x1 x2 + x2\<^sup>2) / (y1 + y2)\<close>, and the chord's own slope where that is \<open>0 / 0\<close>.
\<close>

lemma slope_numerator:
  "a / D * (b / D ^ 2 - 2 * (c / D ^ 2)) - m / D ^ 3 = (a * (b - 2 * c) - m) / (D :: fp) ^ 3"
  by (simp add: diff_divide_distrib right_diff_distrib power2_eq_square power3_eq_cube mult.assoc)

lemma point_add_slope:
  assumes c: "point_add (Point x1 y1) (Point x2 y2) = chord l x1 y1 x2" and l: "l * (x2 - x1) = y2 - y1"
    and d: "D \<noteq> 0" and e: "l = Ra / D" "x1 + x2 = T / z ^ 2" "y1 + y2 = M / z ^ 3" "D = Ma * z" "z \<noteq> 0"
  shows "point_add (Point x1 y1) (Point x2 y2) =
    Point (4 * (Ra ^ 2 - T * Ma ^ 2) / (2 * Ma * z) ^ 2)
      (4 * (Ra * (T * Ma ^ 2 - 2 * (Ra ^ 2 - T * Ma ^ 2)) - M * Ma ^ 3) / (2 * Ma * z) ^ 3)"
proof -
  define x3 where "x3 = l ^ 2 - x1 - x2"
  have Ma: "Ma \<noteq> 0" using d e by auto
  have D2: "T / z ^ 2 = T * Ma ^ 2 / D ^ 2" "M / z ^ 3 = M * Ma ^ 3 / D ^ 3"
    using e(4,5) Ma by (simp_all add: power_mult_distrib)
  have two: "4 * a / (2 * Ma * z) ^ 2 = a / D ^ 2" "4 * a / (2 * Ma * z) ^ 3 = a / D ^ 3 / 2" for a
  proof -
    have "(2 * Ma * z) ^ 2 = 4 * D ^ 2" "(2 * Ma * z) ^ 3 = 4 * (D ^ 3 * 2)"
      by (simp_all add: e(4) power_mult_distrib)
    then show "4 * a / (2 * Ma * z) ^ 2 = a / D ^ 2" "4 * a / (2 * Ma * z) ^ 3 = a / D ^ 3 / 2"
      by (simp_all only: mult_divide_mult_cancel_left [OF fp_four_eight(1)] divide_divide_eq_left)
  qed
  have "x3 = l ^ 2 - (x1 + x2)" by (simp add: x3_def)
  also have "\<dots> = (Ra ^ 2 - T * Ma ^ 2) / D ^ 2"
    unfolding e(1,2) D2 by (simp add: power_divide diff_divide_distrib)
  finally have x: "x3 = 4 * (Ra ^ 2 - T * Ma ^ 2) / (2 * Ma * z) ^ 2"
    by (simp only: two)
  have "2 * (l * (x1 - x3) - y1) = l * ((x1 + x2) - 2 * x3) - (y1 + y2) - (l * (x2 - x1) - (y2 - y1))"
    by (simp add: algebra_simps)
  also have "\<dots> = l * ((x1 + x2) - 2 * x3) - (y1 + y2)"
    using l by simp
  also have "\<dots> = (Ra * (T * Ma ^ 2 - 2 * (Ra ^ 2 - T * Ma ^ 2)) - M * Ma ^ 3) / D ^ 3"
    unfolding x two e(1,2,3) D2 by (rule slope_numerator)
  finally have "l * (x1 - x3) - y1 = (Ra * (T * Ma ^ 2 - 2 * (Ra ^ 2 - T * Ma ^ 2)) - M * Ma ^ 3) / D ^ 3 / 2"
    using fp_two_neq_0 by (metis nonzero_mult_div_cancel_left)
  then show ?thesis
    using x by (simp only: c chord_def Let_def x3_def [symmetric] two)
qed

lemma point_add_unified:
  assumes z: "z \<noteq> 0" and P: "s1 ^ 2 = u1 ^ 3 + 7 * z ^ 6" and Q: "s2 ^ 2 = u2 ^ 3 + 7 * z ^ 6"
    and T: "T = u1 + u2" and M: "M = s1 + s2" and R: "R = T ^ 2 - u1 * u2"
    and d: "d \<longleftrightarrow> M = 0 \<and> R = 0"
    and a: "Ra = (if d then 2 * s1 else R)" "Ma = (if d then u1 - u2 else M)"
  shows "point_add (Point (u1 / z ^ 2) (s1 / z ^ 3)) (Point (u2 / z ^ 2) (s2 / z ^ 3)) =
    (if Ma = 0 then Infinity
     else Point (4 * (Ra ^ 2 - T * Ma ^ 2) / (2 * Ma * z) ^ 2)
       (4 * (Ra * (T * Ma ^ 2 - 2 * (Ra ^ 2 - T * Ma ^ 2)) - M * Ma ^ 3) / (2 * Ma * z) ^ 3))"
proof -
  let ?P = "Point (u1 / z ^ 2) (s1 / z ^ 3)" and ?Q = "Point (u2 / z ^ 2) (s2 / z ^ 3)"
  have cube: "(s2 - s1) * M = (u2 - u1) * R"
    using P Q unfolding T M R by (simp add: algebra_simps power2_eq_square power3_eq_cube)
  have sums: "u1 / z ^ 2 + u2 / z ^ 2 = T / z ^ 2" "s1 / z ^ 3 + s2 / z ^ 3 = M / z ^ 3"
    unfolding T M by (simp_all add: add_divide_distrib)
  consider "u1 = u2" "M = 0" | "u1 = u2" "M \<noteq> 0" | "u1 \<noteq> u2" by blast
  then show ?thesis
  proof cases
    case 1
    then have "s2 = - s1" by (simp add: M add_eq_0_iff)
    then show ?thesis using 1 a by auto
  next
    case 2
    then have nd: "\<not> d" "Ma = M" "Ra = R" using d a by auto
    have s: "s2 = s1" using cube 2 by simp
    then have s1: "M = 2 * s1" "s1 \<noteq> 0" using 2 M by auto
    have l: "3 * (u1 / z ^ 2) ^ 2 / (2 * (s1 / z ^ 3)) = Ra / (Ma * z)"
      using z s1 fp_two_neq_0 2(1) by (simp add: nd R T power2_eq_square power3_eq_cube)
    have "s1 / z ^ 3 \<noteq> - (s2 / z ^ 3)"
    proof
      assume "s1 / z ^ 3 = - (s2 / z ^ 3)"
      then have "s1 / z ^ 3 + s2 / z ^ 3 = 0" by (simp only: eq_neg_iff_add_eq_0)
      then show False using sums 2 z by simp
    qed
    then have "point_add ?P ?Q = chord (Ra / (Ma * z)) (u1 / z ^ 2) (s1 / z ^ 3) (u2 / z ^ 2)"
      using 2 by (simp only: point_add.simps if_True if_False refl l [unfolded 2(1)])
    from point_add_slope [OF this, of "Ma * z" Ra T z M Ma] show ?thesis
      using 2 z s sums nd by simp
  next
    case 3
    have ne: "u1 / z ^ 2 \<noteq> u2 / z ^ 2" using 3 z by simp
    have Ma: "Ma \<noteq> 0" and l: "(s2 - s1) * Ma = (u2 - u1) * Ra"
    proof -
      have "Ma \<noteq> 0 \<and> (s2 - s1) * Ma = (u2 - u1) * Ra"
      proof (cases d)
        case True
        then have "s2 = - s1" using d M by (simp add: add_eq_0_iff)
        then show ?thesis using True 3 unfolding a by (simp add: algebra_simps)
      next
        case False
        then show ?thesis using a d cube 3 by auto
      qed
      then show "Ma \<noteq> 0" "(s2 - s1) * Ma = (u2 - u1) * Ra" by blast+
    qed
    have "(s2 / z ^ 3 - s1 / z ^ 3) / (u2 / z ^ 2 - u1 / z ^ 2) = ((s2 - s1) / (u2 - u1)) / z"
      using z by (simp add: power2_eq_square power3_eq_cube flip: diff_divide_distrib)
    also have "(s2 - s1) / (u2 - u1) = Ra / Ma"
      using l Ma 3 by (simp add: frac_eq_eq mult.commute)
    finally have s: "(s2 / z ^ 3 - s1 / z ^ 3) / (u2 / z ^ 2 - u1 / z ^ 2) = Ra / (Ma * z)"
      by simp
    then have "point_add ?P ?Q = chord (Ra / (Ma * z)) (u1 / z ^ 2) (s1 / z ^ 3) (u2 / z ^ 2)"
      using ne by (simp only: point_add.simps if_False)
    moreover have "u2 / z ^ 2 - u1 / z ^ 2 \<noteq> 0" using ne by auto
    then have "Ra / (Ma * z) * (u2 / z ^ 2 - u1 / z ^ 2) = s2 / z ^ 3 - s1 / z ^ 3"
      unfolding s [symmetric] by (rule nonzero_eq_divide_eq [THEN iffD1, OF _ refl])
    ultimately show ?thesis
      using point_add_slope [of "u1 / z ^ 2" "s1 / z ^ 3" "u2 / z ^ 2" "s2 / z ^ 3" "Ra / (Ma * z)" "Ma * z" Ra T z M Ma]
        Ma z sums by simp
  qed
qed

end
