(* ===== verification/Group_Law.thy ===== *)
theory Group_Law
  imports Group Curve Field_Bytes
begin

text \<open>
  The group component refines the affine curve: an abstraction function from jacobian and affine
  records to points, the invariant the routines keep, and the refinement of every operation.
\<close>

section \<open>Symbolic execution of field code\<close>

text \<open>The residue an element stands for.\<close>

definition fev :: "secp256k1_fe \<Rightarrow> fp" where
  "fev a = of_nat (fe_val a)"

lemma fe_is_fev: "fe_is m x a \<longleftrightarrow> fe_mag m a \<and> fev a = x"
  by (simp add: fe_is_def fev_def)

named_theorems fe_exec \<open>rules that execute one field operation with its magnitude bounds\<close>

lemma let_fe:
  assumes "fe_is k x t" and "k = m" and P: "\<And>w v. v = x \<Longrightarrow> fe_is m v w \<Longrightarrow> P (f w)"
  shows "P (Let t f)"
  using P [OF refl, of t] assms(1,2) by (simp add: Let_def)

lemma fe_exec_mul [fe_exec]:
  "fe_is j x a \<Longrightarrow> fe_is k y b \<Longrightarrow> j \<le> 8 \<Longrightarrow> k \<le> 8 \<Longrightarrow> fe_is 1 (x * y) (secp256k1_fe_mul a b)"
  by (rule secp256k1_fe_mul_is; erule fe_is_mono)

lemma fe_exec_sqr [fe_exec]:
  "fe_is j x a \<Longrightarrow> j \<le> 8 \<Longrightarrow> fe_is 1 (x * x) (secp256k1_fe_sqr a)"
  by (rule secp256k1_fe_sqr_is; erule fe_is_mono)

lemma fe_exec_add [fe_exec]:
  "fe_is j x a \<Longrightarrow> fe_is k y b \<Longrightarrow> j + k \<le> 2048 \<Longrightarrow> fe_is (j + k) (x + y) (secp256k1_fe_add a b)"
  by (rule secp256k1_fe_add_is)

lemma fe_exec_mul_int [fe_exec]:
  "fe_is j x a \<Longrightarrow> j * numeral k \<le> 2048 \<Longrightarrow> fe_is (j * numeral k) (numeral k * x) (secp256k1_fe_mul_int a (numeral k))"
  using secp256k1_fe_mul_int_is [of j x a "numeral k"] by simp

lemma fe_exec_negate [fe_exec]:
  "fe_is j x a \<Longrightarrow> j \<le> numeral k \<Longrightarrow> numeral k \<le> (2047 :: nat) \<Longrightarrow> fe_is (numeral k + 1) (- x) (secp256k1_fe_negate a (numeral k))"
  using secp256k1_fe_negate_is [of j x a "numeral k"] by simp

lemma fe_exec_negate_1 [fe_exec]:
  "fe_is j x a \<Longrightarrow> j \<le> 1 \<Longrightarrow> fe_is 2 (- x) (secp256k1_fe_negate a 1)"
  using secp256k1_fe_negate_is [of j x a 1] by (simp add: numeral_2_eq_2)

lemma fe_exec_normalize_weak [fe_exec]:
  "fe_is j x a \<Longrightarrow> j \<le> 32 \<Longrightarrow> fe_is 1 x (secp256k1_fe_normalize_weak a)"
  by (rule secp256k1_fe_normalize_weak_is) (erule fe_is_mono)

lemma fe_exec_normalize [fe_exec]:
  "fe_is j x a \<Longrightarrow> j \<le> 32 \<Longrightarrow> fe_is 1 x (secp256k1_fe_normalize a)"
  by (rule secp256k1_fe_normalize_is) (erule fe_is_mono)

lemma fe_exec_inv [fe_exec]:
  "fe_is j x a \<Longrightarrow> j \<le> 8 \<Longrightarrow> fe_is 1 (inverse x) (secp256k1_fe_inv a)"
  "fe_is j x a \<Longrightarrow> j \<le> 8 \<Longrightarrow> fe_is 1 (inverse x) (secp256k1_fe_inv_var a)"
  by (rule secp256k1_fe_inv_is, erule fe_is_mono, assumption)
    (rule secp256k1_fe_inv_var_is, erule fe_is_mono, assumption)

lemma fe_exec_set_int [fe_exec]:
  "numeral k \<le> (0x1FFFFFFFFFFFFE :: nat) \<Longrightarrow> fe_is 1 (numeral k) (secp256k1_fe_set_int (numeral k))"
  "fe_is 1 1 (secp256k1_fe_set_int 1)" "fe_is 1 0 (secp256k1_fe_set_int 0)"
  using secp256k1_fe_set_int_is [of "numeral k"] secp256k1_fe_set_int_is [of 1] secp256k1_fe_set_int_is [of 0] by simp_all

lemma fe_exec_zero_test:
  "fe_is j x a \<Longrightarrow> j \<le> 32 \<Longrightarrow> secp256k1_fe_normalizes_to_zero a \<longleftrightarrow> x = 0"
  "fe_is j x a \<Longrightarrow> j \<le> 32 \<Longrightarrow> secp256k1_fe_normalizes_to_zero_var a \<longleftrightarrow> x = 0"
  by (rule secp256k1_fe_normalizes_to_zero_is fe_normalizes_to_zero_var_is; erule fe_is_mono; assumption)+

section \<open>Abstraction and invariant\<close>

definition ge_pt :: "secp256k1_ge \<Rightarrow> point" where
  "ge_pt a = (if ge_infinity a then Infinity else Point (fev (ge_x a)) (fev (ge_y a)))"

definition ge_ok :: "nat \<Rightarrow> secp256k1_ge \<Rightarrow> bool" where
  "ge_ok m a \<longleftrightarrow> (\<not> ge_infinity a \<longrightarrow> fe_mag m (ge_x a) \<and> fe_mag m (ge_y a))"

definition gej_pt :: "secp256k1_gej \<Rightarrow> point" where
  "gej_pt a = (if gej_infinity a then Infinity
     else Point (fev (gej_x a) / fev (gej_z a) ^ 2) (fev (gej_y a) / fev (gej_z a) ^ 3))"

definition gej_ok :: "secp256k1_gej \<Rightarrow> bool" where
  "gej_ok a \<longleftrightarrow> (\<not> gej_infinity a \<longrightarrow> fe_mag 8 (gej_x a) \<and> fe_mag 8 (gej_y a) \<and> fe_mag 8 (gej_z a) \<and> fev (gej_z a) \<noteq> 0)"

text \<open>
  The code also works on an isomorphic curve, where every z coordinate is short of a common factor
  \<open>v\<close>: the points that coordinates stand for under that factor.
\<close>

definition ge_at :: "fp \<Rightarrow> secp256k1_ge \<Rightarrow> point" where
  "ge_at v a = (if ge_infinity a then Infinity else Point (fev (ge_x a) / v ^ 2) (fev (ge_y a) / v ^ 3))"

definition gej_at :: "fp \<Rightarrow> secp256k1_gej \<Rightarrow> point" where
  "gej_at v a = (if gej_infinity a then Infinity
     else Point (fev (gej_x a) / (fev (gej_z a) * v) ^ 2) (fev (gej_y a) / (fev (gej_z a) * v) ^ 3))"

lemma ge_at_1 [simp]: "ge_at 1 = ge_pt"
  by (simp add: fun_eq_iff ge_at_def ge_pt_def)

lemma gej_at_1 [simp]: "gej_at 1 = gej_pt"
  by (simp add: fun_eq_iff gej_at_def gej_pt_def)

definition ge_valid :: "secp256k1_ge \<Rightarrow> bool" where
  "ge_valid a \<longleftrightarrow> ge_ok 8 a \<and> on_curve (ge_pt a)"

definition gej_valid :: "secp256k1_gej \<Rightarrow> bool" where
  "gej_valid a \<longleftrightarrow> gej_ok a \<and> on_curve (gej_pt a)"

text \<open>Validity under a common factor.\<close>

definition ge_valid_at :: "fp \<Rightarrow> secp256k1_ge \<Rightarrow> bool" where
  "ge_valid_at v a \<longleftrightarrow> ge_ok 8 a \<and> on_curve (ge_at v a)"

definition gej_valid_at :: "fp \<Rightarrow> secp256k1_gej \<Rightarrow> bool" where
  "gej_valid_at v a \<longleftrightarrow> gej_ok a \<and> on_curve (gej_at v a)"

lemma valid_at_1 [simp]: "ge_valid_at 1 = ge_valid" "gej_valid_at 1 = gej_valid"
  by (simp_all add: fun_eq_iff ge_valid_at_def ge_valid_def gej_valid_at_def gej_valid_def)

text \<open>A finite jacobian result over given coordinates.\<close>

lemma gej_result:
  assumes "fe_is j X x" "fe_is k Y y" "fe_is l Z z" "j \<le> 8" "k \<le> 8" "l \<le> 8" "Z * v \<noteq> 0"
    and "P = Point (X / (Z * v) ^ 2) (Y / (Z * v) ^ 3)"
  shows "gej_ok \<lparr>gej_x = x, gej_y = y, gej_z = z, gej_infinity = False\<rparr> \<and>
    gej_at v \<lparr>gej_x = x, gej_y = y, gej_z = z, gej_infinity = False\<rparr> = P"
proof -
  have "fe_is 8 X x" "fe_is 8 Y y" "fe_is 8 Z z"
    using assms fe_is_mono by blast+
  then show ?thesis
    using assms(7,8) by (simp add: gej_ok_def gej_at_def fe_is_fev)
qed

lemma gej_finite:
  assumes "gej_ok a" "\<not> gej_infinity a"
  obtains X Y Z where "fe_is 8 X (gej_x a)" "fe_is 8 Y (gej_y a)" "fe_is 8 Z (gej_z a)" "Z \<noteq> 0"
    "gej_at v a = Point (X / (Z * v) ^ 2) (Y / (Z * v) ^ 3)" "fev (gej_z a) = Z"
  using assms by (auto simp: gej_ok_def gej_at_def fe_is_fev)

lemma ge_finite:
  assumes "ge_ok m a" "\<not> ge_infinity a"
  obtains x y where "fe_is m x (ge_x a)" "fe_is m y (ge_y a)" "ge_at v a = Point (x / v ^ 2) (y / v ^ 3)"
  using assms by (auto simp: ge_ok_def ge_at_def fe_is_fev)

section \<open>Doubling\<close>

text \<open>The result refines the doubling and the returned ratio relates the z coordinates.\<close>

definition double_post :: "fp \<Rightarrow> point \<Rightarrow> fp \<Rightarrow> secp256k1_gej \<times> secp256k1_fe \<Rightarrow> bool" where
  "double_post v P z res \<longleftrightarrow> gej_ok (fst res) \<and> gej_at v (fst res) = P \<and>
     fe_mag 2 (snd res) \<and> fev (gej_z (fst res)) = z * fev (snd res)"

lemma secp256k1_gej_double_var_finite:
  assumes a: "gej_ok a" "\<not> gej_infinity a" and v: "v \<noteq> 0" and c: "on_curve (gej_at v a)"
  shows "double_post v (point_add (gej_at v a) (gej_at v a)) (fev (gej_z a)) (secp256k1_gej_double_var r a)"
proof -
  obtain X Y Z where x: "fe_is 8 X (gej_x a)" and y: "fe_is 8 Y (gej_y a)" and z: "fe_is 8 Z (gej_z a)" "Z \<noteq> 0"
    and pt: "gej_at v a = Point (X / (Z * v) ^ 2) (Y / (Z * v) ^ 3)" and fz: "fev (gej_z a) = Z"
    using gej_finite [OF a] by metis
  have Y: "Y \<noteq> 0"
    using c on_curve_y_neq_0 [of "X / (Z * v) ^ 2" "Y / (Z * v) ^ 3"] by (simp only: pt) simp
  have last: "double_post v (point_add (gej_at v a) (gej_at v a)) Z
      (\<lparr>gej_x = rx, gej_y = ry, gej_z = rz, gej_infinity = False\<rparr>, rzr)"
    if "fe_is j X3 rx" "fe_is k Y3 ry" "fe_is l Z3 rz" "fe_is 2 W rzr" "j \<le> 8" "k \<le> 8" "l \<le> 8"
      "X3 = 9 * X ^ 4 - 8 * X * Y ^ 2 \<and> Y3 = 3 * X ^ 2 * (12 * X * Y ^ 2 - 9 * X ^ 4) - 8 * Y ^ 4 \<and>
       Z3 = 2 * Y * Z \<and> W = 2 * Y" for j k l X3 Y3 Z3 W rx ry rz rzr
  proof -
    have e: "X3 = 9 * X ^ 4 - 8 * X * Y ^ 2" "Y3 = 3 * X ^ 2 * (12 * X * Y ^ 2 - 9 * X ^ 4) - 8 * Y ^ 4"
        "Z3 = 2 * Y * Z" "W = 2 * Y"
      using that(8) by blast+
    have z3: "Z3 * v = 2 * Y * (Z * v)" using e(3) by simp
    have "Z3 * v \<noteq> 0" using e(3) Y z v fp_two_neq_0 by simp
    moreover have "point_add (gej_at v a) (gej_at v a) = Point (X3 / (Z3 * v) ^ 2) (Y3 / (Z3 * v) ^ 3)"
      using point_double_jacobian [of "Z * v", OF _ Y e(1,2)] z(2) v by (simp add: pt z3)
    ultimately have "gej_ok \<lparr>gej_x = rx, gej_y = ry, gej_z = rz, gej_infinity = False\<rparr> \<and>
        gej_at v \<lparr>gej_x = rx, gej_y = ry, gej_z = rz, gej_infinity = False\<rparr> = point_add (gej_at v a) (gej_at v a)"
      by (rule gej_result [OF that(1-3,5-7)])
    then show ?thesis
      using that(3,4) e(3,4) by (simp add: double_post_def fe_is_fev)
  qed
  have "double_post v (point_add (gej_at v a) (gej_at v a)) Z (secp256k1_gej_double_var r a)"
      (is "?P (secp256k1_gej_double_var r a)")
    unfolding secp256k1_gej_double_var_def if_not_P [OF a(2)]
    apply (rule let_I [where P = "?P"])
    apply ((rule let_fe [where P = "?P"], ((assumption | rule x y z fe_exec | simp (no_asm))+)[1], (simp (no_asm))[1])+)
    apply (rule last, assumption, assumption, assumption, assumption, simp (no_asm), simp (no_asm), simp (no_asm))
    apply ((hypsubst_thin)+, simp (no_asm) add: power2_eq_square power4_eq_xxxx algebra_simps)
    done
  then show ?thesis by (simp only: fz)
qed

theorem secp256k1_gej_double_var_is:
  assumes "gej_valid a"
  shows "gej_valid (fst (secp256k1_gej_double_var r a))"
    and "gej_pt (fst (secp256k1_gej_double_var r a)) = point_add (gej_pt a) (gej_pt a)"
proof -
  have "gej_ok (fst (secp256k1_gej_double_var r a)) \<and>
      gej_pt (fst (secp256k1_gej_double_var r a)) = point_add (gej_pt a) (gej_pt a)"
  proof (cases "gej_infinity a")
    case True
    then show ?thesis by (simp add: secp256k1_gej_double_var_def gej_ok_def gej_pt_def)
  next
    case False
    then show ?thesis
      using secp256k1_gej_double_var_finite [of a 1 r] assms by (simp add: gej_valid_def double_post_def)
  qed
  then show "gej_valid (fst (secp256k1_gej_double_var r a))"
    and "gej_pt (fst (secp256k1_gej_double_var r a)) = point_add (gej_pt a) (gej_pt a)"
    using assms by (simp_all add: gej_valid_def point_add_on_curve)
qed

section \<open>Addition\<close>

lemma if_zero_var:
  assumes "fe_is k x a" "k \<le> 32" "x = 0 \<Longrightarrow> P A" "x \<noteq> 0 \<Longrightarrow> P B"
  shows "P (if secp256k1_fe_normalizes_to_zero_var a then A else B)"
  using assms fe_exec_zero_test(2) by simp

text \<open>The postcondition: the sum, and the ratio of the z coordinates unless the sum is infinite.\<close>

definition add_post :: "fp \<Rightarrow> point \<Rightarrow> fp \<Rightarrow> secp256k1_gej \<times> secp256k1_fe option \<Rightarrow> bool" where
  "add_post v P z res \<longleftrightarrow> gej_ok (fst res) \<and> gej_at v (fst res) = P \<and>
     (case snd res of None \<Rightarrow> True
      | Some w \<Rightarrow> gej_infinity (fst res) \<or> fe_mag 8 w \<and> fev (gej_z (fst res)) = z * fev w)"

text \<open>The three ways a sum of finite points ends.\<close>

lemma add_post_same:
  assumes "gej_valid_at v a" "\<not> gej_infinity a" "Q = gej_at v a" "v \<noteq> 0"
  shows "add_post v (point_add (gej_at v a) Q) (fev (gej_z a))
    (case secp256k1_gej_double_var r a of (r, rzr) \<Rightarrow> (r, Some rzr))"
proof -
  obtain r' w where d: "secp256k1_gej_double_var r a = (r', w)" by fastforce
  have "double_post v (point_add (gej_at v a) (gej_at v a)) (fev (gej_z a)) (r', w)"
    using secp256k1_gej_double_var_finite [of a v r] assms d by (simp add: gej_valid_at_def)
  moreover from this have "fe_mag 8 w"
    by (simp add: double_post_def fe_mag_def)
  ultimately show ?thesis
    by (simp add: d add_post_def double_post_def assms(3))
qed

lemma point_add_opposite:
  assumes "on_curve (Point x y1)" "on_curve (Point x y2)" "y1 \<noteq> y2"
  shows "point_add (Point x y1) (Point x y2) = Infinity"
  using same_x_cases [of x y1 y2] assms by auto

lemma add_post_opposite: "add_post v Infinity z (r\<lparr>gej_infinity := True\<rparr>, w)"
  by (simp add: add_post_def gej_ok_def gej_at_def split: option.splits)

lemma add_post_distinct_None:
  assumes r: "fe_is j X3 rx" "fe_is k Y3 ry" "fe_is l Z3 rz" "j \<le> 8" "k \<le> 8" "l \<le> 8"
    and eq: "X3 = i ^ 2 - h ^ 3 - 2 * (u1 * h ^ 2) \<and> Y3 = (u1 * h ^ 2 - X3) * i - h ^ 3 * s1 \<and>
      z * h = Z3 * v \<and> i = s2 - s1 \<and> h = u2 - u1"
    and z: "z \<noteq> 0" "h \<noteq> 0" and PQ: "P = Point (u1 / z ^ 2) (s1 / z ^ 3)" "Q = Point (u2 / z ^ 2) (s2 / z ^ 3)"
  shows "add_post v (point_add P Q) z1 (\<lparr>gej_x = rx, gej_y = ry, gej_z = rz, gej_infinity = False\<rparr>, None)"
proof -
  from eq have e: "h = u2 - u1" "i = s2 - s1" "X3 = i ^ 2 - h ^ 3 - 2 * (u1 * h ^ 2)" "Y3 = (u1 * h ^ 2 - X3) * i - h ^ 3 * s1"
      "z * h = Z3 * v"
    by blast+
  have "Z3 * v \<noteq> 0" using e(5) z by auto
  moreover have "point_add P Q = Point (X3 / (Z3 * v) ^ 2) (Y3 / (Z3 * v) ^ 3)"
    unfolding PQ e(5) [symmetric] by (rule point_add_jacobian [OF z(1) e(1) z(2) e(2-4)])
  ultimately have "gej_ok \<lparr>gej_x = rx, gej_y = ry, gej_z = rz, gej_infinity = False\<rparr> \<and>
      gej_at v \<lparr>gej_x = rx, gej_y = ry, gej_z = rz, gej_infinity = False\<rparr> = point_add P Q"
    by (rule gej_result [OF r])
  then show ?thesis by (simp add: add_post_def)
qed

lemma add_post_distinct:
  assumes r: "fe_is j X3 rx" "fe_is k Y3 ry" "fe_is l Z3 rz" "j \<le> 8" "k \<le> 8" "l \<le> 8"
    and w: "fe_is n W rzr" "n \<le> 8"
    and eq: "X3 = i ^ 2 - h ^ 3 - 2 * (u1 * h ^ 2) \<and> Y3 = (u1 * h ^ 2 - X3) * i - h ^ 3 * s1 \<and> Z3 = z1 * W \<and>
      z * h = Z3 * v \<and> i = s2 - s1 \<and> h = u2 - u1"
    and z: "z \<noteq> 0" "h \<noteq> 0" and PQ: "P = Point (u1 / z ^ 2) (s1 / z ^ 3)" "Q = Point (u2 / z ^ 2) (s2 / z ^ 3)"
  shows "add_post v (point_add P Q) z1 (\<lparr>gej_x = rx, gej_y = ry, gej_z = rz, gej_infinity = False\<rparr>, Some rzr)"
proof -
  have "add_post v (point_add P Q) z1 (\<lparr>gej_x = rx, gej_y = ry, gej_z = rz, gej_infinity = False\<rparr>, None)"
    by (rule add_post_distinct_None [OF r _ z PQ]) (use eq in blast)
  moreover have "fe_is 8 W rzr" using w fe_is_mono by blast
  moreover have "fev rz = z1 * W" using r(3) eq by (simp add: fe_is_fev)
  ultimately show ?thesis by (simp add: add_post_def fe_is_fev)
qed

lemma jac_scale:
  assumes "z \<noteq> (0 :: fp)" "w \<noteq> 0"
  shows "x / z ^ 2 = x * (w * w) / (z * w) ^ 2" "y / z ^ 3 = y * (w * w) * w / (z * w) ^ 3"
  using assms by (simp_all add: power2_eq_square power3_eq_cube)

text \<open>The two exceptional branches for points over a common denominator.\<close>

lemma add_branch_same:
  assumes "gej_at v a = Point (u1 / z ^ 2) (s1 / z ^ 3)" "Q = Point (u2 / z ^ 2) (s2 / z ^ 3)"
    and "gej_valid_at v a" "\<not> gej_infinity a" and "v \<noteq> 0" and "u2 = u1 \<and> s2 = s1"
  shows "add_post v (point_add (gej_at v a) Q) (fev (gej_z a))
    (case secp256k1_gej_double_var r a of (r, rzr) \<Rightarrow> (r, Some rzr))"
  using assms by (intro add_post_same) simp_all

lemma add_branch_opposite:
  assumes "P = Point (u1 / z ^ 2) (s1 / z ^ 3)" "Q = Point (u2 / z ^ 2) (s2 / z ^ 3)"
    and "z \<noteq> 0" and "on_curve P" "on_curve Q" and "u2 = u1 \<and> s2 \<noteq> s1"
  shows "add_post v (point_add P Q) z1 (r\<lparr>gej_infinity := True\<rparr>, w)"
proof -
  have "s1 / z ^ 3 \<noteq> s2 / z ^ 3" using assms(3,6) by auto
  then have "point_add P Q = Infinity"
    using point_add_opposite [of "u1 / z ^ 2" "s1 / z ^ 3" "s2 / z ^ 3"] assms by simp
  then show ?thesis by (simp only: add_post_opposite)
qed

lemma gej_valid_on_curve: "gej_valid_at v a \<Longrightarrow> on_curve (gej_at v a)"
  by (simp add: gej_valid_at_def)

lemma secp256k1_gej_add_var_finite:
  assumes a: "gej_valid_at v a" "\<not> gej_infinity a" and b: "gej_valid_at v b" "\<not> gej_infinity b"
    and v: "v \<noteq> 0"
  shows "add_post v (point_add (gej_at v a) (gej_at v b)) (fev (gej_z a)) (secp256k1_gej_add_var r a b)"
proof -
  obtain X1 Y1 Z1 where x1: "fe_is 8 X1 (gej_x a)" "fe_is 8 Y1 (gej_y a)" "fe_is 8 Z1 (gej_z a)" and z1: "Z1 \<noteq> 0"
    and pt1: "gej_at v a = Point (X1 / (Z1 * v) ^ 2) (Y1 / (Z1 * v) ^ 3)" and f1: "fev (gej_z a) = Z1"
    using gej_finite [of a v] a unfolding gej_valid_at_def by metis
  obtain X2 Y2 Z2 where x2: "fe_is 8 X2 (gej_x b)" "fe_is 8 Y2 (gej_y b)" "fe_is 8 Z2 (gej_z b)" and z2: "Z2 \<noteq> 0"
    and pt2: "gej_at v b = Point (X2 / (Z2 * v) ^ 2) (Y2 / (Z2 * v) ^ 3)" and f2: "fev (gej_z b) = Z2"
    using gej_finite [of b v] b unfolding gej_valid_at_def by metis
  define z where "z = Z1 * v * Z2"
  define u1 s1 u2 s2 where us: "u1 = X1 * (Z2 * Z2)" "s1 = Y1 * (Z2 * Z2) * Z2" "u2 = X2 * (Z1 * Z1)" "s2 = Y2 * (Z1 * Z1) * Z1"
  have z: "z \<noteq> 0" using z1 z2 v by (simp add: z_def)
  have pts: "gej_at v a = Point (u1 / z ^ 2) (s1 / z ^ 3)" "gej_at v b = Point (u2 / z ^ 2) (s2 / z ^ 3)"
    unfolding pt1 pt2 us z_def using jac_scale [of "Z1 * v" Z2] jac_scale [of "Z2 * v" Z1] z1 z2 v by (simp_all add: ac_simps)
  note same = add_branch_same [OF pts a v, unfolded f1] and opp = add_branch_opposite [OF pts z gej_valid_on_curve [OF a(1)] gej_valid_on_curve [OF b(1)]]
  have "add_post v (point_add (gej_at v a) (gej_at v b)) Z1 (secp256k1_gej_add_var r a b)" (is "?P (secp256k1_gej_add_var r a b)")
    unfolding secp256k1_gej_add_var_def if_not_P [OF a(2)] if_not_P [OF b(2)]
    apply ((rule let_fe [where P = "?P"], ((assumption | rule x1 x2 fe_exec | simp (no_asm))+)[1], (simp (no_asm))[1])+)
    apply (rule if_zero_var [where P = "?P"], assumption, simp (no_asm))
     apply (rule if_zero_var [where P = "?P"], assumption, simp (no_asm))
      apply (rule same, hypsubst_thin+, simp add: us add_eq_0_iff)
     apply (rule opp, hypsubst_thin+, simp add: us add_eq_0_iff)
    apply ((rule let_fe [where P = "?P"], ((assumption | rule x1 x2 fe_exec | simp (no_asm))+)[1], (simp (no_asm))[1])+)
    apply (rule add_post_distinct [where z = z and h = "u2 - u1" and i = "s2 - s1", OF _ _ _ _ _ _ _ _ _ z _ pts])
             apply (assumption | simp (no_asm))+
     apply ((hypsubst_thin)+, simp (no_asm) add: us z_def power2_eq_square power3_eq_cube algebra_simps)
    apply ((hypsubst_thin)+, simp add: us add_eq_0_iff)
    done
  then show ?thesis by (simp only: f1)
qed

lemma gej_set_ge_is:
  assumes "ge_ok 8 b"
  shows "gej_ok (secp256k1_gej_set_ge b) \<and> gej_at v (secp256k1_gej_set_ge b) = ge_at v b"
proof (cases "ge_infinity b")
  case True
  then show ?thesis by (simp add: secp256k1_gej_set_ge_def gej_ok_def gej_at_def ge_at_def)
next
  case False
  have "fe_is 8 1 (secp256k1_fe_set_int 1)"
    by (rule fe_is_8 [OF fe_exec_set_int(2)])
  then show ?thesis
    using False assms by (simp add: secp256k1_gej_set_ge_def gej_ok_def gej_at_def ge_at_def ge_ok_def fe_is_fev)
qed

theorem secp256k1_gej_add_var_is:
  assumes "gej_valid a" "gej_valid b"
  shows "gej_valid (fst (secp256k1_gej_add_var r a b))"
    and "gej_pt (fst (secp256k1_gej_add_var r a b)) = point_add (gej_pt a) (gej_pt b)"
proof -
  have "gej_ok (fst (secp256k1_gej_add_var r a b)) \<and>
      gej_pt (fst (secp256k1_gej_add_var r a b)) = point_add (gej_pt a) (gej_pt b)"
  proof (cases "gej_infinity a \<or> gej_infinity b")
    case True
    have "gej_pt c = Infinity" if "gej_infinity c" for c using that by (simp add: gej_pt_def)
    with True show ?thesis
      using assms by (auto simp: secp256k1_gej_add_var_def gej_valid_def)
  next
    case False
    then show ?thesis
      using secp256k1_gej_add_var_finite [of 1 a b r] assms by (simp add: add_post_def)
  qed
  then show "gej_valid (fst (secp256k1_gej_add_var r a b))"
    and "gej_pt (fst (secp256k1_gej_add_var r a b)) = point_add (gej_pt a) (gej_pt b)"
    using assms by (simp_all add: gej_valid_def point_add_on_curve)
qed

section \<open>Addition of an affine point\<close>

lemma secp256k1_gej_add_ge_var_finite:
  assumes a: "gej_valid_at v a" "\<not> gej_infinity a" and b: "ge_valid_at v b" "\<not> ge_infinity b"
    and v: "v \<noteq> 0"
  shows "add_post v (point_add (gej_at v a) (ge_at v b)) (fev (gej_z a)) (secp256k1_gej_add_ge_var r a b)"
proof -
  obtain X1 Y1 Z1 where x1: "fe_is 8 X1 (gej_x a)" "fe_is 8 Y1 (gej_y a)" "fe_is 8 Z1 (gej_z a)" and z1: "Z1 \<noteq> 0"
    and pt1: "gej_at v a = Point (X1 / (Z1 * v) ^ 2) (Y1 / (Z1 * v) ^ 3)" and f1: "fev (gej_z a) = Z1"
    using gej_finite [of a v] a unfolding gej_valid_at_def by metis
  obtain X2 Y2 where x2: "fe_is 8 X2 (ge_x b)" "fe_is 8 Y2 (ge_y b)" and pt2: "ge_at v b = Point (X2 / v ^ 2) (Y2 / v ^ 3)"
    using ge_finite [of 8 b v] b unfolding ge_valid_at_def by metis
  have c: "on_curve (ge_at v b)" using b by (simp add: ge_valid_at_def)
  define u2 s2 where us: "u2 = X2 * (Z1 * Z1)" "s2 = Y2 * (Z1 * Z1) * Z1"
  have pts: "gej_at v a = Point (X1 / (Z1 * v) ^ 2) (Y1 / (Z1 * v) ^ 3)" "ge_at v b = Point (u2 / (Z1 * v) ^ 2) (s2 / (Z1 * v) ^ 3)"
    unfolding pt1 pt2 us using z1 v by (simp_all add: power2_eq_square power3_eq_cube mult.assoc)
  have zv: "Z1 * v \<noteq> 0" using z1 v by simp
  note same = add_branch_same [OF pts a v, unfolded f1]
    and opp = add_branch_opposite [OF pts zv gej_valid_on_curve [OF a(1)] c]
  have "add_post v (point_add (gej_at v a) (ge_at v b)) Z1 (secp256k1_gej_add_ge_var r a b)" (is "?P (secp256k1_gej_add_ge_var r a b)")
    unfolding secp256k1_gej_add_ge_var_def if_not_P [OF a(2)] if_not_P [OF b(2)]
    apply ((rule let_fe [where P = "?P"], ((assumption | rule x1 x2 fe_exec | simp (no_asm))+)[1], (simp (no_asm))[1])+)
    apply (rule if_zero_var [where P = "?P"], assumption, simp (no_asm))
     apply (rule if_zero_var [where P = "?P"], assumption, simp (no_asm))
      apply (rule same, hypsubst_thin+, simp add: us add_eq_0_iff)
     apply (rule opp, hypsubst_thin+, simp add: us add_eq_0_iff)
    apply ((rule let_fe [where P = "?P"], ((assumption | rule x1 x2 fe_exec | simp (no_asm))+)[1], (simp (no_asm))[1])+)
    apply (rule add_post_distinct [where z = "Z1 * v" and h = "u2 - X1" and i = "s2 - Y1", OF _ _ _ _ _ _ _ _ _ zv _ pts])
             apply (assumption | simp (no_asm))+
     apply ((hypsubst_thin)+, simp (no_asm) add: us power2_eq_square power3_eq_cube algebra_simps)
    apply ((hypsubst_thin)+, simp add: us add_eq_0_iff)
    done
  then show ?thesis by (simp only: f1)
qed

theorem secp256k1_gej_add_ge_var_is:
  assumes "gej_valid a" "ge_valid b"
  shows "gej_valid (fst (secp256k1_gej_add_ge_var r a b))"
    and "gej_pt (fst (secp256k1_gej_add_ge_var r a b)) = point_add (gej_pt a) (ge_pt b)"
proof -
  have "gej_ok (fst (secp256k1_gej_add_ge_var r a b)) \<and>
      gej_pt (fst (secp256k1_gej_add_ge_var r a b)) = point_add (gej_pt a) (ge_pt b)"
  proof (cases "gej_infinity a \<or> ge_infinity b")
    case True
    have "gej_pt c = Infinity" if "gej_infinity c" for c using that by (simp add: gej_pt_def)
    moreover have "ge_pt c = Infinity" if "ge_infinity c" for c using that by (simp add: ge_pt_def)
    ultimately show ?thesis
      using True assms gej_set_ge_is [of b 1] by (auto simp: secp256k1_gej_add_ge_var_def gej_valid_def ge_valid_def)
  next
    case False
    then show ?thesis
      using secp256k1_gej_add_ge_var_finite [of 1 a b r] assms by (simp add: add_post_def)
  qed
  then show "gej_valid (fst (secp256k1_gej_add_ge_var r a b))"
    and "gej_pt (fst (secp256k1_gej_add_ge_var r a b)) = point_add (gej_pt a) (ge_pt b)"
    using assms by (simp_all add: gej_valid_def ge_valid_def point_add_on_curve)
qed

section \<open>Addition with a known inverse denominator\<close>

text \<open>The affine point \<open>b\<close> stands for the point over the denominator \<open>1 / w\<close>.\<close>

definition ge_scaled_pt :: "secp256k1_ge \<Rightarrow> fp \<Rightarrow> point" where
  "ge_scaled_pt b w = (if ge_infinity b then Infinity else Point (fev (ge_x b) * (w * w)) (fev (ge_y b) * (w * w * w)))"

lemma secp256k1_gej_add_zinv_var_finite:
  assumes a: "gej_valid_at v a" "\<not> gej_infinity a" and b: "ge_ok 8 b" "\<not> ge_infinity b"
    and w: "fe_is 8 W bzinv" and c: "on_curve (ge_scaled_pt b (W / v))" and v: "v \<noteq> 0"
  shows "add_post v (point_add (gej_at v a) (ge_scaled_pt b (W / v))) (fev (gej_z a)) (secp256k1_gej_add_zinv_var r a b bzinv, None)"
proof -
  obtain X1 Y1 Z1 where x1: "fe_is 8 X1 (gej_x a)" "fe_is 8 Y1 (gej_y a)" "fe_is 8 Z1 (gej_z a)" and z1: "Z1 \<noteq> 0"
    and pt1: "gej_at v a = Point (X1 / (Z1 * v) ^ 2) (Y1 / (Z1 * v) ^ 3)" and f1: "fev (gej_z a) = Z1"
    using gej_finite [of a v] a unfolding gej_valid_at_def by metis
  obtain X2 Y2 where x2: "fe_is 8 X2 (ge_x b)" "fe_is 8 Y2 (ge_y b)"
    and pt2: "ge_scaled_pt b (W / v) = Point (X2 * (W / v * (W / v))) (Y2 * (W / v * (W / v) * (W / v)))"
    using b by (auto simp: ge_ok_def ge_scaled_pt_def fe_is_fev)
  define u2 s2 where us: "u2 = X2 * ((Z1 * W) * (Z1 * W))" "s2 = Y2 * ((Z1 * W) * (Z1 * W)) * (Z1 * W)"
  have pts: "gej_at v a = Point (X1 / (Z1 * v) ^ 2) (Y1 / (Z1 * v) ^ 3)"
    "ge_scaled_pt b (W / v) = Point (u2 / (Z1 * v) ^ 2) (s2 / (Z1 * v) ^ 3)"
    unfolding pt1 pt2 us using z1 v by (simp_all add: power2_eq_square power3_eq_cube mult.assoc)
  have zv: "Z1 * v \<noteq> 0" using z1 v by simp
  have same: "add_post v (point_add (gej_at v a) (ge_scaled_pt b (W / v))) Z1 (fst (secp256k1_gej_double_var r a), None)"
    if "u2 = X1 \<and> s2 = Y1" for r
    using add_branch_same [OF pts a v that, of r] by (simp add: add_post_def split: prod.splits)
  note opp = add_branch_opposite [OF pts zv gej_valid_on_curve [OF a(1)] c]
  have "add_post v (point_add (gej_at v a) (ge_scaled_pt b (W / v))) Z1 (secp256k1_gej_add_zinv_var r a b bzinv, None)"
      (is "?P (secp256k1_gej_add_zinv_var r a b bzinv)")
    unfolding secp256k1_gej_add_zinv_var_def if_not_P [OF a(2)] if_not_P [OF b(2)]
    apply ((rule let_fe [where P = "?P"], ((assumption | rule x1 x2 w fe_exec | simp (no_asm))+)[1], (simp (no_asm))[1])+)
    apply (rule if_zero_var [where P = "?P"], assumption, simp (no_asm))
     apply (rule if_zero_var [where P = "?P"], assumption, simp (no_asm))
      apply (rule same, hypsubst_thin+, simp add: us add_eq_0_iff)
     apply (rule opp, hypsubst_thin+, simp add: us add_eq_0_iff)
    apply ((rule let_fe [where P = "?P"], ((assumption | rule x1 x2 fe_exec | simp (no_asm))+)[1], (simp (no_asm))[1])+)
    apply (rule add_post_distinct_None [where v = v and z = "Z1 * v" and h = "u2 - X1" and i = "s2 - Y1", OF _ _ _ _ _ _ _ zv _ pts])
           apply (assumption | simp (no_asm))+
     apply ((hypsubst_thin)+, simp (no_asm) add: us power2_eq_square power3_eq_cube algebra_simps)
    apply ((hypsubst_thin)+, simp add: us add_eq_0_iff)
    done
  then show ?thesis by (simp only: f1)
qed

lemma secp256k1_gej_add_zinv_var_at:
  assumes a: "gej_valid_at v a" and b: "ge_ok 8 b" and c: "on_curve (ge_scaled_pt b (W / v))" and w: "fe_is 8 W bzinv"
    and v: "v \<noteq> 0"
  shows "gej_ok (secp256k1_gej_add_zinv_var r a b bzinv) \<and>
    gej_at v (secp256k1_gej_add_zinv_var r a b bzinv) = point_add (gej_at v a) (ge_scaled_pt b (W / v))"
proof (cases "ge_infinity b")
  case True
  then show ?thesis
    using a by (simp add: secp256k1_gej_add_zinv_var_def ge_scaled_pt_def gej_valid_at_def)
next
  case fb: False
  show ?thesis
  proof (cases "gej_infinity a")
    case True
    obtain X2 Y2 where x2: "fe_is 8 X2 (ge_x b)" "fe_is 8 Y2 (ge_y b)"
      and pt2: "ge_scaled_pt b (W / v) = Point (X2 * (W / v * (W / v))) (Y2 * (W / v * (W / v) * (W / v)))"
      using b fb by (auto simp: ge_ok_def ge_scaled_pt_def fe_is_fev)
    have "gej_at v a = Infinity" using True by (simp add: gej_at_def)
    moreover have "gej_ok (secp256k1_gej_add_zinv_var r a b bzinv) \<and>
        gej_at v (secp256k1_gej_add_zinv_var r a b bzinv) = ge_scaled_pt b (W / v)" (is "?P (secp256k1_gej_add_zinv_var r a b bzinv)")
      unfolding secp256k1_gej_add_zinv_var_def if_P [OF True] fb [THEN Eq_FalseI] if_False
      apply ((rule let_fe [where P = "?P"], ((assumption | rule x2 w fe_exec | simp (no_asm))+)[1], (simp (no_asm))[1])+)
      apply (rule gej_result [where v = v], assumption, assumption, assumption, simp, simp, simp)
       apply (hypsubst_thin, simp add: v)
      apply ((hypsubst_thin)+, simp (no_asm) add: pt2 power2_eq_square power3_eq_cube)
      done
    ultimately show ?thesis by simp
  next
    case False
    then show ?thesis
      using secp256k1_gej_add_zinv_var_finite [OF a False b fb w c v, of r] by (simp add: add_post_def)
  qed
qed

theorem secp256k1_gej_add_zinv_var_is:
  assumes "gej_valid a" "ge_ok 8 b" "on_curve (ge_scaled_pt b W)" "fe_is 8 W bzinv"
  shows "gej_valid (secp256k1_gej_add_zinv_var r a b bzinv)"
    and "gej_pt (secp256k1_gej_add_zinv_var r a b bzinv) = point_add (gej_pt a) (ge_scaled_pt b W)"
  using secp256k1_gej_add_zinv_var_at [of 1 a b W bzinv r] assms
  by (simp_all add: gej_valid_def point_add_on_curve)

section \<open>Constant-time addition\<close>

text \<open>Both zero tests of the code are made before the branches join again.\<close>

lemma fe_exec_cmov:
  "fe_is j x a \<Longrightarrow> fe_is k y b \<Longrightarrow> (if flag then y else x) = v \<Longrightarrow>
     fe_is (max j k) v (secp256k1_fe_cmov a b flag)"
  using fe_is_mono [of j x a "max j k"] fe_is_mono [of k y b "max j k"] by auto

lemma let_both_zero:
  assumes "fe_is j x a" "fe_is k y b" "j \<le> 32" "k \<le> 32" "x = 0 \<and> y = 0 \<longleftrightarrow> d" "P (f d)"
  shows "P (let c = (secp256k1_fe_normalizes_to_zero a \<and> secp256k1_fe_normalizes_to_zero b) in f c)"
  using assms fe_exec_zero_test(1) by (simp add: Let_def)

lemma let_is_zero:
  assumes "fe_is j x a" "j \<le> 32" "x = 0 \<longleftrightarrow> d" "P (f d)"
  shows "P (let c = (secp256k1_fe_normalizes_to_zero a \<and> \<not> False) in f c)"
  using assms fe_exec_zero_test(1) by (simp add: Let_def)

lemma fe_const_1: "SECP256K1_FE_CONST 0 0 0 0 0 0 0 1 = secp256k1_fe_set_int 1"
  by (simp add: SECP256K1_FE_CONST_def secp256k1_fe_set_int_def)

text \<open>The curve equation over a common denominator.\<close>

lemma on_curve_scaled:
  assumes "z \<noteq> 0"
  shows "on_curve (Point (u / z ^ 2) (s / z ^ 3)) \<longleftrightarrow> s ^ 2 = u ^ 3 + 7 * z ^ 6"
proof -
  have "(s / z ^ 3) ^ 2 = s ^ 2 / z ^ 6" "(u / z ^ 2) ^ 3 = u ^ 3 / z ^ 6" "(7 :: fp) = 7 * z ^ 6 / z ^ 6"
    using assms by (simp_all add: power_divide flip: power_mult)
  then have "on_curve (Point (u / z ^ 2) (s / z ^ 3)) \<longleftrightarrow> s ^ 2 / z ^ 6 = (u ^ 3 + 7 * z ^ 6) / z ^ 6"
    by (simp add: add_divide_distrib)
  then show ?thesis using assms by simp
qed

lemma secp256k1_gej_add_ge_infinite:
  assumes "gej_infinity a" "ge_ok 8 b" "\<not> ge_infinity b"
  shows "gej_ok (secp256k1_gej_add_ge a b) \<and> gej_at v (secp256k1_gej_add_ge a b) = ge_at v b"
proof -
  have "secp256k1_gej_add_ge a b = \<lparr>gej_x = ge_x b, gej_y = ge_y b, gej_z = secp256k1_fe_set_int 1, gej_infinity = False\<rparr>"
    using assms(1) by (simp add: secp256k1_gej_add_ge_def Let_def fe_const_1)
  moreover have "fe_is 8 1 (secp256k1_fe_set_int 1)"
    by (rule fe_is_8 [OF fe_exec_set_int(2)])
  ultimately show ?thesis
    using assms by (simp add: gej_ok_def gej_at_def ge_ok_def ge_at_def fe_is_fev)
qed

lemma fe_exec_const_1 [fe_exec]: "fe_is 1 1 (SECP256K1_FE_CONST 0 0 0 0 0 0 0 1)"
  unfolding fe_const_1 by (rule fe_exec_set_int)

lemma secp256k1_gej_add_ge_finite:
  assumes a: "gej_valid_at v a" "\<not> gej_infinity a" and b: "ge_valid_at v b" "\<not> ge_infinity b"
    and v: "v \<noteq> 0"
  shows "gej_ok (secp256k1_gej_add_ge a b) \<and> gej_at v (secp256k1_gej_add_ge a b) = point_add (gej_at v a) (ge_at v b)"
proof -
  obtain X1 Y1 Z1 where x1: "fe_is 8 X1 (gej_x a)" "fe_is 8 Y1 (gej_y a)" "fe_is 8 Z1 (gej_z a)" and z1: "Z1 \<noteq> 0"
    and pt1: "gej_at v a = Point (X1 / (Z1 * v) ^ 2) (Y1 / (Z1 * v) ^ 3)"
    using gej_finite [of a v] a unfolding gej_valid_at_def by metis
  obtain X2 Y2 where x2: "fe_is 8 X2 (ge_x b)" "fe_is 8 Y2 (ge_y b)" and pt2: "ge_at v b = Point (X2 / v ^ 2) (Y2 / v ^ 3)"
    using ge_finite [of 8 b v] b unfolding ge_valid_at_def by metis
  define u2 s2 where us: "u2 = X2 * (Z1 * Z1)" "s2 = Y2 * (Z1 * Z1) * Z1"
  have pts: "gej_at v a = Point (X1 / (Z1 * v) ^ 2) (Y1 / (Z1 * v) ^ 3)" "ge_at v b = Point (u2 / (Z1 * v) ^ 2) (s2 / (Z1 * v) ^ 3)"
    unfolding pt1 pt2 us using z1 v by (simp_all add: power2_eq_square power3_eq_cube mult.assoc)
  have zv: "Z1 * v \<noteq> 0" using z1 v by simp
  have P: "Y1 ^ 2 = X1 ^ 3 + 7 * (Z1 * v) ^ 6" and Q: "s2 ^ 2 = u2 ^ 3 + 7 * (Z1 * v) ^ 6"
    using gej_valid_on_curve [OF a(1)] b(1) on_curve_scaled [OF zv] unfolding pts ge_valid_at_def by blast+
  define T M R where TMR: "T = X1 + u2" "M = Y1 + s2" "R = T ^ 2 - X1 * u2"
  define d where "d \<longleftrightarrow> M = 0 \<and> R = 0"
  define Ra Ma where RM: "Ra = (if d then 2 * Y1 else R)" "Ma = (if d then X1 - u2 else M)"
  note sum = point_add_unified [OF zv P Q TMR d_def RM, folded pts]
  have N: "(if d then M else (Ma * Ma) * (Ma * Ma)) = M * Ma ^ 3"
  proof (cases d)
    case True
    then show ?thesis using d_def by simp
  next
    case False
    then show ?thesis using RM(2) by (simp add: power3_eq_cube)
  qed
  have last: "gej_ok \<lparr>gej_x = rx, gej_y = ry, gej_z = rz, gej_infinity = (Ma = 0)\<rparr> \<and>
      gej_at v \<lparr>gej_x = rx, gej_y = ry, gej_z = rz, gej_infinity = (Ma = 0)\<rparr> = point_add (gej_at v a) (ge_at v b)"
    if "fe_is j X3 rx" "fe_is k Y3 ry" "fe_is l Z3 rz" "j \<le> 8" "k \<le> 8" "l \<le> 8"
      "X3 = 4 * (Ra ^ 2 - T * Ma ^ 2) \<and> Y3 = 4 * (Ra * (T * Ma ^ 2 - 2 * (Ra ^ 2 - T * Ma ^ 2)) - M * Ma ^ 3) \<and> Z3 = 2 * Ma * Z1"
    for j k l X3 Y3 Z3 rx ry rz
  proof (cases "Ma = 0")
    case True
    then show ?thesis using sum by (simp add: gej_ok_def gej_at_def)
  next
    case False
    have z3: "Z3 * v = 2 * Ma * (Z1 * v)" using that(7) by simp
    then have "Z3 * v \<noteq> 0" using False zv fp_two_neq_0 by simp
    moreover have "point_add (gej_at v a) (ge_at v b) = Point (X3 / (Z3 * v) ^ 2) (Y3 / (Z3 * v) ^ 3)"
      using sum False that(7) by (simp only: if_False mult.assoc)
    ultimately have "gej_ok \<lparr>gej_x = rx, gej_y = ry, gej_z = rz, gej_infinity = False\<rparr> \<and>
        gej_at v \<lparr>gej_x = rx, gej_y = ry, gej_z = rz, gej_infinity = False\<rparr> = point_add (gej_at v a) (ge_at v b)"
      by (rule gej_result [OF that(1-6)])
    then show ?thesis using False by simp
  qed
  show ?thesis (is "?P (secp256k1_gej_add_ge a b)")
    unfolding secp256k1_gej_add_ge_def a(2) [THEN Eq_FalseI]
    apply ((rule let_fe [where P = "?P"], ((assumption | rule x1 x2 fe_exec | simp (no_asm))+)[1], (simp (no_asm))[1])+)
    apply (rule let_both_zero [where P = "?P" and d = d], assumption, assumption, simp (no_asm), simp (no_asm))
     apply ((hypsubst_thin)+, simp (no_asm) add: d_def TMR us power2_eq_square)
    apply ((rule let_fe [where P = "?P"], ((assumption | rule x1 x2 fe_exec | simp (no_asm))+)[1], (simp (no_asm))[1])+)
    apply (rule let_fe [where P = "?P" and x = Ra], rule fe_exec_cmov, assumption, assumption)
      apply ((hypsubst_thin)+, simp (no_asm) add: RM TMR us power2_eq_square)
     apply (simp (no_asm))
    apply (rule let_fe [where P = "?P" and x = Ma], rule fe_exec_cmov, assumption, assumption)
      apply ((hypsubst_thin)+, simp (no_asm) add: RM TMR us power2_eq_square)
     apply (simp (no_asm))
    apply ((rule let_fe [where P = "?P"], ((assumption | rule x1 x2 fe_exec | simp (no_asm))+)[1], (simp (no_asm))[1])+)
    apply (rule let_fe [where P = "?P" and x = "M * Ma ^ 3"], rule fe_exec_cmov, assumption, assumption)
      apply ((hypsubst_thin)+, rule N [THEN trans [rotated]], simp (no_asm) only: TMR(2) us(2))
     apply (simp (no_asm))
    apply ((rule let_fe [where P = "?P"], ((assumption | rule x1 x2 fe_exec | simp (no_asm))+)[1], (simp (no_asm))[1])+)
    apply (rule let_is_zero [where P = "?P" and d = "Ma = 0"], assumption, simp (no_asm))
     apply ((hypsubst_thin)+, simp (no_asm) add: z1)
    apply ((rule let_fe [where P = "?P"], ((assumption | rule x1 x2 fe_exec | simp (no_asm))+)[1], (simp (no_asm))[1])+)
    apply (rule last, assumption, assumption, assumption, simp (no_asm), simp (no_asm), simp (no_asm))
    apply ((hypsubst_thin)+, simp (no_asm) add: TMR us power2_eq_square power3_eq_cube algebra_simps)
    done
qed

theorem secp256k1_gej_add_ge_is:
  assumes "gej_valid a" "ge_valid b" "\<not> ge_infinity b"
  shows "gej_valid (secp256k1_gej_add_ge a b)"
    and "gej_pt (secp256k1_gej_add_ge a b) = point_add (gej_pt a) (ge_pt b)"
proof -
  have "gej_ok (secp256k1_gej_add_ge a b) \<and> gej_pt (secp256k1_gej_add_ge a b) = point_add (gej_pt a) (ge_pt b)"
  proof (cases "gej_infinity a")
    case True
    then have "gej_pt a = Infinity" by (simp add: gej_pt_def)
    then show ?thesis
      using secp256k1_gej_add_ge_infinite [OF True _ assms(3), of 1] assms(2) by (simp add: ge_valid_def)
  next
    case False
    then show ?thesis using secp256k1_gej_add_ge_finite [of 1 a b] assms by simp
  qed
  then show "gej_valid (secp256k1_gej_add_ge a b)"
    and "gej_pt (secp256k1_gej_add_ge a b) = point_add (gej_pt a) (ge_pt b)"
    using assms by (simp_all add: gej_valid_def ge_valid_def point_add_on_curve)
qed

end
