(* ===== verification/Curve_Group.thy ===== *)
theory Curve_Group
  imports Curve
begin

text \<open>
  The group law of the curve. The slope relation covers chords and tangents at once; with it the
  generic case of associativity is a polynomial identity modulo the two slope relations, and the
  case of a doubling one modulo a single relation. The multipliers of the relations are written
  out. The remaining cases follow from cancellation.
\<close>

section \<open>Polynomial identities\<close>

lemma assoc_generic_x:
  fixes x1 :: fp
  assumes r1: "x1 ^ 2 = 2 * l * y2 - l ^ 2 * (x2 - x1) - x1 * x2 - x2 ^ 2"
    and r3: "x3 ^ 2 = 2 * k * y2 + k ^ 2 * (x3 - x2) - x2 * x3 - x2 ^ 2"
    and y1: "y1 = y2 - l * (x2 - x1)" and y3: "y3 = y2 + k * (x3 - x2)"
    and x4: "x4 = l ^ 2 - x1 - x2" and y4: "y4 = l * (x1 - x4) - y1"
    and x5: "x5 = k ^ 2 - x2 - x3" and y5: "y5 = k * (x2 - x5) - y2"
  shows "(y3 - y4) ^ 2 * (x5 - x1) ^ 2 - (y5 - y1) ^ 2 * (x3 - x4) ^ 2 = (x4 + x3 - x1 - x5) * (x3 - x4) ^ 2 * (x5 - x1) ^ 2"
proof -
  have "(y3 - y4) ^ 2 * (x5 - x1) ^ 2 - (y5 - y1) ^ 2 * (x3 - x4) ^ 2 - ((x4 + x3 - x1 - x5) * (x3 - x4) ^ 2 * (x5 - x1) ^ 2) =
      (2 * x1 ^ 3 + 6 * x1 ^ 2 * x2 + 6 * x1 ^ 2 * x3 - 3 * x1 ^ 2 * l ^ 2 - 3 * x1 ^ 2 * k ^ 2 + 4 * x1 * x2 ^
      2 + 10 * x1 * x2 * x3 - 3 * x1 * x2 * l ^ 2 + 6 * x1 * x2 * l * k - 5 * x1 * x2 * k ^ 2 + 4 * x1 * x3 ^ 2
      - 6 * x1 * x3 * l ^ 2 - 4 * x1 * x3 * k ^ 2 + x1 * l ^ 4 + 3 * x1 * l ^ 2 * k ^ 2 - 2 * x1 * l * k ^ 3 -
      4 * x1 * l * y2 - 2 * x2 ^ 3 - 4 * x2 ^ 2 * x3 + x2 ^ 2 * l ^ 2 + 6 * x2 ^ 2 * l * k - x2 ^ 2 * k ^ 2 - 4
      * x2 * x3 ^ 2 - 2 * x2 * x3 * l ^ 2 + 6 * x2 * x3 * l * k - 2 * x2 * x3 * k ^ 2 - x2 * l ^ 4 - 4 * x2 * l
      ^ 3 * k + x2 * l ^ 2 * k ^ 2 - 4 * x2 * l * k ^ 3 - 4 * x2 * l * y2 + 2 * x2 * k ^ 4 + 4 * x2 * k * y2 -
      4 * x3 ^ 3 - 2 * x3 ^ 2 * l ^ 2 + 6 * x3 ^ 2 * k ^ 2 - 2 * x3 * l ^ 3 * k + 2 * x3 * l ^ 2 * k ^ 2 - 4 *
      x3 * l * y2 - 2 * x3 * k ^ 4 + 8 * x3 * k * y2 + 2 * l ^ 3 * k ^ 3 + 2 * l ^ 3 * y2 + 2 * l * k ^ 2 * y2
      - 4 * k ^ 3 * y2) * (x1 ^ 2 - (2 * l * y2 - l ^ 2 * (x2 - x1) - x1 * x2 - x2 ^ 2))
    + (- 6 * x1 * x2 * x3 - 6 * x1 * x2 * l * k - 6 * x1 * x3 ^ 2 + 6 * x1 * x3 * k ^ 2 + 2 * x1 * l * k ^ 3 +
      4 * x1 * k * y2 + 2 * x2 ^ 3 + 3 * x2 ^ 2 * l ^ 2 - 6 * x2 ^ 2 * l * k - 3 * x2 ^ 2 * k ^ 2 - 6 * x2 * x3
      ^ 2 + 9 * x2 * x3 * l ^ 2 - 6 * x2 * x3 * l * k + 3 * x2 * x3 * k ^ 2 + 4 * x2 * l ^ 3 * k - 3 * x2 * l ^
      2 * k ^ 2 + 4 * x2 * l * k ^ 3 - 4 * x2 * l * y2 + x2 * k ^ 4 + 4 * x2 * k * y2 - 2 * x3 ^ 3 + 3 * x3 ^ 2
      * l ^ 2 + 3 * x3 ^ 2 * k ^ 2 + 2 * x3 * l ^ 3 * k - 3 * x3 * l ^ 2 * k ^ 2 - 8 * x3 * l * y2 - x3 * k ^ 4
      + 4 * x3 * k * y2 - 2 * l ^ 3 * k ^ 3 - 2 * l ^ 2 * k * y2 + 4 * l * k ^ 2 * y2 - 2 * k ^ 3 * y2) * (x3 ^
      2 - (2 * k * y2 + k ^ 2 * (x3 - x2) - x2 * x3 - x2 ^ 2))"
    unfolding y4 y5 x4 x5 y1 y3 by algebra
  then show ?thesis using r1 r3 by simp
qed

lemma assoc_generic_y:
  fixes x1 :: fp
  assumes r1: "x1 ^ 2 = 2 * l * y2 - l ^ 2 * (x2 - x1) - x1 * x2 - x2 ^ 2"
    and r3: "x3 ^ 2 = 2 * k * y2 + k ^ 2 * (x3 - x2) - x2 * x3 - x2 ^ 2"
    and c: "y2 ^ 2 = x2 ^ 3 + 7"
    and y1: "y1 = y2 - l * (x2 - x1)" and y3: "y3 = y2 + k * (x3 - x2)"
    and x4: "x4 = l ^ 2 - x1 - x2" and y4: "y4 = l * (x1 - x4) - y1"
    and x5: "x5 = k ^ 2 - x2 - x3" and y5: "y5 = k * (x2 - x5) - y2"
    and X: "X = (y3 - y4) ^ 2 - (x4 + x3) * (x3 - x4) ^ 2"
  shows "(x5 - x1) * ((y3 - y4) * (x4 * (x3 - x4) ^ 2 - X) - y4 * (x3 - x4) ^ 3) = (x3 - x4) * (y5 - y1) * (x1 * (x3 - x4) ^ 2 - X) - y1 * (x3 - x4) ^ 3 * (x5 - x1)"
proof -
  have "(x5 - x1) * ((y3 - y4) * (x4 * (x3 - x4) ^ 2 - X) - y4 * (x3 - x4) ^ 3) - ((x3 - x4) * (y5 - y1) * (x1 * (x3 - x4) ^ 2 - X) - y1 * (x3 - x4) ^ 3 * (x5 - x1)) =
      (- 2 * x1 ^ 3 * l - 8 * x1 ^ 2 * x2 * l - 2 * x1 ^ 2 * x2 * k - 4 * x1 ^ 2 * x3 * l + 2 * x1 ^ 2 * x3 * k
      + 4 * x1 ^ 2 * l ^ 3 + 2 * x1 ^ 2 * l * k ^ 2 + 2 * x1 ^ 2 * y2 - 8 * x1 * x2 ^ 2 * l - 4 * x1 * x2 ^ 2 *
      k - 10 * x1 * x2 * x3 * l + 9 * x1 * x2 * l ^ 3 - x1 * x2 * l ^ 2 * k + 5 * x1 * x2 * l * k ^ 2 + x1 * x2
      * k ^ 3 + 4 * x1 * x2 * y2 + 4 * x1 * x3 ^ 2 * k + 7 * x1 * x3 * l ^ 3 + x1 * x3 * l ^ 2 * k + 3 * x1 *
      x3 * l * k ^ 2 - x1 * x3 * k ^ 3 + 4 * x1 * x3 * y2 - 2 * x1 * l ^ 5 - 4 * x1 * l ^ 3 * k ^ 2 + 2 * x1 *
      l ^ 2 * y2 - 2 * x1 * k ^ 2 * y2 + 2 * x2 ^ 3 * l + 2 * x2 ^ 2 * x3 * l - 2 * x2 ^ 2 * x3 * k + 2 * x2 ^
      2 * l ^ 3 - 4 * x2 ^ 2 * l ^ 2 * k + 2 * x2 ^ 2 * l * k ^ 2 + 2 * x2 ^ 2 * k ^ 3 + 6 * x2 * x3 ^ 2 * l +
      2 * x2 * x3 ^ 2 * k + 8 * x2 * x3 * l ^ 3 + 6 * x2 * x3 * l ^ 2 * k + 6 * x2 * x3 * l * k ^ 2 - 2 * x2 *
      x3 * k ^ 3 + 2 * x2 * x3 * y2 - x2 * l ^ 5 + 3 * x2 * l ^ 4 * k - 5 * x2 * l ^ 3 * k ^ 2 - x2 * l ^ 2 * k
      ^ 3 + 6 * x2 * l ^ 2 * y2 - 2 * x2 * l * k ^ 4 - 4 * x2 * k ^ 2 * y2 + 4 * x3 ^ 3 * l - 2 * x3 ^ 2 * l ^
      2 * k - 6 * x3 ^ 2 * l * k ^ 2 - 3 * x3 * l ^ 5 - 3 * x3 * l ^ 4 * k - 3 * x3 * l ^ 3 * k ^ 2 + x3 * l ^
      2 * k ^ 3 - 2 * x3 * l ^ 2 * y2 + 2 * x3 * l * k ^ 4 - 12 * x3 * l * k * y2 + 2 * l ^ 5 * k ^ 2 - 4 * l ^
      4 * y2 + 2 * l ^ 2 * k ^ 2 * y2 + 4 * l * k ^ 3 * y2 - 4 * l * y2 ^ 2) * (x1 ^ 2 - (2 * l * y2 - l ^ 2 *
      (x2 - x1) - x1 * x2 - x2 ^ 2))
    + (2 * x1 * x2 ^ 2 * l + 2 * x1 * x2 ^ 2 * k + 8 * x1 * x2 * x3 * l + 2 * x1 * x2 * x3 * k - 3 * x1 * x2 *
      l ^ 3 + 3 * x1 * x2 * l ^ 2 * k - x1 * x2 * l * k ^ 2 - x1 * x2 * k ^ 3 - 2 * x1 * x2 * y2 + 2 * x1 * x3
      ^ 2 * l - 4 * x1 * x3 ^ 2 * k - 3 * x1 * x3 * l ^ 3 - 3 * x1 * x3 * l ^ 2 * k - 5 * x1 * x3 * l * k ^ 2 +
      x1 * x3 * k ^ 3 - 4 * x1 * x3 * y2 + 2 * x1 * l ^ 3 * k ^ 2 - 4 * x1 * l * k * y2 + 2 * x1 * k ^ 2 * y2 -
      2 * x2 ^ 3 * l + 8 * x2 ^ 3 * k + 4 * x2 ^ 2 * x3 * l + 4 * x2 ^ 2 * x3 * k - 8 * x2 ^ 2 * l ^ 3 + 2 * x2
      ^ 2 * l ^ 2 * k + 4 * x2 ^ 2 * l * k ^ 2 + 4 * x2 * x3 ^ 2 * l - 2 * x2 * x3 ^ 2 * k - 14 * x2 * x3 * l ^
      3 - 4 * x2 * x3 * l ^ 2 * k - 10 * x2 * x3 * l * k ^ 2 - 2 * x2 * x3 * k ^ 3 - 4 * x2 * x3 * y2 + 3 * x2
      * l ^ 5 - 3 * x2 * l ^ 4 * k + 5 * x2 * l ^ 3 * k ^ 2 + x2 * l ^ 2 * k ^ 3 + 8 * x2 * l ^ 2 * y2 - 8 * x2
      * l * k * y2 - 2 * x2 * k ^ 2 * y2 - 2 * x3 ^ 3 * k - 2 * x3 ^ 2 * l ^ 3 + 2 * x3 ^ 2 * l ^ 2 * k + 2 *
      x3 ^ 2 * k ^ 3 - 2 * x3 ^ 2 * y2 + 3 * x3 * l ^ 5 + 3 * x3 * l ^ 4 * k + 5 * x3 * l ^ 3 * k ^ 2 - x3 * l
      ^ 2 * k ^ 3 + 10 * x3 * l ^ 2 * y2 + 6 * x3 * k ^ 2 * y2 - 2 * l ^ 5 * k ^ 2 + 4 * l ^ 3 * k * y2 - 6 * l
      ^ 2 * k ^ 2 * y2 - 4 * k * y2 ^ 2 + 56 * k) * (x3 ^ 2 - (2 * k * y2 + k ^ 2 * (x3 - x2) - x2 * x3 - x2 ^
      2))
    + (8 * x2 ^ 2 * k + 8 * x2 * x3 * k + 8 * x2 * k ^ 3 + 8 * x3 ^ 2 * k - 8 * x3 * k ^ 3 - 16 * k ^ 2 * y2) *
      (y2 ^ 2 - (x2 ^ 3 + 7))"
    unfolding X y4 y5 x4 x5 y1 y3 by algebra
  then show ?thesis using r1 r3 c by simp
qed

lemma assoc_double_x:
  fixes x1 :: fp
  assumes d: "d ^ 2 = - k * l * d - 3 * x2 ^ 2 - 3 * x2 * d"
    and x3: "x3 = x2 + d" and x1: "x1 = l ^ 2 - x2 - x3"
    and y2: "Y2 = - (k + l) * d" and y1: "Y1 = Y2 - 2 * l * (x2 - x1)" and y3: "Y3 = Y2 + 2 * k * (x3 - x2)"
    and x5: "x5 = k ^ 2 - x2 - x3" and y5: "Y5 = 2 * k * (x2 - x5) - Y2"
  shows "36 * x3 ^ 4 * (x5 - x1) ^ 2 - Y3 ^ 2 * (Y5 - Y1) ^ 2 = 4 * (2 * x3 - x1 - x5) * Y3 ^ 2 * (x5 - x1) ^ 2"
proof -
  have "36 * x3 ^ 4 * (x5 - x1) ^ 2 - Y3 ^ 2 * (Y5 - Y1) ^ 2 - (4 * (2 * x3 - x1 - x5) * Y3 ^ 2 * (x5 - x1) ^ 2) =
      (12 * x2 ^ 2 * k ^ 4 - 24 * x2 ^ 2 * k ^ 2 * l ^ 2 + 12 * x2 ^ 2 * l ^ 4 + 36 * x2 * d * k ^ 4 - 72 * x2 *
      d * k ^ 2 * l ^ 2 + 36 * x2 * d * l ^ 4 + 20 * d ^ 2 * k ^ 4 - 40 * d ^ 2 * k ^ 2 * l ^ 2 + 20 * d ^ 2 *
      l ^ 4 - 4 * d * k ^ 5 * l + 8 * d * k ^ 3 * l ^ 3 - 4 * d * k * l ^ 5)
    * (d ^ 2 - (- k * l * d - 3 * x2 ^ 2 - 3 * x2 * d))"
    unfolding y5 x5 y1 y3 y2 x1 x3 by algebra
  then show ?thesis using d by simp
qed

lemma assoc_double_y:
  fixes x1 :: fp
  assumes d: "d ^ 2 = - k * l * d - 3 * x2 ^ 2 - 3 * x2 * d"
    and x3: "x3 = x2 + d" and x1: "x1 = l ^ 2 - x2 - x3"
    and y2: "Y2 = - (k + l) * d" and y1: "Y1 = Y2 - 2 * l * (x2 - x1)" and y3: "Y3 = Y2 + 2 * k * (x3 - x2)"
    and x5: "x5 = k ^ 2 - x2 - x3" and y5: "Y5 = 2 * k * (x2 - x5) - Y2"
    and X: "X = 9 * x3 ^ 4 - 2 * x3 * Y3 ^ 2"
  shows "2 * (x5 - x1) * (3 * x3 ^ 2 * (x3 * Y3 ^ 2 - X)) - (x5 - x1) * Y3 ^ 4 = Y3 * (Y5 - Y1) * (x1 * Y3 ^ 2 - X) - Y1 * Y3 ^ 3 * (x5 - x1)"
proof -
  have "2 * (x5 - x1) * (3 * x3 ^ 2 * (x3 * Y3 ^ 2 - X)) - (x5 - x1) * Y3 ^ 4 - (Y3 * (Y5 - Y1) * (x1 * Y3 ^ 2 - X) - Y1 * Y3 ^ 3 * (x5 - x1)) =
      (- 18 * x2 ^ 4 * k ^ 2 + 18 * x2 ^ 4 * l ^ 2 - 72 * x2 ^ 3 * d * k ^ 2 + 72 * x2 ^ 3 * d * l ^ 2 - 108 *
      x2 ^ 2 * d ^ 2 * k ^ 2 + 108 * x2 ^ 2 * d ^ 2 * l ^ 2 - 6 * x2 ^ 2 * d * k ^ 4 + 12 * x2 ^ 2 * d * k ^ 3
      * l - 12 * x2 ^ 2 * d * k * l ^ 3 + 6 * x2 ^ 2 * d * l ^ 4 - 72 * x2 * d ^ 3 * k ^ 2 + 72 * x2 * d ^ 3 *
      l ^ 2 - 12 * x2 * d ^ 2 * k ^ 4 + 24 * x2 * d ^ 2 * k ^ 3 * l - 24 * x2 * d ^ 2 * k * l ^ 3 + 12 * x2 * d
      ^ 2 * l ^ 4 - 18 * d ^ 4 * k ^ 2 + 18 * d ^ 4 * l ^ 2 - 4 * d ^ 3 * k ^ 4 + 8 * d ^ 3 * k ^ 3 * l - 8 * d
      ^ 3 * k * l ^ 3 + 4 * d ^ 3 * l ^ 4 + 2 * d ^ 2 * k ^ 5 * l - 4 * d ^ 2 * k ^ 4 * l ^ 2 + 4 * d ^ 2 * k ^
      2 * l ^ 4 - 2 * d ^ 2 * k * l ^ 5)
    * (d ^ 2 - (- k * l * d - 3 * x2 ^ 2 - 3 * x2 * d))"
    unfolding X y5 x5 y1 y3 y2 x1 x3 by algebra
  then show ?thesis using d by simp
qed

section \<open>Slopes\<close>

definition slope :: "fp \<Rightarrow> fp \<Rightarrow> fp \<Rightarrow> fp \<Rightarrow> fp \<Rightarrow> bool" where
  "slope l x1 y1 x2 y2 \<longleftrightarrow> l * (x2 - x1) = y2 - y1 \<and> l * (y1 + y2) = x1 ^ 2 + x1 * x2 + x2 ^ 2"

lemma slope_sym: "slope l x1 y1 x2 y2 \<Longrightarrow> slope l x2 y2 x1 y1"
  unfolding slope_def by (simp add: algebra_simps)

lemma slope_exists:
  assumes P: "on_curve (Point x1 y1)" and Q: "on_curve (Point x2 y2)"
    and "point_add (Point x1 y1) (Point x2 y2) \<noteq> Infinity"
  obtains l where "slope l x1 y1 x2 y2" "point_add (Point x1 y1) (Point x2 y2) = chord l x1 y1 x2"
proof (cases "x1 = x2")
  case True
  then have ne: "y1 \<noteq> - y2" using assms(3) by auto
  then have y: "y1 = y2" using same_x_cases [of x1 y1 y2] P Q True by simp
  define l where "l = 3 * x1 ^ 2 / (2 * y1)"
  have "2 * y1 \<noteq> 0" using on_curve_y_neq_0 [OF P] fp_two_neq_0 by simp
  then have "l * (2 * y1) = 3 * x1 ^ 2" by (simp add: l_def)
  then have "slope l x1 y1 x2 y2" by (simp add: slope_def True y power2_eq_square flip: mult_2)
  moreover have "point_add (Point x1 y1) (Point x2 y2) = chord l x1 y1 x2"
    using True ne by (simp add: l_def)
  ultimately show ?thesis by (rule that)
next
  case False
  define l where "l = (y2 - y1) / (x2 - x1)"
  have l: "l * (x2 - x1) = y2 - y1" using False by (simp add: l_def)
  have "(x2 - x1) * (l * (y1 + y2) - (x1 ^ 2 + x1 * x2 + x2 ^ 2)) =
      (l * (x2 - x1)) * (y1 + y2) - (x2 ^ 3 - x1 ^ 3)"
    by algebra
  also have "\<dots> = y2 ^ 2 - y1 ^ 2 - (x2 ^ 3 - x1 ^ 3)" unfolding l by algebra
  also have "\<dots> = 0" using P Q by simp
  finally have "slope l x1 y1 x2 y2" using l False by (simp add: slope_def)
  moreover have "point_add (Point x1 y1) (Point x2 y2) = chord l x1 y1 x2"
    using False by (simp add: l_def)
  ultimately show ?thesis by (rule that)
qed

lemma slope_unique:
  assumes "on_curve (Point x1 y1)" "slope l x1 y1 x2 y2" "slope k x1 y1 x2 y2"
  shows "l = k"
proof (cases "x1 = x2")
  case True
  then have "y1 = y2" using assms(2) by (simp add: slope_def)
  then have "2 * y1 * (l - k) = 0" using assms(2,3) by (simp add: slope_def algebra_simps)
  then show ?thesis using on_curve_y_neq_0 [OF assms(1)] fp_two_neq_0 by simp
next
  case False
  have "l * (x2 - x1) = k * (x2 - x1)" using assms(2,3) by (simp add: slope_def)
  then show ?thesis using False by simp
qed

lemma slope_add:
  assumes P: "on_curve (Point x1 y1)" and Q: "on_curve (Point x2 y2)" and l: "slope l x1 y1 x2 y2"
  shows "point_add (Point x1 y1) (Point x2 y2) = chord l x1 y1 x2"
proof -
  have "point_add (Point x1 y1) (Point x2 y2) \<noteq> Infinity"
  proof
    assume "point_add (Point x1 y1) (Point x2 y2) = Infinity"
    then have "x1 = x2" "y1 = - y2" by (auto simp: chord_def Let_def split: if_splits)
    then have "2 * y2 = 0" using l by (simp add: slope_def)
    then show False using on_curve_y_neq_0 [OF Q] fp_two_neq_0 by simp
  qed
  then obtain k where "slope k x1 y1 x2 y2" "point_add (Point x1 y1) (Point x2 y2) = chord k x1 y1 x2"
    using slope_exists [OF P Q] by blast
  then show ?thesis using slope_unique [OF P l] by simp
qed

section \<open>Negation and cancellation\<close>

lemma chord_neg: "point_neg (chord l x1 y1 x2) = chord (- l) x1 (- y1) x2"
  by (simp add: chord_def Let_def)

lemma point_neg_add: "point_add (point_neg P) (point_neg Q) = point_neg (point_add P Q)"
proof (cases P; cases Q)
  fix x1 y1 x2 y2
  assume PQ: "P = Point x1 y1" "Q = Point x2 y2"
  have "(- y2 - - y1) / (x2 - x1) = - ((y2 - y1) / (x2 - x1))"
    by (simp add: minus_divide_left)
  then show ?thesis
    by (auto simp: PQ chord_neg)
qed simp_all

lemma point_add_eq_Infinity: "point_add P Q = Infinity \<longleftrightarrow> Q = point_neg P"
  by (cases P; cases Q) (auto simp: chord_def Let_def)

lemma point_add_cancel:
  assumes "on_curve P" "on_curve Q"
  shows "point_add (point_add P Q) (point_neg P) = Q"
proof (cases P; cases Q)
  fix x1 y1 x2 y2
  assume PQ: "P = Point x1 y1" "Q = Point x2 y2"
  show ?thesis
  proof (cases "point_add P Q = Infinity")
    case True
    then have "x1 = x2" "y1 = - y2" by (auto simp: PQ chord_def Let_def split: if_splits)
    then show ?thesis by (simp add: PQ)
  next
    case False
    then obtain l where l: "slope l x1 y1 x2 y2" and s: "point_add P Q = chord l x1 y1 x2"
      using slope_exists [of x1 y1 x2 y2] assms by (auto simp: PQ)
    define x4 y4 where d: "x4 = l ^ 2 - x1 - x2" "y4 = l * (x1 - x4) - y1"
    have sum: "point_add P Q = Point x4 y4" by (simp add: s chord_def d Let_def)
    then have on: "on_curve (Point x4 y4)" using point_add_on_curve [OF assms] by simp
    have y2: "y2 = y1 + l * (x2 - x1)" and r: "l * (y1 + y2) = x1 ^ 2 + x1 * x2 + x2 ^ 2"
      using l by (simp_all add: slope_def)
    have "- l * (y4 + - y1) - (x4 ^ 2 + x4 * x1 + x1 ^ 2) = l * (y1 + y2) - (x1 ^ 2 + x1 * x2 + x2 ^ 2)"
      unfolding d y2 by algebra
    then have "- l * (y4 + - y1) = x4 ^ 2 + x4 * x1 + x1 ^ 2" using r by simp
    moreover have "- l * (x1 - x4) = - y1 - y4" unfolding d(2) by algebra
    ultimately have "slope (- l) x4 y4 x1 (- y1)" unfolding slope_def by blast
    then have "point_add (Point x4 y4) (Point x1 (- y1)) = chord (- l) x4 y4 x1"
      by (rule slope_add [OF on, rotated]) (use assms PQ in simp)
    also have "\<dots> = Q"
      by (simp add: chord_def Let_def PQ y2 d algebra_simps)
    finally show ?thesis unfolding sum by (simp only: PQ point_neg.simps)
  qed
qed (use assms in simp_all)

lemma point_add_left_cancel:
  assumes "on_curve P" "on_curve Q" "on_curve R" "point_add P Q = point_add P R"
  shows "Q = R"
  using point_add_cancel [OF assms(1,2)] point_add_cancel [OF assms(1,3)] assms(4) by metis

text \<open>Three points that sum to infinity do so in any order.\<close>

lemma point_add_opposite_rotate:
  assumes on: "on_curve P" "on_curve Q" "on_curve R" and s: "point_add P Q = point_neg R"
  shows "point_add Q R = point_neg P"
proof -
  have "point_add (point_neg R) (point_neg Q) = P"
    using point_add_cancel [of Q P] on s by (simp add: point_add_commute)
  then have "point_neg (point_add R Q) = P" by (simp only: point_neg_add)
  then have "point_add R Q = point_neg P" using point_neg_neg by metis
  then show ?thesis using on by (simp add: point_add_commute)
qed

section \<open>Associativity\<close>

lemma assoc_generic:
  assumes on: "on_curve (Point x1 y1)" "on_curve (Point x2 y2)" "on_curve (Point x3 y3)"
    and l: "slope l x1 y1 x2 y2" and k: "slope k x2 y2 x3 y3"
    and P4: "chord l x1 y1 x2 = Point x4 y4" and P5: "chord k x2 y2 x3 = Point x5 y5"
    and ne: "x4 \<noteq> x3" "x5 \<noteq> x1"
  shows "point_add (Point x4 y4) (Point x3 y3) = point_add (Point x1 y1) (Point x5 y5)"
proof -
  have y: "y1 = y2 - l * (x2 - x1)" "y3 = y2 + k * (x3 - x2)"
    using l k by (simp_all add: slope_def)
  have d: "x4 = l ^ 2 - x1 - x2" "y4 = l * (x1 - x4) - y1" "x5 = k ^ 2 - x2 - x3" "y5 = k * (x2 - x5) - y2"
    using P4 P5 by (auto simp: chord_def Let_def)
  have r1: "x1 ^ 2 = 2 * l * y2 - l ^ 2 * (x2 - x1) - x1 * x2 - x2 ^ 2"
    using l unfolding slope_def y(1) by (simp add: algebra_simps power2_eq_square)
  have r3: "x3 ^ 2 = 2 * k * y2 + k ^ 2 * (x3 - x2) - x2 * x3 - x2 ^ 2"
    using k unfolding slope_def y(2) by (simp add: algebra_simps power2_eq_square)
  define D1 D2 m h where D: "D1 = x3 - x4" "D2 = x5 - x1" and mh: "m = (y3 - y4) / D1" "h = (y5 - y1) / D2"
  have D0: "D1 \<noteq> 0" "D2 \<noteq> 0" using ne by (auto simp: D)
  have n: "y3 - y4 = m * D1" "y5 - y1 = h * D2" using D0 by (simp_all add: mh)
  define x6 where "x6 = m ^ 2 - x4 - x3"
  have "(m * D1) ^ 2 * D2 ^ 2 - (h * D2) ^ 2 * D1 ^ 2 = (x4 + x3 - x1 - x5) * D1 ^ 2 * D2 ^ 2"
    using assoc_generic_x [OF r1 r3 y d] by (simp only: n D)
  then have "D1 ^ 2 * D2 ^ 2 * (m ^ 2 - h ^ 2 - (x4 + x3 - x1 - x5)) = 0"
    by (simp add: algebra_simps power_mult_distrib)
  then have "m ^ 2 - h ^ 2 - (x4 + x3 - x1 - x5) = 0" using D0 by simp
  then have x6: "x6 = h ^ 2 - x1 - x5" unfolding x6_def by algebra
  have "D2 * (m * D1 * (x4 * D1 ^ 2 - D1 ^ 2 * x6) - y4 * D1 ^ 3) =
      D1 * (h * D2) * (x1 * D1 ^ 2 - D1 ^ 2 * x6) - y1 * D1 ^ 3 * D2"
  proof -
    have "D1 ^ 2 * x6 = (y3 - y4) ^ 2 - (x4 + x3) * (x3 - x4) ^ 2"
      unfolding n D(1) [symmetric] x6_def by algebra
    from assoc_generic_y [OF r1 r3 _ y d this] show ?thesis
      using on(2) unfolding n D [symmetric] by simp
  qed
  then have "D1 ^ 3 * D2 * ((m * (x4 - x6) - y4) - (h * (x1 - x6) - y1)) = 0"
    by algebra
  then have y6: "m * (x4 - x6) - y4 = h * (x1 - x6) - y1" using D0 by simp
  have "point_add (Point x4 y4) (Point x3 y3) = chord m x4 y4 x3"
    using ne by (simp add: mh D)
  moreover have "point_add (Point x1 y1) (Point x5 y5) = chord h x1 y1 x5"
    using ne by (auto simp: mh D)
  ultimately show ?thesis
    using x6 y6 by (simp add: chord_def Let_def flip: x6_def)
qed

lemma assoc_double:
  assumes on: "on_curve (Point x1 y1)" "on_curve (Point x2 y2)" "on_curve (Point x3 y3)"
    and l: "slope l x1 y1 x2 y2" and k: "slope k x2 y2 x3 y3"
    and P4: "chord l x1 y1 x2 = Point x3 y3" and P5: "chord k x2 y2 x3 = Point x5 y5"
    and ne: "x5 \<noteq> x1"
  shows "point_add (Point x3 y3) (Point x3 y3) = point_add (Point x1 y1) (Point x5 y5)"
proof -
  define d Y1 Y2 Y3 Y5 where Y: "d = x3 - x2" "Y1 = 2 * y1" "Y2 = 2 * y2" "Y3 = 2 * y3" "Y5 = 2 * y5"
  have e: "x3 = l ^ 2 - x1 - x2" "y3 = l * (x1 - x3) - y1" "x5 = k ^ 2 - x2 - x3" "y5 = k * (x2 - x5) - y2"
    using P4 P5 by (auto simp: chord_def Let_def)
  have s: "y2 - y1 = l * (x2 - x1)" "y3 - y2 = k * d" "k * (y2 + y3) = x2 ^ 2 + x2 * x3 + x3 ^ 2"
    using l k by (simp_all add: slope_def Y)
  have y3: "y3 = - l * d - y2" using e(2) s(1) unfolding Y(1) by algebra
  have x: "x3 = x2 + d" "x1 = l ^ 2 - x2 - x3" using e(1) by (simp_all add: Y)
  have Y2: "Y2 = - (k + l) * d" using s(2) y3 unfolding Y by algebra
  have d2: "d ^ 2 = - k * l * d - 3 * x2 ^ 2 - 3 * x2 * d" using s(3) unfolding y3 x(1) by algebra
  have Y13: "Y1 = Y2 - 2 * l * (x2 - x1)" "Y3 = Y2 + 2 * k * (x3 - x2)"
    using s(1,2) unfolding Y by algebra+
  have Y5: "Y5 = 2 * k * (x2 - x5) - Y2" using e(4) unfolding Y by algebra
  have Y30: "Y3 \<noteq> 0" "y3 \<noteq> - y3" using on_curve_y_neq_0 [OF on(3)] fp_two_neq_0 by (simp_all add: Y eq_neg_iff_add_eq_0 flip: mult_2)
  define D2 m h where D2: "D2 = x5 - x1" and mh: "m = 3 * x3 ^ 2 / Y3" "h = (y5 - y1) / D2"
  have D0: "D2 \<noteq> 0" using ne by (simp add: D2)
  have n: "3 * x3 ^ 2 = m * Y3" "Y5 - Y1 = 2 * (h * D2)" using D0 Y30 by (simp_all add: mh Y)
  have n4: "9 * x3 ^ 4 = (m * Y3) ^ 2" unfolding n(1) [symmetric] by algebra
  define x6 where "x6 = m ^ 2 - x3 - x3"
  have "4 * (m * Y3) ^ 2 * D2 ^ 2 - Y3 ^ 2 * (2 * (h * D2)) ^ 2 = 4 * (2 * x3 - x1 - x5) * Y3 ^ 2 * D2 ^ 2"
    using assoc_double_x [OF d2 x Y2 Y13 e(3) Y5] n4 unfolding n(2) D2 [symmetric] by algebra
  then have "4 * Y3 ^ 2 * D2 ^ 2 * (m ^ 2 - h ^ 2 - (2 * x3 - x1 - x5)) = 0"
    by algebra
  then have "m ^ 2 - h ^ 2 - (2 * x3 - x1 - x5) = 0" using D0 Y30 fp_four_eight by simp
  then have x6: "x6 = h ^ 2 - x1 - x5" unfolding x6_def by algebra
  have X: "Y3 ^ 2 * x6 = 9 * x3 ^ 4 - 2 * x3 * Y3 ^ 2"
    unfolding n4 x6_def by algebra
  have "2 * D2 * (m * Y3 * (x3 * Y3 ^ 2 - Y3 ^ 2 * x6)) - D2 * Y3 ^ 4 =
      Y3 * (2 * (h * D2)) * (x1 * Y3 ^ 2 - Y3 ^ 2 * x6) - Y1 * Y3 ^ 3 * D2"
    using assoc_double_y [OF d2 x Y2 Y13 e(3) Y5 X] unfolding n D2 [symmetric] .
  then have "2 * Y3 ^ 3 * D2 * ((m * (x3 - x6) - y3) - (h * (x1 - x6) - y1)) = 0"
    unfolding Y(2) using Y(4) by algebra
  then have y6: "m * (x3 - x6) - y3 = h * (x1 - x6) - y1" using D0 Y30 fp_two_neq_0 by simp
  have "point_add (Point x3 y3) (Point x3 y3) = chord m x3 y3 x3"
    using Y30 by (simp add: mh Y)
  moreover have "point_add (Point x1 y1) (Point x5 y5) = chord h x1 y1 x5"
    using ne by (auto simp: mh D2)
  ultimately show ?thesis
    using x6 y6 by (simp add: chord_def Let_def flip: x6_def)
qed

text \<open>Equal or opposite points are those over the same x.\<close>

lemma on_curve_same_x:
  assumes "on_curve (Point x y)" "on_curve (Point x y')"
  shows "y = y' \<or> y = - y'"
  using same_x_cases [OF assms] by blast

lemma assoc_finite:
  assumes on: "on_curve (Point x1 y1)" "on_curve (Point x2 y2)" "on_curve (Point x3 y3)"
    and s12: "point_add (Point x1 y1) (Point x2 y2) = Point x4 y4" and s23: "point_add (Point x2 y2) (Point x3 y3) = Point x5 y5"
    and n4: "Point x4 y4 \<noteq> Point x3 (- y3)" and n5: "Point x5 y5 \<noteq> Point x1 (- y1)"
  shows "point_add (Point x4 y4) (Point x3 y3) = point_add (Point x1 y1) (Point x5 y5)"
proof -
  obtain l where l: "slope l x1 y1 x2 y2" "chord l x1 y1 x2 = Point x4 y4"
    using slope_exists [OF on(1,2)] s12 by (metis point.distinct(1))
  obtain k where k: "slope k x2 y2 x3 y3" "chord k x2 y2 x3 = Point x5 y5"
    using slope_exists [OF on(2,3)] s23 by (metis point.distinct(1))
  have on4: "on_curve (Point x4 y4)" and on5: "on_curve (Point x5 y5)"
    using point_add_on_curve [OF on(1,2)] point_add_on_curve [OF on(2,3)] s12 s23 by simp_all
  have c4: "y4 = y3" if "x4 = x3" using on_curve_same_x [of x3 y4 y3] on4 on(3) n4 that by auto
  have c5: "y5 = y1" if "x5 = x1" using on_curve_same_x [of x1 y5 y1] on5 on(1) n5 that by auto
  show ?thesis
  proof (cases "x4 = x3")
    case False
    show ?thesis
    proof (cases "x5 = x1")
      case False
      then show ?thesis using assoc_generic [OF on l(1) k(1) l(2) k(2)] \<open>x4 \<noteq> x3\<close> by blast
    next
      case True
      have "point_add (Point x1 y1) (Point x1 y1) = point_add (Point x3 y3) (Point x4 y4)"
        by (rule assoc_double [OF on(3,2,1) slope_sym [OF k(1)] slope_sym [OF l(1)]])
          (use s12 s23 c5 True False l k slope_add slope_sym on point_add_commute in metis)+
      then show ?thesis using True c5 point_add_commute [OF on4 on(3)] by simp
    qed
  next
    case True
    show ?thesis
    proof (cases "x5 = x1")
      case False
      then show ?thesis using assoc_double [OF on l(1) k(1) _ k(2)] l(2) True c4 by simp
    next
      case x5: True
      have s: "point_add (Point x1 y1) (Point x2 y2) = Point x3 y3" "point_add (Point x2 y2) (Point x3 y3) = Point x1 y1"
        using s12 s23 c4 c5 True x5 by simp_all
      have "point_add (Point x1 y1) (Point x2 (- y2)) = Point x3 y3"
        using point_add_cancel [OF on(2,3)] s(2) by simp
      then have "Point x2 y2 = Point x2 (- y2)"
        using point_add_left_cancel [OF on(1,2), of "Point x2 (- y2)"] s(1) on(2) by simp
      then have "y2 = 0" using fp_two_neq_0 by (simp add: eq_neg_iff_add_eq_0 flip: mult_2)
      then show ?thesis using on_curve_y_neq_0 [OF on(2)] by blast
    qed
  qed
qed

theorem point_add_assoc:
  assumes on: "on_curve P" "on_curve Q" "on_curve R"
  shows "point_add (point_add P Q) R = point_add P (point_add Q R)"
proof -
  consider "P = Infinity \<or> Q = Infinity \<or> R = Infinity" | "Q = point_neg P" | "R = point_neg Q"
    | "point_add P Q = point_neg R" | "point_add Q R = point_neg P"
    | x1 y1 x2 y2 x3 y3 x4 y4 x5 y5 where "P = Point x1 y1" "Q = Point x2 y2" "R = Point x3 y3"
        "point_add P Q = Point x4 y4" "point_add Q R = Point x5 y5"
        "point_add P Q \<noteq> point_neg R" "point_add Q R \<noteq> point_neg P"
    using point_add_eq_Infinity by (metis point.exhaust)
  then show ?thesis
  proof cases
    case 1
    then show ?thesis by auto
  next
    case 2
    have "point_add (point_add (point_neg P) R) P = R"
      using point_add_cancel [of "point_neg P" R] on by simp
    then show ?thesis
      using 2 on by (simp add: point_add_neg point_add_commute [of P] point_add_on_curve)
  next
    case 3
    have "point_add (point_add P Q) (point_neg Q) = P"
      using point_add_cancel [of Q P] on by (simp add: point_add_commute)
    then show ?thesis using 3 by (simp add: point_add_neg)
  next
    case 4
    then have "point_add Q R = point_neg P" by (rule point_add_opposite_rotate [OF on])
    then show ?thesis
      using 4 on by (simp add: point_add_neg point_add_commute [of "point_neg R"])
  next
    case 5
    then have "point_add R P = point_neg Q" by (rule point_add_opposite_rotate [OF on(2,3,1)])
    then have "point_add P Q = point_neg R" by (rule point_add_opposite_rotate [OF on(3,1,2)])
    then show ?thesis
      using 5 on by (simp add: point_add_neg point_add_commute [of "point_neg R"])
  next
    case 6
    then show ?thesis
      using assoc_finite [of x1 y1 x2 y2 x3 y3 x4 y4 x5 y5] on by simp
  qed
qed

end
