(* ===== verification/Curve_Type.thy ===== *)
theory Curve_Type
  imports Curve_Group
begin

text \<open>
  The points of the curve as a type: an instance of the abelian groups of the library, finite, with
  at most \<open>2 p + 1\<close> elements. Multiplication by integers, and the fact that the number of
  elements annihilates every point.
\<close>

typedef cpoint = "{P. on_curve P}"
  morphisms pt cp
  by (rule exI [of _ Infinity]) simp

setup_lifting type_definition_cpoint

lemma on_curve_pt [simp]: "on_curve (pt P)"
  using pt [of P] by simp

lemma pt_cp [simp]: "on_curve P \<Longrightarrow> pt (cp P) = P"
  by (simp add: cp_inverse)

lemma cp_inject_on: "on_curve P \<Longrightarrow> on_curve Q \<Longrightarrow> cp P = cp Q \<longleftrightarrow> P = Q"
  by (metis pt_cp)

instantiation cpoint :: ab_group_add
begin

lift_definition zero_cpoint :: cpoint is Infinity by simp

lift_definition plus_cpoint :: "cpoint \<Rightarrow> cpoint \<Rightarrow> cpoint" is point_add
  by (rule point_add_on_curve)

lift_definition uminus_cpoint :: "cpoint \<Rightarrow> cpoint" is point_neg by simp

definition minus_cpoint :: "cpoint \<Rightarrow> cpoint \<Rightarrow> cpoint" where
  "minus_cpoint P Q = P + - Q"

instance
proof
  fix P Q R :: cpoint
  show "P + Q + R = P + (Q + R)" by transfer (simp add: point_add_assoc)
  show "P + Q = Q + P" by transfer (rule point_add_commute)
  show "0 + P = P" by transfer simp
  show "- P + P = 0" by transfer (simp add: point_add_commute point_add_neg)
  show "P - Q = P + - Q" by (rule minus_cpoint_def)
qed

end

lemma cp_add [simp]: "on_curve P \<Longrightarrow> on_curve Q \<Longrightarrow> cp (point_add P Q) = cp P + cp Q"
  by (simp add: plus_cpoint.abs_eq eq_onp_def)

lemma cp_neg [simp]: "on_curve P \<Longrightarrow> cp (point_neg P) = - cp P"
  by (simp add: uminus_cpoint.abs_eq eq_onp_def)

lemma cp_Infinity [simp]: "cp Infinity = 0"
  by (simp add: zero_cpoint_def)

lemma cp_eq_0_iff: "on_curve P \<Longrightarrow> cp P = 0 \<longleftrightarrow> P = Infinity"
  using cp_inject_on [of P Infinity] by simp

lemma pt_eq_Infinity_iff: "pt P = Infinity \<longleftrightarrow> P = 0"
  by transfer simp

text \<open>No point is its own negative.\<close>

lemma no_order_two:
  fixes P :: cpoint
  assumes "P + P = 0"
  shows "P = 0"
  using assms
proof (transfer)
  fix P
  assume P: "on_curve P" "point_add P P = Infinity"
  then have neg: "point_neg P = P" by (simp add: point_add_eq_Infinity)
  show "P = Infinity"
  proof (cases P)
    case (Point x y)
    then have "- y = y" using neg by simp
    then have "2 * y = 0" by (metis add.right_inverse mult_2)
    then show ?thesis using Point P(1) on_curve_y_neq_0 [of x y] fp_two_neq_0 by simp
  qed
qed

section \<open>Integer multiples\<close>

primrec nmul :: "nat \<Rightarrow> cpoint \<Rightarrow> cpoint" where
  "nmul 0 P = 0"
| "nmul (Suc k) P = P + nmul k P"

definition zmul :: "int \<Rightarrow> cpoint \<Rightarrow> cpoint" where
  "zmul k P = (if 0 \<le> k then nmul (nat k) P else - nmul (nat (- k)) P)"

lemma nmul_add: "nmul (j + k) P = nmul j P + nmul k P"
  by (induction j) (simp_all add: add.assoc)

lemma nmul_diff: "k \<le> j \<Longrightarrow> nmul (j - k) P = nmul j P - nmul k P"
  using nmul_add [of "j - k" k P] by simp

lemma nmul_mult: "nmul (j * k) P = nmul j (nmul k P)"
  by (induction j) (simp_all add: nmul_add)

lemma nmul_0_right [simp]: "nmul k 0 = 0"
  by (induction k) simp_all

lemma nmul_add_right: "nmul k (P + Q) = nmul k P + nmul k Q"
  by (induction k) (simp_all add: ac_simps)

lemma zmul_of_nat [simp]: "zmul (int k) P = nmul k P"
  by (simp add: zmul_def)

lemma zmul_0 [simp]: "zmul 0 P = 0"
  by (simp add: zmul_def)

lemma zmul_1 [simp]: "zmul 1 P = P"
  by (simp add: zmul_def)

lemma zmul_diff_nat: "zmul (int j - int k) P = nmul j P - nmul k P"
proof (cases "k \<le> j")
  case True
  then have "nat (int j - int k) = j - k" by simp
  then show ?thesis using True by (simp add: zmul_def nmul_diff)
next
  case False
  then have "nat (- (int j - int k)) = k - j" by simp
  then show ?thesis using False by (simp add: zmul_def nmul_diff)
qed

lemma zmul_add: "zmul (j + k) P = zmul j P + zmul k P"
proof -
  obtain a b where j: "j = int a - int b" by (rule int_diff_cases)
  obtain c d where k: "k = int c - int d" by (rule int_diff_cases)
  have "j + k = int (a + c) - int (b + d)" by (simp add: j k)
  then have "zmul (j + k) P = nmul (a + c) P - nmul (b + d) P" by (simp only: zmul_diff_nat)
  then show ?thesis by (simp add: j k zmul_diff_nat nmul_add)
qed

lemma zmul_minus: "zmul (- k) P = - zmul k P"
  using zmul_add [of k "- k" P] by (simp add: eq_neg_iff_add_eq_0 add.commute)

lemma zmul_diff: "zmul (j - k) P = zmul j P - zmul k P"
  using zmul_add [of j "- k" P] by (simp add: zmul_minus)

lemma zmul_double: "zmul (2 * k) P = zmul k P + zmul k P"
  using zmul_add [of k k P] by simp

lemma zmul_mult: "zmul (j * k) P = zmul j (zmul k P)"
proof (induction j rule: int_induct [where k = 0])
  case base
  then show ?case by simp
next
  case (step1 i)
  then show ?case by (simp add: distrib_right zmul_add)
next
  case (step2 i)
  then show ?case by (simp add: left_diff_distrib zmul_diff)
qed

lemma zmul_0_right [simp]: "zmul k 0 = 0"
  by (simp add: zmul_def)

lemma zmul_add_right: "zmul k (P + Q) = zmul k P + zmul k Q"
  by (simp add: zmul_def nmul_add_right)

lemma zmul_minus_right: "zmul k (- P) = - zmul k P"
  using zmul_add_right [of k P "- P"] by (simp add: eq_neg_iff_add_eq_0 add.commute)

section \<open>The number of points\<close>

lemma finite_roots: "finite {y :: fp. y ^ 2 = c}" "card {y :: fp. y ^ 2 = c} \<le> 2"
proof -
  have "{y :: fp. y ^ 2 = c} \<subseteq> {y0, - y0}" if "y0 ^ 2 = c" for y0
  proof
    fix y assume "y \<in> {y. y ^ 2 = c}"
    then have "y ^ 2 = y0 ^ 2" using that by simp
    then show "y \<in> {y0, - y0}" by (simp add: power2_eq_iff)
  qed
  then have "\<exists>y0. {y :: fp. y ^ 2 = c} \<subseteq> {y0, - y0}"
    by (cases "{y :: fp. y ^ 2 = c} = {}") auto
  then obtain y0 where sub: "{y :: fp. y ^ 2 = c} \<subseteq> {y0, - y0}" by blast
  then show "finite {y :: fp. y ^ 2 = c}" by (rule finite_subset) simp
  have "card {y :: fp. y ^ 2 = c} \<le> card {y0, - y0}" by (rule card_mono [OF _ sub]) simp
  also have "\<dots> \<le> 2" by (simp add: card_insert_if)
  finally show "card {y :: fp. y ^ 2 = c} \<le> 2" .
qed

lemma curve_points: "finite {P. on_curve P}" "card {P. on_curve P} \<le> 2 * field_p + 1"
proof -
  let ?S = "SIGMA x : (UNIV :: fp set). {y. y ^ 2 = x ^ 3 + 7}"
  have eq: "{P. on_curve P} = insert Infinity ((\<lambda>(x, y). Point x y) ` ?S)"
  proof (intro set_eqI iffI)
    fix P assume "P \<in> {P. on_curve P}"
    then have P: "on_curve P" by simp
    show "P \<in> insert Infinity ((\<lambda>(x, y). Point x y) ` ?S)"
    proof (cases P)
      case (Point x y)
      then have "(x, y) \<in> ?S" using P by simp
      then have "(\<lambda>(x, y). Point x y) (x, y) \<in> (\<lambda>(x, y). Point x y) ` ?S" by (rule imageI)
      then show ?thesis using Point by simp
    qed simp
  next
    fix P assume "P \<in> insert Infinity ((\<lambda>(x, y). Point x y) ` ?S)"
    then show "P \<in> {P. on_curve P}" by auto
  qed
  have fin: "finite ?S" using finite_fp finite_roots(1) by blast
  then show "finite {P. on_curve P}" by (simp only: eq finite_insert finite_imageI)
  have "card {P. on_curve P} \<le> card ((\<lambda>(x, y). Point x y) ` ?S) + 1"
    unfolding eq by (rule order_trans [OF card_insert_le_m1]) (auto simp: card_insert_if)
  also have "card ((\<lambda>(x, y). Point x y) ` ?S) \<le> card ?S"
    using fin by (rule card_image_le)
  also have "card ?S = (\<Sum>x \<in> UNIV. card {y :: fp. y ^ 2 = x ^ 3 + 7})"
    using finite_fp finite_roots(1) by (simp add: card_SigmaI)
  also have "\<dots> \<le> (\<Sum>x \<in> (UNIV :: fp set). 2)"
    by (rule sum_mono) (rule finite_roots(2))
  also have "\<dots> = 2 * field_p" by (simp add: card_fp)
  finally show "card {P. on_curve P} \<le> 2 * field_p + 1" by simp
qed

lemma finite_cpoint: "finite (UNIV :: cpoint set)"
  using curve_points(1) type_definition.univ [OF type_definition_cpoint] finite_imageI by metis

lemma card_cpoint: "card (UNIV :: cpoint set) \<le> 2 * field_p + 1"
  using curve_points(2) by (simp add: type_definition.card [OF type_definition_cpoint])

lemma nmul_card: "nmul (card (UNIV :: cpoint set)) P = 0"
proof -
  have const: "(\<Sum>Q \<in> A. P) = nmul (card A) P" if "finite A" for A :: "cpoint set"
    using that by (induction A rule: finite_induct) simp_all
  have "(\<Sum>Q \<in> UNIV. Q) = (\<Sum>Q \<in> UNIV. P + Q)"
    by (rule sum.reindex_bij_witness [where i = "\<lambda>Q. P + Q" and j = "\<lambda>Q. Q - P"]) simp_all
  also have "\<dots> = nmul (card (UNIV :: cpoint set)) P + (\<Sum>Q \<in> UNIV. Q)"
    by (simp add: sum.distrib const [OF finite_cpoint])
  finally show ?thesis by simp
qed

end
