(* ===== verification/Curve_Chain.thy ===== *)
theory Curve_Chain
  imports Curve_Type Primality
begin

text \<open>
  The group order annihilates the standard generator: an addition chain from the generator to its
  multiple by the order, in the signed-digit form of the order. Every step carries the slope, the
  resulting point and the three quotients by the field characteristic, so that checking it takes
  multiplications of integers only; the multiples of the characteristic are written with its
  distance to the power of two. The theory models no code.
\<close>

section \<open>Checking one step\<close>

definition chain_c :: int where
  "chain_c = 0x1000003D1"

definition chain_M :: int where
  "chain_M = 0x10000000000000000000000000000000000000000000000000000000000000000"

definition gen_x :: int where
  "gen_x = 0x79BE667EF9DCBBAC55A06295CE870B07029BFCDB2DCE28D959F2815B16F81798"

definition gen_y :: int where
  "gen_y = 0x483ADA7726A3C4655DA4FBFC0E1108A8FD17B448A68554199C47D08FFB10D4B8"

abbreviation fpt :: "int \<Rightarrow> int \<Rightarrow> point" where
  "fpt x y \<equiv> Point (of_int x) (of_int y)"

lemma chain_modulus: "int field_p = chain_M - chain_c"
  by (simp add: field_p_def chain_M_def chain_c_def)

lemma chain_cong:
  assumes "a + q * chain_c = b + q * chain_M"
  shows "(of_int a :: fp) = of_int b"
proof -
  have "a = b + q * int field_p" using assms by (simp add: chain_modulus algebra_simps)
  then show ?thesis by (simp add: of_nat_field_p)
qed

text \<open>The entries: sign of the generator added (0 for a doubling), slope, new point, quotients.\<close>

type_synonym chain_step = "int \<times> int \<times> int \<times> int \<times> int \<times> int \<times> int"

fun chain_check :: "int \<Rightarrow> int \<Rightarrow> chain_step \<Rightarrow> bool" where
  "chain_check x y (s, l, x', y', q1, q2, q3) \<longleftrightarrow>
     (if s = 0 then
        l * (2 * y) + q1 * chain_c = 3 * square x + q1 * chain_M \<and>
        square l + q2 * chain_c = 2 * x + x' + q2 * chain_M
      else
        0 \<le> x \<and> x < chain_M - chain_c \<and> x \<noteq> gen_x \<and>
        l * (gen_x - x) + q1 * chain_c = s * gen_y - y + q1 * chain_M \<and>
        square l + q2 * chain_c = gen_x + x + x' + q2 * chain_M) \<and>
     l * (x - x') + q3 * chain_c = y + y' + q3 * chain_M"

fun chain_exp :: "int \<Rightarrow> chain_step \<Rightarrow> int" where
  "chain_exp k (s, l, x', y', q1, q2, q3) = (if s = 0 then 2 * k else k + s)"

fun chain_ok :: "int \<Rightarrow> int \<Rightarrow> int \<Rightarrow> chain_step list \<Rightarrow> int \<times> int \<times> int \<Rightarrow> bool" where
  "chain_ok k x y [] e \<longleftrightarrow> e = (k, x, y)"
| "chain_ok k x y (st # sts) e \<longleftrightarrow>
     (case st of (s, l, x', y', q1, q2, q3) \<Rightarrow>
        (s = 0 \<or> s = 1 \<or> s = - 1) \<and> chain_check x y st \<and> chain_ok (chain_exp k st) x' y' sts e)"

lemma of_int_fp_neq:
  assumes "0 \<le> x" "x < chain_M - chain_c" "0 \<le> y" "y < chain_M - chain_c" "x \<noteq> y"
  shows "(of_int x :: fp) \<noteq> of_int y"
  using assms by (simp add: of_int_fp_eq_iff chain_modulus)

lemma chain_double:
  assumes on: "on_curve (fpt x y)" and l: "l * (2 * y) + q1 * chain_c = 3 * square x + q1 * chain_M"
    and x': "square l + q2 * chain_c = 2 * x + x' + q2 * chain_M"
    and y': "l * (x - x') + q3 * chain_c = y + y' + q3 * chain_M"
  shows "point_add (fpt x y) (fpt x y) = fpt x' y'"
proof -
  have e: "(of_int l :: fp) * (2 * of_int y) = 3 * of_int x ^ 2" "(of_int l :: fp) ^ 2 = 2 * of_int x + of_int x'"
      "(of_int l :: fp) * (of_int x - of_int x') = of_int y + of_int y'"
    using chain_cong [OF l] chain_cong [OF x'] chain_cong [OF y'] by (simp_all add: square_def power2_eq_square)
  have "slope (of_int l) (of_int x) (of_int y) (of_int x) (of_int y)"
    using e(1) by (simp add: slope_def power2_eq_square flip: mult_2)
  then have "point_add (fpt x y) (fpt x y) = chord (of_int l) (of_int x) (of_int y) (of_int x)"
    by (rule slope_add [OF on on])
  moreover have "(of_int l :: fp) ^ 2 - of_int x - of_int x = of_int x'" using e(2) by simp
  ultimately show ?thesis using e(3) by (simp add: chord_def Let_def)
qed

definition gen_point :: point where
  "gen_point = fpt gen_x gen_y"

lemma gen_on_curve: "on_curve gen_point"
proof -
  have "gen_y * gen_y + -1442042049659660869506300006036683750029629333882594701370927246876626245108435922902327776681700708714008192087431130951749952236093997894375239788520937 * chain_c = gen_x * (gen_x * gen_x) + 7 + -1442042049659660869506300006036683750029629333882594701370927246876626245108435922902327776681700708714008192087431130951749952236093997894375239788520937 * chain_M"
    by (simp add: gen_x_def gen_y_def chain_c_def chain_M_def)
  from chain_cong [OF this] show ?thesis
    by (simp add: gen_point_def power2_eq_square power3_eq_cube)
qed

lemma chain_add:
  assumes on: "on_curve (fpt x y)" and s: "s = 1 \<or> s = - 1"
    and x: "0 \<le> x" "x < chain_M - chain_c" "x \<noteq> gen_x"
    and l: "l * (gen_x - x) + q1 * chain_c = s * gen_y - y + q1 * chain_M"
    and x': "square l + q2 * chain_c = gen_x + x + x' + q2 * chain_M"
    and y': "l * (x - x') + q3 * chain_c = y + y' + q3 * chain_M"
  shows "point_add (fpt x y) (fpt gen_x (s * gen_y)) = fpt x' y'"
proof -
  have ne: "(of_int x :: fp) \<noteq> of_int gen_x"
    by (rule of_int_fp_neq [OF x(1,2) _ _ x(3)]) (simp_all add: gen_x_def chain_M_def chain_c_def)
  have e: "(of_int l :: fp) * (of_int gen_x - of_int x) = of_int (s * gen_y) - of_int y"
      "(of_int l :: fp) ^ 2 = of_int gen_x + of_int x + of_int x'"
      "(of_int l :: fp) * (of_int x - of_int x') = of_int y + of_int y'"
    using chain_cong [OF l] chain_cong [OF x'] chain_cong [OF y'] by (simp_all add: square_def power2_eq_square)
  have "(of_int (s * gen_y) - of_int y) / (of_int gen_x - of_int x :: fp) = of_int l"
    unfolding e(1) [symmetric] using ne by simp
  then have "point_add (fpt x y) (fpt gen_x (s * gen_y)) = chord (of_int l) (of_int x) (of_int y) (of_int gen_x)"
    using ne by simp
  moreover have "(of_int l :: fp) ^ 2 - of_int x - of_int gen_x = of_int x'" using e(2) by simp
  ultimately show ?thesis using e(3) by (simp add: chord_def Let_def)
qed

lemma chain_step:
  assumes P: "on_curve (fpt x y)" "zmul k (cp gen_point) = cp (fpt x y)"
    and s: "s = 0 \<or> s = 1 \<or> s = - 1" and c: "chain_check x y (s, l, x', y', q1, q2, q3)"
  shows "on_curve (fpt x' y')" "zmul (chain_exp k (s, l, x', y', q1, q2, q3)) (cp gen_point) = cp (fpt x' y')"
proof -
  have "on_curve (fpt x' y') \<and> zmul (chain_exp k (s, l, x', y', q1, q2, q3)) (cp gen_point) = cp (fpt x' y')"
  proof (cases "s = 0")
    case True
    then have "point_add (fpt x y) (fpt x y) = fpt x' y'"
      using chain_double [OF P(1), of l q1 q2 x' q3 y'] c by simp
    then show ?thesis
      using True P point_add_on_curve [OF P(1,1)] cp_add [OF P(1,1)] by (simp add: zmul_double)
  next
    case False
    have on: "on_curve (fpt gen_x (s * gen_y))"
      using gen_on_curve s False by (auto simp: gen_point_def)
    have sum: "point_add (fpt x y) (fpt gen_x (s * gen_y)) = fpt x' y'"
      using chain_add [OF P(1), of s l q1 q2 x' q3 y'] c False s by simp
    have "zmul s (cp gen_point) = cp (fpt gen_x (s * gen_y))"
      using s False cp_neg [OF gen_on_curve] by (auto simp: gen_point_def zmul_minus)
    then show ?thesis
      using False P sum point_add_on_curve [OF P(1) on] cp_add [OF P(1) on] by (simp add: zmul_add)
  qed
  then show "on_curve (fpt x' y')" "zmul (chain_exp k (s, l, x', y', q1, q2, q3)) (cp gen_point) = cp (fpt x' y')"
    by blast+
qed

definition gen_multiple :: "int \<Rightarrow> int \<Rightarrow> int \<Rightarrow> bool" where
  "gen_multiple k x y \<longleftrightarrow> on_curve (fpt x y) \<and> zmul k (cp gen_point) = cp (fpt x y)"

lemma chain_sound:
  assumes "chain_ok k x y sts (k', x', y')" "gen_multiple k x y"
  shows "gen_multiple k' x' y'"
  using assms
proof (induction sts arbitrary: k x y)
  case Nil
  then show ?case by simp
next
  case (Cons st sts)
  obtain s l u v q1 q2 q3 where st: "st = (s, l, u, v, q1, q2, q3)" by (cases st) auto
  have c: "s = 0 \<or> s = 1 \<or> s = - 1" "chain_check x y (s, l, u, v, q1, q2, q3)"
      "chain_ok (chain_exp k (s, l, u, v, q1, q2, q3)) u v sts (k', x', y')"
    using Cons.prems(1) by (simp_all add: st del: chain_check.simps chain_exp.simps)
  have P: "on_curve (fpt x y)" "zmul k (cp gen_point) = cp (fpt x y)"
    using Cons.prems(2) by (simp_all add: gen_multiple_def)
  have "gen_multiple (chain_exp k (s, l, u, v, q1, q2, q3)) u v"
    using chain_step [OF P c(1,2)] by (simp add: gen_multiple_def)
  then show ?case by (rule Cons.IH [OF c(3)])
qed

declare chain_check.simps [simp del] chain_ok.simps [simp del]

lemmas chain_eval = chain_ok.simps chain_check.simps chain_exp.simps chain_c_def chain_M_def gen_x_def gen_y_def
  square_numeral square_neg_numeral square_one Num.sqr.simps arith_simps arith_special rel_simps prod.case prod.inject
  if_True if_False simp_thms mult_1_left mult_minus1

section \<open>The chain\<close>

lemma chain_0: "chain_ok 0x1 0x79be667ef9dcbbac55a06295ce870b07029bfcdb2dce28d959f2815b16f81798
    0x483ada7726a3c4655da4fbfc0e1108a8fd17b448a68554199c47d08ffb10d4b8 [
    (0, 0xcb35b28428101a303eb9d1235992ac63f58857c2f631ee6936d3aebbeddcd1b1, 0xc6047f9441ed7d6d3045406e95c07cd85c778e4b8cef3ca7abac09b95c709ee5,
      0x1ae168fea63dc339a3c58419466ceaeef7f632653266d0e1236431a950cfe52a, - 0x3b04fbed296cc1277f1659ab9a6f3feba665d74e98725ee2d39e827bc28878b0, 0xa14e3460febe2c2316bfcccc1b764790c3b7d9ff92663ea740240f16b583e774, - 0x3c8b95972f12b04b3ca25330b2bd449e8e938229d1fd14f76cae42249ce0dc11),
    (0, 0x6ad2cb95963c033328d4857d4f8711deff557dd9faaa673b400442833f0efb64, 0xe493dbf1c10d80f3581e4904930b1404cc6c13900ee0758474fa94abe8c4cd13,
      0x51ed993ea0d455b75642e2098ea51448d967ae33bfbdfe40cfe97bdc47739922, - 0x1b511f0c4acacddb11995426b44becf23d1a165eac933b36c0dae7f6c721d3035, 0x2c933e2a83bac0c704d83956ce68e1a07920f532e04e27ff098c8c712d51733d, - 0xcc0862604f39a0c08e4ce0b1d06b205a54268b6c11e626473e3a3a21a84dcfc),
    (0, 0x9693023fb325cc6c7bc993eb684358ea623d5feea8ff351df662beabd0efdc6d, 0x2f01e5e15cca351daff3843fb70f3c2f0a1bdd05e5af888a67784ef3e10a2a01,
      0x5c4da8a741539949293d082a132d13b4c2e213d6ba5b7617b5da2cb76cbde904, - 0x203e697a2ff0b71f15bbe8e0b1128a2612545720e641a25d3f0da1b92ba257869, 0x58909b0e3b1d179e26d093a041c3e56b0e5fcd45c4d389144042c9dcfcec275e, 0x6acbca9638108e08374e790d2f8fb746c0f38f81a62038c77abfdadb56826ebc),
    (0, 0xbc380350880ab969e653d334691ca8c2da83b2acde59e7439ed92d96a9654a07, 0xe60fce93b59e9ec53011aabc21c23e97b2a31369b87a5ae9c44ee89e2a6dec0a,
      0xf7e3507399e595929db99f34f57937101296891e44d23f0be1f32cce69616821, 0x6dd55cce46f1224cd99f821ea3a2f0a9ebe970a9b8ce11ac81430dc918b68adb, 0x8a62511fbb16418a37f7a5ead3f099487b15785e66a133e078848957eec143eb, - 0x8696444c9f994992fb103911d7efc9d6af6d7ba29b92732df8ec73823bb24fdc),
    (0, 0xb68c9cb56c4f0fd3279f2dec6acae3ffbacfb8384548d24892d676cd6beacbf5, 0xd30199d74fb5a22d47b6e054e2f378cedacffcb89904a61d75d0dbd407143e65,
      0x95038d9d0ae3d5c3b3d6dec9e98380651f760cc364ed819605b3ff1f24106ab9, - 0x10ab9b201128ebe909e6b37287520fd58164cf175e3decaf3a10f957ce0bfa99e, 0x822c3c0dbc5c7d8c3c32320b58378c5c160825393d62371ce9fa174521d13e00, 0xd9690ecf0b9571b77cc0887ee3bf9fc63a5c7330cffad04355faeac0e641f21),
    (0, 0x57aaae4151a198790e40eb37fe0dad5ed4d4581b1a82c40124b58ac767ed1ec4, 0xbf23c1542d16eab70b1051eaf832823cfc4c6f1dcdbafd81e37918e6f874ef8b,
      0x5cb3866fc33003737ad928a0ba5392e4c522fc54811e2f784dc37efe66831d9f, - 0x1a3b3ccfcc7443b593002caea6e5cc086509c6bce8bc4354465c8e5f864c2e02d, 0x1e05743c4ad91be301d2b36fafdb42772de829193a4a9e64f4882f9890335c35, 0x6cda36c32abc46e74112f34db81c84c8eede3927bb247626df1e0bdea815270),
    (0, 0x875978642d00b859133774fec1878f9e7623f6df9c734f7ed297e920a77b4406, 0x34ff3be4033f7a06696c3d09f7d1671cbcf55cd700535655647077456769a24e,
      0x5d9d11623a236c553f6619d89832098c55df16c3e8f8b6818491067a73cc2f1a, - 0x14a1cfa9fea71de68e71e2ba70b5d638c74f6dd5926c1a65b4b1ea2d5127c49b9, 0x478f7c3e95bc1e51fd80a25edfc36ff0eb8d5523f1ee56a882e1aa48e6ddcd40, 0x49098a07b728aaafaff50d946bf2d2a513aa2fa43789f3e06840d7ea9bc98e5b),
    (0, 0xf0d3817330010db820c7710c8ee17a157984f4bfd3bafbd4a49079efd7754990, 0x8282263212c609d9ea2a6e3e172de238d8c39cabd5ac1ca10646e23fd5f51508,
      0x11f8a8098557dfe45e8256e830b60ace62d613ac2f7b17bed31b6eaff6e26caf, 0x8f3723c85ff3164db3a07559b4963e07950769fd94b7a173e978889b3444bc4c, 0xe28d41769f5865ab14c24658822fc9961aeadb95b0bfe9fe782f4a0efece7b64, - 0x48eac5c2254e673b8f140471c905697727cf02e9fff1852fad4e9e3e0cd660e7)]
    (0x100, 0x8282263212c609d9ea2a6e3e172de238d8c39cabd5ac1ca10646e23fd5f51508, 0x11f8a8098557dfe45e8256e830b60ace62d613ac2f7b17bed31b6eaff6e26caf)"
  by (simp only: chain_eval)

lemma chain_1: "chain_ok 0x100 0x8282263212c609d9ea2a6e3e172de238d8c39cabd5ac1ca10646e23fd5f51508
    0x11f8a8098557dfe45e8256e830b60ace62d613ac2f7b17bed31b6eaff6e26caf [
    (0, 0xed7816fe6ca3e42058b150c9eeac31ef8a6bda7ee9e51a0ec33e09f96afc74bc, 0x465370b287a79ff3905a857a9cf918d50adbc968d9e159d0926e2c00ef34a24d,
      0x35e531b38368c082a4af8bdafdeec2c1588e09b215d37a10a2f8fb20b33887f4, - 0xa6420f67637bb25071e77ce944474fe9df3cfbcfc86659791d17ebcd2533bdc8, 0xdc4792e8a5be0591b11466a7b249cba8f2a33a30c8468e1f561a5045057941bd, 0x37d37953fb0fa4bd1da2e0c78a3d18e7906ea3d2bbf400f5c11966075d72b11f),
    (0, 0x62f219d148d24eff34fe56735390098e29b6a2190daa3dc0fbd1d33b92531a49, 0x241febb8e23cbd77d664a18f66ad6240aaec6ecdc813b088d5b901b2e285131f,
      0x513378d9ff94f8d3d6c420bd13981df8cd50fd0fbd0cb5afabb3e66f2750026d, - 0x104bcc3d6c16aaa6e41de7cd3a7f9df365fe8717877572d43f3d2ebbc048b91d, 0x263e40b90e093d69ce9cb94f331276dfca50fdd5d52899f82b416e3f11684268, 0xd38110e4317d0ec08c09ffd9caebca5fdbc0a7ce9f3c36d91be61730894d5d3),
    (0, 0xda8eabc70379e66ae8e505f49deb2e1b4906022def4c45ec320e33aed7091903, 0x5d1bdb4ea172fa79fce4cc2983d8f8d9fc318b85f423de0dedcb63069b920471,
      0x2843826779379e2e794bb99438a2265679eb1e9996c56e7b70330666f7b83103, 0x7b5b31118e706a6f8d21e90c3e5ea4663c618a515ed94cb62815179af21e1ba5, 0xba974c11f5f6f104f4a38f0164419677e70a8dc4d1e0c492b7e51bcd3a94d1c6, - 0x30a64c00ff8a9a57ae5268b8915895ffdc90bcc50a5f4835a3176aa1164c157a),
    (0, 0x6c49014b33417076abaadc7958f95908e93dd2886468bd7d27d61cef7c1fdfdd, 0x175e159f728b865a72f99cc6c6fc846de0b93833fd2222ed73fce5b551e5b739,
      0xd3506e0d9e3c79eba4ef97a51ff71f5eacb5955add24345c6efa6ffee9fed695, - 0x4387d42d834ce77c2bdfbb0b5c3cac71a4050b08b24c228ca392b55ebcd59c9b, 0x2dcdade930241eb3da0207e1a22e90f4e54b1654ef831673a369c13514d214b2, 0x1d7ff2dd811340b382fdc822936038d852438a2146b088d8ab34010335a40240),
    (0, 0xca43b3ab114e7c697fee873576d7b89f909e0592f9e805e00246c31200fb967b, 0x423a013f03ff32d7a5ffbcc8e139c62130fdfeb5c6da121bce78049e46bc47d6,
      0xb91ae00fe1e1d970a1179f7bbaf6b3c7720d8ec3524f009ed1236e6d8b548a34, 0x1478493006042606ebaf3a073842ec13860fe45dc5db3cdf4018312111fee64d5, 0x9fcee97180f397ef7f1ea6a9af040c9da7112c47f135895f18340817b5f96aff, - 0x21dcdd8efd150c268bede9c019716bbfa25aa10b288f800c3643785b508ba348),
    (0, 0x1b5d9cdfbd96d7eaf397653b120ed6cb0f4bd05bf004f79c2a9fd0bcdf4929bc, 0x111d6a45ac1fb90508907a7abcd6877649df662f3b3e2741302df6f78416824a,
      0x696911c478eaffbb90d48dbff065952f070008996daca4ca9a111d42108e9d0, - 0xbd2d5b4b69b8eae1df0bfc0ac9ec40498debeffeda634d668b3379e7187a574, 0x2ece1528caf03c02071834190fc18b0cedeea0605e73d1a35c9a08e6510e906, 0x53ff9677d1ffe6ad3a775007ddeabc1b0ff47b13574906bdb2d6d177386b2f4),
    (0, 0x6fedf4339b46436d0db4e1864076fe618c51a754e1c0ed5708b889c5733613e, 0x4a4a6dc97ac7c8b8ad795dbebcb9dcff7290b68a5ef74e56ab5edde01bced775,
      0x529911b016631e72943ef9f739c0f4571de90cdb424742acb2bf8f68a78dd66d, - 0x31295687438b3691e3d17d8dafebb1045d575330197ec85036975ce382d6854, 0x30f036f2d126d8f6968324ff42731ef15eeb7688f83513e3844fc2eace0af5, - 0x18ffa9bcd5a0771eaf92f0fa74c4b5f3dc5c9f27e00cbaf762a52d5d2f19209),
    (0, 0xa377ffff0b36d0535197bead9992fee7698334fa5bfc270f64d511cc9ab7c03a, 0x363d90d447b00c9c99ceac05b6262ee053441c7e55552ffe526bad8f83ff4640,
      0x4e273adfc732221953b445397f3363145b9a89008199ecb62003c7f3bee9de9, 0x28cf04b1cbfe92d8768178540ee817b905160ac1eee61d1a85c9bf4546c1ad57, 0x6862083ec76250ae5213dc10e6d2a32a6ada8d51e30e61ff447fc6a4b31ca726, 0xccd96b79f4c0b76f998c898d50fda9757e88f96dd1d6b7ecf22cb0bb98ce214)]
    (0x10000, 0x363d90d447b00c9c99ceac05b6262ee053441c7e55552ffe526bad8f83ff4640, 0x4e273adfc732221953b445397f3363145b9a89008199ecb62003c7f3bee9de9)"
  by (simp only: chain_eval)

lemma chain_2: "chain_ok 0x10000 0x363d90d447b00c9c99ceac05b6262ee053441c7e55552ffe526bad8f83ff4640
    0x4e273adfc732221953b445397f3363145b9a89008199ecb62003c7f3bee9de9 [
    (0, 0xbe610814de113647213fff8fc6378b31333e2bac4ac437ff9a702a6734563c9, 0x4c1b9866ed9a7e9b553973c6c93b02bf0b62fb012edfb59dd2712a5caf92c541,
      0xc1f792d320be8a0f7fbcb753ce56e69cc652ead7e43eb1ad72c4f3fdc68fe020, - 0x2205da3da20d2694587a87007f1b0adffc57375f6010372238068eeb7d646242, 0x8d942cc619b325313df8fa55e5c71316b73c92e0c7ebbb2df4d2261a408af0, - 0x104313706e420e07202194031d638c56d395896464c74366718eaff086645ce),
    (0, 0x92ebb512788e5c3c7a3baf1feaf8281104d50976aef98bbac62a97be2d8b7a7b, 0xa4083877ba83b12b529a2f3c0780b54e3233edbc1a28f135e0c8f28cbeaaf3d1,
      0x40e9f612feefbc79b8bf83d69361b3e22001e7576ed1ef90b12b534df0b254b9, 0x9ac262009b89c175cbd678a06fd84f5402c686a24698d987284aca6056eff453, 0x5451b38f017ed660cdacc050a98f48958c36daae31d09e1aeafad0be1c77641a, - 0x3275e7b129800aed4a29e992243f38ac08a7ae21b931f0bb29f8348a56722d47),
    (0, 0x9b0f855eb9be64f095aa255167f0f0baf01b2cd3cc72ef8f1444747071666278, 0xa804c641d28cc0b53a4e3e1a2f56c86f6e0d880a454203b98cd3db5a7940d33a,
      0x95be83252b2fa6d03dec2842c16047e81af18ca89cf736a943ce95fa6d46967a, - 0xecac6acdf617a12c0fc3cab2cf7b069a048c3961fe6344fb5e0e0a7396f6dafd, 0x5debcc719b81e297ece66acf5c5cd90c3479aa2d47d460e8e685a54e458b6bdc, - 0x26a27b95aaf6d1c9e9dd930d18c059da3dae6bc39e15846556d58318a76ce85),
    (0, 0xc95c70effee378ee51d4695a7e30804db90a8fdfcca618c180cec3ec5c83b500, 0x8b4b5f165df3c2be8c6244b5b745638843e4a781a15bcd1b69f79a55dffdf80c,
      0x4aad0a6f68d308b4b3fbd7813ab0da04f9e336546162ee56b3eff0c65fd4fd36, - 0x5f417de978a22edfa469e24dea0573f9085dfc70f76d02f457fd2960ed6ec854, 0x9e624aba3c93476a1c1ee0cb1425ac0e200806a56469fa72c409926db514d680, 0x1697f14e3cfdd54bfc46c4b390e76f70dbf980d8c8d01b56f162416b83c20eb0),
    (0, 0xec7e64a924b93bbe0b71cb15729ff63848d6104ae7d55a16ed4a41d45b8fe684, 0xed0c5ce4e13291718ce17c7ec83c611071af64ee417c997abb3f26714755e4be,
      0x221a9fc7bc2345bdbf3dad7f5a7ea68049d93925763ddab163f9fa6ea07bf42f, - 0x5968060be05e4550a107807a5d46ff6ef624d4321cad7992e1ba5dbad1798600, 0xda7947ff19ca40ef6caf0b245130593d7386691fe132793106e05a3dca8183e6, - 0x5a4e2d67463497086e8f4a0565b68eed5403cb63ee254077874028156d100d63),
    (0, 0x4a97f998b50e69d9b7f9c654687b8490e7f4a168b22ee05f0491f67c5bcae6b4, 0xfaecb013c44ce694b3b15c3f83f1fae8e53254566e0552ced4b6e6c807cec8ab,
      0xcc09b5e90e9ecb57fc2e02c6ec2fb13d9c32b286b85e2e2e8981dfd9ab155070, - 0x27e9fcb816f540970a38efb8f3bb1794b7b6ec1b1546063d8afd671a732062d4c, 0x15bc3684ae2c578048480c3cbe2205afdeeefc3a383c1028ddb1105441b292e7, - 0x40b14e41637f2b157c565d83e2950266c9f2b651777595e52fefa5006b9af2d),
    (0, 0xc0b764bf04ae63359beb2b4fc6f722f47da0482483379a58ca50aff8c2ea4869, 0x9bb8a132dcad2f2c8731a0b37cbcafdb3b2dd824f23cd3e07f64eae9ad1b1f7,
      0x945bb2b2afeee3b9b6f9dd284f863e850f54a840f4752d5364130627c3811c80, - 0x1aea680db6da70879fdf3fe19077a44c6c265cc2a38ba6a90464722c97c4d0825, 0x91139a7fb7c410527a5580e2a973ed19de91a4c86ceefc4df3c5d842dc61ff7c, 0xb591a58dc639cc68ee6b80d560bc0b59536beb3a30ab739ab716f9c10557be5c),
    (0, 0xb9f84addcab19fb53a62e79564f6075b848477821df6d6c58668d8e9b2501575, 0x723cbaa6e5db996d6bf771c00bd548c7b700dbffa6c0e77bcb6115925232fcda,
      0x96e867b5595cc498a921137488824d6e2660a0653779494801dc069d9eb39f5f, 0xd670256d7deb08454ce883be32981339ddc4537d27c02bed4c770daef2e73483, 0x8718cd05b2926a4fa5036246d666daad8ca3b5a3c98e7d865de6e8545bd1131f, - 0x4beab7d1b16e8543048c13b33d73f80d14132747bcca21662f6dbc1acc88d7c2)]
    (0x1000000, 0x723cbaa6e5db996d6bf771c00bd548c7b700dbffa6c0e77bcb6115925232fcda, 0x96e867b5595cc498a921137488824d6e2660a0653779494801dc069d9eb39f5f)"
  by (simp only: chain_eval)

lemma chain_3: "chain_ok 0x1000000 0x723cbaa6e5db996d6bf771c00bd548c7b700dbffa6c0e77bcb6115925232fcda
    0x96e867b5595cc498a921137488824d6e2660a0653779494801dc069d9eb39f5f [
    (0, 0xc985b179caa5bee0ef6acefc42c0dec227b196c5dbd0953cc43c5868392e7cd3, 0x57efa786437b744d343d7dc45773a3c62d240a43079849071fd383d60ca030d5,
      0xd712db0bd1b48518893627c928de03ec689b6d2ae5e9974ab07ab44274b02f9e, 0x54a823a57da8af30a8be0434766ae1afc6d78eb92734cc2507b3e0f6efc1a7b2, 0x9ea3368323ce7a1ff0b9f641ce3c90557704df763321e14b45e35824eaae12a0, 0x14b4404b5ceb4c2c32ff2f4c679f8ac58aee29f289033d697669b1c2566e3a7e),
    (0, 0xa6d04e5b19577537db75701165cc1aa476cbdc92cb167d90af93b785d698742e, 0x264bbd436a28bc42a2df7e9cd5226cb91080577e327b012a7fafc7770c584dd5,
      0xd87c6fa94ee093b4d4f75ce24c33be226a118243717b8d8de61227937704ab11, 0xbdac29b962115ea33a0a115ae783fc7dee05691e6ab124bf8c407a598878b073, 0x6cb2cf1d90e23dff3d7e7e640c92991e4765d6b76b6f46cec27537b1a8c3894b, 0x2058ae474acad1d6ba1a83b0a8025efa6cdf880696de36bf4a6899e681506c7f),
    (0, 0x4479d94c2f98166b4c1d24655334f9bab459cb5a6c074f1e9bb5b9ea97b6a18b, 0xa94c6524bd40d2bbdac85c056236a79da78bc61fd5bdec9d2bf26bd84b2438e8,
      0xb5201fd992f96280fd79219505019e3a7e5d3c60a0e39b2bc2e2c8dbf18661f4, 0x62a078adf0cf64e9f1a14ec0ae8d3742c3de95d9c8838d3019f9614bae96e625, 0x1250f56f9bc0090a5305d836dc51e3fe9f40680ec79afbed8fa63c9e881374c9, - 0x230a8719be6d755deb0a1a8aa993f98da9304d2c9426822f51ae76bf78c5ee8a),
    (0, 0xbe5aafdeb2f0b1599d1b413e816d0ae93363953c3d97e4fd3afed1c367f9596d, 0xeebfa4d493bebf98ba5feec812c2d3b50947961237a919839a533eca0e7dd7fa,
      0x5d9a8ca3970ef0f269ee7edaf178089d9ae4cdc3a711f712ddfd4fdae1de8999, - 0x4285da49bf5468a41d4b91f6e39dc72abb96589a72fec0cc2e28fdef6d45d488, 0x8d8abd2eb30552dda136a12807e6feacf10e413ea6b6b639125ca53d523ca891, - 0x33a4237f1808ba9e406cedb0a59c1ac31d3b27a8e9e005c420d5745315312a79),
    (0, 0xa6a6f72a0273aa6f7b6276e647117f1c0e9f5561a551c6238ec167ba7ac03635, 0x381c4ad7a7a97bfda61c6031c118495fc4ea4bc08f6766d676bee90847d297fd,
      0x936af53b238eeee48f3e5fa709915eccf0451032db939c0093ace3187d493fc5, - 0x2221c2a4666307762f95d1f4688e7ab60f2529db6fe40017c62077045982a178e, 0x6c7cf56ff44b46a99d74c57da41ce0f9bd2448b3a952547fd63066ed6ef96778, 0x76e50a9bef7676950e7d97600e37b41148cb63027b6939b7b770f18e36e8cc6d),
    (0, 0x8dee3efccec9fbd528bcbdfc380d106f09ab41277d36c65ed6c4dc4784ea857a, 0xe1efb9cd05adc63bcce10831d9538c479cf1d05fefdd08b2448d70422ede454c,
      0xecb4530d8af9be7b0154c1ffe477123464e3244a7a2d4c6ad9fd233a8913797, 0x7e9109f1ab6d237b52c6233d46453e5890e4548af0e459f783e8cbe2a48509a7, 0x4eb04f1ba95a6ccaa9e464453058399cba2c109870eb3bdaa97b0c93f41dd782, - 0x5e27807737148c8a1d60e704012cf7d449c4f154acda8f41f0893af414939b9e),
    (0, 0xdb3e8ec5d990ec59421e6569d96dcdaecb7f725432c5a4ddb78439afbfe5554f, 0x5318f9b1a2697010c5ac235e9af475a8c7e5419f33d47b18d33feeb329eb99a4,
      0xf44ccfeb4beda4195772d93aebb405e8a41f2b40d1e3ec652c726eeefe91f92d, - 0x23cdecbed11cca3538ea823a592de789c524bf2ab7af7d8e95a246c2d91901be2, 0xbbc4178ff9b36cd88a81d1afc5474c5dc2e536b9e0f0acc77f9b2426666e05eb, 0x7a549e0377c36bea062b4b76d3a56084838cb9c1278f396e189f824c9006482c),
    (0, 0xf18fad968cb987adc7d7c35fc6ad8974a3fcf82a55e9400e7bf3015e6b558a5, 0x100f44da696e71672791d0a09b7bde459f1215a29b3c03bfefd7835b39a48db0,
      0xcdd9e13192a00b772ec8f3300c090666b7ff4a18ff5195ac0fbd5cd62bc65a09, - 0x341aef8155267225b84f83c1129eb67f111f4de69d22cf122d1c900099807232, 0xe3efd578d8db5b76be90d381dba2abb6f39f69ef7b3c3e43d78758f5ad0f6f, 0x3f41c31f9c9c69fff2b320dbd3594391fd551f32bad14b8b9969d4a7703a652)]
    (0x100000000, 0x100f44da696e71672791d0a09b7bde459f1215a29b3c03bfefd7835b39a48db0, 0xcdd9e13192a00b772ec8f3300c090666b7ff4a18ff5195ac0fbd5cd62bc65a09)"
  by (simp only: chain_eval)

lemma chain_4: "chain_ok 0x100000000 0x100f44da696e71672791d0a09b7bde459f1215a29b3c03bfefd7835b39a48db0
    0xcdd9e13192a00b772ec8f3300c090666b7ff4a18ff5195ac0fbd5cd62bc65a09 [
    (0, 0x82cd82212ae9dbf4101c8671a40de941c0bc39b23359c41063b171fe4cbf7c6a, 0x8c0989f2ceb5c771a8415dff2b4c4199d8d9c8f9237d08084b05284f1e4df706,
      0xfb4dbd044f432034ffd2172cb9dc966c60de6bf5156511aa736ac5a35d72fa98, 0xcf560c624e549b7b75c9dfe917c089bb70899eeb05ce5c35ff039911533569cc, 0x42d55d235ad9f1cfc01eed52110f1f6251a63fe8d72fce0a0c99268ca0d158e2, - 0x3f589d84df18f008b2eaafceab870480909ef201d86300eac81c1653b4f4d953),
    (0, 0xc5ab93dae7b4d1d3c5edfe8bc49fa6ba5566b166494b830b6cf082231fe99f39, 0xfb8f153c5e266704c4a481743262c0259c528539bc95bc1bb1e63c33dc47bffd,
      0x6ca27a9dc5e0621816fa11d9b4bccd531dde1389ac542613090a45ddd949b095, 0x9e47335685a3f69de417a2be480ca26797fc0cf14ae2c708daf4104a53f423fc, 0x98a1848dc472f7c95a311a1583fdbe2a681eaf83c027acce20c6a2fd8b6aabd8, - 0x561c82ccb1289b0635cf65b3e76959cd0f84037300f8739a0e392c864ce97894),
    (0, 0xde12036f73e80356f7db91954e2ca46c56dcab93ec4efda7fa9e72b8b3a2b20a, 0xe747333fd75d51755a0cc9f0a728708465a02c587737a7b8b8fa1b8b4bb2629a,
      0xf2affe0145070c114cc43603804c2581c88376aa6e1a969a9f8d961a6946f6d6, - 0x2291c946a0bf46f28fd1deb7521dcf764a2a4477da8a6e9c92db5a80b433cc639, 0xc0a33f39c8be7fa875dcdfdfb2c1d4e07c369ca29f61911a3e83c7ec9d02d330, 0x1197c34c8ca378d5a7cb32a416af77900517029730af857795a7bc9553b386fd),
    (0, 0xeaaf7c28dae8dfa52783d0b7ef5ebc91aa999f58db631588e00a05856dbef4cd, 0xe1031be262c7ed1b1dc9227a4a04c017a77f8d4464f3b3852c8acde6e534fd2d,
      0x9d7061928940405e6bb6a4176597535af292dd419e1ced79a44f18f29456a00d, - 0xb5de42807ef7faeac174cacd6b51f3c6388e61583093b9e142b6e7ac72c56bd0, 0xd7254745ac449dd26ca852670e7b2165dc0442973b7deb7f559e4b0a505818b8, 0x5be88f160c3da00c5e65cc0efa23d8963f62f994e28b4abf41c99126f8c597a),
    (0, 0x27923dd35874b9d0c3e1b1930352c0c3b0d91412f38fa8c1341f5a73beb4f8b9, 0xf4b93f224c8089eab9f95dcd0f29b2c9028a6ac5de94d85784e27e36a95c8356,
      0xa67a92ec062962dfb0e5f6a7a40eee90c37ef1344915609abd5861b9be001fd3, - 0x220a74733606e362e6d838e91131cb2614a5f6f517fb18d013d79efc2a7d9a2df, 0x61de260f8f2dc641d5671fe3e19dd05802b6d4d77e5d2dddeeb5c649563d2cf, - 0x30c020183634c80539172de50a073a35681439960889802ee4be6e4a2f2b74f),
    (0, 0xd8880a7ae61955a53b91ef1d5de7f4b9646afd475edbbc8974911329e12fbdcd, 0x9d1aca1fce55236b19622ea025b08b0d51e8512f97e696c20d62fe17b160e8a,
      0x1153188f5101f0c63e56692ce0d8c27e6fe9e0ee9212b5e534e050c57ca04c44, - 0x1a4352b65422c6d32a060e95804f8ce58a213f8eb6200b203b728dd1bac4469a2, 0xb725d9fa874d106bedbda11a8968671eb7e0704be7ba270241a962b6cb63427d, 0xc6b0383fe88d628a967a4b3374ddf9c6a4ce776f9360cd6de8b8f97f19c9a2cb),
    (0, 0x8676b3eae525414b100a173e847e521f75a5c46ae628b3858b1c1fbcbc59daf7, 0xc66c59cc454c2b9e18a2ad793821cde7518b3a93bfc39562e97d7d0475ba7fc2,
      0xd9592fe2bfb30fcfbea4f3ceaac10cb2f00a60ddb15955977ec3c69cf75f5956, 0x1111d10e821e5a493e5805935a47a2af94da445396b2fbe4b738f49f9018edb4, 0x46a07b6442e092ac94835b868a5632a799c50b21501075739b6b332df56e0475, - 0x63106a7d28abddd6da9a1efa65c57dd78d6be6b1defea936bbe46a3ee2b464fe),
    (0, 0xf53ade417a0d913b3b9e411781e6e8de0ff1a6b169ca912fe5495f51c90530d8, 0xfeea6cae46d55b530ac2839f143bd7ec5cf8b266a41d6af52d5e688d9094696d,
      0xe57c6b6c97dce1bab06e4e12bf3ecd5c981c8957cc41442d3155debf18090088, - 0x2cfaaed409e0aa6b343ab3719d3271b797debde12efa2a4d581de574a278bbd4, 0xeae9baf2ca3ee68febeb56ebc3c7b4f1d50b6434542093974b6ef659254cd8e1, - 0x361da5ae59fe7fe77b0926417cdb13048a8813258c1e0f999cb3919e9f7828ba)]
    (0x10000000000, 0xfeea6cae46d55b530ac2839f143bd7ec5cf8b266a41d6af52d5e688d9094696d, 0xe57c6b6c97dce1bab06e4e12bf3ecd5c981c8957cc41442d3155debf18090088)"
  by (simp only: chain_eval)

lemma chain_5: "chain_ok 0x10000000000 0xfeea6cae46d55b530ac2839f143bd7ec5cf8b266a41d6af52d5e688d9094696d
    0xe57c6b6c97dce1bab06e4e12bf3ecd5c981c8957cc41442d3155debf18090088 [
    (0, 0x32f78aa8da44cbc85c1d785fb24f0e7f0da8ec5386523d436bb3a50d1e52fb8c, 0x4d000b621adb87e1c53261af9db2e179141ecae0b331a1870aa4040aee752b08,
      0x6a0d5b8f18e0d255cb6d825582d972cccb7df5f119c7293a3e72851f48302cea, - 0x29e21aa577e947ff1d8d971661e2bd7a327de2391f4b7c74d8ccd45b7389e2d75, 0xa25a186d2328b0ce0b5fbba78509fa09884c4ae0fddbac11b1aa91b1691e2b2, 0x236bd082730989c579c4a37fb62f2f63af147f2e4461ec910dc75e9264298f56),
    (0, 0x2c5edb78f874848d89ceb49fa59a1ff38ba3a6605f567ca67bb74a6e78c097d7, 0x71f570ca203da05dd6aa262114717128d657a0403e1f1b77f89962fd475c58ef,
      0xeb42415b95dc880dd25557345bc95b8df2445d00c3363e7df8649a72d35d420e, - 0x20b7e56b8b52477c8ed413dce38272d418486b06ace054219d3b6e662580768c, 0x7b0be977e66b5633878a63700e4b8d365b2a30e773cf37429f64aa0e34cb30e, - 0x667df3881c4e829712dbce3f84444604b9cafb317016b42f06919a510cfc757),
    (0, 0xdebcd686b581f6645f94a93467d0ecdf9e4ad7edeedcfeed57d9d6364c78d427, 0xa2b7b3629f7bd253b7d282b5c21da01446b4821dc65e76516048b06043ff8359,
      0x693038941695122d57a937a3f71e29c910d10835046f3835a2397fecfe86fec2, 0x10132324aa38de45cbe6b9c79593a1e65702ca96f433c7554d533a3090f641def, 0xc1cc0f5d6c6d7c8fc5e1011431013040e05ac70f323f7c05374f90bab2337266, - 0x2a6c6d453241d117ad08179952492e90264f7d9473e67c781f7be0cdf2b1c4ea),
    (0, 0x81751b61f3b4ad7169d8ac62378adc14043339e3a60078fa2bf394c804c26e20, 0xda67a91d91049cdcb367be4be6ffca3cfeed657d808583de33fa978bc1ec6cb1,
      0x9bacaa35481642bc41f463f7ec9780e5dec7adc508f740a17e9ea8e27a68be1d, - 0xcbe432f6b2c45b68fa24adafb3022c0c99f595d65db68931d41b776847576b1d, 0x41773b2ac212a8d589d8fad82440bc210dc692de71f45c5818e6b1e5dc2750f3, - 0x1c2924335fc07896590a25980bc056369203e56969626f062d6635cc3910a351),
    (0, 0xea6ec05c50822815af2653e43c1adabb3be24e602591c72373d731cc1a44a051, 0x4dbacd365fa1ef587c0c0cfaaf00d8718bbd9f35ccea5a835ee3cc821fe741c9,
      0x16c3540e8a51892e7fdcfd59e838299d0cc384a09fc0535f60be10f8338eb623, - 0x111dfc880ae94af33e82c7217a6fa69125215107a19a2aed7006f49a271b0d487, 0xd6aea792a30dbb2f49d387d7012c0513c57b94ce194c58854db63d45feda9d6a, 0x80d2dcfc2fc561a802a26c9c240641b035bf2336438bb709d86f03cff162c158),
    (0, 0xe60635d4ed2d254e05003b55d58bd309cce50b703f8dbf6d4700a65d85559a25, 0x13d1ffc481509beee68f17d8ff41c2590f4c85f15268605087eda8bab4e218da,
      0x6008391fa991961dcecb9337b1b758bda4ad01206d5bd127e0db419ddb191c19, - 0x1de5a17fd7679964f07f1944ed01d28b68944e555c146d2592809e0fde5599bb, 0xceaf28e12b7a187450995cf3fcd0e783fc8eb49eb8accd328b04975b09a395a3, 0x340890367b61b8ba95fcba53deffc80b83227fc04a4b632558df4810f42317e1),
    (0, 0x7471bc58c865f770a22bcb1e2465507731b3ad17d19c55c851a736531fefafae, 0x219b4f9cef6c60007659c79c45b0533b3cc9d916ce29dbff133b40caa2e96db8,
      0x24d9c605d959efeaf5a44180c0372a6e394f8ac53e90576527df01a78d3b6bc7, 0x52c23fa572c43b1c14356c9b4abed3b19310be38c0e4535b4a62ad4de4ec89f0, 0x34f74538468fd762aacde1999d76caf70fc377458fba5b941d568c22034084a8, - 0x645582eef0e567ca1b23f150258a06773eedd9ba6437d82b180bd819976ce7c),
    (0, 0xc84b8bb00e0f4407e49fe1be00895dca6d817c8ce64cfebb5d67625411bde644, 0x53904faa0b334cdda6e000935ef22151ec08d0f7bb11069f57545ccc1a37b7c0,
      0x5bc087d0bc80106d88c9eccac20d3c1c13999981e14434699dcb096b022771c8, 0x2c6dcafa73fe6c863e18f27415e11f0ab9ba17f5ead495848d7366326283c088, 0x9cb6208e3b58bf961b7d8fe1092825ffa19cd2b916c610aa6a7313977fbf2720, - 0x27162613a3c0140ea4b269daaa2b56dd1f7ff207a7bb1bea44a274970f419c81)]
    (0x1000000000000, 0x53904faa0b334cdda6e000935ef22151ec08d0f7bb11069f57545ccc1a37b7c0, 0x5bc087d0bc80106d88c9eccac20d3c1c13999981e14434699dcb096b022771c8)"
  by (simp only: chain_eval)

lemma chain_6: "chain_ok 0x1000000000000 0x53904faa0b334cdda6e000935ef22151ec08d0f7bb11069f57545ccc1a37b7c0
    0x5bc087d0bc80106d88c9eccac20d3c1c13999981e14434699dcb096b022771c8 [
    (0, 0xdfada4b2106cac4951ec538f3d828576d57426ebe0d870d5e091e5b044aa5639, 0x1a575af9d4146753cf991196316995d2a6ee7aaad0f85ad57cd0f1f38a47ca9,
      0x3038f1cb8ab20dc3cc55fc52e1bb8698bdb93c5d9f4d7ea667c5df2e77ebcdb7, 0x4e8135dd97fd642afb502064d179b174938cb3a12874597604bda1dc3a95c1f0, 0xc36ffab63b3c27eeacbdbd94308385dbfad275bbf2f1efd2eedb3fffcc4111f8, 0x47932449e2339287a45b7f4534a5c3a4becd9324390b6d64352ab68ce281bf60),
    (0, 0x51ee9a34eead0ad899a54439d004a42a2f3fa11be3c4773c1dc6457062e3572b, 0xf5f0e0437621d439ca71f5c1b76155d6d3a61a83d3c20c6ee309d755e315565b,
      0x6b9f4e62be5a052bf62189160df7101aa5bf61bf3ed7e40a678430afdd2ecc82, 0x1ed5cb67fb111b420892c7d794c43ba44634d2984517aa30b6a4507e332580e9, 0x1a38dbf8965904b741d77a73193f95c44915f3d0ca8dca55c236d04790d2c834, - 0x4e2f8dfdbe4482843e5875fb8e0b3dbd85fdb7d0cc825f5da186d116b6813611),
    (0, 0x602c9992d00cc6030985312c38033bca60ce74f3a25777862a7288488389cdc1, 0x8f506f0b6c0b6e9a57a7f36d970ca4e347cbc92146227642cbe781d9f5362d33,
      0x469f955d2afa61719530c5424f1c336848cf925d43bb8eaf30487d0c87fa243f, - 0x273f7d5064c2720ac1a414d7548049caab349431925507daa8faec262d62ddea9, 0x24217af342a1e9c7948569ea3ad2a67fd008eb2226f76e30d454b42efb1c69e8, 0x268e0b9937fcacd68c0c1c4220f48e9cf647ba267cbb99f84bcacef3e4f9db49),
    (0, 0x2caed624594a3483ad98859bef75a97ed7cc509bd906bb2b23fbf9fbe4e5004f, 0x8e7bcd0bd35983a7719cca7764ca906779b53a043a9b8bcaeff959f43ad86047,
      0x10b7770b2a3da4b3940310420ca9514579e88e2e47fd68b3ea10047e8460372a, - 0xd8098d8f20bf73bcfc1de03569fc924641a242782fa4f6be9ff64262de27fcb7, 0x7cc91044b3bad5df27c028d022a69bed3d1281c2de52a6b318e9e6a1142cc8c, 0x251d0fe794f8d9f24d5c2a5c5fb106e6caf8f1728f8bb3d028ae73606fb385),
    (0, 0xff486a88ac95151d852a5270924d4ccf1fff7b676398e499d324893a4bbb576c, 0x33b35baa195e729dc350f319996950df3bc15b8d3d0389e777d2808bf13f0351,
      0xa58a0185640abf87f9464036248d52bcaa6560efbc889b702bc503cccb8d7418, - 0xcc91c5c267b4b96691e7cf29fd9f24bd6e72b42858154531a50d2bb846feaecd, 0xfe9158b861078bcff820c4e06d10d88eea026d7aa3efeb8b7ee641e481c7381f, 0x5a875717b25fa1d6c1d69018948f0778a17a8cd36ecbebe11028151d97c1e25a),
    (0, 0x8309b9cd7caf364f8a4726b848e574837a1498176583cd38a99bbf35c27c0e01, 0x374deeae22c93f955cb83ad2071f7e2256f6e109cad7bca6d71dc7b24414bb36,
      0x171165b64fcd4f9916032c06f806f7293828d66300e543217875bea98daf734a, 0x8a24f50091d51cfacd01d4b39c8ee1d3d28d93a1d9c94c30a017fdb44ca5c743, 0x4312f486e4e8b90d62f2b067f9b3f3b73f94aab58fccb4d380346aa3ff7e4127, - 0x1d83c47d4bcf751ced405a6580f5150665620f03dd61bdc852dc2ddfa812a69),
    (0, 0xc3a088da9a740fbef9a36dc94890489302dbf3a200c6aad18428714f41d62ef0, 0x2380c09c7f3aeae57c46e07395aeb0dc944dbaf2b62a9f0c5e8a64ad6ae7d616,
      0x6f8e86193464956af1598aefd509b09a93af92148f8467560099be48161bbc1a, - 0x964d7c0fb3a0610b8bf527ce126416d45f897afa14e91a383f9f70c46b7454, 0x957df52861b6dfd75a9c9798b98626bde391b0c5b90ef9472194d803f02a3de2, 0xf21b4ea23c0a54711c056be16ec206de776d55a92758318971889262a449824),
    (0, 0x9a1bb41d1a00d1b60cc94b47fe3b071dd38189836c875b949a5bb1b3744d5622, 0x385eed34c1cdff21e6d0818689b81bde71a7f4f18397e6690a841e1599c43862,
      0x283bebc3e8ea23f56701de19e9ebf4576b304eec2086dc8cc0458fe5542e5453, 0x778a3e1c7d442d6600aee87baf15aeedf8b4fbcc6a059e55e65b853398224784, 0x5cc557b28025685b518490dc1cea9677798e17372e8edd638b53191021329bea, - 0xc8fe8f0e2c03d5e1f83927ce1a10e94d4b7945f42830eeb350a8e9b4fbd978b)]
    (0x100000000000000, 0x385eed34c1cdff21e6d0818689b81bde71a7f4f18397e6690a841e1599c43862, 0x283bebc3e8ea23f56701de19e9ebf4576b304eec2086dc8cc0458fe5542e5453)"
  by (simp only: chain_eval)

lemma chain_7: "chain_ok 0x100000000000000 0x385eed34c1cdff21e6d0818689b81bde71a7f4f18397e6690a841e1599c43862
    0x283bebc3e8ea23f56701de19e9ebf4576b304eec2086dc8cc0458fe5542e5453 [
    (0, 0x738fd7bbbe9afd0e286fa67c1b3d9d1d4306cf1d91327714eb87d7e6678bcdb6, 0xf6f622083daf54800456be134d5f67d147c82642befc1ce2dc83a27078f2827c,
      0x1bcd4e817de73a0faf2c5715b367cee7e657ca7448321bf6d15b20b520aaa102, - 0xe9f45b5861c8eb322816215dbb69b91e08621f30bf8fe981838e55950241f8, 0x342a8ca566cb1459c78b64608f14d738c23e82811db5a1c8489d717daa1a9b1c, - 0x560903ce46813c4e69df99656d7a6d1b5bb48c0264d487fd1602a44dc2fa2dff),
    (0, 0x245df8c5a6ad254b4c4c56c0d969cacd2ea321b08b1ed4d55515f34d582f7420, 0xfb26e5188f953de2bd70cb3c3d1fc255cd91c3ce7d8c6f369d893209715adcb6,
      0xf3e128811012a34d58e846a719d0176916d2cb31b8b7ab5449dbca3b58ba68f3, - 0x2c2d3badf9cf50512a306a0da6ca9829624d1cb705114c135e6e45237aa7e6b50, 0x52a9076483b57d3b16d330daefddbd5db18784245246df99e34ce690067744e, - 0x986537a1aa744a19c5cdbb7707f824b84564a6a6154d1bf65fd4189b09b3db),
    (0, 0xb51b78655a4e5a25c8c18dd20190b5571b736e586729fe907b550841e1b6724f, 0x8991225911b9132d28f5c6bc763ceab7d18c37060e8bd1d7ed44db7560788c1e,
      0xda8b4d987cc9ac9b27b8763559b136fa36969c84fdef9e11635c42228e8f0ef1, - 0x18a1f274baff4637bfe39b9b6e94360db2f1e8c4f81ccc2d4a6c123ce56d27a6e, 0x801fdb31efb304ca480bc8c25e1ec286258e204764701f3ec770b0be640185d9, 0x505b12e8199ff30ed1cab364979a6fbca2a0e1bc86331565093f6debb7f2c43c),
    (0, 0x2e95bd430cb40948c3e3069bb698efdada1d87ac3d902f2d55129e9cbdb660d4, 0x6f9d9b803ecf191637c73a4413dfa180fddf84a5947fbc9c606ed86c3fac3a7,
      0x7c80c68e603059ba69b8e2a30e45c4d47ea4dd2f5c281002d86890603a842160, - 0x8e3c41f27be5dfbe684c1952181225acc1f1f91d7e5d7cde19b4612886b02ddc, 0x87a2799f4898f3a71ad4975487fd7ade180a320d2011a7099b2311fc750aae3, 0x17c391a61ae98db2ec4cf0d503dac84b4df753d5affaab28c1c82a190b6febb5),
    (0, 0x61ff0b09e723c8829eb256b349701c992867da5babb9246b4e80f4a06a7739aa, 0xae86eeea252b411c1cdc36c284482939da1745e5a7e4da175c9d22744b7fd72d,
      0x19e993c9707302f962ab0ace589ff0e98d9211551472f7282334cb7a4eee38bc, 0x5ebfab968388ffa23571a2645339b5336bf455b29bd2bf3e2de7cb9ab06cdfe3, 0x258344747f5d717b94ec38ab3dfa5bc7509b96f83781ece63cf8650a6f7648e7, - 0x402361c9a6ae590b7bf32fce7b86297ed20307d6544c327b28ec6fe54f348c68),
    (0, 0x3172c36f49857e7e10d1b5927bf54091d80521d6b2eb92a8998b92cbb2234de1, 0x2248c9f90bbfff55e61d2f8c56dc2c488718be75cf36f2ee7a1474267c169290,
      0xfa0594692d21eed7a506bb55b435ba18e163750235da2be2369d8a12883ea257, - 0x15af07584b8d0470396317ca0af1921db2a9e2791a48f12af26c43ca570bfbd2d, 0x98d22433e754fb3204c68fa6d78511ba8cf057378e3fd2c9657f5f1a47fd5d9, 0x1b16c3cee6975e5e8ad7da433cc95724fd295f9f0cb01e6d0f59daaf06a3a636),
    (0, 0xc3c8b71e8454afd4fe4ae23209d6947bbfdb44f29f3474cbf6e1de6bfd9974ad, 0xe11a6e16e05c44074ac11b48d94085d0a99f0877dd1c6f76fd0dac4bb50964e3,
      0x87d6065b87a2d430e1ad5e2596f0af2417adc6e138318c6f767fbf8b0682bfc8, 0x170a64f768d64a28eeee5661c4bdd2402d7053fa868e4d86af6a90b185707a74a, 0x95bb645720446d0593d6946bd4e5d290331303f95f60ba7ca5889fe27ed623fa, - 0x91ef4c498bc6e95cb76cce220a85977aa1b79b8076ce978ffff8bdccaa5ea7aa),
    (0, 0xc781a37bd88a0baa945a25dcbec891a96eab33936f3ae33b924c4ebb9ccc91e1, 0x3322d401243c4e2582a2147c104d6ecbf774d163db0f5e5313b7e0e742d0e6bd,
      0x56e70797e9664ef5bfb019bc4ddaf9b72805f63ea2873af624f3a2e96c28b2a0, - 0x17e1617a998721b0182e8faa597fd0df72b0aa18451fb93e3499b06939e9694a5, 0x9b7acdd0b5ddcaec8b3956ad22b3c12965ed319b036ecd085c022fbd8c16d722, 0x879391a45a6a3ce01b8de5e3671728c369c513ad0938529a31aed63f43f6e762)]
    (0x10000000000000000, 0x3322d401243c4e2582a2147c104d6ecbf774d163db0f5e5313b7e0e742d0e6bd, 0x56e70797e9664ef5bfb019bc4ddaf9b72805f63ea2873af624f3a2e96c28b2a0)"
  by (simp only: chain_eval)

lemma chain_8: "chain_ok 0x10000000000000000 0x3322d401243c4e2582a2147c104d6ecbf774d163db0f5e5313b7e0e742d0e6bd
    0x56e70797e9664ef5bfb019bc4ddaf9b72805f63ea2873af624f3a2e96c28b2a0 [
    (0, 0x5e1c71fb55e898f6e64912dece2b8a3d031f1eaee2af6f37ebd48ca94c1a3624, 0x8d26200250cebdae120ef31b04c80cd50d4cddc8eadbcf29fc696d32c0ade462,
      0xebed3bb4715bf437d31f6f2dc3ee36ba1d4afb4e72678b3ad8e0a8b90f26470c, 0x214049df73c3e469b36ea795d8cdc91d96a79c41bfcfff8c51bccbc9c6d19dab, 0x2298e6ddb4d173cfb11a3e3565ecd08617cd4e3fde4156fe4ec749cb7d361f0c, - 0x21173658927b8fcdb889b30be48ed09ad3915586d139d93fb6988ab3db2ca320),
    (0, 0x5adeba52ee6ac0e141ffb884efa7a7d9a940b9950373647c8aaef60dd14e763c, 0x1238c0766eaebea9ce4068a1f594d03b8ed4930d072d9c8b9164643e1516e633,
      0x8a9db02dbb271359d6c979e2d1c3dc170946252dcc74022805cdb728c77b7805, - 0x41fbb9f43245552045b46931e5fce4a9ae98247c9a71531f67f237ce163cd4d4, 0x20415cc9ff152e15a3cbd49e8199b645f4d2af5e36fa89310b868f6f6bc94f37, 0x2ba266e852bd863c2132869adc2e3957fb154665a692d453097f9073d408957d),
    (0, 0xa478dd7bfcb0fe45115c6952feba38f9de0842736b164666c083b48c9ac6cb1, 0x271d5b0770cb9c15e7b2ea758a6a11b9cddcd7282b0ec21619b01552788e7a66,
      0x5d3aa45834e7f491e457d09949ac877fe2a065e3508a824e7a8d7258e03c9727, 0x73db7e66067ca1da1fccb9b2842e63896d50bab74547b53395f15f8a3860bc1, 0x69ab14d73f9efa0d418332e3e686d8a5d1a8a621cf092ba2c45e7560056f7b, - 0xd6c5040d13867f170281dc10a1f3d77088b9ff7ff920103a26af32bccb05c1),
    (0, 0x104f2aa37e05be6add58d281a2334816593555f014ce643f702814ec1391f5a4, 0x85672c7d2de0b7da2bd1770d89665868741b3f9af7643397721d74d28134ab83,
      0x7c481b9b5b43b2eb6374049bfa62c2e5e77f17fcc5298f44c8e3094f790313a6, - 0x60ce18345d1de1baa9b2177f33623a3b7323e5cd991ee5699bb7e0ae5e54c4c, 0x109fdcfc7c28d1c7d74eb6b542a00d2640ae6bea152b38be697e6d17388360f, - 0x601c59352eecce7e0bb7240508863f7b4e242a4bbacc5db463c9bc2730d966f),
    (0, 0xad98ae499f8b968dacfaf69097db01061deecdd4b8b7fe434720aaf6131a6fc1, 0x534ccf6b740f9ec036c1861215c8a61f3b89ea46df2e6d96998b90bc1f17fc25,
      0xd5715cb09c8b2ddb462ae3dd32d543550ae3d277bfdd28ddd71c7f6ecfe86e76, - 0x27ff65426eff22df724d7e2febfc45a9c0225b6e4eb7e52c5bd330e830d1e361, 0x75b7b69eefb8494c65bbc056da836c4543f165a10e791e0537ea9954448b458a, 0x21f9b2a89118ea0d45a65194c51595db9b838d9b7182b971ce361908f6544bde),
    (0, 0xe3b8c91ddd9155986dea06e85caade56b09b179572444c1c2007fd77d04d6f0, 0xa91d1f5cee87b7f3081e142018f8aaed79020d47ecfbc8d2c7170923e8bee8b6,
      0x748a324ee2df8ee15a7189c8dddad3b2f800569f628cb225003d16aa410644c1, - 0x3994fdd73316b2c082ed4b0f770ce3e3de6b03d9e0aad7dae386fc41664b4025, 0xca913a0cafde282189260a17a94bd4dfca930a780b357608432d78a95cc000, - 0x4c55a80726cbb8df592223354fb49c6b09a932e937c4847958dac8a81ed0489),
    (0, 0x6d5074103e91fdcfa4597e9b5c32b822c19b5af92207eb477c72ec4f9dcccb6b, 0xc15c8c23d90c8e35c1a214dde2d4383c0735ae45bef61f10aa1a1c255984cf74,
      0x2ba954d828522235c8dc6f45e25fd7ba47bf772d50b015a2c4a48cd839ccb000, - 0xeb9f7547cf28ce81a3475b55b813bae3ee055b181075e93af8c52657899e350a, 0x2ead9c1e940e271da349ded728010972eef16fff1c729a7484bb1f847a213c77, - 0xa5aa020f731f7bf5a0c75450ecad692c5b4a3953b570bf7585df7449c7200c5),
    (0, 0xb0486abb58d31b2dc9704b8502170a38dc4139987db4802a1661a40d857824d, 0x948bf809b1988a46b06c9f1919413b10f9226c60f668832ffd959af60c82a0a,
      0x53a562856dcb6646dc6b74c5d1c3418c6d4dff08c97cd2bed4cb7f88d8c8e589, - 0x1b263edc42a10eda7b5fd85cc0fef21c361cb0d58ca086e8e1a35fb11f6b4f950, 0x7963a73dd003eac7f479277bf12348c61f9105686ef60abef6ba1e3008b079, 0x7ec1af00b1912d4727fe724b5073603d918d3bb13b482f3a86f407e2677b2f7)]
    (0x1000000000000000000, 0x948bf809b1988a46b06c9f1919413b10f9226c60f668832ffd959af60c82a0a, 0x53a562856dcb6646dc6b74c5d1c3418c6d4dff08c97cd2bed4cb7f88d8c8e589)"
  by (simp only: chain_eval)

lemma chain_9: "chain_ok 0x1000000000000000000 0x948bf809b1988a46b06c9f1919413b10f9226c60f668832ffd959af60c82a0a
    0x53a562856dcb6646dc6b74c5d1c3418c6d4dff08c97cd2bed4cb7f88d8c8e589 [
    (0, 0xe6d9fa3e6518d4e9723dea425cf89cf627c6b2258bb185785b0f3d91b04e6115, 0x26952c7f372e59360d5ce4c66291f0b6ef16c1331e825e51396eb0457e8b000a,
      0xf513ea4c5800a68862bc893d2d688422debe398f653d67318c3d401f05ef705a, 0x95d908869a9615836cca1796f817c40b7d16ef1eade6aef68aec08f8aff8fa12, 0xd02c6742500def560cd69c8378152dcb014068be11b433080bfab42ea667e455, - 0x1a6b9c58ea9209a6715cb6ae75ba645c574626024c4f2d2c03ca0526715e628d),
    (0, 0xd884b65bd5b8dfcbdda21a681b317b0bcbf4d101debc21a38ca7300520334d4c, 0xc62e58e6fc23c5bdbef2be8b131ff243f521196572d6b0e9f102588976134f96,
      0x4397827d45b1a1678c3d676753141fc5bcfb853563731c3e82277ed4d14cf97e, 0x18d1dd4aad1222c3d6287b31e6508ac1105fefbf69acbfbfc937bef81e4b486fc, 0xb72038878943152352503fb8af8d7ec95859ac28cfa7d980527a486222ff17fa, - 0x86fbfa2299f2e497b9fab6c6ec4cc5072fcac64cdbe58ce9d90178cbfc27b118),
    (0, 0x9d1540c9467d3bf99ee5b77f3c9121f1a88e1886ce5c64aa196b85cf6815554e, 0x107460520eec5c741683329a716622b0b81c03200807de973686f8800b188cbb,
      0xabe5d4c09a21598c35326b9b9cf54a11242e0d748dce3da601d7b6361f272124, - 0x179501e9d0550d9d2468053524a232b98cb0c123751e10ddaf1d1f6fc696ff25c, 0x6063133a91e06d9a65e78c40ae5b86daceb88f83fcb37eda21fd8fa92d320db3, 0x6f8223b218e599b412b93e52c8402bcc951223626cb3aab2d2cd3bb4e97ff868),
    (0, 0xc48405b3038c03bd744a8ed8a5527cb83e8f1929b392d0a6967cbd721bae0b, 0x6260ce7f461801c34f067ce0f02873a8f1b0e44dfc69752accecd819f38fd8e8,
      0xbc2da82b6fa5b571a7f09049776a1ef7ecd292238051c198c1a84e95b2b4ae17, - 0x224599a9fb5094922086d40cf6b79758db3d2f6118efe667268435c312ae6bd, 0x96da6ccffe2a896f63714dc51e67f34b231da646e18e744f52ec9e0501d5, - 0x3ee3441655285c8c804b56dfbc5f69b449c198f42adf1e15e7baf796ac8af6),
    (0, 0xf9bd4b25fb8787ac97edb42b9bac8deb9ff7ef01b41f5d6575086f1012bf96ce, 0x85d8da4748ad1a73dec8409be84f1a1316e65c5196aad27e0766746f3d477c2d,
      0x58948b53665c6690586b536531efc7bc94b0a02033c4d5a62079816fc7d1dd70, 0xfdbc52ea7fc7f6b0790c73abd565619fdd7c6e5bcded0ea380d3f4cedd6fd4fc, 0xf3a1c827ef7253102a34222ee15d034ac50087352d9054cca4b43430d68bf7e9, - 0x2299fd7fabd3b4688ce292b0bab4e31aa4a70d73d88a0077a7e41e438f92e183),
    (0, 0x95b144bd0405b76f012f298ce4bf1355bccb8671d21cdb26d904bbbeb3860cda, 0x8e2a7166e7ec4b968c0892e9cc3ee3ee4d1e7e100fdc47f04850312d6c0b80d9,
      0xeadb0ba9ae2cbe592cedd29b716a9d485297b688d706349a49c61f2ad6b29f50, - 0x6a598853f5263be2696b8497cfe9c7d985998bdd2709cce77721c81daef85cf5, 0x5787d4c426832d20d8d489fa6aa0594149b1db21a8c61e3d4fa0b1e8a85fd55f, - 0x4dd3f9ab50f50d9e311ca7778762a712ce99c5bc759c3e5f5f1d39a301f8648),
    (0, 0xcd97a7266946a362a966c2469bb3e45413110726a2c395c2bea221545461dbef, 0x769bc75842bff58edc8366ecd78f8950ee4ab2e81359d90f9921fa3d2c4561be,
      0x4bf817362fe783bac8dce4cef73f5d4741a177767b7873add5920bffb0d9685f, 0x8c5fbb3f12a885e4d42cc9f7d7b32451cd675b14e19ddeae726d35f5fed4b503, 0xa51c3b8a210e761e5720aa3151d54f5017877324ee06bc83129a84a054d5e41f, 0x12eb32b5a2b4bdc2c3055d959b8857ada0efe78a7d6be733ab0858f57947fd5a),
    (0, 0xe53ce2c798d39bef6ff55175192d6b703f4df8f610db8e47bda11627318a4605, 0xe5037de0afc1d8d43d8348414bbf4103043ec8f575bfdc432953cc8d2037fa2d,
      0x4571534baa94d3b5f9f98d09fb990bddbd5f5b03ec481f10e0e5dc841d755bda, - 0x1ccdf346c66dc6fe0cd85e4a1e3c4e765feaff4f9b271347ab832d786ddafe8a, 0xcd45fc342ddf3da00a1486bda1c824a726c4618bfd4c95cddfe037159adb1c90, - 0x62dd0864752868233cee4a7f3d8b2480526012960780a91d721f4e4aceeaa0dc)]
    (0x100000000000000000000, 0xe5037de0afc1d8d43d8348414bbf4103043ec8f575bfdc432953cc8d2037fa2d, 0x4571534baa94d3b5f9f98d09fb990bddbd5f5b03ec481f10e0e5dc841d755bda)"
  by (simp only: chain_eval)

lemma chain_10: "chain_ok 0x100000000000000000000 0xe5037de0afc1d8d43d8348414bbf4103043ec8f575bfdc432953cc8d2037fa2d
    0x4571534baa94d3b5f9f98d09fb990bddbd5f5b03ec481f10e0e5dc841d755bda [
    (0, 0x18b9cd189f45726e2c6dfdc2cce38866bc945ec92113621bfaa817ce723adf9e, 0xa5e00da467fd5494f40b6cf7d2d61b3ec3ab217c792a2ddb8c63c8c79e3d34ef,
      0x98fe5f5e5608555421726fe99bf43d25b60dcfe790900acb855c5ce2f7adb4c, - 0x25933b1131466a51862cb3ca36165e6855044280169cf9fa73883d9f2bb7a6bcd, 0x2635d4eafc3a94784f2155984bb3e982cb923f6990750e9ce624db8849a01b5, 0x61925b735c538043def17debd9932a9ea1ec99618a49beedfdb2d0c6b84ed42),
    (0, 0xbcba2313f29e1d97551bf61072f2a6f583d17ef9378ac65a6a5a28639887beb1, 0xa99415f5ef3a2b403519f4bb1c9bfbc46d4afd2e4477572ae6737160d7b91252,
      0x82d0e64cae81f84bb9e2f10f24f6f6b6899a16ad590f4ddd73a377ac4bedc264, - 0x134567f8f42e1a19966da002be0e46676934408e773d13cd6e2e7664dd85b74a5, 0x8b21eadc4a233f1e6a67d560a74c022b4eb3667cfe35e759451cf6f6d3c6379f, - 0x2bae76bd18f2ccbe097960f18839bf91cebf33d78e2e7a97b674a52afa3e14d),
    (0, 0xccb0c2d5a765fae0fa90950f0ed92a38ad56207a00bd4f3ea9da4b31dfc25815, 0xb56f4e9f9e4fd1fc7d8edde098f935f84c750d705f0c132bd8c465b66a540f17,
      0x32e8e53429cca856d3dc11adf0582d1d21d42963cbcca85446a2fcae0200102d, - 0x7fccfa927cfdb9671c64e37c084307dc660f581e21e5aed2c3fc84a75bbc96dc, 0xa3aa3090fcd938161215a0727d2beb1d5433c7cae994cbbf13259b0089cc8c62, - 0x97ae0e4324516b04d78a80bdd178e5ce6bc6b8d5b0d91bd2704ef792f39f466),
    (0, 0xdfedec6f42f70b127c80c91fa38ee129550274bde0c96a7286b93a0f6c39dfc0, 0xe06372b0f4a207adf5ea905e8f1771b4e7e8dbd1c6a6c5b725866a0ae4fce725,
      0x7a908974bce18cfe12a27bb2ad5a488cd7484a7787104870b27034f94eee31dd, - 0x128b360260ab035ec54a737e18e29e05fc6780d161ef7ae366007bcc6b249fcbd, 0xc3e05f097709b687554ce48ad461c21369027274adb1a14cd8be0eed304c23e3, - 0x2592971c3a968ab060dfd0a8477740d3a517f147279dea214746e8c7ec813596),
    (0, 0x24076fdb1fa11f74017e5c3696347308e32b3f0e740977d9c044061b43cc1ca4, 0xeac134ca2046b8f9c8dbd304fad3f3c045ebfdb4ec6ed3cfe09aee43ed2ff3e,
      0x49630dbe79359b4245bf103bf2b11799ac19f696b7f21376e17206207d210988, - 0x22b8ac85b3ac70e22b550e8d9b10e94619b761281b21f65667820e6830a398f8d, 0x51217acefc0cca5339e73a53387db126dc3c312afcf96726a52ce815b9632f8, 0x1d83e10fbb80b98cede1db9a501919ffa989a921176b1c3c2d9b4973fa5e8819),
    (0, 0x38894d85c2951105037a5d11369af6d039f62d660aef1e5b13689d8a8da7b17a, 0xd6788590731fea198392119d7adbb41ff5948a7804c85b17476706e4dfbfa4dc,
      0x28eaa8c89d5063c4940ef5c6d21c13aa6206f1c4ddc9a07cca7bcd6bbd3b5406, 0x1de43d275b31a9f195fa24270df5f2ff26f22354cb9cead0eec95a7e4e1f93ac, 0xc7c5b8e95c537efd7ea3994c7ae78a109b3e7a267b1f15705122a65e32972f4, - 0x2c1fe1e8df7bf4642de8f86d67419b714d464671579d68921b9183b3f907ac46),
    (0, 0x43e3186271177bc3437dffd0f295e9a9b2a7a173698f8c15f747e07c7e8ff275, 0x6930fccbd9a040974abf210f12b71d4bc7b1a6205599b01a7275fb40e48ff9b3,
      0x7f02ae94b94701eada30fcdb875f6d78090f9b13e4acc51acfddab5f8ee96a4e, - 0x20555bbd52b2984b051df74468c8a68708e677080475003800730f8759b12b88c, 0x1200a837c819757ce0c2c0ec32784be67252edc78e56056e9539d8527a49d152, 0x1cfaa9a274fbe8d7e888fae6c26131d467d8cceed9928574ae1518206e3881e7),
    (0, 0xb52c04d03ee5d1a4b1d4065d2e74ed960cb2de26a95aa21abbc0df208ef24801, 0x213c7a715cd5d45358d0bbf9dc0ce02204b10bdde2a3f58540ad6908d0559754,
      0x4b6dad0b5ae462507013ad06245ba190bb4850f5f36a7eeddff2c27534b458f2, 0x3219ce540d8cb0682860acf0b518be32db1f3d6c62a2146ca9126fcfd6b079af, 0x80374660209dc4d06788e2ee0eedbdc009c0fdc4d5727b6350bc6db369254a69, 0x32ec3f8abc29b506a219d8f89b29c6a5dd57666a3150b01213363fd5df65e811)]
    (0x10000000000000000000000, 0x213c7a715cd5d45358d0bbf9dc0ce02204b10bdde2a3f58540ad6908d0559754, 0x4b6dad0b5ae462507013ad06245ba190bb4850f5f36a7eeddff2c27534b458f2)"
  by (simp only: chain_eval)

lemma chain_11: "chain_ok 0x10000000000000000000000 0x213c7a715cd5d45358d0bbf9dc0ce02204b10bdde2a3f58540ad6908d0559754
    0x4b6dad0b5ae462507013ad06245ba190bb4850f5f36a7eeddff2c27534b458f2 [
    (0, 0xa25099814b5320e1032c789b522196ca8e997d9c4c7caf884c79019ad46985e4, 0x1c5e548132b49a7f66ae9fed8323480e0d1ab974622e7cf08993895e0ec87fac,
      0x4ffcf60f837f468f2bb959fa1d4c2ad3a3deaceb26fe324c555d7b3d5fc2d4ef, 0x52b45c7342fc682cfe049443d210c83e1f5eaf193b000f86e1fc704170ed45a0, 0x66ea1ba7f03016e7b1e42d427dfe309e705f51be0f1a222f082ff1afc82d2c04, 0x3161c590fc281f0fd0544e76bc7e89fb339c5a190c997f8380a8912a12a1571),
    (0, 0x722376042ae0f9d2ab08571a325abc3a4436037b5b82183ef03f4c040825c566, 0x46276d0602c5668ddef6e94210bbc7ce1f901c19fed5c970e20fcba1d4531dbc,
      0xe0f7f24d44c75b84a292287570ded99498badfbffe1bc99af8730099686b8e2, 0x3de524559d4b8a2bb5903d65293f85beb9ddec8efc8f12c13ea8d33f6c79e57c, 0x32e39a0531bbef9cb472cdcb7326fcf0e0cc40b0f00b255e91ed2e61f42fbd70, - 0x12a156acde413de78fef4995ea4d64b5267712b3f100f615f29c7b345e69799f),
    (0, 0xa108d01af8d3416aa2f0e358342876e2ba7343cd700f6c28a824e467637a1221, 0xefea68eca7a6c24f4e65eb211c3191636850e0acdc78d8996114ef13522f001d,
      0xaab847869d583c14da150307a3719a17e413959fb3848771c128419f73bc4415, - 0x27fc4b54a4e867ce205cdc11269adbf6871af4d37edd9d0d3a1e5086694573d4, 0x654c160f97d51caafeadbc8733ae4f7849326a7f838cd3dffcf3ca43ba589714, - 0x6ac978843c60d841a623fccad98312695da75926a3cf1801f10228d84b6ea408),
    (0, 0xaa93ae9daa82037fbb9b9ac8d39248dd36602f49c2588d2617debf0c252844b5, 0x4e7c272a7af4b34e8dbb9352a5419a87e2838c70adc62cddf0cc3a3b08fbd53c,
      0x17749c766c9d0b18e16fd09f6def681b530b9614bff7dd33e0b3941817dcaae6, - 0x1bf04dc23ddc839053f93a94bc7ae25be1c52a44cb3231f4bb9afaaa5ef029f27, 0x71a8791b66a132d8fba6faa751d78e7117346ac90eafaac04fe8a02e748d95ed, 0x6b90581711036a88b9d3f62b75d8ab018e174eef16460508fbc6b42387335306),
    (0, 0x1636e902f0379b679aafde9343d791a7ab89d449ce8432e3b716d55e3470094f, 0x899017b02696888f268a269f4e385d9c9b11f25a1bef8790e2821e6e7c6e1b4d,
      0x43ae2cdab5b334f0bb45798336358bfae4e51bc0f932b212009aebdad814ab2b, - 0x441d917262eeeed21f42d0669fb6dbd298aa3d62b05a37b6757a2ff87ac03c84, 0x1ed7bd3a29d3f793974d11c2a960fea4bb8627fa737bfd8beee428490b8b624, - 0x52062a60c732d5b241652e4640ad9ff6ad54edf34281f01c4fe786564b332b0),
    (0, 0x61d87a0cfe2e33fd3d7b20932d6ec316534b451b05017d55ebf66df97c650703, 0x67f644f76e905fd4a8f4728e63227f0e2831f5bf91b583a8af2635a17e5f712f,
      0xb833d68f66445d04f05adeb7b586cf785e0e1488f7d36198d68acb5e707160e5, - 0xaa062aed44bdd1a5e5ad58378757b59c1730b939f2aa3264550518060397d9d7, 0x2565c38c08bc544a7e31044edef33dbf5b48398d71812bac968c5b07a9ccd1c0, 0xcd7b2a6cc9432869c7b8341d2ba32f7d673cf5aa001eea7549aa82456031bd6),
    (0, 0x24454cfd40d319c9fe377ebae48788ea6718ae1dc023e42f98c46838dfdb2715, 0x327f876c93652555fa80a054968b4712930dc93012ee6b8dc10263ed3b89a762,
      0xb2d404eab3524026b09969255e1997b975535070febd7dfe9c9fd959b9203301, - 0x4a75fa21f209d865287ac4c4c52a4bbde5e9e37ef15b89b7d9b8181af5dec37f, 0x5239069d1e7aa133f5dc8b8d2a2a68a493a7a4d744a35b45bf57354a007f657, 0x7932bbcc16777cfbbd5f57cbc7b771dfdcab64c8fbabd6460ad3bfc63053805),
    (0, 0x717534901dbb59ab006854c068a50dfdd20232fe591a31fbd7dda12262862069, 0xfea74e3dbe778b1b10f238ad61686aa5c76e3db2be43057632427e2840fb27b6,
      0x6e0568db9b0b13297cf674deccb6af93126b596b973f7b77701d3db7f23cb96f, 0x80a0ba48fe10d7809e6002682fb28e671b0427fdc527b8df9831ca1e7d8f029a, 0x3248ae1050c56f9e7f50ce270961745323e43485c95b9badee7b4f513613ec19, - 0x5a7b06db34140ad298aff2fd9da4d9a8552722dbeee31fb6775778b44596f25c)]
    (0x1000000000000000000000000, 0xfea74e3dbe778b1b10f238ad61686aa5c76e3db2be43057632427e2840fb27b6, 0x6e0568db9b0b13297cf674deccb6af93126b596b973f7b77701d3db7f23cb96f)"
  by (simp only: chain_eval)

lemma chain_12: "chain_ok 0x1000000000000000000000000 0xfea74e3dbe778b1b10f238ad61686aa5c76e3db2be43057632427e2840fb27b6
    0x6e0568db9b0b13297cf674deccb6af93126b596b973f7b77701d3db7f23cb96f [
    (0, 0x41c5c1a77b62baa51b180e1dcbff6780ece0a093f5a78051c6de090fab67d58b, 0xed9441c8304280ff180e03d850e8cd0ebb570ee5de3730488fd97c961f9756e4,
      0x3dbe9e9efe8bfa19afa176128b13911e09f23774fe4de98bff0e09f93f3abfae, - 0x2bf688bc61357f87c7ac12c53159eeeac37d98b44a67b9ac998c4029840f67bfe, 0x10e6051aaae9fe582d9265e290a533f25b3b43b831051c975afcfa307de0f827, 0x46306bcf79e6401bd6822354322dd2536f536b57eabac4524ff47ac78329467),
    (0, 0xcc008c577437b3b458c9b836494bb2bc62d6e64da3f0842ef710401e85163577, 0x29d9698ee67a7c3fc9fed3f624b487515b10bdd84fab4d3015bad033d51cf119,
      0x7fd02c517dc82b45277a125404f1c96fb89c940e93a7c2963c88740575056339, - 0x2330b767a4a6232f533b631fdba30cf527ecf10705b960ab7acbcd1c24c99ae54, 0xa290dfabae288b648cad6a41a581e2c2464a6422885a03902fa3619684e63c90, 0x9bf94f9ab265741dd9f65db9c434ff823dfe69943c7914a48eca57c7bccc566a),
    (0, 0x9294b9f9f80b87f9d51ea42cdc54616c6c8cacf9b6a14ad9e9bee370d90df338, 0x126b57d05013936d6f3fb7bd33580a31fd453e4a86060cff467c44537f422491,
      0xc1a7dc13061662c2e3c4a3eba2bf3fb0e148bac30bf39347afa31f199da3ef84, 0x7dd7df98fb8f17cf7baf259f7de7b689ed0d8d23a4a8927c4435b25e600bcff3, 0x53edfa88af0f3103514150b0e2b057b6810f4e48e7adde498f6db394b794c213, 0xd6a62c65f8b50b487863b1bc79903cf90ea51746eac421e2ed06c6f23184d6d),
    (0, 0x27b376e30f76ec47e5e68b16c3a2cf484262baa820f9d61937a65d963ba0a28f, 0x76e64113f677cf0e10a2570d599968d31544e179b760432952c02a4417bdde39,
      0xc90ddf8dee4e95cf577066d70681f0d35e2a33d2b56d2032b4b1752d1901ac01, 0x3816d9965fddeda9d51149bd47436ac6f2ccdf7a0ecf4e2cb3f052439e5dfbfb, 0x6282c08a773f7f264403528c9d2707635cbf47433afc46943a019d5e204445a, - 0xf952a242f3a83e9eb8fd8955fa5295170bf5f1a8b82a65e137608eb955f0d33),
    (0, 0xf1bf5eae2a0c4c9ef23bb69797a3827927656b3d5c2e1dc0e927cc43f0db11ba, 0x708a530e9e52c73bee87c9d88161c810005d57622c29ae691cf999a83a1187a5,
      0x9b884811e1f9a897fa9656dcbb6d38283ecda73c6d353e8a58a4f19b473db9c0, 0xd60d7d0e5aac29a5e83ab10161b05393996cbf17bb7ccbd4263a9fbf41efcf6f, 0xe449df52561243fbd126ce94724abb193a5849501c201affbecdeccb7e620583, 0x6014c03b2e4c140700dff4d4c42084c5c173d46798f76384562d1d4ea8761e9),
    (0, 0x546acca7e813b1998650b06326ef6544d2d72aa88a3413c45c35c5c3ba5cef5e, 0x19cf034fc48b3be219bd648395e462cf9f374b6d86b2b59e2e1b16c6cde4f5be,
      0x28e32b06a15ab466c3b4be68ab181947ef91d1c93f0f1c0c0a91532b6f321af2, - 0x2dd8c56aaff45fb1a9bcc2337484db46b624d92d032cb409a3cfc1fb1707cee5, 0x1bd642dc4ef524dbd26a465b157f579aa935d187cdcbd4e78e5345cb15ae6b44, 0x1c99a50fcad92dbba75a01fdfb6a7fb6285682d323a3d2fd65fb6177004aa2e0),
    (0, 0x631098678fdb228e7be3f87f83e86efe5e8cb7d78b2be931475be0b75e618be4, 0xaf6c44a078cb5f0d7c719c2f8397f576ee93bd034bea2219e3abc209d17cf3e8,
      0x784096fe85d4b30af9e73153cb246dfec362aea7ca0d435b8add0601751baea, 0x17d6be378b2e949cfb54590858db0f0bdc5e54a60e7567a729268bc42b8e0b3c, 0x2655d6f380f09cd7d1d75ca76b5a7606a02bccba346b85f6c46817d5fb763014, - 0x39e583282fe02d4fb19a89201046b3eac832a6612fcba2f53ac812c696abadfc),
    (0, 0x792c04e8f7afd1b9a401fb8523f74d5c81c76302b10a6726b0a0b54d60e62eac, 0xc738c56b03b2abe1e8281baa743f8f9a8f7cc643df26cbee3ab150242bcbb891,
      0x893fb578951ad2537f718f2eacbfbbbb82314eef7880cfe917e735d9699a84c3, - 0x16182343f468d0ca66637786f8a1488f49c84e5a81d1c5d65af71f57a5b331cb0, 0x395aa435ea517470f1b8ed804752e10f71300cae9ba8c39566383d9721410901, - 0xb43c07ab8d5bd59c7e4768350e8dab008b5b77f63425fc688c2285049439917)]
    (0x100000000000000000000000000, 0xc738c56b03b2abe1e8281baa743f8f9a8f7cc643df26cbee3ab150242bcbb891, 0x893fb578951ad2537f718f2eacbfbbbb82314eef7880cfe917e735d9699a84c3)"
  by (simp only: chain_eval)

lemma chain_13: "chain_ok 0x100000000000000000000000000 0xc738c56b03b2abe1e8281baa743f8f9a8f7cc643df26cbee3ab150242bcbb891
    0x893fb578951ad2537f718f2eacbfbbbb82314eef7880cfe917e735d9699a84c3 [
    (0, 0xa12d5e05dff013873b8147dae62e9e6caf91901e3e357c1cec3858f69f0d4b2, 0x5578845ecd7c037435b32a6992e7aa94647197ea49b8c9e4ddaab0784662ab1b,
      0xe61d07978b6de2c3cea6d0a51d2a4053f653a7746a5d64de316d18f3056f3511, - 0x1c64ec2127b90ce08a4959a3234ffc3c4910002e73e81399618ed530130f51379, 0x657a184d9445038dc7ffbdfa1505471ab982c07cf19f9d57dd3a42bcaff429, 0x479e117b5162ce41b3c0e22beb4bb18d617ddb78fe809a45a9b484533122348),
    (0, 0x2a2f3623eafc2706805279368e2b1c5c2afa8d5e85e53d5ba7e9d48345cf88f4, 0x47f3383888a364cc4abfa3bc1d0ceccd22f12354fce3996094f869b8948b6c29,
      0x48ca9a8d0f032937190e48675b416c7118bb499588f994a81edee1120e537ef9, - 0x9c55b6ea0590c810380345c9488b0dc63cc8c38d191cdb9be6ff7ff6ecc944d, 0x6f38678b5be3190ef9987ad07b4e5417c203818effdc9c4c6faf85108144b9f, 0x23a5cd34604d26f5f8f98235d7c6ee0ac07d833cb17d3ddac95ca3d5faa71c2),
    (0, 0x292696c573b74a6cd56a72bbb1bcc0d621fb2ff611aec55bd728a03258fa9ac4, 0xc0c01f34ae41b8cfe466b4c9c6a5d5f614f570d6fcbef768a81a6c8f05ff4adb,
      0xb84f5bee4357f5c7c937a0b4075b8cecdbc43d170d15b85fc4eff73ac351065, - 0x25439964a2f78b6f4511234230e364c76f962aa1d38c70703632cd16da200a85, 0x69d621c5a7b0c270c49ba0ca7e99de18d0796bc6f8d282ed89468a38c21338d, - 0x136b068de713f863bd4563ab698839852ba0ef480e41f640f0bd45e6acafcf3a),
    (0, 0xaa59b2dd302ea6d3ebf0bd86b52a675096448eaee3e2c37f59fe73a32ea2452c, 0xd895626548b65b81e264c7637c972877d1d72e5f3a925014372e9f6588f6c14b,
      0xfebfaa38f2bc7eae728ec60818c340eb03428d632bb067e179363ed75d7d991f, - 0x1a40d940c552bc44b7b02fca4c481de03513d149ccf41c2bad9311eabca6da01d, 0x715b40fb9ec1cc1e8e520e2aaed76e383eedfa9c79bf6d9dc9f3dc09bb2061a1, - 0xfdbf86982c64764665ceee09b37e2b6877990edad98e0f3cfa04c76665e527c),
    (0, 0x9824e79ee39825411d7bf6454d5ed23a6453d1b81b9b3a889361ae2bb1a01db9, 0xfd136eef8971044e8a3a43622003a26703ecaf7a0ec40c3fba5b594b77078424,
      0x218da834f3c652cc67a1d191b5c5efa57cf2b1f78a2adfa8cd61eeefc671ddf1, - 0xf6e83a9e304081e099cc77108cc65597ab03761ebe744687604b753a6bdafa73, 0x5a6bd85ea484d0621ab42b6367dc2886430b148ee5b9be8fdcd1166aa31fc5b9, - 0x15b01a303d6de17b2b744573a66cfc7ecfd1bdc16af2aff56ead5c0d7fa285ef),
    (0, 0x1410252b4cd150f805430da05be0fa84af1a95f3bda9041d49b5dac99bde7dbc, 0xd99e8e9dd9638d140e9cca5367519f861b7003a0d43f024a5f1d84ec8db1cb3c,
      0x36dc19ad1cc0a3a7a945bb321bceba6e6286fef8ffc8765cd88a29e36b8637a7, - 0x2e94be281bed14a399bb11581095cbe701170af64d95780bf7ce02f51fbb03248, 0x19286d36ecfda584698fa927a91ecd982de784031b782c33ee76a7eae61fb34, 0x2c75dfa4a8d3a8cccd0a4632606c0da8f98885c20d868816eae4448535e35b8),
    (0, 0xd835dfd81665457b77de5400f8e630b0f3fee3384b8a278f65ff35efbac3549d, 0x3fdf1619a198317a1bd8a54e5b09191d203351e0440e636fd46f68d3c385172,
      0x408d02c06e5c12c3fe470c7d3c8573755b9b929e90e7232b79ac67f0fccb9794, - 0x1ce500d8d0a90aba270b773875208042c1a03fc6152ac935425682cb0553235c6, 0xb69af51318fe58995b4ebb0128d58ac886e342f5b06cc428541099c3535fc2d1, 0xb46c79b69e0c08947b138695305925d9fa600f94998ad4cc25c5f2d0d5d37409),
    (0, 0x31acb4e1b1cf7975d68309d78e4079a67ff7ca16b70a141bca36aa1e38f7816, 0xb8da94032a957518eb0f6433571e8761ceffc73693e84edd49150a564f676e03,
      0x2804dfa44805a1e4d7c99cc9762808b092cc584d95ff3b511488e4e74efdf6e7, 0x161028e3f437f29c986b2d84ff0fe81999b303ec52b665e062509c2072d0c1c, 0x9a391c1f52684501f782ebfaf1cf8b391421a7b0d4f6cc6aa5e17033ede93, - 0x23183f28c71876d8b9c9c3dc7707fc0ff1c181c4c4344bf328c4926d34f12df)]
    (0x10000000000000000000000000000, 0xb8da94032a957518eb0f6433571e8761ceffc73693e84edd49150a564f676e03, 0x2804dfa44805a1e4d7c99cc9762808b092cc584d95ff3b511488e4e74efdf6e7)"
  by (simp only: chain_eval)

lemma chain_14: "chain_ok 0x10000000000000000000000000000 0xb8da94032a957518eb0f6433571e8761ceffc73693e84edd49150a564f676e03
    0x2804dfa44805a1e4d7c99cc9762808b092cc584d95ff3b511488e4e74efdf6e7 [
    (0, 0x9e134159fa7f342a7059c56115bfcbe4aee40bb38561a32f7d1cd882eb497297, 0x6d36d105ed8cc5ce53f2cb698ab620f9469a3e5cb25bf6e6d413f414c5af726a,
      0xe4ba5c34e377669e72d8c66c95c50029dcc59936b4108a35c570491a13f9fc7d, - 0x15f04c4f851fd3d06cf3f9d036222f779859daead5158cfde34f0ec5dd8546ab7, 0x619bc61dd53f041adb08009e881497f40c7a698486c1dbbdf97c3531fbf7e62f, 0x2eb4c2ceeeeb7c714f3b1ab78cbea46338029f5f2381ccb7e75d60ea777dfa15),
    (0, 0xf7f95ba71f70ffae38b8afe471517eb23276f67bb7e8587cbcc1c8f03fdd8edc, 0x3ab6bde10cd3ac0cd06883fa66f0b0e3eb1309c0534b812286e2a30ca540db99,
      0xbaca62079be871d7fc3117a96a13e99c38d137b0e369c043e6873fe31bda78a3, 0x12f560708de5589c2ae043c9244c045714daf5eadbd8c98aa0614e470e551a494, 0xf03321bfea9774a7f16ebc1f349c7f646dcc21e6502484d0bf44edffb2afd5cd, 0x30eac31fb23f919df0b2e05df070d5350b6fc5b92e74304fbed32bc8c5a86844),
    (0, 0x775399578055e555c62520e02bf03e8454a29230887ca4369e4c87b9bb0ba8cd, 0x796634e3f1ad56f0fdba069d9d07bce2ba2fd4f373ddd3ba7777bf279f1048da,
      0x4d8ee2b6cfb20b8956de74735a7927f2532576d8cfd74862e8f9be24a106cf01, 0x85bc34aeb5f7fa0cc635f0f1973bf074123af52ef756c48780e39de8cc7e6535, 0x379ed3dc23e6c8379aad69f0a74b6b8e34267433e27bee7f6e92e5df15598573, - 0x1d3808c2398051b042c6c1a220fc12180612f51aa1d51f2d86c0772909ac8d1f),
    (0, 0x500a08279b3c953b7ea4c442af79ee4fc12bb93017e4727816b4374fcac245db, 0xe80fea14441fb33a7d8adab9475d7fab2019effb5156a792f1a11778e3c0df5d,
      0xeed1de7f638e00771e89768ca3ca94472d155e80af322ea9fcb4291b6ac9ec78, - 0x7c35f29c1b3bc8a4d69f2ffc9b445f98b3129d0e4e288598b10d0a2773b220aa, 0x1906457d64607dd54bb87aa03b9713e5b7d09d82e9234aca09ef7175d7463238, - 0x22995ec69a46033becadcf2c3d4d9bd05caf77b3c53110ad3d8e0a5142564796),
    (0, 0x759f42169706492f4d893748465b0b891cf451657415eb8bad19754d88799bb8, 0x440ca1f08ea41265981ac4ed1efe7a37122dcc3877d2f9162db0e78b0f83cd58,
      0xa6c8b0d2cd5ee122af8954dc9d4e2f02a21e4d4269c0a260b07bc069b88a3f4b, - 0x19ba19264cfd6c9389ad6a3c6ce837935eca0a488f5e93bb162b1121de5c26515, 0x360af57bcf2b0091b18b1f9420c8e6f25e2a05ba8a4ec12e9675212e37c02932, 0x4b5b885971c296a9a7e8eff7bb943b4f8365fcb7a158af3d5c39622d9147503b),
    (0, 0x9b2f8851451a0c4a32b655df99f323889b9f437a5ac499423c383f787a29e43e, 0xf694cbaf2b966c1cc5f7f829d3a907819bc70ebcc1b229d9e81bda2712998b10,
      0x40a63eba61bef03d633c5ffacc46d82aeb6c64c3183c2a47f6788b1700f05e51, 0x93f0d17930b35150ff01563b015d9d26552b6e46481b2445ad262f56fa383aac, 0x5e1297e5c01b5daad6d9150c9e2680f6a8244fa4d9bb091049791ec19136d5fc, - 0x6c3997571678e3278816110d73f8335f349daedd0e66988bb53d4d6ea3876b94),
    (0, 0xfd694f82ce17714f7e6a833cfa028cf5206ab4c04bab17679f65e28f90487e1d, 0x8b6e862a3556684850b6d4f439a2595047abf695c08b6414f95a13358dd553fd,
      0xea5e08910ed11cb40d10bc2df4eb9fa124ac3c5a183383d0d803dad33e9be5ed, - 0x24889214ddf5e96ecc980302fa72c01919ea3c594438286a961298487c4b3fa3a, 0xfad9527add59633a80bc1c09cd3e7592a414d4ec7d5877d9688df09cba02c694, 0x6a10e6ae7a0c355bbf382c23f27a5ae640470cbb1c50858a2f82191d5ac7e467),
    (0, 0x6d66f1633c0ea4e3be369e04bdcfc73efac3f92d72320932c55fd0197c48e44a, 0xa301697bdfcd704313ba48e51d567543f2a182031efd6915ddc07bbcc4e16070,
      0x7370f91cfb67e4f5081809fa25d40f9b1735dbf7c0a11a130c0d1a041e177ea1, - 0x1b831007207d2382aa16071eb5866c5b6fbce624e385d54c8697d8440827a599, 0x2ec0d2f3bfd451a06955487f1d7454a6c9b8fb266dad94e1f5d4c40956fcf226, - 0xa13058ac3742a60924c7a8cb34f0d4a7064fd8e1951a097aaa12bbc837b83f4)]
    (0x1000000000000000000000000000000, 0xa301697bdfcd704313ba48e51d567543f2a182031efd6915ddc07bbcc4e16070, 0x7370f91cfb67e4f5081809fa25d40f9b1735dbf7c0a11a130c0d1a041e177ea1)"
  by (simp only: chain_eval)

lemma chain_15: "chain_ok 0x1000000000000000000000000000000 0xa301697bdfcd704313ba48e51d567543f2a182031efd6915ddc07bbcc4e16070
    0x7370f91cfb67e4f5081809fa25d40f9b1735dbf7c0a11a130c0d1a041e177ea1 [
    (0, 0x60fb0dd8cfb159a6cc7a0b308761f2bb17857246959617835ef54989090a211d, 0x27e1e59cff79f049f3e8d2419e0bff74b43965004c34b5d811420316f24ba5ae,
      0x310b26a6c804e209ee1b5e3cfc79df05df48a1a69afa63f784a5bfee883a45b3, - 0xdfe93e25f9a5c0730e7d580c5270394ced55b3578f9fa27a0697ece46483c85a, 0x24bd4096c3ac05ba0d5303cca082457955e16a902c7577a0c386b3947621ef35, 0x2ea49002bfd29ed6fb40cbe1ac119161856afb9cdf37f953225de64a09882d3a),
    (0, 0x50018607e3d60e50bc5e7dd6ea0060dab9e5478b964170294f64677ef6f5adfd, 0xc712e7a5f6864aee16588ec3892d7e4f5a39adde84fbfb4f9969175c9caed7ae,
      0x49644107516363b365ed4b82311dd9e5380d8e544b0ce63784d148aa46156294, 0xc03bbb77767a7ca496ac970f50d70b9fdaa4b173f25262aa3ef056efde41a9e, 0x1900f3c740a1d360e9d3255fa4ad5e78c907ff186bfff642a6ad7c93d216bc31, - 0x31c0432c5e52239b674dca9cdb769b72646ceaff5a1d2ab9889a2fb4046ecd69),
    (0, 0xcae60ba240a4434e4187587e5c8846b5fb61cb5eed6df31ef65e69275e8298dd, 0xbfc0504a4b3235d065c0d426b8675fcb2c85d6f58275d791b43e1fe44a6db03,
      0x1955467a6c34f3453fb8ec7f94a6c99237427197345d4f0558ac8d1a464b8542, - 0x15c15132c3388cfde23892f2d20bd8615d31e2e4815ac35bc1e588cf0a6fe93fc, 0xa0cfd914f616b9c46e07ca946cb5e03879fff07bba46eedff8aa96423cae95b6, 0x94482de376f63e098f3e148bb102e857047429389c9f3f4363c8af3e87eaad87),
    (0, 0x27fec578a9edadb2aa5328699c0a3cccb201d9e4c4c46c036041f20898797576, 0x90ad85b389d6b936463f9d0512678de208cc330b11307fffab7ac63e3fb04ed4,
      0xe507a3620a38261affdcbd9427222b839aefabe1582894d991d4d48cb6ef150, 0x63b862d71c47d1f0015581476fb72ec8e8184f46c7b5b09a64751eca379d4d3, 0x63f9db7378a8cf8ab62d0f900d1503b04bfc19af98bde118883a2ee393ad696, - 0x14bb191375bf0dc2b820bef535d1ece49581fc8a8e6a5df28e1d03feb2b7fe98),
    (0, 0xd4f0db18fed8a66a083b386445c250011b57923062480f793ccb65d82d6f2d6b, 0x7e2cd40ef8c94077f44b1d1548425e3d7e125be646707bad2818b0eda7dc0151,
      0x905b75082adcfab382a61a8b321ef95d889bee40aeee082c9a3bc53920721ec7, - 0xdd7aca48986e41b1a16dcbcd39515efeef51292aeb11963ae122dc90c5091330, 0xb11fcd7cf078704f177cc3fa5493d96d22c100b379d5be92fad13d94a94ce040, 0xf63fb98b8daed0135b1c3c559f98cfcaf5e00e31794151f6a04306500651176),
    (0, 0x58ff873b75fe48d0de02ba7960e477f2b009a1fad79a0c13db1f838a68704f33, 0xa146f52195bedace21c975bbd1ef52a79c636bf9db853cf90e103ae41345e597,
      0xa5a99b0ab053feb09ae95dd2dbb31b40ea67a5b221f094b07675676af45a770a, - 0x56316a9cacb70890c6e5ae730feb8344048e0af8387c2f873ccde94d1586a8b7, 0x1ef0ac079103a6e673206f33a47744e9779bb4463a3a92b9459b514293677710, - 0xc3404f0462304c85ba5e21ed042daafdf9e71bf81507afcf822a02baa7522ad),
    (0, 0x4a448861c49b177bf3d75a72ffbe403636a0189476ffa033360c12be26583b58, 0xd24c75a1cf1993b9bcfbf9dab25a8114dbde421efeccc4e20cbb53fc4ce45444,
      0x58fe1d2de84dc1d1cfcb7d1810e5a78abf7593f499f1e524cb93246987dd4a57, - 0xd0b03bbe5cfe3d5b497a1099fa460a5bb8dc409c302bd24a63e90eae4163d71d, 0x158bb13142422233804b63a161e1202df118f86c7763ebb82b7ae3f62f8d0492, - 0xe38b6b8d7a32dd15b7cf7844ecf370fdbf193924ac29e8d3876729e79f72e77),
    (0, 0x857ad2cd6b2921bd076754555a30fbaa46c691e4d20c90d6ea86468cd38da973, 0x8f68b9d2f63b5f339239c1ad981f162ee88c5678723ea3351b7b444c9ec4c0da,
      0x662a9f2dba063986de1d90c2b6be215dbbea2cfe95510bfdf23cbf79501fff82, - 0x1a9772865553569fae00a81ddb53874d1963c339e5902ed64c58d16f4c4fdb2da, 0x4598d9f70ab888e6d9f1fdd04a18fbee8a6f61585609dd9d1452f8fd79769f69, 0x22e0682e73abcc81f5398d4340dedfcd0a23831262df4b1b5d2edaf81a85a94b)]
    (0x100000000000000000000000000000000, 0x8f68b9d2f63b5f339239c1ad981f162ee88c5678723ea3351b7b444c9ec4c0da, 0x662a9f2dba063986de1d90c2b6be215dbbea2cfe95510bfdf23cbf79501fff82)"
  by (simp only: chain_eval)

lemma chain_16: "chain_ok 0x100000000000000000000000000000000 0x8f68b9d2f63b5f339239c1ad981f162ee88c5678723ea3351b7b444c9ec4c0da
    0x662a9f2dba063986de1d90c2b6be215dbbea2cfe95510bfdf23cbf79501fff82 [
    (- 1, 0xfc8b6877fac26cb8bad159ffb5054e192d185a695991e862b13a1157137bdfbe, 0x6c034fd8cc8bd548e12569b630710400e6c24a05d9d6b32f08522a241e936da8,
      0x47ec36379eabcb793bfa408f7898ea619798b51289138f979b8eb3fd33d25f15, - 0x155f76594446d49353fe4bd3bcd627ac71efdad8b6e9a59380796c8a29ece8de, 0xf922c196d29ac926cf1e8410b2dae05488d4b55d2eceabd68ff7362f3dcd3736, 0x22eb1ad495bb3dac8915fb027f21c9262f5d2cde7bbebba1faccf26689c0cf8b),
    (0, 0x9aaedcd3f59a511859bf395e1ecd70760076101893a56bb21333695455e74996, 0x97e3647dc6f3d7aebd8cb7daff6d3ca14a14eed793fbd5a483831c7b69c1dccf,
      0x61cc4711e780ace666a2623eeae905b6c09acc24851535c9af243d5e4b388af8, - 0x31cdefd3f8a2b6f7ac9d84c1b812db1e377b86d873c704fc57200dde822ab11c, 0x5d76d91ff21c84f78c78559a1b97c9a5dab9fd762c96a70f888317cecb1cd64b, - 0x1a82c4922c4b75c30f6b7357c9da20d4572827aa642cce3de709b0ae6c3527c9),
    (0, 0xa9148f747424fe2d32b64be58cfc911fb79a6b7651fd7659709c61ec71d226d5, 0xbd9dfd15b6c79ab3a86c9194634e8a3f8c41b1262a277930f6c47bd4df23378f,
      0xa46ca64f165a57308d5177164e98482b020fcc5aacea1e70c98a0c888ea6b468, - 0x8d2ab43b4de71d0238885de6a07bc5ddf36be95f39474c4e50fdc771d2853dfd, 0x6fac270e7bee4c1a2e32fffffd0beb467975fa5be6ca013ebd0b6533823545b4, - 0x18eb36749e198cf18c0ace1a7091840280eecd5fef63bb603c064618bf7fe8e0),
    (- 1, 0xc1e5bfae7e9ab5edac943a509f0b909de0240ab289c209ced04849d954c1ed4a, 0x68a739be0e328a723ecf601fe7a1c75b5a33520e27a770b89f1b8022c8b2abc8,
      0x69e2f38b16cb6ad206233480ec42d429b3209bf64aa30f27e3b1dcc295074f42, - 0x33687a5b6e27f2808be4cfe9ae417fb4cf59a4d0be1121e2cf09e0c815e8459a, 0x92dc393598999ef50dd2e04f05af0c1a5abdbe50dccc36832c07778ac78af29b, 0x405a499fd8fe27eca9206d6f0d1a37a92b4049dd353874f35122175cf46a0be4),
    (0, 0x8532f8eb16203de056ee10bbbb95ff107dc6b10e55caeb78c5b32aa624c44c35, 0xe35e1b85ac68365745c9f535c56e2035b5832b1f25eafa0e418e04afde1af480,
      0xd7c42c86d29d9170a89c014b1236f50dabd52c09a997eec5b24daddad17c4546, - 0x1228e8d492b6c1c8a7f89545d0b2fcff3f29261e42628dee8605342f74339c54, 0x454e00ca72da77a35ef3236089b8ea25edfc0f738c8e96c5576f3cfc8f434067, - 0x3fd97256a9649838473047226974eb30a8e9afa5da2a8d7bf14267a949471f60),
    (0, 0x7dadbcbfaa91cbbf78b2986150ac4e327edb9c69606820cb5a391831b9aa8b86, 0xbcb5c46f872a1d5a16bcf3e774a58a88576e8e5e839c03677483a129424b4a59,
      0x64512e8b37f510cf879ead74a15aa65f2be045d50266ae47eeafa917b1508b57, - 0x189f5a56acb1560de1839a3ee687e6f957054fff2e006ab7e521e7694d9676ec8, 0x3db3203bd2c8fc0c771cc0d023fac244e28ca2e2f079ba5d5bacfe302aa31c25, 0x12fa6ec93b7587fc55e87794ab5b7e5aecf6799fb87728d58c2f434067c4bbc3),
    (0, 0x464b37aee9e3cf9ceb318e70fbf5949a9746428a0d4230c392969175c1fe9102, 0x9023a8df54d1f2df00d367f04bec7688b96a03b279998820ac41800ceb3caacd,
      0x49351b7e198ea8a7807771bd843cbb3a5e9c2d8a5035e4e3a995425f695e6731, - 0x16a3b1410210ba52d777038ff98d537e22d52002918f73d94225decd56bf9d939, 0x134d388d54824108212509f3bf5890b98cd7b300c079e1cddc84d397820e998b, 0xc3d0c0958f6370f680ea08cae68cd3ea63e2ca7982264b0b6ec61bcd908fc70),
    (0, 0x90d58ca4958eb13899468baa7bd19964d7201875b86dde6ccd6bd3c90ce236df, 0x4fae94281db702f7524193cd427222f4f287c4b4ce04ad2f1538e059a80adcbf,
      0x5e20f1b26b1e42c3a10a9268bc517d27e6c9c242716521015c51e378afee26c0, - 0xa0a2871abf6c35763894e4fa397fe9dd680fd8d47335c65d4993c8934270c473, 0x51f0f05c7f65d4369ca6ce82b808ba84f52c84b1e4c9ff4062796e73758f9898, 0x2477a07ac36d8a7d4aa4dadd0e008fa74c971d13307f5c76de8a8af9ccc5da8f)]
    (0x3fffffffffffffffffffffffffffffffb0, 0x4fae94281db702f7524193cd427222f4f287c4b4ce04ad2f1538e059a80adcbf, 0x5e20f1b26b1e42c3a10a9268bc517d27e6c9c242716521015c51e378afee26c0)"
  by (simp only: chain_eval)

lemma chain_17: "chain_ok 0x3fffffffffffffffffffffffffffffffb0 0x4fae94281db702f7524193cd427222f4f287c4b4ce04ad2f1538e059a80adcbf
    0x5e20f1b26b1e42c3a10a9268bc517d27e6c9c242716521015c51e378afee26c0 [
    (- 1, 0xf91b01b74c44d50452c012ebde3fb579cafdd97f7d7bf637f019fcaaf7079e9, 0x1681af3357c6512ffb8c1e9f65e64fd81a5a93d77a67430cde445042f5b2e31f,
      0x3564db78473ddbd60fbddfb84a4429a0f182bfa0fc14bc3a5a5ddf8181a5210d, 0x28edd389d8f39d3b98562c44b8d3d1d33311ed1b6aeeb4140d1011133a91857, 0xf2658c2fef0aeebe02ae9f230f87e877dc93a3654268ac5c1e48d68edeed55, 0x37a2b2d0575d5085e0940d695fd2d72ef6201126c8debad1a346442d31dbe9d),
    (0, 0x37b6c936c1f724a47343cb4fdfd95568d4ebe6acc6d9e50901a795723e359831, 0xca24485c16cd176669faff4f27c41c15e0a123c7c859e2f2176e40499089a373,
      0x7b25866b4bc8a1ce1fd65b75a45028fe7ad6ed6b9ee8c7670e45e003072a7cbd, 0x114df2385f87297db1e1b3eee5842c7a40db669bbbdf26632bd918a8eb9c6cf9, 0xc200cf83f5b0573421f4bfa2e002e5debf35b331f12af09def4426b25d4cf50, - 0x271831b1baaa910afa64c23ed49266aaa9676d4be8bc9e689165c1ced33c2282),
    (0, 0x1feaf819ffca25f3b9c197e022f9534f881680b73b166f6322e4c00d66ddccc1, 0x78bafc5e16a4acaa01c15c4dfd18666b463e43e771fcc38ab38d2043ca09ac12,
      0x249e44f753381138b95a4e6feff0ae5e38107df0b053486dee49da58e59370d5, - 0x1c022b027d6a57e696da59fa7c4b9e0a984f97307f1dd96d78704a5598ab266cf, 0x3fabfc0cbecf4fa0724716ec29b6d53cc10fc7a8bb39c5d94aacc8c37cd32c7, 0xa2679597e6fb1ad3ec513b944bbf51af341e1499323a72613d8b35d57cdcba1),
    (- 1, 0xe1a5f099e7d10503cf72913018556899858d231be015d0d574c73063a319368b, 0xf63be9637bcdacede3c3fe4f387445bb29d7ceb887fda015f18dac27cb35f543,
      0x9dea543f3499c68e7512b9733f73dedda18bc1550d229aca9537d871e58c5a05, 0xe4a86e1e5ae391799a6a54784af320608018e7350ebf66de116f6126949ae1, 0xc6e51c7e92032d6ffcbad2208aa3da52c7c6c1efb0abf924c436254966719334, - 0x6e9faa5ed44bc24f7dacaa8903d0dc80de77040151918a3aa97d83572bba329b),
    (0, 0xd1c03969250c4dd33fb07bcbfc4f9e59fb99a37d71a5a1b3fff6f08ca4156e2c, 0x80b3e8ef2ca93e4564fb4fb748b29409a3fd06e70089274afc73112c21e64477,
      0x7d1035444e130b2e9321cc9d22e97cf9a34bfc81a30fb38e73366eabda6f4160, - 0x1c3bfd3d02b8d9d0b094d5964b964f23095aa93e888abc917b0935799ec38258d, 0xabdb6e13d915a7368efa2b9a0dba9aa3aaea052264c3d1bedab778f6b59b4cdd, 0x604c48bad9bc7d29d9d2a83554c046585b189da448f17e86f53e9ff130cb3945),
    (0, 0xf2e392a1075b09257a56d40b9302887966fbd4a1789052512367e3174d62b5c3, 0x609b3a59c72885dea386ccead145835d38f59efe2b943bedc311311762eea289,
      0xf8e2d08352afb20d2b392cc9475c34a04d4f9fa00c283410f239ec5071865c15, 0x2b33c89b2fd6fb3438317a412eec3e2d22092641775d6ff06889b8a529c61643, 0xe6730b85cf773a6b2ae97a706734cc2b6f988547ab63a0faafc9a3e73909cb8e, 0x1e73dd4e4c6fc5fe9b08fcf2ab9a3cf79546c82fe0016710f0e8463ea306be3b),
    (- 1, 0xb8eda1a8824a7752dce3f803f0bc739aa7ffcd9e6730fc80874075ca4078d38, 0x80216fba773e5e62ba48d7a506f6a3f9c3a11e2ae0dd2a3397f72c62a23aef1a,
      0xadf67121c5da1c4462f32158eae2eb10b686f06d1658068dc9ccfb913a930ab4, 0x12289d2a4585011b668427a204407fe401444c44056c536d373dd765039c3fb, 0x859674f6f361ac34fb174010e6627cf2f298c57c8d45d4be038467568e530b, - 0x16c5b98510c2e0a1cc8423d9e16f43ce64bfc678c2e7d0d30c40a35c7439f4f),
    (0, 0x714ac25124a0f210514a0ffda9101cac365c8d7f76311c6c49fdaa7d96325f24, 0xfb34775da06ab702d1066fd09d8776c02ea1bc6c1e4e82453c5223a299f1ef45,
      0xbb9a7abd63c50265abf3d2fb7b1cfc235b479503bc63b56ea5d9e148c106ce94, - 0x266b31d85ed943ec687d67356c766330d106b3fa22a4f0291b60e0215fbbf474, 0x322315608cbe57fa7b29f3baef25d52fa121ace2a47735aecc8e2d4840d1e119, - 0x3677574aa8c1971b77c2eec364e4b9ba67e04e7dd6491eeb82ecf45159e2f7ec)]
    (0x7fffffffffffffffffffffffffffffff5d6, 0xfb34775da06ab702d1066fd09d8776c02ea1bc6c1e4e82453c5223a299f1ef45, 0xbb9a7abd63c50265abf3d2fb7b1cfc235b479503bc63b56ea5d9e148c106ce94)"
  by (simp only: chain_eval)

lemma chain_18: "chain_ok 0x7fffffffffffffffffffffffffffffff5d6 0xfb34775da06ab702d1066fd09d8776c02ea1bc6c1e4e82453c5223a299f1ef45
    0xbb9a7abd63c50265abf3d2fb7b1cfc235b479503bc63b56ea5d9e148c106ce94 [
    (0, 0xeff70c491077d6ec76deb529425a4439fb9f0a65fb05229200a788c0d3b3ed2d, 0x14f7672bf91530a0c6ca84ab95ebe6e5d4de984d9204625a1ee548944c9faaf7,
      0x51a728b07aa59ccc082b9998525768cb5592ae48a1a74203130faa4fb3d4c7a5, - 0x183cb3f2edf48bcd89f0cf5e79432e872cae006f2ed0a58058de0f99d97a73aad, 0xe0ef3759225478f3e3cf28fc5ea4502d86eee32d8ff3acd2f30cb3922a649418, 0xd7d132158e1cd6ac421cbcefbc6cdc2b1b4ff1ee02421bd1baa894d833013613),
    (- 1, 0xf66eeb2ae5c65a6823253261c9092f7a97cb28ad3eb54ecce2149811566c4636, 0x8811b0c34ce4afc34acd6b2c139c41266c15b3dbae17d673aa9f8d266290787a,
      0x4602972e3ba14ea15774dcafbbeae0f20114838fa484b9441178d14700982c4f, 0x6102e36f07e54295d5ef2a5e25015d365d7ae2a07ab768582e5ee344fb6cf51d, 0xed395c05627e7540325702eb54fec710d8a9d6cf9df1c41ec4e6d57a33243f95, - 0x6ecd21bf74bd16e65ecce74176e368f5f2c5c40a20d4053d8e1cc03af373e64a),
    (0, 0xfb2b929c5c52a0c85b192208855d148ae2de4e021d066d7be9836724bf3c5059, 0x959878645880be1d10bb6cc160b53e8156efe79d8532d9b97f0d66caff23229c,
      0xa4f6b989d576fbb18a188937a3495eadc591f238e8488a0ec0c1268d2bfe8d9a, - 0x4f977d9574828c86306b0cdf6aed8ad92014b0d02990dbf137586c1e8a8762e2, 0xf66e78e93187c3d9cb55dd813ca4014bc3f2a2c3d9b1261a687d032cf1a41d6f, - 0xd45731d8f4b4173260f33418f01fde0f066609fc5fac5c0026aabb8ea98d635),
    (0, 0xa538286f0f4dd5abd361615c2a97b79ec03b46c49c35832dfc7ae456d6d673c0, 0x1623b307019fb9416bcba5e3ac5d4671cb82e4a5a5d6f81187c2e10822239534,
      0x3dad53912ee1b8486a55da61af309105188109672841d5b3a71950f0ae48be86, - 0x315219a2e7459b319bf82790ea1e3c721d3efbf8ccb7865d80de9b9facf77cd0, 0x6aa17070e0b3ec7392d735df82936360cf47dd38ea3f8adc5efac292ad4e1aac, 0x524238e1df80ca77ff4c969fcfc70b8f4d175404f8dd37112e7f1075b1f54c20),
    (0, 0x9838f6c643c678e8ea7ff729a7268090a7103064616ee571f8cc564d0c14db8a, 0xbd824c30c17923befdee75f8ec74c4d6b5238ff10e18e9b546afc32aa791d3d1,
      0x3b211912406057573c9fca1be3f0f8eb90164090db09fa86c683cb3093a5839e, 0x439acebaac631e73df3546f57266c3e8b67d3c2e3c658d0e35a6c9ca9cfebdb8, 0x5a83b1b8551afa37d5b2b59f71d224448cb3203edeb74340374cf809bce828c5, - 0x638568f8d1b327bc2b107507452f6fe4ea85a626c31d83899ff101d129345b1a),
    (0, 0x25ac4c4957cfb517208fb3a1da2e8a863ee0692ea7f2bca7e8c07e2e660d9bb6, 0xbfcd5a68e2261aa280ba807120ab3057f215ad213e6c0b947f13da29276f7c5d,
      0x1ebdd824c9b079d31cdecf16e07e30d73cf94b1addad309e402643d968362854, - 0x19375cb7de2251e5d2a1c3d65d7f78b658f94d54ced0d827425915a693c72f4b5, 0x58b4203ccabaa9a8c97232822cd390d975fee72d92b988bf3ecc5eb75fa12ab, - 0x56642a9ad809be45f5258758a626cd23049249553aa1e387551672deded3a6),
    (- 1, 0xf34fa0ae9b45403fe0e834b98a53b11064998c305cd2314cb9fbccfaf3738f54, 0xc9142246837614f7c53c00deae3fb513f5558beaf981914e44d32a89d50a375a,
      0x4241277fdb4017c0aec6faf882c0b59373ffece8b23b55bae53c430318e437dd, - 0x4295fc1d6dc64f3d4bfea7f7b1bdd20bf532cba0c04ca8d87741e373092dace8, 0xe74043d00b6405e4ed05c1e9d1964856b9f697d88da1f036435371022408d68f, - 0x8d112619e2a6d2de319599311f9091ac22b68bdffc4366acdf436b037894edb),
    (0, 0xd25bed1f34d120a9f3eb037b4ec798f6a36e21192d34baa62fb7080012575a4a, 0x4cc977571d40c3264d789889d3b2dcbc0a0b5e3e6e0fb62f8eaaa0c4fb84da70,
      0x40713e8a58ae61a349bb36e5052512f066050f913a70f7f06a9bc4278c05aa70, - 0x16cef645bab44465c270a71d988d36025ad41e7a856a0dfbdd3511b82543d6d58, 0xacdaf209a27971dd190731b063094d8a85f1b9d5aee42b5a0aa67901ba3c1fc0, 0x6621e1e36be01a38ae32b7bd7b5d1b5659afe5227b646af434c5d65fcb4b3f59)]
    (0x1fffffffffffffffffffffffffffffffd755e, 0x4cc977571d40c3264d789889d3b2dcbc0a0b5e3e6e0fb62f8eaaa0c4fb84da70, 0x40713e8a58ae61a349bb36e5052512f066050f913a70f7f06a9bc4278c05aa70)"
  by (simp only: chain_eval)

lemma chain_19: "chain_ok 0x1fffffffffffffffffffffffffffffffd755e 0x4cc977571d40c3264d789889d3b2dcbc0a0b5e3e6e0fb62f8eaaa0c4fb84da70
    0x40713e8a58ae61a349bb36e5052512f066050f913a70f7f06a9bc4278c05aa70 [
    (0, 0xef22b56da8a04a7d889068152800e8a662d13200bcf3f8866c73cdcc98b1877e, 0xab546dd3a5c421089c7ee0404cc03801688326455df5d4eac5b2d52096587bcb,
      0x1fee97bd212bc563779c99ee0cb5d5513d34614e9d0170cdd1c3e246de3cd290, 0x334c33f93eb3e5c279a1447e9862bde7b858584bf1f5f484980cf6b803c310c0, 0xdf61d37772905515df3da0d79a4becd9d37512ad258bffdea91f7ebc5d9e60f7, - 0x58508d93bfb429c2101a608cdd174d79486a90060da26766a6c4abd195676356),
    (0, 0xef0cd14edd1e93bdf5c7068919d57c768f289c5bf9b99d1d0096565e752b463c, 0x2e594b864cc0bd4e548bba3740062434f5f47a3af609973aef90e0acf76c02e7,
      0x3ab3479caa25b7f8417b53881178049a256799215194264de42ff8cad7480523, - 0x11c5b01ca66687419335ff0044ba62b79136952ec7312eb4e44ae6657b1ae2f85, 0xdf38ef758b65b011f594aaaa492dd34901d0fc08b6d88e48b2fdd3bbbd5901dd, 0x74b4b6fb5933a9ac365b725955479525bbeb0fdbff0c4ea276f338a8bed4f5d3),
    (- 1, 0xa74eb1ded9b0a87b22f86c7caf786224204ce368ee629765ca0421fb5b104915, 0x2c29782866523b7a61d000bd42acf69f5dd3cade6fe59ccb6cecbea3b20a995a,
      0x2abe01a9f13be678db84e527a0d5df83d7dd82edbc92a5d23546ef6e4058adc0, 0x314621c8fa220fcb3fc5ded1d6f2034a93e2eb5903a9195bade8b2064fc518a0, 0x6d57c4419f670e7be324e061cf45a6ecf7765aca1fdd49b126ff5f1a9002de20, 0x16ddef9a067909966634a8201a3a7029d84d12b98f07daf67b1f47aec95ceb2),
    (0, 0xba7b6f02dc63af8fd13b23dda46e194d0dc1d899e799c1caca6b0b37586332f9, 0x7064fff4db98f682ca0b2cb10e4e7afbd5d22162ef32cbe1203e60da5a1f72a4,
      0x2a323bbeedec8c7da4d3528a4cb82908d90eff484c9de19d8e21fdd1d886e1e6, 0x276a7a017c51497eeedcd7706cd329952c9d6d42e375c754003a50d7258b9bac, 0x87d798d405241e0e51c5f13389322cdb49d93d71c7ce2c9f31dd9a097bb35977, - 0x31b426db5f882dd6ce1f4d3b9172106d261e7b1a0babb587eab915dd577c2560),
    (0, 0xb65975493130d4bdb9e2a904b9df8e50e25670b8fa6e6a90d6926838e9648297, 0x4ce79ddfa19e523c80036b4c5021a1b870b59b7c0d7d855388b4d331f7e351e8,
      0x16de532315c9459af461db1d4c92a6914571df713408ec099e726c6e278e56f9, - 0x57ecace29589aa31d1ede29fa28a2709c49b765df85b12fcf2496773249e04e4, 0x81e35206d4919e5569fc02ca886f1492e8296f823a651879eb8832a7e35052ef, 0x19478a94a3ffc940c14216307d5f80c985d64b26c77b342e3186d1149823c80b),
    (0, 0x6755b546bd5ecdad54830125945ebcf11749ff30a79abe014586232733cbb5a, 0x4492a505fcf9b0ffa7974d3cdd9d8c31cae6d83568871376f99b53d0e95db0c9,
      0xbc15a9e21cd9eb81138f0646c38ba1ba5e947d23f914406ae5ccf54d1b571060, - 0x4427a272715a48e38475b4c4aceb6e620e8359981d6d5d392508302f76339a14, 0x29b61490cdb925ca39e03d0416ef15ea0d4c1207d26b5d2f74e4c958fe1fe5, 0x35cfa3c92d9a6122d36103b58fd937da8481dfd6cfa9ff2d5a1c2a3fa27203),
    (- 1, 0x5fb293af30ec24877fcdfc76b4e2fe1d512dc5a1a85675280d2d80ba85be7bde, 0x7f3884e02c4ee06657c57e693c15e73846a188ae5020553a6554c6e88d46ae6a,
      0x86e51ec3e50750248ce9bc60f9948053c0ea9cf0dc5ceb46318137e041d7763, 0x13e053e4ef2311f215c31057374a34b82180b3658c066e631781d471d7bc4f86, 0x23c6062dbb21f5927b6f9160a9dac86b19f443c2973a0c9dcc205ec17ec38297, - 0x15ec773cff690867fa79d3947b75b5b656cd811849308877763f9c2edd20446f),
    (0, 0x88246dec0a2f5c1781c111b275131f55b126fd8e265fdde8ac3989cb1274622c, 0xc9340d137d8eaaa3013a5bbd04185f63e2184e38397177d6d1c4637742b4ed8c,
      0x79330f1ac4a4157afcd03d587bdfb89c74388c802b54401b42e9c96750e0eede, - 0xb4b3c3a2ee87cce3c41422d268a41614f18bd0256f42b1ec34e07bbcef8f079c, 0x4866b9f9e4680979fc9f2ce503857917c81e1258b21d7eb93ea202fde58d29d0, - 0x2758277eba323c6ced1bcfe32693c9152e74357b04f6d4c676338ac423f8ca37)]
    (0x7fffffffffffffffffffffffffffffff5d576e, 0xc9340d137d8eaaa3013a5bbd04185f63e2184e38397177d6d1c4637742b4ed8c, 0x79330f1ac4a4157afcd03d587bdfb89c74388c802b54401b42e9c96750e0eede)"
  by (simp only: chain_eval)

lemma chain_20: "chain_ok 0x7fffffffffffffffffffffffffffffff5d576e 0xc9340d137d8eaaa3013a5bbd04185f63e2184e38397177d6d1c4637742b4ed8c
    0x79330f1ac4a4157afcd03d587bdfb89c74388c802b54401b42e9c96750e0eede [
    (0, 0x907e6ca0df806efa454760a45d6531e8911524be961db28481f68854ccaa76f4, 0xb371f028126c676cd92d0c7e533eb71231ef7ba784204fe84bef76f34b1679d8,
      0xaeb5fff8faa3dbb780856dac00bd751d207a43f71c97f23566251b400c028c6d, - 0x151972f3d5f7be0eca05818e627fbe93d69dfb3a2d0686afa8ca2aa3f4da33980, 0x518e78a417e4a0f34d9b640e0cb4edf89d0a78b395c937a48fc08fe2bac1ae60, 0xc47ef0a38a666af2add405446b1da51c956778c7ac0966ac27c45c02f7025cb),
    (1, 0x65aa85691aee4e00fc38309544a5890cb087836da9f9f38f27b2b31029e9a47b, 0xd0fe06c5cf22d88fcb5479f7eaca12b67600d02f305dfd7ac450fe985d98ca6d,
      0x9120673ad33081df68b68a6ccdcec808cadad805fdc8ac277fcda98944949aef, - 0x16ea449b183540c2cd64a8fa7a59f4f8d90cd949f5a911532834202d9015c9e5, 0x285ffeda645e2f2f17b19984ebd1b9d035ede2f6242279facfac97f7a361c184, - 0xbbbf35929844110f22a56a1821a657176bfc2634b93fb9fcbb1996e8134d07d),
    (0, 0xff3b9cef794d59af663742705c924d25096b6e5d78cb79b0c564211264074ab6, 0xf0dd047e36490351d24663207d5017565a94bd76b32b366751d9889ee7a93cd6,
      0xc687de996ac38dd5971aaa2a2e735551441a078859b92e1aec88c3d64bb7e4e9, - 0xde7730b2dc37d5c4f9f667800e8412900314db6cd2b772b879f84e92ca06aa49, 0xfe77d086ca3ebe2cc1b0a40f8dec470a02b093d076f7f77f57adc054a8d1628c, - 0x1fc68aa8db240f8f83e91040dc0a0a24107c30675429969b0cd3e65be1f7a1e2),
    (0, 0x28d1a2346878b14458df21150493c1bdbf85720bade0927bae4da94df6157f1, 0x8900e877085727c1217d96bc9b011586b5fe729576717fbff4f438dc4d5bdc27,
      0x8d0c356e86cbf1b0e17ae6f761c928054722d0701f988b3eb730cd94d57ff92d, - 0x2a3e87c084ce7369a941bd8381512030094e0ef86d754b3062ff62870a4155326, 0x6822e5aa0feab6a2963a3d7494be15679766baa37e678333462317f35ac52, 0x108f70e28ddeebc636c0402a5c4d673423f8761dd7c4efc4acd2648b0bc73a7),
    (0, 0xb231c5c3633a4d5700f705351d2635f7b72cc9ce54b9cca358fe7c680fff87fd, 0xb3460a6514a08bcff7e1c21e519be467d889b4baf1b46c754fef923d8b66e7a9,
      0xe6e07d62d0de0b037fe0cce0a272df733511c938b60e5e4455ea4e80f750b3d0, - 0x179a178a6e1f54f1a7cf7da669bb6a0d53d27d5f5e1930920cc4de3aea620fef, 0x7c0940b1038f5bb6a4f5c0edeebceb900c790e2010968343b66babffb285128e, - 0x1d6c497a7942c5f4355a6719262146c6b33d79bee1e50fb371d98d98998acc39),
    (- 1, 0x38b417ca4cbb532f46249af4ac8862f278b57ecdf8cf3ebea4f9fd9657768e7f, 0xdde4dfb5dfca4fb57a8ce9ba2ddb2e52380942165cba4719d2a925b9a4ff6ada,
      0xf78d44a4251d5af7ca3ef4fce177626ffbc755bbad781c7ab0b12bd7972bba37, - 0xcbe249239a5049d7d97840580c8cc40080311120fd1774939bf8a41673f73c9, 0xc8f4919f843d57880bc2ef0ece8b1e83bd580bd9ad1c04af5a269722e30fdfa, - 0x970ba4d9c84e76c2dd832acdf59ee8f3fbf19eee56de4138d7726156c39408a),
    (0, 0xb7d7dfd2dd60ebc633df4932f165679c28f925b5ac1c11cae367c92589a57d92, 0x6d18e5da0bb638acdcf053a8a4c18563ac2f25e7a5fb7e11df1bee0c6bfa399c,
      0x26ef4d15f51b5bfadc9158bb92987ee36faf52bd1c1f26cd6fefaf6be261663d, - 0xdd716c51e542a17b543cd739e75556b61bf4d199c544417b7815c13aea3eded0, 0x8406580930617540324af705c7e73321130aaed62c7a84ffb7b6b26e79ab264c, 0x5100ed8993bdb87b04f2a3fadd12cd959af9da94b9cf3fedffaea03acaf0b198),
    (0, 0x75a74a2e990e1651dddec1e928034d4da24fb8884096c0933e6136f675561c39, 0xa2e971319e811abcc472a10c00a63c01b36015b9f4c903a66eee38bf78b69063,
      0xc9e48179584f643c3ac90f8c01979d80da43c28aebf1488a5eeb82eb428ee39b, - 0x67b1033995e20ed56f07653180ec93b1b5faf8148dc3f5f8acc5ffd21457fada, 0x36125720763189bf75164704ef08685a7370c43c4e5cf1369e9dfd2dc9d2bcca, - 0x18bb7a5200246f35da1a8c9394631950baf2af5241920841890392904cdb8589)]
    (0x1fffffffffffffffffffffffffffffffd755db9c, 0xa2e971319e811abcc472a10c00a63c01b36015b9f4c903a66eee38bf78b69063, 0xc9e48179584f643c3ac90f8c01979d80da43c28aebf1488a5eeb82eb428ee39b)"
  by (simp only: chain_eval)

lemma chain_21: "chain_ok 0x1fffffffffffffffffffffffffffffffd755db9c 0xa2e971319e811abcc472a10c00a63c01b36015b9f4c903a66eee38bf78b69063
    0xc9e48179584f643c3ac90f8c01979d80da43c28aebf1488a5eeb82eb428ee39b [
    (1, 0x78e4121c61c528cec73a1c573baaf5e75e0287f5d65da61a20ddb245ab1b8092, 0xc33e7ce847456128a1e5420c9c29f9a59cfecdf402abf91c9646651b82fc8e4a,
      0xc1e0e6564bedf74775347dd0a5896a097156aa603cbee27c66690332b6749ac9, - 0x1370da42db766dced5721bba83c212a29ac52581f87489f888e56843a76cc18d, 0x39169c2adf7efe57cd4e5c188bbef4b92321cf8f4b48a1aa337572dd91dba831, - 0xf44ab859e438fb32b39e6f574723cd15a073823529fa1b3d32a732126cde37e),
    (0, 0x2835932153b072f79e4c7e62b278c8fa650162e54b45fad45ff41a6df5f6914c, 0xb7427af8aaa5aac6f361ba9579a15db96c2941b3e1c7323f3545ac7971be0e84,
      0xf93038f3cde0603444dcf11b04d26aa0b052ba1d67d770c57be5774d15d640ff, - 0x181d156aab35cca44abc1d3799a45f39032fcf8279f47abd5924a8df6d8ea656c, 0x650c930aa8315704ee15af8ae424edaf2afa6b4078ed7a13ef4bd2a471f7e08, 0x1e1e25d1b982fa6c0bd6dfe186f14d0e72deac413a5d09717d10ddb4f221700),
    (0, 0xb58c42b76682bbc037885c1ed2f3e5b40131bec35ee4b6cda64a96de9bcfe6f9, 0x99c8f0bd11964531387514e34e0ffb4669880c4c2ccc6ecac90804dd6585332d,
      0x949d3a719eaef352d72eb9098c84bfe9d574fd08ae450ba0b801e19da4ddc908, - 0x28211810821fdb4675e292ef15477c8c951a7f13f95fe674b2fff529f19ef77e, 0x80bfa33060f010ba4987893a71a2a7c5d0488f8501182a5d1089db6c636b26c4, 0x14e714e22f223fb8a803a476f924caf21fd066e4f4a431cc71a231851dcca3e8),
    (0, 0x1f2f4acc43dae13959e540e71b296215e4e36b14f5e0aad4a57be917c5b674d0, 0xd79bf9f07a33c0a0185a7483ec1b476503ded449b4409c964c90a7f577c193a1,
      0x15dddafa7b4aa509670c701487a2a2dc913b03ccf25a4e1532e9294ae943f22c, - 0xf0f06bb6112e8c7d99eeaafa16c01132372e30c4868de168589767857b1f7135, 0x3cc7cda054aa72157dcf04dfd3602442db25f91e2583d566fd032c78510f70b, - 0x787f9ec3f528f9398958f383c42609381ee257fbd4c6570672e49b6586a8ccc),
    (- 1, 0x9a1b4b351a71976545db9cf18d4d0d993ab38ca22d3ac906534f821385d5406d, 0xd9d15a4c3449c319ea466c1f135ae85cb28ff0b94b652c2036407408321542cb,
      0x87c1d75cb1c7be1e3d5c90e8eb028a9d6be0681a17fa88fee378278952d2b09b, - 0x38814ca436f0d08ba973c3282e3fdb923a5c67bbe4ab95ac259a733e714f24df, 0x5cc4d964d71c669e4be2412ae6f9efa7c4431ffded13e26f8915dffb85f443ab, - 0x154583e702016f8b94c1176ab6a62d6e19093dd60d87c8dfafc14061535dba7),
    (0, 0x1d99561ee2c3ef21851d7cacb2ad51f830f56be32f8fb4b90e73a884b795d1ec, 0x87b0f116e7348a990eeb818e160c7ac687f34811e3f2598240ff5b35ffa4ffff,
      0x533cacd042786fd9899b7ac1018208be9cb2e6410344484fa3dfe814f6513649, - 0x20c993707d70db7c3227017333a28b1efd39f4ab54c5e1d5445cb5676b82ff74d, 0x36c195b0d44367701aee4f6850e8e4209a290b880201fbaf27e88e054e21df5, 0x97edceab67a2d81bc1560e81e3bcd5cd08c304de46783b1d70d92220384f294),
    (0, 0x9d5f07313eecd9367cf3f9a2a5d3a6d759fb70877d413e70b0313994808c13f6, 0xd59e43ec0d288caa21e3f266f4fe0d0eb5e667e0659f6689142622eefafd1dd7,
      0x593d3e4d81eefc13c5663d8efd0ddbef4149713d229bbd2679051c46ae6191cd, - 0x716e120a93785898c68072d3eb736d6edfa9e637f1882185ad0cec3dbcdf34f9, 0x60bdb218bdeef12025b7b34d8c731d3ca3ad6924083a4c94cb4fedfc828697a1, - 0x2fe7790ef037fc9de9bab82666565334a8906f3409478a5afcd05c346910953a),
    (- 1, 0x86ba109e0b28fa365fc5faee1cb320148e0510f2387acb8fd01d66563b1dcdfd, 0xb6f0001fe4f5ffcec3d77d137743b962b703325c4e72258691bf7f0a1b66da77,
      0x72193e0c7016e5ad9b3fcb618de126341f99b5de4ca69c409f085ea848eec431, - 0x3059f484af5c824bc1e03ff2e00ef52d4f3fc747908334895bdd53cd3d97cda2, 0x46e750a19a6b4073699ea188b193eb6c0dfdaad0c60f5bb533a0b015a6735e4d, 0x10258417f480ab1a32b00556b3b64d0181c857f5c8d6950c7bb86818eef21bbe)]
    (0x3fffffffffffffffffffffffffffffffaeabb739b, 0xb6f0001fe4f5ffcec3d77d137743b962b703325c4e72258691bf7f0a1b66da77, 0x72193e0c7016e5ad9b3fcb618de126341f99b5de4ca69c409f085ea848eec431)"
  by (simp only: chain_eval)

lemma chain_22: "chain_ok 0x3fffffffffffffffffffffffffffffffaeabb739b 0xb6f0001fe4f5ffcec3d77d137743b962b703325c4e72258691bf7f0a1b66da77
    0x72193e0c7016e5ad9b3fcb618de126341f99b5de4ca69c409f085ea848eec431 [
    (0, 0xe4d6753800c65953da70514bb94da9e03189de16c9fa3086112d99228ef1c1ba, 0x62529da54351c49215f27e8c5278e7ecff2db822894ed6a5e0aeb4d54f8d3a0e,
      0xcb298d0708d0ed8493e09e772c36f034e071e649470e87295e50f46582028464, - 0xbc324251dd29c8e12d4c3f93cdb631547045876d5e1fdaa0ddc2a257901ca071, 0xcc8eb473f0aed7b059b7989f55003c08a3332346ba2369543b4ce844a2ae6458, 0x4ba30e03fb2a89ff93e8bb6d7cbf42bbaec423fb661b3ab9f47ff54f9e5bb85b),
    (0, 0xb25b45c9d1888fdc652a39c4c69383330a7096d97cf830a96872044ab68b58ef, 0x307d0c4b44416a0fbc29ef454508324c4737af99808f2b9c44b28f49fa7cc224,
      0xf8ad081f69221c63efa507b01b916d04e92a3f21e973569cc1d6d2fe6cd5feb5, 0xa9cc945911a118f7819de8dfb2d7ee2349337934040dae98ff324db6a74d2754, 0x7c430d9757e3493314dd9eb95daf7f517b92d927e43453f104253aa9699dc7ef, 0x22b8439117fd5c485f77147cedc757230cfdeb6fc44c00312e7d8ec1a5b3cd33),
    (- 1, 0xcfa74e52d54b5960e255d66aeff17b96874fa000bfa967c727c012ec7d00cd42, 0xfdbb79ce227535051be9c6540478d381c38061f1d637e04c80c4bfa4f83a3bbc,
      0xbce1b61af7e12c2e4619026021ba47a525716fbb70a87a69af3e8fc5b0806, 0x3b6bb7fb4507a4fb40bf3d0dba976759a117de0ac98f93854db44d1e59d5c7bb, 0xa86ffe013cf8b7a08ae0e1a4b3d010c958bd7b14d61ac8687c984999cbd76a34, - 0xa67b9d11b06922951c150a7d1a4e8cb82f5302037ee6c6849ff6950c08f7c505),
    (0, 0x970c455202313c987e004ba7b49db651abf429b9aec412ce907bb08f4fe11f63, 0x12ccfd501c85104f14ea3f82f200422141723d023829882379303aa805aef0f4,
      0x1b4328514b349a359d189d2466f4620b016182bd0d8bfdeb36d3fd710772b0ac, - 0x2f26659dfd32a5e9d6f5523b9d9b8c475231bca4757fabbdec3fee0bc740e8c34, 0x591f7a5d510b998d8529fd4e7273eddbc0ad54a36355e29a9229a5cd3f100db3, 0x8a9dee39b55dd11b5e0dfcdccfb00f27e99a6f2f36c200205f6dae9222d3383a),
    (0, 0xbc1f834adf3c42bbe146c8c3d35467280b791cb0b48a6177b8216e77b35688bc, 0xb09edbf8a1e670c8316a28ece332b34474b59b885abdedc2df013a2d37cd0980,
      0x9df822b54e2b837a8ba8319564f929943ced734cfba8bf7310a57ce0541794b3, 0x23ecf225f4c0fdb8b34c9878ebe48f4832978aff418155e2661690533958c010, 0x8a3e4cb7075848f99a2d6da39825f671040f2b2e149ea24244927166087019d8, - 0x73f98cde459539e3ec6184b115fe0f5374524d7c0fba96a0f018315aa1985001),
    (0, 0x69c7268a22d38ac448b5d4da59aa1263f4e36fe3a979d8070bafbda702f14c96, 0xb3ff7dbe23aef501216e12f58329d8ab351d9dd68d837ca66c78781e5dfc233,
      0xdf4672574d4cb783571e1cdd391114b5dc8343bbdc9d5eaa8318c3ca4733b863, - 0xeb051f4f92caaa513ae4bdaf407e3513d054c7257822ce59aebbbb5fcfb33284, 0x2bb4f88a4120f9971ecef42a965794b0136be6fb45a27fb25fd8a193a005471f, 0x445491386e78d38478a22e329f0750e37cc403733c6994529aa5e24197d3e078),
    (0, 0xefc098f9b579deae6d9add81e6ad34c16f3269b81f2e67d38db6e7d5e17bd89f, 0x91a920511bdb2216e9651f3c689540433351fb05527dc4ea95201eca7b8301aa,
      0x8bddba7d4df051eabbc4bddfc0e044022d201a7e4c05c92a5a2f6b0c9c798c53, 0x1a0b9d02745bc1f183d5f916cfd50c2c00c8ff901f9404ec8c0b2ce4f476804b1, 0xe0892e8812d33faaf6737244d7722b8195f9e4a9cb71e522f074f9b80c8dcd1f, - 0x7de14bf5544e1203aa5cb7e8854164f5abe6405e24e4c47d497d2be32f418f91),
    (- 1, 0xcb2234c63216d431e1f3ffcfb9656f0edd2bfc52c3f5ba2b3207d040546d15c5, 0x3a41b097f3b1f47679b8ee258ed73eab4bfe769cf27ebcbfd80adbfc962c2591,
      0x668b37a247a80f04a38fad09398aca9b0d04e52bed2cb2ea204e678c6f1737aa, - 0x12fa537480d5a0b82283c86e80d9fe4ee803b332594efb0ce8cc2fb9ba5e4561, 0xa12f444462f6a06244ea6a64ad49038893629c52ece5c5f882a0b9178532521a, 0x455ab359573c012c2932ae6ec5637c58f0dc882e3d699ac9a78e1dbcf5218bc0)]
    (0xfffffffffffffffffffffffffffffffebaaedce6af, 0x3a41b097f3b1f47679b8ee258ed73eab4bfe769cf27ebcbfd80adbfc962c2591, 0x668b37a247a80f04a38fad09398aca9b0d04e52bed2cb2ea204e678c6f1737aa)"
  by (simp only: chain_eval)

lemma chain_23: "chain_ok 0xfffffffffffffffffffffffffffffffebaaedce6af 0x3a41b097f3b1f47679b8ee258ed73eab4bfe769cf27ebcbfd80adbfc962c2591
    0x668b37a247a80f04a38fad09398aca9b0d04e52bed2cb2ea204e678c6f1737aa [
    (0, 0xfcf1523b82f29c2de448f6d989ac55b2df8473bf03b0568f47ba0ecb0bdd77af, 0x6981aec0adc4022c3012ac6185a0dd9b0958d134932313d276940b9dd9ef8aed,
      0x1a35d4f9990db04c2ca787d4e05cae9bc3b476c30cc76f67125dd5538402e8e8, 0xa2ddeae7151e1e48d2f1fa6096dbf3ba31dbfe0a771a0764d6aedc7251114f47, 0xf9ebfd6118445dfd72b4274d464b4ec3fc58f88543f4492347e3379dc556c70e, - 0x2eaf889bd6d4d5dcda5e63873af5fb11af3cd69e6dca822c09b09aaa0cf4ad6a),
    (0, 0x490c1ce453ca3fd42de1dd36b26e293a111b987c7deccac16fb161186ca125a, 0x7b7dc4ffcbed4c10c76c29bfdf82718250ad3be97b4d778dc31d83418e89ef9c,
      0x4d912e38840dc7741fe45a0714d09ea588d49ba1d98c2216cd33174c44b2e5ed, - 0x8183963c1e880ca984e390f9a7ad566b0074355926a0e81789a0741a5c0698d5, 0x14d7e90cf073f15697b3fe7d721c8aa0aba6fcc41781500b8ef40136424f32, - 0x521bc30a764d820fcc4bf5408fa5dbb82ccb5f709a8e5e08e5104f7f4c3595),
    (1, 0x3855482b858ff0489054da3a871a0829ec1abe06156a9c76d133a74243635ec5, 0x13dea541142fcb5bb5900f4bc9ef2d44c14546438631805e2267cf8d875930d3,
      0x1a6bef85f512c47681f5651d2912fac5815ce358c428fe9938be9c16bed02c6b, - 0x6271b4ad5be1707a2261fb0a5d9405162c2e0b588f4038b8ca3e43ea8cd951, 0xc656bfc0bae2d3c6a8761fc75cce3410284db3879d28eaef6c4820598668f0e, 0x16cd53fda13c5d6cdefc4a5345c2af3672cd239964123c6c8395b15f15468abb),
    (0, 0x2e293dde18e6e71e43395520c05773ea44bad530ab495d611458e2ef46a7707b, 0x1c3f22027346472faa1ddd7b1ad00e22a10cb302ae191c0fe7514a34660a7987,
      0x429e960a772acde7e164e0fc29e217957dd4c24443846dd0510bc8b9ded5ef95, 0x4e6e2ec13d7395e84e553580a33994c1dde6569c9bac87898ae22c2a8a36399, 0x852d8e0b10a8d9224e38314bb417602fc49f8974be0d94349e642b3f50f27d4, - 0x182afe4fc452225009e4f076fa84c46babd634874fa9242f3e85873bf539244),
    (0, 0xb06e1d39763a83a57fb67b677d4b44e12d71299c9b00785b1112809177da5c59, 0xdb7c545312db194e8c651a291317b7c9c8ab3cc48ab0fa9ccbaf1b9826fe4907,
      0x104503edb8425128433e33ec9dc1368629e388efe06efc5dd77e7e1b49eb316b, 0x5279c0c64a2cd1d83831c8a2adb62f501a4a327ec666151465c0369af634eda9, 0x7997978c234820fbd050c7df0cdc76039ec20ecaafed76c324de373abdea8fe4, - 0x83cc54b7e80023d56b319aaf75cce03370be156ebe985cac3711d4e69a0e6380),
    (0, 0xb4a04407ebd4b6a776a7bcf22e2391ef82fcb38caa323d9d88f6b064243137c6, 0x95c65a08076f8d8a4800dd9725a647fa11b5334676bee2d9f514f40212559943,
      0x51298cd0f9ebedb7936f3ca5e825fc7b6b7365e75af348a2922b55276e287630, - 0x21d947186eb716e0008c1192d40abfaa3837d882553123bc71a16198829738321, 0x7f71c4003f9e2047901b5fa8d4afb468bf61f78f2f6b60491897e97727e7779d, 0x312f983fb19c81c65f6a8bbd3b711057f708f5d9c6a4c49ccf80512ba7831993),
    (1, 0x3744b45e624b5e48ff3377f3c07d5a48a62ed058e0e7960d23aeab1b85b0fbd3, 0x5c6d3f275f8586c9f9d495a59d6519eaab7638908e6dd2e2617e9ecedab10268,
      0x662779f0687cf46f8d2d7105a90b7add59950e9f9e4fe60aae55b22f8e5d924f, - 0x60d3b2f0f3d3bd65f73c82864cdf108fbe4bfc2998a9eb7147fbc7e077ea4d7, 0xbee97f0df757793c61d5fbe85919d4e10a9adcc36a345c069a8ead28477863a, 0xc6188d93362b4af42c0172dc00c388b79ff04dab1abd2a4709d508af5963e9e),
    (0, 0x4287ac902cd67c7e2ad5bf1085a4583c2156251d39355ae4d1eab8ae366e1da1, 0x157992523f500d24a0981c07238b5097fdc7113ad4b7850c48e2513adce9fbce,
      0x64b9eebfd9dba130d1a89bf7350985589326813ef813b3256832a54357d1b4fb, - 0x2f0379cebdcf8b01862dd9ec8dad644fc82f738f0c8d1c90f65eae230c92023e, 0x114a3ce1cb7fefdb0b9769f32fbe65b5a04a7c6b584b4c1309fba8e49241a3cd, 0x12706ce2c44f82fdee3acd5fd558c6fa97961079b1e71d2c22caf15445069370)]
    (0x3fffffffffffffffffffffffffffffffaeabb739abd2, 0x157992523f500d24a0981c07238b5097fdc7113ad4b7850c48e2513adce9fbce, 0x64b9eebfd9dba130d1a89bf7350985589326813ef813b3256832a54357d1b4fb)"
  by (simp only: chain_eval)

lemma chain_24: "chain_ok 0x3fffffffffffffffffffffffffffffffaeabb739abd2 0x157992523f500d24a0981c07238b5097fdc7113ad4b7850c48e2513adce9fbce
    0x64b9eebfd9dba130d1a89bf7350985589326813ef813b3256832a54357d1b4fb [
    (0, 0xba3a1732d8f416c8d30c483abba55c6650234c26cc68ee2b4b5b9dbe94eac59a, 0x3e6fb8825fc86cd3ea21f178c80db94765dd94e6182b9ce70351d54613a586fa,
      0x75474f302f2e26e1040450c5c21ee4bb4cd61198ab848778e195e21ff75d3458, 0x8d246238f874bdae4fcf75e8763862b820f99b05eeb31f77362ee819c0829050, 0x877876e468672ccb78fb46130e0e40f8e83707d69bd15fcb5a3096f650add552, - 0x1dcc2339deb757967bdf9293914e502f66c276ccad7477cb147a7a4f6904e525),
    (0, 0x37775d936f164f8a84a47a9fb920758d15245f8c54c93178d1c4b5cafe4aa748, 0xc0345e6a332abc4c820ac910821ba56f7b874ed568db814148e83644e55fc8f1,
      0x83cfe84d2e5cd5b3cf8f1eea5ce40a12eca67352bc7503a23795350b9320ed37, 0x52317ad32f87b39379e368675be05b49f56d0d716702108fd9738f5ffdf2b2c, 0xc0481dd7b01508a716455fa5b93260c78a9925e10833e3f5817d3d08b687a95, - 0x1c1dc17d19ad70d69f089ec688d3a80a3aef56dcc4a5e8e0c3d9bc0495d5bba9),
    (0, 0xa4a58801d8546d2f02a4050f921dab5916a5a5dd44176f76551f3edbafa49fab, 0x32010f12c0902955acdc75b3e601a547b3212691c645eb0f8c85a4fc94766b0d,
      0x55f1229b81ea9c07076323ec016824b167ba9ecb8c71f03103c54e041497f773, - 0x1075ef14e3c08d81a28dba45c08b1e06f150a22869e2b5a407ffb539219a28c27, 0x69e4814af7cefe961574ef2dedd08836ed7f78bbe9d0a70ae074efeb8d21f0d6, 0x5b74d172714bd86e31661e5a019ca28bcbb48ea45952b7bd8d7b39bde96048fe),
    (1, 0x55a917ba6b5d45d33ea48131d175456e0b896ca85247cc49de12458f2b48d505, 0x15204ba630e2530b643e9ad6385e3ea18bfec0aacf2ec3343225908e36b9bd55,
      0xf705bbce0ffc5d3f8b787ba9c763d0e2aea597d19d0072d100929c4aff705f0e, 0x180140abe5fac4cf1d77936b71bf556b78840db303a307c719815e384b17a82e, 0x1ca9b97221a0b88f6b9e7990a405b292b3474a258aebe6ce4b0ca3dd67281d11, 0x9a9b3f14758c6e7eb30e6309231cdc8a4ba7634f37aa5f91364973405a1f299),
    (0, 0x370e8f0214178e23448c3e2d2bf282e330be2f2967a412792452a0383df0b62f, 0x3b8cb57bbf18b91d243d6cda29af58475e530eb2442bee4dc6030820d9161ec8,
      0x3a67030248df1f93ff202a5046f8ea0bb9ada2e37b385cc681f735929e441118, 0x65059ddab4513b38085159c47b874d0de5eccfc73bdd33ee5df49489da2f27d7, 0xbd74246d8bfa41d560d11905171d2632e789e105087f2180c99f74618926901, - 0x8437a218a36965a83c5c21dfcdc93bfc3b305231bf3e2d9a481ffa8628ede2d),
    (0, 0x50cf9a814a661783423db02e4a5e06e785ff9a267cc04fa814022a9de2273796, 0x31ef101ada872621f7cd15cbdc5e766964c51424046e0594875a7cb758317cae,
      0x6739b90dac8e5f1a4a9e50e5029421e9e9551febaf3b80485c82370d81cad5de, - 0x4af6002e5a4aa1e94727092dbd0736a11603bc9a999265f126787dd8c7f6560, 0x198268ec08d5ee9af4787a29748794b70b0c139d925c6c7de45e73fb2e6f413a, 0x3090ff4b17e56771573a4c48d28a63b53c82d396f8f7e398b518f54039fea9a),
    (1, 0xbd812c5cc435aadb43c291fb04112777d6607f416d48ecca063d66c94d240d4e, 0xc0e4e84498489a714c6b7bfaabdc4116de4db0f226e138551bacff0b553ebbe9,
      0x48683e0b9f0d0b9dc14231f638899be10ff716313dffd4d3871337ae0dd8a5f3, 0x35284eb41bfc06e435eb0c5ee11ce9ac95e24fa86c2785f95e50fe8431491a2e, 0x8c47fcaeb6e5016e02b7fb6749969345c6169daea9e071af556d3df5036ec77b, - 0x69d3a33ecd337ec708950d87753f99c7de93ef4ea2ad808fad406c9687367425),
    (0, 0x15ed51763216385857d89c815309ebe43b35f69a834afdb5cb1b2cd34ffcf80a, 0x4d2b3516ba0049854e67d41695eb8ece643c93d17e0994ec139bdaeb2936827,
      0xaff453544e112f0d859b53ef74bd999079ad82b5d367e4276892c886635a4418, - 0x1a7a121fab6bb34b2a2c65ae5af7729b35cda7abe422b31021f6d108b61205b79, 0x1e0cb5d52fc64a717ecb9b74bb3fa1fbceba4fe302a8a0736405fa6d5884485, 0x101bd70b8fbb66e2614942cb176221bf9c4a05c7da5fc3c672b3d729e1072dc7)]
    (0xfffffffffffffffffffffffffffffffebaaedce6af48a, 0x4d2b3516ba0049854e67d41695eb8ece643c93d17e0994ec139bdaeb2936827, 0xaff453544e112f0d859b53ef74bd999079ad82b5d367e4276892c886635a4418)"
  by (simp only: chain_eval)

lemma chain_25: "chain_ok 0xfffffffffffffffffffffffffffffffebaaedce6af48a 0x4d2b3516ba0049854e67d41695eb8ece643c93d17e0994ec139bdaeb2936827
    0xaff453544e112f0d859b53ef74bd999079ad82b5d367e4276892c886635a4418 [
    (0, 0x9f0934630df8621d6a3c6c02ff916caccb0616bde61bfadbe8e0e5aed2afa375, 0x32f44a983fdfc81f9a4446b0aa6d39a2433544bc32890e8d9fac2d5a51a0695c,
      0x142054a4949028894ae64f3387f36615d713404186a4ff8e9541ce5a056e53c5, 0xda585da451482e10e7434bba4a1807cac12e818048b35c768d0197dbbe710d73, 0x62cc6f67c509e95826c3874943abe01e1b34e1a7a1515277e29d0f81dd615461, - 0x1ca88593fb8d6b173a77aec24ac38ff2c398b4dd4bd3e44dc85017800f04c9ca),
    (0, 0x7e719a2b2ba07ae6d322194e523da6eea7ede79a3be1ffb3fc12bdee43de1167, 0x8852100b59f344a5da2462967a73a86424fde8eff20521a1cc77cf49f13dbd95,
      0xd2fc2602b0d516972659d99fbee83123088fdbc8cb6c5e400f64e1e31c72bfe6, - 0xa8b52aad7a50b52dde6510647f2020f540883a1a4e85e5826b42e9b87c5f576, 0x3e74062bf5e6746c7ad24276ca76367e9a9882be252bd2bcc28a08db37efee1c, - 0x2a2a08fb9cb7c5aa8af2a7326dcbdcffb232be3345a530170c43b9bb492b7186),
    (0, 0x6041ba759eb9a87f0bf848fa65af818d3fcfffaa0c80943b90c7449163936b3e, 0x348ed1709ceef43fb91b6f2100f419c3b906c5fa564f4e78a2c44a31493cbbd1,
      0xbb0c5e0d14d4a94f277185952167db14b94d9104e1949125dc8456412f369a02, - 0x3b1c6e296e3703eda44455fc694981d80e9a4efa1ac61395aab1c79d969449ad, 0x24315cb86e94f9571a749ef85fb69a9f046003c3c7246378941a9cac430c3547, 0x1f7eb90f43d2e629ad0c2e815809045fcdbb5412fb43655eddc787db60c94570),
    (0, 0xa6a11f381b330e0eceead13193ca089f4cdce3ed7c19bb361cec09cf272e6dea, 0xe95d6e1c9fd8291dd247b53962d73f534efcbc59d8d81b8fc63a7e19d133e390,
      0x5df18b5af183919b4406866aeb31e093d70472fd950a756745e949c574840571, 0xd3207eddf34eccd95264eb1ef785ba40e78761830b8b35f5a8d5e218682b644b, 0x6c7559e50ba70f55299a56648bbd07f5cd440db3fda5992995b8580d28fba5ee, - 0x75afc594b772008a41004134f2eeee395630593282bd2e54e90007b6fc7d8a47),
    (0, 0xf46c2f33e3c1237340aa05dacbfd10f83f8c6aef5265ffc24313453af50d9f95, 0x28d5a32e04c63c8d89b67e19f92b11fa1875c4c0ebb20c458ad3b3142b4a2bdd,
      0x27ff550a06dc3cc2b1dee4b81dfde2b8f7c27566c382148a051a0dd0d9d010c8, - 0x1cacdc58429b1128c6c0680bb762b3c1adaa6ef6359f5aa68ce7197283d3d4c6a, 0xe95e67b2c6a46eaf111b32dd14b8f0443e041e70cbf2248c2463bd7f3bbec704, 0xb7d2ca34fd0f670550ce0ad852c4d5c13407348db5c495671a7872c51296b1ea),
    (0, 0xddae855b43b0804eef5626ba19b0872ade9f6db236626d5f6b712d8485de4f93, 0xa865051d205a77590fcf7f8f8086a44b77b601032d8a5cbcfe8906759a502a18,
      0x22762d113664ad234f22401711c6efeb3f655d46416925761d89e44b34005ad1, 0x31bb01c0c042acc72f4367029559d26982bd7e3603aa51474a132a14e27fc7bb, 0xbff6c9392066b6554b3b31a19ef1d2befae9edcabe8e79202ce613f11d1bd419, - 0x6e75bd72f2e737f867d94e1a758c4e48f6d8696ead71d6fc0f41989f232bcaa6),
    (1, 0xcb8cc9e7e1610e7ae147495b1cb99346cd16d1fd1a824d2174a96dcdebcf443, 0xae01f0d426ff656115d042d446ff3baad097c3a137ffe0d30a0dac7da84cc96d,
      0x75f05a81f160dce90c9014ecf4594bb3f4e46fb4247d9825e29927c1943f75fc, - 0x2517c7b13af82eb0a8cae8d6169dc3cf0ba19fe2e8e6858d621a90bafa41849, 0xa1d895a3344c6111a3fe4c1334fce2aba89fb81cb500f0334def1350913154, - 0x476852854f8dd437aaa45ccc028323ffa94e04d66160b3485b57d9c33979b4),
    (0, 0x6eb0a4c6654101fc19a48b24493bdc36f8b080c3adf635bd66af6ee0b562f30c, 0x1914bb41227d9d6ea810f4704cccfa474f0083adb49cbc1c19a424d921f6b806,
      0xb3a5e9ed076947740321ee942882bdb8d11f5d2e9f5b0414df5e30017cdd1b60, - 0xfcd69a159c84afa09237ef72ae294872b9d49365df6268d98c42eadc232b0a55, 0x2fdc477d79dde29373d318b7ebe6a95315dce61f8eb42a148f71557ded438150, 0x4064aff561b3e341730826bb3b7bc7ab835437fcbf60417f6c3ff35b7b0b4d08)]
    (0x7fffffffffffffffffffffffffffffff5d576e7357a4502, 0x1914bb41227d9d6ea810f4704cccfa474f0083adb49cbc1c19a424d921f6b806, 0xb3a5e9ed076947740321ee942882bdb8d11f5d2e9f5b0414df5e30017cdd1b60)"
  by (simp only: chain_eval)

lemma chain_26: "chain_ok 0x7fffffffffffffffffffffffffffffff5d576e7357a4502 0x1914bb41227d9d6ea810f4704cccfa474f0083adb49cbc1c19a424d921f6b806
    0xb3a5e9ed076947740321ee942882bdb8d11f5d2e9f5b0414df5e30017cdd1b60 [
    (0, 0xac1e02a703bd8a93b2db8c85f7ac70c3b53bcd4c94987a57983fbc4b5a5d100a, 0x44ad01a3bd3895d5b1571f99d1dfc09226cbd53bc8b77c444a072fcac49b3814,
      0x9f648d56dc34210ae0a67310cdb2a858e4de0e485fb332eb88431c560e0b282, 0xea31e630c93b95004e2778f4eed1958493799a32d719c0ba5ae94373532c052c, 0x73b857150c329ba7ca78095d1c24021d785c9fe5e074a07b278a4fee0f8cc6fc, - 0x1d4f6b962109802f17aa579fa68caff623168b720e4281e52bd91732c76ad6f2),
    (0, 0xc482786c25d5fd584d48080910827d7294258425db3b5a72dd6161b0da195533, 0xfda8ad67869d26caf3108c6513aba3dcab966b9a07c47395e1625766e9db8ed5,
      0x56fca0db9cac712599ed1739b68946b059685935d00b84169d93a36428417a1d, - 0x27f9d25683a59fcc160e48e6f7bc9f4a4ff15df019b16747bc22010bf558d05c, 0x96d80ae4206baa6d13ace285dccaef24b58437637820f8b107880f5449534294, - 0x8dfef6533da481573a5ad7f1cbfd73a872c41c70342a975a5e3d5b06473bd88e),
    (0, 0xde5971e7caed1e1a33202f0e34d034130f711b0228874bc2328517f5f0919b93, 0xaab770f5c4f9092ef268fc8ac277dbb3c5183507816491d689c3145a8ca966e4,
      0x5dfbff5f9a727bfacd079f4b797d5e61ee4b64018915de2e0cdfe9986ca63865, - 0x25ae9919abff7255fdf97e71aae8bee84f332b151767713a8b99b65c8bd70d133, 0xc11f40ce69cccc198c3de18a21d4e3dbe52ccb41b927fda802a988728e0e7e15, 0x480a2d303e9391a23a37d60b6749f750393a3e94d6f7d6aa07255aaf90acc8ef),
    (- 1, 0x94de1b62a13fb94b31c34200a8203819a5523751338859763bac1580594354e1, 0x569997824308e2d37bb640eb411065f33a6d24a11b5c0a2282c653e85e6c0dab,
      0x6bf4242959abd91b7675ef1b455fe06a8bf1517987221fd56a381227e874de01, - 0x1c7a7740e2b9d8911aee191f83c0ba377207e29da630dc25ccd3474a08484f81, 0x5691905d8c6f4cc79b6503f5d2ab5fd82f67610e8ff0083977ed657b82c1ef86, 0x30ea3c98e7a1a756a54ca70170bc86b1e08a7b5d0da6fd99243b610cd0f046bd),
    (0, 0x40516c4575656e7e08caba929e2cdb17434a15f0e0c560db36084174d2b0352a, 0x908e50a6800f4fe066b6e23017aa327bbacfafdd10c4c7c34f58486293cd3a1d,
      0x65bf501555cf23e5ac3e877f313cb1eb8eb2e0f4b6dc70dc5386d3293648c944, - 0x21a3ebf1c7195102aa5e280d266b46bc4ef85b76ddfdc2eab6a93c3b3cd91e59, 0x1028d0086c71af5503e4b41ebdbf9a897fe01f49a0ce465f2f57cb2a8421805f, - 0xe8f9d3a9b5de9fd2fc19bb2c98d8d9651ccd2df335e1b7f443cfa1d6e4ba857),
    (0, 0x81337f491b421a272eae9a9fa15c04b2051f83c553346b8dd455a58b813e5244, 0xb724d96a375439ac5191464756cfad8288d51f4216d823382e14c2cf4777b3d1,
      0x6ef80e3cd55e5e336bbef409c613d33aeaae6f1d99df11f45e1d59a99a96c846, - 0x8e2d7f6d4f58a52edb6654a6fbb30c9573bb525dbbd963a41301461aba177c35, 0x4134f0a3a3e3189e0d355ea61bf07aa8bab278794f6ea825b04657bdde2f9c0b, - 0x13799e1791392b71e04043a769039eab0265dfd1c8e2e933c9db377613d44fc6),
    (0, 0x4daf9e6b8da1ac05ce09a71d6dd33bdec1c0aa06da4a71dd4b99776a9eee2fc7, 0x353ebc84cbf921ada170db6f15e9e3abe51d67f924cbd4fdd19df62c60967ccb,
      0x110972cb7452e7477f74739afc28f18ab229043daa5a7fb3c3e7a0cdd5705ba6, - 0x145b7a35fad9ec54bdc66e1c8f9968dbd52559184bef7e06788e5a47876e1f121, 0x17931dc6ac47d487f1b9f4808c82d633b0583ebfb9d882056875e4575da796fc, 0x276b53615b003c8f2fd4d4b50c05fca7f1bb5b7af6d0e278e105e091f24fbaa2),
    (0, 0x6ee32adf9bd905667f6e3c993ea80794603e47b190ab3d884da71f04e5688561, 0x271198c3cb4e0b3a4d127112e159cad0fff0b92b737608f0bdde83b496487652,
      0xeb422c9f301c4ce219507b240fed9f4e8832164beef8739f62eb681a4c7ebaa9, - 0x1276c12f3d2b311ed825a10cdea5eff6c69523abf0ed3c64e389e821b3af9411, 0x3008026d39ab05f7c20648799dbe1053a662a0570bbe0ecea05ce108b6efcb77, 0x623f9c36c3e43cbd5fa86be8e942f48fbffb19fd238adf64cd9a576079e3996)]
    (0x3fffffffffffffffffffffffffffffffaeabb739abd2280f0, 0x271198c3cb4e0b3a4d127112e159cad0fff0b92b737608f0bdde83b496487652, 0xeb422c9f301c4ce219507b240fed9f4e8832164beef8739f62eb681a4c7ebaa9)"
  by (simp only: chain_eval)

lemma chain_27: "chain_ok 0x3fffffffffffffffffffffffffffffffaeabb739abd2280f0 0x271198c3cb4e0b3a4d127112e159cad0fff0b92b737608f0bdde83b496487652
    0xeb422c9f301c4ce219507b240fed9f4e8832164beef8739f62eb681a4c7ebaa9 [
    (- 1, 0x1db62086d2280bae363dee77836ad59e0bfed1fdb0180fdacdd7f5cddd26e6cf, 0x4c101c13f525f39482ea96fe4ebea2659213d89039027558d3c310d1e60a6cd6,
      0x60a785ea66b156194b162f57fdacbd5acf395c4da01581916759247e44835607, 0x99864a99b6308c3f2086ce0654ae71ecea85c6d77d3c41c1de9f3f9a74e1ef5, 0x372c4f0cf71df20c55ca973e21f941387d0e58c210f029d13e2df466be9ec2f, - 0x44b2684bbbc872eaf9ca556f0f3c19975e29a798e219c18c5d6922ca6f22254),
    (0, 0x1900957ab1c62a54d064b1d854f42fd14d64c316bfcacfccbb5073278cc6d4a0, 0x75b9551f13c6ddebcaea842e526beff2ac5866087d930b41b0917fb2c4d1c426,
      0x69340f0f923a65e84968ba5d3710d2354edde0967f9540ab6d78af78441920b8, - 0x30eb8c06ad8a399a2828e818bb97e1b691022557227e5bb7416cdd7dad43ffd4, 0x2711d324e00c2032a4e5e16e1f49096cfb573fbbbed2eac91fc30dcbb9a8b32, - 0x4119ee58bc49f3926afd736872f8b975d1f30737a3c5bd4eac62a5546b68871),
    (0, 0x4b9aa67f5d122cd5f407198a72c371b23b17a20998fd57407e3c752f686252dc, 0xbcfa662d89f7da55e8042c049e4f08401227480ca47da5790145b5a609e9e35b,
      0x3ab64c6029004875bc4d5ee4b77ffe739ebc73954453d886546e8b51ee35a4bd, - 0x64452da231cbfd5dae9abf4d6d174d68a8f44a4a672d710930c387d24056ff14, 0x1653fafb5e0e0c345a69ec20f73934372a7ca9a9d1fad885665e5b07eec7bde7, - 0x150b1b7b2391fc7b8447d3c0039bed61c531bfc1e78577f537f7c627fa0809cf),
    (0, 0xdc9daf63f537f348ad194598ae0480c4641e8a3c103f36df382db1fa4287e92e, 0x7135e5af61af0fb2eb50859bcf60ce17a06f5839f521d80f7d346624e542c236,
      0xd8b542921ec6fa9e3f3a36675d7030e0dd336388a24a2cf097a509949cb50d28, - 0x13d5089a9cac98f021e0a8a9fbb47e0a281d08fafde5570899a6e6e19d55f9611, 0xbe1f6694663cc10f636f6b5fc2cf8e2a2e90f308ab28168cbb808f53dcc16c28, 0x414b89d82164cf4d0dea9fde8e5edef58ea85fa3264ea0c04c1edd7970a0270f),
    (0, 0xcfa5bf7570bc25f4bbc9b00fac3ea75055a13f3190124f9432626507528c15db, 0xa4f7192504cb0bdedf2c7fd61f95005af0b5a3dc45e10239fd5c8fd87366cb4,
      0xf65a1a5ac9783597afbc02462ad6ab807afb92a702e8c80d34a331fedbb27538, 0xc95bdf1c3538cc3d5ac2f16e5b32af1cb59cba4174ac24d6d51bfa83aecef6fc, 0xa86d76f048e40c03b36d4a1ed1389f37a3d02f75d29da3372b0ab85ce722f017, 0x5376f7617d0ff3bc4e725e46e5395def0573f9aea0e1128e75c39a881c74cc0a),
    (0, 0x6634246d4ee908374359e885d8a45bf4d7e5431c80d72438093404d17ecb459, 0xde7c5ce7010733b1a3a1895ec7a3e1df953a8415858de3cf93e455490b01acdb,
      0x4ee82d3a645ec895e7209a5285227efd108eebafcd3714b9f8845d5a2e85ec9b, 0xb0c59e74174ed60836e926bfe14dc3e5bcfe807abeda9c816db5926dc8f9ec0, 0x28cd97a5ec78ae15353260f364df8673a1e08b65d1a400c10aa1423afb18b2, - 0x54b51d14753d255e6079b828e115645d28f1e8c72e24e1b46d8b9117504783e),
    (0, 0x417f0cb3f44a2338ea7b03192a209625b1a7a86700fa2738e638739270143ae7, 0xabda2f1443a8d71097799f42e1f4390987802963fd8730babf05959b3cf3ee4d,
      0xc94acd0826eabaa36e584934c9f57d56848e47b8496aaf2ab2260bf673b93976, - 0x21bb38f771b6c46563116f2c05e308ae004529b47041052115f5b3f1312f5bd7f, 0x10c1c380fd3b64d855a31dd02b67b382e78cbb9787ef1c871d7caa7b4fe730f2, 0xcf44e9a6f7e101536d49164b78a9f246ac3dd3a2f959f0d513e3ad31884ffbf),
    (0, 0x7d9391121e69533105d5b7687e5d4955ed5debd8d790e24d70228c240958b609, 0x81b08aadfef66ee97ab0c32dfa83f9cc4ad0930899bb598c45e2b4c8d036a912,
      0x8876394e620659e5c8d2bc9df989b2a103768eb342938e5c7ca08a5a19b83995, - 0x949c824734b490a43d19dbb34f42be479916478a4734cd635b9e2b2c19fff501, 0x3d9970bb9eb74fef04a97ee26fd8161056e382645986dc9fb1bccdfe8f97516b, 0x14aea313e8524572c647cd256dcd60225ccd601566624e8075d35364f8bdc878)]
    (0x1fffffffffffffffffffffffffffffffd755db9cd5e91407780, 0x81b08aadfef66ee97ab0c32dfa83f9cc4ad0930899bb598c45e2b4c8d036a912, 0x8876394e620659e5c8d2bc9df989b2a103768eb342938e5c7ca08a5a19b83995)"
  by (simp only: chain_eval)

lemma chain_28: "chain_ok 0x1fffffffffffffffffffffffffffffffd755db9cd5e91407780 0x81b08aadfef66ee97ab0c32dfa83f9cc4ad0930899bb598c45e2b4c8d036a912
    0x8876394e620659e5c8d2bc9df989b2a103768eb342938e5c7ca08a5a19b83995 [
    (0, 0x45822432cd567c9e3e8d2313405b46de3874f1463dbdbcdc0ab428b5e3f1397b, 0x6479f4ba92f859b76978cef303389c4f35924d6e321316ef5887e71cf3482dee,
      0xecf179774902e6cc8b5c5276850ed0b8ee5b0e00694eedaafb0fbabdd802f681, - 0x7affb6f9224ffe21ba977d6d56db696ada009ce83ccac0a5f069acd454fe8bc2, 0x12df69ac2b677ed90bf86c7588676df0f932994036645736c3e2c2705ee5daa9, 0x7ee90443ae66c1ae16287b349af4c43139763811255bf43c00070e6fab829aa),
    (- 1, 0x8e7270b15ae85de67bec98d3d8c62ef58c0ad384ebbe8533817a850cfaf1aed5, 0xf91a342f3e683bac39d6ba71606f586545e1e0c3360f89660a118c9f5bf94e3,
      0x3ddb80e975be421d1e224fb8b2af83189f9cf1d3fd2168708c44198435a2d906, 0xbd578f2482e73abb219a2df68716edb8165e73c5f6eaa107ffd47b7577f8745, 0x4f43282d506a69897a849259e761dd1029be8449f1d8b619bea5074b95f80630, 0x2f3ed20517ec2242f13534abe8fea5284a8e82d12c8b26da227feb4f1dfcc160),
    (0, 0x8474e018b6ac5b589f4749e1b38d6adc60a22c9eddd99afdd8e8d6044a4d4e98, 0x87a2ee0242ccc236378a6e820f80aed4ce33b04584c18953845750ee09c1f7c9,
      0x336ced8552f14e0bbfeab7840cbbda7d1b899ba71325e5c485921d399ad63501, 0x3d2bac35106420d10d12d2fd78b403bcbbc6b84d8e18ac32e18b2419c4cafecb, 0x4488bc7556f28c768f179a133684e7a8061dbfd58b882f3703a6c410bb45e11f, - 0x3e1fbb7b3c12011ec4d130ac8214faa77bff432818c5376ca83ee8b0ccfee619),
    (0, 0x8df6afc453659936eaa14ccfa4cbd75a49199a5a40838876176e6da39d169bc2, 0xc93c1b00bdeb3e4962dca57a3dfce74d11824db2f164a366f266f8cfd67e640f,
      0xd790eaedc41b3cfeb890bc2a078df7f8d531aafcdec7141c503aa103ffb3fa50, - 0x9e8ea28e492775d07582af3deb4b499d488977db982c7167864906cbab322041, 0x4eb9ab5489dc329daa37572805c72f904035fa8bf44b8d9f99e4b55a46b3330d, - 0x246094036ac134e9c414653ad4d4cad513b44ff7c8aaa805732a2bc175a16f33),
    (1, 0xff5caf8da8deb38d5833f1ef0047eaf5331a5e49802cb29843c99257ffab9b9e, 0x29b2a9955317107bdd2bd03faa821da45bbecc9cd72df5c4b5a1d8db76d14d80,
      0x377814656cd36d9934081511184dd683fd878dff026f84602e0796ad4d6e1653, - 0x4f4afe7d0bfdaf08c1ef1de8a5db4b050e37ab17a3ffadca491b6e81239b1c46, 0xfeb9c74adca005089180f6ff9f2cdc723552ae695a53e7064bffc28e614e8133, 0x9f23aac5fe7c9f95196efc972359c17177312b15d1391b5edf5452a92fef8691),
    (0, 0xd8d4c3fb404a84f9a0146faf112eb5f7b8482cd2d86a4736dfdb78f4bd319ba9, 0x79c59c014e469a3f7f63af79475c7c6244639bbc0bae6f7ffc6a3acbd539f5ab,
      0xb59c06de63f2084c981f3ed26e8af1b9ba22afc2db9205594b034224261de6a2, 0x4996b134763594916e231c0b03d631ab7476dbf50635fdaa5bb7ec05603b8a4a, 0xb7a7bb8d2aa8f65a246e01dd6698220e3ce7dd307da950cc2c251b207899f1fa, - 0x43d28988e2b41b7c8fefc4a60a1d5d974e735962ca541f918a09653e1a71cd28),
    (0, 0x4026935e27333c9997ed5080700d1fe587b0a10e52f3668cb1ff2e53bef165a0, 0x2b4032a979726ff75c61ea2f5cf1515e2667d28b573ad363f39a6374879ea326,
      0x64f2a2685f47aa90879d53c31dc75261ab11a3ed3b6dc4d3e1ba31b9ff70817, - 0x52c073301d230b4bd976530ffc4248f55eba27e73767111d073c4172319b8ec5, 0x10134f7f2862852870c94eb23ab7a54cff22834fdf2621210a0e34d8b7fe8dbc, 0x13ad2f5714bec9bd0896559863c59590abe8fbb92a93369bb6e9f92435df0c49),
    (0, 0xe91116989d2c29ba1c402a42220bb6afafd7a1d89c0f7cb6f1415f6b30d72782, 0xc846dd9636a5cd2c03743b9a02a00ca1fd959147dd8f97c305800a9f73dc490d,
      0x58497a09399bdfb6664bc9ad5be141f74fde899f7e000e3e596efa3ea47d283, - 0xa6ef1000ebaa5e8b8b92924d0c6e563aa2e77d2392e0b82fad3898a1e7b8170, 0xd4301c45d05dd9d0ee414a1b37a4f2b9c51dc488cdd45d74a929d6b2f3858a45, - 0x8ef58cdf00fa52a1a755d784880889d9d8af2d6c7d99f14720b35f775653a198)]
    (0x7fffffffffffffffffffffffffffffff5d576e7357a4501ddfe8, 0xc846dd9636a5cd2c03743b9a02a00ca1fd959147dd8f97c305800a9f73dc490d, 0x58497a09399bdfb6664bc9ad5be141f74fde899f7e000e3e596efa3ea47d283)"
  by (simp only: chain_eval)

lemma chain_29: "chain_ok 0x7fffffffffffffffffffffffffffffff5d576e7357a4501ddfe8 0xc846dd9636a5cd2c03743b9a02a00ca1fd959147dd8f97c305800a9f73dc490d
    0x58497a09399bdfb6664bc9ad5be141f74fde899f7e000e3e596efa3ea47d283 [
    (1, 0xb9431bd34b02aced50f20c6257e46301867c5a638cdf4f97d6beaabeb0b9d37b, 0xed9634a7e20eedf6befdce7ff76d2fe378c8876d9cea93a37093eff21b0e988b,
      0x95ab171125c2f49cbef93dd1c70b5b9f49c59519e3ecfbc2415bb714d19bc92a, - 0x38d534502c0e9ed661c69ee8c3d1d68f85f1e33d4994ea193581d81ed0529b54, 0x86120fcef609618cd013e4395212191921fa18fc11f719e13fd058581c9c0367, - 0x1b001dbdb801182f34cb99018f64476ce0251724c140eec01827caa3714c9b79),
    (0, 0x9b5ce7f66fb114a71e108c251df1485ab6f06b1e5babf4062feaeef8390f74b, 0xf7931b71bd6a67e7fb47973633283eb6e0cc448efdcbaca935894ff325da38be,
      0xe80340c413fe97d7e7576ca033e14f0a4e87411e9b4578a6a447c3f2a558aba9, - 0x28a23c3dfa4321156b8a4c3cca96fd51f62de69e93046ca39ff758ceb6a4a8661, 0x5e49a29bf68f6115a2d9f96fce7c7c9da5548e6b38c3b667f5d15d3443c9eb, - 0x60fbfabf9fcb35895fe2182f70e5786d1ad2513b16d8cd7380ca355ba12e7c),
    (0, 0x39823a814982236ee6a11487982e893d758c2a2220c8b90ddb245fcf7db25e13, 0x5a840398a1e667ce83a5b4dc189e4e8aa986a00739950f11d9ec8a41a11dc185,
      0xb555d8106f30325012d4ac66954c2c56b2bbe2a24e4a4409fc7b2286c440e2c2, - 0x2660a1a491f529c433129affb2181ac322c7436b27fe21596db4e180f4df9a3ea, 0xceb404d0b69728d81a7675fe8310666722b9e3c623d2d97e4a63530c9584218, 0x234841de307bb6e49d718b2a92c00cce5973cede4d56201c8c13cc25bd161030),
    (1, 0x10a640b7d9b34b0c3af15c9366cd9415b3238d3589605fa5986a80406e67b91e, 0xbc6d550fea7c7e395d323f01a4bce0ed0b0b09ceeabdeef0b20d86996270117,
      0x3dfafd5957d34706828ce5cf57930e4d5e1b84642e5d6ef893f985238ba5fe9c, 0x207edef8ce1146eb58954073e02df6101b05248167d2c10b09328d8848a2ffc, 0x115340efa012ec9783778583466dadae158ea73e7b53b34d318253c9669ebb0, 0x51ef578546b4436fff7e79272a08f095b216cccc26593d8d9828db687bc4f5a),
    (0, 0xed6c0e2fb9fb629821cc78012ed56697d5579c55a0cd895f5cdfe8775c5e21fc, 0xbc7aa46ccaebe673e63f83bd6a2138792f4c8768c29a8188855492770a33797b,
      0xdf831ff46cdfe4de7272944bffb4736d24f438435668bfae9256ef33b60acc24, 0x7156f970dd27ebf6c5e39d2ce0a21c59e7994b7fe5c479b58ba3aeb475a7f7a3, 0xdc313fe05769a1e62f253da0950f763ff5dc88b9c782d4aadc608acd9bac6549, - 0xa3e10c62e28b3d53b7c230b28603a34aaf1bdb2d9d14e8b48513fa0fcde3a5d0),
    (0, 0xd3965a5a9eaa7091a9d00594371be33806d078928f6862337d390c3c94b22e2a, 0xd9af42439992dff62a960a0b807778b893cdd7b8ae84129ad13a38d8b9945281,
      0x55071ae759c8c0a224c586232ed116a5d111d1d033a6f7cee21229a7a96d086, - 0x2ed462a5f463e869c9aab305372563fba0bfba6cd1935644f0e3450099218a75, 0xaee1313f63a2bcefd1f44f38074ac6d52c4ebb46c87840816b8e66501082d123, - 0x1823853b5e47a2daf27e00c1acf602d04ff5c4c700d0b88f96fe627b789a273a),
    (- 1, 0x989d5562e747261a6020d59d7d938a23a5a3bee44bce707feb3a761f414c7513, 0x2c3979dc006837fa9f4404b3f4ad5b4466532d122cf986d833ce813c7da05e9f,
      0x535504d53ab4cca4dd570cd6761421f8c2b6b9b3006f561d38bb3af099db7e8f, - 0x3931f933904382efb841a6923e18fb4b81ee178b3e6bbc4f23c329931df5c583, 0x5afb36174a6efe4f313910823111c7f40347c1a547a76a0537f291ee8e86831f, 0x67688a1489d0ddbb96e1164ee40f9f8d8734a298bd75a1dc752301709897651f),
    (0, 0xc39fb3fa386e4c75b1c970948bbf5d83647f7fbe31914b8c887fcf6dcd147493, 0x7b4b33259d3653169e6fc9feb4a0515f91180b1011896f7e64ce2a9d26674463,
      0xdc3c527551d21ba8befaeff47cf3248b2019c8598c372402f60681bf000678ff, 0x687011c34981d88e835c4a6eb0ab746f167a36ad2d7e53ac5d49dd3c416a22b9, 0x957cafd0415200fac9d61734600dbfc438168e759cc669e25a24caa58fed07b8, - 0x3c6bd3bbd474bef3bcf058b5e81cd08852642289405521a306a5f3e906ee9206)]
    (0xfffffffffffffffffffffffffffffffebaaedce6af48a03bbfd26, 0x7b4b33259d3653169e6fc9feb4a0515f91180b1011896f7e64ce2a9d26674463, 0xdc3c527551d21ba8befaeff47cf3248b2019c8598c372402f60681bf000678ff)"
  by (simp only: chain_eval)

lemma chain_30: "chain_ok 0xfffffffffffffffffffffffffffffffebaaedce6af48a03bbfd26 0x7b4b33259d3653169e6fc9feb4a0515f91180b1011896f7e64ce2a9d26674463
    0xdc3c527551d21ba8befaeff47cf3248b2019c8598c372402f60681bf000678ff [
    (0, 0xb1206b720fe6033a76096668b533a8d975ea4bd5f808b41fb2e3bfd32efb5da5, 0xa737e485f1095d46abbd4d3fab5e41660ed9b539d7d26eb3983a476d1178ce29,
      0x8ad4ca56af3eeb58f01de6499d29dc213bf50e40dcefbba9086b3551dcb2e817, 0x7e9f2642107e59c006b716aa86408949cbbb968dc7275309ff7db0f05d3cec15, 0x7a8dd8aec3989614166103be07a51823b10acebecdd95cdc8be183b572d914b6, - 0x1e6436a94643f9f4d7da950efced025023edde04dee70016b97eb76061e46e8c),
    (0, 0xd4f8f728defb009b19611939ba09a25df988e2c20cd72404a3c9241682d9b1cd, 0xddd9ba85d721108401f0fbb240a559e91a64eb7795d2b0518a1865032b080d64,
      0x8cf73ad467c73ed004b1ce5deb707a17924b1de5e8a3c01d45616ea6e0384a73, - 0x60af7195ad14619f18d40b24b8f4458c59e267cab3fbd02520a49cc4b147d0b3, 0xb12d4b7b7f1fa420da5dc480f92638be49a671d4ece30fc7acb2153a6ab1e6fd, - 0x2d7326be18cbc6c31548bd7fa951eff3276f9792b5321edd52cef3688e54cd87),
    (0, 0xef067cf45af2b98df43ea206403afb8c285d5f02aebbcaddfa1986f723726cd3, 0x1dbe270f8382f57d58fa8ef739dc00f2215fecde9b7b2a2a781d1ac14f761c7d,
      0xb02ad2aac6b481269ce8ce5d3e1f803ddb3b2da77d72f8e8b895d49d6f1d0a13, - 0x139882a9e848bba452ec6e16a3fb7a4346c267a1c191fa161cb2c3ba4fae7f0c2, 0xdf2d1d7a5a431b3063773148af3058a7473d6657ca55a392aa14572de1d3ce9c, 0xb35e9d15a6cc455f94f9a5d96515d9e270e3505f0dc16f596c47078180a18d51),
    (- 1, 0x26e127b79affedcdeeec2b52d0b2828c3b05db91131849240fa85d21dcb4d902, 0x32abae154a169be2822476ed1e837893e8e28bdc64b39db396374753a0d79ca,
      0x621c0a80d91cdda24502218b9cc6ec068446430bc38482275055b7b97c59c04d, 0xdf8f3e85213cbe5ea2d7b79dde5110ee126a6978f23e22613b5918c314892cf, 0x5e79dd158ebe562191fbd2fa8fe152f9e86181ea403e01b13999b58250679eb, 0x40941c074814dbe7a0564e991dac2c354e63cd75a49d7fbcd0852e558c86ada),
    (0, 0x8e3fa477123b584f2d50b6f126ada57e27a8f2868ca91f8fd9ce85a1f920cf12, 0x9808ecf7beec7107c9f854e501b955cf1932e8aa4c7c4f81b1769b880c253b10,
      0x1e1baff0353575305f5c273f355c74432530749d1388288bf2a1fa9ca4e8d220, 0x6ce9ccf9e6bfe1de1e4bba3b96ea4e61687323dd0c229286c5b9840e773121d8, 0x4f0aaa46747d95eb4adbca86125d7f6293c4dccedfcc9f8a73cbee870d1e3360, - 0x52b8421a58738d1aa7360bee77b518aeb3421735bfc45a4c9591f6cb77a72ef7),
    (0, 0x3b49c33d536bdb2e909079c762d2053f34997113063cf72adcab7d7ddec9faa9, 0xfd688f03cdea65a132bffaef52e13ed3464ad04781006d48fbc822193b917e49,
      0x8b67caf6ebae54aa22940dbe7b2665b0f7453385432e945aa7af332a458de381, - 0x100edb051ee4d2d7f9c4c8cf8856bc51ec484e1e6d900a6b90c0316c985a52740, 0xdbb153f3253c651a3af8c857ff62f4fb90a101dd5eb8e733037172174c55158, - 0x177a3fee1e26516302ae122cc6f2334c858a4c97c9a24b822c746cf9993e895e),
    (1, 0x1f2ec02e6466b6d8c72f9d7f5d8ecd7033ab03d07baaaa43ce78c20480d033e3, 0x2e7f27e454d8593c574e5cb89b99255a11b15f7b6d98582bba98be008febf717,
      0xef2180a04227160a5e81dc2fa77a744368864e39f866f8c295f870a8bc616b94, - 0x1009a652d825f49c0946f45f32f4861200532b87f03c4bcb1d1c2658d38b72f6, 0x3cc5b14dd42943484b4660006bebaf4462c2c2c7808b3014f40777acc84dd7f, 0x19340cc1e3bf4444424ea7408097094ca37f75d55d509af407847963eac5768f),
    (0, 0x62c33e0b9150e0608b29448fb56bcef22513931a622e8631b498ae54b22262a2, 0x8b8e7d5a90a242503d8b4693ff8770ef129070011b32e57f65f20ebe996f459a,
      0xdbb3730bd44d388e6b0820a4d5fbf257cc0de8318600c5b3e2cc4660d9073336, 0x9f2c92f281b0895ee9b7e545e27f3ace6ab46654a73c6f1a4e9b1047bdd09e73, 0x261a10686feae7e8b9be5ccacb3b3e4f00b2cf66700ec5200d96cac9edaed604, - 0x23e6d7f347213a58d059681629862c5e7155b0df7e39bdc4829878f78bd26b50)]
    (0x3fffffffffffffffffffffffffffffffaeabb739abd2280eeff497a, 0x8b8e7d5a90a242503d8b4693ff8770ef129070011b32e57f65f20ebe996f459a, 0xdbb3730bd44d388e6b0820a4d5fbf257cc0de8318600c5b3e2cc4660d9073336)"
  by (simp only: chain_eval)

lemma chain_31: "chain_ok 0x3fffffffffffffffffffffffffffffffaeabb739abd2280eeff497a 0x8b8e7d5a90a242503d8b4693ff8770ef129070011b32e57f65f20ebe996f459a
    0xdbb3730bd44d388e6b0820a4d5fbf257cc0de8318600c5b3e2cc4660d9073336 [
    (0, 0x98706a34365fc35f0bf58006b8086053e00baca29dff996227401c8ccd9179d7, 0x1d191a0947f67b870c31c0f20d3da6b66d4fd0b5a49a32c5a07a776e6c734262,
      0x3b2a3f3972f2d8e46eea82d5880997bff2cb652e3faf208e96189284c63ce0b7, 0x2169e99dfb3766802e0239804bbc4344e1e88f98af765255ca9e884dffa7e3b8, 0x5ac5af7b1a509379419c9d9ad8dcee93530ce377f40ebe48872d4e16cc20f4f5, 0x41c63426d923b297be645fdbde311e0658ac1f91ec636745593a65a42a76cbd5),
    (0, 0x754e3f3b8b39783ae1d98f7bed4a33a9cb83a2dcf3dd96af1ed15030279b19e9, 0xb7da96bf13c179bc9a9c90bdb7b6c1ef9d555e6799bf4f76750b6567c651b465,
      0x28ac804031a2b0068154809ef06a8f48f6ed63f5af4c9cd018b66e25f5de12d1, 0x2c4cb1aec2ba87180f1f5534683aa8828df301406b99602ceccf3daf0ed2880e, 0x35c09db70529bb4ad7b4597e9943a45422575262b0af898c494c24ed3f796f98, - 0x46e9bb2cb1fa258e9fb49e33ff6951071c6ad1b1b380f53141bbab15f65f812d),
    (1, 0xe215962cd9f44461723913864b5fbe04968cf55c243b95b2dca2b4b3749e9513, 0x5bddf26c481cdb618dd0cbcb17dded3d6fbf941027edbb8a68ac185df912fdc7,
      0xaeca255138c1852dab41a7235dd6403aa725d7ea3d3b8aee30c08beae07984cc, - 0x36da1f57f21d1219e32bc5721e168c9825e4e3e357b69a932ffc5cb257d0ee42, 0xc7aa1ef92c47a2152b533c301747e9605a874aeb2af9e7d973ceefd29e55726b, 0x513ccac0b897b683c0cc69c56825e1c6a14de4d01be081158017dc981b32cd73),
    (0, 0x10e18fd20ebde51bc24c0d0d7726bf8172768691af8284e703a862e3cb39e08b, 0xf632613e177b86f6adbf655c303024e24ddcdba7d811dee496680ac6c4c54c3a,
      0x16e57331b412a1d4424c5087ae0af14ed1a3756c61c4347c3f6d0228898748d4, - 0x4bd957ebe2086ce22b3a19783bbf1b9706ce89524a1e405cf951fb95e0394265, 0x11cf8b861e1ff44896f41d77d32a198f32531f682842b043c654e7096cc661f, - 0xa2d41d64f6a6063aaf9814a340bd9017f0f075fe776438861674871c30751bf),
    (0, 0xcf8a0d4edd568904aecb3da1b921a0295a8dae93d6f44ae1794dea81ce43be88, 0xd781e6945d1f6ecf932f554b400f165c9f83637ba6760d766f4ddbb02d44758e,
      0x3e070bf29a075e04bee992ff941fa43469f42eba57f1ea5c91caa29849001b72, - 0x2a12ed45c670ee98a67c10f6a17269f4a67d09f39962a33156300974802c65594, 0xa8408bf7e3a9ada7b5bd9f37922250bfdfbeecee4caabaa8d0a83428bd972422, 0x18e13fe9c7b7a4f4d51952c9e71b0c31e5c2e1b6dfa4a9947dea6099962c7a06),
    (- 1, 0xb943066b51606d8c7a85933d423ed4b73ef8d41330052d28600934bf15459293, 0x77419938fe9d4d183c6ae247d7767c8255558f79293368541e8f28ae2d59db0a,
      0x8c27c4622729de14aaf233866eadb3a459c798d14ad351de9092d7dfd8f31e7f, - 0x43dad413ddd96423e489af2b2a389492cb75a7f2587330f473db46bfa1c6b368, 0x8611f0d377f32b9c0639838b8824c96bb1693e13360451e8d1b5ad13ffff1017, 0x45a7ab25217ed99afb33c07fde2b37792f11596b7310839d3a59dc0e623c6815),
    (0, 0x66b7745de248b97277a5615ff0bb462cf6e3c3e46ff057f7cce290d68ec3315a, 0xb9e371aee5cdc7090ea3329bd143a940d45cf9cfac79365fc9e17a81dc55ba05,
      0x2daff17326a770da5f89bf10782385d7e0275a53616d417c7b35522644101836, - 0x36319702a3e94df54ffb8bea06f628b7c0f2a174b196ffb9c7a4ef5e2eb94020, 0x2936b4326370af4071e9cdb96b610a98c1a4d623b0bfb109b60bbd931bd06b65, - 0x1abc3c3a7c2c72b5caabd32443a2bdcdf321ebed3a8f6c6c2838b448e657ed7d),
    (0, 0x68723255cb589f934be2b1545a295f0260eea2b5de3a4a9e94f804ebd5eb2ac4, 0x7510b3cb6e7dcff96e4ccb661b959a00524dde58ce83aec00ac8e4d627a6da61,
      0xee3bae36ecb330bffbe41537b2faee168c6be58f1dbb5dfbcfc3032b6653a673, - 0x16fa7d64cd0ae03aa03e8d7dc3a3e943c7cf22733be3d4f7654d70412a6169a55, 0x2a9cfbd69386bcc5158cf3311d469d601b8ee2d14c0eba8f570f6b7d171ad06b, 0x1c145085317e07b9bd0e02610ce5204877f4d96870de22f41915a8c5e7143ec9)]
    (0xfffffffffffffffffffffffffffffffebaaedce6af48a03bbfd25e8c, 0x7510b3cb6e7dcff96e4ccb661b959a00524dde58ce83aec00ac8e4d627a6da61, 0xee3bae36ecb330bffbe41537b2faee168c6be58f1dbb5dfbcfc3032b6653a673)"
  by (simp only: chain_eval)

lemma chain_32: "chain_ok 0xfffffffffffffffffffffffffffffffebaaedce6af48a03bbfd25e8c 0x7510b3cb6e7dcff96e4ccb661b959a00524dde58ce83aec00ac8e4d627a6da61
    0xee3bae36ecb330bffbe41537b2faee168c6be58f1dbb5dfbcfc3032b6653a673 [
    (1, 0x466f29056888918e158f06a3e32528123e32443c985d64841f467cd3e63b38ed, 0xf0386e2c09560257676319499e71c40da23f2f6857a22f5cfb98c1b65c2535ca,
      0x98a3bba3793b916cf9a8c21984c84b5c17c388162653cb10ed36c95d7a1c36d7, 0x14986ed7ee1b0f7e563b2a5154a738229a35e932f78e349a5989d9dec040d3a, 0x1360fab38e6e11a0eba55b3c754b6defa8d029b3a0c1465382168f3faccb8f3a, - 0x21e256ec3124350b4c5863fa8181b862610bf55db645c94629bb97e1105f37b1),
    (0, 0x805efb2463fb1d9717ad604768050ed07ec1782489ee3db07c023d3ebe49c5be, 0x716fa98c9dde0cc478852cf75622139994fcedbe9bab459dc85f0f3307c83dec,
      0x19109c30ee1955588c9e6ddede516d3d8b36fa5d3be55f4a51f62507f9f409c6, - 0x20b2891ab200ba67dc22f4c8075606d0ac16ff7f76491365fb983ae9f0c406978, 0x405f1e61c914eb3b84558dbca608a792cb59d352106303cf1e2042debe0f73bc, 0x3f936c68c6cd67295f51f753859d9b71774e884134c7a8f752ccbfe167331989),
    (0, 0x6457233262f02f78f62a941998cf2f8f0cafc6dc68529823ba96db33339633b5, 0x51c8b782dfda67c97699ffb78c96769ca6b50fe77a1b7f8cac53409f81796022,
      0xedd1a8dd9d9c2c736bf110701e49e5438c261021c4772ae32f634d4a1095df14, - 0x832542f306f5e65eff1b4b0d7f0774bc51a8ce361d8ff7b6912d4e97f688bb8c, 0x275431284e61b54f3d92f8e61dfc60870d12e2e287bccad9fedb71ac68c31331, 0xc67fca21d773599f952863211e4851d48fc7eeb4d04d0b805fe22db13f59488),
    (- 1, 0xdcc2daec8346af1cfeca154564757790bf9ce15a39f2cc4866ad395471701517, 0xf7bf95cd74247863e1e94cead464864357e16c6bf35eafcf8028c41f493813e5,
      0xcf2b7c5ed5f782e85fc63fefe2e7410cbe3711c98b1ef7de08ce1a20f7f7ba94, 0x22758cbb63637576d2ac1c959feb9ff7cc2e1dcea0a2e13e2ce4fa97d29c817a, 0xbe5f7c970b501e31edbf28f95b0e5e7cf291572e7a73ca24e5e003cad833d42e, - 0x8f1e7a0a19ef9c349011f79712e1bfd0c22724e8e6dc7ff24aaa4ffb2b681763),
    (0, 0x69b6343cd46e3261cbfba536047eac826a6e5b069d0511ed854203a27dc2d6ad, 0x2675d6c93721ea437088c933eeffde4e66294b619ce91f85ca6df32f9047e5ff,
      0xb7966ef8909331eff1091208954c052bda348b7b48d110b3c196b102927da5f8, - 0x2243134f341f6fcdd56ee6a56a2410a3e72eab0d50b36a9ec4b3425ff30eb43ed, 0x2ba6f888376936c4e4c882ec61601fb3cbd6ba99c45313fd3c0e3dc42bca26e0, 0x566c347b3fca368f1c64d56eb9edcda1ca894c384821a9bdcb5ceb5b2414d3be),
    (0, 0x1d3fe586613e4a9815c3ccdffefedf1f536fdfc332940ccc5ee0db4890ef4566, 0x4cd2114f2e8603244ab075376d2d00df0062dc86e2d780b81a62b7adf17444c5,
      0xac847c3834db991dc3d7dac3702091ae1184c2689ce0fc68a932d1fff9dec08e, 0x189e245d811841f36c95c4353643810025bfb040467319a314d6c917d30a1bf3, 0x35789f337f5aa128f6384a0236dabb9e0dd312654123713fc1acbb2f9199cef, - 0x46205b83730f89002d18f91140e0c33f7c03916946656e5662533b1794c22b6),
    (1, 0xe913bd3cc40444a7a62bd51a89b61dc8310e47f94c8f56737a7166af88bcf547, 0xcd559700b304f588f65ddeecd3cab1f2357770ac27c27f0fd26aa681937b6c0,
      0xbf59d2a1afe067dbdcf248e6f38d5f4a7753077d0d06b7062caaa1dadd5cc71, 0x28e69047f74bf6ac50ffa5f7881a1b265a257a119d0a299ae88038f585823495, 0xd434effe3fb7a57622d4b7917becd4c71851025c290a5a2b18427755d84f39ac, 0x3a41f26880b20346122f8e2360d7bb2edf8876460eb5146893a447d42350c9dc),
    (0, 0xf839838e5ea18c0c3efc4d8a88787af906a6abca84884bcf498e6353b96e4ae4, 0x717f3cb8f9a9480973abd9d07b11a6af00e5f7f782df9713cedaa351dcba6d9e,
      0xa8c848d088acfe8a3b55637da8e7d077f90d13e7c95fd67430386eab5ebe88e2, 0x1543299adefc5f87a9907d25d014e4e7f4248c7c82237f6cca1d36ffd6b0cd38, 0xf0af7bcfb05a274e8b03d16d79a1e90923b94674cfeb44203d4db955a4d628ae, - 0x619b31bd2d0295b55c586085cd4103f9cacb9c1d977868ca00dbe2c8cb9a87e5)]
    (0x1fffffffffffffffffffffffffffffffd755db9cd5e9140777fa4bd19a, 0x717f3cb8f9a9480973abd9d07b11a6af00e5f7f782df9713cedaa351dcba6d9e, 0xa8c848d088acfe8a3b55637da8e7d077f90d13e7c95fd67430386eab5ebe88e2)"
  by (simp only: chain_eval)

lemma chain_33: "chain_ok 0x1fffffffffffffffffffffffffffffffd755db9cd5e9140777fa4bd19a 0x717f3cb8f9a9480973abd9d07b11a6af00e5f7f782df9713cedaa351dcba6d9e
    0xa8c848d088acfe8a3b55637da8e7d077f90d13e7c95fd67430386eab5ebe88e2 [
    (0, 0x2d5c87588d26f9c1cabb2ad6143c9145ca8a25067d0d0a1d1a941ac54f1e9ea8, 0x77c639032f4393edcdbe84e3e4ad619eac36e0145d109daca12ee5576459c9ab,
      0x89fb17e7a23bcc1f51711fef97bb5d9566535600b54def4772a109fc42d29291, - 0x5b244c842876145e9336b20441b2643d8ec5d88a3cfac8d9eea2a23838137fd4, 0x809a906b0d3ab52189991b1675bfef4b0294c83a243f7b79403f661b3b6a8f7, - 0x11cbf2d50ff4c2f53601589f78d5b4879c43907f8e8eba36e84be3704829ff5),
    (0, 0xc9633d6252ea9df0eda9df6c2913cead0ac51d4cd58e74f5da5e89ea5d228b0e, 0x5829aacacfb75d57fedc9919ab2a302d39da56b7b655c6e96800bb5a9d51cdb5,
      0x512a90c5fc0c2627ad91f8c657529cda4acf8d2da5cf6e57aec20cb55705bfff, 0x30f99e72463cc4991cedcda0e886b4b18b93b35b870ed6bed846ee13cad24c9f, 0x9e6cfcdceef88ec1e34d742706d62e2f0ba5e64883642d5124734e5b3a2b2c97, 0x18de2cc9b4e1089689860bd83ed5b90e61863c8ddcfd6d63c72ba43b372b7a5c),
    (0, 0xe271ab4ebd11fff0ec68a819b151c9ad16b2402b2fae6c2220fdd66672bd4063, 0x117364d1a188812339342d6faaf9b9d8c4b41fe1fe92733d8ff4a19fac5ccbd3,
      0x90e186732ceba6b53d27529891ee2e96bb2bad9ad152d94feb5ed854ffb1160, 0x3481373769e730cf8898c8df932b9e673d5f283b3bab852aa8310da225a70ce1, 0xc84ce4efb3f8fa9722a0e5035f0f7ca5d8d0b541047aa2b4334ce20e89fb72b4, 0x3e8c4f8c5e430f50e1aeafc7bca6a33fa9f98526c600f66f568b06dba5e972a9),
    (0, 0xd36996ae84fdc0707b26792cdfab4100a637ffa1177d4a6e9b004ce2e8e408ee, 0x3c58748cae51b1cf8ccad71af45f8d62dd0561bf168a99d696253fe33751ae1a,
      0xf091584b70288f392823a9a6b25c2c8d04c4868c2221a19af737e1a8374d1f41, 0xb631e3c4513f26570e3dc79010d1cd3cb6e9f7cc6e4509605b5762ba10d134b, 0xae9739f0a3145e33b2d28481cbcd17e69d87d183e236a2ca6e834f025322cbbc, - 0x236c7d2a1472fcff35f090f64cb1750ebb6332b5baae7d447db816d871eb3bcd),
    (0, 0x82f4035a2f943ba8d23b2fd98a9fa96b84620ffd6fb6ac5d80d2d89c955d0442, 0x8e25b7ae51eb379cea6e4db5e69b4d2e48ba771c81e3cc77061c680b9a85764f,
      0x756d0a9f3b40d862186e88fe07cd243b71e0eaeaf657297ee03e0e6e1b3ef5c2, 0xcb717972feed02a6def0e56581db145f04adbedc59e1d33c2333ab3d4c0565e8, 0x42fcbbfdfc487c0c25cc88ca628336de7474bc4c291e1acc486445df97be444f, - 0x29d834cd4a4af0125eaa9217a19f67c9f4d495912b418d7deee1f8ddc96c67e3),
    (1, 0x2359ffe39a24516f73e543d2e3166bb59ab008563c691ea500fce17ac2636f20, 0x6c0a19c58e46ee90f228c3a2d35f8ca9b2f7637fa58f42d1ef5dadeb07538692,
      0xcb23b74ebc68391202a2890c57894d0b8b71aae497921f71e404ed3df050453d, - 0x2d14c69c043c987f5a26390d918ec4b869c073c23a80d96869dc2b1abe8db0a, 0x4e1bb9c282e52f42ca371a0311e956187a363a42d576f238fd199d705c97429, 0x4b5c4488dfcce19f857ec84732d3b691525ef2a3673b6bf2b9fd62f0b050d2f),
    (0, 0xa6c01e692657ecd5ec1e19f348128fa4f0c3b5b3a50e715e67edaaa8c56696d4, 0x7b75b56adf4d639775f3079f5661f41627c741ac1e52340df2f4163dbe02a481,
      0x7e9126c28aa4d24a9fcc56d84ec57ffcf82e570411531b5faaa6502b93b11e6, 0x7fd9a5222f554e6e0b6fedce783d9973111d91a8390a9b31ee085c04a0fe9184, 0x6c9db79dff105b35c479da2383c506daf903314e4c80e48ce4bfed8b057f4f05, - 0xa0b5976e0366ff781282c5e650c32005c079ff9d3a4245ac3d05eec75cea721),
    (0, 0xd55caef44ef25aaed3132574aa0fe85d1f4c209a1baafa91991ce5cb60bc5173, 0x885b6176b50d0f76d0a4a284b76d5a4cadd9766211c1d73fbd34f56cbb829408,
      0x7e47a28fc693d4787973e609811d05a67eb8584ae47d855196342eee1512a451, - 0xa56f645eecde8ebe2da0e8b26f2f51d07aa3741ad760d36741bbb589c12968d1, 0xb1d35cb0c2890d902280aaf98d88d07ec1cd700a578359585295a5d1b5e89a91, - 0xabfc38016eb818c67c5d0b776c4ec10eaa4e6a2be39bbbdf42428b2725323e4)]
    (0xfffffffffffffffffffffffffffffffebaaedce6af48a03bbfd25e8cd04, 0x885b6176b50d0f76d0a4a284b76d5a4cadd9766211c1d73fbd34f56cbb829408, 0x7e47a28fc693d4787973e609811d05a67eb8584ae47d855196342eee1512a451)"
  by (simp only: chain_eval)

lemma chain_34: "chain_ok 0xfffffffffffffffffffffffffffffffebaaedce6af48a03bbfd25e8cd04 0x885b6176b50d0f76d0a4a284b76d5a4cadd9766211c1d73fbd34f56cbb829408
    0x7e47a28fc693d4787973e609811d05a67eb8584ae47d855196342eee1512a451 [
    (0, 0xb34e522bc62416885f2e04725659c52d4ca4166ee58e1ab9c9d8154f3d9997eb, 0x26ab9c41f79c7ac2b781ae3e17ba5994045f1a2070caf3fba866e5174ffe29e6,
      0xa0d0a5e327b5390682b7d05d758e9f6670c168306b59b0759da80fe88ee607b, - 0x28fe36787c9a6d534745e72f8784ca0de758048c4ad0cb22df013aa472ec4616, 0x7d969edf642347ebb81f20fd5a4e92ff500823d4c7e948ce0b393e1aa43fecad, 0x446bc9ccf7d42ca8c892905c21bc4833541875713290a3d8e71c9eefe01b63b6),
    (- 1, 0x96851d01f7c52d4d4054d62374be5022dc74134883f0fb1f914f3960fee83a2a, 0x5576495e6145ce8d2d6ad7e5adb5503118fb255d39929e242cd37837f869edbd,
      0x5b667d57019f658beb66b8aecba4e8ebe1a1941735ad3fc5830c6f60e32be802, 0x30d834ac9566a232c2d25d7b56652a2f7d2f8ebb5d3794c49e1f064d86bb9149, 0x5880433575aff61e2544338f99e10019ba8a5885bbb8e285eb0a0c3c1e0433a7, - 0x1b831607e75c986b21630fe0e34ba6ff8b1a872b65e5b037e409d1e96c688cad),
    (0, 0x5061f9b099a4ceac1276439800176691901c478015955fc1f9fb263abec3e757, 0xe9facd20f18abdb7e48ba143bb54d67d4cff3a0c67034d76c6215672e8c13e63,
      0x2f19e144f947f0d414c92d01f2c0d1c04167605563add1c569810e268ba921fe, - 0x1c3145d4567a55998d16a9ecb93cb98e1ee2cf05b53e3c927c4261e5089badf1, 0x193d618d8b6474c662cd3984ccbbb8b5c9f977ba59ca04ab4fd0aa797a39a48c, - 0x2ea2403e1233d87c5b113f4fe7ebfc04e49e7022bc0fe37e0b40f889cbb77db6),
    (0, 0x486c0f1742399bebc1b0e7cf3c2d9bc6da16d8f8c8136944e4e68d607fc7fb73, 0x6ed6e947c03ec66953955eaa53993296a42e70d939a0fb46a6279b4ef4e2c90e,
      0x22c1f6f71445dea5d2c8360bb4865e03889162e8e1bb68a1f751896c9bcbfd05, - 0x266e92b374b565f669a40e122952fde2d652da80b9211c112e2a14d5a35cb9d09, 0x147cf619d1c4042fe3a056140f7b2c5cee433a5c84f2baeb78a30a15c0cb7f3b, 0x22d6127b7fec52bd2b5e9d06b84e986de2c49b6bd455ca3d893c4ee102a67e94),
    (- 1, 0x6603975656b3234e973953b7f7f3d63ffa1c7a5e63e3f1358ac7e27a52b927d6, 0xd85b9d81804f75b76744ab9371a216c8e0751ab93d5a5ce5fea6ebbd32c3ba4b,
      0xdc82012ef0b98f7bf317786e69826cb148812dba5f80d789b32c417e0c7194f0, 0x458630cb0eba58a33645dea8cde9705c836578e43d704e25887c2c2b92d7f37, 0x28a6dca5b293bfbb25b88254fd8df8731a668ca981cb608c80b62ee24339277d, - 0x2a0c5abdfbd2ec9e7b12a24f72daaec7f7813a3eb79f62536ea88045bab00d7d),
    (0, 0x4dfeeeb6f36c1a9ca52e3abae72aff21f3f5cfc1f1763a5463cd3f9419518c9b, 0x834e691bcc30d8800dc8c6ff0481adb1ba197409e5eb48a54e8f492653bdffab,
      0xec233f67fa7c0714ef529a14ccce39d3ab595b1ef801313b19f03a013aac0cb4, - 0x19e32cdce2e22e76ca79cc2f5205f72b75483a8b082edc33598b8ae48bc88ffa5, 0x17c35978a012c1e310dd1919a566f248d710b81528925ab815656eb12583c9e8, 0x19e9ab2ba30f2c922de2744b0639b48ae8cf2a08c50736c0b454fe2431a33b84),
    (0, 0x9054207d23fdd08ad96b38a135a128fb3ef816f72a9d5f1f52bdfd118ba86b4e, 0x99dbd8fe234c8516a84c21ce12a81a46187041b71f3ca6a05225b75ddc9d636d,
      0x103db3cba4ed3dfeb36ef511e484167fa0c84610b3abae405a40be34ab8c1411, 0x4036d3a2417d01adb94a9764bdcdc2ec05c8dc9ffd5faf72c2a95f1a8d9ce50b, 0x515ec0321ebcaf58aec70eb17ac516bb94ed4b5bbe88f555d6bd3fc3413131cf, - 0xcb6f834bb7bc50401511ab57e16c37ff566dd8a3da6676d0fb4f26c7fed94ef),
    (0, 0x9cfcb3c3101bca8208a3879277013a90fde33d7e52688c097ada6a913a3e7f3b, 0xa0245d83b1457b6611d1231b98dadf9201f26c638cb03e4060f964e9807f0e16,
      0xd67e2cea73c2b7006310fa22e059eb922acac7d257de4116b4b86f8de58ebc5b, - 0x1017e4f1d0f6756e3325fbab147d0d4cab4d5068accc755d5114ab76eb3865cab, 0x6044f48821e3f2ad931425afdacee078c6bf7d53f10dac431f464adcf41bc0a7, - 0x3da648d54470211cfe68f21c5b3585cde14ba6150cf5184fb946aec956106d1)]
    (0x3fffffffffffffffffffffffffffffffaeabb739abd2280eeff497a3340d8, 0xa0245d83b1457b6611d1231b98dadf9201f26c638cb03e4060f964e9807f0e16, 0xd67e2cea73c2b7006310fa22e059eb922acac7d257de4116b4b86f8de58ebc5b)"
  by (simp only: chain_eval)

lemma chain_35: "chain_ok 0x3fffffffffffffffffffffffffffffffaeabb739abd2280eeff497a3340d8 0xa0245d83b1457b6611d1231b98dadf9201f26c638cb03e4060f964e9807f0e16
    0xd67e2cea73c2b7006310fa22e059eb922acac7d257de4116b4b86f8de58ebc5b [
    (1, 0xfab655ddb77e8b9989c2effc19e228c0c72121537ebd7ec3c6a7e4d048847d2b, 0xf4295ebbbb524f05ed096edfb57704113ba4ca94d1b1b539ce8f30440394cf39,
      0x2fee88754a5d53596be914326dd9d0435c5df90e470fe8394b1d61cc0b9f0165, - 0x259aec9955075e602511bbf886f4bac016d90035c30e75d6b1b404fac8a5fe29, 0xf588a1933e710c76bc17c49c252aae4da57de2e8f766b942ce2cd7c0f372e64e, - 0x5248baee059a70a643b3868d0c7b79512fdfcad05d61228ab7df15ed7844572f),
    (0, 0xafd086d090b268755bdf504137173c8ccc46493d1d4201e9916a757f7b00dc70, 0xaccf43e70c4900e56c9414fd57f2206bd9e8fb55ab1e40dd1af539373a58ed81,
      0xde83c3749ce258f98118fad43cba0853338f81bc2dc6e39bd810ae0622e70422, - 0x278c675261de3ca4f0d7676979eb9ef502711a334c8aa5272188c085437be1fbd, 0x78bec22c7fbe0e206b5e67581b608778423173a7362efd32a54c9cd0627e3783, 0x3100b7207c0b1d4063b3f590433379f9326d62a7d115b19df0db960a03bd8957),
    (0, 0xa5539e4c2a0cea6c4ede3f6173797a79cf2787f06f7e96e45e56c87a2e153893, 0x8b20b1ef875b4f0ea0782fe906159da0c62cadc18b9bc14d2a9598b5c189e107,
      0xfa223d773182d041a44928656832f024747ea14d1690b5ee8497c49d262c956e, - 0x3e8e4a93f20cf84dc0c32dea29055a3c4727303a87c1ba5dbd9caefbf4ccccb9, 0x6ac4e55e357a05208fd6c10c3cefe4afce0add5e35c4ce068607442acb15a5a0, 0x15c084819f5fbd2f896101e0e1d00b6f4d9dd26804c5f83f6863b3c1466691e2),
    (0, 0x18338c0dbb8c4b2cc1c0beac6fe6aba94372e897eff057934f4f1ab15a411201, 0xea766aedc87ca1b9ecc5c3bb0ba49b43c2edbedc673707fdc234f74c7e76a0db,
      0x927d17f351b6425e359b7f2e13b963e717755ace4fefcbd20dae78caeaec7fc5, - 0xb38a695a1da93c5380c112a9db087834b9dca06f08f10e4c33ca4fe15c4d62f9, 0x249b4a3ad420ddc60082fb87de690ba5ff924e6ec8a60544f8b2f35a51e1268, - 0x9033b93af1f66ecbbe2ffe5ffdcb3cec3626f74fe529adbc40601103a405ea9),
    (0, 0xfbd1ede4f87d76496c35e8768d3cc737302aacce3580b0b9925bbae37021f505, 0x1188f346c1e0517f809acc50daa6608f04175eb95fb762606fd62573196fbabc,
      0xb05a2ac6c1d2fc12f33a67302428f25d84093a864644692749363566c71d1837, - 0x16404894a70135ff0c82f5e6f653c2ff31b5ae798e4614598a901a20b74f6bff7, 0xf7b554a54c3583b2fbc65dad96fd446ce9e472ab7e78658ed9a71e560285c809, 0xd562b7c550ac364048c39a2dd3dc4cc8d42ba1b323eab08f4a16ffebfde03591),
    (0, 0xe87d436bed4bff39a438dbc5e0f2a0ab3c426665c18963a027a08bf1b5481af2, 0x5ccdc614cb67789e573d7fc6092e47af6eedf507a4cb6097a2872654465071db,
      0x9b25ae1bff2ade1558886a8a9ecfa421cf301ac5c765c4bde6be69734402b230, 0x13cb595c191c391db2851a47c9abe9beb65edc52d44f20a461d571587dfb7e7f4, 0xd323477e87412685b906c12295d21db1484f293eb4c13fbd94da16e8e3fd705f, - 0x445b337865f23a6b6912900a08c53286599a06770dfdcc17b11fc8e30cea495b),
    (0, 0x6ef473b5991356ad1b67f3fac06178cedf101127229b3473a62ebee5a858903e, 0xb89b4aef0ee4749350d17606d549453085d14c129ec4917f24adac9713778657,
      0x8021ddb2d8e02118d9598ab5d87c2e615170e583c727da0dbf8331b2814ef6ed, 0x218f0a62919a29f51b3983ca3044d42a06d856f6f86629a485ff4b9cf364d1db, 0x3016fcdcd60513b32e49ca4d9f51dd9384f219040798b6798e171644d21589b9, - 0x27c9f876dae9c5c2b2296861a8e0379b34691b763edde6cba4cb355ca45420eb),
    (1, 0xc9dec5ff3cfd2b46ca46f2e1e2462aaf8500d13eaedffa5622486431a4defc0e, 0x750c48ea743e024ed6db98d688af9feea98d19605b8c35f41f7689feb4947673,
      0x18fdbc55b1536ec580b94e206c060f3da0bba66c48f82208afc55028bead3906, - 0x31922388c281092c1ba5e4a4ae609e3e36825e125ea15c98ae3820cc5f156353, 0x9f2f94c6cd9627646be90d73e04c129775840591ba083ccd093f699416bee73e, 0x354612d9c583ade0c37d0f3e9fb4f9260f958c1cef5328aa2cbc1d1fed949f8b)]
    (0xfffffffffffffffffffffffffffffffebaaedce6af48a03bbfd25e8cd03641, 0x750c48ea743e024ed6db98d688af9feea98d19605b8c35f41f7689feb4947673, 0x18fdbc55b1536ec580b94e206c060f3da0bba66c48f82208afc55028bead3906)"
  by (simp only: chain_eval)

lemma chain_36: "chain_ok 0xfffffffffffffffffffffffffffffffebaaedce6af48a03bbfd25e8cd03641 0x750c48ea743e024ed6db98d688af9feea98d19605b8c35f41f7689feb4947673
    0x18fdbc55b1536ec580b94e206c060f3da0bba66c48f82208afc55028bead3906 [
    (0, 0x98878284e0dad18c26ef85a11e64f28c050b597a75718c02f4b113be0d7f4566, 0xb2ecd953ffa503c43af22fa56ebc56fb8901494c72b5b96aa3f4308287f5e8c8,
      0x4d5554054d04eef6ff7ab6a9fdba62504329d19cf70bcd1c854e5a173c50c538, - 0x82c4ecf9a134c7724310698d6416c0268be1e550aa6e0ca67d40feeac4bd8d3d, 0x5ae132b8b5b438f654079920811afd9b33cac5c1548f3e5cf12175a54d34f4ea, - 0x24de16b6f9e71da33228c4b7d7d32173c40743190f6820f59b0d1242ea61c9a4),
    (0, 0x54872f7c6339d01480fd341fd5d2488dfd73172d95ed1155432e6e89d3398c0, 0x728794205f90f54bf5d1e505b38217947322fee226e4434451a4b91167a47c8c,
      0x464f7c78b01df1503055380621c3cb35c8f8bbf3afc4bdf9e665e9aac19a71e8, - 0x173f9915187677191d79194277f2dcc280aeb614ef63d263bd79121fcec011b40, 0x1be8fe8cbf1d80666b251479fa5a4d11c13f2df74dd8b4db090a25fc872f5c, 0x15433c0e5077b35f2076376a7e024c997ad73f2b6cb2eec99ec3087a1aef020),
    (1, 0xb652eafe317f809ebd0d0babb231eba646f4bf5b1c3e02f7e018073689be34d1, 0xf4f5086c4adf5d72f97848e135ebea1f7c3231ad2827e12b61b38a0ab54af9d3,
      0x7c49403601263860c0b8e2c0535e9989e39b3ed60b5034cee4f38fe3f368c72c, 0x5234fbdea13944ac44e70202b850aba9bd675e4436ffadf7bc31d876a8ad2c4, 0x81da00fcd0eeaf737437244c3d13de68833954516a83d0281d38fda5125be976, - 0x5ce40f76c7b9cea90fcf650a75637eb64973965af5cf2f90b1e28bd3e3ba8ae5),
    (0, 0xaeafae58242a90e531e26ad3754e9a553b88d37d07cae8e35fa4185aaeb6f158, 0xbb2228d3ea32cb3c1eb160cc824a4ba8115f9a7f415d18ddcaac8193defc2c47,
      0x8e07363833ca066474d5432354792ed348ac64c044ba43bcc4c426bce4ca3ddc, - 0x2158ddf0e4eaf201d36866a9196a2cd4e3031c55ea49ed54fc2c2c4fa8578dc75, 0x7733498fa4673eac688129fbe8b0d1c1e4a56cb6aee4de10794d19df78f4731d, 0x27750281a7811434422aa6eb01a6e60e414b6b07cb9dcfa51d232d07c646c468),
    (0, 0x9b3f6216667833ff2a4bbcd12ac27afe4a51a2d3b07eb0e78d312eca1f7159a1, 0xf978b7a80b10554c847ef8b259857af1cd5060fe394894f17a5cd815f896d363,
      0x43b86e54f0380b3bfcc19605f90aee73e0b34528976e3fabeb5c7e34f8cbe5c4, - 0xee1db49246065ee4c583deef85f2d6ba63dcf8dad8a141e84c4581c9ea952b95, 0x5e25d0788cb1268a624ad60999cacfffe004c46530882a98b77eec48bbbc25b0, - 0x25cdd7aa2d2b76116311866b43a130b373a0286b69f4138f623d4c7141031084),
    (0, 0xf6c614511660dd458e525fbfb354aeb10fcf1e624c2f26086ba3729f78386cc0, 0x16f9a89d6da61f39bdbd7aa1d99d6c4fe7d35c91ae777df739678098dcdf2247,
      0x398c2a7f1f5f6cd2ff426221d4bb58c75dbf1c2ac7910ca6fc185b157792aa03, - 0x256c4ea7f239c2430100f4c3ab0100ab0a8af6490928f26433eb10afc2b761d15, 0xede1484f460d8c4642f226602028c2ec3e99dc86c2a10c22ad34de575b759c7d, 0xda5558b380a70579c000f83fd5ee4de8c2a690687a2c25eee60d56e8707c2317),
    (0, 0x2fa523c29a33f7934f4e62b53aef395863ff174d933527da8937c26b6a5c9c60, 0xa6b594b38fb3e77c6edf78161fade2041f4e09fd8497db776e546c41567feb3c,
      0x71444009192228730cd8237a490feba2afe3d27d7cc1136bc97e439d13330d55, 0xf3c20ffc65214bed9334cf00e5a24691d7f9c08ad15d937943f8a20cf0d3b63, 0x8de0da89278a5fd845b16a73a967803eb177fc87cd5cbb802d2fd32b60e13aa, - 0x1ac0388b2ec8a38a61724882e8c7232a165b2d0cba37566c8a3bf056082d2e48),
    (0, 0x60610490a84968ba2933cdf68cdfad9b184ba2853935fd774bef4e64377ba489, 0x3b78ce563f89a0ed9414f5aa28ad0d96d6795f9c63,
      0x3f3979bf72ae8202983dc989aec7f2ff2ed91bdd69ce02fc0700ca100e59ddf3, - 0xf066ef23f2825b3c1099c08d68017a723ffef14667a9f0fef20302e2601162aa, 0x2448e830f3eb6d2d087624f4324d34346794750e7986d408080f28c28d2b7d6a, 0x3ec34589b7fa54c94137cf83c615fca0ae81b378da463c2ba0a696cdfd02bf77)]
    (0x7fffffffffffffffffffffffffffffff5d576e7357a4501ddfe92f46681b20a0, 0x3b78ce563f89a0ed9414f5aa28ad0d96d6795f9c63, 0x3f3979bf72ae8202983dc989aec7f2ff2ed91bdd69ce02fc0700ca100e59ddf3)"
  by (simp only: chain_eval)

lemma chain_37: "chain_ok 0x7fffffffffffffffffffffffffffffff5d576e7357a4501ddfe92f46681b20a0 0x3b78ce563f89a0ed9414f5aa28ad0d96d6795f9c63
    0x3f3979bf72ae8202983dc989aec7f2ff2ed91bdd69ce02fc0700ca100e59ddf3 [
    (0, 0x3b9e1fd3f452018f0e9c2ee69240a880ee147a50256c489c9338d92cacd255c2, 0x79be667ef9dcbbac55a06295ce870b07029bfcdb2dce28d959f2815b16f81798,
      0xb7c52588d95c3b9aa25b0403f1eef75702e84bb7597aabe663b82f6f04ef2777, 0x1d7298c92417205f0a2a693fbe29f8ec2086dd54b2d5dfab663d6f01c334de5f, 0xde244570034669a620dab01c85900804a78e9a15f24f1f2d13289bf8ef24c3a, - 0x1c5a1445607c69d1d948387b9687d926de66b12215c644000743c395a06903ac)]
    (0xfffffffffffffffffffffffffffffffebaaedce6af48a03bbfd25e8cd0364140, 0x79be667ef9dcbbac55a06295ce870b07029bfcdb2dce28d959f2815b16f81798, 0xb7c52588d95c3b9aa25b0403f1eef75702e84bb7597aabe663b82f6f04ef2777)"
  by (simp only: chain_eval)

section \<open>The order of the generator\<close>

lemma chain_start: "gen_multiple 1 0x79be667ef9dcbbac55a06295ce870b07029bfcdb2dce28d959f2815b16f81798 0x483ada7726a3c4655da4fbfc0e1108a8fd17b448a68554199c47d08ffb10d4b8"
  using gen_on_curve by (simp add: gen_multiple_def gen_point_def gen_x_def gen_y_def)

lemma chain_end: "gen_multiple 0xfffffffffffffffffffffffffffffffebaaedce6af48a03bbfd25e8cd0364140
    0x79be667ef9dcbbac55a06295ce870b07029bfcdb2dce28d959f2815b16f81798
    0xb7c52588d95c3b9aa25b0403f1eef75702e84bb7597aabe663b82f6f04ef2777"
  by (rule chain_sound [OF chain_37],
    rule chain_sound [OF chain_36],
    rule chain_sound [OF chain_35],
    rule chain_sound [OF chain_34],
    rule chain_sound [OF chain_33],
    rule chain_sound [OF chain_32],
    rule chain_sound [OF chain_31],
    rule chain_sound [OF chain_30],
    rule chain_sound [OF chain_29],
    rule chain_sound [OF chain_28],
    rule chain_sound [OF chain_27],
    rule chain_sound [OF chain_26],
    rule chain_sound [OF chain_25],
    rule chain_sound [OF chain_24],
    rule chain_sound [OF chain_23],
    rule chain_sound [OF chain_22],
    rule chain_sound [OF chain_21],
    rule chain_sound [OF chain_20],
    rule chain_sound [OF chain_19],
    rule chain_sound [OF chain_18],
    rule chain_sound [OF chain_17],
    rule chain_sound [OF chain_16],
    rule chain_sound [OF chain_15],
    rule chain_sound [OF chain_14],
    rule chain_sound [OF chain_13],
    rule chain_sound [OF chain_12],
    rule chain_sound [OF chain_11],
    rule chain_sound [OF chain_10],
    rule chain_sound [OF chain_9],
    rule chain_sound [OF chain_8],
    rule chain_sound [OF chain_7],
    rule chain_sound [OF chain_6],
    rule chain_sound [OF chain_5],
    rule chain_sound [OF chain_4],
    rule chain_sound [OF chain_3],
    rule chain_sound [OF chain_2],
    rule chain_sound [OF chain_1],
    rule chain_sound [OF chain_0])
    (rule chain_start)

theorem gen_order: "nmul 0xfffffffffffffffffffffffffffffffebaaedce6af48a03bbfd25e8cd0364141 (cp gen_point) = 0"
proof -
  let ?x = "0x79be667ef9dcbbac55a06295ce870b07029bfcdb2dce28d959f2815b16f81798 :: int" and ?y = "0xb7c52588d95c3b9aa25b0403f1eef75702e84bb7597aabe663b82f6f04ef2777 :: int"
  have on: "on_curve (fpt ?x ?y)" and m: "zmul 0xfffffffffffffffffffffffffffffffebaaedce6af48a03bbfd25e8cd0364140 (cp gen_point) = cp (fpt ?x ?y)"
    using chain_end by (simp_all only: gen_multiple_def)
  have "?y + 1 * chain_c = - gen_y + 1 * chain_M" "?x = gen_x"
    by (simp_all only: chain_c_def chain_M_def gen_x_def gen_y_def arith_simps arith_special)
  then have "(of_int ?y :: fp) = of_int (- gen_y)" "?x = gen_x"
    using chain_cong by blast+
  then have "fpt ?x ?y = point_neg gen_point"
    by (simp only: gen_point_def point_neg.simps of_int_minus)
  then have "zmul (0xfffffffffffffffffffffffffffffffebaaedce6af48a03bbfd25e8cd0364140 + 1) (cp gen_point) = 0"
    using m gen_on_curve by (simp only: zmul_add cp_neg zmul_1 add.left_inverse)
  then have "zmul (int 0xfffffffffffffffffffffffffffffffebaaedce6af48a03bbfd25e8cd0364141) (cp gen_point) = 0" by simp
  then show ?thesis by (simp only: zmul_of_nat)
qed

end
