(* ===== verification/Curve_Order.thy ===== *)
theory Curve_Order
  imports Complex_Main Curve_Chain Order
begin

text \<open>
  The curve has exactly the points of its prime order, so that the order annihilates every point:
  the number of points is a multiple of the order of the generator, is at most \<open>2 p + 1\<close>, and
  there is no point of order two. Hence the points are a vector space over the field of scalars,
  an interpretation of the library's locale.
\<close>

lemma gen_neq_0: "cp gen_point \<noteq> 0"
  using cp_eq_0_iff [OF gen_on_curve] by (simp add: gen_point_def)

lemma gen_order_n: "nmul order_n (cp gen_point) = 0"
  using gen_order by (simp only: order_n_def)

text \<open>A multiple of a point of prime order vanishes exactly for the multiples of the order.\<close>

lemma nmul_dvd: "nmul q P = 0 \<Longrightarrow> q dvd k \<Longrightarrow> nmul k P = 0"
  by (auto simp: nmul_mult mult.commute [of q] elim!: dvdE)

lemma nmul_prime_order:
  assumes q: "is_prime q" "nmul q P = 0" and k: "nmul k P = 0" and P: "P \<noteq> 0"
  shows "q dvd k"
proof (rule ccontr)
  assume "\<not> q dvd k"
  then have "coprime (int q) (int k)"
    using is_prime_coprime [OF q(1)] by simp
  then obtain a b where "a * int q + b * int k = 1"
    by (metis bezout_int coprime_imp_gcd_eq_1)
  then have "zmul (a * int q + b * int k) P = P" by simp
  then show False
    using q(2) k P by (simp add: zmul_add zmul_mult)
qed

lemma card_cpoint_cases:
  "card (UNIV :: cpoint set) = order_n \<or> card (UNIV :: cpoint set) = order_n * 2"
proof -
  let ?N = "card (UNIV :: cpoint set)"
  have "order_n dvd ?N"
    by (rule nmul_prime_order [OF is_prime_order_n gen_order_n nmul_card gen_neq_0])
  then obtain m where m: "?N = order_n * m" by (rule dvdE)
  have "?N \<noteq> 0" using finite_cpoint by simp
  then have "0 < m" using m by simp
  have "order_n * m < order_n * 3"
    using card_cpoint m by (simp add: order_n_def field_p_def)
  then have "m = 1 \<or> m = 2" using \<open>0 < m\<close> by auto
  then show ?thesis using m by auto
qed

theorem order_n_annihilates: "nmul order_n P = 0"
  using card_cpoint_cases
proof
  assume "card (UNIV :: cpoint set) = order_n"
  then show ?thesis using nmul_card [of P] by simp
next
  assume c: "card (UNIV :: cpoint set) = order_n * 2"
  have "nmul (order_n * 2) P = nmul order_n P + nmul order_n P"
    using nmul_add [of order_n order_n P] by (simp add: mult_2_right)
  then have "nmul order_n P + nmul order_n P = 0" using nmul_card [of P] c by simp
  then show ?thesis by (rule no_order_two)
qed

lemma nmul_eq_0_iff: "nmul k P = 0 \<longleftrightarrow> order_n dvd k \<or> P = 0"
  using nmul_dvd [OF order_n_annihilates, of k P] nmul_prime_order [OF is_prime_order_n order_n_annihilates, of k P] by auto

lemma zmul_eq_0_iff: "zmul k P = 0 \<longleftrightarrow> int order_n dvd k \<or> P = 0"
proof (cases "0 \<le> k")
  case True
  then show ?thesis using int_dvd_int_iff [of order_n "nat k"] by (simp add: zmul_def nmul_eq_0_iff)
next
  case False
  then show ?thesis using int_dvd_int_iff [of order_n "nat (- k)"] by (simp add: zmul_def nmul_eq_0_iff)
qed

lemma zmul_mod: "zmul (k mod int order_n) P = zmul k P"
proof -
  have "k = int order_n * (k div int order_n) + k mod int order_n" by simp
  then have "zmul k P = zmul (int order_n * (k div int order_n)) P + zmul (k mod int order_n) P"
    using zmul_add by metis
  moreover have "zmul (int order_n * (k div int order_n)) P = 0" by (simp add: zmul_eq_0_iff)
  ultimately show ?thesis by simp
qed

section \<open>Multiplication by scalars\<close>

definition smul :: "fn \<Rightarrow> cpoint \<Rightarrow> cpoint" where
  "smul s P = nmul (fn_nat s) P"

lemma smul_of_int: "smul (of_int k) P = zmul k P"
proof -
  have "int (fn_nat (of_int k)) mod int order_n = k mod int order_n"
    by (simp flip: of_int_fn_eq_iff)
  then have "zmul (int (fn_nat (of_int k))) P = zmul k P" using zmul_mod by metis
  then show ?thesis by (simp add: smul_def)
qed

lemma smul_of_nat: "smul (of_nat k) P = nmul k P"
  using smul_of_int [of "int k" P] by simp

lemma fn_of_int_cases: obtains k where "(s :: fn) = of_int k"
  by (metis of_int_of_nat_eq of_nat_fn_nat)

interpretation curve: vector_space smul
proof
  fix a b :: fn and P Q :: cpoint
  obtain j where j: "a = of_int j" by (rule fn_of_int_cases)
  obtain k where k: "b = of_int k" by (rule fn_of_int_cases)
  show "smul a (P + Q) = smul a P + smul a Q"
    by (simp add: smul_def nmul_add_right)
  show "smul (a + b) P = smul a P + smul b P"
    using smul_of_int [of "j + k" P] by (simp add: j k smul_of_int zmul_add)
  show "smul a (smul b P) = smul (a * b) P"
    using smul_of_int [of "j * k" P] by (simp add: j k smul_of_int zmul_mult)
  show "smul 1 P = P"
    using smul_of_int [of 1 P] by simp
qed

end
