(* ===== verification/Group_Ops.thy ===== *)
theory Group_Ops
  imports Group_Law Curve_Order
begin

text \<open>
  The group operations as a refinement of the abelian group of curve points: an affine or jacobian
  record stands for an element of the type \<open>cpoint\<close>, and every routine computes the group
  operation it is named after. The parameter \<open>v\<close> is the common factor of \<open>Group_Law\<close>;
  it is 1 except inside the fixed-time multiplication.
\<close>

section \<open>The refinement relations\<close>

definition gej_is :: "fp \<Rightarrow> cpoint \<Rightarrow> secp256k1_gej \<Rightarrow> bool" where
  "gej_is v P a \<longleftrightarrow> gej_ok a \<and> gej_at v a = pt P"

definition ge_is :: "fp \<Rightarrow> cpoint \<Rightarrow> secp256k1_ge \<Rightarrow> bool" where
  "ge_is v P a \<longleftrightarrow> ge_ok 8 a \<and> ge_at v a = pt P"

named_theorems ge_rules \<open>group operations refine the curve group\<close>

lemma gej_is_valid: "gej_is v P a \<Longrightarrow> gej_valid_at v a"
  by (simp add: gej_is_def gej_valid_at_def)

lemma ge_is_valid: "ge_is v P a \<Longrightarrow> ge_valid_at v a"
  by (simp add: ge_is_def ge_valid_at_def)

lemma gej_is_ok: "gej_is v P a \<Longrightarrow> gej_ok a"
  by (simp add: gej_is_def)

lemma ge_is_ok: "ge_is v P a \<Longrightarrow> ge_ok 8 a"
  by (simp add: ge_is_def)

lemma gej_is_infinity: "gej_is v P a \<Longrightarrow> gej_infinity a \<longleftrightarrow> P = 0"
  using pt_eq_Infinity_iff [of P] by (auto simp: gej_is_def gej_at_def split: if_splits)

lemma ge_is_infinity: "ge_is v P a \<Longrightarrow> ge_infinity a \<longleftrightarrow> P = 0"
  using pt_eq_Infinity_iff [of P] by (auto simp: ge_is_def ge_at_def split: if_splits)

lemma gej_is_unique: "gej_is v P a \<Longrightarrow> gej_is v Q a \<Longrightarrow> P = Q"
  by (simp add: gej_is_def pt_inject)

lemma ge_is_unique: "ge_is v P a \<Longrightarrow> ge_is v Q a \<Longrightarrow> P = Q"
  by (simp add: ge_is_def pt_inject)

lemma gej_is_zero: "gej_infinity a \<Longrightarrow> gej_is v 0 a"
  by (simp add: gej_is_def gej_ok_def gej_at_def pt_eq_Infinity_iff [THEN iffD2, symmetric])

lemma ge_is_zero: "ge_infinity a \<Longrightarrow> ge_is v 0 a"
  by (simp add: ge_is_def ge_ok_def ge_at_def pt_eq_Infinity_iff [THEN iffD2, symmetric])

lemma pt_add: "pt (P + Q) = point_add (pt P) (pt Q)"
  by (rule plus_cpoint.rep_eq)

lemma pt_neg: "pt (- P) = point_neg (pt P)"
  by (rule uminus_cpoint.rep_eq)

text \<open>Every valid record stands for a point.\<close>

lemma gej_valid_is: "gej_valid_at v a \<Longrightarrow> gej_is v (cp (gej_at v a)) a"
  by (simp add: gej_is_def gej_valid_at_def)

lemma ge_valid_is: "ge_valid_at v a \<Longrightarrow> ge_is v (cp (ge_at v a)) a"
  by (simp add: ge_is_def ge_valid_at_def)

section \<open>The group law\<close>

text \<open>Doubling, with the ratio of the z coordinates.\<close>

lemma gej_double_full:
  assumes a: "gej_is v P a" "P \<noteq> 0" and v: "v \<noteq> 0"
  shows "gej_is v (P + P) (fst (secp256k1_gej_double_var r a))"
    and "fe_mag 2 (snd (secp256k1_gej_double_var r a))"
    and "fev (gej_z (fst (secp256k1_gej_double_var r a))) = fev (gej_z a) * fev (snd (secp256k1_gej_double_var r a))"
proof -
  have "\<not> gej_infinity a" using a gej_is_infinity by blast
  moreover have "gej_ok a" "on_curve (gej_at v a)"
    using a by (simp_all add: gej_is_def)
  ultimately have "double_post v (point_add (gej_at v a) (gej_at v a)) (fev (gej_z a)) (secp256k1_gej_double_var r a)"
    using secp256k1_gej_double_var_finite v by blast
  then show "gej_is v (P + P) (fst (secp256k1_gej_double_var r a))"
    and "fe_mag 2 (snd (secp256k1_gej_double_var r a))"
    and "fev (gej_z (fst (secp256k1_gej_double_var r a))) = fev (gej_z a) * fev (snd (secp256k1_gej_double_var r a))"
    using a by (simp_all add: double_post_def gej_is_def pt_add)
qed

lemma gej_double_is [ge_rules]:
  assumes a: "gej_is v P a" and v: "v \<noteq> 0"
  shows "gej_is v (P + P) (fst (secp256k1_gej_double_var r a))"
proof (cases "P = 0")
  case True
  then have "gej_infinity a" using a gej_is_infinity by blast
  then show ?thesis using True by (simp add: secp256k1_gej_double_var_def gej_is_zero)
qed (rule gej_double_full(1) [OF a _ v])

lemma add_post_is: "add_post v (pt P) z res \<Longrightarrow> gej_is v P (fst res)"
  by (simp add: add_post_def gej_is_def)

lemma gej_add_is [ge_rules]:
  assumes a: "gej_is v P a" and b: "gej_is v Q b" and v: "v \<noteq> 0"
  shows "gej_is v (P + Q) (fst (secp256k1_gej_add_var r a b))"
proof (cases "P = 0 \<or> Q = 0")
  case True
  then show ?thesis
    using a b gej_is_infinity [OF a] gej_is_infinity [OF b] by (auto simp: secp256k1_gej_add_var_def)
next
  case False
  then have fin: "\<not> gej_infinity a" "\<not> gej_infinity b"
    using gej_is_infinity [OF a] gej_is_infinity [OF b] by simp_all
  have "add_post v (point_add (gej_at v a) (gej_at v b)) (fev (gej_z a)) (secp256k1_gej_add_var r a b)"
    by (rule secp256k1_gej_add_var_finite [OF gej_is_valid [OF a] fin(1) gej_is_valid [OF b] fin(2) v])
  then show ?thesis using a b by (simp add: gej_is_def add_post_def pt_add)
qed

lemma gej_set_ge_refines [ge_rules]: "ge_is v P a \<Longrightarrow> gej_is v P (secp256k1_gej_set_ge a)"
  using gej_set_ge_is [of a v] by (simp add: ge_is_def gej_is_def)

lemma gej_add_ge_var_full:
  assumes a: "gej_is v P a" "P \<noteq> 0" and b: "ge_is v Q b" "Q \<noteq> 0" and v: "v \<noteq> 0"
  shows "add_post v (pt (P + Q)) (fev (gej_z a)) (secp256k1_gej_add_ge_var r a b)"
proof -
  have fin: "\<not> gej_infinity a" "\<not> ge_infinity b"
    using a b gej_is_infinity ge_is_infinity by blast+
  have "add_post v (point_add (gej_at v a) (ge_at v b)) (fev (gej_z a)) (secp256k1_gej_add_ge_var r a b)"
    by (rule secp256k1_gej_add_ge_var_finite [OF gej_is_valid [OF a(1)] fin(1) ge_is_valid [OF b(1)] fin(2) v])
  then show ?thesis using a(1) b(1) by (simp add: gej_is_def ge_is_def pt_add)
qed

lemma gej_add_ge_var_refines [ge_rules]:
  assumes a: "gej_is v P a" and b: "ge_is v Q b" and v: "v \<noteq> 0"
  shows "gej_is v (P + Q) (fst (secp256k1_gej_add_ge_var r a b))"
proof (cases "P = 0 \<or> Q = 0")
  case True
  then show ?thesis
    using a b gej_is_infinity [OF a] ge_is_infinity [OF b] gej_set_ge_refines [OF b]
    by (auto simp: secp256k1_gej_add_ge_var_def)
next
  case False
  then have "P \<noteq> 0" "Q \<noteq> 0" by simp_all
  then show ?thesis by (rule add_post_is [OF gej_add_ge_var_full [OF a _ b _ v]])
qed

text \<open>The constant-time addition needs a finite second operand.\<close>

lemma gej_add_ge_refines [ge_rules]:
  assumes a: "gej_is v P a" and b: "ge_is v Q b" and Q: "Q \<noteq> 0" and v: "v \<noteq> 0"
  shows "gej_is v (P + Q) (secp256k1_gej_add_ge a b)"
proof -
  have fin: "\<not> ge_infinity b" using b Q ge_is_infinity by blast
  show ?thesis
  proof (cases "gej_infinity a")
    case True
    then have "P = 0" using a gej_is_infinity by blast
    then show ?thesis
      using secp256k1_gej_add_ge_infinite [OF True ge_is_ok [OF b] fin, of v] b by (simp add: gej_is_def ge_is_def)
  next
    case False
    then show ?thesis
      using secp256k1_gej_add_ge_finite [OF gej_is_valid [OF a] False ge_is_valid [OF b] fin v] a b
      by (simp add: gej_is_def ge_is_def pt_add)
  qed
qed

section \<open>Conversions\<close>

lemma fe_is_8_1 [intro]: "fe_is 1 x a \<Longrightarrow> fe_mag 8 a"
  using fe_is_8 by (simp add: fe_is_fev)

lemma ge_isI:
  assumes "fe_is 8 X x" "fe_is 8 Y y" "pt P = Point (X / v ^ 2) (Y / v ^ 3)"
  shows "ge_is v P \<lparr>ge_x = x, ge_y = y, ge_infinity = False\<rparr>"
  using assms by (simp add: ge_is_def ge_ok_def ge_at_def fe_is_fev)

lemma ge_isE:
  assumes "ge_is v P a" "P \<noteq> 0"
  obtains X Y where "fe_is 8 X (ge_x a)" "fe_is 8 Y (ge_y a)" "pt P = Point (X / v ^ 2) (Y / v ^ 3)" "\<not> ge_infinity a"
  using assms ge_finite [of 8 a v] ge_is_infinity [OF assms(1)] unfolding ge_is_def by metis

lemma gej_isI:
  assumes "fe_is 8 X x" "fe_is 8 Y y" "fe_is 8 Z z" "Z \<noteq> 0" "pt P = Point (X / (Z * v) ^ 2) (Y / (Z * v) ^ 3)"
  shows "gej_is v P \<lparr>gej_x = x, gej_y = y, gej_z = z, gej_infinity = False\<rparr>"
  using assms by (simp add: gej_is_def gej_ok_def gej_at_def fe_is_fev)

lemma gej_isE:
  assumes "gej_is v P a" "P \<noteq> 0"
  obtains X Y Z where "fe_is 8 X (gej_x a)" "fe_is 8 Y (gej_y a)" "fe_is 8 Z (gej_z a)" "Z \<noteq> 0"
    "pt P = Point (X / (Z * v) ^ 2) (Y / (Z * v) ^ 3)" "fev (gej_z a) = Z" "\<not> gej_infinity a"
  using assms gej_finite [of a v] gej_is_infinity [OF assms(1)] unfolding gej_is_def by metis

text \<open>
  Division by the inverse of z. The factor moves: coordinates over \<open>Z * v\<close> become coordinates over
  \<open>v'\<close> when the given inverse has the value \<open>v' / (Z * v)\<close>.
\<close>

lemma ge_scaled_is:
  assumes a: "gej_is v P a" "P \<noteq> 0" and w: "w * (fev (gej_z a) * v) = v'" and v: "v \<noteq> 0" "v' \<noteq> 0"
    and zi2: "fe_is 1 (w * w) zi2" and zi3: "fe_is 1 (w * w * w) zi3"
  shows "ge_is v' P \<lparr>ge_x = secp256k1_fe_mul (gej_x a) zi2, ge_y = secp256k1_fe_mul (gej_y a) zi3, ge_infinity = False\<rparr>"
    and "fe_mag 1 (secp256k1_fe_mul (gej_x a) zi2)" and "fe_mag 1 (secp256k1_fe_mul (gej_y a) zi3)"
proof -
  obtain X Y Z where x: "fe_is 8 X (gej_x a)" "fe_is 8 Y (gej_y a)" and z: "Z \<noteq> 0"
    and P: "pt P = Point (X / (Z * v) ^ 2) (Y / (Z * v) ^ 3)" and f: "fev (gej_z a) = Z"
    using gej_isE [OF a] .
  have rx: "fe_is 1 (X * (w * w)) (secp256k1_fe_mul (gej_x a) zi2)"
    and ry: "fe_is 1 (Y * (w * w * w)) (secp256k1_fe_mul (gej_y a) zi3)"
    by (rule fe_exec zi2 zi3 x | simp)+
  have w': "w = v' / (Z * v)"
    using w f z v by (simp add: field_simps)
  have e: "X * (w * w) / v' ^ 2 = X / (Z * v) ^ 2" "Y * (w * w * w) / v' ^ 3 = Y / (Z * v) ^ 3"
    using z v unfolding w' by (simp_all add: power2_eq_square power3_eq_cube)
  show "ge_is v' P \<lparr>ge_x = secp256k1_fe_mul (gej_x a) zi2, ge_y = secp256k1_fe_mul (gej_y a) zi3, ge_infinity = False\<rparr>"
    by (rule ge_isI [OF fe_is_8 [OF rx] fe_is_8 [OF ry]]) (simp only: e P)
  show "fe_mag 1 (secp256k1_fe_mul (gej_x a) zi2)" "fe_mag 1 (secp256k1_fe_mul (gej_y a) zi3)"
    using rx ry by (simp_all add: fe_is_def)
qed

lemma ge_set_gej_zinv_is:
  assumes a: "gej_is v P a" "P \<noteq> 0" and zi: "fe_is 8 w zi" "w * (fev (gej_z a) * v) = v'" and v: "v \<noteq> 0" "v' \<noteq> 0"
  shows "ge_is v' P (secp256k1_ge_set_gej_zinv a zi)"
    and "fe_mag 1 (ge_x (secp256k1_ge_set_gej_zinv a zi))" and "fe_mag 1 (ge_y (secp256k1_ge_set_gej_zinv a zi))"
proof -
  have zi2: "fe_is 1 (w * w) (secp256k1_fe_sqr zi)" by (rule fe_exec zi(1) | simp)+
  have zi3: "fe_is 1 (w * w * w) (secp256k1_fe_mul (secp256k1_fe_sqr zi) zi)" by (rule fe_exec zi2 zi(1) | simp)+
  have "\<not> gej_infinity a" using a gej_is_infinity by blast
  then show "ge_is v' P (secp256k1_ge_set_gej_zinv a zi)"
    and "fe_mag 1 (ge_x (secp256k1_ge_set_gej_zinv a zi))" and "fe_mag 1 (ge_y (secp256k1_ge_set_gej_zinv a zi))"
    using ge_scaled_is [OF a zi(2) v zi2 zi3] by (simp_all add: secp256k1_ge_set_gej_zinv_def Let_def)
qed

text \<open>The conversion to affine coordinates, and the rescaled input it leaves behind.\<close>

definition ge_tidy :: "secp256k1_ge \<Rightarrow> bool" where
  "ge_tidy a \<longleftrightarrow> fe_mag 1 (ge_x a) \<and> fe_mag 1 (ge_y a)"

lemma gej_ge_scaled: "\<lparr>gej_x = x, gej_y = y, gej_z = secp256k1_fe_set_int 1, gej_infinity = i\<rparr> =
    secp256k1_gej_set_ge \<lparr>ge_x = x, ge_y = y, ge_infinity = i\<rparr>"
  by (simp add: secp256k1_gej_set_ge_def)

lemma ge_set_gej_is:
  assumes a: "gej_is v P a" and v: "v \<noteq> 0"
  shows "ge_is v P (fst (secp256k1_ge_set_gej a))" (is ?g) and "gej_is v P (snd (secp256k1_ge_set_gej a))" (is ?j)
    and "P \<noteq> 0 \<Longrightarrow> ge_tidy (fst (secp256k1_ge_set_gej a))" (is "_ \<Longrightarrow> ?t")
    and "ge_is v P (fst (secp256k1_ge_set_gej_var r a))" (is ?gv) and "gej_is v P (snd (secp256k1_ge_set_gej_var r a))" (is ?jv)
    and "P \<noteq> 0 \<Longrightarrow> ge_tidy (fst (secp256k1_ge_set_gej_var r a))" (is "_ \<Longrightarrow> ?tv")
proof -
  have "?g \<and> ?j \<and> ?gv \<and> ?jv \<and> (P \<noteq> 0 \<longrightarrow> ?t \<and> ?tv)"
  proof (cases "P = 0")
    case True
    then have "gej_infinity a" using a gej_is_infinity by blast
    then show ?thesis using True a
      by (auto simp: secp256k1_ge_set_gej_def secp256k1_ge_set_gej_var_def Let_def intro!: gej_is_zero ge_is_zero)
  next
    case False
    obtain Z where z: "fe_is 8 Z (gej_z a)" "Z \<noteq> 0" "fev (gej_z a) = Z" and inf: "\<not> gej_infinity a"
      using gej_isE [OF a False] by metis
    let ?z = "secp256k1_fe_inv (gej_z a)"
    define w where "w = inverse Z"
    have zi: "fe_is 1 w ?z" unfolding w_def by (rule fe_exec z(1) | simp)+
    have zi2: "fe_is 1 (w * w) (secp256k1_fe_sqr ?z)" by (rule fe_exec zi | simp)+
    have "fe_is 1 (w * (w * w)) (secp256k1_fe_mul ?z (secp256k1_fe_sqr ?z))" by (rule fe_exec zi zi2 | simp)+
    then have zi3: "fe_is 1 (w * w * w) (secp256k1_fe_mul ?z (secp256k1_fe_sqr ?z))" by (simp add: mult.assoc)
    have w: "w * (fev (gej_z a) * v) = v" using z by (simp add: w_def)
    note s = ge_scaled_is [OF a False w v v zi2 zi3]
    show ?thesis
      using s inf gej_set_ge_refines [OF s(1)] False
      by (simp add: secp256k1_ge_set_gej_def secp256k1_ge_set_gej_var_def Let_def secp256k1_fe_inv_var_def gej_ge_scaled ge_tidy_def)
  qed
  then show ?g ?j "P \<noteq> 0 \<Longrightarrow> ?t" ?gv ?jv "P \<noteq> 0 \<Longrightarrow> ?tv" by blast+
qed

section \<open>Negation\<close>

lemma ge_neg_is [ge_rules]:
  assumes a: "ge_is v P a"
  shows "ge_is v (- P) (secp256k1_ge_neg a)"
proof (cases "P = 0")
  case True
  then have "ge_infinity a" using a ge_is_infinity by blast
  then show ?thesis using True by (simp add: secp256k1_ge_neg_def Let_def ge_is_zero)
next
  case False
  then obtain X Y where x: "fe_is 8 X (ge_x a)" "fe_is 8 Y (ge_y a)" and P: "pt P = Point (X / v ^ 2) (Y / v ^ 3)"
    and inf: "\<not> ge_infinity a" using ge_isE [OF a] by metis
  have y: "fe_is 2 (- Y) (secp256k1_fe_negate (secp256k1_fe_normalize_weak (ge_y a)) 1)"
    by (rule fe_exec x | simp)+
  have "secp256k1_ge_neg a = \<lparr>ge_x = ge_x a, ge_y = secp256k1_fe_negate (secp256k1_fe_normalize_weak (ge_y a)) 1, ge_infinity = False\<rparr>"
    using inf by (simp add: secp256k1_ge_neg_def Let_def)
  moreover have "fe_is 8 (- Y) (secp256k1_fe_negate (secp256k1_fe_normalize_weak (ge_y a)) 1)"
    by (rule fe_is_mono [OF y]) simp
  ultimately show ?thesis using x(1) P by (auto intro!: ge_isI simp: pt_neg)
qed

lemma gej_neg_is [ge_rules]:
  assumes a: "gej_is v P a"
  shows "gej_is v (- P) (secp256k1_gej_neg a)"
proof (cases "P = 0")
  case True
  then have "gej_infinity a" using a gej_is_infinity by blast
  then show ?thesis using True by (simp add: secp256k1_gej_neg_def Let_def gej_is_zero)
next
  case False
  then obtain X Y Z where x: "fe_is 8 X (gej_x a)" "fe_is 8 Y (gej_y a)" "fe_is 8 Z (gej_z a)" "Z \<noteq> 0"
    and P: "pt P = Point (X / (Z * v) ^ 2) (Y / (Z * v) ^ 3)" and inf: "\<not> gej_infinity a" using gej_isE [OF a] by metis
  have y: "fe_is 2 (- Y) (secp256k1_fe_negate (secp256k1_fe_normalize_weak (gej_y a)) 1)"
    by (rule fe_exec x | simp)+
  have "secp256k1_gej_neg a = \<lparr>gej_x = gej_x a, gej_y = secp256k1_fe_negate (secp256k1_fe_normalize_weak (gej_y a)) 1,
      gej_z = gej_z a, gej_infinity = False\<rparr>"
    using inf by (simp add: secp256k1_gej_neg_def Let_def)
  moreover have "fe_is 8 (- Y) (secp256k1_fe_negate (secp256k1_fe_normalize_weak (gej_y a)) 1)"
    by (rule fe_is_mono [OF y]) simp
  ultimately show ?thesis using x P by (auto intro!: gej_isI simp: pt_neg)
qed

section \<open>Validity tests\<close>

text \<open>The tests decide whether a finite record satisfies the curve equation.\<close>

lemma ge_is_valid_var_iff:
  assumes "ge_ok 8 a"
  shows "secp256k1_ge_is_valid_var a \<longleftrightarrow> \<not> ge_infinity a \<and> on_curve (ge_pt a)"
proof (cases "ge_infinity a")
  case False
  then obtain x y where x: "fe_is 8 x (ge_x a)" "fe_is 8 y (ge_y a)" and P: "ge_pt a = Point x y"
    using ge_finite [OF assms, of 1] by auto
  let ?x3 = "secp256k1_fe_normalize_weak (secp256k1_fe_add (secp256k1_fe_mul (secp256k1_fe_sqr (ge_x a)) (ge_x a)) (secp256k1_fe_set_int CURVE_B))"
  have y2: "fe_is 1 (y * y) (secp256k1_fe_sqr (ge_y a))" by (rule fe_exec x | simp)+
  have "fe_is 1 (x * x * x + 7) ?x3" unfolding CURVE_B_def by (rule fe_exec x | simp)+
  then have "fe_is 30 (x * x * x + 7) ?x3" by (rule fe_is_mono) simp
  then show ?thesis
    using False secp256k1_fe_equal_is(2) [OF y2] P
    by (simp add: secp256k1_ge_is_valid_var_def Let_def power2_eq_square power3_eq_cube)
qed (simp add: secp256k1_ge_is_valid_var_def)

lemma gej_is_valid_var_iff:
  assumes "gej_ok a"
  shows "secp256k1_gej_is_valid_var a \<longleftrightarrow> \<not> gej_infinity a \<and> on_curve (gej_pt a)"
proof (cases "gej_infinity a")
  case False
  obtain X Y Z where x: "fe_is 8 X (gej_x a)" "fe_is 8 Y (gej_y a)" "fe_is 8 Z (gej_z a)" "Z \<noteq> 0"
    and P: "gej_pt a = Point (X / Z ^ 2) (Y / Z ^ 3)"
    using gej_finite [OF assms False, of 1] unfolding gej_at_1 mult_1_right by metis
  let ?z2 = "secp256k1_fe_sqr (gej_z a)"
  let ?x3 = "secp256k1_fe_normalize_weak (secp256k1_fe_add (secp256k1_fe_mul (secp256k1_fe_sqr (gej_x a)) (gej_x a))
    (secp256k1_fe_mul_int (secp256k1_fe_mul (secp256k1_fe_sqr ?z2) ?z2) CURVE_B))"
  have y2: "fe_is 1 (Y * Y) (secp256k1_fe_sqr (gej_y a))" by (rule fe_exec x | simp)+
  have "fe_is 1 (X * X * X + 7 * (Z * Z * (Z * Z) * (Z * Z))) ?x3" unfolding CURVE_B_def by (rule fe_exec x | simp)+
  then have "fe_is 30 (X * X * X + 7 * (Z * Z * (Z * Z) * (Z * Z))) ?x3" by (rule fe_is_mono) simp
  then have "secp256k1_gej_is_valid_var a \<longleftrightarrow> Y * Y = X * X * X + 7 * (Z * Z * (Z * Z) * (Z * Z))"
    using False secp256k1_fe_equal_is(2) [OF y2] by (simp add: secp256k1_gej_is_valid_var_def Let_def)
  also have "\<dots> \<longleftrightarrow> on_curve (gej_pt a)"
    unfolding P on_curve_scaled [OF x(4)] by (simp add: power2_eq_square power3_eq_cube eval_nat_numeral mult.assoc)
  finally show ?thesis using False by simp
qed (simp add: secp256k1_gej_is_valid_var_def)

section \<open>Points from an x coordinate\<close>

lemma fp_root_eq_sq: "x = y * y \<Longrightarrow> fp_is_square x" for x :: fp
  by (auto simp: fp_is_square_def power2_eq_square)

text \<open>
  The chosen y is the root that is itself a square; there is none exactly when no point has that
  x coordinate.
\<close>

lemma ge_set_xquad_is:
  assumes x: "fe_is 8 X x"
  shows "fst (secp256k1_ge_set_xquad x) \<longleftrightarrow> fp_is_square (X ^ 3 + 7)"
    and "ge_ok 8 (snd (secp256k1_ge_set_xquad x))" "fe_is 1 (fp_root (X ^ 3 + 7)) (ge_y (snd (secp256k1_ge_set_xquad x)))"
    and "ge_x (snd (secp256k1_ge_set_xquad x)) = x" "\<not> ge_infinity (snd (secp256k1_ge_set_xquad x))"
    and "ge_pt (snd (secp256k1_ge_set_xquad x)) = Point X (fp_root (X ^ 3 + 7))"
proof -
  let ?c = "secp256k1_fe_add (secp256k1_fe_set_int CURVE_B) (secp256k1_fe_mul x (secp256k1_fe_sqr x))"
  have "fe_is 2 (7 + X * (X * X)) ?c" unfolding CURVE_B_def
    by (rule fe_is_mono [where m = "1 + 1"]) (rule fe_exec x | simp)+
  moreover have "7 + X * (X * X) = X ^ 3 + 7"
    by (simp add: power3_eq_cube)
  ultimately have "fe_is 2 (X ^ 3 + 7) ?c" by simp
  then have "fe_is 8 (X ^ 3 + 7) ?c" by (rule fe_is_mono) simp
  note r = secp256k1_fe_sqrt_is [OF this]
  have eq: "secp256k1_ge_set_xquad x = (fst (secp256k1_fe_sqrt ?c), \<lparr>ge_x = x, ge_y = snd (secp256k1_fe_sqrt ?c), ge_infinity = False\<rparr>)"
    by (simp add: secp256k1_ge_set_xquad_def Let_def split_def)
  show "fst (secp256k1_ge_set_xquad x) \<longleftrightarrow> fp_is_square (X ^ 3 + 7)"
    "fe_is 1 (fp_root (X ^ 3 + 7)) (ge_y (snd (secp256k1_ge_set_xquad x)))"
    "ge_x (snd (secp256k1_ge_set_xquad x)) = x" "\<not> ge_infinity (snd (secp256k1_ge_set_xquad x))"
    using r by (simp_all add: eq)
  show "ge_ok 8 (snd (secp256k1_ge_set_xquad x))" "ge_pt (snd (secp256k1_ge_set_xquad x)) = Point X (fp_root (X ^ 3 + 7))"
    using r x fe_is_8 [OF conjunct1 [OF r]] by (simp_all add: eq ge_ok_def ge_pt_def fe_is_fev)
qed

lemma ge_set_xquad_point:
  assumes x: "fe_is 8 X x" and ok: "fst (secp256k1_ge_set_xquad x)"
  shows "on_curve (Point X (fp_root (X ^ 3 + 7)))" and "ge_is 1 (cp (Point X (fp_root (X ^ 3 + 7)))) (snd (secp256k1_ge_set_xquad x))"
    and "cp (Point X (fp_root (X ^ 3 + 7))) \<noteq> 0"
proof -
  show c: "on_curve (Point X (fp_root (X ^ 3 + 7)))"
    using ok ge_set_xquad_is(1) [OF x] fp_root_square_iff by simp
  then show "ge_is 1 (cp (Point X (fp_root (X ^ 3 + 7)))) (snd (secp256k1_ge_set_xquad x))"
    using ge_set_xquad_is(2,6) [OF x] by (simp add: ge_is_def)
  show "cp (Point X (fp_root (X ^ 3 + 7))) \<noteq> 0"
    using cp_eq_0_iff [OF c] by simp
qed

text \<open>The quadratic root is the y of the point with that x whose y is a square.\<close>

lemma fp_root_unique:
  assumes "on_curve (Point X Y)" "fp_is_square Y"
  shows "fp_root (X ^ 3 + 7) = Y"
proof -
  have "fp_is_square (X ^ 3 + 7)"
    using assms(1) by (auto simp: fp_is_square_def intro: exI [of _ Y])
  then have "fp_root (X ^ 3 + 7) ^ 2 = Y ^ 2"
    using fp_root_square_iff assms(1) by simp
  then have "fp_root (X ^ 3 + 7) = Y \<or> fp_root (X ^ 3 + 7) = - Y"
    by (simp add: power2_eq_iff)
  then show ?thesis
  proof
    assume m: "fp_root (X ^ 3 + 7) = - Y"
    then have "fp_is_square (- Y)" using fp_root_is_square by metis
    then have "Y = 0" using assms(2) fp_square_minus by blast
    then show ?thesis using m by simp
  qed
qed

lemma gej_has_quad_y_var_iff:
  assumes "gej_is 1 P a"
  shows "secp256k1_gej_has_quad_y_var a \<longleftrightarrow> (\<exists>x y. pt P = Point x y \<and> fp_is_square y)"
proof (cases "P = 0")
  case True
  then have "gej_infinity a" "pt P = Infinity" using assms gej_is_infinity pt_eq_Infinity_iff by blast+
  then show ?thesis by (simp add: secp256k1_gej_has_quad_y_var_def)
next
  case False
  then obtain X Y Z where x: "fe_is 8 Y (gej_y a)" "fe_is 8 Z (gej_z a)" "Z \<noteq> 0"
    and P: "pt P = Point (X / Z ^ 2) (Y / Z ^ 3)" and inf: "\<not> gej_infinity a" using gej_isE [OF assms] by (metis mult_1_right)
  have "fe_is 8 (Y * Z) (secp256k1_fe_mul (gej_y a) (gej_z a))"
    by (rule fe_is_8) (rule fe_exec x | simp)+
  then have "secp256k1_gej_has_quad_y_var a \<longleftrightarrow> fp_is_square (Y * Z)"
    using inf secp256k1_fe_is_quad_var_is by (simp add: secp256k1_gej_has_quad_y_var_def Let_def)
  also have "\<dots> \<longleftrightarrow> fp_is_square (Y / Z ^ 3)"
  proof
    assume "fp_is_square (Y * Z)"
    then obtain w where "Y * Z = w ^ 2" by (auto simp: fp_is_square_def)
    then have "Y / Z ^ 3 = (w / Z ^ 2) ^ 2" using x(3) by (simp add: field_simps power2_eq_square power3_eq_cube)
    then show "fp_is_square (Y / Z ^ 3)" unfolding fp_is_square_def by blast
  next
    assume "fp_is_square (Y / Z ^ 3)"
    then obtain w where "Y / Z ^ 3 = w ^ 2" by (auto simp: fp_is_square_def)
    then have "Y * Z = (w * Z ^ 2) ^ 2" using x(3) by (simp add: field_simps power2_eq_square power3_eq_cube)
    then show "fp_is_square (Y * Z)" unfolding fp_is_square_def by blast
  qed
  finally show ?thesis using P by auto
qed
section \<open>Rescaling\<close>

lemma gej_rescale_is [ge_rules]:
  assumes a: "gej_is v P a" and s: "fe_is 8 S s" "S \<noteq> 0"
  shows "gej_is v P (secp256k1_gej_rescale a s)"
proof (cases "P = 0")
  case True
  then have "gej_infinity a" using a gej_is_infinity by blast
  then show ?thesis using True by (simp add: secp256k1_gej_rescale_def Let_def gej_is_zero)
next
  case False
  obtain X Y Z where x: "fe_is 8 X (gej_x a)" "fe_is 8 Y (gej_y a)" "fe_is 8 Z (gej_z a)" "Z \<noteq> 0"
    and P: "pt P = Point (X / (Z * v) ^ 2) (Y / (Z * v) ^ 3)" and inf: "\<not> gej_infinity a"
    by (rule gej_isE [OF a False])
  let ?zz = "secp256k1_fe_sqr s"
  have zz: "fe_is 1 (S * S) ?zz" by (rule fe_exec s(1) | simp)+
  have rx: "fe_is 1 (X * (S * S)) (secp256k1_fe_mul (gej_x a) ?zz)" by (rule fe_exec zz x | simp)+
  have ry: "fe_is 1 (Y * (S * S) * S) (secp256k1_fe_mul (secp256k1_fe_mul (gej_y a) ?zz) s)"
    by (rule fe_exec zz x s(1) | simp)+
  have rz: "fe_is 1 (Z * S) (secp256k1_fe_mul (gej_z a) s)" by (rule fe_exec x s(1) | simp)+
  have eq: "secp256k1_gej_rescale a s = \<lparr>gej_x = secp256k1_fe_mul (gej_x a) ?zz,
      gej_y = secp256k1_fe_mul (secp256k1_fe_mul (gej_y a) ?zz) s, gej_z = secp256k1_fe_mul (gej_z a) s, gej_infinity = False\<rparr>"
    using inf by (simp add: secp256k1_gej_rescale_def Let_def)
  show ?thesis
    unfolding eq by (rule gej_isI [OF fe_is_8 [OF rx] fe_is_8 [OF ry] fe_is_8 [OF rz]])
      (use P x(4) s(2) in \<open>simp_all add: power2_eq_square power3_eq_cube\<close>)
qed

section \<open>A record for every point\<close>

text \<open>The bytes of a number, its field element, and the affine record of a finite point.\<close>

definition fe_of :: "fp \<Rightarrow> secp256k1_fe" where
  "fe_of x = snd (secp256k1_fe_set_b32 (map (\<lambda>i. of_nat (fp_nat x div 256 ^ i mod 256)) (rev [0 ..< 32])))"

lemma be_nat_digits: "be_nat (map (\<lambda>i. of_nat (k div 256 ^ i mod 256)) (rev [0 ..< n])) = k mod 256 ^ n"
proof (induction n)
  case (Suc n)
  have "unat (of_nat (k div 256 ^ n mod 256) :: u8) = k div 256 ^ n mod 256"
    by (simp add: unat_of_nat)
  moreover have "k mod 256 ^ Suc n = 256 ^ n * (k div 256 ^ n mod 256) + k mod 256 ^ n"
    using mod_mult2_eq [of k "256 ^ n" 256] by (simp add: mult.commute)
  ultimately show ?case using Suc by (simp add: be_nat_append [of "[_]", simplified] mult.commute)
qed simp

lemma fe_of_is: "fe_is 1 x (fe_of x)"
proof -
  have "fp_nat x < 256 ^ 32" using fp_nat_lt [of x] by (simp add: field_p_def)
  then have "be_nat (map (\<lambda>i. of_nat (fp_nat x div 256 ^ i mod 256)) (rev [0 ..< 32])) = fp_nat x"
    by (simp only: be_nat_digits mod_less)
  then show ?thesis
    using fe_set_b32_success(3) [of "map (\<lambda>i. of_nat (fp_nat x div 256 ^ i mod 256)) (rev [0 ..< 32])"] fp_nat_lt [of x]
    by (simp add: fe_of_def)
qed

definition ge_of :: "cpoint \<Rightarrow> secp256k1_ge" where
  "ge_of P = (case pt P of Infinity \<Rightarrow> secp256k1_ge_set_infinity
     | Point x y \<Rightarrow> \<lparr>ge_x = fe_of x, ge_y = fe_of y, ge_infinity = False\<rparr>)"

lemma ge_of_is: "ge_is 1 P (ge_of P)"
proof (cases "pt P")
  case Infinity
  then show ?thesis by (simp add: ge_of_def ge_is_def ge_ok_def ge_pt_def secp256k1_ge_set_infinity_def)
next
  case (Point x y)
  then show ?thesis
    unfolding ge_of_def by (auto intro!: ge_isI fe_is_8 fe_of_is)
qed

text \<open>The generator of the group.\<close>

definition curve_G :: cpoint where
  "curve_G = cp gen_point"

lemma curve_G_neq_0: "curve_G \<noteq> 0"
  by (simp add: curve_G_def gen_neq_0)

lemma ge_const_g_is: "ge_is 1 curve_G secp256k1_ge_const_g"
proof -
  define x y :: nat where "x = 0x79BE667EF9DCBBAC55A06295CE870B07029BFCDB2DCE28D959F2815B16F81798"
    and "y = 0x483ADA7726A3C4655DA4FBFC0E1108A8FD17B448A68554199C47D08FFB10D4B8"
  have "fe_mag 1 (ge_x secp256k1_ge_const_g)" "fe_val (ge_x secp256k1_ge_const_g) = x"
    "fe_mag 1 (ge_y secp256k1_ge_const_g)" "fe_val (ge_y secp256k1_ge_const_g) = y"
    by (simp_all add: secp256k1_ge_const_g_def SECP256K1_FE_CONST_def fe_mag_def fe_val_def x_def y_def)
  then have "fe_is 1 (of_nat x) (ge_x secp256k1_ge_const_g)" "fe_is 1 (of_nat y) (ge_y secp256k1_ge_const_g)"
    by (simp_all add: fe_is_def)
  then have "ge_is 1 (cp gen_point) \<lparr>ge_x = ge_x secp256k1_ge_const_g, ge_y = ge_y secp256k1_ge_const_g, ge_infinity = False\<rparr>"
    by (rule ge_isI [OF fe_is_8 fe_is_8])
      (simp add: pt_cp [OF gen_on_curve], simp add: gen_point_def gen_x_def gen_y_def x_def y_def)
  then show ?thesis by (simp add: curve_G_def secp256k1_ge_const_g_def)
qed

end
