(* ===== verification/Ecmult_Table.thy ===== *)
theory Ecmult_Table
  imports Ecmult_Const Group_Ops
begin

text \<open>
  The table of odd multiples: entry \<open>i\<close> of the table that the fixed-time multiplication reads is
  \<open>(2 i + 1) P\<close>, all entries over one common z coordinate, and the constant-time access returns
  the signed entry for an odd digit.
\<close>

section \<open>The table\<close>

lemma nmul_small_neq_0: "P \<noteq> 0 \<Longrightarrow> 0 < k \<Longrightarrow> k < order_n \<Longrightarrow> nmul k P \<noteq> 0"
  by (simp add: nmul_eq_0_iff nat_dvd_not_less)

lemma nmul_odd_Suc: "nmul (2 * i + 1) P + (P + P) = nmul (2 * Suc i + 1) P"
  by (simp add: ac_simps)

text \<open>
  After the entries below \<open>m\<close> are written: each is its multiple over the factor \<open>d\<close>, and the
  ratios relate consecutive z coordinates.
\<close>

definition odd_table :: "nat \<Rightarrow> fp \<Rightarrow> cpoint \<Rightarrow> nat \<Rightarrow> secp256k1_gej list \<times> secp256k1_fe list \<Rightarrow> bool" where
  "odd_table n d P m t \<longleftrightarrow> length (fst t) = n \<and> length (snd t) = n \<and>
     (\<forall>i < m. gej_is d (nmul (2 * i + 1) P) (fst t ! i)) \<and>
     (\<forall>i < m. 0 < i \<longrightarrow> fe_mag 8 (snd t ! i) \<and>
        fev (gej_z (fst t ! i)) = fev (gej_z (fst t ! (i - 1))) * fev (snd t ! i))"

lemma gej_add_ge_var_ratio:
  "\<not> gej_infinity a \<Longrightarrow> \<not> ge_infinity b \<Longrightarrow> snd (secp256k1_gej_add_ge_var r a b) \<noteq> None"
  by (simp add: secp256k1_gej_add_ge_var_def Let_def split_def)

lemma odd_multiples_step_is:
  assumes t: "odd_table n d P m t" and m: "0 < m" "m < n" "2 * n < order_n" and P: "P \<noteq> 0"
    and d: "d \<noteq> 0" and dg: "ge_is d (P + P) d_ge"
  shows "odd_table n d P (Suc m) (odd_multiples_step d_ge m t)"
proof -
  let ?a = "fst t ! (m - 1)"
  let ?res = "secp256k1_gej_add_ge_var (fst t ! m) ?a d_ge"
  have "nmul (2 * (m - 1) + 1) P \<noteq> 0" using P m by (intro nmul_small_neq_0) simp_all
  moreover have "P + P \<noteq> 0" using P no_order_two by blast
  moreover have a: "gej_is d (nmul (2 * (m - 1) + 1) P) ?a" using t m unfolding odd_table_def by auto
  ultimately have post: "add_post d (pt (nmul (2 * (m - 1) + 1) P + (P + P))) (fev (gej_z ?a)) ?res"
    and fin: "\<not> gej_infinity ?a" "\<not> ge_infinity d_ge"
    using gej_add_ge_var_full [OF a _ dg _ d] gej_is_infinity [OF a] ge_is_infinity [OF dg] by simp_all
  have sum: "nmul (2 * (m - 1) + 1) P + (P + P) = nmul (2 * m + 1) P"
    using nmul_odd_Suc [of "m - 1" P] m by simp
  obtain w where w: "snd ?res = Some w" using gej_add_ge_var_ratio [OF fin] by blast
  have r: "gej_is d (nmul (2 * m + 1) P) (fst ?res)"
    using add_post_is [OF post] by (simp only: sum)
  have "nmul (2 * m + 1) P \<noteq> 0" using P m by (intro nmul_small_neq_0) simp_all
  then have "\<not> gej_infinity (fst ?res)" using gej_is_infinity [OF r] by simp
  then have z: "fe_mag 8 w" "fev (gej_z (fst ?res)) = fev (gej_z ?a) * fev w"
    using post w by (simp_all add: add_post_def)
  have step: "odd_multiples_step d_ge m t = ((fst t)[m := fst ?res], (snd t)[m := w])"
    using w by (simp add: odd_multiples_step_def split_def)
  have len: "length (fst t) = n" "length (snd t) = n" using t by (simp_all add: odd_table_def)
  show ?thesis
    unfolding odd_table_def step
  proof (intro conjI allI impI)
    fix i assume i: "i < Suc m"
    show "gej_is d (nmul (2 * i + 1) P) (fst ((fst t)[m := fst ?res], (snd t)[m := w]) ! i)"
      using r t i m len by (cases "i = m") (auto simp: odd_table_def)
  next
    fix i assume i: "i < Suc m" "0 < i"
    show "fe_mag 8 (snd ((fst t)[m := fst ?res], (snd t)[m := w]) ! i)"
      using z t i m len by (cases "i = m") (auto simp: odd_table_def)
    show "fev (gej_z (fst ((fst t)[m := fst ?res], (snd t)[m := w]) ! i)) =
        fev (gej_z (fst ((fst t)[m := fst ?res], (snd t)[m := w]) ! (i - 1))) * fev (snd ((fst t)[m := fst ?res], (snd t)[m := w]) ! i)"
      using z t i m len by (cases "i = m") (auto simp: odd_table_def)
  qed (simp_all add: len)
qed

lemma odd_multiples_fold_is:
  assumes t: "odd_table n d P 1 t" and n: "0 < m" "m \<le> n" "2 * n < order_n" and P: "P \<noteq> 0"
    and d: "d \<noteq> 0" and dg: "ge_is d (P + P) d_ge"
  shows "odd_table n d P m (fold (odd_multiples_step d_ge) [1 ..< m] t)"
  using n
proof (induction m)
  case (Suc m)
  show ?case
  proof (cases "m = 0")
    case False
    then have "odd_table n d P m (fold (odd_multiples_step d_ge) [1 ..< m] t)" using Suc by simp
    then show ?thesis using odd_multiples_step_is [OF _ _ _ n(3) P d dg] Suc.prems False by simp
  qed (use t in simp)
qed simp

text \<open>The z coordinate of the doubled point is the common factor of the table.\<close>

lemma odd_multiples_start:
  assumes a: "gej_is 1 P a" "P \<noteq> 0" and n: "0 < n" "length prej = n" "length zr = n"
    and d: "d = fst (secp256k1_gej_double_var r a)" and D: "D = fev (gej_z d)"
    and ag: "a_ge = secp256k1_ge_set_gej_zinv a (gej_z d)"
  shows "D \<noteq> 0" and "fe_mag 8 (gej_z d)" and "ge_is D (P + P) \<lparr>ge_x = gej_x d, ge_y = gej_y d, ge_infinity = False\<rparr>"
    and "odd_table n D P 1 (prej[0 := \<lparr>gej_x = ge_x a_ge, gej_y = ge_y a_ge, gej_z = gej_z a, gej_infinity = False\<rparr>], zr)"
proof -
  have "P + P \<noteq> 0" using a no_order_two by blast
  moreover have "gej_is 1 (P + P) d" unfolding d by (rule gej_double_is [OF a(1)]) simp
  ultimately obtain X Y Z where x: "fe_is 8 X (gej_x d)" "fe_is 8 Y (gej_y d)" "fe_is 8 Z (gej_z d)" "Z \<noteq> 0"
    "pt (P + P) = Point (X / Z ^ 2) (Y / Z ^ 3)" "fev (gej_z d) = Z"
    using gej_isE [of 1 "P + P" d] by (metis mult_1_right)
  show D0: "D \<noteq> 0" and "fe_mag 8 (gej_z d)" using x D by (simp_all add: fe_is_def)
  show "ge_is D (P + P) \<lparr>ge_x = gej_x d, ge_y = gej_y d, ge_infinity = False\<rparr>"
    using x D by (intro ge_isI) simp_all
  obtain Xa Ya Za where y: "fe_is 8 Xa (gej_x a)" "fe_is 8 Ya (gej_y a)" "fe_is 8 Za (gej_z a)" "Za \<noteq> 0"
    "pt P = Point (Xa / Za ^ 2) (Ya / Za ^ 3)" "\<not> gej_infinity a"
    using gej_isE [OF a] by (metis mult_1_right)
  have zz: "fe_is 8 D (gej_z d)" using x D by simp
  have agx: "fe_is 1 (Xa * (D * D)) (ge_x a_ge)" and agy: "fe_is 1 (Ya * (D * D * D)) (ge_y a_ge)"
    unfolding ag secp256k1_ge_set_gej_zinv_def Let_def secp256k1_ge.simps by (rule fe_exec zz y | simp)+
  have "gej_is D P \<lparr>gej_x = ge_x a_ge, gej_y = ge_y a_ge, gej_z = gej_z a, gej_infinity = False\<rparr>"
    using y(4,5) D0 by (intro gej_isI [OF fe_is_8 [OF agx] fe_is_8 [OF agy] y(3)]) (simp_all add: power2_eq_square power3_eq_cube)
  then show "odd_table n D P 1 (prej[0 := \<lparr>gej_x = ge_x a_ge, gej_y = ge_y a_ge, gej_z = gej_z a, gej_infinity = False\<rparr>], zr)"
    using n by (simp add: odd_table_def)
qed
section \<open>The common z coordinate\<close>

text \<open>The z coordinates of the table are products of the ratios.\<close>

lemma odd_table_ratio:
  assumes t: "odd_table n d P n t"
  shows "i \<le> m \<Longrightarrow> m < n \<Longrightarrow> fev (gej_z (fst t ! m)) = fev (gej_z (fst t ! i)) * (\<Prod>k \<in> {i <.. m}. fev (snd t ! k))"
proof (induction m)
  case (Suc m)
  show ?case
  proof (cases "i = Suc m")
    case False
    then have "i \<le> m" using Suc.prems by simp
    have "fev (gej_z (fst t ! Suc m)) = fev (gej_z (fst t ! m)) * fev (snd t ! Suc m)"
      using t Suc.prems unfolding odd_table_def by (metis diff_Suc_1 zero_less_Suc)
    also have "\<dots> = fev (gej_z (fst t ! i)) * ((\<Prod>k \<in> {i <.. m}. fev (snd t ! k)) * fev (snd t ! Suc m))"
      using Suc \<open>i \<le> m\<close> by simp
    also have "(\<Prod>k \<in> {i <.. m}. fev (snd t ! k)) * fev (snd t ! Suc m) = (\<Prod>k \<in> {i <.. Suc m}. fev (snd t ! k))"
      using \<open>i \<le> m\<close> by (simp add: atLeastSucAtMost_greaterThanAtMost [symmetric] prod.atLeast_Suc_atMost_Suc_shift prod.nat_ivl_Suc')
    finally show ?thesis .
  qed simp
qed simp

text \<open>What the conversion to a common z needs of its input.\<close>

definition ratio_table :: "nat \<Rightarrow> fp \<Rightarrow> fp \<Rightarrow> (nat \<Rightarrow> cpoint) \<Rightarrow> secp256k1_gej list \<Rightarrow> secp256k1_fe list \<Rightarrow> bool" where
  "ratio_table n d g P prej zr \<longleftrightarrow>
     (\<forall>i < n - 1. gej_is d (P i) (prej ! i) \<and> (\<Prod>k \<in> {i <.. n - 1}. fev (zr ! k)) * (fev (gej_z (prej ! i)) * d) = g) \<and>
     (\<forall>i < n. P i \<noteq> 0 \<and> (0 < i \<longrightarrow> fe_mag 8 (zr ! i)))"

lemma ge_globalz_back_length [simp]: "length (ge_globalz_back len a zr i r zs) = length r"
  by (induction i arbitrary: r zs) (simp_all add: Let_def)

lemma ge_globalz_back_above: "i \<le> j \<Longrightarrow> ge_globalz_back len a zr i r zs ! j = r ! j"
  by (induction i arbitrary: r zs) (simp_all add: Let_def)

lemma prod_lessThan_cons: "Suc i \<le> m \<Longrightarrow> (\<Prod>k \<in> {i <.. m}. f k) = (\<Prod>k \<in> {Suc i <.. m}. f k) * (f (Suc i) :: 'a::comm_monoid_mult)"
  by (simp add: atLeastSucAtMost_greaterThanAtMost [symmetric] prod.atLeast_Suc_atMost mult.commute)

lemma ge_globalz_back_is:
  assumes t: "ratio_table n d g P prej zr" and dg: "d \<noteq> 0" "g \<noteq> 0"
  shows "i \<le> n - 1 \<Longrightarrow> n \<le> length r \<Longrightarrow>
    fe_is 8 (if i = n - 1 then fev (zr ! (n - 1)) else (\<Prod>k \<in> {i <.. n - 1}. fev (zr ! k))) zs \<Longrightarrow> j < i \<Longrightarrow>
    ge_is g (P j) (ge_globalz_back n prej zr i r zs ! j) \<and> ge_tidy (ge_globalz_back n prej zr i r zs ! j)"
proof (induction i arbitrary: r zs j)
  case (Suc i)
  define zs' where "zs' = (if Suc i \<noteq> n - 1 then secp256k1_fe_mul zs (zr ! Suc i) else zs)"
  let ?w = "\<Prod>k \<in> {i <.. n - 1}. fev (zr ! k)"
  have cons: "?w = (\<Prod>k \<in> {Suc i <.. n - 1}. fev (zr ! k)) * fev (zr ! Suc i)"
    using Suc.prems(1) by (rule prod_lessThan_cons)
  have zs': "fe_is 8 ?w zs'"
  proof (cases "Suc i = n - 1")
    case True
    then show ?thesis using Suc.prems(3) cons by (simp add: zs'_def)
  next
    case False
    have z: "fe_is 8 (fev (zr ! Suc i)) (zr ! Suc i)"
      using t Suc.prems(1) False by (simp add: ratio_table_def fe_is_fev)
    have "fe_is 8 (\<Prod>k \<in> {Suc i <.. n - 1}. fev (zr ! k)) zs" using Suc.prems(3) False by simp
    from fe_exec_mul [OF this z order_refl order_refl] have "fe_is 1 ?w zs'"
      using False unfolding cons zs'_def by simp
    then show ?thesis by (rule fe_is_8)
  qed
  have Pi: "P i \<noteq> 0" and a: "gej_is d (P i) (prej ! i)" and w: "?w * (fev (gej_z (prej ! i)) * d) = g"
    using t Suc.prems(1) by (simp_all add: ratio_table_def)
  let ?e = "secp256k1_ge_set_gej_zinv (prej ! i) zs'"
  have e: "ge_is g (P i) ?e" "ge_tidy ?e"
    using ge_set_gej_zinv_is [OF a Pi zs' w dg] by (simp_all add: ge_tidy_def)
  have eq: "ge_globalz_back n prej zr (Suc i) r zs = ge_globalz_back n prej zr i (r[i := ?e]) zs'"
    by (simp add: zs'_def Let_def)
  show ?case
  proof (cases "j = i")
    case True
    then show ?thesis using e Suc.prems(1,2) unfolding eq by (simp add: ge_globalz_back_above)
  next
    case False
    then have "j < i" using Suc.prems(4) by simp
    moreover have "fe_is 8 (if i = n - 1 then fev (zr ! (n - 1)) else ?w) zs'"
      using zs' Suc.prems(1) by simp
    ultimately show ?thesis
      unfolding eq using Suc.prems(1,2) by (intro Suc.IH) simp_all
  qed
qed simp

lemma ge_globalz_set_table_is:
  assumes t: "ratio_table n d g P prej zr" and dg: "d \<noteq> 0" and n: "1 < n" "n \<le> length r"
    and last: "gej_is 1 (P (n - 1)) (prej ! (n - 1))" "fev (gej_z (prej ! (n - 1))) = g"
    and res: "secp256k1_ge_globalz_set_table_gej n r z prej zr = (pre, Z)"
  shows "fe_is 8 g Z" and "g \<noteq> 0" and "j < n \<Longrightarrow> ge_is g (P j) (pre ! j)" and "j < n - 1 \<Longrightarrow> ge_tidy (pre ! j)"
    and "length pre = length r"
proof -
  have Pn: "P (n - 1) \<noteq> 0" using t n by (simp add: ratio_table_def)
  obtain X Y where x: "fe_is 8 X (gej_x (prej ! (n - 1)))" "fe_is 8 Y (gej_y (prej ! (n - 1)))"
    "fe_is 8 g (gej_z (prej ! (n - 1)))" "g \<noteq> 0" "pt (P (n - 1)) = Point (X / g ^ 2) (Y / g ^ 3)"
    using gej_isE [OF last(1) Pn] last(2) by (metis mult_1_right)
  define e where "e = \<lparr>ge_x = gej_x (prej ! (n - 1)), ge_y = gej_y (prej ! (n - 1)), ge_infinity = False\<rparr>"
  have e: "ge_is g (P (n - 1)) e" unfolding e_def using x by (intro ge_isI)
  have pre: "pre = ge_globalz_back n prej zr (n - 1) (r[n - 1 := e]) (zr ! (n - 1))" and Z: "Z = gej_z (prej ! (n - 1))"
    using res n by (simp_all add: secp256k1_ge_globalz_set_table_gej_def Let_def e_def)
  show "fe_is 8 g Z" "g \<noteq> 0" using x by (simp_all add: Z)
  have "fe_is 8 (fev (zr ! (n - 1))) (zr ! (n - 1))"
    using t n by (simp add: ratio_table_def fe_is_fev)
  then have b: "ge_is g (P j) (pre ! j) \<and> ge_tidy (pre ! j)" if "j < n - 1" for j
    unfolding pre using n that by (intro ge_globalz_back_is [OF t dg \<open>g \<noteq> 0\<close>]) simp_all
  show "j < n - 1 \<Longrightarrow> ge_tidy (pre ! j)" using b by blast
  show "ge_is g (P j) (pre ! j)" if "j < n"
  proof (cases "j = n - 1")
    case True
    then show ?thesis using e n unfolding pre by (simp add: ge_globalz_back_above)
  qed (use b that in auto)
  show "length pre = length r" by (simp add: pre)
qed
section \<open>The finished table\<close>

lemma odd_multiples_table_is:
  assumes a: "gej_is 1 P a" "P \<noteq> 0" and n: "1 < n" "2 * n < order_n" "length prej = n" "length zr = n"
    and res: "secp256k1_ecmult_odd_multiples_table n prej zr a = (prej', zr')"
  shows "\<exists>d. d \<noteq> 0 \<and> ratio_table n d (fev (gej_z (prej' ! (n - 1)))) (\<lambda>i. nmul (2 * i + 1) P) prej' zr' \<and>
    gej_is 1 (nmul (2 * (n - 1) + 1) P) (prej' ! (n - 1))"
proof -
  define d where "d = fst (secp256k1_gej_double_var secp256k1_gej_clear a)"
  define D where "D = fev (gej_z d)"
  define ag where "ag = secp256k1_ge_set_gej_zinv a (gej_z d)"
  define dg where "dg = \<lparr>ge_x = gej_x d, ge_y = gej_y d, ge_infinity = False\<rparr>"
  define t where "t = fold (odd_multiples_step dg) [1 ..< n]
    (prej[0 := \<lparr>gej_x = ge_x ag, gej_y = ge_y ag, gej_z = gej_z a, gej_infinity = False\<rparr>], zr[0 := gej_z d])"
  let ?l = "fst t ! (n - 1)"
  let ?P = "\<lambda>i. nmul (2 * i + 1) P"
  have start: "D \<noteq> 0" "fe_mag 8 (gej_z d)" "ge_is D (P + P) dg"
    "odd_table n D P 1 (prej[0 := \<lparr>gej_x = ge_x ag, gej_y = ge_y ag, gej_z = gej_z a, gej_infinity = False\<rparr>], zr[0 := gej_z d])"
    using odd_multiples_start [OF a _ n(3) _ d_def D_def ag_def, of "zr[0 := gej_z d]"] n by (simp_all add: dg_def)
  have t: "odd_table n D P n t"
    unfolding t_def by (rule odd_multiples_fold_is [OF start(4) _ order_refl n(2) a(2) start(1,3)]) (use n in simp)
  have out: "prej' = (fst t)[n - 1 := ?l\<lparr>gej_z := secp256k1_fe_mul (gej_z ?l) (gej_z d)\<rparr>]" "zr' = snd t"
    using res unfolding secp256k1_ecmult_odd_multiples_table_def Let_def split_def
      d_def [symmetric] ag_def [symmetric] dg_def [symmetric] t_def [symmetric] by simp_all
  have len: "length (fst t) = n" using t by (simp add: odd_table_def)
  have l: "gej_is D (?P (n - 1)) ?l" using t n by (simp add: odd_table_def)
  have Pn: "?P i \<noteq> 0" if "i < n" for i using a(2) n that by (intro nmul_small_neq_0) simp_all
  have Pl: "?P (n - 1) \<noteq> 0" by (rule Pn) (use n in simp)
  obtain X Y Z where x: "fe_is 8 X (gej_x ?l)" "fe_is 8 Y (gej_y ?l)" "fe_is 8 Z (gej_z ?l)" "Z \<noteq> 0"
    and P: "pt (?P (n - 1)) = Point (X / (Z * D) ^ 2) (Y / (Z * D) ^ 3)" and f: "fev (gej_z ?l) = Z" and inf: "\<not> gej_infinity ?l"
    by (rule gej_isE [OF l Pl])
  have zd: "fe_is 8 D (gej_z d)" using start(2) by (simp add: fe_is_fev D_def)
  have z: "fe_is 1 (Z * D) (secp256k1_fe_mul (gej_z ?l) (gej_z d))" by (rule fe_exec x zd | simp)+
  have last: "prej' ! (n - 1) = \<lparr>gej_x = gej_x ?l, gej_y = gej_y ?l, gej_z = secp256k1_fe_mul (gej_z ?l) (gej_z d), gej_infinity = False\<rparr>"
    using n len inf by (simp add: out)
  have lj: "gej_is 1 (?P (n - 1)) (prej' ! (n - 1))"
    unfolding last using x P start(1) by (intro gej_isI [OF x(1,2) fe_is_8 [OF z]]) simp_all
  have g: "fev (gej_z (prej' ! (n - 1))) = fev (gej_z ?l) * D"
    unfolding last secp256k1_gej.simps f using z by (simp only: fe_is_fev)
  have "ratio_table n D (fev (gej_z (prej' ! (n - 1)))) ?P prej' zr'"
    unfolding ratio_table_def
  proof (intro conjI allI impI)
    fix i assume i: "i < n - 1"
    then have e: "prej' ! i = fst t ! i" by (simp add: out)
    show "gej_is D (?P i) (prej' ! i)" using t i by (simp add: e odd_table_def)
    have "fev (gej_z ?l) = fev (gej_z (fst t ! i)) * (\<Prod>k \<in> {i <.. n - 1}. fev (snd t ! k))"
      by (rule odd_table_ratio [OF t]) (use i in simp_all)
    then show "(\<Prod>k \<in> {i <.. n - 1}. fev (zr' ! k)) * (fev (gej_z (prej' ! i)) * D) = fev (gej_z (prej' ! (n - 1)))"
      by (simp only: g e out(2) ac_simps)
  next
    fix i assume i: "i < n"
    show "?P i \<noteq> 0" by (rule Pn [OF i])
    show "0 < i \<Longrightarrow> fe_mag 8 (zr' ! i)" using t i by (simp add: out odd_table_def)
  qed
  then show ?thesis using start(1) lj by blast
qed

text \<open>The table of the fixed-time multiplication: eight odd multiples over one z coordinate.\<close>

lemma odd_multiples_table_windowa_is:
  assumes a: "gej_is 1 P a" "P \<noteq> 0" and res: "secp256k1_ecmult_odd_multiples_table_globalz_windowa a = (pre, Z)"
  shows "\<exists>g. g \<noteq> 0 \<and> fe_is 8 g Z \<and> length pre = 8 \<and> (\<forall>i < 8. ge_is g (nmul (2 * i + 1) P) (pre ! i))"
proof -
  have size: "ECMULT_TABLE_SIZE WINDOW_A = 8" by (simp add: ECMULT_TABLE_SIZE_def WINDOW_A_def)
  have n: "(1 :: nat) < 8" "2 * 8 < order_n" by (simp_all add: order_n_def)
  obtain prej zr where t: "secp256k1_ecmult_odd_multiples_table 8 (replicate 8 secp256k1_gej_clear) (replicate 8 secp256k1_fe_clear) a = (prej, zr)"
    by fastforce
  have r: "secp256k1_ge_globalz_set_table_gej 8 (replicate 8 secp256k1_ge_clear) secp256k1_fe_clear prej zr = (pre, Z)"
    using res t by (simp add: secp256k1_ecmult_odd_multiples_table_globalz_windowa_def size)
  obtain d where d: "d \<noteq> 0" "ratio_table 8 d (fev (gej_z (prej ! (8 - 1)))) (\<lambda>i. nmul (2 * i + 1) P) prej zr"
    "gej_is 1 (nmul (2 * (8 - 1) + 1) P) (prej ! (8 - 1))"
    using odd_multiples_table_is [OF a n _ _ t] by auto
  note g = ge_globalz_set_table_is [OF d(2,1) n(1) _ d(3) refl r]
  show ?thesis
    using g by (intro exI [of _ "fev (gej_z (prej ! (8 - 1)))"]) simp
qed

section \<open>Constant-time access\<close>

lemma table_get_fold:
  "fold (\<lambda>m r. r\<lparr>ge_x := secp256k1_fe_cmov (ge_x r) (ge_x (pre ! m)) (int m = idx),
      ge_y := secp256k1_fe_cmov (ge_y r) (ge_y (pre ! m)) (int m = idx)\<rparr>) [0 ..< n] r =
    (if 0 \<le> idx \<and> idx < int n then r\<lparr>ge_x := ge_x (pre ! nat idx), ge_y := ge_y (pre ! nat idx)\<rparr> else r)"
  by (induction n) (auto simp: nat_eq_iff)

text \<open>An odd digit of absolute value below 16 selects the multiple it stands for.\<close>

lemma table_get_is:
  assumes pre: "\<And>i. i < 8 \<Longrightarrow> ge_is g (nmul (2 * i + 1) P) (pre ! i)" "\<And>i. i < 8 \<Longrightarrow> fe_mag 1 (ge_y (pre ! i))"
    and P: "P \<noteq> 0" and n: "odd n" "\<bar>n\<bar> < 16"
  shows "ge_is g (zmul n P) (ECMULT_CONST_TABLE_GET_GE r pre n WINDOW_A)" and "zmul n P \<noteq> 0"
proof -
  define k where "k = nat (\<bar>n\<bar> div 2)"
  have k: "k < 8" "\<bar>n\<bar> = int (2 * k + 1)" using n by (simp_all add: k_def) presburger
  have kn: "nmul (2 * k + 1) P \<noteq> 0" by (rule nmul_small_neq_0 [OF P]) (use k in \<open>simp_all add: order_n_def\<close>)
  obtain X Y where x: "fe_is 8 X (ge_x (pre ! k))" "fe_is 8 Y (ge_y (pre ! k))"
    "pt (nmul (2 * k + 1) P) = Point (X / g ^ 2) (Y / g ^ 3)"
    using ge_isE [OF pre(1) [OF k(1)] kn] by metis
  have y1: "fe_is 1 Y (ge_y (pre ! k))" using x(2) pre(2) [OF k(1)] by (simp add: fe_is_def)
  have ny: "fe_is 8 (- Y) (secp256k1_fe_negate (ge_y (pre ! k)) 1)"
    by (rule fe_is_mono [of 2]) (rule fe_exec y1 | simp)+
  have size: "ECMULT_TABLE_SIZE WINDOW_A = 8" by (simp add: ECMULT_TABLE_SIZE_def WINDOW_A_def)
  have abs: "n * (of_bool (n > 0) * 2 - 1) = \<bar>n\<bar>" by (auto simp: abs_if)
  have idx: "\<bar>n\<bar> div 2 = int k" by (simp add: k_def)
  have eq: "ECMULT_CONST_TABLE_GET_GE r pre n WINDOW_A = \<lparr>ge_x = ge_x (pre ! k),
      ge_y = (if n < 0 then secp256k1_fe_negate (ge_y (pre ! k)) 1 else ge_y (pre ! k)), ge_infinity = False\<rparr>"
    using k(1) unfolding ECMULT_CONST_TABLE_GET_GE_def Let_def abs size table_get_fold idx by (auto simp: abs_if)
  have z: "zmul n P = (if n < 0 then - nmul (2 * k + 1) P else nmul (2 * k + 1) P)"
  proof (cases "n < 0")
    case True
    then have "n = - int (2 * k + 1)" using k(2) by simp
    then show ?thesis using True by (simp only: zmul_minus zmul_of_nat if_True)
  next
    case False
    then have "n = int (2 * k + 1)" using k(2) by simp
    then show ?thesis using False by (simp only: zmul_of_nat if_False)
  qed
  show "zmul n P \<noteq> 0" using kn unfolding z by (metis neg_equal_0_iff_equal)
  show "ge_is g (zmul n P) (ECMULT_CONST_TABLE_GET_GE r pre n WINDOW_A)"
  proof (cases "n < 0")
    case True
    have "ge_is g (- nmul (2 * k + 1) P)
        \<lparr>ge_x = ge_x (pre ! k), ge_y = secp256k1_fe_negate (ge_y (pre ! k)) 1, ge_infinity = False\<rparr>"
      by (rule ge_isI [OF x(1) ny]) (simp only: pt_neg x(3) point_neg.simps minus_divide_left)
    then show ?thesis using True unfolding eq z by (simp only: if_True)
  next
    case False
    then show ?thesis using ge_isI [OF x] unfolding eq z by (simp only: if_False)
  qed
qed

end
