(* ===== verification/Ecmult_Digits.thy ===== *)
theory Ecmult_Digits
  imports Ecmult_Const
begin

text \<open>
  The signed digits of the fixed-time multiplication: they are odd, below the window in absolute
  value, and stand for the scalar plus the skew, modulo the order of the group.
\<close>

section \<open>Values of digit lists\<close>

primrec digits_val :: "int \<Rightarrow> int list \<Rightarrow> int" where
  "digits_val B [] = 0"
| "digits_val B (d # ds) = d + B * digits_val B ds"

lemma digits_val_snoc: "digits_val B (ds @ [d]) = digits_val B ds + B ^ length ds * d"
  by (induction ds) (simp_all add: algebra_simps)

section \<open>The recoding loop\<close>

text \<open>
  The invariant: the words written, the pending word and the rest of the scalar make up the
  scalar \<open>T\<close> under the global sign, the pending word is odd and lies between \<open>- 1\<close> and \<open>2 ^ w\<close>.
\<close>

definition wnaf_inv :: "nat \<Rightarrow> int \<Rightarrow> nat \<Rightarrow> nat \<Rightarrow> int list \<times> secp256k1_scalar \<times> int \<times> int \<Rightarrow> bool" where
  "wnaf_inv w gs T k = (\<lambda>(ws, s, ul, u). length ws = k \<and>
     digits_val (2 ^ w) ws + 2 ^ (w * k) * (gs * (ul + 2 ^ w * int (sc_val s))) = gs * int T \<and>
     (\<forall>d \<in> set ws. odd d \<and> \<bar>d\<bar> < 2 ^ w) \<and> odd ul \<and> - 1 \<le> ul \<and> ul < 2 ^ w \<and>
     sc_val s = T div 2 ^ (w * Suc k) \<and> (0 < k \<longrightarrow> u = ul))"

lemma int_div_mod_split: "int a = int (a mod 2 ^ w) + 2 ^ w * int (a div 2 ^ w)"
proof -
  have "int a = int (a mod 2 ^ w + 2 ^ w * (a div 2 ^ w))" by simp
  then show ?thesis by (simp only: of_nat_add of_nat_mult of_nat_power of_nat_numeral)
qed

lemma pm_one_odd_abs: "gs = 1 \<or> gs = - 1 \<Longrightarrow> odd (d * gs) = odd (d :: int) \<and> \<bar>d * gs\<bar> = \<bar>d\<bar>"
  by auto

lemma wnaf_const_step_inv:
  assumes w: "0 < w" "w < 16" and gs: "gs = 1 \<or> gs = - 1" and st: "wnaf_inv w gs T k st"
  shows "wnaf_inv w gs T (Suc k) (wnaf_const_step w gs st)"
proof -
  obtain ws s ul u where st': "st = (ws, s, ul, u)" by (cases st)
  let ?B = "2 ^ w :: int"
  define U where "U = uint (fst (secp256k1_scalar_shr_int s w))"
  define s' where "s' = snd (secp256k1_scalar_shr_int s w)"
  define e where "e = (of_bool (U mod 2 = 0) :: int)"
  define sign where "sign = (2 * of_bool (ul > 0) - 1 :: int)"
  define ul' where "ul' = ul - sign * e * ?B"
  define U' where "U' = U + sign * e"
  have U: "U = int (sc_val s mod 2 ^ w)" and s': "sc_val s' = sc_val s div 2 ^ w"
    using secp256k1_scalar_shr_int_is [OF w, of s] by (simp_all add: U_def s'_def uint_nat)
  have step: "wnaf_const_step w gs st = (ws @ [ul' * gs], s', U', U')"
    by (simp add: st' wnaf_const_step_def split_def Let_def U_def s'_def e_def sign_def ul'_def U'_def mult.assoc)
  have inv: "length ws = k" "digits_val ?B ws + 2 ^ (w * k) * (gs * (ul + ?B * int (sc_val s))) = gs * int T"
    "\<forall>d \<in> set ws. odd d \<and> \<bar>d\<bar> < ?B" "odd ul" "- 1 \<le> ul" "ul < ?B" "sc_val s = T div 2 ^ (w * Suc k)"
    using st unfolding wnaf_inv_def st' prod.case by blast+
  have s_split: "int (sc_val s) = U + ?B * int (sc_val s')"
    unfolding U s' by (rule int_div_mod_split)
  have e01: "e = 1 \<and> even U \<or> e = 0 \<and> odd U" by (auto simp: e_def)
  have sg: "sign = 1 \<and> 0 < ul \<or> sign = - 1 \<and> ul = - 1"
  proof -
    have "ul \<noteq> 0" using inv(4) by auto
    then show ?thesis using inv(5) by (auto simp: sign_def)
  qed
  have Ub: "0 \<le> U" "U < ?B" unfolding U by (simp_all add: zmod_int)
  have Bev: "even ?B" using w by simp
  then have Ub2: "even U \<Longrightarrow> U + 1 < ?B" using Ub by (metis add1_zle_eq even_plus_one_iff order_le_less)
  have B2: "2 \<le> ?B" using w self_le_power [of "2 :: int" w] by simp
  have "ul' + ?B * int (sc_val s) = ul + ?B * (- sign * e + int (sc_val s))"
    by (simp add: ul'_def algebra_simps)
  then have carry: "ul' + ?B * (U' + ?B * int (sc_val s')) = ul + ?B * int (sc_val s)"
    by (simp add: s_split U'_def ul'_def algebra_simps)
  have "digits_val ?B (ws @ [ul' * gs]) + 2 ^ (w * Suc k) * (gs * (U' + ?B * int (sc_val s'))) =
      digits_val ?B ws + 2 ^ (w * k) * (gs * (ul' + ?B * (U' + ?B * int (sc_val s'))))"
    by (simp add: digits_val_snoc inv(1) power_add algebra_simps power_mult [symmetric])
  then have "digits_val ?B (ws @ [ul' * gs]) + 2 ^ (w * Suc k) * (gs * (U' + ?B * int (sc_val s'))) = gs * int T"
    by (simp only: carry inv(2))
  moreover have "odd U'" "- 1 \<le> U'" "U' < ?B"
    using e01 sg Ub Ub2 by (auto simp: U'_def)
  moreover have "odd ul'" "\<bar>ul'\<bar> < ?B"
    using e01 sg inv(4-6) Bev B2 by (auto simp: ul'_def)
  moreover have "sc_val s' = T div 2 ^ (w * Suc (Suc k))"
    using inv(7) s' by (simp add: power_add algebra_simps flip: div_mult2_eq)
  ultimately show ?thesis
    using inv(1,3) pm_one_odd_abs [OF gs, of ul'] by (simp add: wnaf_inv_def step)
qed

lemma wnaf_const_steps_inv:
  assumes "0 < w" "w < 16" "gs = 1 \<or> gs = - 1" "wnaf_inv w gs T 0 st"
  shows "wnaf_inv w gs T k ((wnaf_const_step w gs ^^ k) st)"
  using assms by (induction k) (simp_all add: wnaf_const_step_inv)

section \<open>The recoded scalar\<close>

text \<open>
  Before the loop the scalar is made odd, by adding one or two (the skew) and negating; the
  predecessor of the order is special.
\<close>

lemma wnaf_const_start:
  assumes S: "sc_val s < order_n"
  defines "flip \<equiv> secp256k1_scalar_is_high s"
  defines "b \<equiv> (flip \<noteq> (\<not> secp256k1_scalar_is_even s))"
  defines "ok \<equiv> \<not> secp256k1_scalar_is_one (secp256k1_scalar_negate s)"
  defines "p \<equiv> secp256k1_scalar_cond_negate (secp256k1_scalar_cadd_bit s (of_bool b) ok) flip"
  defines "gs \<equiv> fst p * (of_bool ok * 2 - 1)"
  shows "gs = 1 \<or> gs = - 1" and "odd (sc_val (snd p))" and "sc_val (snd p) \<le> sc_val s + 2"
    and "(gs * int (sc_val (snd p)) - (int (sc_val s) + 2 ^ of_bool b)) mod int order_n = 0"
proof -
  let ?S = "sc_val s"
  have n: "odd order_n" "order_n + 2 < 2 ^ 256" "5 < order_n" by (simp_all add: order_n_def)
  have ok: "ok \<longleftrightarrow> ?S \<noteq> order_n - 1"
    using S n by (simp add: ok_def secp256k1_scalar_is_one_iff secp256k1_scalar_negate_value) linarith
  have flip: "flip \<longleftrightarrow> order_n div 2 < ?S" and b: "b \<longleftrightarrow> flip = even ?S"
    by (auto simp: flip_def b_def secp256k1_scalar_is_high_iff secp256k1_scalar_is_even_iff)
  have "(gs = 1 \<or> gs = - 1) \<and> odd (sc_val (snd p)) \<and> sc_val (snd p) \<le> ?S + 2 \<and>
    (gs * int (sc_val (snd p)) - (int ?S + 2 ^ of_bool b)) mod int order_n = 0"
  proof (cases ok)
    case False
    then have S1: "?S = order_n - 1" using ok by simp
    then have f: flip and b1: b using n by (simp_all add: flip b)
    have "secp256k1_scalar_cadd_bit s (of_bool b) ok = s"
      using False by (simp add: secp256k1_scalar_cadd_bit_False)
    then have p: "p = (- 1, secp256k1_scalar_negate s)"
      using f by (simp add: p_def secp256k1_scalar_cond_negate_True)
    have "sc_val (secp256k1_scalar_negate s) = 1"
      using S1 n S by (simp add: secp256k1_scalar_negate_value)
    moreover have "int ?S = int order_n - 1" using S1 n by simp
    ultimately show ?thesis using False b1 by (simp add: p gs_def)
  next
    case True
    define s1 where "s1 = secp256k1_scalar_cadd_bit s (of_bool b) True"
    have "?S + 2 ^ of_bool b < order_n"
    proof -
      have "?S < order_n - 1" using True ok S by simp
      moreover have "?S \<noteq> order_n - 2" if b
        using that n S by (auto simp: b flip)
      moreover have "?S + 2 < order_n" if "\<not> flip" using that n by (simp add: flip)
      ultimately show ?thesis by (cases b) auto
    qed
    moreover have bu: "unat (of_bool b :: u32) = of_bool b" by simp
    ultimately have s1: "sc_val s1 = ?S + 2 ^ of_bool b" "sc_val s1 < order_n"
      using secp256k1_scalar_cadd_bit_True [of "of_bool b :: u32" s] n by (simp_all add: s1_def)
    show ?thesis
    proof (cases flip)
      case False
      then have "p = (1, s1)" using True by (simp add: p_def s1_def secp256k1_scalar_cond_negate_False)
      then show ?thesis using True False s1 by (auto simp: gs_def b)
    next
      case f: True
      then have p: "p = (- 1, secp256k1_scalar_negate s1)" using True by (simp add: p_def s1_def secp256k1_scalar_cond_negate_True)
      have s2: "sc_val (secp256k1_scalar_negate s1) = order_n - sc_val s1"
        using s1 by (simp add: secp256k1_scalar_negate_value)
      then have "odd (sc_val (secp256k1_scalar_negate s1))"
        using f s1 n by (auto simp: b)
      moreover have "sc_val (secp256k1_scalar_negate s1) \<le> ?S" using f s1 s2 by (simp add: flip)
      moreover have "- int (sc_val (secp256k1_scalar_negate s1)) - (int ?S + 2 ^ of_bool b) = - int order_n"
        using s1 s2 by (simp add: of_nat_diff)
      ultimately show ?thesis using True by (simp add: p gs_def)
    qed
  qed
  then show "gs = 1 \<or> gs = - 1" and "odd (sc_val (snd p))" and "sc_val (snd p) \<le> sc_val s + 2"
    and "(gs * int (sc_val (snd p)) - (int (sc_val s) + 2 ^ of_bool b)) mod int order_n = 0" by blast+
qed

theorem secp256k1_wnaf_const_is:
  assumes w: "0 < w" "w < 16" and S: "sc_val s < order_n" "sc_val s < 2 ^ bits" and bits: "0 < bits"
    and res: "secp256k1_wnaf_const s w bits = (skew, ws)"
  shows "length ws = WNAF_SIZE_BITS bits w + 1" and "skew = 1 \<or> skew = 2"
    and "\<And>d. d \<in> set ws \<Longrightarrow> odd d \<and> \<bar>d\<bar> < 2 ^ w"
    and "(digits_val (2 ^ w) ws - skew) mod int order_n = int (sc_val s)"
proof -
  define flip where "flip = secp256k1_scalar_is_high s"
  define b where "b = (flip \<noteq> (\<not> secp256k1_scalar_is_even s))"
  define ok where "ok = (\<not> secp256k1_scalar_is_one (secp256k1_scalar_negate s))"
  define p where "p = secp256k1_scalar_cond_negate (secp256k1_scalar_cadd_bit s (of_bool b) ok) flip"
  define gs where "gs = fst p * (of_bool ok * 2 - 1)"
  define T where "T = sc_val (snd p)"
  note start = wnaf_const_start [OF S(1), folded flip_def, folded b_def ok_def, folded p_def, folded gs_def T_def]
  define k where "k = WNAF_SIZE_BITS bits w"
  define sh where "sh = secp256k1_scalar_shr_int (snd p) w"
  obtain vs s' ul u where st: "(wnaf_const_step w gs ^^ k) ([], snd sh, uint (fst sh), 0) = (vs, s', ul, u)"
    by (metis prod_cases4)
  have out: "skew = 2 ^ of_bool b" "ws = vs @ [u * gs]"
    using res st unfolding secp256k1_wnaf_const_def Let_def flip_def [symmetric] b_def [symmetric] ok_def [symmetric]
      p_def [symmetric] split_def gs_def [symmetric] sh_def [symmetric] k_def [symmetric] by simp_all
  have sh: "unat (fst sh) = T mod 2 ^ w" "sc_val (snd sh) = T div 2 ^ w"
    using secp256k1_scalar_shr_int_is [OF w, of "snd p"] by (simp_all add: sh_def T_def)
  then have u0: "uint (fst sh) = int (T mod 2 ^ w)" by (simp only: uint_nat)
  have Tsplit: "int (T mod 2 ^ w) + 2 ^ w * int (T div 2 ^ w) = int T"
    by (simp only: int_div_mod_split [symmetric])
  have "odd (T mod 2 ^ w)" using start(2) dvd_mod_iff [of 2 "2 ^ w" T] w by simp
  moreover have "int (T mod 2 ^ w) < 2 ^ w"
    by (metis mod_less_divisor of_nat_less_iff of_nat_numeral of_nat_power zero_less_numeral zero_less_power)
  ultimately have "wnaf_inv w gs T 0 ([], snd sh, uint (fst sh), 0)"
    using sh Tsplit by (simp add: wnaf_inv_def u0 del: of_nat_mod)
  from wnaf_const_steps_inv [OF w start(1) this, of k]
  have inv: "length vs = k" "digits_val (2 ^ w) vs + 2 ^ (w * k) * (gs * (ul + 2 ^ w * int (sc_val s'))) = gs * int T"
    "\<forall>d \<in> set vs. odd d \<and> \<bar>d\<bar> < 2 ^ w" "odd ul" "- 1 \<le> ul" "ul < 2 ^ w" "sc_val s' = T div 2 ^ (w * Suc k)"
    and u: "0 < k \<Longrightarrow> u = ul"
    unfolding st wnaf_inv_def prod.case by blast+
  have k: "bits \<le> w * k" "0 < k"
  proof -
    have "bits + w - 1 < w * k + w"
      using w dividend_less_div_times [of w "bits + w - 1"] by (simp add: k_def WNAF_SIZE_BITS_def mult.commute)
    then show "bits \<le> w * k" by linarith
    then show "0 < k" using bits by (cases k) simp_all
  qed
  have "T \<le> 2 ^ bits + 1" using start(3) S(2) by simp
  also have "(2 :: nat) ^ bits + 1 < 2 ^ bits * 2" using bits one_less_power [of "2 :: nat" bits] by simp
  also have "(2 :: nat) ^ bits * 2 \<le> 2 ^ (w * Suc k)"
    using k w power_increasing [of "Suc bits" "w * Suc k" "2 :: nat"] by (simp add: algebra_simps)
  finally have "sc_val s' = 0" by (simp add: inv(7))
  then have val: "digits_val (2 ^ w) ws = gs * int T"
    using inv(1,2) u k by (simp add: out digits_val_snoc power_mult [symmetric] ac_simps)
  show "length ws = WNAF_SIZE_BITS bits w + 1" by (simp add: out inv(1) k_def)
  show "skew = 1 \<or> skew = 2" by (simp add: out)
  show "odd d \<and> \<bar>d\<bar> < 2 ^ w" if "d \<in> set ws" for d
  proof -
    have "1 < (2 :: int) ^ w" using w by simp
    then have "\<bar>ul\<bar> < 2 ^ w" using inv(5,6) by (simp add: abs_less_iff)
    then have "odd (ul * gs) \<and> \<bar>ul * gs\<bar> < 2 ^ w" using inv(4) pm_one_odd_abs [OF start(1), of ul] by simp
    moreover have "d \<in> set vs \<or> d = ul * gs" using that u [OF k(2)] unfolding out(2) by auto
    ultimately show ?thesis using inv(3) by blast
  qed
  have "int order_n dvd gs * int T - (int (sc_val s) + 2 ^ of_bool b)"
    using start(4) by (simp only: dvd_eq_mod_eq_0)
  moreover have "digits_val (2 ^ w) ws - skew - int (sc_val s) = gs * int T - (int (sc_val s) + 2 ^ of_bool b)"
    unfolding val out(1) by simp
  ultimately have "int order_n dvd (digits_val (2 ^ w) ws - skew) - int (sc_val s)" by (simp only:)
  then have "(digits_val (2 ^ w) ws - skew) mod int order_n = int (sc_val s) mod int order_n"
    by (simp only: mod_eq_dvd_iff)
  then show "(digits_val (2 ^ w) ws - skew) mod int order_n = int (sc_val s)"
    using S(1) by simp
qed

end
