(* ===== verification/Ecmult_Mul.thy ===== *)
theory Ecmult_Mul
  imports Ecmult_Table Ecmult_Digits
begin

text \<open>
  The fixed-time multiplication computes the scalar multiple of its point, and the Pedersen
  commitments are the linear combinations they should be. No assumption on the order of the
  point is needed: the order of the group annihilates every point (\<open>Curve_Order\<close>).
\<close>

section \<open>The main loop\<close>

lemma gej_doubles_is:
  assumes "gej_is v P a" "v \<noteq> 0"
  shows "gej_is v (zmul (2 ^ k) P) (((\<lambda>r. fst (secp256k1_gej_double_nonzero r r)) ^^ k) a)"
proof (induction k)
  case (Suc k)
  then show ?case
    using gej_double_is [OF Suc assms(2)] by (simp add: secp256k1_gej_double_nonzero_def zmul_double)
qed (use assms in simp)

text \<open>The table entries and digits a turn reads.\<close>

definition ecmult_ready :: "fp \<Rightarrow> cpoint \<Rightarrow> secp256k1_ge list \<Rightarrow> bool" where
  "ecmult_ready g P pre \<longleftrightarrow> g \<noteq> 0 \<and> P \<noteq> 0 \<and>
     (\<forall>i < 8. ge_is g (nmul (2 * i + 1) P) (pre ! i) \<and> fe_mag 1 (ge_y (pre ! i)))"

lemma ecmult_ready_get:
  assumes "ecmult_ready g P pre" "odd n" "\<bar>n\<bar> < 16"
  shows "ge_is g (zmul n P) (ECMULT_CONST_TABLE_GET_GE r pre n WINDOW_A)" and "zmul n P \<noteq> 0"
  using table_get_is(1) [of g P pre n r] table_get_is(2) [of g P pre n] assms unfolding ecmult_ready_def by blast+

lemma ecmult_const_step_is:
  assumes pre: "ecmult_ready g P pre" and r: "gej_is g (zmul v P) r" and d: "odd (ws ! i)" "\<bar>ws ! i\<bar> < 16"
  shows "gej_is g (zmul (ws ! i + 16 * v) P) (fst (ecmult_const_step pre ws i (r, tmpa)))"
proof -
  have g: "g \<noteq> 0" using pre by (simp add: ecmult_ready_def)
  have "gej_is g (zmul (2 ^ 4) (zmul v P)) (((\<lambda>r. fst (secp256k1_gej_double_nonzero r r)) ^^ 4) r)"
    by (rule gej_doubles_is [OF r g])
  from gej_add_ge_refines [OF this ecmult_ready_get [OF pre d] g]
  show ?thesis
    by (simp add: ecmult_const_step_def WINDOW_A_def Let_def zmul_add add.commute flip: zmul_mult)
qed

lemma ecmult_const_fold_is:
  assumes pre: "ecmult_ready g P pre"
  shows "gej_is g (zmul v P) r \<Longrightarrow> (\<And>i. i < length ws \<Longrightarrow> odd (ws ! i) \<and> \<bar>ws ! i\<bar> < 16) \<Longrightarrow> k \<le> length ws \<Longrightarrow>
    gej_is g (zmul (digits_val 16 (take k ws) + 16 ^ k * v) P) (fst (fold (ecmult_const_step pre ws) (rev [0 ..< k]) (r, tmpa)))"
proof (induction k arbitrary: v r tmpa)
  case (Suc k)
  let ?st = "ecmult_const_step pre ws k (r, tmpa)"
  have "gej_is g (zmul (ws ! k + 16 * v) P) (fst ?st)"
    using ecmult_const_step_is [OF pre Suc.prems(1), of ws k] Suc.prems(2) [of k] Suc.prems(3) by simp
  from Suc.IH [OF this Suc.prems(2), of "snd ?st"] Suc.prems(3)
  show ?case
    by (simp add: take_Suc_conv_app_nth digits_val_snoc algebra_simps)
qed simp

section \<open>The correction\<close>

lemma fe_storage_normal:
  assumes "fe_is k x a" "k \<le> 32"
  shows "fe_is 1 x (secp256k1_fe_from_storage (secp256k1_fe_to_storage (secp256k1_fe_normalize a)))"
proof -
  have a: "fe_is 32 x a" using assms by (rule fe_is_mono)
  then have "fe_normalized (secp256k1_fe_normalize a)" by (intro fe_normalize_value(1)) (simp add: fe_is_def)
  then have "secp256k1_fe_from_storage (secp256k1_fe_to_storage (secp256k1_fe_normalize a)) = secp256k1_fe_normalize a"
    by (intro fe_from_to_storage) (simp_all add: fe_normalized_iff)
  then show ?thesis using secp256k1_fe_normalize_is [OF a] by simp
qed

text \<open>A finite point survives the storage form.\<close>

lemma ge_from_to_storage_is [ge_rules]:
  assumes a: "ge_is v P a" "P \<noteq> 0"
  shows "ge_is v P (secp256k1_ge_from_storage (secp256k1_ge_to_storage a))"
    and "ge_tidy (secp256k1_ge_from_storage (secp256k1_ge_to_storage a))"
proof -
  obtain X Y where x: "fe_is 8 X (ge_x a)" "fe_is 8 Y (ge_y a)" and P: "pt P = Point (X / v ^ 2) (Y / v ^ 3)"
    by (rule ge_isE [OF a])
  note s = fe_storage_normal [OF x(1)] fe_storage_normal [OF x(2)]
  show "ge_is v P (secp256k1_ge_from_storage (secp256k1_ge_to_storage a))"
    unfolding secp256k1_ge_from_storage_def secp256k1_ge_to_storage_def Let_def secp256k1_ge_storage.simps
    by (rule ge_isI [OF _ _ P]; rule fe_is_8; rule s; simp)
  show "ge_tidy (secp256k1_ge_from_storage (secp256k1_ge_to_storage a))"
    using s by (simp add: secp256k1_ge_from_storage_def secp256k1_ge_to_storage_def Let_def ge_tidy_def fe_is_def)
qed

lemma ge_storage_cmov_eq: "secp256k1_ge_storage_cmov r a flag = (if flag then a else r)"
  by (simp add: secp256k1_ge_storage_cmov_def)

lemma ecmult_const_correction_is:
  assumes r: "gej_is 1 Q r" and a: "ge_is 1 P a" "P \<noteq> 0" and skew: "skew = 1 \<or> skew = 2"
  shows "gej_is 1 (Q - zmul skew P) (ecmult_const_correction r a skew)"
proof -
  let ?j = "fst (secp256k1_gej_double_var (secp256k1_gej_set_ge a) (secp256k1_gej_set_ge a))"
  let ?c = "fst (secp256k1_ge_set_gej ?j)"
  have PP: "P + P \<noteq> 0" using a no_order_two by blast
  have "gej_is 1 (P + P) ?j" by (rule gej_double_is [OF gej_set_ge_refines [OF a(1)]]) simp
  then have c: "ge_is 1 (P + P) ?c" by (rule ge_set_gej_is(1)) simp
  define st where "st = secp256k1_ge_storage_cmov (secp256k1_ge_to_storage a) (secp256k1_ge_to_storage ?c) (skew = 2)"
  have z: "zmul skew P = (if skew = 2 then P + P else P)" and z0: "zmul skew P \<noteq> 0"
    using skew zmul_double [of 1 P] a(2) PP by auto
  have "ge_is 1 (zmul skew P) (secp256k1_ge_from_storage st)"
    unfolding z using ge_from_to_storage_is(1) [OF c PP] ge_from_to_storage_is(1) [OF a]
    by (simp add: st_def ge_storage_cmov_eq)
  from gej_add_ge_refines [OF r ge_neg_is [OF this]] z0
  show ?thesis
    by (simp add: ecmult_const_correction_def Let_def st_def)
qed

section \<open>The multiplication\<close>

lemma gej_scale_z:
  assumes "gej_is g P r" "g \<noteq> 0" "fe_is 8 g Z"
  shows "gej_is 1 P (r\<lparr>gej_z := secp256k1_fe_mul (gej_z r) Z\<rparr>)"
proof (cases "P = 0")
  case True
  then have "gej_infinity r" using assms gej_is_infinity by blast
  then show ?thesis using True by (simp add: gej_is_zero)
next
  case False
  obtain X Y z where x: "fe_is 8 X (gej_x r)" "fe_is 8 Y (gej_y r)" "fe_is 8 z (gej_z r)" "z \<noteq> 0"
    and P: "pt P = Point (X / (z * g) ^ 2) (Y / (z * g) ^ 3)" and inf: "\<not> gej_infinity r"
    by (rule gej_isE [OF assms(1) False])
  have zz: "fe_is 1 (z * g) (secp256k1_fe_mul (gej_z r) Z)" by (rule fe_exec x assms(3) | simp)+
  have "r\<lparr>gej_z := secp256k1_fe_mul (gej_z r) Z\<rparr> =
      \<lparr>gej_x = gej_x r, gej_y = gej_y r, gej_z = secp256k1_fe_mul (gej_z r) Z, gej_infinity = False\<rparr>"
    using inf by simp
  then show ?thesis using gej_isI [OF x(1,2) fe_is_8 [OF zz], of P 1] P x(4) assms(2) by simp
qed

lemma table_normalize_fold:
  "fold (\<lambda>i t. t[i := (t ! i)\<lparr>ge_y := secp256k1_fe_normalize_weak (ge_y (t ! i))\<rparr>]) [0 ..< k] pre =
    map (\<lambda>e. e\<lparr>ge_y := secp256k1_fe_normalize_weak (ge_y e)\<rparr>) (take k pre) @ drop k pre"
  if "k \<le> length pre"
  using that
proof (induction k)
  case (Suc k)
  then show ?case
    by (simp add: nth_append take_Suc_conv_app_nth list_update_append Cons_nth_drop_Suc [symmetric] min_def)
qed simp

lemma ge_normalize_y_is:
  assumes "ge_is v P a" "P \<noteq> 0"
  shows "ge_is v P (a\<lparr>ge_y := secp256k1_fe_normalize_weak (ge_y a)\<rparr>) \<and> fe_mag 1 (secp256k1_fe_normalize_weak (ge_y a))"
proof -
  obtain X Y where x: "fe_is 8 X (ge_x a)" "fe_is 8 Y (ge_y a)" and P: "pt P = Point (X / v ^ 2) (Y / v ^ 3)"
    and inf: "\<not> ge_infinity a" by (rule ge_isE [OF assms])
  have y: "fe_is 1 Y (secp256k1_fe_normalize_weak (ge_y a))" by (rule fe_exec x | simp)+
  have "a\<lparr>ge_y := secp256k1_fe_normalize_weak (ge_y a)\<rparr> =
      \<lparr>ge_x = ge_x a, ge_y = secp256k1_fe_normalize_weak (ge_y a), ge_infinity = False\<rparr>" using inf by simp
  then show ?thesis using ge_isI [OF x(1) fe_is_8 [OF y] P] y by (simp add: fe_is_def)
qed

lemma ecmult_const_is [ge_rules]:
  assumes a: "ge_is 1 P a" "P \<noteq> 0" and s: "sc_val s < order_n" "sc_val s < 2 ^ bits" and bits: "0 < bits"
  shows "gej_is 1 (nmul (sc_val s) P) (secp256k1_ecmult_const a s bits)"
proof -
  obtain skew ws where w: "secp256k1_wnaf_const s (WINDOW_A - 1) bits = (skew, ws)" by fastforce
  obtain pre Z where t: "secp256k1_ecmult_odd_multiples_table_globalz_windowa (secp256k1_gej_set_ge a) = (pre, Z)" by fastforce
  define W where "W = WNAF_SIZE_BITS bits (WINDOW_A - 1)"
  have w4: "WINDOW_A - 1 = 4" by (simp add: WINDOW_A_def)
  have size: "ECMULT_TABLE_SIZE WINDOW_A = 8" by (simp add: ECMULT_TABLE_SIZE_def WINDOW_A_def)
  have ws: "length ws = W + 1" "skew = 1 \<or> skew = 2" "\<And>d. d \<in> set ws \<Longrightarrow> odd d \<and> \<bar>d\<bar> < 16"
    "(digits_val 16 ws - skew) mod int order_n = int (sc_val s)"
    using secp256k1_wnaf_const_is [OF _ _ s bits w [unfolded w4]] by (simp_all add: W_def WINDOW_A_def)
  have d: "odd (ws ! i) \<and> \<bar>ws ! i\<bar> < 16" if "i < length ws" for i using ws(3) that by simp
  obtain g where g: "g \<noteq> 0" "fe_is 8 g Z" "length pre = 8" "\<And>i. i < 8 \<Longrightarrow> ge_is g (nmul (2 * i + 1) P) (pre ! i)"
    using odd_multiples_table_windowa_is [OF gej_set_ge_refines [OF a(1)] a(2) t] by blast
  define pre' where "pre' = map (\<lambda>e. e\<lparr>ge_y := secp256k1_fe_normalize_weak (ge_y e)\<rparr>) pre"
  have pre': "fold (\<lambda>i t. t[i := (t ! i)\<lparr>ge_y := secp256k1_fe_normalize_weak (ge_y (t ! i))\<rparr>]) [0 ..< 8] pre = pre'"
    using table_normalize_fold [of 8 pre] g(3) by (simp add: pre'_def)
  have nz: "nmul (2 * i + 1) P \<noteq> 0" if "i < 8" for i
    using that by (intro nmul_small_neq_0 a(2)) (simp_all add: order_n_def)
  have ready: "ecmult_ready g P pre'"
    unfolding ecmult_ready_def
  proof (intro conjI allI impI g(1) a(2))
    fix i :: nat assume i: "i < 8"
    show "ge_is g (nmul (2 * i + 1) P) (pre' ! i)" "fe_mag 1 (ge_y (pre' ! i))"
      using ge_normalize_y_is [OF g(4) [OF i] nz [OF i]] i g(3) by (simp_all add: pre'_def)
  qed
  let ?t = "ECMULT_CONST_TABLE_GET_GE secp256k1_ge_clear pre' (ws ! W) WINDOW_A"
  define r where "r = fst (fold (ecmult_const_step pre' ws) (rev [0 ..< W]) (secp256k1_gej_set_ge ?t, ?t))"
  have "gej_is g (zmul (ws ! W) P) (secp256k1_gej_set_ge ?t)"
    by (rule gej_set_ge_refines [OF ecmult_ready_get(1) [OF ready]]) (use d [of W] ws(1) in simp_all)
  from ecmult_const_fold_is [OF ready this d, of W ?t] ws(1)
  have "gej_is g (zmul (digits_val 16 (take W ws) + 16 ^ W * ws ! W) P) r"
    by (simp add: r_def)
  moreover have "ws = take W ws @ [ws ! W]"
    using ws(1) take_Suc_conv_app_nth [of W ws] by simp
  then have "digits_val 16 ws = digits_val 16 (take W ws) + 16 ^ W * ws ! W"
    using digits_val_snoc [of 16 "take W ws" "ws ! W"] ws(1) by simp
  ultimately have r: "gej_is g (zmul (digits_val 16 ws) P) r" by simp
  have "gej_is 1 (zmul (digits_val 16 ws) P - zmul skew P)
      (ecmult_const_correction (r\<lparr>gej_z := secp256k1_fe_mul (gej_z r) Z\<rparr>) a skew)"
    by (rule ecmult_const_correction_is [OF gej_scale_z [OF r g(1,2)] a ws(2)])
  moreover have "zmul (digits_val 16 ws) P - zmul skew P = nmul (sc_val s) P"
    using zmul_mod [of "digits_val 16 ws - skew" P] by (simp add: ws(4) zmul_diff)
  moreover have "secp256k1_ecmult_const a s bits = ecmult_const_correction (r\<lparr>gej_z := secp256k1_fe_mul (gej_z r) Z\<rparr>) a skew"
    unfolding secp256k1_ecmult_const_def Let_def w t split_def fst_conv snd_conv size pre' r_def W_def ..
  ultimately show ?thesis by simp
qed
text \<open>The same over the field of scalars.\<close>

lemma ecmult_const_smul [ge_rules]:
  assumes a: "ge_is 1 P a" "P \<noteq> 0" and s: "sc_is x s"
  shows "gej_is 1 (smul x P) (secp256k1_ecmult_const a s 256)"
proof -
  have "sc_val s < 2 ^ 256" using sc_is_lt [OF s] by (simp add: order_n_def)
  then show ?thesis using ecmult_const_is [OF a sc_is_lt [OF s]] sc_is_value [OF s] by (simp add: smul_def)
qed

section \<open>Pedersen commitments\<close>

lemma pedersen_sum:
  assumes rj: "gej_is 1 P rj" and bj: "gej_is 1 Q bj"
  shows "gej_is 1 (P + Q) (if \<not> secp256k1_gej_is_infinity bj then
     let bp = fst (secp256k1_ge_set_gej bj) in secp256k1_gej_add_ge rj bp else rj)"
proof (cases "Q = 0")
  case True
  then show ?thesis using rj gej_is_infinity [OF bj] by (simp add: secp256k1_gej_is_infinity_def)
next
  case False
  then show ?thesis
    using gej_add_ge_refines [OF rj ge_set_gej_is(1) [OF bj] False] gej_is_infinity [OF bj]
    by (simp add: secp256k1_gej_is_infinity_def)
qed

lemma pedersen_ecmult_is [ge_rules]:
  assumes v: "ge_is 1 V value_gen" "V \<noteq> 0" and b: "ge_is 1 B blind_gen" "B \<noteq> 0" and s: "sc_is x sec"
  shows "gej_is 1 (nmul (unat value) V + smul x B) (secp256k1_pedersen_ecmult sec value value_gen blind_gen)"
proof -
  let ?v = "secp256k1_scalar_set_u64 value"
  have "unat value < 2 ^ 64" by (rule unat_u64_lt)
  moreover from this have "unat value mod order_n = unat value" by (simp add: order_n_def)
  then have "sc_val ?v = unat value"
    using secp256k1_scalar_set_u64_is [of "value"] by (simp only: sc_is_def fn_nat_of_nat)
  ultimately have "gej_is 1 (nmul (unat value) V) (secp256k1_ecmult_const value_gen ?v 64)"
    using ecmult_const_is [OF v, of ?v 64] by (simp add: order_n_def)
  from pedersen_sum [OF this ecmult_const_smul [OF b s]] show ?thesis
    by (simp add: secp256k1_pedersen_ecmult_def Let_def)
qed

lemma pedersen_blind_ecmult_is [ge_rules]:
  assumes v: "ge_is 1 V value_gen" "V \<noteq> 0" and b: "ge_is 1 B blind_gen" "B \<noteq> 0" and s: "sc_is x sec" "sc_is y value"
  shows "gej_is 1 (smul y V + smul x B) (secp256k1_pedersen_blind_ecmult sec value value_gen blind_gen)"
  using pedersen_sum [OF ecmult_const_smul [OF v s(2)] ecmult_const_smul [OF b s(1)]]
  by (simp add: secp256k1_pedersen_blind_ecmult_def Let_def)

end
