(* ===== verification/Ring_Law.thy ===== *)
theory Ring_Law
  imports Ring Ecmult_Mul
begin

text \<open>
  Points as bytes, powers and products of powers: the serialization of the ring module is a
  bijection onto its image, and the statement sequences of the proofs compute sums of multiples in
  the vector space of curve points.
\<close>

section \<open>Points as 33 bytes\<close>

lemma fp_square_cases:
  assumes "on_curve (Point X Y)" "\<not> fp_is_square Y"
  shows "fp_root (X ^ 3 + 7) = - Y" and "fp_is_square (- Y)"
proof -
  have "fp_is_square (X ^ 3 + 7)"
    using assms(1) by (auto simp: fp_is_square_def intro: exI [of _ Y])
  then have "fp_root (X ^ 3 + 7) ^ 2 = Y ^ 2"
    using fp_root_square_iff assms(1) by simp
  then have "fp_root (X ^ 3 + 7) = Y \<or> fp_root (X ^ 3 + 7) = - Y"
    by (simp add: power2_eq_iff)
  then show r: "fp_root (X ^ 3 + 7) = - Y" using assms(2) fp_root_is_square by metis
  show "fp_is_square (- Y)" using fp_root_is_square r by metis
qed

lemma normalize_unique:
  assumes "fe_is j x a" "fe_is k x b" "j \<le> 32" "k \<le> 32"
  shows "secp256k1_fe_normalize a = secp256k1_fe_normalize b"
proof -
  have "fe_is 32 x a" "fe_is 32 x b" using assms fe_is_mono by blast+
  then show ?thesis
    by (intro fe_normalized_unique) (auto simp: fe_is_def fe_normalize_fp_nat intro: fe_normalize_value(1))
qed

text \<open>The bytes depend on the point only.\<close>

definition point_bytes :: "cpoint \<Rightarrow> u8 list" where
  "point_bytes P = secp256k1_ge_save_boquila (ge_of P)"

lemma ge_save_unique:
  assumes a: "ge_is 1 P a" and b: "ge_is 1 P b" and P: "P \<noteq> 0"
  shows "secp256k1_ge_save_boquila a = secp256k1_ge_save_boquila b"
proof -
  obtain X Y where x: "fe_is 8 X (ge_x a)" "fe_is 8 Y (ge_y a)" "pt P = Point X Y"
    using ge_isE [OF a P] by (metis div_by_1 power_one)
  obtain X' Y' where y: "fe_is 8 X' (ge_x b)" "fe_is 8 Y' (ge_y b)" "pt P = Point X' Y'"
    using ge_isE [OF b P] by (metis div_by_1 power_one)
  have e: "X' = X" "Y' = Y" using x(3) y(3) by simp_all
  have "secp256k1_fe_normalize (ge_x a) = secp256k1_fe_normalize (ge_x b)"
    using normalize_unique [OF x(1) y(1) [unfolded e]] by simp
  then show ?thesis
    using secp256k1_fe_is_quad_var_is [OF x(2)] secp256k1_fe_is_quad_var_is [OF y(2)] e
    by (simp add: secp256k1_ge_save_boquila_def)
qed

lemma ge_save_is: "ge_is 1 P a \<Longrightarrow> P \<noteq> 0 \<Longrightarrow> secp256k1_ge_save_boquila a = point_bytes P"
  unfolding point_bytes_def by (rule ge_save_unique [OF _ ge_of_is])

lemma ge_save_length [simp]: "length (secp256k1_ge_save_boquila a) = 33"
  by (simp add: secp256k1_ge_save_boquila_def Let_def)

lemma point_bytes_length [simp]: "length (point_bytes P) = 33"
  by (simp add: point_bytes_def)

lemma ge_save_load:
  assumes a: "ge_is 1 P a" and P: "P \<noteq> 0"
  shows "ge_is 1 P (secp256k1_ge_load_boquila (secp256k1_ge_save_boquila a))"
proof -
  obtain X Y where x: "fe_is 8 X (ge_x a)" "fe_is 8 Y (ge_y a)" and p: "pt P = Point X Y"
    using ge_isE [OF a P] by (metis div_by_1 power_one)
  define f where "f = secp256k1_fe_normalize (ge_x a)"
  have "fe_is 32 X (ge_x a)" by (rule fe_is_mono [OF x(1)]) simp
  then have f: "fe_normalized f" "fe_is 1 X f"
    unfolding f_def using fe_normalize_value(1) secp256k1_fe_normalize_is by (auto simp: fe_is_def)
  have c: "on_curve (Point X Y)" using on_curve_pt [of P] p by simp
  let ?g = "snd (secp256k1_ge_set_xquad f)"
  have sq: "fp_is_square (X ^ 3 + 7)"
    using c by (auto simp: fp_is_square_def intro: exI [of _ Y])
  then have ok: "fst (secp256k1_ge_set_xquad f)" using ge_set_xquad_is(1) [OF fe_is_8 [OF f(2)]] by simp
  note g = ge_set_xquad_point [OF fe_is_8 [OF f(2)] ok]
  have load: "secp256k1_ge_load_boquila (secp256k1_ge_save_boquila a) =
      (if fp_is_square Y then ?g else secp256k1_ge_neg ?g)"
    using secp256k1_fe_is_quad_var_is [OF x(2)] fe_set_get_b32 [OF f(1)]
    by (simp add: secp256k1_ge_load_boquila_def secp256k1_ge_save_boquila_def Let_def flip: f_def)
  show ?thesis
  proof (cases "fp_is_square Y")
    case True
    then have "cp (Point X (fp_root (X ^ 3 + 7))) = P"
      using fp_root_unique [OF c] p by (metis pt_inverse)
    then show ?thesis using g True by (simp add: load)
  next
    case False
    then have "cp (Point X (fp_root (X ^ 3 + 7))) = - P"
      using fp_square_cases(1) [OF c] p by (metis point_neg.simps(2) pt_inverse pt_neg)
    then have "ge_is 1 (- P) ?g" using g(2) by simp
    from ge_neg_is [OF this] show ?thesis using False by (simp add: load)
  qed
qed

lemma load_point_bytes: "P \<noteq> 0 \<Longrightarrow> ge_is 1 P (secp256k1_ge_load_boquila (point_bytes P))"
  unfolding point_bytes_def by (rule ge_save_load [OF ge_of_is])

lemma point_bytes_inject: "P \<noteq> 0 \<Longrightarrow> Q \<noteq> 0 \<Longrightarrow> point_bytes P = point_bytes Q \<longleftrightarrow> P = Q"
  using load_point_bytes ge_is_unique by metis

lemma ge_save_eq_iff:
  assumes "ge_is 1 P a" "P \<noteq> 0" "ge_is 1 Q b" "Q \<noteq> 0"
  shows "secp256k1_ge_save_boquila a = secp256k1_ge_save_boquila b \<longleftrightarrow> P = Q"
  using assms by (simp add: ge_save_is point_bytes_inject)

section \<open>Products of powers\<close>

lemma ring_pow_is [ge_rules]:
  assumes "ge_is 1 P g" "P \<noteq> 0" "sc_is x s"
  shows "ge_is 1 (smul x P) (ring_pow g s)"
  unfolding ring_pow_def Let_def by (rule ge_set_gej_is(1) [OF ecmult_const_smul [OF assms]]) simp

lemma ring_mul_pow_is [ge_rules]:
  assumes g: "ge_is 1 P g" "P \<noteq> 0" "sc_is x s" and c: "ge_is 1 C com" "C \<noteq> 0"
  shows "ge_is 1 (C + smul x P) (ring_mul_pow g s com)"
proof -
  have "gej_is 1 (smul x P + C) (secp256k1_gej_add_ge (secp256k1_ecmult_const g s 256) com)"
    by (rule gej_add_ge_refines [OF ecmult_const_smul [OF g] c]) simp
  then show ?thesis
    unfolding ring_mul_pow_def Let_def by (simp add: ge_set_gej_is(1) add.commute)
qed

text \<open>
  A product over a list of indices. The additions need finite accumulators, so the partial sums
  before the last must not vanish.
\<close>

lemma ring_product_is:
  assumes "ge_is 1 C com"
    and "\<And>i. i \<in> set is \<Longrightarrow> ge_is 1 (P i) (g i) \<and> P i \<noteq> 0 \<and> sc_is (x i) (s i)"
    and "\<And>k. k < length is \<Longrightarrow> C + (\<Sum>i\<leftarrow>take k is. smul (x i) (P i)) \<noteq> 0"
  shows "ge_is 1 (C + (\<Sum>i\<leftarrow>is. smul (x i) (P i))) (fold (\<lambda>i. ring_mul_pow (g i) (s i)) is com)"
  using assms
proof (induction "is" arbitrary: C com)
  case (Cons i "is")
  have "C \<noteq> 0" using Cons.prems(3) [of 0] by simp
  then have "ge_is 1 (C + smul (x i) (P i)) (ring_mul_pow (g i) (s i) com)"
    using Cons.prems(1) Cons.prems(2) [of i] by (simp add: ring_mul_pow_is)
  moreover have "C + smul (x i) (P i) + (\<Sum>i\<leftarrow>take k is. smul (x i) (P i)) \<noteq> 0" if "k < length is" for k
    using Cons.prems(3) [of "Suc k"] that by (simp add: add.assoc)
  ultimately have "ge_is 1 (C + smul (x i) (P i) + (\<Sum>i\<leftarrow>is. smul (x i) (P i)))
      (fold (\<lambda>i. ring_mul_pow (g i) (s i)) is (ring_mul_pow (g i) (s i) com))"
    using Cons.prems(2) by (intro Cons.IH) simp_all
  then show ?case by (simp add: add.assoc)
qed simp
section \<open>Digits\<close>

text \<open>\<^const>\<open>get_jth\<close> is the digit, \<^const>\<open>ring_power\<close> the power.\<close>

lemma get_jth_is: "get_jth j n num = num div n ^ j mod n"
proof -
  have "((\<lambda>rem. rem div n) ^^ j) num = num div n ^ j" for j
    by (induction j) (simp_all add: div_mult2_eq [symmetric] mult.commute)
  then show ?thesis by (simp add: get_jth_def Let_def minus_div_mult_eq_mod)
qed

lemma ring_power_is: "ring_power n m = n ^ m"
  by (induction m) (simp_all add: ring_power_def mult.commute)

lemma digits_determine:
  assumes "s < n ^ m" "t < n ^ m" "\<And>j. j < m \<Longrightarrow> get_jth j n s = get_jth j n t"
  shows "s = t"
proof -
  have "k \<le> m \<Longrightarrow> s mod n ^ k = t mod n ^ k" for k
  proof (induction k)
    case (Suc k)
    then show ?case
      using assms(3) [of k] mod_mult2_eq [of s "n ^ k" n] mod_mult2_eq [of t "n ^ k" n]
      by (simp add: get_jth_is mult.commute)
  qed simp
  from this [of m] show ?thesis using assms(1,2) by simp
qed

section \<open>Vector commitments\<close>

definition grid :: "nat \<Rightarrow> nat \<Rightarrow> (nat \<times> nat) list" where
  "grid m n = concat (map (\<lambda>j. map (Pair j) [0 ..< n]) [0 ..< m])"

lemma set_grid: "(j, i) \<in> set (grid m n) \<longleftrightarrow> j < m \<and> i < n"
  by (auto simp: grid_def image_iff)

lemma fold_grid: "fold (\<lambda>j. fold (\<lambda>i. F j i) [0 ..< n]) [0 ..< m] c = fold (\<lambda>(j, i). F j i) (grid m n) c"
  by (induction m) (simp_all add: grid_def fold_map comp_def)

text \<open>The factors of a product of powers, and the requirement on the accumulators.\<close>

definition mat_terms :: "nat \<Rightarrow> nat \<Rightarrow> (nat \<Rightarrow> nat \<Rightarrow> fn) \<Rightarrow> (nat \<Rightarrow> cpoint) \<Rightarrow> cpoint list" where
  "mat_terms n m e P = map (\<lambda>(j, i). smul (e j i) (P (j * n + i))) (grid m n)"

definition accs_finite :: "cpoint \<Rightarrow> cpoint list \<Rightarrow> bool" where
  "accs_finite C ts \<longleftrightarrow> (\<forall>k \<le> length ts. C + sum_list (take k ts) \<noteq> 0)"

lemma accs_finite_ends: "accs_finite C ts \<Longrightarrow> C \<noteq> 0 \<and> C + sum_list ts \<noteq> 0"
  unfolding accs_finite_def by (auto dest: spec [of _ 0] spec [of _ "length ts"])

lemma ring_fold_is:
  assumes "ge_is 1 C com"
    and "\<And>i. i \<in> set is \<Longrightarrow> ge_is 1 (P i) (g i) \<and> P i \<noteq> 0 \<and> sc_is (x i) (s i)"
    and "accs_finite C (map (\<lambda>i. smul (x i) (P i)) is)"
  shows "ge_is 1 (C + (\<Sum>i\<leftarrow>is. smul (x i) (P i))) (fold (\<lambda>i. ring_mul_pow (g i) (s i)) is com)"
  by (rule ring_product_is [OF assms(1,2)]) (use assms(3) in \<open>auto simp: accs_finite_def take_map\<close>)

definition gens_ok :: "nat \<Rightarrow> secp256k1_ge list \<Rightarrow> (nat \<Rightarrow> cpoint) \<Rightarrow> bool" where
  "gens_ok k gs P \<longleftrightarrow> (\<forall>i < k. ge_is 1 (P i) (gs ! i) \<and> P i \<noteq> 0)"

lemma grid_index: "j < m \<Longrightarrow> i < n \<Longrightarrow> j * n + i < n * (m :: nat)"
proof -
  assume "j < m" "i < n"
  then have "j * n + i < j * n + n" by simp
  also have "\<dots> = n * Suc j" by simp
  also have "\<dots> \<le> n * m" using \<open>j < m\<close> by (intro mult_le_mono2) simp
  finally show ?thesis .
qed

lemma ring_matrix_pow_is:
  assumes c: "ge_is 1 C com" and g: "gens_ok (n * m) gs P"
    and e: "\<And>j i. j < m \<Longrightarrow> i < n \<Longrightarrow> sc_is (x j i) (e j i)" and fin: "accs_finite C (mat_terms n m x P)"
  shows "ge_is 1 (C + sum_list (mat_terms n m x P)) (ring_matrix_pow gs n m e com)"
proof -
  have "ring_matrix_pow gs n m e com = fold (\<lambda>p. ring_mul_pow (gs ! (fst p * n + snd p)) (e (fst p) (snd p))) (grid m n) com"
    unfolding ring_matrix_pow_def fold_grid by (simp add: split_def)
  moreover have "ge_is 1 (P (fst p * n + snd p)) (gs ! (fst p * n + snd p)) \<and> P (fst p * n + snd p) \<noteq> 0 \<and>
      sc_is (x (fst p) (snd p)) (e (fst p) (snd p))" if "p \<in> set (grid m n)" for p
    using that g e grid_index [of "fst p" m "snd p" n] set_grid [of "fst p" "snd p" m n] by (simp add: gens_ok_def)
  ultimately show ?thesis
    using ring_fold_is [OF c, of "grid m n" "\<lambda>p. P (fst p * n + snd p)"] fin
    by (simp add: mat_terms_def split_def)
qed

lemma mat_terms_add: "sum_list (mat_terms n m (\<lambda>j i. x j i + y j i) P) = sum_list (mat_terms n m x P) + sum_list (mat_terms n m y P)"
  unfolding mat_terms_def by (simp add: split_def curve.scale_left_distrib flip: sum_list_addf)

lemma sum_list_smul: "(\<Sum>p\<leftarrow>ps. smul (c * f p) (Q p)) = smul c (\<Sum>p\<leftarrow>ps. smul (f p) (Q p))"
  by (induction ps) (simp_all add: curve.scale_right_distrib)

lemma mat_terms_scale: "sum_list (mat_terms n m (\<lambda>j i. c * x j i) P) = smul c (sum_list (mat_terms n m x P))"
  unfolding mat_terms_def split_def by (rule sum_list_smul)

lemma mat_terms_cong: "(\<And>j i. j < m \<Longrightarrow> i < n \<Longrightarrow> x j i = y j i) \<Longrightarrow> mat_terms n m x P = mat_terms n m y P"
  by (auto simp: mat_terms_def set_grid)

text \<open>A commitment: a blinding factor on \<open>H\<close> and the terms.\<close>

lemma ring_commit_is:
  assumes h: "ge_is 1 H tmpH" "H \<noteq> 0" "sc_is r s" and g: "gens_ok (n * m) gs P"
    and e: "\<And>j i. j < m \<Longrightarrow> i < n \<Longrightarrow> sc_is (x j i) (e j i)" and fin: "accs_finite (smul r H) (mat_terms n m x P)"
  shows "ge_is 1 (smul r H + sum_list (mat_terms n m x P)) (ring_matrix_pow gs n m e (ring_pow tmpH s))"
    and "smul r H + sum_list (mat_terms n m x P) \<noteq> 0"
  using ring_matrix_pow_is [OF ring_pow_is [OF h] g e fin] accs_finite_ends [OF fin] by simp_all

end
