(* ===== verification/Ecmult_Gen_Law.thy ===== *)
theory Ecmult_Gen_Law
  imports Ecmult_Gen Ecmult_Mul
begin

text \<open>
  Multiplication of the base point: with a sound table and a sound blinding the result is the
  multiple of the generator, and re-blinding keeps the context sound.
\<close>

section \<open>Sound contexts\<close>

text \<open>
  Entry \<open>(j, i)\<close> of the table is \<open>N j + i * 16^j * G\<close>, finite, for offsets \<open>N\<close> that add up to
  zero.
\<close>

definition gen_table_ok :: "secp256k1_ge_storage list list \<Rightarrow> bool" where
  "gen_table_ok prec \<longleftrightarrow> (\<exists>N. (\<Sum>j < 64. N j) = 0 \<and>
     (\<forall>j < 64. \<forall>i < 16. N j + nmul (i * 16 ^ j) curve_G \<noteq> 0 \<and>
        ge_is 1 (N j + nmul (i * 16 ^ j) curve_G) (secp256k1_ge_from_storage (prec ! j ! i))))"

text \<open>The invariant of the context: the initial point takes the blinding back.\<close>

definition gen_ctx_ok :: "secp256k1_ecmult_gen_context \<Rightarrow> bool" where
  "gen_ctx_ok ctx \<longleftrightarrow> (\<exists>prec b. gen_prec ctx = Some prec \<and> gen_table_ok prec \<and>
     sc_is b (gen_blind ctx) \<and> gej_is 1 (- smul b curve_G) (gen_initial ctx))"

lemma gen_ctx_ok_built: "gen_ctx_ok ctx \<Longrightarrow> secp256k1_ecmult_gen_context_is_built ctx"
  by (auto simp: gen_ctx_ok_def secp256k1_ecmult_gen_context_is_built_def)

section \<open>Multiplication\<close>

lemma ecmult_gen_lookup_is: "bits < 16 \<Longrightarrow> ecmult_gen_lookup row bits adds = row ! bits"
proof -
  have "fold (\<lambda>i adds. secp256k1_ge_storage_cmov adds (row ! i) (i = bits)) [0 ..< n] adds =
      (if bits < n then row ! bits else adds)" for n
    by (induction n) (auto simp: ge_storage_cmov_eq)
  then show "bits < 16 \<Longrightarrow> ?thesis" by (simp add: ecmult_gen_lookup_def)
qed

lemma digits16_sum: "(\<Sum>j < k. (s div 16 ^ j mod 16) * 16 ^ j) = s mod (16 :: nat) ^ k"
proof (induction k)
  case (Suc k)
  then show ?case using mod_mult2_eq [of s "16 ^ k" 16] by (simp add: mult.commute)
qed simp

lemma scalar_digit16:
  assumes "j < 64"
  shows "unat (secp256k1_scalar_get_bits s (j * 4) 4) = sc_val s div 16 ^ j mod 16"
proof -
  have q: "j = 16 * (j div 16) + j mod 16" "j mod 16 < 16" by simp_all
  have "(j * 4) div 64 = j div 16" by simp
  moreover have "j * 4 + 4 - 1 = 64 * (j div 16) + (4 * (j mod 16) + 3)" using q by linarith
  then have "(j * 4 + 4 - 1) div 64 = j div 16" using q(2) by simp
  moreover have "(2 :: nat) ^ (j * 4) = 16 ^ j" unfolding mult.commute [of j] power_mult by simp
  ultimately show ?thesis
    using secp256k1_scalar_get_bits_value [of 4 "j * 4" s] assms by simp
qed

lemma nmul_sum: "nmul (\<Sum>j \<in> A. f j) P = (\<Sum>j \<in> A. nmul (f j) P)"
  by (induction A rule: infinite_finite_induct) (simp_all add: nmul_add)

lemma ecmult_gen_steps_is:
  assumes N: "\<And>j i. j < 64 \<Longrightarrow> i < 16 \<Longrightarrow> N j + nmul (i * 16 ^ j) curve_G \<noteq> 0 \<and>
        ge_is 1 (N j + nmul (i * 16 ^ j) curve_G) (secp256k1_ge_from_storage (prec ! j ! i))"
    and r: "gej_is 1 I r"
  shows "k \<le> 64 \<Longrightarrow> gej_is 1 (I + (\<Sum>j < k. N j + nmul ((sc_val s div 16 ^ j mod 16) * 16 ^ j) curve_G))
    (fst (fold (ecmult_gen_step prec s) [0 ..< k] (r, adds)))"
proof (induction k)
  case (Suc k)
  let ?st = "fold (ecmult_gen_step prec s) [0 ..< k] (r, adds)"
  let ?b = "sc_val s div 16 ^ k mod 16"
  have IH: "gej_is 1 (I + (\<Sum>j < k. N j + nmul ((sc_val s div 16 ^ j mod 16) * 16 ^ j) curve_G)) (fst ?st)"
    using Suc by simp
  have e: "N k + nmul (?b * 16 ^ k) curve_G \<noteq> 0"
    "ge_is 1 (N k + nmul (?b * 16 ^ k) curve_G) (secp256k1_ge_from_storage (prec ! k ! ?b))"
    using N [of k ?b] Suc.prems by simp_all
  have "fst (ecmult_gen_step prec s k ?st) = secp256k1_gej_add_ge (fst ?st) (secp256k1_ge_from_storage (prec ! k ! ?b))"
    using Suc.prems by (simp add: ecmult_gen_step_def split_def Let_def scalar_digit16 ecmult_gen_lookup_is)
  then show ?case
    using gej_add_ge_refines [OF IH e(2,1)] by (simp add: add.assoc)
qed (use r in simp)

text \<open>The result is the multiple of the generator.\<close>

lemma ecmult_gen_is:
  assumes c: "gen_ctx_ok ctx" and s: "sc_is x gn"
  shows "\<exists>r. secp256k1_ecmult_gen ctx gn = Some r \<and> gej_is 1 (smul x curve_G) r"
proof -
  obtain prec b where prec: "gen_prec ctx = Some prec" "gen_table_ok prec"
    and b: "sc_is b (gen_blind ctx)" and i: "gej_is 1 (- smul b curve_G) (gen_initial ctx)"
    using c by (auto simp: gen_ctx_ok_def)
  obtain N where N0: "(\<Sum>j < 64. N j) = 0" and N: "\<And>j i. j < 64 \<Longrightarrow> i < 16 \<Longrightarrow> N j + nmul (i * 16 ^ j) curve_G \<noteq> 0 \<and>
        ge_is 1 (N j + nmul (i * 16 ^ j) curve_G) (secp256k1_ge_from_storage (prec ! j ! i))"
    using prec(2) by (auto simp: gen_table_ok_def)
  define gnb where "gnb = snd (secp256k1_scalar_add gn (gen_blind ctx))"
  have gnb: "sc_is (x + b) gnb" unfolding gnb_def by (rule secp256k1_scalar_add_is [OF s b])
  have lt: "sc_val gnb < 16 ^ 64" using sc_is_lt [OF gnb] by (simp add: order_n_def)
  obtain adds where r: "secp256k1_ecmult_gen ctx gn = Some (fst (fold (ecmult_gen_step prec gnb) [0 ..< 64] (gen_initial ctx, adds)))"
    by (simp add: secp256k1_ecmult_gen_def prec(1) Let_def gnb_def)
  have "(\<Sum>j < 64. N j + nmul ((sc_val gnb div 16 ^ j mod 16) * 16 ^ j) curve_G) = nmul (sc_val gnb) curve_G"
    using lt by (simp only: sum.distrib N0 add_0 nmul_sum [symmetric] digits16_sum mod_less)
  also have "\<dots> = smul (x + b) curve_G" using sc_is_value [OF gnb] by (simp add: smul_def)
  finally have "- smul b curve_G + (\<Sum>j < 64. N j + nmul ((sc_val gnb div 16 ^ j mod 16) * 16 ^ j) curve_G) = smul x curve_G"
    by (simp add: curve.scale_left_distrib)
  then show ?thesis
    using ecmult_gen_steps_is [OF N i, of 64 gnb adds] r by simp
qed

section \<open>Blinding\<close>

lemma gen_blind_draw_fe_is:
  "gen_blind_draw_fe fuel g rng = Some (s, rng') \<Longrightarrow> \<exists>S. fe_is 8 S s \<and> S \<noteq> 0"
proof (induction fuel arbitrary: rng)
  case (Suc fuel)
  obtain nonce rng1 where n: "secp256k1_rfc6979_hmac_sha256_generate g rng 32 = (nonce, rng1)" by fastforce
  show ?case
  proof (cases "fst (secp256k1_fe_set_b32 nonce) \<and> \<not> secp256k1_fe_is_zero (snd (secp256k1_fe_set_b32 nonce))")
    case True
    let ?s = "snd (secp256k1_fe_set_b32 nonce)"
    have s: "s = ?s" using Suc.prems True by (simp add: n split_def Let_def)
    have "fe_normalized ?s"
      using True fe_set_b32_limbs(1,2) [of nonce] fe_set_b32_flag [of nonce] by (intro fe_tight_normalized) simp_all
    then have i: "fe_is 1 (of_nat (fe_val ?s)) ?s" and lt: "fe_val ?s < field_p"
      by (simp_all only: fe_normalized_is fe_normalized_iff)
    have "fe_val ?s \<noteq> 0" using True by (simp add: secp256k1_fe_is_zero_iff)
    then have "(of_nat (fe_val ?s) :: fp) \<noteq> 0" using lt by (simp add: of_nat_fp_eq_0_iff nat_dvd_not_less)
    then show ?thesis using fe_is_8 [OF i] unfolding s by blast
  next
    case False
    then have "gen_blind_draw_fe fuel g rng1 = Some (s, rng')"
      using Suc.prems by (simp add: n split_def Let_def split: if_splits)
    then show ?thesis by (rule Suc.IH)
  qed
qed simp

lemma gen_blind_draw_scalar_is:
  "gen_blind_draw_scalar fuel g rng = Some (b, rng') \<Longrightarrow> \<exists>x. sc_is x b"
proof (induction fuel arbitrary: rng)
  case (Suc fuel)
  obtain nonce rng1 where n: "secp256k1_rfc6979_hmac_sha256_generate g rng 32 = (nonce, rng1)" by fastforce
  obtain s overflow where s: "secp256k1_scalar_set_b32 nonce = (s, overflow)" by fastforce
  show ?case
  proof (cases "overflow \<or> secp256k1_scalar_is_zero s")
    case True
    then show ?thesis using Suc by (simp add: n s Let_def)
  next
    case False
    then have b: "b = s" using Suc.prems by (simp add: n s Let_def)
    have "fst (secp256k1_scalar_set_b32 (map ((!) nonce) [0 ..< 32])) = s"
      by (simp only: scalar_set_b32_nth s fst_conv)
    then show ?thesis
      using secp256k1_scalar_set_b32_is [of "map ((!) nonce) [0 ..< 32]"] b by auto
  qed
qed simp
text \<open>
  A successful blinding, from a sound context or, without a seed, from any context with a sound
  table, leaves a sound context.
\<close>

lemma gen_ctx_ok_blind_step:
  assumes c: "gen_ctx_ok ctx" and s: "fe_is 8 S s" "S \<noteq> 0" and b: "sc_is x b"
    and gb: "secp256k1_ecmult_gen (ctx\<lparr>gen_initial := secp256k1_gej_rescale (gen_initial ctx) s\<rparr>) b = Some gb"
  shows "gen_ctx_ok (ctx\<lparr>gen_initial := secp256k1_gej_rescale (gen_initial ctx) s,
    gen_blind := secp256k1_scalar_negate b, gen_initial := gb\<rparr>)"
proof -
  have "gen_ctx_ok (ctx\<lparr>gen_initial := secp256k1_gej_rescale (gen_initial ctx) s\<rparr>)"
    using c gej_rescale_is [OF _ s, of 1] by (auto simp: gen_ctx_ok_def)
  then have g: "gej_is 1 (smul x curve_G) gb" using ecmult_gen_is [OF _ b] gb by fastforce
  have "- smul (- x) curve_G = smul x curve_G" by (simp add: curve.scale_minus_left)
  then have i: "gej_is 1 (- smul (- x) curve_G) gb" using g by simp
  have n: "sc_is (- x) (secp256k1_scalar_negate b)" by (rule secp256k1_scalar_negate_is [OF b])
  obtain prec where "gen_prec ctx = Some prec" "gen_table_ok prec" using c by (auto simp: gen_ctx_ok_def)
  then show ?thesis
    unfolding gen_ctx_ok_def using i n by (intro exI [of _ prec] exI [of _ "- x"]) simp
qed

lemma ecmult_gen_blind_ok:
  assumes res: "secp256k1_ecmult_gen_blind fuel g ctx seed32 = Some ctx'"
    and c: "case seed32 of None \<Rightarrow> (\<exists>prec. gen_prec ctx = Some prec \<and> gen_table_ok prec) | Some _ \<Rightarrow> gen_ctx_ok ctx"
  shows "gen_ctx_ok ctx'"
proof -
  define ctx1 where "ctx1 = (case seed32 of
      None \<Rightarrow> ctx\<lparr>gen_initial := secp256k1_gej_neg (secp256k1_gej_set_ge secp256k1_ge_const_g), gen_blind := secp256k1_scalar_set_int 1\<rparr>
    | Some _ \<Rightarrow> ctx)"
  have ok1: "gen_ctx_ok ctx1"
  proof (cases seed32)
    case None
    have "gej_is 1 (- curve_G) (secp256k1_gej_neg (secp256k1_gej_set_ge secp256k1_ge_const_g))"
      by (rule gej_neg_is [OF gej_set_ge_refines [OF ge_const_g_is]])
    moreover have "sc_is 1 (secp256k1_scalar_set_int 1)" using secp256k1_scalar_set_int_is [of 1] by simp
    ultimately show ?thesis using c None
      by (auto simp: ctx1_def gen_ctx_ok_def intro!: exI [of _ 1])
  next
    case (Some a)
    then show ?thesis using c by (simp add: ctx1_def)
  qed
  define rng where "rng = secp256k1_rfc6979_hmac_sha256_initialize g
    (secp256k1_scalar_get_b32 (gen_blind ctx1) @ (case seed32 of None \<Rightarrow> [] | Some seed \<Rightarrow> seed))"
  obtain s rng1 where s: "gen_blind_draw_fe fuel g rng = Some (s, rng1)"
    using res unfolding secp256k1_ecmult_gen_blind_def Let_def ctx1_def [symmetric] rng_def [symmetric]
    by (auto split: option.splits)
  define ctx2 where "ctx2 = ctx1\<lparr>gen_initial := secp256k1_gej_rescale (gen_initial ctx1) s\<rparr>"
  obtain b rng2 gb where b: "gen_blind_draw_scalar fuel g rng1 = Some (b, rng2)" "secp256k1_ecmult_gen ctx2 b = Some gb"
    "ctx' = ctx2\<lparr>gen_blind := secp256k1_scalar_negate b, gen_initial := gb\<rparr>"
    using res unfolding secp256k1_ecmult_gen_blind_def Let_def ctx1_def [symmetric] rng_def [symmetric] s option.case prod.case ctx2_def [symmetric]
    by (auto split: option.splits)
  obtain S where S: "fe_is 8 S s" "S \<noteq> 0" using gen_blind_draw_fe_is [OF s] by blast
  obtain x where x: "sc_is x b" using gen_blind_draw_scalar_is [OF b(1)] by blast
  show ?thesis
    using gen_ctx_ok_blind_step [OF ok1 S x] b(2,3) by (simp add: ctx2_def)
qed

section \<open>A sound context\<close>

text \<open>There are sound tables: offsets \<open>16^j G\<close>, the last one the negated sum of the others.\<close>

definition storage_of :: "cpoint \<Rightarrow> secp256k1_ge_storage" where
  "storage_of P = secp256k1_ge_to_storage (ge_of P)"

definition sample_offset :: "nat \<Rightarrow> cpoint" where
  "sample_offset j = (if j < 63 then nmul (16 ^ j) curve_G else - nmul (\<Sum>k < 63. 16 ^ k) curve_G)"

definition sample_table :: "secp256k1_ge_storage list list" where
  "sample_table = map (\<lambda>j. map (\<lambda>i. storage_of (sample_offset j + nmul (i * 16 ^ j) curve_G)) [0 ..< 16]) [0 ..< 64]"

definition sample_ctx :: secp256k1_ecmult_gen_context where
  "sample_ctx = \<lparr>gen_prec = Some sample_table, gen_blind = secp256k1_scalar_set_int 1,
     gen_initial = secp256k1_gej_neg (secp256k1_gej_set_ge secp256k1_ge_const_g)\<rparr>"

lemma geometric16: "15 * (\<Sum>k < n. 16 ^ k) + 1 = (16 :: nat) ^ n"
  by (induction n) simp_all

lemma sample_entry_neq_0:
  assumes "j < 64" "i < 16"
  shows "sample_offset j + nmul (i * 16 ^ j) curve_G \<noteq> 0"
proof (cases "j < 63")
  case True
  have "sample_offset j + nmul (i * 16 ^ j) curve_G = nmul ((1 + i) * 16 ^ j) curve_G"
    using True by (simp add: sample_offset_def nmul_add distrib_right)
  moreover have "(1 + i) * 16 ^ j < order_n"
  proof -
    have "(16 :: nat) ^ j \<le> 16 ^ 62" using True by (intro power_increasing) simp_all
    then have "(1 + i) * 16 ^ j \<le> 16 * 16 ^ 62" using assms by (intro mult_le_mono) simp_all
    also have "\<dots> < order_n" by (simp add: order_n_def)
    finally show ?thesis .
  qed
  ultimately show ?thesis using nmul_small_neq_0 [OF curve_G_neq_0, of "(1 + i) * 16 ^ j"] by simp
next
  case False
  define S :: nat where "S = (\<Sum>k < 63. 16 ^ k)"
  have j: "j = 63" using False assms by simp
  have S: "15 * S + 1 = 16 ^ 63" unfolding S_def by (rule geometric16)
  define d where "d = int i * 16 ^ 63 - int S"
  have "sample_offset j + nmul (i * 16 ^ j) curve_G = zmul d curve_G"
    using zmul_diff_nat [of "i * 16 ^ 63" S curve_G]
    by (simp add: d_def sample_offset_def j flip: S_def)
  moreover have "d \<noteq> 0 \<and> \<bar>d\<bar> < int order_n"
  proof (cases "i = 0")
    case True
    then show ?thesis using S by (simp add: d_def order_n_def)
  next
    case False
    then have "int 16 ^ 63 \<le> int i * 16 ^ 63" by simp
    moreover have "int i * 16 ^ 63 \<le> 15 * 16 ^ 63" using assms(2) by (intro mult_right_mono) simp_all
    ultimately show ?thesis using S by (simp add: d_def order_n_def)
  qed
  then have "\<not> int order_n dvd d" using dvd_imp_le_int [of d "int order_n"] by auto
  ultimately show ?thesis using curve_G_neq_0 by (simp add: zmul_eq_0_iff)
qed

lemma sample_table_ok: "gen_table_ok sample_table"
  unfolding gen_table_ok_def
proof (intro exI [of _ sample_offset] conjI allI impI)
  have "(\<Sum>j < 64. sample_offset j) = (\<Sum>j < 63. sample_offset j) + sample_offset 63"
    by (simp only: sum.lessThan_Suc [symmetric]) simp
  also have "(\<Sum>j < 63. sample_offset j) = nmul (\<Sum>k < 63. 16 ^ k) curve_G"
    by (simp add: sample_offset_def nmul_sum)
  finally show "(\<Sum>j < 64. sample_offset j) = 0" by (simp add: sample_offset_def)
next
  fix j i :: nat assume ji: "j < 64" "i < 16"
  show nz: "sample_offset j + nmul (i * 16 ^ j) curve_G \<noteq> 0" by (rule sample_entry_neq_0 [OF ji])
  have "sample_table ! j ! i = storage_of (sample_offset j + nmul (i * 16 ^ j) curve_G)"
    using ji by (simp add: sample_table_def)
  then show "ge_is 1 (sample_offset j + nmul (i * 16 ^ j) curve_G) (secp256k1_ge_from_storage (sample_table ! j ! i))"
    using ge_from_to_storage_is(1) [OF ge_of_is nz] by (simp add: storage_of_def)
qed

lemma sample_ctx_ok: "gen_ctx_ok sample_ctx"
proof -
  have "gej_is 1 (- curve_G) (secp256k1_gej_neg (secp256k1_gej_set_ge secp256k1_ge_const_g))"
    by (rule gej_neg_is [OF gej_set_ge_refines [OF ge_const_g_is]])
  moreover have "sc_is 1 (secp256k1_scalar_set_int 1)" using secp256k1_scalar_set_int_is [of 1] by simp
  ultimately show ?thesis
    using sample_table_ok by (auto simp: gen_ctx_ok_def sample_ctx_def intro!: exI [of _ 1])
qed

end
