(* ===== verification/Generator_Law.thy ===== *)
theory Generator_Law
  imports Generator Ring_Law Ecmult_Gen_Law
begin

text \<open>
  Hashing to the curve. The map of Shallue and van de Woestijne evaluates the right-hand side of the
  curve equation at three candidates whose product is a square, so one of them lifts; the code's
  numerators and denominators compute exactly these candidates. A generator is the pair of
  canonical coordinates of a finite point.
\<close>

section \<open>Squares in the field\<close>

lemma fp_is_squareI: "x = y * y \<Longrightarrow> fp_is_square x" for x :: fp
  by (auto simp: fp_is_square_def power2_eq_square)

text \<open>Of two opposite elements one is a square, so two elements that are not have a square product.\<close>

lemma fp_square_or_minus: "fp_is_square x \<or> fp_is_square (- x)" for x :: fp
proof (cases "x = 0")
  case False
  have "fp_root x ^ 2 = x ^ (1 + (field_p - 1) div 2)"
    unfolding fp_root_def by (simp add: field_p_def flip: power_mult)
  then have r: "fp_root x ^ 2 = x * x ^ ((field_p - 1) div 2)" by simp
  have "(x ^ ((field_p - 1) div 2)) ^ 2 = x ^ (field_p - 1)"
    by (simp add: field_p_def flip: power_mult)
  then have "(x ^ ((field_p - 1) div 2)) ^ 2 = 1 ^ 2" using fp_fermat [OF False] by simp
  then have "x ^ ((field_p - 1) div 2) = 1 \<or> x ^ ((field_p - 1) div 2) = - 1" by (simp only: power2_eq_iff)
  then show ?thesis
    using r unfolding fp_is_square_def by (metis mult.right_neutral mult_minus_right)
qed (simp add: fp_is_square_def)

lemma fp_square_mult_nonsquares: "\<not> fp_is_square x \<Longrightarrow> \<not> fp_is_square y \<Longrightarrow> fp_is_square (x * y)"
proof -
  assume "\<not> fp_is_square x" "\<not> fp_is_square y"
  then obtain a b where "- x = a ^ 2" "- y = b ^ 2"
    using fp_square_or_minus by (metis fp_is_square_def)
  then have "x * y = (a * b) * (a * b)" by (metis minus_mult_minus mult.assoc mult.left_commute power2_eq_square)
  then show ?thesis by (rule fp_is_squareI)
qed

lemma seven_not_square: "\<not> fp_is_square 7"
proof
  define y :: nat where "y = 0x8f537eefdfc1606a0727cd69b4a7333d38ed44e3932a7179eecb4b6fba9360dc"
  assume 7: "fp_is_square 7"
  have "(of_nat (y * y + 7) :: fp) = of_nat 0" unfolding of_nat_fp_eq_iff by (simp add: y_def field_p_def)
  then have "(- 7 :: fp) = of_nat y * of_nat y" by (simp add: eq_neg_iff_add_eq_0 neg_eq_iff_add_eq_0 add.commute)
  then have "fp_is_square (- 7)" by (rule fp_is_squareI)
  then have "(7 :: fp) = 0" using fp_square_minus [OF 7] by simp
  then show False using numeral_fp_eq_0_iff [of "num.Bit1 (num.Bit1 num.One)"] by (simp add: field_p_def dvd_eq_mod_eq_0)
qed

lemma square_plus_8: "(t :: fp) * t + 8 \<noteq> 0"
proof
  define y :: nat where "y = 0x4218f20ae6c646b363db68605822fb14264ca8d2587fdd6fbc750d587e76a7ee"
  assume "t * t + 8 = 0"
  then have "- 8 = t * t" by (simp add: eq_neg_iff_add_eq_0 neg_eq_iff_add_eq_0 add.commute)
  then have m: "fp_is_square (- 8)" by (rule fp_is_squareI)
  have "(of_nat 8 :: fp) = of_nat (y * y)" unfolding of_nat_fp_eq_iff by (simp add: y_def field_p_def)
  then have "fp_is_square 8" by (intro fp_is_squareI [of _ "of_nat y"]) simp
  then have "(8 :: fp) = 0" using fp_square_minus m by blast
  then show False using numeral_fp_eq_0_iff [of "num.Bit0 (num.Bit0 (num.Bit0 num.One))"] by (simp add: field_p_def dvd_eq_mod_eq_0)
qed

section \<open>The three candidates\<close>

text \<open>
  With \<open>c^2 = -3\<close> and \<open>d = (c - 1) / 2\<close>: for the first two candidates \<open>x1\<close> and
  \<open>-x1 - 1\<close>, and \<open>w\<close> such that \<open>x1^2 + x1 + 1 = -8 w^2\<close>, the product of the values
  is a square times the value at the third.
\<close>

lemma svdw_identity:
  fixes x w r :: fp
  assumes U: "x * x + x + 1 = - 8 * (w * w)" and r: "r * (w * w) = 1"
  shows "(x ^ 3 + 7) * ((- x - 1) ^ 3 + 7) = (8 * w * w * w) * (8 * w * w * w) * ((1 + r) ^ 3 + 7)"
proof -
  define s where "s = x * x + x"
  define u where "u = w * w"
  have "(x ^ 3 + 7) * ((- x - 1) ^ 3 + 7) = 42 - 21 * s - s * s * s"
    unfolding s_def by (simp add: algebra_simps power3_eq_cube)
  also have "\<dots> = 64 * (8 * (u * u * u) + 3 * (u * u) + 3 * u + 1)"
  proof -
    have "s = - 8 * u - 1" using U by (simp add: s_def u_def algebra_simps)
    then show ?thesis by (simp only:) (simp add: algebra_simps)
  qed
  also have "\<dots> = (8 * w * w * w) * (8 * w * w * w) * ((1 + r) ^ 3 + 7)"
  proof -
    have ru: "r * u = 1" using r by (simp add: u_def)
    have "(8 * w * w * w) * (8 * w * w * w) * ((1 + r) ^ 3 + 7) = 64 * (u * u * u) * ((1 + r) ^ 3 + 7)"
      unfolding u_def by (simp add: algebra_simps)
    also have "\<dots> = 64 * (8 * (u * u * u) + 3 * (u * u) * (r * u) + 3 * u * (r * u) * (r * u) + (r * u) * (r * u) * (r * u))"
      by (simp add: algebra_simps power3_eq_cube)
    finally show ?thesis using ru by simp
  qed
  finally show ?thesis .
qed

lemma svdw_one_square:
  fixes c d t w r :: fp
  assumes c: "c * c = - 3" "2 * d + 1 = c" and w: "w * (t * t + 8) = c * t" and r: "r * (w * w) = 1"
  defines "x1 \<equiv> d - t * w"
  shows "fp_is_square (x1 ^ 3 + 7) \<or> fp_is_square ((- x1 - 1) ^ 3 + 7) \<or> fp_is_square ((1 + r) ^ 3 + 7)"
proof (rule ccontr)
  assume n: "\<not> ?thesis"
  have "4 * (d * d + d + 1) = (2 * d + 1) * (2 * d + 1) + 3" by (simp add: algebra_simps)
  also have "\<dots> = 0" using c by simp
  finally have d: "d * d + d + 1 = 0"
    using fp_two_neq_0 by (metis mult_2 mult_eq_0_iff numeral_Bit0 numeral_times_numeral)
  have "x1 * x1 + x1 + 1 = (d * d + d + 1) - (2 * d + 1) * t * w + t * t * (w * w)"
    unfolding x1_def by (simp add: algebra_simps)
  also have "\<dots> = - (c * t) * w + t * t * (w * w)" using d c(2) by simp
  also have "\<dots> = - 8 * (w * w)" unfolding w [symmetric] by (simp add: algebra_simps)
  finally have e: "(x1 ^ 3 + 7) * ((- x1 - 1) ^ 3 + 7) = (8 * w * w * w) * (8 * w * w * w) * ((1 + r) ^ 3 + 7)"
    using r by (rule svdw_identity)
  have "w \<noteq> 0" using r by auto
  have "(8 :: fp) \<noteq> 0" using numeral_fp_eq_0_iff [of "num.Bit0 (num.Bit0 (num.Bit0 num.One))"] by (simp add: field_p_def dvd_eq_mod_eq_0)
  define h where "h = 8 * w * w * w"
  have h: "h \<noteq> 0" using \<open>w \<noteq> 0\<close> \<open>(8 :: fp) \<noteq> 0\<close> by (simp add: h_def)
  have "fp_is_square ((x1 ^ 3 + 7) * ((- x1 - 1) ^ 3 + 7))" using n fp_square_mult_nonsquares by blast
  then obtain z where "(x1 ^ 3 + 7) * ((- x1 - 1) ^ 3 + 7) = z ^ 2" unfolding fp_is_square_def by blast
  then have "h * h * ((1 + r) ^ 3 + 7) = z ^ 2" using e by (simp add: h_def)
  then have "(1 + r) ^ 3 + 7 = (z / h) * (z / h)" using h by (simp add: field_simps power2_eq_square)
  then have "fp_is_square ((1 + r) ^ 3 + 7)" by (rule fp_is_squareI)
  then show False using n by blast
qed
section \<open>The map\<close>

definition svdw_cf :: fp where
  "svdw_cf = of_nat 0x0a2d2ba93507f1df233770c2a797962cc61f6d15da14ecd47d8d27ae1cd5f852"

definition svdw_df :: fp where
  "svdw_df = of_nat 0x851695d49a83f8ef919bb86153cbcb16630fb68aed0a766a3ec693d68e6afa40"

lemma svdw_constants: "svdw_cf * svdw_cf = - 3" "2 * svdw_df + 1 = svdw_cf" "svdw_cf \<noteq> 0"
proof -
  have "(of_nat (0x0a2d2ba93507f1df233770c2a797962cc61f6d15da14ecd47d8d27ae1cd5f852 *
      0x0a2d2ba93507f1df233770c2a797962cc61f6d15da14ecd47d8d27ae1cd5f852 + 3) :: fp) = of_nat 0"
    unfolding of_nat_fp_eq_iff by (simp add: field_p_def)
  then have "svdw_cf * svdw_cf + 3 = 0" by (simp only: svdw_cf_def of_nat_add of_nat_mult of_nat_numeral semiring_1_class.of_nat_0)
  then show "svdw_cf * svdw_cf = - 3" by (simp only: eq_neg_iff_add_eq_0)
  have "(of_nat (2 * 0x851695d49a83f8ef919bb86153cbcb16630fb68aed0a766a3ec693d68e6afa40 + 1) :: fp) =
      of_nat 0x0a2d2ba93507f1df233770c2a797962cc61f6d15da14ecd47d8d27ae1cd5f852"
    unfolding of_nat_fp_eq_iff by (simp add: field_p_def)
  then show "2 * svdw_df + 1 = svdw_cf" by (simp only: svdw_cf_def svdw_df_def of_nat_add of_nat_mult of_nat_numeral of_nat_1)
  show "svdw_cf \<noteq> 0" by (simp add: svdw_cf_def numeral_fp_eq_0_iff field_p_def dvd_eq_mod_eq_0)
qed

lemma svdw_const_is:
  "fe_is 1 svdw_cf svdw_c" "fe_is 1 svdw_df svdw_d" "fe_is 1 7 svdw_b" "fe_is 1 8 svdw_b_plus_one"
  by (simp_all add: fe_is_def svdw_cf_def svdw_df_def svdw_c_def svdw_d_def svdw_b_def svdw_b_plus_one_def SECP256K1_FE_CONST_def
      fe_mag_def fe_val_def)

definition svdw_x1 :: "fp \<Rightarrow> fp" where
  "svdw_x1 t = svdw_df - t * (svdw_cf * t / (t * t + 8))"

definition svdw_x3 :: "fp \<Rightarrow> fp" where
  "svdw_x3 t = 1 + (t * t + 8) * (t * t + 8) / (svdw_cf * t * (svdw_cf * t))"

text \<open>The candidates, for a nonzero argument; for zero all three are zero.\<close>

lemma svdw_candidates_is:
  assumes t: "fe_is 1 T t"
  shows "case svdw_candidates t of (x1, x2, x3) \<Rightarrow>
    fe_is 1 (if T = 0 then 0 else svdw_x1 T) x1 \<and> fe_is 1 (if T = 0 then 0 else - svdw_x1 T - 1) x2 \<and>
    fe_is 1 (if T = 0 then 0 else svdw_x3 T) x3"
proof -
  note k = svdw_const_is
  define wn where "wn = secp256k1_fe_mul svdw_c t"
  define wd where "wd = secp256k1_fe_add (secp256k1_fe_sqr t) svdw_b_plus_one"
  define x1n where "x1n = secp256k1_fe_add (secp256k1_fe_mul svdw_d wd) (secp256k1_fe_negate (secp256k1_fe_mul t wn) 1)"
  define x2n where "x2n = secp256k1_fe_negate (secp256k1_fe_add x1n wd) 5"
  define x3d where "x3d = secp256k1_fe_sqr (secp256k1_fe_mul svdw_c t)"
  define x3n where "x3n = secp256k1_fe_add (secp256k1_fe_sqr wd) x3d"
  define jinv where "jinv = secp256k1_fe_inv (secp256k1_fe_mul x3d wd)"
  have eq: "svdw_candidates t = (secp256k1_fe_mul (secp256k1_fe_mul x1n x3d) jinv,
      secp256k1_fe_mul (secp256k1_fe_mul x2n x3d) jinv, secp256k1_fe_mul (secp256k1_fe_mul x3n wd) jinv)"
    by (simp add: svdw_candidates_def Let_def wn_def wd_def x1n_def x2n_def x3d_def x3n_def jinv_def)
  define D where "D = T * T + 8"
  define C where "C = svdw_cf * T"
  have wn: "fe_is 1 C wn" unfolding wn_def C_def by (rule fe_exec t k | simp)+
  have wd: "fe_is 2 D wd" unfolding wd_def D_def by (rule fe_is_mono [where m = "1 + 1"]) (rule fe_exec t k | simp)+
  have x1n: "fe_is 3 (svdw_df * D + - (T * C)) x1n" unfolding x1n_def
    by (rule fe_is_mono [where m = "1 + 2"]) (rule fe_exec t k wn wd | simp)+
  have x12: "fe_is 5 (svdw_df * D + - (T * C) + D) (secp256k1_fe_add x1n wd)"
    by (rule fe_is_mono [where m = "3 + 2"]) (rule fe_exec x1n wd | simp)+
  have "fe_is (5 + 1) (- (svdw_df * D + - (T * C) + D)) x2n" unfolding x2n_def
    by (rule fe_exec_negate [OF x12]) simp_all
  then have x2n: "fe_is 6 (- (svdw_df * D + - (T * C) + D)) x2n" by simp
  have x3d: "fe_is 1 (C * C) x3d" unfolding x3d_def C_def by (rule fe_exec t k | simp)+
  have x3n: "fe_is 2 (D * D + C * C) x3n" unfolding x3n_def
    by (rule fe_is_mono [where m = "1 + 1"]) (rule fe_exec wd x3d | simp)+
  have jinv: "fe_is 1 (inverse (C * C * D)) jinv" unfolding jinv_def by (rule fe_exec wd x3d | simp)+
  have r1: "fe_is 1 ((svdw_df * D + - (T * C)) * (C * C) * inverse (C * C * D)) (secp256k1_fe_mul (secp256k1_fe_mul x1n x3d) jinv)"
    by (rule fe_exec x1n x3d jinv | simp)+
  have r2: "fe_is 1 (- (svdw_df * D + - (T * C) + D) * (C * C) * inverse (C * C * D)) (secp256k1_fe_mul (secp256k1_fe_mul x2n x3d) jinv)"
    by (rule fe_exec x2n x3d jinv | simp)+
  have r3: "fe_is 1 ((D * D + C * C) * D * inverse (C * C * D)) (secp256k1_fe_mul (secp256k1_fe_mul x3n wd) jinv)"
    by (rule fe_exec x3n wd jinv | simp)+
  have D: "D \<noteq> 0" unfolding D_def by (rule square_plus_8)
  have e: "(svdw_df * D + - (T * C)) * (C * C) * inverse (C * C * D) = (if T = 0 then 0 else svdw_x1 T)"
    "- (svdw_df * D + - (T * C) + D) * (C * C) * inverse (C * C * D) = (if T = 0 then 0 else - svdw_x1 T - 1)"
    "(D * D + C * C) * D * inverse (C * C * D) = (if T = 0 then 0 else svdw_x3 T)"
  proof -
    have "C = 0" if "T = 0" using that by (simp add: C_def)
    moreover have "C \<noteq> 0" if "T \<noteq> 0" using that svdw_constants(3) by (simp add: C_def)
    ultimately show "(svdw_df * D + - (T * C)) * (C * C) * inverse (C * C * D) = (if T = 0 then 0 else svdw_x1 T)"
      "- (svdw_df * D + - (T * C) + D) * (C * C) * inverse (C * C * D) = (if T = 0 then 0 else - svdw_x1 T - 1)"
      "(D * D + C * C) * D * inverse (C * C * D) = (if T = 0 then 0 else svdw_x3 T)"
      using D unfolding svdw_x1_def svdw_x3_def C_def [symmetric] D_def [symmetric] by (simp_all add: field_simps)
  qed
  show ?thesis using r1 r2 r3 unfolding eq e by simp
qed

lemma svdw_third:
  assumes "T \<noteq> 0"
  shows "fp_is_square (svdw_x1 T ^ 3 + 7) \<or> fp_is_square ((- svdw_x1 T - 1) ^ 3 + 7) \<or> fp_is_square (svdw_x3 T ^ 3 + 7)"
proof -
  define D where "D = T * T + 8"
  define C where "C = svdw_cf * T"
  have n: "D \<noteq> 0" "C \<noteq> 0" using assms svdw_constants(3) square_plus_8 by (simp_all add: D_def C_def)
  have "(C / D) * D = C" "(D * D / (C * C)) * ((C / D) * (C / D)) = 1" using n by simp_all
  then show ?thesis
    using svdw_one_square [OF svdw_constants(1,2), of "C / D" T "D * D / (C * C)"]
    by (simp add: svdw_x1_def svdw_x3_def D_def C_def)
qed

lemma svdw_rhs_is: "fe_is 1 X x \<Longrightarrow> fe_is 8 (X ^ 3 + 7) (svdw_rhs x)"
proof -
  assume x: "fe_is 1 X x"
  have "fe_is 2 (X * X * X + 7) (svdw_rhs x)" unfolding svdw_rhs_def Let_def
    by (rule fe_is_mono [where m = "1 + 1"]) (rule fe_exec x svdw_const_is | simp)+
  then show ?thesis by (simp add: power3_eq_cube fe_is_mono [where m = 2])
qed

text \<open>The choice between the candidates.\<close>

lemma svdw_choice:
  assumes t: "fe_is 1 T t"
  defines "X \<equiv> (if T = 0 then 0
    else if fp_is_square (svdw_x1 T ^ 3 + 7) then svdw_x1 T
    else if fp_is_square ((- svdw_x1 T - 1) ^ 3 + 7) then - svdw_x1 T - 1 else svdw_x3 T)"
  defines "Y \<equiv> fp_root (X ^ 3 + 7)"
  shows "fe_is 1 X (ge_x (shallue_van_de_woestijne t))" and "\<not> ge_infinity (shallue_van_de_woestijne t)"
    and "fe_is 8 (if secp256k1_fe_is_odd t then - Y else Y) (ge_y (shallue_van_de_woestijne t))"
proof -
  obtain x1 x2 x3 where c: "svdw_candidates t = (x1, x2, x3)" by (metis prod_cases3)
  note x = svdw_candidates_is [OF t, unfolded c prod.case]
  define X1 X2 X3 where "X1 = (if T = 0 then 0 else svdw_x1 T)" and "X2 = (if T = 0 then 0 else - svdw_x1 T - 1)"
    and "X3 = (if T = 0 then 0 else svdw_x3 T)"
  have x: "fe_is 1 X1 x1" "fe_is 1 X2 x2" "fe_is 1 X3 x3" using x by (simp_all add: X1_def X2_def X3_def)
  note r1 = secp256k1_fe_sqrt_is [OF svdw_rhs_is [OF x(1)]] and r2 = secp256k1_fe_sqrt_is [OF svdw_rhs_is [OF x(2)]]
    and r3 = secp256k1_fe_sqrt_is [OF svdw_rhs_is [OF x(3)]]
  define y where "y = (if fp_is_square (X1 ^ 3 + 7) then snd (secp256k1_fe_sqrt (svdw_rhs x1))
    else if fp_is_square (X2 ^ 3 + 7) then snd (secp256k1_fe_sqrt (svdw_rhs x2)) else snd (secp256k1_fe_sqrt (svdw_rhs x3)))"
  define x where "x = (if fp_is_square (X1 ^ 3 + 7) then x1 else if fp_is_square (X2 ^ 3 + 7) then x2 else x3)"
  have eq: "shallue_van_de_woestijne t =
      \<lparr>ge_x = x, ge_y = if secp256k1_fe_is_odd t then secp256k1_fe_negate y 1 else y, ge_infinity = False\<rparr>"
    using r1 r2 by (simp add: shallue_van_de_woestijne_def c split_def Let_def secp256k1_ge_set_xy_def x_def y_def)
  have X: "X = (if fp_is_square (X1 ^ 3 + 7) then X1 else if fp_is_square (X2 ^ 3 + 7) then X2 else X3)"
    by (simp add: X_def X1_def X2_def X3_def)
  have xx: "fe_is 1 X x" unfolding X x_def using \<open>fe_is 1 X1 x1\<close> \<open>fe_is 1 X2 x2\<close> \<open>fe_is 1 X3 x3\<close> by simp
  have yy: "fe_is 1 Y y" unfolding Y_def X y_def using r1 r2 r3 by simp
  have "fe_is 2 (- Y) (secp256k1_fe_negate y 1)" by (rule fe_exec_negate_1 [OF yy]) simp
  then have "fe_is 8 (- Y) (secp256k1_fe_negate y 1)" by (rule fe_is_mono) simp
  then show "fe_is 1 X (ge_x (shallue_van_de_woestijne t))" "\<not> ge_infinity (shallue_van_de_woestijne t)"
    "fe_is 8 (if secp256k1_fe_is_odd t then - Y else Y) (ge_y (shallue_van_de_woestijne t))"
    using xx fe_is_8 [OF yy] by (simp_all add: eq)
qed

lemma svdw_is:
  assumes t: "fe_is 1 T t" and T: "T \<noteq> 0"
  shows "ge_is 1 (cp (ge_pt (shallue_van_de_woestijne t))) (shallue_van_de_woestijne t)"
    and "cp (ge_pt (shallue_van_de_woestijne t)) \<noteq> 0"
proof -
  note s = svdw_choice [OF t]
  define X where "X = (if T = 0 then 0
    else if fp_is_square (svdw_x1 T ^ 3 + 7) then svdw_x1 T
    else if fp_is_square ((- svdw_x1 T - 1) ^ 3 + 7) then - svdw_x1 T - 1 else svdw_x3 T)"
  have "fp_is_square (X ^ 3 + 7)" using svdw_third [OF T] T by (auto simp: X_def)
  then have "fp_root (X ^ 3 + 7) ^ 2 = X ^ 3 + 7" by (simp add: fp_root_square_iff)
  then have c: "on_curve (ge_pt (shallue_van_de_woestijne t))"
    using s unfolding X_def [symmetric] by (simp add: ge_pt_def fe_is_fev)
  then show "ge_is 1 (cp (ge_pt (shallue_van_de_woestijne t))) (shallue_van_de_woestijne t)"
    using s fe_is_8 [OF s(1)] by (intro ge_valid_is [of 1, simplified]) (simp add: ge_valid_def ge_ok_def fe_is_fev)
  show "cp (ge_pt (shallue_van_de_woestijne t)) \<noteq> 0"
    using cp_eq_0_iff [OF c] s(2) by (simp add: ge_pt_def)
qed

text \<open>For zero the three candidates coincide, and no point has that x.\<close>

lemma svdw_zero:
  assumes t: "fe_is 1 0 t"
  shows "\<not> on_curve (ge_pt (shallue_van_de_woestijne t))" and "fev (ge_x (shallue_van_de_woestijne t)) = 0"
proof -
  note s = svdw_choice [OF t]
  show x: "fev (ge_x (shallue_van_de_woestijne t)) = 0" using s(1) by (simp add: fe_is_fev)
  have "y ^ 2 \<noteq> (0 :: fp) ^ 3 + 7" for y
    using seven_not_square fp_is_squareI [of 7 y] by (auto simp: power2_eq_square)
  then show "\<not> on_curve (ge_pt (shallue_van_de_woestijne t))"
    using s(2) x by (simp add: ge_pt_def)
qed

section \<open>Generators\<close>

definition generator_of :: "cpoint \<Rightarrow> secp256k1_generator" where
  "generator_of P = secp256k1_generator_save (ge_of P)"

lemma generator_save_is:
  assumes a: "ge_is 1 P a" "P \<noteq> 0"
  shows "secp256k1_generator_save a = generator_of P"
    and "secp256k1_generator_load (secp256k1_generator_save a) =
      \<lparr>ge_x = secp256k1_fe_normalize (ge_x a), ge_y = secp256k1_fe_normalize (ge_y a), ge_infinity = False\<rparr>"
    and "ge_is 1 P (secp256k1_generator_load (secp256k1_generator_save a))"
proof -
  have save: "secp256k1_generator_save b =
      \<lparr>generator_data = secp256k1_fe_get_b32 (secp256k1_fe_normalize (ge_x b)) @ secp256k1_fe_get_b32 (secp256k1_fe_normalize (ge_y b))\<rparr>"
    if b: "ge_is 1 P b" for b
  proof -
    obtain X Y where "fe_is 8 X (ge_x b)" "fe_is 8 Y (ge_y b)" using ge_isE [OF b a(2)] by metis
    then have "fe_mag 32 (ge_x b)" "fe_mag 32 (ge_y b)" using fe_is_mono [of 8 _ _ 32] by (auto simp: fe_is_def)
    then show ?thesis by (simp add: secp256k1_generator_save_def Let_def fe_normalize_var_eq)
  qed
  obtain X Y where x: "fe_is 8 X (ge_x a)" "fe_is 8 Y (ge_y a)" and P: "pt P = Point X Y"
    using ge_isE [OF a] by (metis div_by_1 power_one)
  obtain X' Y' where y: "fe_is 8 X' (ge_x (ge_of P))" "fe_is 8 Y' (ge_y (ge_of P))" "pt P = Point X' Y'"
    using ge_isE [OF ge_of_is a(2)] by (metis div_by_1 power_one)
  have e: "X' = X" "Y' = Y" using P y(3) by simp_all
  show "secp256k1_generator_save a = generator_of P"
    unfolding generator_of_def save [OF a(1)] save [OF ge_of_is]
    using normalize_unique [OF x(1) y(1) [unfolded e]] normalize_unique [OF x(2) y(2) [unfolded e]] by simp
  have x32: "fe_is 32 X (ge_x a)" "fe_is 32 Y (ge_y a)" using fe_is_mono [OF x(1), of 32] fe_is_mono [OF x(2), of 32] by simp_all
  then have n: "fe_normalized (secp256k1_fe_normalize (ge_x a))" "fe_normalized (secp256k1_fe_normalize (ge_y a))"
    using fe_normalize_value(1) by (auto simp: fe_is_def)
  have nth: "secp256k1_fe_set_b32 (b @ c) = secp256k1_fe_set_b32 b" if "length b = 32" for b c
  proof -
    have "map ((!) (b @ c)) [0 ..< 32] = map ((!) b) [0 ..< 32]" using that by (simp add: nth_append)
    then show ?thesis using fe_set_b32_nth by metis
  qed
  show l: "secp256k1_generator_load (secp256k1_generator_save a) =
      \<lparr>ge_x = secp256k1_fe_normalize (ge_x a), ge_y = secp256k1_fe_normalize (ge_y a), ge_infinity = False\<rparr>"
    unfolding save [OF a(1)] by (simp add: secp256k1_generator_load_def nth fe_set_get_b32 n)
  show "ge_is 1 P (secp256k1_generator_load (secp256k1_generator_save a))"
    unfolding l using secp256k1_fe_normalize_is [OF x32(1)] secp256k1_fe_normalize_is [OF x32(2)] P
    by (intro ge_isI fe_is_8) simp_all
qed

lemma generator_of_is: "P \<noteq> 0 \<Longrightarrow> ge_is 1 P (secp256k1_generator_load (generator_of P))"
  using generator_save_is(3) [OF ge_of_is] by (simp add: generator_of_def)

lemma generator_of_inject: "P \<noteq> 0 \<Longrightarrow> Q \<noteq> 0 \<Longrightarrow> generator_of P = generator_of Q \<longleftrightarrow> P = Q"
  using generator_of_is ge_is_unique by metis

text \<open>Serializing and parsing: the tag is 10 when y is a square, 11 otherwise.\<close>

lemma generator_serialize_is:
  assumes P: "P \<noteq> 0" "pt P = Point X Y"
  shows "secp256k1_generator_serialize (generator_of P) =
    (11 XOR of_bool (fp_is_square Y)) # secp256k1_fe_get_b32 (secp256k1_fe_normalize (fe_of X))"
proof -
  let ?l = "secp256k1_generator_load (generator_of P)"
  obtain X' Y' where x: "fe_is 8 X' (ge_x ?l)" "fe_is 8 Y' (ge_y ?l)" "pt P = Point X' Y'"
    using ge_isE [OF generator_of_is [OF P(1)] P(1)] by (metis div_by_1 power_one)
  then have "fe_is 8 X (ge_x ?l)" and y: "fe_is 8 Y (ge_y ?l)" using P(2) by simp_all
  then have x: "fe_is 8 X (ge_x ?l)" "fe_is 32 X (ge_x ?l)" using fe_is_mono [of 8 X _ 32] by simp_all
  have "secp256k1_fe_normalize_var (ge_x ?l) = secp256k1_fe_normalize (fe_of X)"
    using fe_normalize_var_eq [of "ge_x ?l"] x(2) normalize_unique [OF x(1) fe_of_is] by (simp add: fe_is_def)
  then show ?thesis
    using secp256k1_fe_is_quad_var_is [OF y] by (simp add: secp256k1_generator_serialize_def Let_def)
qed

lemma xquad_of_point:
  assumes c: "on_curve (Point X Y)" and f: "fe_is 8 X x"
  shows "fst (secp256k1_ge_set_xquad x)"
    and "ge_is 1 (cp (Point X (if fp_is_square Y then Y else - Y))) (snd (secp256k1_ge_set_xquad x))"
proof -
  have "fp_is_square (X ^ 3 + 7)" using c by (auto simp: fp_is_square_def intro: exI [of _ Y])
  then show ok: "fst (secp256k1_ge_set_xquad x)" using ge_set_xquad_is(1) [OF f] by simp
  have "fp_root (X ^ 3 + 7) = (if fp_is_square Y then Y else - Y)"
    using fp_root_unique [OF c] fp_square_cases(1) [OF c] by simp
  then show "ge_is 1 (cp (Point X (if fp_is_square Y then Y else - Y))) (snd (secp256k1_ge_set_xquad x))"
    using ge_set_xquad_point(2) [OF f ok] by simp
qed

lemma generator_tag: "((11 XOR of_bool b :: u8) AND 0xFE = 10)" "((11 XOR of_bool b :: u8) AND 1 \<noteq> 0) \<longleftrightarrow> \<not> b"
  by (cases b; simp)+

lemma generator_parse_serialize:
  assumes P: "P \<noteq> 0"
  shows "secp256k1_generator_parse (secp256k1_generator_serialize (generator_of P)) = Some (generator_of P)"
proof -
  obtain X Y where p: "pt P = Point X Y" using P pt_eq_Infinity_iff by (cases "pt P") auto
  have c: "on_curve (Point X Y)" using on_curve_pt [of P] p by simp
  define f where "f = secp256k1_fe_normalize (fe_of X)"
  have m: "fe_is 32 X (fe_of X)" by (rule fe_is_mono [OF fe_of_is]) simp
  then have f: "fe_normalized f" "fe_is 1 X f"
    unfolding f_def using fe_normalize_value(1) secp256k1_fe_normalize_is by (auto simp: fe_is_def)
  note q = xquad_of_point [OF c fe_is_8 [OF f(2)]]
  let ?g = "snd (secp256k1_ge_set_xquad f)"
  have "ge_is 1 P (if \<not> fp_is_square Y then secp256k1_ge_neg ?g else ?g)"
  proof (cases "fp_is_square Y")
    case True
    then show ?thesis using q(2) p by (metis pt_inverse)
  next
    case False
    have "cp (Point X (- Y)) = - P" using p by (metis point_neg.simps(2) pt_inverse pt_neg)
    then show ?thesis using ge_neg_is [of 1 "- P" ?g] q(2) False by simp
  qed
  from generator_save_is(1) [OF this P]
  show ?thesis
    using q(1) by (simp add: generator_serialize_is [OF P p] secp256k1_generator_parse_def f_def [symmetric]
        fe_set_get_b32 [OF f(1)] generator_tag split_def)
qed

text \<open>What parsing accepts it returns as a canonical generator of the curve.\<close>

lemma generator_parse_sound:
  assumes "length input = 33" and s: "secp256k1_generator_parse input = Some gen"
  shows "\<exists>P. P \<noteq> 0 \<and> gen = generator_of P"
proof -
  obtain ok x where x: "secp256k1_fe_set_b32 (drop 1 input) = (ok, x)" by fastforce
  obtain ok' ge where g: "secp256k1_ge_set_xquad x = (ok', ge)" by fastforce
  have ok: "ok" "ok'" and gen: "gen = secp256k1_generator_save (if input ! 0 AND 1 \<noteq> 0 then secp256k1_ge_neg ge else ge)"
    using s x g by (auto simp: secp256k1_generator_parse_def split: if_splits)
  have "length (drop 1 input) = 32" using assms(1) by simp
  then have v: "fe_val x = be_nat (drop 1 input)" "fe_val x < field_p"
    using fe_set_b32_limbs(3) [of "drop 1 input"] fe_set_b32_flag [of "drop 1 input"] x ok by simp_all
  then have "fe_is 8 (of_nat (fe_val x)) x"
    using fe_set_b32_success(3) [of "drop 1 input"] x \<open>length (drop 1 input) = 32\<close> by (metis fe_is_8 snd_conv)
  from ge_set_xquad_point(2,3) [OF this] g ok obtain Q where Q: "ge_is 1 Q ge" "Q \<noteq> 0" by auto
  then show ?thesis
    using gen generator_save_is(1) [OF Q] generator_save_is(1) [OF ge_neg_is [OF Q(1)]]
    by (cases "input ! 0 AND 1 = 0") (auto intro: exI [of _ Q] exI [of _ "- Q"])
qed

section \<open>Generation\<close>

text \<open>The point a key hashes to: two images of the map, for the two prefixes.\<close>

definition generation_t :: "u8 list \<Rightarrow> u8 list \<Rightarrow> secp256k1_fe" where
  "generation_t prefix key32 = snd (secp256k1_fe_set_b32 (sha256_parts [prefix, take 32 key32]))"

definition key_ok :: "u8 list \<Rightarrow> u8 list \<Rightarrow> bool" where
  "key_ok prefix key32 \<longleftrightarrow> fst (secp256k1_fe_set_b32 (sha256_parts [prefix, take 32 key32]))"

definition key_point :: "u8 list \<Rightarrow> cpoint" where
  "key_point key32 = cp (ge_pt (shallue_van_de_woestijne (generation_t generation_prefix1 key32))) +
     cp (ge_pt (shallue_van_de_woestijne (generation_t generation_prefix2 key32)))"

lemma set_b32_mag: "fe_mag 1 (snd (secp256k1_fe_set_b32 b))"
  using fe_set_b32_limbs(1,2) [of b] by (auto simp: fe_tight_def fe_mag_def)

lemma generation_t_is: "fe_is 1 (fev (generation_t prefix key32)) (generation_t prefix key32)"
  unfolding fe_is_fev generation_t_def by (intro conjI set_b32_mag refl)

text \<open>
  The outcome of a generation, with \<open>B\<close> the blinding point (zero without blinding): an abort, or a
  generator. It is the saved form of the sum when the hashes are not zero and the sum is finite.
\<close>

definition generation_ok :: "u8 list \<Rightarrow> bool" where
  "generation_ok key32 \<longleftrightarrow> fev (generation_t generation_prefix1 key32) \<noteq> 0 \<and> fev (generation_t generation_prefix2 key32) \<noteq> 0"

lemma generate_internal_is:
  assumes t: "generation_ok key32" and ok: "key_ok generation_prefix1 key32" "key_ok generation_prefix2 key32"
    and blind: "case blind32 of None \<Rightarrow> B = 0
      | Some b \<Rightarrow> (\<exists>x s r. secp256k1_scalar_set_b32 b = (s, False) \<and> secp256k1_ecmult_gen ctx s = Some r \<and> gej_is 1 B r)"
    and fin: "B + key_point key32 \<noteq> 0"
  shows "secp256k1_generator_generate_internal ctx key32 blind32 = Some (True, generator_of (B + key_point key32))"
proof -
  define t1 t2 where "t1 = generation_t generation_prefix1 key32" and "t2 = generation_t generation_prefix2 key32"
  define g1 g2 where "g1 = shallue_van_de_woestijne t1" and "g2 = shallue_van_de_woestijne t2"
  have b1: "secp256k1_fe_set_b32 (sha256_parts [generation_prefix1, take 32 key32]) = (True, t1)"
    and b2: "secp256k1_fe_set_b32 (sha256_parts [generation_prefix2, take 32 key32]) = (True, t2)"
    using ok by (simp_all add: key_ok_def t1_def t2_def generation_t_def prod_eq_iff)
  define P1 P2 where "P1 = cp (ge_pt g1)" and "P2 = cp (ge_pt g2)"
  have g: "ge_is 1 P1 g1" "P1 \<noteq> 0" "ge_is 1 P2 g2" "P2 \<noteq> 0"
    using svdw_is [OF generation_t_is] t unfolding generation_ok_def g1_def g2_def t1_def t2_def P1_def P2_def by blast+
  have key: "key_point key32 = P1 + P2" by (simp add: key_point_def P1_def P2_def g1_def g2_def t1_def t2_def)
  define a1 where "a1 = (case blind32 of Some b \<Rightarrow>
      secp256k1_gej_add_ge (the (secp256k1_ecmult_gen ctx (fst (secp256k1_scalar_set_b32 b)))) g1 | None \<Rightarrow> secp256k1_gej_set_ge g1)"
  have a1: "gej_is 1 (B + P1) a1"
  proof (cases blind32)
    case None
    then show ?thesis using blind gej_set_ge_refines [OF g(1)] by (simp add: a1_def)
  next
    case (Some b)
    then obtain s r where "secp256k1_scalar_set_b32 b = (s, False)" "secp256k1_ecmult_gen ctx s = Some r" "gej_is 1 B r"
      using blind by auto
    then show ?thesis using gej_add_ge_refines [OF _ g(1,2), of B r] Some by (simp add: a1_def)
  qed
  have "gej_is 1 (B + P1 + P2) (secp256k1_gej_add_ge a1 g2)"
    by (rule gej_add_ge_refines [OF a1 g(3,4)]) simp
  then have "ge_is 1 (B + key_point key32) (fst (secp256k1_ge_set_gej (secp256k1_gej_add_ge a1 g2)))"
    unfolding key by (simp add: ge_set_gej_is(1) add.assoc)
  from generator_save_is(1) [OF this fin]
  have save: "secp256k1_generator_save (fst (secp256k1_ge_set_gej (secp256k1_gej_add_ge a1 g2))) = generator_of (B + key_point key32)" .
  show ?thesis
  proof (cases blind32)
    case None
    then show ?thesis using save
      by (simp add: secp256k1_generator_generate_internal_def b1 b2 a1_def g1_def [symmetric] g2_def [symmetric])
  next
    case (Some b)
    then obtain s r where "secp256k1_scalar_set_b32 b = (s, False)" "secp256k1_ecmult_gen ctx s = Some r" "gej_is 1 B r"
      using blind by auto
    then show ?thesis using save Some
      by (simp add: secp256k1_generator_generate_internal_def b1 b2 a1_def g1_def [symmetric] g2_def [symmetric])
  qed
qed

text \<open>A generation that returns reports success: the loops around it run once.\<close>

lemma generate_internal_ret: "secp256k1_generator_generate_internal ctx key32 blind32 = Some (ret, gen) \<Longrightarrow> ret"
  by (auto simp: secp256k1_generator_generate_internal_def Let_def split_def split: option.splits if_splits)

lemma ring_next_generator_once:
  "ring_next_generator (Suc fuel) ctx buf = (let buf' = sha256_parts [buf]
     in map_option (\<lambda>r. (snd r, buf')) (secp256k1_generator_generate ctx buf'))"
proof (cases "secp256k1_generator_generate ctx (sha256_parts [buf])")
  case (Some r)
  then have "fst r" using generate_internal_ret [of ctx _ None "fst r" "snd r"] by (simp add: secp256k1_generator_generate_def)
  then show ?thesis using Some by (simp add: Let_def split_def)
qed (simp add: Let_def)

end
