(* ===== verification/Group_Spec.thy ===== *)
theory Group_Spec
  imports Ecmult_Mul
begin

text \<open>
  What the group component promises, stated on the points the records stand for: the additions
  compute the chord-and-tangent law on every branch and keep the records valid, the two mixed
  additions agree, the validity tests decide the curve equation, lifting an x coordinate finds
  the point with the requested parity exactly when there is one, and storage is lossless.
\<close>

section \<open>Shared facts\<close>

lemma gej_valid_gej_is: "gej_valid a \<Longrightarrow> gej_is 1 (cp (gej_pt a)) a"
  using gej_valid_is [of 1 a] by simp

lemma ge_valid_ge_is: "ge_valid a \<Longrightarrow> ge_is 1 (cp (ge_pt a)) a"
  using ge_valid_is [of 1 a] by simp

lemma pt_cp_gej: "gej_valid a \<Longrightarrow> pt (cp (gej_pt a)) = gej_pt a"
  by (rule pt_cp) (simp add: gej_valid_def)

lemma pt_cp_ge: "ge_valid a \<Longrightarrow> pt (cp (ge_pt a)) = ge_pt a"
  by (rule pt_cp) (simp add: ge_valid_def)

lemma gej_is_pt: "gej_is 1 P a \<Longrightarrow> gej_valid a \<and> gej_pt a = pt P"
  using gej_is_valid [of 1 P a] by (simp add: gej_is_def)

lemma ge_is_pt: "ge_is 1 P a \<Longrightarrow> ge_valid a \<and> ge_pt a = pt P"
  using ge_is_valid [of 1 P a] by (simp add: ge_is_def)

lemma cp_pt_0: "ge_valid b \<Longrightarrow> cp (ge_pt b) = 0 \<longleftrightarrow> ge_infinity b"
  using ge_is_infinity [OF ge_valid_ge_is] by blast

text \<open>The generator, affine and jacobian, as an example.\<close>

lemma ge_const_g_valid: "ge_valid secp256k1_ge_const_g" "\<not> ge_infinity secp256k1_ge_const_g"
  using ge_is_pt [OF ge_const_g_is] by (simp_all add: secp256k1_ge_const_g_def)

lemma gej_const_g_valid: "gej_valid (secp256k1_gej_set_ge secp256k1_ge_const_g)"
  using gej_is_pt [OF gej_set_ge_refines [OF ge_const_g_is]] by blast

lemmas const_g_valid = ge_const_g_valid gej_const_g_valid

lemma fp_nat_minus_odd:
  assumes "Y \<noteq> 0"
  shows "odd (fp_nat (- Y)) \<longleftrightarrow> \<not> odd (fp_nat Y)"
proof -
  have "(of_nat (field_p - fp_nat Y) :: fp) = of_nat field_p - of_nat (fp_nat Y)"
    using fp_nat_lt [of Y] by (intro of_nat_diff) simp
  also have "\<dots> = - Y" using of_nat_fp_eq_iff [of field_p 0] by simp
  finally have "fp_nat (- Y) = (field_p - fp_nat Y) mod field_p"
    using fp_nat_of_nat [of "field_p - fp_nat Y"] by simp
  moreover have "0 < fp_nat Y" using assms fp_nat_inject [of Y 0] by simp
  ultimately have "fp_nat (- Y) = field_p - fp_nat Y" using fp_nat_lt [of Y] by simp
  then show ?thesis using fp_nat_lt [of Y] by (simp add: even_diff_nat field_p_def)
qed

lemma gej_eq_x_var_iff:
  assumes x: "fe_mag 8 x" and b: "gej_ok b" "\<not> gej_infinity b"
  shows "secp256k1_gej_eq_x_var x b \<longleftrightarrow> (\<exists>y. gej_pt b = Point (fev x) y)"
proof -
  obtain X Y Z where f: "fe_is 8 X (gej_x b)" "fe_is 8 Z (gej_z b)" "Z \<noteq> 0" and P: "gej_pt b = Point (X / Z ^ 2) (Y / Z ^ 3)"
    using gej_finite [OF b, of 1] unfolding gej_at_1 mult_1_right by metis
  have "fe_is 8 (fev x) x" using x by (simp add: fe_is_fev)
  then have r: "fe_is 1 (Z * Z * fev x) (secp256k1_fe_mul (secp256k1_fe_sqr (gej_z b)) x)"
    using fe_exec_mul [OF fe_exec_sqr [OF f(2)]] by simp
  have "fe_is 1 X (secp256k1_fe_normalize_weak (gej_x b))" by (rule fe_exec f | simp)+
  then have "fe_is 30 X (secp256k1_fe_normalize_weak (gej_x b))" by (rule fe_is_mono) simp
  then have "secp256k1_gej_eq_x_var x b \<longleftrightarrow> Z * Z * fev x = X"
    using secp256k1_fe_equal_is(2) [OF r] by (simp add: secp256k1_gej_eq_x_var_def Let_def)
  also have "\<dots> \<longleftrightarrow> fev x = X / Z ^ 2" using f(3) eq_divide_eq [of "fev x" X "Z ^ 2"]
    by (simp add: power2_eq_square mult.commute mult.left_commute)
  finally show ?thesis using P by auto
qed

lemma ge_set_xo_var_is:
  assumes x: "fe_mag 8 x"
  shows "(fst (secp256k1_ge_set_xo_var x odd_y) \<longleftrightarrow> (\<exists>y. on_curve (Point (fev x) y))) \<and>
    (case secp256k1_ge_set_xo_var x odd_y of
       (False, r) \<Rightarrow> True
     | (True, r) \<Rightarrow> ge_valid r \<and> (\<exists>y. ge_pt r = Point (fev x) y \<and> odd (fp_nat y) = odd_y))"
proof -
  have X: "fe_is 8 (fev x) x" using x by (simp add: fe_is_fev)
  obtain ok r where q: "secp256k1_ge_set_xquad x = (ok, r)" by fastforce
  note s = ge_set_xquad_is [OF X, unfolded q fst_conv snd_conv]
  have ok: "ok \<longleftrightarrow> (\<exists>y. on_curve (Point (fev x) y))"
    using s(1) by (auto simp: fp_is_square_def eq_commute)
  show ?thesis
  proof (cases ok)
    case False
    then show ?thesis using ok by (simp add: secp256k1_ge_set_xo_var_def q)
  next
    case True
    define Y where "Y = fp_root (fev x ^ 3 + 7)"
    let ?y = "secp256k1_fe_normalize_var (ge_y r)"
    have c: "on_curve (Point (fev x) Y)"
      using ge_set_xquad_point(1) [OF X] True q by (simp add: Y_def)
    have Y: "fe_is 32 Y (ge_y r)" using s(3) unfolding Y_def by (rule fe_is_mono) simp
    then have y: "fe_is 1 Y ?y" and n: "fe_val ?y = fp_nat Y"
      using fe_normalize_var_eq [of "ge_y r"] secp256k1_fe_normalize_is [OF Y] fe_normalize_fp_nat [OF Y]
      by (simp_all add: fe_is_def)
    have m: "fe_is 2 (- Y) (secp256k1_fe_negate ?y 1)" by (rule fe_exec_negate_1 [OF y]) simp
    have flip: "odd (fp_nat (- Y)) \<longleftrightarrow> \<not> odd (fp_nat Y)" "on_curve (Point (fev x) (- Y))"
      using fp_nat_minus_odd [OF on_curve_y_neq_0 [OF c]] c by simp_all
    have res: "secp256k1_ge_set_xo_var x odd_y = (True, r\<lparr>ge_y :=
        (if odd (fp_nat Y) \<noteq> odd_y then secp256k1_fe_negate ?y 1 else ?y)\<rparr>)"
      using True by (simp add: secp256k1_ge_set_xo_var_def q secp256k1_fe_is_odd_iff n Let_def)
    have "fe_is 8 (if odd (fp_nat Y) \<noteq> odd_y then - Y else Y)
        (if odd (fp_nat Y) \<noteq> odd_y then secp256k1_fe_negate ?y 1 else ?y)"
      using fe_is_mono [OF y, of 8] fe_is_mono [OF m, of 8] by simp
    then show ?thesis
      using True ok s(4,5) c flip x unfolding res
      by (auto simp: ge_valid_def ge_ok_def ge_pt_def fe_is_fev)
  qed
qed

section \<open>Properties\<close>

text \<open>C12: the variable-time additions and the doubling compute the group law of the curve on
  every branch: infinite operands, equal points (where the addition falls back to doubling),
  opposite points (where it returns infinity), and the generic formula. The ratio written to
  \<^verbatim>\<open>rzr\<close> by the doubling is the quotient of the z coordinates.\<close>

theorem gej_add_correct:
  assumes a: "gej_valid a" and b: "gej_valid b" and c: "ge_valid c"
  shows "gej_pt (fst (secp256k1_gej_add_var r a b)) = point_add (gej_pt a) (gej_pt b) \<and>
    gej_pt (fst (secp256k1_gej_add_ge_var r a c)) = point_add (gej_pt a) (ge_pt c) \<and>
    gej_pt (fst (secp256k1_gej_double_var r a)) = point_add (gej_pt a) (gej_pt a) \<and>
    (gej_infinity a \<or> fev (gej_z (fst (secp256k1_gej_double_var r a))) = fev (gej_z a) * fev (snd (secp256k1_gej_double_var r a)))"
proof -
  note A = gej_valid_gej_is [OF a] and B = gej_valid_gej_is [OF b] and C = ge_valid_ge_is [OF c]
  have "gej_infinity a \<or> fev (gej_z (fst (secp256k1_gej_double_var r a))) = fev (gej_z a) * fev (snd (secp256k1_gej_double_var r a))"
    using gej_double_full(3) [OF A, of r] gej_is_infinity [OF A] by auto
  then show ?thesis
    using gej_is_pt [OF gej_add_is [OF A B, of r]] gej_is_pt [OF gej_add_ge_var_refines [OF A C, of r]]
      gej_is_pt [OF gej_double_is [OF A, of r]]
    by (simp add: pt_add pt_cp_gej [OF a] pt_cp_gej [OF b] pt_cp_ge [OF c])
qed

theorem gej_add_correct_witness:
  "gej_pt (fst (secp256k1_gej_add_var secp256k1_gej_clear (secp256k1_gej_set_ge secp256k1_ge_const_g)
     (secp256k1_gej_set_ge secp256k1_ge_const_g))) = point_add (pt curve_G) (pt curve_G)"
  using gej_add_correct [OF const_g_valid(3,3,1), of secp256k1_gej_clear]
    gej_is_pt [OF gej_set_ge_refines [OF ge_const_g_is]] by simp

text \<open>C6: the constant-time addition, which selects between its formulas with conditional moves,
  computes the same point as the branching additions and as
  the group law, for every valid first operand, infinity included, and every finite second one.\<close>

theorem gej_add_ge_agrees:
  assumes a: "gej_valid a" and b: "ge_valid b" "\<not> ge_infinity b"
  shows "gej_pt (secp256k1_gej_add_ge a b) = gej_pt (fst (secp256k1_gej_add_ge_var r a b)) \<and>
    gej_pt (secp256k1_gej_add_ge a b) = gej_pt (fst (secp256k1_gej_add_var r a (secp256k1_gej_set_ge b))) \<and>
    gej_pt (secp256k1_gej_add_ge a b) = point_add (gej_pt a) (ge_pt b)"
proof -
  note A = gej_valid_gej_is [OF a] and B = ge_valid_ge_is [OF b(1)]
  have "cp (ge_pt b) \<noteq> 0" using b cp_pt_0 by blast
  from gej_is_pt [OF gej_add_ge_refines [OF A B this]] gej_is_pt [OF gej_add_ge_var_refines [OF A B, of r]]
    gej_is_pt [OF gej_add_is [OF A gej_set_ge_refines [OF B], of r]]
  show ?thesis by (simp add: pt_add pt_cp_gej [OF a] pt_cp_ge [OF b(1)])
qed

theorem gej_add_ge_agrees_witness:
  "gej_pt (secp256k1_gej_add_ge secp256k1_gej_set_infinity secp256k1_ge_const_g) =
     point_add Infinity (ge_pt secp256k1_ge_const_g)"
proof -
  have "gej_infinity secp256k1_gej_set_infinity" by (simp add: secp256k1_gej_set_infinity_def)
  then have "gej_valid secp256k1_gej_set_infinity" "gej_pt secp256k1_gej_set_infinity = Infinity"
    by (simp_all add: gej_valid_def gej_ok_def gej_pt_def)
  then show ?thesis using gej_add_ge_agrees [OF _ const_g_valid(1,2)] by simp
qed

text \<open>C38: validity (coordinates of magnitude at most 8, a nonzero z, a point on the curve) is kept
  by every operation that returns a point: doubling, the three additions, negation, conversion in
  both directions, with the rescaled input the conversion leaves behind, and rescaling by a
  nonzero factor.\<close>

theorem gej_operations_keep_valid:
  assumes a: "gej_valid a" and b: "gej_valid b" and c: "ge_valid c" "\<not> ge_infinity c"
    and s: "fe_mag 8 s" "fe_val s mod field_p \<noteq> 0"
  shows "list_all gej_valid [fst (secp256k1_gej_double_var r a), fst (secp256k1_gej_add_var r a b),
      fst (secp256k1_gej_add_ge_var r a c), secp256k1_gej_add_ge a c, secp256k1_gej_neg a,
      secp256k1_gej_set_ge c, snd (secp256k1_ge_set_gej a), secp256k1_gej_rescale a s] \<and>
    list_all ge_valid [secp256k1_ge_neg c, fst (secp256k1_ge_set_gej a), fst (secp256k1_ge_set_gej_var c a)]"
proof -
  note A = gej_valid_gej_is [OF a] and B = gej_valid_gej_is [OF b] and C = ge_valid_ge_is [OF c(1)]
  have C0: "cp (ge_pt c) \<noteq> 0" using c cp_pt_0 by blast
  have S: "fe_is 8 (fev s) s" "fev s \<noteq> 0"
    using s of_nat_fp_eq_iff [of "fe_val s" 0] by (simp_all add: fe_is_def fev_def)
  have v: "(1 :: fp) \<noteq> 0" by simp
  note R = gej_double_is [OF A v, of r] gej_add_is [OF A B v, of r] gej_add_ge_var_refines [OF A C v, of r]
    gej_add_ge_refines [OF A C C0 v] gej_neg_is [OF A] gej_set_ge_refines [OF C] ge_set_gej_is(2) [OF A v] gej_rescale_is [OF A S]
  note G = ge_neg_is [OF C] ge_set_gej_is(1) [OF A v] ge_set_gej_is(4) [OF A v, of c]
  show ?thesis using R [THEN gej_is_pt] G [THEN ge_is_pt] by simp
qed

theorem gej_operations_keep_valid_witness:
  "gej_valid (secp256k1_gej_rescale (secp256k1_gej_set_ge secp256k1_ge_const_g) (secp256k1_fe_set_int 2))"
proof -
  have "fe_mag 8 (secp256k1_fe_set_int 2)" "fe_val (secp256k1_fe_set_int 2) mod field_p \<noteq> 0"
    by (simp_all add: secp256k1_fe_set_int_def fe_mag_def fe_val_def field_p_def)
  then show ?thesis using gej_operations_keep_valid [OF const_g_valid(3,3,1,2)] by simp
qed

text \<open>Lifting an x coordinate succeeds exactly when some point of the curve has it, and then
  returns the finite point with that x whose y has the requested parity; it cannot return the
  other root.\<close>

theorem ge_set_xo_var_correct:
  assumes x: "fe_mag 8 x"
  shows "(fst (secp256k1_ge_set_xo_var x odd_y) \<longleftrightarrow> (\<exists>y. on_curve (Point (fev x) y))) \<and>
    (case secp256k1_ge_set_xo_var x odd_y of
       (False, r) \<Rightarrow> True
     | (True, r) \<Rightarrow> ge_valid r \<and> (\<exists>y. ge_pt r = Point (fev x) y \<and> odd (fp_nat y) = odd_y))"
  by (rule ge_set_xo_var_is [OF x])

theorem ge_set_xo_var_correct_witness:
  "fst (secp256k1_ge_set_xo_var (ge_x secp256k1_ge_const_g) True) \<longleftrightarrow>
     (\<exists>y. on_curve (Point (fev (ge_x secp256k1_ge_const_g)) y))"
  using ge_set_xo_var_correct [of "ge_x secp256k1_ge_const_g" True] const_g_valid(1,2) by (simp add: ge_valid_def ge_ok_def)

text \<open>The tests on points decide what they are named after: the validity tests decide the curve
  equation of a finite record (in jacobian form scaled by the sixth power of z) and reject infinity,
  the comparison of an x coordinate needs no division, and the quadratic test decides whether the
  affine y is a square, although it only looks at the product of the jacobian y and z.\<close>

theorem gej_tests_decide:
  assumes a: "gej_ok a" and c: "ge_ok 8 c" and x: "fe_mag 8 x" and b: "gej_valid b" "\<not> gej_infinity b"
  shows "(secp256k1_gej_is_valid_var a \<longleftrightarrow> \<not> gej_infinity a \<and> on_curve (gej_pt a)) \<and>
    (secp256k1_ge_is_valid_var c \<longleftrightarrow> \<not> ge_infinity c \<and> on_curve (ge_pt c)) \<and>
    (secp256k1_gej_eq_x_var x b \<longleftrightarrow> (\<exists>y. gej_pt b = Point (fev x) y)) \<and>
    (secp256k1_gej_has_quad_y_var b \<longleftrightarrow> (\<exists>x y. gej_pt b = Point x y \<and> fp_is_square y))"
proof (intro conjI)
  show "secp256k1_gej_is_valid_var a \<longleftrightarrow> \<not> gej_infinity a \<and> on_curve (gej_pt a)"
    by (rule gej_is_valid_var_iff [OF a])
  show "secp256k1_ge_is_valid_var c \<longleftrightarrow> \<not> ge_infinity c \<and> on_curve (ge_pt c)"
    by (rule ge_is_valid_var_iff [OF c])
  show "secp256k1_gej_has_quad_y_var b \<longleftrightarrow> (\<exists>x y. gej_pt b = Point x y \<and> fp_is_square y)"
    using gej_has_quad_y_var_iff [OF gej_valid_gej_is [OF b(1)]] pt_cp_gej [OF b(1)] by simp
  show "secp256k1_gej_eq_x_var x b \<longleftrightarrow> (\<exists>y. gej_pt b = Point (fev x) y)"
    using b by (intro gej_eq_x_var_iff x) (simp_all add: gej_valid_def)
qed

theorem gej_tests_decide_witness:
  "secp256k1_gej_eq_x_var (ge_x secp256k1_ge_const_g) (secp256k1_gej_set_ge secp256k1_ge_const_g) \<and>
   secp256k1_ge_is_valid_var secp256k1_ge_const_g"
proof -
  let ?j = "secp256k1_gej_set_ge secp256k1_ge_const_g"
  have "gej_ok ?j" "ge_ok 8 secp256k1_ge_const_g" "fe_mag 8 (ge_x secp256k1_ge_const_g)" "\<not> gej_infinity ?j"
    "on_curve (ge_pt secp256k1_ge_const_g)" "gej_pt ?j = ge_pt secp256k1_ge_const_g"
    using const_g_valid ge_is_pt [OF ge_const_g_is] gej_is_pt [OF gej_set_ge_refines [OF ge_const_g_is]]
    by (simp_all add: gej_valid_def ge_valid_def ge_ok_def secp256k1_gej_set_ge_def)
  then show ?thesis
    using gej_tests_decide [of ?j secp256k1_ge_const_g "ge_x secp256k1_ge_const_g" ?j] const_g_valid
    by (simp add: ge_pt_def)
qed

text \<open>The storage form of a finite point is lossless: reading back gives a valid record of the
  same point, with coordinates of magnitude 1.\<close>

theorem ge_storage_roundtrip:
  assumes a: "ge_valid a" "\<not> ge_infinity a"
  shows "ge_valid (secp256k1_ge_from_storage (secp256k1_ge_to_storage a)) \<and>
    ge_pt (secp256k1_ge_from_storage (secp256k1_ge_to_storage a)) = ge_pt a \<and>
    fe_mag 1 (ge_x (secp256k1_ge_from_storage (secp256k1_ge_to_storage a))) \<and>
    fe_mag 1 (ge_y (secp256k1_ge_from_storage (secp256k1_ge_to_storage a)))"
proof -
  have "cp (ge_pt a) \<noteq> 0" using a cp_pt_0 by blast
  note s = ge_from_to_storage_is [OF ge_valid_ge_is [OF a(1)] this]
  show ?thesis using ge_is_pt [OF s(1)] s(2) pt_cp_ge [OF a(1)] by (simp add: ge_tidy_def)
qed

theorem ge_storage_roundtrip_witness:
  "ge_pt (secp256k1_ge_from_storage (secp256k1_ge_to_storage secp256k1_ge_const_g)) = ge_pt secp256k1_ge_const_g"
  using ge_storage_roundtrip [OF const_g_valid(1,2)] by blast

end
