(* ===== verification/Hash_Law.thy ===== *)
theory Hash_Law
  imports Hash
begin

text \<open>
  The hash functions against their standards: the 64 unrolled rounds are the message schedule and
  the compression loop of FIPS 180-4, the buffered writes process the concatenated message block by
  block, and finalizing appends the padding of the standard.
\<close>

section \<open>The round constants\<close>

text \<open>
  FIPS 180-4 defines them as the first 32 bits of the fractional parts of the cube roots of the first
  64 primes: the cube root of \<open>p * 2^96\<close>, cut to 32 bits. The root is found bit by bit.
\<close>

definition icbrt :: "nat \<Rightarrow> nat \<Rightarrow> nat" where
  "icbrt b n = fold (\<lambda>i r. if (r + 2 ^ i) ^ 3 \<le> n then r + 2 ^ i else r) (rev [0 ..< b]) 0"

definition sha_primes :: "nat list" where
  "sha_primes = [
    2, 3, 5, 7, 11, 13, 17, 19, 23, 29, 31, 37, 41, 43, 47, 53,
    59, 61, 67, 71, 73, 79, 83, 89, 97, 101, 103, 107, 109, 113, 127, 131,
    137, 139, 149, 151, 157, 163, 167, 173, 179, 181, 191, 193, 197, 199, 211, 223,
    227, 229, 233, 239, 241, 251, 257, 263, 269, 271, 277, 281, 283, 293, 307, 311]"

definition sha_K :: "nat \<Rightarrow> u32" where
  "sha_K t = of_nat (icbrt 36 (sha_primes ! t * 2 ^ 96))"

lemma icbrt_bounds:
  assumes "n < (2 ^ b) ^ 3"
  shows "icbrt b n ^ 3 \<le> n \<and> n < (icbrt b n + 1) ^ 3"
proof -
  have "r ^ 3 \<le> n \<Longrightarrow> n < (r + 2 ^ b) ^ 3 \<Longrightarrow>
    (let q = fold (\<lambda>i r. if (r + 2 ^ i) ^ 3 \<le> n then r + 2 ^ i else r) (rev [0 ..< b]) r in q ^ 3 \<le> n \<and> n < (q + 1) ^ 3)" for r
  proof (induction b arbitrary: r)
    case (Suc b)
    then show ?case using Suc.IH [of r] Suc.IH [of "r + 2 ^ b"] by (auto simp: mult_2 add.assoc)
  qed simp
  from this [of 0] assms show ?thesis by (simp add: icbrt_def Let_def)
qed

lemma icbrt_eq:
  assumes "k ^ 3 \<le> n" "n < (k + 1) ^ 3" "n < (2 ^ b) ^ 3"
  shows "icbrt b n = k"
proof -
  have le: "i \<le> j" if "i ^ 3 < (j + 1) ^ 3" for i j :: nat using power_less_imp_less_base [OF that] by simp
  have "icbrt b n \<le> k" using icbrt_bounds [OF assms(3)] assms(2) by (intro le) (rule le_less_trans, auto)
  moreover have "k \<le> icbrt b n" using icbrt_bounds [OF assms(3)] assms(1) by (intro le) (rule le_less_trans, auto)
  ultimately show ?thesis by simp
qed

lemma sha_K_at:
  assumes "sha_primes ! t = p" "k ^ 3 \<le> p * 2 ^ 96" "p * 2 ^ 96 < (k + 1) ^ 3" "p < 4096"
  shows "sha_K t = of_nat k"
proof -
  have "p * 2 ^ 96 < (2 ^ 36) ^ 3" using assms(4) by simp
  from icbrt_eq [OF assms(2,3) this] assms(1) show ?thesis by (simp add: sha_K_def)
qed

text \<open>The 64 values the code has as literals.\<close>

lemma sha_K_values_0:
  "sha_K 0 = 0x428a2f98"
  "sha_K 1 = 0x71374491"
  "sha_K 2 = 0xb5c0fbcf"
  "sha_K 3 = 0xe9b5dba5"
  "sha_K 4 = 0x3956c25b"
  "sha_K 5 = 0x59f111f1"
  "sha_K 6 = 0x923f82a4"
  "sha_K 7 = 0xab1c5ed5"
  using sha_K_at [of 0 2 5411319704]
    sha_K_at [of 1 3 6194414737]
    sha_K_at [of 2 5 7344290767]
    sha_K_at [of 3 7 8215976869]
    sha_K_at [of 4 11 9551921755]
    sha_K_at [of 5 13 10098905585]
    sha_K_at [of 6 17 11043570340]
    sha_K_at [of 7 19 11460697813]
  by (simp_all add: sha_primes_def)

lemma sha_K_values_1:
  "sha_K 8 = 0xd807aa98"
  "sha_K 9 = 0x12835b01"
  "sha_K 10 = 0x243185be"
  "sha_K 11 = 0x550c7dc3"
  "sha_K 12 = 0x72be5d74"
  "sha_K 13 = 0x80deb1fe"
  "sha_K 14 = 0x9bdc06a7"
  "sha_K 15 = 0xc19bf174"
  using sha_K_at [of 8 23 12214315672]
    sha_K_at [of 9 29 13195500289]
    sha_K_at [of 10 31 13492127166]
    sha_K_at [of 11 37 14311783875]
    sha_K_at [of 12 41 14809980276]
    sha_K_at [of 13 43 15046980094]
    sha_K_at [of 14 47 15499789991]
    sha_K_at [of 15 53 16133124468]
  by (simp_all add: sha_primes_def)

lemma sha_K_values_2:
  "sha_K 16 = 0xe49b69c1"
  "sha_K 17 = 0xefbe4786"
  "sha_K 18 = 0x0fc19dc6"
  "sha_K 19 = 0x240ca1cc"
  "sha_K 20 = 0x2de92c6f"
  "sha_K 21 = 0x4a7484aa"
  "sha_K 22 = 0x5cb0a9dc"
  "sha_K 23 = 0x76f988da"
  using sha_K_at [of 16 59 16720292289]
    sha_K_at [of 17 61 16907126662]
    sha_K_at [of 18 67 17444216262]
    sha_K_at [of 19 71 17784676812]
    sha_K_at [of 20 73 17950125167]
    sha_K_at [of 21 79 18429019306]
    sha_K_at [of 22 83 18734950876]
    sha_K_at [of 23 89 19175934170]
  by (simp_all add: sha_primes_def)

lemma sha_K_values_3:
  "sha_K 24 = 0x983e5152"
  "sha_K 25 = 0xa831c66d"
  "sha_K 26 = 0xb00327c8"
  "sha_K 27 = 0xbf597fc7"
  "sha_K 28 = 0xc6e00bf3"
  "sha_K 29 = 0xd5a79147"
  "sha_K 30 = 0x06ca6351"
  "sha_K 31 = 0x14292967"
  using sha_K_at [of 24 97 19734090066]
    sha_K_at [of 25 101 20001703533]
    sha_K_at [of 26 103 20132865992]
    sha_K_at [of 27 107 20390182855]
    sha_K_at [of 28 109 20516441075]
    sha_K_at [of 29 113 20764397895]
    sha_K_at [of 30 127 21588763473]
    sha_K_at [of 31 131 21813078375]
  by (simp_all add: sha_primes_def)

lemma sha_K_values_4:
  "sha_K 32 = 0x27b70a85"
  "sha_K 33 = 0x2e1b2138"
  "sha_K 34 = 0x4d2c6dfc"
  "sha_K 35 = 0x53380d13"
  "sha_K 36 = 0x650a7354"
  "sha_K 37 = 0x766a0abb"
  "sha_K 38 = 0x81c2c92e"
  "sha_K 39 = 0x92722c85"
  using sha_K_at [of 32 137 22141143685]
    sha_K_at [of 33 139 22248366392]
    sha_K_at [of 34 149 22769593852]
    sha_K_at [of 35 151 22871018771]
    sha_K_at [of 36 157 23170020180]
    sha_K_at [of 37 163 23461497531]
    sha_K_at [of 38 167 23651862830]
    sha_K_at [of 39 173 23931792517]
  by (simp_all add: sha_primes_def)

lemma sha_K_values_5:
  "sha_K 40 = 0xa2bfe8a1"
  "sha_K 41 = 0xa81a664b"
  "sha_K 42 = 0xc24b8b70"
  "sha_K 43 = 0xc76c51a3"
  "sha_K 44 = 0xd192e819"
  "sha_K 45 = 0xd6990624"
  "sha_K 46 = 0xf40e3585"
  "sha_K 47 = 0x106aa070"
  using sha_K_at [of 40 179 24205322401]
    sha_K_at [of 41 181 24295138891]
    sha_K_at [of 42 191 24734567280]
    sha_K_at [of 43 193 24820601251]
    sha_K_at [of 44 197 24990902297]
    sha_K_at [of 45 199 25075189284]
    sha_K_at [of 46 211 25569408389]
    sha_K_at [of 47 223 26045227120]
  by (simp_all add: sha_primes_def)

lemma sha_K_values_6:
  "sha_K 48 = 0x19a4c116"
  "sha_K 49 = 0x1e376c08"
  "sha_K 50 = 0x2748774c"
  "sha_K 51 = 0x34b0bcb5"
  "sha_K 52 = 0x391c0cb3"
  "sha_K 53 = 0x4ed8aa4a"
  "sha_K 54 = 0x5b9cca4f"
  "sha_K 55 = 0x682e6ff3"
  using sha_K_at [of 48 227 26200031510]
    sha_K_at [of 49 229 26276752392]
    sha_K_at [of 50 233 26428864332]
    sha_K_at [of 51 239 26653801653]
    sha_K_at [of 52 241 26727943347]
    sha_K_at [of 53 251 27092625994]
    sha_K_at [of 54 257 27306805839]
    sha_K_at [of 55 263 27517677555]
  by (simp_all add: sha_primes_def)

lemma sha_K_values_7:
  "sha_K 56 = 0x748f82ee"
  "sha_K 57 = 0x78a5636f"
  "sha_K 58 = 0x84c87814"
  "sha_K 59 = 0x8cc70208"
  "sha_K 60 = 0x90befffa"
  "sha_K 61 = 0xa4506ceb"
  "sha_K 62 = 0xbef9a3f7"
  "sha_K 63 = 0xc67178f2"
  using sha_K_at [of 56 269 27725365998]
    sha_K_at [of 57 271 27793908591]
    sha_K_at [of 58 277 27997534228]
    sha_K_at [of 59 281 28131656200]
    sha_K_at [of 60 283 28198240250]
    sha_K_at [of 61 293 28526537963]
    sha_K_at [of 62 307 28973835255]
    sha_K_at [of 63 311 29099129074]
  by (simp_all add: sha_primes_def)

lemmas sha_K_values = sha_K_values_0 sha_K_values_1 sha_K_values_2 sha_K_values_3 sha_K_values_4 sha_K_values_5 sha_K_values_6 sha_K_values_7

section \<open>The compression loop of the standard\<close>

type_synonym sha_state = "u32 \<times> u32 \<times> u32 \<times> u32 \<times> u32 \<times> u32 \<times> u32 \<times> u32"

text \<open>The schedule from the sixteen words of a block.\<close>

fun sha_W :: "u32 list \<Rightarrow> nat \<Rightarrow> u32" where
  "sha_W M t = (if t < 16 then M ! t
     else sigma1 (sha_W M (t - 2)) + sha_W M (t - 7) + sigma0 (sha_W M (t - 15)) + sha_W M (t - 16))"

declare sha_W.simps [simp del]

definition sha_round :: "u32 \<Rightarrow> u32 \<Rightarrow> sha_state \<Rightarrow> sha_state" where
  "sha_round k w = (\<lambda>(a, b, c, d, e, f, g, h).
     let T1 = h + Sigma1 e + Ch e f g + k + w;
         T2 = Sigma0 a + Maj a b c
     in (T1 + T2, a, b, c, d + T1, e, f, g))"

fun sha_rounds :: "u32 list \<Rightarrow> sha_state \<Rightarrow> nat \<Rightarrow> sha_state" where
  "sha_rounds M H 0 = H"
| "sha_rounds M H (Suc t) = sha_round (sha_K t) (sha_W M t) (sha_rounds M H t)"

definition sha_compress :: "u32 list \<Rightarrow> u32 list \<Rightarrow> u32 list" where
  "sha_compress s M =
     (case sha_rounds M (s ! 0, s ! 1, s ! 2, s ! 3, s ! 4, s ! 5, s ! 6, s ! 7) 64 of (a, b, c, d, e, f, g, h) \<Rightarrow>
        [s ! 0 + a, s ! 1 + b, s ! 2 + c, s ! 3 + d, s ! 4 + e, s ! 5 + f, s ! 6 + g, s ! 7 + h])"

section \<open>The unrolled rounds\<close>

text \<open>One rule for each kind of statement; the counters are kept as numerals.\<close>

lemma init_rule:
  assumes "\<And>a b c d e f g h. sha_rounds M (s ! 0, s ! 1, s ! 2, s ! 3, s ! 4, s ! 5, s ! 6, s ! 7) 0 = (a, b, c, d, e, f, g, h) \<Longrightarrow>
    P (F a b c d e f g h)"
  shows "P (let a = s ! 0; b = s ! 1; c = s ! 2; d = s ! 3; e = s ! 4; f = s ! 5; g = s ! 6; h = s ! 7 in F a b c d e f g h)"
  using assms by simp

lemma round_rule:
  assumes "sha_rounds M H n = (a, b, c, d, e, f, g, h)" and "w = sha_W M n" and "k = sha_K n" and "n + 1 = n'"
    and "\<And>d' h'. sha_rounds M H n' = (h', a, b, c, d', e, f, g) \<Longrightarrow> P (F d' h')"
  shows "P (let (d', h') = Round a b c d e f g h k w in F d' h')"
proof -
  obtain d' h' where r: "Round a b c d e f g h k w = (d', h')" by fastforce
  then have "sha_rounds M H n' = (h', a, b, c, d', e, f, g)"
    using assms(1-4) by (auto simp: Round_def sha_round_def Let_def)
  then have "P (F d' h')" by (rule assms(5))
  then show ?thesis by (simp add: r)
qed

lemma word_rule_0:
  assumes "n < 16" and "n < length chunk" and "\<And>w. w = sha_W (map BE32 chunk) n \<Longrightarrow> P (F w)"
  shows "P (Let (BE32 (chunk ! n)) F)"
  using assms sha_W.simps [of "map BE32 chunk" n] by simp

lemma word_step: "sha_W M (n + 16) = sha_W M n + (sigma1 (sha_W M (n + 14)) + sha_W M (n + 9) + sigma0 (sha_W M (n + 1)))"
  using sha_W.simps [of M "n + 16"] by (simp add: ac_simps numeral_eq_Suc)

lemma word_rule:
  assumes "w16 = sha_W M n" and "n + 14 = n14" "w2 = sha_W M n14" and "n + 9 = n9" "w7 = sha_W M n9"
    and "n + 1 = n1" "w15 = sha_W M n1" and "n + 16 = n16" and "\<And>w. w = sha_W M n16 \<Longrightarrow> P (F w)"
  shows "P (Let (w16 + (sigma1 w2 + w7 + sigma0 w15)) F)"
  using assms word_step [of M n] by simp

lemma last_word_rule:
  assumes "w16 = sha_W M n" and "n + 14 = n14" "w2 = sha_W M n14" and "n + 9 = n9" "w7 = sha_W M n9"
    and "n + 1 = n1" "w15 = sha_W M n1" and "n + 16 = n16"
  shows "w16 + sigma1 w2 + w7 + sigma0 w15 = sha_W M n16"
  using assms word_step [of M n] by (simp add: ac_simps)

lemma transform_is:
  assumes "length chunk = 16"
  shows "secp256k1_sha256_transform s chunk = sha_compress s (map BE32 chunk)"
  unfolding secp256k1_sha256_transform_def
  apply (rule init_rule [where P = "\<lambda>r. r = sha_compress s (map BE32 chunk)" and M = "map BE32 chunk"])
  apply ((rule round_rule [where P = "\<lambda>r. r = sha_compress s (map BE32 chunk)" and M = "map BE32 chunk"], assumption, assumption, simp (no_asm) add: sha_K_values del: One_nat_def, simp (no_asm) del: One_nat_def)
    | (rule word_rule_0 [where P = "\<lambda>r. r = sha_compress s (map BE32 chunk)"], simp (no_asm) del: One_nat_def, simp (no_asm) add: assms)
    | (rule word_rule [where P = "\<lambda>r. r = sha_compress s (map BE32 chunk)" and M = "map BE32 chunk"],
       assumption, simp (no_asm) del: One_nat_def, assumption, simp (no_asm) del: One_nat_def, assumption, simp (no_asm) del: One_nat_def, assumption, simp (no_asm) del: One_nat_def))+
  apply (rule round_rule [where P = "\<lambda>r. r = sha_compress s (map BE32 chunk)" and M = "map BE32 chunk"], assumption,
    rule last_word_rule, assumption, simp (no_asm) del: One_nat_def, assumption, simp (no_asm) del: One_nat_def, assumption, simp (no_asm) del: One_nat_def, assumption, simp (no_asm) del: One_nat_def,
    simp (no_asm) add: sha_K_values del: One_nat_def, simp (no_asm) del: One_nat_def)+
  apply (simp add: sha_compress_def)
  done

end
