(* ===== verification/Hash_Stream.thy ===== *)
theory Hash_Stream
  imports Hash_Law
begin

text \<open>
  Streaming: whatever way a message is cut into writes, SHA-256 returns the digest of the standard
  for the whole message, and HMAC returns the nested hash of FIPS 198-1. The interface
  \<open>hash_stream\<close> states what a client of a streaming hash relies on; both interpret it.
\<close>

section \<open>Byte order\<close>

definition be_bytes :: "u32 \<Rightarrow> u8 list" where
  "be_bytes w = map (\<lambda>k. ucast (drop_bit k w)) [24, 16, 8, 0]"

definition be_word :: "u8 list \<Rightarrow> nat \<Rightarrow> u32" where
  "be_word bs i = push_bit 24 (ucast (bs ! (4 * i))) OR push_bit 16 (ucast (bs ! (4 * i + 1)))
     OR push_bit 8 (ucast (bs ! (4 * i + 2))) OR ucast (bs ! (4 * i + 3))"

definition be64 :: "u64 \<Rightarrow> u8 list" where
  "be64 w = map (\<lambda>k. ucast (drop_bit k w)) [56, 48, 40, 32, 24, 16, 8, 0]"

lemma BE32_masks:
  "(p AND 0xFF00) = push_bit 8 (drop_bit 8 p AND 0xFF)" "(p AND 0xFF0000) = push_bit 16 (drop_bit 16 p AND 0xFF)"
  "(p AND 0xFF000000) = push_bit 24 (drop_bit 24 p AND 0xFF)" for p :: u32
proof -
  have "push_bit k (drop_bit k p AND mask 8) = p AND push_bit k (mask 8)" for k
    by (rule bit_word_eqI) (auto simp: bit_simps)
  from this [of 8] this [of 16] this [of 24] show
    "(p AND 0xFF00) = push_bit 8 (drop_bit 8 p AND 0xFF)" "(p AND 0xFF0000) = push_bit 16 (drop_bit 16 p AND 0xFF)"
    "(p AND 0xFF000000) = push_bit 24 (drop_bit 24 p AND 0xFF)"
    by (simp_all add: mask_eq_exp_minus_1)
qed

lemma BE32_bytes: "BE32 p = push_bit 24 (p AND mask 8) OR push_bit 16 (drop_bit 8 p AND mask 8)
    OR push_bit 8 (drop_bit 16 p AND mask 8) OR (drop_bit 24 p AND mask 8)"
proof -
  have m: "(0xFF :: u32) = mask 8" by (simp add: mask_eq_exp_minus_1)
  show ?thesis unfolding BE32_def BE32_masks m
    by (rule bit_word_eqI) (auto simp: bit_simps)
qed

lemma bit_u8: "bit (b :: u8) n \<Longrightarrow> n < 8"
  using bit_imp_le_length [of b n] by simp

lemma le_word_parts:
  fixes a b c d :: u8
  defines "w \<equiv> ucast a OR push_bit 8 (ucast b) OR push_bit 16 (ucast c) OR push_bit 24 (ucast d) :: u32"
  shows "w AND mask 8 = ucast a" and "drop_bit 8 w AND mask 8 = ucast b"
    and "drop_bit 16 w AND mask 8 = ucast c" and "drop_bit 24 w AND mask 8 = ucast d"
  unfolding w_def
  by (rule bit_word_eqI; simp add: bit_simps; use bit_u8 in fastforce)+

lemma BE32_le_word: "BE32 (le_word bs i) = be_word bs i"
  unfolding BE32_bytes le_word_def be_word_def le_word_parts ..

lemma word_bytes_BE32: "word_bytes (BE32 w) = be_bytes w"
  unfolding BE32_bytes word_bytes_def be_bytes_def
  by (auto intro!: bit_word_eqI simp: bit_simps)

lemma be64_split: "be_bytes (ucast (drop_bit 29 n)) @ be_bytes (ucast (push_bit 3 n)) = be64 (push_bit 3 n)"
  unfolding be_bytes_def be64_def by (auto intro!: bit_word_eqI simp: bit_simps)
section \<open>The hash of the standard\<close>

definition sha_init :: "u32 list" where
  "sha_init = [0x6a09e667, 0xbb67ae85, 0x3c6ef372, 0xa54ff53a, 0x510e527f, 0x9b05688c, 0x1f83d9ab, 0x5be0cd19]"

definition sha_block :: "u32 list \<Rightarrow> u8 list \<Rightarrow> u32 list" where
  "sha_block s bs = sha_compress s (map (be_word bs) [0 ..< 16])"

text \<open>The chaining value after all complete blocks.\<close>

function sha_blocks :: "u32 list \<Rightarrow> u8 list \<Rightarrow> u32 list" where
  "sha_blocks s bs = (if length bs < 64 then s else sha_blocks (sha_block s (take 64 bs)) (drop 64 bs))"
  by pat_completeness auto

termination
  by (relation "measure (\<lambda>(s, bs). length bs)") auto

declare sha_blocks.simps [simp del]

definition sha_pad :: "u8 list \<Rightarrow> u8 list" where
  "sha_pad m = m @ 0x80 # replicate ((119 - length m mod 64) mod 64) 0 @ be64 (push_bit 3 (of_nat (length m)))"

definition sha256_spec :: "u8 list \<Rightarrow> u8 list" where
  "sha256_spec m = concat (map be_bytes (sha_blocks sha_init (sha_pad m)))"

lemma sha_blocks_short: "length bs < 64 \<Longrightarrow> sha_blocks s bs = s"
  by (simp add: sha_blocks.simps)

lemma sha_blocks_64: "length b = 64 \<Longrightarrow> sha_blocks s (b @ bs) = sha_blocks (sha_block s b) bs"
  using sha_blocks.simps [of s "b @ bs"] by simp

text \<open>The complete blocks of a message, and what is left of it.\<close>

definition tail64 :: "u8 list \<Rightarrow> u8 list" where
  "tail64 m = drop (64 * (length m div 64)) m"

lemma length_tail64: "length (tail64 m) = length m mod 64"
  by (simp add: tail64_def minus_mult_div_eq_mod)

lemma tail64_short: "length m < 64 \<Longrightarrow> tail64 m = m"
  by (simp add: tail64_def)

lemma tail64_64: "length b = 64 \<Longrightarrow> tail64 (b @ m) = tail64 m"
  by (simp add: tail64_def div_add_self1 flip: drop_drop)

text \<open>Continuing a message: only its chaining value and its tail matter.\<close>

lemma sha_blocks_append: "sha_blocks s (m @ d) = sha_blocks (sha_blocks s m) (tail64 m @ d) \<and> tail64 (m @ d) = tail64 (tail64 m @ d)"
proof (induction s m rule: sha_blocks.induct)
  case (1 s m)
  show ?case
  proof (cases "length m < 64")
    case True
    then show ?thesis by (simp add: sha_blocks_short tail64_short)
  next
    case False
    define b r where "b = take 64 m" and "r = drop 64 m"
    have m: "m = b @ r" "length b = 64" using False by (simp_all add: b_def r_def)
    then show ?thesis
      using 1 [OF False, folded b_def r_def] sha_blocks_64 [OF m(2), of s r] sha_blocks_64 [OF m(2), of s "r @ d"]
      by (simp add: tail64_64)
  qed
qed

lemma sha_block_length: "length (sha_block s bs) = 8"
  by (simp add: sha_block_def sha_compress_def split_def)

lemma sha_blocks_length: "length s = 8 \<Longrightarrow> length (sha_blocks s bs) = 8"
  by (induction s bs rule: sha_blocks.induct) (simp add: sha_blocks.simps sha_block_length)

section \<open>Writing\<close>

lemma transform_block: "secp256k1_sha256_transform s (le_words bs) = sha_block s bs"
  using transform_is [of "le_words bs" s]
  by (simp add: le_words_def sha_block_def comp_def BE32_le_word)

lemma memcpy_full: "length buf = 64 \<Longrightarrow> n + length d = 64 \<Longrightarrow> memcpy_at buf n d = take n buf @ d"
  by (simp add: memcpy_at_def)

text \<open>The loop processes the complete blocks of the pending bytes followed by the data.\<close>

lemma write_loop_is:
  "bufsize < 64 \<Longrightarrow> length buf = 64 \<Longrightarrow> sha256_write_loop bufsize data s buf = (n, data', s', buf') \<Longrightarrow>
    s' = sha_blocks s (take bufsize buf @ data) \<and> n + length data' < 64 \<and> length buf' = 64 \<and>
    take n buf' @ data' = tail64 (take bufsize buf @ data)"
proof (induction bufsize data s buf arbitrary: n data' s' buf' rule: sha256_write_loop.induct)
  case (1 bufsize data s buf)
  show ?case
  proof (cases "bufsize + length data \<ge> 64")
    case False
    then show ?thesis
      using 1(2-4) by (simp add: sha256_write_loop.simps [of bufsize] sha_blocks_short tail64_short)
  next
    case True
    define c where "c = take (64 - bufsize) data"
    define b where "b = take bufsize buf @ c"
    define r where "r = drop (64 - bufsize) data"
    have b: "length b = 64" "take bufsize buf @ data = b @ r"
      using True 1(2,3) by (simp_all add: b_def c_def r_def)
    have "memcpy_at buf bufsize c = b"
      unfolding b_def by (rule memcpy_full) (use True 1(2,3) in \<open>simp_all add: c_def\<close>)
    then have "sha256_write_loop 0 r (sha_block s b) b = (n, data', s', buf')"
      using 1(4) True by (simp add: sha256_write_loop.simps [of bufsize] Let_def c_def r_def transform_block)
    then show ?thesis
      using 1(1) [OF True refl refl refl refl] 1(2,3) b
      by (simp add: sha_blocks_64 tail64_64 flip: c_def r_def) (metis \<open>memcpy_at buf bufsize c = b\<close> transform_block)
  qed
qed

text \<open>The state after a message: chaining value, pending bytes and count.\<close>

definition sha_is :: "secp256k1_sha256 \<Rightarrow> u8 list \<Rightarrow> bool" where
  "sha_is sha m \<longleftrightarrow> sha_s sha = sha_blocks sha_init m \<and> sha_bytes sha = of_nat (length m) \<and>
     length (sha_buf sha) = 64 \<and> take (length m mod 64) (sha_buf sha) = tail64 m"

lemma sha_is_initialize: "length (sha_buf hash) = 64 \<Longrightarrow> sha_is (secp256k1_sha256_initialize hash) []"
  by (simp add: sha_is_def secp256k1_sha256_initialize_def sha_init_def sha_blocks_short tail64_def)

lemma bytes_mod_64: "sha_is sha m \<Longrightarrow> unat (sha_bytes sha AND 0x3F) = length m mod 64"
proof -
  assume a: "sha_is sha m"
  have m: "(0x3F :: u64) = mask 6" by (simp add: mask_eq_exp_minus_1)
  have "unat (sha_bytes sha AND 0x3F) = unat (sha_bytes sha) mod 2 ^ 6"
    unfolding m take_bit_eq_mask [symmetric] unsigned_take_bit_eq by (rule take_bit_eq_mod)
  also have "\<dots> = length m mod 2 ^ 64 mod 2 ^ 6"
    using a by (simp add: sha_is_def unat_of_nat)
  also have "\<dots> = length m mod 64" by (simp add: mod_mod_cancel)
  finally show ?thesis .
qed

lemma sha_is_write:
  assumes a: "sha_is sha m"
  shows "sha_is (secp256k1_sha256_write sha d) (m @ d)"
proof -
  obtain n data s buf where w: "sha256_write_loop (length m mod 64) d (sha_s sha) (sha_buf sha) = (n, data, s, buf)"
    by (metis prod_cases4)
  have l: "s = sha_blocks (sha_s sha) (tail64 m @ d)" "n + length data < 64" "length buf = 64" "take n buf @ data = tail64 (tail64 m @ d)"
    using write_loop_is [OF _ _ w] a by (simp_all add: sha_is_def)
  define buf' where "buf' = (if length data \<noteq> 0 then memcpy_at buf n data else buf)"
  have eq: "secp256k1_sha256_write sha d = sha\<lparr>sha_s := s, sha_buf := buf', sha_bytes := sha_bytes sha + of_nat (length d)\<rparr>"
    unfolding secp256k1_sha256_write_def bytes_mod_64 [OF a] by (simp add: w Let_def buf'_def)
  have len: "length (m @ d) mod 64 = n + length data"
    using arg_cong [OF l(4), of length] sha_blocks_append [of sha_init m d] l(2,3) by (simp add: length_tail64 mod_add_left_eq)
  have b: "length buf' = 64" "take (n + length data) buf' = take n buf @ data"
    using l(2,3) by (auto simp: buf'_def memcpy_at_def)
  show ?thesis
    using a l(1,4) b len sha_blocks_append [of sha_init m d]
    by (simp add: eq sha_is_def)
qed

lemma sha_is_parts: "sha_is sha m \<Longrightarrow> sha_is (fold (\<lambda>d sha. secp256k1_sha256_write sha d) parts sha) (m @ concat parts)"
proof (induction parts arbitrary: sha m)
  case (Cons d parts)
  then show ?case using Cons.IH [OF sha_is_write [OF Cons.prems, of d]] by simp
qed simp

section \<open>Finalizing\<close>

lemma finalize_is:
  assumes a: "sha_is sha m"
  shows "fst (secp256k1_sha256_finalize sha) = sha256_spec m"
proof -
  define z where "z = (119 - length m mod 64) mod 64"
  define L where "L = sha_bytes sha"
  have L: "L = of_nat (length m)" using a by (simp add: L_def sha_is_def)
  have "unat (L mod 64) = length m mod 64"
    using bytes_mod_64 [OF a] take_bit_eq_mask [of 6 L] by (simp add: L_def take_bit_eq_mod mask_eq_exp_minus_1)
  moreover have "take (1 + z) (0x80 # replicate 63 0) = 0x80 # replicate z (0 :: u8)"
    using mod_less_divisor [of 64 "119 - length m mod 64"] by (simp add: z_def min_def)
  ultimately have p: "take (1 + ((119 - unat (L mod 64)) mod 64)) (0x80 # replicate 63 0) = 0x80 # replicate z (0 :: u8)"
    by (simp only: z_def)
  define sha' where "sha' = secp256k1_sha256_write (secp256k1_sha256_write sha (0x80 # replicate z 0)) (be64 (push_bit 3 L))"
  have "sha_is sha' (sha_pad m)"
    unfolding sha'_def sha_pad_def using sha_is_write [OF sha_is_write [OF a, of "0x80 # replicate z 0"], of "be64 (push_bit 3 L)"]
    by (simp add: L flip: z_def)
  then have "sha_s sha' = sha_blocks sha_init (sha_pad m)" by (simp add: sha_is_def)
  moreover have "fst (secp256k1_sha256_finalize sha) = concat (map word_bytes (map BE32 (sha_s sha')))"
    unfolding secp256k1_sha256_finalize_def Let_def L_def [symmetric] p
    by (simp add: sha'_def word_bytes_BE32 be64_split)
  ultimately show ?thesis by (simp add: sha256_spec_def comp_def word_bytes_BE32)
qed

lemma sha256_spec_length: "length (sha256_spec m) = 32"
proof -
  have "length (concat (map be_bytes ws)) = 4 * length ws" for ws by (induction ws) (simp_all add: be_bytes_def)
  then show ?thesis by (simp add: sha256_spec_def sha_blocks_length sha_init_def)
qed

theorem sha256_parts_is: "sha256_parts parts = sha256_spec (concat parts)"
  using finalize_is [OF sha_is_parts [OF sha_is_initialize], of sha256_local parts]
  by (simp add: sha256_parts_def sha256_local_def)

section \<open>The interface of a streaming hash\<close>

locale hash_stream =
  fixes is_state :: "'s \<Rightarrow> u8 list \<Rightarrow> bool" and put :: "'s \<Rightarrow> u8 list \<Rightarrow> 's"
    and out :: "'s \<Rightarrow> u8 list" and H :: "u8 list \<Rightarrow> u8 list"
  assumes put_is: "is_state s m \<Longrightarrow> is_state (put s d) (m @ d)"
    and out_is: "is_state s m \<Longrightarrow> out s = H m"
begin

lemma parts_is: "is_state s m \<Longrightarrow> is_state (fold (\<lambda>d s. put s d) parts s) (m @ concat parts)"
proof (induction parts arbitrary: s m)
  case (Cons d parts)
  then show ?case using Cons.IH [OF put_is [OF Cons.prems, of d]] by simp
qed simp

text \<open>The digest depends on the message only, not on how it is cut into writes.\<close>

lemma digest: "is_state s m \<Longrightarrow> out (fold (\<lambda>d s. put s d) parts s) = H (m @ concat parts)"
  by (rule out_is [OF parts_is])

end

interpretation sha: hash_stream sha_is secp256k1_sha256_write "\<lambda>s. fst (secp256k1_sha256_finalize s)" sha256_spec
  by unfold_locales (rule sha_is_write finalize_is, assumption)+

section \<open>HMAC\<close>

definition hmac_key :: "u8 list \<Rightarrow> u8 list" where
  "hmac_key key = (if length key \<le> 64 then key @ replicate (64 - length key) 0 else sha256_spec key @ replicate 32 0)"

definition hmac_spec :: "u8 list \<Rightarrow> u8 list \<Rightarrow> u8 list" where
  "hmac_spec key m = sha256_spec (map (\<lambda>b. b XOR 0x5c) (hmac_key key) @ sha256_spec (map (\<lambda>b. b XOR 0x36) (hmac_key key) @ m))"

definition hmac_is :: "u8 list \<Rightarrow> secp256k1_hmac_sha256 \<Rightarrow> u8 list \<Rightarrow> bool" where
  "hmac_is key h m \<longleftrightarrow> sha_is (hmac_inner h) (map (\<lambda>b. b XOR 0x36) (hmac_key key) @ m) \<and>
     sha_is (hmac_outer h) (map (\<lambda>b. b XOR 0x5c) (hmac_key key))"

definition garbage_ok :: "hmac_garbage \<Rightarrow> bool" where
  "garbage_ok g \<longleftrightarrow> length (sha_buf (hmac_inner (fst g))) = 64 \<and> length (sha_buf (hmac_outer (fst g))) = 64 \<and>
     length (sha_buf (snd g)) = 64"

lemma hmac_local_ok: "garbage_ok (\<lparr>hmac_inner = sha256_local, hmac_outer = sha256_local\<rparr>, sha256_local)"
  by (simp add: garbage_ok_def sha256_local_def)

lemma sha_is_first: "length (sha_buf s) = 64 \<Longrightarrow> sha_is (secp256k1_sha256_write (secp256k1_sha256_initialize s) d) d"
  using sha_is_write [OF sha_is_initialize, of s d] by simp

lemma hmac_is_initialize:
  assumes g: "garbage_ok g"
  shows "hmac_is key (secp256k1_hmac_sha256_initialize (fst g) (snd g) key) []"
proof -
  have k: "(if length key \<le> 64 then key @ replicate (64 - length key) 0
      else fst (secp256k1_sha256_finalize (secp256k1_sha256_write (secp256k1_sha256_initialize (snd g)) key)) @ replicate 32 0) = hmac_key key"
    using finalize_is [OF sha_is_first, of "snd g" key] g by (simp add: hmac_key_def garbage_ok_def)
  have x: "(\<lambda>b. b XOR (0x5c XOR 0x36)) \<circ> (\<lambda>b. b XOR 0x5c) = (\<lambda>b :: u8. b XOR 0x36)"
    by (simp add: fun_eq_iff xor.assoc)
  have "secp256k1_hmac_sha256_initialize (fst g) (snd g) key =
    \<lparr>hmac_inner = secp256k1_sha256_write (secp256k1_sha256_initialize (hmac_inner (fst g))) (map (\<lambda>b. b XOR 0x36) (hmac_key key)),
     hmac_outer = secp256k1_sha256_write (secp256k1_sha256_initialize (hmac_outer (fst g))) (map (\<lambda>b. b XOR 0x5c) (hmac_key key))\<rparr>"
    unfolding secp256k1_hmac_sha256_initialize_def Let_def k by (simp only: list.map_comp x)
  then show ?thesis
    using g sha_is_first by (simp add: hmac_is_def garbage_ok_def)
qed

lemma hmac_is_write: "hmac_is key h m \<Longrightarrow> hmac_is key (secp256k1_hmac_sha256_write h d) (m @ d)"
  using sha_is_write [of "hmac_inner h" "map (\<lambda>b. b XOR 0x36) (hmac_key key) @ m" d]
  by (simp add: hmac_is_def secp256k1_hmac_sha256_write_def)

lemma hmac_finalize_is: "hmac_is key h m \<Longrightarrow> fst (secp256k1_hmac_sha256_finalize h) = hmac_spec key m"
  using finalize_is [of "hmac_inner h"] sha_is_write [of "hmac_outer h"] finalize_is
  by (auto simp: hmac_is_def secp256k1_hmac_sha256_finalize_def hmac_spec_def split_def Let_def)

interpretation hmac: hash_stream "hmac_is key" secp256k1_hmac_sha256_write "\<lambda>h. fst (secp256k1_hmac_sha256_finalize h)" "hmac_spec key"
  for key
  by unfold_locales (rule hmac_is_write hmac_finalize_is, assumption)+

lemma hmac_parts_is: "garbage_ok g \<Longrightarrow> hmac_parts g key parts = hmac_spec key (concat parts)"
  using hmac.digest [OF hmac_is_initialize [of g key], of parts] by (simp add: hmac_parts_def Let_def)

lemma hmac_spec_length: "length (hmac_spec key m) = 32"
  by (simp add: hmac_spec_def sha256_spec_length)

end
