(* ===== verification/Generator_Spec.thy ===== *)
theory Generator_Spec
  imports Generator_Law Group_Spec Hash_Stream Ring_Law
begin

text \<open>
  What the generator component promises: the map to the curve lands on the curve for every element but zero, parsing
  and serializing are inverse to each other with every malformed input rejected, generation is the
  sum of two hashed points and of the blinding point, and the loops around it end at once.
\<close>

section \<open>Shared facts\<close>

lemma ge_valid_point:
  assumes "ge_valid a" "\<not> ge_infinity a"
  obtains P where "ge_is 1 P a" "P \<noteq> 0" "pt P = ge_pt a"
  using ge_valid_ge_is [OF assms(1)] cp_pt_0 [OF assms(1)] assms(2) pt_cp_ge [OF assms(1)] by blast

lemma generator_tag_cases: "b AND 0xFE = 10 \<longleftrightarrow> b = 10 \<or> b = 11" for b :: u8
proof
  have "(0xFE OR 1 :: u8) = - 1" by simp
  then have "b = (b AND 0xFE) OR (b AND 1)" by (simp only: and.right_neutral flip: bit.conj_disj_distrib)
  moreover have "b AND 1 = 0 \<or> b AND 1 = 1" by (simp add: and_one_eq mod2_eq_if)
  moreover assume "b AND 0xFE = 10"
  ultimately have "b = 10 OR 0 \<or> b = 10 OR 1" by metis
  then show "b = 10 \<or> b = 11" by simp
qed auto
text \<open>The outcome of parsing, on every input.\<close>

lemma generator_parse_decides:
  assumes l: "length input = 33"
  shows "case secp256k1_generator_parse input of
       Some gen \<Rightarrow> secp256k1_generator_serialize gen = input \<and> ge_valid (secp256k1_generator_load gen)
     | None \<Rightarrow> input ! 0 \<notin> {10, 11} \<or> field_p \<le> be_nat (tl input) \<or>
         (\<nexists>y. on_curve (Point (of_nat (be_nat (tl input))) y))"
proof -
  have l1: "length (tl input) = 32" "drop 1 input = tl input" "input = input ! 0 # tl input"
    using l by (simp_all add: drop_Suc) (cases input; simp)
  let ?X = "of_nat (be_nat (tl input)) :: fp"
  show ?thesis
  proof (cases "input ! 0 \<in> {10, 11} \<and> be_nat (tl input) < field_p")
    case True
    then have t: "input ! 0 AND 0xFE = 10" "be_nat (tl input) < field_p" using generator_tag_cases by auto
    define x where "x = snd (secp256k1_fe_set_b32 (tl input))"
    have x: "fe_normalized x" "fe_is 1 ?X x" "secp256k1_fe_set_b32 (tl input) = (True, x)"
      using fe_set_b32_success [OF l1(1) t(2)] by (simp_all add: x_def prod_eq_iff)
    note x8 = fe_is_8 [OF x(2)]
    obtain ok ge where g: "secp256k1_ge_set_xquad x = (ok, ge)" by fastforce
    note q = ge_set_xquad_is [OF x8, unfolded g fst_conv snd_conv]
    show ?thesis
    proof (cases ok)
      case False
      then have "\<nexists>y. on_curve (Point ?X y)" using q(1) by (auto simp: fp_is_square_def eq_commute)
      moreover have "secp256k1_generator_parse input = None" using False x(3) g l1(2) by (simp add: secp256k1_generator_parse_def)
      ultimately show ?thesis by simp
    next
      case ok: True
      define Y where "Y = fp_root (?X ^ 3 + 7)"
      define Q where "Q = cp (Point ?X Y)"
      have Q: "on_curve (Point ?X Y)" "ge_is 1 Q ge" "Q \<noteq> 0"
        using ge_set_xquad_point [OF x8] ok by (simp_all add: g Q_def Y_def)
      define R where "R = (if input ! 0 = 11 then - Q else Q)"
      have R: "R \<noteq> 0" "pt R = Point ?X (if input ! 0 = 11 then - Y else Y)"
        using Q(1,3) pt_cp [OF Q(1)] by (simp_all add: R_def Q_def pt_neg)
      have tag: "input ! 0 AND 1 \<noteq> 0 \<longleftrightarrow> input ! 0 = 11" using True by auto
      have "secp256k1_generator_parse input = Some (generator_of R)"
        using generator_save_is(1) [OF Q(2,3)] generator_save_is(1) [OF ge_neg_is [OF Q(2)]] Q(3) ok t(1) x(3) g l1(2) tag
        by (simp add: secp256k1_generator_parse_def R_def)
      moreover have "secp256k1_generator_serialize (generator_of R) = input"
      proof -
        have "secp256k1_fe_normalize (fe_of ?X) = secp256k1_fe_normalize x" using normalize_unique [OF fe_of_is x(2)] by simp
        also have "\<dots> = x"
          using fe_normalize_value [of x] x(1,2) fe_is_mono [OF x(2), of 32]
          by (intro fe_normalized_unique) (auto simp: fe_is_def fe_normalized_iff)
        finally have b: "secp256k1_fe_get_b32 (secp256k1_fe_normalize (fe_of ?X)) = tl input"
          using fe_get_set_b32 [OF l1(1)] by (simp add: x_def)
        have sq: "fp_is_square Y" unfolding Y_def by (rule fp_root_is_square)
        then have "\<not> fp_is_square (- Y)" using fp_square_minus on_curve_y_neq_0 [OF Q(1)] by blast
        then have "11 XOR of_bool (fp_is_square (if input ! 0 = 11 then - Y else Y)) = input ! 0"
          using sq True by (auto split: if_splits)
        then show ?thesis using generator_serialize_is [OF R] b l1(3) by simp
      qed
      ultimately show ?thesis using ge_is_pt [OF generator_of_is [OF R(1)]] by simp
    qed
  next
    case False
    then have "secp256k1_generator_parse input = None"
      using fe_set_b32_flag [of "tl input"] fe_set_b32_limbs(3) [OF l1(1)] l1(2) generator_tag_cases [of "input ! 0"]
      by (auto simp: secp256k1_generator_parse_def split_def not_less)
    then show ?thesis using False by auto
  qed
qed

lemma hash_value:
  "fe_val (snd (secp256k1_fe_set_b32 (sha256_parts parts))) = be_nat (sha256_parts parts)"
  by (rule fe_set_b32_limbs(3)) (simp add: sha256_parts_is sha256_spec_length)

lemma key_ok_iff: "key_ok prefix key32 \<longleftrightarrow> be_nat (sha256_parts [prefix, take 32 key32]) < field_p"
  by (simp add: key_ok_def fe_set_b32_flag hash_value)

lemma generation_t_zero:
  assumes "be_nat (sha256_parts [prefix, take 32 key32]) < field_p"
  shows "fev (generation_t prefix key32) = 0 \<longleftrightarrow> be_nat (sha256_parts [prefix, take 32 key32]) = 0"
  using assms of_nat_fp_eq_iff [of "be_nat (sha256_parts [prefix, take 32 key32])" 0]
  by (simp add: generation_t_def fev_def hash_value)

text \<open>The blinding point.\<close>

lemma generation_blind:
  assumes "gen_ctx_ok ctx" "length b = 32" "be_nat b < order_n"
  shows "\<exists>s r. secp256k1_scalar_set_b32 b = (s, False) \<and> secp256k1_ecmult_gen ctx s = Some r \<and> gej_is 1 (nmul (be_nat b) curve_G) r"
proof -
  have v: "secp256k1_scalar_set_b32 b = (fst (secp256k1_scalar_set_b32 b), False)"
    using secp256k1_scalar_set_b32_value(2) [OF assms(2)] assms(3) by (simp add: prod_eq_iff)
  then show ?thesis
    using ecmult_gen_is [OF assms(1) secp256k1_scalar_set_b32_is [OF assms(2)]] by (metis smul_of_nat)
qed

lemma large_blind: "be_nat (replicate 32 0xff) = 2 ^ 256 - 1"
proof -
  have "replicate 32 x = [x, x, x, x, x, x, x, x, x, x, x, x, x, x, x, x, x, x, x, x, x, x, x, x, x, x, x, x, x, x, x, x]" for x :: u8
    by (simp add: numeral_eq_Suc)
  then show ?thesis by simp
qed

text \<open>The chain of hashes of a seed, and the generators made from its links, the first from the first hash.\<close>

definition seed_chain :: "u8 list \<Rightarrow> nat \<Rightarrow> u8 list" where
  "seed_chain seed k = (sha256_spec ^^ k) (take 32 seed)"

definition chain_aborts :: "secp256k1_ecmult_gen_context \<Rightarrow> u8 list \<Rightarrow> nat \<Rightarrow> bool" where
  "chain_aborts ctx seed k \<longleftrightarrow> secp256k1_generator_generate ctx (seed_chain seed (Suc k)) = None"

definition chain_generator :: "secp256k1_ecmult_gen_context \<Rightarrow> u8 list \<Rightarrow> nat \<Rightarrow> secp256k1_generator" where
  "chain_generator ctx seed k = snd (the (secp256k1_generator_generate ctx (seed_chain seed (Suc k))))"

lemma chain_next:
  "ring_next_generator (Suc fuel) ctx (seed_chain seed i) =
     (if chain_aborts ctx seed i then None else Some (chain_generator ctx seed i, seed_chain seed (Suc i)))"
  using ring_next_generator_once [of fuel ctx "seed_chain seed i"]
  by (auto simp: chain_aborts_def chain_generator_def seed_chain_def sha256_parts_is Let_def simp del: ring_next_generator.simps)

lemma chain_nexts:
  "ring_next_generators (Suc fuel) ctx k (seed_chain seed i) =
     (if \<exists>j < k. chain_aborts ctx seed (i + j) then None
      else Some (map (chain_generator ctx seed) [i ..< i + k], seed_chain seed (i + k)))"
proof (induction k arbitrary: i)
  case (Suc k)
  have e: "(\<exists>j < Suc k. chain_aborts ctx seed (i + j)) \<longleftrightarrow> chain_aborts ctx seed i \<or> (\<exists>j < k. chain_aborts ctx seed (Suc i + j))"
    by (simp add: Ex_less_Suc2)
  have u: "[i ..< i + Suc k] = i # [Suc i ..< Suc i + k]" by (simp add: upt_conv_Cons)
  show ?case unfolding e u using Suc.IH [of "Suc i"] by (simp add: chain_next del: ring_next_generator.simps)
qed simp

lemma seed_chain_0: "take 32 seed = seed_chain seed 0"
  by (simp add: seed_chain_def)

lemma ex_less_shift: "(\<exists>j < i + k. P j) \<longleftrightarrow> (\<exists>j < i. P j) \<or> (\<exists>j < k. P (i + j))" for i k :: nat
proof -
  have "(\<exists>j < i + k. P j) \<Longrightarrow> \<not> (\<exists>j < i. P j) \<Longrightarrow> \<exists>j < k. P (i + j)"
    by (metis add_less_cancel_left le_add_diff_inverse not_less)
  moreover have "i + j < i + k" if "j < k" for j using that by simp
  ultimately show ?thesis by (blast intro: trans_less_add1)
qed

section \<open>Properties\<close>

text \<open>C23: the map of a field element to the curve: for every nonzero element the result is a finite
  valid point of the curve, whichever of the three candidates the selection by conditional moves
  takes; for zero, the one input the code does not single out, the result is the pair with x = 0,
  which is not on the curve.\<close>

theorem svdw_on_curve:
  assumes t: "fe_mag 1 t"
  shows "\<not> ge_infinity (shallue_van_de_woestijne t) \<and>
    ge_valid (shallue_van_de_woestijne t) = (fe_val t mod field_p \<noteq> 0) \<and>
    on_curve (ge_pt (shallue_van_de_woestijne t)) = (fe_val t mod field_p \<noteq> 0) \<and>
    (fe_val t mod field_p = 0 \<longrightarrow> fe_val (ge_x (shallue_van_de_woestijne t)) mod field_p = 0)"
proof -
  have T: "fe_is 1 (fev t) t" using t by (simp add: fe_is_fev)
  have z: "fev t = 0 \<longleftrightarrow> fe_val t mod field_p = 0" using of_nat_fp_eq_iff [of "fe_val t" 0] by (simp add: fev_def)
  show ?thesis
  proof (cases "fev t = 0")
    case True
    then have "fe_is 1 0 t" using T by simp
    note zero = svdw_zero [OF this]
    have "fe_val (ge_x (shallue_van_de_woestijne t)) mod field_p = 0"
      using zero(2) of_nat_fp_eq_iff [of "fe_val (ge_x (shallue_van_de_woestijne t))" 0] by (simp add: fev_def)
    then show ?thesis using zero(1) svdw_choice(2) [OF T] z True by (simp add: ge_valid_def)
  next
    case False
    then show ?thesis using ge_is_pt [OF svdw_is(1) [OF T False]] svdw_choice(2) [OF T] z by (auto simp: ge_valid_def)
  qed
qed

theorem svdw_on_curve_witness: "ge_valid (shallue_van_de_woestijne (secp256k1_fe_set_int 1))"
proof -
  have "fe_mag 1 (secp256k1_fe_set_int 1)" "fe_val (secp256k1_fe_set_int 1) mod field_p \<noteq> 0"
    by (simp_all add: secp256k1_fe_set_int_def fe_mag_def fe_val_def field_p_def)
  then show ?thesis using svdw_on_curve by blast
qed

text \<open>C33: parsing and serializing generators are inverse to each other: the saved form of every finite
  point is recovered from its 33 bytes, and every input the parser accepts is the serialization of
  what it returns, so that a generator has one encoding only. The parser rejects exactly the inputs
  with a tag other than 10 and 11, with an x not below the field prime, or with an x that no point
  of the curve has.\<close>

theorem generator_codec:
  assumes a: "ge_valid a" "\<not> ge_infinity a" and l: "length input = 33"
  shows "secp256k1_generator_parse (secp256k1_generator_serialize (secp256k1_generator_save a)) = Some (secp256k1_generator_save a) \<and>
    ge_pt (secp256k1_generator_load (secp256k1_generator_save a)) = ge_pt a \<and>
    (case secp256k1_generator_parse input of
       Some gen \<Rightarrow> secp256k1_generator_serialize gen = input \<and> ge_valid (secp256k1_generator_load gen)
     | None \<Rightarrow> input ! 0 \<notin> {10, 11} \<or> field_p \<le> be_nat (tl input) \<or>
         (\<nexists>y. on_curve (Point (of_nat (be_nat (tl input))) y)))"
proof (intro conjI)
  obtain P where P: "ge_is 1 P a" "P \<noteq> 0" "pt P = ge_pt a" by (rule ge_valid_point [OF a])
  show "secp256k1_generator_parse (secp256k1_generator_serialize (secp256k1_generator_save a)) = Some (secp256k1_generator_save a)"
    using generator_parse_serialize [OF P(2)] generator_save_is(1) [OF P(1,2)] by simp
  show "ge_pt (secp256k1_generator_load (secp256k1_generator_save a)) = ge_pt a"
    using ge_is_pt [OF generator_save_is(3) [OF P(1,2)]] P(3) by simp
qed (rule generator_parse_decides [OF l])

theorem generator_codec_witness:
  "secp256k1_generator_parse (secp256k1_generator_serialize (secp256k1_generator_save secp256k1_ge_const_g)) =
     Some (secp256k1_generator_save secp256k1_ge_const_g)"
  using generator_codec [OF const_g_valid(1,2), of "replicate 33 0"] by simp

text \<open>C32: generation from a key, with or without a blinding factor, in every case. It aborts exactly
  when the blinding factor is not below the group order or one of the two hashes is not below the
  field prime; the header announces a return of 0 there. Otherwise it reports success, and the generator is the canonical form of the sum of
  the two hashed points and of the blinding factor times the base point, so that a blinded generator
  differs from the plain one by exactly that multiple; the only exceptions are a hash that is zero
  and a sum that is the point at infinity, which the code does not rule out.\<close>

theorem generator_generate_correct:
  assumes c: "gen_ctx_ok ctx" and l: "case blind32 of None \<Rightarrow> True | Some b \<Rightarrow> length b = 32"
  shows "let h1 = sha256_parts [generation_prefix1, take 32 key32]; h2 = sha256_parts [generation_prefix2, take 32 key32];
      B = (case blind32 of None \<Rightarrow> 0 | Some b \<Rightarrow> nmul (be_nat b) curve_G)
    in (secp256k1_generator_generate_internal ctx key32 blind32 = None \<longleftrightarrow>
        (case blind32 of None \<Rightarrow> False | Some b \<Rightarrow> order_n \<le> be_nat b) \<or> field_p \<le> be_nat h1 \<or> field_p \<le> be_nat h2) \<and>
      (\<forall>ret gen. secp256k1_generator_generate_internal ctx key32 blind32 = Some (ret, gen) \<longrightarrow> ret \<and>
        (be_nat h1 = 0 \<or> be_nat h2 = 0 \<or> B + key_point key32 = 0 \<or> gen = generator_of (B + key_point key32)))"
proof -
  define h1 h2 where "h1 = sha256_parts [generation_prefix1, take 32 key32]" and "h2 = sha256_parts [generation_prefix2, take 32 key32]"
  define B where "B = (case blind32 of None \<Rightarrow> 0 | Some b \<Rightarrow> nmul (be_nat b) curve_G)"
  have k1: "key_ok generation_prefix1 key32 \<longleftrightarrow> be_nat h1 < field_p" and k2: "key_ok generation_prefix2 key32 \<longleftrightarrow> be_nat h2 < field_p"
    by (simp_all add: key_ok_iff h1_def h2_def)
  note z = generation_t_zero [of _ key32]
  define bad where "bad \<longleftrightarrow> (case blind32 of None \<Rightarrow> False | Some b \<Rightarrow> order_n \<le> be_nat b)"
  have none: "secp256k1_generator_generate_internal ctx key32 blind32 = None"
    if "bad \<or> field_p \<le> be_nat h1 \<or> field_p \<le> be_nat h2"
    using that l k1 k2 secp256k1_scalar_set_b32_value unfolding secp256k1_generator_generate_internal_def h1_def [symmetric] h2_def [symmetric]
    by (auto simp: bad_def key_ok_def h1_def [symmetric] h2_def [symmetric] split_def Let_def split: option.splits)
  have blind: "case blind32 of None \<Rightarrow> B = 0
      | Some b \<Rightarrow> (\<exists>x s r. secp256k1_scalar_set_b32 b = (s, False) \<and> secp256k1_ecmult_gen ctx s = Some r \<and> gej_is 1 B r)" if "\<not> bad"
    using that generation_blind [OF c] l by (auto simp: B_def bad_def split: option.splits)
  have some: "\<exists>gen. secp256k1_generator_generate_internal ctx key32 blind32 = Some (True, gen) \<and>
      (be_nat h1 = 0 \<or> be_nat h2 = 0 \<or> B + key_point key32 = 0 \<or> gen = generator_of (B + key_point key32))"
    if ok: "\<not> bad" "be_nat h1 < field_p" "be_nat h2 < field_p"
  proof -
    have "secp256k1_generator_generate_internal ctx key32 blind32 \<noteq> None"
      using ok k1 k2 blind [OF ok(1)] unfolding secp256k1_generator_generate_internal_def h1_def [symmetric] h2_def [symmetric]
      by (auto simp: key_ok_def h1_def [symmetric] h2_def [symmetric] split_def Let_def split: option.splits)
    then obtain gen where gen: "secp256k1_generator_generate_internal ctx key32 blind32 = Some (True, gen)"
      using generate_internal_ret by (metis option.exhaust prod.exhaust)
    moreover have "gen = generator_of (B + key_point key32)" if "be_nat h1 \<noteq> 0" "be_nat h2 \<noteq> 0" "B + key_point key32 \<noteq> 0"
    proof -
      have "generation_ok key32" using that(1,2) ok(2,3) z [of generation_prefix1] z [of generation_prefix2] by (simp add: generation_ok_def h1_def h2_def)
      from generate_internal_is [OF this _ _ blind [OF ok(1)] that(3)] gen ok k1 k2 show ?thesis by simp
    qed
    ultimately show ?thesis by auto
  qed
  show ?thesis
  proof (cases "bad \<or> field_p \<le> be_nat h1 \<or> field_p \<le> be_nat h2")
    case True
    then show ?thesis using none by (simp add: bad_def h1_def h2_def Let_def)
  next
    case False
    then have "\<not> bad" "be_nat h1 < field_p" "be_nat h2 < field_p" by auto
    from some [OF this] False show ?thesis by (auto simp: B_def h1_def h2_def bad_def Let_def)
  qed
qed

theorem generator_generate_correct_witness:
  "secp256k1_generator_generate_internal sample_ctx [] (Some (replicate 32 0xff)) = None \<and>
   (case secp256k1_generator_generate_internal sample_ctx [] None of None \<Rightarrow> True | Some (ret, gen) \<Rightarrow> ret)"
proof -
  have "order_n \<le> be_nat (replicate 32 0xff)" by (simp add: large_blind order_n_def)
  then show ?thesis
    using generator_generate_correct [OF sample_ctx_ok, where ?key32.0 = "[]" and ?blind32.0 = None]
      generator_generate_correct [OF sample_ctx_ok, where ?key32.0 = "[]" and ?blind32.0 = "Some (replicate 32 0xff)"]
    by (auto simp: Let_def split: option.splits)
qed

text \<open>C34: creation of the contexts, with and without topics. The loops \<^verbatim>\<open>while (1)\<close> that search for the
  generators run exactly once each, so that one unit of fuel is enough and more fuel changes nothing. The
  generators are those of successive links of the chain of hashes of the seed, each link used once: the
  bases first, then the second generator, the one of amounts and the \<open>n * m\<close> bases of the digits; with
  a blinding generator the base is that generator parsed again, and the chain starts with the second one.
  Creation fails exactly when the generation aborts at one of these links.\<close>

theorem ring_context_loops_end:
  "secp256k1_ringcip_context_create geng0 (Suc fuel) ctx L n m seed None =
     (if \<exists>j < 3 + n * m. chain_aborts ctx seed j then None
      else Some \<lparr>rctx_L = L, rctx_n = n, rctx_m = m, rctx_N = n ^ m,
        rctx_multigen = map (chain_generator ctx seed) [3 ..< 3 + n * m], rctx_geng = chain_generator ctx seed 0,
        rctx_genh = chain_generator ctx seed 1, rctx_genmu = chain_generator ctx seed 2\<rparr>) \<and>
   secp256k1_ringcip_context_create geng0 (Suc fuel) ctx L n m seed (Some blind) =
     (if \<exists>j < 2 + n * m. chain_aborts ctx seed j then None
      else Some \<lparr>rctx_L = L, rctx_n = n, rctx_m = m, rctx_N = n ^ m,
        rctx_multigen = map (chain_generator ctx seed) [2 ..< 2 + n * m],
        rctx_geng = (case secp256k1_generator_parse (secp256k1_generator_serialize blind) of None \<Rightarrow> geng0 | Some g \<Rightarrow> g),
        rctx_genh = chain_generator ctx seed 0, rctx_genmu = chain_generator ctx seed 1\<rparr>) \<and>
   secp256k1_ringcip_DBPoE_context_create (Suc fuel) ctx L n m seed topics k =
     (if \<exists>j < k + 3 + n * m. chain_aborts ctx seed j then None
      else Some \<lparr>dctx_L = L, dctx_n = n, dctx_m = m, dctx_N = n ^ m,
        dctx_multigen = map (chain_generator ctx seed) [k + 3 ..< k + 3 + n * m],
        dctx_geng = map (chain_generator ctx seed) [0 ..< k + 1], dctx_genh = chain_generator ctx seed (k + 1),
        dctx_genmu = chain_generator ctx seed (k + 2), dctx_topics = topics, dctx_topic_size = k\<rparr>) \<and>
   ring_next_generator (Suc fuel) ctx buf =
     map_option (\<lambda>r. (snd r, sha256_spec buf)) (secp256k1_generator_generate ctx (sha256_spec buf))"
proof (intro conjI)
  let ?C = "chain_aborts ctx seed"
  note defs = ring_power_is seed_chain_0 chain_next chain_nexts Let_def
  have three: "(\<exists>j < 3 + n * m. ?C j) \<longleftrightarrow> ?C 0 \<or> ?C 1 \<or> ?C 2 \<or> (\<exists>j < n * m. ?C (3 + j))"
    unfolding ex_less_shift [of 3] by (simp add: numeral_eq_Suc Ex_less_Suc2)
  have two: "(\<exists>j < 2 + n * m. ?C j) \<longleftrightarrow> ?C 0 \<or> ?C 1 \<or> (\<exists>j < n * m. ?C (2 + j))"
    unfolding ex_less_shift [of 2] by (simp add: numeral_eq_Suc Ex_less_Suc2)
  have topics: "(\<exists>j < k + 3 + n * m. ?C j) \<longleftrightarrow> (\<exists>j < k + 1. ?C j) \<or> ?C (k + 1) \<or> ?C (k + 2) \<or> (\<exists>j < n * m. ?C (k + 3 + j))"
    unfolding ex_less_shift [of "k + 3"] by (simp add: numeral_eq_Suc Ex_less_Suc disj_assoc) (blast intro: less_SucI)
  show "secp256k1_ringcip_context_create geng0 (Suc fuel) ctx L n m seed None =
     (if \<exists>j < 3 + n * m. ?C j then None
      else Some \<lparr>rctx_L = L, rctx_n = n, rctx_m = m, rctx_N = n ^ m,
        rctx_multigen = map (chain_generator ctx seed) [3 ..< 3 + n * m], rctx_geng = chain_generator ctx seed 0,
        rctx_genh = chain_generator ctx seed 1, rctx_genmu = chain_generator ctx seed 2\<rparr>)"
    unfolding three secp256k1_ringcip_context_create_def defs by (simp add: eval_nat_numeral chain_next chain_nexts del: ring_next_generator.simps ring_next_generators.simps)
  show "secp256k1_ringcip_context_create geng0 (Suc fuel) ctx L n m seed (Some blind) =
     (if \<exists>j < 2 + n * m. ?C j then None
      else Some \<lparr>rctx_L = L, rctx_n = n, rctx_m = m, rctx_N = n ^ m,
        rctx_multigen = map (chain_generator ctx seed) [2 ..< 2 + n * m],
        rctx_geng = (case secp256k1_generator_parse (secp256k1_generator_serialize blind) of None \<Rightarrow> geng0 | Some g \<Rightarrow> g),
        rctx_genh = chain_generator ctx seed 0, rctx_genmu = chain_generator ctx seed 1\<rparr>)"
    unfolding two secp256k1_ringcip_context_create_def defs by (simp add: eval_nat_numeral chain_next chain_nexts del: ring_next_generator.simps ring_next_generators.simps)
  show "secp256k1_ringcip_DBPoE_context_create (Suc fuel) ctx L n m seed topics k =
     (if \<exists>j < k + 3 + n * m. ?C j then None
      else Some \<lparr>dctx_L = L, dctx_n = n, dctx_m = m, dctx_N = n ^ m,
        dctx_multigen = map (chain_generator ctx seed) [k + 3 ..< k + 3 + n * m],
        dctx_geng = map (chain_generator ctx seed) [0 ..< k + 1], dctx_genh = chain_generator ctx seed (k + 1),
        dctx_genmu = chain_generator ctx seed (k + 2), dctx_topics = topics, dctx_topic_size = k\<rparr>)"
    unfolding topics secp256k1_ringcip_DBPoE_context_create_def defs
    by (simp add: eval_nat_numeral chain_next chain_nexts del: ring_next_generator.simps ring_next_generators.simps)
  show "ring_next_generator (Suc fuel) ctx buf =
     map_option (\<lambda>r. (snd r, sha256_spec buf)) (secp256k1_generator_generate ctx (sha256_spec buf))"
    using ring_next_generator_once [of fuel ctx buf] by (simp add: sha256_parts_is Let_def del: ring_next_generator.simps)
qed

end
