(* ===== verification/Hash_Spec.thy ===== *)
theory Hash_Spec
  imports Hash_Stream
begin

text \<open>
  What the hash component promises: SHA-256 and HMAC of the standards for every cutting of the
  message into writes, and a generator of nonces that is a function of its key alone.
\<close>

section \<open>Shared facts\<close>

text \<open>The generator of RFC 6979 over HMAC, without contexts.\<close>

definition drbg_init :: "u8 list \<Rightarrow> u8 list \<times> u8 list" where
  "drbg_init key = (
     let v = replicate 32 1; k = replicate 32 0;
         k = hmac_spec k (v @ 0 # key); v = hmac_spec k v;
         k = hmac_spec k (v @ 1 # key); v = hmac_spec k v
     in (k, v))"

text \<open>The first requests of 32 bytes: the keys are stirred between requests.\<close>

fun drbg_blocks :: "u8 list \<Rightarrow> u8 list \<Rightarrow> nat \<Rightarrow> u8 list list" where
  "drbg_blocks k v 0 = []"
| "drbg_blocks k v (Suc j) = (
     let v = hmac_spec k v;
         k' = hmac_spec k (v @ [0]);
         v' = hmac_spec k' v
     in v # drbg_blocks k' v' j)"

fun rng_blocks :: "hmac_garbage \<Rightarrow> secp256k1_rfc6979_hmac_sha256 \<Rightarrow> nat \<Rightarrow> u8 list list" where
  "rng_blocks g rng 0 = []"
| "rng_blocks g rng (Suc j) = (case secp256k1_rfc6979_hmac_sha256_generate g rng 32 of (b, rng) \<Rightarrow> b # rng_blocks g rng j)"

lemma generate_32:
  assumes g: "garbage_ok g"
  shows "secp256k1_rfc6979_hmac_sha256_generate g rng 32 = (
    let (k, v) = (if rng_retry rng then let k = hmac_spec (rng_k rng) (rng_v rng @ [0]) in (k, hmac_spec k (rng_v rng))
                  else (rng_k rng, rng_v rng))
    in (hmac_spec k v, \<lparr>rng_v = hmac_spec k v, rng_k = k, rng_retry = True\<rparr>))"
  by (simp add: secp256k1_rfc6979_hmac_sha256_generate_def rfc6979_generate_loop.simps [of g _ _ 32]
      rfc6979_generate_loop.simps [of g _ _ 0] hmac_parts_is [OF g] Let_def hmac_spec_length split: prod.splits)

lemma rng_blocks_retry:
  assumes g: "garbage_ok g"
  shows "rng_blocks g \<lparr>rng_v = v, rng_k = k, rng_retry = True\<rparr> j =
    (let k' = hmac_spec k (v @ [0]) in drbg_blocks k' (hmac_spec k' v) j)"
proof (induction j arbitrary: k v)
  case (Suc j)
  then show ?case by (simp add: generate_32 [OF g] Let_def)
qed simp

section \<open>Properties\<close>

text \<open>C7: a SHA-256 context that is initialized, written to any number of times and finalized returns
  the digest that FIPS 180-4 defines for the concatenation of the data (its schedule, its 64 rounds,
  its padding), whatever the lengths of the pieces and whatever the context held before; the code's
  buffering, its 64 unrolled rounds and its byte swaps change nothing.\<close>

theorem sha256_streaming:
  assumes "length (sha_buf hash) = 64"
  shows "fst (secp256k1_sha256_finalize
      (fold (\<lambda>d sha. secp256k1_sha256_write sha d) parts (secp256k1_sha256_initialize hash))) = sha256_spec (concat parts) \<and>
    sha256_parts parts = sha256_spec (concat parts)"
  using sha.digest [OF sha_is_initialize [OF assms], of parts] sha256_parts_is by simp

theorem sha256_streaming_witness:
  "fst (secp256k1_sha256_finalize (secp256k1_sha256_write (secp256k1_sha256_write
     (secp256k1_sha256_initialize sha256_local) [1, 2]) [3])) = sha256_spec [1, 2, 3]"
  using sha256_streaming [of sha256_local "[[1, 2], [3]]"] by (simp add: sha256_local_def)

text \<open>C37: HMAC as FIPS 198-1 defines it over SHA-256, for keys shorter and longer than a block and for
  every cutting of the message; and the deterministic generator on top of it returns the sequence of
  outputs of RFC 6979, which depends on the key alone: neither the uninitialized locals of the code
  nor the contexts it reuses leak into the nonces.\<close>

theorem hmac_and_nonces:
  assumes g: "garbage_ok g"
  shows "hmac_parts g key parts = sha256_spec (map (\<lambda>b. b XOR 0x5c) (hmac_key key) @
      sha256_spec (map (\<lambda>b. b XOR 0x36) (hmac_key key) @ concat parts)) \<and>
    rng_blocks g (secp256k1_rfc6979_hmac_sha256_initialize g seed) j = (case drbg_init seed of (k, v) \<Rightarrow> drbg_blocks k v j)"
proof
  show "hmac_parts g key parts = sha256_spec (map (\<lambda>b. b XOR 0x5c) (hmac_key key) @
      sha256_spec (map (\<lambda>b. b XOR 0x36) (hmac_key key) @ concat parts))"
    using hmac_parts_is [OF g] by (simp add: hmac_spec_def)
  have i: "secp256k1_rfc6979_hmac_sha256_initialize g seed =
      (case drbg_init seed of (k, v) \<Rightarrow> \<lparr>rng_v = v, rng_k = k, rng_retry = False\<rparr>)"
    by (simp add: secp256k1_rfc6979_hmac_sha256_initialize_def drbg_init_def hmac_parts_is [OF g] Let_def)
  show "rng_blocks g (secp256k1_rfc6979_hmac_sha256_initialize g seed) j = (case drbg_init seed of (k, v) \<Rightarrow> drbg_blocks k v j)"
    by (cases j) (simp_all add: i generate_32 [OF g] rng_blocks_retry [OF g] Let_def split: prod.splits)
qed

theorem hmac_and_nonces_witness:
  "hmac_parts (\<lparr>hmac_inner = sha256_local, hmac_outer = sha256_local\<rparr>, sha256_local) [] [[1]] =
     sha256_spec (replicate 64 0x5c @ sha256_spec (replicate 64 0x36 @ [1]))"
  using hmac_and_nonces [OF hmac_local_ok, of "[]" "[[1]]"] by (simp add: hmac_key_def)

end
