(* ===== verification/Chacha_Law.thy ===== *)
theory Chacha_Law
  imports Scalar_Shift Hash_Stream
begin

text \<open>
  The block function inside \<^verbatim>\<open>secp256k1_scalar_chacha20\<close> against RFC 8439: the state as a matrix of
  four by four words, rounds on columns and diagonals, and the key stream as bytes.
\<close>

section \<open>The standard\<close>

definition chacha_quarter :: "u32 \<times> u32 \<times> u32 \<times> u32 \<Rightarrow> u32 \<times> u32 \<times> u32 \<times> u32" where
  "chacha_quarter = (\<lambda>(a, b, c, d).
     let a = a + b; d = word_rotl 16 (d XOR a); c = c + d; b = word_rotl 12 (b XOR c);
         a = a + b; d = word_rotl 8 (d XOR a); c = c + d; b = word_rotl 7 (b XOR c)
     in (a, b, c, d))"

text \<open>Rows and columns are counted from 0. A diagonal is a column after row \<open>r\<close> has been turned by \<open>r\<close>.\<close>

definition chacha_columns :: "(nat \<Rightarrow> nat \<Rightarrow> u32) \<Rightarrow> nat \<Rightarrow> nat \<Rightarrow> u32" where
  "chacha_columns m r j = (case chacha_quarter (m 0 j, m 1 j, m 2 j, m 3 j) of (a, b, c, d) \<Rightarrow> [a, b, c, d] ! r)"

definition chacha_diagonals :: "(nat \<Rightarrow> nat \<Rightarrow> u32) \<Rightarrow> nat \<Rightarrow> nat \<Rightarrow> u32" where
  "chacha_diagonals m r j = chacha_columns (\<lambda>r j. m r ((j + r) mod 4)) r ((j + 4 - r) mod 4)"

definition chacha_rounds :: "nat \<Rightarrow> (nat \<Rightarrow> nat \<Rightarrow> u32) \<Rightarrow> nat \<Rightarrow> nat \<Rightarrow> u32" where
  "chacha_rounds n = (\<lambda>m. chacha_diagonals (chacha_columns m)) ^^ n"

definition le_number :: "u8 list \<Rightarrow> nat \<Rightarrow> u32" where
  "le_number bs i = of_nat (\<Sum>j < 4. unat (bs ! (4 * i + j)) * 256 ^ j)"

definition le_string :: "u32 \<Rightarrow> u8 list" where
  "le_string w = map (\<lambda>j. of_nat (unat w div 256 ^ j)) [0 ..< 4]"

definition chacha_state :: "u8 list \<Rightarrow> u32 \<Rightarrow> u8 list \<Rightarrow> nat \<Rightarrow> nat \<Rightarrow> u32" where
  "chacha_state key counter nonce r j =
     le_number (map of_char ''expand 32-byte k'' @ key @ le_string counter @ nonce) (4 * r + j)"

definition chacha_keystream :: "u8 list \<Rightarrow> u32 \<Rightarrow> u8 list \<Rightarrow> u8 list" where
  "chacha_keystream key counter nonce = (
     let s = chacha_state key counter nonce
     in concat (map (\<lambda>i. le_string (chacha_rounds 10 s (i div 4) (i mod 4) + s (i div 4) (i mod 4))) [0 ..< 16]))"

section \<open>The rounds\<close>

definition chacha_list :: "(nat \<Rightarrow> nat \<Rightarrow> u32) \<Rightarrow> u32 list" where
  "chacha_list m = map (\<lambda>i. m (i div 4) (i mod 4)) [0 ..< 16]"

lemma chacha_list_eq: "chacha_list m = [m 0 0, m 0 1, m 0 2, m 0 3, m 1 0, m 1 1, m 1 2, m 1 3,
    m 2 0, m 2 1, m 2 2, m 2 3, m 3 0, m 3 1, m 3 2, m 3 3]"
  by (simp add: chacha_list_def upt_rec numeral_2_eq_2 [symmetric] numeral_3_eq_3 [symmetric])

lemma rotl32_is: "0 < n \<Longrightarrow> n < 32 \<Longrightarrow> rotl32 x n = word_rotl n x"
proof (rule bit_word_eqI)
  fix k
  assume n: "0 < n" "n < 32" and "k < LENGTH(32)"
  then have k: "k < 32" by simp
  have "(k + (32 - n)) mod 32 = (if n \<le> k then k - n else k + 32 - n)"
  proof (cases "n \<le> k")
    case True
    then have e: "k + (32 - n) = (k - n) + 32" using n by simp
    show ?thesis unfolding e using True k by (metis mod_add_self2 mod_less less_imp_diff_less)
  qed (use n in simp)
  then show "bit (rotl32 x n) k = bit (word_rotl n x) k"
    using n k by (auto simp: rotl32_def bit_simps bit_word_rotl_iff add.commute [of 32] dest: bit_imp_le_length)
qed

lemma nth_update: "x[i := v] ! j = (if i = j \<and> j < length x then v else x ! j)"
  by (cases "i < length x") (auto simp: list_update_beyond)

lemma updates_swap:
  assumes "distinct [a, b, c, d]"
  shows "x[a := a1, d := d1, c := c1, b := b1, a := a2, d := d2, c := c2, b := b2] = x[a := a2, b := b2, c := c2, d := d2]"
  using assms by (auto intro!: nth_equalityI simp: nth_update)

lemma quarterround_is:
  assumes d: "distinct [a, b, c, d]" and l: "a < length x" "b < length x" "c < length x" "d < length x"
  shows "quarterround a b c d x =
    (case chacha_quarter (x ! a, x ! b, x ! c, x ! d) of (p, q, r, s) \<Rightarrow> x[a := p, b := q, c := r, d := s])"
proof -
  have n: "a \<noteq> b" "a \<noteq> c" "a \<noteq> d" "b \<noteq> c" "b \<noteq> d" "c \<noteq> d" using d by auto
  define a1 where "a1 = x ! a + x ! b"
  define d1 where "d1 = word_rotl 16 (x ! d XOR a1)"
  define c1 where "c1 = x ! c + d1"
  define b1 where "b1 = word_rotl 12 (x ! b XOR c1)"
  define a2 where "a2 = a1 + b1"
  define d2 where "d2 = word_rotl 8 (d1 XOR a2)"
  define c2 where "c2 = c1 + d2"
  define b2 where "b2 = word_rotl 7 (b1 XOR c2)"
  note defs = a1_def d1_def c1_def b1_def a2_def d2_def c2_def b2_def
  have "quarterround a b c d x = x[a := a1, d := d1, c := c1, b := b1, a := a2, d := d2, c := c2, b := b2]"
    using n n [symmetric] l by (simp add: quarterround_def rotl32_is Let_def flip: defs)
  moreover have "chacha_quarter (x ! a, x ! b, x ! c, x ! d) = (a2, b2, c2, d2)"
    by (simp add: chacha_quarter_def Let_def flip: defs)
  ultimately show ?thesis using updates_swap [OF d] by simp
qed

lemma doubleround_is: "chacha20_doubleround (chacha_list m) = chacha_list (chacha_diagonals (chacha_columns m))"
proof -
  have columns: "quarterround 3 7 11 15 (quarterround 2 6 10 14 (quarterround 1 5 9 13 (quarterround 0 4 8 12 (chacha_list m)))) =
      chacha_list (chacha_columns m)" for m
  proof -
    obtain a0 b0 c0 d0 where 0: "chacha_quarter (m 0 0, m 1 0, m 2 0, m 3 0) = (a0, b0, c0, d0)" by (metis prod_cases4)
    obtain a1 b1 c1 d1 where 1: "chacha_quarter (m 0 1, m 1 1, m 2 1, m 3 1) = (a1, b1, c1, d1)" by (metis prod_cases4)
    obtain a2 b2 c2 d2 where 2: "chacha_quarter (m 0 2, m 1 2, m 2 2, m 3 2) = (a2, b2, c2, d2)" by (metis prod_cases4)
    obtain a3 b3 c3 d3 where 3: "chacha_quarter (m 0 3, m 1 3, m 2 3, m 3 3) = (a3, b3, c3, d3)" by (metis prod_cases4)
    show ?thesis
      using 0 1 2 3 by (simp add: chacha_list_eq quarterround_is chacha_columns_def)
  qed
  have diagonals: "quarterround 3 4 9 14 (quarterround 2 7 8 13 (quarterround 1 6 11 12 (quarterround 0 5 10 15 (chacha_list m)))) =
      chacha_list (chacha_diagonals m)" for m
  proof -
    obtain a0 b0 c0 d0 where 0: "chacha_quarter (m 0 0, m 1 1, m 2 2, m 3 3) = (a0, b0, c0, d0)" by (metis prod_cases4)
    obtain a1 b1 c1 d1 where 1: "chacha_quarter (m 0 1, m 1 2, m 2 3, m 3 0) = (a1, b1, c1, d1)" by (metis prod_cases4)
    obtain a2 b2 c2 d2 where 2: "chacha_quarter (m 0 2, m 1 3, m 2 0, m 3 1) = (a2, b2, c2, d2)" by (metis prod_cases4)
    obtain a3 b3 c3 d3 where 3: "chacha_quarter (m 0 3, m 1 0, m 2 1, m 3 2) = (a3, b3, c3, d3)" by (metis prod_cases4)
    show ?thesis
      using 0 1 2 3 by (simp add: chacha_list_eq quarterround_is chacha_diagonals_def chacha_columns_def numeral_2_eq_2 [symmetric])
  qed
  show ?thesis unfolding chacha20_doubleround_def Let_def columns diagonals ..
qed

lemma rounds_is: "(chacha20_doubleround ^^ n) (chacha_list m) = chacha_list (chacha_rounds n m)"
  by (induction n) (simp_all add: chacha_rounds_def doubleround_is)

text \<open>The test vector of section 2.1.1.\<close>

lemma chacha_quarter_vector:
  "chacha_quarter (0x11111111, 0x01020304, 0x9b8d6f43, 0x01234567) = (0xea2a92f4, 0xcb1cf8ce, 0x4581472e, 0x5881c4bb)"
  by (simp add: chacha_quarter_def rotl32_is [symmetric] rotl32_def)

section \<open>Bytes and words\<close>

lemma sum_4: "(\<Sum>j < 4. f j) = f 0 + f 1 + f 2 + f (3 :: nat)" for f :: "nat \<Rightarrow> nat"
  by (simp add: eval_nat_numeral)

lemma le_number_bytes:
  "le_number bs i = ucast (bs ! (4 * i)) OR push_bit 8 (ucast (bs ! (4 * i + 1)))
     OR push_bit 16 (ucast (bs ! (4 * i + 2))) OR push_bit 24 (ucast (bs ! (4 * i + 3)))"
proof -
  have "bnd (ucast p0 OR push_bit 8 (ucast p1) OR push_bit 16 (ucast p2) OR push_bit 24 (ucast p3) :: u32)
      (unat p0 + unat p1 * 2 ^ 8 + unat p2 * 2 ^ 16 + unat p3 * 2 ^ 24) 0xFFFFFFFF" for p0 p1 p2 p3 :: u8
    unfolding or.assoc [symmetric]
    by (rule bnd_weaken, ((rule bnd_or_push bnd_ucast bnd_byte | simp)+)[1], simp)
  note e = this [THEN bnd_unat]
  have "unat (ucast p0 OR push_bit 8 (ucast p1) OR push_bit 16 (ucast p2) OR push_bit 24 (ucast p3) :: u32) =
      unat p0 * 256 ^ 0 + unat p1 * 256 ^ 1 + unat p2 * 256 ^ 2 + unat p3 * 256 ^ 3" for p0 p1 p2 p3 :: u8
    unfolding e by simp
  then have "of_nat (unat p0 * 256 ^ 0 + unat p1 * 256 ^ 1 + unat p2 * 256 ^ 2 + unat p3 * 256 ^ 3) =
      (ucast p0 OR push_bit 8 (ucast p1) OR push_bit 16 (ucast p2) OR push_bit 24 (ucast p3) :: u32)" for p0 p1 p2 p3 :: u8
    by (metis of_nat_unat ucast_id)
  then show ?thesis unfolding le_number_def sum_4 by simp
qed

lemma le_number_word: "le_number bs i = le32_word bs i"
  unfolding le_number_bytes le32_word_def ..

lemma le_string_bytes: "le_string w = [ucast w, ucast (drop_bit 8 w), ucast (drop_bit 16 w), ucast (drop_bit 24 w)]"
proof -
  have "of_nat (unat w div 2 ^ k) = (ucast (drop_bit k w) :: u8)" for k
  proof -
    have "unat w div 2 ^ k = unat (drop_bit k w)" using bnd_unat [OF bnd_drop_bit [OF bnd_self [OF order_refl]]] by metis
    then show ?thesis by simp
  qed
  from this [of 0] this [of 8] this [of 16] this [of 24] show ?thesis by (simp add: le_string_def upt_rec)
qed


lemma le_string_length: "length (le_string w) = 4"
  by (simp add: le_string_bytes)

lemma le_number_string: "le_number (xs @ le_string w @ ys) i = w" if "length xs = 4 * i"
proof -
  have n: "(xs @ le_string w @ ys) ! (4 * i + j) = le_string w ! j" if "j < 4" for j
    using that \<open>length xs = 4 * i\<close> by (simp add: nth_append le_string_length)
  have "ucast (ucast w :: u8) OR push_bit 8 (ucast (ucast (drop_bit 8 w) :: u8))
      OR push_bit 16 (ucast (ucast (drop_bit 16 w) :: u8)) OR push_bit 24 (ucast (ucast (drop_bit 24 w) :: u8)) = w"
  proof (rule bit_word_eqI)
    show "bit (ucast (ucast w :: u8) OR push_bit 8 (ucast (ucast (drop_bit 8 w) :: u8))
      OR push_bit 16 (ucast (ucast (drop_bit 16 w) :: u8)) OR push_bit 24 (ucast (ucast (drop_bit 24 w) :: u8)) :: u32) k = bit w k"
      if "k < LENGTH(32)" for k
      using that by (cases "k < 16"; cases "k < 24") (auto simp: bit_simps)
  qed
  then show ?thesis
    unfolding le_number_bytes using n [of 0] n [of 1] n [of 2] n [of 3] by (simp add: le_string_bytes)
qed

lemma byte_word_value:
  "unat (ucast p0 OR push_bit 8 (ucast p1) OR push_bit 16 (ucast p2) OR push_bit 24 (ucast p3) :: u32) = be_nat [p3, p2, p1, p0]"
proof -
  have "bnd (ucast p0 OR push_bit 8 (ucast p1) OR push_bit 16 (ucast p2) OR push_bit 24 (ucast p3) :: u32)
      (unat p0 + unat p1 * 2 ^ 8 + unat p2 * 2 ^ 16 + unat p3 * 2 ^ 24) 0xFFFFFFFF"
    unfolding or.assoc [symmetric]
    by (rule bnd_weaken, ((rule bnd_or_push bnd_ucast bnd_byte | simp)+)[1], simp)
  from bnd_unat [OF this] show ?thesis by simp
qed

lemma swap_value: "unat (be32_swap w) = be_nat (le_string w)"
proof -
  have "be32_swap w = BE32 w" unfolding be32_swap_def BE32_def or.assoc ..
  also have "\<dots> = ucast (ucast (drop_bit 24 w) :: u8) OR push_bit 8 (ucast (ucast (drop_bit 16 w) :: u8))
      OR push_bit 16 (ucast (ucast (drop_bit 8 w) :: u8)) OR push_bit 24 (ucast (ucast w :: u8))"
    unfolding BE32_bytes by (rule bit_word_eqI) (auto simp: bit_simps)
  finally show ?thesis by (simp only: byte_word_value le_string_bytes)
qed

lemma pair_value: "unat (chacha20_pair x i) = be_nat (le_string (x ! i) @ le_string (x ! (i + 1)))"
proof -
  have b: "bnd (be32_swap w) (be_nat (le_string w)) 0xFFFFFFFF" for w
    using be_nat_less [of "le_string w"] by (simp add: bnd_def swap_value le_string_length)
  have "bnd (chacha20_pair x i) (be_nat (le_string (x ! (i + 1))) + be_nat (le_string (x ! i)) * 2 ^ 32) 0xFFFFFFFFFFFFFFFF"
    unfolding chacha20_pair_def or.commute [of "push_bit 32 _"]
    by (rule bnd_weaken, rule bnd_or_push [OF bnd_ucast [OF b] bnd_ucast [OF b]]) simp_all
  from bnd_unat [OF this] show ?thesis by (simp add: be_nat_append le_string_length)
qed

section \<open>The turns of the loop\<close>

text \<open>
  The key stream of turn \<open>k\<close>: the seed is the key, the lower half of the index the block counter, and the
  nonce is the upper half of the index, four zero bytes and the number of the turn modulo \<open>2 ^ 32\<close>.
\<close>

definition turn_keystream :: "u8 list \<Rightarrow> u64 \<Rightarrow> nat \<Rightarrow> u8 list" where
  "turn_keystream seed idx k = chacha_keystream (map ((!) seed) [0 ..< 32]) (ucast idx)
     (le_string (ucast (drop_bit 32 idx)) @ replicate 4 0 @ le_string (of_nat k))"

lemma input_is:
  "chacha20_input seed idx k = chacha_list (chacha_state (map ((!) seed) [0 ..< 32]) (ucast idx)
     (le_string (ucast (drop_bit 32 idx)) @ replicate 4 0 @ le_string (of_nat k)))"
proof -
  define cs :: "u8 list" where "cs = map of_char ''expand 32-byte k''"
  define ky where "ky = map ((!) seed) [0 ..< 32]"
  define z :: "u8 list" where "z = replicate 4 0"
  have l: "length cs = 16" "length ky = 32" "length z = 4" by (simp_all add: cs_def ky_def z_def)
  have z: "z = le_string 0" by (simp add: z_def le_string_bytes numeral_eq_Suc)
  have c: "le_number (cs @ xs) i = [0x61707865, 0x3320646e, 0x79622d32, 0x6b206574] ! i" if "i < 4" for xs i
  proof -
    have "i = 0 \<or> i = 1 \<or> i = 2 \<or> i = 3" using that by auto
    then show ?thesis by (auto simp: le_number_def sum_4 cs_def)
  qed
  have key: "le_number (cs @ ky @ xs) (4 + i) = le32_word seed i" if "i < 8" for xs i
  proof -
    have "(cs @ ky @ xs) ! (4 * (4 + i) + j) = seed ! (4 * i + j)" if "j < 4" for j
    proof -
      have e: "4 * (4 + i) + j = length cs + (4 * i + j)" by (simp add: l)
      have "4 * i + j < 32" using that \<open>i < 8\<close> by simp
      then show ?thesis unfolding e nth_append_length_plus by (simp add: nth_append ky_def)
    qed
    from this [of 0] this [of 1] this [of 2] this [of 3] show ?thesis
      unfolding le_number_word le32_word_def by simp
  qed
  have t: "le_number (cs @ ky @ le_string a @ le_string b @ z @ le_string d) (12 + i) = [a, b, 0, d] ! i" if "i < 4" for a b d i
  proof -
    have "i = 0 \<or> i = 1 \<or> i = 2 \<or> i = 3" using that by auto
    then show ?thesis
      using le_number_string [of "cs @ ky" 12 a "le_string b @ z @ le_string d"]
        le_number_string [of "cs @ ky @ le_string a" 13 b "z @ le_string d"]
        le_number_string [of "cs @ ky @ le_string a @ le_string b" 14 0 "le_string d"]
        le_number_string [of "cs @ ky @ le_string a @ le_string b @ z" 15 d "[]"]
      by (auto simp: l le_string_length z)
  qed
  note key' = key [of 0] key [of 1] key [of 2] key [of 3] key [of 4] key [of 5] key [of 6] key [of 7]
  note c' = c [of 0] c [of 1] c [of 2] c [of 3]
  note t' = t [of 0] t [of 1] t [of 2] t [of 3]
  have u: "[0 ..< 8] = [0, 1, 2, 3, 4, 5, 6, 7 :: nat]" by code_simp
  show ?thesis
    unfolding chacha20_input_def chacha_list_eq chacha_state_def u cs_def [symmetric] ky_def [symmetric] z_def [symmetric]
    using c' key' t' by (simp add: numeral_2_eq_2 [symmetric])
qed

lemma keystream_words:
  "chacha_keystream key counter nonce = concat (map le_string
     (map2 (+) (chacha_list (chacha_rounds 10 (chacha_state key counter nonce))) (chacha_list (chacha_state key counter nonce))))"
  by (simp add: chacha_keystream_def chacha_list_def Let_def map2_map_map comp_def)

text \<open>The two scalars of a turn are the halves of the key stream, read as big-endian numbers.\<close>

lemma block_is:
  "sc_val (fst (chacha20_block seed idx k)) = be_nat (take 32 (turn_keystream seed idx k)) \<and>
   sc_val (snd (chacha20_block seed idx k)) = be_nat (drop 32 (turn_keystream seed idx k))"
proof -
  define s where "s = chacha_state (map ((!) seed) [0 ..< 32]) (ucast idx)
     (le_string (ucast (drop_bit 32 idx)) @ replicate 4 0 @ le_string (of_nat k))"
  define x where "x = map2 (+) (chacha_list (chacha_rounds 10 s)) (chacha_list s)"
  have i: "chacha20_input seed idx k = chacha_list s" unfolding s_def by (rule input_is)
  have t: "turn_keystream seed idx k = concat (map le_string x)"
    unfolding turn_keystream_def keystream_words x_def s_def ..
  have "length x = 16" by (simp add: x_def chacha_list_def)
  from list_eq_map_nth [OF this] have "map le_string x = map le_string (map ((!) x) [0 ..< 16])" by (rule arg_cong)
  also have "[0 ..< 16] = [0, 1, 2, 3, 4, 5, 6, 7, 8, 9, 10, 11, 12, 13, 14, 15 :: nat]" by code_simp
  finally have e: "map le_string x = map (\<lambda>i. le_string (x ! i)) [0, 1, 2, 3, 4, 5, 6, 7, 8, 9, 10, 11, 12, 13, 14, 15]"
    by (simp only: map_map comp_def)
  have "concat (map f [0, 1, 2, 3, 4, 5, 6, 7, 8, 9, 10, 11, 12, 13, 14, 15]) =
      concat (map f [0, 1, 2, 3, 4, 5, 6, 7]) @ concat (map f [8, 9, 10, 11, 12, 13, 14, 15])" for f :: "nat \<Rightarrow> u8 list" by simp
  note c = this [of "\<lambda>i. le_string (x ! i)", folded e]
  have l: "length (concat (map (\<lambda>i. le_string (x ! i)) [a0, a1, a2, a3, a4, a5, a6, a7])) = 32" for a0 a1 a2 a3 a4 a5 a6 a7
    by (simp add: le_string_length)
  have b: "chacha20_block seed idx k =
      (\<lparr>sc0 = chacha20_pair x 6, sc1 = chacha20_pair x 4, sc2 = chacha20_pair x 2, sc3 = chacha20_pair x 0\<rparr>,
       \<lparr>sc0 = chacha20_pair x 14, sc1 = chacha20_pair x 12, sc2 = chacha20_pair x 10, sc3 = chacha20_pair x 8\<rparr>)"
    by (simp add: chacha20_block_def Let_def i rounds_is x_def)
  show ?thesis
    unfolding t c b using l
    by (simp add: sc_val_def pair_value be_nat_append le_string_length)
qed

text \<open>A counter of 32 bits repeats itself.\<close>

lemma turn_keystream_periodic: "turn_keystream seed idx (k mod 2 ^ 32) = turn_keystream seed idx k"
proof -
  have "(of_nat (k mod 2 ^ 32) :: u32) = of_nat k"
    by (rule word_unat_eq_iff [THEN iffD2]) (simp add: unsigned_of_nat take_bit_eq_mod)
  then show ?thesis by (simp add: turn_keystream_def)
qed

definition turn_good :: "u8 list \<Rightarrow> u64 \<Rightarrow> nat \<Rightarrow> bool" where
  "turn_good seed idx k \<longleftrightarrow>
     be_nat (take 32 (turn_keystream seed idx k)) < order_n \<and> be_nat (drop 32 (turn_keystream seed idx k)) < order_n"

lemma chacha20_good_is: "chacha20_good seed idx k \<longleftrightarrow> turn_good seed idx k"
  using block_is [of seed idx k] by (simp add: chacha20_good_def turn_good_def)

lemma turn_good_small: "turn_good seed idx k \<Longrightarrow> (LEAST k. turn_good seed idx k) < 2 ^ 32"
proof -
  assume "turn_good seed idx k"
  then have "turn_good seed idx (k mod 2 ^ 32)" by (simp only: turn_good_def turn_keystream_periodic)
  then have "(LEAST k. turn_good seed idx k) \<le> k mod 2 ^ 32" by (rule Least_le)
  then show ?thesis by (rule le_less_trans) simp
qed

lemma chacha20_is:
  "secp256k1_scalar_chacha20 fuel seed idx =
     (if \<exists>k < fuel. turn_good seed idx k then Some (chacha20_block seed idx (LEAST k. turn_good seed idx k)) else None)"
proof (cases "\<exists>k < fuel. turn_good seed idx k")
  case True
  define m where "m = (LEAST k. turn_good seed idx k)"
  have m: "turn_good seed idx m" unfolding m_def using True by (auto intro: LeastI)
  have least: "m \<le> k" if "turn_good seed idx k" for k unfolding m_def using that by (rule Least_le)
  have "m < fuel" using True least by (auto intro: order_le_less_trans)
  moreover have "\<not> turn_good seed idx i" if "i < m" for i using that least [of i] by auto
  ultimately have "chacha20_loop fuel seed idx 0 = Some (chacha20_block seed idx m)"
    using m by (auto simp: chacha20_loop_iff chacha20_good_is)
  then show ?thesis using True by (simp add: secp256k1_scalar_chacha20_def m_def)
next
  case False
  then have "chacha20_loop fuel seed idx 0 \<noteq> Some p" for p by (auto simp: chacha20_loop_iff chacha20_good_is)
  then have "chacha20_loop fuel seed idx 0 = None" by (cases "chacha20_loop fuel seed idx 0") auto
  then show ?thesis using False by (simp add: secp256k1_scalar_chacha20_def)
qed

end
