(* ===== verification/Scalar_Spec.thy ===== *)
theory Scalar_Spec
  imports Chacha_Law
begin

text \<open>
  What the scalar component promises, stated on limbs and natural numbers: arithmetic modulo the
  group order with the carry reported, the byte round trip, bit windows, the rounded product and
  the endomorphism split, and the rejection loop of ChaCha20.
\<close>

section \<open>Shared facts\<close>

definition sc_num :: "u64 \<Rightarrow> secp256k1_scalar" where
  "sc_num k = \<lparr>sc0 = k, sc1 = 0, sc2 = 0, sc3 = 0\<rparr>"

text \<open>The largest limbs, far above the order, and the predecessor of the order.\<close>

definition sc_max :: secp256k1_scalar where
  "sc_max = \<lparr>sc0 = 0xFFFFFFFFFFFFFFFF, sc1 = 0xFFFFFFFFFFFFFFFF, sc2 = 0xFFFFFFFFFFFFFFFF, sc3 = 0xFFFFFFFFFFFFFFFF\<rparr>"

definition sc_top :: secp256k1_scalar where
  "sc_top = \<lparr>sc0 = 0xBFD25E8CD0364140, sc1 = 0xBAAEDCE6AF48A03B, sc2 = 0xFFFFFFFFFFFFFFFE, sc3 = 0xFFFFFFFFFFFFFFFF\<rparr>"

lemma sc_num_val: "sc_val (sc_num k) = unat k"
  by (simp add: sc_num_def sc_val_def)

lemma sc_top_val: "sc_val sc_top = order_n - 1"
  by (simp add: sc_top_def sc_val_def order_n_def)

lemma sc_max_val: "sc_val sc_max = 2 ^ 256 - 1"
  by (simp add: sc_max_def sc_val_def)

lemma sc_is_val: "sc_val a < order_n \<Longrightarrow> sc_is (of_nat (sc_val a)) a"
  by (simp add: sc_is_def fn_nat_of_nat)

section \<open>Properties\<close>

text \<open>C22: scalar multiplication of any two four-limb numbers, reduced or not, is the product
  modulo the group order, and the dedicated squaring agrees with it limb for limb.\<close>

theorem scalar_mul_correct:
  "sc_val (secp256k1_scalar_mul a b) = sc_val a * sc_val b mod order_n \<and>
   secp256k1_scalar_sqr a = secp256k1_scalar_mul a a"
  using secp256k1_scalar_reduce_512_is [OF mul_512_is] secp256k1_scalar_reduce_512_is [OF sqr_512_is]
  by (simp add: secp256k1_scalar_mul_def secp256k1_scalar_sqr_def sc_val_inject flip: sc_val_inject)

text \<open>Addition of two reduced scalars is the sum modulo the group order, and the returned
  word is 1 exactly when the order was subtracted.\<close>

theorem scalar_add_correct:
  assumes "sc_val a < order_n" "sc_val b < order_n"
  shows "case secp256k1_scalar_add a b of (overflow, r) \<Rightarrow>
    sc_val r = (sc_val a + sc_val b) mod order_n \<and> unat overflow = of_bool (order_n \<le> sc_val a + sc_val b)"
  using secp256k1_scalar_add_post [OF assms]
  by (cases "secp256k1_scalar_add a b") (simp only: sc_sum_post_def prod.case fst_conv snd_conv)

theorem scalar_add_correct_witness:
  "case secp256k1_scalar_add sc_top (sc_num 1) of (overflow, r) \<Rightarrow> sc_val r = 0 \<and> unat overflow = 1"
  using scalar_add_correct [of sc_top "sc_num 1"] by (simp add: sc_top_val sc_num_val order_n_def)

text \<open>Negation is exact (0 stays 0, everything else is the order minus the value), and the
  conditional negation reports the sign it applied.\<close>

theorem scalar_negate_correct:
  assumes "sc_val a < order_n"
  shows "sc_val (secp256k1_scalar_negate a) = (order_n - sc_val a) mod order_n \<and>
    secp256k1_scalar_negate (secp256k1_scalar_negate a) = a \<and>
    secp256k1_scalar_cond_negate a flag = (if flag then (- 1, secp256k1_scalar_negate a) else (1, a))"
proof -
  have v: "sc_val (secp256k1_scalar_negate b) = (if sc_val b = 0 then 0 else order_n - sc_val b)"
    if "sc_val b < order_n" for b
    by (rule secp256k1_scalar_negate_value [OF that])
  have "sc_val (secp256k1_scalar_negate (secp256k1_scalar_negate a)) = sc_val a"
    using v [OF assms] v [of "secp256k1_scalar_negate a"] assms by (auto split: if_splits)
  then show ?thesis
    using v [OF assms] assms secp256k1_scalar_cond_negate_True secp256k1_scalar_cond_negate_False
    by (auto simp: sc_val_inject)
qed

theorem scalar_negate_correct_witness:
  "sc_val (secp256k1_scalar_negate (sc_num 1)) = order_n - 1"
  using scalar_negate_correct [of "sc_num 1"] by (simp add: sc_num_val order_n_def)

text \<open>Reading 32 big-endian bytes reduces them modulo the group order and reports overflow
  exactly when they were not below it; bytes below the order are written back unchanged, and a
  reduced scalar survives being written and read.\<close>

theorem scalar_b32_roundtrip:
  assumes "length bs = 32" "sc_val a < order_n"
  shows "case secp256k1_scalar_set_b32 bs of (r, overflow) \<Rightarrow>
      sc_val r = be_nat bs mod order_n \<and> (overflow \<longleftrightarrow> order_n \<le> be_nat bs) \<and>
      (\<not> overflow \<longrightarrow> secp256k1_scalar_get_b32 r = bs) \<and>
      secp256k1_scalar_set_b32 (secp256k1_scalar_get_b32 a) = (a, False)"
  using secp256k1_scalar_set_b32_value [OF assms(1)] secp256k1_scalar_get_set_b32 [OF assms(1)]
    secp256k1_scalar_set_get_b32 [OF assms(2)]
  by (auto simp: not_le split: prod.splits)

theorem scalar_b32_roundtrip_witness:
  "snd (secp256k1_scalar_set_b32 (replicate 32 0xFF)) \<and>
   secp256k1_scalar_set_b32 (secp256k1_scalar_get_b32 (sc_num 5)) = (sc_num 5, False)"
proof -
  have "be_nat (replicate n 0xFF) + 1 = 256 ^ n" for n
    by (induction n) simp_all
  from this [of 32] have "order_n \<le> be_nat (replicate 32 0xFF)"
    by (simp add: order_n_def)
  then show ?thesis
    using scalar_b32_roundtrip [of "replicate 32 0xFF" "sc_num 5"]
    by (auto simp: sc_num_val order_n_def split: prod.splits)
qed

text \<open>The inversion chain returns the modular inverse of every nonzero scalar and 0 for 0;
  its variable-time variant is the same function.\<close>

theorem scalar_inverse_correct:
  assumes "sc_val a < order_n"
  shows "sc_val (secp256k1_scalar_inverse a) * sc_val a mod order_n = (if sc_val a = 0 then 0 else 1) \<and>
    sc_val (secp256k1_scalar_inverse a) < order_n \<and>
    secp256k1_scalar_inverse_var a = secp256k1_scalar_inverse a"
proof -
  let ?x = "of_nat (sc_val a) :: fn"
  have i: "sc_is (inverse ?x) (secp256k1_scalar_inverse a)"
    by (rule secp256k1_scalar_inverse_is [OF sc_is_val [OF assms]])
  have "sc_val (secp256k1_scalar_inverse a) * sc_val a mod order_n = fn_nat (inverse ?x * ?x)"
    using i assms by (simp add: sc_is_def fn_nat_mult fn_nat_of_nat)
  also have "inverse ?x * ?x = (if sc_val a = 0 then 0 else 1)"
    using assms of_nat_fn_eq_iff [of "sc_val a" 0] by (auto intro: left_inverse)
  finally show ?thesis
    using sc_is_lt [OF i] by (simp add: secp256k1_scalar_inverse_var_def)
qed

theorem scalar_inverse_correct_witness:
  "sc_val (secp256k1_scalar_inverse (sc_num 7)) * 7 mod order_n = 1"
  using scalar_inverse_correct [of "sc_num 7"] by (simp add: sc_num_val order_n_def)

text \<open>The bit window \<open>[offset, offset + count)\<close>, which may span two limbs, is that slice of
  the binary expansion; where the window stays inside a limb the constant-time variant returns
  the same word.\<close>

theorem scalar_get_bits_correct:
  assumes "0 < count" "count < 32" "offset + count \<le> 256"
  shows "unat (secp256k1_scalar_get_bits_var a offset count) = sc_val a div 2 ^ offset mod 2 ^ count \<and>
    ((offset + count - 1) div 64 = offset div 64 \<longrightarrow>
       secp256k1_scalar_get_bits a offset count = secp256k1_scalar_get_bits_var a offset count)"
  using secp256k1_scalar_get_bits_var_value [of count offset a] secp256k1_scalar_get_bits_value [of count offset a] assms
  by (auto simp: word_unat_eq_iff)

theorem scalar_get_bits_correct_witness:
  "unat (secp256k1_scalar_get_bits_var sc_max 60 8) = 255"
  using scalar_get_bits_correct [of 8 60 sc_max] by (simp add: sc_max_val)

text \<open>The shifted product is the product divided by the power of two, rounded to the
  nearest integer, with no overflow for shifts from 256 to 511.\<close>

theorem scalar_mul_shift_var_rounds:
  assumes "256 \<le> shift" "shift < 512"
  shows "sc_val (secp256k1_scalar_mul_shift_var a b shift) = (sc_val a * sc_val b + 2 ^ (shift - 1)) div 2 ^ shift"
  by (rule secp256k1_scalar_mul_shift_var_is [OF assms])

theorem scalar_mul_shift_var_rounds_witness:
  "sc_val (secp256k1_scalar_mul_shift_var sc_max sc_max 300) = 2 ^ 212"
  using scalar_mul_shift_var_rounds [of 300 sc_max sc_max] by (simp add: sc_max_val)

text \<open>Shifting right by fewer than 16 bits splits a scalar into quotient and remainder, and
  the conditional addition of a power of two adds it exactly when the flag is set.\<close>

theorem scalar_shift_and_add_bit:
  assumes "0 < n" "n < 16" "unat b < 256" "sc_val r + 2 ^ unat b < 2 ^ 256"
  shows "unat (fst (secp256k1_scalar_shr_int r n)) + 2 ^ n * sc_val (snd (secp256k1_scalar_shr_int r n)) = sc_val r \<and>
    unat (fst (secp256k1_scalar_shr_int r n)) < 2 ^ n \<and>
    sc_val (secp256k1_scalar_cadd_bit r b flag) = sc_val r + (if flag then 2 ^ unat b else 0)"
  using secp256k1_scalar_shr_int_is [OF assms(1,2), of r] secp256k1_scalar_cadd_bit_True [OF assms(3,4)]
    secp256k1_scalar_cadd_bit_False [OF assms(3), of r]
  by (cases flag) (simp_all add: mod_mult_div_eq)

theorem scalar_shift_and_add_bit_witness:
  "sc_val (secp256k1_scalar_cadd_bit sc_top 128 True) = order_n - 1 + 2 ^ 128"
  using scalar_shift_and_add_bit [of 3 128 sc_top True] by (simp add: sc_top_val order_n_def)

text \<open>The endomorphism split writes a scalar as \<open>r1 + \<lambda> r2\<close> modulo the order, where
  \<open>\<lambda>\<close> is the cube root of unity the code stores negated.\<close>

theorem scalar_split_lambda_correct:
  assumes "sc_val a < order_n"
  shows "case secp256k1_scalar_split_lambda a of (r1, r2) \<Rightarrow>
    (sc_val r1 + (order_n - sc_val minus_lambda) * sc_val r2) mod order_n = sc_val a \<and>
    sc_val r1 < order_n \<and> sc_val r2 < order_n \<and> (order_n - sc_val minus_lambda) ^ 3 mod order_n = 1"
proof -
  have mul: "sc_val (secp256k1_scalar_mul x y) = sc_val x * sc_val y mod order_n" for x y
    using secp256k1_scalar_reduce_512_is [OF mul_512_is] by (simp add: secp256k1_scalar_mul_def)
  then have lt: "sc_val (secp256k1_scalar_mul x y) < order_n" for x y
    using order_n_gt_1 by simp
  have add: "sc_val (snd (secp256k1_scalar_add x y)) = (sc_val x + sc_val y) mod order_n"
    if "sc_val x < order_n" "sc_val y < order_n" for x y
    using secp256k1_scalar_add_post [OF that] by (simp add: sc_sum_post_def)
  obtain r1 r2 where s: "secp256k1_scalar_split_lambda a = (r1, r2)" by fastforce
  have r2: "sc_val r2 < order_n"
    using s add lt order_n_gt_1 by (auto simp: secp256k1_scalar_split_lambda_def Let_def)
  have "sc_val r1 = (sc_val r2 * sc_val minus_lambda mod order_n + sc_val a) mod order_n"
    using s add [OF lt assms] by (auto simp: secp256k1_scalar_split_lambda_def Let_def mul)
  then have r1: "sc_val r1 = (sc_val r2 * sc_val minus_lambda + sc_val a) mod order_n"
    by (simp add: mod_add_left_eq)
  have ml: "sc_val minus_lambda = 0xAC9C52B33FA3CF1F5AD9E3FD77ED9BA4A880B9FC8EC739C2E0CFC810B51283CF"
    by (simp add: minus_lambda_def SECP256K1_SCALAR_CONST_def sc_val_def)
  have "(sc_val r1 + (order_n - sc_val minus_lambda) * sc_val r2) mod order_n =
      (sc_val r2 * sc_val minus_lambda + sc_val a + (order_n - sc_val minus_lambda) * sc_val r2) mod order_n"
    by (simp add: r1 mod_add_left_eq)
  also have "sc_val r2 * sc_val minus_lambda + sc_val a + (order_n - sc_val minus_lambda) * sc_val r2 =
      sc_val a + order_n * sc_val r2"
    by (simp add: ml order_n_def algebra_simps)
  finally have "(sc_val r1 + (order_n - sc_val minus_lambda) * sc_val r2) mod order_n = sc_val a"
    using assms by simp
  moreover have "(order_n - sc_val minus_lambda) ^ 3 mod order_n = 1"
    by (simp add: ml order_n_def)
  moreover have "sc_val r1 < order_n"
    using r1 order_n_gt_1 by simp
  ultimately show ?thesis using r2 by (simp add: s)
qed

theorem scalar_split_lambda_correct_witness:
  "case secp256k1_scalar_split_lambda sc_top of (r1, r2) \<Rightarrow>
    (sc_val r1 + (order_n - sc_val minus_lambda) * sc_val r2) mod order_n = order_n - 1"
proof -
  have "sc_val sc_top < order_n" by (simp add: sc_top_val order_n_def)
  from scalar_split_lambda_correct [OF this] show ?thesis by (auto simp: sc_top_val)
qed

text \<open>C40: the ChaCha20 generator is the block function of RFC 8439 with rejection. Turn \<open>k\<close> makes the 64 bytes of
  key stream for the seed as the key, the lower half of the index as the block counter and the upper half,
  zero and the number of the turn as the nonce; its scalars are the two halves of these bytes as big-endian
  numbers. The routine returns the scalars of the first turn that has both below the group order, as soon as
  the fuel reaches that turn, and nothing before. The number of the turn has 32 bits, so that \<open>2 ^ 32\<close> turns
  decide: a run that has not returned after them never returns.\<close>

theorem scalar_chacha20_first_good:
  "(if \<exists>k < fuel. turn_good seed idx k
    then (case secp256k1_scalar_chacha20 fuel seed idx of None \<Rightarrow> False
      | Some (r1, r2) \<Rightarrow>
          sc_val r1 = be_nat (take 32 (turn_keystream seed idx (LEAST k. turn_good seed idx k))) \<and>
          sc_val r2 = be_nat (drop 32 (turn_keystream seed idx (LEAST k. turn_good seed idx k))) \<and>
          sc_val r1 < order_n \<and> sc_val r2 < order_n)
    else secp256k1_scalar_chacha20 fuel seed idx = None) \<and>
   secp256k1_scalar_chacha20 (2 ^ 32 + fuel) seed idx = secp256k1_scalar_chacha20 (2 ^ 32) seed idx"
proof
  let ?m = "LEAST k. turn_good seed idx k"
  have m: "turn_good seed idx ?m" if "turn_good seed idx k" for k using that by (rule LeastI)
  note b = block_is [of seed idx ?m]
  show "if \<exists>k < fuel. turn_good seed idx k
    then (case secp256k1_scalar_chacha20 fuel seed idx of None \<Rightarrow> False
      | Some (r1, r2) \<Rightarrow>
          sc_val r1 = be_nat (take 32 (turn_keystream seed idx ?m)) \<and> sc_val r2 = be_nat (drop 32 (turn_keystream seed idx ?m)) \<and>
          sc_val r1 < order_n \<and> sc_val r2 < order_n)
    else secp256k1_scalar_chacha20 fuel seed idx = None"
  proof (cases "\<exists>k < fuel. turn_good seed idx k")
    case True
    then have "turn_good seed idx ?m" using m by blast
    moreover have "secp256k1_scalar_chacha20 fuel seed idx = Some (chacha20_block seed idx ?m)"
      unfolding chacha20_is using True by (rule if_P)
    ultimately show ?thesis using True b turn_good_def [of seed idx ?m] by (simp add: split_def)
  next
    case False
    then show ?thesis by (auto simp: chacha20_is)
  qed
  have "(\<exists>k < 2 ^ 32 + fuel. turn_good seed idx k) \<longleftrightarrow> (\<exists>k < 2 ^ 32. turn_good seed idx k)"
    using turn_good_small m by (meson trans_less_add1)
  then show "secp256k1_scalar_chacha20 (2 ^ 32 + fuel) seed idx = secp256k1_scalar_chacha20 (2 ^ 32) seed idx"
    unfolding chacha20_is by (rule if_cong) (rule refl)+
qed

end
