(* ===== verification/Ecmult.thy ===== *)
theory Ecmult
  imports Ecmult_Const
begin

text \<open>
  Translation of the variable-time multiplication of \<^verbatim>\<open>ecmult_impl.h\<close> (without
  \<^verbatim>\<open>USE_ENDOMORPHISM\<close>): the table of odd multiples of the generator, the signed-digit form with
  windows, and Strauss's algorithm for several points and the generator. Arrays are lists; the
  scratch arrays of \<^verbatim>\<open>secp256k1_strauss_state\<close> start out cleared, no entry is read before it is
  written. A digit is a C \<^verbatim>\<open>int\<close>, kept as an integer.
\<close>

section \<open>The table of the generator\<close>

definition WINDOW_G :: nat where
  "WINDOW_G = 16"

record secp256k1_ecmult_context =
  pre_g :: "secp256k1_ge_storage list option"

text \<open>
  First loop: the ratio of the z coordinates is kept in the place of x, and y unscaled.
\<close>

definition storage_table_write ::
    "nat \<Rightarrow> secp256k1_gej \<times> secp256k1_fe \<times> secp256k1_ge_storage list \<Rightarrow> secp256k1_gej \<times> secp256k1_fe \<times> secp256k1_ge_storage list" where
  "storage_table_write i = (\<lambda>(pj, zr, pre).
     let zr = secp256k1_fe_normalize_var zr;
         pre = pre[i := (pre ! i)\<lparr>ges_x := secp256k1_fe_to_storage zr\<rparr>];
         pj = pj\<lparr>gej_y := secp256k1_fe_normalize_var (gej_y pj)\<rparr>;
         pre = pre[i := (pre ! i)\<lparr>ges_y := secp256k1_fe_to_storage (gej_y pj)\<rparr>]
     in (pj, zr, pre))"

definition storage_table_step ::
    "secp256k1_ge \<Rightarrow> nat \<Rightarrow> secp256k1_gej \<times> secp256k1_fe \<times> secp256k1_ge_storage list \<Rightarrow>
     secp256k1_gej \<times> secp256k1_fe \<times> secp256k1_ge_storage list" where
  "storage_table_step d_ge i = (\<lambda>(pj, zr, pre).
     case secp256k1_gej_add_ge_var pj pj d_ge of
       (pj, rzr) \<Rightarrow> storage_table_write i (pj, (case rzr of None \<Rightarrow> zr | Some z \<Rightarrow> z), pre))"

text \<open>Second loop, \<^verbatim>\<open>while (i > 0)\<close>, from the last entry down.\<close>

fun storage_table_back ::
    "secp256k1_fe \<Rightarrow> nat \<Rightarrow> secp256k1_fe \<Rightarrow> secp256k1_ge \<Rightarrow> secp256k1_ge_storage list \<Rightarrow> secp256k1_ge_storage list" where
  "storage_table_back dx_over_dz_squared 0 zi last_ge pre = pre"
| "storage_table_back dx_over_dz_squared (Suc i) zi last_ge pre = (
     let zi = secp256k1_fe_mul zi (ge_x last_ge);
         zi2 = secp256k1_fe_sqr zi;
         zi3 = secp256k1_fe_mul zi2 zi;
         px = secp256k1_fe_mul (ge_x last_ge) zi2;
         px = secp256k1_fe_negate px 1;
         px = secp256k1_fe_add px dx_over_dz_squared;
         last_ge = secp256k1_ge_from_storage (pre ! i);
         py = secp256k1_fe_mul (ge_y last_ge) zi3;
         pre = pre[i := secp256k1_ge_to_storage \<lparr>ge_x = px, ge_y = py, ge_infinity = False\<rparr>]
     in storage_table_back dx_over_dz_squared i zi last_ge pre)"

definition secp256k1_ecmult_odd_multiples_table_storage_var ::
    "nat \<Rightarrow> secp256k1_ge_storage list \<Rightarrow> secp256k1_gej \<Rightarrow> secp256k1_ge_storage list" where
  "secp256k1_ecmult_odd_multiples_table_storage_var n pre a = (
     let d = fst (secp256k1_gej_double_var secp256k1_gej_clear a);
         d_ge = \<lparr>ge_x = gej_x d, ge_y = gej_y d, ge_infinity = False\<rparr>;
         a_ge = secp256k1_ge_set_gej_zinv a (gej_z d);
         pj = \<lparr>gej_x = ge_x a_ge, gej_y = ge_y a_ge, gej_z = gej_z a, gej_infinity = False\<rparr>;
         zr = gej_z d;
         (pj, zr, pre) = storage_table_write 0 (pj, zr, pre);
         (pj, zr, pre) = fold (storage_table_step d_ge) [1 ..< n] (pj, zr, pre);
         pj = pj\<lparr>gej_z := secp256k1_fe_mul (gej_z pj) (gej_z d)\<rparr>;
         zi = secp256k1_fe_inv_var (gej_z pj);
         p_ge = secp256k1_ge_set_gej_zinv pj zi;
         last_ge = secp256k1_ge_from_storage (pre ! (n - 1));
         pre = pre[n - 1 := secp256k1_ge_to_storage p_ge];
         dz = secp256k1_fe_inv_var (gej_z d);
         dx_over_dz_squared = secp256k1_fe_sqr dz;
         dx_over_dz_squared = secp256k1_fe_mul dx_over_dz_squared (gej_x d)
     in storage_table_back dx_over_dz_squared (n - 1) zi last_ge pre)"

definition secp256k1_ecmult_context_init :: secp256k1_ecmult_context where
  "secp256k1_ecmult_context_init = \<lparr>pre_g = None\<rparr>"

text \<open>The memory of the table has any content before.\<close>

definition secp256k1_ecmult_context_build ::
    "secp256k1_ge_storage list \<Rightarrow> secp256k1_ecmult_context \<Rightarrow> secp256k1_ecmult_context" where
  "secp256k1_ecmult_context_build mem ctx =
     (if pre_g ctx \<noteq> None then ctx
      else
        let gj = secp256k1_gej_set_ge secp256k1_ge_const_g
        in ctx\<lparr>pre_g := Some (secp256k1_ecmult_odd_multiples_table_storage_var (ECMULT_TABLE_SIZE WINDOW_G) mem gj)\<rparr>)"

definition secp256k1_ecmult_context_is_built :: "secp256k1_ecmult_context \<Rightarrow> bool" where
  "secp256k1_ecmult_context_is_built ctx \<longleftrightarrow> pre_g ctx \<noteq> None"

definition secp256k1_ecmult_context_clear :: "secp256k1_ecmult_context \<Rightarrow> secp256k1_ecmult_context" where
  "secp256k1_ecmult_context_clear ctx = secp256k1_ecmult_context_init"

section \<open>Table access\<close>

definition ECMULT_TABLE_GET_GE :: "secp256k1_ge list \<Rightarrow> int \<Rightarrow> secp256k1_ge" where
  "ECMULT_TABLE_GET_GE pre n =
     (if n > 0 then pre ! nat ((n - 1) div 2)
      else secp256k1_ge_neg (pre ! nat ((- n - 1) div 2)))"

definition ECMULT_TABLE_GET_GE_STORAGE :: "secp256k1_ge_storage list \<Rightarrow> int \<Rightarrow> secp256k1_ge" where
  "ECMULT_TABLE_GET_GE_STORAGE pre n =
     (if n > 0 then secp256k1_ge_from_storage (pre ! nat ((n - 1) div 2))
      else secp256k1_ge_neg (secp256k1_ge_from_storage (pre ! nat ((- n - 1) div 2))))"

section \<open>Windowed signed digits\<close>

text \<open>
  The loop \<^verbatim>\<open>while (bit < len)\<close>, with \<open>pos\<close> for \<^verbatim>\<open>bit\<close>. Every pass moves \<^verbatim>\<open>bit\<close> on, so that \<open>len\<close> passes are enough: that is
  the bound on their number.
\<close>

primrec ecmult_wnaf_loop ::
    "nat \<Rightarrow> nat \<Rightarrow> secp256k1_scalar \<Rightarrow> nat \<Rightarrow> int \<Rightarrow> int list \<times> int \<times> nat \<times> int \<Rightarrow> int list \<times> int \<times> nat \<times> int" where
  "ecmult_wnaf_loop 0 len s w sign st = st"
| "ecmult_wnaf_loop (Suc passes) len s w sign st = (
     case st of (wnaf, last_set_bit, pos, carry) \<Rightarrow>
       if \<not> pos < len then st
       else if secp256k1_scalar_get_bits s pos 1 = word_of_int carry then
         ecmult_wnaf_loop passes len s w sign (wnaf, last_set_bit, pos + 1, carry)
       else
         let now = (if w > len - pos then len - pos else w);
             word = uint (secp256k1_scalar_get_bits_var s pos now) + carry;
             carry = (word div 2 ^ (w - 1)) mod 2;
             word = word - carry * 2 ^ w;
             wnaf = wnaf[pos := sign * word]
         in ecmult_wnaf_loop passes len s w sign (wnaf, int pos, pos + now, carry))"

definition secp256k1_ecmult_wnaf :: "nat \<Rightarrow> secp256k1_scalar \<Rightarrow> nat \<Rightarrow> int list \<times> int" where
  "secp256k1_ecmult_wnaf len a w = (
     let s = a;
         wnaf = replicate len 0;
         (s, sign) = (if secp256k1_scalar_get_bits s 255 1 \<noteq> 0 then (secp256k1_scalar_negate s, - 1) else (s, 1));
         (wnaf, last_set_bit, pos, carry) = ecmult_wnaf_loop len len s w sign (wnaf, - 1, 0, 0)
     in (wnaf, last_set_bit + 1))"

section \<open>Strauss's algorithm\<close>

record secp256k1_strauss_point_state =
  sps_wnaf_na :: "int list"
  sps_bits_na :: int
  sps_input_pos :: nat

text \<open>The points that take part, and the number of digits.\<close>

definition strauss_select ::
    "secp256k1_gej list \<Rightarrow> secp256k1_scalar list \<Rightarrow> nat \<Rightarrow> secp256k1_strauss_point_state list \<times> int \<Rightarrow>
     secp256k1_strauss_point_state list \<times> int" where
  "strauss_select a na np = (\<lambda>(ps, bits).
     if secp256k1_scalar_is_zero (na ! np) \<or> secp256k1_gej_is_infinity (a ! np) then (ps, bits)
     else
       let (wnaf, bits_na) = secp256k1_ecmult_wnaf 256 (na ! np) WINDOW_A
       in (ps @ [\<lparr>sps_wnaf_na = wnaf, sps_bits_na = bits_na, sps_input_pos = np\<rparr>],
           if bits_na > bits then bits_na else bits))"

text \<open>The part of an array that a pointer into it designates.\<close>

definition region :: "'a list \<Rightarrow> nat \<Rightarrow> nat \<Rightarrow> 'a list" where
  "region xs off n = take n (drop off xs)"

definition set_region :: "'a list \<Rightarrow> nat \<Rightarrow> 'a list \<Rightarrow> 'a list" where
  "set_region xs off ys = take off xs @ ys @ drop (off + length ys) xs"

text \<open>The table of point \<open>np\<close>: each starts over the z coordinate the one before ends with.\<close>

definition strauss_table ::
    "secp256k1_gej list \<Rightarrow> secp256k1_strauss_point_state list \<Rightarrow> nat \<Rightarrow> secp256k1_gej list \<times> secp256k1_fe list \<Rightarrow>
     secp256k1_gej list \<times> secp256k1_fe list" where
  "strauss_table a ps np = (\<lambda>(prej, zr).
     let n = ECMULT_TABLE_SIZE WINDOW_A;
         tmp = a ! sps_input_pos (ps ! np);
         tmp = (if np = 0 then tmp else secp256k1_gej_rescale tmp (gej_z (prej ! ((np - 1) * n + n - 1))));
         (pj, z) = secp256k1_ecmult_odd_multiples_table n (region prej (np * n) n) (region zr (np * n) n) tmp;
         prej = set_region prej (np * n) pj;
         zr = set_region zr (np * n) z;
         zr = (if np = 0 then zr
               else zr[np * n := secp256k1_fe_mul (zr ! (np * n)) (gej_z (a ! sps_input_pos (ps ! np)))])
     in (prej, zr))"

definition strauss_tables ::
    "secp256k1_gej list \<Rightarrow> secp256k1_strauss_point_state list \<Rightarrow> nat \<Rightarrow> secp256k1_ge list \<times> secp256k1_fe" where
  "strauss_tables a ps num = (
     let n = ECMULT_TABLE_SIZE WINDOW_A;
         no = length ps
     in if no > 0 then
          let (prej, zr) = fold (strauss_table a ps) [0 ..< no]
                (replicate (n * num) secp256k1_gej_clear, replicate (n * num) secp256k1_fe_clear)
          in secp256k1_ge_globalz_set_table_gej (n * no) (replicate (n * num) secp256k1_ge_clear) secp256k1_fe_clear prej zr
        else (replicate (n * num) secp256k1_ge_clear, secp256k1_fe_set_int 1))"

text \<open>One pass of the main loop: a doubling and an addition for every nonzero digit.\<close>

definition strauss_add_point ::
    "secp256k1_ge list \<Rightarrow> secp256k1_strauss_point_state list \<Rightarrow> nat \<Rightarrow> nat \<Rightarrow> secp256k1_gej \<Rightarrow> secp256k1_gej" where
  "strauss_add_point pre_a ps i np r = (
     let n = sps_wnaf_na (ps ! np) ! i
     in if int i < sps_bits_na (ps ! np) \<and> n \<noteq> 0 then
          let size = ECMULT_TABLE_SIZE WINDOW_A;
              tmpa = ECMULT_TABLE_GET_GE (drop (np * size) pre_a) n
          in fst (secp256k1_gej_add_ge_var r r tmpa)
        else r)"

definition strauss_step ::
    "secp256k1_ecmult_context \<Rightarrow> secp256k1_ge list \<Rightarrow> secp256k1_fe \<Rightarrow> secp256k1_strauss_point_state list \<Rightarrow> int list \<Rightarrow> int \<Rightarrow>
     nat \<Rightarrow> secp256k1_gej \<Rightarrow> secp256k1_gej" where
  "strauss_step ctx pre_a Z ps wnaf_ng bits_ng i r = (
     let r = fst (secp256k1_gej_double_var r r);
         r = fold (strauss_add_point pre_a ps i) [0 ..< length ps] r;
         n = wnaf_ng ! i
     in if int i < bits_ng \<and> n \<noteq> 0 then
          let tmpa = ECMULT_TABLE_GET_GE_STORAGE (the (pre_g ctx)) n
          in secp256k1_gej_add_zinv_var r r tmpa Z
        else r)"

definition secp256k1_ecmult_strauss_wnaf ::
    "secp256k1_ecmult_context \<Rightarrow> nat \<Rightarrow> secp256k1_gej list \<Rightarrow> secp256k1_scalar list \<Rightarrow> secp256k1_scalar option \<Rightarrow> secp256k1_gej" where
  "secp256k1_ecmult_strauss_wnaf ctx num a na ng = (
     let (ps, bits) = fold (strauss_select a na) [0 ..< num] ([], 0);
         (pre_a, Z) = strauss_tables a ps num;
         (wnaf_ng, bits_ng) = (case ng of None \<Rightarrow> ([], 0) | Some ng \<Rightarrow> secp256k1_ecmult_wnaf 256 ng WINDOW_G);
         bits = (if bits_ng > bits then bits_ng else bits);
         r = secp256k1_gej_set_infinity;
         r = fold (strauss_step ctx pre_a Z ps wnaf_ng bits_ng) (rev [0 ..< nat bits]) r
     in if \<not> gej_infinity r then r\<lparr>gej_z := secp256k1_fe_mul (gej_z r) Z\<rparr> else r)"

definition secp256k1_ecmult ::
    "secp256k1_ecmult_context \<Rightarrow> secp256k1_gej \<Rightarrow> secp256k1_scalar \<Rightarrow> secp256k1_scalar \<Rightarrow> secp256k1_gej" where
  "secp256k1_ecmult ctx a na ng = secp256k1_ecmult_strauss_wnaf ctx 1 [a] [na] (Some ng)"

end
