(* ===== verification/Ecdsa.thy ===== *)
theory Ecdsa
  imports Ecmult Ecmult_Gen
begin

text \<open>
  Translation of \<^verbatim>\<open>ecdsa_impl.h\<close> and \<^verbatim>\<open>eckey_impl.h\<close>: the DER form of a signature, signing
  and verification, the two forms of a public key, and the tweaks of keys. A pointer into the input
  is the list of the bytes from it to the end of the input; \<^verbatim>\<open>return 0\<close> of a parser is \<open>None\<close>.
\<close>

unbundle bit_operations_syntax

section \<open>Constants\<close>

definition secp256k1_ecdsa_const_order_as_fe :: secp256k1_fe where
  "secp256k1_ecdsa_const_order_as_fe =
     SECP256K1_FE_CONST 0xFFFFFFFF 0xFFFFFFFF 0xFFFFFFFF 0xFFFFFFFE 0xBAAEDCE6 0xAF48A03B 0xBFD25E8C 0xD0364141"

definition secp256k1_ecdsa_const_p_minus_order :: secp256k1_fe where
  "secp256k1_ecdsa_const_p_minus_order =
     SECP256K1_FE_CONST 0 0 0 1 0x45512319 0x50B75FC4 0x402DA172 0x2FC9BAEE"

section \<open>DER\<close>

text \<open>The long form of a length: \<open>lenleft\<close> bytes, most significant first. \<^verbatim>\<open>ret\<close> is a \<^verbatim>\<open>size_t\<close>.\<close>

primrec der_read_len_loop :: "nat \<Rightarrow> u64 \<Rightarrow> u8 list \<Rightarrow> (u64 \<times> u8 list) option" where
  "der_read_len_loop 0 ret sig = Some (ret, sig)"
| "der_read_len_loop (Suc lenleft) ret sig = (
     let ret = push_bit 8 ret OR ucast (sig ! 0)
     in if ret + of_nat (Suc lenleft) > of_nat (length sig) then None
        else der_read_len_loop lenleft ret (tl sig))"

text \<open>The result is an \<^verbatim>\<open>int\<close>, to which the \<^verbatim>\<open>size_t\<close> is converted; -1 is \<open>None\<close>.\<close>

definition secp256k1_der_read_len :: "u8 list \<Rightarrow> (int \<times> u8 list) option" where
  "secp256k1_der_read_len sig = (
     if sig = [] then None
     else
       let b1 = sig ! 0;
           sig = tl sig
       in if b1 = 0xFF then None
          else if b1 AND 0x80 = 0 then Some (uint b1, sig)
          else if b1 = 0x80 then None
          else
            let lenleft = unat (b1 AND 0x7F)
            in if lenleft > length sig then None
               else if sig ! 0 = 0 then None
               else if lenleft > 8 then None
               else
                 (case der_read_len_loop lenleft 0 sig of
                    None \<Rightarrow> None
                  | Some (ret, sig) \<Rightarrow>
                      if ret < 128 then None
                      else Some (sint (ucast ret :: 32 word), sig)))"

text \<open>\<^verbatim>\<open>while (rlen > 0 && **sig == 0)\<close>.\<close>

primrec der_skip_zeros :: "nat \<Rightarrow> u8 list \<Rightarrow> nat \<times> u8 list" where
  "der_skip_zeros 0 sig = (0, sig)"
| "der_skip_zeros (Suc rlen) sig = (if sig ! 0 = 0 then der_skip_zeros rlen (tl sig) else (Suc rlen, sig))"

definition secp256k1_der_parse_integer :: "u8 list \<Rightarrow> (secp256k1_scalar \<times> u8 list) option" where
  "secp256k1_der_parse_integer sig = (
     if sig = [] \<or> sig ! 0 \<noteq> 0x02 then None
     else
       (case secp256k1_der_read_len (tl sig) of
          None \<Rightarrow> None
        | Some (rlen, sig) \<Rightarrow>
            if rlen \<le> 0 \<or> rlen > int (length sig) then None
            else if sig ! 0 = 0x00 \<and> rlen > 1 \<and> sig ! 1 AND 0x80 = 0x00 then None
            else if sig ! 0 = 0xFF \<and> rlen > 1 \<and> sig ! 1 AND 0x80 = 0x80 then None
            else
              let overflow = (sig ! 0 AND 0x80 = 0x80);
                  (rlen, sig) = der_skip_zeros (nat rlen) sig;
                  overflow = (if rlen > 32 then True else overflow);
                  (r, overflow) = (if \<not> overflow then secp256k1_scalar_set_b32 (replicate (32 - rlen) 0 @ take rlen sig)
                                   else (secp256k1_scalar_clear, overflow));
                  r = (if overflow then secp256k1_scalar_set_int 0 else r)
              in Some (r, drop rlen sig)))"

definition secp256k1_ecdsa_sig_parse :: "u8 list \<Rightarrow> (secp256k1_scalar \<times> secp256k1_scalar) option" where
  "secp256k1_ecdsa_sig_parse sig = (
     if sig = [] \<or> sig ! 0 \<noteq> 0x30 then None
     else
       (case secp256k1_der_read_len (tl sig) of
          None \<Rightarrow> None
        | Some (rlen, sig) \<Rightarrow>
            if rlen < 0 \<or> rlen > int (length sig) then None
            else if rlen \<noteq> int (length sig) then None
            else
              (case secp256k1_der_parse_integer sig of
                 None \<Rightarrow> None
               | Some (rr, sig) \<Rightarrow>
                   (case secp256k1_der_parse_integer sig of
                      None \<Rightarrow> None
                    | Some (rs, sig) \<Rightarrow> if sig \<noteq> [] then None else Some (rr, rs)))))"

text \<open>\<^verbatim>\<open>while (lenR > 1 && rp[0] == 0 && rp[1] < 0x80)\<close>; the length of the list is \<^verbatim>\<open>lenR\<close>.\<close>

fun der_strip_zeros :: "u8 list \<Rightarrow> u8 list" where
  "der_strip_zeros (a # b # bs) = (if a = 0 \<and> b < 0x80 then der_strip_zeros (b # bs) else a # b # bs)"
| "der_strip_zeros bs = bs"

text \<open>The first component is the new \<^verbatim>\<open>*size\<close>, the second the bytes written on success.\<close>

definition secp256k1_ecdsa_sig_serialize :: "nat \<Rightarrow> secp256k1_scalar \<Rightarrow> secp256k1_scalar \<Rightarrow> nat \<times> u8 list option" where
  "secp256k1_ecdsa_sig_serialize outlen ar as = (
     let r = 0 # secp256k1_scalar_get_b32 ar;
         s = 0 # secp256k1_scalar_get_b32 as;
         rp = der_strip_zeros r;
         sp = der_strip_zeros s;
         lenR = length rp;
         lenS = length sp
     in if outlen < 6 + lenS + lenR then (6 + lenS + lenR, None)
        else (6 + lenS + lenR,
              Some ([0x30, of_nat (4 + lenS + lenR), 0x02, of_nat lenR] @ rp @ [0x02, of_nat lenS] @ sp)))"

section \<open>Signing and verification\<close>

definition secp256k1_ecdsa_sig_verify ::
    "secp256k1_ecmult_context \<Rightarrow> secp256k1_scalar \<Rightarrow> secp256k1_scalar \<Rightarrow> secp256k1_ge \<Rightarrow> secp256k1_scalar \<Rightarrow> bool" where
  "secp256k1_ecdsa_sig_verify ctx sigr sigs pubkey msg = (
     if secp256k1_scalar_is_zero sigr \<or> secp256k1_scalar_is_zero sigs then False
     else
       let sn = secp256k1_scalar_inverse_var sigs;
           u1 = secp256k1_scalar_mul sn msg;
           u2 = secp256k1_scalar_mul sn sigr;
           pubkeyj = secp256k1_gej_set_ge pubkey;
           pr = secp256k1_ecmult ctx pubkeyj u2 u1
       in if secp256k1_gej_is_infinity pr then False
          else
            let c = secp256k1_scalar_get_b32 sigr;
                xr = snd (secp256k1_fe_set_b32 c)
            in if secp256k1_gej_eq_x_var xr pr then True
               else if secp256k1_fe_cmp_var xr secp256k1_ecdsa_const_p_minus_order \<ge> 0 then False
               else
                 let xr = secp256k1_fe_add xr secp256k1_ecdsa_const_order_as_fe
                 in if secp256k1_gej_eq_x_var xr pr then True else False)"

text \<open>
  The result is the return value, \<^verbatim>\<open>sigr\<close>, \<^verbatim>\<open>sigs\<close> and \<^verbatim>\<open>recid\<close>; a caller that passes
  \<^verbatim>\<open>NULL\<close> does not look at the last. It is \<open>None\<close> where \<^verbatim>\<open>secp256k1_ecmult_gen\<close> has no table.
\<close>

definition secp256k1_ecdsa_sig_sign ::
    "secp256k1_ecmult_gen_context \<Rightarrow> secp256k1_scalar \<Rightarrow> secp256k1_scalar \<Rightarrow> secp256k1_scalar \<Rightarrow>
     (bool \<times> secp256k1_scalar \<times> secp256k1_scalar \<times> nat) option" where
  "secp256k1_ecdsa_sig_sign ctx seckey msg nonce = (
     case secp256k1_ecmult_gen ctx nonce of
       None \<Rightarrow> None
     | Some rp \<Rightarrow>
         let r = fst (secp256k1_ge_set_gej rp);
             r = r\<lparr>ge_x := secp256k1_fe_normalize (ge_x r)\<rparr>;
             r = r\<lparr>ge_y := secp256k1_fe_normalize (ge_y r)\<rparr>;
             b = secp256k1_fe_get_b32 (ge_x r);
             (sigr, overflow) = secp256k1_scalar_set_b32 b;
             recid = (if overflow then 2 else 0) OR (if secp256k1_fe_is_odd (ge_y r) then 1 else 0);
             n = secp256k1_scalar_mul sigr seckey;
             n = snd (secp256k1_scalar_add n msg);
             sigs = secp256k1_scalar_inverse nonce;
             sigs = secp256k1_scalar_mul sigs n
         in if secp256k1_scalar_is_zero sigs then Some (False, sigr, sigs, recid)
            else if secp256k1_scalar_is_high sigs then
              Some (True, sigr, secp256k1_scalar_negate sigs, recid XOR 1)
            else Some (True, sigr, sigs, recid))"

section \<open>Public keys\<close>

definition SECP256K1_TAG_PUBKEY_EVEN :: u8 where "SECP256K1_TAG_PUBKEY_EVEN = 0x02"
definition SECP256K1_TAG_PUBKEY_ODD :: u8 where "SECP256K1_TAG_PUBKEY_ODD = 0x03"
definition SECP256K1_TAG_PUBKEY_UNCOMPRESSED :: u8 where "SECP256K1_TAG_PUBKEY_UNCOMPRESSED = 0x04"
definition SECP256K1_TAG_PUBKEY_HYBRID_EVEN :: u8 where "SECP256K1_TAG_PUBKEY_HYBRID_EVEN = 0x06"
definition SECP256K1_TAG_PUBKEY_HYBRID_ODD :: u8 where "SECP256K1_TAG_PUBKEY_HYBRID_ODD = 0x07"

definition secp256k1_eckey_pubkey_parse :: "u8 list \<Rightarrow> secp256k1_ge option" where
  "secp256k1_eckey_pubkey_parse pub = (
     if length pub = 33 \<and> (pub ! 0 = SECP256K1_TAG_PUBKEY_EVEN \<or> pub ! 0 = SECP256K1_TAG_PUBKEY_ODD) then
       let (ok, x) = secp256k1_fe_set_b32 (take 32 (drop 1 pub))
       in if \<not> ok then None
          else let (ok, elem) = secp256k1_ge_set_xo_var x (pub ! 0 = SECP256K1_TAG_PUBKEY_ODD)
               in if ok then Some elem else None
     else if length pub = 65 \<and> (pub ! 0 = 0x04 \<or> pub ! 0 = 0x06 \<or> pub ! 0 = 0x07) then
       let (ok, x) = secp256k1_fe_set_b32 (take 32 (drop 1 pub));
           (ok', y) = secp256k1_fe_set_b32 (take 32 (drop 33 pub))
       in if \<not> ok \<or> \<not> ok' then None
          else
            let elem = secp256k1_ge_set_xy x y
            in if (pub ! 0 = SECP256K1_TAG_PUBKEY_HYBRID_EVEN \<or> pub ! 0 = SECP256K1_TAG_PUBKEY_HYBRID_ODD) \<and>
                  secp256k1_fe_is_odd y \<noteq> (pub ! 0 = SECP256K1_TAG_PUBKEY_HYBRID_ODD) then None
               else if secp256k1_ge_is_valid_var elem then Some elem else None
     else None)"

text \<open>The second component is \<^verbatim>\<open>elem\<close>, whose coordinates are normalized in place.\<close>

definition secp256k1_eckey_pubkey_serialize :: "secp256k1_ge \<Rightarrow> bool \<Rightarrow> u8 list option \<times> secp256k1_ge" where
  "secp256k1_eckey_pubkey_serialize elem compressed = (
     if secp256k1_ge_is_infinity elem then (None, elem)
     else
       let elem = elem\<lparr>ge_x := secp256k1_fe_normalize_var (ge_x elem)\<rparr>;
           elem = elem\<lparr>ge_y := secp256k1_fe_normalize_var (ge_y elem)\<rparr>;
           x = secp256k1_fe_get_b32 (ge_x elem)
       in if compressed then
            (Some ((if secp256k1_fe_is_odd (ge_y elem) then SECP256K1_TAG_PUBKEY_ODD else SECP256K1_TAG_PUBKEY_EVEN) # x), elem)
          else (Some (SECP256K1_TAG_PUBKEY_UNCOMPRESSED # x @ secp256k1_fe_get_b32 (ge_y elem)), elem))"

section \<open>Tweaks\<close>

text \<open>The return value and the new \<^verbatim>\<open>key\<close>.\<close>

definition secp256k1_eckey_privkey_tweak_add :: "secp256k1_scalar \<Rightarrow> secp256k1_scalar \<Rightarrow> bool \<times> secp256k1_scalar" where
  "secp256k1_eckey_privkey_tweak_add key tweak = (
     let key = snd (secp256k1_scalar_add key tweak)
     in if secp256k1_scalar_is_zero key then (False, key) else (True, key))"

definition secp256k1_eckey_pubkey_tweak_add ::
    "secp256k1_ecmult_context \<Rightarrow> secp256k1_ge \<Rightarrow> secp256k1_scalar \<Rightarrow> bool \<times> secp256k1_ge" where
  "secp256k1_eckey_pubkey_tweak_add ctx key tweak = (
     let pj = secp256k1_gej_set_ge key;
         one = secp256k1_scalar_set_int 1;
         pj = secp256k1_ecmult ctx pj one tweak
     in if secp256k1_gej_is_infinity pj then (False, key)
        else (True, fst (secp256k1_ge_set_gej pj)))"

definition secp256k1_eckey_privkey_tweak_mul :: "secp256k1_scalar \<Rightarrow> secp256k1_scalar \<Rightarrow> bool \<times> secp256k1_scalar" where
  "secp256k1_eckey_privkey_tweak_mul key tweak =
     (if secp256k1_scalar_is_zero tweak then (False, key) else (True, secp256k1_scalar_mul key tweak))"

definition secp256k1_eckey_pubkey_tweak_mul ::
    "secp256k1_ecmult_context \<Rightarrow> secp256k1_ge \<Rightarrow> secp256k1_scalar \<Rightarrow> bool \<times> secp256k1_ge" where
  "secp256k1_eckey_pubkey_tweak_mul ctx key tweak = (
     if secp256k1_scalar_is_zero tweak then (False, key)
     else
       let zero = secp256k1_scalar_set_int 0;
           pj = secp256k1_gej_set_ge key;
           pj = secp256k1_ecmult ctx pj tweak zero
       in (True, fst (secp256k1_ge_set_gej pj)))"

end
