(* ===== verification/Secp.thy ===== *)
theory Secp
  imports Ecdsa
begin

text \<open>
  Translation of the public interface of \<^verbatim>\<open>secp256k1.c\<close> that is built on keys and signatures,
  of \<^verbatim>\<open>modules/recovery\<close> and of \<^verbatim>\<open>modules/ecdh\<close>. The opaque 64 bytes of a public key and
  of a signature hold the representation of one stored point and of two scalars, which
  \<^verbatim>\<open>memcpy\<close> moves: they are kept as these records, all zero after \<^verbatim>\<open>memset\<close>. A failing
  \<^verbatim>\<open>ARG_CHECK\<close> calls the illegal-argument callback, taken to be one that returns, and returns 0;
  pointers are never \<^verbatim>\<open>NULL\<close> unless their type is an option. Results are the return value and
  the new content of what the function writes.
\<close>

unbundle bit_operations_syntax

record secp256k1_context =
  ecmult_ctx :: secp256k1_ecmult_context
  ecmult_gen_ctx :: secp256k1_ecmult_gen_context

type_synonym secp256k1_pubkey = secp256k1_ge_storage

record secp256k1_ecdsa_signature =
  sig_r :: secp256k1_scalar
  sig_s :: secp256k1_scalar

definition pubkey_zero :: secp256k1_pubkey where
  "pubkey_zero = \<lparr>ges_x = \<lparr>fs0 = 0, fs1 = 0, fs2 = 0, fs3 = 0\<rparr>, ges_y = \<lparr>fs0 = 0, fs1 = 0, fs2 = 0, fs3 = 0\<rparr>\<rparr>"

definition signature_zero :: secp256k1_ecdsa_signature where
  "signature_zero = \<lparr>sig_r = secp256k1_scalar_clear, sig_s = secp256k1_scalar_clear\<rparr>"

section \<open>Public keys\<close>

definition secp256k1_pubkey_load :: "secp256k1_pubkey \<Rightarrow> bool \<times> secp256k1_ge" where
  "secp256k1_pubkey_load pubkey = (
     let ge = secp256k1_ge_from_storage pubkey
     in (\<not> secp256k1_fe_is_zero (ge_x ge), ge))"

definition secp256k1_pubkey_save :: "secp256k1_ge \<Rightarrow> secp256k1_pubkey" where
  "secp256k1_pubkey_save ge = secp256k1_ge_to_storage ge"

definition secp256k1_ec_pubkey_parse :: "u8 list \<Rightarrow> bool \<times> secp256k1_pubkey" where
  "secp256k1_ec_pubkey_parse input =
     (case secp256k1_eckey_pubkey_parse input of
        None \<Rightarrow> (False, pubkey_zero)
      | Some Q \<Rightarrow> (True, secp256k1_pubkey_save Q))"

definition SECP256K1_EC_COMPRESSED :: u32 where "SECP256K1_EC_COMPRESSED = 0x102"
definition SECP256K1_EC_UNCOMPRESSED :: u32 where "SECP256K1_EC_UNCOMPRESSED = 0x002"

text \<open>
  \<^verbatim>\<open>SECP256K1_FLAGS_TYPE_MASK\<close>, \<^verbatim>\<open>SECP256K1_FLAGS_TYPE_COMPRESSION\<close> and
  \<^verbatim>\<open>SECP256K1_FLAGS_BIT_COMPRESSION\<close>. The result is the return value, \<^verbatim>\<open>*outputlen\<close> and the
  output buffer, whose size is the \<^verbatim>\<open>*outputlen\<close> passed in.
\<close>

definition secp256k1_ec_pubkey_serialize :: "u8 list \<Rightarrow> secp256k1_pubkey \<Rightarrow> u32 \<Rightarrow> bool \<times> nat \<times> u8 list" where
  "secp256k1_ec_pubkey_serialize output pubkey flags = (
     let compressed = (flags AND 0x100 \<noteq> 0);
         len = length output
     in if \<not> len \<ge> (if compressed then 33 else 65) then (False, len, output)
        else
          let output = replicate len 0
          in if flags AND 0xFF \<noteq> 2 then (False, 0, output)
             else
               (case secp256k1_pubkey_load pubkey of
                  (False, Q) \<Rightarrow> (False, 0, output)
                | (True, Q) \<Rightarrow>
                    (case fst (secp256k1_eckey_pubkey_serialize Q compressed) of
                       None \<Rightarrow> (False, 0, output)
                     | Some bytes \<Rightarrow> (True, length bytes, bytes @ drop (length bytes) output))))"

definition secp256k1_ec_pubkey_create :: "secp256k1_context \<Rightarrow> u8 list \<Rightarrow> bool \<times> secp256k1_pubkey" where
  "secp256k1_ec_pubkey_create ctx seckey =
     (case secp256k1_scalar_set_b32 seckey of (sec, overflow) \<Rightarrow>
        if \<not> overflow \<and> \<not> secp256k1_scalar_is_zero sec then
          (case secp256k1_ecmult_gen (ecmult_gen_ctx ctx) sec of
             None \<Rightarrow> (False, pubkey_zero)
           | Some pj \<Rightarrow> (True, secp256k1_pubkey_save (fst (secp256k1_ge_set_gej pj))))
        else (False, pubkey_zero))"

definition secp256k1_ec_pubkey_negate :: "secp256k1_pubkey \<Rightarrow> bool \<times> secp256k1_pubkey" where
  "secp256k1_ec_pubkey_negate pubkey =
     (case secp256k1_pubkey_load pubkey of
        (False, p) \<Rightarrow> (False, pubkey_zero)
      | (True, p) \<Rightarrow> (True, secp256k1_pubkey_save (secp256k1_ge_neg p)))"

text \<open>The return value of \<^verbatim>\<open>secp256k1_pubkey_load\<close> is not looked at here.\<close>

definition secp256k1_ec_pubkey_combine :: "secp256k1_pubkey list \<Rightarrow> bool \<times> secp256k1_pubkey" where
  "secp256k1_ec_pubkey_combine pubnonces = (
     if \<not> length pubnonces \<ge> 1 then (False, pubkey_zero)
     else
       let Qj = fold (\<lambda>pk Qj. secp256k1_gej_add_ge Qj (snd (secp256k1_pubkey_load pk))) pubnonces secp256k1_gej_set_infinity
       in if secp256k1_gej_is_infinity Qj then (False, pubkey_zero)
          else (True, secp256k1_pubkey_save (fst (secp256k1_ge_set_gej Qj))))"

section \<open>Secret keys\<close>

definition secp256k1_ec_seckey_verify :: "u8 list \<Rightarrow> bool" where
  "secp256k1_ec_seckey_verify seckey =
     (case secp256k1_scalar_set_b32 seckey of (sec, overflow) \<Rightarrow> \<not> overflow \<and> \<not> secp256k1_scalar_is_zero sec)"

definition secp256k1_ec_privkey_negate :: "u8 list \<Rightarrow> u8 list" where
  "secp256k1_ec_privkey_negate seckey =
     secp256k1_scalar_get_b32 (secp256k1_scalar_negate (fst (secp256k1_scalar_set_b32 seckey)))"

definition secp256k1_ec_privkey_tweak_add :: "u8 list \<Rightarrow> u8 list \<Rightarrow> bool \<times> u8 list" where
  "secp256k1_ec_privkey_tweak_add seckey tweak =
     (case secp256k1_scalar_set_b32 tweak of (term, overflow) \<Rightarrow>
        let sec = fst (secp256k1_scalar_set_b32 seckey);
            (ret, sec) = (if \<not> overflow then secp256k1_eckey_privkey_tweak_add sec term else (False, sec))
        in if ret then (True, secp256k1_scalar_get_b32 sec) else (False, replicate 32 0))"

definition secp256k1_ec_pubkey_tweak_add :: "secp256k1_context \<Rightarrow> secp256k1_pubkey \<Rightarrow> u8 list \<Rightarrow> bool \<times> secp256k1_pubkey" where
  "secp256k1_ec_pubkey_tweak_add ctx pubkey tweak = (
     if \<not> secp256k1_ecmult_context_is_built (ecmult_ctx ctx) then (False, pubkey)
     else
       (case secp256k1_scalar_set_b32 tweak of (term, overflow) \<Rightarrow>
          case secp256k1_pubkey_load pubkey of (loaded, p) \<Rightarrow>
            if \<not> overflow \<and> loaded then
              (case secp256k1_eckey_pubkey_tweak_add (ecmult_ctx ctx) p term of
                 (True, p) \<Rightarrow> (True, secp256k1_pubkey_save p)
               | (False, p) \<Rightarrow> (False, pubkey_zero))
            else (False, pubkey_zero)))"

definition secp256k1_ec_privkey_tweak_mul :: "u8 list \<Rightarrow> u8 list \<Rightarrow> bool \<times> u8 list" where
  "secp256k1_ec_privkey_tweak_mul seckey tweak =
     (case secp256k1_scalar_set_b32 tweak of (factor, overflow) \<Rightarrow>
        let sec = fst (secp256k1_scalar_set_b32 seckey);
            (ret, sec) = (if \<not> overflow then secp256k1_eckey_privkey_tweak_mul sec factor else (False, sec))
        in if ret then (True, secp256k1_scalar_get_b32 sec) else (False, replicate 32 0))"

definition secp256k1_ec_pubkey_tweak_mul :: "secp256k1_context \<Rightarrow> secp256k1_pubkey \<Rightarrow> u8 list \<Rightarrow> bool \<times> secp256k1_pubkey" where
  "secp256k1_ec_pubkey_tweak_mul ctx pubkey tweak = (
     if \<not> secp256k1_ecmult_context_is_built (ecmult_ctx ctx) then (False, pubkey)
     else
       (case secp256k1_scalar_set_b32 tweak of (factor, overflow) \<Rightarrow>
          case secp256k1_pubkey_load pubkey of (loaded, p) \<Rightarrow>
            if \<not> overflow \<and> loaded then
              (case secp256k1_eckey_pubkey_tweak_mul (ecmult_ctx ctx) p factor of
                 (True, p) \<Rightarrow> (True, secp256k1_pubkey_save p)
               | (False, p) \<Rightarrow> (False, pubkey_zero))
            else (False, pubkey_zero)))"

definition secp256k1_ec_privkey_tweak_inv :: "u8 list \<Rightarrow> bool \<times> u8 list" where
  "secp256k1_ec_privkey_tweak_inv seckey =
     (case secp256k1_scalar_set_b32 seckey of (sec, overflow) \<Rightarrow>
        if \<not> overflow then (True, secp256k1_scalar_get_b32 (secp256k1_scalar_inverse sec)) else (False, replicate 32 0))"

definition secp256k1_ec_privkey_tweak_neg :: "u8 list \<Rightarrow> bool \<times> u8 list" where
  "secp256k1_ec_privkey_tweak_neg seckey =
     (case secp256k1_scalar_set_b32 seckey of (sec, overflow) \<Rightarrow>
        if \<not> overflow then (True, secp256k1_scalar_get_b32 (secp256k1_scalar_negate sec)) else (False, replicate 32 0))"

section \<open>Signatures\<close>

definition secp256k1_ecdsa_signature_load :: "secp256k1_ecdsa_signature \<Rightarrow> secp256k1_scalar \<times> secp256k1_scalar" where
  "secp256k1_ecdsa_signature_load sg = (sig_r sg, sig_s sg)"

definition secp256k1_ecdsa_signature_save :: "secp256k1_scalar \<Rightarrow> secp256k1_scalar \<Rightarrow> secp256k1_ecdsa_signature" where
  "secp256k1_ecdsa_signature_save r s = \<lparr>sig_r = r, sig_s = s\<rparr>"

definition secp256k1_ecdsa_signature_parse_der :: "u8 list \<Rightarrow> bool \<times> secp256k1_ecdsa_signature" where
  "secp256k1_ecdsa_signature_parse_der input =
     (case secp256k1_ecdsa_sig_parse input of
        Some (r, s) \<Rightarrow> (True, secp256k1_ecdsa_signature_save r s)
      | None \<Rightarrow> (False, signature_zero))"

definition secp256k1_ecdsa_signature_parse_compact :: "u8 list \<Rightarrow> bool \<times> secp256k1_ecdsa_signature" where
  "secp256k1_ecdsa_signature_parse_compact input64 = (
     let (r, overflow) = secp256k1_scalar_set_b32 (take 32 input64);
         ret = \<not> overflow;
         (s, overflow) = secp256k1_scalar_set_b32 (take 32 (drop 32 input64));
         ret = (ret \<and> \<not> overflow)
     in if ret then (True, secp256k1_ecdsa_signature_save r s) else (False, signature_zero))"

definition secp256k1_ecdsa_signature_serialize_der :: "nat \<Rightarrow> secp256k1_ecdsa_signature \<Rightarrow> nat \<times> u8 list option" where
  "secp256k1_ecdsa_signature_serialize_der outputlen sg =
     (case secp256k1_ecdsa_signature_load sg of (r, s) \<Rightarrow> secp256k1_ecdsa_sig_serialize outputlen r s)"

definition secp256k1_ecdsa_signature_serialize_compact :: "secp256k1_ecdsa_signature \<Rightarrow> u8 list" where
  "secp256k1_ecdsa_signature_serialize_compact sg =
     (case secp256k1_ecdsa_signature_load sg of (r, s) \<Rightarrow> secp256k1_scalar_get_b32 r @ secp256k1_scalar_get_b32 s)"

definition secp256k1_ecdsa_signature_normalize :: "secp256k1_ecdsa_signature \<Rightarrow> bool \<times> secp256k1_ecdsa_signature" where
  "secp256k1_ecdsa_signature_normalize sigin =
     (case secp256k1_ecdsa_signature_load sigin of (r, s) \<Rightarrow>
        let ret = secp256k1_scalar_is_high s;
            s = (if ret then secp256k1_scalar_negate s else s)
        in (ret, secp256k1_ecdsa_signature_save r s))"

definition secp256k1_ecdsa_verify :: "secp256k1_context \<Rightarrow> secp256k1_ecdsa_signature \<Rightarrow> u8 list \<Rightarrow> secp256k1_pubkey \<Rightarrow> bool" where
  "secp256k1_ecdsa_verify ctx sg msg32 pubkey = (
     if \<not> secp256k1_ecmult_context_is_built (ecmult_ctx ctx) then False
     else
       let m = fst (secp256k1_scalar_set_b32 msg32);
           (r, s) = secp256k1_ecdsa_signature_load sg
       in \<not> secp256k1_scalar_is_high s \<and>
          (case secp256k1_pubkey_load pubkey of (loaded, q) \<Rightarrow>
             loaded \<and> secp256k1_ecdsa_sig_verify (ecmult_ctx ctx) r s q m))"

section \<open>Nonces and signing\<close>

text \<open>\<^verbatim>\<open>noncefp\<close>: the message, the key, \<^verbatim>\<open>algo16\<close>, the caller's data and the counter; \<open>None\<close> is 0.\<close>

type_synonym secp256k1_nonce_function = "u8 list \<Rightarrow> u8 list \<Rightarrow> u8 list option \<Rightarrow> u8 list option \<Rightarrow> u32 \<Rightarrow> u8 list option"

definition secp256k1_nonce_function_bipschnorr :: secp256k1_nonce_function where
  "secp256k1_nonce_function_bipschnorr msg32 key32 algo16 data counter =
     Some (sha256_parts ([take 32 key32, take 32 msg32] @ (case algo16 of None \<Rightarrow> [] | Some a \<Rightarrow> [take 16 a])))"

text \<open>
  \<^verbatim>\<open>for (i = 0; i <= counter; i++)\<close>; the largest counter, for which the C loop would not end, is
  not reached by the callers before their own counter wraps.
\<close>

definition nonce_function_rfc6979 :: "hmac_garbage \<Rightarrow> secp256k1_nonce_function" where
  "nonce_function_rfc6979 g msg32 key32 algo16 data counter = (
     let keydata = take 32 key32 @ take 32 msg32;
         keydata = keydata @ (case data of None \<Rightarrow> [] | Some d \<Rightarrow> take 32 d);
         keydata = keydata @ (case algo16 of None \<Rightarrow> [] | Some a \<Rightarrow> take 16 a);
         rng = secp256k1_rfc6979_hmac_sha256_initialize g keydata;
         (nonce32, rng) = ((\<lambda>(nonce32 :: u8 list, rng). secp256k1_rfc6979_hmac_sha256_generate g rng 32) ^^ (unat counter + 1)) ([], rng)
     in Some nonce32)"

text \<open>
  The loop \<^verbatim>\<open>while (1)\<close> of the two signing functions. The outer option is \<open>None\<close> where the loop
  does not end, the inner one where the nonce function gives up.
\<close>

partial_function (option) ecdsa_sign_loop ::
    "secp256k1_ecmult_gen_context \<Rightarrow> (u32 \<Rightarrow> u8 list option) \<Rightarrow> secp256k1_scalar \<Rightarrow> secp256k1_scalar \<Rightarrow> u32 \<Rightarrow>
     (secp256k1_scalar \<times> secp256k1_scalar \<times> nat) option option" where
  "ecdsa_sign_loop ctx noncefp sec msg counter =
     (case noncefp counter of
        None \<Rightarrow> Some None
      | Some nonce32 \<Rightarrow>
          case secp256k1_scalar_set_b32 nonce32 of (non, overflow) \<Rightarrow>
            if \<not> overflow \<and> \<not> secp256k1_scalar_is_zero non then
              (case secp256k1_ecdsa_sig_sign ctx sec msg non of
                 None \<Rightarrow> Some None
               | Some (ok, r, s, recid) \<Rightarrow>
                   if ok then Some (Some (r, s, recid)) else ecdsa_sign_loop ctx noncefp sec msg (counter + 1))
            else ecdsa_sign_loop ctx noncefp sec msg (counter + 1))"

definition ecdsa_sign_with ::
    "hmac_garbage \<Rightarrow> secp256k1_context \<Rightarrow> u8 list \<Rightarrow> u8 list \<Rightarrow> secp256k1_nonce_function option \<Rightarrow> u8 list option \<Rightarrow>
     (secp256k1_scalar \<times> secp256k1_scalar \<times> nat) option option" where
  "ecdsa_sign_with g ctx msg32 seckey noncefp noncedata = (
     let noncefp = (case noncefp of None \<Rightarrow> nonce_function_rfc6979 g | Some f \<Rightarrow> f);
         (sec, overflow) = secp256k1_scalar_set_b32 seckey
     in if \<not> overflow \<and> \<not> secp256k1_scalar_is_zero sec then
          let msg = fst (secp256k1_scalar_set_b32 msg32)
          in ecdsa_sign_loop (ecmult_gen_ctx ctx) (noncefp msg32 seckey None noncedata) sec msg 0
        else Some None)"

text \<open>The third argument is what \<^verbatim>\<open>signature\<close> holds before, kept when the context is not built.\<close>

definition secp256k1_ecdsa_sign ::
    "hmac_garbage \<Rightarrow> secp256k1_context \<Rightarrow> secp256k1_ecdsa_signature \<Rightarrow> u8 list \<Rightarrow> u8 list \<Rightarrow> secp256k1_nonce_function option \<Rightarrow>
     u8 list option \<Rightarrow> (bool \<times> secp256k1_ecdsa_signature) option" where
  "secp256k1_ecdsa_sign g ctx signature msg32 seckey noncefp noncedata =
     (if \<not> secp256k1_ecmult_gen_context_is_built (ecmult_gen_ctx ctx) then Some (False, signature)
      else
        (case ecdsa_sign_with g ctx msg32 seckey noncefp noncedata of
           None \<Rightarrow> None
         | Some None \<Rightarrow> Some (False, signature_zero)
         | Some (Some (r, s, recid)) \<Rightarrow> Some (True, secp256k1_ecdsa_signature_save r s)))"

section \<open>Recoverable signatures\<close>

text \<open>The 65 bytes hold two scalars and the byte \<^verbatim>\<open>recid\<close>.\<close>

record secp256k1_ecdsa_recoverable_signature =
  rsig_r :: secp256k1_scalar
  rsig_s :: secp256k1_scalar
  rsig_recid :: u8

definition recoverable_signature_zero :: secp256k1_ecdsa_recoverable_signature where
  "recoverable_signature_zero = \<lparr>rsig_r = secp256k1_scalar_clear, rsig_s = secp256k1_scalar_clear, rsig_recid = 0\<rparr>"

definition secp256k1_ecdsa_recoverable_signature_load ::
    "secp256k1_ecdsa_recoverable_signature \<Rightarrow> secp256k1_scalar \<times> secp256k1_scalar \<times> nat" where
  "secp256k1_ecdsa_recoverable_signature_load sg = (rsig_r sg, rsig_s sg, unat (rsig_recid sg))"

definition secp256k1_ecdsa_recoverable_signature_save ::
    "secp256k1_scalar \<Rightarrow> secp256k1_scalar \<Rightarrow> nat \<Rightarrow> secp256k1_ecdsa_recoverable_signature" where
  "secp256k1_ecdsa_recoverable_signature_save r s recid = \<lparr>rsig_r = r, rsig_s = s, rsig_recid = of_nat recid\<rparr>"

text \<open>\<open>None\<close>: the \<^verbatim>\<open>ARG_CHECK\<close> of \<^verbatim>\<open>recid\<close> fails before the signature is written.\<close>

definition secp256k1_ecdsa_recoverable_signature_parse_compact ::
    "u8 list \<Rightarrow> int \<Rightarrow> (bool \<times> secp256k1_ecdsa_recoverable_signature) option" where
  "secp256k1_ecdsa_recoverable_signature_parse_compact input64 recid = (
     if \<not> (recid \<ge> 0 \<and> recid \<le> 3) then None
     else
       let (r, overflow) = secp256k1_scalar_set_b32 (take 32 input64);
           ret = \<not> overflow;
           (s, overflow) = secp256k1_scalar_set_b32 (take 32 (drop 32 input64));
           ret = (ret \<and> \<not> overflow)
       in Some (if ret then (True, secp256k1_ecdsa_recoverable_signature_save r s (nat recid))
                else (False, recoverable_signature_zero)))"

definition secp256k1_ecdsa_recoverable_signature_serialize_compact ::
    "secp256k1_ecdsa_recoverable_signature \<Rightarrow> u8 list \<times> nat" where
  "secp256k1_ecdsa_recoverable_signature_serialize_compact sg =
     (case secp256k1_ecdsa_recoverable_signature_load sg of (r, s, recid) \<Rightarrow>
        (secp256k1_scalar_get_b32 r @ secp256k1_scalar_get_b32 s, recid))"

definition secp256k1_ecdsa_recoverable_signature_convert ::
    "secp256k1_ecdsa_recoverable_signature \<Rightarrow> secp256k1_ecdsa_signature" where
  "secp256k1_ecdsa_recoverable_signature_convert sigin =
     (case secp256k1_ecdsa_recoverable_signature_load sigin of (r, s, recid) \<Rightarrow> secp256k1_ecdsa_signature_save r s)"

definition secp256k1_ecdsa_sig_recover ::
    "secp256k1_ecmult_context \<Rightarrow> secp256k1_scalar \<Rightarrow> secp256k1_scalar \<Rightarrow> secp256k1_scalar \<Rightarrow> nat \<Rightarrow> secp256k1_ge option" where
  "secp256k1_ecdsa_sig_recover ctx sigr sigs msg recid = (
     if secp256k1_scalar_is_zero sigr \<or> secp256k1_scalar_is_zero sigs then None
     else
       let brx = secp256k1_scalar_get_b32 sigr;
           fx = snd (secp256k1_fe_set_b32 brx)
       in if recid AND 2 \<noteq> 0 \<and> secp256k1_fe_cmp_var fx secp256k1_ecdsa_const_p_minus_order \<ge> 0 then None
          else
            let fx = (if recid AND 2 \<noteq> 0 then secp256k1_fe_add fx secp256k1_ecdsa_const_order_as_fe else fx)
            in (case secp256k1_ge_set_xo_var fx (recid AND 1 \<noteq> 0) of
                  (False, x) \<Rightarrow> None
                | (True, x) \<Rightarrow>
                    let xj = secp256k1_gej_set_ge x;
                        rn = secp256k1_scalar_inverse_var sigr;
                        u1 = secp256k1_scalar_mul rn msg;
                        u1 = secp256k1_scalar_negate u1;
                        u2 = secp256k1_scalar_mul rn sigs;
                        qj = secp256k1_ecmult ctx xj u2 u1;
                        (pubkey, qj) = secp256k1_ge_set_gej_var secp256k1_ge_clear qj
                    in if \<not> secp256k1_gej_is_infinity qj then Some pubkey else None))"

definition secp256k1_ecdsa_sign_recoverable ::
    "hmac_garbage \<Rightarrow> secp256k1_context \<Rightarrow> secp256k1_ecdsa_recoverable_signature \<Rightarrow> u8 list \<Rightarrow> u8 list \<Rightarrow>
     secp256k1_nonce_function option \<Rightarrow> u8 list option \<Rightarrow> (bool \<times> secp256k1_ecdsa_recoverable_signature) option" where
  "secp256k1_ecdsa_sign_recoverable g ctx signature msg32 seckey noncefp noncedata =
     (if \<not> secp256k1_ecmult_gen_context_is_built (ecmult_gen_ctx ctx) then Some (False, signature)
      else
        (case ecdsa_sign_with g ctx msg32 seckey noncefp noncedata of
           None \<Rightarrow> None
         | Some None \<Rightarrow> Some (False, recoverable_signature_zero)
         | Some (Some (r, s, recid)) \<Rightarrow> Some (True, secp256k1_ecdsa_recoverable_signature_save r s recid)))"

text \<open>The second argument is what \<^verbatim>\<open>pubkey\<close> holds before.\<close>

definition secp256k1_ecdsa_recover ::
    "secp256k1_context \<Rightarrow> secp256k1_pubkey \<Rightarrow> secp256k1_ecdsa_recoverable_signature \<Rightarrow> u8 list \<Rightarrow> bool \<times> secp256k1_pubkey" where
  "secp256k1_ecdsa_recover ctx pubkey signature msg32 =
     (if \<not> secp256k1_ecmult_context_is_built (ecmult_ctx ctx) then (False, pubkey)
      else
        let (r, s, recid) = secp256k1_ecdsa_recoverable_signature_load signature;
            m = fst (secp256k1_scalar_set_b32 msg32)
        in (case secp256k1_ecdsa_sig_recover (ecmult_ctx ctx) r s m recid of
              Some q \<Rightarrow> (True, secp256k1_pubkey_save q)
            | None \<Rightarrow> (False, pubkey_zero)))"

section \<open>Diffie-Hellman\<close>

text \<open>\<open>None\<close>: the return value 0, which leaves \<^verbatim>\<open>result\<close> as it was.\<close>

definition secp256k1_ecdh :: "secp256k1_pubkey \<Rightarrow> u8 list \<Rightarrow> u8 list option" where
  "secp256k1_ecdh point scalar = (
     let pj = snd (secp256k1_pubkey_load point);
         (s, overflow) = secp256k1_scalar_set_b32 scalar
     in if overflow \<or> secp256k1_scalar_is_zero s then None
        else
          let res = secp256k1_ecmult_const pj s 256;
              pj = fst (secp256k1_ge_set_gej res);
              pj = pj\<lparr>ge_x := secp256k1_fe_normalize (ge_x pj)\<rparr>;
              pj = pj\<lparr>ge_y := secp256k1_fe_normalize (ge_y pj)\<rparr>;
              x = secp256k1_fe_get_b32 (ge_x pj);
              y = [0x02 OR (if secp256k1_fe_is_odd (ge_y pj) then 1 else 0)]
          in Some (sha256_parts [y, x]))"

end
