(* ===== verification/Schnorr.thy ===== *)
theory Schnorr
  imports Secp
begin

text \<open>
  Translation of the signatures of \<^verbatim>\<open>modules/schnorrsig/main_impl.h\<close>. A signature is its 64 bytes.
  The result of signing is the return value, the signature and what \<^verbatim>\<open>nonce_is_negated\<close> points to, if
  it is not \<^verbatim>\<open>NULL\<close>.
\<close>

unbundle bit_operations_syntax

type_synonym secp256k1_schnorrsig = "u8 list"

definition secp256k1_schnorrsig_serialize :: "secp256k1_schnorrsig \<Rightarrow> u8 list" where
  "secp256k1_schnorrsig_serialize sg = take 64 sg"

definition secp256k1_schnorrsig_parse :: "u8 list \<Rightarrow> secp256k1_schnorrsig" where
  "secp256k1_schnorrsig_parse in64 = take 64 in64"

text \<open>
  The return value of \<^verbatim>\<open>secp256k1_eckey_pubkey_serialize\<close> is not looked at: the routine only fails
  for a point at infinity, and then leaves \<^verbatim>\<open>buf\<close> as it was.
\<close>

definition secp256k1_schnorrsig_sign ::
    "secp256k1_context \<Rightarrow> secp256k1_schnorrsig \<Rightarrow> bool option \<Rightarrow> u8 list \<Rightarrow> u8 list \<Rightarrow> secp256k1_nonce_function option \<Rightarrow>
     u8 list option \<Rightarrow> bool \<times> secp256k1_schnorrsig \<times> bool option" where
  "secp256k1_schnorrsig_sign ctx sg nonce_is_negated msg32 seckey noncefp ndata = (
     if \<not> secp256k1_ecmult_gen_context_is_built (ecmult_gen_ctx ctx) then (False, sg, nonce_is_negated)
     else
       let noncefp = (case noncefp of None \<Rightarrow> secp256k1_nonce_function_bipschnorr | Some f \<Rightarrow> f);
           (x, overflow) = secp256k1_scalar_set_b32 seckey
       in if overflow \<or> secp256k1_scalar_is_zero x then (False, replicate 64 0, nonce_is_negated)
          else
            (case secp256k1_ecmult_gen (ecmult_gen_ctx ctx) x of
               None \<Rightarrow> (False, sg, nonce_is_negated)
             | Some pkj \<Rightarrow>
                 let pk = fst (secp256k1_ge_set_gej pkj)
                 in (case noncefp msg32 seckey None ndata 0 of
                       None \<Rightarrow> (False, sg, nonce_is_negated)
                     | Some buf \<Rightarrow>
                         let k = fst (secp256k1_scalar_set_b32 buf)
                         in if secp256k1_scalar_is_zero k then (False, sg, nonce_is_negated)
                            else
                              (case secp256k1_ecmult_gen (ecmult_gen_ctx ctx) k of
                                 None \<Rightarrow> (False, sg, nonce_is_negated)
                               | Some rj \<Rightarrow>
                                   let r = fst (secp256k1_ge_set_gej rj);
                                       nonce_is_negated = map_option (\<lambda>_. False) nonce_is_negated;
                                       (k, nonce_is_negated) =
                                         (if \<not> secp256k1_fe_is_quad_var (ge_y r)
                                          then (secp256k1_scalar_negate k, map_option (\<lambda>_. True) nonce_is_negated)
                                          else (k, nonce_is_negated));
                                       r = r\<lparr>ge_x := secp256k1_fe_normalize (ge_x r)\<rparr>;
                                       rx = secp256k1_fe_get_b32 (ge_x r);
                                       buf = (case fst (secp256k1_eckey_pubkey_serialize pk True) of None \<Rightarrow> buf | Some bytes \<Rightarrow> bytes);
                                       buf = sha256_parts [rx, buf, take 32 msg32];
                                       e = fst (secp256k1_scalar_set_b32 buf);
                                       e = secp256k1_scalar_mul e x;
                                       e = snd (secp256k1_scalar_add e k)
                                   in (True, rx @ secp256k1_scalar_get_b32 e, nonce_is_negated)))))"

definition secp256k1_schnorrsig_real_verify ::
    "secp256k1_context \<Rightarrow> secp256k1_scalar \<Rightarrow> secp256k1_scalar \<Rightarrow> secp256k1_pubkey \<Rightarrow> secp256k1_gej option" where
  "secp256k1_schnorrsig_real_verify ctx s e pk = (
     let nege = secp256k1_scalar_negate e
     in (case secp256k1_pubkey_load pk of
           (False, pkp) \<Rightarrow> None
         | (True, pkp) \<Rightarrow>
             let pkj = secp256k1_gej_set_ge pkp
             in Some (secp256k1_ecmult (ecmult_ctx ctx) pkj nege s)))"

text \<open>The challenge of a signature: \<^verbatim>\<open>buf\<close> holds the key, of which \<^verbatim>\<open>buflen\<close> bytes are hashed.\<close>

definition schnorrsig_challenge :: "secp256k1_schnorrsig \<Rightarrow> secp256k1_pubkey \<Rightarrow> u8 list \<Rightarrow> secp256k1_scalar" where
  "schnorrsig_challenge sg pk msg32 =
     (case secp256k1_ec_pubkey_serialize (replicate 33 0) pk SECP256K1_EC_COMPRESSED of (ok, buflen, buf) \<Rightarrow>
        fst (secp256k1_scalar_set_b32 (sha256_parts [take 32 sg, take buflen buf, take 32 msg32])))"

definition secp256k1_schnorrsig_verify :: "secp256k1_context \<Rightarrow> secp256k1_schnorrsig \<Rightarrow> u8 list \<Rightarrow> secp256k1_pubkey \<Rightarrow> bool" where
  "secp256k1_schnorrsig_verify ctx sg msg32 pk = (
     if \<not> secp256k1_ecmult_context_is_built (ecmult_ctx ctx) then False
     else
       let (ok, rx) = secp256k1_fe_set_b32 (take 32 sg)
       in if \<not> ok then False
          else
            let (s, overflow) = secp256k1_scalar_set_b32 (drop 32 sg)
            in if overflow then False
               else
                 let e = schnorrsig_challenge sg pk msg32
                 in (case secp256k1_schnorrsig_real_verify ctx s e pk of
                       None \<Rightarrow> False
                     | Some rj \<Rightarrow>
                         secp256k1_gej_has_quad_y_var rj \<and> secp256k1_gej_eq_x_var rx rj))"

end
