(* ===== verification/Ecmult_Var.thy ===== *)
theory Ecmult_Var
  imports Ecmult Group_Ops Scalar_Impl
begin

text \<open>
  The windowed signed digits of the variable-time multiplication: every digit is zero or odd and
  below the window in absolute value, and together they stand for the scalar modulo the order.
\<close>

section \<open>Windowed signed digits\<close>

definition wnaf_sum :: "nat \<Rightarrow> int list \<Rightarrow> int" where
  "wnaf_sum len ws = (\<Sum>i < len. ws ! i * 2 ^ i)"

lemma wnaf_sum_update:
  assumes "p < len" "length ws = len"
  shows "wnaf_sum len (ws[p := d]) = wnaf_sum len ws + (d - ws ! p) * 2 ^ p"
proof -
  have f: "finite {..< len}" "p \<in> {..< len}" using assms by simp_all
  have "(\<Sum>i \<in> {..< len} - {p}. ws[p := d] ! i * 2 ^ i) = (\<Sum>i \<in> {..< len} - {p}. ws ! i * 2 ^ i)"
    by (rule sum.cong) auto
  then show ?thesis
    unfolding wnaf_sum_def sum.remove [OF f, of "\<lambda>i. ws[p := d] ! i * 2 ^ i"] sum.remove [OF f, of "\<lambda>i. ws ! i * 2 ^ i"]
    using assms by (simp add: algebra_simps)
qed

definition wnaf_digit :: "nat \<Rightarrow> int \<Rightarrow> bool" where
  "wnaf_digit w d \<longleftrightarrow> d = 0 \<or> odd d \<and> \<bar>d\<bar> < 2 ^ (w - 1)"

definition wnaf_loop_inv :: "nat \<Rightarrow> nat \<Rightarrow> int \<Rightarrow> nat \<Rightarrow> int list \<times> int \<times> nat \<times> int \<Rightarrow> bool" where
  "wnaf_loop_inv len w sign S = (\<lambda>(ws, last_set, p, carry). length ws = len \<and> p \<le> len \<and> (carry = 0 \<or> carry = 1) \<and>
     (p = len \<longrightarrow> carry = 0) \<and> sign * wnaf_sum len ws = int (S mod 2 ^ p) - carry * 2 ^ p \<and>
     (\<forall>i < len. wnaf_digit w (ws ! i)) \<and> (\<forall>i < len. last_set < int i \<longrightarrow> ws ! i = 0) \<and> - 1 \<le> last_set \<and> last_set < int p)"

text \<open>The word of a window is odd, and the digit is its residue of least absolute value.\<close>

lemma window_word:
  fixes word :: int
  assumes "2 \<le> w" "odd word" "0 < word" "word < 2 ^ w"
  defines "c \<equiv> (word div 2 ^ (w - 1)) mod 2"
  shows "c = (if word < 2 ^ (w - 1) then 0 else 1)" and "wnaf_digit w (word - c * 2 ^ w)"
proof -
  have w: "(2 :: int) ^ w = 2 * 2 ^ (w - 1)" using assms(1) by (simp add: power_eq_if)
  have e: "even ((2 :: int) ^ (w - 1))" "even ((2 :: int) ^ w)" using assms(1) by simp_all
  show c: "c = (if word < 2 ^ (w - 1) then 0 else 1)"
  proof (cases "word < 2 ^ (w - 1)")
    case True
    then show ?thesis using assms(3) by (simp add: c_def)
  next
    case False
    have "word div 2 ^ (w - 1) = 1" using False assms(4) w by (intro div_pos_geq [THEN trans]) (simp_all add: div_pos_pos_trivial)
    then show ?thesis using False by (simp add: c_def)
  qed
  show "wnaf_digit w (word - c * 2 ^ w)"
  proof (cases "word < 2 ^ (w - 1)")
    case False
    have "word \<noteq> 2 ^ (w - 1)" using assms(2) e by auto
    then show ?thesis using False assms(2-4) w e c by (auto simp: wnaf_digit_def)
  qed (use assms(2,3) c in \<open>simp add: wnaf_digit_def\<close>)
qed

lemma mod_power_split: "int (S mod 2 ^ (p + k)) = int (S mod 2 ^ p) + 2 ^ p * int (S div 2 ^ p mod 2 ^ k)"
proof -
  have "S mod 2 ^ (p + k) = 2 ^ p * (S div 2 ^ p mod 2 ^ k) + S mod 2 ^ p" unfolding power_add by (rule mod_mult2_eq)
  then show ?thesis by simp
qed

lemma wnaf_window_step:
  assumes inv: "wnaf_loop_inv len w sign S (ws, last_set, p, carry)" and sign: "sign = 1 \<or> sign = - 1"
    and p: "p < len" and w: "2 \<le> w" and S: "S < 2 ^ (len - 1)"
    and odd: "S div 2 ^ p mod 2 \<noteq> nat carry"
  defines "now \<equiv> if w > len - p then len - p else w"
  defines "word \<equiv> int (S div 2 ^ p mod 2 ^ now) + carry"
  defines "c \<equiv> (word div 2 ^ (w - 1)) mod 2"
  shows "wnaf_loop_inv len w sign S (ws[p := sign * (word - c * 2 ^ w)], int p, p + now, c)"
proof -
  note i = inv [unfolded wnaf_loop_inv_def prod.case]
  have now: "0 < now" "now \<le> w" "p + now \<le> len" "now < w \<Longrightarrow> p + now = len" using p w by (auto simp: now_def)
  define B where "B = S div 2 ^ p mod 2 ^ now"
  have B: "B < 2 ^ now" "B mod 2 = S div 2 ^ p mod 2"
    using now(1) by (simp_all add: B_def mod_mod_cancel)
  have carry: "carry = 0 \<or> carry = 1" using i by blast
  have wB: "word = int B + carry" by (simp add: word_def B_def)
  have "odd B \<longleftrightarrow> carry = 0" using odd carry unfolding odd_iff_mod_2_eq_one B(2) [symmetric] by auto
  then have oddw: "odd word" using carry by (auto simp: wB)
  have top: "word < 2 ^ (w - 1)" if "p + now = len"
  proof -
    have "S div 2 ^ p < 2 ^ (now - 1)"
    proof (rule div_less_iff_less_mult [THEN iffD2])
      have "(2 :: nat) ^ (len - 1) = 2 ^ (now - 1) * 2 ^ p" using that now(1) by (simp flip: power_add)
      then show "S < 2 ^ (now - 1) * 2 ^ p" using S by simp
    qed simp
    then have "B < 2 ^ (now - 1)" unfolding B_def using mod_less_eq_dividend le_less_trans by blast
    moreover have "(2 :: nat) ^ (now - 1) \<le> 2 ^ (w - 1)" using now(2) by (intro power_increasing) simp_all
    ultimately have "int B < 2 ^ (w - 1)" by (metis less_le_trans of_nat_less_iff of_nat_numeral of_nat_power)
    moreover have "word \<noteq> 2 ^ (w - 1)" using oddw w by auto
    ultimately show ?thesis using carry unfolding wB by linarith
  qed
  have "int B < 2 ^ w" using B(1) power_increasing [OF now(2), of "2 :: nat"]
    by (metis less_le_trans of_nat_less_iff of_nat_numeral of_nat_power one_le_numeral)
  moreover have "word \<noteq> 2 ^ w" "word \<noteq> 0" using oddw w by auto
  ultimately have wd: "0 < word" "word < 2 ^ w" using carry unfolding wB by (elim disjE; linarith)+
  note c = window_word [OF w oddw wd, folded c_def]
  have ws: "ws ! p = 0" "length ws = len" using i p by auto
  have dig: "wnaf_digit w (sign * (word - c * 2 ^ w))" using c(2) sign by (auto simp: wnaf_digit_def)
  have "sign * wnaf_sum len (ws[p := sign * (word - c * 2 ^ w)]) = sign * wnaf_sum len ws + (sign * sign) * ((word - c * 2 ^ w) * 2 ^ p)"
    by (simp only: wnaf_sum_update [OF p ws(2)] ws(1)) (simp add: algebra_simps)
  also have "\<dots> = int (S mod 2 ^ p) + 2 ^ p * int B - c * 2 ^ (p + w)"
    using i sign by (auto simp: wB algebra_simps power_add)
  also have "\<dots> = int (S mod 2 ^ (p + now)) - c * 2 ^ (p + now)"
    using now c(1) top by (cases "now = w") (auto simp: mod_power_split B_def)
  finally show ?thesis
    using i dig p now c(1) top unfolding wnaf_loop_inv_def prod.case by (auto simp: nth_list_update)
qed
lemma wnaf_skip_step:
  assumes inv: "wnaf_loop_inv len w sign S (ws, last_set, p, carry)" and p: "p < len" and S: "S < 2 ^ (len - 1)"
    and eq: "S div 2 ^ p mod 2 = nat carry"
  shows "wnaf_loop_inv len w sign S (ws, last_set, p + 1, carry)"
proof -
  note i = inv [unfolded wnaf_loop_inv_def prod.case]
  have "carry = 0" if "p + 1 = len"
  proof -
    have "S div 2 ^ p = 0" using S that by (intro div_less) auto
    then show ?thesis using eq i by auto
  qed
  moreover have "int (S mod 2 ^ (p + 1)) - carry * 2 ^ (p + 1) = int (S mod 2 ^ p) - carry * 2 ^ p"
    using i eq unfolding mod_power_split by auto
  ultimately show ?thesis using i p unfolding wnaf_loop_inv_def prod.case by simp
qed

lemma get_bit_value:
  "p < 256 \<Longrightarrow> secp256k1_scalar_get_bits s p 1 = of_nat (sc_val s div 2 ^ p mod 2)"
proof -
  assume "p < 256"
  then have "unat (secp256k1_scalar_get_bits s p 1) = sc_val s div 2 ^ p mod 2" using secp256k1_scalar_get_bits_value [of 1 p s] by simp
  then show ?thesis by (metis of_nat_unat ucast_id)
qed

lemma ecmult_wnaf_loop_is:
  assumes len: "len \<le> 256" and w: "2 \<le> w" "w < 32" and sign: "sign = 1 \<or> sign = - 1" and S: "sc_val s < 2 ^ (len - 1)"
  shows "wnaf_loop_inv len w sign (sc_val s) (ws, last_set, p, carry) \<Longrightarrow> len - p \<le> passes \<Longrightarrow>
    ecmult_wnaf_loop passes len s w sign (ws, last_set, p, carry) = (ws', last_set', p', carry') \<Longrightarrow>
    wnaf_loop_inv len w sign (sc_val s) (ws', last_set', p', carry') \<and> p' = len"
proof (induction passes arbitrary: ws last_set p carry)
  case 0
  then show ?case by (auto simp: wnaf_loop_inv_def)
next
  case (Suc passes)
  show ?case
  proof (cases "p < len")
    case False
    then show ?thesis using Suc.prems by (auto simp: wnaf_loop_inv_def)
  next
    case p: True
    have c: "carry = 0 \<or> carry = 1" using Suc.prems(1) by (simp add: wnaf_loop_inv_def)
    define b where "b = sc_val s div 2 ^ p mod 2"
    have b: "b = 0 \<or> b = 1" by (auto simp: b_def)
    have g: "secp256k1_scalar_get_bits s p 1 = word_of_int carry \<longleftrightarrow> b = nat carry"
      using get_bit_value [of p s] p len c b by (auto simp: b_def)
    show ?thesis
    proof (cases "b = nat carry")
      case True
      have "len - (p + 1) \<le> passes" using Suc.prems(2) by simp
      moreover have "ecmult_wnaf_loop passes len s w sign (ws, last_set, p + 1, carry) = (ws', last_set', p', carry')"
        using Suc.prems(3) p g True by simp
      ultimately show ?thesis by (rule Suc.IH [OF wnaf_skip_step [OF Suc.prems(1) p S True [unfolded b_def]]])
    next
      case False
      define now where "now = (if w > len - p then len - p else w)"
      have now: "0 < now" "now < 32" "p + now \<le> 256" using p w len by (auto simp: now_def)
      define word where "word = int (sc_val s div 2 ^ p mod 2 ^ now) + carry"
      have word: "uint (secp256k1_scalar_get_bits_var s p now) + carry = word"
        using secp256k1_scalar_get_bits_var_value [OF now(2,3,1), of s] by (simp add: word_def uint_nat)
      note st = wnaf_window_step [OF Suc.prems(1) sign p w(1) S False [unfolded b_def], folded now_def, folded word_def]
      have "len - (p + now) \<le> passes" using Suc.prems(2) now(1) p by simp
      moreover have "ecmult_wnaf_loop passes len s w sign (ws[p := sign * (word - (word div 2 ^ (w - 1)) mod 2 * 2 ^ w)], int p, p + now,
          (word div 2 ^ (w - 1)) mod 2) = (ws', last_set', p', carry')"
        using Suc.prems(3) p g False word by (simp add: now_def [symmetric] Let_def)
      ultimately show ?thesis by (rule Suc.IH [OF st])
    qed
  qed
qed

lemma ecmult_wnaf_is:
  assumes a: "sc_val a < order_n" and w: "2 \<le> w" "w < 32" and res: "secp256k1_ecmult_wnaf 256 a w = (ws, bits)"
  shows "length ws = 256" and "0 \<le> bits" "bits \<le> 256"
    and "wnaf_sum 256 ws mod int order_n = int (sc_val a)"
    and "\<And>i. i < 256 \<Longrightarrow> wnaf_digit w (ws ! i)" and "\<And>i. i < 256 \<Longrightarrow> bits \<le> int i \<Longrightarrow> ws ! i = 0"
proof -
  define hi where "hi = (secp256k1_scalar_get_bits a 255 1 \<noteq> 0)"
  define s where "s = (if hi then secp256k1_scalar_negate a else a)"
  define sign :: int where "sign = (if hi then - 1 else 1)"
  obtain ws1 lst p carry where l: "ecmult_wnaf_loop 256 256 s w sign (replicate 256 0, - 1, 0, 0) = (ws1, lst, p, carry)"
    by (metis prod_cases4)
  have out: "ws = ws1" "bits = lst + 1"
    using res l by (auto simp: secp256k1_ecmult_wnaf_def hi_def s_def sign_def split: if_splits)
  have a256: "sc_val a < 2 ^ 256" using a by (simp add: order_n_def)
  have d: "sc_val a div 2 ^ 255 = (if 2 ^ 255 \<le> sc_val a then 1 else 0)"
    using a256 div_nat_eqI [of "2 ^ 255" 1 "sc_val a"] by (simp add: not_le)
  have hi: "hi \<longleftrightarrow> 2 ^ 255 \<le> sc_val a"
    unfolding hi_def using get_bit_value [of 255 a, unfolded d] by auto
  have s: "sc_val s < 2 ^ 255" and V: "sign * int (sc_val s) = int (sc_val a) - (if hi then int order_n else 0)"
    using secp256k1_scalar_negate_value [OF a] hi a by (auto simp: s_def sign_def order_n_def)
  have "wnaf_loop_inv 256 w sign (sc_val s) (replicate 256 0, - 1, 0, 0)"
    by (simp add: wnaf_loop_inv_def wnaf_sum_def wnaf_digit_def)
  moreover have "sign = 1 \<or> sign = - 1" by (simp add: sign_def)
  moreover have "sc_val s < 2 ^ (256 - 1)" using s by simp
  ultimately have "wnaf_loop_inv 256 w sign (sc_val s) (ws1, lst, p, carry) \<and> p = 256"
    using ecmult_wnaf_loop_is [OF order_refl w _ _ _ _ l] diff_le_self by blast
  then have inv: "wnaf_loop_inv 256 w sign (sc_val s) (ws1, lst, p, carry)" "p = 256" by blast+
  note i = inv(1) [unfolded wnaf_loop_inv_def prod.case inv(2)]
  show "length ws = 256" "0 \<le> bits" "bits \<le> 256" using i by (auto simp: out)
  show "\<And>i. i < 256 \<Longrightarrow> wnaf_digit w (ws ! i)" "\<And>i. i < 256 \<Longrightarrow> bits \<le> int i \<Longrightarrow> ws ! i = 0" using i by (auto simp: out)
  have "sc_val s < 2 ^ 256" using s by simp
  then have "sign * wnaf_sum 256 ws = int (sc_val s)" using i by (simp add: out)
  then have "wnaf_sum 256 ws = sign * int (sc_val s)" by (auto simp: sign_def split: if_splits)
  then have "wnaf_sum 256 ws = int (sc_val a) - (if hi then int order_n else 0)" using V by simp
  then show "wnaf_sum 256 ws mod int order_n = int (sc_val a)" using a by simp
qed

end
