(* ===== verification/Ecmult_Storage.thy ===== *)
theory Ecmult_Storage
  imports Ecmult Ecmult_Mul
begin

text \<open>
  The table of the generator: entry \<open>i\<close> that \<^verbatim>\<open>secp256k1_ecmult_odd_multiples_table_storage_var\<close>
  writes is the affine point \<open>(2 i + 1) P\<close>. Its first loop keeps, for every entry, only the ratio of
  the z coordinates and the unscaled y coordinate; the second computes the x coordinates back from
  the ratios, with one inversion for the whole table.
\<close>

section \<open>The ratio of an addition\<close>

text \<open>The two summands of a step never share their x coordinate.\<close>

lemma pt_same_x: "pt P = Point x y \<Longrightarrow> pt Q = Point x y' \<Longrightarrow> P = Q \<or> P = - Q"
proof -
  assume P: "pt P = Point x y" and Q: "pt Q = Point x y'"
  then have "on_curve (Point x y)" "on_curve (Point x y')" using on_curve_pt by metis+
  then have "y = y' \<or> y = - y'" by (rule on_curve_same_x)
  then have "pt P = pt Q \<or> pt P = pt (- Q)" using P Q by (auto simp: pt_neg)
  then show ?thesis by (simp add: pt_inject)
qed

lemma odd_multiple_distinct:
  assumes "P \<noteq> 0" "2 * k + 3 < order_n"
  shows "nmul (2 * k + 1) P \<noteq> P + P" and "nmul (2 * k + 1) P \<noteq> - (P + P)"
proof -
  have "zmul (2 * int k - 1) P \<noteq> 0"
  proof -
    have "\<not> int order_n dvd 2 * int k - 1"
      using assms(2) zdvd_imp_le [of "int order_n" "2 * int k - 1"] zdvd_imp_le [of "int order_n" 1] by (cases "k = 0") auto
    then show ?thesis using assms(1) by (simp add: zmul_eq_0_iff)
  qed
  moreover have "zmul (2 * int k - 1) P = nmul (2 * k + 1) P - (P + P)"
  proof -
    have "2 * int k - 1 = int (2 * k + 1) - 2 * 1" by simp
    then show ?thesis by (simp only: zmul_diff zmul_double zmul_of_nat zmul_1)
  qed
  ultimately show "nmul (2 * k + 1) P \<noteq> P + P" by auto
  have "nmul (2 * k + 3) P \<noteq> 0" by (rule nmul_small_neq_0) (use assms in simp_all)
  moreover have "nmul (2 * k + 3) P = nmul (2 * k + 1) P + (P + P)"
    using nmul_odd_Suc [of k P] by (simp add: numeral_3_eq_3)
  ultimately show "nmul (2 * k + 1) P \<noteq> - (P + P)" by (metis add.left_inverse)
qed

lemma gej_add_ge_var_ratio_value:
  assumes a: "\<not> gej_infinity a" "fe_is 8 X1 (gej_x a)" "fe_is 8 Z1 (gej_z a)" and b: "\<not> ge_infinity b" "fe_is 8 X2 (ge_x b)"
    and ne: "X2 * (Z1 * Z1) \<noteq> X1"
  shows "\<exists>h. snd (secp256k1_gej_add_ge_var r a b) = Some h \<and> fe_is 3 (X2 * (Z1 * Z1) - X1) h"
proof -
  define h where "h = secp256k1_fe_add (secp256k1_fe_negate (secp256k1_fe_normalize_weak (gej_x a)) 1)
    (secp256k1_fe_mul (ge_x b) (secp256k1_fe_sqr (gej_z a)))"
  have "fe_is 3 (- X1 + X2 * (Z1 * Z1)) h"
    unfolding h_def by (rule fe_is_mono [where m = "2 + 1"]) (rule fe_exec a b | simp)+
  then have h: "fe_is 3 (X2 * (Z1 * Z1) - X1) h" by simp
  then have "\<not> secp256k1_fe_normalizes_to_zero_var h"
    using fe_exec_zero_test(2) [OF h] ne by simp
  then have "snd (secp256k1_gej_add_ge_var r a b) = Some h"
    using a(1) b(1) unfolding h_def by (simp add: secp256k1_gej_add_ge_var_def Let_def)
  then show ?thesis using h by blast
qed

section \<open>The first loop\<close>

text \<open>The values an entry keeps, and the z coordinate they stand for.\<close>

definition kept_x :: "secp256k1_ge_storage list \<Rightarrow> nat \<Rightarrow> fp" where
  "kept_x pre i = fev (secp256k1_fe_from_storage (ges_x (pre ! i)))"

definition kept_y :: "secp256k1_ge_storage list \<Rightarrow> nat \<Rightarrow> fp" where
  "kept_y pre i = fev (secp256k1_fe_from_storage (ges_y (pre ! i)))"

definition kept_z :: "fp \<Rightarrow> secp256k1_ge_storage list \<Rightarrow> nat \<Rightarrow> fp" where
  "kept_z z0 pre i = z0 * (\<Prod>k \<in> {0 <.. i}. kept_x pre k)"

lemma kept_z_Suc: "kept_z z0 pre (Suc i) = kept_z z0 pre i * kept_x pre (Suc i)"
proof -
  have "{0 <.. Suc i} = insert (Suc i) {0 <.. i}" by auto
  then show ?thesis by (simp add: kept_z_def)
qed

lemma kept_z_cong: "(\<And>k. 0 < k \<Longrightarrow> k \<le> i \<Longrightarrow> pre ! k = pre' ! k) \<Longrightarrow> kept_z z0 pre i = kept_z z0 pre' i"
  by (simp add: kept_z_def kept_x_def)

definition kept_entry :: "fp \<Rightarrow> fp \<Rightarrow> fp \<Rightarrow> cpoint \<Rightarrow> nat \<Rightarrow> secp256k1_ge_storage list \<Rightarrow> nat \<Rightarrow> bool" where
  "kept_entry D dx z0 P m pre i \<longleftrightarrow>
     fe_mag 1 (secp256k1_fe_from_storage (ges_x (pre ! i))) \<and> fe_mag 1 (secp256k1_fe_from_storage (ges_y (pre ! i))) \<and>
     kept_z z0 pre i \<noteq> 0 \<and>
     (\<exists>x. pt (nmul (2 * i + 1) P) = Point x (kept_y pre i / (kept_z z0 pre i * D) ^ 3) \<and>
       (Suc i < m \<longrightarrow> x = dx / D ^ 2 - kept_x pre (Suc i) / (kept_z z0 pre i * D) ^ 2))"

definition kept_table :: "fp \<Rightarrow> fp \<Rightarrow> fp \<Rightarrow> cpoint \<Rightarrow> nat \<Rightarrow> nat \<Rightarrow> secp256k1_gej \<times> secp256k1_fe \<times> secp256k1_ge_storage list \<Rightarrow> bool" where
  "kept_table D dx z0 P n m = (\<lambda>(pj, zr, pre). length pre = n \<and> gej_is D (nmul (2 * (m - 1) + 1) P) pj \<and>
     fev (gej_z pj) = kept_z z0 pre (m - 1) \<and> (\<forall>i < m. kept_entry D dx z0 P m pre i))"

lemma kept_entry_cong:
  "(\<And>k. k \<le> Suc i \<Longrightarrow> k < m \<Longrightarrow> pre ! k = pre' ! k) \<Longrightarrow> i < m \<Longrightarrow> kept_entry D dx z0 P m pre i \<longleftrightarrow> kept_entry D dx z0 P m pre' i"
proof -
  assume e: "\<And>k. k \<le> Suc i \<Longrightarrow> k < m \<Longrightarrow> pre ! k = pre' ! k" and i: "i < m"
  have "kept_z z0 pre i = kept_z z0 pre' i" by (rule kept_z_cong) (use e i in auto)
  moreover have "pre ! i = pre' ! i" "Suc i < m \<Longrightarrow> pre ! Suc i = pre' ! Suc i" using e i by auto
  ultimately show ?thesis by (auto simp: kept_entry_def kept_x_def kept_y_def)
qed

lemma storage_table_write_is:
  assumes z: "fe_is 8 r zr" and y: "fe_is 8 Y (gej_y pj)" and m: "m < length pre"
    and res: "storage_table_write m (pj, zr, pre) = (pj', zr', pre')"
  shows "length pre' = length pre" and "\<And>k. k \<noteq> m \<Longrightarrow> pre' ! k = pre ! k"
    and "kept_x pre' m = r" and "kept_y pre' m = Y"
    and "fe_mag 1 (secp256k1_fe_from_storage (ges_x (pre' ! m)))" "fe_mag 1 (secp256k1_fe_from_storage (ges_y (pre' ! m)))"
    and "pj' = pj\<lparr>gej_y := secp256k1_fe_normalize (gej_y pj)\<rparr>"
proof -
  have e: "secp256k1_fe_normalize_var zr = secp256k1_fe_normalize zr" "secp256k1_fe_normalize_var (gej_y pj) = secp256k1_fe_normalize (gej_y pj)"
    using fe_is_mono [OF z, of 32] fe_is_mono [OF y, of 32] by (simp_all add: fe_normalize_var_eq fe_is_def)
  have x: "fe_is 1 r (secp256k1_fe_from_storage (secp256k1_fe_to_storage (secp256k1_fe_normalize zr)))"
    "fe_is 1 Y (secp256k1_fe_from_storage (secp256k1_fe_to_storage (secp256k1_fe_normalize (gej_y pj))))"
    using fe_storage_normal [OF z] fe_storage_normal [OF y] by simp_all
  have pre': "pre' = pre[m := (pre ! m)\<lparr>ges_x := secp256k1_fe_to_storage (secp256k1_fe_normalize zr),
      ges_y := secp256k1_fe_to_storage (secp256k1_fe_normalize (gej_y pj))\<rparr>]" and pj': "pj' = pj\<lparr>gej_y := secp256k1_fe_normalize (gej_y pj)\<rparr>"
    using res m by (auto simp: storage_table_write_def Let_def e)
  show "length pre' = length pre" "\<And>k. k \<noteq> m \<Longrightarrow> pre' ! k = pre ! k" by (simp_all add: pre')
  show "kept_x pre' m = r" "kept_y pre' m = Y" "fe_mag 1 (secp256k1_fe_from_storage (ges_x (pre' ! m)))"
    "fe_mag 1 (secp256k1_fe_from_storage (ges_y (pre' ! m)))"
    using x m by (simp_all add: pre' kept_x_def kept_y_def fe_is_fev)
  show "pj' = pj\<lparr>gej_y := secp256k1_fe_normalize (gej_y pj)\<rparr>" by (rule pj')
qed

lemma gej_normalize_y_is:
  assumes a: "gej_is v P a" "P \<noteq> 0"
  shows "gej_is v P (a\<lparr>gej_y := secp256k1_fe_normalize (gej_y a)\<rparr>)"
proof -
  obtain X Y Z where x: "fe_is 8 X (gej_x a)" "fe_is 8 Y (gej_y a)" "fe_is 8 Z (gej_z a)" "Z \<noteq> 0"
    and P: "pt P = Point (X / (Z * v) ^ 2) (Y / (Z * v) ^ 3)" and inf: "\<not> gej_infinity a" using gej_isE [OF a] by metis
  have y: "fe_is 1 Y (secp256k1_fe_normalize (gej_y a))" by (rule fe_exec x | simp)+
  have "a\<lparr>gej_y := secp256k1_fe_normalize (gej_y a)\<rparr> =
      \<lparr>gej_x = gej_x a, gej_y = secp256k1_fe_normalize (gej_y a), gej_z = gej_z a, gej_infinity = False\<rparr>" using inf by simp
  then show ?thesis using gej_isI [OF x(1) fe_is_8 [OF y] x(3,4) P] by simp
qed

lemma kept_entry_last:
  "kept_entry D dx z0 P m pre i \<Longrightarrow> Suc i = m \<Longrightarrow> (\<exists>y. pt (nmul (2 * i + 1) P) = Point (dx / D ^ 2 - kept_x pre m / (kept_z z0 pre i * D) ^ 2) y) \<Longrightarrow>
    kept_entry D dx z0 P (Suc m) pre i"
  by (auto simp: kept_entry_def)

lemma kept_entry_more: "kept_entry D dx z0 P m pre i \<Longrightarrow> Suc i < m \<Longrightarrow> kept_entry D dx z0 P (Suc m) pre i"
  by (simp add: kept_entry_def)

lemma storage_table_step_is:
  assumes t: "kept_table D dx z0 P n m st" and m: "0 < m" "m < n" "2 * n < order_n" and P: "P \<noteq> 0"
    and D: "D \<noteq> 0" and dg: "ge_is D (P + P) d_ge" "fev (ge_x d_ge) = dx"
  shows "kept_table D dx z0 P n (Suc m) (storage_table_step d_ge m st)"
proof -
  obtain pj zr pre where st: "st = (pj, zr, pre)" by (metis prod_cases3)
  let ?i = "m - 1"
  let ?P = "\<lambda>i. nmul (2 * i + 1) P"
  have len: "length pre = n" and a: "gej_is D (?P ?i) pj" and fz: "fev (gej_z pj) = kept_z z0 pre ?i"
    and ent: "\<And>i. i < m \<Longrightarrow> kept_entry D dx z0 P m pre i"
    using t by (simp_all add: st kept_table_def)
  have Si: "Suc ?i = m" "?i < m" using m(1) by simp_all
  have PP: "P + P \<noteq> 0" using P no_order_two by blast
  have Pi: "?P i \<noteq> 0" if "i < n" for i using P m that by (intro nmul_small_neq_0) simp_all
  have Pi1: "?P ?i \<noteq> 0" by (rule Pi) (use m in simp)
  obtain X1 Y1 Z1 where x1: "fe_is 8 X1 (gej_x pj)" "fe_is 8 Y1 (gej_y pj)" "fe_is 8 Z1 (gej_z pj)" "Z1 \<noteq> 0"
    and p1: "pt (?P ?i) = Point (X1 / (Z1 * D) ^ 2) (Y1 / (Z1 * D) ^ 3)" and f1: "fev (gej_z pj) = Z1" and fin: "\<not> gej_infinity pj"
    using gej_isE [OF a Pi1] .
  obtain X2 Y2 where x2: "fe_is 8 X2 (ge_x d_ge)" and p2: "pt (P + P) = Point (X2 / D ^ 2) (Y2 / D ^ 3)" and fin2: "\<not> ge_infinity d_ge"
    using ge_isE [OF dg(1) PP] by metis
  have X2: "X2 = dx" using x2 dg(2) by (simp add: fe_is_fev)
  have ne: "X2 * (Z1 * Z1) \<noteq> X1"
  proof
    assume "X2 * (Z1 * Z1) = X1"
    then have "X1 / (Z1 * D) ^ 2 = X2 / D ^ 2" using x1(4) by (auto simp: power2_eq_square)
    then have "?P ?i = P + P \<or> ?P ?i = - (P + P)" using pt_same_x [of "?P ?i" _ _ "P + P"] p1 p2 by metis
    then show False using odd_multiple_distinct [OF P, of ?i] m by simp
  qed
  obtain h where h: "snd (secp256k1_gej_add_ge_var pj pj d_ge) = Some h" "fe_is 3 (X2 * (Z1 * Z1) - X1) h"
    using gej_add_ge_var_ratio_value [OF fin x1(1,3) fin2 x2 ne] by blast
  have h8: "fe_is 8 (X2 * (Z1 * Z1) - X1) h" by (rule fe_is_mono [OF h(2)]) simp
  define q where "q = fst (secp256k1_gej_add_ge_var pj pj d_ge)"
  have post: "add_post D (pt (?P ?i + (P + P))) (fev (gej_z pj)) (q, Some h)"
    using gej_add_ge_var_full [OF a Pi1 dg(1) PP D, of pj] h(1) by (simp add: q_def prod_eq_iff [symmetric] flip: surjective_pairing)
      (metis prod.collapse)
  have Pm: "?P ?i + (P + P) = ?P m" using nmul_odd_Suc [of ?i P] Si by simp
  have q: "gej_is D (?P m) q" using add_post_is [OF post] by (simp only: Pm fst_conv)
  have Pm0: "?P m \<noteq> 0" by (rule Pi [OF m(2)])
  obtain Xq Yq Zq where xq: "fe_is 8 Yq (gej_y q)" "Zq \<noteq> 0" "pt (?P m) = Point (Xq / (Zq * D) ^ 2) (Yq / (Zq * D) ^ 3)"
    "fev (gej_z q) = Zq" "\<not> gej_infinity q" using gej_isE [OF q Pm0] by metis
  have zq: "Zq = Z1 * (X2 * (Z1 * Z1) - X1)"
    using post xq f1 h8 by (simp add: add_post_def fe_is_fev)
  obtain pj' zr' pre' where w: "storage_table_write m (q, h, pre) = (pj', zr', pre')" by (metis prod_cases3)
  have step: "storage_table_step d_ge m st = (pj', zr', pre')"
    using w h(1) by (simp add: storage_table_step_def st q_def split_def)
  note s = storage_table_write_is [OF h8 xq(1) _ w, unfolded len, OF m(2)]
  have zi: "kept_z z0 pre' i = kept_z z0 pre i" if "i < m" for i by (rule kept_z_cong) (use s(2) that in auto)
  have zm: "kept_z z0 pre' m = Zq"
    using kept_z_Suc [of z0 pre' ?i] zi [OF Si(2)] Si fz f1 s(3) zq by simp
  have em: "kept_entry D dx z0 P (Suc m) pre' m"
    using s(3-6) xq zm by (simp add: kept_entry_def)
  have x: "X1 / (Z1 * D) ^ 2 = dx / D ^ 2 - kept_x pre' m / (kept_z z0 pre' ?i * D) ^ 2"
    unfolding s(3) zi [OF Si(2)] fz [symmetric] f1 X2 using x1(4) D by (simp add: field_simps power2_eq_square)
  have old: "kept_entry D dx z0 P m pre' i" if "i < m" for i
    using kept_entry_cong [of i m pre' pre D dx z0 P] ent [OF that] s(2) that by (simp add: nat_neq_iff)
  have last: "kept_entry D dx z0 P (Suc m) pre' ?i"
    using p1 by (intro kept_entry_last [OF old [OF Si(2)] Si(1)]) (simp only: x [symmetric], blast)
  have "kept_entry D dx z0 P (Suc m) pre' i" if "i < m" for i
    using kept_entry_more [OF old [OF that]] last that by (cases "i = ?i") auto
  then have "\<forall>i < Suc m. kept_entry D dx z0 P (Suc m) pre' i" using em less_Suc_eq by auto
  moreover have "gej_is D (?P m) pj'" unfolding s(7) by (rule gej_normalize_y_is [OF q Pm0])
  moreover have "fev (gej_z pj') = kept_z z0 pre' m" using zm xq(4) by (simp add: s(7))
  ultimately show ?thesis unfolding step kept_table_def using s(1) by simp
qed

lemma storage_table_fold_is:
  assumes t: "kept_table D dx z0 P n 1 st" and n: "0 < m" "m \<le> n" "2 * n < order_n" and P: "P \<noteq> 0"
    and D: "D \<noteq> 0" and dg: "ge_is D (P + P) d_ge" "fev (ge_x d_ge) = dx"
  shows "kept_table D dx z0 P n m (fold (storage_table_step d_ge) [1 ..< m] st)"
  using n
proof (induction m)
  case (Suc m)
  show ?case
  proof (cases "m = 0")
    case False
    then have "kept_table D dx z0 P n m (fold (storage_table_step d_ge) [1 ..< m] st)" using Suc by simp
    then show ?thesis using storage_table_step_is [OF _ _ _ n(3) P D dg] Suc.prems False by simp
  qed (use t in simp)
qed simp

section \<open>The second loop\<close>

lemma ge_from_storage_eta: "secp256k1_ge_from_storage e =
    \<lparr>ge_x = secp256k1_fe_from_storage (ges_x e), ge_y = secp256k1_fe_from_storage (ges_y e), ge_infinity = False\<rparr>"
  by (simp add: secp256k1_ge_from_storage_def)

lemma storage_table_back_is:
  assumes ent: "\<And>i. i < n \<Longrightarrow> kept_entry D dx z0 P n pre0 i" and D: "D \<noteq> 0" and P: "P \<noteq> 0" and n: "2 * n < order_n"
    and dd: "fe_is 1 (dx / D ^ 2) dxz"
  shows "i < n \<Longrightarrow> length pre = n \<Longrightarrow> (\<And>j. j < i \<Longrightarrow> pre ! j = pre0 ! j) \<Longrightarrow>
    last_ge = secp256k1_ge_from_storage (pre0 ! i) \<Longrightarrow> fe_is 1 (1 / (kept_z z0 pre0 i * D)) zi \<Longrightarrow>
    ge_is 1 (nmul (2 * i + 1) P) (secp256k1_ge_from_storage (pre ! i)) \<Longrightarrow> j \<le> i \<Longrightarrow>
    ge_is 1 (nmul (2 * j + 1) P) (secp256k1_ge_from_storage (storage_table_back dxz i zi last_ge pre ! j))"
proof (induction i arbitrary: zi last_ge pre j)
  case 0
  then show ?case by simp
next
  case (Suc i)
  have i: "i < n" using Suc.prems(1) by simp
  let ?z = "kept_z z0 pre0 i"
  define zi' where "zi' = secp256k1_fe_mul zi (ge_x last_ge)"
  define px where "px = secp256k1_fe_add (secp256k1_fe_negate (secp256k1_fe_mul (ge_x last_ge) (secp256k1_fe_sqr zi')) 1) dxz"
  define lg where "lg = secp256k1_ge_from_storage (pre0 ! i)"
  define py where "py = secp256k1_fe_mul (ge_y lg) (secp256k1_fe_mul (secp256k1_fe_sqr zi') zi')"
  define e where "e = \<lparr>ge_x = px, ge_y = py, ge_infinity = False\<rparr>"
  have k: "kept_z z0 pre0 (Suc i) = ?z * kept_x pre0 (Suc i)" by (rule kept_z_Suc)
  have nz: "?z \<noteq> 0" "kept_x pre0 (Suc i) \<noteq> 0" using ent [OF i] ent [OF Suc.prems(1)] k by (simp_all add: kept_entry_def)
  have lx: "fe_is 1 (kept_x pre0 (Suc i)) (ge_x last_ge)"
    using ent [OF Suc.prems(1)] by (simp add: Suc.prems(4) ge_from_storage_eta kept_x_def kept_entry_def fe_is_fev)
  have ly: "fe_is 1 (kept_y pre0 i) (ge_y lg)"
    using ent [OF i] by (simp add: lg_def ge_from_storage_eta kept_y_def kept_entry_def fe_is_fev)
  have "fe_is 1 (1 / (kept_z z0 pre0 (Suc i) * D) * kept_x pre0 (Suc i)) zi'"
    unfolding zi'_def by (rule fe_exec Suc.prems(5) lx | simp)+
  then have zi': "fe_is 1 (1 / (?z * D)) zi'" using nz D by (simp add: k)
  have "fe_is 3 (- (kept_x pre0 (Suc i) * (1 / (?z * D) * (1 / (?z * D)))) + dx / D ^ 2) px"
    unfolding px_def by (rule fe_is_mono [where m = "2 + 1"]) (rule fe_exec zi' lx dd | simp)+
  then have px: "fe_is 3 (dx / D ^ 2 - kept_x pre0 (Suc i) / (?z * D) ^ 2) px" by (simp add: power2_eq_square)
  have "fe_is 1 (kept_y pre0 i * (1 / (?z * D) * (1 / (?z * D)) * (1 / (?z * D)))) py"
    unfolding py_def by (rule fe_exec zi' ly | simp)+
  then have py: "fe_is 1 (kept_y pre0 i / (?z * D) ^ 3) py" by (simp add: power3_eq_cube)
  have "pt (nmul (2 * i + 1) P) = Point (dx / D ^ 2 - kept_x pre0 (Suc i) / (?z * D) ^ 2) (kept_y pre0 i / (?z * D) ^ 3)"
    using ent [OF i] Suc.prems(1) by (auto simp: kept_entry_def)
  then have "ge_is 1 (nmul (2 * i + 1) P) e"
    unfolding e_def by (intro ge_isI [OF fe_is_mono [OF px] fe_is_8 [OF py]]) simp_all
  then have e: "ge_is 1 (nmul (2 * i + 1) P) (secp256k1_ge_from_storage (secp256k1_ge_to_storage e))"
    by (rule ge_from_to_storage_is(1)) (use P n i in \<open>intro nmul_small_neq_0; simp\<close>)
  have pi: "pre ! i = pre0 ! i" using Suc.prems(3) by simp
  define pre1 where "pre1 = pre[i := secp256k1_ge_to_storage e]"
  have eq: "storage_table_back dxz (Suc i) zi last_ge pre = storage_table_back dxz i zi' lg pre1"
    by (simp add: Let_def pi zi'_def px_def lg_def py_def e_def pre1_def)
  have ih: "ge_is 1 (nmul (2 * j + 1) P) (secp256k1_ge_from_storage (storage_table_back dxz i zi' lg pre1 ! j))" if "j \<le> i" for j
    by (rule Suc.IH [OF i _ _ lg_def zi' _ that]) (use Suc.prems(2,3) e i in \<open>simp_all add: pre1_def\<close>)
  show ?case
  proof (cases "j = Suc i")
    case False
    then show ?thesis using ih Suc.prems(7) unfolding eq by simp
  next
    case True
    have "storage_table_back dxz i zi' lg pre1 ! k = pre1 ! k" if "i \<le> k" for k and zi' lg pre1
      using that by (induction i arbitrary: zi' lg pre1) (simp_all add: Let_def)
    then show ?thesis using Suc.prems(6) True unfolding eq by (simp add: pre1_def)
  qed
qed

lemma storage_table_is:
  assumes a: "gej_is 1 P a" "P \<noteq> 0" and n: "1 < n" "2 * n < order_n" "length pre = n" and j: "j < n"
  shows "ge_is 1 (nmul (2 * j + 1) P) (secp256k1_ge_from_storage (secp256k1_ecmult_odd_multiples_table_storage_var n pre a ! j))"
proof -
  define d where "d = fst (secp256k1_gej_double_var secp256k1_gej_clear a)"
  define D where "D = fev (gej_z d)"
  define ag where "ag = secp256k1_ge_set_gej_zinv a (gej_z d)"
  define dg where "dg = \<lparr>ge_x = gej_x d, ge_y = gej_y d, ge_infinity = False\<rparr>"
  define p0 where "p0 = \<lparr>gej_x = ge_x ag, gej_y = ge_y ag, gej_z = gej_z a, gej_infinity = False\<rparr>"
  have start: "D \<noteq> 0" "fe_mag 8 (gej_z d)" "ge_is D (P + P) dg" "odd_table n D P 1 ((replicate n p0)[0 := p0], replicate n undefined)"
    using odd_multiples_start [OF a _ _ _ d_def D_def ag_def, of n "replicate n p0" "replicate n undefined"] n
    by (simp_all add: dg_def p0_def)
  have zd: "fe_is 8 D (gej_z d)" using start(2) by (simp add: D_def fe_is_fev)
  let ?P = "\<lambda>i. nmul (2 * i + 1) P"
  have p0: "gej_is D P p0" using start(4) n by (simp add: odd_table_def)
  obtain X0 Y0 Z0 where x0: "fe_is 8 Y0 (gej_y p0)" "Z0 \<noteq> 0" "pt P = Point (X0 / (Z0 * D) ^ 2) (Y0 / (Z0 * D) ^ 3)" "fev (gej_z p0) = Z0"
    using gej_isE [OF p0 a(2)] by metis
  obtain pj1 zr1 pre1 where w: "storage_table_write 0 (p0, gej_z d, pre) = (pj1, zr1, pre1)" by (metis prod_cases3)
  note s = storage_table_write_is [OF zd x0(1) _ w, unfolded n(3)]
  have t1: "kept_table D (fev (gej_x d)) Z0 P n 1 (pj1, zr1, pre1)"
    using s n gej_normalize_y_is [OF p0 a(2)] x0 by (simp add: kept_table_def kept_entry_def kept_z_def)
  obtain pj zr pre2 where f: "fold (storage_table_step dg) [1 ..< n] (pj1, zr1, pre1) = (pj, zr, pre2)" by (metis prod_cases3)
  have t: "kept_table D (fev (gej_x d)) Z0 P n n (pj, zr, pre2)"
    using storage_table_fold_is [OF t1 _ order_refl n(2) a(2) start(1,3)] n(1) f by (simp add: dg_def)
  then have len: "length pre2 = n" and ent: "\<And>i. i < n \<Longrightarrow> kept_entry D (fev (gej_x d)) Z0 P n pre2 i"
    and l: "gej_is D (?P (n - 1)) pj" and fz: "fev (gej_z pj) = kept_z Z0 pre2 (n - 1)" by (simp_all add: kept_table_def)
  have Pl: "?P (n - 1) \<noteq> 0" using a(2) n by (intro nmul_small_neq_0) simp_all
  define pj' where "pj' = pj\<lparr>gej_z := secp256k1_fe_mul (gej_z pj) (gej_z d)\<rparr>"
  have lj: "gej_is 1 (?P (n - 1)) pj'" unfolding pj'_def by (rule gej_scale_z [OF l start(1) zd])
  obtain Z where z: "fe_is 8 Z (gej_z pj)" "fev (gej_z pj) = Z" using gej_isE [OF l Pl] by metis
  have "fe_is 1 (Z * D) (secp256k1_fe_mul (gej_z pj) (gej_z d))" by (rule fe_exec z(1) zd | simp)+
  then have "fe_is 1 (Z * D) (gej_z pj')" by (simp add: pj'_def)
  then have zj: "fe_is 1 (kept_z Z0 pre2 (n - 1) * D) (gej_z pj')" using z fz by simp
  define zi where "zi = secp256k1_fe_inv_var (gej_z pj')"
  have zi: "fe_is 1 (1 / (kept_z Z0 pre2 (n - 1) * D)) zi"
    unfolding zi_def secp256k1_fe_inv_var_def inverse_eq_divide [symmetric] by (rule fe_exec fe_is_8 [OF zj] | simp)+
  have znz: "kept_z Z0 pre2 (n - 1) \<noteq> 0" using ent [of "n - 1"] n by (simp add: kept_entry_def)
  have "fev (gej_z pj') = kept_z Z0 pre2 (n - 1) * D" using zj by (simp add: fe_is_fev)
  then have pg: "ge_is 1 (?P (n - 1)) (secp256k1_ge_set_gej_zinv pj' zi)"
    using ge_set_gej_zinv_is(1) [OF lj Pl fe_is_8 [OF zi], of 1] znz start(1) by simp
  define pre3 where "pre3 = pre2[n - 1 := secp256k1_ge_to_storage (secp256k1_ge_set_gej_zinv pj' zi)]"
  define dxz where "dxz = secp256k1_fe_mul (secp256k1_fe_sqr (secp256k1_fe_inv_var (gej_z d))) (gej_x d)"
  have "P + P \<noteq> 0" using no_order_two a(2) by blast
  then obtain X where "fe_is 8 X (ge_x dg)" using ge_isE [OF start(3)] by metis
  then have xd: "fe_is 8 (fev (gej_x d)) (gej_x d)" by (simp add: fe_is_fev dg_def)
  have "fe_is 1 (inverse D * inverse D * fev (gej_x d)) dxz"
    unfolding dxz_def secp256k1_fe_inv_var_def by (rule fe_exec zd xd | simp)+
  then have dxz: "fe_is 1 (fev (gej_x d) / D ^ 2) dxz" by (simp add: divide_inverse power2_eq_square ac_simps)
  have out: "secp256k1_ecmult_odd_multiples_table_storage_var n pre a =
      storage_table_back dxz (n - 1) zi (secp256k1_ge_from_storage (pre2 ! (n - 1))) pre3"
    unfolding secp256k1_ecmult_odd_multiples_table_storage_var_def Let_def d_def [symmetric] ag_def [symmetric]
      dg_def [symmetric] p0_def [symmetric] w prod.case f
    by (simp add: pj'_def zi_def dxz_def pre3_def)
  have p3: "length pre3 = n" "\<And>k. k < n - 1 \<Longrightarrow> pre3 ! k = pre2 ! k" "n - 1 < n" "j \<le> n - 1"
    "pre3 ! (n - 1) = secp256k1_ge_to_storage (secp256k1_ge_set_gej_zinv pj' zi)"
    using n j len by (simp_all add: pre3_def)
  have l3: "ge_is 1 (?P (n - 1)) (secp256k1_ge_from_storage (pre3 ! (n - 1)))"
    unfolding p3(5) by (rule ge_from_to_storage_is(1) [OF pg Pl])
  show ?thesis
    unfolding out
    by (rule storage_table_back_is [OF _ start(1) a(2) n(2) dxz p3(3,1) _ refl zi l3 p3(4)], erule ent, erule p3(2))
qed

end
