(* ===== verification/Ecmult_Strauss.thy ===== *)
theory Ecmult_Strauss
  imports Ecmult_Var Ecmult_Storage
begin

text \<open>
  Strauss's loop: with the signed digits of both scalars and both tables, one doubling per digit and
  an addition for every digit that is not zero compute \<open>a P + b G\<close>. The partial results are over
  the common z coordinate \<open>g\<close> of the table of P, the table of G is affine.
\<close>

section \<open>Table access\<close>

lemma odd_digit_cases:
  assumes "odd n" "\<bar>n\<bar> < 2 * int m"
  obtains k where "k < m" "n = int (2 * k + 1)" "n > 0" "nat ((n - 1) div 2) = k"
  | k where "k < m" "n = - int (2 * k + 1)" "\<not> n > 0" "nat ((- n - 1) div 2) = k"
proof (cases "n > 0")
  case True
  obtain j where "n = 2 * j + 1" using assms(1) by (rule oddE)
  with True assms(2) show ?thesis by (intro that(1) [of "nat j"]) auto
next
  case False
  have "odd (- n)" using assms(1) by simp
  then obtain j where "- n = 2 * j + 1" by (rule oddE)
  with False assms(2) show ?thesis by (intro that(2) [of "nat j"]) auto
qed

lemma zmul_neg_nat: "zmul (- int k) P = - nmul k P"
  by (simp add: zmul_minus)

lemma table_get_ge_is:
  assumes pre: "\<And>i. i < m \<Longrightarrow> ge_is g (nmul (2 * i + 1) P) (pre ! i)" and n: "odd n" "\<bar>n\<bar> < 2 * int m"
  shows "ge_is g (zmul n P) (ECMULT_TABLE_GET_GE pre n)"
  using n
proof (cases rule: odd_digit_cases)
  case (1 k)
  then show ?thesis using pre [of k] unfolding ECMULT_TABLE_GET_GE_def by (simp only: if_True zmul_of_nat)
next
  case (2 k)
  then show ?thesis using ge_neg_is [OF pre [of k]] unfolding ECMULT_TABLE_GET_GE_def by (simp only: if_False zmul_neg_nat)
qed

lemma table_get_ge_storage_eq:
  assumes "odd n" "\<bar>n\<bar> < 2 * int (length pre)"
  shows "ECMULT_TABLE_GET_GE_STORAGE pre n = ECMULT_TABLE_GET_GE (map secp256k1_ge_from_storage pre) n"
  using assms by (cases rule: odd_digit_cases) (simp_all add: ECMULT_TABLE_GET_GE_STORAGE_def ECMULT_TABLE_GET_GE_def)

section \<open>The tables of one context and one point\<close>

definition strauss_ctx_ok :: "cpoint \<Rightarrow> secp256k1_ecmult_context \<Rightarrow> bool" where
  "strauss_ctx_ok G ctx \<longleftrightarrow> (\<exists>tab. pre_g ctx = Some tab \<and> length tab = ECMULT_TABLE_SIZE WINDOW_G \<and>
     (\<forall>i < ECMULT_TABLE_SIZE WINDOW_G. ge_is 1 (nmul (2 * i + 1) G) (secp256k1_ge_from_storage (tab ! i))))"

lemma table_size_g: "ECMULT_TABLE_SIZE WINDOW_G = 16384"
  by (simp add: ECMULT_TABLE_SIZE_def WINDOW_G_def)

lemma storage_back_length: "length (storage_table_back dxz i zi lg pre) = length pre"
  by (induction i arbitrary: zi lg pre) (simp_all add: Let_def)

lemma storage_fold_length: "length (snd (snd (fold (storage_table_step dg) ks st))) = length (snd (snd st))"
proof (induction ks arbitrary: st)
  case (Cons k ks)
  have "length (snd (snd (storage_table_step dg k st))) = length (snd (snd st))"
    by (simp add: storage_table_step_def storage_table_write_def Let_def split_def)
  then show ?case using Cons by simp
qed simp

lemma storage_table_length: "length (secp256k1_ecmult_odd_multiples_table_storage_var n pre a) = length pre"
  using storage_fold_length by (simp add: secp256k1_ecmult_odd_multiples_table_storage_var_def Let_def split_def
      storage_back_length storage_table_write_def)

lemma odd_multiples_length:
  assumes "secp256k1_ecmult_odd_multiples_table n prej zr a = (prej', zr')"
  shows "length prej' = length prej" "length zr' = length zr"
proof -
  have l: "length (fst (fold (odd_multiples_step dg) ks t)) = length (fst t) \<and> length (snd (fold (odd_multiples_step dg) ks t)) = length (snd t)"
    for dg ks and t :: "secp256k1_gej list \<times> secp256k1_fe list"
    by (induction ks arbitrary: t) (simp_all add: odd_multiples_step_def split_def split: option.split)
  show "length prej' = length prej" "length zr' = length zr"
    using assms unfolding secp256k1_ecmult_odd_multiples_table_def Let_def split_def by (auto simp: l)
qed

lemma strauss_tables_single:
  "strauss_tables [a] [\<lparr>sps_wnaf_na = w, sps_bits_na = b, sps_input_pos = 0\<rparr>] 1 = secp256k1_ecmult_odd_multiples_table_globalz_windowa a"
proof -
  have size: "ECMULT_TABLE_SIZE WINDOW_A = 8" by (simp add: ECMULT_TABLE_SIZE_def WINDOW_A_def)
  obtain prej zr where o: "secp256k1_ecmult_odd_multiples_table 8 (replicate 8 secp256k1_gej_clear) (replicate 8 secp256k1_fe_clear) a = (prej, zr)"
    by fastforce
  have l: "length prej = 8" "length zr = 8" using odd_multiples_length [OF o] by simp_all
  show ?thesis
    using l o by (simp add: strauss_tables_def strauss_table_def size region_def set_region_def
        secp256k1_ecmult_odd_multiples_table_globalz_windowa_def)
qed

section \<open>The loop\<close>

text \<open>What a step reads: the tables and the digits of one point and of the generator.\<close>

definition strauss_point_digit :: "secp256k1_strauss_point_state list \<Rightarrow> nat \<Rightarrow> int" where
  "strauss_point_digit ps i = (if ps = [] then 0 else sps_wnaf_na (ps ! 0) ! i)"

definition strauss_ready ::
    "fp \<Rightarrow> cpoint \<Rightarrow> cpoint \<Rightarrow> secp256k1_ecmult_context \<Rightarrow> secp256k1_ge list \<Rightarrow> secp256k1_fe \<Rightarrow>
     secp256k1_strauss_point_state list \<Rightarrow> int list \<Rightarrow> int \<Rightarrow> bool" where
  "strauss_ready g P G ctx pre_a Z ps wg bg \<longleftrightarrow> g \<noteq> 0 \<and> fe_is 8 g Z \<and> strauss_ctx_ok G ctx \<and> length ps \<le> 1 \<and>
     (ps \<noteq> [] \<longrightarrow> (\<forall>i < 8. ge_is g (nmul (2 * i + 1) P) (pre_a ! i)) \<and>
        (\<forall>i < 256. wnaf_digit 5 (sps_wnaf_na (ps ! 0) ! i) \<and> (sps_bits_na (ps ! 0) \<le> int i \<longrightarrow> sps_wnaf_na (ps ! 0) ! i = 0))) \<and>
     (\<forall>i < 256. wnaf_digit 16 (wg ! i) \<and> (bg \<le> int i \<longrightarrow> wg ! i = 0))"

lemma strauss_add_points_is:
  assumes rd: "strauss_ready g P G ctx pre_a Z ps wg bg" and i: "i < 256" and r: "gej_is g Q r"
  shows "gej_is g (Q + zmul (strauss_point_digit ps i) P) (fold (strauss_add_point pre_a ps i) [0 ..< length ps] r)"
proof (cases "ps = []")
  case True
  then show ?thesis using r by (simp add: strauss_point_digit_def)
next
  case False
  then obtain s where ps: "ps = [s]" using rd by (cases ps) (auto simp: strauss_ready_def)
  let ?d = "sps_wnaf_na s ! i"
  have d: "wnaf_digit 5 ?d" "sps_bits_na s \<le> int i \<Longrightarrow> ?d = 0" and g: "g \<noteq> 0"
    and pre: "\<And>i. i < 8 \<Longrightarrow> ge_is g (nmul (2 * i + 1) P) (pre_a ! i)"
    using rd i by (simp_all add: strauss_ready_def ps)
  show ?thesis
  proof (cases "?d = 0")
    case True
    then show ?thesis using r by (simp add: ps strauss_point_digit_def strauss_add_point_def)
  next
    case False
    have "odd ?d" "\<bar>?d\<bar> < 2 * int 8" using d(1) False by (simp_all add: wnaf_digit_def)
    from table_get_ge_is [OF pre this] have t: "ge_is g (zmul ?d P) (ECMULT_TABLE_GET_GE pre_a ?d)" .
    have b: "int i < sps_bits_na s" using d(2) False by force
    show ?thesis
      using gej_add_ge_var_refines [OF r t g] False b by (simp add: ps strauss_point_digit_def strauss_add_point_def)
  qed
qed

lemma gej_add_zinv_refines:
  assumes a: "gej_is g P a" and b: "ge_is 1 Q b" and z: "fe_is 8 g Z" "g \<noteq> 0"
  shows "gej_is g (P + Q) (secp256k1_gej_add_zinv_var r a b Z)"
proof -
  have "ge_scaled_pt b (g / g) = pt Q" using b z(2) by (auto simp: ge_is_def ge_pt_def ge_scaled_pt_def)
  then show ?thesis
    using secp256k1_gej_add_zinv_var_at [OF gej_is_valid [OF a] ge_is_ok [OF b] _ z(1) z(2), of r] a
    by (simp add: gej_is_def pt_add)
qed

lemma strauss_step_is:
  assumes rd: "strauss_ready g P G ctx pre_a Z ps wg bg" and i: "i < 256" and r: "gej_is g (zmul A P + zmul B G) r"
  shows "gej_is g (zmul (2 * A + strauss_point_digit ps i) P + zmul (2 * B + wg ! i) G)
    (strauss_step ctx pre_a Z ps wg bg i r)"
proof -
  have g: "g \<noteq> 0" "fe_is 8 g Z" and d: "wnaf_digit 16 (wg ! i)" "bg \<le> int i \<Longrightarrow> wg ! i = 0"
    using rd i by (simp_all add: strauss_ready_def)
  obtain tab where tab: "pre_g ctx = Some tab" "length tab = 16384"
    and ent: "\<And>i. i < 16384 \<Longrightarrow> ge_is 1 (nmul (2 * i + 1) G) (map secp256k1_ge_from_storage tab ! i)"
    using rd by (auto simp: strauss_ready_def strauss_ctx_ok_def table_size_g)
  define r1 where "r1 = fold (strauss_add_point pre_a ps i) [0 ..< length ps] (fst (secp256k1_gej_double_var r r))"
  have "gej_is g (zmul A P + zmul B G + (zmul A P + zmul B G) + zmul (strauss_point_digit ps i) P) r1"
    unfolding r1_def by (rule strauss_add_points_is [OF rd i gej_double_is [OF r g(1)]])
  moreover have "zmul A P + zmul B G + (zmul A P + zmul B G) + zmul (strauss_point_digit ps i) P =
      zmul (2 * A + strauss_point_digit ps i) P + zmul (2 * B) G"
    by (simp only: zmul_add zmul_double add.assoc add.left_commute add.commute)
  ultimately have r1: "gej_is g (zmul (2 * A + strauss_point_digit ps i) P + zmul (2 * B) G) r1" by simp
  show ?thesis
  proof (cases "wg ! i = 0")
    case True
    then show ?thesis using r1 by (simp add: strauss_step_def r1_def)
  next
    case False
    have b: "int i < bg" using d(2) False by force
    have o: "odd (wg ! i)" "\<bar>wg ! i\<bar> < 2 * int 16384" using d(1) False by (simp_all add: wnaf_digit_def)
    have "ge_is 1 (zmul (wg ! i) G) (ECMULT_TABLE_GET_GE_STORAGE tab (wg ! i))"
      unfolding table_get_ge_storage_eq [OF o [folded tab(2)]] by (rule table_get_ge_is [OF ent o])
    from gej_add_zinv_refines [OF r1 this g(2,1), of r1] show ?thesis
      using False b tab(1) by (simp add: strauss_step_def r1_def Let_def zmul_add add.assoc)
  qed
qed

lemma strauss_fold_is:
  assumes rd: "strauss_ready g P G ctx pre_a Z ps wg bg"
  shows "k \<le> 256 \<Longrightarrow> gej_is g (zmul A P + zmul B G) r \<Longrightarrow>
    gej_is g (zmul (2 ^ k * A + (\<Sum>i < k. strauss_point_digit ps i * 2 ^ i)) P + zmul (2 ^ k * B + (\<Sum>i < k. wg ! i * 2 ^ i)) G)
      (fold (strauss_step ctx pre_a Z ps wg bg) (rev [0 ..< k]) r)"
proof (induction k arbitrary: A B r)
  case (Suc k)
  have k: "k < 256" "k \<le> 256" using Suc.prems(1) by simp_all
  from Suc.IH [OF k(2) strauss_step_is [OF rd k(1) Suc.prems(2)]] show ?case by (simp add: algebra_simps)
qed simp

section \<open>The multiplication\<close>

lemma wnaf_zmul:
  assumes x: "sc_is x s" and w: "2 \<le> w" "w < 32" and res: "secp256k1_ecmult_wnaf 256 s w = (ws, bits)" and k: "nat bits \<le> k" "k \<le> 256"
  shows "zmul (\<Sum>i < k. ws ! i * 2 ^ i) P = smul x P"
proof -
  note r = ecmult_wnaf_is [OF sc_is_lt [OF x] w res]
  have "wnaf_sum 256 ws = (\<Sum>i < k. ws ! i * 2 ^ i)"
    unfolding wnaf_sum_def by (rule sum.mono_neutral_right) (use r(2,6) k in auto)
  then have "zmul (\<Sum>i < k. ws ! i * 2 ^ i) P = zmul (wnaf_sum 256 ws mod int order_n) P" by (simp add: zmul_mod)
  then show ?thesis unfolding r(4) by (simp add: smul_def sc_is_value [OF x])
qed

lemma smul_zero_scalar: "sc_is x s \<Longrightarrow> secp256k1_scalar_is_zero s \<Longrightarrow> smul x P = 0"
  using sc_is_value [of x s] by (simp add: smul_def secp256k1_scalar_is_zero_iff)

lemma ecmult_is [ge_rules]:
  assumes ctx: "strauss_ctx_ok G ctx" and a: "gej_is 1 P a" and x: "sc_is x na" and y: "sc_is y ng"
  shows "gej_is 1 (smul x P + smul y G) (secp256k1_ecmult ctx a na ng)"
proof -
  have size: "ECMULT_TABLE_SIZE WINDOW_A = 8" by (simp add: ECMULT_TABLE_SIZE_def WINDOW_A_def)
  define skip where "skip = (secp256k1_scalar_is_zero na \<or> secp256k1_gej_is_infinity a)"
  obtain wa ba where wa: "secp256k1_ecmult_wnaf 256 na 5 = (wa, ba)" by fastforce
  obtain wg bg where wg: "secp256k1_ecmult_wnaf 256 ng 16 = (wg, bg)" by fastforce
  note rg = ecmult_wnaf_is [OF sc_is_lt [OF y] _ _ wg] and ra = ecmult_wnaf_is [OF sc_is_lt [OF x] _ _ wa]
  define ps where "ps = (if skip then [] else [\<lparr>sps_wnaf_na = wa, sps_bits_na = ba, sps_input_pos = 0\<rparr>])"
  define bits where "bits = max bg (if skip then 0 else ba)"
  obtain pre Z where t: "strauss_tables [a] ps 1 = (pre, Z)" by fastforce
  have bits: "nat bits \<le> 256" "nat bg \<le> nat bits" "\<not> skip \<Longrightarrow> nat ba \<le> nat bits" using rg(2,3) ra(2,3) by (auto simp: bits_def)
  have "strauss_select [a] [na] 0 ([], 0) = (ps, if skip then 0 else ba)"
    using wa ra(2) by (auto simp: strauss_select_def skip_def ps_def WINDOW_A_def)
  then have eq: "secp256k1_ecmult ctx a na ng = (let r = fold (strauss_step ctx pre Z ps wg bg) (rev [0 ..< nat bits]) secp256k1_gej_set_infinity
      in if \<not> gej_infinity r then r\<lparr>gej_z := secp256k1_fe_mul (gej_z r) Z\<rparr> else r)"
    using t wg by (simp add: secp256k1_ecmult_def secp256k1_ecmult_strauss_wnaf_def WINDOW_G_def bits_def max_def)
  have Pskip: "smul x P = 0" if skip
    using that smul_zero_scalar [OF x] gej_is_infinity [OF a] by (auto simp: skip_def secp256k1_gej_is_infinity_def smul_def)
  have "\<exists>g. strauss_ready g P G ctx pre Z ps wg bg"
  proof (cases skip)
    case True
    then have "Z = secp256k1_fe_set_int 1" using t by (simp add: ps_def strauss_tables_def)
    then have "fe_is 8 1 Z" by (simp add: fe_is_8 [OF fe_exec_set_int(2)])
    then show ?thesis using True ctx rg(5,6) by (intro exI [of _ 1]) (simp add: strauss_ready_def ps_def)
  next
    case False
    then have "P \<noteq> 0" using gej_is_infinity [OF a] by (simp add: skip_def secp256k1_gej_is_infinity_def)
    moreover have "secp256k1_ecmult_odd_multiples_table_globalz_windowa a = (pre, Z)"
      using t False strauss_tables_single [of a wa ba] by (simp add: ps_def)
    ultimately show ?thesis
      using odd_multiples_table_windowa_is [OF a] False ctx rg(5,6) ra(5,6) by (simp add: strauss_ready_def ps_def) blast
  qed
  then obtain g where rd: "strauss_ready g P G ctx pre Z ps wg bg" by blast
  define r where "r = fold (strauss_step ctx pre Z ps wg bg) (rev [0 ..< nat bits]) secp256k1_gej_set_infinity"
  have r0: "gej_is g (zmul 0 P + zmul 0 G) secp256k1_gej_set_infinity"
    by (simp add: gej_is_zero secp256k1_gej_set_infinity_def)
  have "gej_is g (zmul (\<Sum>i < nat bits. strauss_point_digit ps i * 2 ^ i) P + zmul (\<Sum>i < nat bits. wg ! i * 2 ^ i) G) r"
    using strauss_fold_is [OF rd bits(1) r0] by (simp add: r_def)
  moreover have "zmul (\<Sum>i < nat bits. strauss_point_digit ps i * 2 ^ i) P = smul x P"
    using wnaf_zmul [OF x _ _ wa _ bits(1)] bits(3) Pskip by (cases skip) (simp_all add: ps_def strauss_point_digit_def)
  moreover have "zmul (\<Sum>i < nat bits. wg ! i * 2 ^ i) G = smul y G"
    by (rule wnaf_zmul [OF y _ _ wg bits(2,1)]) simp_all
  ultimately have r: "gej_is g (smul x P + smul y G) r" by simp
  show ?thesis
  proof (cases "gej_infinity r")
    case True
    then have "smul x P + smul y G = 0" using gej_is_infinity [OF r] by simp
    then show ?thesis using True eq by (simp add: r_def [symmetric] gej_is_zero)
  next
    case False
    have "g \<noteq> 0" "fe_is 8 g Z" using rd by (simp_all add: strauss_ready_def)
    then show ?thesis using gej_scale_z [OF r] False eq by (simp add: r_def [symmetric])
  qed
qed

section \<open>The context\<close>

lemma ecmult_context_build_ok:
  assumes "length mem = ECMULT_TABLE_SIZE WINDOW_G"
  shows "strauss_ctx_ok curve_G (secp256k1_ecmult_context_build mem secp256k1_ecmult_context_init)"
proof -
  have "gej_is 1 curve_G (secp256k1_gej_set_ge secp256k1_ge_const_g)"
    by (rule gej_set_ge_refines [OF ge_const_g_is])
  from storage_table_is [OF this curve_G_neq_0 _ _ assms] show ?thesis
    using assms unfolding table_size_g
    by (simp add: strauss_ctx_ok_def secp256k1_ecmult_context_build_def secp256k1_ecmult_context_init_def table_size_g
        storage_table_length order_n_def)
qed

end
