(* ===== verification/Ecdsa_Law.thy ===== *)
theory Ecdsa_Law
  imports Secp Ecmult_Strauss Generator_Law Group_Spec
begin

text \<open>
  Signatures over the curve group: verification without an inversion in the field decides the
  textbook equation, what signing returns satisfies it, and the public key is recovered from the
  signature and the two bits kept with it.
\<close>

section \<open>Public keys as points\<close>

text \<open>Seven is no square (\<open>seven_not_square\<close>): no point has x = 0, the value \<^verbatim>\<open>secp256k1_pubkey_load\<close> refuses.\<close>

lemma pt_x_neq_0: "pt P = Point x y \<Longrightarrow> x \<noteq> 0"
proof
  assume "pt P = Point x y" "x = 0"
  then have "on_curve (Point 0 y)" using on_curve_pt [of P] by simp
  then have "7 = y ^ 2" by simp
  then show False using seven_not_square fp_is_square_def by blast
qed

definition pk_is :: "cpoint \<Rightarrow> secp256k1_pubkey \<Rightarrow> bool" where
  "pk_is Q pk \<longleftrightarrow> Q \<noteq> 0 \<and> ge_is 1 Q (secp256k1_ge_from_storage pk)"

definition pubkey_of :: "cpoint \<Rightarrow> secp256k1_pubkey" where
  "pubkey_of Q = secp256k1_pubkey_save (ge_of Q)"

lemma pk_is_point:
  assumes "pk_is Q pk"
  obtains x y where "pt Q = Point x y" "fe_is 8 x (secp256k1_fe_from_storage (ges_x pk))" "x \<noteq> 0"
proof -
  have Q: "Q \<noteq> 0" "ge_is 1 Q (secp256k1_ge_from_storage pk)" using assms by (simp_all add: pk_is_def)
  obtain X Y where "fe_is 8 X (ge_x (secp256k1_ge_from_storage pk))" "pt Q = Point (X / 1 ^ 2) (Y / 1 ^ 3)"
    using ge_isE [OF Q(2,1)] by metis
  then show thesis using pt_x_neq_0 [of Q] by (intro that [of X Y]) (simp_all add: secp256k1_ge_from_storage_def)
qed

lemma pubkey_load_is:
  assumes "pk_is Q pk"
  shows "secp256k1_pubkey_load pk = (True, secp256k1_ge_from_storage pk)"
proof -
  obtain x y where x: "pt Q = Point x y" "fe_is 8 x (secp256k1_fe_from_storage (ges_x pk))" "x \<noteq> 0"
    using pk_is_point [OF assms] .
  have "\<not> secp256k1_fe_is_zero (secp256k1_fe_from_storage (ges_x pk))"
  proof
    let ?a = "secp256k1_fe_from_storage (ges_x pk)"
    assume "secp256k1_fe_is_zero ?a"
    then have "((fe0 ?a OR fe1 ?a) OR fe2 ?a) OR fe3 ?a OR fe4 ?a = 0" by (simp add: secp256k1_fe_is_zero_def or.assoc)
    then have "fe_val ?a = 0" by (simp add: fe_val_def or_eq_0_iff)
    then show False using x(2,3) by (simp add: fe_is_def)
  qed
  then show ?thesis by (simp add: secp256k1_pubkey_load_def secp256k1_ge_from_storage_def)
qed

lemma pubkey_save_is:
  assumes a: "ge_is 1 Q a" "Q \<noteq> 0"
  shows "pk_is Q (secp256k1_pubkey_save a)" and "secp256k1_pubkey_save a = pubkey_of Q"
proof -
  show "pk_is Q (secp256k1_pubkey_save a)"
    using ge_from_to_storage_is(1) [OF a] a(2) by (simp add: pk_is_def secp256k1_pubkey_save_def)
  obtain X Y where x: "fe_is 8 X (ge_x a)" "fe_is 8 Y (ge_y a)" and p: "pt Q = Point (X / 1 ^ 2) (Y / 1 ^ 3)"
    by (rule ge_isE [OF a])
  obtain X' Y' where x': "fe_is 8 X' (ge_x (ge_of Q))" "fe_is 8 Y' (ge_y (ge_of Q))" and p': "pt Q = Point (X' / 1 ^ 2) (Y' / 1 ^ 3)"
    by (rule ge_isE [OF ge_of_is a(2)])
  have e: "X' = X" "Y' = Y" using p p' by simp_all
  show "secp256k1_pubkey_save a = pubkey_of Q"
    using normalize_unique [OF x(1) x'(1) [unfolded e]] normalize_unique [OF x(2) x'(2) [unfolded e]]
    by (simp add: pubkey_of_def secp256k1_pubkey_save_def secp256k1_ge_to_storage_def)
qed

lemma pubkey_of_is: "Q \<noteq> 0 \<Longrightarrow> pk_is Q (pubkey_of Q)"
  unfolding pubkey_of_def by (rule pubkey_save_is(1) [OF ge_of_is])

section \<open>The constants of the comparison\<close>

lemma ecdsa_order_fe: "fe_is 1 (of_nat order_n) secp256k1_ecdsa_const_order_as_fe"
  by (simp add: fe_is_def fe_mag_def secp256k1_ecdsa_const_order_as_fe_def SECP256K1_FE_CONST_def fe_val_def order_n_def)

lemma ecdsa_p_minus_order_fe:
  "fe_tight secp256k1_ecdsa_const_p_minus_order" "fe_val secp256k1_ecdsa_const_p_minus_order = field_p - order_n"
  by (simp_all add: fe_tight_def secp256k1_ecdsa_const_p_minus_order_def SECP256K1_FE_CONST_def fe_val_def order_n_def field_p_def)

section \<open>Verification\<close>

text \<open>The textbook equation: the x coordinate of \<open>(m / s) G + (r / s) Q\<close>, reduced, is r.\<close>

definition ecdsa_valid :: "cpoint \<Rightarrow> fn \<Rightarrow> fn \<Rightarrow> fn \<Rightarrow> bool" where
  "ecdsa_valid Q m r s \<longleftrightarrow> r \<noteq> 0 \<and> s \<noteq> 0 \<and>
     (case pt (smul (m / s) curve_G + smul (r / s) Q) of Infinity \<Rightarrow> False | Point x y \<Rightarrow> of_nat (fp_nat x) = r)"

text \<open>Both candidates for the field element that reduces to r.\<close>

lemma fp_nat_reduces_iff:
  "of_nat (fp_nat x) = r \<longleftrightarrow> x = of_nat (fn_nat r) \<or> fn_nat r < field_p - order_n \<and> x = of_nat (fn_nat r + order_n)"
proof -
  let ?r = "fn_nat r"
  have r: "?r < order_n" by (rule fn_nat_lt)
  have x: "fp_nat x < field_p" by (rule fp_nat_lt)
  have pn: "order_n < field_p" "field_p < 2 * order_n" by (simp_all add: order_n_def field_p_def)
  have "of_nat (fp_nat x) = r \<longleftrightarrow> fp_nat x mod order_n = ?r"
    using fn_nat_of_nat [of "fp_nat x"] fn_nat_inject [of "of_nat (fp_nat x)" r] by simp
  also have "\<dots> \<longleftrightarrow> fp_nat x = ?r \<or> fp_nat x = ?r + order_n"
  proof (cases "fp_nat x < order_n")
    case True
    then show ?thesis using r by auto
  next
    case False
    have "fp_nat x mod order_n = fp_nat x - order_n" using False x pn by (simp add: le_mod_geq)
    then show ?thesis using False r by auto
  qed
  also have "\<dots> \<longleftrightarrow> x = of_nat ?r \<or> ?r < field_p - order_n \<and> x = of_nat (?r + order_n)"
  proof -
    have e: "x = of_nat k \<longleftrightarrow> fp_nat x = k" if "k < field_p" for k
      using fp_nat_inject [of x "of_nat k"] that by (simp add: fp_nat_of_nat)
    have e1: "x = of_nat ?r \<longleftrightarrow> fp_nat x = ?r" by (rule e) (use r pn in linarith)
    show ?thesis
    proof (cases "?r < field_p - order_n")
      case True
      have "x = of_nat (?r + order_n) \<longleftrightarrow> fp_nat x = ?r + order_n" by (rule e) (use True in linarith)
      then show ?thesis using True e1 by blast
    next
      case False
      have "fp_nat x \<noteq> ?r + order_n" using False x by linarith
      then show ?thesis using False e1 by blast
    qed
  qed
  finally show ?thesis .
qed

lemma scalar_as_fe:
  assumes "sc_is r s"
  shows "fe_is 1 (of_nat (fn_nat r)) (snd (secp256k1_fe_set_b32 (secp256k1_scalar_get_b32 s)))"
    and "fe_normalized (snd (secp256k1_fe_set_b32 (secp256k1_scalar_get_b32 s)))"
    and "fe_val (snd (secp256k1_fe_set_b32 (secp256k1_scalar_get_b32 s))) = fn_nat r"
proof -
  have b: "be_nat (secp256k1_scalar_get_b32 s) = fn_nat r" using sc_is_value [OF assms] by (simp add: secp256k1_scalar_get_b32_value)
  then have "be_nat (secp256k1_scalar_get_b32 s) < field_p" using fn_nat_lt [of r] by (simp add: order_n_def field_p_def)
  from fe_set_b32_success [OF _ this] show "fe_is 1 (of_nat (fn_nat r)) (snd (secp256k1_fe_set_b32 (secp256k1_scalar_get_b32 s)))"
    and "fe_normalized (snd (secp256k1_fe_set_b32 (secp256k1_scalar_get_b32 s)))" by (simp_all add: b)
  show "fe_val (snd (secp256k1_fe_set_b32 (secp256k1_scalar_get_b32 s))) = fn_nat r" by (simp add: fe_set_b32_limbs b)
qed

lemma scalar_is_zero_iff: "sc_is x a \<Longrightarrow> secp256k1_scalar_is_zero a \<longleftrightarrow> x = 0"
  using sc_is_value [of x a] by (simp add: secp256k1_scalar_is_zero_iff)

lemma inverse_var_is: "sc_is x a \<Longrightarrow> sc_is (inverse x) (secp256k1_scalar_inverse_var a)"
  using secp256k1_scalar_inverse_is [of x a] by (simp add: secp256k1_scalar_inverse_var_def)

text \<open>The comparison of the code, for a sum that is a finite point.\<close>

lemma ecdsa_compare_is:
  assumes pr: "gej_is 1 R pr" "pt R = Point x y" and r: "sc_is r sigr"
    and xr: "xr = snd (secp256k1_fe_set_b32 (secp256k1_scalar_get_b32 sigr))"
  shows "(if secp256k1_gej_eq_x_var xr pr then True
     else if secp256k1_fe_cmp_var xr secp256k1_ecdsa_const_p_minus_order \<ge> 0 then False
     else secp256k1_gej_eq_x_var (secp256k1_fe_add xr secp256k1_ecdsa_const_order_as_fe) pr) \<longleftrightarrow> of_nat (fp_nat x) = r"
proof -
  note f = scalar_as_fe [OF r, folded xr]
  have "R \<noteq> 0" using pr(2) pt_eq_Infinity_iff [of R] by simp
  then have fin: "\<not> gej_infinity pr" using gej_is_infinity [OF pr(1)] by simp
  have eq: "secp256k1_gej_eq_x_var a pr \<longleftrightarrow> x = fev a" if "fe_mag 8 a" for a
    using gej_eq_x_var_iff [OF that gej_is_ok [OF pr(1)] fin] gej_is_pt [OF pr(1)] pr(2) by simp
  have m: "fe_mag 8 xr" "fev xr = of_nat (fn_nat r)" using fe_is_8 [OF f(1)] by (simp_all add: fe_is_fev)
  have "fe_is 2 (of_nat (fn_nat r) + of_nat order_n) (secp256k1_fe_add xr secp256k1_ecdsa_const_order_as_fe)"
    by (rule fe_is_mono [where m = "1 + 1"]) (rule fe_exec f(1) ecdsa_order_fe | simp)+
  then have "fe_is 8 (of_nat (fn_nat r) + of_nat order_n) (secp256k1_fe_add xr secp256k1_ecdsa_const_order_as_fe)"
    by (rule fe_is_mono) simp
  then have "fe_is 8 (of_nat (fn_nat r + order_n)) (secp256k1_fe_add xr secp256k1_ecdsa_const_order_as_fe)"
    by (simp only: of_nat_add)
  then have a: "fe_mag 8 (secp256k1_fe_add xr secp256k1_ecdsa_const_order_as_fe)"
    "fev (secp256k1_fe_add xr secp256k1_ecdsa_const_order_as_fe) = of_nat (fn_nat r + order_n)" by (simp_all only: fe_is_fev)
  have t: "fe_tight xr" using f(2) by (simp add: fe_normalized_iff)
  have c: "secp256k1_fe_cmp_var xr secp256k1_ecdsa_const_p_minus_order \<ge> 0 \<longleftrightarrow> \<not> fn_nat r < field_p - order_n"
    unfolding secp256k1_fe_cmp_var_is [OF t ecdsa_p_minus_order_fe(1)] f(3) ecdsa_p_minus_order_fe(2) by (auto simp: three_way_def)
  show ?thesis unfolding fp_nat_reduces_iff eq [OF m(1)] eq [OF a(1)] m(2) a(2) c by auto
qed

lemma ecdsa_sig_verify_is:
  assumes ctx: "strauss_ctx_ok curve_G ctx" and q: "ge_is 1 Q pubkey"
    and r: "sc_is r sigr" and s: "sc_is s sigs" and m: "sc_is m msg"
  shows "secp256k1_ecdsa_sig_verify ctx sigr sigs pubkey msg \<longleftrightarrow> ecdsa_valid Q m r s"
proof (cases "r = 0 \<or> s = 0")
  case True
  then show ?thesis
    using scalar_is_zero_iff [OF r] scalar_is_zero_iff [OF s] by (auto simp: secp256k1_ecdsa_sig_verify_def ecdsa_valid_def)
next
  case False
  let ?sn = "secp256k1_scalar_inverse_var sigs"
  let ?R = "smul (m / s) curve_G + smul (r / s) Q"
  define pr where "pr = secp256k1_ecmult ctx (secp256k1_gej_set_ge pubkey) (secp256k1_scalar_mul ?sn sigr) (secp256k1_scalar_mul ?sn msg)"
  have "gej_is 1 (smul (inverse s * r) Q + smul (inverse s * m) curve_G) pr"
    unfolding pr_def
    by (rule ecmult_is [OF ctx gej_set_ge_refines [OF q]]; rule secp256k1_scalar_mul_is [OF inverse_var_is [OF s]]; rule r m)
  then have pr: "gej_is 1 ?R pr" by (simp add: divide_inverse ac_simps)
  have v: "secp256k1_ecdsa_sig_verify ctx sigr sigs pubkey msg \<longleftrightarrow> \<not> gej_infinity pr \<and>
    (let xr = snd (secp256k1_fe_set_b32 (secp256k1_scalar_get_b32 sigr)) in
     if secp256k1_gej_eq_x_var xr pr then True
     else if secp256k1_fe_cmp_var xr secp256k1_ecdsa_const_p_minus_order \<ge> 0 then False
     else secp256k1_gej_eq_x_var (secp256k1_fe_add xr secp256k1_ecdsa_const_order_as_fe) pr)"
    using False scalar_is_zero_iff [OF r] scalar_is_zero_iff [OF s]
    by (auto simp: secp256k1_ecdsa_sig_verify_def Let_def pr_def secp256k1_gej_is_infinity_def)
  show ?thesis
  proof (cases "pt ?R")
    case Infinity
    then show ?thesis using gej_is_infinity [OF pr] pt_eq_Infinity_iff [of ?R] unfolding v by (simp add: ecdsa_valid_def)
  next
    case (Point x y)
    have "?R \<noteq> 0" using Point pt_eq_Infinity_iff [of ?R] by auto
    then show ?thesis
      using gej_is_infinity [OF pr] ecdsa_compare_is [OF pr Point r refl] False Point unfolding v Let_def by (simp add: ecdsa_valid_def)
  qed
qed

section \<open>Signing\<close>

lemma smul_G_neq_0: "k \<noteq> 0 \<Longrightarrow> smul k curve_G \<noteq> 0"
  unfolding smul_def using fn_nat_eq_0_iff [of k] by (intro nmul_small_neq_0 [OF curve_G_neq_0]) (auto simp: fn_nat_lt intro: gr0I)

lemma normalized_point_bytes:
  assumes a: "fe_is 8 x a"
  shows "be_nat (secp256k1_fe_get_b32 (secp256k1_fe_normalize a)) = fp_nat x"
    and "secp256k1_fe_is_odd (secp256k1_fe_normalize a) \<longleftrightarrow> odd (fp_nat x)"
proof -
  have a32: "fe_is 32 x a" by (rule fe_is_mono [OF a]) simp
  have n: "fe_normalized (secp256k1_fe_normalize a)" using a32 fe_normalize_value(1) by (auto simp: fe_is_def)
  show "be_nat (secp256k1_fe_get_b32 (secp256k1_fe_normalize a)) = fp_nat x"
    using fe_get_b32_normalized [OF n] fe_normalize_fp_nat [OF a32] by simp
  show "secp256k1_fe_is_odd (secp256k1_fe_normalize a) \<longleftrightarrow> odd (fp_nat x)"
    using fe_normalize_fp_nat [OF a32] by (simp add: secp256k1_fe_is_odd_iff)
qed

definition ecdsa_s :: "fn \<Rightarrow> fn \<Rightarrow> fn \<Rightarrow> fn \<Rightarrow> fn" where
  "ecdsa_s d m k r = (r * d + m) / k"

definition fn_high :: "fn \<Rightarrow> bool" where
  "fn_high s \<longleftrightarrow> order_n div 2 < fn_nat s"

definition ecdsa_recid :: "fp \<Rightarrow> fp \<Rightarrow> bool \<Rightarrow> nat" where
  "ecdsa_recid x y high = (if order_n \<le> fp_nat x then 2 else 0) + (if odd (fp_nat y) \<noteq> high then 1 else 0)"

lemma scalar_is_high_is: "sc_is x a \<Longrightarrow> secp256k1_scalar_is_high a \<longleftrightarrow> fn_high x"
  using sc_is_value [of x a] by (simp add: secp256k1_scalar_is_high_iff fn_high_def)

lemma fn_high_uminus: "fn_high s \<Longrightarrow> \<not> fn_high (- s)"
proof -
  assume h: "fn_high s"
  then have "s \<noteq> 0" by (auto simp: fn_high_def)
  then have "fn_nat (- s) = order_n - fn_nat s" by (simp add: fn_nat_minus)
  then show "\<not> fn_high (- s)" using h fn_nat_lt [of s] unfolding fn_high_def order_n_def by simp
qed

lemma ecdsa_sig_sign_is:
  assumes ctx: "gen_ctx_ok ctx" and d: "sc_is d seckey" and m: "sc_is m msg" and k: "sc_is k nonce" "k \<noteq> 0"
    and R: "pt (smul k curve_G) = Point x y"
  defines "r \<equiv> of_nat (fp_nat x) :: fn"
  defines "s \<equiv> ecdsa_s d m k r"
  shows "\<exists>sr ss. secp256k1_ecdsa_sig_sign ctx seckey msg nonce = Some (s \<noteq> 0, sr, ss, ecdsa_recid x y (fn_high s)) \<and>
    sc_is r sr \<and> sc_is (if fn_high s then - s else s) ss"
proof -
  obtain rp where rp: "secp256k1_ecmult_gen ctx nonce = Some rp" "gej_is 1 (smul k curve_G) rp"
    using ecmult_gen_is [OF ctx k(1)] by blast
  define ge where "ge = fst (secp256k1_ge_set_gej rp)"
  have ge: "ge_is 1 (smul k curve_G) ge" unfolding ge_def by (rule ge_set_gej_is(1) [OF rp(2)]) simp
  obtain X Y where xy: "fe_is 8 X (ge_x ge)" "fe_is 8 Y (ge_y ge)" "pt (smul k curve_G) = Point (X / 1 ^ 2) (Y / 1 ^ 3)"
    using ge_isE [OF ge smul_G_neq_0 [OF k(2)]] by metis
  have e: "X = x" "Y = y" using xy(3) R by simp_all
  let ?b = "secp256k1_fe_get_b32 (secp256k1_fe_normalize (ge_x ge))"
  obtain sr ov where sr: "secp256k1_scalar_set_b32 ?b = (sr, ov)" by fastforce
  have b: "be_nat ?b = fp_nat x" "secp256k1_fe_is_odd (secp256k1_fe_normalize (ge_y ge)) \<longleftrightarrow> odd (fp_nat y)"
    using normalized_point_bytes(1) [OF xy(1)] normalized_point_bytes(2) [OF xy(2)] e by simp_all
  have srr: "sc_is r sr" and ov: "ov \<longleftrightarrow> order_n \<le> fp_nat x"
    using secp256k1_scalar_set_b32_is [of ?b] secp256k1_scalar_set_b32_value(2) [of ?b] by (simp_all add: sr b(1) r_def)
  define s' where "s' = secp256k1_scalar_mul (secp256k1_scalar_inverse nonce)
    (snd (secp256k1_scalar_add (secp256k1_scalar_mul sr seckey) msg))"
  have "sc_is (inverse k * (r * d + m)) s'"
    unfolding s'_def by (rule sc_rules srr d m k)+
  then have s': "sc_is s s'" by (simp add: s_def ecdsa_s_def divide_inverse mult.commute)
  note z = scalar_is_zero_iff [OF s'] and h = scalar_is_high_is [OF s'] and neg = secp256k1_scalar_negate_is [OF s']
  have h0: "\<not> fn_high 0" by (simp add: fn_high_def)
  have rec: "(if ov then 2 else 0) OR (if odd (fp_nat y) then 1 else 0) = ecdsa_recid x y False"
    "ecdsa_recid x y False XOR 1 = ecdsa_recid x y True"
    by (simp_all add: ecdsa_recid_def ov)
  have "secp256k1_ecdsa_sig_sign ctx seckey msg nonce =
      Some (s \<noteq> 0, sr, if fn_high s then secp256k1_scalar_negate s' else s', ecdsa_recid x y (fn_high s))"
    using h0 rec(2) by (auto simp: secp256k1_ecdsa_sig_sign_def rp(1) Let_def ge_def [symmetric] sr b(2) s'_def [symmetric] z h rec(1))
  then show ?thesis using srr neg s' by auto
qed

text \<open>What signing returns satisfies the equation of verification.\<close>

lemma pt_smul_minus_x: "pt P = Point x y \<Longrightarrow> pt (- P) = Point x (- y)"
  by (simp add: pt_neg)

lemma ecdsa_signed_valid:
  assumes k: "k \<noteq> 0" and R: "pt (smul k curve_G) = Point x y"
    and r: "r = of_nat (fp_nat x)" "r \<noteq> 0" and s: "s = ecdsa_s d m k r" "s \<noteq> 0"
  shows "ecdsa_valid (smul d curve_G) m r (if h then - s else s)"
proof -
  have sum: "smul (m / t) curve_G + smul (r / t) (smul d curve_G) = smul ((r * d + m) / t) curve_G" for t
    by (simp add: curve.scale_scale curve.scale_left_distrib [symmetric] add_divide_distrib add.commute)
  have "r * d + m = s * k" using k by (simp add: s(1) ecdsa_s_def)
  then have "(r * d + m) / (if h then - s else s) = (if h then - k else k)" using s(2) by simp
  then have "pt (smul (m / (if h then - s else s)) curve_G + smul (r / (if h then - s else s)) (smul d curve_G)) =
      Point x (if h then - y else y)"
    unfolding sum using R pt_smul_minus_x [OF R] curve.scale_minus_left [of k curve_G] by simp
  then show ?thesis using r s(2) by (simp add: ecdsa_valid_def)
qed

section \<open>Recovery\<close>

lemma recid_bits:
  "ecdsa_recid x y high AND 2 \<noteq> 0 \<longleftrightarrow> order_n \<le> fp_nat x" "ecdsa_recid x y high AND 1 \<noteq> 0 \<longleftrightarrow> odd (fp_nat y) \<noteq> high"
  by (simp_all add: ecdsa_recid_def)

text \<open>The x coordinate and the parity select the signer's point, or its negative after the negation of s.\<close>

lemma ge_set_xo_var_point:
  assumes x: "fe_is 8 x fx" and R: "pt R = Point x y"
  shows "\<exists>r. secp256k1_ge_set_xo_var fx (odd (fp_nat y) \<noteq> flip) = (True, r) \<and> ge_is 1 (if flip then - R else R) r"
proof -
  have c: "on_curve (Point x y)" using on_curve_pt [of R] R by simp
  have fx: "fe_mag 8 fx" "fev fx = x" using x by (simp_all add: fe_is_fev)
  obtain ok r where q: "secp256k1_ge_set_xo_var fx (odd (fp_nat y) \<noteq> flip) = (ok, r)" by fastforce
  have ok: ok using ge_set_xo_var_is [OF fx(1)] c q fx(2) by (metis fst_conv)
  then obtain y' where v: "ge_valid r" "ge_pt r = Point x y'" "odd (fp_nat y') \<longleftrightarrow> odd (fp_nat y) \<noteq> flip"
    using ge_set_xo_var_is [OF fx(1), of "odd (fp_nat y) \<noteq> flip"] q fx(2) by auto
  have r: "ge_is 1 (cp (ge_pt r)) r" by (rule ge_valid_ge_is [OF v(1)])
  have p: "pt (cp (ge_pt r)) = Point x y'" using pt_cp_ge [OF v(1)] v(2) by simp
  have "y' = y \<or> y' = - y" using on_curve_same_x [OF _ c, of y'] v(1,2) by (metis ge_valid_def)
  moreover have "odd (fp_nat (- y)) \<longleftrightarrow> \<not> odd (fp_nat y)" by (rule fp_nat_minus_odd [OF on_curve_y_neq_0 [OF c]])
  ultimately have "y' = (if flip then - y else y)" using v(3) by auto
  then have "pt (cp (ge_pt r)) = pt (if flip then - R else R)" using p R pt_smul_minus_x [OF R] by simp
  then show ?thesis using q ok r by (simp add: pt_inject)
qed

lemma ecdsa_recover_signed:
  assumes ctx: "strauss_ctx_ok curve_G ctx" and k: "k \<noteq> 0" and R: "pt (smul k curve_G) = Point x y"
    and r: "r = of_nat (fp_nat x)" "r \<noteq> 0" "sc_is r sr" and s: "s = ecdsa_s d m k r" "s \<noteq> 0" "sc_is (if h then - s else s) ss"
    and m: "sc_is m msg" and d: "d \<noteq> 0"
  shows "\<exists>q. secp256k1_ecdsa_sig_recover ctx sr ss msg (ecdsa_recid x y h) = Some q \<and> ge_is 1 (smul d curve_G) q"
proof -
  define xr where "xr = snd (secp256k1_fe_set_b32 (secp256k1_scalar_get_b32 sr))"
  define big where "big = (order_n \<le> fp_nat x)"
  note f = scalar_as_fe [OF r(3), folded xr_def]
  have nz: "\<not> secp256k1_scalar_is_zero sr" "\<not> secp256k1_scalar_is_zero ss"
    using scalar_is_zero_iff [OF r(3)] scalar_is_zero_iff [OF s(3)] r(2) s(2) by auto
  have fr: "fn_nat r = (if big then fp_nat x - order_n else fp_nat x)"
    using fp_nat_lt [of x] unfolding r(1) fn_nat_of_nat big_def by (auto simp: le_mod_geq order_n_def field_p_def)
  have t: "fe_tight xr" using f(2) by (simp add: fe_normalized_iff)
  have c: "\<not> secp256k1_fe_cmp_var xr secp256k1_ecdsa_const_p_minus_order \<ge> 0" if big
    unfolding secp256k1_fe_cmp_var_is [OF t ecdsa_p_minus_order_fe(1)] f(3) ecdsa_p_minus_order_fe(2)
    using that fp_nat_lt [of x] fr by (auto simp: three_way_def big_def)
  define fx where "fx = (if big then secp256k1_fe_add xr secp256k1_ecdsa_const_order_as_fe else xr)"
  have fx: "fe_is 8 x fx"
  proof (cases big)
    case True
    have "fe_is 2 (of_nat (fn_nat r) + of_nat order_n) fx"
      unfolding fx_def if_P [OF True] by (rule fe_is_mono [where m = "1 + 1"]) (rule fe_exec f(1) ecdsa_order_fe | simp)+
    moreover have "of_nat (fn_nat r) + of_nat order_n = x"
    proof -
      have "fn_nat r + order_n = fp_nat x" using fr True by (simp add: big_def)
      then show ?thesis by (metis of_nat_add of_nat_fp_nat)
    qed
    ultimately have "fe_is 2 x fx" by simp
    then show ?thesis by (rule fe_is_mono) simp
  next
    case False
    then show ?thesis using fe_is_8 [OF f(1)] fr by (simp add: fx_def)
  qed
  obtain X where X: "secp256k1_ge_set_xo_var fx (odd (fp_nat y) \<noteq> h) = (True, X)" "ge_is 1 (if h then - smul k curve_G else smul k curve_G) X"
    using ge_set_xo_var_point [OF fx R] by blast
  define qj where "qj = secp256k1_ecmult ctx (secp256k1_gej_set_ge X) (secp256k1_scalar_mul (secp256k1_scalar_inverse_var sr) ss)
    (secp256k1_scalar_negate (secp256k1_scalar_mul (secp256k1_scalar_inverse_var sr) msg))"
  let ?k = "if h then - k else k" and ?s = "if h then - s else s"
  have "(if h then - smul k curve_G else smul k curve_G) = smul ?k curve_G" using curve.scale_minus_left [of k curve_G] by simp
  then have Xk: "ge_is 1 (smul ?k curve_G) X" using X(2) by simp
  have "gej_is 1 (smul (inverse r * ?s) (smul ?k curve_G) + smul (- (inverse r * m)) curve_G) qj"
    unfolding qj_def
    by (rule ecmult_is [OF ctx gej_set_ge_refines [OF Xk] secp256k1_scalar_mul_is [OF inverse_var_is [OF r(3)] s(3)]
        secp256k1_scalar_negate_is [OF secp256k1_scalar_mul_is [OF inverse_var_is [OF r(3)] m]]])
  moreover have "smul (inverse r * ?s) (smul ?k curve_G) + smul (- (inverse r * m)) curve_G = smul (inverse r * (s * k - m)) curve_G"
  proof -
    have "inverse r * ?s * ?k + - (inverse r * m) = inverse r * (s * k - m)" by (simp add: algebra_simps)
    then show ?thesis by (simp only: curve.scale_scale curve.scale_left_distrib [symmetric])
  qed
  moreover have "inverse r * (s * k - m) = d" using k r(2) by (simp add: s(1) ecdsa_s_def)
  ultimately have q: "gej_is 1 (smul d curve_G) qj" by simp
  obtain pk qj' where g: "secp256k1_ge_set_gej_var secp256k1_ge_clear qj = (pk, qj')" by fastforce
  have pk: "ge_is 1 (smul d curve_G) pk" "gej_is 1 (smul d curve_G) qj'"
    using ge_set_gej_is(4,5) [OF q, of secp256k1_ge_clear] by (simp_all add: g)
  then have "\<not> secp256k1_gej_is_infinity qj'"
    using gej_is_infinity [OF pk(2)] smul_G_neq_0 [OF d] by (simp add: secp256k1_gej_is_infinity_def)
  then have "secp256k1_ecdsa_sig_recover ctx sr ss msg (ecdsa_recid x y h) = Some pk"
    using nz c X(1) g unfolding secp256k1_ecdsa_sig_recover_def Let_def recid_bits big_def [symmetric] xr_def [symmetric] fx_def [symmetric]
    by (simp add: qj_def)
  then show ?thesis using pk(1) by blast
qed

end
