(* ===== verification/Secp_Law.thy ===== *)
theory Secp_Law
  imports Ecdsa_Law
begin

text \<open>
  The public interface on the level of points: a secret key is a scalar, a public key the multiple
  of the generator; tweaks, sums, signatures, recovery and Diffie-Hellman act on them.
\<close>

section \<open>Keys\<close>

text \<open>The code reads the first 32 bytes of what it is given.\<close>

definition bytes_scalar :: "u8 list \<Rightarrow> fn" where
  "bytes_scalar b = of_nat (be_nat (map ((!) b) [0 ..< 32]))"

definition bytes_overflow :: "u8 list \<Rightarrow> bool" where
  "bytes_overflow b \<longleftrightarrow> order_n \<le> be_nat (map ((!) b) [0 ..< 32])"

lemma set_b32_bytes:
  shows "sc_is (bytes_scalar b) (fst (secp256k1_scalar_set_b32 b))" and "snd (secp256k1_scalar_set_b32 b) \<longleftrightarrow> bytes_overflow b"
  using secp256k1_scalar_set_b32_is [of "map ((!) b) [0 ..< 32]"] secp256k1_scalar_set_b32_value(2) [of "map ((!) b) [0 ..< 32]"]
  unfolding scalar_set_b32_nth by (simp_all add: bytes_scalar_def bytes_overflow_def)

lemma set_b32_cases:
  obtains s where "secp256k1_scalar_set_b32 b = (s, bytes_overflow b)" "sc_is (bytes_scalar b) s"
proof -
  have "secp256k1_scalar_set_b32 b = (fst (secp256k1_scalar_set_b32 b), bytes_overflow b)" by (simp add: prod_eq_iff set_b32_bytes(2))
  then show thesis using set_b32_bytes(1) by (rule that)
qed

lemma bytes_get_b32: "sc_is x s \<Longrightarrow> bytes_scalar (secp256k1_scalar_get_b32 s) = x \<and> \<not> bytes_overflow (secp256k1_scalar_get_b32 s)"
proof -
  assume s: "sc_is x s"
  have e: "map ((!) (secp256k1_scalar_get_b32 s)) [0 ..< 32] = secp256k1_scalar_get_b32 s"
    by (rule nth_equalityI) simp_all
  show ?thesis
    using sc_is_value [OF s] fn_nat_lt [of x] unfolding bytes_scalar_def bytes_overflow_def e secp256k1_scalar_get_b32_value by simp
qed

definition seckey_ok :: "u8 list \<Rightarrow> bool" where
  "seckey_ok b \<longleftrightarrow> \<not> bytes_overflow b \<and> bytes_scalar b \<noteq> 0"

lemma seckey_verify_is: "secp256k1_ec_seckey_verify b \<longleftrightarrow> seckey_ok b"
  by (rule set_b32_cases [of b]) (simp add: secp256k1_ec_seckey_verify_def seckey_ok_def scalar_is_zero_iff)

definition secp_ctx_ok :: "secp256k1_context \<Rightarrow> bool" where
  "secp_ctx_ok ctx \<longleftrightarrow> gen_ctx_ok (ecmult_gen_ctx ctx) \<and> strauss_ctx_ok curve_G (ecmult_ctx ctx)"

lemma secp_ctx_built:
  assumes "secp_ctx_ok ctx"
  shows "secp256k1_ecmult_context_is_built (ecmult_ctx ctx)" and "secp256k1_ecmult_gen_context_is_built (ecmult_gen_ctx ctx)"
    and "gen_ctx_ok (ecmult_gen_ctx ctx)" and "strauss_ctx_ok curve_G (ecmult_ctx ctx)"
  using assms gen_ctx_ok_built by (auto simp: secp_ctx_ok_def strauss_ctx_ok_def secp256k1_ecmult_context_is_built_def)

lemma pubkey_create_is:
  assumes ctx: "secp_ctx_ok ctx"
  shows "secp256k1_ec_pubkey_create ctx seckey =
    (if seckey_ok seckey then (True, pubkey_of (smul (bytes_scalar seckey) curve_G)) else (False, pubkey_zero))"
proof (rule set_b32_cases [of seckey])
  fix s assume s: "secp256k1_scalar_set_b32 seckey = (s, bytes_overflow seckey)" "sc_is (bytes_scalar seckey) s"
  obtain pj where g: "secp256k1_ecmult_gen (ecmult_gen_ctx ctx) s = Some pj" "gej_is 1 (smul (bytes_scalar seckey) curve_G) pj"
    using ecmult_gen_is [OF secp_ctx_built(3) [OF ctx] s(2)] by blast
  have "ge_is 1 (smul (bytes_scalar seckey) curve_G) (fst (secp256k1_ge_set_gej pj))" by (rule ge_set_gej_is(1) [OF g(2)]) simp
  then show ?thesis
    using s g(1) scalar_is_zero_iff [OF s(2)] pubkey_save_is(2) curve_G_neq_0
    by (simp add: secp256k1_ec_pubkey_create_def seckey_ok_def)
qed

section \<open>Tweaks\<close>

lemma set_int_01: "sc_is 1 (secp256k1_scalar_set_int 1)" "sc_is 0 (secp256k1_scalar_set_int 0)"
  using secp256k1_scalar_set_int_is [of 1] secp256k1_scalar_set_int_is [of 0] by simp_all

lemma pubkey_tweak_add_is:
  assumes ctx: "secp_ctx_ok ctx" and pk: "pk_is Q pk"
  shows "secp256k1_ec_pubkey_tweak_add ctx pk tweak =
    (if \<not> bytes_overflow tweak \<and> Q + smul (bytes_scalar tweak) curve_G \<noteq> 0
     then (True, pubkey_of (Q + smul (bytes_scalar tweak) curve_G)) else (False, pubkey_zero))"
proof (rule set_b32_cases [of tweak])
  fix t assume t: "secp256k1_scalar_set_b32 tweak = (t, bytes_overflow tweak)" "sc_is (bytes_scalar tweak) t"
  let ?p = "secp256k1_ge_from_storage pk"
  define pj where "pj = secp256k1_ecmult (ecmult_ctx ctx) (secp256k1_gej_set_ge ?p) (secp256k1_scalar_set_int 1) t"
  have p: "ge_is 1 Q ?p" using pk by (simp add: pk_is_def)
  have pj: "gej_is 1 (Q + smul (bytes_scalar tweak) curve_G) pj"
    unfolding pj_def using ecmult_is [OF secp_ctx_built(4) [OF ctx] gej_set_ge_refines [OF p] set_int_01(1) t(2)] by simp
  have "ge_is 1 (Q + smul (bytes_scalar tweak) curve_G) (fst (secp256k1_ge_set_gej pj))" by (rule ge_set_gej_is(1) [OF pj]) simp
  then show ?thesis
    using t(1) gej_is_infinity [OF pj] pubkey_load_is [OF pk] secp_ctx_built(1) [OF ctx] pubkey_save_is(2)
    by (simp add: secp256k1_ec_pubkey_tweak_add_def secp256k1_eckey_pubkey_tweak_add_def Let_def pj_def [symmetric] secp256k1_gej_is_infinity_def)
qed

lemma pubkey_tweak_mul_is:
  assumes ctx: "secp_ctx_ok ctx" and pk: "pk_is Q pk"
  shows "secp256k1_ec_pubkey_tweak_mul ctx pk tweak =
    (if seckey_ok tweak then (True, pubkey_of (smul (bytes_scalar tweak) Q)) else (False, pubkey_zero))"
proof (rule set_b32_cases [of tweak])
  fix t assume t: "secp256k1_scalar_set_b32 tweak = (t, bytes_overflow tweak)" "sc_is (bytes_scalar tweak) t"
  let ?p = "secp256k1_ge_from_storage pk"
  define pj where "pj = secp256k1_ecmult (ecmult_ctx ctx) (secp256k1_gej_set_ge ?p) t (secp256k1_scalar_set_int 0)"
  have p: "ge_is 1 Q ?p" and Q: "Q \<noteq> 0" using pk by (simp_all add: pk_is_def)
  have pj: "gej_is 1 (smul (bytes_scalar tweak) Q) pj"
    unfolding pj_def using ecmult_is [OF secp_ctx_built(4) [OF ctx] gej_set_ge_refines [OF p] t(2) set_int_01(2)] by simp
  have g: "ge_is 1 (smul (bytes_scalar tweak) Q) (fst (secp256k1_ge_set_gej pj))" by (rule ge_set_gej_is(1) [OF pj]) simp
  have "smul (bytes_scalar tweak) Q \<noteq> 0" if "bytes_scalar tweak \<noteq> 0" using that Q by simp
  then show ?thesis
    using t pubkey_load_is [OF pk] secp_ctx_built(1) [OF ctx] pubkey_save_is(2) [OF g] scalar_is_zero_iff [OF t(2)]
    by (simp add: secp256k1_ec_pubkey_tweak_mul_def secp256k1_eckey_pubkey_tweak_mul_def Let_def pj_def [symmetric] seckey_ok_def)
qed

lemma privkey_tweak_add_is:
  shows "secp256k1_ec_privkey_tweak_add seckey tweak =
    (if \<not> bytes_overflow tweak \<and> bytes_scalar seckey + bytes_scalar tweak \<noteq> 0
     then (True, snd (secp256k1_ec_privkey_tweak_add seckey tweak)) else (False, replicate 32 0))"
  and "\<not> bytes_overflow tweak \<Longrightarrow> bytes_scalar seckey + bytes_scalar tweak \<noteq> 0 \<Longrightarrow>
    bytes_scalar (snd (secp256k1_ec_privkey_tweak_add seckey tweak)) = bytes_scalar seckey + bytes_scalar tweak \<and>
    \<not> bytes_overflow (snd (secp256k1_ec_privkey_tweak_add seckey tweak))"
proof -
  obtain t where t: "secp256k1_scalar_set_b32 tweak = (t, bytes_overflow tweak)" "sc_is (bytes_scalar tweak) t" by (rule set_b32_cases)
  obtain s where s: "secp256k1_scalar_set_b32 seckey = (s, bytes_overflow seckey)" "sc_is (bytes_scalar seckey) s" by (rule set_b32_cases)
  have a: "sc_is (bytes_scalar seckey + bytes_scalar tweak) (snd (secp256k1_scalar_add s t))" by (rule sc_rules s t)+
  have r: "secp256k1_ec_privkey_tweak_add seckey tweak =
    (if \<not> bytes_overflow tweak \<and> bytes_scalar seckey + bytes_scalar tweak \<noteq> 0
     then (True, secp256k1_scalar_get_b32 (snd (secp256k1_scalar_add s t))) else (False, replicate 32 0))"
    using t(1) s(1) scalar_is_zero_iff [OF a] by (simp add: secp256k1_ec_privkey_tweak_add_def secp256k1_eckey_privkey_tweak_add_def Let_def)
  show "secp256k1_ec_privkey_tweak_add seckey tweak =
    (if \<not> bytes_overflow tweak \<and> bytes_scalar seckey + bytes_scalar tweak \<noteq> 0
     then (True, snd (secp256k1_ec_privkey_tweak_add seckey tweak)) else (False, replicate 32 0))"
    by (simp add: r)
  show "\<not> bytes_overflow tweak \<Longrightarrow> bytes_scalar seckey + bytes_scalar tweak \<noteq> 0 \<Longrightarrow>
    bytes_scalar (snd (secp256k1_ec_privkey_tweak_add seckey tweak)) = bytes_scalar seckey + bytes_scalar tweak \<and>
    \<not> bytes_overflow (snd (secp256k1_ec_privkey_tweak_add seckey tweak))"
    using bytes_get_b32 [OF a] by (simp add: r)
qed

text \<open>The transformations of one key, which do not ask whether it is zero.\<close>

lemma privkey_unary_is:
  shows "bytes_scalar (secp256k1_ec_privkey_negate seckey) = - bytes_scalar seckey \<and> \<not> bytes_overflow (secp256k1_ec_privkey_negate seckey)"
  and "secp256k1_ec_privkey_tweak_neg seckey =
    (if bytes_overflow seckey then (False, replicate 32 0) else (True, secp256k1_ec_privkey_negate seckey))"
  and "secp256k1_ec_privkey_tweak_inv seckey =
    (if bytes_overflow seckey then (False, replicate 32 0) else (True, snd (secp256k1_ec_privkey_tweak_inv seckey)))"
  and "\<not> bytes_overflow seckey \<Longrightarrow> bytes_scalar (snd (secp256k1_ec_privkey_tweak_inv seckey)) = inverse (bytes_scalar seckey)"
proof -
  obtain s where s: "secp256k1_scalar_set_b32 seckey = (s, bytes_overflow seckey)" "sc_is (bytes_scalar seckey) s" by (rule set_b32_cases)
  show "bytes_scalar (secp256k1_ec_privkey_negate seckey) = - bytes_scalar seckey \<and> \<not> bytes_overflow (secp256k1_ec_privkey_negate seckey)"
    using bytes_get_b32 [OF secp256k1_scalar_negate_is [OF s(2)]] s(1) by (simp add: secp256k1_ec_privkey_negate_def)
  show "secp256k1_ec_privkey_tweak_neg seckey =
    (if bytes_overflow seckey then (False, replicate 32 0) else (True, secp256k1_ec_privkey_negate seckey))"
    using s(1) by (simp add: secp256k1_ec_privkey_tweak_neg_def secp256k1_ec_privkey_negate_def)
  show "secp256k1_ec_privkey_tweak_inv seckey =
    (if bytes_overflow seckey then (False, replicate 32 0) else (True, snd (secp256k1_ec_privkey_tweak_inv seckey)))"
    using s(1) by (simp add: secp256k1_ec_privkey_tweak_inv_def)
  show "\<not> bytes_overflow seckey \<Longrightarrow> bytes_scalar (snd (secp256k1_ec_privkey_tweak_inv seckey)) = inverse (bytes_scalar seckey)"
    using bytes_get_b32 [OF secp256k1_scalar_inverse_is [OF s(2)]] s(1) by (simp add: secp256k1_ec_privkey_tweak_inv_def)
qed

lemma privkey_tweak_mul_is:
  shows "secp256k1_ec_privkey_tweak_mul seckey tweak =
    (if seckey_ok tweak then (True, snd (secp256k1_ec_privkey_tweak_mul seckey tweak)) else (False, replicate 32 0))"
  and "seckey_ok tweak \<Longrightarrow>
    bytes_scalar (snd (secp256k1_ec_privkey_tweak_mul seckey tweak)) = bytes_scalar seckey * bytes_scalar tweak \<and>
    \<not> bytes_overflow (snd (secp256k1_ec_privkey_tweak_mul seckey tweak))"
proof -
  obtain t where t: "secp256k1_scalar_set_b32 tweak = (t, bytes_overflow tweak)" "sc_is (bytes_scalar tweak) t" by (rule set_b32_cases)
  obtain s where s: "secp256k1_scalar_set_b32 seckey = (s, bytes_overflow seckey)" "sc_is (bytes_scalar seckey) s" by (rule set_b32_cases)
  have a: "sc_is (bytes_scalar seckey * bytes_scalar tweak) (secp256k1_scalar_mul s t)" by (rule sc_rules s t)+
  have r: "secp256k1_ec_privkey_tweak_mul seckey tweak =
    (if seckey_ok tweak then (True, secp256k1_scalar_get_b32 (secp256k1_scalar_mul s t)) else (False, replicate 32 0))"
    using t(1) s(1) scalar_is_zero_iff [OF t(2)]
    by (simp add: secp256k1_ec_privkey_tweak_mul_def secp256k1_eckey_privkey_tweak_mul_def Let_def seckey_ok_def)
  show "secp256k1_ec_privkey_tweak_mul seckey tweak =
    (if seckey_ok tweak then (True, snd (secp256k1_ec_privkey_tweak_mul seckey tweak)) else (False, replicate 32 0))"
    by (simp add: r)
  show "seckey_ok tweak \<Longrightarrow>
    bytes_scalar (snd (secp256k1_ec_privkey_tweak_mul seckey tweak)) = bytes_scalar seckey * bytes_scalar tweak \<and>
    \<not> bytes_overflow (snd (secp256k1_ec_privkey_tweak_mul seckey tweak))"
    using bytes_get_b32 [OF a] by (simp add: r)
qed

section \<open>Sums of public keys\<close>

lemma pubkey_combine_fold:
  assumes "list_all2 pk_is Qs pks"
  shows "gej_is 1 P Qj \<Longrightarrow> gej_is 1 (P + sum_list Qs) (fold (\<lambda>pk Qj. secp256k1_gej_add_ge Qj (snd (secp256k1_pubkey_load pk))) pks Qj)"
  using assms
proof (induction Qs pks arbitrary: P Qj rule: list_all2_induct)
  case (Cons Q Qs pk pks)
  have q: "ge_is 1 Q (snd (secp256k1_pubkey_load pk))" "Q \<noteq> 0"
    using Cons.hyps(1) pubkey_load_is [of Q pk] by (simp_all add: pk_is_def)
  show ?case using Cons.IH [OF gej_add_ge_refines [OF Cons.prems q]] by (simp add: add.assoc)
qed simp

lemma pubkey_combine_is:
  assumes pks: "list_all2 pk_is Qs pks" and n: "pks \<noteq> []"
  shows "secp256k1_ec_pubkey_combine pks = (if sum_list Qs \<noteq> 0 then (True, pubkey_of (sum_list Qs)) else (False, pubkey_zero))"
proof -
  define Qj where "Qj = fold (\<lambda>pk Qj. secp256k1_gej_add_ge Qj (snd (secp256k1_pubkey_load pk))) pks secp256k1_gej_set_infinity"
  have q: "gej_is 1 (sum_list Qs) Qj"
    using pubkey_combine_fold [OF pks, of 0 secp256k1_gej_set_infinity] by (simp add: Qj_def gej_is_zero secp256k1_gej_set_infinity_def)
  have "ge_is 1 (sum_list Qs) (fst (secp256k1_ge_set_gej Qj))" by (rule ge_set_gej_is(1) [OF q]) simp
  then show ?thesis
    using n gej_is_infinity [OF q] pubkey_save_is(2)
    by (simp add: secp256k1_ec_pubkey_combine_def Qj_def [symmetric] secp256k1_gej_is_infinity_def Let_def Suc_le_eq)
qed

section \<open>Diffie-Hellman\<close>

definition ecdh_secret :: "cpoint \<Rightarrow> u8 list" where
  "ecdh_secret R = sha256_parts
     [[if secp256k1_fe_is_odd (secp256k1_fe_normalize (ge_y (ge_of R))) then 3 else 2],
      secp256k1_fe_get_b32 (secp256k1_fe_normalize (ge_x (ge_of R)))]"

lemma normalize_coordinates:
  assumes a: "ge_is 1 R a" "R \<noteq> 0"
  shows "secp256k1_fe_normalize (ge_x a) = secp256k1_fe_normalize (ge_x (ge_of R))"
    and "secp256k1_fe_normalize (ge_y a) = secp256k1_fe_normalize (ge_y (ge_of R))"
proof -
  obtain X Y where x: "fe_is 8 X (ge_x a)" "fe_is 8 Y (ge_y a)" and p: "pt R = Point (X / 1 ^ 2) (Y / 1 ^ 3)"
    by (rule ge_isE [OF a])
  obtain X' Y' where x': "fe_is 8 X' (ge_x (ge_of R))" "fe_is 8 Y' (ge_y (ge_of R))" and p': "pt R = Point (X' / 1 ^ 2) (Y' / 1 ^ 3)"
    by (rule ge_isE [OF ge_of_is a(2)])
  have e: "X' = X" "Y' = Y" using p p' by simp_all
  show "secp256k1_fe_normalize (ge_x a) = secp256k1_fe_normalize (ge_x (ge_of R))"
    and "secp256k1_fe_normalize (ge_y a) = secp256k1_fe_normalize (ge_y (ge_of R))"
    using normalize_unique [OF x(1) x'(1) [unfolded e]] normalize_unique [OF x(2) x'(2) [unfolded e]] by simp_all
qed

lemma ecdh_is:
  assumes pk: "pk_is P pk"
  shows "secp256k1_ecdh pk b = (if seckey_ok b then Some (ecdh_secret (smul (bytes_scalar b) P)) else None)"
proof (rule set_b32_cases [of b])
  fix s assume s: "secp256k1_scalar_set_b32 b = (s, bytes_overflow b)" "sc_is (bytes_scalar b) s"
  have P: "ge_is 1 P (secp256k1_ge_from_storage pk)" "P \<noteq> 0" using pk by (simp_all add: pk_is_def)
  define r where "r = fst (secp256k1_ge_set_gej (secp256k1_ecmult_const (secp256k1_ge_from_storage pk) s 256))"
  have r: "ge_is 1 (smul (bytes_scalar b) P) r" unfolding r_def by (rule ge_set_gej_is(1) [OF ecmult_const_smul [OF P s(2)]]) simp
  show ?thesis
  proof (cases "seckey_ok b")
    case True
    then have "smul (bytes_scalar b) P \<noteq> 0" using P(2) by (simp add: seckey_ok_def)
    note n = normalize_coordinates [OF r this]
    show ?thesis
      using True s scalar_is_zero_iff [OF s(2)] pubkey_load_is [OF pk]
      by (simp add: secp256k1_ecdh_def seckey_ok_def Let_def r_def [symmetric] n ecdh_secret_def)
  next
    case False
    then show ?thesis
      using s scalar_is_zero_iff [OF s(2)] by (auto simp: secp256k1_ecdh_def seckey_ok_def Let_def)
  qed
qed

section \<open>Signing\<close>

definition sign_loop_post ::
    "secp256k1_ecmult_gen_context \<Rightarrow> secp256k1_scalar \<Rightarrow> secp256k1_scalar \<Rightarrow> (secp256k1_scalar \<times> secp256k1_scalar \<times> nat) option \<Rightarrow> bool" where
  "sign_loop_post ctx sec msg out \<longleftrightarrow> (case out of None \<Rightarrow> True | Some (r, s, recid) \<Rightarrow>
     \<exists>nonce32 non. secp256k1_scalar_set_b32 nonce32 = (non, False) \<and> \<not> secp256k1_scalar_is_zero non \<and>
       secp256k1_ecdsa_sig_sign ctx sec msg non = Some (True, r, s, recid))"

lemma sign_loop_post_step:
  assumes ih: "\<And>ctx f sec msg c y. loop ctx f sec msg c = Some y \<Longrightarrow> sign_loop_post ctx sec msg y"
    and body: "(case f c of None \<Rightarrow> Some None
      | Some nonce32 \<Rightarrow>
          case secp256k1_scalar_set_b32 nonce32 of (non, overflow) \<Rightarrow>
            if \<not> overflow \<and> \<not> secp256k1_scalar_is_zero non then
              (case secp256k1_ecdsa_sig_sign ctx sec msg non of
                 None \<Rightarrow> Some None
               | Some (ok, r, s, recid) \<Rightarrow>
                   if ok then Some (Some (r, s, recid)) else loop ctx f sec msg (c + 1))
            else loop ctx f sec msg (c + 1)) = Some out"
  shows "sign_loop_post ctx sec msg out"
proof (cases "f c")
  case None
  then show ?thesis using body by (auto simp: sign_loop_post_def)
next
  case (Some nonce32)
  obtain non ov where n: "secp256k1_scalar_set_b32 nonce32 = (non, ov)" by fastforce
  show ?thesis
  proof (cases "\<not> ov \<and> \<not> secp256k1_scalar_is_zero non")
    case False
    then have "loop ctx f sec msg (c + 1) = Some out" using body by (simp only: Some n option.case prod.case if_False)
    then show ?thesis by (rule ih)
  next
    case True
    note ok = this
    show ?thesis
    proof (cases "secp256k1_ecdsa_sig_sign ctx sec msg non")
      case None
      then show ?thesis using body Some n ok by (auto simp: sign_loop_post_def)
    next
      case s: (Some res)
      obtain b r' s' recid' where res: "res = (b, r', s', recid')" by (metis prod_cases4)
      show ?thesis
      proof (cases b)
        case True
        then have "out = Some (r', s', recid')" using body by (simp add: Some n ok s res)
        then show ?thesis using n ok s True by (auto simp: sign_loop_post_def res)
      next
        case False
        then have "loop ctx f sec msg (c + 1) = Some out" using body by (simp add: Some n ok s res)
        then show ?thesis by (rule ih)
      qed
    qed
  qed
qed

lemma ecdsa_sign_loop_post: "ecdsa_sign_loop ctx f sec msg c = Some out \<Longrightarrow> sign_loop_post ctx sec msg out"
  by (erule ecdsa_sign_loop.raw_induct [where P = "\<lambda>ctx f sec msg c. sign_loop_post ctx sec msg", rotated], rule sign_loop_post_step)

lemma ecdsa_sign_loop_result:
  "ecdsa_sign_loop ctx f sec msg c = Some (Some (r, s, recid)) \<Longrightarrow>
    \<exists>nonce32 non. secp256k1_scalar_set_b32 nonce32 = (non, False) \<and> \<not> secp256k1_scalar_is_zero non \<and>
      secp256k1_ecdsa_sig_sign ctx sec msg non = Some (True, r, s, recid)"
  using ecdsa_sign_loop_post [of ctx f sec msg c "Some (r, s, recid)"] by (simp add: sign_loop_post_def)

lemma ecdsa_sign_with_result:
  assumes "ecdsa_sign_with g ctx msg32 seckey noncefp noncedata = Some (Some (r, s, recid))"
  shows "seckey_ok seckey \<and> (\<exists>nonce32 non. secp256k1_scalar_set_b32 nonce32 = (non, False) \<and> \<not> secp256k1_scalar_is_zero non \<and>
      secp256k1_ecdsa_sig_sign (ecmult_gen_ctx ctx) (fst (secp256k1_scalar_set_b32 seckey)) (fst (secp256k1_scalar_set_b32 msg32)) non =
        Some (True, r, s, recid))"
proof (rule set_b32_cases [of seckey])
  fix d assume d: "secp256k1_scalar_set_b32 seckey = (d, bytes_overflow seckey)" "sc_is (bytes_scalar seckey) d"
  have ok: "seckey_ok seckey" and "ecdsa_sign_loop (ecmult_gen_ctx ctx)
      ((case noncefp of None \<Rightarrow> nonce_function_rfc6979 g | Some f \<Rightarrow> f) msg32 seckey None noncedata) d (fst (secp256k1_scalar_set_b32 msg32)) 0 =
      Some (Some (r, s, recid))"
    using assms d scalar_is_zero_iff [OF d(2)] by (auto simp: ecdsa_sign_with_def Let_def seckey_ok_def split: if_splits)
  from ecdsa_sign_loop_result [OF this(2)] ok show ?thesis by (simp add: d(1))
qed

text \<open>What the scalars of a signature stand for.\<close>

lemma ecdsa_sign_with_is:
  assumes ctx: "secp_ctx_ok ctx" and sg: "ecdsa_sign_with g ctx msg32 seckey noncefp noncedata = Some (Some (sr, ss, recid))"
  shows "\<exists>k x y r s. k \<noteq> 0 \<and> pt (smul k curve_G) = Point x y \<and> r = of_nat (fp_nat x) \<and>
    s = ecdsa_s (bytes_scalar seckey) (bytes_scalar msg32) k r \<and> s \<noteq> 0 \<and> sc_is r sr \<and>
    sc_is (if fn_high s then - s else s) ss \<and> recid = ecdsa_recid x y (fn_high s) \<and> seckey_ok seckey"
proof -
  obtain nonce32 non where ok: "seckey_ok seckey" and n: "secp256k1_scalar_set_b32 nonce32 = (non, False)" "\<not> secp256k1_scalar_is_zero non"
    and s: "secp256k1_ecdsa_sig_sign (ecmult_gen_ctx ctx) (fst (secp256k1_scalar_set_b32 seckey)) (fst (secp256k1_scalar_set_b32 msg32)) non =
        Some (True, sr, ss, recid)"
    using ecdsa_sign_with_result [OF sg] by blast
  define k where "k = bytes_scalar nonce32"
  have k: "sc_is k non" using set_b32_bytes(1) [of nonce32] by (simp add: n(1) k_def)
  have k0: "k \<noteq> 0" using n(2) scalar_is_zero_iff [OF k] by simp
  obtain x y where R: "pt (smul k curve_G) = Point x y"
    using smul_G_neq_0 [OF k0] pt_eq_Infinity_iff [of "smul k curve_G"] by (cases "pt (smul k curve_G)") auto
  define r where "r = (of_nat (fp_nat x) :: fn)"
  define s' where "s' = ecdsa_s (bytes_scalar seckey) (bytes_scalar msg32) k r"
  obtain sr' ss' where sg': "secp256k1_ecdsa_sig_sign (ecmult_gen_ctx ctx) (fst (secp256k1_scalar_set_b32 seckey))
      (fst (secp256k1_scalar_set_b32 msg32)) non = Some (s' \<noteq> 0, sr', ss', ecdsa_recid x y (fn_high s'))"
    and sc: "sc_is r sr'" "sc_is (if fn_high s' then - s' else s') ss'"
    using ecdsa_sig_sign_is [OF secp_ctx_built(3) [OF ctx] set_b32_bytes(1) set_b32_bytes(1) k k0 R] unfolding r_def s'_def by blast
  have "s' \<noteq> 0" "sr' = sr" "ss' = ss" "recid = ecdsa_recid x y (fn_high s')" using s sg' by simp_all
  then show ?thesis using sc ok k0 R r_def s'_def by blast
qed

lemma ecdsa_verify_is:
  assumes ctx: "secp_ctx_ok ctx" and pk: "pk_is Q pk" and r: "sc_is r (sig_r sg)" and s: "sc_is s (sig_s sg)"
  shows "secp256k1_ecdsa_verify ctx sg msg32 pk \<longleftrightarrow> \<not> fn_high s \<and> ecdsa_valid Q (bytes_scalar msg32) r s"
proof -
  have "ge_is 1 Q (secp256k1_ge_from_storage pk)" using pk by (simp add: pk_is_def)
  note v = ecdsa_sig_verify_is [OF secp_ctx_built(4) [OF ctx] this r s set_b32_bytes(1) [of msg32]]
  show ?thesis
    using v scalar_is_high_is [OF s] pubkey_load_is [OF pk] secp_ctx_built(1) [OF ctx]
    by (simp add: secp256k1_ecdsa_verify_def secp256k1_ecdsa_signature_load_def)
qed

end
