(* ===== verification/Pubkey_Law.thy ===== *)
theory Pubkey_Law
  imports Secp_Law
begin

text \<open>
  The two encodings of a public key, and the first good nonce: parsing accepts exactly points of the
  curve and inverts serializing, and signing returns with the first nonce that is in range and
  gives a nonzero s.
\<close>

section \<open>Serializing\<close>

definition fp_bytes :: "fp \<Rightarrow> u8 list" where
  "fp_bytes x = secp256k1_fe_get_b32 (secp256k1_fe_normalize (fe_of x))"

lemma fp_bytes_length [simp]: "length (fp_bytes x) = 32"
  by (simp add: fp_bytes_def)

lemma fe_of_8: "fe_is 8 x (fe_of x)"
  by (rule fe_is_8 [OF fe_of_is])

lemma fp_bytes_value: "be_nat (fp_bytes x) = fp_nat x"
  unfolding fp_bytes_def by (rule normalized_point_bytes(1) [OF fe_of_8])

lemma fp_bytes_is: "fe_is 8 x a \<Longrightarrow> secp256k1_fe_get_b32 (secp256k1_fe_normalize a) = fp_bytes x"
  unfolding fp_bytes_def using normalize_unique [OF _ fe_of_8] by simp

lemma fp_bytes_of_bytes: "length b = 32 \<Longrightarrow> be_nat b = fp_nat x \<Longrightarrow> b = fp_bytes x"
  using be_nat_inject [of b "fp_bytes x"] by (simp add: fp_bytes_value)

lemma fe_set_fp_bytes:
  "fst (secp256k1_fe_set_b32 (fp_bytes x))" "fe_is 1 x (snd (secp256k1_fe_set_b32 (fp_bytes x)))"
  "fe_normalized (snd (secp256k1_fe_set_b32 (fp_bytes x)))"
  using fe_set_b32_success [of "fp_bytes x"] fp_nat_lt [of x] by (simp_all add: fp_bytes_value)

definition pubkey_bytes :: "bool \<Rightarrow> fp \<Rightarrow> fp \<Rightarrow> u8 list" where
  "pubkey_bytes compressed x y =
     (if compressed then (if odd (fp_nat y) then 3 else 2) # fp_bytes x else 4 # fp_bytes x @ fp_bytes y)"

lemma pubkey_bytes_length: "length (pubkey_bytes compressed x y) = (if compressed then 33 else 65)"
  by (simp add: pubkey_bytes_def)

lemma eckey_serialize_is:
  assumes q: "ge_is 1 Q elem" and Q: "pt Q = Point x y"
  shows "fst (secp256k1_eckey_pubkey_serialize elem compressed) = Some (pubkey_bytes compressed x y)"
proof -
  have nz: "Q \<noteq> 0" using Q pt_eq_Infinity_iff [of Q] by auto
  obtain X Y where xy: "fe_is 8 X (ge_x elem)" "fe_is 8 Y (ge_y elem)" "pt Q = Point (X / 1 ^ 2) (Y / 1 ^ 3)" "\<not> ge_infinity elem"
    by (rule ge_isE [OF q nz])
  have e: "X = x" "Y = y" using xy(3) Q by simp_all
  have v: "secp256k1_fe_normalize_var (ge_x elem) = secp256k1_fe_normalize (ge_x elem)"
    "secp256k1_fe_normalize_var (ge_y elem) = secp256k1_fe_normalize (ge_y elem)"
    using fe_is_mono [OF xy(1), of 32] fe_is_mono [OF xy(2), of 32] by (simp_all add: fe_normalize_var_eq fe_is_def)
  show ?thesis
    using fp_bytes_is [OF xy(1)] fp_bytes_is [OF xy(2)] normalized_point_bytes(2) [OF xy(2)] xy(4)
    by (simp add: secp256k1_eckey_pubkey_serialize_def Let_def v e pubkey_bytes_def secp256k1_ge_is_infinity_def
        SECP256K1_TAG_PUBKEY_EVEN_def SECP256K1_TAG_PUBKEY_ODD_def SECP256K1_TAG_PUBKEY_UNCOMPRESSED_def)
qed

definition ec_flags :: "bool \<Rightarrow> u32" where
  "ec_flags compressed = (if compressed then SECP256K1_EC_COMPRESSED else SECP256K1_EC_UNCOMPRESSED)"

lemma ec_pubkey_serialize_is:
  assumes pk: "pk_is Q pk" and Q: "pt Q = Point x y" and len: "length output \<ge> (if compressed then 33 else 65)"
  shows "secp256k1_ec_pubkey_serialize output pk (ec_flags compressed) = (True, if compressed then 33 else 65,
    pubkey_bytes compressed x y @ replicate (length output - (if compressed then 33 else 65)) 0)"
proof -
  have "ge_is 1 Q (secp256k1_ge_from_storage pk)" using pk by (simp add: pk_is_def)
  note s = eckey_serialize_is [OF this Q, of compressed]
  show ?thesis
    using len s pubkey_load_is [OF pk] pubkey_bytes_length [of compressed x y]
    by (cases compressed)
      (simp_all add: secp256k1_ec_pubkey_serialize_def ec_flags_def SECP256K1_EC_COMPRESSED_def SECP256K1_EC_UNCOMPRESSED_def)
qed

section \<open>Parsing\<close>

lemma eckey_parse_serialized:
  assumes Q: "pt Q = Point x y"
  shows "\<exists>elem. secp256k1_eckey_pubkey_parse (pubkey_bytes compressed x y) = Some elem \<and> ge_is 1 Q elem"
proof -
  have "\<exists>fx. secp256k1_fe_set_b32 (fp_bytes a) = (True, fx) \<and> fe_is 8 a fx" for a
    using fe_set_fp_bytes(1) [of a] fe_is_8 [OF fe_set_fp_bytes(2) [of a]] by (metis prod.collapse)
  then obtain fx fy where x: "secp256k1_fe_set_b32 (fp_bytes x) = (True, fx)" "fe_is 8 x fx"
    and y: "secp256k1_fe_set_b32 (fp_bytes y) = (True, fy)" "fe_is 8 y fy" by metis
  show ?thesis
  proof (cases compressed)
    case True
    obtain r where r: "secp256k1_ge_set_xo_var fx (odd (fp_nat y)) = (True, r)" "ge_is 1 Q r"
      using ge_set_xo_var_point [OF x(2) Q, of False] by auto
    have "secp256k1_eckey_pubkey_parse (pubkey_bytes compressed x y) = Some r"
      using True x(1) r(1) by (cases "odd (fp_nat y)") (simp_all add: secp256k1_eckey_pubkey_parse_def pubkey_bytes_def Let_def
          SECP256K1_TAG_PUBKEY_EVEN_def SECP256K1_TAG_PUBKEY_ODD_def)
    then show ?thesis using r(2) by blast
  next
    case False
    have q: "ge_is 1 Q (secp256k1_ge_set_xy fx fy)"
      unfolding secp256k1_ge_set_xy_def using x(2) y(2) Q by (intro ge_isI) simp_all
    have nz: "Q \<noteq> 0" using Q pt_eq_Infinity_iff [of Q] by auto
    have "secp256k1_ge_is_valid_var (secp256k1_ge_set_xy fx fy)"
      using ge_is_valid_var_iff [OF ge_is_ok [OF q]] ge_is_infinity [OF q] nz ge_is_pt [OF q] by simp
    then have "secp256k1_eckey_pubkey_parse (pubkey_bytes compressed x y) = Some (secp256k1_ge_set_xy fx fy)"
      using False x(1) y(1) by (simp add: secp256k1_eckey_pubkey_parse_def pubkey_bytes_def Let_def
          SECP256K1_TAG_PUBKEY_EVEN_def SECP256K1_TAG_PUBKEY_ODD_def SECP256K1_TAG_PUBKEY_HYBRID_EVEN_def SECP256K1_TAG_PUBKEY_HYBRID_ODD_def)
    then show ?thesis using q by blast
  qed
qed

text \<open>Whatever is accepted is a finite point of the curve with the given coordinates.\<close>

lemma fe_set_b32_ok:
  assumes "secp256k1_fe_set_b32 b = (True, x)" "length b = 32"
  shows "fe_is 8 (of_nat (be_nat b)) x" and "b = fp_bytes (of_nat (be_nat b))"
proof -
  have lt: "be_nat b < field_p" using fe_set_b32_flag [of b] fe_set_b32_limbs(3) [OF assms(2)] assms(1) by simp
  have "fe_is 1 (of_nat (be_nat b)) x" using fe_set_b32_success(3) [OF assms(2) lt] assms(1) by simp
  then show "fe_is 8 (of_nat (be_nat b)) x" by (rule fe_is_8)
  show "b = fp_bytes (of_nat (be_nat b))"
    by (rule fp_bytes_of_bytes [OF assms(2)]) (simp add: fp_nat_of_nat lt)
qed

lemma eckey_parse_33:
  assumes "secp256k1_eckey_pubkey_parse pub = Some elem" and len: "length pub = 33"
  shows "\<exists>Q x y. pt Q = Point x y \<and> ge_is 1 Q elem \<and> pub = pubkey_bytes True x y"
proof -
  obtain tag b where pub: "pub = tag # b" and b: "length b = 32" using len by (cases pub) auto
  obtain ok x where x: "secp256k1_fe_set_b32 b = (ok, x)" by fastforce
  obtain ok' r where r: "secp256k1_ge_set_xo_var x (tag = 3) = (ok', r)" by fastforce
  have t: "tag = 2 \<or> tag = 3" and ok: ok ok' and e: "elem = r"
    using assms(1) b x r by (auto simp: pub secp256k1_eckey_pubkey_parse_def SECP256K1_TAG_PUBKEY_EVEN_def SECP256K1_TAG_PUBKEY_ODD_def
        split: if_splits)
  have X: "fe_is 8 (of_nat (be_nat b)) x" "b = fp_bytes (of_nat (be_nat b))" using fe_set_b32_ok [of b x] x ok(1) b by simp_all
  have "fe_mag 8 x" "fev x = of_nat (be_nat b)" using X(1) by (simp_all add: fe_is_fev)
  then obtain y where v: "ge_valid r" "ge_pt r = Point (of_nat (be_nat b)) y" "odd (fp_nat y) \<longleftrightarrow> tag = 3"
    using ge_set_xo_var_is [of x "tag = 3"] r ok(2) by auto
  have "pub = pubkey_bytes True (of_nat (be_nat b)) y" using t v(3) X(2) by (auto simp: pub pubkey_bytes_def)
  then show ?thesis using ge_valid_ge_is [OF v(1)] pt_cp_ge [OF v(1)] v(2) e by metis
qed

lemma eckey_parse_65:
  assumes "secp256k1_eckey_pubkey_parse pub = Some elem" and len: "length pub = 65"
  shows "\<exists>Q x y. pt Q = Point x y \<and> ge_is 1 Q elem \<and> tl pub = fp_bytes x @ fp_bytes y \<and>
    (pub ! 0 = 4 \<or> pub ! 0 = (if odd (fp_nat y) then 7 else 6))"
proof -
  obtain tag b c where pub: "pub = tag # b @ c" and b: "length b = 32" "length c = 32"
  proof -
    have "pub = hd pub # take 32 (tl pub) @ drop 32 (tl pub)" using len by (cases pub) simp_all
    then show thesis using len by (intro that [of "hd pub" "take 32 (tl pub)" "drop 32 (tl pub)"]) simp_all
  qed
  obtain ok x where x: "secp256k1_fe_set_b32 b = (ok, x)" by fastforce
  obtain ok' y where y: "secp256k1_fe_set_b32 c = (ok', y)" by fastforce
  have ok: ok ok' and t: "tag = 4 \<or> tag = (if secp256k1_fe_is_odd y then 7 else 6)" and e: "elem = secp256k1_ge_set_xy x y"
    and v: "secp256k1_ge_is_valid_var elem"
    using assms(1) b x y by (auto simp: pub Let_def secp256k1_eckey_pubkey_parse_def SECP256K1_TAG_PUBKEY_HYBRID_EVEN_def
        SECP256K1_TAG_PUBKEY_HYBRID_ODD_def split: if_splits)
  let ?x = "of_nat (be_nat b) :: fp" and ?y = "of_nat (be_nat c) :: fp"
  have X: "fe_is 8 ?x x" "b = fp_bytes ?x" and Y: "fe_is 8 ?y y" "c = fp_bytes ?y"
    using fe_set_b32_ok [of b x] fe_set_b32_ok [of c y] x y ok b by simp_all
  have g: "ge_ok 8 elem" "ge_pt elem = Point ?x ?y" using X(1) Y(1) by (simp_all add: e secp256k1_ge_set_xy_def ge_ok_def ge_pt_def fe_is_fev)
  then have val: "ge_valid elem" using v ge_is_valid_var_iff [OF g(1)] by (simp add: ge_valid_def)
  have "secp256k1_fe_is_odd y \<longleftrightarrow> odd (fp_nat ?y)"
    using fe_set_b32_limbs(3) [OF b(2)] y fe_set_b32_flag [of c] ok(2) by (simp add: secp256k1_fe_is_odd_iff fp_nat_of_nat)
  then show ?thesis
    using ge_valid_ge_is [OF val] pt_cp_ge [OF val] g(2) X(2) Y(2) t
    by (intro exI [of _ "cp (ge_pt elem)"] exI [of _ ?x] exI [of _ ?y]) (auto simp: pub)
qed

lemma eckey_parse_size:
  "secp256k1_eckey_pubkey_parse pub = Some elem \<Longrightarrow> length pub = 33 \<or> length pub = 65"
  by (auto simp: secp256k1_eckey_pubkey_parse_def split: if_splits)

lemma ec_pubkey_parse_ok:
  assumes "secp256k1_ec_pubkey_parse pub = (True, pk)"
  obtains Q x y where "pt Q = Point x y" "pk = pubkey_of Q" "pk_is Q pk"
    "length pub = 33 \<and> pub = pubkey_bytes True x y \<or>
     length pub = 65 \<and> tl pub = fp_bytes x @ fp_bytes y \<and> (pub ! 0 = 4 \<or> pub ! 0 = (if odd (fp_nat y) then 7 else 6))"
proof -
  obtain elem where p: "secp256k1_eckey_pubkey_parse pub = Some elem" "pk = secp256k1_pubkey_save elem"
    using assms by (auto simp: secp256k1_ec_pubkey_parse_def split: option.splits)
  have "\<exists>Q x y. pt Q = Point x y \<and> ge_is 1 Q elem \<and> (length pub = 33 \<and> pub = pubkey_bytes True x y \<or>
     length pub = 65 \<and> tl pub = fp_bytes x @ fp_bytes y \<and> (pub ! 0 = 4 \<or> pub ! 0 = (if odd (fp_nat y) then 7 else 6)))"
    using eckey_parse_33 [OF p(1)] eckey_parse_65 [OF p(1)] eckey_parse_size [OF p(1)] by metis
  then obtain Q x y where Q: "pt Q = Point x y" "ge_is 1 Q elem" and f: "length pub = 33 \<and> pub = pubkey_bytes True x y \<or>
     length pub = 65 \<and> tl pub = fp_bytes x @ fp_bytes y \<and> (pub ! 0 = 4 \<or> pub ! 0 = (if odd (fp_nat y) then 7 else 6))" by blast
  have "Q \<noteq> 0" using Q(1) pt_eq_Infinity_iff [of Q] by auto
  then show thesis using that [OF Q(1) _ _ f] pubkey_save_is [OF Q(2)] p(2) by simp
qed

section \<open>The first good nonce\<close>

definition ecdsa_rs :: "fn \<Rightarrow> fn \<Rightarrow> fn \<Rightarrow> fn \<times> fn" where
  "ecdsa_rs d m k = (case pt (smul k curve_G) of Infinity \<Rightarrow> (0, 0)
     | Point x y \<Rightarrow> let r = of_nat (fp_nat x); s = ecdsa_s d m k r in (r, if fn_high s then - s else s))"

definition nonce_good :: "fn \<Rightarrow> fn \<Rightarrow> u8 list \<Rightarrow> bool" where
  "nonce_good d m b \<longleftrightarrow> seckey_ok b \<and> snd (ecdsa_rs d m (bytes_scalar b)) \<noteq> 0"

lemma sign_with_nonce:
  assumes ctx: "gen_ctx_ok ctx" and d: "sc_is d sec" and m: "sc_is m msg" and b: "seckey_ok b"
    and n: "secp256k1_scalar_set_b32 b = (non, ov)"
  shows "\<exists>sr ss recid. secp256k1_ecdsa_sig_sign ctx sec msg non = Some (nonce_good d m b, sr, ss, recid) \<and>
    sc_is (fst (ecdsa_rs d m (bytes_scalar b))) sr \<and> sc_is (snd (ecdsa_rs d m (bytes_scalar b))) ss"
proof -
  let ?k = "bytes_scalar b"
  have k: "sc_is ?k non" "?k \<noteq> 0" using set_b32_bytes(1) [of b] n b by (simp_all add: seckey_ok_def)
  obtain x y where R: "pt (smul ?k curve_G) = Point x y"
    using smul_G_neq_0 [OF k(2)] pt_eq_Infinity_iff [of "smul ?k curve_G"] by (cases "pt (smul ?k curve_G)") auto
  define s where "s = ecdsa_s d m ?k (of_nat (fp_nat x))"
  have rs: "ecdsa_rs d m ?k = (of_nat (fp_nat x), if fn_high s then - s else s)"
    using R by (simp add: ecdsa_rs_def Let_def s_def)
  then have "nonce_good d m b \<longleftrightarrow> s \<noteq> 0" using b by (simp add: nonce_good_def)
  then show ?thesis
    using ecdsa_sig_sign_is [OF ctx d m k R] unfolding rs s_def by auto
qed

lemma ecdsa_sign_loop_first:
  assumes ctx: "gen_ctx_ok ctx" and d: "sc_is d sec" and m: "sc_is m msg" and f: "\<And>i. i < j \<Longrightarrow> \<exists>b. f (c + of_nat i) = Some b \<and> \<not> nonce_good d m b"
    and good: "f (c + of_nat j) = Some b" "nonce_good d m b"
  shows "\<exists>sr ss recid. ecdsa_sign_loop ctx f sec msg c = Some (Some (sr, ss, recid)) \<and>
    sc_is (fst (ecdsa_rs d m (bytes_scalar b))) sr \<and> sc_is (snd (ecdsa_rs d m (bytes_scalar b))) ss"
  using f good(1)
proof (induction j arbitrary: c)
  case 0
  obtain non where n: "secp256k1_scalar_set_b32 b = (non, bytes_overflow b)" "sc_is (bytes_scalar b) non" by (rule set_b32_cases)
  have ok: "seckey_ok b" using good(2) by (simp add: nonce_good_def)
  then have "\<not> bytes_overflow b" "\<not> secp256k1_scalar_is_zero non" using scalar_is_zero_iff [OF n(2)] by (simp_all add: seckey_ok_def)
  then show ?case
    using sign_with_nonce [OF ctx d m ok n(1)] good(2) 0 n(1) by (auto simp: ecdsa_sign_loop.simps [of ctx f sec msg c])
next
  case (Suc j)
  obtain b' where b': "f c = Some b'" "\<not> nonce_good d m b'" using Suc.prems(1) [of 0] by auto
  obtain non where n: "secp256k1_scalar_set_b32 b' = (non, bytes_overflow b')" "sc_is (bytes_scalar b') non" by (rule set_b32_cases)
  have "\<exists>sr ss recid. ecdsa_sign_loop ctx f sec msg (c + 1) = Some (Some (sr, ss, recid)) \<and>
      sc_is (fst (ecdsa_rs d m (bytes_scalar b))) sr \<and> sc_is (snd (ecdsa_rs d m (bytes_scalar b))) ss"
    by (rule Suc.IH) (use Suc.prems(1) [of "Suc _"] Suc.prems(2) in \<open>simp_all add: add.assoc\<close>)
  moreover have "ecdsa_sign_loop ctx f sec msg c = ecdsa_sign_loop ctx f sec msg (c + 1)"
  proof (cases "seckey_ok b'")
    case True
    then have "\<not> bytes_overflow b'" "\<not> secp256k1_scalar_is_zero non" using scalar_is_zero_iff [OF n(2)] by (simp_all add: seckey_ok_def)
    then show ?thesis
      using sign_with_nonce [OF ctx d m True n(1)] b' n(1) by (auto simp: ecdsa_sign_loop.simps [of ctx f sec msg c])
  next
    case False
    then have "\<not> (\<not> bytes_overflow b' \<and> \<not> secp256k1_scalar_is_zero non)" using scalar_is_zero_iff [OF n(2)] by (simp add: seckey_ok_def)
    then show ?thesis using b'(1) n(1) by (subst ecdsa_sign_loop.simps) auto
  qed
  ultimately show ?case by simp
qed

lemma ecdsa_sign_first:
  assumes ctx: "secp_ctx_ok ctx" and key: "seckey_ok seckey"
    and f: "\<And>i. i < j \<Longrightarrow> \<exists>b. f msg32 seckey None noncedata (of_nat i) = Some b \<and> \<not> nonce_good (bytes_scalar seckey) (bytes_scalar msg32) b"
    and good: "f msg32 seckey None noncedata (of_nat j) = Some b" "nonce_good (bytes_scalar seckey) (bytes_scalar msg32) b"
  shows "\<exists>sg. secp256k1_ecdsa_sign g ctx sig0 msg32 seckey (Some f) noncedata = Some (True, sg) \<and>
    sc_is (fst (ecdsa_rs (bytes_scalar seckey) (bytes_scalar msg32) (bytes_scalar b))) (sig_r sg) \<and>
    sc_is (snd (ecdsa_rs (bytes_scalar seckey) (bytes_scalar msg32) (bytes_scalar b))) (sig_s sg)"
proof (rule set_b32_cases [of seckey])
  fix d assume d: "secp256k1_scalar_set_b32 seckey = (d, bytes_overflow seckey)" "sc_is (bytes_scalar seckey) d"
  have "\<exists>sr ss recid. ecdsa_sign_loop (ecmult_gen_ctx ctx) (f msg32 seckey None noncedata) d (fst (secp256k1_scalar_set_b32 msg32)) 0 =
      Some (Some (sr, ss, recid)) \<and> sc_is (fst (ecdsa_rs (bytes_scalar seckey) (bytes_scalar msg32) (bytes_scalar b))) sr \<and>
      sc_is (snd (ecdsa_rs (bytes_scalar seckey) (bytes_scalar msg32) (bytes_scalar b))) ss"
    by (rule ecdsa_sign_loop_first [OF secp_ctx_built(3) [OF ctx] d(2) set_b32_bytes(1) _ _ good(2), of j]) (use f good(1) in simp_all)
  then show ?thesis
    using key d scalar_is_zero_iff [OF d(2)] secp_ctx_built(2) [OF ctx]
    by (auto simp: secp256k1_ecdsa_sign_def ecdsa_sign_with_def seckey_ok_def secp256k1_ecdsa_signature_save_def)
qed

end
