(* ===== verification/Schnorr_Law.thy ===== *)
theory Schnorr_Law
  imports Schnorr Pubkey_Law Hash_Stream
begin

text \<open>
  Schnorr signatures over the curve group: verification decides the equation, and signing gives a
  solution of it, with the point of the nonce negated where its y coordinate is not a square.
\<close>

section \<open>The equation\<close>

definition schnorr_e :: "u8 list \<Rightarrow> cpoint \<Rightarrow> u8 list \<Rightarrow> fn" where
  "schnorr_e rx P msg32 = (case pt P of Infinity \<Rightarrow> 0
     | Point x y \<Rightarrow> of_nat (be_nat (sha256_spec (rx @ pubkey_bytes True x y @ take 32 msg32))))"

text \<open>R, given by its x coordinate and by the squareness of y, is \<open>s G - e P\<close>.\<close>

definition schnorr_valid :: "cpoint \<Rightarrow> u8 list \<Rightarrow> u8 list \<Rightarrow> bool" where
  "schnorr_valid P msg32 sg \<longleftrightarrow> be_nat (take 32 sg) < field_p \<and> be_nat (drop 32 sg) < order_n \<and>
     (case pt (smul (of_nat (be_nat (drop 32 sg))) curve_G - smul (schnorr_e (take 32 sg) P msg32) P) of
        Infinity \<Rightarrow> False
      | Point x y \<Rightarrow> fp_is_square y \<and> fp_nat x = be_nat (take 32 sg))"

lemma sha256_scalar: "sc_is (of_nat (be_nat (sha256_spec m))) (fst (secp256k1_scalar_set_b32 (sha256_spec m)))"
  by (rule secp256k1_scalar_set_b32_is) (rule sha256_spec_length)

lemma schnorrsig_challenge_is:
  assumes pk: "pk_is P pk"
  shows "sc_is (schnorr_e (take 32 sg) P msg32) (schnorrsig_challenge sg pk msg32)"
proof -
  obtain x y where P: "pt P = Point x y" using pk_is_point [OF pk] by metis
  have "secp256k1_ec_pubkey_serialize (replicate 33 0) pk SECP256K1_EC_COMPRESSED = (True, 33, pubkey_bytes True x y)"
    using ec_pubkey_serialize_is [OF pk P, of True "replicate 33 0"] by (simp add: ec_flags_def)
  then show ?thesis
    using sha256_scalar by (simp add: schnorrsig_challenge_def schnorr_e_def P sha256_parts_is pubkey_bytes_length)
qed

lemma schnorrsig_verify_is:
  assumes ctx: "secp_ctx_ok ctx" and pk: "pk_is P pk" and len: "length sg = 64"
  shows "secp256k1_schnorrsig_verify ctx sg msg32 pk \<longleftrightarrow> schnorr_valid P msg32 sg"
proof -
  have l: "length (take 32 sg) = 32" "length (drop 32 sg) = 32" using len by simp_all
  obtain ok rx where rx: "secp256k1_fe_set_b32 (take 32 sg) = (ok, rx)" by fastforce
  obtain s ov where s: "secp256k1_scalar_set_b32 (drop 32 sg) = (s, ov)" by fastforce
  have ok: "ok \<longleftrightarrow> be_nat (take 32 sg) < field_p"
    using fe_set_b32_flag [of "take 32 sg"] fe_set_b32_limbs(3) [OF l(1)] rx by simp
  have ov: "ov \<longleftrightarrow> order_n \<le> be_nat (drop 32 sg)" and si: "sc_is (of_nat (be_nat (drop 32 sg))) s"
    using secp256k1_scalar_set_b32_value(2) [OF l(2)] secp256k1_scalar_set_b32_is [OF l(2)] by (simp_all add: s)
  let ?e = "schnorrsig_challenge sg pk msg32" and ?E = "schnorr_e (take 32 sg) P msg32"
  define rj where "rj = secp256k1_ecmult (ecmult_ctx ctx) (secp256k1_gej_set_ge (secp256k1_ge_from_storage pk)) (secp256k1_scalar_negate ?e) s"
  define R where "R = smul (of_nat (be_nat (drop 32 sg))) curve_G - smul ?E P"
  have P: "ge_is 1 P (secp256k1_ge_from_storage pk)" using pk by (simp add: pk_is_def)
  have "gej_is 1 (smul (- ?E) P + smul (of_nat (be_nat (drop 32 sg))) curve_G) rj"
    unfolding rj_def
    by (rule ecmult_is [OF secp_ctx_built(4) [OF ctx] gej_set_ge_refines [OF P] secp256k1_scalar_negate_is [OF schnorrsig_challenge_is [OF pk]] si])
  then have r: "gej_is 1 R rj" by (simp add: R_def curve.scale_minus_left)
  have v: "secp256k1_schnorrsig_verify ctx sg msg32 pk \<longleftrightarrow> ok \<and> \<not> ov \<and> secp256k1_gej_has_quad_y_var rj \<and> secp256k1_gej_eq_x_var rx rj"
    using secp_ctx_built(1) [OF ctx] pubkey_load_is [OF pk]
    by (simp add: secp256k1_schnorrsig_verify_def secp256k1_schnorrsig_real_verify_def rx s Let_def rj_def)
  have eq: "secp256k1_gej_has_quad_y_var rj \<and> secp256k1_gej_eq_x_var rx rj \<longleftrightarrow>
      (case pt R of Infinity \<Rightarrow> False | Point x y \<Rightarrow> fp_is_square y \<and> fp_nat x = be_nat (take 32 sg))" if ok
  proof (cases "pt R")
    case Infinity
    then show ?thesis using gej_has_quad_y_var_iff [OF r] by simp
  next
    case (Point x y)
    then have "R \<noteq> 0" using pt_eq_Infinity_iff [of R] by auto
    then have fin: "\<not> gej_infinity rj" using gej_is_infinity [OF r] by simp
    have X: "fe_is 8 (of_nat (be_nat (take 32 sg))) rx" using fe_set_b32_ok(1) [OF _ l(1)] rx that by simp
    have m: "fe_mag 8 rx" "fev rx = of_nat (be_nat (take 32 sg))" using X by (simp_all add: fe_is_fev)
    have "secp256k1_gej_eq_x_var rx rj \<longleftrightarrow> x = of_nat (be_nat (take 32 sg))"
      using gej_eq_x_var_iff [OF m(1) gej_is_ok [OF r] fin] gej_is_pt [OF r] Point m(2) by simp
    also have "\<dots> \<longleftrightarrow> fp_nat x = be_nat (take 32 sg)"
      using that ok fp_nat_inject [of x "of_nat (be_nat (take 32 sg))"] by (simp add: fp_nat_of_nat)
    finally show ?thesis using gej_has_quad_y_var_iff [OF r] Point by auto
  qed
  show ?thesis unfolding v schnorr_valid_def R_def [symmetric] using ok ov eq by auto
qed

text \<open>The first half determines the second: the point is given by x and the squareness of y.\<close>

lemma square_root_sign: "fp_is_square y \<Longrightarrow> fp_is_square (- y) \<Longrightarrow> y = 0" for y :: fp
  using fp_square_minus by blast

lemma schnorr_valid_response:
  assumes "schnorr_valid P msg32 sg" "schnorr_valid P msg32 sg'" and f: "take 32 sg' = take 32 sg" and l: "length sg = 64" "length sg' = 64"
  shows "drop 32 sg' = drop 32 sg"
proof -
  let ?s = "of_nat (be_nat (drop 32 sg)) :: fn" and ?s' = "of_nat (be_nat (drop 32 sg')) :: fn" and ?e = "schnorr_e (take 32 sg) P msg32"
  let ?R = "smul ?s curve_G - smul ?e P" and ?R' = "smul ?s' curve_G - smul ?e P"
  obtain x y where R: "pt ?R = Point x y" "fp_is_square y" "fp_nat x = be_nat (take 32 sg)"
    using assms(1) by (auto simp: schnorr_valid_def split: point.splits)
  obtain x' y' where R': "pt ?R' = Point x' y'" "fp_is_square y'" "fp_nat x' = be_nat (take 32 sg)"
    using assms(2) by (auto simp: schnorr_valid_def f split: point.splits)
  have x: "x' = x" using R(3) R'(3) fp_nat_inject [of x' x] by simp
  have c: "on_curve (Point x y)" "on_curve (Point x y')" using on_curve_pt [of ?R] on_curve_pt [of ?R'] R(1) R'(1) x by simp_all
  have "y' = y"
  proof -
    have "y' = y \<or> y' = - y" by (rule on_curve_same_x [OF c(2) c(1)])
    moreover have "y \<noteq> 0" by (rule on_curve_y_neq_0 [OF c(1)])
    ultimately show ?thesis using R(2) R'(2) square_root_sign [of y] by blast
  qed
  then have "?R' = ?R" using R(1) R'(1) x by (simp add: pt_inject [symmetric])
  then have "?s' = ?s" using curve.scale_cancel_right [of ?s' curve_G ?s] curve_G_neq_0 by simp
  then have "be_nat (drop 32 sg') mod order_n = be_nat (drop 32 sg) mod order_n" by (metis fn_nat_of_nat)
  then have "be_nat (drop 32 sg') = be_nat (drop 32 sg)" using assms(1,2) by (simp add: schnorr_valid_def)
  then show ?thesis using be_nat_inject [of "drop 32 sg'" "drop 32 sg"] l by simp
qed

section \<open>Signing\<close>

lemma schnorrsig_sign_is:
  assumes ctx: "secp_ctx_ok ctx" and key: "seckey_ok seckey"
    and f: "(case noncefp of None \<Rightarrow> secp256k1_nonce_function_bipschnorr | Some f \<Rightarrow> f) msg32 seckey None ndata 0 = Some buf" and k: "bytes_scalar buf \<noteq> 0"
  shows "\<exists>sg neg'. secp256k1_schnorrsig_sign ctx sg0 neg msg32 seckey noncefp ndata = (True, sg, neg') \<and> length sg = 64 \<and>
    schnorr_valid (smul (bytes_scalar seckey) curve_G) msg32 sg"
proof -
  let ?d = "bytes_scalar seckey" and ?k = "bytes_scalar buf"
  obtain d where d: "secp256k1_scalar_set_b32 seckey = (d, bytes_overflow seckey)" "sc_is ?d d" by (rule set_b32_cases)
  obtain kk where kk: "secp256k1_scalar_set_b32 buf = (kk, bytes_overflow buf)" "sc_is ?k kk" by (rule set_b32_cases)
  have d0: "?d \<noteq> 0" "\<not> bytes_overflow seckey" using key by (simp_all add: seckey_ok_def)
  obtain pkj where pkj: "secp256k1_ecmult_gen (ecmult_gen_ctx ctx) d = Some pkj" "gej_is 1 (smul ?d curve_G) pkj"
    using ecmult_gen_is [OF secp_ctx_built(3) [OF ctx] d(2)] by blast
  obtain rj where rj: "secp256k1_ecmult_gen (ecmult_gen_ctx ctx) kk = Some rj" "gej_is 1 (smul ?k curve_G) rj"
    using ecmult_gen_is [OF secp_ctx_built(3) [OF ctx] kk(2)] by blast
  define pk where "pk = fst (secp256k1_ge_set_gej pkj)"
  define r where "r = fst (secp256k1_ge_set_gej rj)"
  have pk: "ge_is 1 (smul ?d curve_G) pk" unfolding pk_def by (rule ge_set_gej_is(1) [OF pkj(2)]) simp
  have r: "ge_is 1 (smul ?k curve_G) r" unfolding r_def by (rule ge_set_gej_is(1) [OF rj(2)]) simp
  obtain X Y where xy: "fe_is 8 X (ge_x r)" "fe_is 8 Y (ge_y r)" "pt (smul ?k curve_G) = Point (X / 1 ^ 2) (Y / 1 ^ 3)"
    using ge_isE [OF r smul_G_neq_0 [OF k]] by metis
  have R: "pt (smul ?k curve_G) = Point X Y" using xy(3) by simp
  obtain px py where P: "pt (smul ?d curve_G) = Point px py"
    using smul_G_neq_0 [OF d0(1)] pt_eq_Infinity_iff [of "smul ?d curve_G"] by (cases "pt (smul ?d curve_G)") auto
  have q: "secp256k1_fe_is_quad_var (ge_y r) \<longleftrightarrow> fp_is_square Y" by (rule secp256k1_fe_is_quad_var_is [OF xy(2)])
  define k' where "k' = (if fp_is_square Y then kk else secp256k1_scalar_negate kk)"
  let ?k' = "if fp_is_square Y then ?k else - ?k"
  have k': "sc_is ?k' k'" using kk(2) secp256k1_scalar_negate_is [OF kk(2)] by (simp add: k'_def)
  define e where "e = fst (secp256k1_scalar_set_b32 (sha256_spec (fp_bytes X @ pubkey_bytes True px py @ take 32 msg32)))"
  define E where "E = schnorr_e (fp_bytes X) (smul ?d curve_G) msg32"
  have e: "sc_is E e" using sha256_scalar by (simp add: e_def E_def schnorr_e_def P)
  define s where "s = snd (secp256k1_scalar_add (secp256k1_scalar_mul e d) k')"
  have s: "sc_is (E * ?d + ?k') s" unfolding s_def by (rule sc_rules e d k')+
  define sg where "sg = fp_bytes X @ secp256k1_scalar_get_b32 s"
  have sign: "\<exists>neg'. secp256k1_schnorrsig_sign ctx sg0 neg msg32 seckey noncefp ndata = (True, sg, neg')"
    using secp_ctx_built(2) [OF ctx] d0 d k kk pkj(1) rj(1) f scalar_is_zero_iff [OF d(2)] scalar_is_zero_iff [OF kk(2)]
      eckey_serialize_is [OF pk P, of True] fp_bytes_is [OF xy(1)] q
    by (simp add: secp256k1_schnorrsig_sign_def Let_def pk_def [symmetric] r_def [symmetric] sha256_parts_is sg_def s_def e_def k'_def)
  have sv: "take 32 sg = fp_bytes X" "drop 32 sg = secp256k1_scalar_get_b32 s" "length sg = 64" by (simp_all add: sg_def)
  have sn: "be_nat (secp256k1_scalar_get_b32 s) < order_n" "(of_nat (be_nat (secp256k1_scalar_get_b32 s)) :: fn) = E * ?d + ?k'"
    using sc_is_value [OF s] fn_nat_lt [of "E * ?d + ?k'"] by (simp_all add: secp256k1_scalar_get_b32_value)
  have "smul (E * ?d + ?k') curve_G - smul E (smul ?d curve_G) = smul ?k' curve_G"
    by (simp only: curve.scale_scale curve.scale_left_distrib add_diff_cancel_left')
  moreover have "pt (smul ?k' curve_G) = Point X (if fp_is_square Y then Y else - Y)"
    using R pt_smul_minus_x [OF R] by (simp add: curve.scale_minus_left)
  moreover have "fp_is_square (if fp_is_square Y then Y else - Y)" using fp_square_or_minus [of Y] by auto
  ultimately have "schnorr_valid (smul ?d curve_G) msg32 sg"
    using sn(1) fp_nat_lt [of X] unfolding schnorr_valid_def sv E_def [symmetric] sn(2) fp_bytes_value by simp
  then show ?thesis using sign sv(3) by blast
qed

end
