(* ===== verification/Der_Law.thy ===== *)
theory Der_Law
  imports Ecdsa Scalar_Impl
begin

text \<open>
  The DER form of a signature. An integer is minimal when it has no superfluous leading zero and is
  not negative; serializing writes the minimal integers of r and s, parsing accepts nothing else for
  a nonzero component, so a signature without zero components has exactly one encoding.
\<close>

unbundle bit_operations_syntax

section \<open>Lengths\<close>

lemma u8_less: "unat (b :: u8) < 256"
  using unsigned_less [of b, where 'a = nat] by simp

lemma high_bit_u8: "b AND 0x80 = (if unat b < 128 then 0 else 0x80)" for b :: u8
proof -
  have h: "bit (0x80 :: u8) i \<longleftrightarrow> i = 7" for i
    using bit_exp_iff [where 'a = "8 word", of 7 i] by (auto simp: possible_bit_word)
  have "bit b 7 \<longleftrightarrow> odd (unat b div 128)"
    using bit_unsigned_iff [where 'a = nat, of b 7] by (simp add: bit_iff_odd)
  also have "\<dots> \<longleftrightarrow> \<not> unat b < 128"
  proof (cases "unat b < 128")
    case False
    then have "unat b div 128 = 1" using u8_less [of b] by (intro div_nat_eqI) simp_all
    then show ?thesis using False by simp
  qed simp
  finally have b: "bit b 7 \<longleftrightarrow> \<not> unat b < 128" .
  show ?thesis
  proof (rule bit_eqI)
    fix i show "bit (b AND 0x80) i \<longleftrightarrow> bit (if unat b < 128 then 0 else 0x80 :: u8) i"
      using b h [of i] by (auto simp: bit_and_iff)
  qed
qed

lemma read_len_short: "0 < l \<Longrightarrow> l < 128 \<Longrightarrow> secp256k1_der_read_len (of_nat l # sig) = Some (int l, sig)"
proof -
  assume l: "0 < l" "l < 128"
  have u: "unat (of_nat l :: u8) = l" using l unfolding unat_of_nat by simp
  have "(of_nat l :: u8) \<noteq> 0xFF"
  proof
    assume "(of_nat l :: u8) = 0xFF"
    then have "unat (of_nat l :: u8) = unat (0xFF :: u8)" by simp
    then show False using u l by simp
  qed
  then show ?thesis using l u by (simp add: secp256k1_der_read_len_def high_bit_u8 uint_nat)
qed

lemma read_len_loop_bound:
  "unat ret < 2 ^ 31 \<Longrightarrow> length sig < 2 ^ 31 \<Longrightarrow> l \<le> 8 \<Longrightarrow> der_read_len_loop l ret sig = Some (ret', rest) \<Longrightarrow> unat ret' < 2 ^ 31"
proof (induction l arbitrary: ret sig)
  case (Suc l)
  define r where "r = push_bit 8 ret OR ucast (sig ! 0)"
  have "bnd ret (unat ret) (2 ^ 31)" using Suc.prems(1) by (simp add: bnd_def)
  moreover have "bnd (ucast (sig ! 0) :: u64) (unat (sig ! 0)) 255"
    by (rule bnd_ucast [OF bnd_byte]) simp
  ultimately have "bnd r (unat ret * 2 ^ 8 + unat (sig ! 0)) (2 ^ 31 * 2 ^ 8 + 255)"
    unfolding r_def by (rule bnd_push_or) simp_all
  then have "unat r < 2 ^ 40" by (simp add: bnd_def)
  moreover have u: "unat (of_nat (Suc l) :: u64) = Suc l" "unat (of_nat (length sig) :: u64) = length sig"
    using Suc.prems(2,3) by (simp_all only: unat_of_nat) simp_all
  ultimately have "unat (r + of_nat (Suc l)) = unat r + Suc l"
    using Suc.prems(3) unfolding unat_word_ariths(1) by simp
  moreover have "\<not> r + of_nat (Suc l) > of_nat (length sig)" and nxt: "der_read_len_loop l r (tl sig) = Some (ret', rest)"
    using Suc.prems(4) by (simp_all add: Let_def r_def split: if_splits)
  ultimately have "unat r < 2 ^ 31" using u(2) Suc.prems(2) by (simp add: word_less_nat_alt)
  then show ?case using Suc.IH [OF _ _ _ nxt] Suc.prems(2,3) by simp
qed simp

lemma read_len_Cons:
  "secp256k1_der_read_len (b # bs) = (if b = 0xFF then None else if b AND 0x80 = 0 then Some (uint b, bs) else if b = 0x80 then None
    else if unat (b AND 0x7F) > length bs then None
    else if bs ! 0 = 0 then None
    else if unat (b AND 0x7F) > 8 then None
    else case der_read_len_loop (unat (b AND 0x7F)) 0 bs of
        None \<Rightarrow> None
      | Some (ret, sig) \<Rightarrow> if ret < 128 then None else Some (sint (ucast ret :: 32 word), sig))"
  by (simp only: secp256k1_der_read_len_def Let_def list.distinct if_False nth_Cons_0 list.sel)

text \<open>A length below 128 is read from one byte.\<close>

lemma read_len_small:
  assumes r: "secp256k1_der_read_len sig = Some (l, rest)" and len: "length sig < 2 ^ 31" and l: "l < 128"
  shows "0 \<le> l" and "sig = of_int l # rest"
proof -
  obtain b bs where sig: "sig = b # bs" using r by (cases sig) (simp_all add: secp256k1_der_read_len_def)
  have "b AND 0x80 = 0"
  proof (rule ccontr)
    assume n: "b AND 0x80 \<noteq> 0"
    have b: "b \<noteq> 0xFF" "b \<noteq> 0x80"
      using r n by (auto simp: sig read_len_Cons)
    have r': "(if unat (b AND 0x7F) > length bs then None
      else if bs ! 0 = 0 then None
      else if unat (b AND 0x7F) > 8 then None
      else case der_read_len_loop (unat (b AND 0x7F)) 0 bs of
          None \<Rightarrow> None
        | Some (ret, sig) \<Rightarrow> if ret < 128 then None else Some (sint (ucast ret :: 32 word), sig)) = Some (l, rest)"
      using r n b unfolding sig read_len_Cons by (simp only: if_False simp_thms)
    have k: "unat (b AND 0x7F) \<le> 8" using r' by (simp split: if_splits)
    obtain ret where loop: "der_read_len_loop (unat (b AND 0x7F)) 0 bs = Some (ret, rest)"
      and ge: "\<not> ret < 128" and ll: "l = sint (ucast ret :: 32 word)"
      using r' by (cases "der_read_len_loop (unat (b AND 0x7F)) 0 bs") (auto split: if_splits)
    have "unat ret < 2 ^ 31" by (rule read_len_loop_bound [OF _ _ k loop]) (use len sig in simp_all)
    then have "bnd ret (unat ret) (2 ^ 31 - 1)" by (simp add: bnd_def)
    then have c: "bnd (ucast ret :: 32 word) (unat ret) (2 ^ 31 - 1)" by (rule bnd_ucast) simp
    have "sint (ucast ret :: 32 word) = uint (ucast ret :: 32 word)" by (rule bnd_no_sign(2) [OF c]) simp
    then have "l = int (unat ret)" by (simp only: ll uint_nat bnd_unat [OF c])
    moreover have "128 \<le> unat ret" using ge by (simp add: word_less_nat_alt)
    ultimately show False using l by linarith
  qed
  moreover have "b \<noteq> 0xFF" using r by (auto simp: sig read_len_Cons)
  ultimately have "Some (uint b, bs) = Some (l, rest)"
    using r unfolding sig read_len_Cons by (simp only: if_True if_False simp_thms)
  then have e: "l = uint b" "rest = bs" by simp_all
  show "0 \<le> l" by (simp add: e)
  show "sig = of_int l # rest" by (simp add: e sig)
qed
lemma read_len_loop_length: "der_read_len_loop l ret sig = Some (ret', rest) \<Longrightarrow> length rest \<le> length sig"
  by (induction l arbitrary: ret sig) (force simp: Let_def split: if_splits)+

lemma read_len_length: "secp256k1_der_read_len sig = Some (l, rest) \<Longrightarrow> length rest \<le> length sig"
proof (cases sig)
  case (Cons b bs)
  assume r: "secp256k1_der_read_len sig = Some (l, rest)"
  have "length rest \<le> length bs"
    using r read_len_loop_length unfolding Cons read_len_Cons by (auto split: if_splits option.splits prod.splits)
  then show ?thesis by (simp add: Cons)
qed (simp add: secp256k1_der_read_len_def)

section \<open>Integers\<close>

definition der_padded :: "u8 list \<Rightarrow> bool" where
  "der_padded p \<longleftrightarrow> length p > 1 \<and> (p ! 0 = 0 \<and> p ! 1 AND 0x80 = 0 \<or> p ! 0 = 0xFF \<and> p ! 1 AND 0x80 = 0x80)"

definition der_num :: "u8 list \<Rightarrow> secp256k1_scalar" where
  "der_num p = (let q = dropWhile ((=) 0) p in
     if p ! 0 AND 0x80 = 0x80 \<or> length q > 32 then secp256k1_scalar_set_int 0
     else if snd (secp256k1_scalar_set_b32 (replicate (32 - length q) 0 @ q)) then secp256k1_scalar_set_int 0
     else fst (secp256k1_scalar_set_b32 (replicate (32 - length q) 0 @ q)))"

lemma skip_zeros_is:
  "der_skip_zeros (length p) (p @ rest) = (length (dropWhile ((=) 0) p), dropWhile ((=) 0) p @ rest)"
  by (induction p) auto

lemma parse_integer_is:
  assumes sig: "sig \<noteq> []" "sig ! 0 = 2" and r: "secp256k1_der_read_len (tl sig) = Some (int (length p), p @ rest)" and p: "p \<noteq> []"
  shows "secp256k1_der_parse_integer sig = (if der_padded p then None else Some (der_num p, rest))"
proof -
  have n: "(p @ rest) ! 0 = p ! 0" "1 < length p \<Longrightarrow> (p @ rest) ! 1 = p ! 1" using p by (simp_all add: nth_append)
  have "int (length p) > 1 \<longleftrightarrow> 1 < length p" by simp
  then show ?thesis
    using sig r p n unfolding secp256k1_der_parse_integer_def der_padded_def der_num_def
    by (simp add: skip_zeros_is Let_def split: prod.splits)
qed

lemma parse_integer_cases:
  assumes "secp256k1_der_parse_integer sig = Some (a, rest)"
  obtains p where "sig \<noteq> []" "sig ! 0 = 2" "secp256k1_der_read_len (tl sig) = Some (int (length p), p @ rest)" "p \<noteq> []"
    "\<not> der_padded p" "a = der_num p"
proof -
  have sig: "sig \<noteq> []" "sig ! 0 = 2" using assms by (auto simp: secp256k1_der_parse_integer_def split: if_splits)
  obtain l s where r: "secp256k1_der_read_len (tl sig) = Some (l, s)" and l: "0 < l" "l \<le> int (length s)"
    using assms sig by (auto simp: secp256k1_der_parse_integer_def split: if_splits option.splits)
  define p where "p = take (nat l) s"
  have p: "length p = nat l" "p \<noteq> []" and s: "s = p @ drop (nat l) s" using l by (auto simp: p_def min_def)
  have r': "secp256k1_der_read_len (tl sig) = Some (int (length p), p @ drop (nat l) s)"
    using r l p(1) s by simp
  show thesis
    using that [OF sig _ p(2)] r' assms parse_integer_is [OF sig r' p(2)] by (simp split: if_splits)
qed

text \<open>The value of the integer, and zero where it is not a scalar.\<close>

lemma be_nat_dropWhile: "be_nat (dropWhile ((=) 0) p) = be_nat p"
  by (induction p) auto

lemma be_nat_replicate: "be_nat (replicate k 0 @ p) = be_nat p"
  by (induction k) simp_all

lemma be_nat_ge: "q \<noteq> [] \<Longrightarrow> hd q \<noteq> 0 \<Longrightarrow> 256 ^ (length q - 1) \<le> be_nat q"
proof (cases q)
  case (Cons b bs)
  assume "hd q \<noteq> 0"
  then have "1 \<le> unat b" by (simp add: Cons unat_gt_0 Suc_le_eq)
  then have "1 * 256 ^ length bs \<le> unat b * 256 ^ length bs" by (rule mult_le_mono1)
  then have "256 ^ length bs \<le> unat b * 256 ^ length bs + be_nat bs" by linarith
  then show ?thesis unfolding Cons by simp
qed simp

lemma der_num_value:
  assumes p: "p \<noteq> []"
  shows "sc_val (der_num p) = (if unat (p ! 0) < 128 \<and> be_nat p < order_n then be_nat p else 0)"
proof -
  let ?q = "dropWhile ((=) 0) p"
  have h: "p ! 0 AND 0x80 = 0x80 \<longleftrightarrow> \<not> unat (p ! 0) < 128" by (simp add: high_bit_u8)
  have z: "sc_val (secp256k1_scalar_set_int 0) = 0" using secp256k1_scalar_set_int_is [of 0] by (simp add: sc_is_value)
  show ?thesis
  proof (cases "length ?q > 32")
    case True
    then have "?q \<noteq> []" by (metis list.size(3) not_less_zero)
    then have "256 ^ (length ?q - 1) \<le> be_nat p" using be_nat_ge [of ?q] hd_dropWhile [of "(=) 0" p] be_nat_dropWhile [of p] by simp
    moreover have "(256::nat) ^ 32 \<le> 256 ^ (length ?q - 1)" using True by (intro power_increasing) simp_all
    ultimately have "\<not> be_nat p < order_n" by (simp add: order_n_def)
    then show ?thesis using True z by (simp add: der_num_def)
  next
    case False
    then have len: "length (replicate (32 - length ?q) 0 @ ?q) = 32" by simp
    note v = secp256k1_scalar_set_b32_value [OF len]
    show ?thesis
      using False v z h by (simp add: der_num_def Let_def be_nat_replicate be_nat_dropWhile)
  qed
qed

section \<open>Minimal integers\<close>

definition der_minimal :: "u8 list \<Rightarrow> bool" where
  "der_minimal p \<longleftrightarrow> p \<noteq> [] \<and> unat (p ! 0) < 128 \<and> (length p > 1 \<longrightarrow> p ! 0 = 0 \<longrightarrow> \<not> unat (p ! 1) < 128)"

lemma u8_less_128: "b < 0x80 \<longleftrightarrow> unat b < 128" for b :: u8
  by (simp add: word_less_nat_alt)

lemma strip_zeros_minimal:
  "p \<noteq> [] \<Longrightarrow> unat (p ! 0) < 128 \<Longrightarrow> der_minimal (der_strip_zeros p)"
  by (induction p rule: der_strip_zeros.induct) (auto simp: der_minimal_def u8_less_128)

lemma strip_zeros_value: "be_nat (der_strip_zeros p) = be_nat p"
  by (induction p rule: der_strip_zeros.induct) auto

lemma strip_zeros_length: "length (der_strip_zeros p) \<le> length p"
  by (induction p rule: der_strip_zeros.induct) auto

lemma strip_minimal: "der_minimal p \<Longrightarrow> der_strip_zeros p = p"
  by (cases p rule: der_strip_zeros.cases) (auto simp: der_minimal_def u8_less_128)

lemma strip_zeros_replicate: "der_minimal p \<Longrightarrow> der_strip_zeros (replicate k 0 @ p) = p"
proof (induction k)
  case (Suc k)
  then show ?case
    by (cases k; cases p) (auto simp: der_minimal_def u8_less_128)
qed (simp add: strip_minimal)

lemma not_padded_minimal: "p \<noteq> [] \<Longrightarrow> unat (p ! 0) < 128 \<Longrightarrow> \<not> der_padded p \<longleftrightarrow> der_minimal p"
  by (auto simp: der_padded_def der_minimal_def high_bit_u8)

lemma minimal_length:
  assumes p: "der_minimal p" and v: "be_nat p < order_n"
  shows "length p \<le> 33"
proof (rule ccontr)
  assume n: "\<not> length p \<le> 33"
  then obtain a b bs where e: "p = a # b # bs" by (cases p; cases "tl p") auto
  have l: "32 \<le> length bs" using n e by simp
  then have "(256::nat) ^ 32 \<le> 256 ^ length bs" by (intro power_increasing) simp_all
  moreover have "1 * 256 ^ length bs \<le> be_nat p"
  proof (cases "a = 0")
    case True
    then have "1 \<le> unat b" using p by (simp add: e der_minimal_def)
    then have "1 * 256 ^ length bs \<le> unat b * 256 ^ length bs" by (rule mult_le_mono1)
    then show ?thesis unfolding e be_nat.simps by linarith
  next
    case False
    then have "256 ^ (length p - 1) \<le> be_nat p" by (intro be_nat_ge) (simp_all add: e)
    moreover have "(256::nat) ^ length bs \<le> 256 ^ (length p - 1)" by (intro power_increasing) (simp_all add: e)
    ultimately show ?thesis by linarith
  qed
  ultimately have "256 ^ 32 \<le> be_nat p" by linarith
  then show False using v by (simp add: order_n_def)
qed

definition der_int :: "secp256k1_scalar \<Rightarrow> u8 list" where
  "der_int a = der_strip_zeros (0 # secp256k1_scalar_get_b32 a)"

lemma der_int_props:
  "der_minimal (der_int a)" "be_nat (der_int a) = sc_val a" "length (der_int a) \<le> 33" "der_int a \<noteq> []"
proof -
  show m: "der_minimal (der_int a)" unfolding der_int_def by (rule strip_zeros_minimal) simp_all
  show "be_nat (der_int a) = sc_val a" by (simp add: der_int_def strip_zeros_value secp256k1_scalar_get_b32_value)
  show "length (der_int a) \<le> 33" using strip_zeros_length [of "0 # secp256k1_scalar_get_b32 a"] by (simp add: der_int_def)
  show "der_int a \<noteq> []" using m by (simp add: der_minimal_def)
qed

lemma der_int_unique:
  assumes p: "der_minimal p" and l: "length p \<le> 33" and v: "be_nat p = sc_val a"
  shows "p = der_int a"
proof -
  have "be_nat (replicate (33 - length p) 0 @ p) = be_nat (0 # secp256k1_scalar_get_b32 a)"
    unfolding be_nat_replicate by (simp add: v secp256k1_scalar_get_b32_value)
  then have "replicate (33 - length p) 0 @ p = 0 # secp256k1_scalar_get_b32 a"
    using be_nat_inject [of "replicate (33 - length p) 0 @ p" "0 # secp256k1_scalar_get_b32 a"] l by simp
  then show ?thesis using strip_zeros_replicate [OF p, of "33 - length p"] by (simp add: der_int_def)
qed

lemma der_num_int: "sc_val a < order_n \<Longrightarrow> der_num (der_int a) = a"
  using der_num_value [of "der_int a"] der_int_props [of a] by (simp add: der_minimal_def flip: sc_val_inject)

text \<open>Reading back what was written, and writing again what was read.\<close>

lemma parse_integer_der_int:
  assumes a: "sc_val a < order_n"
  shows "secp256k1_der_parse_integer (2 # of_nat (length (der_int a)) # der_int a @ rest) = Some (a, rest)"
proof -
  have "secp256k1_der_read_len (of_nat (length (der_int a)) # der_int a @ rest) = Some (int (length (der_int a)), der_int a @ rest)"
    by (rule read_len_short) (use der_int_props [of a] in \<open>simp_all add: order_le_less_trans [of _ 33]\<close>)
  moreover have "\<not> der_padded (der_int a)" using not_padded_minimal der_int_props [of a] by (simp add: der_minimal_def)
  ultimately show ?thesis
    using parse_integer_is [of "2 # of_nat (length (der_int a)) # der_int a @ rest" "der_int a" rest] der_int_props(4) [of a]
    by (simp add: der_num_int [OF a])
qed

lemma parse_integer_canonical:
  assumes r: "secp256k1_der_parse_integer sig = Some (a, rest)" and nz: "sc_val a \<noteq> 0" and len: "length sig < 2 ^ 31"
  shows "sig = 2 # of_nat (length (der_int a)) # der_int a @ rest" and "sc_val a < order_n"
proof -
  obtain p where sig: "sig \<noteq> []" "sig ! 0 = 2" and l: "secp256k1_der_read_len (tl sig) = Some (int (length p), p @ rest)"
    and p: "p \<noteq> []" "\<not> der_padded p" and a: "a = der_num p"
    by (rule parse_integer_cases [OF r])
  have v: "unat (p ! 0) < 128" "be_nat p < order_n" and av: "sc_val a = be_nat p"
    using nz der_num_value [OF p(1)] by (simp_all add: a split: if_splits)
  have m: "der_minimal p" using not_padded_minimal [OF p(1) v(1)] p(2) by simp
  have e: "p = der_int a" by (rule der_int_unique [OF m minimal_length [OF m v(2)]]) (simp add: av)
  have "tl sig = of_int (int (length p)) # p @ rest"
    by (rule read_len_small(2) [OF l]) (use len minimal_length [OF m v(2)] in simp_all)
  then show "sig = 2 # of_nat (length (der_int a)) # der_int a @ rest" using sig e by (cases sig) simp_all
  show "sc_val a < order_n" using v(2) av by simp
qed

section \<open>Signatures\<close>

definition der_sig :: "secp256k1_scalar \<Rightarrow> secp256k1_scalar \<Rightarrow> u8 list" where
  "der_sig r s = (let rp = der_int r; sp = der_int s in
     0x30 # of_nat (4 + length sp + length rp) # 2 # of_nat (length rp) # rp @ 2 # of_nat (length sp) # sp)"

lemma der_sig_length: "length (der_sig r s) = 6 + length (der_int s) + length (der_int r)" "length (der_sig r s) \<le> 72"
  using der_int_props(3) [of r] der_int_props(3) [of s] by (simp_all add: der_sig_def Let_def)

lemma sig_serialize_is:
  "secp256k1_ecdsa_sig_serialize outlen r s =
     (length (der_sig r s), if length (der_sig r s) \<le> outlen then Some (der_sig r s) else None)"
  unfolding der_sig_length(1)
  by (simp add: secp256k1_ecdsa_sig_serialize_def der_int_def [symmetric] der_sig_def Let_def not_le)

lemma sig_parse_der_sig:
  assumes "sc_val r < order_n" "sc_val s < order_n"
  shows "secp256k1_ecdsa_sig_parse (der_sig r s) = Some (r, s)"
proof -
  let ?t = "2 # of_nat (length (der_int r)) # der_int r @ 2 # of_nat (length (der_int s)) # der_int s"
  have "secp256k1_der_read_len (of_nat (4 + length (der_int s) + length (der_int r)) # ?t) = Some (int (4 + length (der_int s) + length (der_int r)), ?t)"
    by (rule read_len_short) (use der_int_props(3) [of r] der_int_props(3) [of s] in simp_all)
  moreover have "length ?t = 4 + length (der_int s) + length (der_int r)" by simp
  ultimately show ?thesis
    using parse_integer_der_int [OF assms(1)] parse_integer_der_int [OF assms(2), of "[]"]
    by (simp add: secp256k1_ecdsa_sig_parse_def der_sig_def Let_def)
qed

lemma sig_parse_canonical:
  assumes r: "secp256k1_ecdsa_sig_parse sig = Some (a, b)" and nz: "sc_val a \<noteq> 0" "sc_val b \<noteq> 0" and len: "length sig < 2 ^ 31"
  shows "sig = der_sig a b"
proof -
  obtain t where sig: "sig = 0x30 # t" using r by (cases sig) (auto simp: secp256k1_ecdsa_sig_parse_def split: if_splits)
  obtain l u where l: "secp256k1_der_read_len t = Some (l, u)" "l = int (length u)"
    using r by (auto simp: sig secp256k1_ecdsa_sig_parse_def split: option.splits if_splits)
  obtain v where a: "secp256k1_der_parse_integer u = Some (a, v)" and b: "secp256k1_der_parse_integer v = Some (b, [])"
    using r l by (auto simp: sig secp256k1_ecdsa_sig_parse_def split: option.splits if_splits)
  have u: "length u < 2 ^ 31" using read_len_length [OF l(1)] len sig by simp
  note A = parse_integer_canonical(1) [OF a nz(1) u]
  have "length v < 2 ^ 31" using u A by (metis (no_types, lifting) length_append length_Cons add_leD2 le_SucI order_le_less_trans order_refl)
  note B = parse_integer_canonical(1) [OF b nz(2) this]
  have e: "u = 2 # of_nat (length (der_int a)) # der_int a @ 2 # of_nat (length (der_int b)) # der_int b" using A B by simp
  have "length u < 128" using der_int_props(3) [of a] der_int_props(3) [of b] by (simp add: e)
  then have "t = of_int l # u" using read_len_small(2) [OF l(1)] len l(2) sig by simp
  moreover have "l = int (4 + length (der_int b) + length (der_int a))" by (simp add: l(2) e)
  ultimately have "t = of_nat (4 + length (der_int b) + length (der_int a)) # u" by (simp only: of_int_of_nat_eq)
  then show ?thesis by (simp add: sig e der_sig_def Let_def)
qed

end
