(* ===== verification/Ecmult_Spec.thy ===== *)
theory Ecmult_Spec
  imports Group_Spec Ecmult_Gen_Law
begin

text \<open>
  What the multiplications promise: the signed digits represent the scalar and stay inside the
  table, the fixed-time multiplication is the scalar multiple in the curve group, commitments are
  the expected linear combination, and the base point multiplication is correct whatever the
  blinding, which reblinding keeps.
\<close>

section \<open>Shared facts\<close>

lemma sc_is_of_val: "sc_val s < order_n \<Longrightarrow> sc_is (of_nat (sc_val s)) s"
  by (simp add: sc_is_def fn_nat_of_nat)

lemma ge_valid_finite: "ge_valid a \<Longrightarrow> \<not> ge_infinity a \<Longrightarrow> ge_is 1 (cp (ge_pt a)) a \<and> cp (ge_pt a) \<noteq> 0"
  using ge_valid_ge_is cp_pt_0 by blast

lemma set_int_val: "sc_val (secp256k1_scalar_set_int 5) = 5"
  by (simp add: secp256k1_scalar_set_int_def sc_val_def)

lemma cp_const_g: "cp (ge_pt secp256k1_ge_const_g) = curve_G"
  using ge_is_unique [OF ge_valid_ge_is [OF const_g_valid(1)] ge_const_g_is] .

section \<open>Properties\<close>

text \<open>C35: the signed digits of a scalar below the order: there is one digit more than windows, every
  digit is odd and smaller than two to the window size, so that each one selects an entry of the
  table of odd multiples, the skew is one or two, and the digits add up to the scalar plus the
  skew modulo the group order.\<close>

theorem wnaf_const_digits:
  assumes "0 < w" "w < 16" "sc_val s < order_n" "sc_val s < 2 ^ bits" "0 < bits"
  shows "case secp256k1_wnaf_const s w bits of (skew, ws) \<Rightarrow>
    length ws = (bits + w - 1) div w + 1 \<and> skew \<in> {1, 2} \<and> list_all (\<lambda>d. odd d \<and> \<bar>d\<bar> < 2 ^ w) ws \<and>
    (digits_val (2 ^ w) ws - skew) mod int order_n = int (sc_val s)"
proof -
  obtain skew ws where r: "secp256k1_wnaf_const s w bits = (skew, ws)" by fastforce
  show ?thesis
    using secp256k1_wnaf_const_is [OF assms(1-4) assms(5) r] by (auto simp: r list_all_iff WNAF_SIZE_BITS_def)
qed

theorem wnaf_const_digits_witness:
  "case secp256k1_wnaf_const (secp256k1_scalar_set_int 5) 4 64 of (skew, ws) \<Rightarrow>
     length ws = 17 \<and> (digits_val 16 ws - skew) mod int order_n = 5"
proof -
  have "sc_val (secp256k1_scalar_set_int 5) < order_n" by (simp add: set_int_val order_n_def)
  from wnaf_const_digits [OF _ _ this, of 4 64] show ?thesis
    by (simp add: set_int_val split_def)
qed

text \<open>C4: the fixed-time multiplication of a finite point by a scalar of at most the stated number of
  bits, with its table of odd multiples, its signed digits and its additions by conditional moves,
  computes that multiple of the point. The result is a valid point.\<close>

theorem ecmult_const_correct:
  assumes a: "ge_valid a" "\<not> ge_infinity a"
    and s: "sc_val s < order_n" "sc_val s < 2 ^ bits" and bits: "0 < bits"
  shows "gej_valid (secp256k1_ecmult_const a s bits) \<and>
    gej_pt (secp256k1_ecmult_const a s bits) = pt (nmul (sc_val s) (cp (ge_pt a)))"
  using ge_valid_finite [OF a] gej_is_pt [OF ecmult_const_is [OF _ _ s bits]] by blast

theorem ecmult_const_correct_witness:
  "gej_pt (secp256k1_ecmult_const secp256k1_ge_const_g (secp256k1_scalar_set_int 5) 64) = pt (nmul 5 curve_G)"
  using ecmult_const_correct [OF const_g_valid(1,2), of "secp256k1_scalar_set_int 5" 64]
  by (simp add: set_int_val order_n_def cp_const_g)

text \<open>C36: a Pedersen commitment with a 64-bit value and one with a scalar value are the sum of the
  value times the value generator and the blinding scalar times the blinding generator; when the
  values agree, the two commitments are the same point, and the commitment to a sum of scalars is
  the sum of the commitments.\<close>

theorem pedersen_homomorphic:
  assumes V: "ge_valid value_gen" "\<not> ge_infinity value_gen" and B: "ge_valid blind_gen" "\<not> ge_infinity blind_gen"
    and s: "sc_val x < order_n" "sc_val x' < order_n" "sc_val y < order_n" "sc_val y' < order_n"
  shows "gej_pt (secp256k1_pedersen_ecmult x value value_gen blind_gen) =
      gej_pt (secp256k1_pedersen_blind_ecmult x (secp256k1_scalar_set_u64 value) value_gen blind_gen) \<and>
    point_add (gej_pt (secp256k1_pedersen_blind_ecmult x y value_gen blind_gen))
      (gej_pt (secp256k1_pedersen_blind_ecmult x' y' value_gen blind_gen)) =
    gej_pt (secp256k1_pedersen_blind_ecmult (snd (secp256k1_scalar_add x x')) (snd (secp256k1_scalar_add y y')) value_gen blind_gen) \<and>
    gej_pt (secp256k1_pedersen_blind_ecmult x y value_gen blind_gen) =
      pt (nmul (sc_val y) (cp (ge_pt value_gen)) + nmul (sc_val x) (cp (ge_pt blind_gen)))"
proof -
  note G = ge_valid_finite [OF V, THEN conjunct1] ge_valid_finite [OF V, THEN conjunct2]
    ge_valid_finite [OF B, THEN conjunct1] ge_valid_finite [OF B, THEN conjunct2]
  note S = s [THEN sc_is_of_val]
  note vs = secp256k1_scalar_set_u64_is [of "value"]
  have u: "smul (of_nat (unat value)) P = nmul (unat value) P" for P by (rule smul_of_nat)
  note P = pedersen_blind_ecmult_is [OF G S(1) S(3)] pedersen_blind_ecmult_is [OF G S(2) S(4)]
    pedersen_blind_ecmult_is [OF G secp256k1_scalar_add_is [OF S(1,2)] secp256k1_scalar_add_is [OF S(3,4)]]
    pedersen_ecmult_is [OF G S(1), of "value"] pedersen_blind_ecmult_is [OF G S(1) vs]
  show ?thesis
    using P(1-4) [THEN gej_is_pt] gej_is_pt [OF P(5), unfolded u]
    by (simp add: smul_of_nat pt_add [symmetric] nmul_add ac_simps flip: of_nat_add)
qed

theorem pedersen_homomorphic_witness:
  "gej_pt (secp256k1_pedersen_blind_ecmult (secp256k1_scalar_set_int 5) (secp256k1_scalar_set_int 5)
     secp256k1_ge_const_g (ge_of (nmul 2 curve_G))) = pt (nmul 5 curve_G + nmul 5 (nmul 2 curve_G))"
proof -
  have "nmul 2 curve_G \<noteq> 0" by (rule nmul_small_neq_0) (simp_all add: curve_G_neq_0 order_n_def)
  then have H: "ge_valid (ge_of (nmul 2 curve_G))" "\<not> ge_infinity (ge_of (nmul 2 curve_G))"
    "cp (ge_pt (ge_of (nmul 2 curve_G))) = nmul 2 curve_G"
    using ge_is_pt [OF ge_of_is] ge_is_infinity [OF ge_of_is] ge_is_unique [OF ge_valid_ge_is ge_of_is] by blast+
  have s: "sc_val (secp256k1_scalar_set_int 5) < order_n" by (simp add: set_int_val order_n_def)
  show ?thesis
    using pedersen_homomorphic [OF const_g_valid(1,2) H(1,2) s s s s, of 5] by (simp add: set_int_val cp_const_g H(3))
qed

text \<open>C14: the base point multiplication returns the scalar multiple of the generator for every reduced
  scalar, from every context that satisfies the invariant (a sound table, and an initial point that
  cancels the blinding scalar), and does not return on a context that has not been built.\<close>

theorem ecmult_gen_correct:
  assumes c: "gen_ctx_ok ctx" and s: "sc_val s < order_n"
  shows "(case secp256k1_ecmult_gen ctx s of None \<Rightarrow> False
     | Some r \<Rightarrow> gej_valid r \<and> gej_pt r = pt (nmul (sc_val s) curve_G)) \<and>
    secp256k1_ecmult_gen (ctx\<lparr>gen_prec := None\<rparr>) s = None"
  using ecmult_gen_is [OF c sc_is_of_val [OF s]]
  by (auto simp: smul_of_nat gej_is_pt secp256k1_ecmult_gen_def)

theorem ecmult_gen_correct_witness:
  "case secp256k1_ecmult_gen sample_ctx (secp256k1_scalar_set_int 5) of None \<Rightarrow> False
     | Some r \<Rightarrow> gej_valid r \<and> gej_pt r = pt (nmul 5 curve_G)"
proof -
  have "sc_val (secp256k1_scalar_set_int 5) < order_n" by (simp add: set_int_val order_n_def)
  from ecmult_gen_correct [OF sample_ctx_ok this, THEN conjunct1] show ?thesis by (simp only: set_int_val)
qed

text \<open>C18: reblinding keeps the invariant of the context: whenever it returns, the new context is sound,
  has the same table, and multiplies every scalar to the same point as the old one; and it fails to
  return only when one of the two rejection loops turned down every nonce it was given.\<close>

theorem ecmult_gen_blind_invariant:
  assumes c: "gen_ctx_ok ctx"
  shows "case secp256k1_ecmult_gen_blind fuel g ctx (Some seed) of
      Some ctx' \<Rightarrow> gen_ctx_ok ctx' \<and> gen_prec ctx' = gen_prec ctx \<and>
        (\<forall>x s. sc_is x s \<longrightarrow> map_option gej_pt (secp256k1_ecmult_gen ctx' s) = map_option gej_pt (secp256k1_ecmult_gen ctx s))
    | None \<Rightarrow> (let rng = secp256k1_rfc6979_hmac_sha256_initialize g (secp256k1_scalar_get_b32 (gen_blind ctx) @ seed)
        in case gen_blind_draw_fe fuel g rng of None \<Rightarrow> True | Some (s, rng') \<Rightarrow> gen_blind_draw_scalar fuel g rng' = None)"
proof (cases "secp256k1_ecmult_gen_blind fuel g ctx (Some seed)")
  case (Some ctx')
  have ok: "gen_ctx_ok ctx'" using ecmult_gen_blind_ok [OF Some] c by simp
  have "gen_prec ctx' = gen_prec ctx"
    using Some by (auto simp: secp256k1_ecmult_gen_blind_def Let_def split: option.splits)
  moreover have "map_option gej_pt (secp256k1_ecmult_gen ctx' s) = map_option gej_pt (secp256k1_ecmult_gen ctx s)"
    if "sc_is x s" for x s
    using ecmult_gen_is [OF ok that] ecmult_gen_is [OF c that] gej_is_pt by fastforce
  ultimately show ?thesis using Some ok by simp
next
  case None
  have "gen_prec ctx \<noteq> None" using c by (auto simp: gen_ctx_ok_def)
  then have some: "(secp256k1_ecmult_gen (ctx\<lparr>gen_initial := i\<rparr>) b = None) = False" for i b
    by (auto simp: secp256k1_ecmult_gen_def split_def Let_def)
  show ?thesis using None
    by (auto simp: some secp256k1_ecmult_gen_blind_def Let_def split: option.splits)
qed

theorem ecmult_gen_blind_invariant_witness:
  "\<forall>g. case secp256k1_ecmult_gen_blind 3 g sample_ctx (Some []) of
      Some ctx' \<Rightarrow> gen_ctx_ok ctx' | None \<Rightarrow> True"
proof
  fix g :: hmac_garbage
  show "case secp256k1_ecmult_gen_blind 3 g sample_ctx (Some []) of Some ctx' \<Rightarrow> gen_ctx_ok ctx' | None \<Rightarrow> True"
    using ecmult_gen_blind_invariant [OF sample_ctx_ok, where fuel = 3 and g = g and seed = "[]"] by (auto split: option.splits)
qed

end
