(* ===== verification/Ecdsa_Spec.thy ===== *)
theory Ecdsa_Spec
  imports Pubkey_Law Der_Law Ecmult_Spec
begin

text \<open>
  What the public interface on keys and signatures promises. A secret key stands for a scalar, a
  public key for the multiple of the generator; signing, verification, recovery, tweaks, sums and
  Diffie-Hellman are stated on these, and the encodings as inverse of each other.
\<close>

section \<open>Shared facts\<close>

lemma created_key:
  assumes "secp_ctx_ok ctx" "secp256k1_ec_pubkey_create ctx seckey = (True, pk)"
  shows "seckey_ok seckey" and "pk_is (smul (bytes_scalar seckey) curve_G) pk" and "pk = pubkey_of (smul (bytes_scalar seckey) curve_G)"
proof -
  show k: "seckey_ok seckey" and p: "pk = pubkey_of (smul (bytes_scalar seckey) curve_G)"
    using assms(2) unfolding pubkey_create_is [OF assms(1)] by (simp_all split: if_splits)
  show "pk_is (smul (bytes_scalar seckey) curve_G) pk"
    unfolding p by (rule pubkey_of_is) (use k curve_G_neq_0 in \<open>simp add: seckey_ok_def\<close>)
qed

lemma created_key_ok:
  "secp_ctx_ok ctx \<Longrightarrow> seckey_ok seckey \<Longrightarrow>
    secp256k1_ec_pubkey_create ctx seckey = (True, pubkey_of (smul (bytes_scalar seckey) curve_G))"
  by (simp add: pubkey_create_is)

lemma smul_G_add: "smul a curve_G + smul b curve_G = smul (a + b) curve_G"
  by (rule curve.scale_left_distrib [symmetric])

lemma ecdsa_valid_uminus: "ecdsa_valid Q m r (- s) \<longleftrightarrow> ecdsa_valid Q m r s"
proof -
  let ?R = "smul (m / s) curve_G + smul (r / s) Q"
  have "smul (m / (- s)) curve_G + smul (r / (- s)) Q = - ?R"
    by (simp add: curve.scale_minus_left)
  moreover have "(case pt (- ?R) of Infinity \<Rightarrow> False | Point x y \<Rightarrow> of_nat (fp_nat x) = r) \<longleftrightarrow>
      (case pt ?R of Infinity \<Rightarrow> False | Point x y \<Rightarrow> of_nat (fp_nat x) = r)"
    using pt_smul_minus_x [of ?R] pt_eq_Infinity_iff [of ?R] pt_eq_Infinity_iff [of "- ?R"]
    by (cases "pt ?R") auto
  ultimately show ?thesis by (simp add: ecdsa_valid_def)
qed

text \<open>A context, a key and a nonce for the concrete instances.\<close>

definition sample_secp_ctx :: secp256k1_context where
  "sample_secp_ctx = \<lparr>
     ecmult_ctx = secp256k1_ecmult_context_build (replicate (ECMULT_TABLE_SIZE WINDOW_G) pubkey_zero) secp256k1_ecmult_context_init,
     ecmult_gen_ctx = sample_ctx\<rparr>"

lemma sample_secp_ctx_ok: "secp_ctx_ok sample_secp_ctx"
  using ecmult_context_build_ok [of "replicate (ECMULT_TABLE_SIZE WINDOW_G) pubkey_zero"] sample_ctx_ok
  by (simp add: secp_ctx_ok_def sample_secp_ctx_def)

definition one32 :: "u8 list" where "one32 = replicate 31 0 @ [1]"
definition zero32 :: "u8 list" where "zero32 = replicate 32 0"

lemma one32_scalar: "bytes_scalar one32 = 1" "seckey_ok one32"
proof -
  have "length one32 = 32" by (simp add: one32_def)
  then have e: "map ((!) one32) [0 ..< 32] = one32" using list_eq_map_nth [of one32 32] by simp
  have v: "be_nat one32 = 1" unfolding one32_def be_nat_replicate by simp
  show o: "bytes_scalar one32 = 1" by (simp add: bytes_scalar_def e v)
  show "seckey_ok one32" by (simp add: seckey_ok_def o bytes_overflow_def e v order_n_def)
qed

lemma zero32_scalar: "bytes_scalar zero32 = 0" "\<not> bytes_overflow zero32"
proof -
  have "length zero32 = 32" by (simp add: zero32_def)
  then have e: "map ((!) zero32) [0 ..< 32] = zero32" using list_eq_map_nth [of zero32 32] by simp
  have v: "be_nat zero32 = 0" using be_nat_replicate [of 32 "[]"] by (simp add: zero32_def)
  show "bytes_scalar zero32 = 0" "\<not> bytes_overflow zero32"
    by (simp_all add: bytes_scalar_def bytes_overflow_def e v order_n_def)
qed

lemma created_one: "secp256k1_ec_pubkey_create sample_secp_ctx one32 = (True, pubkey_of curve_G)"
  using created_key_ok [OF sample_secp_ctx_ok one32_scalar(2)] by (simp add: one32_scalar)

definition sample_r :: fn where "sample_r = of_nat (nat gen_x)"

lemma sample_r_neq_0: "sample_r \<noteq> 0"
proof
  assume "sample_r = 0"
  then have "fn_nat (of_nat (nat gen_x)) = fn_nat 0" by (simp add: sample_r_def)
  then show False unfolding fn_nat_of_nat by (simp add: gen_x_def order_n_def)
qed

lemma sample_rs: "fst (ecdsa_rs 1 0 1) = sample_r" "snd (ecdsa_rs 1 0 1) \<noteq> 0" 
proof -
  have "pt curve_G = gen_point" by (simp add: curve_G_def pt_cp gen_on_curve)
  then have G: "pt curve_G = Point (of_int gen_x) (of_int gen_y)" by (simp add: gen_point_def)
  have "(of_int gen_x :: fp) = of_nat (nat gen_x)" by (simp add: gen_x_def)
  then have "fp_nat (of_int gen_x) = nat gen_x" by (simp only: fp_nat_of_nat) (simp add: gen_x_def field_p_def)
  then have rs: "ecdsa_rs 1 0 1 = (sample_r, if fn_high sample_r then - sample_r else sample_r)"
    by (simp add: ecdsa_rs_def G Let_def ecdsa_s_def sample_r_def)
  show "fst (ecdsa_rs 1 0 1) = sample_r" "snd (ecdsa_rs 1 0 1) \<noteq> 0" using sample_r_neq_0 by (simp_all add: rs)
qed

definition sample_nonce :: secp256k1_nonce_function where
  "sample_nonce msg32 key32 algo16 data counter = Some one32"

lemma sample_nonce_good: "nonce_good (bytes_scalar one32) (bytes_scalar zero32) one32"
  using sample_rs(2) by (simp add: nonce_good_def one32_scalar zero32_scalar)

lemma sample_signature:
  "\<exists>sg. secp256k1_ecdsa_sign g sample_secp_ctx sig0 zero32 one32 (Some sample_nonce) None = Some (True, sg) \<and> sc_is sample_r (sig_r sg)"
  using ecdsa_sign_first [OF sample_secp_ctx_ok one32_scalar(2), where j = 0 and f = sample_nonce and b = one32 and ?msg32.0 = zero32
      and noncedata = None and g = g and ?sig0.0 = sig0] sample_nonce_good sample_rs(1)
  by (auto simp: sample_nonce_def one32_scalar zero32_scalar)

section \<open>Properties\<close>

text \<open>C5: ecmult computes na * A + ng * G with the table that ecmult_context_build fills, whatever
  the memory held before; the result is a valid point.\<close>

theorem ecmult_correct:
  assumes a: "gej_valid a" and s: "sc_val na < order_n" "sc_val ng < order_n" and mem: "length mem = ECMULT_TABLE_SIZE WINDOW_G"
  shows "let r = secp256k1_ecmult (secp256k1_ecmult_context_build mem secp256k1_ecmult_context_init) a na ng in
    gej_valid r \<and> gej_pt r = pt (nmul (sc_val na) (cp (gej_pt a)) + nmul (sc_val ng) curve_G)"
  using gej_is_pt [OF ecmult_is [OF ecmult_context_build_ok [OF mem] gej_valid_gej_is [OF a] sc_is_of_val [OF s(1)] sc_is_of_val [OF s(2)]]]
  by (simp add: Let_def smul_of_nat)

theorem ecmult_correct_witness:
  "let mem = replicate (ECMULT_TABLE_SIZE WINDOW_G) pubkey_zero; five = secp256k1_scalar_set_int 5;
     r = secp256k1_ecmult (secp256k1_ecmult_context_build mem secp256k1_ecmult_context_init) (secp256k1_gej_set_ge secp256k1_ge_const_g) five five
   in gej_valid r \<and> gej_pt r = pt (nmul 5 curve_G + nmul 5 curve_G)"
proof -
  have g: "gej_valid (secp256k1_gej_set_ge secp256k1_ge_const_g)" "cp (gej_pt (secp256k1_gej_set_ge secp256k1_ge_const_g)) = curve_G"
    using gej_is_pt [OF gej_set_ge_refines [OF ge_const_g_is]] by (simp_all add: pt_inverse)
  have s: "sc_val (secp256k1_scalar_set_int 5) < order_n" by (simp add: set_int_val order_n_def)
  from ecmult_correct [OF g(1) s s, of "replicate (ECMULT_TABLE_SIZE WINDOW_G) pubkey_zero"] show ?thesis
    by (simp add: Let_def set_int_val g(2))
qed

text \<open>C11: verification accepts exactly the signatures with a low s that satisfy the equation of
  ECDSA; normalizing a signature first makes it accept exactly those that satisfy the equation, and
  says whether s was high.\<close>

theorem ecdsa_verify_decides:
  assumes ctx: "secp_ctx_ok ctx" and pk: "pk_is Q pk" and r: "sc_is r (sig_r sg)" and s: "sc_is s (sig_s sg)"
  shows "(secp256k1_ecdsa_verify ctx sg msg32 pk \<longleftrightarrow> \<not> fn_high s \<and> ecdsa_valid Q (bytes_scalar msg32) r s) \<and>
    (secp256k1_ecdsa_verify ctx (snd (secp256k1_ecdsa_signature_normalize sg)) msg32 pk \<longleftrightarrow> ecdsa_valid Q (bytes_scalar msg32) r s) \<and>
    (fst (secp256k1_ecdsa_signature_normalize sg) \<longleftrightarrow> fn_high s)"
proof -
  let ?s = "if fn_high s then - s else s" and ?n = "snd (secp256k1_ecdsa_signature_normalize sg)"
  have n: "fst (secp256k1_ecdsa_signature_normalize sg) \<longleftrightarrow> fn_high s" "sc_is r (sig_r ?n)" "sc_is ?s (sig_s ?n)"
    using r s scalar_is_high_is [OF s] secp256k1_scalar_negate_is [OF s]
    by (simp_all add: secp256k1_ecdsa_signature_normalize_def secp256k1_ecdsa_signature_load_def secp256k1_ecdsa_signature_save_def Let_def)
  have "\<not> fn_high ?s" using fn_high_uminus [of s] by simp
  then show ?thesis
    using ecdsa_verify_is [OF ctx pk r s] ecdsa_verify_is [OF ctx pk n(2,3)] n(1) by (simp add: ecdsa_valid_uminus)
qed

theorem ecdsa_verify_decides_witness:
  "let one = secp256k1_scalar_set_int 1
   in secp256k1_ecdsa_verify sample_secp_ctx \<lparr>sig_r = one, sig_s = one\<rparr> zero32 (pubkey_of curve_G) \<longleftrightarrow>
        \<not> fn_high 1 \<and> ecdsa_valid curve_G 0 1 1"
  using ecdsa_verify_decides [OF sample_secp_ctx_ok pubkey_of_is [OF curve_G_neq_0], of 1
      "\<lparr>sig_r = secp256k1_scalar_set_int 1, sig_s = secp256k1_scalar_set_int 1\<rparr>" 1 zero32] set_int_01(1)
  by (simp add: Let_def zero32_scalar)

text \<open>C3: a signature that signing returns is accepted for the signer's public key, except when its r
  is zero, which signing does not look at; it always has a low s. Whatever the nonce function does,
  a key that signs has a public key.\<close>

theorem ecdsa_sign_verifies:
  assumes ctx: "secp_ctx_ok ctx"
    and sg: "secp256k1_ecdsa_sign g ctx sig0 msg32 seckey noncefp noncedata = Some (True, sg)"
  shows "\<exists>pk. secp256k1_ec_pubkey_create ctx seckey = (True, pk) \<and> \<not> secp256k1_scalar_is_high (sig_s sg) \<and>
    (secp256k1_ecdsa_verify ctx sg msg32 pk \<longleftrightarrow> sc_val (sig_r sg) \<noteq> 0)"
proof -
  obtain sr ss recid where w: "ecdsa_sign_with g ctx msg32 seckey noncefp noncedata = Some (Some (sr, ss, recid))" and e: "sg = \<lparr>sig_r = sr, sig_s = ss\<rparr>"
    using sg by (auto simp: secp256k1_ecdsa_sign_def secp256k1_ecdsa_signature_save_def split: if_splits option.splits)
  obtain k x y r s where k: "k \<noteq> 0" "pt (smul k curve_G) = Point x y" and r: "r = of_nat (fp_nat x)" "sc_is r sr"
    and s: "s = ecdsa_s (bytes_scalar seckey) (bytes_scalar msg32) k r" "s \<noteq> 0" "sc_is (if fn_high s then - s else s) ss"
    and key: "seckey_ok seckey"
    using ecdsa_sign_with_is [OF ctx w] by blast
  let ?s = "if fn_high s then - s else s"
  have pk: "secp256k1_ec_pubkey_create ctx seckey = (True, pubkey_of (smul (bytes_scalar seckey) curve_G))"
    by (rule created_key_ok [OF ctx key])
  have low: "\<not> fn_high ?s" using fn_high_uminus [of s] by simp
  have "secp256k1_ecdsa_verify ctx sg msg32 (pubkey_of (smul (bytes_scalar seckey) curve_G)) \<longleftrightarrow> r \<noteq> 0"
  proof -
    have "ecdsa_valid (smul (bytes_scalar seckey) curve_G) (bytes_scalar msg32) r ?s \<longleftrightarrow> r \<noteq> 0"
      using ecdsa_signed_valid [OF k r(1) _ s(1,2), where h = "fn_high s"] by (cases "r = 0") (simp add: ecdsa_valid_def, blast)
    then show ?thesis
      using ecdsa_verify_is [OF ctx created_key(2) [OF ctx pk], of r sg ?s msg32] r(2) s(3) low by (simp add: e)
  qed
  then show ?thesis
    using pk low scalar_is_high_is [OF s(3)] scalar_is_zero_iff [OF r(2)] sc_is_value [OF r(2)] by (simp add: e fn_nat_eq_0_iff)
qed

theorem ecdsa_sign_verifies_witness:
  "\<forall>g sig0. \<exists>sg. secp256k1_ecdsa_sign g sample_secp_ctx sig0 zero32 one32 (Some sample_nonce) None = Some (True, sg) \<and>
     secp256k1_ecdsa_verify sample_secp_ctx sg zero32 (pubkey_of curve_G)"
proof (intro allI)
  fix g sig0
  obtain sg where sg: "secp256k1_ecdsa_sign g sample_secp_ctx sig0 zero32 one32 (Some sample_nonce) None = Some (True, sg)"
    and r: "sc_is sample_r (sig_r sg)" using sample_signature by blast
  have "sc_val (sig_r sg) \<noteq> 0" using sc_is_value [OF r] sample_r_neq_0 by (simp add: fn_nat_eq_0_iff)
  then show "\<exists>sg. secp256k1_ecdsa_sign g sample_secp_ctx sig0 zero32 one32 (Some sample_nonce) None = Some (True, sg) \<and>
     secp256k1_ecdsa_verify sample_secp_ctx sg zero32 (pubkey_of curve_G)"
    using ecdsa_sign_verifies [OF sample_secp_ctx_ok sg] sg created_one by auto
qed

text \<open>C15: signing returns as soon as the nonce function gives a nonce that is in range and leads to a
  nonzero s, after any number of nonces that do not; the signature is the one ECDSA defines for the
  message, the key and that nonce.\<close>

theorem ecdsa_sign_returns:
  assumes "secp_ctx_ok ctx" "secp256k1_ec_seckey_verify seckey"
    and "\<forall>i < j. \<exists>b. f msg32 seckey None noncedata (of_nat i) = Some b \<and> \<not> nonce_good (bytes_scalar seckey) (bytes_scalar msg32) b"
    and "f msg32 seckey None noncedata (of_nat j) = Some b" "nonce_good (bytes_scalar seckey) (bytes_scalar msg32) b"
  shows "\<exists>sg. secp256k1_ecdsa_sign g ctx sig0 msg32 seckey (Some f) noncedata = Some (True, sg) \<and>
    (case ecdsa_rs (bytes_scalar seckey) (bytes_scalar msg32) (bytes_scalar b) of (r, s) \<Rightarrow> sc_is r (sig_r sg) \<and> sc_is s (sig_s sg))"
proof -
  have "\<exists>sg. secp256k1_ecdsa_sign g ctx sig0 msg32 seckey (Some f) noncedata = Some (True, sg) \<and>
    sc_is (fst (ecdsa_rs (bytes_scalar seckey) (bytes_scalar msg32) (bytes_scalar b))) (sig_r sg) \<and>
    sc_is (snd (ecdsa_rs (bytes_scalar seckey) (bytes_scalar msg32) (bytes_scalar b))) (sig_s sg)"
    by (rule ecdsa_sign_first [of ctx seckey j]) (use assms seckey_verify_is in auto)
  then show ?thesis by (simp add: split_def)
qed

definition late_nonce :: secp256k1_nonce_function where
  "late_nonce msg32 key32 algo16 data counter = Some (if counter = 0 then zero32 else one32)"

theorem ecdsa_sign_returns_witness:
  "\<forall>g sig0. \<exists>sg. secp256k1_ecdsa_sign g sample_secp_ctx sig0 zero32 one32 (Some late_nonce) None = Some (True, sg)"
proof (intro allI)
  fix g sig0
  have "secp256k1_ec_seckey_verify one32" using seckey_verify_is one32_scalar(2) by simp
  from ecdsa_sign_returns [OF sample_secp_ctx_ok this, of 1 late_nonce zero32 None one32 g sig0]
  show "\<exists>sg. secp256k1_ecdsa_sign g sample_secp_ctx sig0 zero32 one32 (Some late_nonce) None = Some (True, sg)"
    using sample_nonce_good by (auto simp: late_nonce_def nonce_good_def seckey_ok_def zero32_scalar)
qed

text \<open>C10: the public key can be recovered from a recoverable signature that signing returned and its
  message alone, unless r is zero: recovery gives exactly the key that pubkey_create makes. The
  recovery id is at most 3.\<close>

theorem ecdsa_recover_correct:
  assumes ctx: "secp_ctx_ok ctx"
    and sg: "secp256k1_ecdsa_sign_recoverable g ctx sig0 msg32 seckey noncefp noncedata = Some (True, sg)"
    and nz: "sc_val (rsig_r sg) \<noteq> 0"
  shows "secp256k1_ecdsa_recover ctx pk0 sg msg32 = secp256k1_ec_pubkey_create ctx seckey \<and> unat (rsig_recid sg) \<le> 3"
proof -
  obtain sr ss recid where w: "ecdsa_sign_with g ctx msg32 seckey noncefp noncedata = Some (Some (sr, ss, recid))"
    and e: "sg = \<lparr>rsig_r = sr, rsig_s = ss, rsig_recid = of_nat recid\<rparr>"
    using sg by (auto simp: secp256k1_ecdsa_sign_recoverable_def secp256k1_ecdsa_recoverable_signature_save_def split: if_splits option.splits)
  obtain k x y r s where k: "k \<noteq> 0" "pt (smul k curve_G) = Point x y" and r: "r = of_nat (fp_nat x)" "sc_is r sr"
    and s: "s = ecdsa_s (bytes_scalar seckey) (bytes_scalar msg32) k r" "s \<noteq> 0" "sc_is (if fn_high s then - s else s) ss"
    and rec: "recid = ecdsa_recid x y (fn_high s)" and key: "seckey_ok seckey"
    using ecdsa_sign_with_is [OF ctx w] by blast
  have r0: "r \<noteq> 0" using nz sc_is_value [OF r(2)] by (auto simp: e)
  have d: "bytes_scalar seckey \<noteq> 0" using key by (simp add: seckey_ok_def)
  obtain q where q: "secp256k1_ecdsa_sig_recover (ecmult_ctx ctx) sr ss (fst (secp256k1_scalar_set_b32 msg32)) recid = Some q"
      "ge_is 1 (smul (bytes_scalar seckey) curve_G) q"
    using ecdsa_recover_signed [OF secp_ctx_built(4) [OF ctx] k r(1) r0 r(2) s set_b32_bytes(1) d] rec by blast
  have rl: "recid \<le> 3" by (simp add: rec ecdsa_recid_def)
  then have u: "unat (of_nat recid :: u8) = recid" unfolding unat_of_nat by simp
  have "secp256k1_pubkey_save q = pubkey_of (smul (bytes_scalar seckey) curve_G)" by (rule pubkey_save_is(2) [OF q(2) smul_G_neq_0 [OF d]])
  then show ?thesis
    using secp_ctx_built(1) [OF ctx] created_key_ok [OF ctx key] q(1) rl
    by (simp add: secp256k1_ecdsa_recover_def secp256k1_ecdsa_recoverable_signature_load_def e u)
qed

lemma sample_recoverable:
  "\<exists>sg. secp256k1_ecdsa_sign_recoverable g sample_secp_ctx sig0 zero32 one32 (Some sample_nonce) None = Some (True, sg) \<and> sc_is sample_r (rsig_r sg)"
proof -
  obtain sg where "secp256k1_ecdsa_sign g sample_secp_ctx signature_zero zero32 one32 (Some sample_nonce) None = Some (True, sg)"
    "sc_is sample_r (sig_r sg)" using sample_signature by blast
  then show ?thesis
    by (auto simp: secp256k1_ecdsa_sign_def secp256k1_ecdsa_sign_recoverable_def secp256k1_ecdsa_signature_save_def
        secp256k1_ecdsa_recoverable_signature_save_def split: if_splits option.splits)
qed

theorem ecdsa_recover_correct_witness:
  "\<forall>g sig0. \<exists>sg. secp256k1_ecdsa_sign_recoverable g sample_secp_ctx sig0 zero32 one32 (Some sample_nonce) None = Some (True, sg) \<and>
     secp256k1_ecdsa_recover sample_secp_ctx pubkey_zero sg zero32 = (True, pubkey_of curve_G)"
proof (intro allI)
  fix g sig0
  obtain sg where sg: "secp256k1_ecdsa_sign_recoverable g sample_secp_ctx sig0 zero32 one32 (Some sample_nonce) None = Some (True, sg)"
    and r: "sc_is sample_r (rsig_r sg)" using sample_recoverable by blast
  have "sc_val (rsig_r sg) \<noteq> 0" using sc_is_value [OF r] sample_r_neq_0 by simp
  from ecdsa_recover_correct [OF sample_secp_ctx_ok sg this, of pubkey_zero] sg
  show "\<exists>sg. secp256k1_ecdsa_sign_recoverable g sample_secp_ctx sig0 zero32 one32 (Some sample_nonce) None = Some (True, sg) \<and>
     secp256k1_ecdsa_recover sample_secp_ctx pubkey_zero sg zero32 = (True, pubkey_of curve_G)"
    by (auto simp: created_one)
qed

text \<open>C16: tweaking commutes with taking the public key, errors included: adding a tweak to the secret
  key, or multiplying it, and then taking the public key gives what the same tweak of the public
  key gives.\<close>

theorem tweaks_commute:
  assumes ctx: "secp_ctx_ok ctx" and pk: "secp256k1_ec_pubkey_create ctx seckey = (True, pk)"
  shows "(case secp256k1_ec_privkey_tweak_add seckey tweak of
      (True, seckey') \<Rightarrow> secp256k1_ec_pubkey_create ctx seckey' | (False, _) \<Rightarrow> (False, pubkey_zero)) =
      secp256k1_ec_pubkey_tweak_add ctx pk tweak \<and>
    (case secp256k1_ec_privkey_tweak_mul seckey tweak of
      (True, seckey') \<Rightarrow> secp256k1_ec_pubkey_create ctx seckey' | (False, _) \<Rightarrow> (False, pubkey_zero)) =
      secp256k1_ec_pubkey_tweak_mul ctx pk tweak"
proof -
  note key = created_key [OF ctx pk]
  let ?d = "bytes_scalar seckey" and ?t = "bytes_scalar tweak"
  have d: "?d \<noteq> 0" using key(1) by (simp add: seckey_ok_def)
  have z: "smul (?d + ?t) curve_G = 0 \<longleftrightarrow> ?d + ?t = 0" using curve_G_neq_0 by simp
  have "(case secp256k1_ec_privkey_tweak_add seckey tweak of
      (True, seckey') \<Rightarrow> secp256k1_ec_pubkey_create ctx seckey' | (False, _) \<Rightarrow> (False, pubkey_zero)) =
      secp256k1_ec_pubkey_tweak_add ctx pk tweak"
    unfolding pubkey_tweak_add_is [OF ctx key(2)] smul_G_add z
    by (subst privkey_tweak_add_is(1)) (use privkey_tweak_add_is(2) [of tweak seckey] in \<open>auto simp: pubkey_create_is [OF ctx] seckey_ok_def\<close>)
  moreover have "(case secp256k1_ec_privkey_tweak_mul seckey tweak of
      (True, seckey') \<Rightarrow> secp256k1_ec_pubkey_create ctx seckey' | (False, _) \<Rightarrow> (False, pubkey_zero)) =
      secp256k1_ec_pubkey_tweak_mul ctx pk tweak"
    unfolding pubkey_tweak_mul_is [OF ctx key(2)]
    by (subst privkey_tweak_mul_is(1)) (use privkey_tweak_mul_is(2) [of tweak seckey] d in
        \<open>auto simp: pubkey_create_is [OF ctx] seckey_ok_def mult.commute\<close>)
  ultimately show ?thesis ..
qed

theorem tweaks_commute_witness:
  "secp256k1_ec_pubkey_tweak_mul sample_secp_ctx (pubkey_of curve_G) zero32 = (False, pubkey_zero)"
  using tweaks_commute [OF sample_secp_ctx_ok created_one, of zero32, THEN conjunct2]
  by (subst (asm) privkey_tweak_mul_is(1)) (simp add: seckey_ok_def zero32_scalar)

text \<open>C27: combining public keys gives the public key of the sum of the secret keys, and fails exactly
  when the sum is zero.\<close>

theorem pubkey_combine_sum:
  assumes ctx: "secp_ctx_ok ctx" and keys: "list_all2 (\<lambda>sk pk. secp256k1_ec_pubkey_create ctx sk = (True, pk)) seckeys pubkeys" and n: "pubkeys \<noteq> []"
  shows "secp256k1_ec_pubkey_combine pubkeys =
    (let d = sum_list (map bytes_scalar seckeys) in if d = 0 then (False, pubkey_zero) else (True, pubkey_of (smul d curve_G)))"
proof -
  have "list_all2 pk_is (map (\<lambda>sk. smul (bytes_scalar sk) curve_G) seckeys) pubkeys"
    using keys created_key(2) [OF ctx] by (simp add: list_all2_map1 list_all2_mono)
  moreover have "sum_list (map (\<lambda>sk. smul (bytes_scalar sk) curve_G) seckeys) = smul (sum_list (map bytes_scalar seckeys)) curve_G"
    by (induction seckeys) (simp_all add: smul_G_add)
  ultimately show ?thesis using pubkey_combine_is [OF _ n] curve_G_neq_0 by (simp add: Let_def)
qed

theorem pubkey_combine_sum_witness:
  "secp256k1_ec_pubkey_combine [pubkey_of curve_G, pubkey_of curve_G] = (True, pubkey_of (smul 2 curve_G))"
proof -
  have "(2 :: fn) \<noteq> 0"
  proof
    assume "(2 :: fn) = 0"
    then have "fn_nat (of_nat 2) = fn_nat 0" by simp
    then show False unfolding fn_nat_of_nat by (simp add: order_n_def)
  qed
  then show ?thesis
    using pubkey_combine_sum [OF sample_secp_ctx_ok, of "[one32, one32]" "[pubkey_of curve_G, pubkey_of curve_G]"]
    by (simp add: created_one one32_scalar)
qed

text \<open>C25: two parties who each take their own secret key and the public key of the other compute the
  same secret.\<close>

theorem ecdh_agreement:
  assumes ctx: "secp_ctx_ok ctx" and a: "secp256k1_ec_pubkey_create ctx a = (True, A)" and b: "secp256k1_ec_pubkey_create ctx b = (True, B)"
  shows "\<exists>secret. secp256k1_ecdh B a = Some secret \<and> secp256k1_ecdh A b = Some secret"
  using ecdh_is [OF created_key(2) [OF ctx b], of a] ecdh_is [OF created_key(2) [OF ctx a], of b] created_key(1) [OF ctx a] created_key(1) [OF ctx b]
  by (simp add: curve.scale_scale mult.commute)

theorem ecdh_agreement_witness:
  "\<exists>secret. secp256k1_ecdh (pubkey_of curve_G) one32 = Some secret"
  using ecdh_agreement [OF sample_secp_ctx_ok created_one created_one] by blast

text \<open>C28: what becomes of a secret key that seckey_verify refuses, that is one that is zero or not below
  the group order. Creating the public key, both ways of signing with ECDSA and Diffie-Hellman return
  0 for it and leave no output. The functions that transform a secret key do not make this test, and
  take the key modulo the group order: negation as such takes every key; the negating and the inverting
  tweak refuse a key only when it is not below the order, so that they return 1 for the key zero, with
  zero as the result; the adding tweak judges only the tweak and the sum, the multiplying one only the
  tweak, and both otherwise give the sum and the product.\<close>

theorem bad_keys_refused:
  assumes ctx: "secp_ctx_ok ctx" and bad: "\<not> secp256k1_ec_seckey_verify seckey" and pk: "pk_is Q pk"
  shows "secp256k1_ec_pubkey_create ctx seckey = (False, pubkey_zero) \<and>
    secp256k1_ecdsa_sign g ctx sig0 msg32 seckey noncefp noncedata = Some (False, signature_zero) \<and>
    secp256k1_ecdsa_sign_recoverable g ctx rsig0 msg32 seckey noncefp noncedata = Some (False, recoverable_signature_zero) \<and>
    secp256k1_ecdh pk seckey = None \<and>
    bytes_scalar (secp256k1_ec_privkey_negate seckey) = - bytes_scalar seckey \<and>
    secp256k1_ec_privkey_tweak_neg seckey =
      (if bytes_overflow seckey then (False, zero32) else (True, secp256k1_ec_privkey_negate seckey)) \<and>
    (case secp256k1_ec_privkey_tweak_inv seckey of (ret, key) \<Rightarrow> (ret \<longleftrightarrow> \<not> bytes_overflow seckey) \<and> bytes_scalar key = 0) \<and>
    (case secp256k1_ec_privkey_tweak_add seckey tweak of (ret, key) \<Rightarrow>
      (ret \<longleftrightarrow> \<not> bytes_overflow tweak \<and> bytes_scalar seckey + bytes_scalar tweak \<noteq> 0) \<and>
      (if ret then bytes_scalar key = bytes_scalar seckey + bytes_scalar tweak else key = zero32)) \<and>
    (case secp256k1_ec_privkey_tweak_mul seckey tweak of (ret, key) \<Rightarrow>
      (ret \<longleftrightarrow> secp256k1_ec_seckey_verify tweak) \<and>
      (if ret then bytes_scalar key = bytes_scalar seckey * bytes_scalar tweak else key = zero32))"
proof -
  have b: "\<not> seckey_ok seckey" using bad seckey_verify_is by simp
  obtain d where d: "secp256k1_scalar_set_b32 seckey = (d, bytes_overflow seckey)" "sc_is (bytes_scalar seckey) d" by (rule set_b32_cases)
  have "ecdsa_sign_with g ctx msg32 seckey noncefp noncedata = Some None"
    using b d scalar_is_zero_iff [OF d(2)] by (auto simp: ecdsa_sign_with_def seckey_ok_def)
  then have refused: "secp256k1_ec_pubkey_create ctx seckey = (False, pubkey_zero)"
    "secp256k1_ecdsa_sign g ctx sig0 msg32 seckey noncefp noncedata = Some (False, signature_zero)"
    "secp256k1_ecdsa_sign_recoverable g ctx rsig0 msg32 seckey noncefp noncedata = Some (False, recoverable_signature_zero)"
    "secp256k1_ecdh pk seckey = None"
    using b pubkey_create_is [OF ctx, of seckey] ecdh_is [OF pk, of seckey] secp_ctx_built(2) [OF ctx]
    by (simp_all add: secp256k1_ecdsa_sign_def secp256k1_ecdsa_sign_recoverable_def)
  note u = privkey_unary_is [of seckey] and add = privkey_tweak_add_is [where seckey = seckey and tweak = tweak]
    and mul = privkey_tweak_mul_is [where seckey = seckey and tweak = tweak]
  have inv: "case secp256k1_ec_privkey_tweak_inv seckey of (ret, key) \<Rightarrow> (ret \<longleftrightarrow> \<not> bytes_overflow seckey) \<and> bytes_scalar key = 0"
    using u(4) b zero32_scalar(1) by (subst u(3)) (auto simp: seckey_ok_def zero32_def)
  have add_case: "case secp256k1_ec_privkey_tweak_add seckey tweak of (ret, key) \<Rightarrow>
      (ret \<longleftrightarrow> \<not> bytes_overflow tweak \<and> bytes_scalar seckey + bytes_scalar tweak \<noteq> 0) \<and>
      (if ret then bytes_scalar key = bytes_scalar seckey + bytes_scalar tweak else key = zero32)"
    using add(2) by (subst add(1)) (auto simp: zero32_def)
  have mul_case: "case secp256k1_ec_privkey_tweak_mul seckey tweak of (ret, key) \<Rightarrow>
      (ret \<longleftrightarrow> secp256k1_ec_seckey_verify tweak) \<and>
      (if ret then bytes_scalar key = bytes_scalar seckey * bytes_scalar tweak else key = zero32)"
    using mul(2) by (subst mul(1)) (auto simp: zero32_def seckey_verify_is)
  show ?thesis using refused u(1,2) inv add_case mul_case by (simp add: zero32_def)
qed

theorem bad_keys_refused_witness:
  "\<not> secp256k1_ec_seckey_verify zero32 \<and> secp256k1_ecdh (pubkey_of curve_G) zero32 = None"
proof -
  have b: "\<not> secp256k1_ec_seckey_verify zero32" using seckey_verify_is by (simp add: seckey_ok_def zero32_scalar)
  with bad_keys_refused [OF sample_secp_ctx_ok b pubkey_of_is [OF curve_G_neq_0]] show ?thesis by blast
qed

section \<open>Encodings\<close>

text \<open>C17: the parser of public keys accepts only points of the curve, in the compressed form of 33
  bytes or one of the forms of 65 bytes; what it accepts can be serialized in both forms, parsing
  these gives the same key again, and serializing in the form of the input gives the input, unless
  that was in the hybrid form with the first byte 6 or 7.\<close>

theorem pubkey_codec:
  assumes p: "secp256k1_ec_pubkey_parse pub = (True, pk)"
  shows "(\<exists>Q. pk_is Q pk) \<and> length pub \<in> {33, 65} \<and>
    (\<exists>bytes. secp256k1_ec_pubkey_serialize (replicate (if c then 33 else 65) 0) pk (ec_flags c) = (True, length bytes, bytes) \<and>
      secp256k1_ec_pubkey_parse bytes = (True, pk) \<and>
      ((c \<longleftrightarrow> length pub = 33) \<and> pub ! 0 \<notin> {6, 7} \<longrightarrow> bytes = pub))"
proof -
  obtain Q x y where Q: "pt Q = Point x y" "pk = pubkey_of Q" "pk_is Q pk" and f: "length pub = 33 \<and> pub = pubkey_bytes True x y \<or>
     length pub = 65 \<and> tl pub = fp_bytes x @ fp_bytes y \<and> (pub ! 0 = 4 \<or> pub ! 0 = (if odd (fp_nat y) then 7 else 6))"
    by (rule ec_pubkey_parse_ok [OF p])
  let ?b = "pubkey_bytes c x y"
  have s: "secp256k1_ec_pubkey_serialize (replicate (if c then 33 else 65) 0) pk (ec_flags c) = (True, length ?b, ?b)"
    using ec_pubkey_serialize_is [OF Q(3,1), of c "replicate (if c then 33 else 65) 0"] by (simp add: pubkey_bytes_length)
  obtain elem where e: "secp256k1_eckey_pubkey_parse ?b = Some elem" "ge_is 1 Q elem" using eckey_parse_serialized [OF Q(1)] by blast
  have "Q \<noteq> 0" using Q(3) by (simp add: pk_is_def)
  then have r: "secp256k1_ec_pubkey_parse ?b = (True, pk)" using e pubkey_save_is(2) [OF e(2)] Q(2) by (simp add: secp256k1_ec_pubkey_parse_def)
  have "?b = pub" if "c \<longleftrightarrow> length pub = 33" "pub ! 0 \<notin> {6, 7}"
    using f that by (cases pub) (auto simp: pubkey_bytes_def split: if_splits)
  then show ?thesis using s r f Q(3) by blast
qed

lemma sample_pubkey: "\<exists>x y. secp256k1_ec_pubkey_parse (pubkey_bytes True x y) = (True, pubkey_of curve_G)"
proof -
  obtain x y where G: "pt curve_G = Point x y" using curve_G_neq_0 pt_eq_Infinity_iff [of curve_G] by (cases "pt curve_G") auto
  obtain elem where e: "secp256k1_eckey_pubkey_parse (pubkey_bytes True x y) = Some elem" "ge_is 1 curve_G elem"
    using eckey_parse_serialized [OF G] by blast
  then have "secp256k1_ec_pubkey_parse (pubkey_bytes True x y) = (True, pubkey_of curve_G)"
    using pubkey_save_is(2) [OF e(2) curve_G_neq_0] by (simp add: secp256k1_ec_pubkey_parse_def)
  then show ?thesis by blast
qed

theorem pubkey_codec_witness:
  "\<exists>bytes. secp256k1_ec_pubkey_serialize (replicate 33 0) (pubkey_of curve_G) (ec_flags True) = (True, length bytes, bytes) \<and>
     secp256k1_ec_pubkey_parse bytes = (True, pubkey_of curve_G)"
  using sample_pubkey pubkey_codec [where c = True and pk = "pubkey_of curve_G"] by fastforce

text \<open>C13: a signature has one DER form, of at most 72 bytes: serializing writes it, parsing it gives the
  signature back, and the parser accepts no other bytes, of fewer than \<open>2 ^ 31\<close>, for a signature without
  zero components.\<close>

theorem der_codec:
  assumes sg: "sc_val (sig_r sg) < order_n" "sc_val (sig_s sg) < order_n"
  shows "\<exists>bytes. length bytes \<le> 72 \<and>
    secp256k1_ecdsa_signature_serialize_der 72 sg = (length bytes, Some bytes) \<and>
    secp256k1_ecdsa_signature_parse_der bytes = (True, sg) \<and>
    (\<forall>input. length input < 2 ^ 31 \<and> sc_val (sig_r sg) \<noteq> 0 \<and> sc_val (sig_s sg) \<noteq> 0 \<and>
      secp256k1_ecdsa_signature_parse_der input = (True, sg) \<longrightarrow> input = bytes)"
proof (intro exI [of _ "der_sig (sig_r sg) (sig_s sg)"] conjI allI impI)
  show "length (der_sig (sig_r sg) (sig_s sg)) \<le> 72" by (rule der_sig_length(2))
  then show "secp256k1_ecdsa_signature_serialize_der 72 sg = (length (der_sig (sig_r sg) (sig_s sg)), Some (der_sig (sig_r sg) (sig_s sg)))"
    by (simp add: secp256k1_ecdsa_signature_serialize_der_def secp256k1_ecdsa_signature_load_def sig_serialize_is)
  show "secp256k1_ecdsa_signature_parse_der (der_sig (sig_r sg) (sig_s sg)) = (True, sg)"
    by (simp add: secp256k1_ecdsa_signature_parse_der_def sig_parse_der_sig [OF sg] secp256k1_ecdsa_signature_save_def)
  fix input
  assume i: "length input < 2 ^ 31 \<and> sc_val (sig_r sg) \<noteq> 0 \<and> sc_val (sig_s sg) \<noteq> 0 \<and> secp256k1_ecdsa_signature_parse_der input = (True, sg)"
  then have "secp256k1_ecdsa_sig_parse input = Some (sig_r sg, sig_s sg)"
    by (auto simp: secp256k1_ecdsa_signature_parse_der_def secp256k1_ecdsa_signature_save_def split: option.splits)
  then show "input = der_sig (sig_r sg) (sig_s sg)" using sig_parse_canonical i by blast
qed

theorem der_codec_witness:
  "\<exists>bytes. secp256k1_ecdsa_signature_parse_der bytes =
     (True, \<lparr>sig_r = secp256k1_scalar_set_int 5, sig_s = secp256k1_scalar_set_int 5\<rparr>)"
  using der_codec [of "\<lparr>sig_r = secp256k1_scalar_set_int 5, sig_s = secp256k1_scalar_set_int 5\<rparr>"]
  by (auto simp: set_int_val order_n_def)

text \<open>The compact form of 64 bytes and signatures without a component above the group order
  correspond one to one; any other 64 bytes are refused.\<close>

theorem compact_codec:
  assumes "length input = 64"
  shows "case secp256k1_ecdsa_signature_parse_compact input of
      (True, sg) \<Rightarrow> secp256k1_ecdsa_signature_serialize_compact sg = input \<and> sc_val (sig_r sg) < order_n \<and> sc_val (sig_s sg) < order_n
    | (False, sg) \<Rightarrow> sg = signature_zero \<and> (order_n \<le> be_nat (take 32 input) \<or> order_n \<le> be_nat (drop 32 input))"
proof -
  have l: "length (take 32 input) = 32" "length (drop 32 input) = 32" "take 32 (drop 32 input) = drop 32 input" using assms by simp_all
  obtain r ov where r: "secp256k1_scalar_set_b32 (take 32 input) = (r, ov)" by fastforce
  obtain s ov' where s: "secp256k1_scalar_set_b32 (drop 32 input) = (s, ov')" by fastforce
  have v: "ov \<longleftrightarrow> order_n \<le> be_nat (take 32 input)" "ov' \<longleftrightarrow> order_n \<le> be_nat (drop 32 input)"
      "sc_val r = be_nat (take 32 input) mod order_n" "sc_val s = be_nat (drop 32 input) mod order_n"
    using secp256k1_scalar_set_b32_value [OF l(1)] secp256k1_scalar_set_b32_value [OF l(2)] by (simp_all add: r s)
  have "secp256k1_scalar_get_b32 r @ secp256k1_scalar_get_b32 s = input" if "\<not> ov" "\<not> ov'"
    using secp256k1_scalar_get_set_b32 [OF l(1)] secp256k1_scalar_get_set_b32 [OF l(2)] that v(1,2) by (simp add: r s)
  then show ?thesis
    using v by (auto simp: secp256k1_ecdsa_signature_parse_compact_def secp256k1_ecdsa_signature_serialize_compact_def
        secp256k1_ecdsa_signature_load_def secp256k1_ecdsa_signature_save_def r s l(3) order_n_def)
qed

theorem compact_codec_witness:
  "case secp256k1_ecdsa_signature_parse_compact (replicate 64 0) of
      (True, sg) \<Rightarrow> secp256k1_ecdsa_signature_serialize_compact sg = replicate 64 0 | (False, sg) \<Rightarrow> False"
proof -
  have "be_nat (replicate 32 0) = 0" using be_nat_replicate [of 32 "[]"] by simp
  then show ?thesis
    using compact_codec [of "replicate 64 0"]
    by (cases "secp256k1_ecdsa_signature_parse_compact (replicate 64 0)") (auto simp: order_n_def split: bool.splits)
qed

end
