(* ===== verification/Schnorr_Spec.thy ===== *)
theory Schnorr_Spec
  imports Schnorr_Law Ecdsa_Spec
begin

text \<open>
  What Schnorr signatures promise: verification decides the equation between points that the
  signature stands for, and a signature that signing returns is accepted.
\<close>

section \<open>Shared facts\<close>

lemma schnorr_sample_nonce_scalar:
  "(case Some sample_nonce of None \<Rightarrow> secp256k1_nonce_function_bipschnorr | Some f \<Rightarrow> f) zero32 one32 None None 0 = Some one32"
  by (simp add: sample_nonce_def)

section \<open>Properties\<close>

text \<open>C20: verification of a Schnorr signature accepts exactly when the first half is the x coordinate of
  a point with a square y coordinate, the second half is below the group order, and the point
  is s G - e P for the challenge e, the hash of the first half, the key and the message; an
  accepted signature is refused when its second half is replaced by any other.\<close>

theorem schnorr_verify_decides:
  assumes ctx: "secp_ctx_ok ctx" and pk: "pk_is P pk" and len: "length sg = 64"
  shows "(secp256k1_schnorrsig_verify ctx sg msg32 pk \<longleftrightarrow> schnorr_valid P msg32 sg) \<and>
    (\<forall>sg'. length sg' = 64 \<and> take 32 sg' = take 32 sg \<and> secp256k1_schnorrsig_verify ctx sg msg32 pk \<and>
      secp256k1_schnorrsig_verify ctx sg' msg32 pk \<longrightarrow> sg' = sg)"
proof (intro conjI allI impI)
  show "secp256k1_schnorrsig_verify ctx sg msg32 pk \<longleftrightarrow> schnorr_valid P msg32 sg" by (rule schnorrsig_verify_is [OF ctx pk len])
  fix sg'
  assume "length sg' = 64 \<and> take 32 sg' = take 32 sg \<and> secp256k1_schnorrsig_verify ctx sg msg32 pk \<and>
    secp256k1_schnorrsig_verify ctx sg' msg32 pk"
  then have l: "length sg' = 64" "take 32 sg' = take 32 sg" and v: "schnorr_valid P msg32 sg" "schnorr_valid P msg32 sg'"
    using schnorrsig_verify_is [OF ctx pk len] schnorrsig_verify_is [OF ctx pk, of sg'] by simp_all
  then have "drop 32 sg' = drop 32 sg" using schnorr_valid_response [OF v] len by simp
  then show "sg' = sg" using l(2) append_take_drop_id [of 32 sg] append_take_drop_id [of 32 sg'] by metis
qed

theorem schnorr_verify_decides_witness:
  "secp256k1_schnorrsig_verify sample_secp_ctx (replicate 64 0) zero32 (pubkey_of curve_G) \<longleftrightarrow>
     schnorr_valid curve_G zero32 (replicate 64 0)"
  using schnorr_verify_decides [OF sample_secp_ctx_ok pubkey_of_is [OF curve_G_neq_0], of "replicate 64 0" zero32] by simp

text \<open>C19: signing with a valid key and a nonce that is not zero modulo the order always succeeds, and
  the 64 bytes it returns are accepted for the public key of the signer, whichever nonce
  function is used.\<close>

theorem schnorr_sign_verifies:
  assumes ctx: "secp_ctx_ok ctx" and pk: "secp256k1_ec_pubkey_create ctx seckey = (True, pk)"
    and f: "(case noncefp of None \<Rightarrow> secp256k1_nonce_function_bipschnorr | Some f \<Rightarrow> f) msg32 seckey None ndata 0 = Some buf"
    and k: "\<not> secp256k1_scalar_is_zero (fst (secp256k1_scalar_set_b32 buf))"
  shows "\<exists>sg neg'. secp256k1_schnorrsig_sign ctx sg0 neg msg32 seckey noncefp ndata = (True, sg, neg') \<and> length sg = 64 \<and>
    secp256k1_schnorrsig_verify ctx sg msg32 pk"
proof -
  note key = created_key [OF ctx pk]
  have "bytes_scalar buf \<noteq> 0" using k scalar_is_zero_iff [OF set_b32_bytes(1) [of buf]] by simp
  from schnorrsig_sign_is [OF ctx key(1) f this] show ?thesis
    using schnorrsig_verify_is [OF ctx key(2)] by blast
qed

theorem schnorr_sign_verifies_witness:
  "\<exists>sg neg'. secp256k1_schnorrsig_sign sample_secp_ctx [] None zero32 one32 (Some sample_nonce) None = (True, sg, neg') \<and>
     secp256k1_schnorrsig_verify sample_secp_ctx sg zero32 (pubkey_of curve_G)"
proof -
  have k: "\<not> secp256k1_scalar_is_zero (fst (secp256k1_scalar_set_b32 one32))"
    using scalar_is_zero_iff [OF set_b32_bytes(1) [of one32]] by (simp add: one32_scalar)
  from schnorr_sign_verifies [OF sample_secp_ctx_ok created_one schnorr_sample_nonce_scalar k, of "[]" None] show ?thesis by blast
qed

end
