(* ===== verification/Boquila.thy ===== *)
theory Boquila
  imports Ring
begin

text \<open>
  Translation of \<^verbatim>\<open>modules/ringcip/main_impl.h\<close>: master keys, service keys, the membership
  proofs (plain and with topics and nullifiers) and the authentication of a service key. A public
  key is its 33 bytes. \<open>Inl Illegal_argument\<close> is a failing \<^verbatim>\<open>ARG_CHECK\<close>, \<open>Inl Failure\<close> a
  plain \<^verbatim>\<open>return 0\<close>. An \<^verbatim>\<open>int\<close> that \<^verbatim>\<open>ARG_CHECK\<close> compares with a bound is an integer.
\<close>

type_synonym pk_t = "u8 list"

section \<open>Contexts\<close>

definition boquila_gen_seed :: "u8 list" where
  "boquila_gen_seed = replicate 32 0xff"

definition boquila_get_context :: "secp256k1_generator \<Rightarrow> nat \<Rightarrow> secp256k1_ecmult_gen_context \<Rightarrow> nat \<Rightarrow> nat \<Rightarrow> nat \<Rightarrow> ringcip_context option" where
  "boquila_get_context geng0 fuel ctx L n m = secp256k1_ringcip_context_create geng0 fuel ctx L n m boquila_gen_seed None"

definition boquila_get_DBPoE_context ::
    "nat \<Rightarrow> secp256k1_ecmult_gen_context \<Rightarrow> nat \<Rightarrow> nat \<Rightarrow> nat \<Rightarrow> u8 list \<Rightarrow> nat \<Rightarrow> ringcip_DBPoE_context option" where
  "boquila_get_DBPoE_context fuel ctx L n m topics topic_size =
     secp256k1_ringcip_DBPoE_context_create fuel ctx L n m boquila_gen_seed topics topic_size"

section \<open>Keys\<close>

definition secp256k1_boquila_gen_mpk :: "ringcip_context \<Rightarrow> u8 list \<Rightarrow> ring_error + pk_t" where
  "secp256k1_boquila_gen_mpk rctx msk = (
     let tmpG = secp256k1_generator_load (rctx_geng rctx);
         (scalara, overflow) = secp256k1_scalar_set_b32 msk
     in if overflow then Inl Failure
        else
          let tmpj = secp256k1_ecmult_const tmpG scalara 256;
              tmp = fst (secp256k1_ge_set_gej tmpj)
          in Inr (secp256k1_ge_save_boquila tmp))"

text \<open>
  The values hidden in a master key: the key and, for each topic \<open>j\<close>, the hash of the key, the
  first \<open>j * 32\<close> bytes of the topics and the prefix. Their overflow flag is not looked at.
\<close>

definition nullifier_prefix :: "u8 list" where
  "nullifier_prefix = replicate 4 0xa"

definition boquila_topic_value :: "ringcip_DBPoE_context \<Rightarrow> u8 list \<Rightarrow> nat \<Rightarrow> secp256k1_scalar" where
  "boquila_topic_value rctx msk j = (
     let buf = sha256_parts [take 32 msk, take (j * 32) (dctx_topics rctx), nullifier_prefix]
     in fst (secp256k1_scalar_set_b32 buf))"

definition boquila_values :: "ringcip_DBPoE_context \<Rightarrow> u8 list \<Rightarrow> secp256k1_scalar \<Rightarrow> secp256k1_scalar list" where
  "boquila_values rctx msk v0 = v0 # map (boquila_topic_value rctx msk) [1 ..< dctx_topic_size rctx + 1]"

definition boquila_load_geng :: "ringcip_DBPoE_context \<Rightarrow> secp256k1_ge list" where
  "boquila_load_geng rctx = map (\<lambda>j. secp256k1_generator_load (dctx_geng rctx ! j)) [0 ..< dctx_topic_size rctx + 1]"

definition secp256k1_boquila_gen_DBPoE_mpk :: "ringcip_DBPoE_context \<Rightarrow> u8 list \<Rightarrow> ring_error + pk_t" where
  "secp256k1_boquila_gen_DBPoE_mpk rctx msk = (
     let geng = boquila_load_geng rctx;
         (v0, overflow) = secp256k1_scalar_set_b32 msk
     in if overflow then Inl Failure
        else
          let vals = boquila_values rctx msk v0;
              tmp = ring_pow (geng ! 0) (vals ! 0);
              tmp = fold (\<lambda>j. ring_mul_pow (geng ! j) (vals ! j)) [1 ..< dctx_topic_size rctx + 1] tmp
          in Inr (secp256k1_ge_save_boquila tmp))"

text \<open>
  The length of the name is an \<^verbatim>\<open>int\<close> that the hash takes as a \<^verbatim>\<open>size_t\<close>, so that a negative one is
  a huge one. What the hash then reads beyond the end of the name is not modelled: the bytes are those of
  the C function for lengths up to that of the name.
\<close>

definition secp256k1_boquila_derive_ssk :: "u8 list \<Rightarrow> u8 list \<Rightarrow> int \<Rightarrow> ring_error + u8 list" where
  "secp256k1_boquila_derive_ssk msk name name_len =
     (if \<not> name_len \<noteq> 0 then Inl Illegal_argument
      else Inr (sha256_parts [take 32 msk, take (unat (word_of_int name_len :: u64)) name]))"

definition secp256k1_boquila_derive_spk :: "ringcip_context \<Rightarrow> u8 list \<Rightarrow> ring_error + pk_t" where
  "secp256k1_boquila_derive_spk rctx csk = (
     let tmpG = secp256k1_generator_load (rctx_geng rctx);
         (scalarb, overflow) = secp256k1_scalar_set_b32 csk
     in if overflow then Inl Failure
        else
          let tmpj = secp256k1_ecmult_const tmpG scalarb 256;
              tmp = fst (secp256k1_ge_set_gej tmpj)
          in Inr (secp256k1_ge_save_boquila tmp))"

definition secp256k1_boquila_derive_DBPoE_spk :: "ringcip_DBPoE_context \<Rightarrow> u8 list \<Rightarrow> ring_error + pk_t" where
  "secp256k1_boquila_derive_DBPoE_spk rctx csk = (
     let tmpG = secp256k1_generator_load (dctx_geng rctx ! 0);
         (scalarb, overflow) = secp256k1_scalar_set_b32 csk
     in if overflow then Inl Failure
        else
          let tmpj = secp256k1_ecmult_const tmpG scalarb 256;
              tmp = fst (secp256k1_ge_set_gej tmpj)
          in Inr (secp256k1_ge_save_boquila tmp))"

section \<open>Membership\<close>

definition boquila_challenge :: "pk_t \<Rightarrow> u8 list \<Rightarrow> u8 list \<Rightarrow> nat \<Rightarrow> u8 list" where
  "boquila_challenge spk W name name_len = sha256_parts [spk, take 32 W, take name_len name]"

definition secp256k1_boquila_prove_memmpk ::
    "ringcip_context \<Rightarrow> pk_t list \<Rightarrow> u8 list \<Rightarrow> u8 list \<Rightarrow> u8 list \<Rightarrow> nat \<Rightarrow> pk_t \<Rightarrow> nat \<Rightarrow> nat \<Rightarrow> nat \<Rightarrow>
     secp256k1_rfc6979_hmac_sha256 \<Rightarrow> (ring_error + u8 list) \<times> secp256k1_rfc6979_hmac_sha256" where
  "secp256k1_boquila_prove_memmpk rctx mpks msk W name name_len spk j N m rng = (
     let (scalara, overflow) = secp256k1_scalar_set_b32 msk
     in if overflow then (Inl Failure, rng)
        else
          let chalBuf = boquila_challenge spk W name name_len;
              cints = map (\<lambda>i. \<lparr>cint_buf = mpks ! i\<rparr>) [0 ..< N]
          in secp256k1_create_zero_mcom_proof rctx cints j scalara N m chalBuf rng)"

definition secp256k1_boquila_verify_memmpk ::
    "ringcip_context \<Rightarrow> u8 list \<Rightarrow> pk_t list \<Rightarrow> u8 list \<Rightarrow> u8 list \<Rightarrow> nat \<Rightarrow> pk_t \<Rightarrow> nat \<Rightarrow> nat \<Rightarrow> ring_error + unit" where
  "secp256k1_boquila_verify_memmpk rctx proof mpks W name name_len spk N m = (
     let chalBuf = boquila_challenge spk W name name_len;
         cints = map (\<lambda>i. \<lparr>cint_buf = mpks ! i\<rparr>) [0 ..< N]
     in secp256k1_verify_zero_mcom_proof rctx proof cints N m chalBuf)"

text \<open>The ring with the topic's part divided out: \<open>mpk_i * g_topic^(-nullifier)\<close>.\<close>

definition boquila_strip_topic :: "secp256k1_ge list \<Rightarrow> nat \<Rightarrow> secp256k1_scalar \<Rightarrow> pk_t list \<Rightarrow> nat \<Rightarrow> cint_pt list" where
  "boquila_strip_topic geng topic_index v mpks N = (
     let tmpsc = secp256k1_scalar_negate v;
         tmpspkj = secp256k1_ecmult_const (geng ! topic_index) tmpsc 256
     in map (\<lambda>i.
          let tmpg = secp256k1_ge_load_boquila (mpks ! i);
              tmpj = secp256k1_gej_add_ge tmpspkj tmpg;
              tmp = fst (secp256k1_ge_set_gej tmpj)
          in \<lparr>cint_buf = secp256k1_ge_save_boquila tmp\<rparr>) [0 ..< N])"

text \<open>The result also holds the nullifier, which is written before the proof is attempted.\<close>

definition secp256k1_boquila_prove_DBPoE_memmpk ::
    "ringcip_DBPoE_context \<Rightarrow> pk_t list \<Rightarrow> u8 list \<Rightarrow> u8 list \<Rightarrow> u8 list \<Rightarrow> nat \<Rightarrow> pk_t \<Rightarrow> nat \<Rightarrow> int \<Rightarrow> nat \<Rightarrow> nat \<Rightarrow>
     secp256k1_rfc6979_hmac_sha256 \<Rightarrow> ((ring_error + u8 list) \<times> u8 list option) \<times> secp256k1_rfc6979_hmac_sha256" where
  "secp256k1_boquila_prove_DBPoE_memmpk rctx mpks msk W name name_len spk j topic_index N m rng =
     (if \<not> topic_index > 0 then ((Inl Illegal_argument, None), rng)
      else if \<not> topic_index < int (dctx_topic_size rctx) then ((Inl Illegal_argument, None), rng)
      else
        let geng = boquila_load_geng rctx;
            chalBuf = boquila_challenge spk W name name_len;
            (v0, overflow) = secp256k1_scalar_set_b32 msk
        in if overflow then ((Inl Failure, None), rng)
           else
             let vals = boquila_values rctx msk v0;
                 nullifier = secp256k1_scalar_get_b32 (vals ! nat topic_index);
                 cints = boquila_strip_topic geng (nat topic_index) (vals ! nat topic_index) mpks N;
                 (res, rng) = secp256k1_create_zero_mcom_DBPoE_proof rctx cints j vals N (nat topic_index) m chalBuf rng
             in ((res, Some nullifier), rng))"

definition secp256k1_boquila_verify_DBPoE_memmpk ::
    "ringcip_DBPoE_context \<Rightarrow> u8 list \<Rightarrow> u8 list \<Rightarrow> pk_t list \<Rightarrow> u8 list \<Rightarrow> u8 list \<Rightarrow> nat \<Rightarrow> pk_t \<Rightarrow> int \<Rightarrow> nat \<Rightarrow> nat \<Rightarrow>
     ring_error + unit" where
  "secp256k1_boquila_verify_DBPoE_memmpk rctx proof nullifier mpks W name name_len spk topic_index N m =
     (if \<not> topic_index > 0 then Inl Illegal_argument
      else if \<not> topic_index < int (dctx_topic_size rctx) then Inl Illegal_argument
      else
        let geng = boquila_load_geng rctx;
            chalBuf = boquila_challenge spk W name name_len;
            tmpsc = fst (secp256k1_scalar_set_b32 nullifier);
            cints = boquila_strip_topic geng (nat topic_index) tmpsc mpks N
        in secp256k1_verify_zero_mcom_DBPoE_proof rctx proof cints N (nat topic_index) m chalBuf)"

section \<open>Authentication\<close>

definition boquila_auth_challenge :: "pk_t \<Rightarrow> u8 list \<Rightarrow> u8 list \<Rightarrow> secp256k1_scalar" where
  "boquila_auth_challenge spk chal Rbuf = (
     let buf = sha256_parts [spk, take 32 chal, Rbuf]
     in fst (secp256k1_scalar_set_b32 buf))"

text \<open>
  The prover does not look at what the derivation of the service key returns: \<^verbatim>\<open>csk0\<close> is what the
  uninitialised array \<^verbatim>\<open>csk\<close> holds before, and what it still holds when the derivation has refused.
\<close>

definition secp256k1_boquila_auth_prove ::
    "u8 list \<Rightarrow> ringcip_context \<Rightarrow> u8 list \<Rightarrow> u8 list \<Rightarrow> u8 list \<Rightarrow> int \<Rightarrow> pk_t \<Rightarrow> u8 list \<Rightarrow> ring_error + u8 list" where
  "secp256k1_boquila_auth_prove csk0 rctx msk r name name_len spk chal = (
     let csk = (case secp256k1_boquila_derive_ssk msk name name_len of Inl e \<Rightarrow> csk0 | Inr csk \<Rightarrow> csk);
         (scalara, overflow) = secp256k1_scalar_set_b32 csk
     in if overflow then Inl Failure
        else
          let ra = fst (secp256k1_scalar_set_b32 r)
          in if secp256k1_scalar_is_zero ra then Inl Failure
             else
               let tmpG = secp256k1_generator_load (rctx_geng rctx);
                   tmpGj = secp256k1_ecmult_const tmpG ra 256;
                   tmp = fst (secp256k1_ge_set_gej tmpGj);
                   Rbuf = secp256k1_ge_save_boquila tmp;
                   x = boquila_auth_challenge spk chal Rbuf;
                   scalara = secp256k1_scalar_mul x scalara;
                   sa = snd (secp256k1_scalar_add scalara ra)
               in Inr (Rbuf @ secp256k1_scalar_get_b32 sa))"

definition secp256k1_boquila_auth_verify :: "ringcip_context \<Rightarrow> u8 list \<Rightarrow> pk_t \<Rightarrow> u8 list \<Rightarrow> bool" where
  "secp256k1_boquila_auth_verify rctx proof spk chal = (
     let Rbuf = take 33 proof;
         sa = fst (secp256k1_scalar_set_b32 (drop 33 proof));
         tmpG = secp256k1_generator_load (rctx_geng rctx);
         x = boquila_auth_challenge spk chal Rbuf;
         tmp = secp256k1_ge_load_boquila spk;
         tmpGj = secp256k1_ecmult_const tmp x 256;
         tmp = secp256k1_ge_load_boquila Rbuf;
         tmpGj = secp256k1_gej_add_ge tmpGj tmp;
         tmp = fst (secp256k1_ge_set_gej tmpGj);
         LHS = secp256k1_ge_save_boquila tmp;
         tmpGj = secp256k1_ecmult_const tmpG sa 256;
         tmp = fst (secp256k1_ge_set_gej tmpGj);
         RHS = secp256k1_ge_save_boquila tmp
     in LHS = RHS)"

definition secp256k1_boquila_DBPoE_auth_prove ::
    "u8 list \<Rightarrow> ringcip_DBPoE_context \<Rightarrow> u8 list \<Rightarrow> u8 list \<Rightarrow> u8 list \<Rightarrow> int \<Rightarrow> pk_t \<Rightarrow> u8 list \<Rightarrow> ring_error + u8 list" where
  "secp256k1_boquila_DBPoE_auth_prove csk0 rctx msk r name name_len spk chal = (
     let csk = (case secp256k1_boquila_derive_ssk msk name name_len of Inl e \<Rightarrow> csk0 | Inr csk \<Rightarrow> csk);
         (scalara, overflow) = secp256k1_scalar_set_b32 csk
     in if overflow then Inl Failure
        else
          let ra = fst (secp256k1_scalar_set_b32 r)
          in if secp256k1_scalar_is_zero ra then Inl Failure
             else
               let tmpG = secp256k1_generator_load (dctx_geng rctx ! 0);
                   tmpGj = secp256k1_ecmult_const tmpG ra 256;
                   tmp = fst (secp256k1_ge_set_gej tmpGj);
                   Rbuf = secp256k1_ge_save_boquila tmp;
                   x = boquila_auth_challenge spk chal Rbuf;
                   scalara = secp256k1_scalar_mul x scalara;
                   sa = snd (secp256k1_scalar_add scalara ra)
               in Inr (Rbuf @ secp256k1_scalar_get_b32 sa))"

definition secp256k1_boquila_DBPoE_auth_verify :: "ringcip_DBPoE_context \<Rightarrow> u8 list \<Rightarrow> pk_t \<Rightarrow> u8 list \<Rightarrow> bool" where
  "secp256k1_boquila_DBPoE_auth_verify rctx proof spk chal = (
     let Rbuf = take 33 proof;
         sa = fst (secp256k1_scalar_set_b32 (drop 33 proof));
         tmpG = secp256k1_generator_load (dctx_geng rctx ! 0);
         x = boquila_auth_challenge spk chal Rbuf;
         tmp = secp256k1_ge_load_boquila spk;
         tmpGj = secp256k1_ecmult_const tmp x 256;
         tmp = secp256k1_ge_load_boquila Rbuf;
         tmpGj = secp256k1_gej_add_ge tmpGj tmp;
         tmp = fst (secp256k1_ge_set_gej tmpGj);
         LHS = secp256k1_ge_save_boquila tmp;
         tmpGj = secp256k1_ecmult_const tmpG sa 256;
         tmp = fst (secp256k1_ge_set_gej tmpGj);
         RHS = secp256k1_ge_save_boquila tmp
     in LHS = RHS)"

end
