(* ===== verification/Ring_Proof.thy ===== *)
theory Ring_Proof
  imports Ring_Law
begin

text \<open>
  The one-out-of-many proof: each check of the verifier decides an equation between points, and
  the values the prover computes satisfy the equations for every challenge.
\<close>

section \<open>The two commitment checks\<close>

lemma check_bytes:
  assumes "ge_is 1 P a" "P \<noteq> 0" "ge_is 1 Q b" "Q \<noteq> 0"
  shows "(secp256k1_ge_save_boquila a = secp256k1_ge_save_boquila b) = (P = Q)"
  by (rule ge_save_eq_iff [OF assms])

lemma ring_check_AB_iff:
  assumes h: "ge_is 1 H tmpH" "H \<noteq> 0" and g: "gens_ok (n * m) gs P"
    and A: "ge_is 1 PA A" "PA \<noteq> 0" and B: "ge_is 1 PB B" "PB \<noteq> 0" and x: "sc_is x sx" and z: "sc_is z sz"
    and f: "\<And>j i. j < m \<Longrightarrow> i < n \<Longrightarrow> sc_is (fv j i) (f ! j ! i)"
    and fin: "accs_finite (smul z H) (mat_terms n m fv P)" and lhs: "PA + smul x PB \<noteq> 0"
  shows "ring_check_AB gs tmpH n m A B f sx sz \<longleftrightarrow> PA + smul x PB = smul z H + sum_list (mat_terms n m fv P)"
  using check_bytes [OF ring_mul_pow_is [OF B x A] lhs ring_commit_is [OF h z g f fin]]
  by (simp add: ring_check_AB_def)

lemma fold_scalar_minus_f:
  assumes "sc_is y f" "sc_is x s"
  shows "sc_is ((x - y) * y) (secp256k1_scalar_mul (snd (secp256k1_scalar_add (secp256k1_scalar_negate f) s)) f)"
  using secp256k1_scalar_mul_is [OF secp256k1_scalar_add_is [OF secp256k1_scalar_negate_is [OF assms(1)] assms(2)] assms(1)]
  by simp

lemma ring_check_CD_iff:
  assumes h: "ge_is 1 H tmpH" "H \<noteq> 0" and g: "gens_ok (n * m) gs P"
    and C: "ge_is 1 PC C" "PC \<noteq> 0" and D: "ge_is 1 PD D" "PD \<noteq> 0" and x: "sc_is x sx" and z: "sc_is z sz"
    and f: "\<And>j i. j < m \<Longrightarrow> i < n \<Longrightarrow> sc_is (fv j i) (f ! j ! i)"
    and fin: "accs_finite (smul z H) (mat_terms n m (\<lambda>j i. (x - fv j i) * fv j i) P)" and lhs: "PD + smul x PC \<noteq> 0"
  shows "ring_check_CD gs tmpH n m C D f sx sz \<longleftrightarrow>
    PD + smul x PC = smul z H + sum_list (mat_terms n m (\<lambda>j i. (x - fv j i) * fv j i) P)"
  using check_bytes [OF ring_mul_pow_is [OF C x D] lhs ring_commit_is [OF h z g fold_scalar_minus_f [OF f x] fin]]
  by (simp add: ring_check_CD_def)

section \<open>The prover's commitments\<close>

text \<open>The indicator of the index's digits.\<close>

definition idx_delta :: "nat \<Rightarrow> nat \<Rightarrow> nat \<Rightarrow> nat \<Rightarrow> fn" where
  "idx_delta n index j i = of_bool (get_jth j n index = i)"

lemma sc_set_of_bool: "sc_is (of_bool b) (secp256k1_scalar_set_int (of_bool b))"
  using secp256k1_scalar_set_int_is [of "of_bool b"] by (cases b) simp_all

lemma idx_delta_is: "sc_is (idx_delta n index j i) (secp256k1_scalar_set_int (of_bool (get_jth j n index = i)))"
  unfolding idx_delta_def by (rule sc_set_of_bool)

text \<open>What the responses \<open>f\<close> are.\<close>

definition resp_f :: "nat \<Rightarrow> nat \<Rightarrow> (nat \<Rightarrow> nat \<Rightarrow> fn) \<Rightarrow> fn \<Rightarrow> nat \<Rightarrow> nat \<Rightarrow> fn" where
  "resp_f n index a x j i = idx_delta n index j i * x + a j i"

lemma ring_response_f_is:
  assumes "sc_is (av j i) (a ! j ! i)" "sc_is x sx" "j < m" "i < n"
  shows "sc_is (resp_f n index av x j i) (ring_response_f n m index a sx ! j ! i)"
  using assms secp256k1_scalar_add_is [OF secp256k1_scalar_mul_is [OF idx_delta_is assms(2)] assms(1)]
  by (simp add: ring_response_f_def resp_f_def)

lemma ring_response_zA_is:
  "sc_is x sx \<Longrightarrow> sc_is b rB \<Longrightarrow> sc_is a rA \<Longrightarrow> sc_is (x * b + a) (ring_response_zA sx rB rA)"
  unfolding ring_response_zA_def by (rule secp256k1_scalar_add_is [OF secp256k1_scalar_mul_is])

text \<open>The coefficients committed to in C and D.\<close>

lemma ring_com_C_coeff:
  assumes "sc_is y f"
  shows "sc_is ((1 - 2 * of_bool b) * y) (secp256k1_scalar_mul (snd (secp256k1_scalar_add
    (secp256k1_scalar_negate (secp256k1_scalar_set_int (2 * of_bool b))) (secp256k1_scalar_set_int 1))) f)"
proof -
  have "sc_is (2 * of_bool b) (secp256k1_scalar_set_int (2 * of_bool b))"
    using secp256k1_scalar_set_int_is [of "2 * of_bool b"] by (cases b) simp_all
  moreover have "sc_is 1 (secp256k1_scalar_set_int 1)" using sc_set_of_bool [of True] by simp
  ultimately have "sc_is ((- (2 * of_bool b) + 1) * y) (secp256k1_scalar_mul (snd (secp256k1_scalar_add
      (secp256k1_scalar_negate (secp256k1_scalar_set_int (2 * of_bool b))) (secp256k1_scalar_set_int 1))) f)"
    by (intro secp256k1_scalar_mul_is secp256k1_scalar_add_is secp256k1_scalar_negate_is assms)
  then show ?thesis by (simp add: add.commute)
qed

lemma ring_com_D_coeff: "sc_is y f \<Longrightarrow> sc_is (- (y * y)) (secp256k1_scalar_negate (secp256k1_scalar_mul f f))"
  by (intro secp256k1_scalar_negate_is secp256k1_scalar_mul_is)

lemma ring_com_C_coeff_idx:
  "sc_is y f \<Longrightarrow> sc_is ((1 - 2 * idx_delta n index j i) * y) (let tmp = secp256k1_scalar_set_int (2 * of_bool (get_jth j n index = i));
      tmp = secp256k1_scalar_negate tmp; tmp1 = secp256k1_scalar_set_int 1; tmp = snd (secp256k1_scalar_add tmp tmp1)
    in secp256k1_scalar_mul tmp f)"
  unfolding Let_def idx_delta_def by (rule ring_com_C_coeff)

section \<open>Homomorphic commitments\<close>

text \<open>
  What the proof needs of its commitments: they are linear in the blinding factor and in the
  committed values, and depend on the values at the indices in use only.
\<close>

locale linear_commitment =
  fixes com :: "fn \<Rightarrow> (nat \<Rightarrow> nat \<Rightarrow> fn) \<Rightarrow> 'p::ab_group_add"
    and scl :: "fn \<Rightarrow> 'p \<Rightarrow> 'p"
    and used :: "nat \<Rightarrow> nat \<Rightarrow> bool"
  assumes com_linear: "com r1 e + scl x (com r2 d) = com (x * r2 + r1) (\<lambda>j i. x * d j i + e j i)"
    and com_cong: "(\<And>j i. used j i \<Longrightarrow> d j i = e j i) \<Longrightarrow> com r d = com r e"
begin

text \<open>The openings of \<open>A\<close>, \<open>B\<close> and of \<open>C\<close>, \<open>D\<close> combine, for every challenge.\<close>

lemma open_AB: "com ra av + scl x (com rb (idx_delta n index)) = com (x * rb + ra) (resp_f n index av x)"
  unfolding com_linear by (rule com_cong) (simp add: resp_f_def mult.commute)

lemma open_CD:
  "com rd (\<lambda>j i. - (av j i * av j i)) + scl x (com rc (\<lambda>j i. (1 - 2 * idx_delta n index j i) * av j i)) =
    com (x * rc + rd) (\<lambda>j i. (x - resp_f n index av x j i) * resp_f n index av x j i)"
  unfolding com_linear by (rule com_cong) (auto simp: resp_f_def idx_delta_def algebra_simps)

end

text \<open>The commitments of the code.\<close>

definition ring_value :: "cpoint \<Rightarrow> nat \<Rightarrow> nat \<Rightarrow> (nat \<Rightarrow> cpoint) \<Rightarrow> fn \<Rightarrow> (nat \<Rightarrow> nat \<Rightarrow> fn) \<Rightarrow> cpoint" where
  "ring_value H n m P r e = smul r H + sum_list (mat_terms n m e P)"

interpretation ring_value: linear_commitment "ring_value H n m P" smul "\<lambda>j i. j < m \<and> i < n"
  for H n m P
proof
  fix r1 e x r2 d
  show "ring_value H n m P r1 e + smul x (ring_value H n m P r2 d) =
      ring_value H n m P (x * r2 + r1) (\<lambda>j i. x * d j i + e j i)"
    unfolding ring_value_def mat_terms_add mat_terms_scale
    by (simp add: curve.scale_right_distrib curve.scale_left_distrib ac_simps)
next
  fix d e :: "nat \<Rightarrow> nat \<Rightarrow> fn" and r
  assume "\<And>j i. j < m \<and> i < n \<Longrightarrow> d j i = e j i"
  then show "ring_value H n m P r d = ring_value H n m P r e"
    unfolding ring_value_def using mat_terms_cong [of m n d e P] by simp
qed

text \<open>The accumulators of a commitment stay finite.\<close>

definition ring_value_ok :: "cpoint \<Rightarrow> nat \<Rightarrow> nat \<Rightarrow> (nat \<Rightarrow> cpoint) \<Rightarrow> fn \<Rightarrow> (nat \<Rightarrow> nat \<Rightarrow> fn) \<Rightarrow> bool" where
  "ring_value_ok H n m P r e \<longleftrightarrow> accs_finite (smul r H) (mat_terms n m e P)"

lemma ring_value_neq_0: "ring_value_ok H n m P r e \<Longrightarrow> ring_value H n m P r e \<noteq> 0"
  unfolding ring_value_ok_def ring_value_def using accs_finite_ends by blast

lemma ring_coms_are:
  assumes h: "ge_is 1 H tmpH" "H \<noteq> 0" and g: "gens_ok (n * m) gs P"
    and a: "\<And>j i. j < m \<Longrightarrow> i < n \<Longrightarrow> sc_is (av j i) (a ! j ! i)" and r: "sc_is r s"
  shows "ring_value_ok H n m P r av \<Longrightarrow> ge_is 1 (ring_value H n m P r av) (ring_com_A gs tmpH n m a s)"
    and "ring_value_ok H n m P r (idx_delta n index) \<Longrightarrow>
      ge_is 1 (ring_value H n m P r (idx_delta n index)) (ring_com_B gs tmpH n m index s)"
    and "ring_value_ok H n m P r (\<lambda>j i. (1 - 2 * idx_delta n index j i) * av j i) \<Longrightarrow>
      ge_is 1 (ring_value H n m P r (\<lambda>j i. (1 - 2 * idx_delta n index j i) * av j i)) (ring_com_C gs tmpH n m index a s)"
    and "ring_value_ok H n m P r (\<lambda>j i. - (av j i * av j i)) \<Longrightarrow>
      ge_is 1 (ring_value H n m P r (\<lambda>j i. - (av j i * av j i))) (ring_com_D gs tmpH n m a s)"
  unfolding ring_com_A_def ring_com_B_def ring_com_C_def ring_com_D_def ring_value_def ring_value_ok_def
  by (rule ring_commit_is(1) [OF h r g a] ring_commit_is(1) [OF h r g idx_delta_is]
      ring_commit_is(1) [OF h r g ring_com_C_coeff_idx [OF a]] ring_commit_is(1) [OF h r g ring_com_D_coeff [OF a]]; assumption)+

text \<open>The honest responses pass both checks.\<close>

lemma ring_checks_complete:
  assumes h: "ge_is 1 H tmpH" "H \<noteq> 0" and g: "gens_ok (n * m) gs P"
    and f: "\<And>j i. j < m \<Longrightarrow> i < n \<Longrightarrow> sc_is (resp_f n index av x j i) (f ! j ! i)" and x: "sc_is x sx"
    and A: "ge_is 1 (ring_value H n m P ra av) A" "ring_value_ok H n m P ra av"
    and B: "ge_is 1 (ring_value H n m P rb (idx_delta n index)) B" "ring_value_ok H n m P rb (idx_delta n index)"
    and C: "ge_is 1 (ring_value H n m P rc (\<lambda>j i. (1 - 2 * idx_delta n index j i) * av j i)) C"
      "ring_value_ok H n m P rc (\<lambda>j i. (1 - 2 * idx_delta n index j i) * av j i)"
    and D: "ge_is 1 (ring_value H n m P rd (\<lambda>j i. - (av j i * av j i))) D" "ring_value_ok H n m P rd (\<lambda>j i. - (av j i * av j i))"
    and zA: "sc_is (x * rb + ra) sA" "ring_value_ok H n m P (x * rb + ra) (resp_f n index av x)"
    and zC: "sc_is (x * rc + rd) sC"
      "ring_value_ok H n m P (x * rc + rd) (\<lambda>j i. (x - resp_f n index av x j i) * resp_f n index av x j i)"
  shows "ring_check_AB gs tmpH n m A B f sx sA" and "ring_check_CD gs tmpH n m C D f sx sC"
proof -
  have "ring_value H n m P ra av + smul x (ring_value H n m P rb (idx_delta n index)) \<noteq> 0"
    unfolding ring_value.open_AB by (rule ring_value_neq_0 [OF zA(2)])
  from ring_check_AB_iff [OF h g A(1) ring_value_neq_0 [OF A(2)] B(1) ring_value_neq_0 [OF B(2)] x zA(1) f _ this] zA(2)
  show "ring_check_AB gs tmpH n m A B f sx sA"
    unfolding ring_value_ok_def using ring_value.open_AB by (simp add: ring_value_def)
  have "ring_value H n m P rd (\<lambda>j i. - (av j i * av j i)) + smul x (ring_value H n m P rc (\<lambda>j i. (1 - 2 * idx_delta n index j i) * av j i)) \<noteq> 0"
    unfolding ring_value.open_CD by (rule ring_value_neq_0 [OF zC(2)])
  from ring_check_CD_iff [OF h g C(1) ring_value_neq_0 [OF C(2)] D(1) ring_value_neq_0 [OF D(2)] x zC(1) f _ this] zC(2)
  show "ring_check_CD gs tmpH n m C D f sx sC"
    unfolding ring_value_ok_def ring_value.open_CD by (simp add: ring_value_def)
qed
section \<open>The polynomials\<close>

text \<open>Multiplication of coefficients by \<open>A + D X\<close>.\<close>

definition poly_step :: "fn \<Rightarrow> fn \<Rightarrow> (nat \<Rightarrow> fn) \<Rightarrow> nat \<Rightarrow> fn" where
  "poly_step A D c d = A * c d + (case d of 0 \<Rightarrow> 0 | Suc e \<Rightarrow> D * c e)"

definition poly_eval :: "(nat \<Rightarrow> fn) \<Rightarrow> nat \<Rightarrow> fn \<Rightarrow> fn" where
  "poly_eval c k x = (\<Sum>d < k. c d * x ^ d)"

lemma poly_eval_step:
  assumes "c k = 0"
  shows "poly_eval (poly_step A D c) (Suc k) x = (A + D * x) * poly_eval c k x"
proof -
  have "poly_eval (poly_step A D c) (Suc k) x = (\<Sum>d < Suc k. A * c d * x ^ d) + (\<Sum>d < Suc k. (case d of 0 \<Rightarrow> 0 | Suc e \<Rightarrow> D * c e) * x ^ d)"
    by (simp add: poly_eval_def poly_step_def distrib_right sum.distrib del: sum.lessThan_Suc)
  also have "(\<Sum>d < Suc k. A * c d * x ^ d) = A * poly_eval c k x"
    using assms by (simp add: poly_eval_def sum_distrib_left mult.assoc)
  also have "(\<Sum>d < Suc k. (case d of 0 \<Rightarrow> 0 | Suc e \<Rightarrow> D * c e) * x ^ d) = D * x * poly_eval c k x"
    by (simp add: sum.lessThan_Suc_shift poly_eval_def sum_distrib_left ac_simps del: sum.lessThan_Suc)
  finally show ?thesis by (simp add: distrib_right)
qed

definition coeffs_are :: "(nat \<Rightarrow> fn) \<Rightarrow> nat \<Rightarrow> secp256k1_scalar list \<Rightarrow> bool" where
  "coeffs_are c k p \<longleftrightarrow> k = length p \<and> (\<forall>d < k. sc_is (c d) (p ! d))"

lemma scalar_copy_is: "sc_is x s \<Longrightarrow> sc_is x (snd (secp256k1_scalar_add (secp256k1_scalar_set_int 0) s))"
  using secp256k1_scalar_add_is [OF sc_set_of_bool [of False]] by simp

text \<open>The in-place loop: below \<open>k\<close> the new coefficients, from \<open>k\<close> on the old ones.\<close>

lemma ring_poly_coeff_fold:
  assumes p: "\<And>d. d \<le> j \<Longrightarrow> sc_is (c d) (p ! d)" and j: "j < length p" and A: "sc_is A tmpA" and D: "sc_is D tmpD"
    and p0: "p' = p[0 := secp256k1_scalar_mul (p ! 0) tmpA]" and t: "sc_is (c 0) tmpP"
  shows "1 \<le> k \<Longrightarrow> k \<le> j + 1 \<Longrightarrow> fold (ring_poly_coeff tmpA tmpD) [1 ..< k] (p', tmpP) = (q, w) \<Longrightarrow>
    length q = length p \<and> sc_is (c (k - 1)) w \<and> (\<forall>d < k. sc_is (poly_step A D c d) (q ! d)) \<and> (\<forall>d \<ge> k. q ! d = p ! d)"
proof (induction k arbitrary: q w)
  case (Suc k)
  show ?case
  proof (cases "k = 0")
    case True
    then have "q = p'" "w = tmpP" using Suc.prems by simp_all
    moreover have "0 < length p" using j by linarith
    moreover have "sc_is (A * c 0) (secp256k1_scalar_mul (p ! 0) tmpA)"
      using secp256k1_scalar_mul_is [OF p [of 0] A] by (simp add: mult.commute)
    ultimately show ?thesis using True p0 t j by (auto simp: poly_step_def)
  next
    case False
    obtain q0 w0 where f: "fold (ring_poly_coeff tmpA tmpD) [1 ..< k] (p', tmpP) = (q0, w0)" by fastforce
    have IH: "length q0 = length p" "sc_is (c (k - 1)) w0" "\<forall>d < k. sc_is (poly_step A D c d) (q0 ! d)" "\<forall>d \<ge> k. q0 ! d = p ! d"
      using Suc.IH [OF _ _ f] Suc.prems False by simp_all
    have kl: "k < length q0" using IH(1) Suc.prems j by simp
    have ck: "sc_is (c k) (q0 ! k)" using IH(4) p [of k] Suc.prems by simp
    have st: "ring_poly_coeff tmpA tmpD k (q0, w0) = (q, w)"
      using Suc.prems f False by simp
    then have w: "w = snd (secp256k1_scalar_add (secp256k1_scalar_set_int 0) (q0 ! k))"
      and q: "q = q0[k := snd (secp256k1_scalar_add (secp256k1_scalar_mul (q0 ! k) tmpA) (secp256k1_scalar_mul w0 tmpD))]"
      using kl by (simp_all add: ring_poly_coeff_def Let_def)
    have "sc_is (c k * A + c (k - 1) * D) (snd (secp256k1_scalar_add (secp256k1_scalar_mul (q0 ! k) tmpA) (secp256k1_scalar_mul w0 tmpD)))"
      by (intro secp256k1_scalar_add_is secp256k1_scalar_mul_is ck A D IH(2))
    moreover have "c k * A + c (k - 1) * D = poly_step A D c k" using False by (cases k) (simp_all add: poly_step_def mult.commute)
    ultimately have "sc_is (poly_step A D c k) (q ! k)" using kl by (simp add: q)
    then show ?thesis
      using IH kl scalar_copy_is [OF ck] by (auto simp: q w less_Suc_eq)
  qed
qed simp

lemma ring_poly_mul_is:
  assumes p: "coeffs_are c k p" "\<And>d. j < d \<Longrightarrow> c d = 0" and j: "j + 1 < k" and A: "sc_is A tmpA" and D: "sc_is D tmpD"
  shows "coeffs_are (poly_step A D c) k (ring_poly_mul tmpA tmpD j p)" and "\<And>d. j + 1 < d \<Longrightarrow> poly_step A D c d = 0"
proof -
  define p' where "p' = p[0 := secp256k1_scalar_mul (p ! 0) tmpA]"
  define t where "t = snd (secp256k1_scalar_add (secp256k1_scalar_set_int 0) (p ! 0))"
  have len: "length p = k" and pc: "\<And>d. d < k \<Longrightarrow> sc_is (c d) (p ! d)" using p by (simp_all add: coeffs_are_def)
  have t: "sc_is (c 0) t" unfolding t_def by (rule scalar_copy_is) (use pc j in simp)
  obtain q w where f: "fold (ring_poly_coeff tmpA tmpD) [1 ..< j + 1] (p', t) = (q, w)" by fastforce
  have q: "length q = length p" "sc_is (c j) w" "\<forall>d < j + 1. sc_is (poly_step A D c d) (q ! d)" "\<forall>d \<ge> j + 1. q ! d = p ! d"
    using ring_poly_coeff_fold [where c = c and p = p and j = j and k = "j + 1", OF _ _ A D p'_def t _ _ f] pc j len by simp_all
  have r: "ring_poly_mul tmpA tmpD j p = q[j + 1 := secp256k1_scalar_mul w tmpD]"
    using f by (simp add: ring_poly_mul_def Let_def p'_def t_def)
  have top: "sc_is (poly_step A D c (j + 1)) (secp256k1_scalar_mul w tmpD)"
    using secp256k1_scalar_mul_is [OF q(2) D] p(2) [of "Suc j"] by (simp add: poly_step_def mult.commute)
  show z: "poly_step A D c d = 0" if "j + 1 < d" for d
    using p(2) [of d] p(2) [of "d - 1"] that by (cases d) (simp_all add: poly_step_def)
  show "coeffs_are (poly_step A D c) k (ring_poly_mul tmpA tmpD j p)"
    unfolding coeffs_are_def r
  proof (intro conjI allI impI)
    show "k = length (q[j + 1 := secp256k1_scalar_mul w tmpD])" using q(1) len by simp
    fix d assume d: "d < k"
    consider "d < j + 1" | "d = j + 1" | "j + 1 < d" by linarith
    then show "sc_is (poly_step A D c d) (q[j + 1 := secp256k1_scalar_mul w tmpD] ! d)"
    proof cases
      case 1
      then show ?thesis using q(3) by simp
    next
      case 2
      then show ?thesis using top d q(1) len by simp
    next
      case 3
      then have "sc_is 0 (p ! d)" using pc [OF d] p(2) [of d] by simp
      then show ?thesis using 3 q(4) z [OF 3] by simp
    qed
  qed
qed

text \<open>
  The coefficients of \<open>p\<^sub>t\<close>: their evaluation is the product of the responses at the digits of
  \<open>t\<close>, and the leading one is 1 exactly for the index.
\<close>

fun poly_of :: "nat \<Rightarrow> (nat \<Rightarrow> nat \<Rightarrow> fn) \<Rightarrow> nat \<Rightarrow> nat \<Rightarrow> nat \<Rightarrow> nat \<Rightarrow> fn" where
  "poly_of n a index t 0 = (\<lambda>d. of_bool (d = 0))"
| "poly_of n a index t (Suc j) = poly_step (a j (get_jth j n t)) (idx_delta n index j (get_jth j n t)) (poly_of n a index t j)"

lemma poly_of_above: "j < d \<Longrightarrow> poly_of n a index t j d = 0"
proof (induction j arbitrary: d)
  case (Suc j)
  then show ?case by (cases d) (simp_all add: poly_step_def)
qed simp

lemma poly_of_eval: "poly_eval (poly_of n a index t j) (Suc j) x = (\<Prod>i < j. resp_f n index a x i (get_jth i n t))"
proof (induction j)
  case (Suc j)
  then show ?case
    using poly_eval_step [of "poly_of n a index t j" "Suc j"] by (simp add: poly_of_above resp_f_def ac_simps)
qed (simp add: poly_eval_def)

lemma poly_of_top: "poly_of n a index t j j = (\<Prod>i < j. idx_delta n index i (get_jth i n t))"
  by (induction j) (simp_all add: poly_step_def poly_of_above mult.commute)

lemma poly_of_top_index:
  assumes "index < n ^ m" "t < n ^ m"
  shows "poly_of n a index t m m = of_bool (t = index)"
proof (cases "t = index")
  case True
  then show ?thesis by (simp add: poly_of_top idx_delta_def)
next
  case False
  then obtain j where "j < m" "get_jth j n index \<noteq> get_jth j n t"
    using digits_determine [OF assms(2,1)] by metis
  then show ?thesis using False by (auto simp: poly_of_top idx_delta_def intro!: prod_zero)
qed
lemma ring_poly_fold_is:
  assumes p: "coeffs_are (poly_of n av index t 1) (m + 1) p" and n: "0 < n"
    and a: "\<And>j i. j < m \<Longrightarrow> i < n \<Longrightarrow> sc_is (av j i) (a ! j ! i)"
  shows "1 \<le> k \<Longrightarrow> k \<le> m \<Longrightarrow> coeffs_are (poly_of n av index t k) (m + 1) (fold (\<lambda>j p.
      let tmpA = snd (secp256k1_scalar_add (secp256k1_scalar_set_int 0) (a ! j ! get_jth j n t));
          tmpD = secp256k1_scalar_set_int (of_bool (get_jth j n index = get_jth j n t))
      in ring_poly_mul tmpA tmpD j p) [1 ..< k] p)"
proof (induction k)
  case (Suc k)
  show ?case
  proof (cases "k = 0")
    case False
    have i: "get_jth k n t < n" using n by (simp add: get_jth_is)
    have A: "sc_is (av k (get_jth k n t)) (snd (secp256k1_scalar_add (secp256k1_scalar_set_int 0) (a ! k ! get_jth k n t)))"
      by (rule scalar_copy_is [OF a [OF _ i]]) (use Suc.prems in simp)
    show ?thesis
      using ring_poly_mul_is(1) [OF Suc.IH poly_of_above _ A idx_delta_is] Suc.prems False by (simp add: Let_def)
  qed (use p in simp)
qed simp

lemma ring_poly_is:
  assumes n: "0 < n" and m: "0 < m" and a: "\<And>j i. j < m \<Longrightarrow> i < n \<Longrightarrow> sc_is (av j i) (a ! j ! i)"
  shows "coeffs_are (poly_of n av index t m) (m + 1) (ring_poly n m index a t)"
proof -
  have i: "get_jth 0 n t < n" using n by (simp add: get_jth_is)
  define p where "p = replicate (m + 1) (secp256k1_scalar_set_int 0)"
  define p2 where "p2 = p[0 := snd (secp256k1_scalar_add (p ! 0) (a ! 0 ! get_jth 0 n t)),
    1 := secp256k1_scalar_set_int (of_bool (get_jth 0 n index = get_jth 0 n t))]"
  have z: "sc_is 0 (secp256k1_scalar_set_int 0)" using sc_set_of_bool [of False] by simp
  have a0: "sc_is (av 0 (get_jth 0 n t)) (snd (secp256k1_scalar_add (p ! 0) (a ! 0 ! get_jth 0 n t)))"
    using scalar_copy_is [OF a [OF m i]] by (simp add: p_def)
  have "coeffs_are (poly_of n av index t 1) (m + 1) p2"
    unfolding coeffs_are_def
  proof (intro conjI allI impI)
    fix d assume d: "d < m + 1"
    consider "d = 0" | "d = 1" | "1 < d" by linarith
    then show "sc_is (poly_of n av index t 1 d) (p2 ! d)"
    proof cases
      case 1
      then show ?thesis using a0 by (simp add: p2_def p_def poly_step_def)
    next
      case 2
      then show ?thesis using d idx_delta_is [of n index 0 "get_jth 0 n t"] by (simp add: p2_def p_def poly_step_def)
    next
      case 3
      then show ?thesis using d z poly_of_above [of 1 d n av index t] by (simp add: p2_def p_def)
    qed
  qed (simp add: p2_def p_def)
  from ring_poly_fold_is [OF this n a, of m] m show ?thesis
    by (simp add: ring_poly_def p2_def p_def Let_def)
qed

section \<open>The opening of the ring\<close>

definition partials_finite :: "cpoint list \<Rightarrow> bool" where
  "partials_finite ts \<longleftrightarrow> (\<forall>k. 0 < k \<longrightarrow> k \<le> length ts \<longrightarrow> sum_list (take k ts) \<noteq> 0)"

lemma partials_Cons: "partials_finite (C # ts) \<longleftrightarrow> accs_finite C ts"
proof
  assume p: "partials_finite (C # ts)"
  show "accs_finite C ts"
    unfolding accs_finite_def
  proof (intro allI impI)
    fix k assume "k \<le> length ts"
    then show "C + sum_list (take k ts) \<noteq> 0"
      using p [unfolded partials_finite_def, rule_format, of "Suc k"] by simp
  qed
next
  assume a: "accs_finite C ts"
  show "partials_finite (C # ts)"
    unfolding partials_finite_def
  proof (intro allI impI)
    fix k assume "0 < k" "k \<le> length (C # ts)"
    then show "sum_list (take k (C # ts)) \<noteq> 0"
      using a [unfolded accs_finite_def, rule_format, of "k - 1"] by (cases k) simp_all
  qed
qed

lemma accs_finite_append: "accs_finite C (ts @ us) \<Longrightarrow> accs_finite C ts \<and> accs_finite (C + sum_list ts) us"
proof
  assume a: "accs_finite C (ts @ us)"
  show "accs_finite C ts"
    unfolding accs_finite_def
  proof (intro allI impI)
    fix k assume "k \<le> length ts"
    then show "C + sum_list (take k ts) \<noteq> 0"
      using a [unfolded accs_finite_def, rule_format, of k] by simp
  qed
  show "accs_finite (C + sum_list ts) us"
    unfolding accs_finite_def
  proof (intro allI impI)
    fix k assume "k \<le> length us"
    then show "C + sum_list ts + sum_list (take k us) \<noteq> 0"
      using a [unfolded accs_finite_def, rule_format, of "length ts + k"] by (simp add: add.assoc)
  qed
qed

text \<open>The terms of the left-hand side: \<open>- x^j Q\<^sub>j\<close>, then \<open>(\<Prod> f) c\<^sub>t\<close>.\<close>

definition lhs_Q_terms :: "fn \<Rightarrow> (nat \<Rightarrow> cpoint) \<Rightarrow> nat \<Rightarrow> cpoint list" where
  "lhs_Q_terms x QP m = map (\<lambda>j. smul (- (x ^ j)) (QP j)) [0 ..< m]"

definition lhs_c_terms :: "nat \<Rightarrow> nat \<Rightarrow> (nat \<Rightarrow> nat \<Rightarrow> fn) \<Rightarrow> (nat \<Rightarrow> cpoint) \<Rightarrow> nat \<Rightarrow> cpoint list" where
  "lhs_c_terms n m fv cP N = map (\<lambda>t. smul (\<Prod>j < m. fv j (get_jth j n t)) (cP t)) [0 ..< N]"

lemma lhs_Q_terms_Suc: "lhs_Q_terms x QP (Suc k) = lhs_Q_terms x QP k @ [smul (- (x ^ k)) (QP k)]"
  by (simp add: lhs_Q_terms_def)

lemma lhs_Q_fold_is:
  assumes Q: "\<And>j. j < m \<Longrightarrow> ge_is 1 (QP j) (Q ! j) \<and> QP j \<noteq> 0" and x: "sc_is x sx"
    and fin: "partials_finite (lhs_Q_terms x QP m)"
  shows "k \<le> m \<Longrightarrow> fold (\<lambda>j (LHS, tmp1).
           let tmp2 = secp256k1_scalar_negate tmp1;
               LHS = (if j = 0 then ring_pow (Q ! j) tmp2 else ring_mul_pow (Q ! j) tmp2 LHS)
           in (LHS, secp256k1_scalar_mul tmp1 sx)) [0 ..< k] (L0, secp256k1_scalar_set_int 1) = (LHS, tmp1) \<Longrightarrow>
    sc_is (x ^ k) tmp1 \<and> (0 < k \<longrightarrow> ge_is 1 (sum_list (lhs_Q_terms x QP k)) LHS)"
    (is "_ \<Longrightarrow> fold ?F _ _ = _ \<Longrightarrow> _")
proof (induction k arbitrary: LHS tmp1)
  case 0
  then show ?case using sc_set_of_bool [of True] by simp
next
  case (Suc k)
  obtain L w where f: "fold ?F [0 ..< k] (L0, secp256k1_scalar_set_int 1) = (L, w)" by fastforce
  have IH: "sc_is (x ^ k) w" "0 < k \<Longrightarrow> ge_is 1 (sum_list (lhs_Q_terms x QP k)) L"
    using Suc.IH [OF _ f] Suc.prems(1) by simp_all
  have out: "LHS = (if k = 0 then ring_pow (Q ! k) (secp256k1_scalar_negate w) else ring_mul_pow (Q ! k) (secp256k1_scalar_negate w) L)"
    "tmp1 = secp256k1_scalar_mul w sx"
    using Suc.prems(2) f by (simp_all add: Let_def)
  have s: "sc_is (x ^ Suc k) tmp1"
    unfolding out(2) using secp256k1_scalar_mul_is [OF IH(1) x] by (simp add: mult.commute)
  have nw: "sc_is (- (x ^ k)) (secp256k1_scalar_negate w)" by (rule secp256k1_scalar_negate_is [OF IH(1)])
  have q: "ge_is 1 (QP k) (Q ! k)" "QP k \<noteq> 0" using Q [of k] Suc.prems(1) by simp_all
  have "ge_is 1 (sum_list (lhs_Q_terms x QP (Suc k))) LHS"
  proof (cases "k = 0")
    case True
    then show ?thesis using ring_pow_is [OF q nw] by (simp add: out lhs_Q_terms_def)
  next
    case False
    have "take k (lhs_Q_terms x QP m) = lhs_Q_terms x QP k"
      using Suc.prems(1) by (simp add: lhs_Q_terms_def take_map)
    then have "sum_list (lhs_Q_terms x QP k) \<noteq> 0"
      using fin [unfolded partials_finite_def, rule_format, of k] False Suc.prems(1) by (simp add: lhs_Q_terms_def)
    from ring_mul_pow_is [OF q nw IH(2) this] False show ?thesis
      by (simp add: out lhs_Q_terms_Suc)
  qed
  then show ?case using s by blast
qed

lemma scalar_prod_fold_is:
  assumes "\<And>j. j < m \<Longrightarrow> sc_is (y j) (s j)"
  shows "sc_is (\<Prod>j < m. y j) (fold (\<lambda>j tmp. secp256k1_scalar_mul tmp (s j)) [0 ..< m] (secp256k1_scalar_set_int 1))"
  using assms
proof (induction m)
  case 0
  then show ?case using sc_set_of_bool [of True] by simp
next
  case (Suc m)
  then have "sc_is (\<Prod>j < m. y j) (fold (\<lambda>j tmp. secp256k1_scalar_mul tmp (s j)) [0 ..< m] (secp256k1_scalar_set_int 1))" by simp
  from secp256k1_scalar_mul_is [OF this Suc.prems [of m]] show ?case by simp
qed

lemma ring_verify_lhs_is:
  assumes m: "0 < m" "0 < n" and Q: "\<And>j. j < m \<Longrightarrow> ge_is 1 (QP j) (Q ! j) \<and> QP j \<noteq> 0"
    and c: "\<And>t. t < N \<Longrightarrow> ge_is 1 (cP t) (c_ge ! t) \<and> cP t \<noteq> 0" and x: "sc_is x sx"
    and f: "\<And>j i. j < m \<Longrightarrow> i < n \<Longrightarrow> sc_is (fv j i) (f ! j ! i)"
    and fin: "partials_finite (lhs_Q_terms x QP m @ lhs_c_terms n m fv cP N)"
  shows "ge_is 1 (sum_list (lhs_Q_terms x QP m) + sum_list (lhs_c_terms n m fv cP N)) (ring_verify_lhs n m Q c_ge f sx N)"
    and "sum_list (lhs_Q_terms x QP m) + sum_list (lhs_c_terms n m fv cP N) \<noteq> 0"
proof -
  let ?F = "\<lambda>j (LHS, tmp1).
           let tmp2 = secp256k1_scalar_negate tmp1;
               LHS = (if j = 0 then ring_pow (Q ! j) tmp2 else ring_mul_pow (Q ! j) tmp2 LHS)
           in (LHS, secp256k1_scalar_mul tmp1 sx)"
  let ?Qs = "lhs_Q_terms x QP m" and ?cs = "lhs_c_terms n m fv cP N"
  obtain q qs where Qs: "?Qs = q # qs" using m by (cases ?Qs) (simp_all add: lhs_Q_terms_def)
  have acc: "accs_finite q (qs @ ?cs)" using fin by (simp add: Qs partials_Cons)
  then have fQ: "partials_finite ?Qs" and fc: "accs_finite (sum_list ?Qs) ?cs"
    using accs_finite_append [OF acc] by (simp_all add: Qs partials_Cons)
  obtain LHS w where l: "fold ?F [0 ..< m] (secp256k1_ge_clear, secp256k1_scalar_set_int 1) = (LHS, w)" by fastforce
  have L: "ge_is 1 (sum_list ?Qs) LHS" using lhs_Q_fold_is [OF Q x fQ order_refl l] m by blast
  define s where "s t = fold (\<lambda>j tmp. secp256k1_scalar_mul tmp (f ! j ! get_jth j n t)) [0 ..< m] (secp256k1_scalar_set_int 1)" for t
  have s: "sc_is (\<Prod>j < m. fv j (get_jth j n t)) (s t)" for t
    unfolding s_def by (rule scalar_prod_fold_is) (use f m in \<open>simp add: get_jth_is\<close>)
  have "ge_is 1 (sum_list ?Qs + sum_list ?cs) (fold (\<lambda>t. ring_mul_pow (c_ge ! t) (s t)) [0 ..< N] LHS)"
    using ring_fold_is [OF L, of "[0 ..< N]" cP "\<lambda>t. c_ge ! t" "\<lambda>t. \<Prod>j < m. fv j (get_jth j n t)" s] c s fc
    by (simp add: lhs_c_terms_def)
  then show "ge_is 1 (sum_list ?Qs + sum_list ?cs) (ring_verify_lhs n m Q c_ge f sx N)"
    using l by (simp add: ring_verify_lhs_def s_def)
  show "sum_list ?Qs + sum_list ?cs \<noteq> 0" using accs_finite_ends [OF fc] by blast
qed
text \<open>The prover's \<open>Q\<^sub>j\<close>.\<close>

definition Q_terms :: "(nat \<Rightarrow> nat \<Rightarrow> fn) \<Rightarrow> (nat \<Rightarrow> cpoint) \<Rightarrow> nat \<Rightarrow> nat \<Rightarrow> cpoint list" where
  "Q_terms p cP N j = map (\<lambda>t. smul (p t j) (cP t)) [0 ..< N]"

definition Q_value :: "cpoint \<Rightarrow> (nat \<Rightarrow> nat \<Rightarrow> fn) \<Rightarrow> (nat \<Rightarrow> cpoint) \<Rightarrow> nat \<Rightarrow> (nat \<Rightarrow> fn) \<Rightarrow> nat \<Rightarrow> cpoint" where
  "Q_value G p cP N rho j = smul (rho j) G + sum_list (Q_terms p cP N j)"

lemma ring_com_Q_is:
  assumes G: "ge_is 1 G tmpG" "G \<noteq> 0" and c: "\<And>t. t < N \<Longrightarrow> ge_is 1 (cP t) (c_ge ! t) \<and> cP t \<noteq> 0"
    and p: "\<And>t. t < N \<Longrightarrow> sc_is (pv t j) (p ! t ! j)" and r: "sc_is (rv j) (rho ! j)"
    and fin: "accs_finite (smul (rv j) G) (Q_terms pv cP N j)"
  shows "ge_is 1 (Q_value G pv cP N rv j) (ring_com_Q tmpG c_ge p N rho j)" and "Q_value G pv cP N rv j \<noteq> 0"
proof -
  show "ge_is 1 (Q_value G pv cP N rv j) (ring_com_Q tmpG c_ge p N rho j)"
    using ring_fold_is [OF ring_pow_is [OF G r], of "[0 ..< N]" cP "\<lambda>t. c_ge ! t" "\<lambda>t. pv t j" "\<lambda>t. p ! t ! j"] c p fin
    by (simp add: ring_com_Q_def Q_value_def Q_terms_def)
  show "Q_value G pv cP N rv j \<noteq> 0"
    using accs_finite_ends [OF fin] by (simp add: Q_value_def)
qed

text \<open>The response \<open>z = key x^m - \<Sum> rho\<^sub>j x^j\<close>.\<close>

lemma response_z_fold:
  assumes rho: "\<And>j. j < m \<Longrightarrow> sc_is (rv j) (rho ! j)" and x: "sc_is x sx"
  shows "k \<le> m \<Longrightarrow> fold (\<lambda>j (z, tmp1).
           let tmp = secp256k1_scalar_mul (rho ! j) tmp1;
               z = snd (secp256k1_scalar_add z tmp)
           in (z, secp256k1_scalar_mul tmp1 sx)) [0 ..< k] (secp256k1_scalar_set_int 0, secp256k1_scalar_set_int 1) = (z, w) \<Longrightarrow>
    sc_is (\<Sum>j < k. rv j * x ^ j) z \<and> sc_is (x ^ k) w" (is "_ \<Longrightarrow> fold ?F _ _ = _ \<Longrightarrow> _")
proof (induction k arbitrary: z w)
  case 0
  then show ?case using sc_set_of_bool [of True] sc_set_of_bool [of False] by auto
next
  case (Suc k)
  obtain z0 w0 where f: "fold ?F [0 ..< k] (secp256k1_scalar_set_int 0, secp256k1_scalar_set_int 1) = (z0, w0)" by fastforce
  have IH: "sc_is (\<Sum>j < k. rv j * x ^ j) z0" "sc_is (x ^ k) w0" using Suc.IH [OF _ f] Suc.prems(1) by simp_all
  have out: "z = snd (secp256k1_scalar_add z0 (secp256k1_scalar_mul (rho ! k) w0))" "w = secp256k1_scalar_mul w0 sx"
    using Suc.prems(2) f by (simp_all add: Let_def)
  show ?case
    unfolding out
    using secp256k1_scalar_add_is [OF IH(1) secp256k1_scalar_mul_is [OF rho [of k] IH(2)]] secp256k1_scalar_mul_is [OF IH(2) x] Suc.prems(1)
    by (simp add: mult.commute [of _ x])
qed

lemma ring_response_z_is:
  assumes rho: "\<And>j. j < m \<Longrightarrow> sc_is (rv j) (rho ! j)" and x: "sc_is x sx" and key: "sc_is k key"
  shows "sc_is (k * x ^ m - (\<Sum>j < m. rv j * x ^ j)) (ring_response_z m rho key sx)"
proof -
  let ?F = "\<lambda>j (z, tmp1).
           let tmp = secp256k1_scalar_mul (rho ! j) tmp1;
               z = snd (secp256k1_scalar_add z tmp)
           in (z, secp256k1_scalar_mul tmp1 sx)"
  obtain z w where f: "fold ?F [0 ..< m] (secp256k1_scalar_set_int 0, secp256k1_scalar_set_int 1) = (z, w)" by fastforce
  have "sc_is (\<Sum>j < m. rv j * x ^ j) z" "sc_is (x ^ m) w" using response_z_fold [OF rho x order_refl f] by simp_all
  then have "sc_is (- (\<Sum>j < m. rv j * x ^ j) + k * x ^ m)
      (snd (secp256k1_scalar_add (secp256k1_scalar_negate z) (secp256k1_scalar_mul key w)))"
    by (intro secp256k1_scalar_add_is secp256k1_scalar_negate_is secp256k1_scalar_mul_is key)
  then show ?thesis using f by (simp add: ring_response_z_def)
qed

section \<open>Completeness of the opening\<close>

lemma smul_sum: "smul c (\<Sum>i \<in> A. f i) = (\<Sum>i \<in> A. smul c (f i))"
  by (rule curve.scale_sum_right)

lemma sum_list_terms: "sum_list (map (\<lambda>t. smul (e t) (cP t)) [0 ..< N]) = (\<Sum>t < N. smul (e t) (cP t))"
  by (simp add: sum_list_sum_nth atLeast0LessThan)

text \<open>
  With \<open>p\<^sub>t(x)\<close> the product of the responses at the digits of \<open>t\<close>, all terms but the
  leading one of the index cancel; if the index is not in the ring, all terms cancel.
\<close>

lemma ring_opening:
  assumes idx: "index < n ^ m" "N \<le> n ^ m"
    and p: "\<And>t j. t < N \<Longrightarrow> j \<le> m \<Longrightarrow> pv t j = poly_of n av index t m j"
  shows "sum_list (lhs_Q_terms x (Q_value G pv cP N rv) m) + sum_list (lhs_c_terms n m (resp_f n index av x) cP N) =
    smul (x ^ m) (if index < N then cP index else 0) - smul (\<Sum>j < m. rv j * x ^ j) G"
proof -
  let ?f = "\<lambda>t. \<Prod>j < m. resp_f n index av x j (get_jth j n t)"
  have c: "sum_list (lhs_c_terms n m (resp_f n index av x) cP N) = (\<Sum>t < N. smul (?f t) (cP t))"
    unfolding lhs_c_terms_def by (rule sum_list_terms)
  have f: "?f t = (\<Sum>j < m. pv t j * x ^ j) + of_bool (t = index) * x ^ m" if "t < N" for t
    using that idx poly_of_eval [of n av index t m x] poly_of_top_index [of index n m t av] p [of t]
    by (simp add: poly_eval_def)
  have Q: "sum_list (lhs_Q_terms x (Q_value G pv cP N rv) m) =
      - smul (\<Sum>j < m. rv j * x ^ j) G - (\<Sum>t < N. smul (\<Sum>j < m. pv t j * x ^ j) (cP t))"
  proof -
    have "sum_list (lhs_Q_terms x (Q_value G pv cP N rv) m) = (\<Sum>j < m. smul (- (x ^ j)) (Q_value G pv cP N rv j))"
      unfolding lhs_Q_terms_def by (rule sum_list_terms)
    also have "\<dots> = (\<Sum>j < m. - smul (rv j * x ^ j) G - (\<Sum>t < N. smul (pv t j * x ^ j) (cP t)))"
      unfolding Q_value_def Q_terms_def sum_list_terms curve.scale_minus_left curve.scale_right_distrib smul_sum curve.scale_scale
      by (simp add: mult.commute sum_negf)
    also have "\<dots> = - smul (\<Sum>j < m. rv j * x ^ j) G - (\<Sum>j < m. \<Sum>t < N. smul (pv t j * x ^ j) (cP t))"
      by (simp add: sum_subtractf sum_negf curve.scale_sum_left)
    also have "(\<Sum>j < m. \<Sum>t < N. smul (pv t j * x ^ j) (cP t)) = (\<Sum>t < N. smul (\<Sum>j < m. pv t j * x ^ j) (cP t))"
      by (subst sum.swap) (simp add: curve.scale_sum_left)
    finally show ?thesis .
  qed
  have "(\<Sum>t < N. smul (?f t) (cP t)) = (\<Sum>t < N. smul (\<Sum>j < m. pv t j * x ^ j) (cP t) + smul (of_bool (t = index) * x ^ m) (cP t))"
    by (rule sum.cong) (simp_all only: f lessThan_iff curve.scale_left_distrib)
  also have "\<dots> = (\<Sum>t < N. smul (\<Sum>j < m. pv t j * x ^ j) (cP t)) + (\<Sum>t < N. smul (of_bool (t = index) * x ^ m) (cP t))"
    by (rule sum.distrib)
  also have "(\<Sum>t < N. smul (of_bool (t = index) * x ^ m) (cP t)) = (\<Sum>t < N. if t = index then smul (x ^ m) (cP t) else 0)"
    by (rule sum.cong) simp_all
  also have "\<dots> = smul (x ^ m) (if index < N then cP index else 0)" by simp
  finally show ?thesis unfolding c Q by simp
qed

end
