(* ===== verification/Ring_Codec.thy ===== *)
theory Ring_Codec
  imports Ring_Proof
begin

text \<open>
  The byte layout of a proof: what the prover writes is what the verifier reads back, the first
  response of every row included, and its length is the announced one.
\<close>

section \<open>Reading a prefix\<close>

lemma nth_append_prefix: "length b = 32 \<Longrightarrow> map ((!) (b @ rest)) [0 ..< 32] = b"
  by (intro nth_equalityI) (simp_all add: nth_append)

lemma scalar_set_b32_append: "length b = 32 \<Longrightarrow> secp256k1_scalar_set_b32 (b @ rest) = secp256k1_scalar_set_b32 b"
  using scalar_set_b32_nth [of "b @ rest"] by (simp add: nth_append_prefix)

lemma fe_set_b32_append: "length b = 32 \<Longrightarrow> secp256k1_fe_set_b32 (b @ rest) = secp256k1_fe_set_b32 b"
  using fe_set_b32_nth [of "b @ rest"] by (simp add: nth_append_prefix)

lemma ge_load_append:
  assumes "length b = 33"
  shows "secp256k1_ge_load_boquila (b @ rest) = secp256k1_ge_load_boquila b"
proof -
  have "secp256k1_fe_set_b32 (drop 1 (b @ rest)) = secp256k1_fe_set_b32 (drop 1 b)"
    using assms fe_set_b32_append [of "drop 1 b" rest] by simp
  then show ?thesis
    using assms by (simp add: secp256k1_ge_load_boquila_def nth_append)
qed

lemma scalar_read:
  assumes "sc_val s < order_n"
  shows "secp256k1_scalar_set_b32 (secp256k1_scalar_get_b32 s @ rest) = (s, False)"
  using scalar_set_b32_append [of "secp256k1_scalar_get_b32 s" rest] secp256k1_scalar_set_get_b32 [OF assms] by simp

section \<open>Scalars\<close>

definition scalars_bytes :: "secp256k1_scalar list \<Rightarrow> u8 list" where
  "scalars_bytes ss = concat (map secp256k1_scalar_get_b32 ss)"

lemma scalars_bytes_simps [simp]:
  "scalars_bytes [] = []" "scalars_bytes (s # ss) = secp256k1_scalar_get_b32 s @ scalars_bytes ss"
  "scalars_bytes (ss @ ts) = scalars_bytes ss @ scalars_bytes ts"
  by (simp_all add: scalars_bytes_def)

lemma scalars_bytes_length: "length (scalars_bytes ss) = 32 * length ss"
  by (induction ss) simp_all

lemma ring_parse_scalars_bytes:
  "(\<And>s. s \<in> set ss \<Longrightarrow> sc_val s < order_n) \<Longrightarrow> ring_parse_scalars (length ss) (scalars_bytes ss @ rest) = Some (ss, rest)"
  by (induction ss) (simp_all add: scalar_read)

section \<open>The rows of responses\<close>

text \<open>The row sums that the recovery of the first response relies on.\<close>

definition rows_ok :: "nat \<Rightarrow> nat \<Rightarrow> fn \<Rightarrow> (nat \<Rightarrow> nat \<Rightarrow> fn) \<Rightarrow> secp256k1_scalar list list \<Rightarrow> bool" where
  "rows_ok n m x fv f \<longleftrightarrow> length f = m \<and>
     (\<forall>j < m. length (f ! j) = n \<and> (\<forall>i < n. sc_is (fv j i) (f ! j ! i)) \<and> (\<Sum>i < n. fv j i) = x)"

lemma scalar_sum_fold:
  "(\<And>i. i < length ss \<Longrightarrow> sc_is (y i) (ss ! i)) \<Longrightarrow> sc_is c s \<Longrightarrow>
    sc_is (c + (\<Sum>i < length ss. y i)) (fold (\<lambda>s tmp. snd (secp256k1_scalar_add tmp s)) ss s)"
proof (induction ss arbitrary: y c s)
  case (Cons a ss)
  have "sc_is (y 0) a" using Cons.prems(1) [of 0] by simp
  then have "sc_is (c + y 0) (snd (secp256k1_scalar_add s a))" by (rule secp256k1_scalar_add_is [OF Cons.prems(2)])
  from Cons.IH [OF _ this, of "\<lambda>i. y (Suc i)"] Cons.prems(1)
  show ?case by (fastforce simp: sum.lessThan_Suc_shift add.assoc simp del: sum.lessThan_Suc)
qed simp

lemma ring_recover_f0:
  assumes row: "length row = n" "0 < n" "\<And>i. i < n \<Longrightarrow> sc_is (y i) (row ! i)" "(\<Sum>i < n. y i) = x" and x: "sc_is x sx"
  shows "snd (secp256k1_scalar_add (secp256k1_scalar_negate
    (fold (\<lambda>s tmp. snd (secp256k1_scalar_add tmp s)) (tl row) (secp256k1_scalar_set_int 0))) sx) = hd row"
proof -
  obtain r0 rs where r: "row = r0 # rs" using row(1,2) by (cases row) auto
  have n: "n = Suc (length rs)" using row(1) r by simp
  have "sc_is (0 + (\<Sum>i < length rs. y (Suc i))) (fold (\<lambda>s tmp. snd (secp256k1_scalar_add tmp s)) rs (secp256k1_scalar_set_int 0))"
    by (rule scalar_sum_fold) (use row(3) [of "Suc _"] r n sc_set_of_bool [of False] in simp_all)
  then have "sc_is (- (0 + (\<Sum>i < length rs. y (Suc i))) + x) (snd (secp256k1_scalar_add (secp256k1_scalar_negate
      (fold (\<lambda>s tmp. snd (secp256k1_scalar_add tmp s)) rs (secp256k1_scalar_set_int 0))) sx))"
    by (intro secp256k1_scalar_add_is secp256k1_scalar_negate_is x)
  moreover have "- (0 + (\<Sum>i < length rs. y (Suc i))) + x = y 0"
  proof -
    have "y 0 + (\<Sum>i < length rs. y (Suc i)) = x"
      using row(4) by (simp add: n sum.lessThan_Suc_shift del: sum.lessThan_Suc)
    then show ?thesis by (simp flip: \<open>y 0 + (\<Sum>i < length rs. y (Suc i)) = x\<close>)
  qed
  moreover have "sc_is (y 0) r0" using row(3) [of 0] row(2) r by simp
  ultimately show ?thesis using sc_is_unique r by auto
qed

lemma ring_parse_f_rows:
  assumes "0 < n" and x: "sc_is x sx"
  shows "rows_ok n m x fv f \<Longrightarrow>
    ring_parse_f n sx m (concat (map (\<lambda>row. scalars_bytes (tl row)) f) @ rest) = Some (f, rest)"
proof (induction m arbitrary: f fv)
  case 0
  then show ?case by (simp add: rows_ok_def)
next
  case (Suc m)
  obtain row rows where f: "f = row # rows" using Suc.prems by (cases f) (auto simp: rows_ok_def)
  have row: "length row = n" "\<And>i. i < n \<Longrightarrow> sc_is (fv 0 i) (row ! i)" "(\<Sum>i < n. fv 0 i) = x"
    using Suc.prems by (auto simp: rows_ok_def f dest: spec [of _ 0])
  have rows: "rows_ok n m x (\<lambda>j. fv (Suc j)) rows"
    using Suc.prems unfolding rows_ok_def f by (auto dest: spec [of _ "Suc _"])
  have tl: "n - 1 = length (tl row)" using row(1) by simp
  have lt: "sc_val s < order_n" if "s \<in> set (tl row)" for s
  proof -
    have "s \<in> set row" using that by (cases row) auto
    then obtain i where "i < n" "row ! i = s" using row(1) by (auto simp: in_set_conv_nth)
    then show ?thesis using row(2) sc_is_lt by blast
  qed
  have "ring_parse_scalars (n - 1) (scalars_bytes (tl row) @ concat (map (\<lambda>row. scalars_bytes (tl row)) rows) @ rest) =
      Some (tl row, concat (map (\<lambda>row. scalars_bytes (tl row)) rows) @ rest)"
    unfolding tl by (rule ring_parse_scalars_bytes [OF lt])
  moreover have "row \<noteq> []" using row(1) assms(1) by auto
  ultimately show ?case
    using ring_recover_f0 [OF row(1) assms(1) row(2,3) x] Suc.IH [OF rows] by (simp add: f Let_def)
qed

lemma ring_serialize_f_rows:
  assumes "length f = m" "\<And>j. j < m \<Longrightarrow> length (f ! j) = n"
  shows "ring_serialize_f n m f = concat (map (\<lambda>row. scalars_bytes (tl row)) f)"
proof -
  have row: "map (\<lambda>i. secp256k1_scalar_get_b32 (row ! i)) [1 ..< length row] = map secp256k1_scalar_get_b32 (tl row)" for row
    by (intro nth_equalityI) (simp_all add: nth_tl)
  have "map (\<lambda>j. concat (map (\<lambda>i. secp256k1_scalar_get_b32 (f ! j ! i)) [1 ..< n])) [0 ..< m] =
      map (\<lambda>row. scalars_bytes (tl row)) f"
  proof (rule nth_equalityI)
    fix j assume "j < length (map (\<lambda>j. concat (map (\<lambda>i. secp256k1_scalar_get_b32 (f ! j ! i)) [1 ..< n])) [0 ..< m])"
    then have "j < m" by simp
    then show "map (\<lambda>j. concat (map (\<lambda>i. secp256k1_scalar_get_b32 (f ! j ! i)) [1 ..< n])) [0 ..< m] ! j =
        map (\<lambda>row. scalars_bytes (tl row)) f ! j"
      using assms row [of "f ! j"] by (simp add: scalars_bytes_def)
  qed (use assms in simp)
  then show ?thesis by (simp add: ring_serialize_f_def)
qed

section \<open>Points\<close>

lemma ring_parse_points_nth:
  assumes "i < length bs" "\<And>b. b \<in> set bs \<Longrightarrow> length b = 33"
  shows "ring_parse_points (length bs) (concat bs @ rest) ! i = secp256k1_ge_load_boquila (bs ! i)"
proof -
  have "drop (33 * i) (concat bs @ rest) = bs ! i @ concat (drop (Suc i) bs) @ rest"
    using assms
  proof (induction bs arbitrary: i)
    case (Cons b bs)
    then show ?case by (cases i) simp_all
  qed simp
  then show ?thesis
    using assms by (simp add: ring_parse_points_def ge_load_append)
qed

end
