(* ===== verification/Ring_Complete.thy ===== *)
theory Ring_Complete
  imports Ring_Codec
begin

text \<open>
  Completeness of the one-out-of-many proof, from the random draws of the prover to the verdict of
  the verifier. The addition routine does not support a second operand at infinity; the one way
  an honest proof can fail is that an accumulator meets it.
\<close>

section \<open>Values of scalars\<close>

definition scv :: "secp256k1_scalar \<Rightarrow> fn" where
  "scv s = of_nat (sc_val s)"

definition sc_ok :: "secp256k1_scalar \<Rightarrow> bool" where
  "sc_ok s \<longleftrightarrow> sc_val s < order_n"

lemma scv_is: "sc_ok s \<Longrightarrow> sc_is (scv s) s"
  by (simp add: sc_ok_def scv_def sc_is_def fn_nat_of_nat)

lemma sc_is_scv: "sc_is x s \<Longrightarrow> sc_ok s \<and> scv s = x"
  using sc_is_lt [of x s] by (simp add: sc_ok_def scv_def sc_is_def)

lemma sc_ok_set_b32: "sc_ok (fst (secp256k1_scalar_set_b32 b))"
  using secp256k1_scalar_set_b32_is [of "map ((!) b) [0 ..< 32]"] sc_is_scv
  unfolding scalar_set_b32_nth by (metis length_map length_upt diff_zero)

lemma sc_ok_add: "sc_ok s \<Longrightarrow> sc_ok t \<Longrightarrow> sc_ok (snd (secp256k1_scalar_add s t)) \<and> scv (snd (secp256k1_scalar_add s t)) = scv s + scv t"
  using sc_is_scv [OF secp256k1_scalar_add_is [OF scv_is scv_is]] by blast

lemma sc_ok_negate: "sc_ok s \<Longrightarrow> sc_ok (secp256k1_scalar_negate s) \<and> scv (secp256k1_scalar_negate s) = - scv s"
  using sc_is_scv [OF secp256k1_scalar_negate_is [OF scv_is]] by blast

lemma sc_ok_zero: "sc_ok (secp256k1_scalar_set_int 0)" "scv (secp256k1_scalar_set_int 0) = 0"
  using sc_is_scv [OF sc_set_of_bool [of False]] by simp_all

section \<open>The draws\<close>

lemma ring_draw_ok: "ring_draw rng = (s, overflow, rng') \<Longrightarrow> sc_ok s"
  using sc_ok_set_b32 by (auto simp: ring_draw_def split_def Let_def)

text \<open>The rows of nonces add up to zero.\<close>

definition nonces_ok :: "nat \<Rightarrow> nat \<Rightarrow> ring_nonces \<Rightarrow> bool" where
  "nonces_ok n m N \<longleftrightarrow> sc_ok (nonce_rA N) \<and> sc_ok (nonce_rB N) \<and> sc_ok (nonce_rC N) \<and> sc_ok (nonce_rD N) \<and>
     length (nonce_rho N) = m \<and> (\<forall>s \<in> set (nonce_rho N). sc_ok s) \<and>
     length (nonce_a N) = m \<and> (\<forall>row \<in> set (nonce_a N). length row = n \<and> (\<forall>s \<in> set row. sc_ok s) \<and> sum_list (map scv row) = 0)"

lemma ring_draw_entries_ok:
  "(ring_draw_entry ^^ k) ([], secp256k1_scalar_set_int 0, ov, rng) = (row, tmp, ov', rng') \<Longrightarrow>
    length row = k \<and> (\<forall>s \<in> set row. sc_ok s) \<and> sc_ok tmp \<and> scv tmp = sum_list (map scv row)"
proof (induction k arbitrary: row tmp ov' rng')
  case (Suc k)
  obtain row0 tmp0 ov0 rng0 where f: "(ring_draw_entry ^^ k) ([], secp256k1_scalar_set_int 0, ov, rng) = (row0, tmp0, ov0, rng0)"
    by (metis prod_cases4)
  obtain s ov1 rng1 where d: "ring_draw rng0 = (s, ov1, rng1)" by (metis prod_cases3)
  have "row = row0 @ [s]" "tmp = snd (secp256k1_scalar_add tmp0 s)"
    using Suc.prems f d by (simp_all add: ring_draw_entry_def)
  then show ?case
    using Suc.IH [OF f] ring_draw_ok [OF d] sc_ok_add by auto
qed (auto simp: sc_ok_zero)

lemma ring_draw_rows_ok:
  assumes "0 < n"
  shows "(ring_draw_row n ^^ k) ([], [], ov, rng) = (rho, a, ov', rng') \<Longrightarrow>
    length rho = k \<and> (\<forall>s \<in> set rho. sc_ok s) \<and> length a = k \<and>
    (\<forall>row \<in> set a. length row = n \<and> (\<forall>s \<in> set row. sc_ok s) \<and> sum_list (map scv row) = 0)"
proof (induction k arbitrary: rho a ov' rng')
  case (Suc k)
  obtain rho0 a0 ov0 rng0 where f: "(ring_draw_row n ^^ k) ([], [], ov, rng) = (rho0, a0, ov0, rng0)"
    by (metis prod_cases4)
  obtain r ov1 rng1 where d: "ring_draw rng0 = (r, ov1, rng1)" by (metis prod_cases3)
  obtain row tmp ov2 rng2 where e: "(ring_draw_entry ^^ (n - 1)) ([], secp256k1_scalar_set_int 0, ov1, rng1) = (row, tmp, ov2, rng2)"
    by (metis prod_cases4)
  have out: "rho = rho0 @ [r]" "a = a0 @ [secp256k1_scalar_negate tmp # row]"
    using Suc.prems f d e by (simp_all add: ring_draw_row_def)
  note row = ring_draw_entries_ok [OF e]
  show ?case
    using Suc.IH [OF f] ring_draw_ok [OF d] row sc_ok_negate [of tmp] assms unfolding out by auto
qed simp

lemma ring_draw_nonces_ok:
  assumes "0 < n" and d: "ring_draw_nonces n m rng = (N, overflow, rng')"
  shows "nonces_ok n m N"
proof -
  obtain rA o1 r1 where 1: "ring_draw rng = (rA, o1, r1)" by (metis prod_cases3)
  obtain rB o2 r2 where 2: "ring_draw r1 = (rB, o2, r2)" by (metis prod_cases3)
  obtain rC o3 r3 where 3: "ring_draw r2 = (rC, o3, r3)" by (metis prod_cases3)
  obtain rD o4 r4 where 4: "ring_draw r3 = (rD, o4, r4)" by (metis prod_cases3)
  obtain rho a o5 r5 where 5: "(ring_draw_row n ^^ m) ([], [], o4, r4) = (rho, a, o5, r5)" by (metis prod_cases4)
  have "N = \<lparr>nonce_rA = rA, nonce_rB = rB, nonce_rC = rC, nonce_rD = rD, nonce_rho = rho, nonce_a = a\<rparr>"
    using d 1 2 3 4 5 by (simp add: ring_draw_nonces_def)
  then show ?thesis
    using ring_draw_ok [OF 1] ring_draw_ok [OF 2] ring_draw_ok [OF 3] ring_draw_ok [OF 4] ring_draw_rows_ok [OF assms(1) 5]
    by (simp add: nonces_ok_def)
qed

section \<open>Sound contexts and rings\<close>

definition ring_ctx_ok :: "ringcip_context \<Rightarrow> cpoint \<Rightarrow> cpoint \<Rightarrow> (nat \<Rightarrow> cpoint) \<Rightarrow> bool" where
  "ring_ctx_ok rctx G H P \<longleftrightarrow>
     gens_ok (rctx_n rctx * rctx_m rctx) (ring_load_multigen (rctx_n rctx) (rctx_m rctx) (rctx_multigen rctx)) P \<and>
     ge_is 1 G (secp256k1_generator_load (rctx_geng rctx)) \<and> G \<noteq> 0 \<and>
     ge_is 1 H (secp256k1_generator_load (rctx_genh rctx)) \<and> H \<noteq> 0"

definition ring_ok :: "cint_pt list \<Rightarrow> nat \<Rightarrow> (nat \<Rightarrow> cpoint) \<Rightarrow> bool" where
  "ring_ok Cs N cP \<longleftrightarrow> (\<forall>t < N. cint_buf (Cs ! t) = point_bytes (cP t) \<and> cP t \<noteq> 0)"

lemma gens_ok_mono: "gens_ok k gs P \<Longrightarrow> l \<le> k \<Longrightarrow> gens_ok l gs P"
  by (simp add: gens_ok_def)

lemma ring_ok_loaded:
  "ring_ok Cs N cP \<Longrightarrow> t < N \<Longrightarrow>
    ge_is 1 (cP t) (map (\<lambda>j. secp256k1_ge_load_boquila (cint_buf (Cs ! j))) [0 ..< N] ! t) \<and> cP t \<noteq> 0"
  by (simp add: ring_ok_def load_point_bytes)

text \<open>
  The accumulators of a run of the prover and the verifier are all finite, for nonces \<open>N\<close> and a
  challenge \<open>x\<close>: those of the commitments and their checks, then those of the ring.
\<close>

definition commit_finite ::
    "nat \<Rightarrow> nat \<Rightarrow> nat \<Rightarrow> cpoint \<Rightarrow> (nat \<Rightarrow> cpoint) \<Rightarrow> ring_nonces \<Rightarrow> fn \<Rightarrow> bool" where
  "commit_finite n m index H P N x \<longleftrightarrow> (
     let av = (\<lambda>j i. scv (nonce_a N ! j ! i));
         fv = resp_f n index av x
     in ring_value_ok H n m P (scv (nonce_rA N)) av \<and>
        ring_value_ok H n m P (scv (nonce_rB N)) (idx_delta n index) \<and>
        ring_value_ok H n m P (scv (nonce_rC N)) (\<lambda>j i. (1 - 2 * idx_delta n index j i) * av j i) \<and>
        ring_value_ok H n m P (scv (nonce_rD N)) (\<lambda>j i. - (av j i * av j i)) \<and>
        ring_value_ok H n m P (x * scv (nonce_rB N) + scv (nonce_rA N)) fv \<and>
        ring_value_ok H n m P (x * scv (nonce_rC N) + scv (nonce_rD N)) (\<lambda>j i. (x - fv j i) * fv j i))"

definition run_poly :: "nat \<Rightarrow> nat \<Rightarrow> nat \<Rightarrow> ring_nonces \<Rightarrow> nat \<Rightarrow> nat \<Rightarrow> fn" where
  "run_poly n m index N t = poly_of n (\<lambda>j i. scv (nonce_a N ! j ! i)) index t m"

definition run_rho :: "ring_nonces \<Rightarrow> nat \<Rightarrow> fn" where
  "run_rho N j = scv (nonce_rho N ! j)"

definition run_resp :: "nat \<Rightarrow> nat \<Rightarrow> ring_nonces \<Rightarrow> fn \<Rightarrow> nat \<Rightarrow> nat \<Rightarrow> fn" where
  "run_resp n index N x = resp_f n index (\<lambda>j i. scv (nonce_a N ! j ! i)) x"

definition ring_run_finite ::
    "nat \<Rightarrow> nat \<Rightarrow> nat \<Rightarrow> nat \<Rightarrow> cpoint \<Rightarrow> (nat \<Rightarrow> cpoint) \<Rightarrow> ring_nonces \<Rightarrow> fn \<Rightarrow> bool" where
  "ring_run_finite n m index ring_size S cP N x \<longleftrightarrow>
     partials_finite (lhs_Q_terms x (Q_value S (run_poly n m index N) cP ring_size (run_rho N)) m @
       lhs_c_terms n m (run_resp n index N x) cP ring_size)"

definition run_finite ::
    "nat \<Rightarrow> nat \<Rightarrow> nat \<Rightarrow> nat \<Rightarrow> cpoint \<Rightarrow> cpoint \<Rightarrow> (nat \<Rightarrow> cpoint) \<Rightarrow> (nat \<Rightarrow> cpoint) \<Rightarrow> ring_nonces \<Rightarrow> fn \<Rightarrow> bool" where
  "run_finite n m index ring_size G H P cP N x \<longleftrightarrow>
     commit_finite n m index H P N x \<and> ring_run_finite n m index ring_size G cP N x \<and>
     (\<forall>j < m. accs_finite (smul (run_rho N j) G) (Q_terms (run_poly n m index N) cP ring_size j))"

lemma delta_sum:
  assumes "0 < n"
  shows "(\<Sum>i < n. idx_delta n index j i) = 1"
proof -
  have "get_jth j n index \<in> {..< n}" using assms by (simp add: get_jth_is)
  then show ?thesis by (simp add: idx_delta_def of_bool_def)
qed

lemma sum_list_nth_map: "sum_list (map f xs) = (\<Sum>i < length xs. f (xs ! i) :: 'a::comm_monoid_add)"
  by (simp add: sum_list_sum_nth atLeast0LessThan)

lemma nonces_a:
  assumes "nonces_ok n m N" "j < m"
  shows "i < n \<Longrightarrow> sc_is (scv (nonce_a N ! j ! i)) (nonce_a N ! j ! i)" and "(\<Sum>i < n. scv (nonce_a N ! j ! i)) = 0"
proof -
  have r: "length (nonce_a N ! j) = n" "\<forall>s \<in> set (nonce_a N ! j). sc_ok s" "sum_list (map scv (nonce_a N ! j)) = 0"
    using assms unfolding nonces_ok_def by (metis nth_mem)+
  then show "i < n \<Longrightarrow> sc_is (scv (nonce_a N ! j ! i)) (nonce_a N ! j ! i)" by (simp add: scv_is)
  show "(\<Sum>i < n. scv (nonce_a N ! j ! i)) = 0" using r(1,3) by (simp add: sum_list_nth_map)
qed

lemma nonces_rows:
  assumes N: "nonces_ok n m N" and n: "0 < n" and x: "sc_is x sx"
  shows "rows_ok n m x (resp_f n index (\<lambda>j i. scv (nonce_a N ! j ! i)) x) (ring_response_f n m index (nonce_a N) sx)"
  unfolding rows_ok_def
proof (intro conjI allI impI)
  fix j assume j: "j < m"
  show "length (ring_response_f n m index (nonce_a N) sx ! j) = n" using j by (simp add: ring_response_f_def)
  show "sc_is (resp_f n index (\<lambda>j i. scv (nonce_a N ! j ! i)) x j i) (ring_response_f n m index (nonce_a N) sx ! j ! i)"
    if "i < n" for i
    by (rule ring_response_f_is [where av = "\<lambda>j i. scv (nonce_a N ! j ! i)", OF nonces_a(1) [OF N j that] x j that])
  show "(\<Sum>i < n. resp_f n index (\<lambda>j i. scv (nonce_a N ! j ! i)) x j i) = x"
    using nonces_a(2) [OF N j] delta_sum [OF n] by (simp add: resp_f_def sum.distrib flip: sum_distrib_right)
qed (simp add: ring_response_f_def)
section \<open>The proof as bytes\<close>

text \<open>The points and responses of a proof, and its layout.\<close>

definition proof_bytes ::
    "secp256k1_ge list \<Rightarrow> secp256k1_scalar list list \<Rightarrow> secp256k1_scalar list \<Rightarrow> u8 list" where
  "proof_bytes pts f zs = concat (map secp256k1_ge_save_boquila pts) @ concat (map (\<lambda>row. scalars_bytes (tl row)) f) @ scalars_bytes zs"

lemma proof_head:
  "take (33 * length pts) (proof_bytes pts f zs) = concat (map secp256k1_ge_save_boquila pts)"
  "drop (33 * length pts) (proof_bytes pts f zs) = concat (map (\<lambda>row. scalars_bytes (tl row)) f) @ scalars_bytes zs"
proof -
  have "length (concat (map secp256k1_ge_save_boquila pts)) = 33 * length pts" by (induction pts) simp_all
  then show "take (33 * length pts) (proof_bytes pts f zs) = concat (map secp256k1_ge_save_boquila pts)"
    "drop (33 * length pts) (proof_bytes pts f zs) = concat (map (\<lambda>row. scalars_bytes (tl row)) f) @ scalars_bytes zs"
    by (simp_all add: proof_bytes_def)
qed

lemma proof_points:
  "i < length pts \<Longrightarrow> ring_parse_points (length pts) (proof_bytes pts f zs) ! i =
    secp256k1_ge_load_boquila (secp256k1_ge_save_boquila (pts ! i))"
proof -
  assume "i < length pts"
  moreover have "length b = 33" if "b \<in> set (map secp256k1_ge_save_boquila pts)" for b using that by auto
  ultimately show ?thesis
    using ring_parse_points_nth [of i "map secp256k1_ge_save_boquila pts"] by (simp add: proof_bytes_def)
qed

lemma proof_point_is:
  assumes "i < length pts" "ge_is 1 Q (pts ! i)" "Q \<noteq> 0"
  shows "ge_is 1 Q (ring_parse_points (length pts) (proof_bytes pts f zs) ! i)"
  using ge_save_load [OF assms(2,3)] by (simp add: proof_points [OF assms(1)])

lemma proof_parse:
  assumes n: "0 < n" and pts: "length pts = k" and x: "sc_is x sx" and f: "rows_ok n m x fv f" and zs: "\<And>s. s \<in> set zs \<Longrightarrow> sc_ok s"
  shows "ring_parse_f n sx m (drop (33 * k) (proof_bytes pts f zs)) = Some (f, scalars_bytes zs)"
    and "ring_parse_scalars (length zs) (scalars_bytes zs) = Some (zs, [])"
proof -
  show "ring_parse_f n sx m (drop (33 * k) (proof_bytes pts f zs)) = Some (f, scalars_bytes zs)"
    using ring_parse_f_rows [OF n x f] proof_head(2) [of pts f zs] pts by simp
  have "ring_parse_scalars (length zs) (scalars_bytes zs @ []) = Some (zs, [])"
    by (rule ring_parse_scalars_bytes) (use zs in \<open>simp add: sc_ok_def\<close>)
  then show "ring_parse_scalars (length zs) (scalars_bytes zs) = Some (zs, [])" by simp
qed

text \<open>What the verifier reads from a proof of this layout.\<close>

lemma verify_proof_bytes:
  assumes n: "0 < n" "n = rctx_n rctx" and N: "N \<le> n ^ m" "m \<le> rctx_m rctx"
    and pts: "length pts = 4 + m" and x: "sx = ring_challenge Cs N chal (concat (map secp256k1_ge_save_boquila pts))" "sc_is x sx"
    and f: "rows_ok n m x fv f" and zs: "sc_ok zA" "sc_ok zC" "sc_ok z"
  defines "ps \<equiv> ring_parse_points (4 + m) (proof_bytes pts f [zA, zC, z])"
  defines "gs \<equiv> ring_load_multigen n (rctx_m rctx) (rctx_multigen rctx)"
  defines "tmpH \<equiv> secp256k1_generator_load (rctx_genh rctx)"
  defines "c_ge \<equiv> map (\<lambda>j. secp256k1_ge_load_boquila (cint_buf (Cs ! j))) [0 ..< N]"
  shows "secp256k1_verify_zero_mcom_proof rctx (proof_bytes pts f [zA, zC, z]) Cs N m chal =
    (if secp256k1_ge_save_boquila (ring_verify_lhs n m (drop 4 ps) c_ge f sx N) \<noteq>
        secp256k1_ge_save_boquila (ring_pow (secp256k1_generator_load (rctx_geng rctx)) z) then Inl Failure
     else if \<not> ring_check_AB gs tmpH n m (ps ! 0) (ps ! 1) f sx zA then Inl Failure
     else if \<not> ring_check_CD gs tmpH n m (ps ! 2) (ps ! 3) f sx zC then Inl Failure
     else Inr ())"
proof -
  have ok: "s \<in> set [zA, zC, z] \<Longrightarrow> sc_ok s" for s using zs by auto
  have l: "length [zA, zC, z] = 3" by simp
  have pf: "ring_parse_f n sx m (drop (33 * (4 + m)) (proof_bytes pts f [zA, zC, z])) = Some (f, scalars_bytes [zA, zC, z])"
    by (rule proof_parse(1) [OF n(1) pts x(2) f ok])
  have "ring_parse_scalars (length [zA, zC, z]) (scalars_bytes [zA, zC, z]) = Some ([zA, zC, z], [])"
    by (rule proof_parse(2) [OF n(1) pts x(2) f ok])
  then have z3: "ring_parse_scalars 3 (scalars_bytes [zA, zC, z]) = Some ([zA, zC, z], [])" unfolding l .
  have ch: "ring_challenge Cs N chal (take (33 * (4 + m)) (proof_bytes pts f [zA, zC, z])) = sx"
    using proof_head(1) [of pts f "[zA, zC, z]"] pts x(1) by simp
  show ?thesis
    unfolding secp256k1_verify_zero_mcom_proof_def Let_def n(2) [symmetric] ring_power_is ch pf option.case prod.case z3
      ps_def gs_def tmpH_def c_ge_def
    using N by (simp add: not_le)
qed

section \<open>Completeness\<close>

text \<open>The values of an honest run.\<close>

lemma nonces_are:
  assumes "nonces_ok n m N"
  shows "sc_is (scv (nonce_rA N)) (nonce_rA N)" "sc_is (scv (nonce_rB N)) (nonce_rB N)"
    "sc_is (scv (nonce_rC N)) (nonce_rC N)" "sc_is (scv (nonce_rD N)) (nonce_rD N)"
    and "j < m \<Longrightarrow> sc_is (run_rho N j) (nonce_rho N ! j)"
  using assms by (simp_all add: nonces_ok_def scv_is run_rho_def)

lemma run_poly_is:
  assumes "nonces_ok n m N" "0 < n" "0 < m" "t < ring_size" "j \<le> m"
  shows "sc_is (run_poly n m index N t j) (map (ring_poly n m index (nonce_a N)) [0 ..< ring_size] ! t ! j)"
  using ring_poly_is [where av = "\<lambda>j i. scv (nonce_a N ! j ! i)", OF assms(2,3) nonces_a(1) [OF assms(1)], of index t] assms(4,5)
  by (simp add: coeffs_are_def run_poly_def)

lemma response_zA_ok:
  "nonces_ok n m N \<Longrightarrow> sc_is x sx \<Longrightarrow>
    sc_ok (ring_response_zA sx (nonce_rB N) (nonce_rA N)) \<and> sc_ok (ring_response_zA sx (nonce_rC N) (nonce_rD N))"
  using ring_response_zA_is nonces_are sc_is_scv by meson

lemma proof_load:
  assumes "length pts = 4 + m" "ge_is 1 R (pts ! i)" "R \<noteq> 0" "i < 4 + m"
  shows "ge_is 1 R (ring_parse_points (4 + m) (proof_bytes pts f zs) ! i)"
  using proof_point_is [of i pts R f zs] assms by simp

text \<open>The four commitments of an honest proof pass their two checks.\<close>

lemma honest_checks:
  assumes n: "0 < n" and N: "nonces_ok n m N" and H: "ge_is 1 H tmpH" "H \<noteq> 0" and g: "gens_ok (n * m) gs P" and x: "sc_is x sx"
    and fin: "commit_finite n m index H P N x" and Q: "length Q = m"
    and pts: "pts = [ring_com_A gs tmpH n m (nonce_a N) (nonce_rA N), ring_com_B gs tmpH n m index (nonce_rB N),
      ring_com_C gs tmpH n m index (nonce_a N) (nonce_rC N), ring_com_D gs tmpH n m (nonce_a N) (nonce_rD N)] @ Q"
    and ps: "ps = ring_parse_points (4 + m) (proof_bytes pts f zs)"
  shows "ring_check_AB gs tmpH n m (ps ! 0) (ps ! 1) (ring_response_f n m index (nonce_a N) sx) sx (ring_response_zA sx (nonce_rB N) (nonce_rA N))"
    and "ring_check_CD gs tmpH n m (ps ! 2) (ps ! 3) (ring_response_f n m index (nonce_a N) sx) sx (ring_response_zA sx (nonce_rC N) (nonce_rD N))"
proof -
  let ?av = "\<lambda>j i. scv (nonce_a N ! j ! i)"
  note fin = fin [unfolded commit_finite_def Let_def]
  note r = nonces_are [OF N] and aa = nonces_a(1) [OF N]
  have As: "ge_is 1 (ring_value H n m P (scv (nonce_rA N)) ?av) (pts ! 0)"
    using ring_coms_are(1) [where av = ?av, OF H g aa r(1)] fin by (simp add: pts)
  have Bs: "ge_is 1 (ring_value H n m P (scv (nonce_rB N)) (idx_delta n index)) (pts ! 1)"
    using ring_coms_are(2) [where av = ?av, OF H g aa r(2)] fin by (simp add: pts)
  have Cs: "ge_is 1 (ring_value H n m P (scv (nonce_rC N)) (\<lambda>j i. (1 - 2 * idx_delta n index j i) * ?av j i)) (pts ! 2)"
    using ring_coms_are(3) [where av = ?av, OF H g aa r(3)] fin by (simp add: pts)
  have Ds: "ge_is 1 (ring_value H n m P (scv (nonce_rD N)) (\<lambda>j i. - (?av j i * ?av j i))) (pts ! 3)"
    using ring_coms_are(4) [where av = ?av, OF H g aa r(4)] fin by (simp add: pts)
  have l: "length pts = 4 + m" by (simp add: pts Q)
  have ok: "ring_value_ok H n m P (scv (nonce_rA N)) ?av" "ring_value_ok H n m P (scv (nonce_rB N)) (idx_delta n index)"
    "ring_value_ok H n m P (scv (nonce_rC N)) (\<lambda>j i. (1 - 2 * idx_delta n index j i) * ?av j i)"
    "ring_value_ok H n m P (scv (nonce_rD N)) (\<lambda>j i. - (?av j i * ?av j i))"
    "ring_value_ok H n m P (x * scv (nonce_rB N) + scv (nonce_rA N)) (resp_f n index ?av x)"
    "ring_value_ok H n m P (x * scv (nonce_rC N) + scv (nonce_rD N)) (\<lambda>j i. (x - resp_f n index ?av x j i) * resp_f n index ?av x j i)"
    using fin by blast+
  have p: "ge_is 1 (ring_value H n m P (scv (nonce_rA N)) ?av) (ps ! 0)"
    "ge_is 1 (ring_value H n m P (scv (nonce_rB N)) (idx_delta n index)) (ps ! 1)"
    "ge_is 1 (ring_value H n m P (scv (nonce_rC N)) (\<lambda>j i. (1 - 2 * idx_delta n index j i) * ?av j i)) (ps ! 2)"
    "ge_is 1 (ring_value H n m P (scv (nonce_rD N)) (\<lambda>j i. - (?av j i * ?av j i))) (ps ! 3)"
    unfolding ps using proof_load [OF l As ring_value_neq_0 [OF ok(1)]] proof_load [OF l Bs ring_value_neq_0 [OF ok(2)]]
      proof_load [OF l Cs ring_value_neq_0 [OF ok(3)]] proof_load [OF l Ds ring_value_neq_0 [OF ok(4)]] by simp_all
  have f: "sc_is (resp_f n index ?av x j i) (ring_response_f n m index (nonce_a N) sx ! j ! i)" if "j < m" "i < n" for j i
    by (rule ring_response_f_is [where av = ?av, OF aa [OF that] x that])
  note zA = ring_response_zA_is [OF x r(2,1)] and zC = ring_response_zA_is [OF x r(3,4)]
  note c = ring_checks_complete [where av = ?av and index = index, OF H g f x p(1) ok(1) p(2) ok(2) p(3) ok(3) p(4) ok(4) zA ok(5) zC ok(6)]
  show "ring_check_AB gs tmpH n m (ps ! 0) (ps ! 1) (ring_response_f n m index (nonce_a N) sx) sx (ring_response_zA sx (nonce_rB N) (nonce_rA N))"
    "ring_check_CD gs tmpH n m (ps ! 2) (ps ! 3) (ring_response_f n m index (nonce_a N) sx) sx (ring_response_zA sx (nonce_rC N) (nonce_rD N))"
    using c by blast+
qed

text \<open>
  The left side of the ring equation: all terms but those of the index cancel, for any base \<open>S\<close> of
  the blinding exponents.
\<close>

lemma honest_lhs:
  assumes n: "0 < n" "0 < m" and N: "nonces_ok n m N" and x: "sc_is x sx" and idx: "index < n ^ m" "ring_size \<le> n ^ m"
    and c: "\<And>t. t < ring_size \<Longrightarrow> ge_is 1 (cP t) (c_ge ! t) \<and> cP t \<noteq> 0"
    and Q: "\<And>j. j < m \<Longrightarrow> ge_is 1 (Q_value S (run_poly n m index N) cP ring_size (run_rho N) j) (Q ! j) \<and>
      Q_value S (run_poly n m index N) cP ring_size (run_rho N) j \<noteq> 0"
    and fin: "ring_run_finite n m index ring_size S cP N x"
    and pts: "length coms = 4" "length Q = m"
  defines "V \<equiv> smul (x ^ m) (if index < ring_size then cP index else 0) - smul (\<Sum>j < m. run_rho N j * x ^ j) S"
  shows "ge_is 1 V (ring_verify_lhs n m (drop 4 (ring_parse_points (4 + m) (proof_bytes (coms @ Q) f zs))) c_ge
      (ring_response_f n m index (nonce_a N) sx) sx ring_size)" and "V \<noteq> 0"
proof -
  let ?QP = "Q_value S (run_poly n m index N) cP ring_size (run_rho N)"
  let ?ps = "ring_parse_points (4 + m) (proof_bytes (coms @ Q) f zs)"
  have l: "length (coms @ Q) = 4 + m" using pts by simp
  have ld: "ge_is 1 (?QP j) (drop 4 ?ps ! j) \<and> ?QP j \<noteq> 0" if "j < m" for j
    using proof_load [OF l, of "?QP j" "4 + j" f zs] Q [OF that] that pts by (simp add: nth_append ring_parse_points_def)
  have ff: "sc_is (run_resp n index N x j i) (ring_response_f n m index (nonce_a N) sx ! j ! i)" if "j < m" "i < n" for j i
    unfolding run_resp_def by (rule ring_response_f_is [where av = "\<lambda>j i. scv (nonce_a N ! j ! i)", OF nonces_a(1) [OF N that] x that])
  have o: "sum_list (lhs_Q_terms x ?QP m) + sum_list (lhs_c_terms n m (run_resp n index N x) cP ring_size) = V"
    unfolding V_def run_resp_def by (rule ring_opening [OF idx]) (simp add: run_poly_def)
  show "ge_is 1 V (ring_verify_lhs n m (drop 4 ?ps) c_ge (ring_response_f n m index (nonce_a N) sx) sx ring_size)" "V \<noteq> 0"
    using ring_verify_lhs_is [where QP = ?QP and fv = "run_resp n index N x", OF n(2,1) ld c x ff fin [unfolded ring_run_finite_def]]
    unfolding o by blast+
qed

text \<open>The proof for given nonces, and that the prover returns it.\<close>

definition ring_proof_of ::
    "ringcip_context \<Rightarrow> cint_pt list \<Rightarrow> nat \<Rightarrow> secp256k1_scalar \<Rightarrow> nat \<Rightarrow> nat \<Rightarrow> u8 list \<Rightarrow> ring_nonces \<Rightarrow> u8 list" where
  "ring_proof_of rctx Cs index key N m chal nn = (
     let n = rctx_n rctx; a = nonce_a nn;
         gs = ring_load_multigen n (rctx_m rctx) (rctx_multigen rctx); tmpH = secp256k1_generator_load (rctx_genh rctx);
         c_ge = map (\<lambda>j. secp256k1_ge_load_boquila (cint_buf (Cs ! j))) [0 ..< N];
         coms = [ring_com_A gs tmpH n m a (nonce_rA nn), ring_com_B gs tmpH n m index (nonce_rB nn),
           ring_com_C gs tmpH n m index a (nonce_rC nn), ring_com_D gs tmpH n m a (nonce_rD nn)];
         Q = map (ring_com_Q (secp256k1_generator_load (rctx_geng rctx)) c_ge (map (ring_poly n m index a) [0 ..< N]) N (nonce_rho nn)) [0 ..< m];
         x = ring_challenge Cs N chal (concat (map secp256k1_ge_save_boquila (coms @ Q)))
     in proof_bytes (coms @ Q) (ring_response_f n m index a x)
          [ring_response_zA x (nonce_rB nn) (nonce_rA nn), ring_response_zA x (nonce_rC nn) (nonce_rD nn), ring_response_z m (nonce_rho nn) key x])"

lemma create_proof_is:
  assumes run: "secp256k1_create_zero_mcom_proof rctx Cs index key N m chal rng = (Inr prf, rng')"
  shows "N \<le> rctx_n rctx ^ m" "index < N" "m \<le> rctx_m rctx"
    and "prf = ring_proof_of rctx Cs index key N m chal (fst (ring_draw_nonces (rctx_n rctx) m rng))"
proof -
  show cond: "N \<le> rctx_n rctx ^ m" "index < N" "m \<le> rctx_m rctx"
    using run unfolding secp256k1_create_zero_mcom_proof_def Let_def ring_power_is by (auto simp: not_less split: if_splits)
  have f: "ring_serialize_f n m (ring_response_f n m index a x) = concat (map (\<lambda>row. scalars_bytes (tl row)) (ring_response_f n m index a x))"
    for n a x by (rule ring_serialize_f_rows) (simp_all add: ring_response_f_def)
  show "prf = ring_proof_of rctx Cs index key N m chal (fst (ring_draw_nonces (rctx_n rctx) m rng))"
    using run cond unfolding secp256k1_create_zero_mcom_proof_def Let_def ring_power_is
    by (auto simp: not_less ring_proof_of_def proof_bytes_def Let_def f split: if_splits prod.splits)
qed

text \<open>
  The verdict on such a proof, for any index that has \<open>m\<close> digits: it is accepted when the key opens
  the entry of the ring at the index, and, without an entry there, when the key is zero.
\<close>

theorem ring_proof_accepted:
  assumes ctx: "ring_ctx_ok rctx G H P" and ring: "ring_ok Cs N cP" and n: "0 < n" "n = rctx_n rctx" "0 < m" "m \<le> rctx_m rctx"
    and idx: "index < n ^ m" "N \<le> n ^ m" and nok: "nonces_ok n m nn"
    and key: "sc_is k key" "(if index < N then cP index else 0) = smul k G"
    and bytes: "prf = ring_proof_of rctx Cs index key N m chal nn"
    and fin: "run_finite n m index N G H P cP nn (scv (ring_challenge Cs N chal (take (33 * (4 + m)) prf)))"
  shows "secp256k1_verify_zero_mcom_proof rctx prf Cs N m chal = Inr ()"
proof -
  define gs where "gs = ring_load_multigen n (rctx_m rctx) (rctx_multigen rctx)"
  define c_ge where "c_ge = map (\<lambda>j. secp256k1_ge_load_boquila (cint_buf (Cs ! j))) [0 ..< N]"
  define tmpG where "tmpG = secp256k1_generator_load (rctx_geng rctx)"
  define tmpH where "tmpH = secp256k1_generator_load (rctx_genh rctx)"
  define p where "p = map (ring_poly n m index (nonce_a nn)) [0 ..< N]"
  define coms where "coms = [ring_com_A gs tmpH n m (nonce_a nn) (nonce_rA nn), ring_com_B gs tmpH n m index (nonce_rB nn),
    ring_com_C gs tmpH n m index (nonce_a nn) (nonce_rC nn), ring_com_D gs tmpH n m (nonce_a nn) (nonce_rD nn)]"
  define Q where "Q = map (ring_com_Q tmpG c_ge p N (nonce_rho nn)) [0 ..< m]"
  define sx where "sx = ring_challenge Cs N chal (concat (map secp256k1_ge_save_boquila (coms @ Q)))"
  define f where "f = ring_response_f n m index (nonce_a nn) sx"
  define zA where "zA = ring_response_zA sx (nonce_rB nn) (nonce_rA nn)"
  define zC where "zC = ring_response_zA sx (nonce_rC nn) (nonce_rD nn)"
  define z where "z = ring_response_z m (nonce_rho nn) key sx"
  define x where "x = scv sx"
  have pts: "length (coms @ Q) = 4 + m" by (simp add: coms_def Q_def)
  have x: "sc_is x sx" unfolding x_def by (rule scv_is) (simp add: sx_def ring_challenge_def Let_def sc_ok_set_b32)
  have f: "rows_ok n m x (run_resp n index nn x) f" unfolding f_def run_resp_def by (rule nonces_rows [OF nok n(1) x])
  have pf: "prf = proof_bytes (coms @ Q) f [zA, zC, z]"
    unfolding bytes ring_proof_of_def Let_def n(2) [symmetric] coms_def Q_def f_def zA_def zC_def z_def sx_def gs_def tmpG_def tmpH_def c_ge_def p_def ..
  have sx: "sx = ring_challenge Cs N chal (take (33 * (4 + m)) prf)" unfolding pf proof_head(1) [of "coms @ Q", unfolded pts] sx_def ..
  have fin: "commit_finite n m index H P nn x" "ring_run_finite n m index N G cP nn x"
    "\<forall>j < m. accs_finite (smul (run_rho nn j) G) (Q_terms (run_poly n m index nn) cP N j)"
    using fin unfolding sx [symmetric] x_def [symmetric] run_finite_def by blast+
  have g: "gens_ok (n * m) gs P" and G: "ge_is 1 G tmpG" "G \<noteq> 0" and H: "ge_is 1 H tmpH" "H \<noteq> 0"
    using ctx n(4) gens_ok_mono [of "n * rctx_m rctx" _ P "n * m"] by (simp_all add: ring_ctx_ok_def gs_def tmpG_def tmpH_def n(2))
  have c: "ge_is 1 (cP t) (c_ge ! t) \<and> cP t \<noteq> 0" if "t < N" for t unfolding c_ge_def by (rule ring_ok_loaded [OF ring that])
  have Qs: "ge_is 1 (Q_value G (run_poly n m index nn) cP N (run_rho nn) j) (Q ! j) \<and>
      Q_value G (run_poly n m index nn) cP N (run_rho nn) j \<noteq> 0" if "j < m" for j
    using ring_com_Q_is [where pv = "run_poly n m index nn" and rv = "run_rho nn" and j = j and p = p, OF G c _ nonces_are(5) [OF nok that]]
      run_poly_is [OF nok n(1,3)] fin(3) that unfolding p_def by (simp add: Q_def p_def)
  have l: "length coms = 4" "length Q = m" by (simp_all add: coms_def Q_def)
  note lhs = honest_lhs [OF n(1,3) nok x idx c Qs fin(2) l]
  have zz: "sc_is (k * x ^ m - (\<Sum>j < m. run_rho nn j * x ^ j)) z"
    unfolding z_def by (rule ring_response_z_is [OF nonces_are(5) [OF nok] x key(1)])
  have e: "smul (x ^ m) (if index < N then cP index else 0) - smul (\<Sum>j < m. run_rho nn j * x ^ j) G = smul (k * x ^ m - (\<Sum>j < m. run_rho nn j * x ^ j)) G"
    unfolding key(2) by (simp add: curve.scale_left_diff_distrib mult.commute)
  have "secp256k1_ge_save_boquila (ring_verify_lhs n m (drop 4 (ring_parse_points (4 + m) prf)) c_ge f sx N) = secp256k1_ge_save_boquila (ring_pow tmpG z)"
    unfolding pf f_def [symmetric] by (rule ge_save_unique [OF lhs(1) [folded f_def] ring_pow_is [OF G zz, folded e] lhs(2)])
  moreover note honest_checks [OF n(1) nok H g x fin(1) _ _ refl, of Q _ f "[zA, zC, z]"]
  moreover have "sc_ok zA" "sc_ok zC" "sc_ok z"
    using response_zA_ok [OF nok x] zz sc_is_scv unfolding zA_def zC_def by blast+
  ultimately show ?thesis
    using verify_proof_bytes [OF n(1,2) idx(2) n(4) pts sx_def x f, of zA zC z]
    by (simp add: pf gs_def tmpH_def tmpG_def c_ge_def zA_def zC_def f_def coms_def Q_def)
qed

theorem zero_mcom_complete:
  assumes ctx: "ring_ctx_ok rctx G H P" and ring: "ring_ok Cs N cP" and key: "sc_is k key" "cP index = smul k G"
    and n: "0 < n" "n = rctx_n rctx" "0 < m"
    and run: "secp256k1_create_zero_mcom_proof rctx Cs index key N m chal rng = (Inr prf, rng')"
    and fin: "run_finite n m index N G H P cP (fst (ring_draw_nonces n m rng))
      (scv (ring_challenge Cs N chal (take (33 * (4 + m)) prf)))"
  shows "secp256k1_verify_zero_mcom_proof rctx prf Cs N m chal = Inr ()"
proof -
  obtain nn overflow rng1 where d: "ring_draw_nonces n m rng = (nn, overflow, rng1)" by (metis prod_cases3)
  have nok: "nonces_ok n m (fst (ring_draw_nonces n m rng))" using ring_draw_nonces_ok [OF n(1) d] by (simp add: d)
  note c = create_proof_is [OF run, folded n(2)]
  have "index < n ^ m" "(if index < N then cP index else 0) = smul k G" using c(1,2) key(2) by simp_all
  from ring_proof_accepted [OF ctx ring n c(3) this(1) c(1) nok key(1) this(2) c(4) fin] show ?thesis .
qed

end
