(* ===== verification/Boquila_Law.thy ===== *)
theory Boquila_Law
  imports Boquila Ring_Complete Generator_Law Hash_Stream
begin

text \<open>
  Keys and proofs of the credential system over the group: a public key is the bytes of a multiple
  of the base, membership is the one-out-of-many proof of the ring of keys, authentication is a
  Schnorr proof. The last section computes a secret key from one proof and the state the random
  source was in.
\<close>

section \<open>Keys\<close>

lemma key_bytes:
  assumes g: "ge_is 1 G g" "G \<noteq> 0" and s: "sc_is x s" "x \<noteq> 0"
  shows "secp256k1_ge_save_boquila (fst (secp256k1_ge_set_gej (secp256k1_ecmult_const g s 256))) = point_bytes (smul x G)"
proof -
  have "ge_is 1 (smul x G) (fst (secp256k1_ge_set_gej (secp256k1_ecmult_const g s 256)))"
    by (rule ge_set_gej_is(1) [OF ecmult_const_smul [OF g s(1)]]) simp
  moreover have "smul x G \<noteq> 0" using s(2) g(2) by simp
  ultimately show ?thesis by (rule ge_save_is)
qed

lemma of_nat_fn_neq_0: "0 < k \<Longrightarrow> k < order_n \<Longrightarrow> (of_nat k :: fn) \<noteq> 0"
  using of_nat_fn_eq_0_iff [of k] by (simp add: nat_dvd_not_less)

lemma set_b32_small:
  assumes "length b = 32" "be_nat b < order_n"
  shows "\<not> snd (secp256k1_scalar_set_b32 b)"
    and "sc_is (of_nat (be_nat b)) (fst (secp256k1_scalar_set_b32 b))"
  using secp256k1_scalar_set_b32_value(2) [OF assms(1)] assms(2) secp256k1_scalar_set_b32_is [OF assms(1)]
  by simp_all

lemma set_b32_large: "length b = 32 \<Longrightarrow> snd (secp256k1_scalar_set_b32 b) \<longleftrightarrow> order_n \<le> be_nat b"
  by (rule secp256k1_scalar_set_b32_value(2))

lemma gen_mpk_is:
  assumes g: "ge_is 1 G (secp256k1_generator_load (rctx_geng rctx))" "G \<noteq> 0"
    and k: "length msk = 32" "0 < be_nat msk" "be_nat msk < order_n"
  shows "secp256k1_boquila_gen_mpk rctx msk = Inr (point_bytes (nmul (be_nat msk) G))"
    and "secp256k1_boquila_derive_spk rctx msk = Inr (point_bytes (nmul (be_nat msk) G))"
  using key_bytes [OF g set_b32_small(2) [OF k(1,3)] of_nat_fn_neq_0 [OF k(2,3)]] set_b32_small(1) [OF k(1,3)]
  by (simp_all add: secp256k1_boquila_gen_mpk_def secp256k1_boquila_derive_spk_def split_def Let_def smul_of_nat)

section \<open>Membership\<close>

lemma memmpk_complete:
  assumes ctx: "ring_ctx_ok rctx G H P" "0 < rctx_n rctx" "0 < m"
    and ring: "\<And>t. t < N \<Longrightarrow> mpks ! t = point_bytes (K t) \<and> K t \<noteq> 0"
    and key: "length msk = 32" "be_nat msk < order_n" "K j = nmul (be_nat msk) G" 
    and run: "secp256k1_boquila_prove_memmpk rctx mpks msk W name name_len spk j N m rng = (Inr prf, rng')"
    and fin: "run_finite (rctx_n rctx) m j N G H P K (fst (ring_draw_nonces (rctx_n rctx) m rng))
      (scv (ring_challenge (map (\<lambda>i. \<lparr>cint_buf = mpks ! i\<rparr>) [0 ..< N]) N (boquila_challenge spk W name name_len) (take (33 * (4 + m)) prf)))"
  shows "secp256k1_boquila_verify_memmpk rctx prf mpks W name name_len spk N m = Inr ()"
proof -
  let ?Cs = "map (\<lambda>i. \<lparr>cint_buf = mpks ! i\<rparr>) [0 ..< N]"
  have "ring_ok ?Cs N K" using ring by (simp add: ring_ok_def)
  moreover have "K j = smul (of_nat (be_nat msk)) G" using key(3) by (simp add: smul_of_nat)
  moreover have "secp256k1_create_zero_mcom_proof rctx ?Cs j (fst (secp256k1_scalar_set_b32 msk)) N m
      (boquila_challenge spk W name name_len) rng = (Inr prf, rng')"
    using run set_b32_small(1) [OF key(1,2)] by (simp add: secp256k1_boquila_prove_memmpk_def split_def Let_def split: if_splits)
  ultimately have "secp256k1_verify_zero_mcom_proof rctx prf ?Cs N m (boquila_challenge spk W name name_len) = Inr ()"
    by (intro zero_mcom_complete [OF ctx(1) _ set_b32_small(2) [OF key(1,2)] _ ctx(2) refl ctx(3) _ fin])
  then show ?thesis by (simp add: secp256k1_boquila_verify_memmpk_def)
qed

section \<open>Authentication\<close>

text \<open>Verification decides the equation of Schnorr.\<close>

lemma auth_verify_iff:
  fixes chal :: "u8 list"
  assumes g: "ge_is 1 G (secp256k1_generator_load (rctx_geng rctx))" "G \<noteq> 0" and S: "S \<noteq> 0" and R: "R \<noteq> 0"
    and s: "length sb = 32"
  defines "x \<equiv> scv (boquila_auth_challenge (point_bytes S) chal (point_bytes R))"
  assumes fin: "R + smul x S \<noteq> 0" "smul (of_nat (be_nat sb)) G \<noteq> 0"
  shows "secp256k1_boquila_auth_verify rctx (point_bytes R @ sb) (point_bytes S) chal \<longleftrightarrow>
    R + smul x S = smul (of_nat (be_nat sb)) G"
proof -
  let ?x = "boquila_auth_challenge (point_bytes S) chal (point_bytes R)"
  have x: "sc_is x ?x" unfolding x_def boquila_auth_challenge_def Let_def by (rule scv_is [OF sc_ok_set_b32])
  let ?l = "fst (secp256k1_ge_set_gej (secp256k1_gej_add_ge (secp256k1_ecmult_const (secp256k1_ge_load_boquila (point_bytes S)) ?x 256)
    (secp256k1_ge_load_boquila (point_bytes R))))"
  have "gej_is 1 (smul x S + R) (secp256k1_gej_add_ge (secp256k1_ecmult_const (secp256k1_ge_load_boquila (point_bytes S)) ?x 256)
      (secp256k1_ge_load_boquila (point_bytes R)))"
    by (rule gej_add_ge_refines [OF ecmult_const_smul [OF load_point_bytes [OF S] S x] load_point_bytes [OF R] R]) simp
  then have l: "ge_is 1 (R + smul x S) ?l" by (simp add: ge_set_gej_is(1) add.commute)
  let ?r = "fst (secp256k1_ge_set_gej (secp256k1_ecmult_const (secp256k1_generator_load (rctx_geng rctx)) (fst (secp256k1_scalar_set_b32 sb)) 256))"
  have r: "ge_is 1 (smul (of_nat (be_nat sb)) G) ?r"
    by (rule ge_set_gej_is(1) [OF ecmult_const_smul [OF g secp256k1_scalar_set_b32_is [OF s]]]) simp
  have "secp256k1_boquila_auth_verify rctx (point_bytes R @ sb) (point_bytes S) chal \<longleftrightarrow>
      secp256k1_ge_save_boquila ?l = secp256k1_ge_save_boquila ?r"
    by (simp add: secp256k1_boquila_auth_verify_def Let_def)
  then show ?thesis using ge_save_eq_iff [OF l fin(1) r fin(2)] by simp
qed

text \<open>A length from 0 on is the same number as a \<^verbatim>\<open>size_t\<close>.\<close>

lemma size_of_int: "0 \<le> i \<Longrightarrow> i < 2 ^ 31 \<Longrightarrow> unat (word_of_int i :: u64) = nat i"
  by (simp add: unsigned_of_int take_bit_int_eq_self)

text \<open>An honest proof: the commitment and the response. The service key is the derived one, or what the
  array held before when the derivation has refused.\<close>

lemma auth_prove_is:
  fixes chal spk :: "u8 list"
  assumes g: "ge_is 1 G (secp256k1_generator_load (rctx_geng rctx))" "G \<noteq> 0"
    and csk: "csk = (case secp256k1_boquila_derive_ssk msk name name_len of Inl e \<Rightarrow> csk0 | Inr c \<Rightarrow> c)" "be_nat csk < order_n"
    and l: "length csk = 32" and r: "length r = 32" "\<not> order_n dvd be_nat r"
  defines "R \<equiv> smul (of_nat (be_nat r)) G"
  defines "x \<equiv> scv (boquila_auth_challenge spk chal (point_bytes R))"
  shows "\<exists>sb. secp256k1_boquila_auth_prove csk0 rctx msk r name name_len spk chal = Inr (point_bytes R @ sb) \<and> length sb = 32 \<and>
    (of_nat (be_nat sb) :: fn) = x * of_nat (be_nat csk) + of_nat (be_nat r)"
proof -
  define ra where "ra = fst (secp256k1_scalar_set_b32 r)"
  have ra: "sc_is (of_nat (be_nat r)) ra" unfolding ra_def by (rule secp256k1_scalar_set_b32_is [OF r(1)])
  have r0: "(of_nat (be_nat r) :: fn) \<noteq> 0" using r(2) of_nat_fn_eq_0_iff by blast
  then have nz: "\<not> secp256k1_scalar_is_zero ra" using sc_is_value [OF ra] fn_nat_inject [of "of_nat (be_nat r)" 0]
    by (simp add: secp256k1_scalar_is_zero_iff)
  let ?c = "boquila_auth_challenge spk chal (point_bytes R)"
  have x: "sc_is x ?c" unfolding x_def boquila_auth_challenge_def Let_def by (rule scv_is [OF sc_ok_set_b32])
  have Rb: "secp256k1_ge_save_boquila (fst (secp256k1_ge_set_gej (secp256k1_ecmult_const (secp256k1_generator_load (rctx_geng rctx)) ra 256))) = point_bytes R"
    unfolding R_def by (rule key_bytes [OF g ra r0])
  define sa where "sa = snd (secp256k1_scalar_add (secp256k1_scalar_mul ?c (fst (secp256k1_scalar_set_b32 csk))) ra)"
  have sa: "sc_is (x * of_nat (be_nat csk) + of_nat (be_nat r)) sa"
    unfolding sa_def by (rule secp256k1_scalar_add_is [OF secp256k1_scalar_mul_is [OF x set_b32_small(2) [OF l csk(2)]] ra])
  have "secp256k1_boquila_auth_prove csk0 rctx msk r name name_len spk chal = Inr (point_bytes R @ secp256k1_scalar_get_b32 sa)"
    using set_b32_small(1) [OF l csk(2)] nz Rb
    by (simp add: secp256k1_boquila_auth_prove_def csk(1) [symmetric] split_def Let_def sa_def flip: ra_def)
  moreover have "be_nat (secp256k1_scalar_get_b32 sa) = sc_val sa" by (rule secp256k1_scalar_get_b32_value)
  ultimately show ?thesis
    using sa sc_is_value [OF sa] by (intro exI [of _ "secp256k1_scalar_get_b32 sa"]) simp
qed

section \<open>Shape of the proofs\<close>

lemma zero_mcom_shape:
  assumes "secp256k1_create_zero_mcom_proof rctx Cs index key N m chal rng = (Inr prf, rng')" and n: "0 < rctx_n rctx"
  shows "\<exists>nn overflow pts f zA zC. ring_draw_nonces (rctx_n rctx) m rng = (nn, overflow, rng') \<and> \<not> overflow \<and> nonces_ok (rctx_n rctx) m nn \<and>
    length pts = 4 + m \<and> length f = m \<and>
    (let x = ring_challenge Cs N chal (concat (map secp256k1_ge_save_boquila pts))
     in prf = concat (map secp256k1_ge_save_boquila pts) @ ring_serialize_f (rctx_n rctx) m f @
        secp256k1_scalar_get_b32 zA @ secp256k1_scalar_get_b32 zC @ secp256k1_scalar_get_b32 (ring_response_z m (nonce_rho nn) key x))"
proof -
  obtain nn overflow rng1 where d: "ring_draw_nonces (rctx_n rctx) m rng = (nn, overflow, rng1)" by (metis prod_cases3)
  define gs where "gs = ring_load_multigen (rctx_n rctx) (rctx_m rctx) (rctx_multigen rctx)"
  define c_ge where "c_ge = map (\<lambda>j. secp256k1_ge_load_boquila (cint_buf (Cs ! j))) [0 ..< N]"
  define tmpG where "tmpG = secp256k1_generator_load (rctx_geng rctx)"
  define tmpH where "tmpH = secp256k1_generator_load (rctx_genh rctx)"
  define pts where "pts = [ring_com_A gs tmpH (rctx_n rctx) m (nonce_a nn) (nonce_rA nn), ring_com_B gs tmpH (rctx_n rctx) m index (nonce_rB nn),
    ring_com_C gs tmpH (rctx_n rctx) m index (nonce_a nn) (nonce_rC nn), ring_com_D gs tmpH (rctx_n rctx) m (nonce_a nn) (nonce_rD nn)] @
    map (ring_com_Q tmpG c_ge (map (ring_poly (rctx_n rctx) m index (nonce_a nn)) [0 ..< N]) N (nonce_rho nn)) [0 ..< m]"
  have cond: "\<not> ring_power (rctx_n rctx) m < N" "index < N" "m \<le> rctx_m rctx" "\<not> overflow"
    using assms(1) d unfolding secp256k1_create_zero_mcom_proof_def Let_def by (auto split: if_splits)
  define x where "x = ring_challenge Cs N chal (concat (map secp256k1_ge_save_boquila pts))"
  have "prf = concat (map secp256k1_ge_save_boquila pts) @ ring_serialize_f (rctx_n rctx) m (ring_response_f (rctx_n rctx) m index (nonce_a nn) x) @
      secp256k1_scalar_get_b32 (ring_response_zA x (nonce_rB nn) (nonce_rA nn)) @
      secp256k1_scalar_get_b32 (ring_response_zA x (nonce_rC nn) (nonce_rD nn)) @
      secp256k1_scalar_get_b32 (ring_response_z m (nonce_rho nn) key x)" and "rng' = rng1"
    using assms(1) d cond unfolding secp256k1_create_zero_mcom_proof_def Let_def
    by (auto simp: pts_def x_def gs_def tmpG_def tmpH_def c_ge_def)
  moreover have "length (ring_response_f (rctx_n rctx) m index (nonce_a nn) x) = m" by (simp add: ring_response_f_def)
  moreover have "length pts = 4 + m" by (simp add: pts_def)
  ultimately show ?thesis
    using d cond ring_draw_nonces_ok [OF n d] unfolding x_def Let_def by blast
qed

lemma serialize_f_length: "length (ring_serialize_f n m f) = 32 * (m * (n - 1))"
proof -
  have "length (concat (map (\<lambda>i. secp256k1_scalar_get_b32 (g i)) is)) = 32 * length is" for g and "is" :: "nat list"
    by (induction "is") simp_all
  then have "length (concat (map (\<lambda>j. concat (map (\<lambda>i. secp256k1_scalar_get_b32 (f ! j ! i)) [1 ..< n])) js)) = length js * (32 * (n - 1))" for js :: "nat list"
    by (induction js) simp_all
  then show ?thesis by (simp add: ring_serialize_f_def)
qed

lemma points_length: "length (concat (map secp256k1_ge_save_boquila pts)) = 33 * length pts"
  by (induction pts) simp_all

section \<open>A secret key from a proof\<close>

text \<open>
  The key from the bytes of a proof and the state of the random source before it: the blinding
  exponents are drawn again, the challenge is hashed again, and the last response is solved for the
  key.
\<close>

definition recover_key ::
    "ringcip_context \<Rightarrow> secp256k1_rfc6979_hmac_sha256 \<Rightarrow> cint_pt list \<Rightarrow> nat \<Rightarrow> nat \<Rightarrow> u8 list \<Rightarrow> u8 list \<Rightarrow> secp256k1_scalar" where
  "recover_key rctx rng Cs N m chal prf = (
     let nonces = fst (ring_draw_nonces (rctx_n rctx) m rng);
         x = ring_challenge Cs N chal (take (33 * (4 + m)) prf);
         z = fst (secp256k1_scalar_set_b32 (drop (length prf - 32) prf));
         (tot, xm) = fold (\<lambda>j (tot, xj). (snd (secp256k1_scalar_add tot (secp256k1_scalar_mul (nonce_rho nonces ! j) xj)),
             secp256k1_scalar_mul xj x)) [0 ..< m] (z, secp256k1_scalar_set_int 1)
     in secp256k1_scalar_mul tot (secp256k1_scalar_inverse xm))"

lemma recover_fold_is:
  assumes rho: "\<And>j. j < m \<Longrightarrow> sc_is (rv j) (rho ! j)" and x: "sc_is x sx" and z: "sc_is zv z"
  shows "k \<le> m \<Longrightarrow> case fold (\<lambda>j (tot, xj). (snd (secp256k1_scalar_add tot (secp256k1_scalar_mul (rho ! j) xj)),
      secp256k1_scalar_mul xj sx)) [0 ..< k] (z, secp256k1_scalar_set_int 1) of (tot, xm) \<Rightarrow>
    sc_is (zv + (\<Sum>j < k. rv j * x ^ j)) tot \<and> sc_is (x ^ k) xm"
proof (induction k)
  case 0
  then show ?case using z secp256k1_scalar_set_int_is [of 1] by simp
next
  case (Suc k)
  then have r: "sc_is (rv k) (rho ! k)" using rho by simp
  show ?case
    using Suc secp256k1_scalar_add_is [OF _ secp256k1_scalar_mul_is [OF r]] secp256k1_scalar_mul_is [OF _ x]
    by (fastforce simp: split_def add.assoc mult.commute)
qed

lemma recover_key_is:
  assumes run: "secp256k1_create_zero_mcom_proof rctx Cs index key N m chal rng = (Inr prf, rng')" and n: "0 < rctx_n rctx"
    and key: "sc_ok key" and x: "scv (ring_challenge Cs N chal (take (33 * (4 + m)) prf)) \<noteq> 0"
  shows "recover_key rctx rng Cs N m chal prf = key"
proof -
  obtain nn overflow pts f zA zC where d: "ring_draw_nonces (rctx_n rctx) m rng = (nn, overflow, rng')"
    and nok: "nonces_ok (rctx_n rctx) m nn" and pts: "length pts = 4 + m"
    and pb: "let x = ring_challenge Cs N chal (concat (map secp256k1_ge_save_boquila pts))
     in prf = concat (map secp256k1_ge_save_boquila pts) @ ring_serialize_f (rctx_n rctx) m f @
        secp256k1_scalar_get_b32 zA @ secp256k1_scalar_get_b32 zC @ secp256k1_scalar_get_b32 (ring_response_z m (nonce_rho nn) key x)"
    using zero_mcom_shape [OF run n] by blast
  define head where "head = concat (map secp256k1_ge_save_boquila pts)"
  define sx where "sx = ring_challenge Cs N chal head"
  define z where "z = ring_response_z m (nonce_rho nn) key sx"
  have pb: "prf = head @ (ring_serialize_f (rctx_n rctx) m f @ secp256k1_scalar_get_b32 zA @ secp256k1_scalar_get_b32 zC) @ secp256k1_scalar_get_b32 z"
    using pb by (simp add: head_def sx_def z_def Let_def)
  have hd: "take (33 * (4 + m)) prf = head" using pts by (simp add: pb head_def points_length)
  have last: "drop (length prf - 32) prf = secp256k1_scalar_get_b32 z" by (simp add: pb)
  have sx: "sc_is (scv sx) sx" unfolding sx_def ring_challenge_def Let_def by (rule scv_is [OF sc_ok_set_b32])
  have rho: "sc_is (scv (nonce_rho nn ! j)) (nonce_rho nn ! j)" if "j < m" for j
    by (rule scv_is) (use nok that in \<open>simp add: nonces_ok_def\<close>)
  define k where "k = scv key"
  have key: "sc_is k key" unfolding k_def by (rule scv_is [OF key])
  have z: "sc_is (k * scv sx ^ m - (\<Sum>j < m. scv (nonce_rho nn ! j) * scv sx ^ j)) z"
    unfolding z_def by (rule ring_response_z_is [OF rho sx key])
  have zs: "fst (secp256k1_scalar_set_b32 (secp256k1_scalar_get_b32 z)) = z"
    using secp256k1_scalar_set_get_b32 [OF sc_is_lt [OF z]] by simp
  obtain tot xm where f: "fold (\<lambda>j (tot, xj). (snd (secp256k1_scalar_add tot (secp256k1_scalar_mul (nonce_rho nn ! j) xj)),
      secp256k1_scalar_mul xj sx)) [0 ..< m] (z, secp256k1_scalar_set_int 1) = (tot, xm)" by fastforce
  have s: "sc_is (k * scv sx ^ m) tot" "sc_is (scv sx ^ m) xm"
    using recover_fold_is [where rv = "\<lambda>j. scv (nonce_rho nn ! j)" and rho = "nonce_rho nn" and m = m, OF rho sx z, of m] f by simp_all
  have "recover_key rctx rng Cs N m chal prf = secp256k1_scalar_mul tot (secp256k1_scalar_inverse xm)"
    unfolding recover_key_def Let_def d fst_conv hd last zs sx_def [symmetric] f prod.case ..
  moreover have "sc_is (k * scv sx ^ m * inverse (scv sx ^ m)) (secp256k1_scalar_mul tot (secp256k1_scalar_inverse xm))"
    by (rule secp256k1_scalar_mul_is [OF s(1) secp256k1_scalar_inverse_is [OF s(2)]])
  moreover have "k * scv sx ^ m * inverse (scv sx ^ m) = k" using x unfolding hd sx_def [symmetric] by simp
  ultimately show ?thesis using key sc_val_inject sc_is_value by metis
qed

section \<open>Shape of the proofs with topics\<close>

lemma topics_filter_length: "t \<le> k \<Longrightarrow> length (filter (\<lambda>i. i \<noteq> t) [0 ..< k + 1]) = k"
proof -
  assume t: "t \<le> k"
  have "{i. i < length [0 ..< k + 1] \<and> [0 ..< k + 1] ! i \<noteq> t} = {..< k + 1} - {t}"
    by (auto simp: nth_upt simp del: upt_Suc)
  then show ?thesis using t by (simp only: length_filter_conv_card) simp
qed

lemma scalars_concat_length: "length (concat (map secp256k1_scalar_get_b32 ss)) = 32 * length ss"
  by (induction ss) simp_all

lemma dbpoe_shape:
  assumes "secp256k1_create_zero_mcom_DBPoE_proof rctx Cs index vals N t m chal rng = (Inr prf, rng')"
  shows "\<exists>pts f zA zC z. length pts = 4 + m \<and> length z = length (filter (\<lambda>i. i \<noteq> t) [0 ..< dctx_topic_size rctx + 1]) \<and>
    prf = concat (map secp256k1_ge_save_boquila pts) @ ring_serialize_f (dctx_n rctx) m f @
      secp256k1_scalar_get_b32 zA @ secp256k1_scalar_get_b32 zC @ concat (map secp256k1_scalar_get_b32 z)"
proof -
  obtain nn overflow rng1 where d: "ring_draw_nonces (dctx_n rctx) m rng = (nn, overflow, rng1)" by (metis prod_cases3)
  define gs where "gs = ring_load_multigen (dctx_n rctx) (dctx_m rctx) (dctx_multigen rctx)"
  define c_ge where "c_ge = map (\<lambda>j. secp256k1_ge_load_boquila (cint_buf (Cs ! j))) [0 ..< N]"
  define geng where "geng = map (\<lambda>j. secp256k1_generator_load (dctx_geng rctx ! j)) [0 ..< dctx_topic_size rctx + 1]"
  define tmpH where "tmpH = secp256k1_generator_load (dctx_genh rctx)"
  define rho where "rho = replicate (dctx_topic_size rctx + 1) (nonce_rho nn)"
  define pts where "pts = [ring_com_A gs tmpH (dctx_n rctx) m (nonce_a nn) (nonce_rA nn), ring_com_B gs tmpH (dctx_n rctx) m index (nonce_rB nn),
    ring_com_C gs tmpH (dctx_n rctx) m index (nonce_a nn) (nonce_rC nn), ring_com_D gs tmpH (dctx_n rctx) m (nonce_a nn) (nonce_rD nn)] @
    map (dbpoe_com_Q geng c_ge (map (ring_poly (dctx_n rctx) m index (nonce_a nn)) [0 ..< N]) N (dctx_topic_size rctx) t rho) [0 ..< m]"
  define x where "x = ring_challenge Cs N chal (concat (map secp256k1_ge_save_boquila pts))"
  have cond: "\<not> ring_power (dctx_n rctx) m < N" "index < N" "m \<le> dctx_m rctx" "\<not> overflow"
    using assms(1) d unfolding secp256k1_create_zero_mcom_DBPoE_proof_def Let_def by (auto split: if_splits)
  have "prf = concat (map secp256k1_ge_save_boquila pts) @ ring_serialize_f (dctx_n rctx) m (ring_response_f (dctx_n rctx) m index (nonce_a nn) x) @
      secp256k1_scalar_get_b32 (ring_response_zA x (nonce_rB nn) (nonce_rA nn)) @
      secp256k1_scalar_get_b32 (ring_response_zA x (nonce_rC nn) (nonce_rD nn)) @
      concat (map secp256k1_scalar_get_b32 (dbpoe_response_z (dctx_topic_size rctx) t m rho vals x))"
    using assms(1) d cond unfolding secp256k1_create_zero_mcom_DBPoE_proof_def Let_def
    by (auto simp: pts_def x_def gs_def tmpH_def c_ge_def geng_def rho_def)
  moreover have "length pts = 4 + m" by (simp add: pts_def)
  moreover have "length (dbpoe_response_z (dctx_topic_size rctx) t m rho vals x) = length (filter (\<lambda>i. i \<noteq> t) [0 ..< dctx_topic_size rctx + 1])"
    unfolding dbpoe_response_z_def by (rule length_map)
  ultimately show ?thesis by blast
qed

section \<open>Reading the responses of a proof\<close>

text \<open>The first \<open>k\<close> blocks of 32 bytes are numbers below the group order.\<close>

definition scalars_in_range :: "nat \<Rightarrow> u8 list \<Rightarrow> bool" where
  "scalars_in_range k buf \<longleftrightarrow> (\<forall>i < k. be_nat (take 32 (drop (32 * i) buf)) < order_n)"

lemma scalars_in_range_Suc:
  "scalars_in_range (Suc k) buf \<longleftrightarrow> be_nat (take 32 buf) < order_n \<and> scalars_in_range k (drop 32 buf)"
  by (auto simp: scalars_in_range_def less_Suc_eq_0_disj add.commute)

lemma scalars_in_range_add:
  "scalars_in_range (k + l) buf \<longleftrightarrow> scalars_in_range k buf \<and> scalars_in_range l (drop (32 * k) buf)"
proof (induction k arbitrary: buf)
  case (Suc k)
  then show ?case using scalars_in_range_Suc by (simp add: add.commute)
qed (simp add: scalars_in_range_def)

lemma ring_parse_scalars_decides:
  "32 * k \<le> length buf \<Longrightarrow>
    (\<exists>ss. ring_parse_scalars k buf = (if scalars_in_range k buf then Some (ss, drop (32 * k) buf) else None))"
proof (induction k arbitrary: buf)
  case 0
  then show ?case by (simp add: scalars_in_range_def)
next
  case (Suc k)
  then obtain ss where ss: "ring_parse_scalars k (drop 32 buf) =
      (if scalars_in_range k (drop 32 buf) then Some (ss, drop (32 * k) (drop 32 buf)) else None)"
    by (metis Suc.IH diff_le_mono length_drop add_diff_cancel_left' mult_Suc_right)
  have "snd (secp256k1_scalar_set_b32 buf) \<longleftrightarrow> order_n \<le> be_nat (take 32 buf)"
    using scalar_set_b32_append [of "take 32 buf" "drop 32 buf"] set_b32_large [of "take 32 buf"] Suc.prems by simp
  then show ?case using ss scalars_in_range_Suc [of k buf]
    by (cases "secp256k1_scalar_set_b32 buf") (auto simp: not_le add.commute)
qed

lemma ring_parse_f_decides:
  "32 * (m * (n - 1)) \<le> length buf \<Longrightarrow>
    (\<exists>f. ring_parse_f n x m buf = (if scalars_in_range (m * (n - 1)) buf then Some (f, drop (32 * (m * (n - 1))) buf) else None))"
proof (induction m arbitrary: buf)
  case 0
  then show ?case by (simp add: scalars_in_range_def)
next
  case (Suc m)
  define k where "k = n - 1"
  have l: "32 * k \<le> length buf" "32 * (m * k) \<le> length (drop (32 * k) buf)" using Suc.prems unfolding k_def [symmetric] by simp_all
  obtain ss where ss: "ring_parse_scalars k buf = (if scalars_in_range k buf then Some (ss, drop (32 * k) buf) else None)"
    using ring_parse_scalars_decides [OF l(1)] by blast
  obtain f where "ring_parse_f n x m (drop (32 * k) buf) =
      (if scalars_in_range (m * k) (drop (32 * k) buf) then Some (f, drop (32 * (m * k)) (drop (32 * k) buf)) else None)"
    using Suc.IH [folded k_def, OF l(2)] by blast
  then show ?case using ss scalars_in_range_add [of k "m * k" buf] unfolding ring_parse_f.simps k_def [symmetric]
    by (auto simp: Let_def ac_simps)
qed

lemma responses_in_range:
  assumes "length prf = 33 * (4 + m) + 32 * (l + m * (n - 1))"
  shows "(case ring_parse_f n x m (drop (33 * (4 + m)) prf) of None \<Rightarrow> True | Some (f, rest) \<Rightarrow> ring_parse_scalars l rest = None) \<longleftrightarrow>
    \<not> scalars_in_range (l + m * (n - 1)) (drop (33 * (4 + m)) prf)"
proof -
  define b where "b = drop (33 * (4 + m)) prf"
  define k where "k = m * (n - 1)"
  have l: "32 * k \<le> length b" "32 * l \<le> length (drop (32 * k) b)" using assms unfolding k_def [symmetric] by (simp_all add: b_def)
  obtain f where "ring_parse_f n x m b = (if scalars_in_range k b then Some (f, drop (32 * k) b) else None)"
    using ring_parse_f_decides [OF l(1) [unfolded k_def], of x] unfolding k_def by blast
  then show ?thesis
    using ring_parse_scalars_decides [OF l(2)] scalars_in_range_add [of k l b]
    unfolding b_def [symmetric] k_def [symmetric] by (auto simp: add.commute)
qed

end
