(* ===== verification/Boquila_Spec.thy ===== *)
theory Boquila_Spec
  imports Boquila_Law Group_Spec
begin

text \<open>
  What the credential system promises: keys and points travel as bytes without loss, an honest proof
  of membership and an honest authentication are accepted, verification decides the equation it
  stands for, proofs have the announced size, malformed ones are rejected; and, as a property of the
  code as it is, a proof made with a known state of the random source gives away the secret key.
\<close>

section \<open>Shared facts\<close>

text \<open>The exceptional runs: one of the accumulators of the prover or the verifier is infinite.\<close>

definition meets_infinity ::
    "nat \<Rightarrow> nat \<Rightarrow> nat \<Rightarrow> nat \<Rightarrow> cpoint \<Rightarrow> cpoint \<Rightarrow> (nat \<Rightarrow> cpoint) \<Rightarrow> (nat \<Rightarrow> cpoint) \<Rightarrow> ring_nonces \<Rightarrow> fn \<Rightarrow> bool" where
  "meets_infinity n m index N G H P K nonces x \<longleftrightarrow> \<not> run_finite n m index N G H P K nonces x"

text \<open>A context and a ring for the examples.\<close>

definition mG :: "nat \<Rightarrow> cpoint" where
  "mG k = nmul k curve_G"

lemma mG_neq_0: "0 < k \<Longrightarrow> k < 1000 \<Longrightarrow> mG k \<noteq> 0"
  unfolding mG_def by (rule nmul_small_neq_0) (simp_all add: curve_G_neq_0 order_n_def)

definition sample_rctx :: ringcip_context where
  "sample_rctx = \<lparr>rctx_L = 0, rctx_n = 2, rctx_m = 1, rctx_N = 2, rctx_multigen = [generator_of (mG 2), generator_of (mG 3)],
     rctx_geng = generator_of curve_G, rctx_genh = generator_of (mG 5), rctx_genmu = generator_of (mG 7)\<rparr>"

lemma sample_rctx_ok: "ring_ctx_ok sample_rctx curve_G (mG 5) (\<lambda>i. mG (i + 2))"
proof -
  have "gens_ok 2 (ring_load_multigen 2 1 [generator_of (mG 2), generator_of (mG 3)]) (\<lambda>i. mG (i + 2))"
    unfolding gens_ok_def
  proof (intro allI impI)
    fix i :: nat assume "i < 2"
    then have i: "i = 0 \<or> i = 1" by auto
    have "ge_is 1 (mG 2) (secp256k1_generator_load (generator_of (mG 2))) \<and> mG 2 \<noteq> 0"
      "ge_is 1 (mG 3) (secp256k1_generator_load (generator_of (mG 3))) \<and> mG 3 \<noteq> 0"
      by (simp_all add: generator_of_is mG_neq_0)
    moreover have "(1 :: nat) + 2 = 3" by simp
    ultimately show "ge_is 1 (mG (i + 2)) (ring_load_multigen 2 1 [generator_of (mG 2), generator_of (mG 3)] ! i) \<and> mG (i + 2) \<noteq> 0"
      using i by (elim disjE) (simp_all add: ring_load_multigen_def numeral_2_eq_2 numeral_3_eq_3)
  qed
  then show ?thesis
    using generator_of_is [OF curve_G_neq_0] generator_of_is [OF mG_neq_0, of 5] mG_neq_0 [of 5] curve_G_neq_0
    by (simp add: ring_ctx_ok_def sample_rctx_def)
qed

lemma sample_rctx_simps: "rctx_n sample_rctx = 2" "rctx_m sample_rctx = 1"
  by (simp_all add: sample_rctx_def)

definition sample_key :: "u8 list" where
  "sample_key = replicate 31 0 @ [9]"

lemma sample_key_value: "length sample_key = 32" "be_nat sample_key = 9"
proof -
  have "be_nat (replicate k 0 @ [9]) = 9" for k by (induction k) simp_all
  then show "length sample_key = 32" "be_nat sample_key = 9" by (simp_all add: sample_key_def)
qed

lemma mem_ring_key:
  assumes "ring_ctx_ok rctx G H P" "length msk = 32" "0 < be_nat msk" "be_nat msk < order_n"
    and "secp256k1_boquila_gen_mpk rctx msk = Inr b" "b = point_bytes K" "K \<noteq> 0"
  shows "K = nmul (be_nat msk) G"
proof -
  have G: "ge_is 1 G (secp256k1_generator_load (rctx_geng rctx))" "G \<noteq> 0" using assms(1) by (simp_all add: ring_ctx_ok_def)
  have "nmul (be_nat msk) G \<noteq> 0" by (rule nmul_small_neq_0 [OF G(2) assms(3,4)])
  then show ?thesis using gen_mpk_is(1) [OF G assms(2-4)] assms(5-7) by (simp add: point_bytes_inject)
qed

section \<open>Properties\<close>

text \<open>C1: a proof of membership made with the secret key of one of the keys of the ring is accepted by
  the verifier for the same ring, name and service key; the exception is a run in which an
  accumulator of one of the products is the point at infinity, which the addition routine does not
  support and the code does not test. The prover fails only on a ring larger than the context allows,
  an index outside the ring, too many digits, or a last random scalar not below the group order.\<close>

theorem membership_complete:
  assumes ctx: "ring_ctx_ok rctx G H P" "0 < rctx_n rctx" "0 < m"
    and ring: "\<forall>t < N. mpks ! t = point_bytes (K t) \<and> K t \<noteq> 0"
    and key: "length msk = 32" "0 < be_nat msk" "be_nat msk < order_n"
    and mpk: "secp256k1_boquila_gen_mpk rctx msk = Inr (mpks ! j)"
  shows "case secp256k1_boquila_prove_memmpk rctx mpks msk W name name_len spk j N m rng of
      (Inr prf, rng') \<Rightarrow>
        secp256k1_boquila_verify_memmpk rctx prf mpks W name name_len spk N m = Inr () \<or>
        meets_infinity (rctx_n rctx) m j N G H P K (fst (ring_draw_nonces (rctx_n rctx) m rng))
          (scv (ring_challenge (map (\<lambda>i. \<lparr>cint_buf = mpks ! i\<rparr>) [0 ..< N]) N (boquila_challenge spk W name name_len) (take (33 * (4 + m)) prf)))
    | (Inl e, rng') \<Rightarrow>
        if rctx_n rctx ^ m < N then e = Failure
        else if N \<le> j \<or> rctx_m rctx < m then e = Illegal_argument
        else e = Failure \<and> fst (snd (ring_draw_nonces (rctx_n rctx) m rng))"
proof -
  obtain res rng' where run: "secp256k1_boquila_prove_memmpk rctx mpks msk W name name_len spk j N m rng = (res, rng')" by fastforce
  have c: "secp256k1_create_zero_mcom_proof rctx (map (\<lambda>i. \<lparr>cint_buf = mpks ! i\<rparr>) [0 ..< N]) j (fst (secp256k1_scalar_set_b32 msk)) N m
      (boquila_challenge spk W name name_len) rng = (res, rng')"
    using run set_b32_small(1) [OF key(1,3)] by (simp add: secp256k1_boquila_prove_memmpk_def split_def Let_def)
  show ?thesis
  proof (cases res)
    case (Inl e)
    then show ?thesis using c run
      by (auto simp: secp256k1_create_zero_mcom_proof_def Let_def ring_power_is not_less split_def split: if_splits)
  next
    case (Inr pf)
    have "j < N" using c Inr by (auto simp: secp256k1_create_zero_mcom_proof_def Let_def split: if_splits)
    then have "K j = nmul (be_nat msk) G" using mem_ring_key [OF ctx(1) key mpk] ring by blast
    then show ?thesis
      using memmpk_complete [OF ctx _ key(1,3) _ run [unfolded Inr]] ring run Inr by (auto simp: meets_infinity_def)
  qed
qed

theorem membership_complete_witness:
  "case secp256k1_boquila_prove_memmpk sample_rctx [point_bytes (mG 9)] sample_key [] [] 0 [] 0 1 1 secp256k1_test_rng of
     (Inr prf, rng') \<Rightarrow>
        secp256k1_boquila_verify_memmpk sample_rctx prf [point_bytes (mG 9)] [] [] 0 [] 1 1 = Inr () \<or>
        meets_infinity 2 1 0 1 curve_G (mG 5) (\<lambda>i. mG (i + 2)) (\<lambda>_. mG 9) (fst (ring_draw_nonces 2 1 secp256k1_test_rng))
          (scv (ring_challenge [\<lparr>cint_buf = point_bytes (mG 9)\<rparr>] 1 (boquila_challenge [] [] [] 0) (take (33 * (4 + 1)) prf)))
   | (Inl e, rng') \<Rightarrow> e = Failure"
proof -
  have n: "9 < order_n" by (simp add: order_n_def)
  have k: "0 < be_nat sample_key" "be_nat sample_key < order_n" using n by (simp_all add: sample_key_value)
  have "secp256k1_boquila_gen_mpk sample_rctx sample_key = Inr (point_bytes (mG 9))"
    using gen_mpk_is(1) [OF _ _ sample_key_value(1) k, of curve_G sample_rctx] sample_rctx_ok
    by (simp add: sample_key_value ring_ctx_ok_def mG_def)
  moreover have "\<forall>t < 1. [point_bytes (mG 9)] ! t = point_bytes (mG 9) \<and> mG 9 \<noteq> 0" using mG_neq_0 [of 9] by simp
  ultimately show ?thesis
    using membership_complete [OF sample_rctx_ok _ _ _ sample_key_value(1) k, where m = 1 and N = 1 and j = 0 and K = "\<lambda>_. mG 9"
        and mpks = "[point_bytes (mG 9)]" and W = "[]" and name = "[]" and name_len = 0 and spk = "[]" and rng = secp256k1_test_rng]
    by (auto simp: sample_rctx_def split: sum.splits prod.splits)
qed

text \<open>C9: authentication: with the service key derived from a master secret and a name, the proof for any
  challenge has 65 bytes and is accepted for the matching public service key, except when the service
  key or the response is zero modulo the group order, where the products are the point at infinity.
  The prover fails only when the random bytes are a multiple of the group order. The derivation gives the
  hash of the secret and the name and refuses the empty name; the prover does not notice this and goes on
  with the bytes that its uninitialised key array held before, for which all the rest holds as well.\<close>

theorem auth_complete:
  assumes ctx: "ring_ctx_ok rctx G H P" and r: "length r = 32" and csk0: "length csk0 = 32"
    and name: "0 \<le> name_len" "name_len \<le> int (length name)" "name_len < 2 ^ 31"
  shows "secp256k1_boquila_derive_ssk msk name name_len =
      (if name_len = 0 then Inl Illegal_argument else Inr (sha256_spec (take 32 msk @ take (nat name_len) name))) \<and>
    (let csk = (case secp256k1_boquila_derive_ssk msk name name_len of Inl e \<Rightarrow> csk0 | Inr c \<Rightarrow> c)
     in case secp256k1_boquila_derive_spk rctx csk of Inl e \<Rightarrow> order_n \<le> be_nat csk
      | Inr spk \<Rightarrow> (case secp256k1_boquila_auth_prove csk0 rctx msk r name name_len spk chal of
          Inl e \<Rightarrow> e = Failure \<and> order_n dvd be_nat r
        | Inr prf \<Rightarrow> length prf = 65 \<and>
            (secp256k1_boquila_auth_verify rctx prf spk chal \<or> be_nat csk = 0 \<or> order_n dvd be_nat (drop 33 prf))))"
proof
  show ssk: "secp256k1_boquila_derive_ssk msk name name_len =
      (if name_len = 0 then Inl Illegal_argument else Inr (sha256_spec (take 32 msk @ take (nat name_len) name)))"
    using size_of_int [OF name(1,3)] by (simp add: secp256k1_boquila_derive_ssk_def sha256_parts_is)
  define csk where "csk = (case secp256k1_boquila_derive_ssk msk name name_len of Inl e \<Rightarrow> csk0 | Inr c \<Rightarrow> c)"
  have l: "length csk = 32" using csk0 by (simp add: csk_def ssk sha256_spec_length)
  have g: "ge_is 1 G (secp256k1_generator_load (rctx_geng rctx))" "G \<noteq> 0" using ctx by (simp_all add: ring_ctx_ok_def)
  have "case secp256k1_boquila_derive_spk rctx csk of Inl e \<Rightarrow> order_n \<le> be_nat csk
      | Inr spk \<Rightarrow> (case secp256k1_boquila_auth_prove csk0 rctx msk r name name_len spk chal of
          Inl e \<Rightarrow> e = Failure \<and> order_n dvd be_nat r
        | Inr prf \<Rightarrow> length prf = 65 \<and>
            (secp256k1_boquila_auth_verify rctx prf spk chal \<or> be_nat csk = 0 \<or> order_n dvd be_nat (drop 33 prf)))"
  proof (cases "secp256k1_boquila_derive_spk rctx csk")
    case (Inl e)
    then show ?thesis using set_b32_large [OF l] by (simp add: secp256k1_boquila_derive_spk_def split_def Let_def split: if_splits)
  next
    case spk: (Inr spk)
    then have csk: "be_nat csk < order_n"
      using set_b32_large [OF l] by (auto simp: secp256k1_boquila_derive_spk_def split_def Let_def not_le split: if_splits)
    show ?thesis
    proof (cases "order_n dvd be_nat r")
      case True
      then show ?thesis
        using spk set_b32_small(1) [OF l csk] secp256k1_scalar_set_b32_value(1) [OF r] secp256k1_scalar_is_zero_iff
        by (auto simp: secp256k1_boquila_auth_prove_def csk_def [symmetric] split_def Let_def ge_save_length split: sum.splits if_splits)
    next
      case False
      let ?R = "smul (of_nat (be_nat r)) G"
      have r0: "(of_nat (be_nat r) :: fn) \<noteq> 0" using False of_nat_fn_eq_0_iff by blast
      then have R: "?R \<noteq> 0" using g(2) by simp
      let ?x = "scv (boquila_auth_challenge spk chal (point_bytes ?R))"
      obtain sb where sb: "secp256k1_boquila_auth_prove csk0 rctx msk r name name_len spk chal = Inr (point_bytes ?R @ sb)" "length sb = 32"
        "(of_nat (be_nat sb) :: fn) = ?x * of_nat (be_nat csk) + of_nat (be_nat r)"
        using auth_prove_is [OF g csk_def csk l r False] by blast
      have "secp256k1_boquila_auth_verify rctx (point_bytes ?R @ sb) spk chal" if "be_nat csk \<noteq> 0" "\<not> order_n dvd be_nat sb"
      proof -
        have S: "spk = point_bytes (nmul (be_nat csk) G)" "nmul (be_nat csk) G \<noteq> 0"
          using gen_mpk_is(2) [OF g l _ csk] nmul_small_neq_0 [OF g(2) _ csk] spk that(1) by simp_all
        have e: "?R + smul ?x (nmul (be_nat csk) G) = smul (of_nat (be_nat sb)) G"
          by (simp only: sb(3) smul_of_nat [symmetric] curve.scale_scale curve.scale_left_distrib add.commute)
        have "smul (of_nat (be_nat sb)) G \<noteq> 0" using that(2) of_nat_fn_eq_0_iff g(2) by simp
        with auth_verify_iff [OF g S(2) R sb(2), of chal] e show ?thesis by (simp add: S(1))
      qed
      then show ?thesis using spk sb by auto
    qed
  qed
  then show "let csk = (case secp256k1_boquila_derive_ssk msk name name_len of Inl e \<Rightarrow> csk0 | Inr c \<Rightarrow> c)
     in case secp256k1_boquila_derive_spk rctx csk of Inl e \<Rightarrow> order_n \<le> be_nat csk
      | Inr spk \<Rightarrow> (case secp256k1_boquila_auth_prove csk0 rctx msk r name name_len spk chal of
          Inl e \<Rightarrow> e = Failure \<and> order_n dvd be_nat r
        | Inr prf \<Rightarrow> length prf = 65 \<and>
            (secp256k1_boquila_auth_verify rctx prf spk chal \<or> be_nat csk = 0 \<or> order_n dvd be_nat (drop 33 prf)))"
    unfolding csk_def Let_def .
qed

theorem auth_complete_witness:
  "\<exists>csk. secp256k1_boquila_derive_ssk sample_key [1] 1 = Inr csk \<and>
    (case secp256k1_boquila_derive_spk sample_rctx csk of Inl e \<Rightarrow> order_n \<le> be_nat csk
      | Inr spk \<Rightarrow> (case secp256k1_boquila_auth_prove (replicate 32 0) sample_rctx sample_key sample_key [1] 1 spk [] of
          Inl e \<Rightarrow> False | Inr prf \<Rightarrow> length prf = 65))"
proof -
  have "\<not> order_n dvd 9" by (simp add: order_n_def dvd_eq_mod_eq_0)
  then show ?thesis
    using auth_complete [OF sample_rctx_ok sample_key_value(1), where msk = sample_key and name = "[1]" and name_len = 1 and chal = "[]"
        and ?csk0.0 = "replicate 32 0"]
    by (auto simp: sample_key_value Let_def split: sum.splits)
qed

text \<open>Verification of an authentication decides the equation of Schnorr: for the bytes of two
  finite points and any response the answer is yes exactly when the response times the base is the
  commitment plus the challenge times the key, unless the challenge makes the left side, or the
  response the right side, the point at infinity.\<close>

theorem auth_verify_decides:
  fixes chal :: "u8 list"
  assumes ctx: "ring_ctx_ok rctx G H P" and S: "S \<noteq> 0" and R: "R \<noteq> 0" and s: "length sb = 32"
  shows "R + smul (scv (boquila_auth_challenge (point_bytes S) chal (point_bytes R))) S = 0 \<or> order_n dvd be_nat sb \<or>
    (secp256k1_boquila_auth_verify rctx (point_bytes R @ sb) (point_bytes S) chal \<longleftrightarrow>
      R + smul (scv (boquila_auth_challenge (point_bytes S) chal (point_bytes R))) S = nmul (be_nat sb) G)"
proof -
  have g: "ge_is 1 G (secp256k1_generator_load (rctx_geng rctx))" "G \<noteq> 0" using ctx by (simp_all add: ring_ctx_ok_def)
  have "smul (of_nat (be_nat sb)) G \<noteq> 0" if "\<not> order_n dvd be_nat sb" using that of_nat_fn_eq_0_iff g(2) by simp
  with auth_verify_iff [OF g S R s, of chal] show ?thesis unfolding smul_of_nat by blast
qed

text \<open>The example: the public key 9, the commitment 4, a response of 9.\<close>

lemma sample_sum: "mG 4 + smul x (mG 9) = smul (4 + x * 9) curve_G"
proof -
  have "mG 4 = smul 4 curve_G" "mG 9 = smul 9 curve_G" using smul_of_nat [of 4] smul_of_nat [of 9] by (simp_all add: mG_def)
  then show ?thesis by (simp only: curve.scale_scale curve.scale_left_distrib)
qed

theorem auth_verify_decides_witness:
  "4 + scv (boquila_auth_challenge (point_bytes (mG 9)) [] (point_bytes (mG 4))) * 9 = 0 \<or>
    (secp256k1_boquila_auth_verify sample_rctx (point_bytes (mG 4) @ sample_key) (point_bytes (mG 9)) [] \<longleftrightarrow>
      4 + scv (boquila_auth_challenge (point_bytes (mG 9)) [] (point_bytes (mG 4))) * 9 = 9)"
proof -
  have "\<not> order_n dvd 9" by (simp add: order_n_def dvd_eq_mod_eq_0)
  moreover have "nmul 9 curve_G = smul 9 curve_G" using smul_of_nat [of 9] by simp
  ultimately show ?thesis
    using auth_verify_decides [OF sample_rctx_ok _ _ sample_key_value(1), of "mG 9" "mG 4" "[]"] curve_G_neq_0
    by (simp add: sample_key_value sample_sum mG_neq_0)
qed





text \<open>C31: the 33 bytes of a point: a finite point in any representation is written to 33 bytes and read
  back as the same point, and two finite points have the same bytes exactly when they are equal, so
  comparing buffers, as the verifiers do, compares points.\<close>

theorem point_codec:
  assumes "ge_is 1 P a" "P \<noteq> 0" "ge_is 1 Q b" "Q \<noteq> 0"
  shows "length (secp256k1_ge_save_boquila a) = 33 \<and>
    ge_is 1 P (secp256k1_ge_load_boquila (secp256k1_ge_save_boquila a)) \<and>
    (secp256k1_ge_save_boquila a = secp256k1_ge_save_boquila b \<longleftrightarrow> P = Q)"
  using ge_save_load [OF assms(1,2)] ge_save_eq_iff [OF assms] by simp

theorem point_codec_witness:
  "length (secp256k1_ge_save_boquila (secp256k1_generator_load (generator_of (mG 2)))) = 33 \<and>
    ge_is 1 (mG 2) (secp256k1_ge_load_boquila (secp256k1_ge_save_boquila (secp256k1_generator_load (generator_of (mG 2))))) \<and>
    (secp256k1_ge_save_boquila (secp256k1_generator_load (generator_of (mG 2))) =
     secp256k1_ge_save_boquila (secp256k1_generator_load (generator_of (mG 3))) \<longleftrightarrow> mG 2 = mG 3)"
  by (rule point_codec) (simp_all add: generator_of_is mG_neq_0)

text \<open>C26: as the code is, one proof and the state of the random source before it give away the secret
  key: the key computed from them alone is the key of the prover, unless the challenge is zero. The
  library never seeds its random source, so that state is public (it is all zeros at the start).\<close>

theorem key_recovery:
  assumes "0 < rctx_n rctx" "length msk = 32"
  shows "case secp256k1_boquila_prove_memmpk rctx mpks msk W name name_len spk j N m rng of
      (Inl e, rng') \<Rightarrow> True
    | (Inr prf, rng') \<Rightarrow>
        (let Cs = map (\<lambda>i. \<lparr>cint_buf = mpks ! i\<rparr>) [0 ..< N];
             chal = boquila_challenge spk W name name_len
         in scv (ring_challenge Cs N chal (take (33 * (4 + m)) prf)) = 0 \<or>
            secp256k1_scalar_get_b32 (recover_key rctx rng Cs N m chal prf) = msk)"
proof -
  let ?Cs = "map (\<lambda>i. \<lparr>cint_buf = mpks ! i\<rparr>) [0 ..< N]"
  let ?chal = "boquila_challenge spk W name name_len"
  obtain res rng' where run: "secp256k1_boquila_prove_memmpk rctx mpks msk W name name_len spk j N m rng = (res, rng')" by fastforce
  have "secp256k1_scalar_get_b32 (recover_key rctx rng ?Cs N m ?chal pf) = msk"
    if r: "res = Inr pf" and x: "scv (ring_challenge ?Cs N ?chal (take (33 * (4 + m)) pf)) \<noteq> 0" for pf
  proof -
    have o: "\<not> snd (secp256k1_scalar_set_b32 msk)"
      using run r by (auto simp: secp256k1_boquila_prove_memmpk_def split_def Let_def split: if_splits)
    have "secp256k1_create_zero_mcom_proof rctx ?Cs j (fst (secp256k1_scalar_set_b32 msk)) N m ?chal rng = (Inr pf, rng')"
      using run r o by (simp add: secp256k1_boquila_prove_memmpk_def split_def Let_def)
    from recover_key_is [OF this assms(1) sc_ok_set_b32 x]
    have "recover_key rctx rng ?Cs N m ?chal pf = fst (secp256k1_scalar_set_b32 msk)" .
    then show ?thesis using secp256k1_scalar_get_set_b32 [OF assms(2)] o set_b32_large [OF assms(2)] by (simp add: not_le)
  qed
  then show ?thesis using run by (auto simp: Let_def split: sum.splits)
qed

theorem key_recovery_witness:
  "case secp256k1_boquila_prove_memmpk sample_rctx [point_bytes (mG 9)] sample_key [] [] 0 [] 0 1 1 secp256k1_test_rng of
      (Inl e, rng') \<Rightarrow> True
    | (Inr prf, rng') \<Rightarrow>
        (let Cs = [\<lparr>cint_buf = point_bytes (mG 9)\<rparr>]; chal = boquila_challenge [] [] [] 0
         in scv (ring_challenge Cs 1 chal (take (33 * (4 + 1)) prf)) = 0 \<or>
            secp256k1_scalar_get_b32 (recover_key sample_rctx secp256k1_test_rng Cs 1 1 chal prf) = sample_key)"
  using key_recovery [OF _ sample_key_value(1), where rctx = sample_rctx and mpks = "[point_bytes (mG 9)]" and W = "[]" and name = "[]"
      and name_len = 0 and spk = "[]" and j = 0 and N = 1 and m = 1 and rng = secp256k1_test_rng]
  by (simp add: sample_rctx_simps split: sum.splits prod.splits)

lemma verify_accepts_in_range:
  assumes l: "length prf = 33 * (4 + m) + 32 * (3 + m * (rctx_n rctx - 1))"
    and acc: "secp256k1_verify_zero_mcom_proof rctx prf Cs N m chal = Inr u"
  shows "N \<le> rctx_n rctx ^ m \<and> m \<le> rctx_m rctx \<and> scalars_in_range (3 + m * (rctx_n rctx - 1)) (drop (33 * (4 + m)) prf)"
proof -
  define n where "n = rctx_n rctx"
  define buf where "buf = drop (33 * (4 + m)) prf"
  define x where "x = ring_challenge Cs N chal (take (33 * (4 + m)) prf)"
  note d = acc [unfolded secp256k1_verify_zero_mcom_proof_def Let_def, folded n_def, folded buf_def x_def, unfolded ring_power_is]
  obtain f rest where "ring_parse_f n x m buf = Some (f, rest)" using d by (auto split: if_splits option.splits)
  moreover from this have "ring_parse_scalars 3 rest \<noteq> None" using d by (cases "ring_parse_scalars 3 rest") (auto split: if_splits)
  ultimately have "scalars_in_range (3 + m * (n - 1)) buf"
    using responses_in_range [OF l, of x] unfolding n_def [symmetric] buf_def [symmetric] by auto
  moreover have "N \<le> n ^ m \<and> m \<le> rctx_m rctx" using d by (auto simp: not_less split: if_splits)
  ultimately show ?thesis by (simp only: n_def buf_def simp_thms)
qed

text \<open>C29: what verification of a membership proof of the announced length can answer: the ring must
  fit into \<open>n^m\<close>, the number of digits must be supported by the context (the only case of an
  illegal argument), and an accepted proof has every response below the group order, so no proof can
  be altered by adding the order to a response.\<close>

theorem membership_rejects:
  assumes "length pf = secp256k1_zero_mcom_get_size rctx m"
  shows "case secp256k1_boquila_verify_memmpk rctx pf mpks W name name_len spk N m of
      Inr u \<Rightarrow> N \<le> rctx_n rctx ^ m \<and> m \<le> rctx_m rctx \<and> scalars_in_range (3 + m * (rctx_n rctx - 1)) (drop (33 * (4 + m)) pf)
    | Inl Illegal_argument \<Rightarrow> N \<le> rctx_n rctx ^ m \<and> rctx_m rctx < m
    | Inl Failure \<Rightarrow> rctx_n rctx ^ m < N \<or> m \<le> rctx_m rctx"
proof -
  let ?Cs = "map (\<lambda>i. \<lparr>cint_buf = mpks ! i\<rparr>) [0 ..< N]" and ?chal = "boquila_challenge spk W name name_len"
  have v: "secp256k1_boquila_verify_memmpk rctx pf mpks W name name_len spk N m = secp256k1_verify_zero_mcom_proof rctx pf ?Cs N m ?chal"
    by (simp add: secp256k1_boquila_verify_memmpk_def)
  show ?thesis
  proof (cases "secp256k1_verify_zero_mcom_proof rctx pf ?Cs N m ?chal")
    case (Inl e)
    then show ?thesis unfolding v secp256k1_verify_zero_mcom_proof_def Let_def ring_power_is
      by (auto simp: not_less split: if_splits option.splits ring_error.splits)
  next
    case (Inr u)
    with verify_accepts_in_range [OF assms [unfolded secp256k1_zero_mcom_get_size_def] Inr] show ?thesis by (simp only: v sum.case)
  qed
qed

theorem membership_rejects_witness:
  "case secp256k1_boquila_verify_memmpk sample_rctx (replicate 293 0) [point_bytes (mG 9)] [] [] 0 [] 1 1 of
      Inr u \<Rightarrow> scalars_in_range 4 (drop 165 (replicate 293 0)) | Inl Illegal_argument \<Rightarrow> False | Inl Failure \<Rightarrow> True"
  using membership_rejects [where pf = "replicate 293 0" and rctx = sample_rctx and m = 1 and mpks = "[point_bytes (mG 9)]" and W = "[]" and name = "[]"
      and name_len = 0 and spk = "[]" and N = 1]
  by (simp add: secp256k1_zero_mcom_get_size_def sample_rctx_simps split: sum.splits ring_error.splits)

text \<open>C30: the sizes: every membership proof the provers return has the announced length, and every
  nullifier 32 bytes. With topics the index must lie strictly between 0 and the number of topics, so
  the last topic of a context is refused.\<close>

theorem membership_sizes:
  assumes n: "0 < rctx_n rctx"
  shows "(case secp256k1_boquila_prove_memmpk rctx mpks msk W name name_len spk j N m rng of
      (Inr prf, _) \<Rightarrow> length prf = secp256k1_zero_mcom_get_size rctx m | (Inl e, _) \<Rightarrow> True) \<and>
    (case secp256k1_boquila_prove_DBPoE_memmpk dctx mpks msk W name name_len spk j t N m rng of
      ((Inr prf, nl), _) \<Rightarrow> 0 < t \<and> t < int (dctx_topic_size dctx) \<and> length prf = secp256k1_zero_mcom_DBPoE_get_size dctx m \<and>
        (\<exists>b. nl = Some b \<and> length b = 32)
    | ((Inl e, nl), _) \<Rightarrow> True)"
proof
  have "length pf = secp256k1_zero_mcom_get_size rctx m"
    if "secp256k1_create_zero_mcom_proof rctx Cs j key N m chal rng = (Inr pf, rng')" for Cs key chal pf rng'
    using zero_mcom_shape [OF that n] by (auto simp: Let_def points_length serialize_f_length secp256k1_zero_mcom_get_size_def)
  then show "case secp256k1_boquila_prove_memmpk rctx mpks msk W name name_len spk j N m rng of
      (Inr prf, _) \<Rightarrow> length prf = secp256k1_zero_mcom_get_size rctx m | (Inl e, _) \<Rightarrow> True"
    by (auto simp: secp256k1_boquila_prove_memmpk_def Let_def split: prod.splits sum.splits)
next
  have "length pf = secp256k1_zero_mcom_DBPoE_get_size dctx m"
    if "secp256k1_create_zero_mcom_DBPoE_proof dctx Cs j vals N (nat t) m chal rng = (Inr pf, rng')" "t < int (dctx_topic_size dctx)"
    for Cs vals chal pf rng'
    using dbpoe_shape [OF that(1)] topics_filter_length [of "nat t" "dctx_topic_size dctx"] that(2)
    by (auto simp: points_length serialize_f_length scalars_concat_length secp256k1_zero_mcom_DBPoE_get_size_def simp del: upt_Suc)
  then show "case secp256k1_boquila_prove_DBPoE_memmpk dctx mpks msk W name name_len spk j t N m rng of
      ((Inr prf, nl), _) \<Rightarrow> 0 < t \<and> t < int (dctx_topic_size dctx) \<and> length prf = secp256k1_zero_mcom_DBPoE_get_size dctx m \<and>
        (\<exists>b. nl = Some b \<and> length b = 32)
    | ((Inl e, nl), _) \<Rightarrow> True"
    by (auto simp: secp256k1_boquila_prove_DBPoE_memmpk_def Let_def split: prod.splits sum.splits)
qed

theorem membership_sizes_witness:
  "case secp256k1_boquila_prove_memmpk sample_rctx [point_bytes (mG 9)] sample_key [] [] 0 [] 0 1 1 secp256k1_test_rng of
      (Inr prf, _) \<Rightarrow> length prf = 293 | (Inl e, _) \<Rightarrow> True"
  using membership_sizes [where rctx = sample_rctx and msk = sample_key and mpks = "[point_bytes (mG 9)]" and W = "[]" and name = "[]"
      and name_len = 0 and spk = "[]" and j = 0 and N = 1 and m = 1 and rng = secp256k1_test_rng and dctx = undefined and t = 0]
  by (auto simp: secp256k1_zero_mcom_get_size_def sample_rctx_simps split: sum.splits prod.splits)
text \<open>
  Forging: the algorithm of the prover, run without a key for an index that no entry of the ring has.
\<close>

definition forged_membership ::
    "ringcip_context \<Rightarrow> pk_t list \<Rightarrow> u8 list \<Rightarrow> u8 list \<Rightarrow> nat \<Rightarrow> pk_t \<Rightarrow> nat \<Rightarrow> nat \<Rightarrow> nat \<Rightarrow> ring_nonces \<Rightarrow> u8 list" where
  "forged_membership rctx mpks W name name_len spk index N m nonces =
     ring_proof_of rctx (map (\<lambda>i. \<lparr>cint_buf = mpks ! i\<rparr>) [0 ..< N]) index (secp256k1_scalar_set_int 0) N m
       (boquila_challenge spk W name name_len) nonces"

text \<open>C24: as the code is, the verifier accepts proofs of membership made without any secret key when the
  ring has fewer than \<open>n^m\<close> entries, which it allows: the digits committed to may be those of an index
  beyond the end of the ring, for which all terms of the ring equation cancel. The one exception is
  again a run that meets the point at infinity.\<close>

theorem membership_forgery:
  assumes ctx: "ring_ctx_ok rctx G H P" "0 < rctx_n rctx" "0 < m" "m \<le> rctx_m rctx"
    and ring: "\<forall>t < N. mpks ! t = point_bytes (K t) \<and> K t \<noteq> 0" and hole: "N \<le> index" "index < rctx_n rctx ^ m"
  shows "let nonces = fst (ring_draw_nonces (rctx_n rctx) m rng);
      prf = forged_membership rctx mpks W name name_len spk index N m nonces
    in secp256k1_boquila_verify_memmpk rctx prf mpks W name name_len spk N m = Inr () \<or>
      meets_infinity (rctx_n rctx) m index N G H P K nonces
        (scv (ring_challenge (map (\<lambda>i. \<lparr>cint_buf = mpks ! i\<rparr>) [0 ..< N]) N (boquila_challenge spk W name name_len) (take (33 * (4 + m)) prf)))"
proof -
  obtain nonces ov rng' where d: "ring_draw_nonces (rctx_n rctx) m rng = (nonces, ov, rng')" by (metis prod_cases3)
  have nok: "nonces_ok (rctx_n rctx) m nonces" by (rule ring_draw_nonces_ok [OF ctx(2) d])
  have r: "ring_ok (map (\<lambda>i. \<lparr>cint_buf = mpks ! i\<rparr>) [0 ..< N]) N K" using ring by (simp add: ring_ok_def)
  have z: "sc_is 0 (secp256k1_scalar_set_int 0)" using sc_set_of_bool [of False] by simp
  have k: "(if index < N then K index else 0) = smul 0 G" using hole(1) by simp
  have N: "N \<le> rctx_n rctx ^ m" using hole by simp
  show ?thesis
    using ring_proof_accepted [OF ctx(1) r ctx(2) refl ctx(3,4) hole(2) N nok z k refl]
    unfolding d fst_conv Let_def forged_membership_def meets_infinity_def secp256k1_boquila_verify_memmpk_def by blast
qed

theorem membership_forgery_witness:
  "let nonces = fst (ring_draw_nonces 2 1 secp256k1_test_rng);
      prf = forged_membership sample_rctx [point_bytes (mG 9)] [] [] 0 [] 1 1 1 nonces
    in secp256k1_boquila_verify_memmpk sample_rctx prf [point_bytes (mG 9)] [] [] 0 [] 1 1 = Inr () \<or>
      meets_infinity 2 1 1 1 curve_G (mG 5) (\<lambda>i. mG (i + 2)) (\<lambda>_. mG 9) nonces
        (scv (ring_challenge [\<lparr>cint_buf = point_bytes (mG 9)\<rparr>] 1 (boquila_challenge [] [] [] 0) (take (33 * (4 + 1)) prf)))"
proof -
  have "\<forall>t < 1. [point_bytes (mG 9)] ! t = point_bytes (mG 9) \<and> mG 9 \<noteq> 0" using mG_neq_0 [of 9] by simp
  then show ?thesis
    using membership_forgery [OF sample_rctx_ok, where m = 1 and N = 1 and index = 1 and K = "\<lambda>_. mG 9" and mpks = "[point_bytes (mG 9)]"
      and W = "[]" and name = "[]" and name_len = 0 and spk = "[]" and rng = secp256k1_test_rng]
    by (simp add: sample_rctx_simps)
qed

end
