(* ===== verification/Ring_Topics.thy ===== *)
theory Ring_Topics
  imports Ring_Complete
begin

text \<open>
  Completeness of the one-out-of-many proof with topics: the opening has one exponent per topic
  other than the one the nullifier was divided out of. The blinding exponents are the same for all
  topics, so the ring part is that of the plain proof for the sum of the bases.
\<close>

section \<open>Contexts and indices\<close>

definition dbpoe_ctx_ok :: "ringcip_DBPoE_context \<Rightarrow> (nat \<Rightarrow> cpoint) \<Rightarrow> cpoint \<Rightarrow> (nat \<Rightarrow> cpoint) \<Rightarrow> bool" where
  "dbpoe_ctx_ok rctx Gs H P \<longleftrightarrow>
     gens_ok (dctx_n rctx * dctx_m rctx) (ring_load_multigen (dctx_n rctx) (dctx_m rctx) (dctx_multigen rctx)) P \<and>
     (\<forall>i \<le> dctx_topic_size rctx. ge_is 1 (Gs i) (secp256k1_generator_load (dctx_geng rctx ! i)) \<and> Gs i \<noteq> 0) \<and>
     ge_is 1 H (secp256k1_generator_load (dctx_genh rctx)) \<and> H \<noteq> 0"

definition other_indices :: "nat \<Rightarrow> nat \<Rightarrow> nat list" where
  "other_indices k t = filter (\<lambda>i. i \<noteq> t) [0 ..< k + 1]"

lemma other_indices_Cons: "0 < t \<Longrightarrow> other_indices k t = 0 # dbpoe_topics k t"
  unfolding other_indices_def dbpoe_topics_def by (subst upt_conv_Cons) simp_all

lemma set_dbpoe_topics: "i \<in> set (dbpoe_topics k t) \<longleftrightarrow> 1 \<le> i \<and> i \<le> k \<and> i \<noteq> t"
  by (auto simp: dbpoe_topics_def)

text \<open>The sum over the other indices.\<close>

definition topic_sum :: "nat \<Rightarrow> nat \<Rightarrow> (nat \<Rightarrow> fn) \<Rightarrow> (nat \<Rightarrow> cpoint) \<Rightarrow> cpoint" where
  "topic_sum k t e Gs = (\<Sum>i\<leftarrow>other_indices k t. smul (e i) (Gs i))"

lemma topic_sum_Cons: "0 < t \<Longrightarrow> topic_sum k t e Gs = smul (e 0) (Gs 0) + (\<Sum>i\<leftarrow>dbpoe_topics k t. smul (e i) (Gs i))"
  by (simp add: topic_sum_def other_indices_Cons)

lemma sum_smul_const: "(\<Sum>i\<leftarrow>is. smul c (Gs i)) = smul c (\<Sum>i\<leftarrow>is. Gs i)"
  by (induction "is") (simp_all add: curve.scale_right_distrib)

lemma sum_smul_diff: "(\<Sum>i\<leftarrow>is. smul (e i * c - d) (Gs i)) = smul c (\<Sum>i\<leftarrow>is. smul (e i) (Gs i)) - smul d (\<Sum>i\<leftarrow>is. Gs i)"
  by (induction "is") (simp_all add: curve.scale_right_distrib curve.scale_left_diff_distrib mult.commute)

lemma topic_sum_diff:
  "topic_sum k t (\<lambda>i. e i * c - d) Gs = smul c (topic_sum k t e Gs) - smul d (topic_sum k t (\<lambda>i. 1) Gs)"
  unfolding topic_sum_def sum_smul_diff by simp

section \<open>The prover's points\<close>

lemma dbpoe_com_Q_is:
  assumes G: "\<And>i. i \<le> k \<Longrightarrow> ge_is 1 (Gs i) (geng ! i) \<and> Gs i \<noteq> 0" and t: "0 < t"
    and c: "\<And>u. u < N \<Longrightarrow> ge_is 1 (cP u) (c_ge ! u) \<and> cP u \<noteq> 0"
    and p: "\<And>u. u < N \<Longrightarrow> sc_is (pv u j) (p ! u ! j)" and r: "sc_is (rv j) (rho ! j)"
    and fin: "accs_finite (smul (rv j) (Gs 0)) (map (\<lambda>i. smul (rv j) (Gs i)) (dbpoe_topics k t) @ Q_terms pv cP N j)"
  defines "S \<equiv> topic_sum k t (\<lambda>i. 1) Gs"
  shows "ge_is 1 (Q_value S pv cP N rv j) (dbpoe_com_Q geng c_ge p N k t (replicate (k + 1) rho) j) \<and> Q_value S pv cP N rv j \<noteq> 0"
proof -
  define com where "com = fold (\<lambda>i. ring_mul_pow (geng ! i) (replicate (k + 1) rho ! i ! j)) (dbpoe_topics k t)
    (ring_pow (geng ! 0) (replicate (k + 1) rho ! 0 ! j))"
  have S: "smul (rv j) S = smul (rv j) (Gs 0) + (\<Sum>i\<leftarrow>dbpoe_topics k t. smul (rv j) (Gs i))"
    by (simp add: S_def topic_sum_Cons [OF t] curve.scale_right_distrib sum_smul_const)
  have "ge_is 1 (smul (rv j) (Gs 0)) (ring_pow (geng ! 0) (replicate (k + 1) rho ! 0 ! j))"
    using ring_pow_is [of "Gs 0" "geng ! 0"] G [of 0] r by simp
  from ring_fold_is [OF this, of "dbpoe_topics k t" Gs "\<lambda>i. geng ! i" "\<lambda>i. rv j" "\<lambda>i. replicate (k + 1) rho ! i ! j"]
  have com: "ge_is 1 (smul (rv j) S) com"
    unfolding S com_def using G r accs_finite_append [OF fin] by (auto simp: set_dbpoe_topics simp del: replicate.simps)
  have acc: "accs_finite (smul (rv j) S) (Q_terms pv cP N j)" using accs_finite_append [OF fin] by (simp add: S)
  have "ge_is 1 (Q_value S pv cP N rv j) (fold (\<lambda>u. ring_mul_pow (c_ge ! u) (p ! u ! j)) [0 ..< N] com)"
    using ring_fold_is [OF com, of "[0 ..< N]" cP "\<lambda>u. c_ge ! u" "\<lambda>u. pv u j" "\<lambda>u. p ! u ! j"] c p acc
    by (simp add: Q_value_def Q_terms_def)
  then show ?thesis using accs_finite_ends [OF acc] by (simp add: dbpoe_com_Q_def Let_def com_def Q_value_def)
qed

section \<open>The opening\<close>

lemma fold_update_zip:
  "i < length z \<Longrightarrow> fold (\<lambda>(i, s) z. z[i := s]) (zip is (map g is)) z ! i = (if i \<in> set is then g i else z ! i)"
  by (induction "is" arbitrary: z) (auto simp: nth_list_update)

lemma dbpoe_fill_z_nth: "i \<le> k \<Longrightarrow> i \<noteq> t \<Longrightarrow> dbpoe_fill_z k t (map g (other_indices k t)) ! i = g i"
  unfolding dbpoe_fill_z_def other_indices_def [symmetric] by (subst fold_update_zip) (auto simp: other_indices_def)

lemma dbpoe_opening_is:
  assumes G: "\<And>i. i \<le> k \<Longrightarrow> ge_is 1 (Gs i) (geng ! i) \<and> Gs i \<noteq> 0" and t: "0 < t"
    and z: "\<And>i. i \<le> k \<Longrightarrow> i \<noteq> t \<Longrightarrow> sc_is (e i) (z ! i)"
    and fin: "accs_finite (smul (e 0) (Gs 0)) (map (\<lambda>i. smul (e i) (Gs i)) (dbpoe_topics k t))"
  shows "ge_is 1 (topic_sum k t e Gs) (dbpoe_opening geng k t z)"
proof -
  have "ge_is 1 (smul (e 0) (Gs 0)) (ring_pow (geng ! 0) (z ! 0))" using ring_pow_is [of "Gs 0" "geng ! 0"] G [of 0] z [of 0] t by simp
  from ring_fold_is [OF this, of "dbpoe_topics k t" Gs "\<lambda>i. geng ! i" e "\<lambda>i. z ! i"] G z fin
  show ?thesis by (simp add: topic_sum_Cons [OF t] dbpoe_opening_def set_dbpoe_topics)
qed

section \<open>Completeness\<close>

definition dbpoe_response :: "nat \<Rightarrow> (nat \<Rightarrow> fn) \<Rightarrow> ring_nonces \<Rightarrow> fn \<Rightarrow> nat \<Rightarrow> fn" where
  "dbpoe_response m v N x i = v i * x ^ m - (\<Sum>j < m. run_rho N j * x ^ j)"

definition dbpoe_run_finite ::
    "nat \<Rightarrow> nat \<Rightarrow> nat \<Rightarrow> nat \<Rightarrow> nat \<Rightarrow> nat \<Rightarrow> (nat \<Rightarrow> cpoint) \<Rightarrow> cpoint \<Rightarrow> (nat \<Rightarrow> cpoint) \<Rightarrow> (nat \<Rightarrow> cpoint) \<Rightarrow> (nat \<Rightarrow> fn) \<Rightarrow>
     ring_nonces \<Rightarrow> fn \<Rightarrow> bool" where
  "dbpoe_run_finite n m k t index ring_size Gs H P cP v N x \<longleftrightarrow>
     commit_finite n m index H P N x \<and> ring_run_finite n m index ring_size (topic_sum k t (\<lambda>i. 1) Gs) cP N x \<and>
     (\<forall>j < m. accs_finite (smul (run_rho N j) (Gs 0))
        (map (\<lambda>i. smul (run_rho N j) (Gs i)) (dbpoe_topics k t) @ Q_terms (run_poly n m index N) cP ring_size j)) \<and>
     accs_finite (smul (dbpoe_response m v N x 0) (Gs 0)) (map (\<lambda>i. smul (dbpoe_response m v N x i) (Gs i)) (dbpoe_topics k t))"

text \<open>What the verifier reads from a proof of this layout.\<close>

lemma verify_dbpoe_bytes:
  assumes n: "0 < n" "n = dctx_n rctx" and N: "N \<le> n ^ m" "m \<le> dctx_m rctx" and k: "k = dctx_topic_size rctx"
    and pts: "length pts = 4 + m" and x: "sx = ring_challenge Cs N chal (concat (map secp256k1_ge_save_boquila pts))" "sc_is x sx"
    and f: "rows_ok n m x fv f" and zs: "sc_ok zA" "sc_ok zC" "\<And>s. s \<in> set z \<Longrightarrow> sc_ok s" "length z = length (other_indices k t)"
  defines "ps \<equiv> ring_parse_points (4 + m) (proof_bytes pts f (zA # zC # z))"
  defines "gs \<equiv> ring_load_multigen n (dctx_m rctx) (dctx_multigen rctx)"
  defines "tmpH \<equiv> secp256k1_generator_load (dctx_genh rctx)"
  defines "c_ge \<equiv> map (\<lambda>j. secp256k1_ge_load_boquila (cint_buf (Cs ! j))) [0 ..< N]"
  defines "geng \<equiv> map (\<lambda>j. secp256k1_generator_load (dctx_geng rctx ! j)) [0 ..< k + 1]"
  shows "secp256k1_verify_zero_mcom_DBPoE_proof rctx (proof_bytes pts f (zA # zC # z)) Cs N t m chal =
    (if secp256k1_ge_save_boquila (ring_verify_lhs n m (drop 4 ps) c_ge f sx N) \<noteq>
        secp256k1_ge_save_boquila (dbpoe_opening geng k t (dbpoe_fill_z k t z)) then Inl Failure
     else if \<not> ring_check_AB gs tmpH n m (ps ! 0) (ps ! 1) f sx zA then Inl Failure
     else if \<not> ring_check_CD gs tmpH n m (ps ! 2) (ps ! 3) f sx zC then Inl Failure
     else Inr ())"
proof -
  have ok: "s \<in> set (zA # zC # z) \<Longrightarrow> sc_ok s" for s using zs by auto
  have l: "length (zA # zC # z) = 2 + length (other_indices k t)" by (simp add: zs(4))
  have pf: "ring_parse_f n sx m (drop (33 * (4 + m)) (proof_bytes pts f (zA # zC # z))) = Some (f, scalars_bytes (zA # zC # z))"
    by (rule proof_parse(1) [OF n(1) pts x(2) f ok])
  have "ring_parse_scalars (length (zA # zC # z)) (scalars_bytes (zA # zC # z)) = Some (zA # zC # z, [])"
    by (rule proof_parse(2) [OF n(1) pts x(2) f ok])
  then have z3: "ring_parse_scalars (2 + length (other_indices k t)) (scalars_bytes (zA # zC # z)) = Some (zA # zC # z, [])" unfolding l .
  have ch: "ring_challenge Cs N chal (take (33 * (4 + m)) (proof_bytes pts f (zA # zC # z))) = sx"
    using proof_head(1) [of pts f "zA # zC # z"] pts x(1) by simp
  have z: "drop 2 (zA # zC # z) = z" "(zA # zC # z) ! 0 = zA" "(zA # zC # z) ! 1 = zC" by simp_all
  show ?thesis
    unfolding secp256k1_verify_zero_mcom_DBPoE_proof_def Let_def n(2) [symmetric] k [symmetric] ring_power_is ch pf option.case prod.case
      other_indices_def [symmetric] z3 ps_def gs_def tmpH_def c_ge_def geng_def z
    using N by (simp only: not_le [symmetric] if_True if_False simp_thms)
qed
theorem zero_mcom_DBPoE_complete:
  assumes ctx: "dbpoe_ctx_ok rctx Gs H P" and ring: "ring_ok Cs N cP" and k: "k = dctx_topic_size rctx" and t: "0 < t"
    and vals: "\<And>i. i \<le> k \<Longrightarrow> sc_is (v i) (vals ! i)" and key: "cP index = topic_sum k t v Gs"
    and n: "0 < n" "n = dctx_n rctx" "0 < m"
    and run: "secp256k1_create_zero_mcom_DBPoE_proof rctx Cs index vals N t m chal rng = (Inr prf, rng')"
    and fin: "dbpoe_run_finite n m k t index N Gs H P cP v (fst (ring_draw_nonces n m rng))
      (scv (ring_challenge Cs N chal (take (33 * (4 + m)) prf)))"
  shows "secp256k1_verify_zero_mcom_DBPoE_proof rctx prf Cs N t m chal = Inr ()"
proof -
  obtain nn overflow rng1 where d: "ring_draw_nonces n m rng = (nn, overflow, rng1)" by (metis prod_cases3)
  have nok: "nonces_ok n m nn" by (rule ring_draw_nonces_ok [OF n(1) d])
  define gs where "gs = ring_load_multigen n (dctx_m rctx) (dctx_multigen rctx)"
  define c_ge where "c_ge = map (\<lambda>j. secp256k1_ge_load_boquila (cint_buf (Cs ! j))) [0 ..< N]"
  define geng where "geng = map (\<lambda>j. secp256k1_generator_load (dctx_geng rctx ! j)) [0 ..< k + 1]"
  define tmpH where "tmpH = secp256k1_generator_load (dctx_genh rctx)"
  define p where "p = map (ring_poly n m index (nonce_a nn)) [0 ..< N]"
  define coms where "coms = [ring_com_A gs tmpH n m (nonce_a nn) (nonce_rA nn), ring_com_B gs tmpH n m index (nonce_rB nn),
    ring_com_C gs tmpH n m index (nonce_a nn) (nonce_rC nn), ring_com_D gs tmpH n m (nonce_a nn) (nonce_rD nn)]"
  define Q where "Q = map (dbpoe_com_Q geng c_ge p N k t (replicate (k + 1) (nonce_rho nn))) [0 ..< m]"
  define sx where "sx = ring_challenge Cs N chal (concat (map secp256k1_ge_save_boquila (coms @ Q)))"
  define f where "f = ring_response_f n m index (nonce_a nn) sx"
  define zA where "zA = ring_response_zA sx (nonce_rB nn) (nonce_rA nn)"
  define zC where "zC = ring_response_zA sx (nonce_rC nn) (nonce_rD nn)"
  define zi where "zi i = ring_response_z m (replicate (k + 1) (nonce_rho nn) ! i) (vals ! i) sx" for i
  define x where "x = scv sx"
  define S where "S = topic_sum k t (\<lambda>i. 1) Gs"
  have cond: "N \<le> n ^ m" "index < N" "m \<le> dctx_m rctx"
    using run unfolding secp256k1_create_zero_mcom_DBPoE_proof_def Let_def n(2) [symmetric] ring_power_is
    by (auto simp: not_less split: if_splits)
  have idx: "index < n ^ m" using cond by simp
  have pts: "length (coms @ Q) = 4 + m" by (simp add: coms_def Q_def)
  have x: "sc_is x sx" unfolding x_def by (rule scv_is) (simp add: sx_def ring_challenge_def Let_def sc_ok_set_b32)
  have f: "rows_ok n m x (run_resp n index nn x) f" unfolding f_def run_resp_def by (rule nonces_rows [OF nok n(1) x])
  have "prf = concat (map secp256k1_ge_save_boquila (coms @ Q)) @ ring_serialize_f n m f @ scalars_bytes (zA # zC # map zi (other_indices k t))"
    using run cond d unfolding secp256k1_create_zero_mcom_DBPoE_proof_def Let_def n(2) [symmetric] k [symmetric] ring_power_is
    by (auto simp: not_less coms_def Q_def f_def zA_def zC_def zi_def sx_def gs_def geng_def tmpH_def c_ge_def p_def dbpoe_response_z_def
        other_indices_def scalars_bytes_def comp_def split: if_splits)
  then have pf: "prf = proof_bytes (coms @ Q) f (zA # zC # map zi (other_indices k t))"
    using f by (simp add: proof_bytes_def ring_serialize_f_rows rows_ok_def)
  have sx: "sx = ring_challenge Cs N chal (take (33 * (4 + m)) prf)" unfolding pf proof_head(1) [of "coms @ Q", unfolded pts] sx_def ..
  have fin: "commit_finite n m index H P nn x" "ring_run_finite n m index N S cP nn x"
    "\<forall>j < m. accs_finite (smul (run_rho nn j) (Gs 0))
        (map (\<lambda>i. smul (run_rho nn j) (Gs i)) (dbpoe_topics k t) @ Q_terms (run_poly n m index nn) cP N j)"
    "accs_finite (smul (dbpoe_response m v nn x 0) (Gs 0)) (map (\<lambda>i. smul (dbpoe_response m v nn x i) (Gs i)) (dbpoe_topics k t))"
    using fin unfolding sx [symmetric] x_def [symmetric] d fst_conv dbpoe_run_finite_def S_def by blast+
  have g: "gens_ok (n * m) gs P" and H: "ge_is 1 H tmpH" "H \<noteq> 0"
    using ctx cond(3) gens_ok_mono [of "n * dctx_m rctx" _ P "n * m"] by (simp_all add: dbpoe_ctx_ok_def gs_def tmpH_def n(2))
  have G: "ge_is 1 (Gs i) (geng ! i) \<and> Gs i \<noteq> 0" if "i \<le> k" for i
    using ctx that by (simp add: dbpoe_ctx_ok_def geng_def k nth_append del: upt_Suc)
  have c: "ge_is 1 (cP u) (c_ge ! u) \<and> cP u \<noteq> 0" if "u < N" for u unfolding c_ge_def by (rule ring_ok_loaded [OF ring that])
  have Qs: "ge_is 1 (Q_value S (run_poly n m index nn) cP N (run_rho nn) j) (Q ! j) \<and>
      Q_value S (run_poly n m index nn) cP N (run_rho nn) j \<noteq> 0" if "j < m" for j
    using dbpoe_com_Q_is [where pv = "run_poly n m index nn" and rv = "run_rho nn" and j = j and p = p, OF G t c _ nonces_are(5) [OF nok that]]
      run_poly_is [OF nok n(1,3)] fin(3) that unfolding p_def S_def by (simp add: Q_def p_def)
  have l: "length coms = 4" "length Q = m" by (simp_all add: coms_def Q_def)
  note lhs = honest_lhs [OF n(1,3) nok x idx cond(1) c Qs fin(2) l]
  have zz: "sc_is (dbpoe_response m v nn x i) (zi i)" if "i \<le> k" for i
    using ring_response_z_is [OF nonces_are(5) [OF nok] x vals [OF that]] that by (simp add: zi_def dbpoe_response_def less_Suc_eq_le del: replicate.simps)
  have e: "topic_sum k t (dbpoe_response m v nn x) Gs =
      smul (x ^ m) (if index < N then cP index else 0) - smul (\<Sum>j < m. run_rho nn j * x ^ j) S"
    unfolding S_def if_P [OF cond(2)] key topic_sum_diff [symmetric] dbpoe_response_def ..
  have o: "ge_is 1 (topic_sum k t (dbpoe_response m v nn x) Gs) (dbpoe_opening geng k t (dbpoe_fill_z k t (map zi (other_indices k t))))"
    by (rule dbpoe_opening_is [OF G t _ fin(4)]) (simp_all add: dbpoe_fill_z_nth zz)
  have "secp256k1_ge_save_boquila (ring_verify_lhs n m (drop 4 (ring_parse_points (4 + m) prf)) c_ge f sx N) =
      secp256k1_ge_save_boquila (dbpoe_opening geng k t (dbpoe_fill_z k t (map zi (other_indices k t))))"
    unfolding pf f_def [symmetric] by (rule ge_save_unique [OF lhs(1) [folded f_def] o [unfolded e] lhs(2)])
  moreover note honest_checks [OF n(1) nok H g x fin(1) _ _ refl, of Q _ f "zA # zC # map zi (other_indices k t)"]
  moreover have "sc_ok zA" "sc_ok zC" using response_zA_ok [OF nok x] by (simp_all add: zA_def zC_def)
  moreover have "sc_ok s" if "s \<in> set (map zi (other_indices k t))" for s
    using that sc_is_scv [OF zz] by (auto simp: other_indices_def less_Suc_eq_le simp del: upt_Suc)
  ultimately show ?thesis
    using verify_dbpoe_bytes [OF n(1,2) cond(1,3) k pts sx_def x f, of zA zC "map zi (other_indices k t)" t]
    by (simp add: pf gs_def tmpH_def c_ge_def geng_def zA_def zC_def f_def coms_def Q_def del: upt_Suc)
qed

end
