(* ===== verification/Topics_Spec.thy ===== *)
theory Topics_Spec
  imports Boquila_Spec Ring_Topics
begin

text \<open>
  Credentials with topics (DBPoE): the master key hides one value per topic, a membership proof
  reveals the value of its topic, the nullifier, and proves the key with that value divided out.
\<close>

section \<open>Master keys with topics\<close>

definition topic_exp :: "ringcip_DBPoE_context \<Rightarrow> u8 list \<Rightarrow> nat \<Rightarrow> fn" where
  "topic_exp rctx msk i = scv (boquila_values rctx msk (fst (secp256k1_scalar_set_b32 msk)) ! i)"

text \<open>The point of a master key.\<close>

definition topic_key :: "ringcip_DBPoE_context \<Rightarrow> u8 list \<Rightarrow> (nat \<Rightarrow> cpoint) \<Rightarrow> cpoint" where
  "topic_key rctx msk Gs = smul (topic_exp rctx msk 0) (Gs 0) +
     (\<Sum>i\<leftarrow>[1 ..< dctx_topic_size rctx + 1]. smul (topic_exp rctx msk i) (Gs i))"

definition topic_key_finite :: "ringcip_DBPoE_context \<Rightarrow> u8 list \<Rightarrow> (nat \<Rightarrow> cpoint) \<Rightarrow> bool" where
  "topic_key_finite rctx msk Gs \<longleftrightarrow> accs_finite (smul (topic_exp rctx msk 0) (Gs 0))
     (map (\<lambda>i. smul (topic_exp rctx msk i) (Gs i)) [1 ..< dctx_topic_size rctx + 1])"

lemma boquila_values_is:
  assumes "i \<le> dctx_topic_size rctx"
  shows "sc_is (topic_exp rctx msk i) (boquila_values rctx msk (fst (secp256k1_scalar_set_b32 msk)) ! i)"
  unfolding topic_exp_def
proof (rule scv_is)
  show "sc_ok (boquila_values rctx msk (fst (secp256k1_scalar_set_b32 msk)) ! i)"
    using assms by (cases i) (simp_all add: boquila_values_def boquila_topic_value_def Let_def sc_ok_set_b32 nth_append del: upt_Suc)
qed

lemma boquila_values_nth:
  "1 \<le> i \<Longrightarrow> i \<le> dctx_topic_size rctx \<Longrightarrow> boquila_values rctx msk v0 ! i = boquila_topic_value rctx msk i"
  by (cases i) (simp_all add: boquila_values_def del: upt_Suc)

lemma load_geng_is:
  "dbpoe_ctx_ok rctx Gs H P \<Longrightarrow> i \<le> dctx_topic_size rctx \<Longrightarrow> ge_is 1 (Gs i) (boquila_load_geng rctx ! i) \<and> Gs i \<noteq> 0"
  by (simp add: dbpoe_ctx_ok_def boquila_load_geng_def del: upt_Suc)

lemma sum_list_remove:
  fixes f :: "nat \<Rightarrow> cpoint"
  shows "distinct xs \<Longrightarrow> t \<in> set xs \<Longrightarrow> (\<Sum>i\<leftarrow>xs. f i) = f t + (\<Sum>i\<leftarrow>filter (\<lambda>i. i \<noteq> t) xs. f i)"
proof (induction xs)
  case (Cons a xs)
  show ?case
  proof (cases "a = t")
    case True
    then have "filter (\<lambda>i. i \<noteq> t) xs = xs" using Cons.prems by (auto intro!: filter_True)
    then show ?thesis using True by simp
  qed (use Cons in \<open>simp add: ac_simps\<close>)
qed simp

lemma topic_key_split:
  assumes "1 \<le> t" "t \<le> dctx_topic_size rctx"
  shows "topic_key rctx msk Gs = smul (topic_exp rctx msk t) (Gs t) + topic_sum (dctx_topic_size rctx) t (topic_exp rctx msk) Gs"
proof -
  let ?f = "\<lambda>i. smul (topic_exp rctx msk i) (Gs i)"
  have "(\<Sum>i\<leftarrow>[1 ..< dctx_topic_size rctx + 1]. ?f i) = ?f t + (\<Sum>i\<leftarrow>dbpoe_topics (dctx_topic_size rctx) t. ?f i)"
    unfolding dbpoe_topics_def by (rule sum_list_remove) (use assms in auto)
  then show ?thesis using assms by (simp add: topic_key_def topic_sum_Cons del: upt_Suc)
qed

lemma gen_DBPoE_mpk_is:
  assumes ctx: "dbpoe_ctx_ok rctx Gs H P" and fin: "topic_key_finite rctx msk Gs"
    and mpk: "secp256k1_boquila_gen_DBPoE_mpk rctx msk = Inr b"
  shows "b = point_bytes (topic_key rctx msk Gs)" and "topic_key rctx msk Gs \<noteq> 0"
proof -
  let ?g = "boquila_load_geng rctx" and ?v = "boquila_values rctx msk (fst (secp256k1_scalar_set_b32 msk))"
  note g = load_geng_is [OF ctx] and v = boquila_values_is [of _ rctx msk]
  note fin = fin [unfolded topic_key_finite_def]
  have "ge_is 1 (smul (topic_exp rctx msk 0) (Gs 0)) (ring_pow (?g ! 0) (?v ! 0))"
    using ring_pow_is [of "Gs 0" "?g ! 0"] g [of 0] v [of 0] by simp
  from ring_fold_is [OF this _ fin, of "\<lambda>i. ?g ! i" "\<lambda>i. ?v ! i"] g v
  have "ge_is 1 (topic_key rctx msk Gs) (fold (\<lambda>i. ring_mul_pow (?g ! i) (?v ! i)) [1 ..< dctx_topic_size rctx + 1] (ring_pow (?g ! 0) (?v ! 0)))"
    by (simp add: topic_key_def del: upt_Suc)
  moreover show "topic_key rctx msk Gs \<noteq> 0" using accs_finite_ends [OF fin] by (simp add: topic_key_def del: upt_Suc)
  ultimately show "b = point_bytes (topic_key rctx msk Gs)"
    using mpk ge_save_is by (simp add: secp256k1_boquila_gen_DBPoE_mpk_def split_def Let_def split: if_splits del: upt_Suc)
qed

text \<open>The ring with the topic divided out.\<close>

lemma strip_topic_is:
  assumes ctx: "dbpoe_ctx_ok rctx Gs H P" and t: "t \<le> dctx_topic_size rctx" and v: "sc_is x v"
    and ring: "\<And>u. u < N \<Longrightarrow> mpks ! u = point_bytes (K u) \<and> K u \<noteq> 0 \<and> K u - smul x (Gs t) \<noteq> 0"
  shows "ring_ok (boquila_strip_topic (boquila_load_geng rctx) t v mpks N) N (\<lambda>u. K u - smul x (Gs t))"
  unfolding ring_ok_def
proof (intro allI impI)
  fix u assume u: "u < N"
  let ?e = "secp256k1_ecmult_const (boquila_load_geng rctx ! t) (secp256k1_scalar_negate v) 256"
  note r = ring [OF u]
  have g: "ge_is 1 (Gs t) (boquila_load_geng rctx ! t)" "Gs t \<noteq> 0" using load_geng_is [OF ctx t] by simp_all
  have "gej_is 1 (smul (- x) (Gs t)) ?e" by (rule ecmult_const_smul [OF g secp256k1_scalar_negate_is [OF v]])
  from gej_add_ge_refines [OF this load_point_bytes]
  have "ge_is 1 (K u - smul x (Gs t)) (fst (secp256k1_ge_set_gej (secp256k1_gej_add_ge ?e (secp256k1_ge_load_boquila (point_bytes (K u))))))"
    using r by (intro ge_set_gej_is(1)) (simp_all add: curve.scale_minus_left)
  then show "cint_buf (boquila_strip_topic (boquila_load_geng rctx) t v mpks N ! u) = point_bytes (K u - smul x (Gs t)) \<and>
      K u - smul x (Gs t) \<noteq> 0"
    using r u ge_save_is by (simp add: boquila_strip_topic_def Let_def)
qed
section \<open>Membership with a nullifier\<close>

text \<open>
  The exceptional runs, for the key of the user at position \<open>j\<close> of the ring: an accumulator of one
  of the products is infinite, or a key of the ring becomes infinite when the nullifier is divided
  out.
\<close>

definition topics_meet_infinity ::
    "ringcip_DBPoE_context \<Rightarrow> u8 list \<Rightarrow> nat \<Rightarrow> nat \<Rightarrow> nat \<Rightarrow> nat \<Rightarrow> (nat \<Rightarrow> cpoint) \<Rightarrow> cpoint \<Rightarrow> (nat \<Rightarrow> cpoint) \<Rightarrow> (nat \<Rightarrow> cpoint) \<Rightarrow>
     ring_nonces \<Rightarrow> fn \<Rightarrow> bool" where
  "topics_meet_infinity rctx msk t j N m Gs H P K nonces x \<longleftrightarrow> (
     let e = topic_exp rctx msk; cP = (\<lambda>u. (K(j := topic_key rctx msk Gs)) u - smul (e t) (Gs t))
     in \<not> topic_key_finite rctx msk Gs \<or> (\<exists>u < N. cP u = 0) \<or>
        \<not> dbpoe_run_finite (dctx_n rctx) m (dctx_topic_size rctx) t j N Gs H P cP e nonces x)"

lemma topics_complete_run:
  assumes ctx: "dbpoe_ctx_ok rctx Gs H P" "0 < dctx_n rctx" "0 < m" and t: "1 \<le> t" "t \<le> dctx_topic_size rctx"
    and ring: "\<forall>u < N. u \<noteq> j \<longrightarrow> mpks ! u = point_bytes (K u) \<and> K u \<noteq> 0"
    and mpk: "secp256k1_boquila_gen_DBPoE_mpk rctx msk = Inr (mpks ! j)"
  defines "vals \<equiv> boquila_values rctx msk (fst (secp256k1_scalar_set_b32 msk))"
  defines "Cs \<equiv> boquila_strip_topic (boquila_load_geng rctx) t (vals ! t) mpks N"
  assumes run: "secp256k1_create_zero_mcom_DBPoE_proof rctx Cs j vals N t m chal rng = (Inr prf, rng')"
    and fin: "\<not> topics_meet_infinity rctx msk t j N m Gs H P K (fst (ring_draw_nonces (dctx_n rctx) m rng))
      (scv (ring_challenge Cs N chal (take (33 * (4 + m)) prf)))"
  shows "secp256k1_verify_zero_mcom_DBPoE_proof rctx prf Cs N t m chal = Inr ()"
proof -
  define cP where "cP = (\<lambda>u. (K(j := topic_key rctx msk Gs)) u - smul (topic_exp rctx msk t) (Gs t))"
  have fin: "topic_key_finite rctx msk Gs" "\<And>u. u < N \<Longrightarrow> cP u \<noteq> 0"
    "dbpoe_run_finite (dctx_n rctx) m (dctx_topic_size rctx) t j N Gs H P cP (topic_exp rctx msk)
      (fst (ring_draw_nonces (dctx_n rctx) m rng)) (scv (ring_challenge Cs N chal (take (33 * (4 + m)) prf)))"
    using fin unfolding topics_meet_infinity_def Let_def cP_def by blast+
  have v: "sc_is (topic_exp rctx msk i) (vals ! i)" if "i \<le> dctx_topic_size rctx" for i
    unfolding vals_def by (rule boquila_values_is [OF that])
  have "mpks ! u = point_bytes ((K(j := topic_key rctx msk Gs)) u) \<and> (K(j := topic_key rctx msk Gs)) u \<noteq> 0" if "u < N" for u
    using gen_DBPoE_mpk_is [OF ctx(1) fin(1) mpk] ring that by simp
  with fin(2) have ok: "ring_ok Cs N cP" unfolding Cs_def cP_def by (intro strip_topic_is [OF ctx(1) t(2) v [OF t(2)]]) simp
  have key: "cP j = topic_sum (dctx_topic_size rctx) t (topic_exp rctx msk) Gs" using topic_key_split [OF t] by (simp add: cP_def)
  show ?thesis using zero_mcom_DBPoE_complete [OF ctx(1) ok refl _ v key ctx(2) refl ctx(3) run fin(3)] t(1) by simp
qed

text \<open>C2: membership with topics: the key made by the generator of master keys gets, for a topic that is
  accepted, a proof together with the nullifier of the topic. The nullifier is the value hidden in the
  key for the topic, it depends on the secret key and the topic only (not on the ring, the service or
  the randomness), so two proofs of the same member for the same topic are linked; and the proof is
  accepted together with it, the exception being a run that meets the point at infinity. Every
  failure is one of: a topic outside the range, a ring too large, an index outside the ring, too many
  digits, a last random scalar not below the order.\<close>

theorem topics_complete:
  assumes ctx: "dbpoe_ctx_ok rctx Gs H P" "0 < dctx_n rctx" "0 < m"
    and ring: "\<forall>u < N. u \<noteq> j \<longrightarrow> mpks ! u = point_bytes (K u) \<and> K u \<noteq> 0"
    and mpk: "secp256k1_boquila_gen_DBPoE_mpk rctx msk = Inr (mpks ! j)"
  shows "case secp256k1_boquila_prove_DBPoE_memmpk rctx mpks msk W name name_len spk j t N m rng of
      ((Inr prf, Some nl), rng') \<Rightarrow>
        nl = secp256k1_scalar_get_b32 (boquila_topic_value rctx msk (nat t)) \<and>
        (secp256k1_boquila_verify_DBPoE_memmpk rctx prf nl mpks W name name_len spk t N m = Inr () \<or>
         topics_meet_infinity rctx msk (nat t) j N m Gs H P K (fst (ring_draw_nonces (dctx_n rctx) m rng))
           (scv (ring_challenge (boquila_strip_topic (boquila_load_geng rctx) (nat t) (boquila_topic_value rctx msk (nat t)) mpks N) N
             (boquila_challenge spk W name name_len) (take (33 * (4 + m)) prf))))
    | ((Inr prf, None), rng') \<Rightarrow> False
    | ((Inl e, nl), rng') \<Rightarrow>
        if t \<le> 0 \<or> int (dctx_topic_size rctx) \<le> t then e = Illegal_argument
        else if dctx_n rctx ^ m < N then e = Failure
        else if N \<le> j \<or> dctx_m rctx < m then e = Illegal_argument
        else e = Failure \<and> fst (snd (ring_draw_nonces (dctx_n rctx) m rng))"
proof (cases "t \<le> 0 \<or> int (dctx_topic_size rctx) \<le> t")
  case True
  then show ?thesis by (auto simp: secp256k1_boquila_prove_DBPoE_memmpk_def)
next
  case False
  then have t: "0 < t" "t < int (dctx_topic_size rctx)" "1 \<le> nat t" "nat t \<le> dctx_topic_size rctx" by linarith+
  define vals where "vals = boquila_values rctx msk (fst (secp256k1_scalar_set_b32 msk))"
  define chal where "chal = boquila_challenge spk W name name_len"
  define Cs where "Cs = boquila_strip_topic (boquila_load_geng rctx) (nat t) (vals ! nat t) mpks N"
  have vt: "vals ! nat t = boquila_topic_value rctx msk (nat t)" unfolding vals_def by (rule boquila_values_nth [OF t(3,4)])
  have o: "\<not> snd (secp256k1_scalar_set_b32 msk)"
    using mpk by (auto simp: secp256k1_boquila_gen_DBPoE_mpk_def split_def Let_def split: if_splits)
  obtain res rng' where run: "secp256k1_create_zero_mcom_DBPoE_proof rctx Cs j vals N (nat t) m chal rng = (res, rng')" by fastforce
  have prove: "secp256k1_boquila_prove_DBPoE_memmpk rctx mpks msk W name name_len spk j t N m rng =
      ((res, Some (secp256k1_scalar_get_b32 (vals ! nat t))), rng')"
    using run o t(1,2) by (simp add: secp256k1_boquila_prove_DBPoE_memmpk_def split_def Let_def vals_def chal_def Cs_def)
  show ?thesis
  proof (cases res)
    case (Inl e)
    then show ?thesis using run t unfolding prove
      by (auto simp: secp256k1_create_zero_mcom_DBPoE_proof_def Let_def ring_power_is not_less split_def split: if_splits)
  next
    case (Inr pf)
    have "sc_ok (vals ! nat t)" unfolding vt boquila_topic_value_def Let_def by (rule sc_ok_set_b32)
    then have "secp256k1_scalar_set_b32 (secp256k1_scalar_get_b32 (vals ! nat t)) = (vals ! nat t, False)"
      using secp256k1_scalar_set_get_b32 by (simp add: sc_ok_def)
    then have v: "secp256k1_boquila_verify_DBPoE_memmpk rctx pf (secp256k1_scalar_get_b32 (vals ! nat t)) mpks W name name_len spk t N m =
        secp256k1_verify_zero_mcom_DBPoE_proof rctx pf Cs N (nat t) m chal"
      using t(1,2) by (simp add: secp256k1_boquila_verify_DBPoE_memmpk_def Let_def Cs_def chal_def)
    note acc = topics_complete_run [OF ctx t(3,4) ring mpk run [unfolded Inr Cs_def vals_def], folded vals_def, folded Cs_def]
    show ?thesis unfolding prove Inr prod.case sum.case option.case v
      using acc unfolding vt Cs_def chal_def by blast
  qed
qed
text \<open>The example: two topics, a ring of one key.\<close>

definition sample_dctx :: ringcip_DBPoE_context where
  "sample_dctx = \<lparr>dctx_L = 0, dctx_n = 2, dctx_m = 1, dctx_N = 2, dctx_multigen = [generator_of (mG 2), generator_of (mG 3)],
     dctx_geng = [generator_of (mG 1), generator_of (mG 11), generator_of (mG 13)], dctx_genh = generator_of (mG 5),
     dctx_genmu = generator_of (mG 7), dctx_topics = replicate 64 0, dctx_topic_size = 2\<rparr>"

definition sample_topic_point :: "nat \<Rightarrow> cpoint" where
  "sample_topic_point i = mG ([1, 11, 13] ! i)"

lemma sample_dctx_simps: "dctx_n sample_dctx = 2" "dctx_m sample_dctx = 1" "dctx_topic_size sample_dctx = 2"
  by (simp_all add: sample_dctx_def)

lemma sample_dctx_ok: "dbpoe_ctx_ok sample_dctx sample_topic_point (mG 5) (\<lambda>i. mG (i + 2))"
proof -
  have i: "i \<le> 2 \<longleftrightarrow> i = 0 \<or> i = 1 \<or> i = 2" for i :: nat by auto
  have "gens_ok 2 (ring_load_multigen 2 1 [generator_of (mG 2), generator_of (mG 3)]) (\<lambda>i. mG (i + 2))"
    using sample_rctx_ok by (simp add: ring_ctx_ok_def sample_rctx_def)
  moreover have "ge_is 1 (mG k) (secp256k1_generator_load (generator_of (mG k))) \<and> mG k \<noteq> 0" if "0 < k" "k < 1000" for k
    using generator_of_is [OF mG_neq_0 [OF that]] mG_neq_0 [OF that] by simp
  ultimately show ?thesis
    by (auto simp: dbpoe_ctx_ok_def sample_dctx_def sample_topic_point_def i)
qed

definition sample_mpk :: "u8 list" where
  "sample_mpk = (case secp256k1_boquila_gen_DBPoE_mpk sample_dctx sample_key of Inr b \<Rightarrow> b | Inl e \<Rightarrow> [])"

lemma sample_mpk_is: "secp256k1_boquila_gen_DBPoE_mpk sample_dctx sample_key = Inr sample_mpk"
proof -
  have "\<not> snd (secp256k1_scalar_set_b32 sample_key)"
    by (rule set_b32_small(1)) (simp_all add: sample_key_value order_n_def)
  then show ?thesis by (simp add: sample_mpk_def secp256k1_boquila_gen_DBPoE_mpk_def split_def Let_def)
qed

theorem topics_complete_witness:
  "case secp256k1_boquila_prove_DBPoE_memmpk sample_dctx [sample_mpk] sample_key [] [] 0 [] 0 1 1 1 secp256k1_test_rng of
      ((Inr prf, Some nl), rng') \<Rightarrow>
        nl = secp256k1_scalar_get_b32 (boquila_topic_value sample_dctx sample_key 1) \<and>
        (secp256k1_boquila_verify_DBPoE_memmpk sample_dctx prf nl [sample_mpk] [] [] 0 [] 1 1 1 = Inr () \<or>
         topics_meet_infinity sample_dctx sample_key 1 0 1 1 sample_topic_point (mG 5) (\<lambda>i. mG (i + 2)) (\<lambda>_. 0)
           (fst (ring_draw_nonces 2 1 secp256k1_test_rng))
           (scv (ring_challenge (boquila_strip_topic (boquila_load_geng sample_dctx) 1 (boquila_topic_value sample_dctx sample_key 1) [sample_mpk] 1) 1
             (boquila_challenge [] [] [] 0) (take (33 * (4 + 1)) prf))))
    | ((Inr prf, None), rng') \<Rightarrow> False
    | ((Inl e, nl), rng') \<Rightarrow> e = Failure \<and> fst (snd (ring_draw_nonces 2 1 secp256k1_test_rng))"
proof -
  have "0 < dctx_n sample_dctx" by (simp add: sample_dctx_simps)
  note c = topics_complete [OF sample_dctx_ok this zero_less_one, where N = 1 and j = 0 and K = "\<lambda>_. 0" and mpks = "[sample_mpk]" and msk = sample_key
      and W = "[]" and name = "[]" and name_len = 0 and spk = "[]" and t = 1 and rng = secp256k1_test_rng]
  show ?thesis using c sample_mpk_is by (auto simp: sample_dctx_simps split: prod.splits sum.splits option.splits)
qed

end
