(* ===== verification/Spec2Isabelle.thy ===== *)
theory Spec2Isabelle
  imports Field_Spec Generator_Spec Hash_Spec Scalar_Spec Schnorr_Spec Topics_Spec
begin

text \<open>
  Verification of the C core of Veriqid, \<^verbatim>\<open>crypto-dbpoe/src\<close>: a secp256k1 library, and on top of it
  the anonymous credentials (Boquila, with the extension DBPoE for topics and nullifiers) that the
  Go servers around it call. All paths below are relative to that directory. The theories translate the configuration of
  \<^verbatim>\<open>libsecp256k1-config.h\<close>: 64-bit limbs, field inversion and scalar inversion by addition chains, no endomorphism.

  \<^bold>\<open>How the parts interact.\<close> Field elements and scalars carry the curve points; points carry three
  multiplications: with fixed time for secret scalars, with a blinded table for the base point, and with variable time
  for public data. SHA-256 gives nonces, challenges and, through the map to the curve, generators
  nobody knows a relation of. A user's master key is a hidden value over such generators; membership
  is a one-out-of-many proof that one key of a ring, divided by the prover's service key, is a commitment to zero.
  The public interface of ECDSA keys and signatures uses the same layers.

  \<^bold>\<open>From the code to the theories.\<close> A component has a theory of definitions, one or more theories of
  laws (refinement of the definitions by mathematics) and a theory of properties (its name ends in
  \<open>_Spec\<close>).

  \<^item> Words, bytes, bounds, addition chains: \<open>Prelude\<close> (no code). The relation \<open>bnd\<close> gives a machine
    word its value and a bound; \<open>power_chain\<close> is the interface of an addition chain, instantiated by
    the field and by the scalars.
  \<^item> The mathematics (no code): \<open>Prime_Field\<close> and \<open>Order\<close> make the residues modulo the two primes fields
    (\<open>Primality\<close>, \<open>Primality_Order\<close> certify the primes); \<open>Curve\<close>, \<open>Curve_Group\<close>, \<open>Curve_Type\<close> define the
    curve and prove its group law; \<open>Curve_Chain\<close> and \<open>Curve_Order\<close> show that the order annihilates every
    point, so that the points are a vector space over the scalars, an interpretation of the library's
    locale.
  \<^item> \<^verbatim>\<open>field_5x52.h\<close>, \<^verbatim>\<open>field_5x52_impl.h\<close>, \<^verbatim>\<open>field_5x52_int128_impl.h\<close>, \<^verbatim>\<open>field_impl.h\<close>: \<open>Field\<close>, \<open>Field_Impl\<close>. An element is
    a record of five 64-bit limbs; \<open>fe_is m x a\<close> says that it stands for the residue \<open>x\<close> with magnitude \<open>m\<close>. Laws:
    \<open>Field_Normal\<close>, \<open>Field_Bytes\<close>, \<open>Finite_Field\<close>; properties: \<open>Field_Spec\<close>.
  \<^item> \<^verbatim>\<open>scalar_4x64.h\<close>, \<^verbatim>\<open>scalar_4x64_impl.h\<close>, \<^verbatim>\<open>scalar_impl.h\<close>: \<open>Scalar\<close>, \<open>Scalar_Shift\<close>; \<open>sc_is x a\<close> relates a scalar to
    its residue. Laws: \<open>Scalar_Impl\<close>, \<open>Chacha_Law\<close> (the block function of RFC 8439); properties: \<open>Scalar_Spec\<close>.
  \<^item> \<^verbatim>\<open>group.h\<close>, \<^verbatim>\<open>group_impl.h\<close>: \<open>Group\<close>. Laws: \<open>Group_Law\<close> (every routine over affine points, also up to
    a common factor of the z coordinates), \<open>Group_Ops\<close> (the same over the type of points, \<open>gej_is\<close> and \<open>ge_is\<close>);
    properties: \<open>Group_Spec\<close>.
  \<^item> \<^verbatim>\<open>hash.h\<close>, \<^verbatim>\<open>hash_impl.h\<close>: \<open>Hash\<close>. Laws: \<open>Hash_Law\<close> (the standards), \<open>Hash_Stream\<close> (the interface \<open>hash_stream\<close> of a
    hash that is fed in pieces, instantiated by SHA-256 and by HMAC); properties: \<open>Hash_Spec\<close>.
  \<^item> \<^verbatim>\<open>ecmult_const_impl.h\<close>, the tables of \<^verbatim>\<open>ecmult_impl.h\<close>, \<^verbatim>\<open>modules/commitment/pedersen_impl.h\<close>: \<open>Ecmult_Const\<close>. Laws:
    \<open>Ecmult_Digits\<close>, \<open>Ecmult_Table\<close>, \<open>Ecmult_Mul\<close>.
  \<^item> \<^verbatim>\<open>ecmult_gen.h\<close>, \<^verbatim>\<open>ecmult_gen_impl.h\<close>: \<open>Ecmult_Gen\<close>. Laws: \<open>Ecmult_Gen_Law\<close>; a context is sound (\<open>gen_ctx_ok\<close>)
    when its table has the multiples it should, over offsets that cancel, and the stored point undoes the blinding.
  \<^item> \<^verbatim>\<open>ecmult.h\<close>, \<^verbatim>\<open>ecmult_impl.h\<close> (multiplication of a point and the generator): \<open>Ecmult\<close>. Laws: \<open>Ecmult_Var\<close>
    (digits), \<open>Ecmult_Storage\<close> (the table of the generator), \<open>Ecmult_Strauss\<close> (the loop). Properties of all multiplications:
    \<open>Ecmult_Spec\<close> and the first one of \<open>Ecdsa_Spec\<close>.
  \<^item> \<^verbatim>\<open>modules/generator/main_impl.h\<close>: \<open>Generator\<close>. Laws: \<open>Nonresidue\<close>, \<open>Generator_Law\<close>; properties: \<open>Generator_Spec\<close>.
  \<^item> \<^verbatim>\<open>modules/ringcip/ring_impl.h\<close>: \<open>Ring\<close>. Laws: \<open>Ring_Law\<close> (bytes and products of powers), \<open>Ring_Proof\<close> (each check decides an equation; the interface \<open>linear_commitment\<close>),
    \<open>Ring_Codec\<close> (the layout of a proof), \<open>Ring_Complete\<close> and \<open>Ring_Topics\<close> (completeness).
  \<^item> \<^verbatim>\<open>modules/ringcip/main_impl.h\<close>: \<open>Boquila\<close>. Laws: \<open>Boquila_Law\<close>; properties: \<open>Boquila_Spec\<close>, \<open>Topics_Spec\<close>.
  \<^item> \<^verbatim>\<open>ecdsa_impl.h\<close>, \<^verbatim>\<open>eckey_impl.h\<close>: \<open>Ecdsa\<close>; \<^verbatim>\<open>secp256k1.c\<close>, \<^verbatim>\<open>modules/recovery/main_impl.h\<close>, \<^verbatim>\<open>modules/ecdh/main_impl.h\<close>:
    \<open>Secp\<close>. Laws: \<open>Ecdsa_Law\<close> (signatures over the curve group), \<open>Secp_Law\<close> (the interface on points), \<open>Pubkey_Law\<close> (encodings
    of keys, the first good nonce), \<open>Der_Law\<close> (the encoding of signatures); properties: \<open>Ecdsa_Spec\<close>.
  \<^item> \<^verbatim>\<open>modules/schnorrsig/main_impl.h\<close> (single signatures): \<open>Schnorr\<close>. Laws: \<open>Schnorr_Law\<close>; properties:
    \<open>Schnorr_Spec\<close>.

  \<^bold>\<open>What is shown.\<close> The field, scalar and group routines compute the operations of the two fields and
  of the group on every input within the stated magnitudes, all exceptional cases included. The
  multiplications return the scalar multiple for every point and scalar; blinding never changes the result.
  Hashing is that of the standards for every way of cutting the message. The map to the curve
  lands on the curve for every element but zero. Honest membership proofs, proofs with topics and authentications are accepted, unless an accumulator
  of prover or verifier meets the point at infinity, which the statements make explicit; proofs have
  the announced sizes and malformed ones are rejected; two accepted authentications with different challenges give
  the key. ECDSA verification decides the textbook equation with a low s; what signing returns
  verifies, and the key can be recovered from it, except when r is zero; tweaks, sums and Diffie-Hellman act on the
  scalars as they should; the encodings of keys and signatures are inverse to parsing and unique. Schnorr signatures
  verify, and verification decides their equation.

  \<^bold>\<open>Conventions.\<close> An output pointer is a result; where the code leaves part of the old content, that
  is an argument. A failing return is a boolean, \<open>None\<close>, or in the ring modules \<open>Inl\<close> with the kind of failure.
  The illegal-argument callback is taken to return. Uninitialised automatic variables start out
  cleared where no read precedes a write; where the code reads them they are an argument: the padding of the HMAC key, on which
  the results are shown not to depend; the key array of the authentication (\<open>csk0\<close>), which the prover uses when the derivation
  of the key has refused; and the base of a context (\<open>geng0\<close>), which stays when the blinding generator does not parse. The length of
  a name is converted from \<^verbatim>\<open>int\<close> to \<^verbatim>\<open>size_t\<close> where a service key is derived, and a natural number in the membership proofs; reads past the end of an array are not modelled, and the
  statements ask for lengths within it.

  \<^bold>\<open>Loops.\<close> Loops over indices are folds or structural recursion. The search for a generator has fuel and is shown to end in
  its first pass; the draws of ChaCha20 and of the reblinding have fuel, and the statements say what
  the first good draw gives, for ChaCha20 also that \<open>2 ^ 32\<close> draws decide, because its counter has 32 bits; the digit loop of the variable-time multiplication has as many passes as digits, which is
  enough because each pass advances. The loop of signing is a partial function: it returns with the first
  good nonce, which is a property of its own.

  \<^bold>\<open>What the modelling brought up.\<close> The verifier of memberships compares the size of the ring with \<open>n^m\<close> only from one side:
  digits may name an entry past the end of the ring, and a proof for it needs no key (\<open>membership_forgery\<close>). The
  blinding exponents of a proof come from a generator that is never seeded, so that the key
  follows from one proof (\<open>key_recovery\<close>). Smaller deviations: an ignored overflow, an
  ignored failure of decoding, a copy in the wrong direction, a last topic that is refused, a seed that leaves out a byte
  of every key, a key derivation whose refusal the prover ignores. The header of the generators announces a return of 0 for inputs at
  which the code aborts (\<open>generator_generate_correct\<close>).

  \<^bold>\<open>Bounds of the model.\<close> The size \<open>n ^ m\<close> of a context and the counter of the nonce function are not cut to the width of an \<^verbatim>\<open>int\<close>: the model
  says nothing about an overflow of the first, which C leaves undefined, and about the counter \<open>2 ^ 32 - 1\<close>, for which the loop of the code does not end. The statements on the base point
  multiplication hold for every context whose table has the documented contents (\<open>gen_ctx_ok\<close>, which a concrete table meets). That the table computed by
  \<open>gen_prec_table\<close> has them is not shown: it rests on no entry being the point at infinity, which depends on the discrete logarithm of a point made to have none that is known.

  \<^bold>\<open>Not modelled.\<close> Releasing and placing memory, and the callbacks' effects. The x86-64 assembler,
  which the configuration selects for the inner multiplications in place of the portable C code that is modelled. The 32-bit and
  exhaustive-test variants of the arithmetic (\<^verbatim>\<open>field_10x26_impl.h\<close>, \<^verbatim>\<open>scalar_8x32_impl.h\<close>, \<^verbatim>\<open>scalar_low_impl.h\<close>), which it does not select. The
  batches over scratch space and the algorithm of Pippenger in \<^verbatim>\<open>ecmult_impl.h\<close>, and the modules inherited from upstream that the credentials
  do not use: range proofs, bulletproofs, surjection proofs, whitelists and aggregated
  signatures; the verification of Schnorr signatures in batches. Tests, benchmarks and generated tables; the Go, Solidity and JavaScript code around the library. Timing and
  side channels are outside of what a functional translation can express.
\<close>

end
